(* ===== verification/Prelude.thy ===== *)
theory Prelude
  imports Main "HOL-Library.Word"
begin

text \<open>
  What the components share: the error numbers the C code returns, the page constants, the
  types of addresses and of C results, and the generic lemmas on words, lists and sums that the
  component proofs use.  The collections declared here carry those facts into the component
  proofs: \<open>errno_simps\<close> (every error number is a positive constant), \<open>page_simps\<close> (the page
  constants) and \<open>effect_simps\<close> (what a kernel call does to the ledger of \<open>Kernel\<close>).
\<close>

unbundle bit_operations_syntax

named_theorems errno_simps
named_theorems page_simps
named_theorems effect_simps

section \<open>Error numbers and machine types\<close>

text \<open>Addresses are integers with 0 for NULL; a C result of type \<open>int\<close> or \<open>ssize_t\<close> is an integer
  (no operation of the modelled code computes a result outside its range).\<close>

type_synonym ptr = int
type_synonym u8 = "8 word"
type_synonym u16 = "16 word"
type_synonym u32 = "32 word"
type_synonym u64 = "64 word"

abbreviation NULL :: ptr where "NULL \<equiv> 0"

definition EIO :: int where [errno_simps]: "EIO = 5"
definition EAGAIN :: int where [errno_simps]: "EAGAIN = 11"
definition ENOMEM :: int where [errno_simps]: "ENOMEM = 12"
definition EFAULT :: int where [errno_simps]: "EFAULT = 14"
definition ENODEV :: int where [errno_simps]: "ENODEV = 19"
definition EINVAL :: int where [errno_simps]: "EINVAL = 22"
definition ENOSPC :: int where [errno_simps]: "ENOSPC = 28"
definition ENOSYS :: int where [errno_simps]: "ENOSYS = 38"
definition ERESTARTSYS :: int where [errno_simps]: "ERESTARTSYS = 512"
definition EPROBE_DEFER :: int where [errno_simps]: "EPROBE_DEFER = 517"

text \<open>x86-64 and arm64 kernels with 4 KiB pages.\<close>

definition PAGE_SHIFT :: nat where [page_simps]: "PAGE_SHIFT = 12"
definition PAGE_SIZE :: u64 where [page_simps]: "PAGE_SIZE = 4096"
definition PAGE_MASK :: u64 where [page_simps]: "PAGE_MASK = NOT (PAGE_SIZE - 1)"

section \<open>Generic lemmas\<close>

text \<open>The offset of an address inside its page.\<close>

lemma not_page_mask: "NOT PAGE_MASK = mask 12"
  by (simp add: page_simps mask_eq_exp_minus_1)

lemma page_offset_mod: "unat (a AND NOT PAGE_MASK) = unat a mod 4096"
proof -
  have "a AND NOT PAGE_MASK = take_bit 12 a"
    by (simp add: not_page_mask take_bit_eq_mask)
  then show ?thesis
    by (simp add: take_bit_eq_mod unat_mod_distrib)
qed

lemma page_aligned_iff: "a AND NOT PAGE_MASK = 0 \<longleftrightarrow> 4096 dvd unat a"
  using page_offset_mod [of a]
  by (metis dvd_eq_mod_eq_0 unat_0 unat_eq_0 unsigned_0)

lemma unat_shift_page: "unat (drop_bit PAGE_SHIFT (x :: u64)) = unat x div 4096"
  by (simp add: page_simps drop_bit_eq_div unat_div_distrib)

lemma sum_list_upt_Suc: "(\<Sum>i\<leftarrow>[0..<Suc n]. f i) = (\<Sum>i\<leftarrow>[0..<n]. f i) + (f n :: int)"
  by simp

lemma nth_upd_other: "i \<noteq> j \<Longrightarrow> (xs[i := x]) ! j = xs ! j"
  by simp

end
