(* ===== verification/CLayout.thy ===== *)
theory CLayout
  imports Prelude
begin

text \<open>
  The layout of C types in memory, for the two families of compilers the protocol headers support:
  GCC and Clang with the System V ABI (\<open>sysv\<close>) and the Microsoft compiler (\<open>msvc\<close>).  The headers test
  \<open>_MSC_VER\<close> and are included both by host-side Windows code and by \<open>main.cpp\<close> on Linux.  Their structures
  and unions are translated into values of \<open>cty\<close> (theories \<open>Guest_Protocols\<close> and \<open>Hv_Devices\<close>); this
  theory computes \<open>sizeof\<close> and the offsets of members, and models the macros \<open>HV_FIELD_OFFSET\<close>,
  \<open>HV_FIELD_SIZE\<close>, \<open>HV_FIELD_SIZE_THROUGH\<close> and \<open>HV_FIELD_CONTAINS\<close> of \<open>Mile.HyperV.Portable.Types.h\<close>.

  An aggregate carries the value of \<open>#pragma pack\<close> at its declaration, 0 when there is none.
  Positions are in bits.  The rules for bit-fields differ: on System V a bit-field starts
  where the previous member ends, unless it would cross a boundary of its type (and not
  even then under \<open>#pragma pack\<close>); the Microsoft compiler packs adjacent bit-fields of types of the same
  size into a storage unit of that type and starts a new unit otherwise.  The two also differ
  in the size of \<open>long\<close>.

  The lemmas are generic over all types: the members of a structure lie one after the other and
  inside it, so writing a member and reading it back gives the value written and leaves every other
  member alone, and types without bit-fields and \<open>long\<close> have the same layout under both ABIs.
\<close>

unbundle bit_operations_syntax

section \<open>Types\<close>

record abi =
  abi_long :: nat
  abi_ptr :: nat
  abi_ms_bits :: bool

definition sysv :: abi where "sysv = \<lparr>abi_long = 8, abi_ptr = 8, abi_ms_bits = False\<rparr>"
definition msvc :: abi where "msvc = \<lparr>abi_long = 4, abi_ptr = 8, abi_ms_bits = True\<rparr>"

text \<open>\<open>Prim n\<close> is an integer or enumeration type of \<open>n\<close> bytes; a field has a name (empty for an anonymous
  member), a type and the width of a bit-field (0 for an ordinary member).  \<open>Aligned a t\<close> is a type declared with
  \<open>HV_DECLSPEC_ALIGN(a)\<close>.\<close>

datatype cty = Prim nat | Long_ty | Ptr_ty | Arr cty nat | Struct nat flds | Union nat flds | Aligned nat cty
and flds = No_flds | Fld string cty nat flds

primrec flds_of :: "(string \<times> cty \<times> nat) list \<Rightarrow> flds" where
  "flds_of [] = No_flds"
| "flds_of (f # fs) = Fld (fst f) (fst (snd f)) (snd (snd f)) (flds_of fs)"

abbreviation U8 :: cty where "U8 \<equiv> Prim 1"
abbreviation U16 :: cty where "U16 \<equiv> Prim 2"
abbreviation U32 :: cty where "U32 \<equiv> Prim 4"
abbreviation U64 :: cty where "U64 \<equiv> Prim 8"
abbreviation Enum_ty :: cty where "Enum_ty \<equiv> Prim 4"

abbreviation mem :: "string \<Rightarrow> cty \<Rightarrow> string \<times> cty \<times> nat" where "mem n t \<equiv> (n, t, 0)"
abbreviation bits :: "string \<Rightarrow> cty \<Rightarrow> nat \<Rightarrow> string \<times> cty \<times> nat" where "bits n t w \<equiv> (n, t, w)"

text \<open>An \<open>enum\<close> declaration gives each enumerator a value, another enumerator, or nothing: then it is one
  more than the enumerator before it (0 for the first).\<close>

datatype enum_init = Auto | Val int | Same string

type_synonym enum_tab = "(string \<times> int) list"

fun enum_from :: "int \<Rightarrow> enum_tab \<Rightarrow> (string \<times> enum_init) list \<Rightarrow> enum_tab" where
  "enum_from nxt tab [] = rev tab"
| "enum_from nxt tab ((n, i) # es) =
     (let v = (case i of Auto \<Rightarrow> nxt | Val k \<Rightarrow> k
                       | Same m \<Rightarrow> (case map_of tab m of Some k \<Rightarrow> k | None \<Rightarrow> nxt))
      in enum_from (v + 1) ((n, v) # tab) es)"

definition enum_of :: "(string \<times> enum_init) list \<Rightarrow> enum_tab" where
  "enum_of es = enum_from 0 [] es"

section \<open>Sizes and positions\<close>

definition align_up :: "nat \<Rightarrow> nat \<Rightarrow> nat" where
  "align_up x a = (x + a - 1) div a * a"

text \<open>\<open>#pragma pack\<close> bounds the alignment of members.\<close>

definition packed :: "nat \<Rightarrow> nat \<Rightarrow> nat" where
  "packed p a = (if p = 0 then a else min p a)"

text \<open>A cursor is the end of the members placed so far, the end of the storage allocated for them
  (later than the former when a Microsoft bit-field unit is open) and the size of that unit.\<close>

type_synonym cursor = "nat \<times> nat \<times> nat"

definition start_cursor :: cursor where "start_cursor = (0, 0, 0)"

definition crosses_unit :: "nat \<Rightarrow> nat \<Rightarrow> nat \<Rightarrow> nat \<Rightarrow> bool" where
  "crosses_unit pos w sz a \<longleftrightarrow> sz div a < (pos mod (8 * a) + w + 8 * a - 1) div (8 * a)"

definition same_unit :: "nat \<Rightarrow> nat \<Rightarrow> cursor \<Rightarrow> bool" where
  "same_unit sz w cu \<longleftrightarrow> snd (snd cu) = sz \<and> fst cu + w \<le> fst (snd cu)"

text \<open>The start of a member of size \<open>sz\<close>, alignment \<open>a\<close> (bytes) and bit-field width \<open>w\<close>.\<close>

definition place :: "abi \<Rightarrow> nat \<Rightarrow> nat \<Rightarrow> nat \<Rightarrow> nat \<Rightarrow> cursor \<Rightarrow> nat" where
  "place A p sz a w cu =
     (if w = 0 then align_up (fst (snd cu)) (8 * a)
      else if abi_ms_bits A then
        (if same_unit sz w cu then fst cu else align_up (fst (snd cu)) (8 * a))
      else if p = 0 \<and> crosses_unit (fst cu) w sz a then align_up (fst cu) (8 * a)
      else fst cu)"

definition advance :: "abi \<Rightarrow> nat \<Rightarrow> nat \<Rightarrow> nat \<Rightarrow> nat \<Rightarrow> cursor \<Rightarrow> cursor" where
  "advance A p sz a w cu =
     (let st = place A p sz a w cu
      in if w = 0 then (st + 8 * sz, st + 8 * sz, 0)
         else if abi_ms_bits A then
           (st + w, if same_unit sz w cu then fst (snd cu) else st + 8 * sz, sz)
         else (st + w, st + w, 0))"

definition width_bits :: "nat \<Rightarrow> nat \<Rightarrow> nat" where
  "width_bits sz w = (if w = 0 then 8 * sz else w)"

fun calign :: "abi \<Rightarrow> cty \<Rightarrow> nat"
and falign :: "abi \<Rightarrow> nat \<Rightarrow> flds \<Rightarrow> nat" where
  "calign A (Prim n) = n"
| "calign A Long_ty = abi_long A"
| "calign A Ptr_ty = abi_ptr A"
| "calign A (Arr t n) = calign A t"
| "calign A (Struct p fs) = falign A p fs"
| "calign A (Union p fs) = falign A p fs"
| "calign A (Aligned a t) = max a (calign A t)"
| "falign A p No_flds = 1"
| "falign A p (Fld n t w fs) = max (packed p (calign A t)) (falign A p fs)"

text \<open>\<open>csize\<close> is \<open>sizeof\<close>; \<open>fcur\<close> is the cursor after the members of a structure, \<open>fmax\<close> the largest member
  of a union.\<close>

definition union_bytes :: "abi \<Rightarrow> nat \<Rightarrow> nat \<Rightarrow> nat" where
  "union_bytes A sz w = (if w = 0 \<or> abi_ms_bits A then sz else (w + 7) div 8)"

fun csize :: "abi \<Rightarrow> cty \<Rightarrow> nat"
and fcur :: "abi \<Rightarrow> nat \<Rightarrow> flds \<Rightarrow> cursor \<Rightarrow> cursor"
and fmax :: "abi \<Rightarrow> flds \<Rightarrow> nat" where
  "csize A (Prim n) = n"
| "csize A Long_ty = abi_long A"
| "csize A Ptr_ty = abi_ptr A"
| "csize A (Arr t n) = csize A t * n"
| "csize A (Struct p fs) =
     align_up ((fst (snd (fcur A p fs start_cursor)) + 7) div 8) (falign A p fs)"
| "csize A (Union p fs) = align_up (fmax A fs) (falign A p fs)"
| "csize A (Aligned a t) = align_up (csize A t) (max a (calign A t))"
| "fcur A p No_flds cu = cu"
| "fcur A p (Fld n t w fs) cu =
     fcur A p fs (advance A p (csize A t) (packed p (calign A t)) w cu)"
| "fmax A No_flds = 0"
| "fmax A (Fld n t w fs) = max (union_bytes A (csize A t) w) (fmax A fs)"

text \<open>The direct members of a structure with their positions and widths.\<close>

fun places :: "abi \<Rightarrow> nat \<Rightarrow> flds \<Rightarrow> cursor \<Rightarrow> (string \<times> nat \<times> nat) list" where
  "places A p No_flds cu = []"
| "places A p (Fld n t w fs) cu =
     (n, place A p (csize A t) (packed p (calign A t)) w cu, width_bits (csize A t) w)
       # places A p fs (advance A p (csize A t) (packed p (calign A t)) w cu)"

text \<open>All named members of a type, with the path of names that reaches them: the members of an anonymous
  structure or union are members of the enclosing one, an array shows the members of its first element.\<close>

type_synonym member = "string list \<times> nat \<times> nat"

definition enter :: "string list \<Rightarrow> string \<Rightarrow> string list" where
  "enter pre n = (if n = [] then pre else pre @ [n])"

definition shown :: "string list \<Rightarrow> string \<Rightarrow> nat \<Rightarrow> nat \<Rightarrow> member list" where
  "shown pre n st wd = (if n = [] then [] else [(pre @ [n], st, wd)])"

fun tmem :: "abi \<Rightarrow> string list \<Rightarrow> nat \<Rightarrow> cty \<Rightarrow> member list"
and smem :: "abi \<Rightarrow> string list \<Rightarrow> nat \<Rightarrow> nat \<Rightarrow> flds \<Rightarrow> cursor \<Rightarrow> member list"
and umem :: "abi \<Rightarrow> string list \<Rightarrow> nat \<Rightarrow> flds \<Rightarrow> member list" where
  "tmem A pre base (Prim n) = []"
| "tmem A pre base Long_ty = []"
| "tmem A pre base Ptr_ty = []"
| "tmem A pre base (Arr t n) = (if n = 0 then [] else tmem A pre base t)"
| "tmem A pre base (Struct p fs) = smem A pre base p fs start_cursor"
| "tmem A pre base (Union p fs) = umem A pre base fs"
| "tmem A pre base (Aligned a t) = tmem A pre base t"
| "smem A pre base p No_flds cu = []"
| "smem A pre base p (Fld n t w fs) cu =
     shown pre n (base + place A p (csize A t) (packed p (calign A t)) w cu) (width_bits (csize A t) w)
       @ (if w = 0
          then tmem A (enter pre n) (base + place A p (csize A t) (packed p (calign A t)) w cu) t else [])
       @ smem A pre base p fs (advance A p (csize A t) (packed p (calign A t)) w cu)"
| "umem A pre base No_flds = []"
| "umem A pre base (Fld n t w fs) =
     shown pre n base (width_bits (csize A t) w)
       @ (if w = 0 then tmem A (enter pre n) base t else []) @ umem A pre base fs"

definition members :: "abi \<Rightarrow> cty \<Rightarrow> member list" where
  "members A t = tmem A [] 0 t"

section \<open>The field macros\<close>

text \<open>\<open>sizeof\<close> and \<open>&\<close> do not apply to bit-fields, so the macros are about byte positions.\<close>

definition HV_FIELD_OFFSET :: "abi \<Rightarrow> cty \<Rightarrow> string list \<Rightarrow> nat option" where
  "HV_FIELD_OFFSET A t f = map_option (\<lambda>q. fst q div 8) (map_of (members A t) f)"

definition HV_FIELD_SIZE :: "abi \<Rightarrow> cty \<Rightarrow> string list \<Rightarrow> nat option" where
  "HV_FIELD_SIZE A t f = map_option (\<lambda>q. snd q div 8) (map_of (members A t) f)"

definition HV_FIELD_SIZE_THROUGH :: "abi \<Rightarrow> cty \<Rightarrow> string list \<Rightarrow> nat option" where
  "HV_FIELD_SIZE_THROUGH A t f =
     (case (HV_FIELD_OFFSET A t f, HV_FIELD_SIZE A t f) of
        (Some off, Some sz) \<Rightarrow> Some (off + sz) | _ \<Rightarrow> None)"

text \<open>\<open>HV_FIELD_CONTAINS\<close>: the member lies in the first \<open>sz\<close> bytes.\<close>

definition HV_FIELD_CONTAINS :: "abi \<Rightarrow> cty \<Rightarrow> nat \<Rightarrow> string list \<Rightarrow> bool" where
  "HV_FIELD_CONTAINS A t sz f =
     (case (HV_FIELD_OFFSET A t f, HV_FIELD_SIZE A t f) of
        (Some off, Some n) \<Rightarrow> off + n \<le> sz | _ \<Rightarrow> False)"

text \<open>Rounding a size up to an alignment, a power of two (\<open>Mile.Mobility.Portable.Types.h\<close>).\<close>

definition MO_GET_ALIGNED_SIZE :: "'a::len word \<Rightarrow> 'a word \<Rightarrow> 'a word" where
  "MO_GET_ALIGNED_SIZE sz alignment = (sz + alignment - 1) AND NOT (alignment - 1)"

section \<open>Reading and writing members\<close>

text \<open>The bytes of an object, little endian, are the digits of one number; a member is a range of its bits.\<close>

definition get_bits :: "nat \<times> nat \<Rightarrow> nat \<Rightarrow> nat" where
  "get_bits q x = take_bit (snd q) (drop_bit (fst q) x)"

definition put_bits :: "nat \<times> nat \<Rightarrow> nat \<Rightarrow> nat \<Rightarrow> nat" where
  "put_bits q v x =
     (take_bit (fst q) x OR push_bit (fst q) (take_bit (snd q) v))
       OR push_bit (fst q + snd q) (drop_bit (fst q + snd q) x)"

lemmas layout_eval = sysv_def msvc_def align_up_def packed_def start_cursor_def crosses_unit_def same_unit_def
  place_def advance_def width_bits_def union_bytes_def enter_def shown_def members_def
  HV_FIELD_OFFSET_def HV_FIELD_SIZE_def HV_FIELD_SIZE_THROUGH_def HV_FIELD_CONTAINS_def

section \<open>Alignment\<close>

lemma align_up_ge: "0 < a \<Longrightarrow> x \<le> align_up x a"
proof -
  assume a: "0 < a"
  have "(x + a - 1) div a * a + (x + a - 1) mod a = x + a - 1" by simp
  moreover have "(x + a - 1) mod a < a" using a by simp
  ultimately show ?thesis unfolding align_up_def by linarith
qed

lemma align_up_dvd: "a dvd align_up x a"
  by (simp add: align_up_def)

text \<open>Rounding up in the integers, and masks of words.\<close>

lemma align_up_int:
  assumes "0 < m"
  shows "int (align_up x m) = int x + (- int x) mod int m"
proof -
  define r where "r = (- int x) mod int m"
  define q where "q = - ((- int x) div int m)"
  have r: "0 \<le> r" "r < int m" using assms by (simp_all add: r_def)
  have "- int x = int m * ((- int x) div int m) + r" by (simp add: r_def)
  then have x: "int x = int m * q - r" by (simp add: q_def)
  have "int (x + m - 1) = int m * q + (int m - 1 - r)" using assms x by (simp add: of_nat_diff)
  then have "int (x + m - 1) div int m = q" using r by (intro int_div_pos_eq [where r = "int m - 1 - r"]) simp_all
  then have "int (align_up x m) = q * int m" by (simp only: align_up_def of_nat_mult zdiv_int)
  moreover have "int x + (- int x) mod int m = q * int m" using x unfolding r_def by (simp add: mult.commute)
  ultimately show ?thesis by simp
qed

lemma align_up_int_mod:
  assumes "0 < m"
  shows "int (align_up x m) = int x + int m - 1 - (int x + int m - 1) mod int m"
proof -
  have "int (x + m - 1) = int x + int m - 1" using assms by (simp add: of_nat_diff)
  then show ?thesis
    by (simp only: align_up_def of_nat_mult zdiv_int minus_mod_eq_div_mult)
qed

lemma uint_take_bit: "uint (take_bit k x) = uint x mod 2 ^ k" for x :: "'a::len word"
  by (simp only: unsigned_take_bit_eq) (simp add: take_bit_eq_mod)

lemma and_not_mask: "x AND NOT (mask k) = x - take_bit k x" for x :: "'a::len word"
proof -
  have "x AND NOT (mask k) = push_bit k (drop_bit k x)"
    by (rule bit_word_eqI) (auto simp: bit_simps)
  then show ?thesis by (metis add_diff_cancel_right' bits_ident)
qed

lemma uint_and_not_mask: "uint (x AND NOT (mask k)) = uint x - uint x mod 2 ^ k" for x :: "'a::len word"
proof -
  have "uint (take_bit k x) \<le> uint x"
    by (simp only: uint_take_bit) (simp add: zmod_le_nonneg_dividend)
  then have "uint (x - take_bit k x) = uint x - uint (take_bit k x)" by (simp only: uint_sub_lem)
  then show ?thesis by (simp only: and_not_mask uint_take_bit)
qed

text \<open>Well-formed types: integers have a size, bit-fields fit in their declared type.\<close>

definition bit_ok :: "cty \<Rightarrow> nat \<Rightarrow> bool" where
  "bit_ok t w \<longleftrightarrow> w = 0 \<or> (case t of Prim n \<Rightarrow> w \<le> 8 * n | _ \<Rightarrow> False)"

fun ok_ty :: "cty \<Rightarrow> bool" and ok_flds :: "flds \<Rightarrow> bool" where
  "ok_ty (Prim n) = (0 < n)"
| "ok_ty Long_ty = True"
| "ok_ty Ptr_ty = True"
| "ok_ty (Arr t n) = ok_ty t"
| "ok_ty (Struct p fs) = ok_flds fs"
| "ok_ty (Union p fs) = ok_flds fs"
| "ok_ty (Aligned a t) = ok_ty t"
| "ok_flds No_flds = True"
| "ok_flds (Fld n t w fs) = (ok_ty t \<and> bit_ok t w \<and> ok_flds fs)"

definition ok_abi :: "abi \<Rightarrow> bool" where
  "ok_abi A \<longleftrightarrow> 0 < abi_long A \<and> 0 < abi_ptr A"

lemma ok_abis [simp]: "ok_abi sysv" "ok_abi msvc"
  by (simp_all add: ok_abi_def sysv_def msvc_def)

lemma packed_pos: "0 < a \<Longrightarrow> 0 < packed p a"
  by (simp add: packed_def)

lemma calign_pos: "ok_abi A \<Longrightarrow> ok_ty t \<Longrightarrow> 0 < calign A t"
  and falign_pos: "ok_abi A \<Longrightarrow> ok_flds fs \<Longrightarrow> 0 < falign A p fs"
  by (induction t and fs arbitrary: and p rule: ok_ty_ok_flds.induct) (auto simp: ok_abi_def max_def)

lemma bit_ok_width: "bit_ok t w \<Longrightarrow> w \<le> 8 * csize A t"
  by (auto simp: bit_ok_def split: cty.splits)

section \<open>The members of a structure\<close>

text \<open>Only an open unit of the Microsoft rule is allocated beyond the last member.\<close>

definition cur_ok :: "abi \<Rightarrow> cursor \<Rightarrow> bool" where
  "cur_ok A cu \<longleftrightarrow> fst cu \<le> fst (snd cu) \<and> (abi_ms_bits A \<or> fst (snd cu) = fst cu)"

lemma start_cursor_ok [simp]: "cur_ok A start_cursor"
  by (simp add: cur_ok_def start_cursor_def)

lemma place_step:
  assumes "cur_ok A cu" "0 < a" "w \<le> 8 * sz"
  shows "fst cu \<le> place A p sz a w cu"
    and "fst (advance A p sz a w cu) = place A p sz a w cu + width_bits sz w"
    and "cur_ok A (advance A p sz a w cu)"
    and "fst (snd cu) \<le> fst (snd (advance A p sz a w cu))"
proof -
  note up = align_up_ge [of "8 * a"]
  have u: "fst cu \<le> align_up (fst cu) (8 * a)" "fst (snd cu) \<le> align_up (fst (snd cu)) (8 * a)"
    using up assms(2) by simp_all
  have l: "fst cu \<le> fst (snd cu)" using assms(1) by (simp add: cur_ok_def)
  show "fst cu \<le> place A p sz a w cu"
    using u l by (simp add: place_def)
  show "fst (advance A p sz a w cu) = place A p sz a w cu + width_bits sz w"
    by (simp add: advance_def Let_def width_bits_def)
  show "cur_ok A (advance A p sz a w cu)"
    using assms(3) by (auto simp: cur_ok_def advance_def Let_def place_def same_unit_def)
  show "fst (snd cu) \<le> fst (snd (advance A p sz a w cu))"
    using assms(1) u by (auto simp: cur_ok_def advance_def Let_def place_def)
qed

lemma place_of_member:
  assumes "ok_abi A" "ok_flds (Fld n t w fs)" "cur_ok A cu"
  shows "fst cu \<le> place A p (csize A t) (packed p (calign A t)) w cu"
    and "fst (advance A p (csize A t) (packed p (calign A t)) w cu)
           = place A p (csize A t) (packed p (calign A t)) w cu + width_bits (csize A t) w"
    and "cur_ok A (advance A p (csize A t) (packed p (calign A t)) w cu)"
proof -
  have "ok_ty t" "bit_ok t w" using assms(2) by simp_all
  note f = place_step [OF assms(3) packed_pos [OF calign_pos [OF assms(1) \<open>ok_ty t\<close>]]
             bit_ok_width [OF \<open>bit_ok t w\<close>]]
  show "fst cu \<le> place A p (csize A t) (packed p (calign A t)) w cu" by (rule f(1))
  show "fst (advance A p (csize A t) (packed p (calign A t)) w cu)
           = place A p (csize A t) (packed p (calign A t)) w cu + width_bits (csize A t) w" by (rule f(2))
  show "cur_ok A (advance A p (csize A t) (packed p (calign A t)) w cu)" by (rule f(3))
qed

text \<open>The places of the members are in order, without overlap, and end where the cursor ends.\<close>

fun in_order :: "nat \<Rightarrow> (string \<times> nat \<times> nat) list \<Rightarrow> nat \<Rightarrow> bool" where
  "in_order pos [] e = (pos \<le> e)"
| "in_order pos (q # qs) e = (pos \<le> fst (snd q) \<and> in_order (fst (snd q) + snd (snd q)) qs e)"

lemma places_in_order:
  assumes "ok_abi A" "ok_flds fs" "cur_ok A cu"
  shows "in_order (fst cu) (places A p fs cu) (fst (snd (fcur A p fs cu)))"
  using assms
proof (induction A p fs cu rule: places.induct)
  case (1 A p cu)
  then show ?case by (simp add: cur_ok_def)
next
  case (2 A p n t w fs cu)
  note m = place_of_member [OF 2(2,3,4)]
  have "ok_flds fs" using 2(3) by simp
  then show ?case using 2(1) [OF 2(2) _ m(3)] m(1,2) by simp
qed

lemma in_order_le: "in_order b rs e \<Longrightarrow> b \<le> e"
  by (induction rs arbitrary: b) (auto intro: le_trans [OF le_add1] le_trans)

lemma in_order_bounds:
  assumes "in_order pos qs e" "(n, st, wd) \<in> set qs"
  shows "pos \<le> st \<and> st + wd \<le> e"
  using assms
proof (induction qs arbitrary: pos)
  case (Cons q qs)
  show ?case
  proof (cases "(n, st, wd) = q")
    case True
    then show ?thesis using Cons.prems in_order_le by auto
  next
    case False
    then have "fst (snd q) + snd (snd q) \<le> st \<and> st + wd \<le> e" using Cons by auto
    then show ?thesis using Cons.prems by auto
  qed
qed simp

lemma in_order_disjoint:
  assumes "in_order pos qs e" "i < j" "j < length qs"
  shows "fst (snd (qs ! i)) + snd (snd (qs ! i)) \<le> fst (snd (qs ! j))"
  using assms
proof (induction qs arbitrary: pos i j)
  case (Cons q qs)
  then obtain j' where j: "j = Suc j'" by (cases j) auto
  show ?case
  proof (cases i)
    case 0
    obtain m st wd where m: "qs ! j' = (m, st, wd)" by (metis surj_pair)
    then have "(m, st, wd) \<in> set qs" using Cons.prems j by (metis Suc_less_eq length_Cons nth_mem)
    then show ?thesis using in_order_bounds [of "fst (snd q) + snd (snd q)" qs e m st wd] Cons.prems 0 j m by simp
  next
    case (Suc i')
    then show ?thesis using Cons.IH [of "fst (snd q) + snd (snd q)" i' j'] Cons.prems j by simp
  qed
qed simp

lemma le_8_div: "x \<le> 8 * ((x + 7) div 8)" for x :: nat
  by presburger

lemma fcur_in_struct:
  assumes "ok_abi A" "ok_flds fs"
  shows "fst (snd (fcur A p fs start_cursor)) \<le> 8 * csize A (Struct p fs)"
proof -
  let ?e = "fst (snd (fcur A p fs start_cursor))"
  have "?e \<le> 8 * ((?e + 7) div 8)" by (rule le_8_div)
  also have "\<dots> \<le> 8 * csize A (Struct p fs)"
    using align_up_ge [OF falign_pos [OF assms, of p], of "(?e + 7) div 8"] by simp
  finally show ?thesis .
qed

section \<open>Every named member lies inside its type\<close>

lemma shown_mem: "q \<in> set (shown pre n st wd) \<longleftrightarrow> n \<noteq> [] \<and> q = (pre @ [n], st, wd)"
  by (auto simp: shown_def)

lemma width_union: "bit_ok t w \<Longrightarrow> width_bits (csize A t) w \<le> 8 * union_bytes A (csize A t) w"
  using bit_ok_width [of t w A] le_8_div [of w] by (auto simp: width_bits_def union_bytes_def)

lemma fcur_limit:
  assumes "ok_abi A" "ok_flds fs" "cur_ok A cu"
  shows "fst cu \<le> fst (snd (fcur A p fs cu))"
  using in_order_le [OF places_in_order [OF assms]] .

lemma tmem_inside:
    "ok_abi A \<Longrightarrow> ok_ty t \<Longrightarrow> (f, st, wd) \<in> set (tmem A pre base t) \<Longrightarrow>
       base \<le> st \<and> st + wd \<le> base + 8 * csize A t"
  and smem_inside:
    "ok_abi A \<Longrightarrow> ok_flds fs \<Longrightarrow> cur_ok A cu \<Longrightarrow> (f, st, wd) \<in> set (smem A pre base p fs cu) \<Longrightarrow>
       base \<le> st \<and> st + wd \<le> base + fst (snd (fcur A p fs cu))"
  and umem_inside:
    "ok_abi A \<Longrightarrow> ok_flds fs \<Longrightarrow> (f, st, wd) \<in> set (umem A pre base fs) \<Longrightarrow>
       base \<le> st \<and> st + wd \<le> base + 8 * fmax A fs"
proof (induction A pre base t and A pre base p fs cu and A pre base fs rule: tmem_smem_umem.induct)
  case (4 A pre base t n)
  then have "base \<le> st \<and> st + wd \<le> base + 8 * csize A t" "0 < n" by (auto split: if_splits)
  moreover have "csize A t \<le> csize A t * n" using \<open>0 < n\<close> by simp
  ultimately show ?case unfolding csize.simps by linarith
next
  case (5 A pre base p fs)
  then have "base \<le> st \<and> st + wd \<le> base + fst (snd (fcur A p fs start_cursor))" by simp
  then show ?case using fcur_in_struct [of A fs p] 5 by auto
next
  case (6 A pre base p fs)
  then have "base \<le> st \<and> st + wd \<le> base + 8 * fmax A fs" by simp
  moreover have "fmax A fs \<le> csize A (Union p fs)"
    using 6 align_up_ge [OF falign_pos [of A fs p]] by simp
  ultimately show ?case by linarith
next
  case (7 A pre base a t)
  have "csize A t \<le> csize A (Aligned a t)"
    using 7 calign_pos [of A t] align_up_ge [of "max a (calign A t)" "csize A t"] by simp
  then show ?case using 7 by fastforce
next
  case (9 A pre base p n t w fs cu)
  let ?st = "place A p (csize A t) (packed p (calign A t)) w cu"
  let ?cu = "advance A p (csize A t) (packed p (calign A t)) w cu"
  have fs: "ok_flds fs" "ok_ty t" using 9 by simp_all
  note m = place_of_member [OF 9(3,4,5), of p]
  have lim: "?st + width_bits (csize A t) w \<le> fst (snd (fcur A p fs ?cu))"
    using fcur_limit [OF 9(3) fs(1) m(3), of p] m(2) by simp
  from 9(6) consider "(f, st, wd) = (pre @ [n], base + ?st, width_bits (csize A t) w)"
    | "w = 0" "(f, st, wd) \<in> set (tmem A (enter pre n) (base + ?st) t)"
    | "(f, st, wd) \<in> set (smem A pre base p fs ?cu)"
    by (auto simp: shown_mem split: if_splits)
  then show ?case
  proof cases
    case 1
    then show ?thesis using lim by simp
  next
    case 2
    then show ?thesis using 9(1) [OF 2(1) 9(3) fs(2) 2(2)] lim by (simp add: width_bits_def)
  next
    case 3
    then show ?thesis using 9(2) [OF 9(3) fs(1) m(3)] by simp
  qed
next
  case (11 A pre base n t w fs)
  have fs: "ok_flds fs" "ok_ty t" "bit_ok t w" using 11 by simp_all
  have le: "union_bytes A (csize A t) w \<le> fmax A (Fld n t w fs)" "fmax A fs \<le> fmax A (Fld n t w fs)"
    by simp_all
  from 11(5) consider "(f, st, wd) = (pre @ [n], base, width_bits (csize A t) w)"
    | "w = 0" "(f, st, wd) \<in> set (tmem A (enter pre n) base t)"
    | "(f, st, wd) \<in> set (umem A pre base fs)"
    by (auto simp: shown_mem split: if_splits)
  then show ?case
  proof cases
    case 1
    then have "st = base" "wd = width_bits (csize A t) w" by simp_all
    then show ?thesis using width_union [OF fs(3), of A] le(1) by linarith
  next
    case 2
    have "union_bytes A (csize A t) w = csize A t" using 2(1) by (simp add: union_bytes_def)
    then show ?thesis using 11(1) [OF 2(1) 11(3) fs(2) 2(2)] le(1) by linarith
  next
    case 3
    then show ?thesis using 11(2) [OF 11(3) fs(1)] le(2) by linarith
  qed
qed auto

text \<open>So \<open>sizeof\<close> contains every member.\<close>

lemma members_contained:
  assumes "ok_abi A" "ok_ty t" "f \<in> fst ` set (members A t)"
  shows "HV_FIELD_CONTAINS A t (csize A t) f"
proof -
  obtain st wd where q: "map_of (members A t) f = Some (st, wd)"
    using assms(3) by (cases "map_of (members A t) f") (auto simp: map_of_eq_None_iff)
  then have "st + wd \<le> 8 * csize A t"
    using tmem_inside [OF assms(1,2), of f st wd "[]" 0] by (auto simp: members_def dest: map_of_SomeD)
  then have "st div 8 + wd div 8 \<le> csize A t" by linarith
  then show ?thesis using q by (simp add: HV_FIELD_CONTAINS_def HV_FIELD_OFFSET_def HV_FIELD_SIZE_def)
qed

section \<open>Types with one layout\<close>

text \<open>A plain type has neither bit-fields nor a \<open>long\<close>.\<close>

fun plain_ty :: "cty \<Rightarrow> bool" and plain_flds :: "flds \<Rightarrow> bool" where
  "plain_ty (Prim n) = True"
| "plain_ty Long_ty = False"
| "plain_ty Ptr_ty = True"
| "plain_ty (Arr t n) = plain_ty t"
| "plain_ty (Struct p fs) = plain_flds fs"
| "plain_ty (Union p fs) = plain_flds fs"
| "plain_ty (Aligned a t) = plain_ty t"
| "plain_flds No_flds = True"
| "plain_flds (Fld n t w fs) = (plain_ty t \<and> w = 0 \<and> plain_flds fs)"

lemma plain_calign: "plain_ty t \<Longrightarrow> abi_ptr A = abi_ptr B \<Longrightarrow> calign A t = calign B t"
  and plain_falign: "plain_flds fs \<Longrightarrow> abi_ptr A = abi_ptr B \<Longrightarrow> falign A p fs = falign B p fs"
  by (induction t and fs arbitrary: and p rule: plain_ty_plain_flds.induct) auto

lemma place_plain: "place A p sz a 0 cu = place B p sz a 0 cu"
  and advance_plain: "advance A p sz a 0 cu = advance B p sz a 0 cu"
  and union_plain: "union_bytes A sz 0 = union_bytes B sz 0"
  by (simp_all add: place_def advance_def union_bytes_def Let_def)

lemma plain_csize: "abi_ptr A = abi_ptr B \<Longrightarrow> plain_ty t \<Longrightarrow> csize A t = csize B t"
  and plain_fcur: "abi_ptr A = abi_ptr B \<Longrightarrow> plain_flds fs \<Longrightarrow> fcur A p fs cu = fcur B p fs cu"
  and plain_fmax: "abi_ptr A = abi_ptr B \<Longrightarrow> plain_flds fs \<Longrightarrow> fmax A fs = fmax B fs"
proof (induction A t and A p fs cu and A fs rule: csize_fcur_fmax.induct)
  case (9 A p n t w fs cu)
  have e: "csize A t = csize B t" "calign A t = calign B t" "w = 0" "plain_flds fs"
    using 9 by (auto intro: plain_calign)
  then show ?case using 9(2) [OF 9(3)] advance_plain [of A p _ _ _ B] by simp
next
  case (11 A n t w fs)
  then show ?case using union_plain [of A _ B] by simp
next
  case (5 A p fs)
  then show ?case using plain_falign [of fs A B p] by simp
next
  case (6 A p fs)
  then show ?case using plain_falign [of fs A B p] by simp
next
  case (7 A a t)
  then show ?case using plain_calign [of t A B] by simp
qed simp_all

lemma plain_tmem: "abi_ptr A = abi_ptr B \<Longrightarrow> plain_ty t \<Longrightarrow> tmem A pre base t = tmem B pre base t"
  and plain_smem: "abi_ptr A = abi_ptr B \<Longrightarrow> plain_flds fs \<Longrightarrow> smem A pre base p fs cu = smem B pre base p fs cu"
  and plain_umem: "abi_ptr A = abi_ptr B \<Longrightarrow> plain_flds fs \<Longrightarrow> umem A pre base fs = umem B pre base fs"
proof (induction A pre base t and A pre base p fs cu and A pre base fs rule: tmem_smem_umem.induct)
  case (9 A pre base p n t w fs cu)
  have e: "csize A t = csize B t" "calign A t = calign B t" "w = 0" "plain_flds fs" "plain_ty t"
    using 9 by (auto intro: plain_calign plain_csize)
  then show ?case
    using 9(1) [OF e(3) 9(3) e(5)] 9(2) [OF 9(3) e(4)] advance_plain [of A p _ _ _ B] place_plain [of A p _ _ _ B]
    by simp
next
  case (11 A pre base n t w fs)
  have e: "csize A t = csize B t" "w = 0" "plain_flds fs" "plain_ty t"
    using 11 by (auto intro: plain_csize)
  then show ?case using 11 by simp
qed simp_all

definition same_layout :: "cty \<Rightarrow> bool" where
  "same_layout t \<longleftrightarrow> csize sysv t = csize msvc t \<and> members sysv t = members msvc t"

lemma plain_same_layout: "plain_ty t \<Longrightarrow> same_layout t"
  by (auto simp: same_layout_def members_def sysv_def msvc_def intro: plain_csize plain_tmem)

text \<open>The same layout wherever the type is used; a type whose members all have it, and no bit-fields of its
  own, has it too.\<close>

definition same_ty :: "cty \<Rightarrow> bool" where
  "same_ty t \<longleftrightarrow> csize sysv t = csize msvc t \<and> calign sysv t = calign msvc t
     \<and> (\<forall>pre base. tmem sysv pre base t = tmem msvc pre base t)"

fun same_flds :: "flds \<Rightarrow> bool" where
  "same_flds No_flds = True"
| "same_flds (Fld n t w fs) = (w = 0 \<and> same_ty t \<and> same_flds fs)"

lemma same_ty_layout: "same_ty t \<Longrightarrow> same_layout t"
  by (simp add: same_ty_def same_layout_def members_def)

lemma plain_same_ty: "plain_ty t \<Longrightarrow> same_ty t"
  by (auto simp: same_ty_def sysv_def msvc_def intro: plain_csize plain_tmem plain_calign)

lemma same_flds_parts:
  assumes "same_flds fs"
  shows "falign sysv p fs = falign msvc p fs" "fcur sysv p fs cu = fcur msvc p fs cu"
    "fmax sysv fs = fmax msvc fs" "smem sysv pre base p fs cu = smem msvc pre base p fs cu"
    "umem sysv pre base fs = umem msvc pre base fs"
proof -
  have "falign sysv p fs = falign msvc p fs \<and> fcur sysv p fs cu = fcur msvc p fs cu \<and>
    fmax sysv fs = fmax msvc fs \<and> smem sysv pre base p fs cu = smem msvc pre base p fs cu \<and>
    umem sysv pre base fs = umem msvc pre base fs"
    using assms
  proof (induction fs arbitrary: cu rule: same_flds.induct)
    case (2 n t w fs)
    then have "same_ty t" "w = 0" by simp_all
    then show ?case
      using 2 advance_plain [of sysv p _ _ _ msvc] place_plain [of sysv p _ _ _ msvc] union_plain [of sysv _ msvc]
      by (simp add: same_ty_def)
  qed simp
  then show "falign sysv p fs = falign msvc p fs" "fcur sysv p fs cu = fcur msvc p fs cu"
    "fmax sysv fs = fmax msvc fs" "smem sysv pre base p fs cu = smem msvc pre base p fs cu"
    "umem sysv pre base fs = umem msvc pre base fs" by simp_all
qed

lemma same_ty_struct: "same_flds fs \<Longrightarrow> same_ty (Struct p fs)"
  and same_ty_union: "same_flds fs \<Longrightarrow> same_ty (Union p fs)"
  and same_ty_arr: "same_ty t \<Longrightarrow> same_ty (Arr t n)"
  and same_ty_aligned: "same_ty t \<Longrightarrow> same_ty (Aligned a t)"
  by (simp_all add: same_ty_def same_flds_parts)

section \<open>Bits\<close>

lemma get_put_same: "get_bits q (put_bits q v x) = take_bit (snd q) v"
  unfolding get_bits_def put_bits_def by (rule bit_eqI) (auto simp: bit_simps)

lemma get_put_other:
  assumes "fst q + snd q \<le> fst r \<or> fst r + snd r \<le> fst q"
  shows "get_bits r (put_bits q v x) = get_bits r x"
proof (rule bit_eqI)
  fix n
  show "bit (get_bits r (put_bits q v x)) n = bit (get_bits r x) n"
    using assms unfolding get_bits_def put_bits_def by (cases "n < snd r") (auto simp: bit_simps)
qed

text \<open>Writing a member of a structure and reading any member.\<close>

lemma struct_write_read:
  assumes "ok_abi A" "ok_flds fs" "i < length (places A p fs start_cursor)" "j < length (places A p fs start_cursor)"
  defines "q k \<equiv> snd (places A p fs start_cursor ! k)"
  shows "get_bits (q j) (put_bits (q i) v x) = (if i = j then take_bit (snd (q i)) v else get_bits (q j) x)"
proof (cases "i = j")
  case True
  then show ?thesis by (simp add: get_put_same)
next
  case False
  note o' = in_order_disjoint [OF places_in_order [OF assms(1,2) start_cursor_ok, of p]]
  have "fst (q i) + snd (q i) \<le> fst (q j) \<or> fst (q j) + snd (q j) \<le> fst (q i)"
    using o' [of i j] o' [of j i] False assms(3,4) unfolding q_def by (cases "i < j") auto
  then show ?thesis using False by (simp add: get_put_other)
qed

end
