(* ===== verification/C_Text.thy ===== *)
theory C_Text
  imports Prelude
begin

text \<open>
  The formats of \<open>sprintf\<close> and \<open>fprintf\<close> that the code uses (\<open>%x\<close>, \<open>%0Nx\<close>, \<open>%u\<close>, \<open>%d\<close>, \<open>%s\<close> and the kernel's \<open>%pa\<close>)
  and the reading of hexadecimal text: a printed number reads back as itself, and a
  number that fits in N digits prints with exactly N digits under \<open>%0Nx\<close>.
\<close>

section \<open>Formats\<close>

definition hexdig :: "nat \<Rightarrow> char" where
  "hexdig n = ''0123456789abcdef'' ! n"

fun fmt_x :: "nat \<Rightarrow> string" where
  "fmt_x n = (if n < 16 then [hexdig n] else fmt_x (n div 16) @ [hexdig (n mod 16)])"

fun fmt_u :: "nat \<Rightarrow> string" where
  "fmt_u n = (if n < 10 then [hexdig n] else fmt_u (n div 10) @ [hexdig (n mod 10)])"

text \<open>\<open>%d\<close> of an \<open>int\<close>.\<close>

definition fmt_d :: "int \<Rightarrow> string" where
  "fmt_d n = (if n < 0 then ''-'' @ fmt_u (nat (- n)) else fmt_u (nat n))"

declare fmt_x.simps [simp del] fmt_u.simps [simp del]

text \<open>\<open>%pa\<close> prints a 64-bit physical address as \<open>0x\<close> and sixteen digits.\<close>

definition fmt_pa :: "u64 \<Rightarrow> string" where
  "fmt_pa a = (let h = fmt_x (unat a) in ''0x'' @ replicate (16 - length h) (CHR ''0'') @ h)"

fun fmt_s :: "string option \<Rightarrow> string" where
  "fmt_s None = ''(null)''"
| "fmt_s (Some t) = t"

definition newline :: string where
  "newline = [CHR 0x0A]"

section \<open>Reading the numbers back\<close>

text \<open>How a client reads the first line of such a file: as \<open>Convert.ToInt64(line, 16)\<close> does in
  \<open>UioHv.GetDeviceInformation\<close>, which accepts the prefix \<open>0x\<close>.\<close>

definition digval :: "char \<Rightarrow> nat" where
  "digval c = length (takeWhile (\<lambda>d. d \<noteq> c) ''0123456789abcdef'')"

definition digits_value :: "nat \<Rightarrow> string \<Rightarrow> nat" where
  "digits_value b = foldl (\<lambda>a c. a * b + digval c) 0"

definition first_line :: "string \<Rightarrow> string" where
  "first_line t = takeWhile (\<lambda>c. c \<noteq> CHR 0x0A) t"

definition read_hex :: "string \<Rightarrow> nat option" where
  "read_hex t =
     (if take 2 t = ''0x'' \<and> list_all (\<lambda>c. digval c < 16) (drop 2 t)
      then Some (digits_value 16 (drop 2 t)) else None)"

lemma digval_hexdig [simp]: "n < 16 \<Longrightarrow> digval (hexdig n) = n"
  by (auto simp: digval_def hexdig_def less_Suc_eq numeral_eq_Suc)

lemma hexdig_not_newline [simp]: "n < 16 \<Longrightarrow> hexdig n \<noteq> CHR 0x0A"
  by (auto simp: hexdig_def less_Suc_eq numeral_eq_Suc)

lemma digits_value_snoc [simp]: "digits_value b (t @ [c]) = digits_value b t * b + digval c"
  by (simp add: digits_value_def)

lemma digits_value_fmt_x: "digits_value 16 (fmt_x n) = n"
proof (induction n rule: fmt_x.induct)
  case (1 n)
  show ?case
  proof (cases "n < 16")
    case True
    then show ?thesis by (simp add: fmt_x.simps [of n] digits_value_def)
  next
    case False
    with "1.IH" have "digits_value 16 (fmt_x (n div 16)) = n div 16" by simp
    with False show ?thesis by (simp add: fmt_x.simps [of n])
  qed
qed

lemma digits_value_fmt_u: "digits_value 10 (fmt_u n) = n"
proof (induction n rule: fmt_u.induct)
  case (1 n)
  show ?case
  proof (cases "n < 10")
    case True
    then show ?thesis by (simp add: fmt_u.simps [of n] digits_value_def)
  next
    case False
    with "1.IH" have "digits_value 10 (fmt_u (n div 10)) = n div 10" by simp
    with False show ?thesis by (simp add: fmt_u.simps [of n])
  qed
qed

lemma fmt_x_digits: "c \<in> set (fmt_x n) \<Longrightarrow> \<exists>k<16. c = hexdig k"
proof (induction n rule: fmt_x.induct)
  case (1 n)
  show ?case
  proof (cases "n < 16")
    case True
    with "1.prems" show ?thesis by (auto simp: fmt_x.simps [of n])
  next
    case False
    with "1.prems" have "c \<in> set (fmt_x (n div 16)) \<or> c = hexdig (n mod 16)"
      by (auto simp: fmt_x.simps [of n])
    moreover have "n mod 16 < 16" by simp
    ultimately show ?thesis using False "1.IH" by blast
  qed
qed

lemma zero_is_hexdig: "CHR ''0'' = hexdig 0"
  by (simp add: hexdig_def)

lemma digits_value_zeros [simp]: "digits_value b (replicate k (CHR ''0'') @ t) = digits_value b t"
proof (induction k)
  case (Suc k)
  have "digval (CHR ''0'') = 0" by (simp add: digval_def)
  with Suc show ?case by (simp add: digits_value_def)
qed simp

definition hex_text :: "string \<Rightarrow> bool" where
  "hex_text t \<longleftrightarrow> (\<forall>c\<in>set t. \<exists>k<16. c = hexdig k)"

lemma hex_text_fmt_x [simp]: "hex_text (fmt_x n)"
  by (auto simp: hex_text_def dest: fmt_x_digits)

lemma hex_text_zeros [simp]: "hex_text (replicate k (CHR ''0'') @ t) = hex_text t"
proof -
  have "\<exists>k<16. CHR ''0'' = hexdig k"
    using zero_is_hexdig by (intro exI [of _ 0]) simp
  then show ?thesis by (auto simp: hex_text_def)
qed

lemma read_hex_text: "hex_text t \<Longrightarrow> read_hex (''0x'' @ t) = Some (digits_value 16 t)"
  by (auto simp: read_hex_def list_all_iff hex_text_def)

lemma first_line_hex: "hex_text t \<Longrightarrow> first_line (''0x'' @ t @ newline) = ''0x'' @ t"
proof -
  assume "hex_text t"
  then have "\<forall>c\<in>set t. c \<noteq> CHR 0x0A"
    by (metis hex_text_def hexdig_not_newline)
  then have "takeWhile (\<lambda>c. c \<noteq> CHR 0x0A) (t @ newline) = t"
    by (simp add: newline_def takeWhile_append2)
  then show ?thesis by (simp add: first_line_def)
qed

lemma read_fmt_x: "read_hex (first_line (''0x'' @ fmt_x n @ newline)) = Some n"
  by (simp only: first_line_hex hex_text_fmt_x read_hex_text digits_value_fmt_x)

section \<open>Zero padding\<close>

text \<open>\<open>%0Nx\<close>: at least \<open>N\<close> digits.\<close>

definition fmt_0x :: "nat \<Rightarrow> nat \<Rightarrow> string" where
  "fmt_0x w n = replicate (w - length (fmt_x n)) (CHR ''0'') @ fmt_x n"

lemma length_fmt_x_le: "0 < w \<Longrightarrow> n < 16 ^ w \<Longrightarrow> length (fmt_x n) \<le> w"
proof (induction n arbitrary: w rule: fmt_x.induct)
  case (1 n)
  show ?case
  proof (cases "n < 16")
    case True
    then show ?thesis using "1.prems" by (simp add: fmt_x.simps [of n])
  next
    case False
    obtain v where w: "w = Suc v" using "1.prems" by (cases w) auto
    have "0 < v" using False "1.prems" w by (cases v) auto
    note v = w this
    have "n div 16 < 16 ^ v" using "1.prems" v by (simp add: div_less_iff_less_mult mult.commute)
    then show ?thesis using "1.IH" [OF False v(2)] False v by (simp add: fmt_x.simps [of n])
  qed
qed

lemma length_fmt_0x: "0 < w \<Longrightarrow> n < 16 ^ w \<Longrightarrow> length (fmt_0x w n) = w"
  using length_fmt_x_le [of w n] by (simp add: fmt_0x_def)

lemma digits_value_fmt_0x [simp]: "digits_value 16 (fmt_0x w n) = n"
  by (simp add: fmt_0x_def digits_value_fmt_x)

lemma hex_text_fmt_0x [simp]: "hex_text (fmt_0x w n)"
  by (simp add: fmt_0x_def)

lemma fmt_0x_inj: "fmt_0x w n = fmt_0x w m \<longleftrightarrow> n = m"
  by (metis digits_value_fmt_0x)

end
