(* ===== verification/Guid.thy ===== *)
theory Guid
  imports CLayout C_Text
begin

text \<open>
  GUIDs: the structure \<open>MO_GUID\<close> of \<open>Mile.Mobility.Portable.Types.h\<close> (which \<open>HV_GUID\<close> renames), as a value
  and as a memory layout, and the text form that \<open>HvGinUioRegisterDevice\<close> (\<open>main.cpp\<close>) writes to the
  kernel.  The text always has 36 characters and determines the GUID.
\<close>

record guid =
  Data1 :: u32
  Data2 :: u16
  Data3 :: u16
  Data4 :: "u8 list"

definition wf_guid :: "guid \<Rightarrow> bool" where
  "wf_guid g \<longleftrightarrow> length (Data4 g) = 8"

definition HV_GUID :: cty where
  "HV_GUID = Struct 0 (flds_of [mem ''Data1'' U32, mem ''Data2'' U16, mem ''Data3'' U16, mem ''Data4'' (Arr U8 8)])"

text \<open>\<open>%08x-%04x-%04x-%02x%02x-%02x%02x%02x%02x%02x%02x\<close>\<close>

definition guid_text :: "guid \<Rightarrow> string" where
  "guid_text g =
     fmt_0x 8 (unat (Data1 g)) @ ''-'' @ fmt_0x 4 (unat (Data2 g)) @ ''-'' @ fmt_0x 4 (unat (Data3 g)) @ ''-'' @
     fmt_0x 2 (unat (Data4 g ! 0)) @ fmt_0x 2 (unat (Data4 g ! 1)) @ ''-'' @
     fmt_0x 2 (unat (Data4 g ! 2)) @ fmt_0x 2 (unat (Data4 g ! 3)) @ fmt_0x 2 (unat (Data4 g ! 4)) @
     fmt_0x 2 (unat (Data4 g ! 5)) @ fmt_0x 2 (unat (Data4 g ! 6)) @ fmt_0x 2 (unat (Data4 g ! 7))"

lemma length_fmt_words [simp]:
  "length (fmt_0x 8 (unat (a :: u32))) = 8"
  "length (fmt_0x 4 (unat (b :: u16))) = 4"
  "length (fmt_0x 2 (unat (c :: u8))) = 2"
proof -
  have "unat a < 2 ^ 32" "unat b < 2 ^ 16" "unat c < 2 ^ 8"
    using unsigned_less [of a, where ?'a = nat] unsigned_less [of b, where ?'a = nat]
      unsigned_less [of c, where ?'a = nat] by simp_all
  then show "length (fmt_0x 8 (unat a)) = 8" "length (fmt_0x 4 (unat b)) = 4" "length (fmt_0x 2 (unat c)) = 2"
    by (simp_all add: length_fmt_0x)
qed

lemma guid_text_length: "length (guid_text g) = 36"
  by (simp add: guid_text_def)

lemma fmt_word_inj: "fmt_0x w (unat x) = fmt_0x w (unat y) \<longleftrightarrow> x = y" for x y :: "'a::len word"
  by (metis fmt_0x_inj unsigned_word_eqI)

lemma eight_nth: "length xs = 8 \<Longrightarrow> xs = [xs ! 0, xs ! 1, xs ! 2, xs ! 3, xs ! 4, xs ! 5, xs ! 6, xs ! 7]"
  by (intro nth_equalityI) (auto simp: less_Suc_eq numeral_eq_Suc)

lemma guid_text_inj:
  assumes "wf_guid g" "wf_guid h" "guid_text g = guid_text h"
  shows "g = h"
proof -
  have e: "Data1 g = Data1 h" "Data2 g = Data2 h" "Data3 g = Data3 h"
    "\<forall>i\<in>{0,1,2,3,4,5,6,7}. Data4 g ! i = Data4 h ! i"
    using assms(3) by (simp_all add: guid_text_def fmt_word_inj)
  then have "Data4 g = Data4 h"
    using eight_nth [of "Data4 g"] eight_nth [of "Data4 h"] assms(1,2) by (simp add: wf_guid_def)
  with e show ?thesis by simp
qed

end
