(* ===== verification/Guest_Protocols.thy ===== *)
theory Guest_Protocols
  imports Guid
begin

text \<open>
  \<open>Mile.HyperV.Guest.Protocols.h\<close>: the messages a Hyper-V guest exchanges with the host.  Every structure and
  union of the header is a value of \<open>cty\<close> with the members, bit-field widths and \<open>#pragma pack\<close> of its
  declaration, every enumeration an \<open>enum_tab\<close>, every GUID constant a \<open>guid\<close>, and the version, flag, size
  and alignment macros are functions and constants over words.

  Shown here, for both ABIs of \<open>CLayout\<close>: the header's static assertions hold; every channel message
  starts with its header and fits in a SynIC message, which the header asserts for one of them only;
  exactly which structures have a different layout on Linux than on Windows, where the host is
  built (two because of \<open>typedef long NTSTATUS\<close>, others because of their bit-fields); that the same typedef
  makes \<open>NT_SUCCESS\<close> accept error codes on Linux; that the version macros invert each other,
  \<open>ALIGN_VALUE\<close> rounds up, and the message numbers of the network protocol are contiguous.
\<close>

section \<open>Basic definitions\<close>

definition HV_ANYSIZE_ARRAY :: nat where "HV_ANYSIZE_ARRAY = 1"

definition enumerator :: "enum_tab \<Rightarrow> string \<Rightarrow> int" where
  "enumerator tab n = (case map_of tab n of Some v \<Rightarrow> v | None \<Rightarrow> - 1)"

fun add_size :: "nat option \<Rightarrow> nat option \<Rightarrow> nat option" where
  "add_size (Some a) (Some b) = Some (a + b)"
| "add_size _ _ = None"

text \<open>\<open>typedef long NTSTATUS\<close>: the conversion of an integer to \<open>long\<close>, and \<open>NT_SUCCESS\<close>.\<close>

definition NTSTATUS :: cty where "NTSTATUS = Long_ty"

definition to_NTSTATUS :: "abi \<Rightarrow> int \<Rightarrow> int" where
  "to_NTSTATUS A v = signed_take_bit (8 * abi_long A - 1) v"

definition NT_SUCCESS :: "abi \<Rightarrow> int \<Rightarrow> bool" where
  "NT_SUCCESS A status \<longleftrightarrow> 0 \<le> to_NTSTATUS A status"

definition STATUS_REVISION_MISMATCH :: "abi \<Rightarrow> int" where
  "STATUS_REVISION_MISMATCH A = to_NTSTATUS A 0xC0000059"

section \<open>Virtual Machine Bus\<close>

definition MAXIMUM_SYNIC_MESSAGE_BYTES :: "32 word" where "MAXIMUM_SYNIC_MESSAGE_BYTES = 240"

definition MAX_USER_DEFINED_BYTES :: nat where "MAX_USER_DEFINED_BYTES = 120"

definition GPA_RANGE :: cty where
  "GPA_RANGE = Struct 0 (flds_of [
       mem ''ByteCount'' U32, mem ''ByteOffset'' U32, mem ''PfnArray'' (Arr U64 HV_ANYSIZE_ARRAY)])"

definition GPA_RANGE_MAX_PFN_COUNT :: "32 word" where "GPA_RANGE_MAX_PFN_COUNT = 0xfffff"

definition VMBUS_MAKE_VERSION :: "32 word \<Rightarrow> 32 word \<Rightarrow> 32 word" where
  "VMBUS_MAKE_VERSION major minor = (push_bit 16 major) OR minor"

definition VMBUS_VERSION_V1 :: "32 word" where "VMBUS_VERSION_V1 = VMBUS_MAKE_VERSION 0 13"

definition VMBUS_VERSION_WIN7 :: "32 word" where "VMBUS_VERSION_WIN7 = VMBUS_MAKE_VERSION 1 1"

definition VMBUS_VERSION_WIN8 :: "32 word" where "VMBUS_VERSION_WIN8 = VMBUS_MAKE_VERSION 2 4"

definition VMBUS_VERSION_WIN8_1 :: "32 word" where "VMBUS_VERSION_WIN8_1 = VMBUS_MAKE_VERSION 3 0"

definition VMBUS_VERSION_WIN10 :: "32 word" where "VMBUS_VERSION_WIN10 = VMBUS_MAKE_VERSION 4 0"

definition VMBUS_VERSION_WIN10RS3_0 :: "32 word" where
  "VMBUS_VERSION_WIN10RS3_0 = VMBUS_MAKE_VERSION 4 1"

definition VMBUS_VERSION_WIN10RS3_1 :: "32 word" where
  "VMBUS_VERSION_WIN10RS3_1 = VMBUS_MAKE_VERSION 5 0"

definition VMBUS_VERSION_WIN10RS4 :: "32 word" where
  "VMBUS_VERSION_WIN10RS4 = VMBUS_MAKE_VERSION 5 1"

definition VMBUS_VERSION_WIN10RS5 :: "32 word" where
  "VMBUS_VERSION_WIN10RS5 = VMBUS_MAKE_VERSION 5 2"

definition VMBUS_VERSION_IRON :: "32 word" where "VMBUS_VERSION_IRON = VMBUS_MAKE_VERSION 5 3"

definition VMBUS_VERSION_COPPER :: "32 word" where "VMBUS_VERSION_COPPER = VMBUS_MAKE_VERSION 6 0"

definition VMBUS_VERSION_LATEST :: "32 word" where "VMBUS_VERSION_LATEST = VMBUS_VERSION_COPPER"

definition VMBUS_VERSION_MULTICLIENT :: "32 word" where
  "VMBUS_VERSION_MULTICLIENT = VMBUS_VERSION_WIN10RS3_1"

definition VMBUS_FEATURE_FLAG_GUEST_SPECIFIED_SIGNAL_PARAMETERS :: "32 word" where
  "VMBUS_FEATURE_FLAG_GUEST_SPECIFIED_SIGNAL_PARAMETERS = 0x1"

definition VMBUS_FEATURE_FLAG_CHANNEL_INTERRUPT_REDIRECTION :: "32 word" where
  "VMBUS_FEATURE_FLAG_CHANNEL_INTERRUPT_REDIRECTION = 0x2"

definition VMBUS_FEATURE_FLAG_MODIFY_CONNECTION :: "32 word" where
  "VMBUS_FEATURE_FLAG_MODIFY_CONNECTION = 0x4"

definition VMBUS_FEATURE_FLAG_CLIENT_ID :: "32 word" where "VMBUS_FEATURE_FLAG_CLIENT_ID = 0x8"

definition VMBUS_FEATURE_FLAG_CONFIDENTIAL_CHANNELS :: "32 word" where
  "VMBUS_FEATURE_FLAG_CONFIDENTIAL_CHANNELS = 0x10"

definition VMBUS_SUPPORTED_FEATURE_FLAGS_COPPER :: "32 word" where
  "VMBUS_SUPPORTED_FEATURE_FLAGS_COPPER = (VMBUS_FEATURE_FLAG_GUEST_SPECIFIED_SIGNAL_PARAMETERS OR VMBUS_FEATURE_FLAG_CHANNEL_INTERRUPT_REDIRECTION) OR VMBUS_FEATURE_FLAG_MODIFY_CONNECTION"

definition VMBUS_SUPPORTED_FEATURE_FLAGS_DILITHIUM :: "32 word" where
  "VMBUS_SUPPORTED_FEATURE_FLAGS_DILITHIUM = VMBUS_SUPPORTED_FEATURE_FLAGS_COPPER OR VMBUS_FEATURE_FLAG_CLIENT_ID"

definition VMBUS_CHANNEL_MESSAGE_TYPE :: enum_tab where
  "VMBUS_CHANNEL_MESSAGE_TYPE = enum_of [
     (''ChannelMessageInvalid'', Val 0), (''ChannelMessageOfferChannel'', Val 1),
     (''ChannelMessageRescindChannelOffer'', Val 2), (''ChannelMessageRequestOffers'', Val 3),
     (''ChannelMessageAllOffersDelivered'', Val 4), (''ChannelMessageOpenChannel'', Val 5),
     (''ChannelMessageOpenChannelResult'', Val 6), (''ChannelMessageCloseChannel'', Val 7),
     (''ChannelMessageGpadlHeader'', Val 8), (''ChannelMessageGpadlBody'', Val 9),
     (''ChannelMessageGpadlCreated'', Val 10), (''ChannelMessageGpadlTeardown'', Val 11),
     (''ChannelMessageGpadlTorndown'', Val 12), (''ChannelMessageRelIdReleased'', Val 13),
     (''ChannelMessageInitiateContact'', Val 14), (''ChannelMessageVersionResponse'', Val 15),
     (''ChannelMessageUnload'', Val 16), (''ChannelMessageUnloadComplete'', Val 17),
     (''ChannelMessageOpenReservedChannel'', Val 18),
     (''ChannelMessageCloseReservedChannel'', Val 19),
     (''ChannelMessageCloseReservedResponse'', Val 20),
     (''ChannelMessageTlConnectRequest'', Val 21), (''ChannelMessageModifyChannel'', Val 22),
     (''ChannelMessageTlConnectRequestResult'', Val 23),
     (''ChannelMessageModifyChannelResponse'', Val 24),
     (''ChannelMessageModifyConnection'', Val 25),
     (''ChannelMessageModifyConnectionResponse'', Val 26), (''ChannelMessageCount'', Auto)]"

definition VMBUS_CHANNEL_MESSAGE_HEADER :: cty where
  "VMBUS_CHANNEL_MESSAGE_HEADER = Struct 1 (flds_of [
       mem ''MessageType'' Enum_ty, mem ''Padding'' U32])"

definition VMBUS_OFFER_FLAG_ENUMERATE_DEVICE_INTERFACE :: "32 word" where
  "VMBUS_OFFER_FLAG_ENUMERATE_DEVICE_INTERFACE = 0x1"

definition VMBUS_OFFER_FLAG_CONFIDENTIAL_RING_BUFFER :: "32 word" where
  "VMBUS_OFFER_FLAG_CONFIDENTIAL_RING_BUFFER = 0x2"

definition VMBUS_OFFER_FLAG_CONFIDENTIAL_EXTERNAL_MEMORY :: "32 word" where
  "VMBUS_OFFER_FLAG_CONFIDENTIAL_EXTERNAL_MEMORY = 0x4"

definition VMBUS_OFFER_FLAG_NAMED_PIPE_MODE :: "32 word" where
  "VMBUS_OFFER_FLAG_NAMED_PIPE_MODE = 0x10"

definition VMBUS_OFFER_FLAG_TLNPI_PROVIDER :: "32 word" where
  "VMBUS_OFFER_FLAG_TLNPI_PROVIDER = 0x2000"

definition VMBUS_OFFER_FLAGS_WIN6 :: "32 word" where
  "VMBUS_OFFER_FLAGS_WIN6 = VMBUS_OFFER_FLAG_ENUMERATE_DEVICE_INTERFACE OR VMBUS_OFFER_FLAG_NAMED_PIPE_MODE"

definition VMBUS_OFFER_FLAGS_WIN10 :: "32 word" where
  "VMBUS_OFFER_FLAGS_WIN10 = VMBUS_OFFER_FLAGS_WIN6 OR VMBUS_OFFER_FLAG_TLNPI_PROVIDER"

definition VMBUS_VP_INDEX_DISABLE_INTERRUPT :: "32 word" where
  "VMBUS_VP_INDEX_DISABLE_INTERRUPT = - 1"

definition VMBUS_CHANNEL_OFFER_CHANNEL :: cty where
  "VMBUS_CHANNEL_OFFER_CHANNEL = Struct 1 (flds_of [
       mem ''Header'' VMBUS_CHANNEL_MESSAGE_HEADER, mem ''InterfaceType'' HV_GUID,
       mem ''InterfaceInstance'' HV_GUID, mem ''Reserved'' U64, mem ''Reserved2'' U64,
       mem ''Flags'' U16, mem ''MmioMegabytes'' U16,
       mem ''UserDefined'' (Arr U8 MAX_USER_DEFINED_BYTES), mem ''SubChannelIndex'' U16,
       mem ''MmioMegabytesOptional'' U16, mem ''ChildRelId'' U32, mem ''MonitorId'' U8,
       bits ''MonitorAllocated'' U8 1, bits ''Reserved4'' U8 7,
       mem '''' (Union 1 (flds_of [mem '''' (Struct 1 (flds_of [bits ''IsDedicatedInterrupt'' U16 1, bits ''Reserved5'' U16 15, mem ''ConnectionId'' U32])),
          mem ''Windows6Offset'' U8]))])"

definition VMBUS_CHANNEL_OFFER_CHANNEL_SIZE_PRE_WIN7 :: "abi \<Rightarrow> nat option" where
  "VMBUS_CHANNEL_OFFER_CHANNEL_SIZE_PRE_WIN7 A = HV_FIELD_OFFSET A VMBUS_CHANNEL_OFFER_CHANNEL [''Windows6Offset'']"

definition VMBUS_CHANNEL_RESCIND_OFFER :: cty where
  "VMBUS_CHANNEL_RESCIND_OFFER = Struct 1 (flds_of [
       mem ''Header'' VMBUS_CHANNEL_MESSAGE_HEADER, mem ''ChildRelId'' U32])"

definition VMBUS_OPEN_FLAG_REDIRECT_INTERRUPT :: "32 word" where
  "VMBUS_OPEN_FLAG_REDIRECT_INTERRUPT = 0x1"

definition VMBUS_CHANNEL_OPEN_CHANNEL :: cty where
  "VMBUS_CHANNEL_OPEN_CHANNEL = Struct 1 (flds_of [
       mem ''Header'' VMBUS_CHANNEL_MESSAGE_HEADER, mem ''ChildRelId'' U32, mem ''OpenId'' U32,
       mem ''RingBufferGpadlHandle'' U32, mem ''TargetVp'' U32,
       mem ''DownstreamRingBufferPageOffset'' U32,
       mem ''UserData'' (Arr U8 MAX_USER_DEFINED_BYTES), mem ''ConnectionId'' U32,
       mem ''EventFlag'' U16, mem ''Flags'' U16])"

definition VMBUS_CHANNEL_OPEN_CHANNEL_MIN_SIZE :: "abi \<Rightarrow> nat option" where
  "VMBUS_CHANNEL_OPEN_CHANNEL_MIN_SIZE A = HV_FIELD_OFFSET A VMBUS_CHANNEL_OPEN_CHANNEL [''ConnectionId'']"

definition VMBUS_CHANNEL_OPEN_RESULT :: cty where
  "VMBUS_CHANNEL_OPEN_RESULT = Struct 1 (flds_of [
       mem ''Header'' VMBUS_CHANNEL_MESSAGE_HEADER, mem ''ChildRelId'' U32, mem ''OpenId'' U32,
       mem ''Status'' U32])"

definition VMBUS_CHANNEL_CLOSE_CHANNEL :: cty where
  "VMBUS_CHANNEL_CLOSE_CHANNEL = Struct 1 (flds_of [
       mem ''Header'' VMBUS_CHANNEL_MESSAGE_HEADER, mem ''ChildRelId'' U32])"

definition VMBUS_CHANNEL_MODIFY_CHANNEL :: cty where
  "VMBUS_CHANNEL_MODIFY_CHANNEL = Struct 1 (flds_of [
       mem ''Header'' VMBUS_CHANNEL_MESSAGE_HEADER, mem ''ChildRelId'' U32, mem ''TargetVp'' U32])"

definition VMBUS_CHANNEL_MODIFY_CHANNEL_RESPONSE :: cty where
  "VMBUS_CHANNEL_MODIFY_CHANNEL_RESPONSE = Struct 1 (flds_of [
       mem ''Header'' VMBUS_CHANNEL_MESSAGE_HEADER, mem ''ChildRelId'' U32, mem ''Status'' NTSTATUS])"

definition VMBUS_CHANNEL_GPADL_HEADER :: cty where
  "VMBUS_CHANNEL_GPADL_HEADER = Struct 1 (flds_of [
       mem ''Header'' VMBUS_CHANNEL_MESSAGE_HEADER, mem ''ChildRelId'' U32, mem ''Gpadl'' U32,
       mem ''RangeBufLen'' U16, mem ''RangeCount'' U16,
       mem ''Range'' (Arr GPA_RANGE HV_ANYSIZE_ARRAY)])"

definition VMBUS_CHANNEL_GPADL_BODY :: cty where
  "VMBUS_CHANNEL_GPADL_BODY = Struct 1 (flds_of [
       mem ''Header'' VMBUS_CHANNEL_MESSAGE_HEADER, mem ''MessageNumber'' U32, mem ''Gpadl'' U32,
       mem ''Pfn'' (Arr U64 HV_ANYSIZE_ARRAY)])"

definition VMBUS_CHANNEL_GPADL_CREATED :: cty where
  "VMBUS_CHANNEL_GPADL_CREATED = Struct 1 (flds_of [
       mem ''Header'' VMBUS_CHANNEL_MESSAGE_HEADER, mem ''ChildRelId'' U32, mem ''Gpadl'' U32,
       mem ''CreationStatus'' U32])"

definition VMBUS_CHANNEL_GPADL_TEARDOWN :: cty where
  "VMBUS_CHANNEL_GPADL_TEARDOWN = Struct 1 (flds_of [
       mem ''Header'' VMBUS_CHANNEL_MESSAGE_HEADER, mem ''ChildRelId'' U32, mem ''Gpadl'' U32])"

definition VMBUS_CHANNEL_GPADL_TORNDOWN :: cty where
  "VMBUS_CHANNEL_GPADL_TORNDOWN = Struct 1 (flds_of [
       mem ''Header'' VMBUS_CHANNEL_MESSAGE_HEADER, mem ''Gpadl'' U32])"

definition VMBUS_CHANNEL_RELID_RELEASED :: cty where
  "VMBUS_CHANNEL_RELID_RELEASED = Struct 1 (flds_of [
       mem ''Header'' VMBUS_CHANNEL_MESSAGE_HEADER, mem ''ChildRelId'' U32])"

definition VMBUS_CHANNEL_INITIATE_CONTACT :: cty where
  "VMBUS_CHANNEL_INITIATE_CONTACT = Struct 1 (flds_of [
       mem ''Header'' VMBUS_CHANNEL_MESSAGE_HEADER, mem ''VMBusVersionRequested'' U32,
       mem ''TargetMessageVp'' U32,
       mem '''' (Union 1 (flds_of [mem ''InterruptPage'' U64,
          mem '''' (Struct 1 (flds_of [mem ''TargetSint'' U8, mem ''TargetVtl'' U8, mem ''Reserved'' (Arr U8 2),
             mem ''FeatureFlags'' U32]))])),
       mem ''ParentToChildMonitorPageGpa'' U64, mem ''ChildToParentMonitorPageGpa'' U64,
       mem ''ClientId'' HV_GUID])"

definition VMBUS_CHANNEL_INITIATE_CONTACT_MIN_SIZE :: "abi \<Rightarrow> nat option" where
  "VMBUS_CHANNEL_INITIATE_CONTACT_MIN_SIZE A = HV_FIELD_OFFSET A VMBUS_CHANNEL_INITIATE_CONTACT [''ClientId'']"

definition VMBUS_CHANNEL_VERSION_RESPONSE :: cty where
  "VMBUS_CHANNEL_VERSION_RESPONSE = Struct 1 (flds_of [
       mem ''Header'' VMBUS_CHANNEL_MESSAGE_HEADER, mem ''VersionSupported'' U8,
       mem ''ConnectionState'' U8, mem ''Pad'' (Arr U8 2),
       mem '''' (Union 1 (flds_of [mem ''SelectedVersion'' U32, mem ''ConnectionId'' U32])),
       mem ''SupportedFeatures'' U32])"

definition VMBUS_CHANNEL_VERSION_RESPONSE_MIN_SIZE :: "abi \<Rightarrow> nat option" where
  "VMBUS_CHANNEL_VERSION_RESPONSE_MIN_SIZE A = HV_FIELD_OFFSET A VMBUS_CHANNEL_VERSION_RESPONSE [''SupportedFeatures'']"

definition VmbusChannelConnectionState :: enum_tab where
  "VmbusChannelConnectionState = enum_of [
     (''VmbusChannelConnectionSuccessful'', Val 0),
     (''VmbusChannelConnectionFailedLowResources'', Val 1),
     (''VmbusChannelConnectionFailedUnknownFailure'', Val 2)]"

definition VMBUS_CHANNEL_UNLOAD :: cty where "VMBUS_CHANNEL_UNLOAD = VMBUS_CHANNEL_MESSAGE_HEADER"

definition VMBUS_CHANNEL_UNLOAD_COMPLETE :: cty where "VMBUS_CHANNEL_UNLOAD_COMPLETE = VMBUS_CHANNEL_MESSAGE_HEADER"

definition VMBUS_CHANNEL_OPEN_RESERVED_CHANNEL :: cty where
  "VMBUS_CHANNEL_OPEN_RESERVED_CHANNEL = Struct 1 (flds_of [
       mem ''Header'' VMBUS_CHANNEL_MESSAGE_HEADER, mem ''ChannelId'' U32, mem ''TargetVp'' U32,
       mem ''TargetSint'' U32, mem ''RingBufferGpadl'' U32, mem ''DownstreamPageOffset'' U32])"

definition VMBUS_CHANNEL_CLOSE_RESERVED_CHANNEL :: cty where
  "VMBUS_CHANNEL_CLOSE_RESERVED_CHANNEL = Struct 1 (flds_of [
       mem ''Header'' VMBUS_CHANNEL_MESSAGE_HEADER, mem ''ChannelId'' U32, mem ''TargetVp'' U32,
       mem ''TargetSint'' U32])"

definition VMBUS_CHANNEL_CLOSE_RESERVED_RESPONSE :: cty where
  "VMBUS_CHANNEL_CLOSE_RESERVED_RESPONSE = Struct 1 (flds_of [
       mem ''Header'' VMBUS_CHANNEL_MESSAGE_HEADER, mem ''ChannelId'' U32])"

definition VMBUS_CHANNEL_TL_CONNECT_REQUEST :: cty where
  "VMBUS_CHANNEL_TL_CONNECT_REQUEST = Struct 1 (flds_of [
       mem ''Header'' VMBUS_CHANNEL_MESSAGE_HEADER, mem ''EndpointId'' HV_GUID,
       mem ''ServiceId'' HV_GUID,
       mem '''' (Union 1 (flds_of [mem ''SiloId'' HV_GUID, mem ''WindowsRS1Offset'' U8]))])"

definition VMBUS_CHANNEL_TL_CONNECT_REQUEST_PRE_RS5_SIZE :: "abi \<Rightarrow> nat option" where
  "VMBUS_CHANNEL_TL_CONNECT_REQUEST_PRE_RS5_SIZE A = HV_FIELD_OFFSET A VMBUS_CHANNEL_TL_CONNECT_REQUEST [''WindowsRS1Offset'']"

definition VMBUS_CHANNEL_TL_CONNECT_RESULT :: cty where
  "VMBUS_CHANNEL_TL_CONNECT_RESULT = Struct 1 (flds_of [
       mem ''Header'' VMBUS_CHANNEL_MESSAGE_HEADER, mem ''EndpointId'' HV_GUID,
       mem ''ServiceId'' HV_GUID, mem ''Status'' NTSTATUS])"

definition VMBUS_CHANNEL_MODIFY_CONNECTION :: cty where
  "VMBUS_CHANNEL_MODIFY_CONNECTION = Struct 1 (flds_of [
       mem ''Header'' VMBUS_CHANNEL_MESSAGE_HEADER, mem ''ParentToChildMonitorPageGpa'' U64,
       mem ''ChildToParentMonitorPageGpa'' U64])"

definition VMBUS_CHANNEL_MODIFY_CONNECTION_RESPONSE :: cty where
  "VMBUS_CHANNEL_MODIFY_CONNECTION_RESPONSE = Struct 1 (flds_of [
       mem ''Header'' VMBUS_CHANNEL_MESSAGE_HEADER, mem ''ConnectionState'' U8])"

definition VMBUS_MESSAGE_CONNECTION_ID :: "32 word" where "VMBUS_MESSAGE_CONNECTION_ID = 1"

definition VMBUS_MESSAGE_TYPE :: "32 word" where "VMBUS_MESSAGE_TYPE = 1"

definition VMBUS_MAX_GPADLS :: "32 word" where "VMBUS_MAX_GPADLS = 256"

definition ENDPOINT_TYPE :: enum_tab where
  "ENDPOINT_TYPE = enum_of [
     (''VmbusServerEndpoint'', Val 0), (''VmbusClientEndpoint'', Auto),
     (''VmbusEndpointMaximum'', Auto)]"

definition VMRCB :: cty where
  "VMRCB = Struct 1 (flds_of [
       mem ''In'' U32, mem ''Out'' U32, mem ''InterruptMask'' U32, mem ''PendingSendSize'' U32,
       mem ''Reserved'' (Arr U32 12),
       mem ''FeatureBits'' (Union 1 (flds_of [mem '''' (Struct 1 (flds_of [bits ''SupportsPendingSendSize'' U32 1])), mem ''Value'' U32]))])"

definition VMPACKET_DESCRIPTOR :: cty where
  "VMPACKET_DESCRIPTOR = Struct 1 (flds_of [
       mem ''Type'' U16, mem ''DataOffset8'' U16, mem ''Length8'' U16, mem ''Flags'' U16,
       mem ''TransactionId'' U64])"

definition PREVIOUS_PACKET_OFFSET :: cty where
  "PREVIOUS_PACKET_OFFSET = Union 1 (flds_of [
       mem '''' (Struct 1 (flds_of [mem ''Reserved'' U32, mem ''Offset'' U32])),
       mem ''AsUINT64'' U64])"

definition VMTRANSFER_PAGE_RANGE :: cty where
  "VMTRANSFER_PAGE_RANGE = Struct 1 (flds_of [
       mem ''ByteCount'' U32, mem ''ByteOffset'' U32])"

definition VMTRANSFER_PAGE_PACKET_HEADER :: cty where
  "VMTRANSFER_PAGE_PACKET_HEADER = Struct 1 (flds_of [
       mem ''Descriptor'' VMPACKET_DESCRIPTOR, mem ''TransferPageSetId'' U16,
       mem ''SenderOwnsSet'' U8, mem ''Reserved'' U8, mem ''RangeCount'' U32,
       mem ''Ranges'' (Arr VMTRANSFER_PAGE_RANGE HV_ANYSIZE_ARRAY)])"

definition VMDATA_GPA_DIRECT :: cty where
  "VMDATA_GPA_DIRECT = Struct 1 (flds_of [
       mem ''Descriptor'' VMPACKET_DESCRIPTOR, mem ''Reserved'' U32, mem ''RangeCount'' U32,
       mem ''Range'' (Arr GPA_RANGE HV_ANYSIZE_ARRAY)])"

definition VMPIPE_PROTOCOL_MESSAGE_TYPE :: enum_tab where
  "VMPIPE_PROTOCOL_MESSAGE_TYPE = enum_of [
     (''VmPipeMessageInvalid'', Val 0), (''VmPipeMessageData'', Val 1),
     (''VmPipeMessagePartial'', Val 2), (''VmPipeMessageSetupGpaDirect'', Val 3),
     (''VmPipeMessageTeardownGpaDirect'', Val 4), (''VmPipeMessageIndicationComplete'', Val 5)]"

definition VMPIPE_PROTOCOL_HEADER :: cty where
  "VMPIPE_PROTOCOL_HEADER = Struct 1 (flds_of [
       mem ''PacketType'' Enum_ty,
       mem '''' (Union 1 (flds_of [mem ''DataSize'' U32,
          mem ''Partial'' (Struct 1 (flds_of [mem ''DataSize'' U16, mem ''Offset'' U16]))]))])"

definition VMPIPE_SETUP_GPA_DIRECT_BODY :: cty where
  "VMPIPE_SETUP_GPA_DIRECT_BODY = Struct 1 (flds_of [
       mem ''Handle'' U32, mem ''IsWritable'' U8, mem ''RangeCount'' U32,
       mem ''Range'' (Arr GPA_RANGE HV_ANYSIZE_ARRAY)])"

definition VMPIPE_TEARDOWN_GPA_DIRECT_BODY :: cty where
  "VMPIPE_TEARDOWN_GPA_DIRECT_BODY = Struct 1 (flds_of [
       mem ''Handle'' U32])"

definition VMBUS_PACKET_TYPE :: enum_tab where
  "VMBUS_PACKET_TYPE = enum_of [
     (''VmbusPacketTypeInvalid'', Val 0), (''VmbusPacketTypeDataInBand'', Val 6),
     (''VmbusPacketTypeDataUsingTransferPages'', Val 7),
     (''VmbusPacketTypeDataUsingGpaDirect'', Val 9), (''VmbusPacketTypeCancelRequest'', Val 10),
     (''VmbusPacketTypeCompletion'', Val 11)]"

definition VMBUS_DATA_PACKET_FLAG_COMPLETION_REQUESTED :: "32 word" where
  "VMBUS_DATA_PACKET_FLAG_COMPLETION_REQUESTED = 1"

definition VMTRANSFER_PAGE_RANGES :: cty where
  "VMTRANSFER_PAGE_RANGES = Struct 0 (flds_of [
       mem ''Next'' Ptr_ty, mem ''RangeCount'' U32,
       mem ''Range'' (Arr VMTRANSFER_PAGE_RANGE HV_ANYSIZE_ARRAY)])"

section \<open>Video\<close>

definition SYNTHVID_CLASS_ID :: guid where
  "SYNTHVID_CLASS_ID = \<lparr>Data1 = 0xDA0A7802, Data2 = 0xE377, Data3 = 0x4AAC,
     Data4 = [0x8E, 0x77, 0x05, 0x58, 0xEB, 0x10, 0x73, 0xF8]\<rparr>"

definition SYNTHVID_VERSION_MAJOR :: "32 word" where "SYNTHVID_VERSION_MAJOR = 3"

definition SYNTHVID_VERSION_MINOR :: "32 word" where "SYNTHVID_VERSION_MINOR = 5"

definition SYNTHVID_VERSION_CURRENT :: "32 word" where
  "SYNTHVID_VERSION_CURRENT = (push_bit 16 SYNTHVID_VERSION_MINOR) OR SYNTHVID_VERSION_MAJOR"

definition SYNTHVID_MESSAGE_TYPE :: enum_tab where
  "SYNTHVID_MESSAGE_TYPE = enum_of [
     (''SynthvidError'', Val 0), (''SynthvidVersionRequest'', Val 1),
     (''SynthvidVersionResponse'', Val 2), (''SynthvidVramLocation'', Val 3),
     (''SynthvidVramLocationAck'', Val 4), (''SynthvidSituationUpdate'', Val 5),
     (''SynthvidSituationUpdateAck'', Val 6), (''SynthvidPointerPosition'', Val 7),
     (''SynthvidPointerShape'', Val 8), (''SynthvidFeatureChange'', Val 9),
     (''SynthvidDirt'', Val 10), (''SynthvidBiosInfoRequest'', Val 11),
     (''SynthvidBiosInfoResponse'', Val 12), (''SynthvidMax'', Val 13)]"

definition SYNTHVID_MESSAGE_HEADER :: cty where
  "SYNTHVID_MESSAGE_HEADER = Struct 1 (flds_of [
       mem ''Type'' Enum_ty, mem ''Size'' U32])"

definition SYNTHVID_MESSAGE :: cty where
  "SYNTHVID_MESSAGE = Struct 1 (flds_of [
       mem ''Header'' SYNTHVID_MESSAGE_HEADER, mem ''Data'' (Arr U8 HV_ANYSIZE_ARRAY)])"

definition SYNTHVID_VERSION :: cty where
  "SYNTHVID_VERSION = Union 1 (flds_of [
       mem '''' (Struct 1 (flds_of [mem ''MajorVersion'' U16, mem ''MinorVersion'' U16])),
       mem ''AsDWORD'' U32])"

definition SYNTHVID_VERSION_REQUEST_MESSAGE :: cty where
  "SYNTHVID_VERSION_REQUEST_MESSAGE = Struct 1 (flds_of [
       mem ''Header'' SYNTHVID_MESSAGE_HEADER, mem ''Version'' SYNTHVID_VERSION])"

definition SYNTHVID_VERSION_RESPONSE_MESSAGE :: cty where
  "SYNTHVID_VERSION_RESPONSE_MESSAGE = Struct 1 (flds_of [
       mem ''Header'' SYNTHVID_MESSAGE_HEADER, mem ''Version'' SYNTHVID_VERSION,
       mem ''IsAccepted'' U8, mem ''MaxVideoOutputs'' U8])"

definition SYNTHVID_VRAM_LOCATION_MESSAGE :: cty where
  "SYNTHVID_VRAM_LOCATION_MESSAGE = Struct 1 (flds_of [
       mem ''Header'' SYNTHVID_MESSAGE_HEADER, mem ''UserContext'' U64,
       mem ''IsVramGpaAddressSpecified'' U8, mem ''VramGpaAddress'' U64])"

definition SYNTHVID_VRAM_LOCATION_ACK_MESSAGE :: cty where
  "SYNTHVID_VRAM_LOCATION_ACK_MESSAGE = Struct 1 (flds_of [
       mem ''Header'' SYNTHVID_MESSAGE_HEADER, mem ''UserContext'' U64])"

definition VIDEO_OUTPUT_SITUATION :: cty where
  "VIDEO_OUTPUT_SITUATION = Struct 1 (flds_of [
       mem ''Active'' U8, mem ''PrimarySurfaceVramOffset'' U32, mem ''DepthBits'' U8,
       mem ''WidthPixels'' U32, mem ''HeightPixels'' U32, mem ''PitchBytes'' U32])"

definition SYNTHVID_SITUATION_UPDATE_MESSAGE :: cty where
  "SYNTHVID_SITUATION_UPDATE_MESSAGE = Struct 1 (flds_of [
       mem ''Header'' SYNTHVID_MESSAGE_HEADER, mem ''UserContext'' U64,
       mem ''VideoOutputCount'' U8,
       mem ''VideoOutput'' (Arr VIDEO_OUTPUT_SITUATION HV_ANYSIZE_ARRAY)])"

definition SYNTHVID_SITUATION_UPDATE_ACK_MESSAGE :: cty where
  "SYNTHVID_SITUATION_UPDATE_ACK_MESSAGE = Struct 1 (flds_of [
       mem ''Header'' SYNTHVID_MESSAGE_HEADER, mem ''UserContext'' U64])"

definition DEFAULT_VRAM_SIZE_WIN7 :: "32 word" where "DEFAULT_VRAM_SIZE_WIN7 = (4 * 1024) * 1024"

definition DEFAULT_VRAM_SIZE_WIN8 :: "32 word" where
  "DEFAULT_VRAM_SIZE_WIN8 = 2 * DEFAULT_VRAM_SIZE_WIN7"

section \<open>Virtual Keyboard\<close>

definition HK_CLASS_ID :: guid where
  "HK_CLASS_ID = \<lparr>Data1 = 0xF912AD6D, Data2 = 0x2B17, Data3 = 0x48EA,
     Data4 = [0xBD, 0x65, 0xF9, 0x27, 0xA6, 0x1C, 0x76, 0x84]\<rparr>"

definition HK_MAKE_VERSION :: "32 word \<Rightarrow> 32 word \<Rightarrow> 32 word" where
  "HK_MAKE_VERSION major minor = (push_bit 16 major) OR minor"

definition HK_VERSION_WIN8 :: "32 word" where "HK_VERSION_WIN8 = HK_MAKE_VERSION 1 0"

definition HK_MESSAGE_TYPE :: enum_tab where
  "HK_MESSAGE_TYPE = enum_of [
     (''HkMessageProtocolRequest'', Val 1), (''HkMessageProtocolResponse'', Val 2),
     (''HkMessageEvent'', Val 3), (''HkMessageSetLedIndicators'', Val 4)]"

definition HK_MESSAGE_HEADER :: cty where
  "HK_MESSAGE_HEADER = Struct 0 (flds_of [
       mem ''MessageType'' Enum_ty])"

definition HK_MESSAGE_PROTOCOL_REQUEST :: cty where
  "HK_MESSAGE_PROTOCOL_REQUEST = Struct 0 (flds_of [
       mem ''Header'' HK_MESSAGE_HEADER, mem ''Version'' U32])"

definition HK_MESSAGE_LED_INDICATORS_STATE :: cty where
  "HK_MESSAGE_LED_INDICATORS_STATE = Struct 0 (flds_of [
       mem ''Header'' HK_MESSAGE_HEADER, mem ''LedFlags'' U16])"

definition HK_MESSAGE_PROTOCOL_RESPONSE :: cty where
  "HK_MESSAGE_PROTOCOL_RESPONSE = Struct 0 (flds_of [
       mem ''Header'' HK_MESSAGE_HEADER, bits ''Accepted'' U32 1, bits ''Reserved'' U32 31])"

definition HK_MESSAGE_KEYSTROKE :: cty where
  "HK_MESSAGE_KEYSTROKE = Struct 0 (flds_of [
       mem ''Header'' HK_MESSAGE_HEADER, mem ''MakeCode'' U16, bits ''IsUnicode'' U32 1,
       bits ''IsBreak'' U32 1, bits ''IsE0'' U32 1, bits ''IsE1'' U32 1, bits ''Reserved'' U32 28])"

definition HK_MAXIMUM_MESSAGE_SIZE :: "32 word" where "HK_MAXIMUM_MESSAGE_SIZE = 256"

section \<open>SCSI Controller\<close>

definition VMSCSI_CLASS_ID :: guid where
  "VMSCSI_CLASS_ID = \<lparr>Data1 = 0xBA6163D9, Data2 = 0x04A1, Data3 = 0x4D29,
     Data4 = [0xB6, 0x05, 0x72, 0xE2, 0xFF, 0xB1, 0xDC, 0x7F]\<rparr>"

definition VMSTOR_PROTOCOL_MAJOR :: "32 word \<Rightarrow> 32 word" where
  "VMSTOR_PROTOCOL_MAJOR version = (drop_bit 8 version) AND 0xff"

definition VMSTOR_PROTOCOL_MINOR :: "32 word \<Rightarrow> 32 word" where
  "VMSTOR_PROTOCOL_MINOR version = version AND 0xff"

definition VMSTOR_PROTOCOL_VERSION :: "32 word \<Rightarrow> 32 word \<Rightarrow> 32 word" where
  "VMSTOR_PROTOCOL_VERSION major minor = (push_bit 8 (major AND 0xff)) OR (minor AND 0xff)"

definition VMSTOR_PROTOCOL_VERSION_WIN6 :: "32 word" where
  "VMSTOR_PROTOCOL_VERSION_WIN6 = VMSTOR_PROTOCOL_VERSION 2 0"

definition VMSTOR_PROTOCOL_VERSION_WIN7 :: "32 word" where
  "VMSTOR_PROTOCOL_VERSION_WIN7 = VMSTOR_PROTOCOL_VERSION 4 2"

definition VMSTOR_PROTOCOL_VERSION_WIN8 :: "32 word" where
  "VMSTOR_PROTOCOL_VERSION_WIN8 = VMSTOR_PROTOCOL_VERSION 5 1"

definition VMSTOR_PROTOCOL_VERSION_BLUE :: "32 word" where
  "VMSTOR_PROTOCOL_VERSION_BLUE = VMSTOR_PROTOCOL_VERSION 6 0"

definition VMSTOR_PROTOCOL_VERSION_CURRENT :: "32 word" where
  "VMSTOR_PROTOCOL_VERSION_CURRENT = VMSTOR_PROTOCOL_VERSION_BLUE"

definition MAX_TRANSFER_LENGTH :: "32 word" where "MAX_TRANSFER_LENGTH = (8 * 1024) * 1024"

definition VMSTOR_PROPERTY_AN_CAPABLE :: "32 word" where "VMSTOR_PROPERTY_AN_CAPABLE = 0x1"

definition VSTOR_PACKET_OPERATION :: enum_tab where
  "VSTOR_PACKET_OPERATION = enum_of [
     (''VStorOperationCompleteIo'', Val 1), (''VStorOperationRemoveDevice'', Val 2),
     (''VStorOperationExecuteSRB'', Val 3), (''VStorOperationResetLun'', Val 4),
     (''VStorOperationResetAdapter'', Val 5), (''VStorOperationResetBus'', Val 6),
     (''VStorOperationBeginInitialization'', Val 7),
     (''VStorOperationEndInitialization'', Val 8),
     (''VStorOperationQueryProtocolVersion'', Val 9),
     (''VStorOperationQueryProperties'', Val 10), (''VStorOperationEnumerateBus'', Val 11),
     (''VStorOperationFcHbaData'', Val 12), (''VStorOperationCreateSubChannels'', Val 13),
     (''VStorOperationEventNotification'', Val 14), (''VStorOperationMaximum'', Val 14)]"

definition CDB16GENERIC_LENGTH :: nat where "CDB16GENERIC_LENGTH = 16"

definition MAX_DATA_BUFFER_LENGTH_WITH_PADDING :: nat where "MAX_DATA_BUFFER_LENGTH_WITH_PADDING = 20"

definition VMSCSI_SENSE_BUFFER_SIZE_REVISION_1 :: "32 word" where
  "VMSCSI_SENSE_BUFFER_SIZE_REVISION_1 = 0x12"

definition VMSCSI_SENSE_BUFFER_SIZE :: nat where "VMSCSI_SENSE_BUFFER_SIZE = 20"

definition VMSCSI_REQUEST :: cty where
  "VMSCSI_REQUEST = Struct 1 (flds_of [
       mem ''Length'' U16, mem ''SrbStatus'' U8, mem ''ScsiStatus'' U8, mem ''Reserved1'' U8,
       mem ''PathId'' U8, mem ''TargetId'' U8, mem ''Lun'' U8, mem ''CdbLength'' U8,
       mem ''SenseInfoExLength'' U8, mem ''DataIn'' U8, mem ''Properties'' U8,
       mem ''DataTransferLength'' U32,
       mem '''' (Union 1 (flds_of [mem ''Cdb'' (Arr U8 CDB16GENERIC_LENGTH),
          mem ''SenseDataEx'' (Arr U8 VMSCSI_SENSE_BUFFER_SIZE),
          mem ''ReservedArray'' (Arr U8 MAX_DATA_BUFFER_LENGTH_WITH_PADDING)])),
       mem ''Reserve'' U16, mem ''QueueTag'' U8, mem ''QueueAction'' U8, mem ''SrbFlags'' U32,
       mem ''TimeOutValue'' U32, mem ''QueueSortKey'' U32])"

definition VMSTORAGE_SIZEOF_VMSCSI_REQUEST_REVISION_1 :: "abi \<Rightarrow> nat option" where
  "VMSTORAGE_SIZEOF_VMSCSI_REQUEST_REVISION_1 A = HV_FIELD_OFFSET A VMSCSI_REQUEST [''Reserve'']"

definition VMSTORAGE_SIZEOF_VMSCSI_REQUEST_REVISION_2 :: "abi \<Rightarrow> nat option" where
  "VMSTORAGE_SIZEOF_VMSCSI_REQUEST_REVISION_2 A = HV_FIELD_SIZE_THROUGH A VMSCSI_REQUEST [''QueueSortKey'']"

definition VMSTORAGE_CHANNEL_PROPERTIES :: cty where
  "VMSTORAGE_CHANNEL_PROPERTIES = Struct 1 (flds_of [
       mem ''Reserved'' U32, mem ''MaximumSubChannelCount'' U16, mem ''Reserved2'' U16,
       mem ''Flags'' U32, mem ''MaxTransferBytes'' U32, mem ''Reserved3'' U64])"

definition STORAGE_CHANNEL_SUPPORTS_MULTI_CHANNEL :: "32 word" where
  "STORAGE_CHANNEL_SUPPORTS_MULTI_CHANNEL = 0x1"

definition VMSTORAGE_OFFER_PROPERTIES :: cty where
  "VMSTORAGE_OFFER_PROPERTIES = Struct 1 (flds_of [
       mem ''Reserved'' U16, mem ''PathId'' U8, mem ''TargetId'' U8, mem ''Reserved2'' U32,
       mem ''Flags'' U32, mem ''Reserved3'' (Arr U32 3)])"

definition STORAGE_OFFER_EMULATED_IDE_FLAG :: "32 word" where
  "STORAGE_OFFER_EMULATED_IDE_FLAG = 0x2"

definition VMSTORAGE_PROTOCOL_VERSION :: cty where
  "VMSTORAGE_PROTOCOL_VERSION = Struct 1 (flds_of [
       mem ''MajorMinor'' U16, mem ''Build'' U16])"

definition VMFC_WWN_PACKET :: cty where
  "VMFC_WWN_PACKET = Struct 1 (flds_of [
       mem ''PrimaryWwnActive'' U8, mem ''Reserved1'' U8, mem ''Reserved2'' U16,
       mem ''PrimaryPortWwn'' (Arr U8 8), mem ''PrimaryNodeWwn'' (Arr U8 8),
       mem ''SecondaryPortWwn'' (Arr U8 8), mem ''SecondaryNodeWwn'' (Arr U8 8)])"

definition VSTOR_CLIENT_PROPERTIES :: cty where
  "VSTOR_CLIENT_PROPERTIES = Struct 1 (flds_of [
       bits ''AsyncNotifyCapable'' U32 1, bits ''Reserved'' U32 31])"

definition VSTOR_ASYNC_REGISTER_PACKET :: cty where
  "VSTOR_ASYNC_REGISTER_PACKET = Struct 1 (flds_of [
       mem ''Lun'' U8, mem ''Target'' U8, mem ''Path'' U8, mem ''Register'' U8])"

definition VSTOR_NOTIFICATION_PACKET :: cty where
  "VSTOR_NOTIFICATION_PACKET = Struct 1 (flds_of [
       mem ''Lun'' U8, mem ''Target'' U8, mem ''Path'' U8, mem ''Flags'' U8])"

definition VSTOR_PACKET :: cty where
  "VSTOR_PACKET = Struct 1 (flds_of [
       mem ''Operation'' Enum_ty, mem ''Flags'' U32, mem ''Status'' U32,
       mem '''' (Union 1 (flds_of [mem ''VmSrb'' VMSCSI_REQUEST,
          mem ''StorageChannelProperties'' VMSTORAGE_CHANNEL_PROPERTIES,
          mem ''Version'' VMSTORAGE_PROTOCOL_VERSION, mem ''FcWwnPacket'' VMFC_WWN_PACKET,
          mem ''SubChannelCount'' U16, mem ''ClientProperties'' VSTOR_CLIENT_PROPERTIES,
          mem ''NotificationPacket'' VSTOR_NOTIFICATION_PACKET, mem ''Buffer'' (Arr U8 52)]))])"

definition VMSTORAGE_SIZEOF_VSTOR_PACKET_REVISION_1 :: "abi \<Rightarrow> nat option" where
  "VMSTORAGE_SIZEOF_VSTOR_PACKET_REVISION_1 A =
     add_size (HV_FIELD_SIZE_THROUGH A VSTOR_PACKET [''Status''])
       (VMSTORAGE_SIZEOF_VMSCSI_REQUEST_REVISION_1 A)"

definition VMSTORAGE_SIZEOF_VSTOR_PACKET_REVISION_2 :: "abi \<Rightarrow> nat option" where
  "VMSTORAGE_SIZEOF_VSTOR_PACKET_REVISION_2 A =
     add_size (HV_FIELD_SIZE_THROUGH A VSTOR_PACKET [''Status''])
       (VMSTORAGE_SIZEOF_VMSCSI_REQUEST_REVISION_2 A)"

definition REQUEST_COMPLETION_FLAG :: "32 word" where "REQUEST_COMPLETION_FLAG = 0x1"

definition VSC_LEGAL_FLAGS :: "32 word" where "VSC_LEGAL_FLAGS = REQUEST_COMPLETION_FLAG"

definition ADAPTER_ADDRESS :: cty where
  "ADAPTER_ADDRESS = Struct 0 (flds_of [
       mem ''PartitionId'' U64, mem ''ChannelInstanceGUID'' HV_GUID, mem ''Reserved'' U8,
       mem ''PathId'' U8, mem ''TargetId'' U8, mem ''Lun'' U8, mem ''Flags'' U32,
       mem ''PrimaryWwnActive'' U8, mem ''PrimaryPortWwn'' (Arr U8 8),
       mem ''PrimaryNodeWwn'' (Arr U8 8), mem ''SecondaryPortWwn'' (Arr U8 8),
       mem ''SecondaryNodeWwn'' (Arr U8 8)])"

definition ADAPTER_ADDRESS_EMULATED_DEVICE :: "32 word" where
  "ADAPTER_ADDRESS_EMULATED_DEVICE = 0x1"

definition ADAPTER_ADDRESS_SYNTHFC_DEVICE :: "32 word" where
  "ADAPTER_ADDRESS_SYNTHFC_DEVICE = 0x2"

definition VSTORAGE_ALIGNMENT_MASK :: "32 word" where "VSTORAGE_ALIGNMENT_MASK = 0x01"

section \<open>Network Adapter\<close>

definition NVSP_CLASS_ID :: guid where
  "NVSP_CLASS_ID = \<lparr>Data1 = 0xF8615163, Data2 = 0xDF3E, Data3 = 0x46C5,
     Data4 = [0x91, 0x3F, 0xF2, 0xD2, 0xF9, 0x65, 0xED, 0x0E]\<rparr>"

definition NVSP_INVALID_PROTOCOL_VERSION :: "32 word" where
  "NVSP_INVALID_PROTOCOL_VERSION = 0xFFFFFFFF"

definition NVSP_PROTOCOL_MAJOR :: "32 word \<Rightarrow> 32 word" where
  "NVSP_PROTOCOL_MAJOR version = (drop_bit 16 version) AND 0xFFFF"

definition NVSP_PROTOCOL_MINOR :: "32 word \<Rightarrow> 32 word" where
  "NVSP_PROTOCOL_MINOR version = version AND 0xFFFF"

definition NVSP_PROTOCOL_VERSION :: "32 word \<Rightarrow> 32 word \<Rightarrow> 32 word" where
  "NVSP_PROTOCOL_VERSION major minor = (push_bit 16 (major AND 0xFFFF)) OR (minor AND 0xFFFF)"

definition NVSP_PROTOCOL_VERSION_1 :: "32 word" where
  "NVSP_PROTOCOL_VERSION_1 = NVSP_PROTOCOL_VERSION 0 2"

definition NVSP_PROTOCOL_VERSION_2 :: "32 word" where
  "NVSP_PROTOCOL_VERSION_2 = NVSP_PROTOCOL_VERSION 3 2"

definition NVSP_PROTOCOL_VERSION_4 :: "32 word" where
  "NVSP_PROTOCOL_VERSION_4 = NVSP_PROTOCOL_VERSION 4 0"

definition NVSP_PROTOCOL_VERSION_5 :: "32 word" where
  "NVSP_PROTOCOL_VERSION_5 = NVSP_PROTOCOL_VERSION 5 0"

definition NVSP_PROTOCOL_VERSION_CURRENT :: "32 word" where
  "NVSP_PROTOCOL_VERSION_CURRENT = NVSP_PROTOCOL_VERSION_5"

definition NVSP_PROTOCOL_VERSION_IS_VALID :: "32 word \<Rightarrow> bool" where
  "NVSP_PROTOCOL_VERSION_IS_VALID version \<longleftrightarrow>
     version = NVSP_PROTOCOL_VERSION_5 \<or> version = NVSP_PROTOCOL_VERSION_4 \<or>
     version = NVSP_PROTOCOL_VERSION_2 \<or> version = NVSP_PROTOCOL_VERSION_1"

definition NVSP_OPERATIONAL_STATUS_OK :: "32 word" where "NVSP_OPERATIONAL_STATUS_OK = 0x00000000"

definition NVSP_OPERATIONAL_STATUS_DEGRADED :: "32 word" where
  "NVSP_OPERATIONAL_STATUS_DEGRADED = 0x00000001"

definition NVSP_OPERATIONAL_STATUS_NONRECOVERABLE :: "32 word" where
  "NVSP_OPERATIONAL_STATUS_NONRECOVERABLE = 0x00000002"

definition NVSP_OPERATIONAL_STATUS_NO_CONTACT :: "32 word" where
  "NVSP_OPERATIONAL_STATUS_NO_CONTACT = 0x00000003"

definition NVSP_OPERATIONAL_STATUS_LOST_COMMUNICATION :: "32 word" where
  "NVSP_OPERATIONAL_STATUS_LOST_COMMUNICATION = 0x00000004"

definition NVSP_MAX_PACKETS_PER_RECEIVE :: "32 word" where "NVSP_MAX_PACKETS_PER_RECEIVE = 375"

definition VMS_SWITCH_RSS_MAX_RSS_PROC_COUNT :: "32 word" where
  "VMS_SWITCH_RSS_MAX_RSS_PROC_COUNT = 16"

definition NVSP_MESSAGE_TYPE :: enum_tab where
  "NVSP_MESSAGE_TYPE = enum_of [
     (''NvspMessageTypeNone'', Val 0), (''NvspMessageTypeInit'', Val 1),
     (''NvspMessageTypeInitComplete'', Val 2), (''NvspVersionMessageStart'', Val 100),
     (''NvspMessage1TypeSendNdisVersion'', Same ''NvspVersionMessageStart''),
     (''NvspMessage1TypeSendReceiveBuffer'', Auto),
     (''NvspMessage1TypeSendReceiveBufferComplete'', Auto),
     (''NvspMessage1TypeRevokeReceiveBuffer'', Auto),
     (''NvspMessage1TypeSendSendBuffer'', Auto),
     (''NvspMessage1TypeSendSendBufferComplete'', Auto),
     (''NvspMessage1TypeRevokeSendBuffer'', Auto), (''NvspMessage1TypeSendRNDISPacket'', Auto),
     (''NvspMessage1TypeSendRNDISPacketComplete'', Auto),
     (''NvspMessage1Max'', Same ''NvspMessage1TypeSendRNDISPacketComplete''),
     (''NvspMessage2TypeSendChimneyDelegatedBuffer'', Auto),
     (''NvspMessage2TypeSendChimneyDelegatedBufferComplete'', Auto),
     (''NvspMessage2TypeRevokeChimneyDelegatedBuffer'', Auto),
     (''NvspMessage2TypeResumeChimneyRXIndication'', Auto),
     (''NvspMessage2TypeTerminateChimney'', Auto),
     (''NvspMessage2TypeTerminateChimneyComplete'', Auto),
     (''NvspMessage2TypeIndicateChimneyEvent'', Auto),
     (''NvspMessage2TypeSendChimneyPacket'', Auto),
     (''NvspMessage2TypeSendChimneyPacketComplete'', Auto),
     (''NvspMessage2TypePostChimneyRecvRequest'', Auto),
     (''NvspMessage2TypePostChimneyRecvRequestComplete'', Auto),
     (''NvspMessage2TypeAllocateReceiveBufferDeprecated'', Auto),
     (''NvspMessage2TypeAllocateReceiveBufferCompleteDeprecated'', Auto),
     (''NvspMessage2TypeFreeReceiveBufferDeprecated'', Auto),
     (''NvspMessage2SendVmqRndisPacketDeprecated'', Auto),
     (''NvspMessage2SendVmqRndisPacketCompleteDeprecated'', Auto),
     (''NvspMessage2TypeSendNdisConfig'', Auto),
     (''NvspMessage2TypeAllocateChimneyHandle'', Auto),
     (''NvspMessage2TypeAllocateChimneyHandleComplete'', Auto),
     (''NvspMessage2Max'', Same ''NvspMessage2TypeAllocateChimneyHandleComplete''),
     (''NvspMessage4TypeSendVFAssociation'', Auto), (''NvspMessage4TypeSwitchDataPath'', Auto),
     (''NvspMessage4TypeUplinkConnectStateDeprecated'', Auto),
     (''NvspMessage4Max'', Same ''NvspMessage4TypeUplinkConnectStateDeprecated''),
     (''NvspMessage5TypeOidQueryEx'', Auto), (''NvspMessage5TypeOidQueryExComplete'', Auto),
     (''NvspMessage5TypeSubChannel'', Auto), (''NvspMessage5TypeSendIndirectionTable'', Auto),
     (''NvspMessage5Max'', Same ''NvspMessage5TypeSendIndirectionTable'')]"

definition NVSP_PROTOCOL_VERSION_1_HANDLER_COUNT :: int where
  "NVSP_PROTOCOL_VERSION_1_HANDLER_COUNT =
     (enumerator NVSP_MESSAGE_TYPE ''NvspMessage1Max''
        - enumerator NVSP_MESSAGE_TYPE ''NvspVersionMessageStart'') + 1"

definition NVSP_PROTOCOL_VERSION_2_HANDLER_COUNT :: int where
  "NVSP_PROTOCOL_VERSION_2_HANDLER_COUNT =
     (enumerator NVSP_MESSAGE_TYPE ''NvspMessage2Max''
        - enumerator NVSP_MESSAGE_TYPE ''NvspVersionMessageStart'') + 1"

definition NVSP_PROTOCOL_VERSION_4_HANDLER_COUNT :: int where
  "NVSP_PROTOCOL_VERSION_4_HANDLER_COUNT =
     (enumerator NVSP_MESSAGE_TYPE ''NvspMessage4Max''
        - enumerator NVSP_MESSAGE_TYPE ''NvspVersionMessageStart'') + 1"

definition NVSP_PROTOCOL_VERSION_5_HANDLER_COUNT :: int where
  "NVSP_PROTOCOL_VERSION_5_HANDLER_COUNT =
     (enumerator NVSP_MESSAGE_TYPE ''NvspMessage5Max''
        - enumerator NVSP_MESSAGE_TYPE ''NvspVersionMessageStart'') + 1"

definition NVSP_STATUS :: enum_tab where
  "NVSP_STATUS = enum_of [
     (''NvspStatusNone'', Val 0), (''NvspStatusSuccess'', Auto), (''NvspStatusFailure'', Auto),
     (''NvspStatusDeprecated1'', Auto), (''NvspStatusDeprecated2'', Auto),
     (''NvspStatusInvalidRndisPacket'', Auto), (''NvspStatusBusy'', Auto),
     (''NvspStatusProtocolVersionUnsupported'', Auto), (''NvspStatusMax'', Auto)]"

definition NVSP_MESSAGE_HEADER :: cty where
  "NVSP_MESSAGE_HEADER = Struct 1 (flds_of [
       mem ''MessageType'' U32])"

definition HV_NDIS_OBJECT_HEADER :: cty where
  "HV_NDIS_OBJECT_HEADER = Struct 1 (flds_of [
       mem ''Type'' U8, mem ''Revision'' U8, mem ''Size'' U16])"

definition NVSP_MESSAGE_INIT :: cty where
  "NVSP_MESSAGE_INIT = Struct 1 (flds_of [
       mem '''' (Union 1 (flds_of [mem '''' (Struct 1 (flds_of [mem ''MinorProtocolVersion'' U16, mem ''MajorProtocolVersion'' U16])),
          mem ''ProtocolVersion'' U32])),
       mem ''ProtocolVersion2'' U32])"

definition NVSP_MESSAGE_INIT_COMPLETE :: cty where
  "NVSP_MESSAGE_INIT_COMPLETE = Struct 1 (flds_of [
       mem ''Deprecated'' U32, mem ''MaximumMdlChainLength'' U32, mem ''Status'' U32])"

definition NVSP_MESSAGE_INIT_UBER :: cty where
  "NVSP_MESSAGE_INIT_UBER = Union 1 (flds_of [
       mem ''Init'' NVSP_MESSAGE_INIT, mem ''InitComplete'' NVSP_MESSAGE_INIT_COMPLETE])"

definition NVSP_1_MESSAGE_SEND_NDIS_VERSION :: cty where
  "NVSP_1_MESSAGE_SEND_NDIS_VERSION = Struct 1 (flds_of [
       mem ''NdisMajorVersion'' U32, mem ''NdisMinorVersion'' U32])"

definition NVSP_1_MESSAGE_SEND_RECEIVE_BUFFER :: cty where
  "NVSP_1_MESSAGE_SEND_RECEIVE_BUFFER = Struct 1 (flds_of [
       mem ''GpadlHandle'' U32, mem ''Id'' U16])"

definition NVSP_1_RECEIVE_BUFFER_SECTION :: cty where
  "NVSP_1_RECEIVE_BUFFER_SECTION = Struct 1 (flds_of [
       mem ''Offset'' U32, mem ''SubAllocationSize'' U32, mem ''NumSubAllocations'' U32,
       mem ''EndOffset'' U32])"

definition NVSP_1_MESSAGE_SEND_RECEIVE_BUFFER_COMPLETE :: cty where
  "NVSP_1_MESSAGE_SEND_RECEIVE_BUFFER_COMPLETE = Struct 1 (flds_of [
       mem ''Status'' U32, mem ''NumSections'' U32,
       mem ''Sections'' (Arr NVSP_1_RECEIVE_BUFFER_SECTION HV_ANYSIZE_ARRAY)])"

definition NVSP_1_MESSAGE_REVOKE_RECEIVE_BUFFER :: cty where
  "NVSP_1_MESSAGE_REVOKE_RECEIVE_BUFFER = Struct 1 (flds_of [
       mem ''Id'' U16])"

definition NVSP_1_MESSAGE_SEND_SEND_BUFFER :: cty where
  "NVSP_1_MESSAGE_SEND_SEND_BUFFER = Struct 1 (flds_of [
       mem ''GpadlHandle'' U32, mem ''Id'' U16])"

definition NVSP_1_MESSAGE_SEND_SEND_BUFFER_COMPLETE :: cty where
  "NVSP_1_MESSAGE_SEND_SEND_BUFFER_COMPLETE = Struct 1 (flds_of [
       mem ''Status'' U32, mem ''SectionSize'' U32])"

definition NVSP_1_MESSAGE_REVOKE_SEND_BUFFER :: cty where
  "NVSP_1_MESSAGE_REVOKE_SEND_BUFFER = Struct 1 (flds_of [
       mem ''Id'' U16])"

definition NVSP_1_MESSAGE_SEND_RNDIS_PACKET :: cty where
  "NVSP_1_MESSAGE_SEND_RNDIS_PACKET = Struct 1 (flds_of [
       mem ''ChannelType'' U32, mem ''SendBufferSectionIndex'' U32,
       mem ''SendBufferSectionSize'' U32])"

definition NVSP_1_MESSAGE_SEND_RNDIS_PACKET_COMPLETE :: cty where
  "NVSP_1_MESSAGE_SEND_RNDIS_PACKET_COMPLETE = Struct 1 (flds_of [
       mem ''Status'' U32])"

definition NVSP_2_NETVSC_CAPABILITIES :: cty where
  "NVSP_2_NETVSC_CAPABILITIES = Struct 1 (flds_of [
       mem '''' (Union 1 (flds_of [mem ''AsUINT64'' U64,
          mem '''' (Struct 1 (flds_of [bits ''VMQ'' U64 1, bits ''Chimney'' U64 1, bits ''SRIOV'' U64 1, bits ''Ieee8021q'' U64 1,
             bits ''CorrelationId'' U64 1, bits ''Teaming'' U64 1, bits ''VirtualSubnetId'' U64 1]))]))])"

definition NVSP_2_MESSAGE_SEND_NDIS_CONFIG :: cty where
  "NVSP_2_MESSAGE_SEND_NDIS_CONFIG = Struct 1 (flds_of [
       mem ''MTU'' U32, mem ''Reserved'' U32, mem ''Capabilities'' NVSP_2_NETVSC_CAPABILITIES])"

definition NVSP_TRANSFER_PAGE_RANGE :: cty where
  "NVSP_TRANSFER_PAGE_RANGE = Struct 1 (flds_of [
       mem ''TransferPageSetId'' U64, mem ''ByteCount'' U32, mem ''ByteOffset'' U32])"

definition NVSP_4_MESSAGE_SEND_VF_ASSOCIATION :: cty where
  "NVSP_4_MESSAGE_SEND_VF_ASSOCIATION = Struct 1 (flds_of [
       mem ''VFAllocated'' U32, mem ''SerialNumber'' U32])"

definition NVSP_VM_DATA_PATH :: enum_tab where
  "NVSP_VM_DATA_PATH = enum_of [
     (''NvspDataPathSynthetic'', Val 0), (''NvspDataPathVF'', Auto), (''NvspDataPathMax'', Auto)]"

definition NVSP_4_MESSAGE_SWITCH_DATA_PATH :: cty where
  "NVSP_4_MESSAGE_SWITCH_DATA_PATH = Struct 1 (flds_of [
       mem ''ActiveDataPath'' Enum_ty])"

definition NVSP_5_MESSAGE_OID_QUERY_EX :: cty where
  "NVSP_5_MESSAGE_OID_QUERY_EX = Struct 1 (flds_of [
       mem ''Header'' HV_NDIS_OBJECT_HEADER, mem ''Oid'' U32])"

definition NVSP_5_MESSAGE_OID_QUERY_EX_COMPLETE :: cty where
  "NVSP_5_MESSAGE_OID_QUERY_EX_COMPLETE = Struct 1 (flds_of [
       mem ''Status'' U32,
       mem '''' (Union 1 (flds_of [mem ''BytesWritten'' U32, mem ''BytesNeeded'' U32]))])"

definition NVSP_SUBCHANNEL_OPERATION :: enum_tab where
  "NVSP_SUBCHANNEL_OPERATION = enum_of [
     (''NvspSubchannelNone'', Val 0), (''NvspSubchannelAllocate'', Auto),
     (''NvspSubchannelMax'', Auto)]"

definition NVSP_5_MESSAGE_SUBCHANNEL_REQUEST :: cty where
  "NVSP_5_MESSAGE_SUBCHANNEL_REQUEST = Struct 1 (flds_of [
       mem ''Operation'' Enum_ty, mem ''NumSubChannels'' U32])"

definition NVSP_5_MESSAGE_SUBCHANNEL_COMPLETE :: cty where
  "NVSP_5_MESSAGE_SUBCHANNEL_COMPLETE = Struct 1 (flds_of [
       mem ''Status'' U32, mem ''NumSubChannels'' U32])"

definition NVSP_5_MESSAGE_SEND_INDIRECTION_TABLE :: cty where
  "NVSP_5_MESSAGE_SEND_INDIRECTION_TABLE = Struct 1 (flds_of [
       mem ''TableEntryCount'' U32, mem ''TableOffset'' U32])"

definition NVSP_1_MESSAGE_UBER :: cty where
  "NVSP_1_MESSAGE_UBER = Union 1 (flds_of [
       mem ''SendNdisVersion'' NVSP_1_MESSAGE_SEND_NDIS_VERSION,
       mem ''SendReceiveBuffer'' NVSP_1_MESSAGE_SEND_RECEIVE_BUFFER,
       mem ''SendReceiveBufferComplete'' NVSP_1_MESSAGE_SEND_RECEIVE_BUFFER_COMPLETE,
       mem ''RevokeReceiveBuffer'' NVSP_1_MESSAGE_REVOKE_RECEIVE_BUFFER,
       mem ''SendSendBuffer'' NVSP_1_MESSAGE_SEND_SEND_BUFFER,
       mem ''SendSendBufferComplete'' NVSP_1_MESSAGE_SEND_SEND_BUFFER_COMPLETE,
       mem ''RevokeSendBuffer'' NVSP_1_MESSAGE_REVOKE_SEND_BUFFER,
       mem ''SendRNDISPacket'' NVSP_1_MESSAGE_SEND_RNDIS_PACKET,
       mem ''SendRNDISPacketComplete'' NVSP_1_MESSAGE_SEND_RNDIS_PACKET_COMPLETE])"

definition NVSP_2_MESSAGE_UBER :: cty where
  "NVSP_2_MESSAGE_UBER = Union 1 (flds_of [
       mem ''SendNdisConfig'' NVSP_2_MESSAGE_SEND_NDIS_CONFIG])"

definition NVSP_4_MESSAGE_UBER :: cty where
  "NVSP_4_MESSAGE_UBER = Union 1 (flds_of [
       mem ''VFAssociation'' NVSP_4_MESSAGE_SEND_VF_ASSOCIATION,
       mem ''SwitchDataPath'' NVSP_4_MESSAGE_SWITCH_DATA_PATH])"

definition NVSP_5_MESSAGE_UBER :: cty where
  "NVSP_5_MESSAGE_UBER = Union 1 (flds_of [
       mem ''OidQueryEx'' NVSP_5_MESSAGE_OID_QUERY_EX,
       mem ''OidQueryExComplete'' NVSP_5_MESSAGE_OID_QUERY_EX_COMPLETE,
       mem ''SubChannelRequest'' NVSP_5_MESSAGE_SUBCHANNEL_REQUEST,
       mem ''SubChannelRequestComplete'' NVSP_5_MESSAGE_SUBCHANNEL_COMPLETE,
       mem ''SendTable'' NVSP_5_MESSAGE_SEND_INDIRECTION_TABLE])"

definition NVSP_ALL_MESSAGES :: cty where
  "NVSP_ALL_MESSAGES = Union 1 (flds_of [
       mem ''InitMessages'' NVSP_MESSAGE_INIT_UBER, mem ''Version1Messages'' NVSP_1_MESSAGE_UBER,
       mem ''Version2Messages'' NVSP_2_MESSAGE_UBER, mem ''Version4Messages'' NVSP_4_MESSAGE_UBER,
       mem ''Version5Messages'' NVSP_5_MESSAGE_UBER])"

definition NVSP_MESSAGE :: cty where
  "NVSP_MESSAGE = Struct 1 (flds_of [
       mem ''Header'' NVSP_MESSAGE_HEADER, mem ''Messages'' NVSP_ALL_MESSAGES, mem ''Padding'' U32])"

definition RNDIS_REQUEST_ID :: cty where "RNDIS_REQUEST_ID = U32"

definition RNDIS_HANDLE :: cty where "RNDIS_HANDLE = U32"

definition RNDIS_STATUS :: cty where "RNDIS_STATUS = U32"

definition RNDIS_REQUEST_TYPE :: cty where "RNDIS_REQUEST_TYPE = U32"

definition RNDIS_OID :: cty where "RNDIS_OID = U32"

definition RNDIS_CLASS_ID :: cty where "RNDIS_CLASS_ID = U32"

definition RNDIS_MEDIUM :: cty where "RNDIS_MEDIUM = U32"

definition RNDIS_STATUS_SUCCESS :: "32 word" where "RNDIS_STATUS_SUCCESS = 0x00000000"

definition RNDIS_STATUS_MEDIA_CONNECT :: "32 word" where "RNDIS_STATUS_MEDIA_CONNECT = 0x4001000B"

definition RNDIS_STATUS_MEDIA_DISCONNECT :: "32 word" where
  "RNDIS_STATUS_MEDIA_DISCONNECT = 0x4001000C"

definition NDIS_STATUS_NETWORK_CHANGE :: "32 word" where "NDIS_STATUS_NETWORK_CHANGE = 0x40010018"

definition RNDIS_OID_GEN_CURRENT_PACKET_FILTER :: "32 word" where
  "RNDIS_OID_GEN_CURRENT_PACKET_FILTER = 0x0001010E"

definition RNDIS_OID_802_3_CURRENT_ADDRESS :: "32 word" where
  "RNDIS_OID_802_3_CURRENT_ADDRESS = 0x01010102"

definition REMOTE_NDIS_PACKET_MSG :: "32 word" where "REMOTE_NDIS_PACKET_MSG = 0x00000001"

definition REMOTE_NDIS_INITIALIZE_MSG :: "32 word" where "REMOTE_NDIS_INITIALIZE_MSG = 0x00000002"

definition REMOTE_NDIS_HALT_MSG :: "32 word" where "REMOTE_NDIS_HALT_MSG = 0x00000003"

definition REMOTE_NDIS_QUERY_MSG :: "32 word" where "REMOTE_NDIS_QUERY_MSG = 0x00000004"

definition REMOTE_NDIS_SET_MSG :: "32 word" where "REMOTE_NDIS_SET_MSG = 0x00000005"

definition REMOTE_NDIS_RESET_MSG :: "32 word" where "REMOTE_NDIS_RESET_MSG = 0x00000006"

definition REMOTE_NDIS_INDICATE_STATUS_MSG :: "32 word" where
  "REMOTE_NDIS_INDICATE_STATUS_MSG = 0x00000007"

definition REMOTE_NDIS_KEEPALIVE_MSG :: "32 word" where "REMOTE_NDIS_KEEPALIVE_MSG = 0x00000008"

definition REMOTE_NDIS_SET_EX_MSG :: "32 word" where "REMOTE_NDIS_SET_EX_MSG = 0x00000009"

definition REMOTE_CONDIS_MP_CREATE_VC_MSG :: "32 word" where
  "REMOTE_CONDIS_MP_CREATE_VC_MSG = 0x00008001"

definition REMOTE_CONDIS_MP_DELETE_VC_MSG :: "32 word" where
  "REMOTE_CONDIS_MP_DELETE_VC_MSG = 0x00008002"

definition REMOTE_CONDIS_MP_ACTIVATE_VC_MSG :: "32 word" where
  "REMOTE_CONDIS_MP_ACTIVATE_VC_MSG = 0x00008005"

definition REMOTE_CONDIS_MP_DEACTIVATE_VC_MSG :: "32 word" where
  "REMOTE_CONDIS_MP_DEACTIVATE_VC_MSG = 0x00008006"

definition REMOTE_CONDIS_INDICATE_STATUS_MSG :: "32 word" where
  "REMOTE_CONDIS_INDICATE_STATUS_MSG = 0x00008007"

definition REMOTE_NDIS_INITIALIZE_CMPLT :: "32 word" where
  "REMOTE_NDIS_INITIALIZE_CMPLT = 0x80000002"

definition REMOTE_NDIS_QUERY_CMPLT :: "32 word" where "REMOTE_NDIS_QUERY_CMPLT = 0x80000004"

definition REMOTE_NDIS_SET_CMPLT :: "32 word" where "REMOTE_NDIS_SET_CMPLT = 0x80000005"

definition REMOTE_NDIS_BUS_MSG :: "32 word" where "REMOTE_NDIS_BUS_MSG = 0xff000001"

definition RNDIS_MAJOR_VERSION :: "32 word" where "RNDIS_MAJOR_VERSION = 0x00000001"

definition RNDIS_MINOR_VERSION :: "32 word" where "RNDIS_MINOR_VERSION = 0x00000000"

definition RNDIS_INITIALIZE_REQUEST :: cty where
  "RNDIS_INITIALIZE_REQUEST = Struct 0 (flds_of [
       mem ''RequestId'' RNDIS_REQUEST_ID, mem ''MajorVersion'' U32, mem ''MinorVersion'' U32,
       mem ''MaxTransferSize'' U32])"

definition RNDIS_INITIALIZE_COMPLETE :: cty where
  "RNDIS_INITIALIZE_COMPLETE = Struct 0 (flds_of [
       mem ''RequestId'' RNDIS_REQUEST_ID, mem ''Status'' RNDIS_STATUS, mem ''MajorVersion'' U32,
       mem ''MinorVersion'' U32, mem ''DeviceFlags'' U32, mem ''Medium'' RNDIS_MEDIUM,
       mem ''MaxPacketsPerMessage'' U32, mem ''MaxTransferSize'' U32,
       mem ''PacketAlignmentFactor'' U32, mem ''AFListOffset'' U32, mem ''AFListSize'' U32])"

definition RNDIS_HALT_REQUEST :: cty where
  "RNDIS_HALT_REQUEST = Struct 0 (flds_of [
       mem ''RequestId'' RNDIS_REQUEST_ID])"

definition RNDIS_QUERY_REQUEST :: cty where
  "RNDIS_QUERY_REQUEST = Struct 0 (flds_of [
       mem ''RequestId'' RNDIS_REQUEST_ID, mem ''Oid'' RNDIS_OID,
       mem ''InformationBufferLength'' U32, mem ''InformationBufferOffset'' U32,
       mem ''DeviceVcHandle'' RNDIS_HANDLE])"

definition RNDIS_QUERY_COMPLETE :: cty where
  "RNDIS_QUERY_COMPLETE = Struct 0 (flds_of [
       mem ''RequestId'' RNDIS_REQUEST_ID, mem ''Status'' RNDIS_STATUS,
       mem ''InformationBufferLength'' U32, mem ''InformationBufferOffset'' U32])"

definition RNDIS_SET_REQUEST :: cty where
  "RNDIS_SET_REQUEST = Struct 0 (flds_of [
       mem ''RequestId'' RNDIS_REQUEST_ID, mem ''Oid'' RNDIS_OID,
       mem ''InformationBufferLength'' U32, mem ''InformationBufferOffset'' U32,
       mem ''DeviceVcHandle'' RNDIS_HANDLE])"

definition RNDIS_SET_COMPLETE :: cty where
  "RNDIS_SET_COMPLETE = Struct 0 (flds_of [
       mem ''RequestId'' RNDIS_REQUEST_ID, mem ''Status'' RNDIS_STATUS])"

definition RNDIS_SET_EX_REQUEST :: cty where
  "RNDIS_SET_EX_REQUEST = Struct 0 (flds_of [
       mem ''RequestId'' RNDIS_REQUEST_ID, mem ''Oid'' RNDIS_OID,
       mem ''InformationBufferLength'' U32, mem ''InformationBufferOffset'' U32,
       mem ''DeviceVcHandle'' RNDIS_HANDLE])"

definition RNDIS_SET_EX_COMPLETE :: cty where
  "RNDIS_SET_EX_COMPLETE = Struct 0 (flds_of [
       mem ''RequestId'' RNDIS_REQUEST_ID, mem ''Status'' RNDIS_STATUS,
       mem ''InformationBufferLength'' U32, mem ''InformationBufferOffset'' U32])"

definition RNDIS_RESET_REQUEST :: cty where
  "RNDIS_RESET_REQUEST = Struct 0 (flds_of [
       mem ''Reserved'' U32])"

definition RNDIS_RESET_COMPLETE :: cty where
  "RNDIS_RESET_COMPLETE = Struct 0 (flds_of [
       mem ''Status'' RNDIS_STATUS, mem ''AddressingReset'' U32])"

definition RNDIS_INDICATE_STATUS :: cty where
  "RNDIS_INDICATE_STATUS = Struct 0 (flds_of [
       mem ''Status'' RNDIS_STATUS, mem ''StatusBufferLength'' U32, mem ''StatusBufferOffset'' U32])"

definition RNDIS_DIAGNOSTIC_INFO :: cty where
  "RNDIS_DIAGNOSTIC_INFO = Struct 0 (flds_of [
       mem ''DiagStatus'' RNDIS_STATUS, mem ''ErrorOffset'' U32])"

definition RNDIS_KEEPALIVE_REQUEST :: cty where
  "RNDIS_KEEPALIVE_REQUEST = Struct 0 (flds_of [
       mem ''RequestId'' RNDIS_REQUEST_ID])"

definition RNDIS_KEEPALIVE_COMPLETE :: cty where
  "RNDIS_KEEPALIVE_COMPLETE = Struct 0 (flds_of [
       mem ''RequestId'' RNDIS_REQUEST_ID, mem ''Status'' RNDIS_STATUS])"

definition RNDIS_PACKET :: cty where
  "RNDIS_PACKET = Struct 0 (flds_of [
       mem ''DataOffset'' U32, mem ''DataLength'' U32, mem ''OOBDataOffset'' U32,
       mem ''OOBDataLength'' U32, mem ''NumOOBDataElements'' U32, mem ''PerPacketInfoOffset'' U32,
       mem ''PerPacketInfoLength'' U32, mem ''VcHandle'' RNDIS_HANDLE, mem ''Reserved'' U32])"

definition RNDIS_CONFIG_PARAMETER_INFO :: cty where
  "RNDIS_CONFIG_PARAMETER_INFO = Struct 0 (flds_of [
       mem ''ParameterNameOffset'' U32, mem ''ParameterNameLength'' U32,
       mem ''ParameterType'' U32, mem ''ParameterValueOffset'' U32,
       mem ''ParameterValueLength'' U32])"

definition RCONDIS_MP_CREATE_VC :: cty where
  "RCONDIS_MP_CREATE_VC = Struct 0 (flds_of [
       mem ''RequestId'' RNDIS_REQUEST_ID, mem ''NdisVcHandle'' RNDIS_HANDLE])"

definition RCONDIS_MP_CREATE_VC_COMPLETE :: cty where
  "RCONDIS_MP_CREATE_VC_COMPLETE = Struct 0 (flds_of [
       mem ''RequestId'' RNDIS_REQUEST_ID, mem ''DeviceVcHandle'' RNDIS_HANDLE,
       mem ''Status'' RNDIS_STATUS])"

definition RCONDIS_MP_DELETE_VC :: cty where
  "RCONDIS_MP_DELETE_VC = Struct 0 (flds_of [
       mem ''RequestId'' RNDIS_REQUEST_ID, mem ''DeviceVcHandle'' RNDIS_HANDLE])"

definition RCONDIS_MP_DELETE_VC_COMPLETE :: cty where
  "RCONDIS_MP_DELETE_VC_COMPLETE = Struct 0 (flds_of [
       mem ''RequestId'' RNDIS_REQUEST_ID, mem ''Status'' RNDIS_STATUS])"

definition RCONDIS_MP_QUERY_REQUEST :: cty where
  "RCONDIS_MP_QUERY_REQUEST = Struct 0 (flds_of [
       mem ''RequestId'' RNDIS_REQUEST_ID, mem ''RequestType'' RNDIS_REQUEST_TYPE,
       mem ''Oid'' RNDIS_OID, mem ''DeviceVcHandle'' RNDIS_HANDLE,
       mem ''InformationBufferLength'' U32, mem ''InformationBufferOffset'' U32])"

definition RCONDIS_MP_SET_REQUEST :: cty where
  "RCONDIS_MP_SET_REQUEST = Struct 0 (flds_of [
       mem ''RequestId'' RNDIS_REQUEST_ID, mem ''RequestType'' RNDIS_REQUEST_TYPE,
       mem ''Oid'' RNDIS_OID, mem ''DeviceVcHandle'' RNDIS_HANDLE,
       mem ''InformationBufferLength'' U32, mem ''InformationBufferOffset'' U32])"

definition RCONDIS_INDICATE_STATUS :: cty where
  "RCONDIS_INDICATE_STATUS = Struct 0 (flds_of [
       mem ''NdisVcHandle'' RNDIS_HANDLE, mem ''Status'' RNDIS_STATUS,
       mem ''StatusBufferLength'' U32, mem ''StatusBufferOffset'' U32])"

definition RCONDIS_SPECIFIC_PARAMETERS :: cty where
  "RCONDIS_SPECIFIC_PARAMETERS = Struct 0 (flds_of [
       mem ''ParameterType'' U32, mem ''ParameterLength'' U32, mem ''ParameterOffset'' U32])"

definition RCONDIS_MEDIA_PARAMETERS :: cty where
  "RCONDIS_MEDIA_PARAMETERS = Struct 0 (flds_of [
       mem ''Flags'' U32, mem ''Reserved1'' U32, mem ''Reserved2'' U32,
       mem ''MediaSpecific'' RCONDIS_SPECIFIC_PARAMETERS])"

definition RNDIS_FLOWSPEC :: cty where
  "RNDIS_FLOWSPEC = Struct 0 (flds_of [
       mem ''TokenRate'' U32, mem ''TokenBucketSize'' U32, mem ''PeakBandwidth'' U32,
       mem ''Latency'' U32, mem ''DelayVariation'' U32, mem ''ServiceType'' U32,
       mem ''MaxSduSize'' U32, mem ''MinimumPolicedSize'' U32])"

definition RCONDIS_CALL_MANAGER_PARAMETERS :: cty where
  "RCONDIS_CALL_MANAGER_PARAMETERS = Struct 0 (flds_of [
       mem ''Transmit'' RNDIS_FLOWSPEC, mem ''Receive'' RNDIS_FLOWSPEC,
       mem ''CallMgrSpecific'' RCONDIS_SPECIFIC_PARAMETERS])"

definition RCONDIS_MP_ACTIVATE_VC_REQUEST :: cty where
  "RCONDIS_MP_ACTIVATE_VC_REQUEST = Struct 0 (flds_of [
       mem ''RequestId'' RNDIS_REQUEST_ID, mem ''Flags'' U32, mem ''DeviceVcHandle'' RNDIS_HANDLE,
       mem ''MediaParamsOffset'' U32, mem ''MediaParamsLength'' U32,
       mem ''CallMgrParamsOffset'' U32, mem ''CallMgrParamsLength'' U32])"

definition RCONDIS_MP_ACTIVATE_VC_COMPLETE :: cty where
  "RCONDIS_MP_ACTIVATE_VC_COMPLETE = Struct 0 (flds_of [
       mem ''RequestId'' RNDIS_REQUEST_ID, mem ''Status'' RNDIS_STATUS])"

definition RCONDIS_MP_DEACTIVATE_VC_REQUEST :: cty where
  "RCONDIS_MP_DEACTIVATE_VC_REQUEST = Struct 0 (flds_of [
       mem ''RequestId'' RNDIS_REQUEST_ID, mem ''Flags'' U32, mem ''DeviceVcHandle'' RNDIS_HANDLE])"

definition RCONDIS_MP_DEACTIVATE_VC_COMPLETE :: cty where
  "RCONDIS_MP_DEACTIVATE_VC_COMPLETE = Struct 0 (flds_of [
       mem ''RequestId'' RNDIS_REQUEST_ID, mem ''Status'' RNDIS_STATUS])"

definition RNDIS_MESSAGE_CONTAINER :: cty where
  "RNDIS_MESSAGE_CONTAINER = Union 0 (flds_of [
       mem ''Packet'' RNDIS_PACKET, mem ''InitializeRequest'' RNDIS_INITIALIZE_REQUEST,
       mem ''HaltRequest'' RNDIS_HALT_REQUEST, mem ''QueryRequest'' RNDIS_QUERY_REQUEST,
       mem ''SetRequest'' RNDIS_SET_REQUEST, mem ''SetExRequest'' RNDIS_SET_EX_REQUEST,
       mem ''ResetRequest'' RNDIS_RESET_REQUEST, mem ''KeepaliveRequest'' RNDIS_KEEPALIVE_REQUEST,
       mem ''IndicateStatus'' RNDIS_INDICATE_STATUS,
       mem ''InitializeComplete'' RNDIS_INITIALIZE_COMPLETE,
       mem ''QueryComplete'' RNDIS_QUERY_COMPLETE, mem ''SetComplete'' RNDIS_SET_COMPLETE,
       mem ''SetExComplete'' RNDIS_SET_EX_COMPLETE, mem ''ResetComplete'' RNDIS_RESET_COMPLETE,
       mem ''KeepaliveComplete'' RNDIS_KEEPALIVE_COMPLETE,
       mem ''CoMiniportCreateVc'' RCONDIS_MP_CREATE_VC,
       mem ''CoMiniportDeleteVc'' RCONDIS_MP_DELETE_VC,
       mem ''CoIndicateStatus'' RCONDIS_INDICATE_STATUS,
       mem ''CoMiniportActivateVc'' RCONDIS_MP_ACTIVATE_VC_REQUEST,
       mem ''CoMiniportDeactivateVc'' RCONDIS_MP_DEACTIVATE_VC_REQUEST,
       mem ''CoMiniportCreateVcComplete'' RCONDIS_MP_CREATE_VC_COMPLETE,
       mem ''CoMiniportDeleteVcComplete'' RCONDIS_MP_DELETE_VC_COMPLETE,
       mem ''CoMiniportActivateVcComplete'' RCONDIS_MP_ACTIVATE_VC_COMPLETE,
       mem ''CoMiniportDeactivateVcComplete'' RCONDIS_MP_DEACTIVATE_VC_COMPLETE])"

definition RNDIS_MESSAGE :: cty where
  "RNDIS_MESSAGE = Struct 0 (flds_of [
       mem ''NdisMessageType'' U32, mem ''MessageLength'' U32,
       mem ''Message'' RNDIS_MESSAGE_CONTAINER])"

definition RNDIS_MESSAGE_SIZE :: "abi \<Rightarrow> cty \<Rightarrow> nat" where
  "RNDIS_MESSAGE_SIZE A message =
     csize A message + (csize A RNDIS_MESSAGE - csize A RNDIS_MESSAGE_CONTAINER)"

section \<open>Virtual PCI Bus\<close>

definition VPCI_CLASS_ID :: guid where
  "VPCI_CLASS_ID = \<lparr>Data1 = 0x44C4F61D, Data2 = 0x4444, Data3 = 0x4400,
     Data4 = [0x9D, 0x52, 0x80, 0x2E, 0x27, 0xED, 0xE1, 0x9F]\<rparr>"

definition CmResourceTypeNull :: "32 word" where "CmResourceTypeNull = 0"

definition CmResourceTypeMemory :: "32 word" where "CmResourceTypeMemory = 3"

definition CM_RESOURCE_MEMORY_LARGE_40 :: "32 word" where "CM_RESOURCE_MEMORY_LARGE_40 = 0x0200"

definition CM_RESOURCE_MEMORY_LARGE_48 :: "32 word" where "CM_RESOURCE_MEMORY_LARGE_48 = 0x0400"

definition CM_RESOURCE_MEMORY_LARGE_64 :: "32 word" where "CM_RESOURCE_MEMORY_LARGE_64 = 0x0800"

definition CM_RESOURCE_MEMORY_LARGE_40_MAXLEN :: "64 word" where
  "CM_RESOURCE_MEMORY_LARGE_40_MAXLEN = 0x000000FFFFFFFF00"

definition CM_RESOURCE_MEMORY_LARGE_48_MAXLEN :: "64 word" where
  "CM_RESOURCE_MEMORY_LARGE_48_MAXLEN = 0x0000FFFFFFFF0000"

definition CM_RESOURCE_MEMORY_LARGE_64_MAXLEN :: "64 word" where
  "CM_RESOURCE_MEMORY_LARGE_64_MAXLEN = 0xFFFFFFFF00000000"

definition CM_PARTIAL_RESOURCE_DESCRIPTOR :: cty where
  "CM_PARTIAL_RESOURCE_DESCRIPTOR = Struct 4 (flds_of [
       mem ''Type'' U8, mem ''ShareDisposition'' U8, mem ''Flags'' U16,
       mem ''u'' (Union 4 (flds_of [mem ''Generic'' (Struct 4 (flds_of [mem ''Start'' U64, mem ''Length'' U32])),
          mem ''ForSize'' (Struct 4 (flds_of [mem ''First'' U64, mem ''Second'' U64]))]))])"

definition DEVICE_POWER_STATE :: enum_tab where
  "DEVICE_POWER_STATE = enum_of [
     (''PowerDeviceUnspecified'', Val 0), (''PowerDeviceD0'', Auto), (''PowerDeviceD1'', Auto),
     (''PowerDeviceD2'', Auto), (''PowerDeviceD3'', Auto), (''PowerDeviceMaximum'', Auto)]"

definition PCI_SLOT_NUMBER :: cty where
  "PCI_SLOT_NUMBER = Struct 0 (flds_of [
       mem ''u'' (Union 0 (flds_of [mem ''bits'' (Struct 0 (flds_of [bits ''DeviceNumber'' U32 5, bits ''FunctionNumber'' U32 3, bits ''Reserved'' U32 24])),
          mem ''AsULONG'' U32]))])"

definition ALIGN_VALUE :: "'a::len word \<Rightarrow> 'a word \<Rightarrow> 'a word" where
  "ALIGN_VALUE value alignment = value + ((alignment - value) AND (alignment - 1))"

definition ALIGN_UP :: "abi \<Rightarrow> 'a::len word \<Rightarrow> cty \<Rightarrow> 'a word" where
  "ALIGN_UP A x y = ALIGN_VALUE x (of_nat (csize A y))"

definition PCI_MAX_BAR :: nat where "PCI_MAX_BAR = 6"

definition VPCI_PNP_ID :: cty where
  "VPCI_PNP_ID = Struct 0 (flds_of [
       mem ''VendorID'' U16, mem ''DeviceID'' U16, mem ''RevisionID'' U8, mem ''ProgIf'' U8,
       mem ''SubClass'' U8, mem ''BaseClass'' U8, mem ''SubVendorID'' U16, mem ''SubSystemID'' U16])"

definition VPCI_PROTOCOL_VERSION_RS1 :: "32 word" where "VPCI_PROTOCOL_VERSION_RS1 = 0x00010002"

definition VPCI_PROTOCOL_VERSION_CURRENT :: "32 word" where
  "VPCI_PROTOCOL_VERSION_CURRENT = VPCI_PROTOCOL_VERSION_RS1"

definition VscSupportedVersions :: "32 word list" where
  "VscSupportedVersions = [VPCI_PROTOCOL_VERSION_RS1]"

definition VPCI_MESSAGE :: enum_tab where
  "VPCI_MESSAGE = enum_of [
     (''VpciMsgBusRelations'', Val 1112080384), (''VpciMsgQueryBusRelations'', Auto),
     (''VpciMsgInvalidateDevice'', Auto), (''VpciMsgInvalidateBus'', Auto),
     (''VpciMsgDevicePowerStateChange'', Auto), (''VpciMsgCurrentResourceRequirements'', Auto),
     (''VpciMsgGetResources'', Auto), (''VpciMsgFdoD0Entry'', Auto),
     (''VpciMsgFdoD0Exit'', Auto), (''VpciMsgReadBlock'', Auto), (''VpciMsgWriteBlock'', Auto),
     (''VpciMsgEject'', Auto), (''VpciMsgQueryStop'', Auto), (''VpciMsgReEnable'', Auto),
     (''VpciMsgQueryStopFailed'', Auto), (''VpciMsgEjectComplete'', Auto),
     (''VpciMsgAssignedResources'', Auto), (''VpciMsgReleaseResources'', Auto),
     (''VpciMsgInvalidateBlock'', Auto), (''VpciMsgQueryProtocolVersion'', Auto),
     (''VpciMsgCreateInterruptMessage'', Auto), (''VpciMsgDeleteInterruptMessage'', Auto),
     (''VpciMsgAssignedResources2'', Auto), (''VpciMsgCreateInterruptMessage2'', Auto),
     (''VpciMsgDeleteInterruptMessage2'', Auto)]"

definition VPCI_PACKET_HEADER :: cty where
  "VPCI_PACKET_HEADER = Struct 0 (flds_of [
       mem ''MessageType'' U32])"

definition VPCI_REPLY_HEADER :: cty where
  "VPCI_REPLY_HEADER = Struct 0 (flds_of [
       mem ''Status'' U32])"

definition VPCI_DEVICE_DESCRIPTION :: cty where
  "VPCI_DEVICE_DESCRIPTION = Struct 0 (flds_of [
       mem ''IDs'' VPCI_PNP_ID, mem ''Slot'' U32, mem ''SerialNumber'' U32])"

definition VPCI_QUERY_BUS_RELATIONS :: cty where
  "VPCI_QUERY_BUS_RELATIONS = Struct 0 (flds_of [
       mem ''Header'' VPCI_PACKET_HEADER, mem ''DeviceCount'' U32,
       mem ''Devices'' (Arr VPCI_DEVICE_DESCRIPTION HV_ANYSIZE_ARRAY)])"

definition VPCI_MAX_DEVICES_PER_BUS :: "32 word" where "VPCI_MAX_DEVICES_PER_BUS = 255"

definition VPCI_MESSAGE_RESOURCE_2_MAX_CPU_COUNT :: nat where "VPCI_MESSAGE_RESOURCE_2_MAX_CPU_COUNT = 32"

definition VPCI_MESSAGE_RESOURCE_2 :: cty where
  "VPCI_MESSAGE_RESOURCE_2 = Struct 0 (flds_of [
       mem '''' (Union 0 (flds_of [mem ''Remapped'' (Struct 0 (flds_of [mem ''Reserved'' U16, mem ''MessageCount'' U16, mem ''DataPayload'' U32,
             mem ''Address'' U64, mem ''Reserved2'' (Arr U16 27)])),
          mem ''Descriptor'' (Struct 0 (flds_of [mem ''Vector'' U8, mem ''DeliveryMode'' U8, mem ''VectorCount'' U16,
             mem ''ProcessorCount'' U16,
             mem ''ProcessorArray'' (Arr U16 VPCI_MESSAGE_RESOURCE_2_MAX_CPU_COUNT)]))]))])"

definition VPCI_QUERY_PROTOCOL_VERSION :: cty where
  "VPCI_QUERY_PROTOCOL_VERSION = Struct 0 (flds_of [
       mem ''Header'' VPCI_PACKET_HEADER, mem ''ProtocolVersion'' U32])"

definition VPCI_PROTOCOL_VERSION_REPLY :: cty where
  "VPCI_PROTOCOL_VERSION_REPLY = Struct 0 (flds_of [
       mem ''Header'' VPCI_REPLY_HEADER, mem ''ProtocolVersion'' U32])"

definition VPCI_QUERY_RESOURCE_REQUIREMENTS :: cty where
  "VPCI_QUERY_RESOURCE_REQUIREMENTS = Struct 0 (flds_of [
       mem ''Header'' VPCI_PACKET_HEADER, mem ''Slot'' PCI_SLOT_NUMBER])"

definition VPCI_RESOURCE_REQUIREMENTS_REPLY :: cty where
  "VPCI_RESOURCE_REQUIREMENTS_REPLY = Struct 0 (flds_of [
       mem ''Header'' VPCI_REPLY_HEADER, mem ''Bars'' (Arr U32 PCI_MAX_BAR)])"

definition VPCI_DEVICE_POWER_CHANGE :: cty where
  "VPCI_DEVICE_POWER_CHANGE = Struct 0 (flds_of [
       mem '''' (Union 0 (flds_of [mem ''Header'' VPCI_PACKET_HEADER, mem ''ReplyHeader'' VPCI_REPLY_HEADER])),
       mem ''Slot'' PCI_SLOT_NUMBER, mem ''TargetState'' Enum_ty])"

definition VPCI_DEVICE_TRANSLATE_2 :: cty where
  "VPCI_DEVICE_TRANSLATE_2 = Struct 0 (flds_of [
       mem '''' (Union 0 (flds_of [mem ''Header'' VPCI_PACKET_HEADER, mem ''ReplyHeader'' VPCI_REPLY_HEADER])),
       mem ''Slot'' PCI_SLOT_NUMBER,
       mem ''MmioResources'' (Arr CM_PARTIAL_RESOURCE_DESCRIPTOR PCI_MAX_BAR),
       mem ''MsiResourceCount'' U32,
       mem ''MsiResources'' (Arr VPCI_MESSAGE_RESOURCE_2 HV_ANYSIZE_ARRAY)])"

definition VPCI_DEVICE_TRANSLATE_2_REPLY :: cty where
  "VPCI_DEVICE_TRANSLATE_2_REPLY = Struct 0 (flds_of [
       mem ''Header'' VPCI_REPLY_HEADER, mem ''Slot'' PCI_SLOT_NUMBER])"

definition VPCI_FDO_D0_ENTRY :: cty where
  "VPCI_FDO_D0_ENTRY = Struct 0 (flds_of [
       mem ''Header'' VPCI_PACKET_HEADER, mem ''Padding'' U32, mem ''MmioStart'' U64])"

definition VPCI_FDO_D0_ENTRY_REPLY :: cty where
  "VPCI_FDO_D0_ENTRY_REPLY = Struct 0 (flds_of [
       mem ''NtStatus'' U32, mem ''Pad'' U32])"

definition PCI_BAR_FORMAT :: cty where
  "PCI_BAR_FORMAT = Struct 0 (flds_of [
       mem '''' (Union 0 (flds_of [mem ''Memory'' (Struct 0 (flds_of [bits ''MemorySpaceIndicator'' U32 1, bits ''MemoryType'' U32 2,
             bits ''Prefetchable'' U32 1, bits ''Address'' U32 28])),
          mem '''' (Struct 0 (flds_of [bits ''IoSpaceIndicator'' U32 1, bits ''Reserved'' U32 1, bits ''Address'' U32 30])),
          mem ''AsUINT32'' U32]))])"

definition PCI_BAR_MEMORY_TYPE_64BIT :: "32 word" where "PCI_BAR_MEMORY_TYPE_64BIT = 0x2"

section \<open>Virtual Machine Bus File System\<close>

definition VMBFS_CLASS_ID :: guid where
  "VMBFS_CLASS_ID = \<lparr>Data1 = 0xC376C1C3, Data2 = 0xD276, Data3 = 0x48D2,
     Data4 = [0x90, 0xA9, 0xC0, 0x47, 0x48, 0x07, 0x2C, 0x60]\<rparr>"

definition VMBFS_MAXIMUM_MESSAGE_SIZE :: "32 word" where "VMBFS_MAXIMUM_MESSAGE_SIZE = 12288"

definition VMBFS_MAXIMUM_PAYLOAD_SIZE :: "abi \<Rightarrow> cty \<Rightarrow> nat" where
  "VMBFS_MAXIMUM_PAYLOAD_SIZE A header = unat VMBFS_MAXIMUM_MESSAGE_SIZE - csize A header"

definition VMBFS_MAKE_VERSION :: "32 word \<Rightarrow> 32 word \<Rightarrow> 32 word" where
  "VMBFS_MAKE_VERSION major minor = (push_bit 16 major) OR minor"

definition VMBFS_VERSION_WIN10 :: "32 word" where "VMBFS_VERSION_WIN10 = VMBFS_MAKE_VERSION 1 0"

definition VMBFS_MESSAGE_TYPE :: enum_tab where
  "VMBFS_MESSAGE_TYPE = enum_of [
     (''VmbfsMessageTypeInvalid'', Val 0), (''VmbfsMessageTypeVersionRequest'', Auto),
     (''VmbfsMessageTypeVersionResponse'', Auto), (''VmbfsMessageTypeGetFileInfo'', Auto),
     (''VmbfsMessageTypeGetFileInfoResponse'', Auto), (''VmbfsMessageTypeReadFile'', Auto),
     (''VmbfsMessageTypeReadFileResponse'', Auto), (''VmbfsMessageTypeReadFileRdma'', Auto),
     (''VmbfsMessageTypeReadFileRdmaResponse'', Auto), (''VmbfsMessageTypeMax'', Auto)]"

definition VMBFS_GET_FILE_INFO_FLAG_DIRECTORY :: "32 word" where
  "VMBFS_GET_FILE_INFO_FLAG_DIRECTORY = 0x1"

definition VMBFS_GET_FILE_INFO_FLAG_RDMA_CAPABLE :: "32 word" where
  "VMBFS_GET_FILE_INFO_FLAG_RDMA_CAPABLE = 0x2"

definition VMBFS_GET_FILE_INFO_FLAGS :: "32 word" where
  "VMBFS_GET_FILE_INFO_FLAGS = VMBFS_GET_FILE_INFO_FLAG_DIRECTORY OR VMBFS_GET_FILE_INFO_FLAG_RDMA_CAPABLE"

definition VMBFS_MESSAGE_HEADER :: cty where
  "VMBFS_MESSAGE_HEADER = Struct 1 (flds_of [
       mem ''Type'' Enum_ty, mem ''Reserved'' U32])"

definition VMBFS_MESSAGE_VERSION_REQUEST :: cty where
  "VMBFS_MESSAGE_VERSION_REQUEST = Struct 1 (flds_of [
       mem ''Header'' VMBFS_MESSAGE_HEADER, mem ''RequestedVersion'' U32])"

definition VMBFS_STATUS_VERSION_RESPONSE :: enum_tab where
  "VMBFS_STATUS_VERSION_RESPONSE = enum_of [
     (''VmbfsVersionSupported'', Val 0), (''VmbfsVersionUnsupported'', Val 1)]"

definition VMBFS_MESSAGE_VERSION_RESPONSE :: cty where
  "VMBFS_MESSAGE_VERSION_RESPONSE = Struct 1 (flds_of [
       mem ''Header'' VMBFS_MESSAGE_HEADER, mem ''Status'' U32])"

definition VMBFS_MESSAGE_GET_FILE_INFO :: cty where
  "VMBFS_MESSAGE_GET_FILE_INFO = Struct 1 (flds_of [
       mem ''Header'' VMBFS_MESSAGE_HEADER, mem ''FilePath'' (Arr U16 HV_ANYSIZE_ARRAY)])"

definition VMBFS_STATUS_FILE_RESPONSE :: enum_tab where
  "VMBFS_STATUS_FILE_RESPONSE = enum_of [
     (''VmbfsFileSuccess'', Val 0), (''VmbfsFileNotFound'', Val 1),
     (''VmbfsFileEndOfFile'', Val 2), (''VmbfsFileError'', Val 3)]"

definition VMBFS_MESSAGE_GET_FILE_INFO_RESPONSE :: cty where
  "VMBFS_MESSAGE_GET_FILE_INFO_RESPONSE = Struct 1 (flds_of [
       mem ''Header'' VMBFS_MESSAGE_HEADER, mem ''Status'' U32, mem ''Flags'' U32,
       mem ''FileSize'' U64])"

definition VMBFS_MESSAGE_READ_FILE :: cty where
  "VMBFS_MESSAGE_READ_FILE = Struct 1 (flds_of [
       mem ''Header'' VMBFS_MESSAGE_HEADER, mem ''ByteCount'' U32, mem ''Offset'' U64,
       mem ''FilePath'' (Arr U16 HV_ANYSIZE_ARRAY)])"

definition VMBFS_MESSAGE_READ_FILE_RESPONSE :: cty where
  "VMBFS_MESSAGE_READ_FILE_RESPONSE = Struct 1 (flds_of [
       mem ''Header'' VMBFS_MESSAGE_HEADER, mem ''Status'' U32,
       mem ''Payload'' (Arr U8 HV_ANYSIZE_ARRAY)])"

definition VMBFS_MESSAGE_READ_FILE_RDMA :: cty where
  "VMBFS_MESSAGE_READ_FILE_RDMA = Struct 1 (flds_of [
       mem ''Header'' VMBFS_MESSAGE_HEADER, mem ''Handle'' U32, mem ''ByteCount'' U32,
       mem ''FileOffset'' U64, mem ''TokenOffset'' U64, mem ''FilePath'' (Arr U16 HV_ANYSIZE_ARRAY)])"

definition VMBFS_MESSAGE_READ_FILE_RDMA_RESPONSE :: cty where
  "VMBFS_MESSAGE_READ_FILE_RDMA_RESPONSE = Struct 1 (flds_of [
       mem ''Header'' VMBFS_MESSAGE_HEADER, mem ''Status'' U32, mem ''ByteCount'' U32])"

section \<open>Tables\<close>

text \<open>The structures, unions and type synonyms above, in the order of the header.\<close>

definition guest_protocol_types :: "(string \<times> cty) list" where
  "guest_protocol_types = [
     (''GPA_RANGE'', GPA_RANGE), (''VMBUS_CHANNEL_MESSAGE_HEADER'', VMBUS_CHANNEL_MESSAGE_HEADER),
     (''VMBUS_CHANNEL_OFFER_CHANNEL'', VMBUS_CHANNEL_OFFER_CHANNEL),
     (''VMBUS_CHANNEL_RESCIND_OFFER'', VMBUS_CHANNEL_RESCIND_OFFER),
     (''VMBUS_CHANNEL_OPEN_CHANNEL'', VMBUS_CHANNEL_OPEN_CHANNEL),
     (''VMBUS_CHANNEL_OPEN_RESULT'', VMBUS_CHANNEL_OPEN_RESULT),
     (''VMBUS_CHANNEL_CLOSE_CHANNEL'', VMBUS_CHANNEL_CLOSE_CHANNEL),
     (''VMBUS_CHANNEL_MODIFY_CHANNEL'', VMBUS_CHANNEL_MODIFY_CHANNEL),
     (''VMBUS_CHANNEL_MODIFY_CHANNEL_RESPONSE'', VMBUS_CHANNEL_MODIFY_CHANNEL_RESPONSE),
     (''VMBUS_CHANNEL_GPADL_HEADER'', VMBUS_CHANNEL_GPADL_HEADER),
     (''VMBUS_CHANNEL_GPADL_BODY'', VMBUS_CHANNEL_GPADL_BODY),
     (''VMBUS_CHANNEL_GPADL_CREATED'', VMBUS_CHANNEL_GPADL_CREATED),
     (''VMBUS_CHANNEL_GPADL_TEARDOWN'', VMBUS_CHANNEL_GPADL_TEARDOWN),
     (''VMBUS_CHANNEL_GPADL_TORNDOWN'', VMBUS_CHANNEL_GPADL_TORNDOWN),
     (''VMBUS_CHANNEL_RELID_RELEASED'', VMBUS_CHANNEL_RELID_RELEASED),
     (''VMBUS_CHANNEL_INITIATE_CONTACT'', VMBUS_CHANNEL_INITIATE_CONTACT),
     (''VMBUS_CHANNEL_VERSION_RESPONSE'', VMBUS_CHANNEL_VERSION_RESPONSE),
     (''VMBUS_CHANNEL_UNLOAD'', VMBUS_CHANNEL_UNLOAD),
     (''VMBUS_CHANNEL_UNLOAD_COMPLETE'', VMBUS_CHANNEL_UNLOAD_COMPLETE),
     (''VMBUS_CHANNEL_OPEN_RESERVED_CHANNEL'', VMBUS_CHANNEL_OPEN_RESERVED_CHANNEL),
     (''VMBUS_CHANNEL_CLOSE_RESERVED_CHANNEL'', VMBUS_CHANNEL_CLOSE_RESERVED_CHANNEL),
     (''VMBUS_CHANNEL_CLOSE_RESERVED_RESPONSE'', VMBUS_CHANNEL_CLOSE_RESERVED_RESPONSE),
     (''VMBUS_CHANNEL_TL_CONNECT_REQUEST'', VMBUS_CHANNEL_TL_CONNECT_REQUEST),
     (''VMBUS_CHANNEL_TL_CONNECT_RESULT'', VMBUS_CHANNEL_TL_CONNECT_RESULT),
     (''VMBUS_CHANNEL_MODIFY_CONNECTION'', VMBUS_CHANNEL_MODIFY_CONNECTION),
     (''VMBUS_CHANNEL_MODIFY_CONNECTION_RESPONSE'', VMBUS_CHANNEL_MODIFY_CONNECTION_RESPONSE),
     (''VMRCB'', VMRCB), (''VMPACKET_DESCRIPTOR'', VMPACKET_DESCRIPTOR),
     (''PREVIOUS_PACKET_OFFSET'', PREVIOUS_PACKET_OFFSET),
     (''VMTRANSFER_PAGE_RANGE'', VMTRANSFER_PAGE_RANGE),
     (''VMTRANSFER_PAGE_PACKET_HEADER'', VMTRANSFER_PAGE_PACKET_HEADER),
     (''VMDATA_GPA_DIRECT'', VMDATA_GPA_DIRECT), (''VMPIPE_PROTOCOL_HEADER'', VMPIPE_PROTOCOL_HEADER),
     (''VMPIPE_SETUP_GPA_DIRECT_BODY'', VMPIPE_SETUP_GPA_DIRECT_BODY),
     (''VMPIPE_TEARDOWN_GPA_DIRECT_BODY'', VMPIPE_TEARDOWN_GPA_DIRECT_BODY),
     (''VMTRANSFER_PAGE_RANGES'', VMTRANSFER_PAGE_RANGES),
     (''SYNTHVID_MESSAGE_HEADER'', SYNTHVID_MESSAGE_HEADER), (''SYNTHVID_MESSAGE'', SYNTHVID_MESSAGE),
     (''SYNTHVID_VERSION'', SYNTHVID_VERSION),
     (''SYNTHVID_VERSION_REQUEST_MESSAGE'', SYNTHVID_VERSION_REQUEST_MESSAGE),
     (''SYNTHVID_VERSION_RESPONSE_MESSAGE'', SYNTHVID_VERSION_RESPONSE_MESSAGE),
     (''SYNTHVID_VRAM_LOCATION_MESSAGE'', SYNTHVID_VRAM_LOCATION_MESSAGE),
     (''SYNTHVID_VRAM_LOCATION_ACK_MESSAGE'', SYNTHVID_VRAM_LOCATION_ACK_MESSAGE),
     (''VIDEO_OUTPUT_SITUATION'', VIDEO_OUTPUT_SITUATION),
     (''SYNTHVID_SITUATION_UPDATE_MESSAGE'', SYNTHVID_SITUATION_UPDATE_MESSAGE),
     (''SYNTHVID_SITUATION_UPDATE_ACK_MESSAGE'', SYNTHVID_SITUATION_UPDATE_ACK_MESSAGE),
     (''HK_MESSAGE_HEADER'', HK_MESSAGE_HEADER),
     (''HK_MESSAGE_PROTOCOL_REQUEST'', HK_MESSAGE_PROTOCOL_REQUEST),
     (''HK_MESSAGE_LED_INDICATORS_STATE'', HK_MESSAGE_LED_INDICATORS_STATE),
     (''HK_MESSAGE_PROTOCOL_RESPONSE'', HK_MESSAGE_PROTOCOL_RESPONSE),
     (''HK_MESSAGE_KEYSTROKE'', HK_MESSAGE_KEYSTROKE), (''VMSCSI_REQUEST'', VMSCSI_REQUEST),
     (''VMSTORAGE_CHANNEL_PROPERTIES'', VMSTORAGE_CHANNEL_PROPERTIES),
     (''VMSTORAGE_OFFER_PROPERTIES'', VMSTORAGE_OFFER_PROPERTIES),
     (''VMSTORAGE_PROTOCOL_VERSION'', VMSTORAGE_PROTOCOL_VERSION),
     (''VMFC_WWN_PACKET'', VMFC_WWN_PACKET), (''VSTOR_CLIENT_PROPERTIES'', VSTOR_CLIENT_PROPERTIES),
     (''VSTOR_ASYNC_REGISTER_PACKET'', VSTOR_ASYNC_REGISTER_PACKET),
     (''VSTOR_NOTIFICATION_PACKET'', VSTOR_NOTIFICATION_PACKET), (''VSTOR_PACKET'', VSTOR_PACKET),
     (''ADAPTER_ADDRESS'', ADAPTER_ADDRESS), (''NVSP_MESSAGE_HEADER'', NVSP_MESSAGE_HEADER),
     (''HV_NDIS_OBJECT_HEADER'', HV_NDIS_OBJECT_HEADER), (''NVSP_MESSAGE_INIT'', NVSP_MESSAGE_INIT),
     (''NVSP_MESSAGE_INIT_COMPLETE'', NVSP_MESSAGE_INIT_COMPLETE),
     (''NVSP_MESSAGE_INIT_UBER'', NVSP_MESSAGE_INIT_UBER),
     (''NVSP_1_MESSAGE_SEND_NDIS_VERSION'', NVSP_1_MESSAGE_SEND_NDIS_VERSION),
     (''NVSP_1_MESSAGE_SEND_RECEIVE_BUFFER'', NVSP_1_MESSAGE_SEND_RECEIVE_BUFFER),
     (''NVSP_1_RECEIVE_BUFFER_SECTION'', NVSP_1_RECEIVE_BUFFER_SECTION),
     (''NVSP_1_MESSAGE_SEND_RECEIVE_BUFFER_COMPLETE'', NVSP_1_MESSAGE_SEND_RECEIVE_BUFFER_COMPLETE),
     (''NVSP_1_MESSAGE_REVOKE_RECEIVE_BUFFER'', NVSP_1_MESSAGE_REVOKE_RECEIVE_BUFFER),
     (''NVSP_1_MESSAGE_SEND_SEND_BUFFER'', NVSP_1_MESSAGE_SEND_SEND_BUFFER),
     (''NVSP_1_MESSAGE_SEND_SEND_BUFFER_COMPLETE'', NVSP_1_MESSAGE_SEND_SEND_BUFFER_COMPLETE),
     (''NVSP_1_MESSAGE_REVOKE_SEND_BUFFER'', NVSP_1_MESSAGE_REVOKE_SEND_BUFFER),
     (''NVSP_1_MESSAGE_SEND_RNDIS_PACKET'', NVSP_1_MESSAGE_SEND_RNDIS_PACKET),
     (''NVSP_1_MESSAGE_SEND_RNDIS_PACKET_COMPLETE'', NVSP_1_MESSAGE_SEND_RNDIS_PACKET_COMPLETE),
     (''NVSP_2_NETVSC_CAPABILITIES'', NVSP_2_NETVSC_CAPABILITIES),
     (''NVSP_2_MESSAGE_SEND_NDIS_CONFIG'', NVSP_2_MESSAGE_SEND_NDIS_CONFIG),
     (''NVSP_TRANSFER_PAGE_RANGE'', NVSP_TRANSFER_PAGE_RANGE),
     (''NVSP_4_MESSAGE_SEND_VF_ASSOCIATION'', NVSP_4_MESSAGE_SEND_VF_ASSOCIATION),
     (''NVSP_4_MESSAGE_SWITCH_DATA_PATH'', NVSP_4_MESSAGE_SWITCH_DATA_PATH),
     (''NVSP_5_MESSAGE_OID_QUERY_EX'', NVSP_5_MESSAGE_OID_QUERY_EX),
     (''NVSP_5_MESSAGE_OID_QUERY_EX_COMPLETE'', NVSP_5_MESSAGE_OID_QUERY_EX_COMPLETE),
     (''NVSP_5_MESSAGE_SUBCHANNEL_REQUEST'', NVSP_5_MESSAGE_SUBCHANNEL_REQUEST),
     (''NVSP_5_MESSAGE_SUBCHANNEL_COMPLETE'', NVSP_5_MESSAGE_SUBCHANNEL_COMPLETE),
     (''NVSP_5_MESSAGE_SEND_INDIRECTION_TABLE'', NVSP_5_MESSAGE_SEND_INDIRECTION_TABLE),
     (''NVSP_1_MESSAGE_UBER'', NVSP_1_MESSAGE_UBER), (''NVSP_2_MESSAGE_UBER'', NVSP_2_MESSAGE_UBER),
     (''NVSP_4_MESSAGE_UBER'', NVSP_4_MESSAGE_UBER), (''NVSP_5_MESSAGE_UBER'', NVSP_5_MESSAGE_UBER),
     (''NVSP_ALL_MESSAGES'', NVSP_ALL_MESSAGES), (''NVSP_MESSAGE'', NVSP_MESSAGE),
     (''RNDIS_REQUEST_ID'', RNDIS_REQUEST_ID), (''RNDIS_HANDLE'', RNDIS_HANDLE),
     (''RNDIS_STATUS'', RNDIS_STATUS), (''RNDIS_REQUEST_TYPE'', RNDIS_REQUEST_TYPE),
     (''RNDIS_OID'', RNDIS_OID), (''RNDIS_CLASS_ID'', RNDIS_CLASS_ID), (''RNDIS_MEDIUM'', RNDIS_MEDIUM),
     (''RNDIS_INITIALIZE_REQUEST'', RNDIS_INITIALIZE_REQUEST),
     (''RNDIS_INITIALIZE_COMPLETE'', RNDIS_INITIALIZE_COMPLETE),
     (''RNDIS_HALT_REQUEST'', RNDIS_HALT_REQUEST), (''RNDIS_QUERY_REQUEST'', RNDIS_QUERY_REQUEST),
     (''RNDIS_QUERY_COMPLETE'', RNDIS_QUERY_COMPLETE), (''RNDIS_SET_REQUEST'', RNDIS_SET_REQUEST),
     (''RNDIS_SET_COMPLETE'', RNDIS_SET_COMPLETE), (''RNDIS_SET_EX_REQUEST'', RNDIS_SET_EX_REQUEST),
     (''RNDIS_SET_EX_COMPLETE'', RNDIS_SET_EX_COMPLETE), (''RNDIS_RESET_REQUEST'', RNDIS_RESET_REQUEST),
     (''RNDIS_RESET_COMPLETE'', RNDIS_RESET_COMPLETE),
     (''RNDIS_INDICATE_STATUS'', RNDIS_INDICATE_STATUS),
     (''RNDIS_DIAGNOSTIC_INFO'', RNDIS_DIAGNOSTIC_INFO),
     (''RNDIS_KEEPALIVE_REQUEST'', RNDIS_KEEPALIVE_REQUEST),
     (''RNDIS_KEEPALIVE_COMPLETE'', RNDIS_KEEPALIVE_COMPLETE), (''RNDIS_PACKET'', RNDIS_PACKET),
     (''RNDIS_CONFIG_PARAMETER_INFO'', RNDIS_CONFIG_PARAMETER_INFO),
     (''RCONDIS_MP_CREATE_VC'', RCONDIS_MP_CREATE_VC),
     (''RCONDIS_MP_CREATE_VC_COMPLETE'', RCONDIS_MP_CREATE_VC_COMPLETE),
     (''RCONDIS_MP_DELETE_VC'', RCONDIS_MP_DELETE_VC),
     (''RCONDIS_MP_DELETE_VC_COMPLETE'', RCONDIS_MP_DELETE_VC_COMPLETE),
     (''RCONDIS_MP_QUERY_REQUEST'', RCONDIS_MP_QUERY_REQUEST),
     (''RCONDIS_MP_SET_REQUEST'', RCONDIS_MP_SET_REQUEST),
     (''RCONDIS_INDICATE_STATUS'', RCONDIS_INDICATE_STATUS),
     (''RCONDIS_SPECIFIC_PARAMETERS'', RCONDIS_SPECIFIC_PARAMETERS),
     (''RCONDIS_MEDIA_PARAMETERS'', RCONDIS_MEDIA_PARAMETERS), (''RNDIS_FLOWSPEC'', RNDIS_FLOWSPEC),
     (''RCONDIS_CALL_MANAGER_PARAMETERS'', RCONDIS_CALL_MANAGER_PARAMETERS),
     (''RCONDIS_MP_ACTIVATE_VC_REQUEST'', RCONDIS_MP_ACTIVATE_VC_REQUEST),
     (''RCONDIS_MP_ACTIVATE_VC_COMPLETE'', RCONDIS_MP_ACTIVATE_VC_COMPLETE),
     (''RCONDIS_MP_DEACTIVATE_VC_REQUEST'', RCONDIS_MP_DEACTIVATE_VC_REQUEST),
     (''RCONDIS_MP_DEACTIVATE_VC_COMPLETE'', RCONDIS_MP_DEACTIVATE_VC_COMPLETE),
     (''RNDIS_MESSAGE_CONTAINER'', RNDIS_MESSAGE_CONTAINER), (''RNDIS_MESSAGE'', RNDIS_MESSAGE),
     (''CM_PARTIAL_RESOURCE_DESCRIPTOR'', CM_PARTIAL_RESOURCE_DESCRIPTOR),
     (''PCI_SLOT_NUMBER'', PCI_SLOT_NUMBER), (''VPCI_PNP_ID'', VPCI_PNP_ID),
     (''VPCI_PACKET_HEADER'', VPCI_PACKET_HEADER), (''VPCI_REPLY_HEADER'', VPCI_REPLY_HEADER),
     (''VPCI_DEVICE_DESCRIPTION'', VPCI_DEVICE_DESCRIPTION),
     (''VPCI_QUERY_BUS_RELATIONS'', VPCI_QUERY_BUS_RELATIONS),
     (''VPCI_MESSAGE_RESOURCE_2'', VPCI_MESSAGE_RESOURCE_2),
     (''VPCI_QUERY_PROTOCOL_VERSION'', VPCI_QUERY_PROTOCOL_VERSION),
     (''VPCI_PROTOCOL_VERSION_REPLY'', VPCI_PROTOCOL_VERSION_REPLY),
     (''VPCI_QUERY_RESOURCE_REQUIREMENTS'', VPCI_QUERY_RESOURCE_REQUIREMENTS),
     (''VPCI_RESOURCE_REQUIREMENTS_REPLY'', VPCI_RESOURCE_REQUIREMENTS_REPLY),
     (''VPCI_DEVICE_POWER_CHANGE'', VPCI_DEVICE_POWER_CHANGE),
     (''VPCI_DEVICE_TRANSLATE_2'', VPCI_DEVICE_TRANSLATE_2),
     (''VPCI_DEVICE_TRANSLATE_2_REPLY'', VPCI_DEVICE_TRANSLATE_2_REPLY),
     (''VPCI_FDO_D0_ENTRY'', VPCI_FDO_D0_ENTRY), (''VPCI_FDO_D0_ENTRY_REPLY'', VPCI_FDO_D0_ENTRY_REPLY),
     (''PCI_BAR_FORMAT'', PCI_BAR_FORMAT), (''VMBFS_MESSAGE_HEADER'', VMBFS_MESSAGE_HEADER),
     (''VMBFS_MESSAGE_VERSION_REQUEST'', VMBFS_MESSAGE_VERSION_REQUEST),
     (''VMBFS_MESSAGE_VERSION_RESPONSE'', VMBFS_MESSAGE_VERSION_RESPONSE),
     (''VMBFS_MESSAGE_GET_FILE_INFO'', VMBFS_MESSAGE_GET_FILE_INFO),
     (''VMBFS_MESSAGE_GET_FILE_INFO_RESPONSE'', VMBFS_MESSAGE_GET_FILE_INFO_RESPONSE),
     (''VMBFS_MESSAGE_READ_FILE'', VMBFS_MESSAGE_READ_FILE),
     (''VMBFS_MESSAGE_READ_FILE_RESPONSE'', VMBFS_MESSAGE_READ_FILE_RESPONSE),
     (''VMBFS_MESSAGE_READ_FILE_RDMA'', VMBFS_MESSAGE_READ_FILE_RDMA),
     (''VMBFS_MESSAGE_READ_FILE_RDMA_RESPONSE'', VMBFS_MESSAGE_READ_FILE_RDMA_RESPONSE)]"

lemmas guest_type_defs =
  GPA_RANGE_def VMBUS_CHANNEL_MESSAGE_HEADER_def VMBUS_CHANNEL_OFFER_CHANNEL_def
  VMBUS_CHANNEL_RESCIND_OFFER_def VMBUS_CHANNEL_OPEN_CHANNEL_def VMBUS_CHANNEL_OPEN_RESULT_def
  VMBUS_CHANNEL_CLOSE_CHANNEL_def VMBUS_CHANNEL_MODIFY_CHANNEL_def
  VMBUS_CHANNEL_MODIFY_CHANNEL_RESPONSE_def VMBUS_CHANNEL_GPADL_HEADER_def
  VMBUS_CHANNEL_GPADL_BODY_def VMBUS_CHANNEL_GPADL_CREATED_def VMBUS_CHANNEL_GPADL_TEARDOWN_def
  VMBUS_CHANNEL_GPADL_TORNDOWN_def VMBUS_CHANNEL_RELID_RELEASED_def
  VMBUS_CHANNEL_INITIATE_CONTACT_def VMBUS_CHANNEL_VERSION_RESPONSE_def VMBUS_CHANNEL_UNLOAD_def
  VMBUS_CHANNEL_UNLOAD_COMPLETE_def VMBUS_CHANNEL_OPEN_RESERVED_CHANNEL_def
  VMBUS_CHANNEL_CLOSE_RESERVED_CHANNEL_def VMBUS_CHANNEL_CLOSE_RESERVED_RESPONSE_def
  VMBUS_CHANNEL_TL_CONNECT_REQUEST_def VMBUS_CHANNEL_TL_CONNECT_RESULT_def
  VMBUS_CHANNEL_MODIFY_CONNECTION_def VMBUS_CHANNEL_MODIFY_CONNECTION_RESPONSE_def VMRCB_def
  VMPACKET_DESCRIPTOR_def PREVIOUS_PACKET_OFFSET_def VMTRANSFER_PAGE_RANGE_def
  VMTRANSFER_PAGE_PACKET_HEADER_def VMDATA_GPA_DIRECT_def VMPIPE_PROTOCOL_HEADER_def
  VMPIPE_SETUP_GPA_DIRECT_BODY_def VMPIPE_TEARDOWN_GPA_DIRECT_BODY_def VMTRANSFER_PAGE_RANGES_def
  SYNTHVID_MESSAGE_HEADER_def SYNTHVID_MESSAGE_def SYNTHVID_VERSION_def
  SYNTHVID_VERSION_REQUEST_MESSAGE_def SYNTHVID_VERSION_RESPONSE_MESSAGE_def
  SYNTHVID_VRAM_LOCATION_MESSAGE_def SYNTHVID_VRAM_LOCATION_ACK_MESSAGE_def
  VIDEO_OUTPUT_SITUATION_def SYNTHVID_SITUATION_UPDATE_MESSAGE_def
  SYNTHVID_SITUATION_UPDATE_ACK_MESSAGE_def HK_MESSAGE_HEADER_def HK_MESSAGE_PROTOCOL_REQUEST_def
  HK_MESSAGE_LED_INDICATORS_STATE_def HK_MESSAGE_PROTOCOL_RESPONSE_def HK_MESSAGE_KEYSTROKE_def
  VMSCSI_REQUEST_def VMSTORAGE_CHANNEL_PROPERTIES_def VMSTORAGE_OFFER_PROPERTIES_def
  VMSTORAGE_PROTOCOL_VERSION_def VMFC_WWN_PACKET_def VSTOR_CLIENT_PROPERTIES_def
  VSTOR_ASYNC_REGISTER_PACKET_def VSTOR_NOTIFICATION_PACKET_def VSTOR_PACKET_def ADAPTER_ADDRESS_def
  NVSP_MESSAGE_HEADER_def HV_NDIS_OBJECT_HEADER_def NVSP_MESSAGE_INIT_def
  NVSP_MESSAGE_INIT_COMPLETE_def NVSP_MESSAGE_INIT_UBER_def NVSP_1_MESSAGE_SEND_NDIS_VERSION_def
  NVSP_1_MESSAGE_SEND_RECEIVE_BUFFER_def NVSP_1_RECEIVE_BUFFER_SECTION_def
  NVSP_1_MESSAGE_SEND_RECEIVE_BUFFER_COMPLETE_def NVSP_1_MESSAGE_REVOKE_RECEIVE_BUFFER_def
  NVSP_1_MESSAGE_SEND_SEND_BUFFER_def NVSP_1_MESSAGE_SEND_SEND_BUFFER_COMPLETE_def
  NVSP_1_MESSAGE_REVOKE_SEND_BUFFER_def NVSP_1_MESSAGE_SEND_RNDIS_PACKET_def
  NVSP_1_MESSAGE_SEND_RNDIS_PACKET_COMPLETE_def NVSP_2_NETVSC_CAPABILITIES_def
  NVSP_2_MESSAGE_SEND_NDIS_CONFIG_def NVSP_TRANSFER_PAGE_RANGE_def
  NVSP_4_MESSAGE_SEND_VF_ASSOCIATION_def NVSP_4_MESSAGE_SWITCH_DATA_PATH_def
  NVSP_5_MESSAGE_OID_QUERY_EX_def NVSP_5_MESSAGE_OID_QUERY_EX_COMPLETE_def
  NVSP_5_MESSAGE_SUBCHANNEL_REQUEST_def NVSP_5_MESSAGE_SUBCHANNEL_COMPLETE_def
  NVSP_5_MESSAGE_SEND_INDIRECTION_TABLE_def NVSP_1_MESSAGE_UBER_def NVSP_2_MESSAGE_UBER_def
  NVSP_4_MESSAGE_UBER_def NVSP_5_MESSAGE_UBER_def NVSP_ALL_MESSAGES_def NVSP_MESSAGE_def
  RNDIS_REQUEST_ID_def RNDIS_HANDLE_def RNDIS_STATUS_def RNDIS_REQUEST_TYPE_def RNDIS_OID_def
  RNDIS_CLASS_ID_def RNDIS_MEDIUM_def RNDIS_INITIALIZE_REQUEST_def RNDIS_INITIALIZE_COMPLETE_def
  RNDIS_HALT_REQUEST_def RNDIS_QUERY_REQUEST_def RNDIS_QUERY_COMPLETE_def RNDIS_SET_REQUEST_def
  RNDIS_SET_COMPLETE_def RNDIS_SET_EX_REQUEST_def RNDIS_SET_EX_COMPLETE_def RNDIS_RESET_REQUEST_def
  RNDIS_RESET_COMPLETE_def RNDIS_INDICATE_STATUS_def RNDIS_DIAGNOSTIC_INFO_def
  RNDIS_KEEPALIVE_REQUEST_def RNDIS_KEEPALIVE_COMPLETE_def RNDIS_PACKET_def
  RNDIS_CONFIG_PARAMETER_INFO_def RCONDIS_MP_CREATE_VC_def RCONDIS_MP_CREATE_VC_COMPLETE_def
  RCONDIS_MP_DELETE_VC_def RCONDIS_MP_DELETE_VC_COMPLETE_def RCONDIS_MP_QUERY_REQUEST_def
  RCONDIS_MP_SET_REQUEST_def RCONDIS_INDICATE_STATUS_def RCONDIS_SPECIFIC_PARAMETERS_def
  RCONDIS_MEDIA_PARAMETERS_def RNDIS_FLOWSPEC_def RCONDIS_CALL_MANAGER_PARAMETERS_def
  RCONDIS_MP_ACTIVATE_VC_REQUEST_def RCONDIS_MP_ACTIVATE_VC_COMPLETE_def
  RCONDIS_MP_DEACTIVATE_VC_REQUEST_def RCONDIS_MP_DEACTIVATE_VC_COMPLETE_def
  RNDIS_MESSAGE_CONTAINER_def RNDIS_MESSAGE_def CM_PARTIAL_RESOURCE_DESCRIPTOR_def
  PCI_SLOT_NUMBER_def VPCI_PNP_ID_def VPCI_PACKET_HEADER_def VPCI_REPLY_HEADER_def
  VPCI_DEVICE_DESCRIPTION_def VPCI_QUERY_BUS_RELATIONS_def VPCI_MESSAGE_RESOURCE_2_def
  VPCI_QUERY_PROTOCOL_VERSION_def VPCI_PROTOCOL_VERSION_REPLY_def
  VPCI_QUERY_RESOURCE_REQUIREMENTS_def VPCI_RESOURCE_REQUIREMENTS_REPLY_def
  VPCI_DEVICE_POWER_CHANGE_def VPCI_DEVICE_TRANSLATE_2_def VPCI_DEVICE_TRANSLATE_2_REPLY_def
  VPCI_FDO_D0_ENTRY_def VPCI_FDO_D0_ENTRY_REPLY_def PCI_BAR_FORMAT_def VMBFS_MESSAGE_HEADER_def
  VMBFS_MESSAGE_VERSION_REQUEST_def VMBFS_MESSAGE_VERSION_RESPONSE_def
  VMBFS_MESSAGE_GET_FILE_INFO_def VMBFS_MESSAGE_GET_FILE_INFO_RESPONSE_def
  VMBFS_MESSAGE_READ_FILE_def VMBFS_MESSAGE_READ_FILE_RESPONSE_def VMBFS_MESSAGE_READ_FILE_RDMA_def
  VMBFS_MESSAGE_READ_FILE_RDMA_RESPONSE_def HV_GUID_def NTSTATUS_def CDB16GENERIC_LENGTH_def
  MAX_DATA_BUFFER_LENGTH_WITH_PADDING_def MAX_USER_DEFINED_BYTES_def PCI_MAX_BAR_def
  VMSCSI_SENSE_BUFFER_SIZE_def VPCI_MESSAGE_RESOURCE_2_MAX_CPU_COUNT_def HV_ANYSIZE_ARRAY_def

lemmas guest_macro_defs =
  MAXIMUM_SYNIC_MESSAGE_BYTES_def GPA_RANGE_MAX_PFN_COUNT_def VMBUS_VERSION_V1_def
  VMBUS_VERSION_WIN7_def VMBUS_VERSION_WIN8_def VMBUS_VERSION_WIN8_1_def VMBUS_VERSION_WIN10_def
  VMBUS_VERSION_WIN10RS3_0_def VMBUS_VERSION_WIN10RS3_1_def VMBUS_VERSION_WIN10RS4_def
  VMBUS_VERSION_WIN10RS5_def VMBUS_VERSION_IRON_def VMBUS_VERSION_COPPER_def VMBUS_VERSION_LATEST_def
  VMBUS_VERSION_MULTICLIENT_def VMBUS_FEATURE_FLAG_GUEST_SPECIFIED_SIGNAL_PARAMETERS_def
  VMBUS_FEATURE_FLAG_CHANNEL_INTERRUPT_REDIRECTION_def VMBUS_FEATURE_FLAG_MODIFY_CONNECTION_def
  VMBUS_FEATURE_FLAG_CLIENT_ID_def VMBUS_FEATURE_FLAG_CONFIDENTIAL_CHANNELS_def
  VMBUS_SUPPORTED_FEATURE_FLAGS_COPPER_def VMBUS_SUPPORTED_FEATURE_FLAGS_DILITHIUM_def
  VMBUS_OFFER_FLAG_ENUMERATE_DEVICE_INTERFACE_def VMBUS_OFFER_FLAG_CONFIDENTIAL_RING_BUFFER_def
  VMBUS_OFFER_FLAG_CONFIDENTIAL_EXTERNAL_MEMORY_def VMBUS_OFFER_FLAG_NAMED_PIPE_MODE_def
  VMBUS_OFFER_FLAG_TLNPI_PROVIDER_def VMBUS_OFFER_FLAGS_WIN6_def VMBUS_OFFER_FLAGS_WIN10_def
  VMBUS_OPEN_FLAG_REDIRECT_INTERRUPT_def VMBUS_MESSAGE_CONNECTION_ID_def VMBUS_MESSAGE_TYPE_def
  VMBUS_MAX_GPADLS_def VMBUS_DATA_PACKET_FLAG_COMPLETION_REQUESTED_def SYNTHVID_VERSION_MAJOR_def
  SYNTHVID_VERSION_MINOR_def SYNTHVID_VERSION_CURRENT_def DEFAULT_VRAM_SIZE_WIN7_def
  DEFAULT_VRAM_SIZE_WIN8_def HK_VERSION_WIN8_def HK_MAXIMUM_MESSAGE_SIZE_def
  VMSTOR_PROTOCOL_VERSION_WIN6_def VMSTOR_PROTOCOL_VERSION_WIN7_def VMSTOR_PROTOCOL_VERSION_WIN8_def
  VMSTOR_PROTOCOL_VERSION_BLUE_def VMSTOR_PROTOCOL_VERSION_CURRENT_def MAX_TRANSFER_LENGTH_def
  VMSTOR_PROPERTY_AN_CAPABLE_def VMSCSI_SENSE_BUFFER_SIZE_REVISION_1_def
  STORAGE_CHANNEL_SUPPORTS_MULTI_CHANNEL_def STORAGE_OFFER_EMULATED_IDE_FLAG_def
  REQUEST_COMPLETION_FLAG_def VSC_LEGAL_FLAGS_def ADAPTER_ADDRESS_EMULATED_DEVICE_def
  ADAPTER_ADDRESS_SYNTHFC_DEVICE_def VSTORAGE_ALIGNMENT_MASK_def NVSP_INVALID_PROTOCOL_VERSION_def
  NVSP_PROTOCOL_VERSION_1_def NVSP_PROTOCOL_VERSION_2_def NVSP_PROTOCOL_VERSION_4_def
  NVSP_PROTOCOL_VERSION_5_def NVSP_PROTOCOL_VERSION_CURRENT_def NVSP_OPERATIONAL_STATUS_OK_def
  NVSP_OPERATIONAL_STATUS_DEGRADED_def NVSP_OPERATIONAL_STATUS_NONRECOVERABLE_def
  NVSP_OPERATIONAL_STATUS_NO_CONTACT_def NVSP_OPERATIONAL_STATUS_LOST_COMMUNICATION_def
  NVSP_MAX_PACKETS_PER_RECEIVE_def VMS_SWITCH_RSS_MAX_RSS_PROC_COUNT_def RNDIS_STATUS_SUCCESS_def
  RNDIS_STATUS_MEDIA_CONNECT_def RNDIS_STATUS_MEDIA_DISCONNECT_def NDIS_STATUS_NETWORK_CHANGE_def
  RNDIS_OID_GEN_CURRENT_PACKET_FILTER_def RNDIS_OID_802_3_CURRENT_ADDRESS_def
  REMOTE_NDIS_PACKET_MSG_def REMOTE_NDIS_INITIALIZE_MSG_def REMOTE_NDIS_HALT_MSG_def
  REMOTE_NDIS_QUERY_MSG_def REMOTE_NDIS_SET_MSG_def REMOTE_NDIS_RESET_MSG_def
  REMOTE_NDIS_INDICATE_STATUS_MSG_def REMOTE_NDIS_KEEPALIVE_MSG_def REMOTE_NDIS_SET_EX_MSG_def
  REMOTE_CONDIS_MP_CREATE_VC_MSG_def REMOTE_CONDIS_MP_DELETE_VC_MSG_def
  REMOTE_CONDIS_MP_ACTIVATE_VC_MSG_def REMOTE_CONDIS_MP_DEACTIVATE_VC_MSG_def
  REMOTE_CONDIS_INDICATE_STATUS_MSG_def REMOTE_NDIS_INITIALIZE_CMPLT_def REMOTE_NDIS_QUERY_CMPLT_def
  REMOTE_NDIS_SET_CMPLT_def REMOTE_NDIS_BUS_MSG_def RNDIS_MAJOR_VERSION_def RNDIS_MINOR_VERSION_def
  CmResourceTypeNull_def CmResourceTypeMemory_def CM_RESOURCE_MEMORY_LARGE_40_def
  CM_RESOURCE_MEMORY_LARGE_48_def CM_RESOURCE_MEMORY_LARGE_64_def
  CM_RESOURCE_MEMORY_LARGE_40_MAXLEN_def CM_RESOURCE_MEMORY_LARGE_48_MAXLEN_def
  CM_RESOURCE_MEMORY_LARGE_64_MAXLEN_def VPCI_PROTOCOL_VERSION_RS1_def
  VPCI_PROTOCOL_VERSION_CURRENT_def VPCI_MAX_DEVICES_PER_BUS_def PCI_BAR_MEMORY_TYPE_64BIT_def
  VMBFS_MAXIMUM_MESSAGE_SIZE_def VMBFS_VERSION_WIN10_def VMBFS_GET_FILE_INFO_FLAG_DIRECTORY_def
  VMBFS_GET_FILE_INFO_FLAG_RDMA_CAPABLE_def VMBFS_GET_FILE_INFO_FLAGS_def HK_MAKE_VERSION_def
  NVSP_PROTOCOL_MAJOR_def NVSP_PROTOCOL_MINOR_def NVSP_PROTOCOL_VERSION_def VMBFS_MAKE_VERSION_def
  VMBUS_MAKE_VERSION_def VMSTOR_PROTOCOL_MAJOR_def VMSTOR_PROTOCOL_MINOR_def
  VMSTOR_PROTOCOL_VERSION_def

text \<open>The structure of each channel message, by its number.\<close>

definition channel_messages :: "(string \<times> cty) list" where
  "channel_messages = [
     (''ChannelMessageOfferChannel'', VMBUS_CHANNEL_OFFER_CHANNEL),
     (''ChannelMessageRescindChannelOffer'', VMBUS_CHANNEL_RESCIND_OFFER),
     (''ChannelMessageOpenChannel'', VMBUS_CHANNEL_OPEN_CHANNEL),
     (''ChannelMessageOpenChannelResult'', VMBUS_CHANNEL_OPEN_RESULT),
     (''ChannelMessageCloseChannel'', VMBUS_CHANNEL_CLOSE_CHANNEL),
     (''ChannelMessageGpadlHeader'', VMBUS_CHANNEL_GPADL_HEADER),
     (''ChannelMessageGpadlBody'', VMBUS_CHANNEL_GPADL_BODY),
     (''ChannelMessageGpadlCreated'', VMBUS_CHANNEL_GPADL_CREATED),
     (''ChannelMessageGpadlTeardown'', VMBUS_CHANNEL_GPADL_TEARDOWN),
     (''ChannelMessageGpadlTorndown'', VMBUS_CHANNEL_GPADL_TORNDOWN),
     (''ChannelMessageRelIdReleased'', VMBUS_CHANNEL_RELID_RELEASED),
     (''ChannelMessageInitiateContact'', VMBUS_CHANNEL_INITIATE_CONTACT),
     (''ChannelMessageVersionResponse'', VMBUS_CHANNEL_VERSION_RESPONSE),
     (''ChannelMessageOpenReservedChannel'', VMBUS_CHANNEL_OPEN_RESERVED_CHANNEL),
     (''ChannelMessageCloseReservedChannel'', VMBUS_CHANNEL_CLOSE_RESERVED_CHANNEL),
     (''ChannelMessageCloseReservedResponse'', VMBUS_CHANNEL_CLOSE_RESERVED_RESPONSE),
     (''ChannelMessageTlConnectRequest'', VMBUS_CHANNEL_TL_CONNECT_REQUEST),
     (''ChannelMessageModifyChannel'', VMBUS_CHANNEL_MODIFY_CHANNEL),
     (''ChannelMessageTlConnectRequestResult'', VMBUS_CHANNEL_TL_CONNECT_RESULT),
     (''ChannelMessageModifyChannelResponse'', VMBUS_CHANNEL_MODIFY_CHANNEL_RESPONSE),
     (''ChannelMessageModifyConnection'', VMBUS_CHANNEL_MODIFY_CONNECTION),
     (''ChannelMessageModifyConnectionResponse'', VMBUS_CHANNEL_MODIFY_CONNECTION_RESPONSE)]"

definition is_channel_message :: "abi \<Rightarrow> cty \<Rightarrow> bool" where
  "is_channel_message A t \<longleftrightarrow> csize A t \<le> unat MAXIMUM_SYNIC_MESSAGE_BYTES
     \<and> HV_FIELD_OFFSET A t [''Header'', ''MessageType''] = Some 0"

text \<open>The \<open>HV_STATIC_ASSERT\<close>s of the header.\<close>

definition static_asserts :: "abi \<Rightarrow> bool" where
  "static_asserts A \<longleftrightarrow>
       csize A VMBUS_CHANNEL_OFFER_CHANNEL \<le> unat MAXIMUM_SYNIC_MESSAGE_BYTES
     \<and> HV_FIELD_OFFSET A VMRCB [''FeatureBits''] = Some 64
     \<and> csize A VMSCSI_REQUEST mod 4 = 0
     \<and> VMSTORAGE_SIZEOF_VMSCSI_REQUEST_REVISION_1 A = Some 0x24
     \<and> VMSTORAGE_SIZEOF_VMSCSI_REQUEST_REVISION_2 A = Some 0x34
     \<and> csize A VMSTORAGE_CHANNEL_PROPERTIES mod 4 = 0
     \<and> csize A VMSTORAGE_PROTOCOL_VERSION mod 4 = 0
     \<and> csize A VMFC_WWN_PACKET mod 4 = 0
     \<and> csize A VSTOR_CLIENT_PROPERTIES mod 4 = 0
     \<and> csize A VSTOR_ASYNC_REGISTER_PACKET mod 4 = 0
     \<and> csize A VSTOR_NOTIFICATION_PACKET mod 4 = 0
     \<and> csize A VSTOR_PACKET mod 8 = 0
     \<and> VMSTORAGE_SIZEOF_VSTOR_PACKET_REVISION_1 A = Some 0x30
     \<and> VMSTORAGE_SIZEOF_VSTOR_PACKET_REVISION_2 A = Some 0x40
     \<and> csize A NVSP_MESSAGE mod 8 = 0
     \<and> csize A CM_PARTIAL_RESOURCE_DESCRIPTOR = 0x14"

section \<open>Layouts\<close>

text \<open>The types without bit-fields and without \<open>NTSTATUS\<close>.\<close>

definition guest_plain :: "cty list" where
  "guest_plain = [
     GPA_RANGE, VMBUS_CHANNEL_MESSAGE_HEADER, VMBUS_CHANNEL_RESCIND_OFFER,
     VMBUS_CHANNEL_OPEN_CHANNEL, VMBUS_CHANNEL_OPEN_RESULT, VMBUS_CHANNEL_CLOSE_CHANNEL,
     VMBUS_CHANNEL_MODIFY_CHANNEL, VMBUS_CHANNEL_GPADL_HEADER, VMBUS_CHANNEL_GPADL_BODY,
     VMBUS_CHANNEL_GPADL_CREATED, VMBUS_CHANNEL_GPADL_TEARDOWN, VMBUS_CHANNEL_GPADL_TORNDOWN,
     VMBUS_CHANNEL_RELID_RELEASED, VMBUS_CHANNEL_INITIATE_CONTACT, VMBUS_CHANNEL_VERSION_RESPONSE,
     VMBUS_CHANNEL_UNLOAD, VMBUS_CHANNEL_UNLOAD_COMPLETE, VMBUS_CHANNEL_OPEN_RESERVED_CHANNEL,
     VMBUS_CHANNEL_CLOSE_RESERVED_CHANNEL, VMBUS_CHANNEL_CLOSE_RESERVED_RESPONSE,
     VMBUS_CHANNEL_TL_CONNECT_REQUEST, VMBUS_CHANNEL_MODIFY_CONNECTION,
     VMBUS_CHANNEL_MODIFY_CONNECTION_RESPONSE, VMPACKET_DESCRIPTOR, PREVIOUS_PACKET_OFFSET,
     VMTRANSFER_PAGE_RANGE, VMTRANSFER_PAGE_PACKET_HEADER, VMDATA_GPA_DIRECT,
     VMPIPE_PROTOCOL_HEADER, VMPIPE_SETUP_GPA_DIRECT_BODY, VMPIPE_TEARDOWN_GPA_DIRECT_BODY,
     VMTRANSFER_PAGE_RANGES, SYNTHVID_MESSAGE_HEADER, SYNTHVID_MESSAGE, SYNTHVID_VERSION,
     SYNTHVID_VERSION_REQUEST_MESSAGE, SYNTHVID_VERSION_RESPONSE_MESSAGE,
     SYNTHVID_VRAM_LOCATION_MESSAGE, SYNTHVID_VRAM_LOCATION_ACK_MESSAGE, VIDEO_OUTPUT_SITUATION,
     SYNTHVID_SITUATION_UPDATE_MESSAGE, SYNTHVID_SITUATION_UPDATE_ACK_MESSAGE, HK_MESSAGE_HEADER,
     HK_MESSAGE_PROTOCOL_REQUEST, HK_MESSAGE_LED_INDICATORS_STATE, VMSCSI_REQUEST,
     VMSTORAGE_CHANNEL_PROPERTIES, VMSTORAGE_OFFER_PROPERTIES, VMSTORAGE_PROTOCOL_VERSION,
     VMFC_WWN_PACKET, VSTOR_ASYNC_REGISTER_PACKET, VSTOR_NOTIFICATION_PACKET, ADAPTER_ADDRESS,
     NVSP_MESSAGE_HEADER, HV_NDIS_OBJECT_HEADER, NVSP_MESSAGE_INIT, NVSP_MESSAGE_INIT_COMPLETE,
     NVSP_MESSAGE_INIT_UBER, NVSP_1_MESSAGE_SEND_NDIS_VERSION, NVSP_1_MESSAGE_SEND_RECEIVE_BUFFER,
     NVSP_1_RECEIVE_BUFFER_SECTION, NVSP_1_MESSAGE_SEND_RECEIVE_BUFFER_COMPLETE,
     NVSP_1_MESSAGE_REVOKE_RECEIVE_BUFFER, NVSP_1_MESSAGE_SEND_SEND_BUFFER,
     NVSP_1_MESSAGE_SEND_SEND_BUFFER_COMPLETE, NVSP_1_MESSAGE_REVOKE_SEND_BUFFER,
     NVSP_1_MESSAGE_SEND_RNDIS_PACKET, NVSP_1_MESSAGE_SEND_RNDIS_PACKET_COMPLETE,
     NVSP_TRANSFER_PAGE_RANGE, NVSP_4_MESSAGE_SEND_VF_ASSOCIATION, NVSP_4_MESSAGE_SWITCH_DATA_PATH,
     NVSP_5_MESSAGE_OID_QUERY_EX, NVSP_5_MESSAGE_OID_QUERY_EX_COMPLETE,
     NVSP_5_MESSAGE_SUBCHANNEL_REQUEST, NVSP_5_MESSAGE_SUBCHANNEL_COMPLETE,
     NVSP_5_MESSAGE_SEND_INDIRECTION_TABLE, NVSP_1_MESSAGE_UBER, NVSP_4_MESSAGE_UBER,
     NVSP_5_MESSAGE_UBER, RNDIS_REQUEST_ID, RNDIS_HANDLE, RNDIS_STATUS, RNDIS_REQUEST_TYPE,
     RNDIS_OID, RNDIS_CLASS_ID, RNDIS_MEDIUM, RNDIS_INITIALIZE_REQUEST, RNDIS_INITIALIZE_COMPLETE,
     RNDIS_HALT_REQUEST, RNDIS_QUERY_REQUEST, RNDIS_QUERY_COMPLETE, RNDIS_SET_REQUEST,
     RNDIS_SET_COMPLETE, RNDIS_SET_EX_REQUEST, RNDIS_SET_EX_COMPLETE, RNDIS_RESET_REQUEST,
     RNDIS_RESET_COMPLETE, RNDIS_INDICATE_STATUS, RNDIS_DIAGNOSTIC_INFO, RNDIS_KEEPALIVE_REQUEST,
     RNDIS_KEEPALIVE_COMPLETE, RNDIS_PACKET, RNDIS_CONFIG_PARAMETER_INFO, RCONDIS_MP_CREATE_VC,
     RCONDIS_MP_CREATE_VC_COMPLETE, RCONDIS_MP_DELETE_VC, RCONDIS_MP_DELETE_VC_COMPLETE,
     RCONDIS_MP_QUERY_REQUEST, RCONDIS_MP_SET_REQUEST, RCONDIS_INDICATE_STATUS,
     RCONDIS_SPECIFIC_PARAMETERS, RCONDIS_MEDIA_PARAMETERS, RNDIS_FLOWSPEC,
     RCONDIS_CALL_MANAGER_PARAMETERS, RCONDIS_MP_ACTIVATE_VC_REQUEST,
     RCONDIS_MP_ACTIVATE_VC_COMPLETE, RCONDIS_MP_DEACTIVATE_VC_REQUEST,
     RCONDIS_MP_DEACTIVATE_VC_COMPLETE, RNDIS_MESSAGE_CONTAINER, RNDIS_MESSAGE,
     CM_PARTIAL_RESOURCE_DESCRIPTOR, VPCI_PNP_ID, VPCI_PACKET_HEADER, VPCI_REPLY_HEADER,
     VPCI_DEVICE_DESCRIPTION, VPCI_QUERY_BUS_RELATIONS, VPCI_MESSAGE_RESOURCE_2,
     VPCI_QUERY_PROTOCOL_VERSION, VPCI_PROTOCOL_VERSION_REPLY, VPCI_RESOURCE_REQUIREMENTS_REPLY,
     VPCI_FDO_D0_ENTRY, VPCI_FDO_D0_ENTRY_REPLY, VMBFS_MESSAGE_HEADER,
     VMBFS_MESSAGE_VERSION_REQUEST, VMBFS_MESSAGE_VERSION_RESPONSE, VMBFS_MESSAGE_GET_FILE_INFO,
     VMBFS_MESSAGE_GET_FILE_INFO_RESPONSE, VMBFS_MESSAGE_READ_FILE,
     VMBFS_MESSAGE_READ_FILE_RESPONSE, VMBFS_MESSAGE_READ_FILE_RDMA,
     VMBFS_MESSAGE_READ_FILE_RDMA_RESPONSE]"

lemmas guest_eval = guest_type_defs layout_eval Let_def

text \<open>Seven types have bit-fields that fill their units.\<close>

lemma guest_plain_types:
  "list_all plain_ty guest_plain"
  by (simp add: guest_plain_def guest_type_defs)

lemma guest_plain_same:
  "list_all same_ty guest_plain"
  using guest_plain_types by (rule list.pred_mono_strong) (rule plain_same_ty)

lemma guest_bitfield_same:
  "same_ty VMBUS_CHANNEL_OFFER_CHANNEL" "same_ty VMRCB" "same_ty HK_MESSAGE_PROTOCOL_RESPONSE"
  "same_ty VSTOR_CLIENT_PROPERTIES" "same_ty NVSP_2_NETVSC_CAPABILITIES" "same_ty PCI_SLOT_NUMBER"
  "same_ty PCI_BAR_FORMAT"
  by (simp_all add: same_ty_def guest_eval)

text \<open>The types made of those.\<close>

lemma guest_composite_same:
  "same_ty VSTOR_PACKET" "same_ty NVSP_2_MESSAGE_SEND_NDIS_CONFIG" "same_ty NVSP_2_MESSAGE_UBER"
  "same_ty NVSP_ALL_MESSAGES" "same_ty NVSP_MESSAGE" "same_ty VPCI_QUERY_RESOURCE_REQUIREMENTS"
  "same_ty VPCI_DEVICE_POWER_CHANGE" "same_ty VPCI_DEVICE_TRANSLATE_2" "same_ty VPCI_DEVICE_TRANSLATE_2_REPLY"
proof -
  note parts = same_ty_struct same_ty_union same_ty_arr guest_bitfield_same
  note plain = guest_plain_same [unfolded guest_plain_def, simplified]
  show c_VSTOR_PACKET: "same_ty VSTOR_PACKET"
    unfolding VSTOR_PACKET_def by (simp add: parts plain plain_same_ty )
  show c_NVSP_2_MESSAGE_SEND_NDIS_CONFIG: "same_ty NVSP_2_MESSAGE_SEND_NDIS_CONFIG"
    unfolding NVSP_2_MESSAGE_SEND_NDIS_CONFIG_def by (simp add: parts plain plain_same_ty )
  show c_NVSP_2_MESSAGE_UBER: "same_ty NVSP_2_MESSAGE_UBER"
    unfolding NVSP_2_MESSAGE_UBER_def by (simp add: parts plain plain_same_ty c_NVSP_2_MESSAGE_SEND_NDIS_CONFIG)
  show c_NVSP_ALL_MESSAGES: "same_ty NVSP_ALL_MESSAGES"
    unfolding NVSP_ALL_MESSAGES_def by (simp add: parts plain plain_same_ty c_NVSP_2_MESSAGE_UBER)
  show c_NVSP_MESSAGE: "same_ty NVSP_MESSAGE"
    unfolding NVSP_MESSAGE_def by (simp add: parts plain plain_same_ty c_NVSP_ALL_MESSAGES)
  show c_VPCI_QUERY_RESOURCE_REQUIREMENTS: "same_ty VPCI_QUERY_RESOURCE_REQUIREMENTS"
    unfolding VPCI_QUERY_RESOURCE_REQUIREMENTS_def by (simp add: parts plain plain_same_ty )
  show c_VPCI_DEVICE_POWER_CHANGE: "same_ty VPCI_DEVICE_POWER_CHANGE"
    unfolding VPCI_DEVICE_POWER_CHANGE_def by (simp add: parts plain plain_same_ty )
  show c_VPCI_DEVICE_TRANSLATE_2: "same_ty VPCI_DEVICE_TRANSLATE_2"
    unfolding VPCI_DEVICE_TRANSLATE_2_def by (simp add: parts plain plain_same_ty )
  show c_VPCI_DEVICE_TRANSLATE_2_REPLY: "same_ty VPCI_DEVICE_TRANSLATE_2_REPLY"
    unfolding VPCI_DEVICE_TRANSLATE_2_REPLY_def by (simp add: parts plain plain_same_ty )
qed

lemma guest_layouts_differ:
  "\<not> same_layout VMBUS_CHANNEL_MODIFY_CHANNEL_RESPONSE"
  "\<not> same_layout VMBUS_CHANNEL_TL_CONNECT_RESULT"
  "\<not> same_layout HK_MESSAGE_KEYSTROKE"
  by (simp_all add: same_layout_def guest_eval)

section \<open>Properties\<close>

text \<open>C36. Exactly three structures of the guest protocol header are laid out differently by GCC or Clang on Linux than by
  the compiler of the host: two messages that contain an \<open>NTSTATUS\<close>, because \<open>long\<close> has 8 bytes on Linux, and
  the keystroke message, whose flags follow a 16-bit member.  Every other type has the same size and
  the same offset and width for every member.\<close>

theorem guest_layout_differences:
  "map fst (filter (\<lambda>(n, t). \<not> same_layout t) guest_protocol_types) =
     [''VMBUS_CHANNEL_MODIFY_CHANNEL_RESPONSE'', ''VMBUS_CHANNEL_TL_CONNECT_RESULT'', ''HK_MESSAGE_KEYSTROKE'']"
proof -
  have "list_all same_layout guest_plain"
    using guest_plain_same by (rule list.pred_mono_strong) (rule same_ty_layout)
  then show ?thesis
    using guest_layouts_differ guest_bitfield_same [THEN same_ty_layout] guest_composite_same [THEN same_ty_layout]
    by (simp add: guest_protocol_types_def guest_plain_def)
qed

text \<open>Every channel message, not only the offer for which the header asserts it, fits into a SynIC message and
  starts with the message type, under both ABIs, and its number is one of the enumeration.\<close>

theorem channel_messages_fit:
  "list_all (\<lambda>(n, t). map_of VMBUS_CHANNEL_MESSAGE_TYPE n \<noteq> None
     \<and> is_channel_message sysv t \<and> is_channel_message msvc t) channel_messages"
  by (simp add: channel_messages_def VMBUS_CHANNEL_MESSAGE_TYPE_def enum_of_def is_channel_message_def
      MAXIMUM_SYNIC_MESSAGE_BYTES_def guest_eval)

text \<open>All static assertions of the header hold under both ABIs.\<close>

theorem static_asserts_hold: "static_asserts sysv \<and> static_asserts msvc"
  by (simp add: static_asserts_def MAXIMUM_SYNIC_MESSAGE_BYTES_def VMSTORAGE_SIZEOF_VMSCSI_REQUEST_REVISION_1_def
      VMSTORAGE_SIZEOF_VMSCSI_REQUEST_REVISION_2_def VMSTORAGE_SIZEOF_VSTOR_PACKET_REVISION_1_def
      VMSTORAGE_SIZEOF_VSTOR_PACKET_REVISION_2_def guest_eval)

text \<open>\<open>NT_SUCCESS\<close> tells errors from successes only where \<open>long\<close> has 32 bits: applied to the 32-bit status words of the
  messages it is the sign bit on Windows, but accepts every status on Linux, \<open>STATUS_REVISION_MISMATCH\<close> among them.\<close>

theorem nt_success_depends_on_long:
  "NT_SUCCESS sysv (uint s) \<and> (NT_SUCCESS msvc (uint s) \<longleftrightarrow> \<not> bit s 31)
    \<and> NT_SUCCESS sysv (STATUS_REVISION_MISMATCH sysv) \<and> \<not> NT_SUCCESS msvc (STATUS_REVISION_MISMATCH msvc)"
  for s :: "32 word"
  by (simp add: NT_SUCCESS_def to_NTSTATUS_def STATUS_REVISION_MISMATCH_def sysv_def msvc_def bit_simps)
    (auto dest: bit_imp_le_length)

text \<open>The numbers of the network messages of versions 1 to 5 are contiguous from 100 to 134, so the handler
  counts of the versions, which index tables by message number, are 9, 28, 31 and 35.\<close>

theorem nvsp_messages_contiguous:
  "remdups (map snd (filter (\<lambda>(n, v). enumerator NVSP_MESSAGE_TYPE ''NvspVersionMessageStart'' \<le> v) NVSP_MESSAGE_TYPE))
      = [100..134]
    \<and> NVSP_PROTOCOL_VERSION_1_HANDLER_COUNT = 9 \<and> NVSP_PROTOCOL_VERSION_2_HANDLER_COUNT = 28
    \<and> NVSP_PROTOCOL_VERSION_4_HANDLER_COUNT = 31 \<and> NVSP_PROTOCOL_VERSION_5_HANDLER_COUNT = 35"
  by code_simp

text \<open>The alignment macros round up: for an alignment that is a power of two of the word, and a value that leaves
  room for it, \<open>ALIGN_VALUE\<close> is the least multiple of the alignment that is not smaller, and \<open>MO_GET_ALIGNED_SIZE\<close> of
  the portable types computes the same.\<close>

theorem align_macros_round_up:
  fixes v :: "'a::len word"
  assumes "k < LENGTH('a)" "unat v + 2 ^ k \<le> 2 ^ LENGTH('a)"
  shows "unat (ALIGN_VALUE v (2 ^ k)) = align_up (unat v) (2 ^ k)
    \<and> MO_GET_ALIGNED_SIZE v (2 ^ k) = ALIGN_VALUE v (2 ^ k)"
proof -
  let ?a = "2 ^ k :: 'a word" and ?N = "2 ^ LENGTH('a) :: int"
  have m: "?a - 1 = mask k" by (simp add: mask_eq_exp_minus_1)
  have a: "uint ?a = 2 ^ k" using assms(1) by (simp add: uint_2p word_neq_0_conv [symmetric])
  have dvd: "2 ^ k dvd ?N" using assms(1) by (intro le_imp_power_dvd) simp
  have v: "0 \<le> uint v" "uint v + 2 ^ k \<le> ?N"
    using assms(2) by (simp, metis (mono_tags) of_nat_add of_nat_le_iff of_nat_numeral of_nat_power uint_nat)
  have r: "(- uint v) mod 2 ^ k < 2 ^ k" "0 \<le> (- uint v) mod 2 ^ k" by simp_all
  have low: "uint ((?a - v) AND (?a - 1)) = (- uint v) mod 2 ^ k"
  proof -
    have "uint ((?a - v) AND (?a - 1)) = ((2 ^ k - uint v) mod ?N) mod 2 ^ k"
      by (simp only: m take_bit_eq_mask [symmetric] uint_take_bit uint_word_ariths(2) a)
    also have "\<dots> = (- uint v) mod 2 ^ k"
      by (simp only: mod_mod_cancel [OF dvd]) (simp add: mod_simps)
    finally show ?thesis .
  qed
  have val: "uint (ALIGN_VALUE v ?a) = uint v + (- uint v) mod 2 ^ k"
    unfolding ALIGN_VALUE_def uint_word_ariths(1) low using v r by (intro mod_pos_pos_trivial) linarith+
  have up: "int (align_up (unat v) (2 ^ k)) = uint v + (- uint v) mod 2 ^ k"
    by (simp add: align_up_int uint_nat [symmetric])
  have sum: "uint (v + ?a - 1) = uint v + 2 ^ k - 1"
  proof -
    have "uint (v + ?a - 1) = (uint v + 2 ^ k - 1) mod ?N"
      by (simp only: uint_word_ariths(1,2) a uint_1) (simp add: mod_simps)
    also have "\<dots> = uint v + 2 ^ k - 1" using v zero_less_power [of "2 :: int" k] by (intro mod_pos_pos_trivial) linarith+
    finally show ?thesis .
  qed
  have "uint (MO_GET_ALIGNED_SIZE v ?a) = uint v + 2 ^ k - 1 - (uint v + 2 ^ k - 1) mod 2 ^ k"
    by (simp only: MO_GET_ALIGNED_SIZE_def m uint_and_not_mask) (simp only: sum m [symmetric])
  also have "\<dots> = uint v + (- uint v) mod 2 ^ k"
    using align_up_int_mod [of "2 ^ k" "unat v"] up by (simp only: uint_nat of_nat_power of_nat_numeral zero_less_power zero_less_numeral)
  finally show ?thesis using val up by (metis uint_nat of_nat_eq_iff word_uint_eq_iff)
qed

theorem align_macros_round_up_witness:
  "unat (ALIGN_VALUE (13 :: 32 word) 8) = 16 \<and> MO_GET_ALIGNED_SIZE (13 :: 32 word) 8 = ALIGN_VALUE 13 8"
  using align_macros_round_up [where k = 3 and v = "13 :: 32 word"] by (simp add: align_up_def)
end
