(* ===== verification/Hv_Devices.thy ===== *)
theory Hv_Devices
  imports Guest_Protocols
begin

text \<open>
  \<open>Mile.HyperV.VMBus.h\<close>: the messages of the VMBus devices (video, keyboard, input, storage, network, the
  integration components, remote desktop) and their class and instance GUIDs, translated as in
  \<open>Guest_Protocols\<close>.

  Shown here: the GUID constants of both headers are distinct and are the ones their comments
  name; the version words of the video, input and remote desktop protocols agree with the
  unions that overlay them, and feature numbers order versions; which structures
  have a different layout on Linux and on Windows.
\<close>

section \<open>Basic definitions\<close>

definition HV_IPV6_ADDRESS :: cty where
  "HV_IPV6_ADDRESS = Union 0 (flds_of [
       mem '''' (Struct 0 (flds_of [mem ''QW0'' U64, mem ''QW1'' U64])),
       mem '''' (Struct 0 (flds_of [mem ''DW0'' U32, mem ''DW1'' U32, mem ''DW2'' U32, mem ''DW3'' U32])),
       mem '''' (Struct 0 (flds_of [mem ''W0'' U16, mem ''W1'' U16, mem ''W2'' U16, mem ''W3'' U16,
         mem ''W4'' U16, mem ''W5'' U16, mem ''W6'' U16, mem ''W7'' U16]))])"

definition HV_RECT :: cty where
  "HV_RECT = Struct 0 (flds_of [
       mem ''Left'' U32, mem ''Top'' U32, mem ''Right'' U32, mem ''Bottom'' U32])"

section \<open>Video\<close>

definition SYNTHVID_CONTROL_CLASS_ID :: guid where "SYNTHVID_CONTROL_CLASS_ID = SYNTHVID_CLASS_ID"

definition SYNTHVID_MESSAGE_TYPE_PRIVATE :: enum_tab where
  "SYNTHVID_MESSAGE_TYPE_PRIVATE = enum_of [
     (''SynthvidSupportedResolutionsRequest'', Val 13),
     (''SynthvidSupportedResolutionsResponse'', Val 14),
     (''SynthvidCapabilityRequest'', Val 15), (''SynthvidCapabilityResponse'', Val 16),
     (''SynthvidPrivateMax'', Val 17)]"

definition SYNTHVID_MAKE_VERSION :: "32 word \<Rightarrow> 32 word \<Rightarrow> 32 word" where
  "SYNTHVID_MAKE_VERSION major minor = (push_bit 16 minor) OR major"

definition SYNTHVID_MAKE_VERSION_MAJOR :: "32 word \<Rightarrow> 32 word" where
  "SYNTHVID_MAKE_VERSION_MAJOR version = version AND 0x0000FFFF"

definition SYNTHVID_MAKE_VERSION_MINOR :: "32 word \<Rightarrow> 32 word" where
  "SYNTHVID_MAKE_VERSION_MINOR version = drop_bit 16 (version AND 0xFFFF0000)"

definition SYNTHVID_VERSION_WIN7 :: "32 word" where
  "SYNTHVID_VERSION_WIN7 = SYNTHVID_MAKE_VERSION 3 0"

definition SYNTHVID_VERSION_WIN8 :: "32 word" where
  "SYNTHVID_VERSION_WIN8 = SYNTHVID_MAKE_VERSION 3 2"

definition SYNTHVID_VERSION_WINBLUE :: "32 word" where
  "SYNTHVID_VERSION_WINBLUE = SYNTHVID_MAKE_VERSION 3 3"

definition SYNTHVID_VERSION_WINTHRESHOLD_M1 :: "32 word" where
  "SYNTHVID_VERSION_WINTHRESHOLD_M1 = SYNTHVID_MAKE_VERSION 3 4"

definition SYNTHVID_VERSION_WINTHRESHOLD_M2 :: "32 word" where
  "SYNTHVID_VERSION_WINTHRESHOLD_M2 = SYNTHVID_MAKE_VERSION 3 5"

definition SYNTHVID_VERSION_WIN10 :: "32 word" where
  "SYNTHVID_VERSION_WIN10 = SYNTHVID_VERSION_WINTHRESHOLD_M2"

definition SYNTHVID_MAKE_FEATURE :: "32 word \<Rightarrow> 32 word" where
  "SYNTHVID_MAKE_FEATURE version = (push_bit 16 (SYNTHVID_MAKE_VERSION_MAJOR version)) OR (SYNTHVID_MAKE_VERSION_MINOR version)"

definition SYNTHVID_FEATURE_WIN7 :: "32 word" where
  "SYNTHVID_FEATURE_WIN7 = SYNTHVID_MAKE_FEATURE SYNTHVID_VERSION_WIN7"

definition SYNTHVID_FEATURE_WIN8 :: "32 word" where
  "SYNTHVID_FEATURE_WIN8 = SYNTHVID_MAKE_FEATURE SYNTHVID_VERSION_WIN8"

definition SYNTHVID_FEATURE_WINBLUE :: "32 word" where
  "SYNTHVID_FEATURE_WINBLUE = SYNTHVID_MAKE_FEATURE SYNTHVID_VERSION_WINBLUE"

definition SYNTHVID_FEATURE_WINTHRESHOLD_M1 :: "32 word" where
  "SYNTHVID_FEATURE_WINTHRESHOLD_M1 = SYNTHVID_MAKE_FEATURE SYNTHVID_VERSION_WINTHRESHOLD_M1"

definition SYNTHVID_FEATURE_WINTHRESHOLD_M2 :: "32 word" where
  "SYNTHVID_FEATURE_WINTHRESHOLD_M2 = SYNTHVID_MAKE_FEATURE SYNTHVID_VERSION_WINTHRESHOLD_M2"

definition SYNTHVID_FEATURE :: enum_tab where
  "SYNTHVID_FEATURE = enum_of [
     (''SynthVidFeatureWin7Rtm'', Val (uint SYNTHVID_FEATURE_WIN7)),
     (''SynthVidFeatureBasic'', Same ''SynthVidFeatureWin7Rtm''),
     (''SynthVidFeatureWin8Rtm'', Val (uint SYNTHVID_FEATURE_WIN8)),
     (''SynthVidFeatureHighResolutions'', Same ''SynthVidFeatureWin8Rtm''),
     (''SynthVidFeatureSupportsReinit'', Same ''SynthVidFeatureWin8Rtm''),
     (''SynthVidFeatureWinBlue'', Val (uint SYNTHVID_FEATURE_WINBLUE)),
     (''SynthVidFeatureQueryBiosInfo'', Same ''SynthVidFeatureWinBlue''),
     (''SynthVidFeatureWinThresholdM1'', Val (uint SYNTHVID_FEATURE_WINTHRESHOLD_M1)),
     (''SynthVidFeatureResolutionSetByHost'', Same ''SynthVidFeatureWinThresholdM1''),
     (''SynthVidFeatureWinThresholdM2'', Val (uint SYNTHVID_FEATURE_WINTHRESHOLD_M2)),
     (''SynthVidFeatureLockOnDisconnect'', Same ''SynthVidFeatureWinThresholdM2'')]"

definition HVD_SCREEN_INFO :: cty where
  "HVD_SCREEN_INFO = Struct 0 (flds_of [
       mem ''Width'' U16, mem ''Height'' U16])"

definition SYNTHVID_POINTER_POSITION_MESSAGE :: cty where
  "SYNTHVID_POINTER_POSITION_MESSAGE = Struct 1 (flds_of [
       mem ''Header'' SYNTHVID_MESSAGE_HEADER, mem ''IsVisible'' U8, mem ''VideoOutput'' U8,
       mem ''ImageX'' U32, mem ''ImageY'' U32])"

definition SYNTHVID_POINTER_SHAPE_MESSAGE :: cty where
  "SYNTHVID_POINTER_SHAPE_MESSAGE = Struct 1 (flds_of [
       mem ''Header'' SYNTHVID_MESSAGE_HEADER, mem ''PartialIndex'' U8, mem ''CursorFlags'' U8,
       mem ''WidthPixels'' U32, mem ''HeightPixels'' U32, mem ''HotspotX'' U32,
       mem ''HotspotY'' U32, mem ''PixelData'' (Arr U8 HV_ANYSIZE_ARRAY)])"

definition SYNTHVID_FEATURE_CHANGE_MESSAGE_V2 :: cty where
  "SYNTHVID_FEATURE_CHANGE_MESSAGE_V2 = Struct 0 (flds_of [
       mem ''Header'' SYNTHVID_MESSAGE_HEADER, mem ''IsDirtNeeded'' U8,
       mem ''IsPointerPositionUpdatesNeeded'' U8, mem ''IsPointerShapeUpdatesNeeded'' U8,
       mem ''IsVideoSituationUpdatesNeeded'' U8, mem ''EdidBlock'' (Arr U8 128)])"

definition SYNTHVID_DIRT_MESSAGE :: cty where
  "SYNTHVID_DIRT_MESSAGE = Struct 1 (flds_of [
       mem ''Header'' SYNTHVID_MESSAGE_HEADER, mem ''VideoOutput'' U8, mem ''DirtCount'' U8,
       mem ''Dirt'' (Arr HV_RECT HV_ANYSIZE_ARRAY)])"

definition SYNTHVID_BIOS_INFO_REQUEST_MESSAGE :: cty where
  "SYNTHVID_BIOS_INFO_REQUEST_MESSAGE = Struct 0 (flds_of [
       mem ''Header'' SYNTHVID_MESSAGE_HEADER])"

definition SYNTHVID_BIOS_INFO_RESPONSE_MESSAGE :: cty where
  "SYNTHVID_BIOS_INFO_RESPONSE_MESSAGE = Struct 0 (flds_of [
       mem ''Header'' SYNTHVID_MESSAGE_HEADER, mem ''VmGeneration'' U32,
       mem ''ReservedInt32'' U32, mem ''ReservedInt64'' U64])"

definition SYNTHVID_SUPPORTED_RESOLUTIONS_REQUEST_MESSAGE :: cty where
  "SYNTHVID_SUPPORTED_RESOLUTIONS_REQUEST_MESSAGE = Struct 1 (flds_of [
       mem ''Header'' SYNTHVID_MESSAGE_HEADER, mem ''MaximumResolutionCount'' U8])"

definition SYNTHVID_SUPPORTED_RESOLUTIONS_RESPONSE_MESSAGE :: cty where
  "SYNTHVID_SUPPORTED_RESOLUTIONS_RESPONSE_MESSAGE = Struct 1 (flds_of [
       mem ''Header'' SYNTHVID_MESSAGE_HEADER, mem ''EdidBlock'' (Arr U8 128),
       mem ''ResolutionCount'' U8, mem ''DefaultResolutionIndex'' U8, mem ''IsStandard'' U8,
       mem ''SupportedResolution'' (Arr HVD_SCREEN_INFO HV_ANYSIZE_ARRAY)])"

definition SYNTHVID_CAPABILITY_REQUEST_MESSAGE :: cty where
  "SYNTHVID_CAPABILITY_REQUEST_MESSAGE = Struct 0 (flds_of [
       mem ''Header'' SYNTHVID_MESSAGE_HEADER])"

definition SYNTHVID_CAPABILITY_RESPONSE_MESSAGE :: cty where
  "SYNTHVID_CAPABILITY_RESPONSE_MESSAGE = Struct 0 (flds_of [
       mem ''Header'' SYNTHVID_MESSAGE_HEADER, bits ''LockOnDisconnect'' U32 1,
       bits ''Reserved'' U32 31, mem ''Reserved2'' (Arr U32 15)])"

section \<open>Virtual Keyboard\<close>

definition HK_CONTROL_CLASS_ID :: guid where "HK_CONTROL_CLASS_ID = HK_CLASS_ID"

definition HK_VERSION_MAJOR :: "32 word \<Rightarrow> 32 word" where
  "HK_VERSION_MAJOR version = drop_bit 16 (version AND 0xFFFF0000)"

definition HK_VERSION_MINOR :: "32 word \<Rightarrow> 32 word" where
  "HK_VERSION_MINOR version = version AND 0x0000FFFF"

definition HK_VERSION_CURRENT :: "32 word" where "HK_VERSION_CURRENT = HK_VERSION_WIN8"

section \<open>Input\<close>

definition SYNTHHID_CLASS_ID :: guid where
  "SYNTHHID_CLASS_ID = \<lparr>Data1 = 0xCFA8B69E, Data2 = 0x5B4A, Data3 = 0x4CC0,
     Data4 = [0xB9, 0x8B, 0x8B, 0xA1, 0xA1, 0xF3, 0xF9, 0x5A]\<rparr>"

definition SYNTHHID_CONTROL_CLASS_ID :: guid where "SYNTHHID_CONTROL_CLASS_ID = SYNTHHID_CLASS_ID"

definition SYNTHHID_MESSAGE_TYPE :: enum_tab where
  "SYNTHHID_MESSAGE_TYPE = enum_of [
     (''SynthHidProtocolRequest'', Val 0), (''SynthHidProtocolResponse'', Val 1),
     (''SynthHidInitialDeviceInfo'', Val 2), (''SynthHidInitialDeviceInfoAck'', Val 3),
     (''SynthHidInputReport'', Val 4), (''SynthHidMax'', Val 5)]"

definition SYNTHHID_MESSAGE_HEADER :: cty where
  "SYNTHHID_MESSAGE_HEADER = Struct 0 (flds_of [
       mem ''Type'' Enum_ty, mem ''Size'' U32])"

definition SYNTHHID_MAKE_VERSION :: "32 word \<Rightarrow> 32 word \<Rightarrow> 32 word" where
  "SYNTHHID_MAKE_VERSION major minor = (push_bit 16 major) OR minor"

definition SYNTHHID_VERSION_MAJOR :: "32 word \<Rightarrow> 32 word" where
  "SYNTHHID_VERSION_MAJOR version = drop_bit 16 (version AND 0xFFFF0000)"

definition SYNTHHID_VERSION_MINOR :: "32 word \<Rightarrow> 32 word" where
  "SYNTHHID_VERSION_MINOR version = version AND 0x0000FFFF"

definition SYNTHHID_VERSION_CURRENT :: "32 word" where
  "SYNTHHID_VERSION_CURRENT = SYNTHHID_MAKE_VERSION 2 0"

definition SYNTHHID_VERSION :: cty where
  "SYNTHHID_VERSION = Union 0 (flds_of [
       mem ''AsDWord'' U32, mem '''' (Struct 0 (flds_of [mem ''Minor'' U16, mem ''Major'' U16]))])"

definition HV_HID_DEVICE_ATTRIBUTES :: cty where
  "HV_HID_DEVICE_ATTRIBUTES = Struct 0 (flds_of [
       mem ''Size'' U32, mem ''VendorID'' U16, mem ''ProductID'' U16, mem ''VersionNumber'' U16,
       mem ''Reserved'' (Arr U16 11)])"

definition HV_HID_DESCRIPTOR_DESC_LIST :: cty where
  "HV_HID_DESCRIPTOR_DESC_LIST = Struct 1 (flds_of [
       mem ''bReportType'' U8, mem ''wReportLength'' U16])"

definition HV_HID_DESCRIPTOR :: cty where
  "HV_HID_DESCRIPTOR = Struct 1 (flds_of [
       mem ''bLength'' U8, mem ''bDescriptorType'' U8, mem ''bcdHID'' U16, mem ''bCountry'' U8,
       mem ''bNumDescriptors'' U8,
       mem ''DescriptorList'' (Arr HV_HID_DESCRIPTOR_DESC_LIST HV_ANYSIZE_ARRAY)])"

definition SYNTHHID_PROTOCOL_REQUEST :: cty where
  "SYNTHHID_PROTOCOL_REQUEST = Struct 0 (flds_of [
       mem ''Header'' SYNTHHID_MESSAGE_HEADER, mem ''VersionRequested'' SYNTHHID_VERSION])"

definition SYNTHHID_PROTOCOL_RESPONSE :: cty where
  "SYNTHHID_PROTOCOL_RESPONSE = Struct 1 (flds_of [
       mem ''Header'' SYNTHHID_MESSAGE_HEADER, mem ''VersionRequested'' SYNTHHID_VERSION,
       mem ''Approved'' U8])"

definition SYNTHHID_DEVICE_INFO :: cty where
  "SYNTHHID_DEVICE_INFO = Struct 1 (flds_of [
       mem ''Header'' SYNTHHID_MESSAGE_HEADER,
       mem ''HidDeviceAttributes'' HV_HID_DEVICE_ATTRIBUTES,
       mem ''HidDescriptorInformation'' (Arr U8 HV_ANYSIZE_ARRAY)])"

definition SYNTHHID_DEVICE_INFO_ACK :: cty where
  "SYNTHHID_DEVICE_INFO_ACK = Struct 1 (flds_of [
       mem ''Header'' SYNTHHID_MESSAGE_HEADER, mem ''Reserved'' U8])"

definition SYNTHHID_MESSAGE :: cty where
  "SYNTHHID_MESSAGE = Struct 1 (flds_of [
       mem ''Header'' SYNTHHID_MESSAGE_HEADER, mem ''Data'' (Arr U8 HV_ANYSIZE_ARRAY)])"

section \<open>SCSI Controller, Fibre Channel HBA\<close>

definition VMFC_CLASS_ID :: guid where
  "VMFC_CLASS_ID = \<lparr>Data1 = 0x2F9BCC4A, Data2 = 0x0069, Data3 = 0x4AF3,
     Data4 = [0xB7, 0x6B, 0x6F, 0xD0, 0xBE, 0x52, 0x8C, 0xDA]\<rparr>"

definition VMSCSI_CONTROL_CLASS_ID :: guid where "VMSCSI_CONTROL_CLASS_ID = VMSCSI_CLASS_ID"

definition VMFC_CONTROL_CLASS_ID :: guid where "VMFC_CONTROL_CLASS_ID = VMFC_CLASS_ID"

definition VSTOR_SCSI_CONTROL_CLASS_ID :: guid where "VSTOR_SCSI_CONTROL_CLASS_ID = VMSCSI_CONTROL_CLASS_ID"

definition VSTOR_FC_CONTROL_CLASS_ID :: guid where "VSTOR_FC_CONTROL_CLASS_ID = VMFC_CONTROL_CLASS_ID"

definition VMSTORAGE_MAKE_VERSION :: "32 word \<Rightarrow> 32 word \<Rightarrow> 32 word" where
  "VMSTORAGE_MAKE_VERSION = VMSTOR_PROTOCOL_VERSION"

definition VMSTORAGE_VERSION_MAJOR :: "32 word \<Rightarrow> 32 word" where
  "VMSTORAGE_VERSION_MAJOR = VMSTOR_PROTOCOL_MAJOR"

definition VMSTORAGE_VERSION_MINOR :: "32 word \<Rightarrow> 32 word" where
  "VMSTORAGE_VERSION_MINOR = VMSTOR_PROTOCOL_MINOR"

definition VMSTORAGE_VERSION_WIN6 :: "32 word" where
  "VMSTORAGE_VERSION_WIN6 = VMSTOR_PROTOCOL_VERSION_WIN6"

definition VMSTORAGE_VERSION_WIN7 :: "32 word" where
  "VMSTORAGE_VERSION_WIN7 = VMSTOR_PROTOCOL_VERSION_WIN7"

definition VMSTORAGE_VERSION_WIN8 :: "32 word" where
  "VMSTORAGE_VERSION_WIN8 = VMSTOR_PROTOCOL_VERSION_WIN8"

definition VMSTORAGE_VERSION_WINBLUE :: "32 word" where
  "VMSTORAGE_VERSION_WINBLUE = VMSTOR_PROTOCOL_VERSION_BLUE"

definition VMSTORAGE_VERSION_WIN10 :: "32 word" where
  "VMSTORAGE_VERSION_WIN10 = VMSTOR_PROTOCOL_VERSION 6 2"

section \<open>Network Adapter\<close>

definition NVSP_CONTROL_CLASS_ID :: guid where "NVSP_CONTROL_CLASS_ID = NVSP_CLASS_ID"

definition NVSP_MESSAGE_TYPE_PRIVATE :: enum_tab where
  "NVSP_MESSAGE_TYPE_PRIVATE = enum_of [
     (''NvspMessage6TypePdApi'', Val 135), (''NvspMessage6TypePdPostBatch'', Val 136),
     (''NvspMessage6Max'', Val 136)]"

definition NVSP_6_MESSAGE_PD_API_OPERATION :: enum_tab where
  "NVSP_6_MESSAGE_PD_API_OPERATION = enum_of [
     (''PdApiOpConfiguration'', Val 1), (''PdApiOpSwitchDatapath'', Val 2),
     (''PdApiOpOpenProvider'', Val 3), (''PdApiOpCloseProvider'', Val 4),
     (''PdApiOpCreateQueue'', Val 5), (''PdApiOpFlushQueue'', Val 6),
     (''PdApiOpFreeQueue'', Val 7), (''PdApiOpAllocateCommonBuffer'', Val 8),
     (''PdApiOpFreeCommonBuffer'', Val 9), (''PdApiOpMax'', Val 10)]"

definition HV_GROUP_AFFINITY :: cty where
  "HV_GROUP_AFFINITY = Struct 0 (flds_of [
       mem ''Mask'' U32, mem ''Group'' U16, mem ''Reserved'' (Arr U16 3)])"

definition NVSP_6_PD_BUFFER :: cty where
  "NVSP_6_PD_BUFFER = Struct 0 (flds_of [
       mem ''RegionOffset'' U32, mem ''RegionId'' U16, bits ''IsPartial'' U16 1,
       bits ''ReservedMbz'' U16 15])"

definition NVSP_MAKE_VERSION :: "32 word \<Rightarrow> 32 word \<Rightarrow> 32 word" where
  "NVSP_MAKE_VERSION = NVSP_PROTOCOL_VERSION"

definition NVSP_VERSION_MAJOR :: "32 word \<Rightarrow> 32 word" where
  "NVSP_VERSION_MAJOR = NVSP_PROTOCOL_MAJOR"

definition NVSP_VERSION_MINOR :: "32 word \<Rightarrow> 32 word" where
  "NVSP_VERSION_MINOR = NVSP_PROTOCOL_MINOR"

definition NVSP_VERSION_1 :: "32 word" where "NVSP_VERSION_1 = NVSP_PROTOCOL_VERSION_1"

definition NVSP_VERSION_2 :: "32 word" where "NVSP_VERSION_2 = NVSP_PROTOCOL_VERSION_2"

definition NVSP_VERSION_4 :: "32 word" where "NVSP_VERSION_4 = NVSP_PROTOCOL_VERSION_4"

definition NVSP_VERSION_5 :: "32 word" where "NVSP_VERSION_5 = NVSP_PROTOCOL_VERSION_5"

definition NVSP_VERSION_6 :: "32 word" where "NVSP_VERSION_6 = NVSP_PROTOCOL_VERSION 6 0"

definition NVSP_VERSION_61 :: "32 word" where "NVSP_VERSION_61 = NVSP_PROTOCOL_VERSION 6 1"

definition NVSP_6_MESSAGE_PD_API_REQUEST :: cty where
  "NVSP_6_MESSAGE_PD_API_REQUEST = Struct 1 (flds_of [
       mem ''Operation'' Enum_ty,
       mem '''' (Union 1 (flds_of [mem ''Configuration'' (Struct 1 (flds_of [mem ''MmioPhysicalAddress'' U64, mem ''MmioLength'' U32, mem ''NumPdQueues'' U16])),
          mem ''SwitchDatapath'' (Struct 1 (flds_of [mem ''HostDatapathIsPacketDirect'' U8, mem ''GuestPacketDirectIsEnabled'' U8])),
          mem ''OpenProvider'' (Struct 1 (flds_of [mem ''ProviderId'' U32, mem ''Flags'' U32])),
          mem ''CloseProvider'' (Struct 1 (flds_of [mem ''ProviderId'' U32])),
          mem ''CreateQueue'' (Struct 1 (flds_of [mem ''ProviderId'' U32, mem ''QueueId'' U16, mem ''QueueSize'' U16,
             mem ''IsReceiveQueue'' U8, mem ''IsRssQueue'' U8, mem ''ReceiveDataLength'' U32,
             mem ''Affinity'' HV_GROUP_AFFINITY])),
          mem ''DeleteQueue'' (Struct 1 (flds_of [mem ''ProviderId'' U32, mem ''QueueId'' U16])),
          mem ''FlushQueue'' (Struct 1 (flds_of [mem ''ProviderId'' U32, mem ''QueueId'' U16])),
          mem ''AllocateCommonBuffer'' (Struct 1 (flds_of [mem ''Length'' U32, mem ''PreferredNode'' U32, mem ''RegionId'' U16])),
          mem ''FreeCommonBuffer'' (Struct 1 (flds_of [mem ''Length'' U32, mem ''PhysicalAddress'' U64, mem ''PreferredNode'' U32,
             mem ''RegionId'' U16, mem ''CacheType'' U8]))]))])"

definition NVSP_6_MESSAGE_PD_API_COMPLETE :: cty where
  "NVSP_6_MESSAGE_PD_API_COMPLETE = Struct 1 (flds_of [
       mem ''Operation'' Enum_ty, mem ''Status'' Enum_ty,
       mem '''' (Union 1 (flds_of [mem ''Configuration'' (Struct 1 (flds_of [mem ''NumPdQueues'' U16, mem ''NumReceiveRssPDQueues'' U8, mem ''IsSupportedByVSP'' U8,
             mem ''IsEnabledByVSP'' U8])),
          mem ''OpenProvider'' (Struct 1 (flds_of [mem ''ProviderId'' U32])),
          mem ''CreateQueue'' (Struct 1 (flds_of [mem ''ProviderId'' U32, mem ''QueueId'' U16, mem ''QueueSize'' U16,
             mem ''ReceiveDataLength'' U32, mem ''Affinity'' HV_GROUP_AFFINITY])),
          mem ''AllocateCommonBuffer'' (Struct 1 (flds_of [mem ''PhysicalAddress'' U64, mem ''Length'' U32, mem ''PreferredNode'' U32,
             mem ''RegionId'' U16, mem ''CacheType'' U8]))]))])"

definition NVSP_6_MESSAGE_PD_BATCH_MESSAGE :: cty where
  "NVSP_6_MESSAGE_PD_BATCH_MESSAGE = Struct 0 (flds_of [
       mem ''Header'' NVSP_MESSAGE_HEADER, mem ''Count'' U16, bits ''GuestToHost'' U16 1,
       bits ''IsReceive'' U16 1, bits ''ReservedMbz'' U16 14,
       mem ''PdBuffer'' (Arr NVSP_6_PD_BUFFER 0)])"

definition NVSP_MESSAGE_1_UBER :: cty where "NVSP_MESSAGE_1_UBER = NVSP_1_MESSAGE_UBER"

definition NVSP_MESSAGE_2_UBER :: cty where "NVSP_MESSAGE_2_UBER = NVSP_2_MESSAGE_UBER"

definition NVSP_MESSAGE_4_UBER :: cty where "NVSP_MESSAGE_4_UBER = NVSP_4_MESSAGE_UBER"

definition NVSP_MESSAGE_5_UBER :: cty where "NVSP_MESSAGE_5_UBER = NVSP_5_MESSAGE_UBER"

definition NVSP_MESSAGE_6_UBER :: cty where
  "NVSP_MESSAGE_6_UBER = Union 0 (flds_of [
       mem ''PdApiRequest'' NVSP_6_MESSAGE_PD_API_REQUEST,
       mem ''PdApiComplete'' NVSP_6_MESSAGE_PD_API_COMPLETE])"

definition NVSP_ALL_MESSAGES_PRIVATE :: cty where
  "NVSP_ALL_MESSAGES_PRIVATE = Union 0 (flds_of [
       mem ''Version6Messages'' NVSP_MESSAGE_6_UBER])"

definition NVSP_MESSAGE_PRIVATE :: cty where
  "NVSP_MESSAGE_PRIVATE = Struct 0 (flds_of [
       mem ''Header'' NVSP_MESSAGE_HEADER, mem ''Messages'' NVSP_ALL_MESSAGES_PRIVATE])"

section \<open>Virtual PCI Bus\<close>

definition VPCI_CONTROL_CLASS_ID :: guid where "VPCI_CONTROL_CLASS_ID = VPCI_CLASS_ID"

section \<open>Virtual Machine Bus File System\<close>

definition VMBFS_CONTROL_CLASS_ID :: guid where "VMBFS_CONTROL_CLASS_ID = VMBFS_CLASS_ID"

definition VMBFS_INSTANCE_ID :: guid where
  "VMBFS_INSTANCE_ID = \<lparr>Data1 = 0xC63C9BDF, Data2 = 0x5FA5, Data3 = 0x4208,
     Data4 = [0xB0, 0x3F, 0x6B, 0x45, 0x8B, 0x36, 0x55, 0x92]\<rparr>"

section \<open>Integration Components\<close>

definition IC_NEGOTIATE_CLASS_ID :: guid where
  "IC_NEGOTIATE_CLASS_ID = \<lparr>Data1 = 0x9722C3E7, Data2 = 0x8F86, Data3 = 0x456D,
     Data4 = [0x8B, 0x6C, 0x60, 0x09, 0xDA, 0x4C, 0xCD, 0x0B]\<rparr>"

definition IC_NEGOTIATE_INSTANCE_ID :: guid where
  "IC_NEGOTIATE_INSTANCE_ID = \<lparr>Data1 = 0x77B80A1A, Data2 = 0xC226, Data3 = 0x427B,
     Data4 = [0xB6, 0x5B, 0xDB, 0xA0, 0xDF, 0x85, 0xC8, 0x12]\<rparr>"

definition IC_HEARTBEAT_CLASS_ID :: guid where
  "IC_HEARTBEAT_CLASS_ID = \<lparr>Data1 = 0x57164F39, Data2 = 0x9115, Data3 = 0x4E78,
     Data4 = [0xAB, 0x55, 0x38, 0x2F, 0x3B, 0xD5, 0x42, 0x2D]\<rparr>"

definition IC_HEARTBEAT_INSTANCE_ID :: guid where
  "IC_HEARTBEAT_INSTANCE_ID = \<lparr>Data1 = 0xFD149E91, Data2 = 0x82E0, Data3 = 0x4A7D,
     Data4 = [0xAF, 0xA6, 0x2A, 0x41, 0x66, 0xCB, 0xD7, 0xC0]\<rparr>"

definition IC_KVP_EXCHANGE_CLASS_ID :: guid where
  "IC_KVP_EXCHANGE_CLASS_ID = \<lparr>Data1 = 0xA9A0F4E7, Data2 = 0x5A45, Data3 = 0x4D96,
     Data4 = [0xB8, 0x27, 0x8A, 0x84, 0x1E, 0x8C, 0x03, 0xE6]\<rparr>"

definition IC_KVP_EXCHANGE_INSTANCE_ID :: guid where
  "IC_KVP_EXCHANGE_INSTANCE_ID = \<lparr>Data1 = 0x242FF919, Data2 = 0x07DB, Data3 = 0x4180,
     Data4 = [0x9C, 0x2E, 0xB8, 0x6C, 0xB6, 0x8C, 0x8C, 0x55]\<rparr>"

definition IC_SHUTDOWN_CLASS_ID :: guid where
  "IC_SHUTDOWN_CLASS_ID = \<lparr>Data1 = 0x0E0B6031, Data2 = 0x5213, Data3 = 0x4934,
     Data4 = [0x81, 0x8B, 0x38, 0xD9, 0x0C, 0xED, 0x39, 0xDB]\<rparr>"

definition IC_SHUTDOWN_INSTANCE_ID :: guid where
  "IC_SHUTDOWN_INSTANCE_ID = \<lparr>Data1 = 0xB6650FF7, Data2 = 0x33BC, Data3 = 0x4840,
     Data4 = [0x80, 0x48, 0xE0, 0x67, 0x67, 0x86, 0xF3, 0x93]\<rparr>"

definition IC_TIMESYNC_CLASS_ID :: guid where
  "IC_TIMESYNC_CLASS_ID = \<lparr>Data1 = 0x9527E630, Data2 = 0xD0AE, Data3 = 0x497B,
     Data4 = [0xAD, 0xCE, 0xE8, 0x0A, 0xB0, 0x17, 0x5C, 0xAF]\<rparr>"

definition IC_TIMESYNC_INSTANCE_ID :: guid where
  "IC_TIMESYNC_INSTANCE_ID = \<lparr>Data1 = 0x2DD1CE17, Data2 = 0x079E, Data3 = 0x403C,
     Data4 = [0xB3, 0x52, 0xA1, 0x92, 0x1E, 0xE2, 0x07, 0xEE]\<rparr>"

definition IC_VSS_CLASS_ID :: guid where
  "IC_VSS_CLASS_ID = \<lparr>Data1 = 0x35FA2E29, Data2 = 0xEA23, Data3 = 0x4236,
     Data4 = [0x96, 0xAE, 0x3A, 0x6E, 0xBA, 0xCB, 0xA4, 0x40]\<rparr>"

definition IC_VSS_INSTANCE_ID :: guid where
  "IC_VSS_INSTANCE_ID = \<lparr>Data1 = 0x2450EE40, Data2 = 0x33BF, Data3 = 0x4FBD,
     Data4 = [0x89, 0x2E, 0x9F, 0xB0, 0x6E, 0x92, 0x14, 0xCF]\<rparr>"

definition IC_RDV_CLASS_ID :: guid where
  "IC_RDV_CLASS_ID = \<lparr>Data1 = 0x276AACF4, Data2 = 0xAC15, Data3 = 0x426C,
     Data4 = [0x98, 0xDD, 0x75, 0x21, 0xAD, 0x3F, 0x01, 0xFE]\<rparr>"

definition IC_RDV_INSTANCE_ID :: guid where
  "IC_RDV_INSTANCE_ID = \<lparr>Data1 = 0xF5BEE29C, Data2 = 0x1741, Data3 = 0x4AAD,
     Data4 = [0xA4, 0xC2, 0x8F, 0xDE, 0xDB, 0x46, 0xDC, 0xC2]\<rparr>"

definition IC_GUESTSVC_CLASS_ID :: guid where
  "IC_GUESTSVC_CLASS_ID = \<lparr>Data1 = 0x34D14BE3, Data2 = 0xDEE4, Data3 = 0x41C8,
     Data4 = [0x9A, 0xE7, 0x6B, 0x17, 0x49, 0x77, 0xC1, 0x92]\<rparr>"

definition IC_GUESTSVC_INSTANCE_ID :: guid where
  "IC_GUESTSVC_INSTANCE_ID = \<lparr>Data1 = 0xEB765408, Data2 = 0x105F, Data3 = 0x49B6,
     Data4 = [0xB4, 0xAA, 0xC1, 0x23, 0xB6, 0x4D, 0x17, 0xD4]\<rparr>"

definition IC_NEGOTIATE_CONTROL_CLASS_ID :: guid where "IC_NEGOTIATE_CONTROL_CLASS_ID = IC_NEGOTIATE_CLASS_ID"

definition IC_HEARTBEAT_CONTROL_CLASS_ID :: guid where "IC_HEARTBEAT_CONTROL_CLASS_ID = IC_HEARTBEAT_CLASS_ID"

definition IC_KVP_EXCHANGE_CONTROL_CLASS_ID :: guid where "IC_KVP_EXCHANGE_CONTROL_CLASS_ID = IC_KVP_EXCHANGE_CLASS_ID"

definition IC_SHUTDOWN_CONTROL_CLASS_ID :: guid where "IC_SHUTDOWN_CONTROL_CLASS_ID = IC_SHUTDOWN_CLASS_ID"

definition IC_TIMESYNC_CONTROL_CLASS_ID :: guid where "IC_TIMESYNC_CONTROL_CLASS_ID = IC_TIMESYNC_CLASS_ID"

definition IC_VSS_CONTROL_CLASS_ID :: guid where "IC_VSS_CONTROL_CLASS_ID = IC_VSS_CLASS_ID"

definition IC_RDV_CONTROL_CLASS_ID :: guid where "IC_RDV_CONTROL_CLASS_ID = IC_RDV_CLASS_ID"

definition IC_GUESTSVC_CONTROL_CLASS_ID :: guid where "IC_GUESTSVC_CONTROL_CLASS_ID = IC_GUESTSVC_CLASS_ID"

definition IC_VERSION_FIELD :: cty where "IC_VERSION_FIELD = U16"

definition IC_VERSION :: cty where
  "IC_VERSION = Struct 0 (flds_of [
       mem ''Major'' IC_VERSION_FIELD, mem ''Minor'' IC_VERSION_FIELD])"

definition IC_VERSION_NULL :: "16 word \<times> 16 word" where "IC_VERSION_NULL = (0, 0)"

definition IC_FRAMEWORK_VERSION_1 :: "16 word \<times> 16 word" where "IC_FRAMEWORK_VERSION_1 = (1, 0)"

definition IC_FRAMEWORK_VERSION_3 :: "16 word \<times> 16 word" where "IC_FRAMEWORK_VERSION_3 = (3, 0)"

definition IC_HEARTBEAT_VERSION_3 :: "16 word \<times> 16 word" where "IC_HEARTBEAT_VERSION_3 = (3, 0)"

definition IC_HEARTBEAT_VERSION_31 :: "16 word \<times> 16 word" where "IC_HEARTBEAT_VERSION_31 = (3, 1)"

definition IC_KVP_EXCHANGE_VERSION_3 :: "16 word \<times> 16 word" where "IC_KVP_EXCHANGE_VERSION_3 = (3, 0)"

definition IC_KVP_EXCHANGE_VERSION_4 :: "16 word \<times> 16 word" where "IC_KVP_EXCHANGE_VERSION_4 = (4, 0)"

definition IC_KVP_EXCHANGE_VERSION_5 :: "16 word \<times> 16 word" where "IC_KVP_EXCHANGE_VERSION_5 = (5, 0)"

definition IC_SHUTDOWN_VERSION_1 :: "16 word \<times> 16 word" where "IC_SHUTDOWN_VERSION_1 = (1, 0)"

definition IC_SHUTDOWN_VERSION_3 :: "16 word \<times> 16 word" where "IC_SHUTDOWN_VERSION_3 = (3, 0)"

definition IC_SHUTDOWN_VERSION_31 :: "16 word \<times> 16 word" where "IC_SHUTDOWN_VERSION_31 = (3, 1)"

definition IC_TIMESYNC_VERSION_1 :: "16 word \<times> 16 word" where "IC_TIMESYNC_VERSION_1 = (1, 0)"

definition IC_TIMESYNC_VERSION_3 :: "16 word \<times> 16 word" where "IC_TIMESYNC_VERSION_3 = (3, 0)"

definition IC_TIMESYNC_VERSION_4 :: "16 word \<times> 16 word" where "IC_TIMESYNC_VERSION_4 = (4, 0)"

definition IC_VSS_VERSION_6 :: "16 word \<times> 16 word" where "IC_VSS_VERSION_6 = (6, 0)"

definition IC_VSS_VERSION_7 :: "16 word \<times> 16 word" where "IC_VSS_VERSION_7 = (7, 0)"

definition IC_RDV_VERSION_1 :: "16 word \<times> 16 word" where "IC_RDV_VERSION_1 = (1, 0)"

definition IC_RDV_VERSION_3 :: "16 word \<times> 16 word" where "IC_RDV_VERSION_3 = (3, 0)"

definition IC_GUESTIFACE_VERSION_11 :: "16 word \<times> 16 word" where "IC_GUESTIFACE_VERSION_11 = (1, 1)"

definition IC_FEATURE_IDX :: enum_tab where
  "IC_FEATURE_IDX = enum_of [
     (''ICFeatureVersionNegotiation'', Val 0), (''ICFeatureIdxHeartbeat'', Val 1),
     (''ICFeatureIdxKvpExchange'', Val 2), (''ICFeatureIdxShutdown'', Val 3),
     (''ICFeatureIdxTimeSync'', Val 4), (''ICFeatureIdxVss'', Val 5),
     (''ICFeatureIdxRdv'', Val 6), (''ICFeatureIdxGuestInterface'', Val 7),
     (''ICFeatureIdxVMSession'', Val 8), (''ICFeatureCount'', Val 9)]"

definition IC_MSG_TYPE :: cty where "IC_MSG_TYPE = U16"

definition IC_MSG_TRANS_ID :: cty where "IC_MSG_TRANS_ID = U8"

definition IC_MSG_HDR_FLAG :: cty where "IC_MSG_HDR_FLAG = U8"

definition IC_MSG_HDR :: cty where
  "IC_MSG_HDR = Struct 0 (flds_of [
       mem ''ICVerFramework'' IC_VERSION, mem ''ICMsgType'' IC_MSG_TYPE,
       mem ''ICVerMessage'' IC_VERSION, mem ''ICMsgSize'' U16, mem ''Status'' U32,
       mem ''ICTransactionId'' IC_MSG_TRANS_ID, mem ''ICFlags'' IC_MSG_HDR_FLAG,
       mem ''RESERVED'' (Arr U8 2)])"

definition GUEST_APPLICATION_STATE :: enum_tab where
  "GUEST_APPLICATION_STATE = enum_of [
     (''GuestApplicationStateUnknown'', Val 0), (''GuestApplicationStateHealthy'', Val 1),
     (''GuestApplicationStateCritical'', Val 2)]"

definition IC_KVP_EXCHANGE_OPERATION :: enum_tab where
  "IC_KVP_EXCHANGE_OPERATION = enum_of [
     (''ICKvpExchangeOperationGet'', Val 0), (''ICKvpExchangeOperationSet'', Val 1),
     (''ICKvpExchangeOperationDelete'', Val 2), (''ICKvpExchangeOperationEnumerate'', Val 3),
     (''ICKvpExchangeOperationGetIpAddressInfo'', Val 4),
     (''ICKvpExchangeOperationSetIpAddressInfo'', Val 5),
     (''ICKvpExchangeOperationCount'', Val 6)]"

definition IC_KVP_EXCHANGE_MSG_HDR :: cty where
  "IC_KVP_EXCHANGE_MSG_HDR = Struct 0 (flds_of [
       mem ''Operation'' U8, mem ''Pool'' U8])"

definition IC_KVP_EXCHANGE_MSG_VALUE :: cty where
  "IC_KVP_EXCHANGE_MSG_VALUE = Struct 0 (flds_of [
       mem ''ValueType'' U32, mem ''KeySize'' U32, mem ''ValueSize'' U32,
       mem ''Key'' (Arr U8 512), mem ''Value'' (Arr U8 2048)])"

definition IC_KVP_EXCHANGE_MSG_GET :: cty where
  "IC_KVP_EXCHANGE_MSG_GET = Struct 0 (flds_of [
       mem ''Value'' IC_KVP_EXCHANGE_MSG_VALUE])"

definition IC_KVP_EXCHANGE_MSG_SET :: cty where
  "IC_KVP_EXCHANGE_MSG_SET = Struct 0 (flds_of [
       mem ''Value'' IC_KVP_EXCHANGE_MSG_VALUE])"

definition IC_KVP_EXCHANGE_MSG_DELETE :: cty where
  "IC_KVP_EXCHANGE_MSG_DELETE = Struct 0 (flds_of [
       mem ''KeySize'' U32, mem ''Key'' (Arr U8 512)])"

definition IC_KVP_EXCHANGE_MSG_ENUMERATE :: cty where
  "IC_KVP_EXCHANGE_MSG_ENUMERATE = Struct 0 (flds_of [
       mem ''Index'' U32, mem ''Value'' IC_KVP_EXCHANGE_MSG_VALUE])"

definition IC_KVP_EXCHANGE_IP_ADDRESS_VALUE :: cty where
  "IC_KVP_EXCHANGE_IP_ADDRESS_VALUE = Struct 0 (flds_of [
       mem ''AdapterId'' (Arr U16 128), mem ''AddressFamily'' U8, mem ''DHCPEnabled'' U8,
       mem ''IPAddress'' (Arr U16 1024), mem ''Subnet'' (Arr U16 1024),
       mem ''Gateway'' (Arr U16 512), mem ''DNSServerAddresses'' (Arr U16 1024)])"

definition IC_KVP_EXCHANGE_MSG_IP_ADDRESS_INFO :: cty where
  "IC_KVP_EXCHANGE_MSG_IP_ADDRESS_INFO = Struct 0 (flds_of [
       mem ''Header'' IC_KVP_EXCHANGE_MSG_HDR, mem ''Value'' IC_KVP_EXCHANGE_IP_ADDRESS_VALUE])"

definition IC_KVP_EXCHANGE_IP_ADDRESS_BINARY_HEADER :: cty where
  "IC_KVP_EXCHANGE_IP_ADDRESS_BINARY_HEADER = Struct 0 (flds_of [
       mem ''IPv4AddressCount'' U32, mem ''IPv6AddressCount'' U32, mem ''IPv4GatewayCount'' U32,
       mem ''IPv6GatewayCount'' U32, mem ''IPv4DNSServerCount'' U32, mem ''IPv6DNSServerCount'' U32])"

definition IC_KVP_EXCHANGE_IP_ADDRESS_VALUE_BINARY :: cty where
  "IC_KVP_EXCHANGE_IP_ADDRESS_VALUE_BINARY = Struct 0 (flds_of [
       mem ''Header'' IC_KVP_EXCHANGE_IP_ADDRESS_BINARY_HEADER, mem ''AdapterId'' (Arr U16 128),
       mem ''AddressFamily'' U8, mem ''DHCPEnabled'' U8, mem ''IPv4Addresses'' (Arr U32 64),
       mem ''IPv6Addresses'' (Arr HV_IPV6_ADDRESS 64), mem ''IPv4Subnets'' (Arr U32 64),
       mem ''IPv6Subnets'' (Arr U32 64), mem ''IPv4Gateways'' (Arr U32 5),
       mem ''IPv6Gateways'' (Arr HV_IPV6_ADDRESS 5), mem ''IPv4DNSServers'' (Arr U32 64),
       mem ''IPv6DNSServers'' (Arr HV_IPV6_ADDRESS 64), mem ''IPAddressOrigins'' (Arr U16 128)])"

definition IC_KVP_EXCHANGE_MSG_IP_ADDRESS_INFO_BINARY :: cty where
  "IC_KVP_EXCHANGE_MSG_IP_ADDRESS_INFO_BINARY = Struct 0 (flds_of [
       mem ''Header'' IC_KVP_EXCHANGE_MSG_HDR,
       mem ''Value'' IC_KVP_EXCHANGE_IP_ADDRESS_VALUE_BINARY])"

definition IC_VSS_OPERATION :: enum_tab where
  "IC_VSS_OPERATION = enum_of [
     (''ICVssOperationCreate'', Val 0), (''ICVssOperationDelete'', Val 1),
     (''ICVssOperationCheckHotBackup'', Val 2),
     (''ICVssOperationGetDirectMappedDevicesInfo'', Val 3),
     (''ICVssOperationBackupComplete'', Val 4), (''ICVssOperationFreezeApplications'', Val 5),
     (''ICVssOperationThawApplications'', Val 6), (''ICVssOperationAutoRecover'', Val 7),
     (''ICVssOperationQueryGuestClusterInformation'', Val 8), (''ICVssOperationCount'', Val 9)]"

definition IC_VSS_MSG_HDR :: cty where
  "IC_VSS_MSG_HDR = Struct 0 (flds_of [
       mem ''Operation'' U8, mem ''Reserved'' (Arr U8 4)])"

definition IC_VSS_MSG_DELETE :: cty where
  "IC_VSS_MSG_DELETE = Struct 0 (flds_of [
       mem ''SnapshotSetId'' HV_GUID])"

definition IC_VSS_MSG_CHECK_HOT_BACKUP :: cty where
  "IC_VSS_MSG_CHECK_HOT_BACKUP = Struct 0 (flds_of [
       mem ''Flags'' U32])"

definition IC_VSS_MSG_DIRECT_MAPPED_DEVICES_INFO :: cty where
  "IC_VSS_MSG_DIRECT_MAPPED_DEVICES_INFO = Struct 0 (flds_of [
       mem ''Flags'' U32])"

definition IC_VSS_MSG_BACKUP_COMPLETE :: cty where
  "IC_VSS_MSG_BACKUP_COMPLETE = Struct 0 (flds_of [
       mem ''Flags'' U32])"

definition IC_VSS_MSG_CREATE_V2 :: cty where
  "IC_VSS_MSG_CREATE_V2 = Struct 0 (flds_of [
       mem ''SnapshotSetId'' HV_GUID, mem ''BackupType'' U32])"

definition IC_VSS_MSG_THAW_APPLICATIONS :: cty where
  "IC_VSS_MSG_THAW_APPLICATIONS = Struct 0 (flds_of [
       mem ''Flags'' U32])"

definition IC_VSS_LUN_INFO_BUS_TYPE :: enum_tab where
  "IC_VSS_LUN_INFO_BUS_TYPE = enum_of [
     (''IcVssLunInfoBusTypeInvalid'', Val 0), (''IcVssLunInfoBusTypeSCSI'', Val 1),
     (''IcVssLunInfoBusTypeIDE'', Val 2)]"

definition IC_VSS_LUN_INFO :: cty where
  "IC_VSS_LUN_INFO = Struct 0 (flds_of [
       mem ''BusType'' U8, mem ''Controller'' HV_GUID, mem ''Port'' U8, mem ''Target'' U8,
       mem ''Lun'' U8])"

definition IC_VSS_LUN_OFFSET :: cty where
  "IC_VSS_LUN_OFFSET = Struct 0 (flds_of [
       mem ''DiskNumber'' U32, mem ''StartingOffset'' U64])"

definition IC_VSS_DISK_SIGNATURE :: cty where
  "IC_VSS_DISK_SIGNATURE = Struct 0 (flds_of [
       mem ''PartitionStyle'' U32,
       mem '''' (Union 0 (flds_of [mem ''Mbr'' (Struct 0 (flds_of [mem ''Signature'' U32])),
          mem ''Gpt'' (Struct 0 (flds_of [mem ''DiskId'' HV_GUID]))]))])"

definition IC_VSS_FREEZE_FLAGS :: enum_tab where
  "IC_VSS_FREEZE_FLAGS = enum_of [
     (''IcVssFreezeFlagNone'', Val 0), (''IcVssFreezeFlagAutoRecovery'', Val 1),
     (''IcVssFreezeFlagIncludesSharedLuns'', Val 2)]"

definition IC_VSS_CLIENT_STATE :: enum_tab where
  "IC_VSS_CLIENT_STATE = enum_of [
     (''ICVssClientStateNone'', Val 0), (''ICVssClientStateFreeze'', Val 1),
     (''ICVssClientStateThaw'', Val 2), (''ICVssClientStateAutoRecovery'', Val 3),
     (''ICVssClientStateBackupComplete'', Val 4), (''ICVssClientStateCount'', Val 5)]"

definition IC_TRANSPORT_ROLE :: enum_tab where
  "IC_TRANSPORT_ROLE = enum_of [
     (''ICTransportRoleClient'', Val 0), (''ICTransportRoleServer'', Val 1),
     (''ICTransportRoleCount'', Val 2)]"

definition IC_TRANSPORT_PROTO :: enum_tab where
  "IC_TRANSPORT_PROTO = enum_of [
     (''ICTransportProtoVMBus'', Val 0), (''ICTransportProtoNamed'', Val 1),
     (''ICTransportProtoCount'', Val 2)]"

definition IC_TRANSPORT_FLAG :: cty where "IC_TRANSPORT_FLAG = U8"

definition IC_MSG_NEGOTIATE :: cty where
  "IC_MSG_NEGOTIATE = Struct 0 (flds_of [
       mem ''ICFrameworkVersionCount'' U16, mem ''ICMessageVersionCount'' U16,
       mem ''Reserved'' U32, mem ''ICVersionData'' (Arr IC_VERSION HV_ANYSIZE_ARRAY)])"

definition IC_HEARTBEAT_MSG_DATA :: cty where
  "IC_HEARTBEAT_MSG_DATA = Struct 0 (flds_of [
       mem ''SeqNum'' U64, mem ''ApplicationState'' Enum_ty, mem ''Reserved'' (Arr U8 4)])"

definition IC_KVP_EXCHANGE_MSG :: cty where
  "IC_KVP_EXCHANGE_MSG = Struct 0 (flds_of [
       mem ''Header'' IC_KVP_EXCHANGE_MSG_HDR,
       mem ''Body'' (Union 0 (flds_of [mem ''Get'' IC_KVP_EXCHANGE_MSG_GET, mem ''Set'' IC_KVP_EXCHANGE_MSG_SET,
          mem ''Delete'' IC_KVP_EXCHANGE_MSG_DELETE, mem ''Enumerate'' IC_KVP_EXCHANGE_MSG_ENUMERATE]))])"

definition IC_KVP_EXCHANGE_MSG2 :: cty where
  "IC_KVP_EXCHANGE_MSG2 = Struct 0 (flds_of [
       mem ''IpMsg'' (Union 0 (flds_of [mem ''Header'' IC_KVP_EXCHANGE_MSG_HDR,
          mem ''IpAddressInfo'' IC_KVP_EXCHANGE_MSG_IP_ADDRESS_INFO,
          mem ''IpAddressInfoBinary'' IC_KVP_EXCHANGE_MSG_IP_ADDRESS_INFO_BINARY]))])"

definition IC_SHUTDOWN_MSG_DATA :: cty where
  "IC_SHUTDOWN_MSG_DATA = Struct 0 (flds_of [
       mem ''ReasonCode'' U32, mem ''TimeoutInSeconds'' U32, mem ''Flags'' U32,
       mem ''Message'' (Arr U8 2048)])"

definition IC_TIMESYNC_PROVIDER_MSG_DATA :: cty where
  "IC_TIMESYNC_PROVIDER_MSG_DATA = Struct 0 (flds_of [
       mem ''Offset'' U64, mem ''Delay'' U64, mem ''Dispersion'' U64, mem ''Flags'' U32,
       mem ''LeapFlags'' U8, mem ''Stratum'' U8, mem ''Reserved'' (Arr U8 3)])"

definition IC_TIMESYNC_MSG_DATA :: cty where
  "IC_TIMESYNC_MSG_DATA = Struct 0 (flds_of [
       mem ''ParentTime'' U64, mem ''ChildTime'' U64, mem ''RoundTripTime'' U64, mem ''Flags'' U8])"

definition IC_TIMESYNC_REFERENCE_MSG_DATA :: cty where
  "IC_TIMESYNC_REFERENCE_MSG_DATA = Struct 0 (flds_of [
       mem ''ParentTime'' U64, mem ''VmReferenceTime'' U64, mem ''Flags'' U8,
       mem ''LeapFlags'' U8, mem ''Stratum'' U8, mem ''Reserved'' (Arr U8 3)])"

definition IC_VSS_MSG :: cty where
  "IC_VSS_MSG = Struct 0 (flds_of [
       mem ''Header'' IC_VSS_MSG_HDR,
       mem ''Body'' (Union 0 (flds_of [mem ''Delete'' IC_VSS_MSG_DELETE, mem ''CheckHotBackup'' IC_VSS_MSG_CHECK_HOT_BACKUP,
          mem ''DirectMapInfo'' IC_VSS_MSG_DIRECT_MAPPED_DEVICES_INFO,
          mem ''BackupComplete'' IC_VSS_MSG_BACKUP_COMPLETE, mem ''CreateV2'' IC_VSS_MSG_CREATE_V2,
          mem ''ThawApplications'' IC_VSS_MSG_THAW_APPLICATIONS])),
       mem ''Reserved'' (Arr U8 4)])"

definition IC_VSS_MSG2 :: cty where
  "IC_VSS_MSG2 = Struct 0 (flds_of [
       mem ''Header'' IC_VSS_MSG_HDR, mem ''BackupType'' U32, mem ''Flags'' U32,
       mem ''LunCount'' U32, mem ''Luns'' (Arr IC_VSS_LUN_INFO 260)])"

definition IC_VSS_MSG2_EX :: cty where
  "IC_VSS_MSG2_EX = Struct 0 (flds_of [
       mem ''Header'' IC_VSS_MSG_HDR, mem ''BackupType'' U32, mem ''Flags'' U32,
       mem ''LunCount'' U32, mem ''Luns'' (Arr IC_VSS_LUN_INFO 260),
       mem ''ShadowLuns'' (Arr IC_VSS_LUN_INFO 260)])"

definition IC_VSS_MSG3 :: cty where
  "IC_VSS_MSG3 = Struct 0 (flds_of [
       mem ''Header'' IC_VSS_MSG_HDR, mem ''ClusterId'' HV_GUID, mem ''ClusterSize'' U32,
       mem ''LunCount'' U32, mem ''SharedLuns'' (Arr IC_VSS_LUN_INFO 260),
       mem ''SharedLunStatus'' (Arr U32 260)])"

definition IC_VSS_MSG3_EX :: cty where
  "IC_VSS_MSG3_EX = Struct 0 (flds_of [
       mem ''Header'' IC_VSS_MSG_HDR, mem ''ClusterId'' HV_GUID, mem ''ClusterSize'' U32,
       mem ''LunCount'' U32, mem ''SharedLuns'' (Arr IC_VSS_LUN_INFO 260),
       mem ''SharedLunStatus'' (Arr U32 260), mem ''LastMoveTime'' U64])"

definition IC_RDV_MSG_DATA :: cty where
  "IC_RDV_MSG_DATA = Struct 0 (flds_of [
       mem ''Flags'' U32, mem ''Message'' (Arr U8 2048)])"

definition IC_GUESTSVC_OPERATION :: enum_tab where
  "IC_GUESTSVC_OPERATION = enum_of [
     (''ICGuestSvcOperationStartFileCopy'', Val 0), (''ICGuestSvcOperationWriteToFile'', Val 1),
     (''ICGuestSvcOperationCompleteFileCopy'', Val 2),
     (''ICGuestSvcOperationCancelFileCopy'', Val 3)]"

definition IC_GUESTSVC_MSG_HEADER :: cty where
  "IC_GUESTSVC_MSG_HEADER = Struct 0 (flds_of [
       mem ''Operation'' Enum_ty, mem ''ServiceID'' HV_GUID, mem ''SessionID'' HV_GUID])"

definition IC_GUESTSVC_FLAGS :: enum_tab where
  "IC_GUESTSVC_FLAGS = enum_of [
     (''ICGuestSvcStartFileCopyFlagsOverwrite'', Val 1),
     (''ICGuestSvcStartFileCopyFlagsCreateFullPath'', Val 2)]"

definition IC_GUESTIFACE_START_OPERATION_MESSAGE :: cty where
  "IC_GUESTIFACE_START_OPERATION_MESSAGE = Struct 0 (flds_of [
       mem ''Header'' IC_GUESTSVC_MSG_HEADER, mem ''SourceFileName'' (Arr U16 260),
       mem ''DestinationFilePath'' (Arr U16 260), mem ''Flags'' Enum_ty,
       mem ''FileSizeInBytes'' U64])"

definition IC_GUESTIFACE_COPY_OPERATION_MESSAGE :: cty where
  "IC_GUESTIFACE_COPY_OPERATION_MESSAGE = Struct 0 (flds_of [
       mem ''Header'' IC_GUESTSVC_MSG_HEADER, mem ''Offset'' U64, mem ''Size'' U32,
       mem ''Data'' (Arr U8 6144)])"

section \<open>Remote Desktop Control Channel, Remote Desktop Data Channel\<close>

definition SYNTHRDP_CONTROL_CLASS_ID :: guid where
  "SYNTHRDP_CONTROL_CLASS_ID = \<lparr>Data1 = 0xF8E65716, Data2 = 0x3CB3, Data3 = 0x4A06,
     Data4 = [0x9A, 0x60, 0x18, 0x89, 0xC5, 0xCC, 0xCA, 0xB5]\<rparr>"

definition SYNTHRDP_CONTROL_INSTANCE_ID :: guid where
  "SYNTHRDP_CONTROL_INSTANCE_ID = \<lparr>Data1 = 0x99221FA0, Data2 = 0x24AD, Data3 = 0x11E2,
     Data4 = [0xBE, 0x98, 0x00, 0x1A, 0xA0, 0x1B, 0xBF, 0x6E]\<rparr>"

definition SYNTHRDP_DATA_CLASS_ID :: guid where
  "SYNTHRDP_DATA_CLASS_ID = \<lparr>Data1 = 0xF9E9C0D3, Data2 = 0xB511, Data3 = 0x4A48,
     Data4 = [0x80, 0x46, 0xD3, 0x80, 0x79, 0xA8, 0x83, 0x0C]\<rparr>"

definition SYNTHRDP_DATA_INSTANCE_ID_1 :: guid where
  "SYNTHRDP_DATA_INSTANCE_ID_1 = \<lparr>Data1 = 0x99221FA1, Data2 = 0x24AD, Data3 = 0x11E2,
     Data4 = [0xBE, 0x98, 0x00, 0x1A, 0xA0, 0x1B, 0xBF, 0x6E]\<rparr>"

definition SYNTHRDP_DATA_INSTANCE_ID_2 :: guid where
  "SYNTHRDP_DATA_INSTANCE_ID_2 = \<lparr>Data1 = 0x99221FA2, Data2 = 0x24AD, Data3 = 0x11E2,
     Data4 = [0xBE, 0x98, 0x00, 0x1A, 0xA0, 0x1B, 0xBF, 0x6E]\<rparr>"

definition SYNTHRDP_DATA_INSTANCE_ID_3 :: guid where
  "SYNTHRDP_DATA_INSTANCE_ID_3 = \<lparr>Data1 = 0x99221FA3, Data2 = 0x24AD, Data3 = 0x11E2,
     Data4 = [0xBE, 0x98, 0x00, 0x1A, 0xA0, 0x1B, 0xBF, 0x6E]\<rparr>"

definition SYNTHRDP_DATA_INSTANCE_ID_4 :: guid where
  "SYNTHRDP_DATA_INSTANCE_ID_4 = \<lparr>Data1 = 0x99221FA4, Data2 = 0x24AD, Data3 = 0x11E2,
     Data4 = [0xBE, 0x98, 0x00, 0x1A, 0xA0, 0x1B, 0xBF, 0x6E]\<rparr>"

definition SYNTHRDP_DATA_INSTANCE_ID_5 :: guid where
  "SYNTHRDP_DATA_INSTANCE_ID_5 = \<lparr>Data1 = 0x99221FA5, Data2 = 0x24AD, Data3 = 0x11E2,
     Data4 = [0xBE, 0x98, 0x00, 0x1A, 0xA0, 0x1B, 0xBF, 0x6E]\<rparr>"

definition SYNTHRDP_MESSAGE_TYPE :: enum_tab where
  "SYNTHRDP_MESSAGE_TYPE = enum_of [
     (''SynthrdpError'', Val 0), (''SynthrdpVersionRequest'', Val 1),
     (''SynthrdpVersionResponse'', Val 2), (''SynthrdpMax'', Val 3)]"

definition SYNTHRDP_MESSAGE_HEADER :: cty where
  "SYNTHRDP_MESSAGE_HEADER = Struct 0 (flds_of [
       mem ''Type'' Enum_ty, mem ''Size'' U32])"

definition SYNTHRDP_MAKE_VERSION :: "32 word \<Rightarrow> 32 word \<Rightarrow> 32 word" where
  "SYNTHRDP_MAKE_VERSION major minor = (push_bit 16 minor) OR major"

definition SYNTHRDP_VERSION_MAJOR :: "32 word \<Rightarrow> 32 word" where
  "SYNTHRDP_VERSION_MAJOR version = version AND 0x0000FFFF"

definition SYNTHRDP_VERSION_MINOR :: "32 word \<Rightarrow> 32 word" where
  "SYNTHRDP_VERSION_MINOR version = drop_bit 16 (version AND 0xFFFF0000)"

definition SYNTHRDP_VERSION_WINBLUE :: "32 word" where
  "SYNTHRDP_VERSION_WINBLUE = SYNTHRDP_MAKE_VERSION 1 0"

definition SYNTHRDP_VERSION :: cty where
  "SYNTHRDP_VERSION = Union 0 (flds_of [
       mem ''AsDWORD'' U32,
       mem '''' (Struct 0 (flds_of [mem ''MajorVersion'' U16, mem ''MinorVersion'' U16]))])"

definition SYNTHRDP_VERSION_REQUEST_MESSAGE :: cty where
  "SYNTHRDP_VERSION_REQUEST_MESSAGE = Struct 0 (flds_of [
       mem ''Header'' SYNTHRDP_MESSAGE_HEADER, mem ''Version'' SYNTHRDP_VERSION,
       mem ''Reserved'' U32])"

definition SYNTHRDP_VERSION_RESPONSE_MESSAGE :: cty where
  "SYNTHRDP_VERSION_RESPONSE_MESSAGE = Struct 1 (flds_of [
       mem ''Header'' SYNTHRDP_MESSAGE_HEADER, mem ''Version'' SYNTHRDP_VERSION,
       mem ''Reserved'' U32, mem ''IsAccepted'' U8])"

section \<open>Virtual SMB\<close>

definition VSMB_CLASS_ID :: guid where
  "VSMB_CLASS_ID = \<lparr>Data1 = 0x4D12E519, Data2 = 0x17A0, Data3 = 0x4AE4,
     Data4 = [0x8E, 0xAA, 0x52, 0x70, 0xFC, 0x6A, 0xBD, 0xB7]\<rparr>"

definition VSMB_INSTANCE_ID :: guid where
  "VSMB_INSTANCE_ID = \<lparr>Data1 = 0xDCC079AE, Data2 = 0x60BA, Data3 = 0x4D07,
     Data4 = [0x84, 0x7C, 0x34, 0x93, 0x60, 0x9C, 0x08, 0x70]\<rparr>"

section \<open>Tables\<close>

text \<open>The structures, unions and type synonyms above, in the order of the header.\<close>

definition vmbus_device_types :: "(string \<times> cty) list" where
  "vmbus_device_types = [
     (''HV_RECT'', HV_RECT), (''HVD_SCREEN_INFO'', HVD_SCREEN_INFO),
     (''SYNTHVID_POINTER_POSITION_MESSAGE'', SYNTHVID_POINTER_POSITION_MESSAGE),
     (''SYNTHVID_POINTER_SHAPE_MESSAGE'', SYNTHVID_POINTER_SHAPE_MESSAGE),
     (''SYNTHVID_FEATURE_CHANGE_MESSAGE_V2'', SYNTHVID_FEATURE_CHANGE_MESSAGE_V2),
     (''SYNTHVID_DIRT_MESSAGE'', SYNTHVID_DIRT_MESSAGE),
     (''SYNTHVID_BIOS_INFO_REQUEST_MESSAGE'', SYNTHVID_BIOS_INFO_REQUEST_MESSAGE),
     (''SYNTHVID_BIOS_INFO_RESPONSE_MESSAGE'', SYNTHVID_BIOS_INFO_RESPONSE_MESSAGE),
     (''SYNTHVID_SUPPORTED_RESOLUTIONS_REQUEST_MESSAGE'', SYNTHVID_SUPPORTED_RESOLUTIONS_REQUEST_MESSAGE),
     (''SYNTHVID_SUPPORTED_RESOLUTIONS_RESPONSE_MESSAGE'', SYNTHVID_SUPPORTED_RESOLUTIONS_RESPONSE_MESSAGE),
     (''SYNTHVID_CAPABILITY_REQUEST_MESSAGE'', SYNTHVID_CAPABILITY_REQUEST_MESSAGE),
     (''SYNTHVID_CAPABILITY_RESPONSE_MESSAGE'', SYNTHVID_CAPABILITY_RESPONSE_MESSAGE),
     (''SYNTHHID_MESSAGE_HEADER'', SYNTHHID_MESSAGE_HEADER), (''SYNTHHID_VERSION'', SYNTHHID_VERSION),
     (''HV_HID_DEVICE_ATTRIBUTES'', HV_HID_DEVICE_ATTRIBUTES),
     (''HV_HID_DESCRIPTOR_DESC_LIST'', HV_HID_DESCRIPTOR_DESC_LIST),
     (''HV_HID_DESCRIPTOR'', HV_HID_DESCRIPTOR),
     (''SYNTHHID_PROTOCOL_REQUEST'', SYNTHHID_PROTOCOL_REQUEST),
     (''SYNTHHID_PROTOCOL_RESPONSE'', SYNTHHID_PROTOCOL_RESPONSE),
     (''SYNTHHID_DEVICE_INFO'', SYNTHHID_DEVICE_INFO),
     (''SYNTHHID_DEVICE_INFO_ACK'', SYNTHHID_DEVICE_INFO_ACK), (''SYNTHHID_MESSAGE'', SYNTHHID_MESSAGE),
     (''HV_GROUP_AFFINITY'', HV_GROUP_AFFINITY), (''NVSP_6_PD_BUFFER'', NVSP_6_PD_BUFFER),
     (''NVSP_6_MESSAGE_PD_API_REQUEST'', NVSP_6_MESSAGE_PD_API_REQUEST),
     (''NVSP_6_MESSAGE_PD_API_COMPLETE'', NVSP_6_MESSAGE_PD_API_COMPLETE),
     (''NVSP_6_MESSAGE_PD_BATCH_MESSAGE'', NVSP_6_MESSAGE_PD_BATCH_MESSAGE),
     (''NVSP_MESSAGE_1_UBER'', NVSP_MESSAGE_1_UBER), (''NVSP_MESSAGE_2_UBER'', NVSP_MESSAGE_2_UBER),
     (''NVSP_MESSAGE_4_UBER'', NVSP_MESSAGE_4_UBER), (''NVSP_MESSAGE_5_UBER'', NVSP_MESSAGE_5_UBER),
     (''NVSP_MESSAGE_6_UBER'', NVSP_MESSAGE_6_UBER),
     (''NVSP_ALL_MESSAGES_PRIVATE'', NVSP_ALL_MESSAGES_PRIVATE),
     (''NVSP_MESSAGE_PRIVATE'', NVSP_MESSAGE_PRIVATE), (''IC_VERSION_FIELD'', IC_VERSION_FIELD),
     (''IC_VERSION'', IC_VERSION), (''IC_MSG_TYPE'', IC_MSG_TYPE),
     (''IC_MSG_TRANS_ID'', IC_MSG_TRANS_ID), (''IC_MSG_HDR_FLAG'', IC_MSG_HDR_FLAG),
     (''IC_MSG_HDR'', IC_MSG_HDR), (''IC_KVP_EXCHANGE_MSG_HDR'', IC_KVP_EXCHANGE_MSG_HDR),
     (''IC_KVP_EXCHANGE_MSG_VALUE'', IC_KVP_EXCHANGE_MSG_VALUE),
     (''IC_KVP_EXCHANGE_MSG_GET'', IC_KVP_EXCHANGE_MSG_GET),
     (''IC_KVP_EXCHANGE_MSG_SET'', IC_KVP_EXCHANGE_MSG_SET),
     (''IC_KVP_EXCHANGE_MSG_DELETE'', IC_KVP_EXCHANGE_MSG_DELETE),
     (''IC_KVP_EXCHANGE_MSG_ENUMERATE'', IC_KVP_EXCHANGE_MSG_ENUMERATE),
     (''IC_KVP_EXCHANGE_IP_ADDRESS_VALUE'', IC_KVP_EXCHANGE_IP_ADDRESS_VALUE),
     (''IC_KVP_EXCHANGE_MSG_IP_ADDRESS_INFO'', IC_KVP_EXCHANGE_MSG_IP_ADDRESS_INFO),
     (''IC_KVP_EXCHANGE_IP_ADDRESS_BINARY_HEADER'', IC_KVP_EXCHANGE_IP_ADDRESS_BINARY_HEADER),
     (''IC_KVP_EXCHANGE_IP_ADDRESS_VALUE_BINARY'', IC_KVP_EXCHANGE_IP_ADDRESS_VALUE_BINARY),
     (''IC_KVP_EXCHANGE_MSG_IP_ADDRESS_INFO_BINARY'', IC_KVP_EXCHANGE_MSG_IP_ADDRESS_INFO_BINARY),
     (''IC_VSS_MSG_HDR'', IC_VSS_MSG_HDR), (''IC_VSS_MSG_DELETE'', IC_VSS_MSG_DELETE),
     (''IC_VSS_MSG_CHECK_HOT_BACKUP'', IC_VSS_MSG_CHECK_HOT_BACKUP),
     (''IC_VSS_MSG_DIRECT_MAPPED_DEVICES_INFO'', IC_VSS_MSG_DIRECT_MAPPED_DEVICES_INFO),
     (''IC_VSS_MSG_BACKUP_COMPLETE'', IC_VSS_MSG_BACKUP_COMPLETE),
     (''IC_VSS_MSG_CREATE_V2'', IC_VSS_MSG_CREATE_V2),
     (''IC_VSS_MSG_THAW_APPLICATIONS'', IC_VSS_MSG_THAW_APPLICATIONS),
     (''IC_VSS_LUN_INFO'', IC_VSS_LUN_INFO), (''IC_VSS_LUN_OFFSET'', IC_VSS_LUN_OFFSET),
     (''IC_VSS_DISK_SIGNATURE'', IC_VSS_DISK_SIGNATURE), (''IC_TRANSPORT_FLAG'', IC_TRANSPORT_FLAG),
     (''IC_MSG_NEGOTIATE'', IC_MSG_NEGOTIATE), (''IC_HEARTBEAT_MSG_DATA'', IC_HEARTBEAT_MSG_DATA),
     (''IC_KVP_EXCHANGE_MSG'', IC_KVP_EXCHANGE_MSG), (''IC_KVP_EXCHANGE_MSG2'', IC_KVP_EXCHANGE_MSG2),
     (''IC_SHUTDOWN_MSG_DATA'', IC_SHUTDOWN_MSG_DATA),
     (''IC_TIMESYNC_PROVIDER_MSG_DATA'', IC_TIMESYNC_PROVIDER_MSG_DATA),
     (''IC_TIMESYNC_MSG_DATA'', IC_TIMESYNC_MSG_DATA),
     (''IC_TIMESYNC_REFERENCE_MSG_DATA'', IC_TIMESYNC_REFERENCE_MSG_DATA), (''IC_VSS_MSG'', IC_VSS_MSG),
     (''IC_VSS_MSG2'', IC_VSS_MSG2), (''IC_VSS_MSG2_EX'', IC_VSS_MSG2_EX),
     (''IC_VSS_MSG3'', IC_VSS_MSG3), (''IC_VSS_MSG3_EX'', IC_VSS_MSG3_EX),
     (''IC_RDV_MSG_DATA'', IC_RDV_MSG_DATA), (''IC_GUESTSVC_MSG_HEADER'', IC_GUESTSVC_MSG_HEADER),
     (''IC_GUESTIFACE_START_OPERATION_MESSAGE'', IC_GUESTIFACE_START_OPERATION_MESSAGE),
     (''IC_GUESTIFACE_COPY_OPERATION_MESSAGE'', IC_GUESTIFACE_COPY_OPERATION_MESSAGE),
     (''SYNTHRDP_MESSAGE_HEADER'', SYNTHRDP_MESSAGE_HEADER), (''SYNTHRDP_VERSION'', SYNTHRDP_VERSION),
     (''SYNTHRDP_VERSION_REQUEST_MESSAGE'', SYNTHRDP_VERSION_REQUEST_MESSAGE),
     (''SYNTHRDP_VERSION_RESPONSE_MESSAGE'', SYNTHRDP_VERSION_RESPONSE_MESSAGE)]"

lemmas device_type_defs =
  HV_RECT_def HVD_SCREEN_INFO_def SYNTHVID_POINTER_POSITION_MESSAGE_def
  SYNTHVID_POINTER_SHAPE_MESSAGE_def SYNTHVID_FEATURE_CHANGE_MESSAGE_V2_def SYNTHVID_DIRT_MESSAGE_def
  SYNTHVID_BIOS_INFO_REQUEST_MESSAGE_def SYNTHVID_BIOS_INFO_RESPONSE_MESSAGE_def
  SYNTHVID_SUPPORTED_RESOLUTIONS_REQUEST_MESSAGE_def
  SYNTHVID_SUPPORTED_RESOLUTIONS_RESPONSE_MESSAGE_def SYNTHVID_CAPABILITY_REQUEST_MESSAGE_def
  SYNTHVID_CAPABILITY_RESPONSE_MESSAGE_def SYNTHHID_MESSAGE_HEADER_def SYNTHHID_VERSION_def
  HV_HID_DEVICE_ATTRIBUTES_def HV_HID_DESCRIPTOR_DESC_LIST_def HV_HID_DESCRIPTOR_def
  SYNTHHID_PROTOCOL_REQUEST_def SYNTHHID_PROTOCOL_RESPONSE_def SYNTHHID_DEVICE_INFO_def
  SYNTHHID_DEVICE_INFO_ACK_def SYNTHHID_MESSAGE_def HV_GROUP_AFFINITY_def NVSP_6_PD_BUFFER_def
  NVSP_6_MESSAGE_PD_API_REQUEST_def NVSP_6_MESSAGE_PD_API_COMPLETE_def
  NVSP_6_MESSAGE_PD_BATCH_MESSAGE_def NVSP_MESSAGE_1_UBER_def NVSP_MESSAGE_2_UBER_def
  NVSP_MESSAGE_4_UBER_def NVSP_MESSAGE_5_UBER_def NVSP_MESSAGE_6_UBER_def
  NVSP_ALL_MESSAGES_PRIVATE_def NVSP_MESSAGE_PRIVATE_def IC_VERSION_FIELD_def IC_VERSION_def
  IC_MSG_TYPE_def IC_MSG_TRANS_ID_def IC_MSG_HDR_FLAG_def IC_MSG_HDR_def IC_KVP_EXCHANGE_MSG_HDR_def
  IC_KVP_EXCHANGE_MSG_VALUE_def IC_KVP_EXCHANGE_MSG_GET_def IC_KVP_EXCHANGE_MSG_SET_def
  IC_KVP_EXCHANGE_MSG_DELETE_def IC_KVP_EXCHANGE_MSG_ENUMERATE_def
  IC_KVP_EXCHANGE_IP_ADDRESS_VALUE_def IC_KVP_EXCHANGE_MSG_IP_ADDRESS_INFO_def
  IC_KVP_EXCHANGE_IP_ADDRESS_BINARY_HEADER_def IC_KVP_EXCHANGE_IP_ADDRESS_VALUE_BINARY_def
  IC_KVP_EXCHANGE_MSG_IP_ADDRESS_INFO_BINARY_def IC_VSS_MSG_HDR_def IC_VSS_MSG_DELETE_def
  IC_VSS_MSG_CHECK_HOT_BACKUP_def IC_VSS_MSG_DIRECT_MAPPED_DEVICES_INFO_def
  IC_VSS_MSG_BACKUP_COMPLETE_def IC_VSS_MSG_CREATE_V2_def IC_VSS_MSG_THAW_APPLICATIONS_def
  IC_VSS_LUN_INFO_def IC_VSS_LUN_OFFSET_def IC_VSS_DISK_SIGNATURE_def IC_TRANSPORT_FLAG_def
  IC_MSG_NEGOTIATE_def IC_HEARTBEAT_MSG_DATA_def IC_KVP_EXCHANGE_MSG_def IC_KVP_EXCHANGE_MSG2_def
  IC_SHUTDOWN_MSG_DATA_def IC_TIMESYNC_PROVIDER_MSG_DATA_def IC_TIMESYNC_MSG_DATA_def
  IC_TIMESYNC_REFERENCE_MSG_DATA_def IC_VSS_MSG_def IC_VSS_MSG2_def IC_VSS_MSG2_EX_def
  IC_VSS_MSG3_def IC_VSS_MSG3_EX_def IC_RDV_MSG_DATA_def IC_GUESTSVC_MSG_HEADER_def
  IC_GUESTIFACE_START_OPERATION_MESSAGE_def IC_GUESTIFACE_COPY_OPERATION_MESSAGE_def
  SYNTHRDP_MESSAGE_HEADER_def SYNTHRDP_VERSION_def SYNTHRDP_VERSION_REQUEST_MESSAGE_def
  SYNTHRDP_VERSION_RESPONSE_MESSAGE_def HV_IPV6_ADDRESS_def

lemmas device_macro_defs =
  SYNTHVID_VERSION_WIN7_def SYNTHVID_VERSION_WIN8_def SYNTHVID_VERSION_WINBLUE_def
  SYNTHVID_VERSION_WINTHRESHOLD_M1_def SYNTHVID_VERSION_WINTHRESHOLD_M2_def
  SYNTHVID_VERSION_WIN10_def SYNTHVID_FEATURE_WIN7_def SYNTHVID_FEATURE_WIN8_def
  SYNTHVID_FEATURE_WINBLUE_def SYNTHVID_FEATURE_WINTHRESHOLD_M1_def
  SYNTHVID_FEATURE_WINTHRESHOLD_M2_def HK_VERSION_CURRENT_def SYNTHHID_VERSION_CURRENT_def
  VMSTORAGE_VERSION_WIN6_def VMSTORAGE_VERSION_WIN7_def VMSTORAGE_VERSION_WIN8_def
  VMSTORAGE_VERSION_WINBLUE_def VMSTORAGE_VERSION_WIN10_def NVSP_VERSION_1_def NVSP_VERSION_2_def
  NVSP_VERSION_4_def NVSP_VERSION_5_def NVSP_VERSION_6_def NVSP_VERSION_61_def
  SYNTHRDP_VERSION_WINBLUE_def HK_VERSION_MAJOR_def HK_VERSION_MINOR_def SYNTHHID_MAKE_VERSION_def
  SYNTHHID_VERSION_MAJOR_def SYNTHHID_VERSION_MINOR_def SYNTHRDP_MAKE_VERSION_def
  SYNTHRDP_VERSION_MAJOR_def SYNTHRDP_VERSION_MINOR_def SYNTHVID_MAKE_FEATURE_def
  SYNTHVID_MAKE_VERSION_def SYNTHVID_MAKE_VERSION_MAJOR_def SYNTHVID_MAKE_VERSION_MINOR_def

text \<open>The GUID constants of both headers, each with the text of the comment above it.\<close>

definition hv_guids :: "(guid \<times> string) list" where
  "hv_guids = [
     (SYNTHVID_CLASS_ID, ''DA0A7802-E377-4AAC-8E77-0558EB1073F8''),
     (HK_CLASS_ID, ''F912AD6D-2B17-48EA-BD65-F927A61C7684''),
     (VMSCSI_CLASS_ID, ''BA6163D9-04A1-4D29-B605-72E2FFB1DC7F''),
     (NVSP_CLASS_ID, ''F8615163-DF3E-46C5-913F-F2D2F965ED0E''),
     (VPCI_CLASS_ID, ''44C4F61D-4444-4400-9D52-802E27EDE19F''),
     (VMBFS_CLASS_ID, ''C376C1C3-D276-48D2-90A9-C04748072C60''),
     (SYNTHHID_CLASS_ID, ''CFA8B69E-5B4A-4CC0-B98B-8BA1A1F3F95A''),
     (VMFC_CLASS_ID, ''2F9BCC4A-0069-4AF3-B76B-6FD0BE528CDA''),
     (VMBFS_INSTANCE_ID, ''C63C9BDF-5FA5-4208-B03F-6B458B365592''),
     (IC_NEGOTIATE_CLASS_ID, ''9722C3E7-8F86-456D-8B6C-6009DA4CCD0B''),
     (IC_NEGOTIATE_INSTANCE_ID, ''77B80A1A-C226-427B-B65B-DBA0DF85C812''),
     (IC_HEARTBEAT_CLASS_ID, ''57164F39-9115-4E78-AB55-382F3BD5422D''),
     (IC_HEARTBEAT_INSTANCE_ID, ''FD149E91-82E0-4A7D-AFA6-2A4166CBD7C0''),
     (IC_KVP_EXCHANGE_CLASS_ID, ''A9A0F4E7-5A45-4D96-B827-8A841E8C03E6''),
     (IC_KVP_EXCHANGE_INSTANCE_ID, ''242FF919-07DB-4180-9C2E-B86CB68C8C55''),
     (IC_SHUTDOWN_CLASS_ID, ''0E0B6031-5213-4934-818B-38D90CED39DB''),
     (IC_SHUTDOWN_INSTANCE_ID, ''B6650FF7-33BC-4840-8048-E0676786F393''),
     (IC_TIMESYNC_CLASS_ID, ''9527E630-D0AE-497B-ADCE-E80AB0175CAF''),
     (IC_TIMESYNC_INSTANCE_ID, ''2DD1CE17-079E-403C-B352-A1921EE207EE''),
     (IC_VSS_CLASS_ID, ''35FA2E29-EA23-4236-96AE-3A6EBACBA440''),
     (IC_VSS_INSTANCE_ID, ''2450EE40-33BF-4FBD-892E-9FB06E9214CF''),
     (IC_RDV_CLASS_ID, ''276AACF4-AC15-426C-98DD-7521AD3F01FE''),
     (IC_RDV_INSTANCE_ID, ''F5BEE29C-1741-4AAD-A4C2-8FDEDB46DCC2''),
     (IC_GUESTSVC_CLASS_ID, ''34D14BE3-DEE4-41C8-9AE7-6B174977C192''),
     (IC_GUESTSVC_INSTANCE_ID, ''EB765408-105F-49B6-B4AA-C123B64D17D4''),
     (SYNTHRDP_CONTROL_CLASS_ID, ''F8E65716-3CB3-4A06-9A60-1889C5CCCAB5''),
     (SYNTHRDP_CONTROL_INSTANCE_ID, ''99221FA0-24AD-11E2-BE98-001AA01BBF6E''),
     (SYNTHRDP_DATA_CLASS_ID, ''F9E9C0D3-B511-4A48-8046-D38079A8830C''),
     (SYNTHRDP_DATA_INSTANCE_ID_1, ''99221FA1-24AD-11E2-BE98-001AA01BBF6E''),
     (SYNTHRDP_DATA_INSTANCE_ID_2, ''99221FA2-24AD-11E2-BE98-001AA01BBF6E''),
     (SYNTHRDP_DATA_INSTANCE_ID_3, ''99221FA3-24AD-11E2-BE98-001AA01BBF6E''),
     (SYNTHRDP_DATA_INSTANCE_ID_4, ''99221FA4-24AD-11E2-BE98-001AA01BBF6E''),
     (SYNTHRDP_DATA_INSTANCE_ID_5, ''99221FA5-24AD-11E2-BE98-001AA01BBF6E''),
     (VSMB_CLASS_ID, ''4D12E519-17A0-4AE4-8EAA-5270FC6ABDB7''),
     (VSMB_INSTANCE_ID, ''DCC079AE-60BA-4D07-847C-3493609C0870'')]"

lemmas hv_guid_defs =
  SYNTHVID_CLASS_ID_def HK_CLASS_ID_def VMSCSI_CLASS_ID_def NVSP_CLASS_ID_def VPCI_CLASS_ID_def
  VMBFS_CLASS_ID_def SYNTHHID_CLASS_ID_def VMFC_CLASS_ID_def VMBFS_INSTANCE_ID_def
  IC_NEGOTIATE_CLASS_ID_def IC_NEGOTIATE_INSTANCE_ID_def IC_HEARTBEAT_CLASS_ID_def
  IC_HEARTBEAT_INSTANCE_ID_def IC_KVP_EXCHANGE_CLASS_ID_def IC_KVP_EXCHANGE_INSTANCE_ID_def
  IC_SHUTDOWN_CLASS_ID_def IC_SHUTDOWN_INSTANCE_ID_def IC_TIMESYNC_CLASS_ID_def
  IC_TIMESYNC_INSTANCE_ID_def IC_VSS_CLASS_ID_def IC_VSS_INSTANCE_ID_def IC_RDV_CLASS_ID_def
  IC_RDV_INSTANCE_ID_def IC_GUESTSVC_CLASS_ID_def IC_GUESTSVC_INSTANCE_ID_def
  SYNTHRDP_CONTROL_CLASS_ID_def SYNTHRDP_CONTROL_INSTANCE_ID_def SYNTHRDP_DATA_CLASS_ID_def
  SYNTHRDP_DATA_INSTANCE_ID_1_def SYNTHRDP_DATA_INSTANCE_ID_2_def SYNTHRDP_DATA_INSTANCE_ID_3_def
  SYNTHRDP_DATA_INSTANCE_ID_4_def SYNTHRDP_DATA_INSTANCE_ID_5_def VSMB_CLASS_ID_def
  VSMB_INSTANCE_ID_def

section \<open>Version words\<close>

text \<open>Two 16-bit halves in a 32-bit word.\<close>

lemma take_bit_16_self: "b < 0x10000 \<Longrightarrow> take_bit 16 b = b" for b :: "32 word"
  by (simp add: word_unat_eq_iff take_bit_eq_mod unat_mod_distrib word_less_nat_alt)

lemma halves:
  fixes a b :: "32 word"
  assumes "b < 0x10000"
  shows "drop_bit 16 (push_bit 16 a OR b) = take_bit 16 a" "take_bit 16 (push_bit 16 a OR b) = b"
proof -
  have b: "bit b n \<Longrightarrow> n < 16" for n
    using take_bit_16_self [OF assms] by (metis bit_take_bit_iff)
  show "drop_bit 16 (push_bit 16 a OR b) = take_bit 16 a"
    by (rule bit_word_eqI) (auto simp: bit_simps dest: b)
  show "take_bit 16 (push_bit 16 a OR b) = b"
    by (rule bit_word_eqI) (auto simp: bit_simps dest: b)
qed

lemma mask_low: "v AND 0xFFFF = take_bit 16 v" for v :: "32 word"
  by (simp add: take_bit_eq_mask mask_eq_exp_minus_1)

lemma drop_bit_masked:
  "LENGTH('a) \<le> k + m \<Longrightarrow> drop_bit k (v AND push_bit k (mask m)) = drop_bit k v" for v :: "'a::len word"
  by (rule bit_word_eqI) (auto simp: bit_simps dest: bit_imp_le_length)

lemma mask_high: "drop_bit 16 (v AND 0xFFFF0000) = drop_bit 16 v" for v :: "32 word"
proof -
  have "(0xFFFF0000 :: 32 word) = push_bit 16 (mask 16)" by (simp add: mask_eq_exp_minus_1 push_bit_eq_mult)
  then show ?thesis using drop_bit_masked [where k = 16 and m = 16 and v = v] by simp
qed

lemma unat_halves:
  fixes a b :: "32 word"
  assumes "a < 0x10000" "b < 0x10000"
  shows "unat (push_bit 16 a OR b) = 0x10000 * unat a + unat b"
proof -
  let ?v = "push_bit 16 a OR b"
  have "unat ?v = 0x10000 * (unat ?v div 0x10000) + unat ?v mod 0x10000" by simp
  also have "unat ?v div 0x10000 = unat (drop_bit 16 ?v)" by (simp add: drop_bit_eq_div unat_div_distrib)
  also have "unat ?v mod 0x10000 = unat (take_bit 16 ?v)" by (simp add: take_bit_eq_mod unat_mod_distrib)
  finally show ?thesis using halves [OF assms(2), of a] take_bit_16_self [OF assms(1)] by simp
qed

lemma halves_order:
  fixes a b c d :: "32 word"
  assumes "a < 0x10000" "b < 0x10000" "c < 0x10000" "d < 0x10000"
  shows "push_bit 16 a OR b \<le> push_bit 16 c OR d \<longleftrightarrow> a < c \<or> a = c \<and> b \<le> d"
proof -
  have "unat b < 0x10000" "unat d < 0x10000" using assms by (simp_all add: word_less_nat_alt)
  then show ?thesis
    using assms by (auto simp: word_le_nat_alt word_less_nat_alt unat_halves word_unat_eq_iff)
qed

lemma mask_byte: "v AND 0xff = take_bit 8 v" for v :: "32 word"
  by (simp add: take_bit_eq_mask mask_eq_exp_minus_1)

lemma vmstor_halves:
  fixes a b :: "32 word"
  shows "take_bit 8 (drop_bit 8 (push_bit 8 (take_bit 8 a) OR take_bit 8 b)) = take_bit 8 a"
    and "take_bit 8 (push_bit 8 (take_bit 8 a) OR take_bit 8 b) = take_bit 8 b"
  by (rule bit_word_eqI, auto simp: bit_simps)+

lemma low_half_less: "take_bit 16 x < 0x10000" for x :: "32 word"
  by (simp add: word_less_nat_alt take_bit_eq_mod unat_mod_distrib)

lemma high_half_less: "drop_bit 16 x < 0x10000" for x :: "32 word"
  using unsigned_less [of x, where ?'a = nat] by (simp add: word_less_nat_alt drop_bit_eq_div unat_div_distrib)

lemma high_half_self: "take_bit 16 (drop_bit 16 x) = drop_bit 16 x" for x :: "32 word"
  by (rule take_bit_16_self [OF high_half_less])

lemmas version_defs = SYNTHVID_MAKE_VERSION_def SYNTHVID_MAKE_VERSION_MAJOR_def SYNTHVID_MAKE_VERSION_MINOR_def
  SYNTHRDP_MAKE_VERSION_def SYNTHRDP_VERSION_MAJOR_def SYNTHRDP_VERSION_MINOR_def
  SYNTHHID_MAKE_VERSION_def SYNTHHID_VERSION_MAJOR_def SYNTHHID_VERSION_MINOR_def
  HK_MAKE_VERSION_def HK_VERSION_MAJOR_def HK_VERSION_MINOR_def
  NVSP_PROTOCOL_VERSION_def NVSP_PROTOCOL_MAJOR_def NVSP_PROTOCOL_MINOR_def
  VMSTOR_PROTOCOL_VERSION_def VMSTOR_PROTOCOL_MAJOR_def VMSTOR_PROTOCOL_MINOR_def
  mask_low mask_high mask_byte high_half_self

text \<open>The value of a member of an object with the bits of \<open>v\<close>.\<close>

definition field_value :: "abi \<Rightarrow> cty \<Rightarrow> string list \<Rightarrow> nat \<Rightarrow> nat option" where
  "field_value A t f v = map_option (\<lambda>q. get_bits q v) (map_of (members A t) f)"

lemma unat_low: "take_bit 16 (unat v) = unat (take_bit 16 v)" for v :: "32 word"
  by (simp add: take_bit_eq_mod unat_mod_distrib)

lemma unat_high: "take_bit 16 (drop_bit 16 (unat v)) = unat (drop_bit 16 v)" for v :: "32 word"
proof -
  have "unat v < 2 ^ 32" using unsigned_less [of v, where ?'a = nat] by simp
  then have "unat v div 65536 < 65536" by simp
  then show ?thesis by (simp add: take_bit_eq_mod drop_bit_eq_div unat_div_distrib)
qed

section \<open>GUID texts\<close>

lemma fmt_x_steps:
  "n < 16 \<Longrightarrow> fmt_x n = [hexdig n]"
  "\<not> n < 16 \<Longrightarrow> fmt_x n = fmt_x (n div 16) @ [hexdig (n mod 16)]"
  by (simp_all add: fmt_x.simps [of n])

definition upper :: "char \<Rightarrow> char" where
  "upper c = (if digval c < 16 then ''0123456789ABCDEF'' ! digval c else c)"

lemma upper_hexdig: "n < 16 \<Longrightarrow> upper (hexdig n) = ''0123456789ABCDEF'' ! n"
  by (simp add: upper_def)

lemma upper_dash: "upper (CHR ''-'') = CHR ''-''" "upper (CHR ''0'') = CHR ''0''"
  by (simp_all add: upper_def digval_def)

lemma replicate_2: "replicate 2 c = [c, c]"
  by (simp add: numeral_eq_Suc)

lemma hv_guids_first_distinct: "distinct (map (Data1 \<circ> fst) hv_guids)"
  by (simp add: hv_guids_def hv_guid_defs)

lemma hv_guid_texts: "list_all (\<lambda>(g, t). map upper (guid_text g) = t) hv_guids"
  by (simp add: hv_guids_def hv_guid_defs guid_text_def fmt_0x_def fmt_x_steps upper_hexdig upper_dash replicate_2)

section \<open>All types\<close>

definition protocol_types :: "(string \<times> cty) list" where
  "protocol_types = guest_protocol_types @ vmbus_device_types"

lemma guest_types_ok: "list_all (\<lambda>(n, t). ok_ty t) guest_protocol_types"
  by (simp add: guest_protocol_types_def guest_type_defs bit_ok_def)

lemma device_types_ok: "list_all (\<lambda>(n, t). ok_ty t) vmbus_device_types"
  by (simp add: vmbus_device_types_def device_type_defs guest_type_defs bit_ok_def)

lemma protocol_types_ok: "list_all (\<lambda>(n, t). ok_ty t) protocol_types"
  using guest_types_ok device_types_ok by (simp add: protocol_types_def)

lemma in_table: "list_all (\<lambda>(n, t). P t) tab \<Longrightarrow> (n, t) \<in> set tab \<Longrightarrow> P t"
  by (auto simp: list_all_iff)

section \<open>Layouts\<close>

text \<open>The types with bit-fields, and the types made of those; all others are plain.\<close>

definition device_composite :: "string list" where
  "device_composite = [''SYNTHVID_CAPABILITY_RESPONSE_MESSAGE'', ''NVSP_6_PD_BUFFER'',
     ''NVSP_6_MESSAGE_PD_BATCH_MESSAGE'', ''NVSP_MESSAGE_2_UBER'']"

lemma device_plain_types:
  "list_all (\<lambda>(n, t). n \<in> set device_composite \<or> plain_ty t) vmbus_device_types"
  by (simp add: vmbus_device_types_def device_composite_def device_type_defs guest_type_defs)

lemma device_composite_same:
  "same_ty SYNTHVID_CAPABILITY_RESPONSE_MESSAGE" "same_ty NVSP_6_PD_BUFFER"
  "same_ty NVSP_6_MESSAGE_PD_BATCH_MESSAGE" "same_ty NVSP_MESSAGE_2_UBER"
proof -
  show "same_ty SYNTHVID_CAPABILITY_RESPONSE_MESSAGE" "same_ty NVSP_6_PD_BUFFER" "same_ty NVSP_6_MESSAGE_PD_BATCH_MESSAGE"
    by (simp_all add: same_ty_def SYNTHVID_CAPABILITY_RESPONSE_MESSAGE_def NVSP_6_PD_BUFFER_def
        NVSP_6_MESSAGE_PD_BATCH_MESSAGE_def guest_eval)
  show "same_ty NVSP_MESSAGE_2_UBER" using guest_composite_same(3) by (simp add: NVSP_MESSAGE_2_UBER_def)
qed

section \<open>Properties\<close>

text \<open>The 35 GUID constants of the two headers are distinct, and each is the GUID that the comment above it
  names: written in the form \<open>HvGinUioRegisterDevice\<close> uses, in capitals, it is that text.\<close>

theorem hv_guids_as_documented:
  "distinct (map fst hv_guids) \<and> list_all (\<lambda>(g, t). map upper (guid_text g) = t) hv_guids"
  using hv_guid_texts hv_guids_first_distinct distinct_map [of Data1 "map fst hv_guids"] by simp

text \<open>The version macros of the video, remote desktop, input, keyboard and network protocols take a version
  apart into the numbers it was made from, as long as these have 16 bits; the storage version keeps the
  low 8 bits of each.\<close>

theorem version_macros_roundtrip:
  assumes "major < 0x10000" "minor < 0x10000"
  shows "SYNTHVID_MAKE_VERSION_MAJOR (SYNTHVID_MAKE_VERSION major minor) = major
    \<and> SYNTHVID_MAKE_VERSION_MINOR (SYNTHVID_MAKE_VERSION major minor) = minor
    \<and> SYNTHRDP_VERSION_MAJOR (SYNTHRDP_MAKE_VERSION major minor) = major
    \<and> SYNTHRDP_VERSION_MINOR (SYNTHRDP_MAKE_VERSION major minor) = minor
    \<and> SYNTHHID_VERSION_MAJOR (SYNTHHID_MAKE_VERSION major minor) = major
    \<and> SYNTHHID_VERSION_MINOR (SYNTHHID_MAKE_VERSION major minor) = minor
    \<and> HK_VERSION_MAJOR (HK_MAKE_VERSION major minor) = major
    \<and> HK_VERSION_MINOR (HK_MAKE_VERSION major minor) = minor
    \<and> NVSP_PROTOCOL_MAJOR (NVSP_PROTOCOL_VERSION major minor) = major
    \<and> NVSP_PROTOCOL_MINOR (NVSP_PROTOCOL_VERSION major minor) = minor
    \<and> VMSTOR_PROTOCOL_MAJOR (VMSTOR_PROTOCOL_VERSION major minor) = major AND 0xff
    \<and> VMSTOR_PROTOCOL_MINOR (VMSTOR_PROTOCOL_VERSION major minor) = minor AND 0xff"
  using halves [OF assms(1), of minor] halves [OF assms(2), of major]
    take_bit_16_self [OF assms(1)] take_bit_16_self [OF assms(2)]
    vmstor_halves [of major minor]
  by (simp add: version_defs)

theorem version_macros_roundtrip_witness:
  "SYNTHRDP_VERSION_MAJOR (SYNTHRDP_MAKE_VERSION 1 0) = 1"
  using version_macros_roundtrip [of 1 0] by simp

text \<open>The unions that overlay version words agree with the macros: reading the major or minor member of an object
  that holds a version word gives what the macro computes from the word, for every word.\<close>

theorem version_unions_agree:
  "field_value sysv SYNTHVID_VERSION [''MajorVersion''] (unat v) = Some (unat (SYNTHVID_MAKE_VERSION_MAJOR v))
    \<and> field_value sysv SYNTHVID_VERSION [''MinorVersion''] (unat v) = Some (unat (SYNTHVID_MAKE_VERSION_MINOR v))
    \<and> field_value sysv SYNTHRDP_VERSION [''MajorVersion''] (unat v) = Some (unat (SYNTHRDP_VERSION_MAJOR v))
    \<and> field_value sysv SYNTHRDP_VERSION [''MinorVersion''] (unat v) = Some (unat (SYNTHRDP_VERSION_MINOR v))
    \<and> field_value sysv SYNTHHID_VERSION [''Major''] (unat v) = Some (unat (SYNTHHID_VERSION_MAJOR v))
    \<and> field_value sysv SYNTHHID_VERSION [''Minor''] (unat v) = Some (unat (SYNTHHID_VERSION_MINOR v))
    \<and> field_value sysv NVSP_MESSAGE_INIT [''MajorProtocolVersion''] (unat v) = Some (unat (NVSP_PROTOCOL_MAJOR v))
    \<and> field_value sysv NVSP_MESSAGE_INIT [''MinorProtocolVersion''] (unat v) = Some (unat (NVSP_PROTOCOL_MINOR v))"
proof -
  have "map_of (members sysv SYNTHVID_VERSION) [''MajorVersion''] = Some (0, 16)"
    "map_of (members sysv SYNTHVID_VERSION) [''MinorVersion''] = Some (16, 16)"
    "map_of (members sysv SYNTHRDP_VERSION) [''MajorVersion''] = Some (0, 16)"
    "map_of (members sysv SYNTHRDP_VERSION) [''MinorVersion''] = Some (16, 16)"
    "map_of (members sysv SYNTHHID_VERSION) [''Minor''] = Some (0, 16)"
    "map_of (members sysv SYNTHHID_VERSION) [''Major''] = Some (16, 16)"
    "map_of (members sysv NVSP_MESSAGE_INIT) [''MinorProtocolVersion''] = Some (0, 16)"
    "map_of (members sysv NVSP_MESSAGE_INIT) [''MajorProtocolVersion''] = Some (16, 16)"
    by (simp_all add: SYNTHVID_VERSION_def SYNTHRDP_VERSION_def SYNTHHID_VERSION_def NVSP_MESSAGE_INIT_def
        layout_eval Let_def)
  then show ?thesis
    by (simp add: field_value_def get_bits_def version_defs unat_low unat_high)
qed

text \<open>Version words of the video protocol, with the minor number on top, do not order versions, but feature numbers
  do: they compare as major and then minor number, and the features are listed in that order.\<close>

theorem synthvid_feature_orders_versions:
  "(SYNTHVID_MAKE_FEATURE v \<le> SYNTHVID_MAKE_FEATURE w \<longleftrightarrow>
      SYNTHVID_MAKE_VERSION_MAJOR v < SYNTHVID_MAKE_VERSION_MAJOR w \<or>
      SYNTHVID_MAKE_VERSION_MAJOR v = SYNTHVID_MAKE_VERSION_MAJOR w \<and>
        SYNTHVID_MAKE_VERSION_MINOR v \<le> SYNTHVID_MAKE_VERSION_MINOR w)
    \<and> sorted (map snd SYNTHVID_FEATURE)"
proof -
  have "sorted (map snd SYNTHVID_FEATURE)" by code_simp
  then show ?thesis
    using halves_order [OF low_half_less high_half_less low_half_less high_half_less, of v v w w] by (simp add: SYNTHVID_MAKE_FEATURE_def version_defs)
qed
text \<open>VMBus protocol versions compare as their major and then minor number, as long as these have 16 bits, and
  the versions of the header are listed from the oldest to the latest.\<close>

theorem vmbus_versions_ordered:
  assumes "a < 0x10000" "b < 0x10000" "c < 0x10000" "d < 0x10000"
  shows "(VMBUS_MAKE_VERSION a b \<le> VMBUS_MAKE_VERSION c d \<longleftrightarrow> a < c \<or> a = c \<and> b \<le> d)
    \<and> sorted_wrt (<) [VMBUS_VERSION_V1, VMBUS_VERSION_WIN7, VMBUS_VERSION_WIN8, VMBUS_VERSION_WIN8_1,
         VMBUS_VERSION_WIN10, VMBUS_VERSION_WIN10RS3_0, VMBUS_VERSION_WIN10RS3_1, VMBUS_VERSION_WIN10RS4,
         VMBUS_VERSION_WIN10RS5, VMBUS_VERSION_IRON, VMBUS_VERSION_LATEST]"
proof -
  have "sorted_wrt (<) [VMBUS_VERSION_V1, VMBUS_VERSION_WIN7, VMBUS_VERSION_WIN8, VMBUS_VERSION_WIN8_1,
         VMBUS_VERSION_WIN10, VMBUS_VERSION_WIN10RS3_0, VMBUS_VERSION_WIN10RS3_1, VMBUS_VERSION_WIN10RS4,
         VMBUS_VERSION_WIN10RS5, VMBUS_VERSION_IRON, VMBUS_VERSION_LATEST]"
    by code_simp
  then show ?thesis using halves_order [OF assms] by (simp add: VMBUS_MAKE_VERSION_def)
qed

theorem vmbus_versions_ordered_witness: "VMBUS_MAKE_VERSION 4 1 \<le> VMBUS_MAKE_VERSION 5 0"
  using vmbus_versions_ordered [of 4 1 5 0] by simp

text \<open>Every member of every structure and union of the two headers, also inside anonymous members, lies within
  the \<open>sizeof\<close> of its type, so \<open>HV_FIELD_CONTAINS\<close> accepts it for an object of that size.\<close>

theorem protocol_members_contained:
  assumes "(n, t) \<in> set protocol_types" "A = sysv \<or> A = msvc" "f \<in> fst ` set (members A t)"
  shows "HV_FIELD_CONTAINS A t (csize A t) f"
proof -
  have "ok_ty t" using protocol_types_ok assms(1) by (rule in_table)
  then show ?thesis using assms(2,3) by (auto intro: members_contained)
qed

theorem protocol_members_contained_witness:
  "HV_FIELD_CONTAINS sysv VMSCSI_REQUEST (csize sysv VMSCSI_REQUEST) [''QueueSortKey'']"
proof (rule protocol_members_contained)
  show "(''VMSCSI_REQUEST'', VMSCSI_REQUEST) \<in> set protocol_types"
    by (simp add: protocol_types_def guest_protocol_types_def)
  show "[''QueueSortKey''] \<in> fst ` set (members sysv VMSCSI_REQUEST)"
    by (simp add: guest_type_defs layout_eval Let_def)
qed simp


text \<open>No structure or union of the VMBus device header depends on the ABI in size, offset or width of a member.\<close>

theorem device_layouts_agree:
  "list_all (\<lambda>(n, t). same_layout t) vmbus_device_types"
proof -
  have "list_all (\<lambda>(n, t). n \<in> set device_composite \<longrightarrow> same_ty t) vmbus_device_types"
    using device_composite_same by (simp add: vmbus_device_types_def device_composite_def)
  then show ?thesis
    using device_plain_types by (fastforce simp: list_all_iff intro: same_ty_layout plain_same_layout)
qed

end
