(* ===== verification/Client_Wire.thy ===== *)
theory Client_Wire
  imports Hv_Devices
begin

text \<open>
  The structures that the managed client (\<open>HvGin/*.cs\<close>) exchanges with the host, with their accessors and their
  conversion to bytes: \<open>PacketDescriptor\<close>, \<open>PipeHeader\<close>, \<open>RingControlBlock\<close> and the remote desktop handshake.

  A C\# \<open>int\<close> is an integer; arithmetic on it wraps (\<open>i32\<close>) and the \<open>Convert\<close> functions check their range.  A
  computation on the mapped memory either returns a value or a fault, and yields the memory in both cases;
  a fault is an exception or \<open>Out_of_bounds\<close>, a read by \<open>Marshal.PtrToStructure\<close> past the end of an array,
  which the language does not define.

  Shown: the structures of the client have the layout of the C structures of the protocol header; the offset
  that ends a packet is put into the other half of \<open>PREVIOUS_PACKET_OFFSET\<close>; the version setters.
\<close>

section \<open>Computations on mapped memory\<close>

datatype exn =
    OverflowException | ArgumentException | ArgumentOutOfRangeException | IndexOutOfRangeException | FormatException
  | DirectoryNotFoundException | FileNotFoundException | IOException int | Exception_of string

datatype fault = Throws exn | Out_of_bounds

type_synonym memory = "u8 list"
type_synonym 'a cs = "memory \<Rightarrow> (fault + 'a) \<times> memory"

definition ret :: "'a \<Rightarrow> 'a cs" where
  "ret x m = (Inr x, m)"

definition throw :: "exn \<Rightarrow> 'a cs" where
  "throw e m = (Inl (Throws e), m)"

definition andthen :: "'a cs \<Rightarrow> ('a \<Rightarrow> 'b cs) \<Rightarrow> 'b cs" where
  "andthen c f m = (case c m of (Inl e, m') \<Rightarrow> (Inl e, m') | (Inr x, m') \<Rightarrow> f x m')"

lemma andthen_simps [simp]:
  "andthen (ret x) f m = f x m" "andthen (throw e) f m = (Inl (Throws e), m)"
  by (simp_all add: andthen_def ret_def throw_def)

lemma andthen_ret: "c m = (Inr x, m') \<Longrightarrow> andthen c f m = f x m'"
  by (simp add: andthen_def)

lemma andthen_assoc: "andthen (andthen c f) g = andthen c (\<lambda>x. andthen (f x) g)"
  by (auto simp: andthen_def fun_eq_iff split: prod.splits sum.splits)

definition i32 :: "int \<Rightarrow> int" where
  "i32 v = signed_take_bit 31 v"

lemma i32_id: "- (2 ^ 31) \<le> v \<Longrightarrow> v < 2 ^ 31 \<Longrightarrow> i32 v = v"
  by (simp add: i32_def signed_take_bit_int_eq_self)

lemma i32_wrap: "2 ^ 31 \<le> v \<Longrightarrow> v < 2 ^ 32 \<Longrightarrow> i32 v = v - 2 ^ 32"
proof -
  assume v: "2 ^ 31 \<le> v" "v < 2 ^ 32"
  have "(v + 2 ^ 31) mod 2 ^ 32 = (v + 2 ^ 31 - 2 ^ 32) mod 2 ^ 32" by (simp only: minus_mod_self2)
  also have "\<dots> = v + 2 ^ 31 - 2 ^ 32" using v by (intro mod_pos_pos_trivial) simp_all
  finally show ?thesis by (simp add: i32_def signed_take_bit_eq_take_bit_shift take_bit_eq_mod)
qed

definition ToInt32 :: "int \<Rightarrow> int cs" where
  "ToInt32 v = (if v < - (2 ^ 31) \<or> 2 ^ 31 \<le> v then throw OverflowException else ret v)"

definition ToUInt32 :: "int \<Rightarrow> int cs" where
  "ToUInt32 v = (if v < 0 \<or> 2 ^ 32 \<le> v then throw OverflowException else ret v)"

definition ToUInt16 :: "int \<Rightarrow> int cs" where
  "ToUInt16 v = (if v < 0 \<or> 2 ^ 16 \<le> v then throw OverflowException else ret v)"

section \<open>Bytes of integers\<close>

text \<open>Little-endian, as on all machines that Hyper-V runs on.\<close>

primrec le_bytes :: "nat \<Rightarrow> nat \<Rightarrow> u8 list" where
  "le_bytes 0 v = []"
| "le_bytes (Suc n) v = of_nat v # le_bytes n (v div 256)"

primrec le_val :: "u8 list \<Rightarrow> nat" where
  "le_val [] = 0"
| "le_val (b # bs) = unat b + 256 * le_val bs"

lemma length_le_bytes [simp]: "length (le_bytes n v) = n"
  by (induction n arbitrary: v) simp_all

lemma le_val_bytes: "le_val (le_bytes n v) = v mod 256 ^ n"
proof (induction n arbitrary: v)
  case (Suc n)
  have "le_val (le_bytes (Suc n) v) = v mod 256 + 256 * (v div 256 mod 256 ^ n)"
    using Suc by (simp add: unat_of_nat take_bit_eq_mod)
  then show ?case using mod_mult2_eq [of v 256 "256 ^ n"] by simp
qed simp

lemma le_val_small [simp]: "v < 256 ^ n \<Longrightarrow> le_val (le_bytes n v) = v"
  by (simp add: le_val_bytes)

lemma le_val_bound: "le_val bs < 256 ^ length bs"
proof (induction bs)
  case (Cons b bs)
  have "unat b < 256" using unsigned_less [of b, where ?'a = nat] by simp
  with Cons show ?case by simp
qed simp

lemma le_bytes_val [simp]: "le_bytes (length bs) (le_val bs) = bs"
proof (induction bs)
  case (Cons b bs)
  have "unat b < 256" using unsigned_less [of b, where ?'a = nat] by simp
  moreover have "(of_nat (unat b + 256 * le_val bs) :: u8) = b"
    using \<open>unat b < 256\<close> by (simp only: word_unat_eq_iff unat_of_nat) (simp add: take_bit_eq_mod)
  ultimately show ?case using Cons by (simp del: of_nat_add of_nat_mult)
qed simp

lemma le_bytes_eval: "le_bytes (numeral k) v = of_nat v # le_bytes (pred_numeral k) (v div 256)"
  by (simp only: numeral_eq_Suc le_bytes.simps)

definition bytes_at :: "nat \<Rightarrow> nat \<Rightarrow> u8 list \<Rightarrow> nat" where
  "bytes_at p n m = le_val (take n (drop p m))"

section \<open>Packet types\<close>

datatype PacketType =
    PT_Invalid | DataInBand | DataUsingTransferPages | DataUsingGpaDirect | CancelRequest | Completion

primrec packet_type_value :: "PacketType \<Rightarrow> u16" where
  "packet_type_value PT_Invalid = 0"
| "packet_type_value DataInBand = 6"
| "packet_type_value DataUsingTransferPages = 7"
| "packet_type_value DataUsingGpaDirect = 9"
| "packet_type_value CancelRequest = 10"
| "packet_type_value Completion = 11"

definition packet_types :: "PacketType list" where
  "packet_types = [PT_Invalid, DataInBand, DataUsingTransferPages, DataUsingGpaDirect, CancelRequest, Completion]"

datatype PipeMessageType =
    PM_Invalid | PM_Data | PM_Partial | SetupGpaDirect | TeardownGpaDirect | IndicationComplete

primrec pipe_message_type_value :: "PipeMessageType \<Rightarrow> u32" where
  "pipe_message_type_value PM_Invalid = 0"
| "pipe_message_type_value PM_Data = 1"
| "pipe_message_type_value PM_Partial = 2"
| "pipe_message_type_value SetupGpaDirect = 3"
| "pipe_message_type_value TeardownGpaDirect = 4"
| "pipe_message_type_value IndicationComplete = 5"

definition pipe_message_types :: "PipeMessageType list" where
  "pipe_message_types = [PM_Invalid, PM_Data, PM_Partial, SetupGpaDirect, TeardownGpaDirect, IndicationComplete]"

text \<open>\<open>Enum.IsDefined\<close> with the cast, or the default.\<close>

definition enum_cast :: "('a \<Rightarrow> 'v) \<Rightarrow> 'a list \<Rightarrow> 'a \<Rightarrow> 'v \<Rightarrow> 'a" where
  "enum_cast val es dflt v = (case find (\<lambda>e. val e = v) es of Some e \<Rightarrow> e | None \<Rightarrow> dflt)"

section \<open>Utilities\<close>

definition GetAlignedSize :: "int \<Rightarrow> int \<Rightarrow> int" where
  "GetAlignedSize Size Alignment = i32 (Size + Alignment - 1) AND NOT (Alignment - 1)"

lemma and_not_mask_int: "x AND NOT (mask n) = push_bit n (drop_bit n x)" for x :: int
  by (rule bit_eqI) (auto simp: bit_simps)

lemma GetAlignedSize_8:
  assumes "0 \<le> s" "s < 2 ^ 31 - 7"
  shows "GetAlignedSize s 8 = 8 * ((s + 7) div 8)"
proof -
  have m: "(7 :: int) = mask 3" by (simp add: mask_eq_exp_minus_1)
  have "(s + 7) AND NOT 7 = push_bit 3 (drop_bit 3 (s + 7))"
    by (simp only: m and_not_mask_int)
  then have "i32 (s + 7) AND NOT 7 = 8 * ((s + 7) div 8)"
    using assms by (simp add: i32_id push_bit_eq_mult drop_bit_eq_div)
  then show ?thesis by (simp add: GetAlignedSize_def add.commute)
qed

section \<open>Packet descriptors\<close>

record PacketDescriptor =
  RawType :: u16
  RawDataOffset8 :: u16
  RawLength8 :: u16
  RawFlags :: u16
  TransactionId :: u64

definition new_PacketDescriptor :: PacketDescriptor where
  "new_PacketDescriptor = \<lparr>RawType = 0, RawDataOffset8 = 0, RawLength8 = 0, RawFlags = 0, TransactionId = 0\<rparr>"

definition PacketDescriptor_Type :: "PacketDescriptor \<Rightarrow> PacketType" where
  "PacketDescriptor_Type d = enum_cast packet_type_value packet_types PT_Invalid (RawType d)"

definition set_Type :: "PacketType \<Rightarrow> PacketDescriptor \<Rightarrow> PacketDescriptor" where
  "set_Type v d = d\<lparr>RawType := packet_type_value v\<rparr>"

definition DataOffset :: "PacketDescriptor \<Rightarrow> int" where
  "DataOffset d = push_bit 3 (uint (RawDataOffset8 d))"

definition set_DataOffset :: "int \<Rightarrow> PacketDescriptor \<Rightarrow> PacketDescriptor cs" where
  "set_DataOffset v d = andthen (ToUInt16 (drop_bit 3 (GetAlignedSize v 8)))
     (\<lambda>x. ret (d\<lparr>RawDataOffset8 := of_int (min x 65535)\<rparr>))"

definition PacketDescriptor_Length :: "PacketDescriptor \<Rightarrow> int" where
  "PacketDescriptor_Length d = push_bit 3 (uint (RawLength8 d))"

definition set_Length :: "int \<Rightarrow> PacketDescriptor \<Rightarrow> PacketDescriptor cs" where
  "set_Length v d = andthen (ToUInt16 (drop_bit 3 (GetAlignedSize v 8)))
     (\<lambda>x. ret (d\<lparr>RawLength8 := of_int (min x 65535)\<rparr>))"

definition CompletionRequested :: "PacketDescriptor \<Rightarrow> bool" where
  "CompletionRequested d \<longleftrightarrow> RawFlags d AND 1 \<noteq> 0"

definition set_CompletionRequested :: "bool \<Rightarrow> PacketDescriptor \<Rightarrow> PacketDescriptor" where
  "set_CompletionRequested v d = d\<lparr>RawFlags := (if v then RawFlags d OR 1 else RawFlags d AND 0xFFFE)\<rparr>"

section \<open>Pipe headers\<close>

record PipeHeader =
  RawPacketType :: u32
  RawDataSize :: u32

definition new_PipeHeader :: PipeHeader where
  "new_PipeHeader = \<lparr>RawPacketType = 0, RawDataSize = 0\<rparr>"

definition PipeHeader_Type :: "PipeHeader \<Rightarrow> PipeMessageType" where
  "PipeHeader_Type h = enum_cast pipe_message_type_value pipe_message_types PM_Invalid (RawPacketType h)"

definition set_PipeHeader_Type :: "PipeMessageType \<Rightarrow> PipeHeader \<Rightarrow> PipeHeader" where
  "set_PipeHeader_Type v h = h\<lparr>RawPacketType := pipe_message_type_value v\<rparr>"

definition DataSize :: "PipeHeader \<Rightarrow> int cs" where
  "DataSize h = (if PipeHeader_Type h = PM_Partial then throw ArgumentException else ret (uint (RawDataSize h)))"

definition set_DataSize :: "int \<Rightarrow> PipeHeader \<Rightarrow> PipeHeader cs" where
  "set_DataSize v h =
     (if PipeHeader_Type h = PM_Partial then throw ArgumentException else ret (h\<lparr>RawDataSize := of_int v\<rparr>))"

definition PartialDataSize :: "PipeHeader \<Rightarrow> int cs" where
  "PartialDataSize h =
     (if PipeHeader_Type h \<noteq> PM_Partial then throw ArgumentException else ToUInt16 (uint (RawDataSize h)))"

definition set_PartialDataSize :: "int \<Rightarrow> PipeHeader \<Rightarrow> PipeHeader cs" where
  "set_PartialDataSize v h =
     (if PipeHeader_Type h \<noteq> PM_Partial then throw ArgumentException else ret (h\<lparr>RawDataSize := of_int v\<rparr>))"

definition PartialOffset :: "PipeHeader \<Rightarrow> int cs" where
  "PartialOffset h =
     (if PipeHeader_Type h \<noteq> PM_Partial then throw ArgumentException
      else ToUInt16 (uint (drop_bit 16 (RawDataSize h))))"

definition set_PartialOffset :: "int \<Rightarrow> PipeHeader \<Rightarrow> PipeHeader cs" where
  "set_PartialOffset v h =
     (if PipeHeader_Type h \<noteq> PM_Partial then throw ArgumentException
      else ret (h\<lparr>RawDataSize := RawDataSize h OR push_bit 16 (of_int v)\<rparr>))"

section \<open>Ring control blocks\<close>

record RingControlBlock =
  rcb_In :: u32
  rcb_Out :: u32
  rcb_InterruptMask :: u32
  rcb_PendingSendSize :: u32
  rcb_Reserved :: "u32 list"
  rcb_FeatureBitsValue :: u32

definition SupportsPendingSendSize :: "RingControlBlock \<Rightarrow> bool" where
  "SupportsPendingSendSize c \<longleftrightarrow> rcb_FeatureBitsValue c AND 1 \<noteq> 0"

definition set_SupportsPendingSendSize :: "bool \<Rightarrow> RingControlBlock \<Rightarrow> RingControlBlock" where
  "set_SupportsPendingSendSize v c =
     c\<lparr>rcb_FeatureBitsValue := (if v then rcb_FeatureBitsValue c OR 1 else rcb_FeatureBitsValue c AND NOT 1)\<rparr>"

section \<open>Remote desktop handshake\<close>

datatype SynthRdpMessageType = Rdp_Error | VersionRequest | VersionResponse | Rdp_Max

record SynthRdpHeader =
  rdp_RawType :: u32
  rdp_Size :: u32

record SynthRdpVersion =
  AsDWORD :: u32

definition MajorVersion :: "SynthRdpVersion \<Rightarrow> u16" where
  "MajorVersion v = ucast (AsDWORD v AND 0x0000FFFF)"

definition set_MajorVersion :: "u16 \<Rightarrow> SynthRdpVersion \<Rightarrow> SynthRdpVersion" where
  "set_MajorVersion x v = v\<lparr>AsDWORD := AsDWORD v OR ucast x\<rparr>"

definition MinorVersion :: "SynthRdpVersion \<Rightarrow> u16" where
  "MinorVersion v = ucast (drop_bit 16 (AsDWORD v AND 0xFFFF0000))"

text \<open>The shift is one of an \<open>int\<close>, so its result can be negative.\<close>

definition set_MinorVersion :: "u16 \<Rightarrow> SynthRdpVersion \<Rightarrow> SynthRdpVersion cs" where
  "set_MinorVersion x v = andthen (ToUInt32 (i32 (push_bit 16 (uint x))))
     (\<lambda>y. ret (v\<lparr>AsDWORD := AsDWORD v OR of_int y\<rparr>))"

record SynthRdpVersionRequest =
  req_Header :: SynthRdpHeader
  req_Version :: SynthRdpVersion
  req_Reserved :: u32

record SynthRdpVersionResponse =
  rsp_Header :: SynthRdpHeader
  rsp_Version :: SynthRdpVersion
  rsp_Reserved :: u32
  rsp_IsAccepted :: u8

primrec SynthRdpMessageType_value :: "SynthRdpMessageType \<Rightarrow> u32" where
  "SynthRdpMessageType_value Rdp_Error = 0"
| "SynthRdpMessageType_value VersionRequest = 1"
| "SynthRdpMessageType_value VersionResponse = 2"
| "SynthRdpMessageType_value Rdp_Max = 3"

definition SynthRdpMessageTypes :: "SynthRdpMessageType list" where
  "SynthRdpMessageTypes = [Rdp_Error, VersionRequest, VersionResponse, Rdp_Max]"

definition SynthRdpHeader_Type :: "SynthRdpHeader \<Rightarrow> SynthRdpMessageType" where
  "SynthRdpHeader_Type h = enum_cast SynthRdpMessageType_value SynthRdpMessageTypes Rdp_Error (rdp_RawType h)"

definition set_SynthRdpHeader_Type :: "SynthRdpMessageType \<Rightarrow> SynthRdpHeader \<Rightarrow> SynthRdpHeader" where
  "set_SynthRdpHeader_Type t h = h\<lparr>rdp_RawType := SynthRdpMessageType_value t\<rparr>"

text \<open>The request that opens the handshake in \<open>ServiceMain\<close>; \<open>Marshal.SizeOf\<close> of the structure is 16.\<close>

definition version_request :: "SynthRdpVersionRequest cs" where
  "version_request = andthen (set_MinorVersion 0 (set_MajorVersion 1 \<lparr>AsDWORD = 0\<rparr>))
     (\<lambda>v. ret \<lparr>req_Header = set_SynthRdpHeader_Type VersionRequest \<lparr>rdp_RawType = 0, rdp_Size = 0\<rparr>\<lparr>rdp_Size := 16\<rparr>,
       req_Version = v, req_Reserved = 0\<rparr>)"

definition IsAcceptedWithVersionExchange :: "SynthRdpVersionResponse \<Rightarrow> bool" where
  "IsAcceptedWithVersionExchange r \<longleftrightarrow> rsp_IsAccepted r = 2"

definition SetAcceptedWithVersionExchange :: "SynthRdpVersionResponse \<Rightarrow> SynthRdpVersionResponse" where
  "SetAcceptedWithVersionExchange r = r\<lparr>rsp_IsAccepted := 2\<rparr>"

section \<open>Structures as bytes\<close>

text \<open>\<open>StructureToBytes\<close> and \<open>BytesToStructure\<close> at the types the client uses them for.\<close>

definition PacketDescriptor_bytes :: "PacketDescriptor \<Rightarrow> u8 list" where
  "PacketDescriptor_bytes d = le_bytes 2 (unat (RawType d)) @ le_bytes 2 (unat (RawDataOffset8 d)) @
     le_bytes 2 (unat (RawLength8 d)) @ le_bytes 2 (unat (RawFlags d)) @ le_bytes 8 (unat (TransactionId d))"

definition PacketDescriptorSize :: int where "PacketDescriptorSize = 16"

definition PipeHeader_bytes :: "PipeHeader \<Rightarrow> u8 list" where
  "PipeHeader_bytes h = le_bytes 4 (unat (RawPacketType h)) @ le_bytes 4 (unat (RawDataSize h))"

definition PipeHeaderSize :: int where "PipeHeaderSize = 8"

definition PipePacketHeaderSize :: int where
  "PipePacketHeaderSize = PacketDescriptorSize + PipeHeaderSize"

definition read_structure :: "nat \<Rightarrow> (u8 list \<Rightarrow> 'a) \<Rightarrow> u8 list \<Rightarrow> 'a cs" where
  "read_structure n f bs m = (if n \<le> length bs then (Inr (f bs), m) else (Inl Out_of_bounds, m))"

definition bytes_PacketDescriptor :: "u8 list \<Rightarrow> PacketDescriptor cs" where
  "bytes_PacketDescriptor = read_structure 16 (\<lambda>bs.
     \<lparr>RawType = of_nat (bytes_at 0 2 bs), RawDataOffset8 = of_nat (bytes_at 2 2 bs),
      RawLength8 = of_nat (bytes_at 4 2 bs), RawFlags = of_nat (bytes_at 6 2 bs),
      TransactionId = of_nat (bytes_at 8 8 bs)\<rparr>)"

definition bytes_PipeHeader :: "u8 list \<Rightarrow> PipeHeader cs" where
  "bytes_PipeHeader = read_structure 8 (\<lambda>bs.
     \<lparr>RawPacketType = of_nat (bytes_at 0 4 bs), RawDataSize = of_nat (bytes_at 4 4 bs)\<rparr>)"

definition RingControlBlock_bytes :: "RingControlBlock \<Rightarrow> u8 list" where
  "RingControlBlock_bytes c = le_bytes 4 (unat (rcb_In c)) @ le_bytes 4 (unat (rcb_Out c)) @
     le_bytes 4 (unat (rcb_InterruptMask c)) @ le_bytes 4 (unat (rcb_PendingSendSize c)) @
     concat (map (\<lambda>r. le_bytes 4 (unat r)) (rcb_Reserved c)) @ le_bytes 4 (unat (rcb_FeatureBitsValue c))"

definition bytes_RingControlBlock :: "u8 list \<Rightarrow> RingControlBlock" where
  "bytes_RingControlBlock bs =
     \<lparr>rcb_In = of_nat (bytes_at 0 4 bs), rcb_Out = of_nat (bytes_at 4 4 bs),
      rcb_InterruptMask = of_nat (bytes_at 8 4 bs), rcb_PendingSendSize = of_nat (bytes_at 12 4 bs),
      rcb_Reserved = map (\<lambda>i. of_nat (bytes_at (16 + 4 * i) 4 bs)) [0..<12],
      rcb_FeatureBitsValue = of_nat (bytes_at 64 4 bs)\<rparr>"

definition SynthRdpVersionRequest_bytes :: "SynthRdpVersionRequest \<Rightarrow> u8 list" where
  "SynthRdpVersionRequest_bytes r =
     le_bytes 4 (unat (rdp_RawType (req_Header r))) @ le_bytes 4 (unat (rdp_Size (req_Header r))) @
     le_bytes 4 (unat (AsDWORD (req_Version r))) @ le_bytes 4 (unat (req_Reserved r))"

definition bytes_SynthRdpVersionResponse :: "u8 list \<Rightarrow> SynthRdpVersionResponse cs" where
  "bytes_SynthRdpVersionResponse = read_structure 17 (\<lambda>bs.
     \<lparr>rsp_Header = \<lparr>rdp_RawType = of_nat (bytes_at 0 4 bs), rdp_Size = of_nat (bytes_at 4 4 bs)\<rparr>,
      rsp_Version = \<lparr>AsDWORD = of_nat (bytes_at 8 4 bs)\<rparr>, rsp_Reserved = of_nat (bytes_at 12 4 bs),
      rsp_IsAccepted = of_nat (bytes_at 16 1 bs)\<rparr>)"

section \<open>Lemmas\<close>

lemma unat_bounds [simp]:
  "unat a < 65536" "unat b < 4294967296" "unat c < 18446744073709551616" for a :: u16 and b :: u32 and c :: u64
  using unsigned_less [of a, where ?'a = nat] unsigned_less [of b, where ?'a = nat]
    unsigned_less [of c, where ?'a = nat] by simp_all

lemma PacketDescriptor_length [simp]: "length (PacketDescriptor_bytes d) = 16"
  by (simp add: PacketDescriptor_bytes_def)

lemma PipeHeader_length [simp]: "length (PipeHeader_bytes h) = 8"
  by (simp add: PipeHeader_bytes_def)

text \<open>Reading back what was written, with whatever follows.\<close>

lemma bytes_at_append: "bytes_at (length a + p) n (a @ b) = bytes_at p n b"
  by (simp add: bytes_at_def)

lemma bytes_at_here: "v < 256 ^ n \<Longrightarrow> bytes_at 0 n (le_bytes n v @ b) = v"
  by (simp add: bytes_at_def)

lemma bytes_at_skip: "k \<le> p \<Longrightarrow> bytes_at p n (le_bytes k v @ b) = bytes_at (p - k) n b"
  by (simp add: bytes_at_def)

lemmas read_back = bytes_at_here bytes_at_here [where b = "[]", simplified] bytes_at_skip

lemma PacketDescriptor_read: "bytes_PacketDescriptor (PacketDescriptor_bytes d @ bs) = ret d"
  by (simp add: fun_eq_iff bytes_PacketDescriptor_def read_structure_def PacketDescriptor_bytes_def ret_def
      read_back)

lemma PipeHeader_read: "bytes_PipeHeader (PipeHeader_bytes h @ bs) = ret h"
  by (simp add: fun_eq_iff bytes_PipeHeader_def read_structure_def PipeHeader_bytes_def ret_def read_back)

lemma enum_cast_value:
  "enum_cast packet_type_value packet_types PT_Invalid (packet_type_value t) = t"
  "enum_cast pipe_message_type_value pipe_message_types PM_Invalid (pipe_message_type_value p) = p"
  by (cases t; simp add: enum_cast_def packet_types_def) (cases p; simp add: enum_cast_def pipe_message_types_def)

section \<open>Properties\<close>

text \<open>Any bytes, cut out of an object, are bits of its value.\<close>

lemma le_val_take: "le_val (take n bs) = le_val bs mod 256 ^ n"
proof (induction n arbitrary: bs)
  case (Suc n)
  show ?case
  proof (cases bs)
    case (Cons b cs)
    have "unat b < 256" using unsigned_less [of b, where ?'a = nat] by simp
    then have "(unat b + 256 * le_val cs) mod (256 * 256 ^ n) = unat b + 256 * (le_val cs mod 256 ^ n)"
      using mod_mult2_eq [of "unat b + 256 * le_val cs" 256 "256 ^ n"] by simp
    with Suc Cons show ?thesis by simp
  qed simp
qed simp

lemma le_val_drop: "le_val (drop p bs) = le_val bs div 256 ^ p"
proof (induction p arbitrary: bs)
  case (Suc p)
  show ?case
  proof (cases bs)
    case (Cons b cs)
    have "unat b < 256" using unsigned_less [of b, where ?'a = nat] by simp
    then have "(unat b + 256 * le_val cs) div (256 * 256 ^ p) = le_val cs div 256 ^ p"
      by (simp add: div_mult2_eq)
    with Suc Cons show ?thesis by simp
  qed simp
qed simp

lemma bytes_at_bits: "bytes_at p n bs = get_bits (8 * p, 8 * n) (le_val bs)"
  by (simp add: bytes_at_def le_val_take le_val_drop get_bits_def take_bit_eq_mod drop_bit_eq_div power_mult)

lemma get_bits_bytes_at:
  "8 dvd s \<Longrightarrow> 8 dvd w \<Longrightarrow> get_bits (s, w) (le_val bs) = bytes_at (s div 8) (w div 8) bs"
  by (simp add: bytes_at_bits)

lemma bytes_at_bound: "bytes_at p n bs < 256 ^ n"
  by (simp add: bytes_at_bits get_bits_def take_bit_eq_mod power_mult)

lemma unat_bytes_at: "unat (of_nat (bytes_at p 4 bs) :: u32) = bytes_at p 4 bs"
  using bytes_at_bound [of p 4 bs] by (simp add: unat_of_nat take_bit_eq_mod)

lemma header_fields:
  "map_of (members sysv VMPACKET_DESCRIPTOR) = map_of [([''Type''], 0, 16), ([''DataOffset8''], 16, 16),
     ([''Length8''], 32, 16), ([''Flags''], 48, 16), ([''TransactionId''], 64, 64)]"
  "map_of (members sysv VMPIPE_PROTOCOL_HEADER) = map_of [([''PacketType''], 0, 32), ([''DataSize''], 32, 32),
     ([''Partial''], 32, 32), ([''Partial'', ''DataSize''], 32, 16), ([''Partial'', ''Offset''], 48, 16)]"
  "map_of (members sysv PREVIOUS_PACKET_OFFSET) = map_of [([''Reserved''], 0, 32), ([''Offset''], 32, 32),
     ([''AsUINT64''], 0, 64)]"
  by (simp_all add: guest_eval)

lemma rcb_fields:
  "map_of (members sysv VMRCB) [''In''] = Some (0, 32)" "map_of (members sysv VMRCB) [''Out''] = Some (32, 32)"
  "map_of (members sysv VMRCB) [''InterruptMask''] = Some (64, 32)"
  "map_of (members sysv VMRCB) [''PendingSendSize''] = Some (96, 32)"
  "map_of (members sysv VMRCB) [''FeatureBits'', ''Value''] = Some (512, 32)"
  "map_of (members sysv VMRCB) [''FeatureBits'', ''SupportsPendingSendSize''] = Some (512, 1)"
  by (simp_all add: guest_eval)

lemma request_fields:
  "map_of (members sysv SYNTHRDP_VERSION_REQUEST_MESSAGE) [''Header'', ''Type''] = Some (0, 32)"
  "map_of (members sysv SYNTHRDP_VERSION_REQUEST_MESSAGE) [''Header'', ''Size''] = Some (32, 32)"
  "map_of (members sysv SYNTHRDP_VERSION_REQUEST_MESSAGE) [''Version'', ''AsDWORD''] = Some (64, 32)"
  "csize sysv SYNTHRDP_VERSION_REQUEST_MESSAGE = 16"
  by (simp_all add: SYNTHRDP_VERSION_REQUEST_MESSAGE_def SYNTHRDP_MESSAGE_HEADER_def SYNTHRDP_VERSION_def guest_eval
      numeral_2_eq_2 [symmetric])

lemma feature_bit: "SupportsPendingSendSize c \<longleftrightarrow> bit (rcb_FeatureBitsValue c) 0"
  by (simp add: SupportsPendingSendSize_def and_one_eq odd_iff_mod_2_eq_one [symmetric] bit_0)

text \<open>C29. The structures that the client marshals are those of the C header: in the bytes of a packet descriptor, a pipe
  header or a ring control block, every field is where the C structure has it, the sizes are the same, and
  the packet and message types have the same numbers.\<close>

theorem client_structures_match_header:
  "field_value sysv VMPACKET_DESCRIPTOR [''Type''] (le_val (PacketDescriptor_bytes d)) = Some (unat (RawType d))
    \<and> field_value sysv VMPACKET_DESCRIPTOR [''DataOffset8''] (le_val (PacketDescriptor_bytes d)) = Some (unat (RawDataOffset8 d))
    \<and> field_value sysv VMPACKET_DESCRIPTOR [''Length8''] (le_val (PacketDescriptor_bytes d)) = Some (unat (RawLength8 d))
    \<and> field_value sysv VMPACKET_DESCRIPTOR [''Flags''] (le_val (PacketDescriptor_bytes d)) = Some (unat (RawFlags d))
    \<and> field_value sysv VMPACKET_DESCRIPTOR [''TransactionId''] (le_val (PacketDescriptor_bytes d)) = Some (unat (TransactionId d))
    \<and> field_value sysv VMPIPE_PROTOCOL_HEADER [''PacketType''] (le_val (PipeHeader_bytes h)) = Some (unat (RawPacketType h))
    \<and> field_value sysv VMPIPE_PROTOCOL_HEADER [''DataSize''] (le_val (PipeHeader_bytes h)) = Some (unat (RawDataSize h))
    \<and> field_value sysv VMRCB [''In''] (le_val bs) = Some (unat (rcb_In (bytes_RingControlBlock bs)))
    \<and> field_value sysv VMRCB [''Out''] (le_val bs) = Some (unat (rcb_Out (bytes_RingControlBlock bs)))
    \<and> field_value sysv VMRCB [''InterruptMask''] (le_val bs) = Some (unat (rcb_InterruptMask (bytes_RingControlBlock bs)))
    \<and> field_value sysv VMRCB [''PendingSendSize''] (le_val bs) = Some (unat (rcb_PendingSendSize (bytes_RingControlBlock bs)))
    \<and> field_value sysv VMRCB [''FeatureBits'', ''Value''] (le_val bs) = Some (unat (rcb_FeatureBitsValue (bytes_RingControlBlock bs)))
    \<and> csize sysv VMPACKET_DESCRIPTOR = nat PacketDescriptorSize \<and> csize sysv VMPIPE_PROTOCOL_HEADER = nat PipeHeaderSize
    \<and> csize sysv VMRCB = 68
    \<and> map (uint \<circ> packet_type_value) packet_types = map snd VMBUS_PACKET_TYPE
    \<and> map (uint \<circ> pipe_message_type_value) pipe_message_types = map snd VMPIPE_PROTOCOL_MESSAGE_TYPE"
proof -
  have "map (uint \<circ> packet_type_value) packet_types = map snd VMBUS_PACKET_TYPE"
    "map (uint \<circ> pipe_message_type_value) pipe_message_types = map snd VMPIPE_PROTOCOL_MESSAGE_TYPE"
    by (simp_all add: packet_types_def pipe_message_types_def VMBUS_PACKET_TYPE_def VMPIPE_PROTOCOL_MESSAGE_TYPE_def enum_of_def)
  moreover have "csize sysv VMPACKET_DESCRIPTOR = 16" "csize sysv VMPIPE_PROTOCOL_HEADER = 8" "csize sysv VMRCB = 68"
    by (simp_all add: guest_eval)
  ultimately show ?thesis
    by (simp add: field_value_def header_fields rcb_fields PacketDescriptor_bytes_def PipeHeader_bytes_def
        get_bits_bytes_at read_back bytes_RingControlBlock_def unat_bytes_at PacketDescriptorSize_def PipeHeaderSize_def)
qed

text \<open>The request that opens the remote desktop handshake is the one the C header describes: read as a
  \<open>SYNTHRDP_VERSION_REQUEST_MESSAGE\<close> its bytes have the type of a version request, the size of the whole
  message and the version \<open>SYNTHRDP_VERSION_WINBLUE\<close>, and the code that builds it throws nothing.\<close>

theorem version_request_as_header:
  "map_sum id (\<lambda>r. let v = le_val (SynthRdpVersionRequest_bytes r);
       field = (\<lambda>f. field_value sysv SYNTHRDP_VERSION_REQUEST_MESSAGE f v) in
     (length (SynthRdpVersionRequest_bytes r), field [''Header'', ''Type''], field [''Header'', ''Size''],
      field [''Version'', ''AsDWORD''])) (fst (version_request m))
   = Inr (csize sysv SYNTHRDP_VERSION_REQUEST_MESSAGE,
      Some (nat (enumerator SYNTHRDP_MESSAGE_TYPE ''SynthrdpVersionRequest'')),
      Some (csize sysv SYNTHRDP_VERSION_REQUEST_MESSAGE), Some (unat SYNTHRDP_VERSION_WINBLUE))"
proof -
  have "enumerator SYNTHRDP_MESSAGE_TYPE ''SynthrdpVersionRequest'' = 1"
    by (simp add: enumerator_def SYNTHRDP_MESSAGE_TYPE_def enum_of_def)
  then show ?thesis
    by (simp add: version_request_def set_SynthRdpHeader_Type_def set_MinorVersion_def set_MajorVersion_def ToUInt32_def ret_def
        SynthRdpVersionRequest_bytes_def field_value_def request_fields get_bits_bytes_at read_back
        SYNTHRDP_VERSION_WINBLUE_def SYNTHRDP_MAKE_VERSION_def andthen_def i32_id)
qed

text \<open>The version setters write into a fresh version only: there both numbers read back, unless the minor
  version has its top bit set, when the shifted \<open>int\<close> is negative and the conversion throws; on a version that
  already holds numbers, the setter for the major version leaves the bitwise or of old and new.\<close>

theorem version_setters:
  "fst (set_MinorVersion minor (set_MajorVersion major \<lparr>AsDWORD = 0\<rparr>) m) =
     (if minor < 0x8000 then Inr \<lparr>AsDWORD = SYNTHRDP_MAKE_VERSION (ucast major) (ucast minor)\<rparr>
      else Inl (Throws OverflowException))
   \<and> MajorVersion (set_MajorVersion major v) = MajorVersion v OR major"
proof -
  have u: "0 \<le> uint minor" "uint minor < 65536" using unsigned_less [of minor, where ?'a = int] by simp_all
  have less: "minor < 0x8000 \<longleftrightarrow> uint minor < 0x8000" by (simp add: word_less_def)
  have p: "- (2 ^ 31) \<le> push_bit 16 (uint minor)" by (rule order_trans [of _ 0]) simp_all
  have "i32 (push_bit 16 (uint minor)) = (if minor < 0x8000 then push_bit 16 (uint minor)
       else push_bit 16 (uint minor) - 2 ^ 32)"
    using u i32_id [OF p] by (cases "minor < 0x8000") (simp_all add: less push_bit_eq_mult i32_wrap)
  moreover have "(of_int (push_bit 16 (uint minor)) :: u32) = push_bit 16 (ucast minor)"
    by (rule bit_word_eqI) (auto simp: bit_simps)
  moreover have "MajorVersion (set_MajorVersion major v) = MajorVersion v OR major"
    by (rule bit_word_eqI) (auto simp: MajorVersion_def set_MajorVersion_def mask_low bit_simps)
  ultimately show ?thesis
    using u by (auto simp: set_MinorVersion_def set_MajorVersion_def ToUInt32_def andthen_def ret_def throw_def
        SYNTHRDP_MAKE_VERSION_def less push_bit_eq_mult or.commute)
qed

end
