(* ===== verification/Client_Ring.thy ===== *)
theory Client_Ring
  imports Client_Wire "HOL-Library.Signed_Division"
begin

text \<open>
  \<open>UioHvDevice.cs\<close>: the client's end of the two ring buffers of a channel, which lie in memory it maps from the
  UIO device.  The memory is a list of bytes shared with the host; between two calls the host may change
  the control block and the data of a ring.

  The abstract state of a ring is the queue of bytes between its two offsets (\<open>ring_bytes\<close>).  Shown: pushing a packet
  appends exactly its bytes to the outgoing queue when it leaves some space free; popping takes the first packet
  off the incoming queue and returns its content, so a sequence of packets arrives in order; whatever the
  host writes, popping changes nothing but the read offset of the incoming ring and never reads outside an
  array; a packet that fills the ring completely makes it look empty, and a packet that ends at the end of
  the ring leaves an offset that equals the size of the ring.
\<close>

section \<open>Mapped memory\<close>

definition put_bytes :: "nat \<Rightarrow> u8 list \<Rightarrow> memory \<Rightarrow> memory" where
  "put_bytes p bs m = take p m @ bs @ drop (p + length bs) m"

text \<open>\<open>MemoryMappedViewAccessor\<close>: the capacity is the length of the view.\<close>

definition Accessor_Read :: "int \<Rightarrow> RingControlBlock cs" where
  "Accessor_Read position m =
     (if position < 0 \<or> int (length m) \<le> position then throw ArgumentOutOfRangeException m
      else if int (length m) < position + 68 then throw ArgumentException m
      else ret (bytes_RingControlBlock (drop (nat position) m)) m)"

definition Accessor_Write_UInt32 :: "int \<Rightarrow> int \<Rightarrow> unit cs" where
  "Accessor_Write_UInt32 position v m =
     (if position < 0 \<or> int (length m) \<le> position then throw ArgumentOutOfRangeException m
      else if int (length m) < position + 4 then throw ArgumentException m
      else (Inr (), put_bytes (nat position) (le_bytes 4 (nat v)) m))"

text \<open>\<open>ReadArray\<close> reads as much as there is; \<open>WriteArray\<close> writes all or throws.\<close>

definition ReadArray :: "int \<Rightarrow> u8 list \<Rightarrow> int \<Rightarrow> int \<Rightarrow> u8 list cs" where
  "ReadArray position arr offset count m =
     (if offset < 0 \<or> count < 0 then throw ArgumentOutOfRangeException m
      else if int (length arr) - offset < count then throw ArgumentException m
      else if position < 0 \<or> int (length m) \<le> position then throw ArgumentOutOfRangeException m
      else ret (put_bytes (nat offset) (take (nat count) (drop (nat position) m)) arr) m)"

definition WriteArray :: "int \<Rightarrow> u8 list \<Rightarrow> int \<Rightarrow> int \<Rightarrow> unit cs" where
  "WriteArray position arr offset count m =
     (if offset < 0 \<or> count < 0 then throw ArgumentOutOfRangeException m
      else if int (length arr) - offset < count then throw ArgumentException m
      else if position < 0 \<or> int (length m) \<le> position then throw ArgumentOutOfRangeException m
      else if int (length m) < position + count then throw ArgumentException m
      else (Inr (), put_bytes (nat position) (take (nat count) (drop (nat offset) arr)) m))"

definition CopyTo :: "u8 list \<Rightarrow> u8 list \<Rightarrow> int \<Rightarrow> u8 list cs" where
  "CopyTo src dst index =
     (if index < 0 then throw ArgumentOutOfRangeException
      else if int (length dst) < index + int (length src) then throw ArgumentException
      else ret (put_bytes (nat index) src dst))"

section \<open>The device\<close>

record UioHvDevice =
  RingBufferSize :: int
  ControlMaximumSize :: int
  DataMaximumSize :: int
  OutgoingControlOffset :: int
  OutgoingDataOffset :: int
  IncomingControlOffset :: int
  IncomingDataOffset :: int

record UioDeviceMemoryMapItem =
  item_Name :: string
  item_Offset :: int
  item_Size :: int

definition device_layout :: "int \<Rightarrow> int \<Rightarrow> UioHvDevice" where
  "device_layout PageSize ring =
     \<lparr>RingBufferSize = ring, ControlMaximumSize = PageSize, DataMaximumSize = i32 (ring - PageSize),
      OutgoingControlOffset = 0, OutgoingDataOffset = i32 (0 + PageSize),
      IncomingControlOffset = i32 (0 + ring), IncomingDataOffset = i32 (i32 (0 + ring) + PageSize)\<rparr>"

text \<open>The constructor: the memory is that of the mapping it finds.\<close>

fun new_UioHvDevice :: "int \<Rightarrow> UioDeviceMemoryMapItem list \<Rightarrow> UioHvDevice cs" where
  "new_UioHvDevice PageSize [] = throw (Exception_of ''Failed to create UioHvDevice'')"
| "new_UioHvDevice PageSize (MapItem # items) =
     (if item_Name MapItem \<noteq> ''txrx_rings'' \<or> item_Offset MapItem \<noteq> 0
      then new_UioHvDevice PageSize items
      else andthen (ToInt32 (item_Size MapItem sdiv 2)) (\<lambda>ring.
        let d = device_layout PageSize ring in
        andthen (Accessor_Write_UInt32 (i32 (IncomingControlOffset d + 2 * 4)) 0) (\<lambda>_. ret d)))"

definition GetRingControlBlock :: "UioHvDevice \<Rightarrow> int \<Rightarrow> RingControlBlock cs" where
  "GetRingControlBlock d AccessorOffset =
     (if AccessorOffset \<noteq> OutgoingControlOffset d \<and> AccessorOffset \<noteq> IncomingControlOffset d
      then throw ArgumentException
      else Accessor_Read AccessorOffset)"

text \<open>The pair of readable and writable size.\<close>

definition GetAvailableSizeInformation :: "UioHvDevice \<Rightarrow> RingControlBlock \<Rightarrow> (int \<times> int) cs" where
  "GetAvailableSizeInformation d ControlBlock =
     (if rcb_Out ControlBlock \<le> rcb_In ControlBlock
      then andthen (ToInt32 (uint (rcb_In ControlBlock - rcb_Out ControlBlock)))
             (\<lambda>ReadableSize. ret (ReadableSize, i32 (DataMaximumSize d - ReadableSize)))
      else andthen (ToInt32 (uint (rcb_Out ControlBlock - rcb_In ControlBlock)))
             (\<lambda>WritableSize. ret (i32 (DataMaximumSize d - WritableSize), WritableSize)))"

section \<open>Popping\<close>

text \<open>How many bytes are read before and after the end of the ring.\<close>

definition read_sizes :: "UioHvDevice \<Rightarrow> RingControlBlock \<Rightarrow> int \<Rightarrow> (int \<times> int) cs" where
  "read_sizes d ControlBlock AvailableSize =
     (if rcb_In ControlBlock < rcb_Out ControlBlock
      then andthen (ToInt32 (uint (rcb_Out ControlBlock))) (\<lambda>out.
        let FragileSize = i32 (DataMaximumSize d - out) in
        if FragileSize < AvailableSize then ret (FragileSize, i32 (AvailableSize - FragileSize))
        else ret (AvailableSize, 0))
      else ret (AvailableSize, 0))"

definition read_available :: "UioHvDevice \<Rightarrow> RingControlBlock \<Rightarrow> int \<Rightarrow> u8 list cs" where
  "read_available d ControlBlock AvailableSize =
     andthen (read_sizes d ControlBlock AvailableSize) (\<lambda>(FirstReadSize, SecondReadSize).
     andthen (ReadArray (IncomingDataOffset d + uint (rcb_Out ControlBlock))
                (replicate (nat AvailableSize) 0) 0 FirstReadSize) (\<lambda>AvailableBytes.
     if SecondReadSize > 0
     then ReadArray (IncomingDataOffset d) AvailableBytes FirstReadSize SecondReadSize
     else ret AvailableBytes))"

text \<open>The checks on the packet: its content and its size in the ring.\<close>

definition parse_packet :: "u8 list \<Rightarrow> (u8 list \<times> int) cs" where
  "parse_packet AvailableBytes =
     andthen (bytes_PacketDescriptor AvailableBytes) (\<lambda>Descriptor.
     if PacketDescriptor_Type Descriptor \<noteq> DataInBand then throw (Exception_of ''Unexpected PacketType'')
     else if DataOffset Descriptor < PacketDescriptorSize
        \<or> DataOffset Descriptor > int (length AvailableBytes)
        \<or> DataOffset Descriptor > PacketDescriptor_Length Descriptor
     then throw (Exception_of ''Unexpected DataOffset'')
     else let ActualPacketSize = i32 (PacketDescriptor_Length Descriptor + 8) in
     if int (length AvailableBytes) < ActualPacketSize then throw (Exception_of ''Unexpected PacketSize'')
     else let Rest = drop (nat (DataOffset Descriptor)) AvailableBytes in
     andthen (bytes_PipeHeader Rest) (\<lambda>Header.
     if PipeHeader_Type Header \<noteq> PM_Data then throw (Exception_of ''Unexpected PipeMessageType'')
     else andthen (DataSize Header) (\<lambda>size.
     andthen (ToInt32 size) (\<lambda>PipeDataSize.
     if int (length Rest) < i32 (PipeHeaderSize + PipeDataSize) then throw (Exception_of ''Unexpected DataSize'')
     else ret (take (nat PipeDataSize) (drop (nat PipeHeaderSize) Rest), ActualPacketSize)))))"

definition read_offset :: "UioHvDevice \<Rightarrow> RingControlBlock \<Rightarrow> int \<Rightarrow> int cs" where
  "read_offset d ControlBlock ActualPacketSize =
     andthen (ToUInt32 (uint (rcb_Out ControlBlock) + ActualPacketSize)) (\<lambda>FinalOffset.
     if rcb_In ControlBlock < rcb_Out ControlBlock
     then andthen (ToInt32 (uint (rcb_Out ControlBlock))) (\<lambda>out.
       let FragileSize = i32 (DataMaximumSize d - out) in
       if FragileSize < ActualPacketSize then ToUInt32 (i32 (ActualPacketSize - FragileSize))
       else ret FinalOffset)
     else ret FinalOffset)"

definition PopPipePacket :: "UioHvDevice \<Rightarrow> u8 list cs" where
  "PopPipePacket d =
     andthen (GetRingControlBlock d (IncomingControlOffset d)) (\<lambda>ControlBlock.
     andthen (GetAvailableSizeInformation d ControlBlock) (\<lambda>(AvailableSize, _).
     if AvailableSize < PipePacketHeaderSize then ret []
     else andthen (read_available d ControlBlock AvailableSize) (\<lambda>AvailableBytes.
     andthen (parse_packet AvailableBytes) (\<lambda>(Content, ActualPacketSize).
     andthen (read_offset d ControlBlock ActualPacketSize) (\<lambda>FinalOffset.
     andthen (Accessor_Write_UInt32 (i32 (IncomingControlOffset d + 4)) FinalOffset) (\<lambda>_.
     ret Content))))))"

section \<open>Pushing\<close>

definition GetMaximumPushSize :: "UioHvDevice \<Rightarrow> int cs" where
  "GetMaximumPushSize d =
     andthen (GetRingControlBlock d (OutgoingControlOffset d)) (\<lambda>ControlBlock.
     andthen (GetAvailableSizeInformation d ControlBlock) (\<lambda>(_, AvailableSize).
     let a = i32 (AvailableSize - (PipePacketHeaderSize + 8));
         b = i32 (a - a smod 8) in
     ret (if b < 0 then 0 else min b 16384)))"

definition new_descriptor :: "int \<Rightarrow> PacketDescriptor cs" where
  "new_descriptor ContentLength =
     andthen (set_DataOffset PacketDescriptorSize (set_Type DataInBand new_PacketDescriptor)) (\<lambda>Descriptor.
     andthen (set_Length (i32 (PipePacketHeaderSize + ContentLength)) Descriptor) (\<lambda>Descriptor.
     ret ((set_CompletionRequested False Descriptor)\<lparr>TransactionId := - 1\<rparr>)))"

definition new_header :: "int \<Rightarrow> PipeHeader cs" where
  "new_header ContentLength = andthen (ToUInt32 ContentLength) (\<lambda>size.
     set_DataSize size (set_PipeHeader_Type PM_Data new_PipeHeader))"

definition packet_array :: "PacketDescriptor \<Rightarrow> PipeHeader \<Rightarrow> u8 list \<Rightarrow> u32 \<Rightarrow> int \<Rightarrow> u8 list cs" where
  "packet_array Descriptor Header Content In PacketSize =
     andthen (CopyTo (PacketDescriptor_bytes Descriptor) (replicate (nat PacketSize) 0) 0) (\<lambda>PacketBytes.
     andthen (CopyTo (PipeHeader_bytes Header) PacketBytes PacketDescriptorSize) (\<lambda>PacketBytes.
     andthen (CopyTo Content PacketBytes PipePacketHeaderSize) (\<lambda>PacketBytes.
     CopyTo (le_bytes 4 (unat In)) PacketBytes (int (length PacketBytes) - 8))))"

definition write_sizes :: "UioHvDevice \<Rightarrow> RingControlBlock \<Rightarrow> int \<Rightarrow> (int \<times> int) cs" where
  "write_sizes d ControlBlock Length =
     (if rcb_Out ControlBlock \<le> rcb_In ControlBlock
      then andthen (ToInt32 (uint (rcb_In ControlBlock))) (\<lambda>in_offset.
        let FragileSize = i32 (DataMaximumSize d - in_offset) in
        if FragileSize < Length then ret (FragileSize, i32 (Length - FragileSize)) else ret (Length, 0))
      else ret (Length, 0))"

definition write_packet :: "UioHvDevice \<Rightarrow> RingControlBlock \<Rightarrow> u8 list \<Rightarrow> unit cs" where
  "write_packet d ControlBlock PacketBytes =
     andthen (write_sizes d ControlBlock (int (length PacketBytes))) (\<lambda>(FirstWriteSize, SecondWriteSize).
     andthen (WriteArray (OutgoingDataOffset d + uint (rcb_In ControlBlock)) PacketBytes 0 FirstWriteSize) (\<lambda>_.
     andthen (if SecondWriteSize > 0
              then WriteArray (OutgoingDataOffset d) PacketBytes FirstWriteSize SecondWriteSize else ret ()) (\<lambda>_.
     andthen (ToUInt32 (if SecondWriteSize > 0 then SecondWriteSize
                        else uint (rcb_In ControlBlock) + int (length PacketBytes))) (\<lambda>FinalOffset.
     Accessor_Write_UInt32 (OutgoingControlOffset d) FinalOffset))))"

definition PushPipePacket :: "UioHvDevice \<Rightarrow> u8 list \<Rightarrow> unit cs" where
  "PushPipePacket d Content =
     andthen (new_descriptor (int (length Content))) (\<lambda>Descriptor.
     andthen (new_header (int (length Content))) (\<lambda>Header.
     let PacketSize = i32 (PacketDescriptor_Length Descriptor + 8) in
     andthen (GetRingControlBlock d (OutgoingControlOffset d)) (\<lambda>ControlBlock.
     andthen (GetAvailableSizeInformation d ControlBlock) (\<lambda>(_, AvailableSize).
     if AvailableSize < PacketSize then throw (Exception_of ''Insufficient Space'')
     else andthen (packet_array Descriptor Header Content (rcb_In ControlBlock) PacketSize) (\<lambda>PacketBytes.
     write_packet d ControlBlock PacketBytes)))))"

section \<open>Interrupts, sending and receiving\<close>

text \<open>What \<open>write\<close> of some bytes and \<open>read\<close> return on the device file, and \<open>errno\<close>.\<close>

record posix_env =
  posix_write :: "u8 list \<Rightarrow> int"
  posix_read :: int
  posix_errno :: int

definition InterruptControl :: "posix_env \<Rightarrow> bool \<Rightarrow> unit cs" where
  "InterruptControl E Enable =
     (let RawBytes = le_bytes 4 (if Enable then 1 else 0); Result = posix_write E RawBytes in
      if Result \<noteq> int (length RawBytes) then throw (Exception_of ''InterruptControl Failed'') else ret ())"

definition WaitInterrupt :: "posix_env \<Rightarrow> bool cs" where
  "WaitInterrupt E =
     (if posix_read E < 0
      then (if posix_errno E \<noteq> 4 \<and> posix_errno E \<noteq> 11
            then throw (Exception_of ''WaitInterrupt Failed'') else ret False)
      else ret True)"

definition SignalHost :: "posix_env \<Rightarrow> unit cs" where
  "SignalHost E = InterruptControl E True"

definition WaitHost :: "posix_env \<Rightarrow> unit cs" where
  "WaitHost E = andthen (WaitInterrupt E) (\<lambda>_. ret ())"

definition Send :: "posix_env \<Rightarrow> UioHvDevice \<Rightarrow> u8 list \<Rightarrow> unit cs" where
  "Send E d Content = andthen (PushPipePacket d Content) (\<lambda>_. SignalHost E)"

definition Receive :: "posix_env \<Rightarrow> UioHvDevice \<Rightarrow> u8 list cs" where
  "Receive E d = andthen (PopPipePacket d) (\<lambda>Content.
     if Content = [] then andthen (WaitHost E) (\<lambda>_. ret [])
     else andthen (SignalHost E) (\<lambda>_. ret Content))"

text \<open>How \<open>ServiceMain\<close> receives the answer to its version request.\<close>

definition version_response :: "posix_env \<Rightarrow> UioHvDevice \<Rightarrow> SynthRdpVersionResponse cs" where
  "version_response E d = andthen (Receive E d) (\<lambda>Content.
     andthen (bytes_SynthRdpVersionResponse Content) (\<lambda>Response.
     if \<not> IsAcceptedWithVersionExchange Response then throw (Exception_of ''SynthRdpVersionResponse Invalid'')
     else ret Response))"

section \<open>Writing into memory\<close>

lemma length_put_bytes [simp]: "p + length bs \<le> length m \<Longrightarrow> length (put_bytes p bs m) = length m"
  by (simp add: put_bytes_def)

lemma nth_put_bytes:
  "p + length bs \<le> length m \<Longrightarrow> put_bytes p bs m ! q = (if p \<le> q \<and> q < p + length bs then bs ! (q - p) else m ! q)"
  by (auto simp: put_bytes_def nth_append)

lemma put_bytes_here: "length b = length c \<Longrightarrow> put_bytes (length a) b (a @ c @ e) = a @ b @ e"
  by (simp add: put_bytes_def)

lemma bytes_at_put_same: "p + n \<le> length m \<Longrightarrow> v < 256 ^ n \<Longrightarrow> bytes_at p n (put_bytes p (le_bytes n v) m) = v"
  by (simp add: bytes_at_def put_bytes_def)

lemma take_drop_put_other:
  assumes "p + length bs \<le> length m" "q + n \<le> p \<or> p + length bs \<le> q"
  shows "take n (drop q (put_bytes p bs m)) = take n (drop q m)"
  using assms by (intro nth_equalityI) (auto simp: nth_put_bytes)

lemma bytes_at_put_other:
  "p + length bs \<le> length m \<Longrightarrow> q + n \<le> p \<or> p + length bs \<le> q \<Longrightarrow> bytes_at q n (put_bytes p bs m) = bytes_at q n m"
  by (simp add: bytes_at_def take_drop_put_other)

section \<open>Rings\<close>

text \<open>The bytes of a ring of \<open>N\<close> bytes at \<open>b\<close> between the offsets \<open>o\<close> and \<open>i\<close>.\<close>

definition readable :: "nat \<Rightarrow> nat \<Rightarrow> nat \<Rightarrow> nat" where
  "readable N i out = (if out \<le> i then i - out else N - (out - i))"

definition ring_pos :: "nat \<Rightarrow> nat \<Rightarrow> nat" where
  "ring_pos N x = (if x < N then x else x - N)"

definition ring_bytes :: "nat \<Rightarrow> nat \<Rightarrow> nat \<Rightarrow> nat \<Rightarrow> memory \<Rightarrow> u8 list" where
  "ring_bytes b N i out m = map (\<lambda>k. m ! (b + ring_pos N (out + k))) [0..<readable N i out]"

lemma length_ring_bytes [simp]: "length (ring_bytes b N i out m) = readable N i out"
  by (simp add: ring_bytes_def)

lemma ring_bytes_cong:
  assumes "i \<le> N" "out \<le> N" "\<And>q. b \<le> q \<Longrightarrow> q < b + N \<Longrightarrow> m ! q = m' ! q"
  shows "ring_bytes b N i out m = ring_bytes b N i out m'"
  using assms by (auto simp: ring_bytes_def readable_def ring_pos_def split: if_splits)

text \<open>Storing a packet at offset \<open>i\<close>, around the end of the ring if necessary.\<close>

definition ring_store :: "nat \<Rightarrow> nat \<Rightarrow> nat \<Rightarrow> u8 list \<Rightarrow> memory \<Rightarrow> memory" where
  "ring_store b N i bs m =
     (if N - i < length bs then put_bytes b (drop (N - i) bs) (put_bytes (b + i) (take (N - i) bs) m)
      else put_bytes (b + i) bs m)"

definition ring_next :: "nat \<Rightarrow> nat \<Rightarrow> nat \<Rightarrow> nat" where
  "ring_next N i n = (if N - i < n then n - (N - i) else i + n)"

lemma ring_next_le: "i \<le> N \<Longrightarrow> n \<le> N \<Longrightarrow> ring_next N i n \<le> N"
  by (auto simp: ring_next_def)

lemma ring_store_nth:
  assumes "i \<le> N" "length bs \<le> N" "b + N \<le> length m"
  shows "ring_store b N i bs m ! q =
    (if b + i \<le> q \<and> q < b + min N (i + length bs) then bs ! (q - (b + i))
     else if b \<le> q \<and> q + N < b + i + length bs then bs ! (q + N - (b + i)) else m ! q)"
  using assms by (auto simp: ring_store_def nth_put_bytes min_def algebra_simps)

lemma ring_store_length [simp]:
  "i \<le> N \<Longrightarrow> length bs \<le> N \<Longrightarrow> b + N \<le> length m \<Longrightarrow> length (ring_store b N i bs m) = length m"
  by (auto simp: ring_store_def)

text \<open>The queue grows by the packet when some space stays free; when none does, the ring looks empty, unless the
  reader is at offset 0.\<close>

lemma ring_store_appends:
  assumes "i \<le> N" "out \<le> N" "b + N \<le> length m" "length bs + readable N i out < N"
  shows "ring_bytes b N (ring_next N i (length bs)) out (ring_store b N i bs m) = ring_bytes b N i out m @ bs"
proof (rule nth_equalityI)
  have r: "readable N (ring_next N i (length bs)) out = readable N i out + length bs"
    using assms by (auto simp: readable_def ring_next_def)
  then show "length (ring_bytes b N (ring_next N i (length bs)) out (ring_store b N i bs m)) =
      length (ring_bytes b N i out m @ bs)" by simp
  fix k
  assume "k < length (ring_bytes b N (ring_next N i (length bs)) out (ring_store b N i bs m))"
  then have k: "k < readable N i out + length bs" using r by simp
  show "ring_bytes b N (ring_next N i (length bs)) out (ring_store b N i bs m) ! k =
      (ring_bytes b N i out m @ bs) ! k"
  proof (cases "k < readable N i out")
    case True
    then show ?thesis
      using assms k r by (auto simp: ring_bytes_def nth_append ring_store_nth ring_pos_def readable_def split: if_splits)
  next
    case False
    then show ?thesis
      using assms k r by (auto simp: ring_bytes_def nth_append ring_store_nth ring_pos_def readable_def
          add.commute [of k] split: if_splits)
  qed
qed

lemma ring_store_fills:
  assumes "i \<le> N" "out \<le> N" "0 < out" "n + readable N i out = N" "0 < n"
  shows "readable N (ring_next N i n) out = 0"
  using assms by (auto simp: readable_def ring_next_def split: if_splits)

text \<open>Taking \<open>n\<close> bytes off the front.\<close>

definition ring_taken :: "nat \<Rightarrow> nat \<Rightarrow> nat \<Rightarrow> nat \<Rightarrow> nat" where
  "ring_taken N i out n = (if i < out then ring_next N out n else out + n)"

lemma readable_taken:
  "i \<le> N \<Longrightarrow> out \<le> N \<Longrightarrow> n \<le> readable N i out \<Longrightarrow> readable N i (ring_taken N i out n) = readable N i out - n"
  by (auto simp: readable_def ring_next_def ring_taken_def)

lemma ring_taken_le: "i \<le> N \<Longrightarrow> out \<le> N \<Longrightarrow> n \<le> readable N i out \<Longrightarrow> ring_taken N i out n \<le> N"
  by (auto simp: readable_def ring_next_def ring_taken_def split: if_splits)

lemma ring_drop:
  assumes "i \<le> N" "out \<le> N" "n \<le> readable N i out"
  shows "ring_bytes b N i (ring_taken N i out n) m = drop n (ring_bytes b N i out m)"
proof (rule nth_equalityI)
  show "length (ring_bytes b N i (ring_taken N i out n) m) = length (drop n (ring_bytes b N i out m))"
    using readable_taken [OF assms] by simp
  fix k
  assume "k < length (ring_bytes b N i (ring_taken N i out n) m)"
  then have k: "n + k < readable N i out" using readable_taken [OF assms] by simp
  then have "ring_pos N (ring_taken N i out n + k) = ring_pos N (out + (n + k))"
    using assms by (auto simp: ring_pos_def ring_next_def ring_taken_def readable_def split: if_splits)
  then show "ring_bytes b N i (ring_taken N i out n) m ! k = drop n (ring_bytes b N i out m) ! k"
    using k readable_taken [OF assms] by (simp add: ring_bytes_def less_diff_conv add.commute [of k n])
qed

section \<open>The wire format of a packet\<close>

lemma pipe_sizes: "PacketDescriptorSize = 16" "PipeHeaderSize = 8" "PipePacketHeaderSize = 24"
  by (simp_all add: PacketDescriptorSize_def PipePacketHeaderSize_def PipeHeaderSize_def)

definition packet_len8 :: "u8 list \<Rightarrow> nat" where
  "packet_len8 c = (length c + 31) div 8"

definition wire_packet :: "nat \<Rightarrow> u8 list \<Rightarrow> u8 list" where
  "wire_packet i c = le_bytes 2 6 @ le_bytes 2 2 @ le_bytes 2 (packet_len8 c) @ le_bytes 2 0 @ le_bytes 8 (2 ^ 64 - 1) @
     le_bytes 4 1 @ le_bytes 4 (length c) @ c @ replicate (8 * packet_len8 c - (24 + length c)) 0 @
     le_bytes 4 i @ replicate 4 0"

lemma packet_len8_bounds: "24 + length c \<le> 8 * packet_len8 c" "8 * packet_len8 c \<le> 31 + length c"
  by (simp_all add: packet_len8_def)

lemma length_wire_packet [simp]: "length (wire_packet i c) = 8 * packet_len8 c + 8"
  using packet_len8_bounds [of c] by (simp add: wire_packet_def)

text \<open>The largest content whose length fits the 16 bits of the descriptor.\<close>

definition fits :: "u8 list \<Rightarrow> bool" where
  "fits c \<longleftrightarrow> length c \<le> 8 * 65535 - 24"

lemma fits_len8: "fits c \<Longrightarrow> packet_len8 c < 65536"
  by (simp add: fits_def packet_len8_def)

definition pipe_descriptor :: "u8 list \<Rightarrow> PacketDescriptor" where
  "pipe_descriptor c = \<lparr>RawType = 6, RawDataOffset8 = 2, RawLength8 = of_nat (packet_len8 c), RawFlags = 0, TransactionId = - 1\<rparr>"

definition pipe_header :: "u8 list \<Rightarrow> PipeHeader" where
  "pipe_header c = \<lparr>RawPacketType = 1, RawDataSize = of_nat (length c)\<rparr>"

lemma set_Length_fits:
  assumes "0 \<le> n" "n \<le> 8 * 65535"
  shows "set_Length n D = ret (D\<lparr>RawLength8 := of_int ((n + 7) div 8)\<rparr>)"
    and "set_DataOffset n D = ret (D\<lparr>RawDataOffset8 := of_int ((n + 7) div 8)\<rparr>)"
proof -
  have "drop_bit 3 (GetAlignedSize n 8) = (n + 7) div 8"
    using assms by (simp add: GetAlignedSize_8 drop_bit_eq_div)
  moreover have "0 \<le> (n + 7) div 8" "(n + 7) div 8 \<le> 65535" using assms by auto
  ultimately show "set_Length n D = ret (D\<lparr>RawLength8 := of_int ((n + 7) div 8)\<rparr>)"
    "set_DataOffset n D = ret (D\<lparr>RawDataOffset8 := of_int ((n + 7) div 8)\<rparr>)"
    by (simp_all add: set_Length_def set_DataOffset_def ToUInt16_def fun_eq_iff min_def)
qed

lemma new_descriptor_fits:
  assumes "fits c"
  shows "new_descriptor (int (length c)) = ret (pipe_descriptor c)"
proof -
  have "i32 (24 + int (length c)) = 24 + int (length c)" using assms by (simp add: fits_def i32_id)
  moreover have "(of_int ((24 + int (length c) + 7) div 8) :: u16) = of_nat (packet_len8 c)"
  proof -
    have "(24 + int (length c) + 7) div 8 = int (packet_len8 c)" by (simp add: packet_len8_def zdiv_int)
    then show ?thesis by simp
  qed
  ultimately show ?thesis
    using assms by (simp add: fun_eq_iff new_descriptor_def PacketDescriptorSize_def PipePacketHeaderSize_def PipeHeaderSize_def
        set_Length_fits fits_def set_Type_def new_PacketDescriptor_def set_CompletionRequested_def pipe_descriptor_def)
qed

lemma new_header_fits: "fits c \<Longrightarrow> new_header (int (length c)) = ret (pipe_header c)"
  by (simp add: fun_eq_iff new_header_def fits_def ToUInt32_def set_DataSize_def set_PipeHeader_Type_def new_PipeHeader_def
      PipeHeader_Type_def pipe_header_def enum_cast_value(2) [of PM_Data, simplified])

lemma pipe_descriptor_Length: "fits c \<Longrightarrow> PacketDescriptor_Length (pipe_descriptor c) = 8 * int (packet_len8 c)"
  using fits_len8 [of c]
  by (simp add: PacketDescriptor_Length_def pipe_descriptor_def push_bit_eq_mult unsigned_of_nat take_bit_nat_eq_self)

lemma pipe_bytes:
  assumes "fits c"
  shows "PacketDescriptor_bytes (pipe_descriptor c) @ PipeHeader_bytes (pipe_header c) =
    le_bytes 2 6 @ le_bytes 2 2 @ le_bytes 2 (packet_len8 c) @ le_bytes 2 0 @ le_bytes 8 (2 ^ 64 - 1) @
    le_bytes 4 1 @ le_bytes 4 (length c)"
proof -
  have "unat (- 1 :: u64) = 2 ^ 64 - 1" by (simp add: unsigned_minus_1_eq_mask mask_eq_exp_minus_1)
  moreover have "unat (of_nat (packet_len8 c) :: u16) = packet_len8 c" "unat (of_nat (length c) :: u32) = length c"
    using fits_len8 [OF assms] assms by (simp_all add: unat_of_nat take_bit_nat_eq_self fits_def)
  ultimately show ?thesis
    by (simp add: PacketDescriptor_bytes_def PipeHeader_bytes_def pipe_descriptor_def pipe_header_def)
qed

lemma CopyTo_fits: "length a + length b \<le> length xs \<Longrightarrow> CopyTo b xs (int (length a)) = ret (put_bytes (length a) b xs)"
  by (simp add: CopyTo_def)

lemma packet_array_fits:
  assumes "fits c"
  shows "packet_array (pipe_descriptor c) (pipe_header c) c In (8 * int (packet_len8 c) + 8) = ret (wire_packet (unat In) c)"
proof -
  let ?D = "PacketDescriptor_bytes (pipe_descriptor c)" and ?H = "PipeHeader_bytes (pipe_header c)"
  let ?z = "\<lambda>n. replicate n (0 :: u8)"
  let ?p = "8 * packet_len8 c - (24 + length c)"
  have n: "nat (8 * int (packet_len8 c) + 8) = 16 + (8 + (length c + (?p + (4 + 4))))"
    using packet_len8_bounds [of c] by simp
  have z: "replicate (nat (8 * int (packet_len8 c) + 8)) (0 :: u8) = ?z 16 @ ?z 8 @ ?z (length c) @ ?z ?p @ ?z 4 @ ?z 4"
    by (simp only: n replicate_add)
  have 1: "CopyTo ?D (?z 16 @ ?z 8 @ ?z (length c) @ ?z ?p @ ?z 4 @ ?z 4) 0 = ret (?D @ ?z 8 @ ?z (length c) @ ?z ?p @ ?z 4 @ ?z 4)"
    using CopyTo_fits [of "[]" ?D] put_bytes_here [of ?D "?z 16" "[]"] by simp
  have 2: "CopyTo ?H (?D @ ?z 8 @ ?z (length c) @ ?z ?p @ ?z 4 @ ?z 4) 16 = ret (?D @ ?H @ ?z (length c) @ ?z ?p @ ?z 4 @ ?z 4)"
    using CopyTo_fits [of ?D ?H] put_bytes_here [of ?H "?z 8" ?D] by simp
  have 3: "CopyTo c (?D @ ?H @ ?z (length c) @ ?z ?p @ ?z 4 @ ?z 4) 24 = ret (?D @ ?H @ c @ ?z ?p @ ?z 4 @ ?z 4)"
    using CopyTo_fits [of "?D @ ?H" c] put_bytes_here [of c "?z (length c)" "?D @ ?H"] by simp
  have 4: "CopyTo (le_bytes 4 (unat In)) (?D @ ?H @ c @ ?z ?p @ ?z 4 @ ?z 4)
      (int (length (?D @ ?H @ c @ ?z ?p @ ?z 4 @ ?z 4)) - 8) = ret (?D @ ?H @ c @ ?z ?p @ le_bytes 4 (unat In) @ ?z 4)"
    using CopyTo_fits [of "?D @ ?H @ c @ ?z ?p" "le_bytes 4 (unat In)"]
      put_bytes_here [of "le_bytes 4 (unat In)" "?z 4" "?D @ ?H @ c @ ?z ?p"] by simp
  have "wire_packet (unat In) c = ?D @ ?H @ c @ ?z ?p @ le_bytes 4 (unat In) @ ?z 4"
    using pipe_bytes [OF assms] by (simp add: wire_packet_def)
  then show ?thesis
    by (simp only: fun_eq_iff packet_array_def z 1 2 3 4 andthen_simps pipe_sizes simp_thms)
qed

section \<open>The mapped rings\<close>

definition page_of :: "UioHvDevice \<Rightarrow> nat" where "page_of d = nat (ControlMaximumSize d)"
definition ring_of :: "UioHvDevice \<Rightarrow> nat" where "ring_of d = nat (RingBufferSize d)"
definition data_of :: "UioHvDevice \<Rightarrow> nat" where "data_of d = ring_of d - page_of d"

text \<open>What the constructor establishes: two rings, each a control page followed by data, fill the memory.\<close>

definition mapped :: "UioHvDevice \<Rightarrow> memory \<Rightarrow> bool" where
  "mapped d m \<longleftrightarrow> d = device_layout (ControlMaximumSize d) (RingBufferSize d)
     \<and> 68 \<le> ControlMaximumSize d \<and> ControlMaximumSize d < RingBufferSize d \<and> RingBufferSize d < 2 ^ 30
     \<and> int (length m) = 2 * RingBufferSize d"

definition in_at :: "nat \<Rightarrow> memory \<Rightarrow> nat" where "in_at c m = bytes_at c 4 m"
definition out_at :: "nat \<Rightarrow> memory \<Rightarrow> nat" where "out_at c m = bytes_at (c + 4) 4 m"

definition outgoing :: "UioHvDevice \<Rightarrow> memory \<Rightarrow> u8 list" where
  "outgoing d m = ring_bytes (page_of d) (data_of d) (in_at 0 m) (out_at 0 m) m"

definition incoming :: "UioHvDevice \<Rightarrow> memory \<Rightarrow> u8 list" where
  "incoming d m = ring_bytes (ring_of d + page_of d) (data_of d) (in_at (ring_of d) m) (out_at (ring_of d) m) m"

definition offsets_ok :: "UioHvDevice \<Rightarrow> memory \<Rightarrow> bool" where
  "offsets_ok d m \<longleftrightarrow> in_at 0 m \<le> data_of d \<and> out_at 0 m \<le> data_of d
     \<and> in_at (ring_of d) m \<le> data_of d \<and> out_at (ring_of d) m \<le> data_of d"

lemma mapped_sizes:
  assumes "mapped d m"
  shows "OutgoingControlOffset d = 0" "OutgoingDataOffset d = int (page_of d)"
    "IncomingControlOffset d = int (ring_of d)" "IncomingDataOffset d = int (ring_of d + page_of d)"
    "DataMaximumSize d = int (data_of d)" "ring_of d = page_of d + data_of d"
    "68 \<le> page_of d" "0 < data_of d" "ring_of d < 2 ^ 30" "length m = 2 * ring_of d"
proof -
  have d: "d = device_layout (ControlMaximumSize d) (RingBufferSize d)" using assms by (simp add: mapped_def)
  have b: "68 \<le> ControlMaximumSize d" "ControlMaximumSize d < RingBufferSize d" "RingBufferSize d < 2 ^ 30"
    "int (length m) = 2 * RingBufferSize d" using assms by (simp_all add: mapped_def)
  show "OutgoingControlOffset d = 0" "OutgoingDataOffset d = int (page_of d)"
    "IncomingControlOffset d = int (ring_of d)" "IncomingDataOffset d = int (ring_of d + page_of d)"
    "DataMaximumSize d = int (data_of d)"
    using b by (subst d, simp add: device_layout_def i32_id page_of_def ring_of_def data_of_def nat_less_eq_zless)+
  show "ring_of d = page_of d + data_of d" "68 \<le> page_of d" "0 < data_of d" "ring_of d < 2 ^ 30" "length m = 2 * ring_of d"
    using b by (auto simp: page_of_def ring_of_def data_of_def)
qed

lemma mapped_length: "mapped d m \<Longrightarrow> length m' = length m \<Longrightarrow> mapped d m'"
  by (simp add: mapped_def)

lemma bytes_at_drop: "bytes_at p n (drop c m) = bytes_at (c + p) n m"
  by (simp add: bytes_at_def add.commute)

lemma rcb_offsets [simp]:
  "unat (rcb_In (bytes_RingControlBlock (drop c m))) = in_at c m"
  "unat (rcb_Out (bytes_RingControlBlock (drop c m))) = out_at c m"
  by (simp_all only: bytes_RingControlBlock_def RingControlBlock.simps unat_bytes_at)
    (simp_all add: in_at_def out_at_def bytes_at_drop)

lemma get_control_block:
  assumes "mapped d m" "c = 0 \<or> c = ring_of d"
  shows "GetRingControlBlock d (int c) m = (Inr (bytes_RingControlBlock (drop c m)), m)"
  using mapped_sizes [OF assms(1)] assms(2) by (auto simp: GetRingControlBlock_def Accessor_Read_def ret_def nat_int_add)

text \<open>Arithmetic on natural numbers below \<open>2 ^ 31\<close>.\<close>

lemma int32_simps:
  "n < 2 ^ 31 \<Longrightarrow> ToInt32 (int n) = ret (int n)"
  "n < 2 ^ 31 \<Longrightarrow> i32 (int n) = int n"
  "b \<le> a \<Longrightarrow> a < 2 ^ 31 \<Longrightarrow> i32 (int a - int b) = int (a - b)"
  "n < 2 ^ 32 \<Longrightarrow> ToUInt32 (int n) = ret (int n)"
  by (simp_all add: ToInt32_def ToUInt32_def i32_id)

lemma available_sizes:
  assumes "DataMaximumSize d = int N" "N < 2 ^ 30" "unat (rcb_In cb) = i" "unat (rcb_Out cb) = out" "i \<le> N" "out \<le> N"
  shows "GetAvailableSizeInformation d cb = ret (int (readable N i out), int (N - readable N i out))"
proof (cases "out \<le> i")
  case True
  then have le: "rcb_Out cb \<le> rcb_In cb" using assms by (simp add: word_le_nat_alt)
  then have "uint (rcb_In cb - rcb_Out cb) = int (i - out)" using assms by (simp add: unat_sub uint_nat)
  then show ?thesis
    using assms True le
    by (simp add: fun_eq_iff GetAvailableSizeInformation_def readable_def int32_simps del: of_nat_diff)
next
  case False
  then have le: "\<not> rcb_Out cb \<le> rcb_In cb" using assms by (simp add: word_le_nat_alt)
  have "uint (rcb_Out cb - rcb_In cb) = int (out - i)" using assms False by (simp add: unat_sub uint_nat word_le_nat_alt)
  then show ?thesis
    using assms False le
    by (simp add: fun_eq_iff GetAvailableSizeInformation_def readable_def int32_simps del: of_nat_diff)
qed

lemma WriteArray_ok:
  "off + n \<le> length arr \<Longrightarrow> p < length m \<Longrightarrow> p + n \<le> length m \<Longrightarrow>
     WriteArray (int p) arr (int off) (int n) m = (Inr (), put_bytes p (take n (drop off arr)) m)"
  by (simp add: WriteArray_def)

lemma Write_UInt32_ok:
  "p + 4 \<le> length m \<Longrightarrow> Accessor_Write_UInt32 (int p) (int v) m = (Inr (), put_bytes p (le_bytes 4 v) m)"
  by (simp add: Accessor_Write_UInt32_def)

lemma write_sizes_eq:
  assumes "DataMaximumSize d = int N" "N < 2 ^ 30" "unat (rcb_In cb) = i" "unat (rcb_Out cb) = out" "i \<le> N" "out \<le> N"
    and "n + readable N i out \<le> N"
  shows "write_sizes d cb (int n) = (if N - i < n then ret (int (N - i), int (n - (N - i))) else ret (int n, int 0))"
proof -
  have u: "uint (rcb_In cb) = int i" "rcb_Out cb \<le> rcb_In cb \<longleftrightarrow> out \<le> i"
    using assms(3,4) by (auto simp: uint_nat word_le_nat_alt)
  show ?thesis
  proof (cases "out \<le> i")
    case True
    then show ?thesis
      using assms by (simp add: fun_eq_iff write_sizes_def u int32_simps Let_def readable_def del: of_nat_diff)
  next
    case False
    then have "\<not> N - i < n" using assms by (simp add: readable_def)
    then show ?thesis using False by (simp add: fun_eq_iff write_sizes_def u)
  qed
qed

lemma write_packet_stores:
  assumes "mapped d m" "cb = bytes_RingControlBlock (drop 0 m)" "i = in_at 0 m" "out = out_at 0 m"
    and "i \<le> data_of d" "out \<le> data_of d" "length bs + readable (data_of d) i out \<le> data_of d"
  shows "write_packet d cb bs m = (Inr (), put_bytes 0 (le_bytes 4 (ring_next (data_of d) i (length bs)))
    (ring_store (page_of d) (data_of d) i bs m))"
proof -
  let ?N = "data_of d" and ?P = "page_of d"
  note s = mapped_sizes [OF assms(1)]
  have u: "unat (rcb_In cb) = i" "unat (rcb_Out cb) = out" using assms(2-4) by (simp_all del: drop0)
  note w = write_sizes_eq [OF s(5) _ u assms(5,6,7)]
  have pos: "int ?P + uint (rcb_In cb) = int (?P + i)" using u(1) by (simp add: uint_nat)
  have nx: "ring_next ?N i (length bs) < 2 ^ 32" using s assms(5,7) by (auto simp: ring_next_def)
  have len: "length (ring_store ?P ?N i bs m) = length m" using s assms(5,7) by simp
  have last: "andthen (ToUInt32 (int (ring_next ?N i (length bs))))
      (\<lambda>x. Accessor_Write_UInt32 (OutgoingControlOffset d) x) (ring_store ?P ?N i bs m) =
    (Inr (), put_bytes 0 (le_bytes 4 (ring_next ?N i (length bs))) (ring_store ?P ?N i bs m))"
    using Write_UInt32_ok [of 0 "ring_store ?P ?N i bs m"] len s nx by (simp add: int32_simps)
  show ?thesis
  proof (cases "?N - i < length bs")
    case True
    let ?m1 = "put_bytes (?P + i) (take (?N - i) bs) m"
    have 1: "WriteArray (int (?P + i)) bs 0 (int (?N - i)) m = (Inr (), ?m1)"
      using WriteArray_ok [of 0 "?N - i" bs "?P + i" m] True s assms(5,7) by simp
    have 2: "WriteArray (int ?P) bs (int (?N - i)) (int (length bs - (?N - i))) ?m1 =
        (Inr (), ring_store ?P ?N i bs m)"
      using WriteArray_ok [of "?N - i" "length bs - (?N - i)" bs ?P ?m1] True s assms(5,7)
      by (simp add: ring_store_def)
    have "write_packet d cb bs m = andthen (ToUInt32 (int (ring_next ?N i (length bs))))
        (\<lambda>x. Accessor_Write_UInt32 (OutgoingControlOffset d) x) (ring_store ?P ?N i bs m)"
      using True s
      by (simp add: write_packet_def w pos andthen_def ret_def 1 2 ring_next_def del: of_nat_diff of_nat_add)
    then show ?thesis using last by simp
  next
    case False
    have i: "uint (rcb_In cb) + int (length bs) = int (i + length bs)" using u(1) by (simp add: uint_nat)
    have 1: "WriteArray (int (?P + i)) bs 0 (int (length bs)) m = (Inr (), ring_store ?P ?N i bs m)"
      using WriteArray_ok [of 0 "length bs" bs "?P + i" m] False s assms(5,7) by (simp add: ring_store_def)
    have "write_packet d cb bs m = andthen (ToUInt32 (int (ring_next ?N i (length bs))))
        (\<lambda>x. Accessor_Write_UInt32 (OutgoingControlOffset d) x) (ring_store ?P ?N i bs m)"
      using False s
      by (simp add: write_packet_def w pos i andthen_def ret_def 1 ring_next_def del: of_nat_add)
    then show ?thesis using last by simp
  qed
qed

section \<open>What a push does\<close>

text \<open>Memories that agree outside the outgoing ring, or outside the read offset of the incoming ring.\<close>

definition agree :: "nat \<Rightarrow> nat \<Rightarrow> memory \<Rightarrow> memory \<Rightarrow> bool" where
  "agree a b m m' \<longleftrightarrow> length m' = length m \<and> (\<forall>q. a \<le> q \<and> q < b \<longrightarrow> m' ! q = m ! q)"

lemma agree_bytes_at: "agree a b m m' \<Longrightarrow> a \<le> q \<Longrightarrow> q + n \<le> b \<Longrightarrow> bytes_at q n m' = bytes_at q n m"
  unfolding bytes_at_def agree_def by (intro arg_cong [of _ _ le_val] nth_equalityI) auto

lemma agree_ring: "agree a e m m' \<Longrightarrow> a \<le> b \<Longrightarrow> b + N \<le> e \<Longrightarrow> i \<le> N \<Longrightarrow> out \<le> N \<Longrightarrow>
    ring_bytes b N i out m' = ring_bytes b N i out m"
  by (rule ring_bytes_cong) (auto simp: agree_def)

lemma agree_put: "p + length bs \<le> length m \<Longrightarrow> b \<le> p \<or> p + length bs \<le> a \<Longrightarrow> agree a b m (put_bytes p bs m)"
  by (auto simp: agree_def nth_put_bytes)

lemma agree_store:
  "i \<le> N \<Longrightarrow> length bs \<le> N \<Longrightarrow> p + N \<le> length m \<Longrightarrow> b \<le> p \<or> p + N \<le> a \<Longrightarrow> agree a b m (ring_store p N i bs m)"
  by (auto simp: agree_def ring_store_nth)

lemma agree_trans: "agree a b m m' \<Longrightarrow> agree a b m' m'' \<Longrightarrow> agree a b m m''"
  by (simp add: agree_def)

definition pushed :: "UioHvDevice \<Rightarrow> u8 list \<Rightarrow> memory \<Rightarrow> memory" where
  "pushed d bs m = put_bytes 0 (le_bytes 4 (ring_next (data_of d) (in_at 0 m) (length bs)))
     (ring_store (page_of d) (data_of d) (in_at 0 m) bs m)"

lemma push_spec:
  assumes "mapped d m" "in_at 0 m \<le> data_of d" "out_at 0 m \<le> data_of d" "fits c"
  shows "PushPipePacket d c m =
    (if data_of d - length (outgoing d m) < length (wire_packet (in_at 0 m) c)
     then (Inl (Throws (Exception_of ''Insufficient Space'')), m)
     else (Inr (), pushed d (wire_packet (in_at 0 m) c) m))"
proof -
  let ?cb = "bytes_RingControlBlock (drop 0 m)" and ?N = "data_of d"
  let ?n = "8 * packet_len8 c + 8" and ?r = "readable ?N (in_at 0 m) (out_at 0 m)"
  note s = mapped_sizes [OF assms(1)]
  have size: "i32 (PacketDescriptor_Length (pipe_descriptor c) + 8) = int ?n"
    using fits_len8 [OF assms(4)] by (simp add: pipe_descriptor_Length [OF assms(4)] i32_id)
  have cb: "GetRingControlBlock d (OutgoingControlOffset d) m = (Inr ?cb, m)"
    using get_control_block [OF assms(1), of 0] s(1) by simp
  have av: "GetAvailableSizeInformation d ?cb = ret (int ?r, int (?N - ?r))"
    using s assms(2,3) by (intro available_sizes) (simp_all del: drop0)
  have pa: "packet_array (pipe_descriptor c) (pipe_header c) c (rcb_In ?cb) (int ?n) = ret (wire_packet (in_at 0 m) c)"
    using packet_array_fits [OF assms(4), of "rcb_In ?cb"] rcb_offsets(1) [of 0 m] by (simp only: of_nat_add of_nat_mult of_nat_numeral)
  have "?N - ?r < ?n \<longleftrightarrow> ?N - length (outgoing d m) < length (wire_packet (in_at 0 m) c)"
    by (simp add: outgoing_def)
  moreover have "\<not> ?N - ?r < ?n \<Longrightarrow> write_packet d ?cb (wire_packet (in_at 0 m) c) m =
      (Inr (), pushed d (wire_packet (in_at 0 m) c) m)"
    using write_packet_stores [OF assms(1) refl refl refl assms(2,3), of "wire_packet (in_at 0 m) c"]
    by (simp add: pushed_def)
  ultimately show ?thesis
    by (simp add: PushPipePacket_def new_descriptor_fits new_header_fits assms(4) size Let_def andthen_def [of "GetRingControlBlock _ _"]
        cb av pa throw_def del: drop0 of_nat_add of_nat_diff)
qed

lemma pushed_frame:
  assumes "mapped d m" "in_at 0 m \<le> data_of d" "length bs \<le> data_of d"
  shows "mapped d (pushed d bs m)" "in_at 0 (pushed d bs m) = ring_next (data_of d) (in_at 0 m) (length bs)"
    "agree 4 (page_of d) m (pushed d bs m)" "agree (ring_of d) (2 * ring_of d) m (pushed d bs m)"
    "agree (page_of d) (ring_of d) (ring_store (page_of d) (data_of d) (in_at 0 m) bs m) (pushed d bs m)"
proof -
  note s = mapped_sizes [OF assms(1)]
  let ?s = "ring_store (page_of d) (data_of d) (in_at 0 m) bs m"
  have l: "length ?s = length m" using s assms by simp
  have p: "agree a b ?s (pushed d bs m)" if "4 \<le> a" for a b
    unfolding pushed_def using that l s by (intro agree_put) auto
  show "agree 4 (page_of d) m (pushed d bs m)"
    by (rule agree_trans [OF agree_store p]) (use assms s in auto)
  show "agree (ring_of d) (2 * ring_of d) m (pushed d bs m)"
    by (rule agree_trans [OF agree_store p]) (use assms s in auto)
  show "agree (page_of d) (ring_of d) ?s (pushed d bs m)" by (rule p) (use s in auto)
  show "mapped d (pushed d bs m)" using assms(1) by (rule mapped_length) (use l s in \<open>auto simp: pushed_def\<close>)
  have "ring_next (data_of d) (in_at 0 m) (length bs) < 256 ^ 4"
    using ring_next_le [of "in_at 0 m" "data_of d" "length bs"] assms s by simp
  then have "bytes_at 0 4 (pushed d bs m) = ring_next (data_of d) (in_at 0 m) (length bs)"
    unfolding pushed_def using l s by (intro bytes_at_put_same) auto
  then show "in_at 0 (pushed d bs m) = ring_next (data_of d) (in_at 0 m) (length bs)"
    by (simp add: in_at_def [of 0 "pushed d bs m"])
qed

lemma pushed_offsets:
  assumes "mapped d m" "in_at 0 m \<le> data_of d" "length bs \<le> data_of d"
  shows "out_at 0 (pushed d bs m) = out_at 0 m" "in_at (ring_of d) (pushed d bs m) = in_at (ring_of d) m"
    "out_at (ring_of d) (pushed d bs m) = out_at (ring_of d) m"
  using agree_bytes_at [OF pushed_frame(3) [OF assms], of 4 4]
    agree_bytes_at [OF pushed_frame(4) [OF assms], of "ring_of d" 4]
    agree_bytes_at [OF pushed_frame(4) [OF assms], of "ring_of d + 4" 4] mapped_sizes [OF assms(1)]
  by (simp_all add: in_at_def out_at_def)

lemma pushed_queues:
  assumes "mapped d m" "offsets_ok d m" "length bs + length (outgoing d m) < data_of d"
  shows "outgoing d (pushed d bs m) = outgoing d m @ bs" "incoming d (pushed d bs m) = incoming d m"
    "offsets_ok d (pushed d bs m)"
proof -
  note s = mapped_sizes [OF assms(1)]
  have o: "in_at 0 m \<le> data_of d" "length bs \<le> data_of d" using assms by (auto simp: offsets_ok_def)
  note f = pushed_frame [OF assms(1) o] and g = pushed_offsets [OF assms(1) o]
  have k: "ring_next (data_of d) (in_at 0 m) (length bs) \<le> data_of d" using o by (rule ring_next_le)
  have "outgoing d (pushed d bs m) = ring_bytes (page_of d) (data_of d) (ring_next (data_of d) (in_at 0 m) (length bs))
      (out_at 0 m) (ring_store (page_of d) (data_of d) (in_at 0 m) bs m)"
    unfolding outgoing_def f(2) g(1) using assms(2) s k by (intro agree_ring [OF f(5)]) (auto simp: offsets_ok_def)
  then show "outgoing d (pushed d bs m) = outgoing d m @ bs"
    using ring_store_appends [of "in_at 0 m" "data_of d" "out_at 0 m" "page_of d" m bs] assms s
    by (simp add: outgoing_def offsets_ok_def)
  show "incoming d (pushed d bs m) = incoming d m"
    unfolding incoming_def g(2,3) using assms(2) s by (intro agree_ring [OF f(4)]) (auto simp: offsets_ok_def)
  show "offsets_ok d (pushed d bs m)" using assms(2) k by (simp add: offsets_ok_def f g)
qed

section \<open>What a pop does\<close>

lemma ReadArray_ok:
  "off + n \<le> length arr \<Longrightarrow> p < length m \<Longrightarrow>
     ReadArray (int p) arr (int off) (int n) m = (Inr (put_bytes off (take n (drop p m)) arr), m)"
  by (simp add: ReadArray_def ret_def)

lemma read_sizes_eq:
  assumes "DataMaximumSize d = int N" "N < 2 ^ 30" "unat (rcb_In cb) = i" "unat (rcb_Out cb) = out" "i \<le> N" "out \<le> N"
    and "n \<le> N"
  shows "read_sizes d cb (int n) =
    (if i < out \<and> N - out < n then ret (int (N - out), int (n - (N - out))) else ret (int n, int 0))"
proof -
  have u: "uint (rcb_Out cb) = int out" "rcb_In cb < rcb_Out cb \<longleftrightarrow> i < out"
    using assms(3,4) by (auto simp: uint_nat word_less_nat_alt)
  show ?thesis
    using assms by (cases "i < out") (simp_all add: fun_eq_iff read_sizes_def u int32_simps Let_def del: of_nat_diff)
qed

lemma ring_bytes_straight:
  assumes "i \<le> N" "out \<le> N" "b + N \<le> length m" "\<not> (i < out \<and> N - out < readable N i out)"
  shows "take (readable N i out) (drop (b + out) m) = ring_bytes b N i out m"
  using assms by (intro nth_equalityI) (auto simp: ring_bytes_def ring_pos_def readable_def add.assoc split: if_splits)

lemma ring_bytes_around:
  assumes "i < out" "out \<le> N" "b + N \<le> length m" "N - out < readable N i out"
  shows "take (N - out) (drop (b + out) m) @ take (readable N i out - (N - out)) (drop b m) = ring_bytes b N i out m"
  using assms
  by (intro nth_equalityI) (auto simp: ring_bytes_def ring_pos_def readable_def nth_append ac_simps split: if_splits)

lemma put_bytes_prefix: "length bs \<le> n \<Longrightarrow> put_bytes 0 bs (replicate n x) = bs @ replicate (n - length bs) x"
  by (simp add: put_bytes_def)

lemma read_available_eq:
  assumes "mapped d m" "cb = bytes_RingControlBlock (drop (ring_of d) m)"
    and "in_at (ring_of d) m \<le> data_of d" "out_at (ring_of d) m < data_of d"
  shows "read_available d cb (int (length (incoming d m))) m = (Inr (incoming d m), m)"
proof -
  let ?N = "data_of d" and ?B = "ring_of d + page_of d" and ?i = "in_at (ring_of d) m" and ?o = "out_at (ring_of d) m"
  let ?r = "readable ?N ?i ?o"
  note s = mapped_sizes [OF assms(1)]
  have u: "unat (rcb_In cb) = ?i" "unat (rcb_Out cb) = ?o" using assms(2) by simp_all
  have pos: "int ?B + uint (rcb_Out cb) = int (?B + ?o)" using u(2) by (simp add: uint_nat)
  have r: "?r \<le> ?N" using assms(3,4) by (auto simp: readable_def)
  have len: "length (incoming d m) = ?r" by (simp add: incoming_def)
  have w: "read_sizes d cb (int ?r) =
    (if ?i < ?o \<and> ?N - ?o < ?r then ret (int (?N - ?o), int (?r - (?N - ?o))) else ret (int ?r, int 0))"
    using s assms(3,4) u r by (intro read_sizes_eq) simp_all
  show ?thesis
  proof (cases "?i < ?o \<and> ?N - ?o < ?r")
    case True
    let ?a = "take (?N - ?o) (drop (?B + ?o) m)"
    have a: "length ?a = ?N - ?o" using s assms(4) by simp
    have 1: "ReadArray (int (?B + ?o)) (replicate ?r 0) 0 (int (?N - ?o)) m =
        (Inr (?a @ replicate (?r - (?N - ?o)) 0), m)"
      using ReadArray_ok [of 0 "?N - ?o" "replicate ?r 0" "?B + ?o" m] put_bytes_prefix [of ?a ?r 0] True s assms(4) a by simp
    have 2: "ReadArray (int ?B) (?a @ replicate (?r - (?N - ?o)) 0) (int (?N - ?o)) (int (?r - (?N - ?o))) m =
        (Inr (incoming d m), m)"
      using ReadArray_ok [of "?N - ?o" "?r - (?N - ?o)" "?a @ replicate (?r - (?N - ?o)) 0" ?B m]
        put_bytes_here [of "take (?r - (?N - ?o)) (drop ?B m)" "replicate (?r - (?N - ?o)) 0" ?a "[]"]
        ring_bytes_around [of ?i ?o ?N ?B m] True s assms(3,4) a r
      by (simp add: incoming_def del: of_nat_diff of_nat_add)
    show ?thesis
      using True by (simp add: read_available_def len w s(4) pos andthen_def ret_def 1 2 del: of_nat_diff of_nat_add)
  next
    case False
    have 1: "ReadArray (int (?B + ?o)) (replicate ?r 0) 0 (int ?r) m = (Inr (incoming d m), m)"
      using ReadArray_ok [of 0 ?r "replicate ?r 0" "?B + ?o" m]
        put_bytes_prefix [of "ring_bytes ?B ?N ?i ?o m" ?r 0] ring_bytes_straight [of ?i ?N ?o ?B m] False s assms(3,4)
      by (simp add: incoming_def)
    have "read_sizes d cb (int ?r) = ret (int ?r, int 0)" unfolding w using False by (rule if_not_P)
    then show ?thesis by (simp add: read_available_def len s(4) pos andthen_def ret_def 1 del: of_nat_add)
  qed
qed

lemma wire_packet_parts:
  "fits c \<Longrightarrow> wire_packet i c = PacketDescriptor_bytes (pipe_descriptor c) @ PipeHeader_bytes (pipe_header c) @ c @
     replicate (8 * packet_len8 c - (24 + length c)) 0 @ le_bytes 4 i @ replicate 4 0"
  using pipe_bytes [of c] by (simp add: wire_packet_def)

lemma parse_wire_packet:
  assumes "fits c"
  shows "parse_packet (wire_packet i c @ rest) = ret (c, int (8 * packet_len8 c + 8))"
proof -
  let ?t = "replicate (8 * packet_len8 c - (24 + length c)) 0 @ le_bytes 4 i @ replicate 4 0 @ rest"
  let ?bs = "PacketDescriptor_bytes (pipe_descriptor c) @ PipeHeader_bytes (pipe_header c) @ c @ ?t"
  have bs: "wire_packet i c @ rest = ?bs" using wire_packet_parts [OF assms, of i] by simp
  have len: "length ?bs = 8 * packet_len8 c + 8 + length rest" unfolding bs [symmetric] by simp
  have d: "PacketDescriptor_Type (pipe_descriptor c) = DataInBand" "DataOffset (pipe_descriptor c) = 16"
    using enum_cast_value(1) [of DataInBand]
    by (simp_all add: PacketDescriptor_Type_def pipe_descriptor_def DataOffset_def push_bit_eq_mult)
  have h: "PipeHeader_Type (pipe_header c) = PM_Data" "uint (RawDataSize (pipe_header c)) = int (length c)"
    using enum_cast_value(2) [of PM_Data] assms
    by (simp_all add: PipeHeader_Type_def pipe_header_def unsigned_of_nat take_bit_nat_eq_self fits_def)
  have b: "8 * packet_len8 c \<le> 524280" "24 \<le> 8 * packet_len8 c" "length c < 600000"
    using fits_len8 [OF assms] packet_len8_bounds [of c] assms by (simp_all add: fits_def)
  have drop16: "drop 16 ?bs = PipeHeader_bytes (pipe_header c) @ c @ ?t"
    and drop8: "drop 8 (PipeHeader_bytes (pipe_header c) @ c @ ?t) = c @ ?t" by simp_all
  show ?thesis
    unfolding bs parse_packet_def PacketDescriptor_read
    using b len by (simp add: fun_eq_iff d h Let_def pipe_descriptor_Length [OF assms] i32_id pipe_sizes drop16 PipeHeader_read
        DataSize_def ToInt32_def)
qed

lemma read_offset_eq:
  assumes "DataMaximumSize d = int N" "N < 2 ^ 30" "unat (rcb_In cb) = i" "unat (rcb_Out cb) = out" "i \<le> N" "out \<le> N"
    and "n \<le> readable N i out"
  shows "read_offset d cb (int n) = ret (int (ring_taken N i out n))"
proof -
  have u: "rcb_In cb < rcb_Out cb \<longleftrightarrow> i < out" "uint (rcb_Out cb) = int out"
    using assms(3,4) by (auto simp: uint_nat word_less_nat_alt)
  have n: "n \<le> N" using assms(5-7) by (auto simp: readable_def split: if_splits)
  have sum: "ToUInt32 (int out + int n) = ret (int (out + n))"
    using n assms(2,6) int32_simps(4) [of "out + n"] by simp
  show ?thesis
  proof (cases "i < out")
    case True
    have "i32 (int n - int (N - out)) = int (n - (N - out))" if "N - out < n"
      using that assms(2,6) n by (simp add: int32_simps del: of_nat_diff)
    moreover have "ToInt32 (int out) = ret (int out)" "i32 (int N - int out) = int (N - out)"
      using assms(2,6) by (simp_all add: int32_simps del: of_nat_diff)
    moreover have "ToUInt32 (int (n - (N - out))) = ret (int (n - (N - out)))"
      using assms(2) n by (simp add: int32_simps del: of_nat_diff)
    ultimately show ?thesis
      using True assms(1) by (intro ext) (simp add: read_offset_def u sum Let_def ring_taken_def ring_next_def del: of_nat_diff of_nat_add)
  next
    case False
    then show ?thesis by (simp add: fun_eq_iff read_offset_def u sum ring_taken_def)
  qed
qed

definition popped :: "UioHvDevice \<Rightarrow> nat \<Rightarrow> memory \<Rightarrow> memory" where
  "popped d n m = put_bytes (ring_of d + 4)
     (le_bytes 4 (ring_taken (data_of d) (in_at (ring_of d) m) (out_at (ring_of d) m) n)) m"

lemma pop_spec:
  assumes "mapped d m" "in_at (ring_of d) m \<le> data_of d" "out_at (ring_of d) m < data_of d"
  shows "length (incoming d m) < 24 \<Longrightarrow> PopPipePacket d m = (Inr [], m)"
    and "incoming d m = wire_packet j c @ rest \<Longrightarrow> fits c \<Longrightarrow>
      PopPipePacket d m = (Inr c, popped d (length (wire_packet j c)) m)"
proof -
  let ?cb = "bytes_RingControlBlock (drop (ring_of d) m)" and ?N = "data_of d"
  let ?i = "in_at (ring_of d) m" and ?o = "out_at (ring_of d) m"
  note s = mapped_sizes [OF assms(1)]
  have cb: "GetRingControlBlock d (IncomingControlOffset d) m = (Inr ?cb, m)"
    using get_control_block [OF assms(1), of "ring_of d"] s(3) by simp
  have av: "GetAvailableSizeInformation d ?cb = ret (int (length (incoming d m)), int (?N - length (incoming d m)))"
    unfolding incoming_def length_ring_bytes using s assms(2,3) by (intro available_sizes) simp_all
  have ra: "read_available d ?cb (int (length (incoming d m))) m = (Inr (incoming d m), m)"
    by (rule read_available_eq [OF assms(1) refl assms(2,3)])
  show "PopPipePacket d m = (Inr [], m)" if "length (incoming d m) < 24"
    using that by (simp add: PopPipePacket_def andthen_def [of "GetRingControlBlock _ _"] cb av pipe_sizes ret_def [of "[]"])
  show "PopPipePacket d m = (Inr c, popped d (length (wire_packet j c)) m)"
    if q: "incoming d m = wire_packet j c @ rest" and c: "fits c"
  proof -
    let ?n = "8 * packet_len8 c + 8"
    have n: "?n \<le> readable ?N ?i ?o" "24 \<le> length (incoming d m)"
      using arg_cong [OF q, of length] packet_len8_bounds [of c] by (simp_all add: incoming_def)
    have ro: "read_offset d ?cb (int ?n) = ret (int (ring_taken ?N ?i ?o ?n))"
      using s assms(2,3) n(1) by (intro read_offset_eq) simp_all
    have "i32 (IncomingControlOffset d + 4) = int (ring_of d + 4)" using s by (simp add: i32_id)
    then have w: "Accessor_Write_UInt32 (i32 (IncomingControlOffset d + 4)) (int (ring_taken ?N ?i ?o ?n)) m = (Inr (), popped d ?n m)"
      using Write_UInt32_ok [of "ring_of d + 4" m] s by (simp add: popped_def)
    have p: "parse_packet (incoming d m) = ret (c, int ?n)" unfolding q by (rule parse_wire_packet [OF c])
    show ?thesis
      using n(2) by (simp add: PopPipePacket_def andthen_def [of "GetRingControlBlock _ _"] cb av pipe_sizes
          andthen_def [of "read_available _ _ _"] ra p ro andthen_def [of "Accessor_Write_UInt32 _ _"] w ret_def [of c]
          del: of_nat_add)
  qed
qed

lemma popped_queues:
  assumes "mapped d m" "offsets_ok d m" "n \<le> length (incoming d m)"
  shows "incoming d (popped d n m) = drop n (incoming d m)" "outgoing d (popped d n m) = outgoing d m"
    "offsets_ok d (popped d n m)" "mapped d (popped d n m)"
    "out_at (ring_of d) (popped d n m) = ring_taken (data_of d) (in_at (ring_of d) m) (out_at (ring_of d) m) n"
proof -
  note s = mapped_sizes [OF assms(1)]
  let ?o = "ring_taken (data_of d) (in_at (ring_of d) m) (out_at (ring_of d) m) n"
  have o: "in_at (ring_of d) m \<le> data_of d" "out_at (ring_of d) m \<le> data_of d"
    "n \<le> readable (data_of d) (in_at (ring_of d) m) (out_at (ring_of d) m)"
    using assms(2,3) by (simp_all add: offsets_ok_def incoming_def)
  have le: "?o \<le> data_of d" using o by (rule ring_taken_le)
  have a: "agree 0 (ring_of d + 4) m (popped d n m)" "agree (ring_of d + 8) (2 * ring_of d) m (popped d n m)"
    unfolding popped_def using s by (auto intro!: agree_put)
  show m: "mapped d (popped d n m)" using assms(1) a(1) by (auto simp: agree_def intro: mapped_length)
  show out: "out_at (ring_of d) (popped d n m) = ?o"
    unfolding popped_def out_at_def [of _ "put_bytes _ _ _"] using s le by (intro bytes_at_put_same) auto
  have f: "in_at (ring_of d) (popped d n m) = in_at (ring_of d) m" "in_at 0 (popped d n m) = in_at 0 m"
      "out_at 0 (popped d n m) = out_at 0 m"
    using agree_bytes_at [OF a(1), of "ring_of d" 4] agree_bytes_at [OF a(1), of 0 4] agree_bytes_at [OF a(1), of 4 4] s
    by (simp_all add: in_at_def out_at_def)
  show "offsets_ok d (popped d n m)" using assms(2) le by (simp add: offsets_ok_def f out)
  show "incoming d (popped d n m) = drop n (incoming d m)"
    unfolding incoming_def f out using agree_ring [OF a(2), of "ring_of d + page_of d" "data_of d"] ring_drop [OF o] o le s by simp
  show "outgoing d (popped d n m) = outgoing d m"
    unfolding outgoing_def f using assms(2) s by (intro agree_ring [OF a(1)]) (auto simp: offsets_ok_def)
qed

end
