(* ===== verification/Client_Channel.thy ===== *)
theory Client_Channel
  imports Client_Ring
begin

text \<open>
  The channel that the client sees on top of the rings.  Two interfaces, \<open>packet_sender\<close> and \<open>packet_receiver\<close>,
  say what an end of a channel promises about an abstract queue; \<open>packet_channel\<close> joins them and shows that what is
  sent arrives in order.  \<open>PushPipePacket\<close> and \<open>PopPipePacket\<close> are interpretations.

  Shown besides: popping is safe whatever the host wrote into the ring; which contents are refused and that a
  refusal changes nothing; what \<open>GetMaximumPushSize\<close> allows; the two ways in which an offset at its limit
  loses or blocks packets; and the read past an array in the handshake when the answer is not there yet.
\<close>

section \<open>Interfaces\<close>

text \<open>Running an operation for every element of a list, and a number of times.\<close>

fun send_all :: "('c \<Rightarrow> 's \<Rightarrow> ('e + unit) \<times> 's) \<Rightarrow> 'c list \<Rightarrow> 's \<Rightarrow> ('e + unit) \<times> 's" where
  "send_all send [] s = (Inr (), s)"
| "send_all send (c # cs) s = (case send c s of (Inl e, t) \<Rightarrow> (Inl e, t) | (Inr u, t) \<Rightarrow> send_all send cs t)"

fun receive_all :: "('s \<Rightarrow> ('e + 'c) \<times> 's) \<Rightarrow> nat \<Rightarrow> 's \<Rightarrow> ('e + 'c list) \<times> 's" where
  "receive_all recv 0 s = (Inr [], s)"
| "receive_all recv (Suc n) s = (case recv s of
     (Inl e, t) \<Rightarrow> (Inl e, t)
   | (Inr c, t) \<Rightarrow> (case receive_all recv n t of (Inl e, u) \<Rightarrow> (Inl e, u) | (Inr cs, u) \<Rightarrow> (Inr (c # cs), u)))"

text \<open>A condition holds before each of the next \<open>n\<close> receptions.\<close>

fun stays :: "('s \<Rightarrow> bool) \<Rightarrow> ('s \<Rightarrow> 'r \<times> 's) \<Rightarrow> nat \<Rightarrow> 's \<Rightarrow> bool" where
  "stays P recv 0 s = True"
| "stays P recv (Suc n) s = (P s \<and> stays P recv n (snd (recv s)))"

locale packet_sender =
  fixes send :: "'c \<Rightarrow> 's \<Rightarrow> ('e + unit) \<times> 's"
    and queue :: "'s \<Rightarrow> 'b list"
    and enc :: "nat \<Rightarrow> 'c \<Rightarrow> 'b list"
    and valid :: "'c \<Rightarrow> bool"
    and inv :: "'s \<Rightarrow> bool"
    and capacity :: nat
  assumes enc_length: "length (enc j c) = length (enc k c)"
    and send_appends: "inv s \<Longrightarrow> valid c \<Longrightarrow> length (enc 0 c) + length (queue s) < capacity \<Longrightarrow>
      \<exists>j t. send c s = (Inr (), t) \<and> queue t = queue s @ enc j c \<and> inv t"
begin

lemma send_all_appends:
  "inv s \<Longrightarrow> list_all valid cs \<Longrightarrow> (\<Sum>c\<leftarrow>cs. length (enc 0 c)) + length (queue s) < capacity \<Longrightarrow>
     \<exists>js t. length js = length cs \<and> send_all send cs s = (Inr (), t) \<and> inv t
       \<and> queue t = queue s @ concat (map2 enc js cs)"
proof (induction cs arbitrary: s)
  case (Cons c cs)
  then obtain j t where t: "send c s = (Inr (), t)" "queue t = queue s @ enc j c" "inv t"
    using send_appends [of s c] by auto
  then have "(\<Sum>c\<leftarrow>cs. length (enc 0 c)) + length (queue t) < capacity"
    using Cons.prems enc_length [of j c 0] by simp
  then obtain js u where "length js = length cs" "send_all send cs t = (Inr (), u)" "inv u"
      "queue u = queue t @ concat (map2 enc js cs)"
    using Cons.IH [of t] Cons.prems t by auto
  then show ?case using t by (intro exI [of _ "j # js"] exI [of _ u]) simp
qed simp

end

locale packet_receiver =
  fixes recv :: "'s \<Rightarrow> ('e + 'c) \<times> 's"
    and queue :: "'s \<Rightarrow> 'b list"
    and enc :: "nat \<Rightarrow> 'c \<Rightarrow> 'b list"
    and valid :: "'c \<Rightarrow> bool"
    and inv :: "'s \<Rightarrow> bool"
    and ready :: "'s \<Rightarrow> bool"
  assumes recv_takes: "inv s \<Longrightarrow> ready s \<Longrightarrow> valid c \<Longrightarrow> queue s = enc j c @ rest \<Longrightarrow>
      \<exists>t. recv s = (Inr c, t) \<and> queue t = rest \<and> inv t"
begin

lemma receive_all_takes:
  "inv s \<Longrightarrow> list_all valid cs \<Longrightarrow> length js = length cs \<Longrightarrow> queue s = concat (map2 enc js cs) @ rest \<Longrightarrow>
     stays ready recv (length cs) s \<Longrightarrow> \<exists>t. receive_all recv (length cs) s = (Inr cs, t) \<and> queue t = rest \<and> inv t"
proof (induction cs arbitrary: js s)
  case (Cons c cs)
  then obtain j ks where js: "js = j # ks" "length ks = length cs" by (cases js) auto
  then obtain t where t: "recv s = (Inr c, t)" "queue t = concat (map2 enc ks cs) @ rest" "inv t"
    using recv_takes [of s c j "concat (map2 enc ks cs) @ rest"] Cons.prems by auto
  then obtain u where "receive_all recv (length cs) t = (Inr cs, u)" "queue u = rest" "inv u"
    using Cons.IH [of t ks] Cons.prems js by auto
  then show ?case using t by simp
qed simp

end

locale packet_channel =
  snd: packet_sender send squeue enc valid sinv capacity + rcv: packet_receiver recv rqueue enc valid rinv ready
  for send :: "'c \<Rightarrow> 's \<Rightarrow> ('e + unit) \<times> 's" and squeue :: "'s \<Rightarrow> 'b list" and enc :: "nat \<Rightarrow> 'c \<Rightarrow> 'b list"
    and valid :: "'c \<Rightarrow> bool" and sinv :: "'s \<Rightarrow> bool" and capacity :: nat
    and recv :: "'t \<Rightarrow> ('f + 'c) \<times> 't" and rqueue :: "'t \<Rightarrow> 'b list" and rinv :: "'t \<Rightarrow> bool" and ready :: "'t \<Rightarrow> bool"
begin

lemma in_order:
  assumes "sinv s" "squeue s = []" "list_all valid cs" "(\<Sum>c\<leftarrow>cs. length (enc 0 c)) < capacity"
    and "rinv r" "rqueue r = squeue (prod.snd (send_all send cs s))" "stays ready recv (length cs) r"
  shows "fst (send_all send cs s) = Inr () \<and> fst (receive_all recv (length cs) r) = Inr cs
    \<and> rqueue (prod.snd (receive_all recv (length cs) r)) = []"
proof -
  obtain js t where "length js = length cs" "send_all send cs s = (Inr (), t)" "squeue t = concat (map2 enc js cs)"
    using snd.send_all_appends [of s cs] assms by auto
  then show ?thesis using rcv.receive_all_takes [of r cs js "[]"] assms by auto
qed

end

section \<open>The rings of a device\<close>

definition ring_inv :: "UioHvDevice \<Rightarrow> memory \<Rightarrow> bool" where
  "ring_inv d m \<longleftrightarrow> mapped d m \<and> offsets_ok d m"

text \<open>The read offset of the incoming ring is not at its end.\<close>

definition inside :: "UioHvDevice \<Rightarrow> memory \<Rightarrow> bool" where
  "inside d m \<longleftrightarrow> out_at (ring_of d) m < data_of d"

lemma push_ok:
  assumes "ring_inv d m" "fits c" "length (wire_packet 0 c) + length (outgoing d m) < data_of d"
  shows "PushPipePacket d c m = (Inr (), pushed d (wire_packet (in_at 0 m) c) m)"
    and "outgoing d (pushed d (wire_packet (in_at 0 m) c) m) = outgoing d m @ wire_packet (in_at 0 m) c"
    and "incoming d (pushed d (wire_packet (in_at 0 m) c) m) = incoming d m"
    and "ring_inv d (pushed d (wire_packet (in_at 0 m) c) m)"
proof -
  have m: "mapped d m" "offsets_ok d m" using assms(1) by (simp_all add: ring_inv_def)
  have o: "in_at 0 m \<le> data_of d" "out_at 0 m \<le> data_of d" using m by (simp_all add: offsets_ok_def)
  show "PushPipePacket d c m = (Inr (), pushed d (wire_packet (in_at 0 m) c) m)"
    using push_spec [OF m(1) o assms(2)] assms(3) by simp
  have l: "length (wire_packet (in_at 0 m) c) + length (outgoing d m) < data_of d" using assms(3) by simp
  note q = pushed_queues [OF m l]
  show "outgoing d (pushed d (wire_packet (in_at 0 m) c) m) = outgoing d m @ wire_packet (in_at 0 m) c"
    "incoming d (pushed d (wire_packet (in_at 0 m) c) m) = incoming d m" using q by simp_all
  have "length (wire_packet (in_at 0 m) c) \<le> data_of d" using l by simp
  then show "ring_inv d (pushed d (wire_packet (in_at 0 m) c) m)"
    using pushed_frame(1) [OF m(1) o(1)] q(3) by (simp add: ring_inv_def)
qed

lemma pop_ok:
  assumes "ring_inv d m" "inside d m" "fits c" "incoming d m = wire_packet j c @ rest"
  shows "PopPipePacket d m = (Inr c, popped d (length (wire_packet j c)) m)"
    and "incoming d (popped d (length (wire_packet j c)) m) = rest"
    and "outgoing d (popped d (length (wire_packet j c)) m) = outgoing d m"
    and "ring_inv d (popped d (length (wire_packet j c)) m)"
proof -
  have m: "mapped d m" "offsets_ok d m" "in_at (ring_of d) m \<le> data_of d" "out_at (ring_of d) m < data_of d"
    using assms(1,2) by (simp_all add: ring_inv_def inside_def offsets_ok_def)
  show "PopPipePacket d m = (Inr c, popped d (length (wire_packet j c)) m)"
    using pop_spec(2) [OF m(1,3,4) assms(4,3)] .
  have "length (wire_packet j c) \<le> length (incoming d m)" by (simp only: assms(4) length_append)
  note q = popped_queues [OF m(1,2) this]
  show "incoming d (popped d (length (wire_packet j c)) m) = rest" using q(1) assms(4) by simp
  show "outgoing d (popped d (length (wire_packet j c)) m) = outgoing d m" by (rule q(2))
  show "ring_inv d (popped d (length (wire_packet j c)) m)" using q(3,4) by (simp add: ring_inv_def)
qed

interpretation push: packet_sender "PushPipePacket d" "outgoing d" wire_packet fits "ring_inv d" "data_of d" for d
  by unfold_locales (simp, metis push_ok(1,2,4))

interpretation pop: packet_receiver "PopPipePacket d" "incoming d" wire_packet fits "ring_inv d" "inside d" for d
  by unfold_locales (metis pop_ok(1,2,4))

interpretation chan: packet_channel "PushPipePacket d" "outgoing d" wire_packet fits "ring_inv d" "data_of d"
    "PopPipePacket e" "incoming e" "ring_inv e" "inside e" for d e
  by unfold_locales

section \<open>Operations that leave memory alone\<close>

definition keeps :: "'a cs \<Rightarrow> bool" where
  "keeps c \<longleftrightarrow> (\<forall>m. snd (c m) = m \<and> fst (c m) \<noteq> Inl Out_of_bounds)"

lemma keeps_cases: "keeps c \<Longrightarrow> (\<exists>e. c m = (Inl (Throws e), m)) \<or> (\<exists>x. c m = (Inr x, m))"
  unfolding keeps_def by (metis fault.exhaust prod.collapse sum.exhaust)

lemma keeps_intros [intro]:
  "keeps (ret x)" "keeps (throw e)"
  "keeps c \<Longrightarrow> (\<And>x. keeps (f x)) \<Longrightarrow> keeps (andthen c f)"
  "b \<longrightarrow> keeps c1 \<Longrightarrow> \<not> b \<longrightarrow> keeps c2 \<Longrightarrow> keeps (if b then c1 else c2)"
proof -
  assume "keeps c" and f: "\<And>x. keeps (f x)"
  then show "keeps (andthen c f)"
    using keeps_cases [of c] unfolding keeps_def andthen_def
    by (auto split: prod.splits sum.splits) (metis fst_conv snd_conv)+
qed (auto simp: keeps_def ret_def throw_def)

lemma keeps_convert: "keeps (ToInt32 v)" "keeps (ToUInt32 v)"
  by (auto simp: ToInt32_def ToUInt32_def)

lemma keeps_accessor: "keeps (Accessor_Read p)" "keeps (ReadArray p arr off n)"
  by (auto simp: keeps_def Accessor_Read_def ReadArray_def ret_def throw_def)

lemma keeps_reads:
  "keeps (GetRingControlBlock d off)" "keeps (GetAvailableSizeInformation d cb)" "keeps (read_sizes d cb k)"
  "keeps (read_offset d cb k)"
  unfolding GetRingControlBlock_def GetAvailableSizeInformation_def read_sizes_def read_offset_def Let_def
  by (intro keeps_intros keeps_convert keeps_accessor impI)+

lemma keeps_read_available: "keeps (read_available d cb k)"
  unfolding read_available_def by (intro keeps_intros keeps_reads) (auto intro!: keeps_accessor split: prod.split)

lemma ReadArray_length: "ReadArray p arr off n m = (Inr bs, m') \<Longrightarrow> length bs = length arr"
  by (auto simp: ReadArray_def ret_def throw_def put_bytes_def split: if_splits)

lemma read_available_length: "read_available d cb k m = (Inr bs, m') \<Longrightarrow> length bs = nat k"
  by (auto simp: read_available_def andthen_def ret_def split: prod.splits sum.splits if_splits dest!: ReadArray_length)

text \<open>The checks on a packet that has its descriptor make sure that its header is there, too.\<close>

lemma read_structure_ok: "n \<le> length bs \<Longrightarrow> read_structure n f bs = ret (f bs)"
  by (simp add: fun_eq_iff read_structure_def ret_def)

lemma andthen_ret_fun: "andthen (ret x) f = f x"
  by (simp add: fun_eq_iff)

lemma keeps_parse_packet:
  assumes "16 \<le> length bs"
  shows "keeps (parse_packet bs)"
proof -
  obtain D where D: "bytes_PacketDescriptor bs = ret D"
    using assms by (simp add: bytes_PacketDescriptor_def read_structure_ok)
  have "uint (RawLength8 D) < 65536" "0 \<le> uint (RawLength8 D)" using unsigned_less [of "RawLength8 D", where ?'a = int] by simp_all
  then have L: "i32 (PacketDescriptor_Length D + 8) = PacketDescriptor_Length D + 8"
    by (simp add: PacketDescriptor_Length_def push_bit_eq_mult i32_id)
  have "\<exists>H. bytes_PipeHeader (drop (nat (DataOffset D)) bs) = ret H"
    if "\<not> int (length bs) < PacketDescriptor_Length D + 8" "\<not> DataOffset D > PacketDescriptor_Length D"
  proof -
    have "0 \<le> DataOffset D" by (simp add: DataOffset_def)
    then have "8 \<le> length (drop (nat (DataOffset D)) bs)" using that by simp
    then show ?thesis by (auto simp: bytes_PipeHeader_def read_structure_ok)
  qed
  note header = this
  show ?thesis
  proof (cases "int (length bs) < PacketDescriptor_Length D + 8 \<or> DataOffset D > PacketDescriptor_Length D")
    case True
    then show ?thesis
      by (auto simp: parse_packet_def D andthen_ret_fun Let_def L)
  next
    case False
    then obtain H where "bytes_PipeHeader (drop (nat (DataOffset D)) bs) = ret H" using header by auto
    then show ?thesis
      unfolding parse_packet_def D andthen_ret_fun Let_def L DataSize_def by (simp only: andthen_ret_fun) (auto intro: keeps_convert)
  qed
qed

lemma pop_effect:
  assumes "mapped d m"
  shows "(\<exists>e. PopPipePacket d m = (Inl (Throws e), m)) \<or> PopPipePacket d m = (Inr [], m)
    \<or> (\<exists>c v. PopPipePacket d m = (Inr c, put_bytes (ring_of d + 4) (le_bytes 4 v) m))"
proof -
  note s = mapped_sizes [OF assms]
  let ?cb = "bytes_RingControlBlock (drop (ring_of d) m)"
  have cb: "GetRingControlBlock d (IncomingControlOffset d) m = (Inr ?cb, m)"
    using get_control_block [OF assms, of "ring_of d"] s(3) by simp
  have w: "Accessor_Write_UInt32 (i32 (IncomingControlOffset d + 4)) v m = (Inr (), put_bytes (ring_of d + 4) (le_bytes 4 (nat v)) m)" for v
    using s by (simp add: i32_id Accessor_Write_UInt32_def nat_add_distrib)
  show ?thesis
  proof (cases "\<exists>k w. GetAvailableSizeInformation d ?cb m = (Inr (k, w), m) \<and> \<not> k < 24")
    case False
    then show ?thesis
      using keeps_cases [OF keeps_reads(2), of d ?cb m]
      by (auto simp: PopPipePacket_def andthen_def cb pipe_sizes ret_def)
  next
    case True
    then obtain k w where k: "GetAvailableSizeInformation d ?cb m = (Inr (k, w), m)" "\<not> k < 24" by blast
    show ?thesis
    proof (cases "\<exists>bs. read_available d ?cb k m = (Inr bs, m)")
      case False
      then show ?thesis
        using k keeps_cases [OF keeps_read_available, of d ?cb k m] by (auto simp: PopPipePacket_def andthen_def cb pipe_sizes)
    next
      case True
      then obtain bs where bs: "read_available d ?cb k m = (Inr bs, m)" by blast
      then have "keeps (parse_packet bs)"
        using read_available_length [OF bs] k(2) by (intro keeps_parse_packet) simp
      then consider e where "parse_packet bs m = (Inl (Throws e), m)" | c n where "parse_packet bs m = (Inr (c, n), m)"
        using keeps_cases [of "parse_packet bs" m] by auto
      then show ?thesis
      proof cases
        case 1
        then show ?thesis using k bs by (auto simp: PopPipePacket_def andthen_def cb pipe_sizes)
      next
        case 2
        then show ?thesis
          using keeps_cases [OF keeps_reads(4), of d ?cb n m] k bs
          by (auto simp: PopPipePacket_def andthen_def cb pipe_sizes w ret_def)
      qed
    qed
  qed
qed

section \<open>Sizes and refusals\<close>

lemma oversized_length:
  assumes "\<not> fits c" "length c < 2 ^ 31"
  shows "new_descriptor (int (length c)) = throw OverflowException"
proof -
  let ?x = "24 + int (length c)"
  have x: "524280 < ?x" "?x < 2 ^ 31 + 24" using assms by (simp_all add: fits_def)
  let ?v = "drop_bit 3 (GetAlignedSize (i32 ?x) 8)"
  have "?v < 0 \<or> 2 ^ 16 \<le> ?v"
  proof (cases "?x < 2 ^ 31 - 7")
    case True
    then have "?v = (?x + 7) div 8" using x by (simp add: i32_id GetAlignedSize_8 drop_bit_eq_div)
    then show ?thesis using x zdiv_mono1 [of 524288 "?x + 7" 8] by simp
  next
    case False
    have "i32 (i32 ?x + 7) < 0"
    proof (cases "?x < 2 ^ 31")
      case True
      then show ?thesis using False x i32_wrap [of "?x + 7"] by (simp add: i32_id)
    next
      case wrapped: False
      then show ?thesis using x i32_wrap [of ?x] i32_id [of "?x - 2 ^ 32 + 7"] by simp
    qed
    then show ?thesis by (simp add: GetAlignedSize_def add.commute)
  qed
  then have "ToUInt16 ?v = throw OverflowException" by (auto simp: ToUInt16_def)
  then show ?thesis
    by (intro ext) (simp add: new_descriptor_def pipe_sizes set_Length_def andthen_assoc set_Length_fits(2) throw_def)
qed

lemma maximum_push_size:
  assumes "ring_inv d m"
  shows "GetMaximumPushSize d m = (Inr (min 16384 (8 * int ((data_of d - length (outgoing d m) - 32) div 8))), m)"
proof -
  have m: "mapped d m" "offsets_ok d m" using assms by (simp_all add: ring_inv_def)
  note s = mapped_sizes [OF m(1)]
  let ?cb = "bytes_RingControlBlock (drop 0 m)" and ?N = "data_of d"
  let ?r = "readable ?N (in_at 0 m) (out_at 0 m)"
  have cb: "GetRingControlBlock d (OutgoingControlOffset d) m = (Inr ?cb, m)"
    using get_control_block [OF m(1), of 0] s(1) by simp
  have av: "GetAvailableSizeInformation d ?cb = ret (int ?r, int (?N - ?r))"
    using s m(2) by (intro available_sizes) (simp_all add: offsets_ok_def del: drop0)
  let ?a = "int (?N - ?r) - 32"
  have smod_nat: "int n smod 8 = int (n mod 8)" for n by (simp add: smod_mod_positive zmod_int)
  have below: "int n - int (n mod 8) = int (8 * (n div 8))" for n
    by (metis add_diff_cancel_right' mult_div_mod_eq of_nat_add)
  have a: "i32 ?a = ?a" using s by (simp add: i32_id)
  have v: "(if i32 (?a - ?a smod 8) < 0 then 0 else min (i32 (?a - ?a smod 8)) 16384) =
      min 16384 (8 * int ((?N - ?r - 32) div 8))"
  proof (cases "?N - ?r < 32")
    case True
    define k where "k = 32 - (?N - ?r)"
    have "?a = - int k" "k \<le> 32" using True by (simp_all add: k_def)
    moreover have "- int k - (- int k) smod 8 = - int (8 * (k div 8))"
      using below [of k] by (simp add: smod_nat)
    ultimately have "i32 (?a - ?a smod 8) = - int (8 * (k div 8))" by (simp only:) (simp add: i32_id)
    then show ?thesis using True by (simp del: of_nat_diff)
  next
    case False
    then have "?a = int (?N - ?r - 32)" by simp
    then have "?a - ?a smod 8 = int (8 * ((?N - ?r - 32) div 8))"
      using below [of "?N - ?r - 32"] by (simp only: smod_nat)
    then show ?thesis using s by (simp add: i32_id min.commute)
  qed
  show ?thesis
    by (simp add: GetMaximumPushSize_def andthen_def [of "GetRingControlBlock _ _"] cb av pipe_sizes Let_def a v
        ret_def [of "min _ _"] outgoing_def cong: if_cong split del: if_split del: drop0 of_nat_diff)
qed

lemma push_within_maximum:
  assumes "ring_inv d m" "GetMaximumPushSize d m = (Inr k, m)" "0 < k" "int (length c) \<le> k"
  shows "fst (PushPipePacket d c m) = Inr ()" "fits c"
proof -
  let ?f = "data_of d - length (outgoing d m)"
  have k: "k = min 16384 (8 * int ((?f - 32) div 8))" using maximum_push_size [OF assms(1)] assms(2) by simp
  have "length c \<le> 8 * ((?f - 32) div 8)" using assms(4) k by simp
  then have "packet_len8 c \<le> (?f - 32) div 8 + 3" by (simp add: packet_len8_def)
  moreover have "32 \<le> ?f" "8 * ((?f - 32) div 8) \<le> ?f - 32" using assms(3) k by (auto intro: ccontr)
  ultimately have "length (wire_packet (in_at 0 m) c) \<le> ?f" by simp
  moreover show "fits c" using assms(4) k by (simp add: fits_def)
  ultimately show "fst (PushPipePacket d c m) = Inr ()" using push_spec [of d m c] assms(1) by (simp add: ring_inv_def offsets_ok_def)
qed

section \<open>A small device\<close>

text \<open>Two rings of 64 bytes with control blocks of 68 bytes, both offsets of each ring at \<open>k\<close>.\<close>

definition demo_device :: UioHvDevice where "demo_device = device_layout 68 132"

definition demo_half :: "nat \<Rightarrow> memory" where
  "demo_half k = le_bytes 4 k @ le_bytes 4 k @ replicate 124 0"

definition demo_memory :: "nat \<Rightarrow> memory" where
  "demo_memory k = demo_half k @ demo_half k"

lemma demo_sizes: "ring_of demo_device = 132" "page_of demo_device = 68" "data_of demo_device = 64"
  by (simp_all add: demo_device_def device_layout_def ring_of_def page_of_def data_of_def)

lemma demo_mapped: "length m = 264 \<Longrightarrow> mapped demo_device m"
  by (simp add: mapped_def demo_device_def device_layout_def)

lemma length_demo_memory [simp]: "length (demo_memory k) = 264"
  by (simp add: demo_memory_def demo_half_def)

lemma demo_offsets:
  assumes "k < 64"
  shows "in_at 0 (demo_memory k) = k" "out_at 0 (demo_memory k) = k"
    "in_at 132 (demo_memory k) = k" "out_at 132 (demo_memory k) = k"
proof -
  have "bytes_at (132 + p) 4 (demo_half k @ demo_half k) = bytes_at p 4 (demo_half k)" for p
    using bytes_at_append [of "demo_half k" p 4 "demo_half k"] by (simp add: demo_half_def)
  from this [of 0] this [of 4] show "in_at 132 (demo_memory k) = k" "out_at 132 (demo_memory k) = k"
    using assms by (simp_all add: in_at_def out_at_def demo_memory_def demo_half_def read_back)
  show "in_at 0 (demo_memory k) = k" "out_at 0 (demo_memory k) = k"
    using assms by (simp_all add: in_at_def out_at_def demo_memory_def demo_half_def read_back)
qed

lemma demo_ring: "k < 64 \<Longrightarrow> ring_inv demo_device (demo_memory k)"
  by (simp add: ring_inv_def demo_mapped offsets_ok_def demo_offsets demo_sizes)

lemma demo_empty: "k < 64 \<Longrightarrow> outgoing demo_device (demo_memory k) = []"
  "k < 64 \<Longrightarrow> incoming demo_device (demo_memory k) = []"
  by (simp_all add: outgoing_def incoming_def ring_bytes_def demo_offsets demo_sizes readable_def)

section \<open>Properties\<close>

text \<open>C5. Pushing refines an append to a queue: as long as the packet leaves some of the outgoing ring free, the push
  succeeds, the bytes between the offsets of the outgoing ring are those from before followed by the wire format of the
  content, also when the packet goes around the end of the ring, the incoming ring is untouched and
  the offsets of both rings stay in range.\<close>

theorem push_appends_packet:
  assumes "ring_inv d m" "fits c" "length (wire_packet 0 c) + length (outgoing d m) < data_of d"
  shows "fst (PushPipePacket d c m) = Inr ()
    \<and> outgoing d (snd (PushPipePacket d c m)) = outgoing d m @ wire_packet (in_at 0 m) c
    \<and> incoming d (snd (PushPipePacket d c m)) = incoming d m
    \<and> ring_inv d (snd (PushPipePacket d c m))"
  using push_ok [OF assms] by simp

theorem push_appends_packet_witness:
  "outgoing demo_device (snd (PushPipePacket demo_device [1, 2, 3] (demo_memory 40))) = wire_packet 40 [1, 2, 3]"
  using push_appends_packet [OF demo_ring, of 40 "[1, 2, 3]"]
  by (simp add: fits_def demo_empty demo_sizes demo_offsets packet_len8_def)



text \<open>C10. Packets arrive in order: when a list of contents is pushed into an empty outgoing ring that has room for all of
  them, and the incoming ring of the other end holds what the outgoing ring then holds, popping as many packets
  returns the same contents in the same order and leaves that ring empty, provided the reader is never
  at the very end of its ring.\<close>

theorem packets_arrive_in_order:
  assumes "ring_inv d m" "outgoing d m = []" "list_all fits cs" "(\<Sum>c\<leftarrow>cs. length (wire_packet 0 c)) < data_of d"
    and "ring_inv e n" "incoming e n = outgoing d (snd (send_all (PushPipePacket d) cs m))"
    and "stays (inside e) (PopPipePacket e) (length cs) n"
  shows "fst (send_all (PushPipePacket d) cs m) = Inr ()
    \<and> fst (receive_all (PopPipePacket e) (length cs) n) = Inr cs
    \<and> incoming e (snd (receive_all (PopPipePacket e) (length cs) n)) = []"
  using chan.in_order [OF assms] .

text \<open>C13. Popping is safe whatever the host has written, control block included: it reads no structure past the end of
  an array, it writes nothing but the four bytes of the read offset of the incoming ring, and when it throws it
  has written nothing.\<close>

theorem pop_any_ring_content:
  assumes "mapped d m"
  shows "fst (PopPipePacket d m) \<noteq> Inl Out_of_bounds
    \<and> agree 0 (ring_of d + 4) m (snd (PopPipePacket d m))
    \<and> agree (ring_of d + 8) (2 * ring_of d) m (snd (PopPipePacket d m))
    \<and> (\<forall>e. fst (PopPipePacket d m) = Inl e \<longrightarrow> snd (PopPipePacket d m) = m)"
proof -
  have "agree 0 (ring_of d + 4) m (put_bytes (ring_of d + 4) (le_bytes 4 v) m)"
    "agree (ring_of d + 8) (2 * ring_of d) m (put_bytes (ring_of d + 4) (le_bytes 4 v) m)" for v
    using mapped_sizes [OF assms] by (auto intro!: agree_put)
  then show ?thesis using pop_effect [OF assms] by (auto simp: agree_def)
qed

theorem pop_any_ring_content_witness: "fst (PopPipePacket demo_device (replicate 264 255)) \<noteq> Inl Out_of_bounds"
  using pop_any_ring_content [OF demo_mapped, of "replicate 264 255"] by simp

text \<open>C23. A push that is refused changes nothing: a content whose packet does not fit the 16-bit length of a descriptor
  ends in an \<open>OverflowException\<close>, for every length an array can have, and a packet larger than the free part of
  the ring in the exception for insufficient space.\<close>

theorem push_refusals:
  assumes "ring_inv d m" "length c < 2 ^ 31"
  shows "(\<not> fits c \<longrightarrow> PushPipePacket d c m = (Inl (Throws OverflowException), m))
    \<and> (fits c \<and> data_of d < length (wire_packet 0 c) + length (outgoing d m) \<longrightarrow>
        PushPipePacket d c m = (Inl (Throws (Exception_of ''Insufficient Space'')), m))"
proof -
  have "length (outgoing d m) \<le> data_of d"
    using assms(1) by (auto simp: ring_inv_def offsets_ok_def outgoing_def readable_def)
  then have "fits c \<Longrightarrow> data_of d < length (wire_packet 0 c) + length (outgoing d m) \<Longrightarrow>
      PushPipePacket d c m = (Inl (Throws (Exception_of ''Insufficient Space'')), m)"
    using push_spec [of d m c] assms(1) by (auto simp: ring_inv_def offsets_ok_def)
  moreover have "\<not> fits c \<Longrightarrow> PushPipePacket d c m = (Inl (Throws OverflowException), m)"
    using oversized_length [OF _ assms(2)] by (simp add: PushPipePacket_def)
  ultimately show ?thesis by blast
qed

theorem push_refusals_witness:
  "PushPipePacket demo_device (replicate 40 7) (demo_memory 0) =
     (Inl (Throws (Exception_of ''Insufficient Space'')), demo_memory 0)"
  using push_refusals [OF demo_ring, of 0 "replicate 40 7"] by (simp add: fits_def demo_empty demo_sizes packet_len8_def)

text \<open>\<open>GetMaximumPushSize\<close> never throws and returns a multiple of 8 of at most 16384, and when it is not 0 the ring
  accepts every content up to that size.\<close>

theorem maximum_push_accepted:
  assumes "ring_inv d m"
  shows "\<exists>k. GetMaximumPushSize d m = (Inr k, m) \<and> 0 \<le> k \<and> k \<le> 16384 \<and> 8 dvd k
    \<and> (0 < k \<and> int (length c) \<le> k \<longrightarrow> fst (PushPipePacket d c m) = Inr ())"
proof -
  let ?k = "min 16384 (8 * int ((data_of d - length (outgoing d m) - 32) div 8))"
  have "8 dvd ?k" by (simp add: min_def)
  then show ?thesis
    using maximum_push_size [OF assms] push_within_maximum(1) [OF assms] by (intro exI [of _ ?k]) simp
qed

theorem maximum_push_accepted_witness:
  "fst (PushPipePacket demo_device (replicate 32 1) (demo_memory 0)) = Inr ()"
  using maximum_push_accepted [OF demo_ring, of 0 "replicate 32 1"]
  by (auto simp: maximum_push_size [OF demo_ring] demo_empty demo_sizes)

text \<open>The memory as the other end of the channel sees it: the two rings exchanged.\<close>

definition crossed :: "UioHvDevice \<Rightarrow> memory \<Rightarrow> memory" where
  "crossed d m = drop (ring_of d) m @ take (ring_of d) m"

lemma crossed_nth:
  assumes "mapped d m" "q < ring_of d"
  shows "crossed d m ! (ring_of d + q) = m ! q" "crossed d m ! q = m ! (ring_of d + q)"
  using mapped_sizes [OF assms(1)] assms(2) by (simp_all add: crossed_def nth_append)

lemma crossed_bytes_at:
  assumes "mapped d m" "q + k \<le> ring_of d"
  shows "bytes_at (ring_of d + q) k (crossed d m) = bytes_at q k m" "bytes_at q k (crossed d m) = bytes_at (ring_of d + q) k m"
  unfolding bytes_at_def using mapped_sizes [OF assms(1)] assms crossed_nth [OF assms(1)]
  by (auto intro!: arg_cong [of _ _ le_val] nth_equalityI simp: crossed_def nth_append ac_simps)

lemma crossed_rings:
  assumes "ring_inv d m"
  shows "incoming d (crossed d m) = outgoing d m" "ring_inv d (crossed d m)"
    "out_at (ring_of d) (crossed d m) = out_at 0 m"
proof -
  have m: "mapped d m" "offsets_ok d m" using assms by (simp_all add: ring_inv_def)
  note s = mapped_sizes [OF m(1)]
  have o: "in_at (ring_of d) (crossed d m) = in_at 0 m" "out_at (ring_of d) (crossed d m) = out_at 0 m"
      "in_at 0 (crossed d m) = in_at (ring_of d) m" "out_at 0 (crossed d m) = out_at (ring_of d) m"
    using crossed_bytes_at [OF m(1), of 0 4] crossed_bytes_at [OF m(1), of 4 4] s by (simp_all add: in_at_def out_at_def)
  show "out_at (ring_of d) (crossed d m) = out_at 0 m" by (rule o)
  show "ring_inv d (crossed d m)"
  proof -
    have "length (crossed d m) = length m" using s by (simp add: crossed_def)
    then show ?thesis using m mapped_length [OF m(1)] by (simp add: ring_inv_def offsets_ok_def o)
  qed
  have "ring_pos (data_of d) (out_at 0 m + k) < data_of d" if "k < readable (data_of d) (in_at 0 m) (out_at 0 m)" for k
    using that m(2) by (auto simp: ring_pos_def readable_def offsets_ok_def split: if_splits)
  then show "incoming d (crossed d m) = outgoing d m"
    unfolding incoming_def outgoing_def ring_bytes_def o using crossed_nth(1) [OF m(1)] s(6)
    by (intro map_cong refl) (simp add: add.assoc)
qed

theorem packets_arrive_in_order_witness:
  "fst (receive_all (PopPipePacket demo_device) 1
     (crossed demo_device (snd (send_all (PushPipePacket demo_device) [[1, 2, 3]] (demo_memory 40))))) = Inr [[1, 2, 3]]"
proof -
  let ?m = "snd (send_all (PushPipePacket demo_device) [[1, 2, 3]] (demo_memory 40))"
  let ?p = "pushed demo_device (wire_packet 40 [1, 2, 3]) (demo_memory 40)"
  have "length (wire_packet 0 [1, 2, 3]) + length (outgoing demo_device (demo_memory 40)) < data_of demo_device"
    by (simp add: demo_empty demo_sizes packet_len8_def)
  note p = push_ok [OF demo_ring _ this]
  have m: "?m = ?p" using p(1) by (simp add: fits_def demo_offsets)
  have r: "ring_inv demo_device ?m" unfolding m using p(4) by (simp add: fits_def demo_offsets)
  have "out_at 0 ?p = 40"
    using pushed_offsets(1) [OF demo_mapped, of "demo_memory 40" "wire_packet 40 [1, 2, 3]"]
    by (simp add: demo_offsets demo_sizes packet_len8_def)
  then have i: "inside demo_device (crossed demo_device ?m)"
    using crossed_rings(3) [OF r] m by (simp add: inside_def demo_sizes)
  show ?thesis
    using packets_arrive_in_order [OF demo_ring, of 40 "[[1, 2, 3]]", OF _ _ _ _ crossed_rings(2,1) [OF r]] i
    by (simp add: demo_empty demo_sizes fits_def packet_len8_def)
qed

lemma in_at_put:
  "p + length bs \<le> length m \<Longrightarrow> c + 4 \<le> p \<or> p + length bs \<le> c \<Longrightarrow> in_at c (put_bytes p bs m) = in_at c m"
  "p + length bs \<le> length m \<Longrightarrow> c + 8 \<le> p \<or> p + length bs \<le> c + 4 \<Longrightarrow> out_at c (put_bytes p bs m) = out_at c m"
  by (auto simp: in_at_def out_at_def intro!: bytes_at_put_other)

text \<open>C24. Pushing what \<open>GetMaximumPushSize\<close> allows can lose everything: when the free part of the ring is a multiple of 8
  and small enough to be offered whole, a content of the offered size fills the ring completely, its two
  offsets become equal, and the ring, full of packets, reads as empty, unless the reader is at offset 0.\<close>

theorem maximum_push_empties_ring:
  assumes "ring_inv d m" "0 < out_at 0 m" "8 dvd data_of d - length (outgoing d m)"
    and "GetMaximumPushSize d m = (Inr k, m)" "0 < k" "k < 16384" "int (length c) = k"
  shows "fst (PushPipePacket d c m) = Inr () \<and> outgoing d (snd (PushPipePacket d c m)) = []"
proof -
  let ?f = "data_of d - length (outgoing d m)"
  have m: "mapped d m" "in_at 0 m \<le> data_of d" "out_at 0 m \<le> data_of d" using assms(1) by (simp_all add: ring_inv_def offsets_ok_def)
  have "int (length c) = 8 * int ((?f - 32) div 8)" "fits c"
    using assms(4-7) maximum_push_size [OF assms(1)] by (auto simp: min_def fits_def split: if_splits)
  then have l: "length c = 8 * ((?f - 32) div 8)" by linarith
  have f: "32 < ?f" using l assms(5,7) by (auto intro: ccontr)
  obtain q where q: "?f = 8 * q" using assms(3) by auto
  then have "4 \<le> q" using f by simp
  then obtain p where "q = p + 4" using le_Suc_ex [of 4 q] by (auto simp: add.commute)
  then have n: "length (wire_packet (in_at 0 m) c) = ?f" using l q by (simp add: packet_len8_def)
  then have push: "PushPipePacket d c m = (Inr (), pushed d (wire_packet (in_at 0 m) c) m)"
    using push_spec [OF m \<open>fits c\<close>] by simp
  have le: "length (wire_packet (in_at 0 m) c) \<le> data_of d" using n by simp
  have "readable (data_of d) (ring_next (data_of d) (in_at 0 m) ?f) (out_at 0 m) = 0"
    using f assms(2) m by (intro ring_store_fills) (auto simp: outgoing_def)
  then have "length (outgoing d (pushed d (wire_packet (in_at 0 m) c) m)) = 0"
    using pushed_frame(2) [OF m(1,2) le] pushed_offsets(1) [OF m(1,2) le] n by (simp add: outgoing_def)
  then show ?thesis by (simp add: push)
qed

theorem maximum_push_empties_ring_witness:
  "outgoing demo_device (snd (PushPipePacket demo_device (replicate 32 1) (demo_memory 8))) = []"
  using maximum_push_empties_ring [OF demo_ring, of 8 32 "replicate 32 1"]
  by (simp add: demo_offsets demo_empty demo_sizes maximum_push_size [OF demo_ring])

text \<open>A packet that ends exactly at the end of the outgoing ring leaves a write offset equal to the size of the ring
  instead of 0; when the host then has read everything and wraps its own offset to 0, the client takes the empty
  ring for a full one: it offers no space and refuses every push.\<close>

theorem push_to_ring_end_blocks:
  assumes "ring_inv d m" "outgoing d m = []" "fits c" "in_at 0 m + length (wire_packet 0 c) = data_of d" "0 < in_at 0 m"
    and "m' = put_bytes 4 (le_bytes 4 0) (snd (PushPipePacket d c m))"
  shows "in_at 0 m' = data_of d \<and> GetMaximumPushSize d m' = (Inr 0, m')
    \<and> (fits c' \<longrightarrow> PushPipePacket d c' m' = (Inl (Throws (Exception_of ''Insufficient Space'')), m'))"
proof -
  have m: "mapped d m" "in_at 0 m \<le> data_of d" using assms(1) by (simp_all add: ring_inv_def offsets_ok_def)
  let ?p = "pushed d (wire_packet (in_at 0 m) c) m"
  have l: "length (wire_packet 0 c) + length (outgoing d m) < data_of d" using assms(2,4,5) by simp
  note p = push_ok [OF assms(1,3) l]
  have s: "mapped d ?p" using p(4) by (simp add: ring_inv_def)
  note z = mapped_sizes [OF s]
  have m': "m' = put_bytes 4 (le_bytes 4 0) ?p" using assms(6) p(1) by simp
  have len: "length m' = length ?p" unfolding m' using z by simp
  have "in_at 0 m' = in_at 0 ?p" unfolding m' using z by (intro in_at_put) auto
  also have "\<dots> = data_of d"
    using pushed_frame(2) [OF m(1,2), of "wire_packet (in_at 0 m) c"] assms(4) by (auto simp: ring_next_def split: if_splits)
  finally have i: "in_at 0 m' = data_of d" .
  have o: "out_at 0 m' = 0"
    unfolding m' using bytes_at_put_same [of 4 4 ?p 0] z by (simp add: out_at_def [of 0 "put_bytes _ _ _"])
  have r: "in_at (ring_of d) m' = in_at (ring_of d) ?p" "out_at (ring_of d) m' = out_at (ring_of d) ?p"
    unfolding m' using z by (auto intro!: in_at_put)
  have inv: "ring_inv d m'"
    using p(4) mapped_length [OF s len] i o r by (simp add: ring_inv_def offsets_ok_def)
  have "length (outgoing d m') = data_of d" by (simp add: outgoing_def i o readable_def)
  then show ?thesis
    using i maximum_push_size [OF inv] push_spec [of d m' c'] inv by (simp add: ring_inv_def offsets_ok_def)
qed

theorem push_to_ring_end_blocks_witness:
  "GetMaximumPushSize demo_device (put_bytes 4 (le_bytes 4 0) (snd (PushPipePacket demo_device [1, 2, 3] (demo_memory 24)))) =
     (Inr 0, put_bytes 4 (le_bytes 4 0) (snd (PushPipePacket demo_device [1, 2, 3] (demo_memory 24))))"
  using push_to_ring_end_blocks [OF demo_ring, of 24 "[1, 2, 3]", OF _ _ _ _ _ refl]
  by (simp add: demo_empty demo_sizes demo_offsets fits_def packet_len8_def)

text \<open>The same offset stops the reader: once a packet of the incoming ring has ended exactly at the end of the ring
  and been popped, every pop that finds another packet throws, because it starts reading at the end of the
  mapped memory, and the ring stays as it is.\<close>

theorem pop_at_ring_end_throws:
  assumes "mapped d m" "in_at (ring_of d) m \<le> data_of d" "out_at (ring_of d) m = data_of d" "24 \<le> length (incoming d m)"
  shows "PopPipePacket d m = (Inl (Throws ArgumentOutOfRangeException), m)"
proof -
  note s = mapped_sizes [OF assms(1)]
  let ?cb = "bytes_RingControlBlock (drop (ring_of d) m)" and ?N = "data_of d" and ?i = "in_at (ring_of d) m"
  let ?r = "readable ?N ?i ?N"
  have cb: "GetRingControlBlock d (IncomingControlOffset d) m = (Inr ?cb, m)"
    using get_control_block [OF assms(1), of "ring_of d"] s(3) by simp
  have av: "GetAvailableSizeInformation d ?cb = ret (int ?r, int (?N - ?r))"
    using s assms(2,3) by (intro available_sizes) simp_all
  have r: "24 \<le> ?r" "?i < ?N" "?r \<le> ?N" using assms(2-4) by (auto simp: incoming_def readable_def split: if_splits)
  have "read_sizes d ?cb (int ?r) = ret (0, int ?r)"
    using read_sizes_eq [of d ?N ?cb ?i ?N ?r] s assms(2,3) r by simp
  moreover have "ReadArray (IncomingDataOffset d + uint (rcb_Out ?cb)) (replicate ?r 0) 0 0 m = (Inl (Throws ArgumentOutOfRangeException), m)"
    using s assms(3) by (simp add: ReadArray_def throw_def uint_nat)
  ultimately have "read_available d ?cb (int ?r) m = (Inl (Throws ArgumentOutOfRangeException), m)"
    by (simp add: read_available_def andthen_def ret_def)
  then show ?thesis
    using r(1) by (simp add: PopPipePacket_def andthen_def [of "GetRingControlBlock _ _"] cb av pipe_sizes andthen_def [of "read_available _ _ _"])
qed

theorem pop_at_ring_end_throws_witness:
  "fst (PopPipePacket demo_device (replicate 132 0 @ le_bytes 4 30 @ le_bytes 4 64 @ replicate 124 0)) =
     Inl (Throws ArgumentOutOfRangeException)"
proof -
  let ?m = "replicate 132 0 @ le_bytes 4 30 @ le_bytes 4 64 @ replicate 124 (0 :: u8)"
  have "in_at 132 ?m = 30" "out_at 132 ?m = 64"
    using bytes_at_append [of "replicate 132 0" 0 4] bytes_at_append [of "replicate 132 0" 4 4]
    by (simp_all add: in_at_def out_at_def read_back)
  then show ?thesis
    using pop_at_ring_end_throws [OF demo_mapped, of ?m] by (simp add: demo_sizes incoming_def readable_def)
qed

text \<open>C26. The handshake reads past an array when the answer of the host is not there yet: \<open>Receive\<close> then waits for an
  interrupt and returns an empty array, from which \<open>ServiceMain\<close> reads the 17 bytes of a response.\<close>

theorem early_receive_reads_past_array:
  assumes "ring_inv d m" "inside d m" "length (incoming d m) < 24" "0 \<le> posix_read E"
  shows "Receive E d m = (Inr [], m) \<and> version_response E d m = (Inl Out_of_bounds, m)"
proof -
  have "PopPipePacket d m = (Inr [], m)"
    using pop_spec(1) [of d m] assms by (simp add: ring_inv_def inside_def offsets_ok_def)
  then have "Receive E d m = (Inr [], m)"
    using assms(4) by (simp add: Receive_def andthen_def WaitHost_def WaitInterrupt_def ret_def)
  then show ?thesis
    by (simp add: version_response_def andthen_def bytes_SynthRdpVersionResponse_def read_structure_def)
qed

theorem early_receive_reads_past_array_witness:
  "version_response \<lparr>posix_write = \<lambda>bs. int (length bs), posix_read = 4, posix_errno = 0\<rparr> demo_device (demo_memory 0) =
     (Inl Out_of_bounds, demo_memory 0)"
  using early_receive_reads_past_array [OF demo_ring, of 0 "\<lparr>posix_write = \<lambda>bs. int (length bs), posix_read = 4, posix_errno = 0\<rparr>"]
  by (simp add: inside_def demo_sizes demo_offsets demo_empty)

lemma new_device_maps:
  assumes "find (\<lambda>i. item_Name i = ''txrx_rings'' \<and> item_Offset i = 0) items = Some it"
    and "item_Size it = 2 * ring" "int (length m) = 2 * ring" "68 \<le> page" "page < ring" "ring < 2 ^ 30"
  shows "\<exists>d m'. new_UioHvDevice page items m = (Inr d, m') \<and> mapped d m' \<and> RingBufferSize d = ring
    \<and> ControlMaximumSize d = page \<and> bytes_at (ring_of d + 8) 4 m' = 0
    \<and> (offsets_ok d m \<longrightarrow> ring_inv d m' \<and> outgoing d m' = outgoing d m \<and> incoming d m' = incoming d m)"
  using assms(1)
proof (induction items)
  case (Cons i items)
  let ?d = "device_layout page ring"
  show ?case
  proof (cases "item_Name i = ''txrx_rings'' \<and> item_Offset i = 0")
    case True
    then have it: "i = it" using Cons.prems by simp
    have m: "mapped ?d m" using assms by (simp add: mapped_def device_layout_def)
    note s = mapped_sizes [OF m]
    let ?m' = "put_bytes (ring_of ?d + 8) (le_bytes 4 0) m"
    have "2 * ring sdiv 2 = ring" using assms(4,5) by (simp add: signed_divide_int_def)
    then have "ToInt32 (item_Size i sdiv 2) = ret ring" using assms it by (simp add: ToInt32_def)
    moreover have "i32 (IncomingControlOffset ?d + 2 * 4) = int (ring_of ?d + 8)" using s by (simp add: i32_id)
    ultimately have new: "new_UioHvDevice page (i # items) m = (Inr ?d, ?m')"
      using True Write_UInt32_ok [of "ring_of ?d + 8" m 0] s by (simp add: Let_def andthen_def ret_def)
    have a: "agree 0 (ring_of ?d + 8) m ?m'" "agree (ring_of ?d + 12) (2 * ring_of ?d) m ?m'"
      using s by (auto intro!: agree_put)
    have m': "mapped ?d ?m'" using m a(1) by (auto simp: agree_def intro: mapped_length)
    have o: "in_at 0 ?m' = in_at 0 m" "out_at 0 ?m' = out_at 0 m" "in_at (ring_of ?d) ?m' = in_at (ring_of ?d) m"
        "out_at (ring_of ?d) ?m' = out_at (ring_of ?d) m"
      using s by (auto intro!: in_at_put)
    have "outgoing ?d ?m' = outgoing ?d m" if "offsets_ok ?d m"
      unfolding outgoing_def o using that s by (intro agree_ring [OF a(1)]) (auto simp: offsets_ok_def)
    moreover have "incoming ?d ?m' = incoming ?d m" if "offsets_ok ?d m"
      unfolding incoming_def o using that s by (intro agree_ring [OF a(2)]) (auto simp: offsets_ok_def)
    moreover have "bytes_at (ring_of ?d + 8) 4 ?m' = 0" using s by (intro bytes_at_put_same) auto
    moreover have "RingBufferSize ?d = ring" "ControlMaximumSize ?d = page" by (simp_all add: device_layout_def)
    moreover have "offsets_ok ?d m \<Longrightarrow> ring_inv ?d ?m'" using m' by (simp add: ring_inv_def offsets_ok_def o)
    ultimately show ?thesis using m' new by blast
  next
    case False
    then show ?thesis using Cons by auto
  qed
qed simp

text \<open>The constructor takes the first mapping with the name of the rings and offset 0, and when its memory is two rings
  larger than their control pages, the result is a device mapped onto it with interrupts from the host unmasked.\<close>

theorem constructor_maps_rings:
  assumes "find (\<lambda>i. item_Name i = ''txrx_rings'' \<and> item_Offset i = 0) items = Some it"
    and "item_Size it = 2 * ring" "int (length m) = 2 * ring" "68 \<le> page" "page < ring" "ring < 2 ^ 30"
  shows "\<exists>d m'. new_UioHvDevice page items m = (Inr d, m') \<and> mapped d m' \<and> RingBufferSize d = ring
    \<and> ControlMaximumSize d = page \<and> bytes_at (ring_of d + 8) 4 m' = 0
    \<and> (offsets_ok d m \<longrightarrow> ring_inv d m' \<and> outgoing d m' = outgoing d m \<and> incoming d m' = incoming d m)"
  using new_device_maps [OF assms] .

theorem constructor_maps_rings_witness:
  "\<exists>d m'. new_UioHvDevice 68 [\<lparr>item_Name = ''int_page'', item_Offset = 0, item_Size = 68\<rparr>,
      \<lparr>item_Name = ''txrx_rings'', item_Offset = 0, item_Size = 264\<rparr>] (demo_memory 0) = (Inr d, m') \<and> mapped d m'"
  using constructor_maps_rings [of "[\<lparr>item_Name = ''int_page'', item_Offset = 0, item_Size = 68\<rparr>,
      \<lparr>item_Name = ''txrx_rings'', item_Offset = 0, item_Size = 264\<rparr>]" "\<lparr>item_Name = ''txrx_rings'', item_Offset = 0, item_Size = 264\<rparr>" 132 "demo_memory 0" 68]
  by auto

end
