(* ===== verification/Kernel.thy ===== *)
theory Kernel
  imports Prelude
begin

text \<open>
  The boundary between the modelled sources and the rest of the Linux kernel.

  Every call the sources make into the kernel is a value of \<open>kcall\<close>.  What such a call returns is
  not decided here: it is given by a parameter \<open>E\<close> of type \<open>env\<close>, a function of the whole history
  of calls made so far and of the call, so a theorem that holds for every \<open>E\<close> holds for every
  behaviour of the allocator, the device core, the IRQ core and the VMBus driver.  A call is
  appended with its result to the log (\<open>kdo\<close>, or \<open>kvoid\<close> for a function without a result).
  Out-parameters of a call are read by the calls whose names start with \<open>Out_\<close>.

  Over the log, \<open>bal\<close> counts for each resource how often it was acquired minus how often it was
  released, and \<open>ledger_ok\<close> says that nothing was ever released that was not held and that no
  mutex was ever taken while it was held.  The entries of the ledger follow the documented
  contract of each kernel function: which result means that the resource was acquired, and which
  call gives it back.
\<close>

section \<open>Calls into the kernel\<close>

datatype lock = Minor_lock | Info_lock ptr

text \<open>What a \<open>kmalloc\<close>, \<open>kzalloc\<close> or \<open>kfree\<close> of the sources allocates.\<close>

datatype ktag = K_uio_map | K_uio_portio | K_uio_device | K_uio_listener

text \<open>Calls are grouped by the subsystem that serves them: locks and wait queues, allocation and
  kobjects, the device, IRQ and module cores, the character-device and class registries, memory
  mapping and user copies, and the VMBus driver.\<close>

datatype sync_call =
    Mutex_lock lock | Mutex_unlock lock
  | Wake_up_interruptible ptr | Kill_fasync ptr int int | Fasync_helper ptr int int
  | Add_wait_queue ptr | Remove_wait_queue ptr | Poll_wait ptr | Signal_pending | Virt_mb

datatype obj_call =
    Kzalloc ktag | Kmalloc ktag | Kfree ktag ptr
  | Kobject_create_and_add string | Kobject_init ktag ptr | Kobject_add ptr ptr string nat
  | Kobject_uevent ptr | Kobject_put ptr | Kobject_set_name ptr string
  | Devres_alloc | Devres_free ptr | Devres_add ptr ptr

datatype dev_call =
    Idr_alloc ptr | Idr_remove int | Idr_destroy
  | Device_initialize ptr | Dev_set_name ptr string int | Device_add ptr | Device_del ptr
  | Get_device ptr | Put_device ptr
  | Request_threaded_irq int int ptr | Free_irq int ptr
  | Try_module_get ptr | Module_put ptr
  | Dev_err string | Dev_warn string | Dev_notice string

datatype reg_call =
    Alloc_chrdev_region | Out_chrdev_major | Unregister_chrdev_region
  | Cdev_alloc | Cdev_add ptr | Cdev_del ptr
  | Class_register | Class_unregister

datatype mm_call =
    Copy_to_user u32 | Copy_from_user | Out_copy_from_user
  | Remap_pfn_range u64 u64 u64 | Dma_mmap_coherent u64 u64 u64 | Drv_mmap
  | Virt_to_page u64 | Vmalloc_to_page u64 | Get_page ptr
  | Vzalloc u64 | Vfree ptr | Vm_iomap_memory u64 u64
  | Out_ring_phys ptr | Out_ring_pagecount ptr

datatype hv_call =
    Devm_kzalloc | Vmbus_alloc_ring ptr u64 u64 | Vmbus_free_ring ptr
  | Vmbus_establish_gpadl ptr ptr u64 | Out_gpadl_handle ptr | Out_gpadl_decrypted ptr
  | Vmbus_teardown_gpadl ptr u32
  | Sysfs_create_bin_file ptr | Sysfs_remove_bin_file ptr
  | Vmbus_open ptr u64 u64 | Vmbus_close ptr
  | Vmbus_connect_ring ptr | Vmbus_disconnect_ring ptr | Vmbus_setevent ptr
  | Vmbus_set_chn_rescind_callback ptr | Vmbus_set_sc_create_callback ptr
  | Vmbus_device_unregister ptr | Vmbus_driver_register | Vmbus_driver_unregister

datatype kcall =
    Sync sync_call | Obj obj_call | Dev dev_call | Reg reg_call | Mm mm_call | Hv hv_call

text \<open>The log holds the calls with their results, the latest first.\<close>

type_synonym klog = "(kcall \<times> int) list"
type_synonym env = "klog \<Rightarrow> kcall \<Rightarrow> int"

definition kdo :: "env \<Rightarrow> kcall \<Rightarrow> klog \<Rightarrow> int \<times> klog" where
  "kdo E c l = (E l c, (c, E l c) # l)"

definition kvoid :: "kcall \<Rightarrow> klog \<Rightarrow> klog" where
  "kvoid c l = (c, 0) # l"

section \<open>The ledger of resources\<close>

datatype resource =
    Lock lock | Mem ktag ptr | Kref ptr | Minor_no int | Dev_added ptr | Irq_line int ptr
  | Module_ref ptr | Wait_entry ptr | Chrdev_region | Cdev_added ptr | Class_reg
  | Devres ptr | Ring ptr | Vbuf ptr | Gpadl ptr u32 | Bin_file ptr | Chan_open ptr
  | Ring_conn ptr | Page_ref ptr | Hv_driver

text \<open>\<open>kobject_init\<close> and \<open>device_initialize\<close> start the reference count of an object with one reference;
  the memory of the object is freed by its release function when the last reference is dropped,
  which is a call of its own.  \<open>vmbus_disconnect_ring\<close> disconnects also when it reports an error.\<close>

primrec sync_acq :: "sync_call \<Rightarrow> resource list" where
  "sync_acq (Mutex_lock k) = [Lock k]"
| "sync_acq (Mutex_unlock k) = []"
| "sync_acq (Wake_up_interruptible p) = []"
| "sync_acq (Kill_fasync p n m) = []"
| "sync_acq (Fasync_helper p n m) = []"
| "sync_acq (Add_wait_queue p) = [Wait_entry p]"
| "sync_acq (Remove_wait_queue p) = []"
| "sync_acq (Poll_wait p) = []"
| "sync_acq Signal_pending = []"
| "sync_acq Virt_mb = []"

fun sync_rel :: "sync_call \<Rightarrow> resource list" where
  "sync_rel (Mutex_unlock k) = [Lock k]"
| "sync_rel (Remove_wait_queue p) = [Wait_entry p]"
| "sync_rel c = []"

fun obj_acq :: "obj_call \<Rightarrow> int \<Rightarrow> resource list" where
  "obj_acq (Kzalloc t) r = (if r \<noteq> NULL then [Mem t r] else [])"
| "obj_acq (Kmalloc t) r = (if r \<noteq> NULL then [Mem t r] else [])"
| "obj_acq (Kobject_create_and_add n) r = (if r \<noteq> NULL then [Kref r] else [])"
| "obj_acq (Kobject_init t p) r = [Kref p]"
| "obj_acq Devres_alloc r = (if r \<noteq> NULL then [Devres r] else [])"
| "obj_acq c r = []"

fun obj_rel :: "obj_call \<Rightarrow> resource list" where
  "obj_rel (Kfree t p) = (if p \<noteq> NULL then [Mem t p] else [])"
| "obj_rel (Kobject_put p) = (if p \<noteq> NULL then [Kref p] else [])"
| "obj_rel (Devres_free p) = [Devres p]"
| "obj_rel (Devres_add d p) = [Devres p]"
| "obj_rel c = []"

fun dev_acq :: "dev_call \<Rightarrow> int \<Rightarrow> resource list" where
  "dev_acq (Idr_alloc p) r = (if r \<ge> 0 then [Minor_no r] else [])"
| "dev_acq (Device_initialize p) r = [Kref p]"
| "dev_acq (Device_add p) r = (if r = 0 then [Dev_added p] else [])"
| "dev_acq (Get_device p) r = [Kref p]"
| "dev_acq (Request_threaded_irq i fl p) r = (if r = 0 then [Irq_line i p] else [])"
| "dev_acq (Try_module_get m) r = (if r \<noteq> 0 then [Module_ref m] else [])"
| "dev_acq c r = []"

fun dev_rel :: "dev_call \<Rightarrow> resource list" where
  "dev_rel (Idr_remove n) = [Minor_no n]"
| "dev_rel (Device_del p) = [Dev_added p]"
| "dev_rel (Put_device p) = [Kref p]"
| "dev_rel (Free_irq i p) = [Irq_line i p]"
| "dev_rel (Module_put m) = [Module_ref m]"
| "dev_rel c = []"

fun reg_acq :: "reg_call \<Rightarrow> int \<Rightarrow> resource list" where
  "reg_acq Alloc_chrdev_region r = (if r = 0 then [Chrdev_region] else [])"
| "reg_acq Cdev_alloc r = (if r \<noteq> NULL then [Kref r] else [])"
| "reg_acq (Cdev_add p) r = (if r = 0 then [Cdev_added p] else [])"
| "reg_acq Class_register r = (if r = 0 then [Class_reg] else [])"
| "reg_acq c r = []"

fun reg_rel :: "reg_call \<Rightarrow> resource list" where
  "reg_rel Unregister_chrdev_region = [Chrdev_region]"
| "reg_rel (Cdev_del p) = [Cdev_added p, Kref p]"
| "reg_rel Class_unregister = [Class_reg]"
| "reg_rel c = []"

fun mm_acq :: "mm_call \<Rightarrow> int \<Rightarrow> resource list" where
  "mm_acq (Vzalloc n) r = (if r \<noteq> NULL then [Vbuf r] else [])"
| "mm_acq (Get_page p) r = [Page_ref p]"
| "mm_acq c r = []"

fun mm_rel :: "mm_call \<Rightarrow> resource list" where
  "mm_rel (Vfree p) = (if p \<noteq> NULL then [Vbuf p] else [])"
| "mm_rel c = []"

fun hv_acq :: "hv_call \<Rightarrow> int \<Rightarrow> resource list" where
  "hv_acq (Vmbus_alloc_ring ch a b) r = (if r = 0 then [Ring ch] else [])"
| "hv_acq (Out_gpadl_handle b) r = (if (of_int r :: u32) \<noteq> 0 then [Gpadl b (of_int r)] else [])"
| "hv_acq (Sysfs_create_bin_file ch) r = (if r = 0 then [Bin_file ch] else [])"
| "hv_acq (Vmbus_open ch a b) r = (if r = 0 then [Chan_open ch] else [])"
| "hv_acq (Vmbus_connect_ring ch) r = (if r = 0 then [Ring_conn ch] else [])"
| "hv_acq Vmbus_driver_register r = (if r = 0 then [Hv_driver] else [])"
| "hv_acq c r = []"

fun hv_rel :: "hv_call \<Rightarrow> resource list" where
  "hv_rel (Vmbus_free_ring ch) = [Ring ch]"
| "hv_rel (Vmbus_teardown_gpadl b h) = [Gpadl b h]"
| "hv_rel (Sysfs_remove_bin_file ch) = [Bin_file ch]"
| "hv_rel (Vmbus_close ch) = [Chan_open ch]"
| "hv_rel (Vmbus_disconnect_ring ch) = [Ring_conn ch]"
| "hv_rel Vmbus_driver_unregister = [Hv_driver]"
| "hv_rel c = []"

primrec acquires :: "kcall \<Rightarrow> int \<Rightarrow> resource list" where
  "acquires (Sync c) r = sync_acq c"
| "acquires (Obj c) r = obj_acq c r"
| "acquires (Dev c) r = dev_acq c r"
| "acquires (Reg c) r = reg_acq c r"
| "acquires (Mm c) r = mm_acq c r"
| "acquires (Hv c) r = hv_acq c r"

primrec releases :: "kcall \<Rightarrow> resource list" where
  "releases (Sync c) = sync_rel c"
| "releases (Obj c) = obj_rel c"
| "releases (Dev c) = dev_rel c"
| "releases (Reg c) = reg_rel c"
| "releases (Mm c) = mm_rel c"
| "releases (Hv c) = hv_rel c"

definition eff :: "kcall \<Rightarrow> int \<Rightarrow> resource \<Rightarrow> int" where
  "eff c r x = int (count_list (acquires c r) x) - int (count_list (releases c) x)"

primrec bal :: "klog \<Rightarrow> resource \<Rightarrow> int" where
  "bal [] x = 0"
| "bal (e # l) x = bal l x + eff (fst e) (snd e) x"

fun is_lock :: "resource \<Rightarrow> bool" where
  "is_lock (Lock k) = True"
| "is_lock x = False"

primrec ledger_ok :: "klog \<Rightarrow> bool" where
  "ledger_ok [] = True"
| "ledger_ok (e # l) =
     (ledger_ok l
      \<and> (\<forall>x\<in>set (releases (fst e)). 1 \<le> bal l x)
      \<and> (\<forall>x\<in>set (acquires (fst e) (snd e)). is_lock x \<longrightarrow> bal l x = 0))"

text \<open>The indicator of one resource: ledger effects are written as sums of these.\<close>

definition one :: "resource \<Rightarrow> resource \<Rightarrow> int" where
  "one y x = (if x = y then 1 else 0)"

lemma one_same [simp]: "one y y = 1"
  by (simp add: one_def)

lemma one_other [simp]: "x \<noteq> y \<Longrightarrow> one y x = 0"
  by (simp add: one_def)

lemma one_nonneg [simp]: "0 \<le> one y x"
  by (simp add: one_def)

text \<open>What each call does to the ledger: the facts the component proofs compute with.\<close>

lemma bal_kdo [effect_simps]: "bal (snd (kdo E c l)) x = bal l x + eff c (E l c) x"
  by (simp add: kdo_def)

lemma fst_kdo [simp]: "fst (kdo E c l) = E l c"
  by (simp add: kdo_def)

lemma bal_kvoid [effect_simps]: "bal (kvoid c l) x = bal l x + eff c 0 x"
  by (simp add: kvoid_def)

lemma count_list_one: "int (count_list ys x) = (\<Sum>y\<leftarrow>ys. one y x)"
  by (induction ys) (auto simp: one_def)

lemma eff_sum [effect_simps]:
  "eff c r x = (\<Sum>y\<leftarrow>acquires c r. one y x) - (\<Sum>y\<leftarrow>releases c. one y x)"
  by (simp add: eff_def count_list_one)

section \<open>The contract of the allocators\<close>

text \<open>
  What the code relies on: memory that is handed out is not in use (\<open>kzalloc\<close>, \<open>kmalloc\<close>), and a
  number that \<open>idr_alloc\<close> returns is unused and below the end of the range it was asked for, which is
  \<open>1 << MINORBITS\<close> with 20 minor bits.  \<open>sound_env\<close> turns any kernel into one that keeps the contract,
  by refusing what would break it.
\<close>

definition unused_mem :: "klog \<Rightarrow> ptr \<Rightarrow> bool" where
  "unused_mem l p \<longleftrightarrow> (\<forall>t\<in>{K_uio_map, K_uio_portio, K_uio_device, K_uio_listener}. bal l (Mem t p) = 0)"

definition kernel_ok :: "env \<Rightarrow> bool" where
  "kernel_ok E \<longleftrightarrow>
     (\<forall>l t. E l (Obj (Kzalloc t)) \<noteq> NULL \<longrightarrow> unused_mem l (E l (Obj (Kzalloc t))))
     \<and> (\<forall>l t. E l (Obj (Kmalloc t)) \<noteq> NULL \<longrightarrow> unused_mem l (E l (Obj (Kmalloc t))))
     \<and> (\<forall>l p. 0 \<le> E l (Dev (Idr_alloc p)) \<longrightarrow>
           bal l (Minor_no (E l (Dev (Idr_alloc p)))) = 0 \<and> E l (Dev (Idr_alloc p)) < 2 ^ 20)"

fun sound_env :: "env \<Rightarrow> env" where
  "sound_env E l (Obj (Kzalloc t)) =
     (let p = E l (Obj (Kzalloc t)) in if unused_mem l p then p else NULL)"
| "sound_env E l (Obj (Kmalloc t)) =
     (let p = E l (Obj (Kmalloc t)) in if unused_mem l p then p else NULL)"
| "sound_env E l (Dev (Idr_alloc p)) =
     (let n = E l (Dev (Idr_alloc p)) in
      if n < 0 \<or> bal l (Minor_no n) = 0 \<and> n < 2 ^ 20 then n else - ENOSPC)"
| "sound_env E l c = E l c"

lemma kernel_ok_sound_env: "kernel_ok (sound_env E)"
  by (auto simp: kernel_ok_def Let_def ENOSPC_def)

lemma kernel_ok_mem:
  assumes "kernel_ok E" "E l (Obj (Kzalloc t)) = p \<or> E l (Obj (Kmalloc t)) = p" "p \<noteq> NULL"
  shows "bal l (Mem t' p) = 0"
proof -
  have "unused_mem l p" using assms by (auto simp: kernel_ok_def)
  then show ?thesis by (cases t') (simp_all add: unused_mem_def)
qed

lemma kernel_ok_minor:
  "kernel_ok E \<Longrightarrow> E l (Dev (Idr_alloc p)) = n \<Longrightarrow> 0 \<le> n \<Longrightarrow> bal l (Minor_no n) = 0 \<and> n < 2 ^ 20"
  by (auto simp: kernel_ok_def)

section \<open>A kernel that grants every request\<close>

text \<open>Allocations return fresh addresses, every other call reports success; used where a theorem is
  applied to a concrete run.\<close>

fun granted :: "kcall \<Rightarrow> bool" where
  "granted (Obj (Kzalloc t)) = True"
| "granted (Obj (Kmalloc t)) = True"
| "granted (Obj (Kobject_create_and_add n)) = True"
| "granted (Obj Devres_alloc) = True"
| "granted (Dev (Try_module_get m)) = True"
| "granted (Reg Cdev_alloc) = True"
| "granted (Mm (Vzalloc n)) = True"
| "granted (Hv Devm_kzalloc) = True"
| "granted c = False"

definition calm_env :: env where
  "calm_env l c = (case c of
      Hv (Out_gpadl_handle b) \<Rightarrow> 7
    | _ \<Rightarrow> if granted c then 4096 + 64 * int (length l) else 0)"

end
