(* ===== verification/Uio_Types.thy ===== *)
theory Uio_Types
  imports Kernel
begin

text \<open>
  The data of the UIO core (\<open>uio_hv_generic/uio.c\<close>): the fields of \<open>struct uio_mem\<close>, \<open>uio_port\<close>,
  \<open>uio_info\<close> and \<open>uio_device\<close> that the sources use, the structures \<open>uio.c\<close> declares itself, the
  part of \<open>vm_area_struct\<close> it reads, and the state of the whole core.

  Pointers are kept as addresses: \<open>idev->info\<close> and \<open>info->uio_dev\<close> point into the stores \<open>w_info\<close>
  and \<open>w_dev\<close> of the state, a missing entry of \<open>w_dev\<close> or \<open>w_lst\<close> is freed memory, and an operation
  that would follow a pointer to freed memory returns \<open>None\<close>.  The callbacks of \<open>uio_info\<close> are
  function-valued fields over the driver's private data \<open>'d\<close> and the call log.
\<close>

section \<open>Constants of the UIO interface\<close>

definition MAX_UIO_MAPS :: nat where "MAX_UIO_MAPS = 5"
definition MAX_UIO_PORT_REGIONS :: nat where "MAX_UIO_PORT_REGIONS = 5"

definition UIO_IRQ_CUSTOM :: int where "UIO_IRQ_CUSTOM = -1"
definition UIO_IRQ_NONE :: int where "UIO_IRQ_NONE = 0"

definition UIO_MEM_PHYS :: int where "UIO_MEM_PHYS = 1"
definition UIO_MEM_LOGICAL :: int where "UIO_MEM_LOGICAL = 2"
definition UIO_MEM_VIRTUAL :: int where "UIO_MEM_VIRTUAL = 3"
definition UIO_MEM_IOVA :: int where "UIO_MEM_IOVA = 4"
definition UIO_MEM_DMA_COHERENT :: int where "UIO_MEM_DMA_COHERENT = 5"

definition UIO_PORT_OTHER :: int where "UIO_PORT_OTHER = 3"

text \<open>\<open>UIO_MAX_DEVICES\<close> is \<open>1U << MINORBITS\<close> with 20 minor bits.\<close>

definition UIO_MAX_DEVICES :: int where "UIO_MAX_DEVICES = 2 ^ 20"

lemmas uio_consts =
  MAX_UIO_MAPS_def MAX_UIO_PORT_REGIONS_def UIO_IRQ_CUSTOM_def UIO_IRQ_NONE_def
  UIO_MEM_PHYS_def UIO_MEM_LOGICAL_def UIO_MEM_VIRTUAL_def UIO_MEM_IOVA_def
  UIO_MEM_DMA_COHERENT_def UIO_PORT_OTHER_def UIO_MAX_DEVICES_def

section \<open>Structures\<close>

record uio_mem =
  mem_name :: "string option"
  mem_addr :: u64
  mem_dma_addr :: u64
  mem_offs :: u64
  mem_size :: u64
  mem_memtype :: int
  mem_dma_device :: ptr
  mem_map :: ptr

record uio_port =
  port_name :: "string option"
  port_start :: u64
  port_size :: u64
  port_porttype :: int
  port_portio :: ptr

text \<open>\<open>struct uio_map\<close> and \<open>struct uio_portio\<close> of \<open>uio.c\<close>: the pointer to the entry of \<open>info->mem\<close> or
  \<open>info->port\<close> is the address of the \<open>uio_info\<close> with the index.\<close>

record uio_map =
  umap_mem :: "ptr \<times> nat"

record uio_portio =
  uport_port :: "ptr \<times> nat"

text \<open>Which operations a mapping was given.\<close>

datatype vm_ops = Uio_logical_vm_ops | Uio_physical_vm_ops

record vm_area_struct =
  vm_start :: u64
  vm_end :: u64
  vm_pgoff :: u64
  vm_private_data :: ptr
  vm_ops :: "vm_ops option"
  vm_dontexpand :: bool
  vm_dontdump :: bool
  vm_noncached :: bool

datatype irqreturn = IRQ_NONE | IRQ_HANDLED | IRQ_WAKE_THREAD

text \<open>A driver callback: it runs on the private data of the driver and makes its own kernel calls.\<close>

type_synonym 'd cb = "env \<Rightarrow> 'd \<times> klog \<Rightarrow> int \<times> 'd \<times> klog"

record 'd uio_info =
  info_uio_dev :: ptr
  info_name :: "string option"
  info_version :: "string option"
  info_mem :: "uio_mem list"
  info_port :: "uio_port list"
  info_irq :: int
  info_irq_flags :: int
  info_priv :: ptr
  info_handler :: "(int \<Rightarrow> 'd \<Rightarrow> irqreturn \<times> 'd) option"
  info_mmap :: "(vm_area_struct \<Rightarrow> 'd cb) option"
  info_open :: "'d cb option"
  info_release :: "'d cb option"
  info_irqcontrol :: "(int \<Rightarrow> 'd cb) option"

text \<open>\<open>d_kref\<close> is the reference count of the embedded \<open>struct device\<close>.\<close>

record uio_device =
  d_owner :: ptr
  d_minor :: int
  d_event :: u32
  d_info :: ptr
  d_map_dir :: ptr
  d_portio_dir :: ptr
  d_parent :: ptr
  d_kref :: nat

record uio_listener =
  l_dev :: ptr
  l_event_count :: u32

text \<open>Structures as \<open>kzalloc\<close> returns them.\<close>

definition zero_mem :: uio_mem where
  "zero_mem = \<lparr>mem_name = None, mem_addr = 0, mem_dma_addr = 0, mem_offs = 0, mem_size = 0,
     mem_memtype = 0, mem_dma_device = NULL, mem_map = NULL\<rparr>"

definition zero_port :: uio_port where
  "zero_port = \<lparr>port_name = None, port_start = 0, port_size = 0, port_porttype = 0,
     port_portio = NULL\<rparr>"

definition zero_info :: "'d uio_info" where
  "zero_info = \<lparr>info_uio_dev = NULL, info_name = None, info_version = None,
     info_mem = replicate MAX_UIO_MAPS zero_mem, info_port = replicate MAX_UIO_PORT_REGIONS zero_port,
     info_irq = 0, info_irq_flags = 0, info_priv = NULL, info_handler = None, info_mmap = None,
     info_open = None, info_release = None, info_irqcontrol = None\<rparr>"

definition zero_device :: uio_device where
  "zero_device = \<lparr>d_owner = NULL, d_minor = 0, d_event = 0, d_info = NULL, d_map_dir = NULL,
     d_portio_dir = NULL, d_parent = NULL, d_kref = 0\<rparr>"

section \<open>The state of the core\<close>

record 'd world =
  w_info :: "ptr \<Rightarrow> 'd uio_info"
  w_drv :: "ptr \<Rightarrow> 'd"
  w_dev :: "ptr \<rightharpoonup> uio_device"
  w_lst :: "ptr \<rightharpoonup> uio_listener"
  w_map :: "ptr \<rightharpoonup> uio_map"
  w_portio :: "ptr \<rightharpoonup> uio_portio"
  w_idr :: "int \<rightharpoonup> ptr"
  w_class_registered :: bool
  w_major :: int
  w_cdev :: ptr
  w_log :: klog

text \<open>The state before the module is loaded, for a driver with private data \<open>d\<close>.\<close>

definition init_world :: "'d \<Rightarrow> 'd world" where
  "init_world d = \<lparr>w_info = (\<lambda>_. zero_info), w_drv = (\<lambda>_. d), w_dev = Map.empty,
     w_lst = Map.empty, w_map = Map.empty, w_portio = Map.empty, w_idr = Map.empty,
     w_class_registered = False, w_major = 0, w_cdev = NULL, w_log = []\<rparr>"

text \<open>Updates through a pointer to a device or to a \<open>uio_info\<close>, and of one entry of its arrays.\<close>

definition upd_dev :: "ptr \<Rightarrow> (uio_device \<Rightarrow> uio_device) \<Rightarrow> 'd world \<Rightarrow> 'd world" where
  "upd_dev p f s = s\<lparr>w_dev := (w_dev s)(p := map_option f (w_dev s p))\<rparr>"

definition upd_info :: "ptr \<Rightarrow> ('d uio_info \<Rightarrow> 'd uio_info) \<Rightarrow> 'd world \<Rightarrow> 'd world" where
  "upd_info p f s = s\<lparr>w_info := (w_info s)(p := f (w_info s p))\<rparr>"

definition set_mem :: "ptr \<Rightarrow> nat \<Rightarrow> uio_mem \<Rightarrow> 'd world \<Rightarrow> 'd world" where
  "set_mem ip i m = upd_info ip (\<lambda>v. v\<lparr>info_mem := (info_mem v)[i := m]\<rparr>)"

definition set_port :: "ptr \<Rightarrow> nat \<Rightarrow> uio_port \<Rightarrow> 'd world \<Rightarrow> 'd world" where
  "set_port ip i m = upd_info ip (\<lambda>v. v\<lparr>info_port := (info_port v)[i := m]\<rparr>)"

text \<open>Kernel calls on the log of the state.\<close>

definition kdo_w :: "env \<Rightarrow> kcall \<Rightarrow> 'd world \<Rightarrow> int \<times> 'd world" where
  "kdo_w E c s = (E (w_log s) c, s\<lparr>w_log := (c, E (w_log s) c) # w_log s\<rparr>)"

definition kvoid_w :: "kcall \<Rightarrow> 'd world \<Rightarrow> 'd world" where
  "kvoid_w c s = s\<lparr>w_log := kvoid c (w_log s)\<rparr>"

definition mutex_lock :: "lock \<Rightarrow> 'd world \<Rightarrow> 'd world" where
  "mutex_lock k = kvoid_w (Sync (Mutex_lock k))"

definition mutex_unlock :: "lock \<Rightarrow> 'd world \<Rightarrow> 'd world" where
  "mutex_unlock k = kvoid_w (Sync (Mutex_unlock k))"

text \<open>The arrays of \<open>uio_info\<close> have their C length.\<close>

definition wf_info :: "'d uio_info \<Rightarrow> bool" where
  "wf_info i \<longleftrightarrow> length (info_mem i) = MAX_UIO_MAPS \<and> length (info_port i) = MAX_UIO_PORT_REGIONS"

lemma kdo_w_sel [simp]:
  "fst (kdo_w E c s) = E (w_log s) c"
  "w_log (snd (kdo_w E c s)) = (c, E (w_log s) c) # w_log s"
  "w_info (snd (kdo_w E c s)) = w_info s"
  "w_drv (snd (kdo_w E c s)) = w_drv s"
  "w_dev (snd (kdo_w E c s)) = w_dev s"
  "w_lst (snd (kdo_w E c s)) = w_lst s"
  "w_map (snd (kdo_w E c s)) = w_map s"
  "w_portio (snd (kdo_w E c s)) = w_portio s"
  "w_idr (snd (kdo_w E c s)) = w_idr s"
  "w_class_registered (snd (kdo_w E c s)) = w_class_registered s"
  by (simp_all add: kdo_w_def)

lemma kvoid_w_sel [simp]:
  "w_log (kvoid_w c s) = (c, 0) # w_log s"
  "w_info (kvoid_w c s) = w_info s"
  "w_drv (kvoid_w c s) = w_drv s"
  "w_dev (kvoid_w c s) = w_dev s"
  "w_lst (kvoid_w c s) = w_lst s"
  "w_map (kvoid_w c s) = w_map s"
  "w_portio (kvoid_w c s) = w_portio s"
  "w_idr (kvoid_w c s) = w_idr s"
  "w_class_registered (kvoid_w c s) = w_class_registered s"
  by (simp_all add: kvoid_w_def kvoid_def)

lemma upd_sel [simp]:
  "w_log (upd_dev p f s) = w_log s" "w_log (set_mem ip i m s) = w_log s"
  "w_log (set_port ip i q s) = w_log s" "w_log (upd_info ip g s) = w_log s"
  "w_info (upd_dev p f s) = w_info s"
  "w_info (upd_info ip g s) = (w_info s)(ip := g (w_info s ip))"
  "w_dev (upd_info ip g s) = w_dev s" "w_dev (set_mem ip i m s) = w_dev s"
  "w_dev (set_port ip i q s) = w_dev s"
  "w_dev (upd_dev p f s) = (w_dev s)(p := map_option f (w_dev s p))"
  "w_idr (upd_dev p f s) = w_idr s" "w_idr (set_mem ip i m s) = w_idr s"
  "w_idr (set_port ip i q s) = w_idr s" "w_idr (upd_info ip g s) = w_idr s"
  "w_lst (upd_dev p f s) = w_lst s" "w_lst (set_mem ip i m s) = w_lst s"
  "w_lst (set_port ip i q s) = w_lst s" "w_lst (upd_info ip g s) = w_lst s"
  "w_drv (upd_dev p f s) = w_drv s" "w_drv (set_mem ip i m s) = w_drv s"
  "w_drv (set_port ip i q s) = w_drv s" "w_drv (upd_info ip g s) = w_drv s"
  "w_class_registered (upd_dev p f s) = w_class_registered s"
  "w_class_registered (set_mem ip i m s) = w_class_registered s"
  "w_class_registered (set_port ip i q s) = w_class_registered s"
  "w_class_registered (upd_info ip g s) = w_class_registered s"
  "w_info (set_mem ip i m s) =
     (w_info s)(ip := (w_info s ip)\<lparr>info_mem := (info_mem (w_info s ip))[i := m]\<rparr>)"
  "w_info (set_port ip i q s) =
     (w_info s)(ip := (w_info s ip)\<lparr>info_port := (info_port (w_info s ip))[i := q]\<rparr>)"
  by (simp_all add: upd_dev_def upd_info_def set_mem_def set_port_def)

end
