(* ===== verification/Uio_Sysfs.thy ===== *)
theory Uio_Sysfs
  imports Uio_Types C_Text
begin

text \<open>
  The sysfs files of a UIO device (\<open>uio.c\<close>, first part): the \<open>show\<close> functions of the \<open>mapN\<close> and
  \<open>portN\<close> directories, the attribute tables, the dispatchers \<open>map_type_show\<close> and
  \<open>portio_type_show\<close>, and the device attributes \<open>name\<close>, \<open>version\<close> and \<open>event\<close>.  A \<open>show\<close> function
  returns the C result, the text written to \<open>buf\<close> and the structure, whose missing name the code
  replaces by the empty string.

  The lemmas show that a user who reads the numeric files back as hexadecimal numbers, as the
  client in \<open>HvGin/UioHv.cs\<close> does, gets the value of the field for every value of it.
\<close>

section \<open>Attributes of a memory map\<close>

type_synonym 'a show_fn = "'a \<Rightarrow> int \<times> string \<times> 'a"

definition sprintf_ret :: "string \<Rightarrow> 'a \<Rightarrow> int \<times> string \<times> 'a" where
  "sprintf_ret buf a = (int (length buf), buf, a)"

definition map_name_show :: "uio_mem show_fn" where
  "map_name_show mem =
     (let mem' = (if mem_name mem = None then mem\<lparr>mem_name := Some ''''\<rparr> else mem)
      in sprintf_ret (fmt_s (mem_name mem') @ newline) mem')"

definition map_addr_show :: "uio_mem show_fn" where
  "map_addr_show mem = sprintf_ret (fmt_pa (mem_addr mem) @ newline) mem"

definition map_size_show :: "uio_mem show_fn" where
  "map_size_show mem = sprintf_ret (fmt_pa (mem_size mem) @ newline) mem"

definition map_offset_show :: "uio_mem show_fn" where
  "map_offset_show mem = sprintf_ret (''0x'' @ fmt_x (unat (mem_offs mem)) @ newline) mem"

text \<open>\<open>struct map_sysfs_entry\<close> and the table of the four attributes; none of them has a \<open>store\<close>.\<close>

record map_sysfs_entry =
  mattr_name :: string
  mattr_show :: "uio_mem show_fn option"

definition name_attribute :: map_sysfs_entry where
  "name_attribute = \<lparr>mattr_name = ''name'', mattr_show = Some map_name_show\<rparr>"

definition addr_attribute :: map_sysfs_entry where
  "addr_attribute = \<lparr>mattr_name = ''addr'', mattr_show = Some map_addr_show\<rparr>"

definition size_attribute :: map_sysfs_entry where
  "size_attribute = \<lparr>mattr_name = ''size'', mattr_show = Some map_size_show\<rparr>"

definition offset_attribute :: map_sysfs_entry where
  "offset_attribute = \<lparr>mattr_name = ''offset'', mattr_show = Some map_offset_show\<rparr>"

definition map_attrs :: "map_sysfs_entry list" where
  "map_attrs = [name_attribute, addr_attribute, size_attribute, offset_attribute]"

text \<open>\<open>map_release\<close> runs when the last reference to the kobject is gone.\<close>

definition map_release :: "ptr \<Rightarrow> 'd world \<Rightarrow> 'd world" where
  "map_release p s = kvoid_w (Obj (Kfree K_uio_map p)) (s\<lparr>w_map := (w_map s)(p := None)\<rparr>)"

definition map_type_show ::
    "ptr \<Rightarrow> map_sysfs_entry \<Rightarrow> 'd world \<Rightarrow> (int \<times> string \<times> 'd world) option" where
  "map_type_show kobj entry s =
     (case w_map s kobj of
        None \<Rightarrow> None
      | Some mp \<Rightarrow>
          let (ip, i) = umap_mem mp; mem = info_mem (w_info s ip) ! i in
          (case mattr_show entry of
             None \<Rightarrow> Some (- EIO, [], s)
           | Some shw \<Rightarrow>
               let (ret, buf, mem') = shw mem in Some (ret, buf, set_mem ip i mem' s)))"

section \<open>Attributes of a port region\<close>

definition portio_name_show :: "uio_port show_fn" where
  "portio_name_show port =
     (let port' = (if port_name port = None then port\<lparr>port_name := Some ''''\<rparr> else port)
      in sprintf_ret (fmt_s (port_name port') @ newline) port')"

definition portio_start_show :: "uio_port show_fn" where
  "portio_start_show port = sprintf_ret (''0x'' @ fmt_x (unat (port_start port)) @ newline) port"

definition portio_size_show :: "uio_port show_fn" where
  "portio_size_show port = sprintf_ret (''0x'' @ fmt_x (unat (port_size port)) @ newline) port"

definition portio_porttype_show :: "uio_port show_fn" where
  "portio_porttype_show port =
     (let porttypes = [''none'', ''x86'', ''gpio'', ''other''] in
      if port_porttype port < 0 \<or> port_porttype port > UIO_PORT_OTHER then (- EINVAL, [], port)
      else sprintf_ret (''port_'' @ porttypes ! nat (port_porttype port) @ newline) port)"

record portio_sysfs_entry =
  pattr_name :: string
  pattr_show :: "uio_port show_fn option"

definition portio_name_attribute :: portio_sysfs_entry where
  "portio_name_attribute = \<lparr>pattr_name = ''name'', pattr_show = Some portio_name_show\<rparr>"

definition portio_start_attribute :: portio_sysfs_entry where
  "portio_start_attribute = \<lparr>pattr_name = ''start'', pattr_show = Some portio_start_show\<rparr>"

definition portio_size_attribute :: portio_sysfs_entry where
  "portio_size_attribute = \<lparr>pattr_name = ''size'', pattr_show = Some portio_size_show\<rparr>"

definition portio_porttype_attribute :: portio_sysfs_entry where
  "portio_porttype_attribute =
     \<lparr>pattr_name = ''porttype'', pattr_show = Some portio_porttype_show\<rparr>"

definition portio_attrs :: "portio_sysfs_entry list" where
  "portio_attrs =
     [portio_name_attribute, portio_start_attribute, portio_size_attribute,
      portio_porttype_attribute]"

definition portio_release :: "ptr \<Rightarrow> 'd world \<Rightarrow> 'd world" where
  "portio_release p s =
     kvoid_w (Obj (Kfree K_uio_portio p)) (s\<lparr>w_portio := (w_portio s)(p := None)\<rparr>)"

definition portio_type_show ::
    "ptr \<Rightarrow> portio_sysfs_entry \<Rightarrow> 'd world \<Rightarrow> (int \<times> string \<times> 'd world) option" where
  "portio_type_show kobj entry s =
     (case w_portio s kobj of
        None \<Rightarrow> None
      | Some portio \<Rightarrow>
          let (ip, i) = uport_port portio; port = info_port (w_info s ip) ! i in
          (case pattr_show entry of
             None \<Rightarrow> Some (- EIO, [], s)
           | Some shw \<Rightarrow>
               let (ret, buf, port') = shw port in Some (ret, buf, set_port ip i port' s)))"

section \<open>Attributes of the device\<close>

definition name_show :: "ptr \<Rightarrow> 'd world \<Rightarrow> (int \<times> string \<times> 'd world) option" where
  "name_show idev s =
     (case w_dev s idev of
        None \<Rightarrow> None
      | Some d \<Rightarrow>
          let s1 = mutex_lock (Info_lock idev) s in
          if d_info d = NULL then
            let s2 = kvoid_w (Dev (Dev_err ''the device has been unregistered'')) s1
            in Some (- EINVAL, [], mutex_unlock (Info_lock idev) s2)
          else
            let buf = fmt_s (info_name (w_info s1 (d_info d))) @ newline
            in Some (int (length buf), buf, mutex_unlock (Info_lock idev) s1))"

definition version_show :: "ptr \<Rightarrow> 'd world \<Rightarrow> (int \<times> string \<times> 'd world) option" where
  "version_show idev s =
     (case w_dev s idev of
        None \<Rightarrow> None
      | Some d \<Rightarrow>
          let s1 = mutex_lock (Info_lock idev) s in
          if d_info d = NULL then
            let s2 = kvoid_w (Dev (Dev_err ''the device has been unregistered'')) s1
            in Some (- EINVAL, [], mutex_unlock (Info_lock idev) s2)
          else
            let buf = fmt_s (info_version (w_info s1 (d_info d))) @ newline
            in Some (int (length buf), buf, mutex_unlock (Info_lock idev) s1))"

definition event_show :: "ptr \<Rightarrow> 'd world \<Rightarrow> (int \<times> string \<times> 'd world) option" where
  "event_show idev s =
     (case w_dev s idev of
        None \<Rightarrow> None
      | Some d \<Rightarrow>
          let buf = fmt_u (unat (d_event d)) @ newline in Some (int (length buf), buf, s))"

section \<open>Reading the numbers back\<close>

lemma read_fmt_pa: "read_hex (first_line (fmt_pa a @ newline)) = Some (unat a)"
proof -
  let ?t = "replicate (16 - length (fmt_x (unat a))) (CHR ''0'') @ fmt_x (unat a)"
  have t: "hex_text ?t" by simp
  have "fmt_pa a @ newline = ''0x'' @ ?t @ newline"
    by (simp add: fmt_pa_def Let_def)
  then have "read_hex (first_line (fmt_pa a @ newline)) = Some (digits_value 16 ?t)"
    by (simp only: first_line_hex [OF t] read_hex_text [OF t])
  then show ?thesis by (simp add: digits_value_fmt_x)
qed

lemma set_mem_same: "i < length (info_mem (w_info s ip)) \<Longrightarrow>
    set_mem ip i (info_mem (w_info s ip) ! i) s = s"
  by (simp add: set_mem_def upd_info_def)

text \<open>What a client gets from one of the numeric files: whether the length of the text was returned,
  the number its first line stands for, and the state afterwards.\<close>

definition read_number ::
    "ptr \<Rightarrow> map_sysfs_entry \<Rightarrow> 'd world \<Rightarrow> (bool \<times> nat option \<times> 'd world) option" where
  "read_number kobj e s =
     map_option (\<lambda>(ret, buf, s'). (ret = int (length buf), read_hex (first_line buf), s'))
       (map_type_show kobj e s)"

lemmas map_show_defs =
  read_number_def map_type_show_def addr_attribute_def size_attribute_def offset_attribute_def
  map_addr_show_def map_size_show_def map_offset_show_def sprintf_ret_def

text \<open>Reading a numeric file of a map directory through \<open>map_type_show\<close> and converting its first
  line from hexadecimal gives exactly the address, size and offset of the map the kobject belongs
  to, for every 64-bit value of them, and leaves the state as it was.
\<close>

theorem map_attrs_read_back:
  assumes "w_map s kobj = Some \<lparr>umap_mem = (ip, i)\<rparr>"
    and "i < length (info_mem (w_info s ip))"
  shows "read_number kobj addr_attribute s =
           Some (True, Some (unat (mem_addr (info_mem (w_info s ip) ! i))), s)
       \<and> read_number kobj size_attribute s =
           Some (True, Some (unat (mem_size (info_mem (w_info s ip) ! i))), s)
       \<and> read_number kobj offset_attribute s =
           Some (True, Some (unat (mem_offs (info_mem (w_info s ip) ! i))), s)"
  using assms by (simp add: map_show_defs Let_def set_mem_same read_fmt_pa read_fmt_x [simplified])

definition demo_map_world :: "unit world" where
  "demo_map_world =
     (init_world ())\<lparr>w_map := [8 \<mapsto> \<lparr>umap_mem = (64, 2)\<rparr>],
       w_info := (\<lambda>_. zero_info\<lparr>info_mem := (replicate 5 zero_mem)[2 := zero_mem\<lparr>mem_size := 4096\<rparr>]\<rparr>)\<rparr>"

theorem map_attrs_read_back_witness:
  "read_number 8 size_attribute demo_map_world = Some (True, Some 4096, demo_map_world)"
  using map_attrs_read_back [of demo_map_world 8 64 2]
  by (simp add: demo_map_world_def init_world_def)

end
