(* ===== verification/Uio_Attr.thy ===== *)
theory Uio_Attr
  imports Uio_Sysfs
begin

text \<open>
  Creation and removal of the sysfs directories of a device: \<open>uio_dev_add_attributes\<close> with its four
  error labels, and \<open>uio_dev_del_attributes\<close>.

  The two loops of the C function are \<open>add_maps\<close> and \<open>add_ports\<close>; their first argument counts the
  iterations the array bound still allows, so the loop stops at the bound of the array or at the
  first entry of size 0.  A \<open>goto\<close> out of a loop is a value of \<open>loop_exit\<close> that carries the index and
  the error; the code behind the labels is \<open>err_map\<close> and \<open>err_portio\<close>.

  The lemmas compute the ledger: a failed creation gives back every object it made, in the log of
  calls and in the stores, and a removal undoes a creation.
\<close>

section \<open>Definitions\<close>

text \<open>The entries that are in use: those before the first entry of size 0.\<close>

definition used_maps :: "'d uio_info \<Rightarrow> nat" where
  "used_maps i = length (takeWhile (\<lambda>m. mem_size m \<noteq> 0) (info_mem i))"

definition used_ports :: "'d uio_info \<Rightarrow> nat" where
  "used_ports i = length (takeWhile (\<lambda>m. port_size m \<noteq> 0) (info_port i))"

definition map_dir_of :: "'d world \<Rightarrow> ptr \<Rightarrow> ptr" where
  "map_dir_of s idev = (case w_dev s idev of None \<Rightarrow> NULL | Some d \<Rightarrow> d_map_dir d)"

definition portio_dir_of :: "'d world \<Rightarrow> ptr \<Rightarrow> ptr" where
  "portio_dir_of s idev = (case w_dev s idev of None \<Rightarrow> NULL | Some d \<Rightarrow> d_portio_dir d)"

text \<open>\<open>kobject_put\<close> of a directory, and of the kobject of a map or port: the core holds the only
  reference to it, so the release function of its type runs.\<close>

definition kobject_put :: "ptr \<Rightarrow> 'd world \<Rightarrow> 'd world" where
  "kobject_put p = kvoid_w (Obj (Kobject_put p))"

definition put_map :: "ptr \<Rightarrow> 'd world \<Rightarrow> 'd world" where
  "put_map p s = map_release p (kobject_put p s)"

definition put_portio :: "ptr \<Rightarrow> 'd world \<Rightarrow> 'd world" where
  "put_portio p s = portio_release p (kobject_put p s)"

datatype loop_exit =
    Loop_done nat       \<comment> \<open>the loop ended, with the index it ended at\<close>
  | Goto_err nat int    \<comment> \<open>goto \<open>err_map\<close> or \<open>err_portio\<close>\<close>
  | Goto_err_kobj nat int    \<comment> \<open>goto \<open>err_map_kobj\<close> or \<open>err_portio_kobj\<close>\<close>

text \<open>One iteration of the first loop after the test of the size: the directory is made in the first
  iteration (\<open>map_dir1\<close>), then the kobject of the map (\<open>map_kobj1\<close>); \<open>None\<close> goes on to the next.\<close>

definition map_dir1 :: "env \<Rightarrow> ptr \<Rightarrow> bool \<Rightarrow> 'd world \<Rightarrow> 'd world" where
  "map_dir1 E idev map_found s =
     (if map_found then s
      else let (dir, t) = kdo_w E (Obj (Kobject_create_and_add ''maps'')) s
           in upd_dev idev (\<lambda>d. d\<lparr>d_map_dir := dir\<rparr>) t)"

definition map_kobj1 :: "env \<Rightarrow> ptr \<Rightarrow> ptr \<Rightarrow> nat \<Rightarrow> 'd world \<Rightarrow> loop_exit option \<times> 'd world" where
  "map_kobj1 E idev ip mi s1 =
     (let (map, s2) = kdo_w E (Obj (Kzalloc K_uio_map)) s1 in
      if map = NULL then (Some (Goto_err mi (- ENOMEM)), s2)
      else
        let s3 = kvoid_w (Obj (Kobject_init K_uio_map map)) s2;
            s4 = s3\<lparr>w_map := (w_map s3)(map \<mapsto> \<lparr>umap_mem = (ip, mi)\<rparr>)\<rparr>;
            s5 = set_mem ip mi ((info_mem (w_info s4 ip) ! mi)\<lparr>mem_map := map\<rparr>) s4;
            (ret, s6) = kdo_w E (Obj (Kobject_add map (map_dir_of s5 idev) ''map'' mi)) s5 in
        if ret \<noteq> 0 then (Some (Goto_err_kobj mi ret), s6)
        else
          let (ret, s7) = kdo_w E (Obj (Kobject_uevent map)) s6 in
          if ret \<noteq> 0 then (Some (Goto_err_kobj mi ret), s7) else (None, s7))"

definition add_map1 ::
    "env \<Rightarrow> ptr \<Rightarrow> ptr \<Rightarrow> nat \<Rightarrow> bool \<Rightarrow> 'd world \<Rightarrow> loop_exit option \<times> 'd world" where
  "add_map1 E idev ip mi map_found s =
     (let s1 = map_dir1 E idev map_found s in
      if \<not> map_found \<and> map_dir_of s1 idev = NULL then (Some (Goto_err mi (- ENOMEM)), s1)
      else map_kobj1 E idev ip mi s1)"

fun add_maps ::
    "env \<Rightarrow> ptr \<Rightarrow> ptr \<Rightarrow> nat \<Rightarrow> nat \<Rightarrow> bool \<Rightarrow> 'd world \<Rightarrow> loop_exit \<times> 'd world" where
  "add_maps E idev ip 0 mi map_found s = (Loop_done mi, s)"
| "add_maps E idev ip (Suc n) mi map_found s =
     (if mem_size (info_mem (w_info s ip) ! mi) = 0 then (Loop_done mi, s)
      else case add_map1 E idev ip mi map_found s of
             (Some e, s1) \<Rightarrow> (e, s1)
           | (None, s1) \<Rightarrow> add_maps E idev ip n (Suc mi) True s1)"

definition portio_dir1 :: "env \<Rightarrow> ptr \<Rightarrow> bool \<Rightarrow> 'd world \<Rightarrow> 'd world" where
  "portio_dir1 E idev portio_found s =
     (if portio_found then s
      else let (dir, t) = kdo_w E (Obj (Kobject_create_and_add ''portio'')) s
           in upd_dev idev (\<lambda>d. d\<lparr>d_portio_dir := dir\<rparr>) t)"

definition portio_kobj1 :: "env \<Rightarrow> ptr \<Rightarrow> ptr \<Rightarrow> nat \<Rightarrow> 'd world \<Rightarrow> loop_exit option \<times> 'd world" where
  "portio_kobj1 E idev ip pi s1 =
     (let (portio, s2) = kdo_w E (Obj (Kzalloc K_uio_portio)) s1 in
      if portio = NULL then (Some (Goto_err pi (- ENOMEM)), s2)
      else
        let s3 = kvoid_w (Obj (Kobject_init K_uio_portio portio)) s2;
            s4 = s3\<lparr>w_portio := (w_portio s3)(portio \<mapsto> \<lparr>uport_port = (ip, pi)\<rparr>)\<rparr>;
            s5 = set_port ip pi ((info_port (w_info s4 ip) ! pi)\<lparr>port_portio := portio\<rparr>) s4;
            (ret, s6) = kdo_w E (Obj (Kobject_add portio (portio_dir_of s5 idev) ''port'' pi)) s5 in
        if ret \<noteq> 0 then (Some (Goto_err_kobj pi ret), s6)
        else
          let (ret, s7) = kdo_w E (Obj (Kobject_uevent portio)) s6 in
          if ret \<noteq> 0 then (Some (Goto_err_kobj pi ret), s7) else (None, s7))"

definition add_port1 ::
    "env \<Rightarrow> ptr \<Rightarrow> ptr \<Rightarrow> nat \<Rightarrow> bool \<Rightarrow> 'd world \<Rightarrow> loop_exit option \<times> 'd world" where
  "add_port1 E idev ip pi portio_found s =
     (let s1 = portio_dir1 E idev portio_found s in
      if \<not> portio_found \<and> portio_dir_of s1 idev = NULL then (Some (Goto_err pi (- ENOMEM)), s1)
      else portio_kobj1 E idev ip pi s1)"

fun add_ports ::
    "env \<Rightarrow> ptr \<Rightarrow> ptr \<Rightarrow> nat \<Rightarrow> nat \<Rightarrow> bool \<Rightarrow> 'd world \<Rightarrow> loop_exit \<times> 'd world" where
  "add_ports E idev ip 0 pi portio_found s = (Loop_done pi, s)"
| "add_ports E idev ip (Suc n) pi portio_found s =
     (if port_size (info_port (w_info s ip) ! pi) = 0 then (Loop_done pi, s)
      else case add_port1 E idev ip pi portio_found s of
             (Some e, s1) \<Rightarrow> (e, s1)
           | (None, s1) \<Rightarrow> add_ports E idev ip n (Suc pi) True s1)"

text \<open>The loops behind the labels, counting down: \<open>put_maps ip k\<close> puts the entries \<open>k - 1, \<dots>, 0\<close>.\<close>

fun put_maps :: "ptr \<Rightarrow> nat \<Rightarrow> 'd world \<Rightarrow> 'd world" where
  "put_maps ip 0 s = s"
| "put_maps ip (Suc k) s = put_maps ip k (put_map (mem_map (info_mem (w_info s ip) ! k)) s)"

fun put_ports :: "ptr \<Rightarrow> nat \<Rightarrow> 'd world \<Rightarrow> 'd world" where
  "put_ports ip 0 s = s"
| "put_ports ip (Suc k) s = put_ports ip k (put_portio (port_portio (info_port (w_info s ip) ! k)) s)"

definition err_map :: "ptr \<Rightarrow> ptr \<Rightarrow> nat \<Rightarrow> int \<Rightarrow> 'd world \<Rightarrow> int \<times> 'd world" where
  "err_map idev ip k ret s =
     (let s1 = put_maps ip k s;
          s2 = kobject_put (map_dir_of s1 idev) s1
      in (ret, kvoid_w (Dev (Dev_err ''error creating sysfs files'')) s2))"

definition err_portio :: "ptr \<Rightarrow> ptr \<Rightarrow> nat \<Rightarrow> nat \<Rightarrow> int \<Rightarrow> 'd world \<Rightarrow> int \<times> 'd world" where
  "err_portio idev ip k mi ret s =
     (let s1 = put_ports ip k s;
          s2 = kobject_put (portio_dir_of s1 idev) s1
      in err_map idev ip mi ret s2)"

definition uio_dev_add_attributes :: "env \<Rightarrow> ptr \<Rightarrow> 'd world \<Rightarrow> (int \<times> 'd world) option" where
  "uio_dev_add_attributes E idev s =
     (case w_dev s idev of
        None \<Rightarrow> None
      | Some d \<Rightarrow>
          let ip = d_info d in
          Some (case add_maps E idev ip MAX_UIO_MAPS 0 False s of
             (Goto_err mi ret, s1) \<Rightarrow> err_map idev ip mi ret s1
           | (Goto_err_kobj mi ret, s1) \<Rightarrow> err_map idev ip (Suc mi) ret s1
           | (Loop_done mi, s1) \<Rightarrow>
               (case add_ports E idev ip MAX_UIO_PORT_REGIONS 0 False s1 of
                  (Goto_err pi ret, s2) \<Rightarrow> err_portio idev ip pi mi ret s2
                | (Goto_err_kobj pi ret, s2) \<Rightarrow> err_portio idev ip (Suc pi) mi ret s2
                | (Loop_done pi, s2) \<Rightarrow> (0, s2))))"

text \<open>The loops of \<open>uio_dev_del_attributes\<close>, counting up to the first entry of size 0.\<close>

fun del_maps :: "ptr \<Rightarrow> nat \<Rightarrow> nat \<Rightarrow> 'd world \<Rightarrow> 'd world" where
  "del_maps ip 0 i s = s"
| "del_maps ip (Suc n) i s =
     (if mem_size (info_mem (w_info s ip) ! i) = 0 then s
      else del_maps ip n (Suc i) (put_map (mem_map (info_mem (w_info s ip) ! i)) s))"

fun del_ports :: "ptr \<Rightarrow> nat \<Rightarrow> nat \<Rightarrow> 'd world \<Rightarrow> 'd world" where
  "del_ports ip 0 i s = s"
| "del_ports ip (Suc n) i s =
     (if port_size (info_port (w_info s ip) ! i) = 0 then s
      else del_ports ip n (Suc i) (put_portio (port_portio (info_port (w_info s ip) ! i)) s))"

definition uio_dev_del_attributes :: "ptr \<Rightarrow> 'd world \<Rightarrow> 'd world option" where
  "uio_dev_del_attributes idev s =
     (case w_dev s idev of
        None \<Rightarrow> None
      | Some d \<Rightarrow>
          let ip = d_info d;
              s1 = del_maps ip MAX_UIO_MAPS 0 s;
              s2 = kobject_put (map_dir_of s1 idev) s1;
              s3 = del_ports ip MAX_UIO_PORT_REGIONS 0 s2
          in Some (kobject_put (portio_dir_of s3 idev) s3))"


section \<open>What the creation leaves alone\<close>

definition clean_info :: "'d uio_info \<Rightarrow> 'd uio_info" where
  "clean_info i = i\<lparr>info_mem := map (\<lambda>m. m\<lparr>mem_map := NULL\<rparr>) (info_mem i),
     info_port := map (\<lambda>m. m\<lparr>port_portio := NULL\<rparr>) (info_port i)\<rparr>"

definition clean_dev :: "uio_device \<Rightarrow> uio_device" where
  "clean_dev d = d\<lparr>d_map_dir := NULL, d_portio_dir := NULL\<rparr>"

text \<open>Two states of the core that differ at most in the kobject pointers of one \<open>uio_info\<close>, in the
  directories of one device, in the stores of kobjects and in the log.\<close>

definition attr_frame :: "ptr \<Rightarrow> ptr \<Rightarrow> 'd world \<Rightarrow> 'd world \<Rightarrow> bool" where
  "attr_frame idev ip s s' \<longleftrightarrow>
     w_idr s' = w_idr s \<and> w_lst s' = w_lst s \<and> w_drv s' = w_drv s
     \<and> w_class_registered s' = w_class_registered s
     \<and> (\<forall>p. p \<noteq> ip \<longrightarrow> w_info s' p = w_info s p)
     \<and> clean_info (w_info s' ip) = clean_info (w_info s ip)
     \<and> (\<forall>p. p \<noteq> idev \<longrightarrow> w_dev s' p = w_dev s p)
     \<and> map_option clean_dev (w_dev s' idev) = map_option clean_dev (w_dev s idev)"

lemma clean_dev_upd [simp]:
  "clean_dev (d\<lparr>d_map_dir := a\<rparr>) = clean_dev d" "clean_dev (d\<lparr>d_portio_dir := a\<rparr>) = clean_dev d"
  by (simp_all add: clean_dev_def)

lemma attr_frame_refl [simp]: "attr_frame idev ip s s"
  by (simp add: attr_frame_def)

lemma attr_frame_trans [trans]:
  "attr_frame idev ip s t \<Longrightarrow> attr_frame idev ip t u \<Longrightarrow> attr_frame idev ip s u"
  by (simp add: attr_frame_def)

lemma attr_frame_dev: "attr_frame idev ip s t \<Longrightarrow> (w_dev t idev = None) = (w_dev s idev = None)"
  by (metis attr_frame_def option.map_disc_iff)

lemma attr_frame_same:
  "w_info t = w_info s \<Longrightarrow> w_dev t = w_dev s \<Longrightarrow> w_idr t = w_idr s \<Longrightarrow> w_lst t = w_lst s \<Longrightarrow>
   w_drv t = w_drv s \<Longrightarrow> w_class_registered t = w_class_registered s \<Longrightarrow> attr_frame idev ip s t"
  by (simp add: attr_frame_def)

lemma clean_map_upd:
  "mi < length ms \<Longrightarrow>
   map (\<lambda>m. m\<lparr>mem_map := NULL\<rparr>) (ms[mi := (ms ! mi)\<lparr>mem_map := p\<rparr>]) = map (\<lambda>m. m\<lparr>mem_map := NULL\<rparr>) ms"
  by (rule nth_equalityI) (auto simp: nth_list_update)

lemma clean_port_upd:
  "mi < length ms \<Longrightarrow>
   map (\<lambda>m. m\<lparr>port_portio := NULL\<rparr>) (ms[mi := (ms ! mi)\<lparr>port_portio := p\<rparr>]) =
   map (\<lambda>m. m\<lparr>port_portio := NULL\<rparr>) ms"
  by (rule nth_equalityI) (auto simp: nth_list_update)

lemma map_through: "map f xs = map f ys \<Longrightarrow> (\<And>x. g (f x) = h x) \<Longrightarrow> map h xs = map h ys"
proof -
  assume "map f xs = map f ys" and gf: "\<And>x. g (f x) = h x"
  then have "map g (map f xs) = map g (map f ys)" by simp
  then show ?thesis by (simp add: comp_def gf)
qed

lemma clean_info_mem:
  assumes "clean_info i = clean_info j"
  shows "map mem_size (info_mem i) = map mem_size (info_mem j)"
    and "map port_size (info_port i) = map port_size (info_port j)"
proof -
  have "map (\<lambda>m. m\<lparr>mem_map := NULL\<rparr>) (info_mem i) = map (\<lambda>m. m\<lparr>mem_map := NULL\<rparr>) (info_mem j)"
    using arg_cong [OF assms, of info_mem] by (simp add: clean_info_def)
  then show "map mem_size (info_mem i) = map mem_size (info_mem j)"
    by (rule map_through [of _ _ _ mem_size]) simp
  have "map (\<lambda>m. m\<lparr>port_portio := NULL\<rparr>) (info_port i) = map (\<lambda>m. m\<lparr>port_portio := NULL\<rparr>) (info_port j)"
    using arg_cong [OF assms, of info_port] by (simp add: clean_info_def)
  then show "map port_size (info_port i) = map port_size (info_port j)"
    by (rule map_through [of _ _ _ port_size]) simp
qed

section \<open>The loop over an array of kobjects\<close>

text \<open>How many entries an exit from the loop leaves with a live kobject.\<close>

fun exit_count :: "loop_exit \<Rightarrow> nat" where
  "exit_count (Loop_done n) = n"
| "exit_count (Goto_err n r) = n"
| "exit_count (Goto_err_kobj n r) = Suc n"

fun exit_err :: "loop_exit \<Rightarrow> bool" where
  "exit_err (Loop_done n) = False"
| "exit_err (Goto_err n r) = (r \<noteq> 0)"
| "exit_err (Goto_err_kobj n r) = (r \<noteq> 0)"

definition dir_held :: "ptr \<Rightarrow> resource \<Rightarrow> int" where
  "dir_held p x = (if p = NULL then 0 else one (Kref p) x)"

lemma dir_held_NULL [simp]: "dir_held NULL x = 0"
  by (simp add: dir_held_def)

text \<open>
  Both loops of \<open>uio_dev_add_attributes\<close> and the loops that undo them follow one contract over an
  array of entries with a size and a kobject pointer, a directory and the loop functions.  \<open>other\<close> is
  the part of the state that belongs to the other array.
\<close>

locale kobj_loop =
  fixes sizes :: "'d uio_info \<Rightarrow> u64 list"
    and ptrs :: "'d uio_info \<Rightarrow> ptr list"
    and dir_of :: "'d world \<Rightarrow> ptr \<Rightarrow> ptr"
    and other :: "'d world \<Rightarrow> ptr \<Rightarrow> ptr \<Rightarrow> 'o"
    and tag :: ktag
    and dir1 :: "env \<Rightarrow> ptr \<Rightarrow> bool \<Rightarrow> 'd world \<Rightarrow> 'd world"
    and kobj1 :: "env \<Rightarrow> ptr \<Rightarrow> ptr \<Rightarrow> nat \<Rightarrow> 'd world \<Rightarrow> loop_exit option \<times> 'd world"
    and loop :: "env \<Rightarrow> ptr \<Rightarrow> ptr \<Rightarrow> nat \<Rightarrow> nat \<Rightarrow> bool \<Rightarrow> 'd world \<Rightarrow> loop_exit \<times> 'd world"
    and put :: "ptr \<Rightarrow> 'd world \<Rightarrow> 'd world"
    and puts :: "ptr \<Rightarrow> nat \<Rightarrow> 'd world \<Rightarrow> 'd world"
    and dels :: "ptr \<Rightarrow> nat \<Rightarrow> nat \<Rightarrow> 'd world \<Rightarrow> 'd world"
  assumes lengths: "length (ptrs i) = length (sizes i)"
    and sizes_frame: "clean_info i = clean_info j \<Longrightarrow> sizes i = sizes j"
    and dir1_found: "dir1 E idev True s = s"
    and dir1_first: "w_dev s idev \<noteq> None \<Longrightarrow> dir_of s idev = NULL \<Longrightarrow>
      bal (w_log (dir1 E idev False s)) x = bal (w_log s) x + dir_held (dir_of (dir1 E idev False s) idev) x"
    and dir1_frame: "attr_frame idev ip s (dir1 E idev fnd s)"
      "w_info (dir1 E idev fnd s) = w_info s" "other (dir1 E idev fnd s) idev ip = other s idev ip"
    and kobj1_cases: "k < length (sizes (w_info s ip)) \<Longrightarrow> kobj1 E idev ip k s = (out, s') \<Longrightarrow>
      attr_frame idev ip s s' \<and> other s' idev ip = other s idev ip \<and> dir_of s' = dir_of s \<and>
      (out = Some (Goto_err k (- ENOMEM)) \<and> ptrs (w_info s' ip) = ptrs (w_info s ip)
         \<and> bal (w_log s') = bal (w_log s)
       \<or> (\<exists>p. p \<noteq> NULL \<and> (out = None \<or> (\<exists>r. out = Some (Goto_err_kobj k r) \<and> r \<noteq> 0))
         \<and> ptrs (w_info s' ip) = (ptrs (w_info s ip))[k := p]
         \<and> bal (w_log s') = (\<lambda>x. bal (w_log s) x + (one (Kref p) x + one (Mem tag p) x))))"
    and loop_0: "loop E idev ip 0 k fnd s = (Loop_done k, s)"
    and loop_Suc: "k < length (sizes (w_info s ip)) \<Longrightarrow> loop E idev ip (Suc n) k fnd s =
      (if sizes (w_info s ip) ! k = 0 then (Loop_done k, s)
       else case (let s1 = dir1 E idev fnd s in
                  if \<not> fnd \<and> dir_of s1 idev = NULL then (Some (Goto_err k (- ENOMEM)), s1)
                  else kobj1 E idev ip k s1) of
              (Some e, s1) \<Rightarrow> (e, s1)
            | (None, s1) \<Rightarrow> loop E idev ip n (Suc k) True s1)"
    and put_frame: "w_info (put p s) = w_info s" "w_dev (put p s) = w_dev s" "attr_frame idev ip s (put p s)"
    and put_bal: "p \<noteq> NULL \<Longrightarrow>
      bal (w_log (put p s)) x = bal (w_log s) x - (one (Kref p) x + one (Mem tag p) x)"
    and puts_0: "puts ip 0 s = s"
    and puts_Suc: "k < length (sizes (w_info s ip)) \<Longrightarrow>
      puts ip (Suc k) s = puts ip k (put (ptrs (w_info s ip) ! k) s)"
    and dels_0: "dels ip 0 k s = s"
    and dels_Suc: "k < length (sizes (w_info s ip)) \<Longrightarrow> dels ip (Suc n) k s =
      (if sizes (w_info s ip) ! k = 0 then s
       else dels ip n (Suc k) (put (ptrs (w_info s ip) ! k) s))"
begin

definition held :: "'d uio_info \<Rightarrow> nat \<Rightarrow> resource \<Rightarrow> int" where
  "held i k x = (\<Sum>j<k. one (Kref (ptrs i ! j)) x + one (Mem tag (ptrs i ! j)) x)"

definition live :: "'d uio_info \<Rightarrow> nat \<Rightarrow> bool" where
  "live i k \<longleftrightarrow> (\<forall>j<k. ptrs i ! j \<noteq> NULL)"

definition used :: "'d uio_info \<Rightarrow> nat" where
  "used i = length (takeWhile (\<lambda>z. z \<noteq> 0) (sizes i))"

lemma used_le: "used i \<le> length (sizes i)"
  by (simp add: used_def length_takeWhile_le)

lemma used_step: "k \<le> used i \<Longrightarrow> k < length (sizes i) \<Longrightarrow> sizes i ! k \<noteq> 0 \<Longrightarrow> Suc k \<le> used i"
proof (rule ccontr)
  assume k: "k \<le> used i" "k < length (sizes i)" "sizes i ! k \<noteq> 0" and "\<not> Suc k \<le> used i"
  then have "k = used i" by simp
  with k(2,3) nth_length_takeWhile [of "\<lambda>z. z \<noteq> 0" "sizes i"] show False
    by (simp add: used_def)
qed

lemma used_below: "k < used i \<Longrightarrow> sizes i ! k \<noteq> 0"
proof -
  assume k: "k < used i"
  then have "takeWhile (\<lambda>z. z \<noteq> 0) (sizes i) ! k \<in> set (takeWhile (\<lambda>z. z \<noteq> 0) (sizes i))"
    by (simp add: used_def)
  then have "takeWhile (\<lambda>z. z \<noteq> 0) (sizes i) ! k \<noteq> 0" by (blast dest: set_takeWhileD)
  with k show ?thesis by (simp add: used_def takeWhile_nth)
qed

lemma used_stop: "k \<le> used i \<Longrightarrow> k < length (sizes i) \<Longrightarrow> sizes i ! k = 0 \<Longrightarrow> k = used i"
  using used_below le_neq_implies_less by blast

lemma frame_used: "attr_frame idev ip s t \<Longrightarrow> used (w_info t ip) = used (w_info s ip)"
  by (metis attr_frame_def sizes_frame used_def)

lemma frame_len: "attr_frame idev ip s t \<Longrightarrow> length (sizes (w_info t ip)) = length (sizes (w_info s ip))"
  by (metis attr_frame_def sizes_frame)

lemma put_then: "attr_frame idev ip' (put p s) t \<Longrightarrow> attr_frame idev ip' s t"
  by (rule attr_frame_trans [OF put_frame(3)])

lemma puts_frame:
  "k \<le> length (sizes (w_info s ip)) \<Longrightarrow>
   w_info (puts ip k s) = w_info s \<and> w_dev (puts ip k s) = w_dev s \<and> attr_frame idev ip' s (puts ip k s)"
proof (induction k arbitrary: s)
  case 0
  then show ?case by (simp add: puts_0)
next
  case (Suc k)
  let ?t = "put (ptrs (w_info s ip) ! k) s"
  have "w_info (puts ip k ?t) = w_info ?t \<and> w_dev (puts ip k ?t) = w_dev ?t \<and> attr_frame idev ip' ?t (puts ip k ?t)"
    using Suc by (intro Suc.IH) (simp add: put_frame)
  then show ?case
    using Suc.prems by (auto simp: puts_Suc put_frame(1,2) intro: put_then)
qed

lemma puts_bal:
  "k \<le> length (sizes (w_info s ip)) \<Longrightarrow> live (w_info s ip) k \<Longrightarrow>
   bal (w_log (puts ip k s)) x = bal (w_log s) x - held (w_info s ip) k x"
proof (induction k arbitrary: s)
  case 0
  then show ?case by (simp add: puts_0 held_def)
next
  case (Suc k)
  let ?t = "put (ptrs (w_info s ip) ! k) s"
  have "bal (w_log (puts ip k ?t)) x = bal (w_log ?t) x - held (w_info ?t ip) k x"
    using Suc by (intro Suc.IH) (auto simp: put_frame live_def)
  then show ?case
    using Suc.prems by (simp add: puts_Suc put_frame put_bal held_def live_def)
qed

lemma dels_frame:
  "k + n \<le> length (sizes (w_info s ip)) \<Longrightarrow>
   w_info (dels ip n k s) = w_info s \<and> w_dev (dels ip n k s) = w_dev s \<and> attr_frame idev ip' s (dels ip n k s)"
proof (induction n arbitrary: s k)
  case 0
  then show ?case by (simp add: dels_0)
next
  case (Suc n)
  let ?t = "put (ptrs (w_info s ip) ! k) s"
  have "w_info (dels ip n (Suc k) ?t) = w_info ?t \<and> w_dev (dels ip n (Suc k) ?t) = w_dev ?t
      \<and> attr_frame idev ip' ?t (dels ip n (Suc k) ?t)"
    using Suc by (intro Suc.IH) (simp add: put_frame)
  then show ?case
    using Suc.prems by (auto simp: dels_Suc put_frame(1,2) intro: put_then)
qed

lemma dels_bal:
  "k + n = length (sizes (w_info s ip)) \<Longrightarrow> k \<le> used (w_info s ip) \<Longrightarrow> live (w_info s ip) (used (w_info s ip)) \<Longrightarrow>
   bal (w_log (dels ip n k s)) x =
     bal (w_log s) x - (held (w_info s ip) (used (w_info s ip)) x - held (w_info s ip) k x)"
proof (induction n arbitrary: s k)
  case 0
  then have "k = used (w_info s ip)" using used_le [of "w_info s ip"] by simp
  then show ?case by (simp add: dels_0)
next
  case (Suc n)
  show ?case
  proof (cases "sizes (w_info s ip) ! k = 0")
    case True
    with Suc.prems have "k = used (w_info s ip)" by (simp add: used_stop)
    with True Suc.prems show ?thesis by (simp add: dels_Suc)
  next
    case False
    let ?t = "put (ptrs (w_info s ip) ! k) s"
    have u: "Suc k \<le> used (w_info s ip)" using Suc.prems False by (simp add: used_step)
    then have "bal (w_log (dels ip n (Suc k) ?t)) x =
        bal (w_log ?t) x - (held (w_info ?t ip) (used (w_info ?t ip)) x - held (w_info ?t ip) (Suc k) x)"
      using Suc.prems by (intro Suc.IH) (simp_all add: put_frame)
    moreover have "ptrs (w_info s ip) ! k \<noteq> NULL" using Suc.prems(3) u by (simp add: live_def)
    ultimately show ?thesis
      using False Suc.prems by (simp add: dels_Suc put_frame put_bal held_def)
  qed
qed


text \<open>One iteration keeps the books: what it took is what the entries up to the exit hold.\<close>

definition books :: "ptr \<Rightarrow> ptr \<Rightarrow> 'd world \<Rightarrow> nat \<Rightarrow> 'd world \<Rightarrow> nat \<Rightarrow> bool" where
  "books idev ip s k s' k' \<longleftrightarrow>
     attr_frame idev ip s s' \<and> other s' idev ip = other s idev ip
     \<and> live (w_info s' ip) k' \<and> k' \<le> length (sizes (w_info s ip))
     \<and> (\<forall>x. bal (w_log s') x - dir_held (dir_of s' idev) x - held (w_info s' ip) k' x =
            bal (w_log s) x - dir_held (dir_of s idev) x - held (w_info s ip) k x)"

lemma books_trans: "books idev ip s k t j \<Longrightarrow> books idev ip t j u l \<Longrightarrow> books idev ip s k u l"
  unfolding books_def by (metis attr_frame_trans frame_len)

lemma held_upd: "k < length (ptrs i) \<Longrightarrow> ptrs i' = (ptrs i)[k := p] \<Longrightarrow>
    held i' (Suc k) x = held i k x + (one (Kref p) x + one (Mem tag p) x)"
  by (simp add: held_def)

lemma dir1_books:
  assumes "w_dev s idev \<noteq> None" "\<not> fnd \<Longrightarrow> dir_of s idev = NULL"
    "k \<le> length (sizes (w_info s ip))" "live (w_info s ip) k"
  shows "books idev ip s k (dir1 E idev fnd s) k"
  using assms by (cases fnd) (auto simp: books_def dir1_found dir1_frame dir1_first)

lemma kobj1_books:
  assumes "k < length (sizes (w_info s ip))" "kobj1 E idev ip k s = (out, s')" "live (w_info s ip) k"
  shows "books idev ip s k s' (case out of None \<Rightarrow> Suc k | Some e \<Rightarrow> exit_count e)
    \<and> (\<forall>e. out = Some e \<longrightarrow> exit_err e)"
proof -
  from kobj1_cases [OF assms(1,2)]
  consider (nomem) "out = Some (Goto_err k (- ENOMEM))" "ptrs (w_info s' ip) = ptrs (w_info s ip)"
      "bal (w_log s') = bal (w_log s)"
    | (kobj) p where "p \<noteq> NULL" "out = None \<or> (\<exists>r. out = Some (Goto_err_kobj k r) \<and> r \<noteq> 0)"
      "ptrs (w_info s' ip) = (ptrs (w_info s ip))[k := p]"
      "bal (w_log s') = (\<lambda>x. bal (w_log s) x + (one (Kref p) x + one (Mem tag p) x))"
    by blast
  then show ?thesis
  proof cases
    case nomem
    with kobj1_cases [OF assms(1,2)] assms(1,3) show ?thesis
      by (simp add: books_def live_def held_def errno_simps)
  next
    case (kobj p)
    have "live (w_info s' ip) (Suc k)"
      using assms(1,3) kobj(1,3) by (auto simp: live_def lengths nth_list_update less_Suc_eq)
    moreover have "held (w_info s' ip) (Suc k) x = held (w_info s ip) k x + (one (Kref p) x + one (Mem tag p) x)" for x
      using assms(1) kobj(3) by (intro held_upd) (simp_all add: lengths)
    ultimately show ?thesis
      using kobj1_cases [OF assms(1,2)] assms(1) kobj(2,4) by (auto simp: books_def)
  qed
qed

lemma loop_books:
  assumes "loop E idev ip n k fnd s = (e, s')" "k + n = length (sizes (w_info s ip))"
    "k \<le> used (w_info s ip)" "live (w_info s ip) k" "w_dev s idev \<noteq> None"
    "\<not> fnd \<Longrightarrow> dir_of s idev = NULL"
  shows "books idev ip s k s' (exit_count e)
    \<and> (case e of Loop_done d \<Rightarrow> d = used (w_info s ip) | _ \<Rightarrow> exit_err e)"
  using assms
proof (induction n arbitrary: k fnd s)
  case 0
  then show ?case using used_le [of "w_info s ip"] by (auto simp: loop_0 books_def)
next
  case (Suc n)
  have k: "k < length (sizes (w_info s ip))" using Suc.prems by simp
  show ?case
  proof (cases "sizes (w_info s ip) ! k = 0")
    case True
    with Suc.prems k show ?thesis by (auto simp: loop_Suc books_def used_stop)
  next
    case False
    let ?s1 = "dir1 E idev fnd s"
    have b1: "books idev ip s k ?s1 k" using Suc.prems k by (intro dir1_books) simp_all
    show ?thesis
    proof (cases "\<not> fnd \<and> dir_of ?s1 idev = NULL")
      case True
      with Suc.prems(1) False k b1 show ?thesis by (auto simp: loop_Suc errno_simps)
    next
      case nodir: False
      obtain out s2 where o: "kobj1 E idev ip k ?s1 = (out, s2)" by (cases "kobj1 E idev ip k ?s1")
      have b2: "books idev ip ?s1 k s2 (case out of None \<Rightarrow> Suc k | Some e \<Rightarrow> exit_count e)
          \<and> (\<forall>e. out = Some e \<longrightarrow> exit_err e)"
        using k Suc.prems(4) o by (intro kobj1_books) (simp_all add: dir1_frame)
      show ?thesis
      proof (cases out)
        case (Some e1)
        with Suc.prems(1) False nodir k o have "e = e1" "s' = s2" by (auto simp: loop_Suc)
        with b1 b2 Some show ?thesis by (cases e1) (auto intro: books_trans)
      next
        case None
        with Suc.prems(1) False nodir k o have l: "loop E idev ip n (Suc k) True s2 = (e, s')"
          by (auto simp: loop_Suc)
        from b1 b2 None have b: "books idev ip s k s2 (Suc k)" by (auto intro: books_trans)
        then have f: "attr_frame idev ip s s2" by (simp add: books_def)
        have "books idev ip s2 (Suc k) s' (exit_count e)
          \<and> (case e of Loop_done d \<Rightarrow> d = used (w_info s2 ip) | _ \<Rightarrow> exit_err e)"
          using l Suc.prems k False b frame_len [OF f] frame_used [OF f] attr_frame_dev [OF f]
          by (intro Suc.IH) (auto simp: books_def used_step)
        with b frame_used [OF f] show ?thesis by (cases e) (auto intro: books_trans)
      qed
    qed
  qed
qed

end


lemma dir_of_cong [simp]:
  "map_dir_of (s\<lparr>w_log := l\<rparr>) = map_dir_of s" "portio_dir_of (s\<lparr>w_log := l\<rparr>) = portio_dir_of s"
  "map_dir_of (snd (kdo_w E c s)) = map_dir_of s" "portio_dir_of (snd (kdo_w E c s)) = portio_dir_of s"
  "map_dir_of (kvoid_w c s) = map_dir_of s" "portio_dir_of (kvoid_w c s) = portio_dir_of s"
  "map_dir_of (set_mem ip i m s) = map_dir_of s" "portio_dir_of (set_mem ip i m s) = portio_dir_of s"
  "map_dir_of (set_port ip i q s) = map_dir_of s" "portio_dir_of (set_port ip i q s) = portio_dir_of s"
  "map_dir_of (s\<lparr>w_map := f\<rparr>) = map_dir_of s" "portio_dir_of (s\<lparr>w_map := f\<rparr>) = portio_dir_of s"
  "map_dir_of (s\<lparr>w_portio := g\<rparr>) = map_dir_of s" "portio_dir_of (s\<lparr>w_portio := g\<rparr>) = portio_dir_of s"
  by (simp_all add: map_dir_of_def portio_dir_of_def fun_eq_iff)

definition map_sizes :: "'d uio_info \<Rightarrow> u64 list" where "map_sizes i = map mem_size (info_mem i)"
definition map_ptrs :: "'d uio_info \<Rightarrow> ptr list" where "map_ptrs i = map mem_map (info_mem i)"
definition port_sizes :: "'d uio_info \<Rightarrow> u64 list" where "port_sizes i = map port_size (info_port i)"
definition port_ptrs :: "'d uio_info \<Rightarrow> ptr list" where "port_ptrs i = map port_portio (info_port i)"

definition ports_of :: "'d world \<Rightarrow> ptr \<Rightarrow> ptr \<Rightarrow> uio_port list \<times> ptr" where
  "ports_of s idev ip = (info_port (w_info s ip), portio_dir_of s idev)"
definition maps_of :: "'d world \<Rightarrow> ptr \<Rightarrow> ptr \<Rightarrow> uio_mem list \<times> ptr" where
  "maps_of s idev ip = (info_mem (w_info s ip), map_dir_of s idev)"

lemma put_map_sel [simp]:
  "w_info (put_map p s) = w_info s" "w_dev (put_map p s) = w_dev s" "attr_frame idev ip s (put_map p s)"
  by (simp_all add: put_map_def map_release_def kobject_put_def kvoid_w_def attr_frame_def)

lemma put_portio_sel [simp]:
  "w_info (put_portio p s) = w_info s" "w_dev (put_portio p s) = w_dev s" "attr_frame idev ip s (put_portio p s)"
  by (simp_all add: put_portio_def portio_release_def kobject_put_def kvoid_w_def attr_frame_def)

lemma put_map_bal:
  "p \<noteq> NULL \<Longrightarrow> bal (w_log (put_map p s)) x =
     bal (w_log s) x - (one (Kref p) x + one (Mem K_uio_map p) x)"
  by (simp add: put_map_def map_release_def kobject_put_def effect_simps)

lemma put_portio_bal:
  "p \<noteq> NULL \<Longrightarrow> bal (w_log (put_portio p s)) x =
     bal (w_log s) x - (one (Kref p) x + one (Mem K_uio_portio p) x)"
  by (simp add: put_portio_def portio_release_def kobject_put_def effect_simps)

lemma ptrs_upd [simp]:
  "map_ptrs (v\<lparr>info_mem := (info_mem v)[k := (info_mem v ! k)\<lparr>mem_map := p\<rparr>]\<rparr>) = (map_ptrs v)[k := p]"
  "port_ptrs (v\<lparr>info_port := (info_port v)[k := (info_port v ! k)\<lparr>port_portio := p\<rparr>]\<rparr>) = (port_ptrs v)[k := p]"
  by (simp_all add: map_ptrs_def port_ptrs_def map_update)

lemma map_kobj1_law:
  assumes "k < length (info_mem (w_info s ip))" "map_kobj1 E idev ip k s = (out, s')"
  shows "attr_frame idev ip s s' \<and> ports_of s' idev ip = ports_of s idev ip \<and> map_dir_of s' = map_dir_of s \<and>
      (out = Some (Goto_err k (- ENOMEM)) \<and> map_ptrs (w_info s' ip) = map_ptrs (w_info s ip)
         \<and> bal (w_log s') = bal (w_log s)
       \<or> (\<exists>p. p \<noteq> NULL \<and> (out = None \<or> (\<exists>r. out = Some (Goto_err_kobj k r) \<and> r \<noteq> 0))
         \<and> map_ptrs (w_info s' ip) = (map_ptrs (w_info s ip))[k := p]
         \<and> bal (w_log s') = (\<lambda>x. bal (w_log s) x + (one (Kref p) x + one (Mem K_uio_map p) x))))"
proof (cases "E (w_log s) (Obj (Kzalloc K_uio_map)) = NULL")
  case True
  with assms(2) show ?thesis
    by (auto simp: map_kobj1_def case_prod_beta effect_simps attr_frame_def ports_of_def fun_eq_iff)
next
  case False
  let ?p = "E (w_log s) (Obj (Kzalloc K_uio_map))"
  have "attr_frame idev ip s s' \<and> ports_of s' idev ip = ports_of s idev ip \<and> map_dir_of s' = map_dir_of s"
    using False assms
    by (auto simp: map_kobj1_def case_prod_beta Let_def attr_frame_def clean_info_def clean_map_upd
        ports_of_def split: if_splits)
  moreover have "(out = None \<or> (\<exists>r. out = Some (Goto_err_kobj k r) \<and> r \<noteq> 0))
      \<and> map_ptrs (w_info s' ip) = (map_ptrs (w_info s ip))[k := ?p]
      \<and> bal (w_log s') = (\<lambda>x. bal (w_log s) x + (one (Kref ?p) x + one (Mem K_uio_map ?p) x))"
    using False assms
    by (auto simp: map_kobj1_def case_prod_beta Let_def effect_simps fun_eq_iff split: if_splits)
  ultimately show ?thesis using False by blast
qed

lemma portio_kobj1_law:
  assumes "k < length (info_port (w_info s ip))" "portio_kobj1 E idev ip k s = (out, s')"
  shows "attr_frame idev ip s s' \<and> maps_of s' idev ip = maps_of s idev ip \<and> portio_dir_of s' = portio_dir_of s \<and>
      (out = Some (Goto_err k (- ENOMEM)) \<and> port_ptrs (w_info s' ip) = port_ptrs (w_info s ip)
         \<and> bal (w_log s') = bal (w_log s)
       \<or> (\<exists>p. p \<noteq> NULL \<and> (out = None \<or> (\<exists>r. out = Some (Goto_err_kobj k r) \<and> r \<noteq> 0))
         \<and> port_ptrs (w_info s' ip) = (port_ptrs (w_info s ip))[k := p]
         \<and> bal (w_log s') = (\<lambda>x. bal (w_log s) x + (one (Kref p) x + one (Mem K_uio_portio p) x))))"
proof (cases "E (w_log s) (Obj (Kzalloc K_uio_portio)) = NULL")
  case True
  with assms(2) show ?thesis
    by (auto simp: portio_kobj1_def case_prod_beta effect_simps attr_frame_def maps_of_def fun_eq_iff)
next
  case False
  let ?p = "E (w_log s) (Obj (Kzalloc K_uio_portio))"
  have "attr_frame idev ip s s' \<and> maps_of s' idev ip = maps_of s idev ip \<and> portio_dir_of s' = portio_dir_of s"
    using False assms
    by (auto simp: portio_kobj1_def case_prod_beta Let_def attr_frame_def clean_info_def clean_port_upd
        maps_of_def split: if_splits)
  moreover have "(out = None \<or> (\<exists>r. out = Some (Goto_err_kobj k r) \<and> r \<noteq> 0))
      \<and> port_ptrs (w_info s' ip) = (port_ptrs (w_info s ip))[k := ?p]
      \<and> bal (w_log s') = (\<lambda>x. bal (w_log s) x + (one (Kref ?p) x + one (Mem K_uio_portio ?p) x))"
    using False assms
    by (auto simp: portio_kobj1_def case_prod_beta Let_def effect_simps fun_eq_iff split: if_splits)
  ultimately show ?thesis using False by blast
qed

interpretation lm: kobj_loop map_sizes map_ptrs map_dir_of ports_of K_uio_map
  map_dir1 map_kobj1 add_maps put_map put_maps del_maps
proof (unfold_locales, goal_cases)
  case 1 show ?case by (simp add: map_ptrs_def map_sizes_def)
next
  case 2 then show ?case unfolding map_sizes_def by (rule clean_info_mem(1))
next
  case 3 show ?case by (simp add: map_dir1_def)
next
  case (4 s idev E x)
  then show ?case by (auto simp: map_dir1_def case_prod_beta effect_simps map_dir_of_def dir_held_def)
next
  case (5 idev ip s E fnd)
  show ?case by (auto simp: map_dir1_def case_prod_beta attr_frame_def option.map_comp comp_def)
next
  case 6 show ?case by (simp add: map_dir1_def case_prod_beta)
next
  case 7 show ?case
    by (auto simp: map_dir1_def case_prod_beta ports_of_def portio_dir_of_def split: option.splits)
next
  case 8 then show ?case by (intro map_kobj1_law) (simp_all add: map_sizes_def)
next
  case 9 show ?case by simp
next
  case 10 then show ?case by (simp add: add_map1_def map_sizes_def)
next
  case 11 show ?case by simp
next
  case 12 show ?case by simp
next
  case 13 show ?case by simp
next
  case 14 then show ?case by (rule put_map_bal)
next
  case 15 show ?case by simp
next
  case 16 then show ?case by (simp add: map_ptrs_def map_sizes_def)
next
  case 17 show ?case by simp
next
  case 18 then show ?case by (simp add: map_ptrs_def map_sizes_def)
qed

interpretation lp: kobj_loop port_sizes port_ptrs portio_dir_of maps_of K_uio_portio
  portio_dir1 portio_kobj1 add_ports put_portio put_ports del_ports
proof (unfold_locales, goal_cases)
  case 1 show ?case by (simp add: port_ptrs_def port_sizes_def)
next
  case 2 then show ?case unfolding port_sizes_def by (rule clean_info_mem(2))
next
  case 3 show ?case by (simp add: portio_dir1_def)
next
  case (4 s idev E x)
  then show ?case by (auto simp: portio_dir1_def case_prod_beta effect_simps portio_dir_of_def dir_held_def)
next
  case (5 idev ip s E fnd)
  show ?case by (auto simp: portio_dir1_def case_prod_beta attr_frame_def option.map_comp comp_def)
next
  case 6 show ?case by (simp add: portio_dir1_def case_prod_beta)
next
  case 7 show ?case
    by (auto simp: portio_dir1_def case_prod_beta maps_of_def map_dir_of_def split: option.splits)
next
  case 8 then show ?case by (intro portio_kobj1_law) (simp_all add: port_sizes_def)
next
  case 9 show ?case by simp
next
  case 10 then show ?case by (simp add: add_port1_def port_sizes_def)
next
  case 14 then show ?case by (rule put_portio_bal)
next
  case 16 then show ?case by (simp add: port_ptrs_def port_sizes_def)
next
  case 18 then show ?case by (simp add: port_ptrs_def port_sizes_def)
qed simp_all


section \<open>Creation and removal\<close>

text \<open>What the sysfs objects of a device hold: both directories and the kobjects of the used entries.\<close>

definition attrs_held :: "ptr \<Rightarrow> 'd uio_info \<Rightarrow> 'd world \<Rightarrow> resource \<Rightarrow> int" where
  "attrs_held idev i s x =
     dir_held (map_dir_of s idev) x + dir_held (portio_dir_of s idev) x
     + (\<Sum>k<used_maps i. one (Kref (map_ptrs i ! k)) x + one (Mem K_uio_map (map_ptrs i ! k)) x)
     + (\<Sum>k<used_ports i. one (Kref (port_ptrs i ! k)) x + one (Mem K_uio_portio (port_ptrs i ! k)) x)"

definition attrs_live :: "'d uio_info \<Rightarrow> bool" where
  "attrs_live i \<longleftrightarrow>
     (\<forall>k<used_maps i. map_ptrs i ! k \<noteq> NULL) \<and> (\<forall>k<used_ports i. port_ptrs i ! k \<noteq> NULL)"

lemma used_eq: "lm.used i = used_maps i" "lp.used i = used_ports i"
  by (simp_all add: lm.used_def lp.used_def used_maps_def used_ports_def map_sizes_def port_sizes_def
      takeWhile_map comp_def)

lemma len_wf: "wf_info i \<Longrightarrow> length (map_sizes i) = MAX_UIO_MAPS" "wf_info i \<Longrightarrow> length (port_sizes i) = MAX_UIO_PORT_REGIONS"
  by (simp_all add: wf_info_def map_sizes_def port_sizes_def)

lemma frame_wf: "attr_frame idev ip s t \<Longrightarrow> wf_info (w_info t ip) = wf_info (w_info s ip)"
  by (metis (no_types, lifting) attr_frame_def clean_info_mem length_map wf_info_def)

lemma frame_used_all: "attr_frame idev ip s t \<Longrightarrow> used_maps (w_info t ip) = used_maps (w_info s ip)"
  "attr_frame idev ip s t \<Longrightarrow> used_ports (w_info t ip) = used_ports (w_info s ip)"
  using lm.frame_used lp.frame_used by (metis used_eq)+

lemma kobject_put_sel [simp]:
  "w_info (kobject_put p s) = w_info s" "w_dev (kobject_put p s) = w_dev s" "attr_frame idev ip s (kobject_put p s)"
  "map_dir_of (kobject_put p s) = map_dir_of s" "portio_dir_of (kobject_put p s) = portio_dir_of s"
  by (simp_all add: kobject_put_def attr_frame_def)

lemma kobject_put_bal: "bal (w_log (kobject_put p s)) x = bal (w_log s) x - dir_held p x"
  by (simp add: kobject_put_def effect_simps dir_held_def)

lemma dirs_same: "w_dev t = w_dev s \<Longrightarrow> map_dir_of t idev = map_dir_of s idev"
  "w_dev t = w_dev s \<Longrightarrow> portio_dir_of t idev = portio_dir_of s idev"
  by (simp_all add: map_dir_of_def portio_dir_of_def)

lemma err_map_books:
  assumes "err_map idev ip k ret s = (r, s')" "wf_info (w_info s ip)" "k \<le> MAX_UIO_MAPS" "lm.live (w_info s ip) k"
  shows "r = ret \<and> attr_frame idev ip s s' \<and>
    bal (w_log s') x = bal (w_log s) x - lm.held (w_info s ip) k x - dir_held (map_dir_of s idev) x"
proof -
  let ?t = "put_maps ip k s"
  have k: "k \<le> length (map_sizes (w_info s ip))" using assms by (simp add: len_wf)
  have f: "w_dev ?t = w_dev s" "attr_frame idev ip s ?t" using lm.puts_frame [OF k] by blast+
  have r: "r = ret" "s' = kvoid_w (Dev (Dev_err ''error creating sysfs files'')) (kobject_put (map_dir_of ?t idev) ?t)"
    using assms(1) by (simp_all add: err_map_def Let_def)
  have "attr_frame idev ip ?t s'"
    unfolding r by (rule attr_frame_same) (simp_all add: kobject_put_def)
  moreover have "bal (w_log ?t) x = bal (w_log s) x - lm.held (w_info s ip) k x"
    using k assms(4) by (rule lm.puts_bal)
  ultimately show ?thesis
    using r attr_frame_trans [OF f(2)] by (simp add: effect_simps kobject_put_bal dirs_same(1) [OF f(1)])
qed

lemma err_portio_books:
  assumes "err_portio idev ip k mi ret s = (r, s')" "wf_info (w_info s ip)"
    "k \<le> MAX_UIO_PORT_REGIONS" "lp.live (w_info s ip) k" "mi \<le> MAX_UIO_MAPS" "lm.live (w_info s ip) mi"
  shows "r = ret \<and> attr_frame idev ip s s' \<and>
    bal (w_log s') x = bal (w_log s) x - lp.held (w_info s ip) k x - dir_held (portio_dir_of s idev) x
      - lm.held (w_info s ip) mi x - dir_held (map_dir_of s idev) x"
proof -
  let ?t = "put_ports ip k s"
  let ?u = "kobject_put (portio_dir_of ?t idev) ?t"
  have k: "k \<le> length (port_sizes (w_info s ip))" using assms by (simp add: len_wf)
  have f: "w_info ?t = w_info s" "w_dev ?t = w_dev s" "attr_frame idev ip s ?t"
    using lp.puts_frame [OF k] by blast+
  have b: "bal (w_log ?t) x = bal (w_log s) x - lp.held (w_info s ip) k x"
    using k assms(4) by (rule lp.puts_bal)
  have e: "err_map idev ip mi ret ?u = (r, s')" using assms(1) by (simp add: err_portio_def Let_def)
  have "wf_info (w_info ?u ip)" "lm.live (w_info ?u ip) mi" using assms f by simp_all
  note e = err_map_books [OF e this(1) assms(5) this(2), of x]
  have "attr_frame idev ip s ?u" by (rule attr_frame_trans [OF f(3)]) simp
  from attr_frame_trans [OF this] e have "attr_frame idev ip s s'" by blast
  with e b show ?thesis
    by (simp add: kobject_put_bal f(1) dirs_same [OF f(2)])
qed

lemma live_cong: "info_mem i = info_mem j \<Longrightarrow> lm.live i k = lm.live j k" "info_mem i = info_mem j \<Longrightarrow> lm.held i k x = lm.held j k x"
  "info_port i = info_port j \<Longrightarrow> lp.live i k = lp.live j k" "info_port i = info_port j \<Longrightarrow> lp.held i k x = lp.held j k x"
  by (simp_all add: lm.live_def lp.live_def lm.held_def lp.held_def map_ptrs_def port_ptrs_def)

lemma attrs_held_eq:
  "attrs_held idev i s x = dir_held (map_dir_of s idev) x + dir_held (portio_dir_of s idev) x
     + lm.held i (used_maps i) x + lp.held i (used_ports i) x"
  by (simp add: attrs_held_def lm.held_def lp.held_def)

lemma attrs_live_eq: "attrs_live i \<longleftrightarrow> lm.live i (used_maps i) \<and> lp.live i (used_ports i)"
  by (simp add: attrs_live_def lm.live_def lp.live_def)

lemma add_attributes_spec:
  assumes "w_dev s idev = Some d" "wf_info (w_info s (d_info d))"
    "d_map_dir d = NULL" "d_portio_dir d = NULL"
    "uio_dev_add_attributes E idev s = Some (ret, s')"
  defines "ip \<equiv> d_info d"
  shows "attr_frame idev ip s s' \<and>
    (if ret = 0 then attrs_live (w_info s' ip) \<and>
         (\<forall>x. bal (w_log s') x = bal (w_log s) x + attrs_held idev (w_info s' ip) s' x)
     else bal (w_log s') = bal (w_log s))"
proof -
  obtain e1 s1 where l1: "add_maps E idev ip MAX_UIO_MAPS 0 False s = (e1, s1)" by fastforce
  have wf: "wf_info (w_info s ip)" using assms by simp
  have b1: "lm.books idev ip s 0 s1 (exit_count e1)
      \<and> (case e1 of Loop_done d \<Rightarrow> d = used_maps (w_info s ip) | _ \<Rightarrow> exit_err e1)"
    using l1 assms(1,3) wf lm.loop_books [OF l1] by (auto simp: len_wf used_eq lm.live_def map_dir_of_def split: loop_exit.splits)
  then have f1: "attr_frame idev ip s s1" and p1: "ports_of s1 idev ip = ports_of s idev ip"
    and c1: "exit_count e1 \<le> MAX_UIO_MAPS" and v1: "lm.live (w_info s1 ip) (exit_count e1)"
    and h1: "\<And>x. bal (w_log s1) x = bal (w_log s) x + dir_held (map_dir_of s1 idev) x + lm.held (w_info s1 ip) (exit_count e1) x"
    using wf assms(1,3) by (auto simp: lm.books_def len_wf lm.held_def map_dir_of_def algebra_simps)
  have wf1: "wf_info (w_info s1 ip)" using f1 wf by (simp add: frame_wf)
  show ?thesis
  proof (cases "\<exists>n. e1 = Loop_done n")
    case False
    with l1 assms(1,5) obtain k r where k: "k = exit_count e1" "err_map idev ip k r s1 = (ret, s')" "r \<noteq> 0"
      using b1 by (cases e1) (auto simp: uio_dev_add_attributes_def ip_def Let_def)
    from err_map_books [OF k(2) wf1] c1 v1 k(1) have
      "ret = r \<and> attr_frame idev ip s1 s' \<and> (\<forall>x. bal (w_log s') x = bal (w_log s1) x
         - lm.held (w_info s1 ip) k x - dir_held (map_dir_of s1 idev) x)"
      by blast
    with k h1 f1 show ?thesis by (auto simp: fun_eq_iff intro: attr_frame_trans)
  next
    case True
    then obtain n where n: "e1 = Loop_done n" by blast
    obtain e2 s2 where l2: "add_ports E idev ip MAX_UIO_PORT_REGIONS 0 False s1 = (e2, s2)" by fastforce
    have d1: "portio_dir_of s1 idev = NULL" using p1 assms(1,4) by (simp add: ports_of_def portio_dir_of_def)
    have b2: "lp.books idev ip s1 0 s2 (exit_count e2)
        \<and> (case e2 of Loop_done d \<Rightarrow> d = used_ports (w_info s1 ip) | _ \<Rightarrow> exit_err e2)"
      using d1 assms(1) wf1 lp.loop_books [OF l2] attr_frame_dev [OF f1]
      by (auto simp: len_wf used_eq lp.live_def split: loop_exit.splits)
    then have f2: "attr_frame idev ip s1 s2" and m2: "maps_of s2 idev ip = maps_of s1 idev ip"
      and c2: "exit_count e2 \<le> MAX_UIO_PORT_REGIONS" and v2: "lp.live (w_info s2 ip) (exit_count e2)"
      and h2: "\<And>x. bal (w_log s2) x = bal (w_log s1) x + dir_held (portio_dir_of s2 idev) x + lp.held (w_info s2 ip) (exit_count e2) x"
      using wf1 d1 by (auto simp: lp.books_def len_wf lp.held_def algebra_simps)
    have wf2: "wf_info (w_info s2 ip)" using f2 wf1 by (simp add: frame_wf)
    have m: "info_mem (w_info s2 ip) = info_mem (w_info s1 ip)" "map_dir_of s2 idev = map_dir_of s1 idev"
      using m2 by (simp_all add: maps_of_def)
    have f12: "attr_frame idev ip s s2" using f1 f2 by (rule attr_frame_trans)
    show ?thesis
    proof (cases "\<exists>j. e2 = Loop_done j")
      case False
      with l1 l2 n assms(1,5) obtain k r where k: "k = exit_count e2"
        "err_portio idev ip k n r s2 = (ret, s')" "r \<noteq> 0"
        using b2 by (cases e2) (auto simp: uio_dev_add_attributes_def ip_def Let_def)
      have "ret = r \<and> attr_frame idev ip s2 s' \<and> bal (w_log s') x = bal (w_log s2) x
          - lp.held (w_info s2 ip) k x - dir_held (portio_dir_of s2 idev) x
          - lm.held (w_info s2 ip) n x - dir_held (map_dir_of s2 idev) x" for x
        using k c1 c2 v1 v2 n wf2 m by (intro err_portio_books) (auto simp: live_cong(1) [OF m(1)])
      with k n h1 h2 f12 m show ?thesis by (auto simp: fun_eq_iff live_cong(2) [OF m(1)] intro: attr_frame_trans)
    next
      case True
      with l1 l2 n assms(1,5) have r: "ret = 0" "s' = s2"
        by (auto simp: uio_dev_add_attributes_def ip_def Let_def)
      have u: "exit_count e1 = used_maps (w_info s2 ip)" "exit_count e2 = used_ports (w_info s2 ip)"
        using True n b1 b2 frame_used_all [OF f12] frame_used_all [OF f2] by auto
      show ?thesis
        using r f12 h1 h2 v1 v2 u m
        by (simp add: attrs_live_eq attrs_held_eq live_cong(1,2) [OF m(1)])
    qed
  qed
qed

lemma del_attributes_spec:
  assumes "w_dev s idev = Some d" "wf_info (w_info s (d_info d))" "attrs_live (w_info s (d_info d))"
    "uio_dev_del_attributes idev s = Some s'"
  shows "w_info s' = w_info s \<and> w_dev s' = w_dev s \<and> attr_frame idev (d_info d) s s' \<and>
    bal (w_log s') x = bal (w_log s) x - attrs_held idev (w_info s (d_info d)) s x"
proof -
  let ?ip = "d_info d"
  let ?t = "del_maps ?ip MAX_UIO_MAPS 0 s"
  let ?u = "kobject_put (map_dir_of ?t idev) ?t"
  let ?v = "del_ports ?ip MAX_UIO_PORT_REGIONS 0 ?u"
  have m: "0 + MAX_UIO_MAPS = length (map_sizes (w_info s ?ip))" using assms by (simp add: len_wf)
  have l: "lm.live (w_info s ?ip) (lm.used (w_info s ?ip))" "lp.live (w_info s ?ip) (lp.used (w_info s ?ip))"
    using assms(3) by (simp_all add: attrs_live_eq used_eq)
  have f: "w_info ?t = w_info s" "w_dev ?t = w_dev s" "attr_frame idev ?ip s ?t"
    using lm.dels_frame [OF eq_imp_le [OF m]] by blast+
  have p: "0 + MAX_UIO_PORT_REGIONS = length (port_sizes (w_info ?u ?ip))" using assms f by (simp add: len_wf)
  have g: "w_info ?v = w_info ?u" "w_dev ?v = w_dev ?u" "attr_frame idev ?ip ?u ?v"
    using lp.dels_frame [OF eq_imp_le [OF p]] by blast+
  have s': "s' = kobject_put (portio_dir_of ?v idev) ?v"
    using assms(1,4) by (simp add: uio_dev_del_attributes_def Let_def)
  have "bal (w_log ?t) x = bal (w_log s) x - lm.held (w_info s ?ip) (lm.used (w_info s ?ip)) x"
    using lm.dels_bal [OF m _ l(1), of x] by (simp add: lm.held_def)
  moreover have "bal (w_log ?v) x = bal (w_log ?u) x - lp.held (w_info s ?ip) (lp.used (w_info s ?ip)) x"
    using lp.dels_bal [OF p, of x] l(2) f by (simp add: lp.held_def)
  moreover have "attr_frame idev ?ip s ?v"
    by (rule attr_frame_trans [OF f(3) attr_frame_trans [OF _ g(3)]]) simp
  moreover have "attr_frame idev ?ip ?v s'" unfolding s' by simp
  moreover have "map_dir_of ?t idev = map_dir_of s idev" "portio_dir_of ?v idev = portio_dir_of s idev"
    using f g by (simp_all add: map_dir_of_def portio_dir_of_def)
  ultimately show ?thesis
    using f g attr_frame_trans [of idev ?ip s ?v s']
    by (simp add: s' kobject_put_bal attrs_held_eq used_eq)
qed

section \<open>Properties\<close>

text \<open>When the creation of the sysfs objects of a device fails at any of its allocation, add or
  uevent steps, for any behaviour of the kernel, every kobject, directory and allocation that was
  made before the failure has been given back: the ledger is that of the start, the return value is
  the error, and of the device and its \<open>uio_info\<close> only the kobject pointers can have changed.\<close>

theorem add_attributes_failure_gives_back:
  assumes "w_dev s idev = Some d" "wf_info (w_info s (d_info d))"
    "d_map_dir d = NULL" "d_portio_dir d = NULL"
    "uio_dev_add_attributes E idev s = Some (ret, s')" "ret \<noteq> 0"
  shows "bal (w_log s') = bal (w_log s) \<and> attr_frame idev (d_info d) s s'"
  using add_attributes_spec [OF assms(1-5)] assms(6) by simp

text \<open>A kernel whose \<open>kobject_add\<close> fails, and a state with one device that has one map and one port
  region.\<close>

definition tight_env :: env where
  "tight_env l c = (case c of
      Obj (Kobject_add p q n k) \<Rightarrow> - ENOMEM
    | _ \<Rightarrow> calm_env l c)"

definition demo_attr_world :: "unit world" where
  "demo_attr_world = (init_world ())\<lparr>w_dev := [128 \<mapsto> zero_device\<lparr>d_info := 64\<rparr>],
     w_info := (\<lambda>_. zero_info\<lparr>info_mem := (replicate 5 zero_mem)[0 := zero_mem\<lparr>mem_size := 4096\<rparr>],
       info_port := (replicate 5 zero_port)[0 := zero_port\<lparr>port_size := 8\<rparr>]\<rparr>)\<rparr>"

lemma demo_attr_runs:
  "map_option fst (uio_dev_add_attributes tight_env 128 demo_attr_world) = Some (- ENOMEM)"
  "map_option fst (uio_dev_add_attributes calm_env 128 demo_attr_world) = Some 0"
  by code_simp+

theorem add_attributes_failure_gives_back_witness:
  "\<exists>s'. uio_dev_add_attributes tight_env 128 demo_attr_world = Some (- ENOMEM, s')
      \<and> bal (w_log s') = bal (w_log demo_attr_world)"
  using add_attributes_failure_gives_back [of demo_attr_world 128 "zero_device\<lparr>d_info := 64\<rparr>" tight_env "- ENOMEM"]
    demo_attr_runs(1)
  by (auto simp: demo_attr_world_def init_world_def zero_info_def zero_device_def wf_info_def uio_consts errno_simps)

text \<open>Removing the sysfs objects of a device right after they were created undoes the creation:
  no directory, kobject or allocation of it is left.\<close>

theorem add_del_attributes_balance:
  assumes "w_dev s idev = Some d" "wf_info (w_info s (d_info d))"
    "d_map_dir d = NULL" "d_portio_dir d = NULL"
    "uio_dev_add_attributes E idev s = Some (0, s1)"
  shows "\<exists>s2. uio_dev_del_attributes idev s1 = Some s2 \<and> bal (w_log s2) = bal (w_log s)
           \<and> attr_frame idev (d_info d) s s2"
proof -
  have a: "attr_frame idev (d_info d) s s1" "attrs_live (w_info s1 (d_info d))"
    "\<And>x. bal (w_log s1) x = bal (w_log s) x + attrs_held idev (w_info s1 (d_info d)) s1 x"
    using add_attributes_spec [OF assms] by simp_all
  obtain d1 where d1: "w_dev s1 idev = Some d1" "d_info d1 = d_info d"
    using a(1) assms(1) by (auto simp: attr_frame_def clean_dev_def dest: arg_cong [of _ _ d_info])
  obtain s2 where s2: "uio_dev_del_attributes idev s1 = Some s2"
    using d1 by (simp add: uio_dev_del_attributes_def Let_def)
  have "wf_info (w_info s1 (d_info d))" using a(1) assms(2) by (simp add: frame_wf)
  then have "attr_frame idev (d_info d) s1 s2 \<and>
     bal (w_log s2) x = bal (w_log s1) x - attrs_held idev (w_info s1 (d_info d)) s1 x" for x
    using del_attributes_spec [OF d1(1) _ _ s2] d1(2) a(2) by simp
  with a(1,3) s2 attr_frame_trans [OF a(1)] show ?thesis by (auto simp: fun_eq_iff)
qed

theorem add_del_attributes_balance_witness:
  "\<exists>s1 s2. uio_dev_add_attributes calm_env 128 demo_attr_world = Some (0, s1)
      \<and> uio_dev_del_attributes 128 s1 = Some s2 \<and> bal (w_log s2) = bal (w_log demo_attr_world)"
proof -
  obtain s1 where s1: "uio_dev_add_attributes calm_env 128 demo_attr_world = Some (0, s1)"
    using demo_attr_runs(2) by auto
  have "w_dev demo_attr_world 128 = Some (zero_device\<lparr>d_info := 64\<rparr>)"
    "wf_info (w_info demo_attr_world 64)" "d_info (zero_device\<lparr>d_info := 64\<rparr>) = 64"
    by (simp_all add: demo_attr_world_def init_world_def zero_info_def zero_device_def wf_info_def uio_consts)
  with add_del_attributes_balance [OF this(1) _ _ _ s1] s1 show ?thesis
    by (auto simp: zero_device_def)
qed

end
