(* ===== verification/Uio_Device.thy ===== *)
theory Uio_Device
  imports Uio_Attr
begin

text \<open>
  The life of a UIO device (\<open>uio.c\<close>): minor numbers, event notification and the two interrupt
  handlers, the character-device region and the device class, registration with its four error
  labels, its resource-managed variant, and unregistration.

  The embedded \<open>struct device\<close> is reference counted: \<open>put_device\<close> runs \<open>uio_device_release\<close>, which
  frees the \<open>uio_device\<close>, when the count falls to 0.  An operation that would use a freed device, or
  follow a NULL pointer, is \<open>None\<close>.
\<close>

section \<open>Minor numbers\<close>

text \<open>\<open>idr_alloc\<close> puts the device under the number it returns; \<open>kernel_ok\<close> below states the contract
  of that number.\<close>

definition uio_get_minor :: "env \<Rightarrow> ptr \<Rightarrow> 'd world \<Rightarrow> int \<times> 'd world" where
  "uio_get_minor E idev s =
     (let s1 = mutex_lock Minor_lock s;
          (retval, s2) = kdo_w E (Dev (Idr_alloc idev)) s1;
          (ret, s3) =
            (if retval \<ge> 0 then
               (0, upd_dev idev (\<lambda>d. d\<lparr>d_minor := retval\<rparr>) (s2\<lparr>w_idr := (w_idr s2)(retval \<mapsto> idev)\<rparr>))
             else if retval = - ENOSPC then
               (- EINVAL, kvoid_w (Dev (Dev_err ''too many uio devices'')) s2)
             else (retval, s2))
      in (ret, mutex_unlock Minor_lock s3))"

definition uio_free_minor :: "int \<Rightarrow> 'd world \<Rightarrow> 'd world" where
  "uio_free_minor minor s =
     (let s1 = mutex_lock Minor_lock s;
          s2 = kvoid_w (Dev (Idr_remove minor)) s1
      in mutex_unlock Minor_lock (s2\<lparr>w_idr := (w_idr s2)(minor := None)\<rparr>))"

section \<open>Events and interrupts\<close>

definition SIGIO :: int where "SIGIO = 29"
definition POLL_IN :: int where "POLL_IN = 1"
definition POLL_HUP :: int where "POLL_HUP = 6"

definition uio_event_notify :: "ptr \<Rightarrow> 'd world \<Rightarrow> 'd world option" where
  "uio_event_notify ip s =
     (let idev = info_uio_dev (w_info s ip) in
      case w_dev s idev of
        None \<Rightarrow> None
      | Some d \<Rightarrow>
          let s1 = upd_dev idev (\<lambda>d. d\<lparr>d_event := d_event d + 1\<rparr>) s;
              s2 = kvoid_w (Sync (Wake_up_interruptible idev)) s1
          in Some (kvoid_w (Sync (Kill_fasync idev SIGIO POLL_IN)) s2))"

definition uio_interrupt_handler :: "int \<Rightarrow> ptr \<Rightarrow> 'd world \<Rightarrow> (irqreturn \<times> 'd world) option" where
  "uio_interrupt_handler irq idev s =
     (case w_dev s idev of
        None \<Rightarrow> None
      | Some d \<Rightarrow>
          if d_info d = NULL then None
          else (case info_handler (w_info s (d_info d)) of
                  None \<Rightarrow> None
                | Some handler \<Rightarrow>
                    let (ret, drv) = handler irq (w_drv s (d_info d));
                        s1 = s\<lparr>w_drv := (w_drv s)(d_info d := drv)\<rparr>
                    in Some (if ret = IRQ_HANDLED then IRQ_WAKE_THREAD else ret, s1)))"

definition uio_interrupt_thread :: "int \<Rightarrow> ptr \<Rightarrow> 'd world \<Rightarrow> (irqreturn \<times> 'd world) option" where
  "uio_interrupt_thread irq idev s =
     (case w_dev s idev of
        None \<Rightarrow> None
      | Some d \<Rightarrow>
          if d_info d = NULL then None
          else map_option (\<lambda>t. (IRQ_HANDLED, t)) (uio_event_notify (d_info d) s))"

section \<open>Reference counts of the device\<close>

definition uio_device_release :: "ptr \<Rightarrow> 'd world \<Rightarrow> 'd world" where
  "uio_device_release idev s =
     kvoid_w (Obj (Kfree K_uio_device idev)) (s\<lparr>w_dev := (w_dev s)(idev := None)\<rparr>)"

definition get_device :: "ptr \<Rightarrow> 'd world \<Rightarrow> 'd world option" where
  "get_device idev s =
     (case w_dev s idev of
        None \<Rightarrow> None
      | Some d \<Rightarrow> Some (kvoid_w (Dev (Get_device idev)) (upd_dev idev (\<lambda>d. d\<lparr>d_kref := Suc (d_kref d)\<rparr>) s)))"

definition put_device :: "ptr \<Rightarrow> 'd world \<Rightarrow> 'd world option" where
  "put_device idev s =
     (case w_dev s idev of
        None \<Rightarrow> None
      | Some d \<Rightarrow>
          let s1 = kvoid_w (Dev (Put_device idev)) (upd_dev idev (\<lambda>d. d\<lparr>d_kref := d_kref d - 1\<rparr>) s)
          in Some (if d_kref d = 1 then uio_device_release idev s1 else s1))"

section \<open>The character devices and the class\<close>

definition uio_major_init :: "env \<Rightarrow> 'd world \<Rightarrow> int \<times> 'd world" where
  "uio_major_init E s =
     (let (result, s1) = kdo_w E (Reg Alloc_chrdev_region) s in
      if result \<noteq> 0 then (result, s1)
      else
        let (major, s2) = kdo_w E (Reg Out_chrdev_major) s1;
            (cdev, s3) = kdo_w E (Reg Cdev_alloc) s2 in
        if cdev = NULL then (- ENOMEM, kvoid_w (Reg Unregister_chrdev_region) s3)
        else
          let s4 = kvoid_w (Obj (Kobject_set_name cdev ''uio'')) s3;
              (result, s5) = kdo_w E (Reg (Cdev_add cdev)) s4 in
          if result \<noteq> 0 then
            (result, kvoid_w (Reg Unregister_chrdev_region) (kvoid_w (Obj (Kobject_put cdev)) s5))
          else (0, s5\<lparr>w_major := major, w_cdev := cdev\<rparr>))"

definition uio_major_cleanup :: "'d world \<Rightarrow> 'd world" where
  "uio_major_cleanup s =
     kvoid_w (Reg (Cdev_del (w_cdev s))) (kvoid_w (Reg Unregister_chrdev_region) s)"

definition init_uio_class :: "env \<Rightarrow> 'd world \<Rightarrow> int \<times> 'd world" where
  "init_uio_class E s =
     (let (ret, s1) = uio_major_init E s in
      if ret \<noteq> 0 then (ret, s1)
      else
        let (ret, s2) = kdo_w E (Reg Class_register) s1 in
        if ret \<noteq> 0 then
          (ret, uio_major_cleanup (kvoid_w (Dev (Dev_err ''class_register failed for uio'')) s2))
        else (0, s2\<lparr>w_class_registered := True\<rparr>))"

definition release_uio_class :: "'d world \<Rightarrow> 'd world" where
  "release_uio_class s =
     uio_major_cleanup (kvoid_w (Reg Class_unregister) (s\<lparr>w_class_registered := False\<rparr>))"

definition uio_init :: "env \<Rightarrow> 'd world \<Rightarrow> int \<times> 'd world" where
  "uio_init E s = init_uio_class E s"

definition uio_exit :: "'d world \<Rightarrow> 'd world" where
  "uio_exit s = (kvoid_w (Dev Idr_destroy) (release_uio_class s))\<lparr>w_idr := Map.empty\<rparr>"

section \<open>Registration\<close>

text \<open>The code behind the error labels of \<open>__uio_register_device\<close>, which fall through.\<close>

definition err_device_create :: "ptr \<Rightarrow> int \<Rightarrow> 'd world \<Rightarrow> (int \<times> 'd world) option" where
  "err_device_create idev ret s =
     (case w_dev s idev of
        None \<Rightarrow> None
      | Some d \<Rightarrow> map_option (\<lambda>t. (ret, t)) (put_device idev (uio_free_minor (d_minor d) s)))"

definition err_uio_dev_add_attributes :: "ptr \<Rightarrow> int \<Rightarrow> 'd world \<Rightarrow> (int \<times> 'd world) option" where
  "err_uio_dev_add_attributes idev ret s = err_device_create idev ret (kvoid_w (Dev (Device_del idev)) s)"

definition err_request_irq :: "ptr \<Rightarrow> int \<Rightarrow> 'd world \<Rightarrow> (int \<times> 'd world) option" where
  "err_request_irq idev ret s =
     (case uio_dev_del_attributes idev s of
        None \<Rightarrow> None
      | Some t \<Rightarrow> err_uio_dev_add_attributes idev ret t)"

text \<open>\<open>set_uio_dev\<close> is the assignment to \<open>info->uio_dev\<close>; \<open>needs_irq\<close> the condition under which the core
  itself requests and frees the interrupt line.\<close>

definition set_uio_dev :: "ptr \<Rightarrow> ptr \<Rightarrow> 'd world \<Rightarrow> 'd world" where
  "set_uio_dev ip idev = upd_info ip (\<lambda>i. i\<lparr>info_uio_dev := idev\<rparr>)"

definition needs_irq :: "'d uio_info \<Rightarrow> bool" where
  "needs_irq i \<longleftrightarrow> info_irq i \<noteq> 0 \<and> info_irq i \<noteq> UIO_IRQ_CUSTOM"

text \<open>The last part of the registration, from the request of the interrupt line on.\<close>

definition register_irq :: "env \<Rightarrow> ptr \<Rightarrow> ptr \<Rightarrow> 'd world \<Rightarrow> (int \<times> 'd world) option" where
  "register_irq E idev ip s =
     (let i = w_info s ip in
      if needs_irq i then
        let (ret, s1) = kdo_w E (Dev (Request_threaded_irq (info_irq i) (info_irq_flags i) idev)) s in
        if ret \<noteq> 0 then err_request_irq idev ret (set_uio_dev ip NULL s1) else Some (0, s1)
      else Some (0, s))"

text \<open>The middle part: from \<open>device_initialize\<close> to the sysfs attributes.\<close>

definition register_device :: "env \<Rightarrow> ptr \<Rightarrow> ptr \<Rightarrow> ptr \<Rightarrow> 'd world \<Rightarrow> (int \<times> 'd world) option" where
  "register_device E idev parent ip s =
     (case w_dev s idev of
        None \<Rightarrow> None
      | Some d \<Rightarrow>
          let s1 = upd_dev idev (\<lambda>d. d\<lparr>d_kref := 1, d_parent := parent\<rparr>)
                     (kvoid_w (Dev (Device_initialize idev)) s);
              (ret, s2) = kdo_w E (Dev (Dev_set_name idev ''uio%d'' (d_minor d))) s1 in
          if ret \<noteq> 0 then err_device_create idev ret s2
          else
            let (ret, s3) = kdo_w E (Dev (Device_add idev)) s2 in
            if ret \<noteq> 0 then err_device_create idev ret s3
            else (case uio_dev_add_attributes E idev s3 of
                    None \<Rightarrow> None
                  | Some (ret, s4) \<Rightarrow>
                      if ret \<noteq> 0 then err_uio_dev_add_attributes idev ret s4
                      else register_irq E idev ip (set_uio_dev ip idev s4)))"

definition uio_register_device :: "env \<Rightarrow> ptr \<Rightarrow> ptr \<Rightarrow> ptr \<Rightarrow> 'd world \<Rightarrow> (int \<times> 'd world) option" where
  "uio_register_device E owner parent ip s =
     (if \<not> w_class_registered s then Some (- EPROBE_DEFER, s)
      else if parent = NULL \<or> ip = NULL \<or> info_name (w_info s ip) = None \<or> info_version (w_info s ip) = None
      then Some (- EINVAL, s)
      else
        let s1 = set_uio_dev ip NULL s;
            (idev, s2) = kdo_w E (Obj (Kzalloc K_uio_device)) s1 in
        if idev = NULL then Some (- ENOMEM, s2)
        else
          let s3 = s2\<lparr>w_dev := (w_dev s2)(idev \<mapsto> zero_device\<lparr>d_owner := owner, d_info := ip, d_event := 0\<rparr>)\<rparr>;
              (ret, s4) = uio_get_minor E idev s3 in
          if ret \<noteq> 0 then
            Some (ret, kvoid_w (Obj (Kfree K_uio_device idev)) (s4\<lparr>w_dev := (w_dev s4)(idev := None)\<rparr>))
          else register_device E idev parent ip s4)"

section \<open>Unregistration and the managed variant\<close>

definition device_unregister :: "ptr \<Rightarrow> 'd world \<Rightarrow> 'd world option" where
  "device_unregister idev s = put_device idev (kvoid_w (Dev (Device_del idev)) s)"

definition uio_unregister_device :: "ptr \<Rightarrow> 'd world \<Rightarrow> 'd world option" where
  "uio_unregister_device ip s =
     (if ip = NULL \<or> info_uio_dev (w_info s ip) = NULL then Some s
      else
        let idev = info_uio_dev (w_info s ip); i = w_info s ip in
        case w_dev s idev of
          None \<Rightarrow> None
        | Some d \<Rightarrow>
            (case uio_dev_del_attributes idev (mutex_lock (Info_lock idev) s) of
               None \<Rightarrow> None
             | Some s1 \<Rightarrow>
                 let s2 = (if needs_irq i then kvoid_w (Dev (Free_irq (info_irq i) idev)) s1 else s1);
                     s3 = mutex_unlock (Info_lock idev) (upd_dev idev (\<lambda>d. d\<lparr>d_info := NULL\<rparr>) s2);
                     s4 = kvoid_w (Sync (Wake_up_interruptible idev)) s3;
                     s5 = kvoid_w (Sync (Kill_fasync idev SIGIO POLL_HUP)) s4
                 in device_unregister idev (uio_free_minor (d_minor d) s5)))"

text \<open>The devres entry holds the \<open>uio_info\<close>; its release function is \<open>devm_uio_unregister_device\<close>.\<close>

definition devm_uio_unregister_device :: "ptr \<Rightarrow> 'd world \<Rightarrow> 'd world option" where
  "devm_uio_unregister_device res s = uio_unregister_device res s"

definition devm_uio_register_device ::
    "env \<Rightarrow> ptr \<Rightarrow> ptr \<Rightarrow> ptr \<Rightarrow> 'd world \<Rightarrow> (int \<times> 'd world) option" where
  "devm_uio_register_device E owner parent ip s =
     (let (p, s1) = kdo_w E (Obj Devres_alloc) s in
      if p = NULL then Some (- ENOMEM, s1)
      else (case uio_register_device E owner parent ip s1 of
              None \<Rightarrow> None
            | Some (ret, s2) \<Rightarrow>
                if ret \<noteq> 0 then Some (ret, kvoid_w (Obj (Devres_free p)) s2)
                else Some (0, kvoid_w (Obj (Devres_add parent p)) s2)))"


section \<open>Minor numbers and references: what the small operations do\<close>

lemma uio_free_minor_sel [simp]:
  "w_idr (uio_free_minor m s) = (w_idr s)(m := None)" "w_dev (uio_free_minor m s) = w_dev s"
  "w_info (uio_free_minor m s) = w_info s" "w_lst (uio_free_minor m s) = w_lst s"
  "w_drv (uio_free_minor m s) = w_drv s"
  "w_class_registered (uio_free_minor m s) = w_class_registered s"
  by (simp_all add: uio_free_minor_def mutex_lock_def mutex_unlock_def)

lemma uio_free_minor_bal [effect_simps]:
  "bal (w_log (uio_free_minor m s)) x = bal (w_log s) x - one (Minor_no m) x"
  by (simp add: uio_free_minor_def mutex_lock_def mutex_unlock_def effect_simps)

lemma uio_device_release_sel [simp]:
  "w_idr (uio_device_release p s) = w_idr s" "w_dev (uio_device_release p s) = (w_dev s)(p := None)"
  "w_info (uio_device_release p s) = w_info s" "w_lst (uio_device_release p s) = w_lst s"
  "w_drv (uio_device_release p s) = w_drv s"
  "w_class_registered (uio_device_release p s) = w_class_registered s"
  by (simp_all add: uio_device_release_def)

lemma uio_device_release_bal [effect_simps]:
  "p \<noteq> NULL \<Longrightarrow> bal (w_log (uio_device_release p s)) x = bal (w_log s) x - one (Mem K_uio_device p) x"
  by (simp add: uio_device_release_def effect_simps)

text \<open>Dropping a reference: the memory goes with the last one.\<close>

lemma put_device_spec:
  assumes "w_dev s p = Some d" "p \<noteq> NULL"
  shows "\<exists>t. put_device p s = Some t \<and> w_info t = w_info s \<and> w_idr t = w_idr s \<and> w_lst t = w_lst s
    \<and> w_drv t = w_drv s \<and> w_class_registered t = w_class_registered s
    \<and> w_dev t = (w_dev s)(p := if d_kref d = 1 then None else Some (d\<lparr>d_kref := d_kref d - 1\<rparr>))
    \<and> (\<forall>x. bal (w_log t) x = bal (w_log s) x - one (Kref p) x
          - (if d_kref d = 1 then one (Mem K_uio_device p) x else 0))"
  using assms by (simp add: put_device_def effect_simps)

lemma err_device_create_spec:
  assumes "w_dev s p = Some d" "p \<noteq> NULL" "d_kref d = 1"
  shows "\<exists>t. err_device_create p ret s = Some (ret, t) \<and> w_info t = w_info s
    \<and> w_idr t = (w_idr s)(d_minor d := None) \<and> w_lst t = w_lst s
    \<and> w_drv t = w_drv s \<and> w_class_registered t = w_class_registered s \<and> w_dev t = (w_dev s)(p := None)
    \<and> (\<forall>x. bal (w_log t) x = bal (w_log s) x - one (Minor_no (d_minor d)) x - one (Kref p) x
          - one (Mem K_uio_device p) x)"
proof -
  let ?s = "uio_free_minor (d_minor d) s"
  have "w_dev ?s p = Some d" using assms by simp
  from put_device_spec [OF this assms(2)] obtain t where t: "put_device p ?s = Some t" "w_info t = w_info ?s"
    "w_idr t = w_idr ?s" "w_lst t = w_lst ?s" "w_drv t = w_drv ?s"
    "w_class_registered t = w_class_registered ?s" "w_dev t = (w_dev ?s)(p := None)"
    "\<forall>x. bal (w_log t) x = bal (w_log ?s) x - one (Kref p) x - one (Mem K_uio_device p) x"
    using assms(3) by auto
  then show ?thesis using assms(1) by (simp add: err_device_create_def uio_free_minor_bal)
qed

text \<open>The number \<open>uio_get_minor\<close> gives, and what it leaves when it fails.\<close>

lemma uio_get_minor_spec:
  assumes "uio_get_minor E p s = (ret, t)" "w_dev s p = Some d"
  shows "w_info t = w_info s \<and> w_lst t = w_lst s \<and> w_drv t = w_drv s
    \<and> w_class_registered t = w_class_registered s
    \<and> (if ret = 0
       then \<exists>m\<ge>0. m = E (w_log (mutex_lock Minor_lock s)) (Dev (Idr_alloc p))
          \<and> w_idr t = (w_idr s)(m \<mapsto> p) \<and> w_dev t = (w_dev s)(p \<mapsto> d\<lparr>d_minor := m\<rparr>)
          \<and> (\<forall>x. bal (w_log t) x = bal (w_log s) x + one (Minor_no m) x)
       else ret < 0 \<and> w_idr t = w_idr s \<and> w_dev t = w_dev s \<and> bal (w_log t) = bal (w_log s))"
  using assms
  by (auto simp: uio_get_minor_def Let_def case_prod_beta mutex_lock_def mutex_unlock_def effect_simps
      fun_eq_iff errno_simps split: if_splits)

section \<open>Registration\<close>

text \<open>What a registered device holds: a reference, its number, its place in the device tree, its
  interrupt line and its sysfs objects; the memory of the device goes with its last reference.\<close>

definition reg_held :: "ptr \<Rightarrow> int \<Rightarrow> 'd uio_info \<Rightarrow> 'd world \<Rightarrow> resource \<Rightarrow> int" where
  "reg_held idev m i s x =
     one (Kref idev) x + one (Minor_no m) x + one (Dev_added idev) x
     + (if needs_irq i then one (Irq_line (info_irq i) idev) x else 0)
     + attrs_held idev i s x"

text \<open>Everything but the log, the device pointer and the kobject pointers of one \<open>uio_info\<close> is as before.\<close>

definition no_trace :: "ptr \<Rightarrow> 'd world \<Rightarrow> 'd world \<Rightarrow> bool" where
  "no_trace ip s s' \<longleftrightarrow>
     w_dev s' = w_dev s \<and> w_idr s' = w_idr s \<and> w_lst s' = w_lst s \<and> w_drv s' = w_drv s
     \<and> w_class_registered s' = w_class_registered s
     \<and> (\<forall>p. p \<noteq> ip \<longrightarrow> w_info s' p = w_info s p)
     \<and> clean_info ((w_info s' ip)\<lparr>info_uio_dev := NULL\<rparr>) = clean_info ((w_info s ip)\<lparr>info_uio_dev := NULL\<rparr>)
     \<and> bal (w_log s') = bal (w_log s)"

text \<open>The stores agree with the ledger: allocated devices and listeners are those in the stores, used
  minor numbers those of the \<open>idr\<close>.\<close>

definition store_ok :: "'d world \<Rightarrow> bool" where
  "store_ok s \<longleftrightarrow>
     (\<forall>p. bal (w_log s) (Mem K_uio_device p) = of_bool (w_dev s p \<noteq> None))
     \<and> (\<forall>p. bal (w_log s) (Mem K_uio_listener p) = of_bool (w_lst s p \<noteq> None))
     \<and> (\<forall>m. bal (w_log s) (Minor_no m) = of_bool (w_idr s m \<noteq> None))
     \<and> w_dev s NULL = None \<and> w_lst s NULL = None"

definition registered :: "ptr \<Rightarrow> ptr \<Rightarrow> 'd world \<Rightarrow> bool" where
  "registered ip idev s \<longleftrightarrow> (\<exists>d. w_dev s idev = Some d \<and> d_info d = ip \<and> ip \<noteq> NULL \<and> idev \<noteq> NULL
     \<and> w_idr s (d_minor d) = Some idev \<and> 1 \<le> d_kref d)
     \<and> info_uio_dev (w_info s ip) = idev \<and> wf_info (w_info s ip) \<and> attrs_live (w_info s ip)"

lemma upd_uio_dev [simp]:
  "w_log (set_uio_dev ip q s) = w_log s" "w_dev (set_uio_dev ip q s) = w_dev s"
  "w_idr (set_uio_dev ip q s) = w_idr s" "w_lst (set_uio_dev ip q s) = w_lst s"
  "w_drv (set_uio_dev ip q s) = w_drv s" "w_class_registered (set_uio_dev ip q s) = w_class_registered s"
  "w_info (set_uio_dev ip q s) = (w_info s)(ip := (w_info s ip)\<lparr>info_uio_dev := q\<rparr>)"
  by (simp_all add: set_uio_dev_def)

lemma clean_info_sel:
  assumes "clean_info i = clean_info j"
  shows "info_uio_dev i = info_uio_dev j" "info_irq i = info_irq j" "info_open i = info_open j"
    "info_release i = info_release j" "info_irqcontrol i = info_irqcontrol j" "info_mmap i = info_mmap j"
    "info_name i = info_name j" "info_version i = info_version j" "info_handler i = info_handler j"
    "needs_irq i = needs_irq j" "length (info_mem i) = length (info_mem j)"
    "length (info_port i) = length (info_port j)"
proof -
  have c: "f (clean_info i) = f (clean_info j)" for f :: "_ \<Rightarrow> 'b" using assms by simp
  show "info_uio_dev i = info_uio_dev j" "info_irq i = info_irq j" "info_open i = info_open j"
    "info_release i = info_release j" "info_irqcontrol i = info_irqcontrol j" "info_mmap i = info_mmap j"
    "info_name i = info_name j" "info_version i = info_version j" "info_handler i = info_handler j"
    using arg_cong [OF assms, of info_uio_dev] arg_cong [OF assms, of info_irq]
      arg_cong [OF assms, of info_open] arg_cong [OF assms, of info_release]
      arg_cong [OF assms, of info_irqcontrol] arg_cong [OF assms, of info_mmap]
      arg_cong [OF assms, of info_name] arg_cong [OF assms, of info_version]
      arg_cong [OF assms, of info_handler]
    by (simp_all add: clean_info_def)
  then show "needs_irq i = needs_irq j" by (simp add: needs_irq_def)
  show "length (info_mem i) = length (info_mem j)" "length (info_port i) = length (info_port j)"
    using clean_info_mem [OF assms] by (metis length_map)+
qed

lemma clean_info_uio_dev:
  "clean_info i = clean_info j \<Longrightarrow> clean_info (i\<lparr>info_uio_dev := q\<rparr>) = clean_info (j\<lparr>info_uio_dev := q\<rparr>)"
proof -
  have e: "clean_info (k\<lparr>info_uio_dev := q\<rparr>) = (clean_info k)\<lparr>info_uio_dev := q\<rparr>" for k :: "'a uio_info"
    by (simp add: clean_info_def)
  show "clean_info i = clean_info j \<Longrightarrow> ?thesis" by (simp add: e)
qed

lemma attrs_upd_uio_dev [simp]:
  "attrs_live (i\<lparr>info_uio_dev := q\<rparr>) = attrs_live i"
  "attrs_held idev (i\<lparr>info_uio_dev := q\<rparr>) s x = attrs_held idev i s x"
  "wf_info (i\<lparr>info_uio_dev := q\<rparr>) = wf_info i" "needs_irq (i\<lparr>info_uio_dev := q\<rparr>) = needs_irq i"
  by (simp_all add: attrs_live_def attrs_held_def used_maps_def used_ports_def map_ptrs_def port_ptrs_def
      wf_info_def needs_irq_def)


lemma attrs_held_dev: "w_dev t = w_dev s \<Longrightarrow> attrs_held idev i t x = attrs_held idev i s x"
  by (simp add: attrs_held_def map_dir_of_def portio_dir_of_def)

lemma add_attributes_total: "w_dev s idev = Some d \<Longrightarrow> \<exists>r t. uio_dev_add_attributes E idev s = Some (r, t)"
  by (simp add: uio_dev_add_attributes_def Let_def)

text \<open>The state after an error exit: the device is gone with its number, and the books are lower by what
  it held.\<close>

definition torn_down :: "ptr \<Rightarrow> ptr \<Rightarrow> int \<Rightarrow> (resource \<Rightarrow> int) \<Rightarrow> 'd world \<Rightarrow> 'd world \<Rightarrow> bool" where
  "torn_down ip idev m h s t \<longleftrightarrow>
     w_dev t = (w_dev s)(idev := None) \<and> w_idr t = (w_idr s)(m := None) \<and> w_lst t = w_lst s
     \<and> w_drv t = w_drv s \<and> w_class_registered t = w_class_registered s
     \<and> (\<forall>p. p \<noteq> ip \<longrightarrow> w_info t p = w_info s p)
     \<and> clean_info (w_info t ip) = clean_info (w_info s ip)
     \<and> (\<forall>x. bal (w_log t) x = bal (w_log s) x - h x)"

lemma attr_frame_Some:
  assumes "attr_frame idev ip s t" "w_dev s idev = Some d"
  shows "\<exists>d'. w_dev t idev = Some d' \<and> d_kref d' = d_kref d \<and> d_minor d' = d_minor d \<and> d_info d' = d_info d
    \<and> d_event d' = d_event d \<and> d_owner d' = d_owner d"
proof -
  obtain d' where d': "w_dev t idev = Some d'" "clean_dev d' = clean_dev d"
    using assms by (auto simp: attr_frame_def)
  from d'(2) have "f (clean_dev d') = f (clean_dev d)" for f :: "uio_device \<Rightarrow> 'b" by simp
  from d'(1) show ?thesis
    using arg_cong [OF d'(2), of d_kref] arg_cong [OF d'(2), of d_minor] arg_cong [OF d'(2), of d_info]
      arg_cong [OF d'(2), of d_event] arg_cong [OF d'(2), of d_owner] by (simp add: clean_dev_def)
qed

lemma attr_frame_upd: "attr_frame idev ip s t \<Longrightarrow> (w_dev t)(idev := v) = (w_dev s)(idev := v)"
  by (auto simp: attr_frame_def fun_eq_iff)

lemma err_create_torn:
  assumes "w_dev s idev = Some d" "idev \<noteq> NULL" "d_kref d = 1"
  shows "\<exists>t. err_device_create idev ret s = Some (ret, t) \<and>
    torn_down ip idev (d_minor d) (\<lambda>x. one (Minor_no (d_minor d)) x + one (Kref idev) x + one (Mem K_uio_device idev) x) s t"
  using err_device_create_spec [OF assms, of ret] by (auto simp: torn_down_def algebra_simps)

lemma err_attrs_torn:
  assumes "w_dev s idev = Some d" "idev \<noteq> NULL" "d_kref d = 1"
  shows "\<exists>t. err_uio_dev_add_attributes idev ret s = Some (ret, t) \<and>
    torn_down ip idev (d_minor d) (\<lambda>x. one (Dev_added idev) x + one (Minor_no (d_minor d)) x + one (Kref idev) x
      + one (Mem K_uio_device idev) x) s t"
  using err_create_torn [of "kvoid_w (Dev (Device_del idev)) s" idev d ret ip] assms
  by (auto simp: err_uio_dev_add_attributes_def torn_down_def effect_simps algebra_simps)

lemma torn_down_frame:
  assumes "attr_frame idev ip s t" "\<forall>x. bal (w_log t) x = bal (w_log s) x - g x"
    "torn_down ip idev m h t u"
  shows "torn_down ip idev m (\<lambda>x. g x + h x) s u"
  using assms attr_frame_upd [OF assms(1), of None]
  by (simp add: torn_down_def attr_frame_def algebra_simps)

lemma err_irq_torn:
  assumes "w_dev s idev = Some d" "idev \<noteq> NULL" "d_kref d = 1" "wf_info (w_info s (d_info d))"
    "attrs_live (w_info s (d_info d))"
  shows "\<exists>t. err_request_irq idev ret s = Some (ret, t) \<and>
    torn_down (d_info d) idev (d_minor d) (\<lambda>x. attrs_held idev (w_info s (d_info d)) s x +
      (one (Dev_added idev) x + one (Minor_no (d_minor d)) x + one (Kref idev) x + one (Mem K_uio_device idev) x)) s t"
proof -
  obtain s1 where s1: "uio_dev_del_attributes idev s = Some s1"
    using assms(1) by (simp add: uio_dev_del_attributes_def Let_def)
  note sp = del_attributes_spec [OF assms(1,4,5) s1]
  have f: "attr_frame idev (d_info d) s s1" "w_dev s1 idev = Some d" using sp assms(1) by auto
  obtain t where t: "err_uio_dev_add_attributes idev ret s1 = Some (ret, t)"
    "torn_down (d_info d) idev (d_minor d) (\<lambda>x. one (Dev_added idev) x + one (Minor_no (d_minor d)) x + one (Kref idev) x
      + one (Mem K_uio_device idev) x) s1 t"
    using err_attrs_torn [OF f(2) assms(2,3)] by blast
  have "torn_down (d_info d) idev (d_minor d) (\<lambda>x. attrs_held idev (w_info s (d_info d)) s x +
      (one (Dev_added idev) x + one (Minor_no (d_minor d)) x + one (Kref idev) x + one (Mem K_uio_device idev) x)) s t"
    by (rule torn_down_frame [OF f(1) _ t(2)]) (use sp in blast)
  with s1 t(1) show ?thesis by (auto simp: err_request_irq_def)
qed

lemma register_irq_cases:
  assumes "w_dev s idev = Some d" "idev \<noteq> NULL" "d_kref d = 1" "d_info d = ip" "wf_info (w_info s ip)"
    "attrs_live (w_info s ip)"
  shows "\<exists>ret t. register_irq E idev ip s = Some (ret, t) \<and>
    (if ret = 0
     then w_dev t = w_dev s \<and> w_idr t = w_idr s \<and> w_info t = w_info s \<and> w_lst t = w_lst s \<and> w_drv t = w_drv s
       \<and> w_class_registered t = w_class_registered s
       \<and> (\<forall>x. bal (w_log t) x = bal (w_log s) x
             + (if needs_irq (w_info s ip) then one (Irq_line (info_irq (w_info s ip)) idev) x else 0))
     else torn_down ip idev (d_minor d) (\<lambda>x. attrs_held idev (w_info s ip) s x +
      (one (Dev_added idev) x + one (Minor_no (d_minor d)) x + one (Kref idev) x + one (Mem K_uio_device idev) x))
      (set_uio_dev ip NULL s) t)"
proof (cases "needs_irq (w_info s ip)")
  case False
  then show ?thesis by (simp add: register_irq_def Let_def)
next
  case True
  let ?c = "Dev (Request_threaded_irq (info_irq (w_info s ip)) (info_irq_flags (w_info s ip)) idev)"
  let ?s = "set_uio_dev ip NULL (snd (kdo_w E ?c s))"
  show ?thesis
  proof (cases "E (w_log s) ?c = 0")
    case ok: True
    then show ?thesis using True by (simp add: register_irq_def Let_def case_prod_beta effect_simps)
  next
    case False
    have "w_dev ?s idev = Some d" "wf_info (w_info ?s (d_info d))" "attrs_live (w_info ?s (d_info d))"
      using assms by simp_all
    from err_irq_torn [OF this(1) assms(2,3) this(2,3), of "E (w_log s) ?c"] obtain t where
      t: "err_request_irq idev (E (w_log s) ?c) ?s = Some (E (w_log s) ?c, t)"
        "torn_down ip idev (d_minor d) (\<lambda>x. attrs_held idev (w_info s ip) s x + (one (Dev_added idev) x
          + one (Minor_no (d_minor d)) x + one (Kref idev) x + one (Mem K_uio_device idev) x)) ?s t"
      using assms(4) by (auto simp: attrs_held_dev [of ?s s])
    from t(2) False have "torn_down ip idev (d_minor d) (\<lambda>x. attrs_held idev (w_info s ip) s x + (one (Dev_added idev) x
          + one (Minor_no (d_minor d)) x + one (Kref idev) x + one (Mem K_uio_device idev) x)) (set_uio_dev ip NULL s) t"
      by (simp add: torn_down_def effect_simps)
    with True False t(1) show ?thesis by (simp add: register_irq_def Let_def case_prod_beta)
  qed
qed


lemma torn_down_start:
  assumes "torn_down ip idev m h t u" "(w_dev t)(idev := None) = (w_dev s)(idev := None)"
    "w_idr t = w_idr s" "w_lst t = w_lst s" "w_drv t = w_drv s" "w_class_registered t = w_class_registered s"
    "\<forall>p. p \<noteq> ip \<longrightarrow> w_info t p = w_info s p" "clean_info (w_info t ip) = clean_info (w_info s ip)"
    "\<forall>x. bal (w_log t) x - h x = bal (w_log s) x - g x"
  shows "torn_down ip idev m g s u"
  using assms by (simp add: torn_down_def)

lemma register_device_cases:
  assumes "w_dev s idev = Some d" "idev \<noteq> NULL" "d_info d = ip" "ip \<noteq> NULL" "wf_info (w_info s ip)"
    "d_map_dir d = NULL" "d_portio_dir d = NULL" "info_uio_dev (w_info s ip) = NULL"
  shows "\<exists>ret t. register_device E idev parent ip s = Some (ret, t) \<and>
    (if ret = 0
     then (\<exists>d'. w_dev t = (w_dev s)(idev \<mapsto> d') \<and> d_info d' = ip \<and> d_minor d' = d_minor d \<and> d_kref d' = 1
           \<and> d_event d' = d_event d \<and> d_owner d' = d_owner d)
       \<and> w_idr t = w_idr s \<and> w_lst t = w_lst s \<and> w_drv t = w_drv s \<and> w_class_registered t = w_class_registered s
       \<and> (\<forall>p. p \<noteq> ip \<longrightarrow> w_info t p = w_info s p)
       \<and> clean_info (w_info t ip) = clean_info ((w_info s ip)\<lparr>info_uio_dev := idev\<rparr>)
       \<and> wf_info (w_info t ip) \<and> attrs_live (w_info t ip)
       \<and> (\<forall>x. bal (w_log t) x = bal (w_log s) x - one (Minor_no (d_minor d)) x + reg_held idev (d_minor d) (w_info t ip) t x)
     else torn_down ip idev (d_minor d) (\<lambda>x. one (Minor_no (d_minor d)) x + one (Mem K_uio_device idev) x) s t)"
proof -
  let ?s1 = "upd_dev idev (\<lambda>d. d\<lparr>d_kref := Suc 0, d_parent := parent\<rparr>) (kvoid_w (Dev (Device_initialize idev)) s)"
  let ?d1 = "d\<lparr>d_kref := Suc 0, d_parent := parent\<rparr>"
  let ?c2 = "Dev (Dev_set_name idev ''uio%d'' (d_minor d))"
  let ?s2 = "snd (kdo_w E ?c2 ?s1)" let ?r2 = "E (w_log ?s1) ?c2"
  let ?c3 = "Dev (Device_add idev)"
  let ?s3 = "snd (kdo_w E ?c3 ?s2)" let ?r3 = "E (w_log ?s2) ?c3"
  let ?G = "torn_down ip idev (d_minor d) (\<lambda>x. one (Minor_no (d_minor d)) x + one (Mem K_uio_device idev) x) s"
  have ci: "(w_info s ip)\<lparr>info_uio_dev := NULL\<rparr> = w_info s ip" using assms(8) by (metis uio_info.surjective uio_info.update_convs(1))
  consider (name) "?r2 \<noteq> 0" | (add) "?r2 = 0" "?r3 \<noteq> 0" | (attrs) "?r2 = 0" "?r3 = 0" by blast
  then show ?thesis
  proof cases
    case name
    have d2: "w_dev ?s2 idev = Some ?d1" using assms(1) by simp
    obtain t where t: "err_device_create idev ?r2 ?s2 = Some (?r2, t)"
      "torn_down ip idev (d_minor d) (\<lambda>x. one (Minor_no (d_minor d)) x + one (Kref idev) x + one (Mem K_uio_device idev) x) ?s2 t"
      using err_create_torn [OF d2 assms(2), of ?r2 ip] by auto
    from t(2) have "?G t" by (rule torn_down_start) (simp_all add: effect_simps)
    with name t(1) assms(1) show ?thesis by (simp add: register_device_def Let_def case_prod_beta)
  next
    case add
    have d3: "w_dev ?s3 idev = Some ?d1" using assms(1) by simp
    obtain t where t: "err_device_create idev ?r3 ?s3 = Some (?r3, t)"
      "torn_down ip idev (d_minor d) (\<lambda>x. one (Minor_no (d_minor d)) x + one (Kref idev) x + one (Mem K_uio_device idev) x) ?s3 t"
      using err_create_torn [OF d3 assms(2), of ?r3 ip] by auto
    from t(2) have "?G t" by (rule torn_down_start) (use add in \<open>simp_all add: effect_simps\<close>)
    with add t(1) assms(1) show ?thesis by (simp add: register_device_def Let_def case_prod_beta)
  next
    case attrs
    have d3: "w_dev ?s3 idev = Some ?d1" "wf_info (w_info ?s3 (d_info ?d1))" using assms by simp_all
    obtain r4 s4 where s4: "uio_dev_add_attributes E idev ?s3 = Some (r4, s4)"
      using add_attributes_total [OF d3(1)] by blast
    have "d_map_dir ?d1 = NULL" "d_portio_dir ?d1 = NULL" using assms by simp_all
    note sp = add_attributes_spec [OF d3 this s4]
    have f: "attr_frame idev ip ?s3 s4" using sp assms(3) by simp
    obtain d4 where d4: "w_dev s4 idev = Some d4" "d_kref d4 = 1" "d_minor d4 = d_minor d" "d_info d4 = ip"
        "d_event d4 = d_event d" "d_owner d4 = d_owner d"
      using attr_frame_Some [OF f d3(1)] assms(3) by auto
    have st: "w_idr s4 = w_idr s" "w_lst s4 = w_lst s" "w_drv s4 = w_drv s" "w_class_registered s4 = w_class_registered s"
      "\<forall>p. p \<noteq> ip \<longrightarrow> w_info s4 p = w_info s p" "clean_info (w_info s4 ip) = clean_info (w_info s ip)"
      using f by (simp_all add: attr_frame_def)
    have dv: "(w_dev s4)(idev := v) = (w_dev s)(idev := v)" for v
      using attr_frame_upd [OF f, of v] by simp
    have wf4: "wf_info (w_info s4 ip)" using frame_wf [OF f] assms(5) by simp
    have b3: "bal (w_log ?s3) x = bal (w_log s) x + one (Kref idev) x + one (Dev_added idev) x" for x
      using attrs by (simp add: effect_simps)
    show ?thesis
    proof (cases "r4 = 0")
      case False
      obtain t where t: "err_uio_dev_add_attributes idev r4 s4 = Some (r4, t)"
        "torn_down ip idev (d_minor d) (\<lambda>x. one (Dev_added idev) x + one (Minor_no (d_minor d)) x + one (Kref idev) x
          + one (Mem K_uio_device idev) x) s4 t"
        using err_attrs_torn [OF d4(1) assms(2) d4(2), of r4 ip] d4(3) by auto
      have b4: "bal (w_log s4) = bal (w_log ?s3)" using sp False by simp
      from t(2) have "?G t" by (rule torn_down_start) (simp_all add: st dv b4 b3 del: kdo_w_sel)
      with attrs t(1) s4 False assms(1) show ?thesis by (simp add: register_device_def Let_def case_prod_beta)
    next
      case True
      let ?u = "set_uio_dev ip idev s4"
      have b4: "attrs_live (w_info s4 ip)"
        "\<And>x. bal (w_log s4) x = bal (w_log ?s3) x + attrs_held idev (w_info s4 ip) s4 x"
        using sp True assms(3) by simp_all
      have u: "w_dev ?u idev = Some d4" "wf_info (w_info ?u ip)" "attrs_live (w_info ?u ip)"
        using d4(1) wf4 b4(1) by simp_all
      have ah: "attrs_held idev (w_info ?u ip) ?u x = attrs_held idev (w_info s4 ip) s4 x" for x
        by (simp add: attrs_held_dev [of ?u s4])
      obtain r t where t: "register_irq E idev ip ?u = Some (r, t)" and c:
       "if r = 0
        then w_dev t = w_dev ?u \<and> w_idr t = w_idr ?u \<and> w_info t = w_info ?u \<and> w_lst t = w_lst ?u \<and> w_drv t = w_drv ?u
         \<and> w_class_registered t = w_class_registered ?u
         \<and> (\<forall>x. bal (w_log t) x = bal (w_log ?u) x
             + (if needs_irq (w_info ?u ip) then one (Irq_line (info_irq (w_info ?u ip)) idev) x else 0))
        else torn_down ip idev (d_minor d) (\<lambda>x. attrs_held idev (w_info ?u ip) ?u x +
         (one (Dev_added idev) x + one (Minor_no (d_minor d)) x + one (Kref idev) x + one (Mem K_uio_device idev) x))
         (set_uio_dev ip NULL ?u) t"
        using register_irq_cases [OF u(1) assms(2) d4(2) d4(4) u(2,3), of E] unfolding d4(3) by blast
      have top: "register_device E idev parent ip s = Some (r, t)"
        using attrs t s4 True assms(1) by (simp add: register_device_def Let_def case_prod_beta)
      show ?thesis
      proof (cases "r = 0")
        case False
        with c have "torn_down ip idev (d_minor d) (\<lambda>x. attrs_held idev (w_info s4 ip) s4 x +
         (one (Dev_added idev) x + one (Minor_no (d_minor d)) x + one (Kref idev) x + one (Mem K_uio_device idev) x))
         (set_uio_dev ip NULL ?u) t" by (simp only: ah if_False)
        then have "?G t"
          by (rule torn_down_start)
            (use clean_info_uio_dev [OF st(6), of NULL] ci in \<open>simp_all add: st dv b4 b3 del: kdo_w_sel\<close>)
        with top False show ?thesis by simp
      next
        case r0: True
        have "w_dev t = (w_dev s)(idev \<mapsto> d4)" using c r0 dv [of "Some d4"] d4(1) by (auto simp: fun_upd_idem)
        moreover have "clean_info (w_info t ip) = clean_info ((w_info s ip)\<lparr>info_uio_dev := idev\<rparr>)"
          using c r0 clean_info_uio_dev [OF st(6), of idev] by simp
        moreover have "attrs_held idev (w_info t ip) t x = attrs_held idev (w_info s4 ip) s4 x" for x
          using c r0 by (simp add: attrs_held_dev [of t s4])
        then have "bal (w_log t) x = bal (w_log s) x - one (Minor_no (d_minor d)) x
            + reg_held idev (d_minor d) (w_info t ip) t x" for x
          using c r0 b3 b4(2) by (simp add: reg_held_def del: kdo_w_sel)
        ultimately show ?thesis
          using top r0 c st d4 wf4 b4(1) by (auto)
      qed
    qed
  qed
qed


text \<open>The resources that the core itself accounts for.\<close>

fun core_res :: "resource \<Rightarrow> bool" where
  "core_res (Lock k) = True"
| "core_res (Mem t p) = True"
| "core_res (Minor_no m) = True"
| "core_res x = False"

lemma store_ok_frame:
  assumes "store_ok s" "w_dev t = w_dev s" "w_lst t = w_lst s" "w_idr t = w_idr s"
    "\<And>x. core_res x \<Longrightarrow> bal (w_log t) x = bal (w_log s) x"
  shows "store_ok t"
  using assms by (simp add: store_ok_def)

lemma store_ok_fresh:
  assumes "store_ok s" "kernel_ok E" "E (w_log s) (Obj (Kzalloc K_uio_device)) = p" "p \<noteq> NULL"
  shows "w_dev s p = None"
  using kernel_ok_mem [OF assms(2), of "w_log s" K_uio_device p K_uio_device] assms
  by (simp add: store_ok_def split: if_splits)

lemma store_ok_minor:
  assumes "store_ok s" "kernel_ok E" "E l (Dev (Idr_alloc p)) = m" "0 \<le> m"
    "bal l (Minor_no m) = bal (w_log s) (Minor_no m)"
  shows "w_idr s m = None" "m < UIO_MAX_DEVICES"
  using kernel_ok_minor [OF assms(2,3,4)] assms(1,5)
  by (simp_all add: store_ok_def UIO_MAX_DEVICES_def split: if_splits)

definition reg_args_ok :: "ptr \<Rightarrow> ptr \<Rightarrow> 'd world \<Rightarrow> bool" where
  "reg_args_ok parent ip s \<longleftrightarrow> w_class_registered s \<and> parent \<noteq> NULL \<and> ip \<noteq> NULL
     \<and> info_name (w_info s ip) \<noteq> None \<and> info_version (w_info s ip) \<noteq> None"

lemma register_early:
  "\<not> reg_args_ok parent ip s \<Longrightarrow> \<exists>ret. uio_register_device E owner parent ip s = Some (ret, s) \<and> ret < 0"
  by (auto simp: uio_register_device_def reg_args_ok_def errno_simps)

text \<open>A registration with valid arguments always returns, either with the device registered under a
  number that was free, or with an error and no trace of it.\<close>

definition fresh_device :: "ptr \<Rightarrow> ptr \<Rightarrow> uio_device" where
  "fresh_device owner ip = zero_device\<lparr>d_owner := owner, d_info := ip, d_event := 0\<rparr>"

definition came_up :: "ptr \<Rightarrow> ptr \<Rightarrow> ptr \<Rightarrow> int \<Rightarrow> 'd world \<Rightarrow> 'd world \<Rightarrow> bool" where
  "came_up owner ip idev m s t \<longleftrightarrow>
     idev \<noteq> NULL \<and> w_dev s idev = None \<and> 0 \<le> m \<and> m < UIO_MAX_DEVICES \<and> w_idr s m = None
     \<and> (\<exists>d. w_dev t = (w_dev s)(idev \<mapsto> d) \<and> d_info d = ip \<and> d_minor d = m \<and> d_kref d = 1
           \<and> d_event d = 0 \<and> d_owner d = owner)
     \<and> w_idr t = (w_idr s)(m \<mapsto> idev) \<and> w_lst t = w_lst s \<and> w_drv t = w_drv s
     \<and> w_class_registered t = w_class_registered s
     \<and> (\<forall>p. p \<noteq> ip \<longrightarrow> w_info t p = w_info s p)
     \<and> clean_info (w_info t ip) = clean_info ((w_info s ip)\<lparr>info_uio_dev := idev\<rparr>)
     \<and> wf_info (w_info t ip) \<and> attrs_live (w_info t ip)
     \<and> (\<forall>x. bal (w_log t) x = bal (w_log s) x + one (Mem K_uio_device idev) x + reg_held idev m (w_info t ip) t x)"

lemma register_cases:
  assumes "store_ok s" "kernel_ok E" "reg_args_ok parent ip s" "wf_info (w_info s ip)"
  shows "\<exists>ret t. uio_register_device E owner parent ip s = Some (ret, t) \<and>
    (if ret = 0
     then (\<exists>idev m. came_up owner ip idev m s t)
     else no_trace ip s t \<and> info_uio_dev (w_info t ip) = NULL)"
proof -
  let ?s1 = "set_uio_dev ip NULL s"
  let ?p = "E (w_log ?s1) (Obj (Kzalloc K_uio_device))"
  let ?s2 = "snd (kdo_w E (Obj (Kzalloc K_uio_device)) ?s1)"
  let ?s3 = "?s2\<lparr>w_dev := (w_dev ?s2)(?p \<mapsto> fresh_device owner ip)\<rparr>"
  obtain r4 s4 where s4: "uio_get_minor E ?p ?s3 = (r4, s4)" by fastforce
  have top: "uio_register_device E owner parent ip s =
     (if ?p = NULL then Some (- ENOMEM, ?s2)
      else if r4 \<noteq> 0 then Some (r4, kvoid_w (Obj (Kfree K_uio_device ?p)) (s4\<lparr>w_dev := (w_dev s4)(?p := None)\<rparr>))
      else register_device E ?p parent ip s4)"
    using assms(3) s4
    by (auto simp: uio_register_device_def reg_args_ok_def Let_def case_prod_beta fresh_device_def)
  show ?thesis
  proof (cases "?p = NULL")
    case True
    have "no_trace ip s ?s2" using True by (simp add: no_trace_def fun_eq_iff effect_simps)
    with True top show ?thesis by (simp add: errno_simps)
  next
    case p: False
    have fr: "w_dev s ?p = None" using store_ok_fresh [OF assms(1,2), of ?p] p by simp
    have b3: "bal (w_log ?s3) x = bal (w_log s) x + one (Mem K_uio_device ?p) x" for x
      using p by (simp add: effect_simps)
    have "w_dev ?s3 ?p = Some (fresh_device owner ip)" by simp
    note g = uio_get_minor_spec [OF s4 this]
    show ?thesis
    proof (cases "r4 = 0")
      case False
      let ?t = "kvoid_w (Obj (Kfree K_uio_device ?p)) (s4\<lparr>w_dev := (w_dev s4)(?p := None)\<rparr>)"
      have g': "bal (w_log s4) = bal (w_log ?s3)" "w_dev s4 = w_dev ?s3" using g False by simp_all
      have "bal (w_log ?t) x = bal (w_log s) x" for x
        using p b3 g'(1) by (simp add: effect_simps del: kdo_w_sel)
      then have "no_trace ip s ?t" using g False fr
        by (simp add: no_trace_def fun_eq_iff)
      with top p False g show ?thesis by simp
    next
      case True
      then obtain m where m: "0 \<le> m" "m = E (w_log (mutex_lock Minor_lock ?s3)) (Dev (Idr_alloc ?p))"
        "w_idr s4 = (w_idr s)(m \<mapsto> ?p)" "w_dev s4 = (w_dev ?s3)(?p \<mapsto> (fresh_device owner ip)\<lparr>d_minor := m\<rparr>)"
        "\<And>x. bal (w_log s4) x = bal (w_log ?s3) x + one (Minor_no m) x"
        using g by auto
      have mf: "w_idr s m = None" "m < UIO_MAX_DEVICES"
        by (rule store_ok_minor [OF assms(1,2) m(2) [symmetric] m(1)];
            use p in \<open>simp add: mutex_lock_def effect_simps\<close>)+
      let ?d = "(fresh_device owner ip)\<lparr>d_minor := m\<rparr>"
      have d4: "w_dev s4 ?p = Some ?d" using m(4) by simp
      have i4: "w_info s4 = w_info ?s1" using g by simp
      have pre: "d_info ?d = ip" "ip \<noteq> NULL" "wf_info (w_info s4 ip)" "d_map_dir ?d = NULL" "d_portio_dir ?d = NULL"
        "info_uio_dev (w_info s4 ip) = NULL" and fs: "d_minor ?d = m" "d_event ?d = 0" "d_owner ?d = owner"
        using assms(3,4) i4 by (simp_all add: fresh_device_def zero_device_def reg_args_ok_def)
      obtain r t where
        t: "register_device E ?p parent ip s4 = Some (r, t)" and c: "if r = 0
        then (\<exists>d'. w_dev t = (w_dev s4)(?p \<mapsto> d') \<and> d_info d' = ip \<and> d_minor d' = m \<and> d_kref d' = 1
           \<and> d_event d' = 0 \<and> d_owner d' = owner)
       \<and> w_idr t = w_idr s4 \<and> w_lst t = w_lst s4 \<and> w_drv t = w_drv s4 \<and> w_class_registered t = w_class_registered s4
       \<and> (\<forall>p. p \<noteq> ip \<longrightarrow> w_info t p = w_info s4 p)
       \<and> clean_info (w_info t ip) = clean_info ((w_info s4 ip)\<lparr>info_uio_dev := ?p\<rparr>)
       \<and> wf_info (w_info t ip) \<and> attrs_live (w_info t ip)
       \<and> (\<forall>x. bal (w_log t) x = bal (w_log s4) x - one (Minor_no m) x + reg_held ?p m (w_info t ip) t x)
       else torn_down ip ?p m (\<lambda>x. one (Minor_no m) x + one (Mem K_uio_device ?p) x) s4 t"
        using register_device_cases [OF d4 p pre, of E parent] unfolding fs by blast
      show ?thesis
      proof (cases "r = 0")
        case False
        then have td: "torn_down ip ?p m (\<lambda>x. one (Minor_no m) x + one (Mem K_uio_device ?p) x) s4 t" using c by simp
        have "bal (w_log t) = bal (w_log s)" using td b3 m(5) by (simp add: torn_down_def fun_eq_iff)
        moreover have "w_dev t = w_dev s" using td m(4) fr by (auto simp: torn_down_def fun_eq_iff)
        moreover have "w_idr t = w_idr s" using td m(3) mf(1) by (auto simp: torn_down_def fun_eq_iff)
        moreover have ci: "clean_info (w_info t ip) = clean_info ((w_info s ip)\<lparr>info_uio_dev := NULL\<rparr>)"
          using td i4 by (simp add: torn_down_def)
        moreover note clean_info_uio_dev [OF ci, of NULL] clean_info_sel(1) [OF ci]
        ultimately have "no_trace ip s t \<and> info_uio_dev (w_info t ip) = NULL"
          using td g i4 by (simp add: no_trace_def torn_down_def)
        with top p True t False show ?thesis by simp
      next
        case r: True
        have dv: "(w_dev s4)(?p \<mapsto> v) = (w_dev s)(?p \<mapsto> v)" for v using m(4) by simp
        have b: "bal (w_log t) x = bal (w_log s) x + one (Mem K_uio_device ?p) x + reg_held ?p m (w_info t ip) t x" for x
          using c r m(5) b3 by (simp del: kdo_w_sel)
        have ci: "clean_info (w_info t ip) = clean_info ((w_info s ip)\<lparr>info_uio_dev := ?p\<rparr>)"
          using c r i4 by simp
        have st: "w_idr t = (w_idr s)(m \<mapsto> ?p)" "w_lst t = w_lst s" "w_drv t = w_drv s"
          "w_class_registered t = w_class_registered s" "\<forall>p. p \<noteq> ip \<longrightarrow> w_info t p = w_info s p"
          using c r g i4 m(3) by simp_all
        have "came_up owner ip ?p m s t"
          unfolding came_up_def using c r p fr m(1) mf by (intro conjI st ci) (simp_all only: dv b if_True simp_thms)
        with top p True t r show ?thesis by auto
      qed
    qed
  qed
qed


section \<open>Unregistration\<close>

lemma unregister_cases:
  assumes "registered ip idev s" "w_dev s idev = Some d"
  shows "\<exists>t. uio_unregister_device ip s = Some t \<and> w_info t = w_info s
    \<and> w_idr t = (w_idr s)(d_minor d := None) \<and> w_lst t = w_lst s \<and> w_drv t = w_drv s
    \<and> w_class_registered t = w_class_registered s
    \<and> w_dev t = (w_dev s)(idev := if d_kref d = 1 then None else Some (d\<lparr>d_info := NULL, d_kref := d_kref d - 1\<rparr>))
    \<and> (\<forall>x. bal (w_log t) x = bal (w_log s) x - reg_held idev (d_minor d) (w_info s ip) s x
          - (if d_kref d = 1 then one (Mem K_uio_device idev) x else 0))"
proof -
  have r: "ip \<noteq> NULL" "idev \<noteq> NULL" "d_info d = ip" "info_uio_dev (w_info s ip) = idev"
    "wf_info (w_info s ip)" "attrs_live (w_info s ip)"
    using assms by (auto simp: registered_def)
  let ?s0 = "mutex_lock (Info_lock idev) s"
  have s0: "w_dev ?s0 idev = Some d" "wf_info (w_info ?s0 (d_info d))" "attrs_live (w_info ?s0 (d_info d))"
    using assms(2) r by (simp_all add: mutex_lock_def)
  obtain s1 where s1: "uio_dev_del_attributes idev ?s0 = Some s1"
    using s0(1) by (simp add: uio_dev_del_attributes_def Let_def)
  have w0: "w_dev ?s0 = w_dev s" "w_info ?s0 = w_info s" "w_idr ?s0 = w_idr s" "w_lst ?s0 = w_lst s" "w_drv ?s0 = w_drv s"
    "w_class_registered ?s0 = w_class_registered s" by (simp_all add: mutex_lock_def)
  have f1: "w_info s1 = w_info s" "w_dev s1 = w_dev s" "attr_frame idev ip ?s0 s1"
    "bal (w_log s1) x = bal (w_log ?s0) x - attrs_held idev (w_info s ip) s x" for x
    using del_attributes_spec [OF s0 s1, of x] w0 r(3) by (simp_all add: attrs_held_dev [OF w0(1)])
  have st1: "w_idr s1 = w_idr s" "w_lst s1 = w_lst s" "w_drv s1 = w_drv s" "w_class_registered s1 = w_class_registered s"
    using f1(3) w0 by (simp_all add: attr_frame_def)
  let ?i = "w_info s ip"
  let ?s2 = "if needs_irq ?i then kvoid_w (Dev (Free_irq (info_irq ?i) idev)) s1 else s1"
  let ?s3 = "mutex_unlock (Info_lock idev) (upd_dev idev (\<lambda>d. d\<lparr>d_info := NULL\<rparr>) ?s2)"
  let ?s5 = "kvoid_w (Sync (Kill_fasync idev SIGIO POLL_HUP)) (kvoid_w (Sync (Wake_up_interruptible idev)) ?s3)"
  let ?s6 = "kvoid_w (Dev (Device_del idev)) (uio_free_minor (d_minor d) ?s5)"
  have d6: "w_dev ?s6 = (w_dev s)(idev \<mapsto> d\<lparr>d_info := NULL\<rparr>)" "w_info ?s6 = w_info s" "w_lst ?s6 = w_lst s" "w_drv ?s6 = w_drv s"
      "w_idr ?s6 = (w_idr s)(d_minor d := None)" "w_class_registered ?s6 = w_class_registered s"
    using assms(2) by (simp_all add: f1 st1 mutex_unlock_def)
  have b6: "bal (w_log ?s6) x = bal (w_log s) x - (reg_held idev (d_minor d) ?i s x - one (Kref idev) x)" for x
    by (simp add: f1 effect_simps mutex_unlock_def mutex_lock_def reg_held_def)
  have "w_dev ?s6 idev = Some (d\<lparr>d_info := NULL\<rparr>)" by (simp only: d6 fun_upd_same)
  from put_device_spec [OF this r(2)] obtain t where t: "put_device idev ?s6 = Some t" "w_info t = w_info ?s6"
    "w_idr t = w_idr ?s6" "w_lst t = w_lst ?s6" "w_drv t = w_drv ?s6" "w_class_registered t = w_class_registered ?s6"
    "w_dev t = (w_dev ?s6)(idev := if d_kref d = 1 then None else Some (d\<lparr>d_info := NULL, d_kref := d_kref d - 1\<rparr>))"
    "\<forall>x. bal (w_log t) x = bal (w_log ?s6) x - one (Kref idev) x - (if d_kref d = 1 then one (Mem K_uio_device idev) x else 0)"
    by auto
  have "uio_unregister_device ip s = Some t"
    using r(1,2,4) assms(2) s1 t(1) by (simp add: uio_unregister_device_def device_unregister_def Let_def)
  moreover have "\<forall>x. bal (w_log t) x = bal (w_log s) x - reg_held idev (d_minor d) ?i s x
      - (if d_kref d = 1 then one (Mem K_uio_device idev) x else 0)"
    unfolding t(8) [rule_format] b6 by simp
  moreover have "w_dev t = (w_dev s)(idev := if d_kref d = 1 then None else Some (d\<lparr>d_info := NULL, d_kref := d_kref d - 1\<rparr>))"
    unfolding t(7) d6 by simp
  ultimately show ?thesis using t(2-6) unfolding d6 by blast
qed

lemma came_up_registered:
  assumes "came_up owner ip idev m s t" "ip \<noteq> NULL"
  shows "registered ip idev t"
proof -
  have "info_uio_dev (w_info t ip) = idev"
    using assms(1) clean_info_sel(1) [of "w_info t ip" "(w_info s ip)\<lparr>info_uio_dev := idev\<rparr>"]
    by (simp add: came_up_def)
  then show ?thesis using assms by (auto simp: came_up_def registered_def)
qed


section \<open>Properties\<close>

text \<open>C3. A registration that fails, at any of its steps and for any behaviour of the kernel that keeps
  the contract of its allocators, leaves no trace: no device, minor number, interrupt line, sysfs
  object, reference, lock or memory is held that was not held before, no file sees a difference, and
  of the \<open>uio_info\<close> only the device pointer and the kobject pointers can have changed.\<close>

theorem register_failure_no_trace:
  assumes "store_ok s" "kernel_ok E" "wf_info (w_info s ip)"
    "uio_register_device E owner parent ip s = Some (ret, t)" "ret \<noteq> 0"
  shows "no_trace ip s t \<and> (reg_args_ok parent ip s \<longrightarrow> info_uio_dev (w_info t ip) = NULL)"
proof (cases "reg_args_ok parent ip s")
  case True
  with register_cases [OF assms(1,2) True assms(3), of owner] assms(4,5) show ?thesis by auto
next
  case False
  with register_early [OF False, of E owner] assms(4) show ?thesis by (auto simp: no_trace_def)
qed

text \<open>A state with the class registered and one \<open>uio_info\<close> with an interrupt line and a map; a
  kernel that keeps the contract, and one whose interrupt line is taken.\<close>

definition demo_reg_world :: "unit world" where
  "demo_reg_world = (init_world ())\<lparr>w_class_registered := True,
     w_info := (\<lambda>_. zero_info\<lparr>info_name := Some ''demo'', info_version := Some ''1'', info_irq := 5,
       info_mem := (replicate 5 zero_mem)[0 := zero_mem\<lparr>mem_size := 4096\<rparr>]\<rparr>)\<rparr>"

definition good_env :: env where
  "good_env = sound_env calm_env"

definition busy_irq_env :: env where
  "busy_irq_env = sound_env (\<lambda>l c. case c of Dev (Request_threaded_irq i fl p) \<Rightarrow> - 16 | _ \<Rightarrow> calm_env l c)"

lemma demo_reg_runs:
  "map_option fst (uio_register_device good_env 7 8 64 demo_reg_world) = Some 0"
  "map_option fst (uio_register_device busy_irq_env 7 8 64 demo_reg_world) = Some (- 16)"
  by code_simp+

lemma demo_reg_ok:
  "store_ok demo_reg_world" "wf_info (w_info demo_reg_world 64)" "kernel_ok good_env" "kernel_ok busy_irq_env"
  "reg_args_ok 8 64 demo_reg_world"
  by (simp_all add: store_ok_def demo_reg_world_def init_world_def wf_info_def zero_info_def uio_consts
      good_env_def busy_irq_env_def kernel_ok_sound_env reg_args_ok_def)

theorem register_failure_no_trace_witness:
  "\<exists>t. uio_register_device busy_irq_env 7 8 64 demo_reg_world = Some (- 16, t) \<and> no_trace 64 demo_reg_world t"
proof -
  obtain t where "uio_register_device busy_irq_env 7 8 64 demo_reg_world = Some (- 16, t)"
    using demo_reg_runs(2) by auto
  then show ?thesis using register_failure_no_trace [OF demo_reg_ok(1,4,2)] by fastforce
qed

text \<open>C20. A registration with a parent, a name and a version always returns, and when it returns 0 the
  device is new memory, is registered under a minor number that was free and is below
  \<open>UIO_MAX_DEVICES\<close>, has one reference and an event count of 0, and holds exactly its memory, that
  reference, the number, its place in the device tree, its interrupt line if it has one and its sysfs
  objects; no other device or \<open>uio_info\<close> is touched.\<close>

theorem register_success_comes_up:
  assumes "store_ok s" "kernel_ok E" "wf_info (w_info s ip)" "reg_args_ok parent ip s"
  shows "\<exists>ret t. uio_register_device E owner parent ip s = Some (ret, t)
    \<and> (ret = 0 \<longrightarrow> (\<exists>idev m. came_up owner ip idev m s t \<and> registered ip idev t))"
proof -
  obtain ret t where t: "uio_register_device E owner parent ip s = Some (ret, t)"
      "ret = 0 \<longrightarrow> (\<exists>idev m. came_up owner ip idev m s t)"
    using register_cases [OF assms(1,2,4,3), of owner] by (metis (full_types))
  moreover have "ip \<noteq> NULL" using assms(4) by (simp add: reg_args_ok_def)
  ultimately show ?thesis using came_up_registered by blast
qed

theorem register_success_comes_up_witness:
  "\<exists>t idev m. uio_register_device good_env 7 8 64 demo_reg_world = Some (0, t) \<and> came_up 7 64 idev m demo_reg_world t"
  using register_success_comes_up [OF demo_reg_ok(1,3,2,5), of 7] demo_reg_runs(1) by (auto; blast)

text \<open>C21. Unregistering a device that nobody opened undoes its registration: the ledger, the devices,
  the minor numbers and the listeners are those before the registration.\<close>

theorem register_unregister_restores:
  assumes "store_ok s" "kernel_ok E" "wf_info (w_info s ip)"
    "uio_register_device E owner parent ip s = Some (0, t)"
  shows "\<exists>u. uio_unregister_device ip t = Some u \<and> bal (w_log u) = bal (w_log s) \<and> w_dev u = w_dev s
    \<and> w_idr u = w_idr s \<and> w_lst u = w_lst s \<and> (\<forall>p. p \<noteq> ip \<longrightarrow> w_info u p = w_info s p)"
proof -
  have a: "reg_args_ok parent ip s" using register_early [of parent ip s E owner] assms(4) by fastforce
  then obtain idev m where c: "came_up owner ip idev m s t"
    using register_cases [OF assms(1,2) a assms(3), of owner] assms(4) by auto
  have r: "registered ip idev t" using came_up_registered [OF c] a by (simp add: reg_args_ok_def)
  obtain d where d: "w_dev t = (w_dev s)(idev \<mapsto> d)" "d_minor d = m" "d_kref d = 1"
    using c by (auto simp: came_up_def)
  then have "w_dev t idev = Some d" by simp
  from unregister_cases [OF r this] d obtain u where u: "uio_unregister_device ip t = Some u" "w_info u = w_info t"
    "w_idr u = (w_idr t)(m := None)" "w_lst u = w_lst t" "w_dev u = (w_dev t)(idev := None)"
    "\<forall>x. bal (w_log u) x = bal (w_log t) x - reg_held idev m (w_info t ip) t x - one (Mem K_uio_device idev) x"
    by auto
  have "bal (w_log u) = bal (w_log s)" using u(6) c by (auto simp: came_up_def fun_eq_iff)
  moreover have "w_dev u = w_dev s" using u(5) d(1) c by (auto simp: came_up_def fun_eq_iff)
  moreover have "w_idr u = w_idr s" using u(3) c by (auto simp: came_up_def fun_eq_iff)
  ultimately show ?thesis using u c by (auto simp: came_up_def)
qed

theorem register_unregister_restores_witness:
  "\<exists>t u. uio_register_device good_env 7 8 64 demo_reg_world = Some (0, t) \<and> uio_unregister_device 64 t = Some u
     \<and> bal (w_log u) = bal (w_log demo_reg_world) \<and> w_idr u = w_idr demo_reg_world"
proof -
  obtain t where t: "uio_register_device good_env 7 8 64 demo_reg_world = Some (0, t)"
    using demo_reg_runs(1) by auto
  with register_unregister_restores [OF demo_reg_ok(1,3,2) t] show ?thesis by blast
qed

lemma class_run:
  assumes "uio_init E s = (ret, t)"
  shows "w_dev t = w_dev s \<and> w_idr t = w_idr s \<and> w_info t = w_info s \<and> w_lst t = w_lst s \<and> w_drv t = w_drv s
    \<and> (if ret = 0 then w_class_registered t \<and> w_cdev t \<noteq> NULL
          \<and> (\<forall>x. bal (w_log t) x = bal (w_log s) x + (one Chrdev_region x + one (Kref (w_cdev t)) x
                + one (Cdev_added (w_cdev t)) x + one Class_reg x))
       else w_class_registered t = w_class_registered s \<and> bal (w_log t) = bal (w_log s))"
proof -
  have [simp]: "w_cdev (snd (kdo_w E c s)) = w_cdev s" "w_cdev (kvoid_w c s) = w_cdev s" for c and s :: "'a world"
    by (simp_all add: kdo_w_def kvoid_w_def)
  show ?thesis
    using assms
    by (auto simp: uio_init_def init_uio_class_def uio_major_init_def uio_major_cleanup_def case_prod_beta
        Let_def effect_simps fun_eq_iff errno_simps split: if_splits)
qed

text \<open>Loading the module either fails with the chrdev region, the cdev and the class all given
  back, or leaves the class registered; then unloading it gives all of them back.\<close>

theorem module_load_unload_balance:
  "\<exists>ret t. uio_init E s = (ret, t)
    \<and> (if ret = 0 then w_class_registered t \<and> bal (w_log (uio_exit t)) = bal (w_log s)
          \<and> \<not> w_class_registered (uio_exit t) \<and> w_idr (uio_exit t) = Map.empty
       else w_class_registered t = w_class_registered s \<and> bal (w_log t) = bal (w_log s))"
proof -
  obtain ret t where t: "uio_init E s = (ret, t)" by fastforce
  have "bal (w_log (uio_exit t)) x = bal (w_log t) x - (one Chrdev_region x + one (Kref (w_cdev t)) x
                + one (Cdev_added (w_cdev t)) x + one Class_reg x)" for x
    by (simp add: uio_exit_def release_uio_class_def uio_major_cleanup_def effect_simps kvoid_w_def kvoid_def)
  moreover have "\<not> w_class_registered (uio_exit t)" "w_idr (uio_exit t) = Map.empty"
    by (simp_all add: uio_exit_def release_uio_class_def uio_major_cleanup_def)
  ultimately show ?thesis using t class_run [OF t] by (auto simp: fun_eq_iff)
qed

end
