(* ===== verification/Uio_File.thy ===== *)
theory Uio_File
  imports Uio_Device
begin

text \<open>
  The file operations of \<open>/dev/uioN\<close> (\<open>uio.c\<close>): open, release, fasync, poll, read and write.

  A file is known by its \<open>uio_listener\<close>, the value of \<open>filep->private_data\<close>.  Callbacks of the driver
  run on its private data under the device's \<open>info_lock\<close>.  \<open>uio_read\<close> may sleep: what other threads
  and devices do to the state of the core while it sleeps is a list of functions, one per sleep, and
  a run that is not woken again is \<open>Read_asleep\<close>.
\<close>

section \<open>Definitions\<close>

text \<open>Running a driver callback on the private data behind a \<open>uio_info\<close>.\<close>

definition run_cb :: "env \<Rightarrow> 'd cb \<Rightarrow> ptr \<Rightarrow> 'd world \<Rightarrow> int \<times> 'd world" where
  "run_cb E f ip s =
     (let (r, drv, l) = f E (w_drv s ip, w_log s)
      in (r, s\<lparr>w_drv := (w_drv s)(ip := drv), w_log := l\<rparr>))"

text \<open>The error exits of \<open>uio_open\<close>, which fall through.\<close>

definition err_module_get :: "ptr \<Rightarrow> int \<Rightarrow> 'd world \<Rightarrow> (int \<times> 'd world) option" where
  "err_module_get idev ret s = map_option (\<lambda>t. (ret, t)) (put_device idev s)"

definition err_alloc_listener :: "ptr \<Rightarrow> int \<Rightarrow> 'd world \<Rightarrow> (int \<times> 'd world) option" where
  "err_alloc_listener idev ret s =
     (case w_dev s idev of
        None \<Rightarrow> None
      | Some d \<Rightarrow> err_module_get idev ret (kvoid_w (Dev (Module_put (d_owner d))) s))"

definition err_infoopen :: "ptr \<Rightarrow> ptr \<Rightarrow> int \<Rightarrow> 'd world \<Rightarrow> (int \<times> 'd world) option" where
  "err_infoopen idev listener ret s =
     err_alloc_listener idev ret
       (kvoid_w (Obj (Kfree K_uio_listener listener)) (s\<lparr>w_lst := (w_lst s)(listener := None)\<rparr>))"

text \<open>The part of \<open>uio_open\<close> under the device's lock; \<open>open_dev\<close> is the rest after the lookup.\<close>

definition open_info :: "env \<Rightarrow> ptr \<Rightarrow> 'd world \<Rightarrow> int \<times> 'd world" where
  "open_info E idev s =
     (let s1 = mutex_lock (Info_lock idev) s;
          ip = (case w_dev s1 idev of None \<Rightarrow> NULL | Some d \<Rightarrow> d_info d) in
      if ip = NULL then (- EINVAL, mutex_unlock (Info_lock idev) s1)
      else
        let (ret, s2) = (case info_open (w_info s1 ip) of None \<Rightarrow> (0, s1) | Some f \<Rightarrow> run_cb E f ip s1)
        in (ret, mutex_unlock (Info_lock idev) s2))"

definition open_dev :: "env \<Rightarrow> ptr \<Rightarrow> 'd world \<Rightarrow> (int \<times> ptr \<times> 'd world) option" where
  "open_dev E idev s =
     (case w_dev s idev of
        None \<Rightarrow> None
      | Some d \<Rightarrow>
          let (ok, s1) = kdo_w E (Dev (Try_module_get (d_owner d))) s in
          if ok = 0 then map_option (\<lambda>(r, t). (r, NULL, t)) (err_module_get idev (- ENODEV) s1)
          else
            let (listener, s2) = kdo_w E (Obj (Kmalloc K_uio_listener)) s1 in
            if listener = NULL then map_option (\<lambda>(r, t). (r, NULL, t)) (err_alloc_listener idev (- ENOMEM) s2)
            else
              let s3 = s2\<lparr>w_lst := (w_lst s2)(listener \<mapsto> \<lparr>l_dev = idev, l_event_count = d_event d\<rparr>)\<rparr>;
                  (ret, s4) = open_info E idev s3 in
              if ret \<noteq> 0 then map_option (\<lambda>(r, t). (r, listener, t)) (err_infoopen idev listener ret s4)
              else Some (0, listener, s4))"

text \<open>The result carries the value of \<open>filep->private_data\<close>.\<close>

definition uio_open :: "env \<Rightarrow> int \<Rightarrow> 'd world \<Rightarrow> (int \<times> ptr \<times> 'd world) option" where
  "uio_open E minor s =
     (let s1 = mutex_lock Minor_lock s in
      case w_idr s1 minor of
        None \<Rightarrow> Some (- ENODEV, NULL, mutex_unlock Minor_lock s1)
      | Some idev \<Rightarrow>
          (case get_device idev s1 of
             None \<Rightarrow> None
           | Some s2 \<Rightarrow> open_dev E idev (mutex_unlock Minor_lock s2)))"

definition uio_fasync :: "env \<Rightarrow> int \<Rightarrow> ptr \<Rightarrow> int \<Rightarrow> 'd world \<Rightarrow> (int \<times> 'd world) option" where
  "uio_fasync E fd filep on s =
     (case w_lst s filep of
        None \<Rightarrow> None
      | Some listener \<Rightarrow>
          (case w_dev s (l_dev listener) of
             None \<Rightarrow> None
           | Some d \<Rightarrow> Some (kdo_w E (Sync (Fasync_helper (l_dev listener) fd on)) s)))"

definition uio_release :: "env \<Rightarrow> ptr \<Rightarrow> 'd world \<Rightarrow> (int \<times> 'd world) option" where
  "uio_release E filep s =
     (case w_lst s filep of
        None \<Rightarrow> None
      | Some listener \<Rightarrow>
          let idev = l_dev listener in
          (case w_dev s idev of
             None \<Rightarrow> None
           | Some d \<Rightarrow>
               let s1 = mutex_lock (Info_lock idev) s;
                   (ret, s2) =
                     (if d_info d = NULL then (0, s1)
                      else case info_release (w_info s1 (d_info d)) of
                             None \<Rightarrow> (0, s1)
                           | Some f \<Rightarrow> run_cb E f (d_info d) s1);
                   s3 = mutex_unlock (Info_lock idev) s2;
                   s4 = kvoid_w (Dev (Module_put (d_owner d))) s3;
                   s5 = kvoid_w (Obj (Kfree K_uio_listener filep)) (s4\<lparr>w_lst := (w_lst s4)(filep := None)\<rparr>)
               in map_option (\<lambda>t. (ret, t)) (put_device idev s5)))"

text \<open>\<open>__poll_t\<close> is an unsigned 32-bit mask.\<close>

definition EPOLLIN :: u32 where "EPOLLIN = 0x0001"
definition EPOLLRDNORM :: u32 where "EPOLLRDNORM = 0x0040"

definition no_irq :: "uio_device \<Rightarrow> 'd world \<Rightarrow> bool" where
  "no_irq d s \<longleftrightarrow> d_info d = NULL \<or> info_irq (w_info s (d_info d)) = 0"

definition uio_poll :: "ptr \<Rightarrow> 'd world \<Rightarrow> (u32 \<times> 'd world) option" where
  "uio_poll filep s =
     (case w_lst s filep of
        None \<Rightarrow> None
      | Some listener \<Rightarrow>
          let idev = l_dev listener in
          (case w_dev s idev of
             None \<Rightarrow> None
           | Some d \<Rightarrow>
               let s1 = mutex_lock (Info_lock idev) s;
                   ret = (if no_irq d s1 then of_int (- EIO) else 0);
                   s2 = mutex_unlock (Info_lock idev) s1 in
               if ret \<noteq> 0 then Some (ret, s2)
               else
                 let s3 = kvoid_w (Sync (Poll_wait idev)) s2 in
                 Some (if l_event_count listener \<noteq> d_event d then EPOLLIN OR EPOLLRDNORM else 0, s3)))"

text \<open>One round of the loop of \<open>uio_read\<close>: it ends the loop with a result and the count that was copied
  to the user's buffer, or goes to sleep.\<close>

definition sizeof_s32 :: int where "sizeof_s32 = 4"

datatype 'd read_state =
    Read_done int "u32 option" "'d world"
  | Read_asleep "'d world"
  | Read_fault    \<comment> \<open>freed memory was used\<close>

definition read_round :: "env \<Rightarrow> ptr \<Rightarrow> bool \<Rightarrow> 'd world \<Rightarrow> 'd read_state" where
  "read_round E filep nonblock s =
     (case w_lst s filep of
        None \<Rightarrow> Read_fault
      | Some listener \<Rightarrow>
          let idev = l_dev listener in
          (case w_dev s idev of
             None \<Rightarrow> Read_fault
           | Some d \<Rightarrow>
               let s1 = mutex_unlock (Info_lock idev) (mutex_lock (Info_lock idev) s) in
               if no_irq d s then Read_done (- EIO) None s1
               else
                 let event_count = d_event d in
                 if event_count \<noteq> l_event_count listener then
                   let (fault, s2) = kdo_w E (Mm (Copy_to_user event_count)) s1 in
                   if fault \<noteq> 0 then Read_done (- EFAULT) None s2
                   else Read_done sizeof_s32 (Some event_count)
                          (s2\<lparr>w_lst := (w_lst s2)(filep \<mapsto> listener\<lparr>l_event_count := event_count\<rparr>)\<rparr>)
                 else if nonblock then Read_done (- EAGAIN) None s1
                 else
                   let (sig, s2) = kdo_w E (Sync Signal_pending) s1 in
                   if sig \<noteq> 0 then Read_done (- ERESTARTSYS) None s2 else Read_asleep s2))"

text \<open>The loop: each element of the list is what happens to the state of the core while the thread
  sleeps in \<open>schedule()\<close>; a thread that is not woken again stays asleep.\<close>

fun read_loop :: "env \<Rightarrow> ptr \<Rightarrow> bool \<Rightarrow> ('d world \<Rightarrow> 'd world) list \<Rightarrow> 'd world \<Rightarrow> 'd read_state" where
  "read_loop E filep nonblock [] s = read_round E filep nonblock s"
| "read_loop E filep nonblock (g # gs) s =
     (case read_round E filep nonblock s of
        Read_asleep s1 \<Rightarrow> read_loop E filep nonblock gs (g s1)
      | r \<Rightarrow> r)"

definition uio_read ::
    "env \<Rightarrow> ptr \<Rightarrow> int \<Rightarrow> bool \<Rightarrow> ('d world \<Rightarrow> 'd world) list \<Rightarrow> 'd world \<Rightarrow> 'd read_state" where
  "uio_read E filep count nonblock sleeps s =
     (case w_lst s filep of
        None \<Rightarrow> Read_fault
      | Some listener \<Rightarrow>
          let idev = l_dev listener in
          if count \<noteq> sizeof_s32 then Read_done (- EINVAL) None s
          else
            (case read_loop E filep nonblock sleeps (kvoid_w (Sync (Add_wait_queue idev)) s) of
               Read_done retval buf s1 \<Rightarrow>
                 Read_done retval buf (kvoid_w (Sync (Remove_wait_queue idev)) s1)
             | r \<Rightarrow> r))"

text \<open>The user's word is read with \<open>copy_from_user\<close> and passed to the driver as a signed number.\<close>

definition uio_write :: "env \<Rightarrow> ptr \<Rightarrow> int \<Rightarrow> 'd world \<Rightarrow> (int \<times> 'd world) option" where
  "uio_write E filep count s =
     (case w_lst s filep of
        None \<Rightarrow> None
      | Some listener \<Rightarrow>
          let idev = l_dev listener in
          if count \<noteq> sizeof_s32 then Some (- EINVAL, s)
          else
            let (fault, s1) = kdo_w E (Mm Copy_from_user) s in
            if fault \<noteq> 0 then Some (- EFAULT, s1)
            else
              let (irq_on, s2) = kdo_w E (Mm Out_copy_from_user) s1;
                  s3 = mutex_lock (Info_lock idev) s2 in
              (case w_dev s3 idev of
                 None \<Rightarrow> None
               | Some d \<Rightarrow>
                   let i = w_info s3 (d_info d);
                       (retval, s4) =
                         (if d_info d = NULL then (- EINVAL, s3)
                          else if info_irq i = 0 then (- EIO, s3)
                          else case info_irqcontrol i of
                                 None \<Rightarrow> (- ENOSYS, s3)
                               | Some f \<Rightarrow> run_cb E (f (sint (of_int irq_on :: u32))) (d_info d) s3)
                   in Some (if retval \<noteq> 0 then retval else sizeof_s32, mutex_unlock (Info_lock idev) s4)))"


section \<open>Events, poll, read and write\<close>

lemma mutex_sel [simp]:
  "w_info (mutex_lock k s) = w_info s" "w_drv (mutex_lock k s) = w_drv s" "w_dev (mutex_lock k s) = w_dev s"
  "w_lst (mutex_lock k s) = w_lst s" "w_idr (mutex_lock k s) = w_idr s"
  "w_class_registered (mutex_lock k s) = w_class_registered s"
  "w_info (mutex_unlock k s) = w_info s" "w_drv (mutex_unlock k s) = w_drv s" "w_dev (mutex_unlock k s) = w_dev s"
  "w_lst (mutex_unlock k s) = w_lst s" "w_idr (mutex_unlock k s) = w_idr s"
  "w_class_registered (mutex_unlock k s) = w_class_registered s"
  by (simp_all add: mutex_lock_def mutex_unlock_def)

lemma mutex_bal [effect_simps]:
  "bal (w_log (mutex_lock k s)) x = bal (w_log s) x + one (Lock k) x"
  "bal (w_log (mutex_unlock k s)) x = bal (w_log s) x - one (Lock k) x"
  by (simp_all add: mutex_lock_def mutex_unlock_def effect_simps)

text \<open>\<open>n\<close> events, one after the other.\<close>

fun notify_times :: "nat \<Rightarrow> ptr \<Rightarrow> 'd world \<Rightarrow> 'd world option" where
  "notify_times 0 ip s = Some s"
| "notify_times (Suc n) ip s =
     (case uio_event_notify ip s of None \<Rightarrow> None | Some t \<Rightarrow> notify_times n ip t)"

lemma notify_once:
  assumes "info_uio_dev (w_info s ip) = idev" "w_dev s idev = Some d"
  shows "\<exists>t. uio_event_notify ip s = Some t \<and> w_dev t = (w_dev s)(idev \<mapsto> d\<lparr>d_event := d_event d + 1\<rparr>)
    \<and> w_info t = w_info s \<and> w_lst t = w_lst s \<and> w_idr t = w_idr s \<and> w_drv t = w_drv s
    \<and> w_class_registered t = w_class_registered s \<and> bal (w_log t) = bal (w_log s)"
  using assms by (simp add: uio_event_notify_def effect_simps fun_eq_iff)

lemma notify_times_spec:
  assumes "info_uio_dev (w_info s ip) = idev" "w_dev s idev = Some d"
  shows "\<exists>t. notify_times n ip s = Some t \<and> w_dev t = (w_dev s)(idev \<mapsto> d\<lparr>d_event := d_event d + of_nat n\<rparr>)
    \<and> w_info t = w_info s \<and> w_lst t = w_lst s \<and> w_idr t = w_idr s \<and> bal (w_log t) = bal (w_log s)"
  using assms
proof (induction n arbitrary: s d)
  case 0
  then show ?case by (simp add: fun_upd_idem)
next
  case (Suc n)
  obtain t where t: "uio_event_notify ip s = Some t" "w_dev t = (w_dev s)(idev \<mapsto> d\<lparr>d_event := d_event d + 1\<rparr>)"
    "w_info t = w_info s" "w_lst t = w_lst s" "w_idr t = w_idr s" "bal (w_log t) = bal (w_log s)"
    using notify_once [OF Suc.prems] by blast
  have "info_uio_dev (w_info t ip) = idev" "w_dev t idev = Some (d\<lparr>d_event := d_event d + 1\<rparr>)"
    using Suc.prems t by simp_all
  from Suc.IH [OF this] t show ?case by (auto simp: add.assoc fun_eq_iff)
qed

lemma of_nat_u32_0: "(of_nat n :: u32) = 0 \<longleftrightarrow> 2 ^ 32 dvd n"
  by (simp add: word_of_nat_eq_0_iff)

text \<open>The result of \<open>uio_poll\<close>.\<close>

lemma poll_spec:
  assumes "w_lst s f = Some l" "w_dev s (l_dev l) = Some d"
  shows "\<exists>t. uio_poll f s = Some (if no_irq d s then of_int (- EIO)
            else if l_event_count l \<noteq> d_event d then EPOLLIN OR EPOLLRDNORM else 0, t)
    \<and> w_dev t = w_dev s \<and> w_lst t = w_lst s \<and> w_info t = w_info s \<and> w_idr t = w_idr s \<and> w_drv t = w_drv s
    \<and> w_class_registered t = w_class_registered s \<and> bal (w_log t) = bal (w_log s)"
  using assms
  by (simp add: uio_poll_def Let_def no_irq_def effect_simps fun_eq_iff EIO_def)

text \<open>One round of \<open>uio_read\<close>.\<close>

lemma read_round_spec:
  assumes "w_lst s f = Some l" "w_dev s (l_dev l) = Some d"
  shows "\<exists>r b t. (read_round E f nb s = Read_done r b t \<or> read_round E f nb s = Read_asleep t)
    \<and> w_dev t = w_dev s \<and> w_info t = w_info s \<and> w_idr t = w_idr s \<and> w_drv t = w_drv s
    \<and> w_class_registered t = w_class_registered s \<and> bal (w_log t) = bal (w_log s)
    \<and> (w_lst t = w_lst s \<or> w_lst t = (w_lst s)(f \<mapsto> l\<lparr>l_event_count := d_event d\<rparr>))"
  using assms
  by (auto simp: read_round_def Let_def case_prod_beta effect_simps fun_eq_iff)

lemma read_round_results:
  assumes "w_lst s f = Some l" "w_dev s (l_dev l) = Some d"
  shows "read_round E f nb s = Read_done r b t \<Longrightarrow>
      (r = - EIO \<and> no_irq d s \<or> r = - EFAULT \<or> r = - EAGAIN \<and> nb \<or> r = - ERESTARTSYS \<and> \<not> nb
       \<or> r = 4 \<and> b = Some (d_event d) \<and> d_event d \<noteq> l_event_count l)"
  using assms by (auto simp: read_round_def Let_def case_prod_beta sizeof_s32_def split: if_splits)


text \<open>No signal comes for the thread, and the user's buffer can be written.\<close>

definition no_signal :: "env \<Rightarrow> bool" where
  "no_signal E \<longleftrightarrow> (\<forall>k. E k (Sync Signal_pending) = 0)"

definition user_writable :: "env \<Rightarrow> bool" where
  "user_writable E \<longleftrightarrow> (\<forall>k v. E k (Mm (Copy_to_user v)) = 0)"

lemma read_asleep_iff:
  assumes "w_lst s f = Some l" "w_dev s (l_dev l) = Some d" "\<not> no_irq d s" "d_event d = l_event_count l"
    "no_signal E"
  shows "\<exists>t. read_round E f False s = Read_asleep t \<and> w_dev t = w_dev s \<and> w_lst t = w_lst s \<and> w_info t = w_info s
    \<and> w_idr t = w_idr s \<and> w_drv t = w_drv s \<and> bal (w_log t) = bal (w_log s)"
  using assms by (auto simp: read_round_def Let_def case_prod_beta effect_simps fun_eq_iff no_signal_def)

text \<open>Wake-ups without an event send the reader back to sleep.\<close>

lemma read_loop_spurious:
  assumes "w_lst s f = Some l" "w_dev s (l_dev l) = Some d" "\<not> no_irq d s" "d_event d = l_event_count l"
    "no_signal E"
  shows "\<exists>t. read_loop E f False (replicate n id @ g # gs) s = read_loop E f False gs (g t)
    \<and> w_dev t = w_dev s \<and> w_lst t = w_lst s \<and> w_info t = w_info s \<and> w_idr t = w_idr s \<and> w_drv t = w_drv s
    \<and> bal (w_log t) = bal (w_log s)"
  using assms(1-4)
proof (induction n arbitrary: s)
  case 0
  from read_asleep_iff [OF 0 assms(5)] show ?case by auto
next
  case (Suc n)
  obtain t where t: "read_round E f False s = Read_asleep t" "w_dev t = w_dev s" "w_lst t = w_lst s"
    "w_info t = w_info s" "w_idr t = w_idr s" "w_drv t = w_drv s" "bal (w_log t) = bal (w_log s)"
    using read_asleep_iff [OF Suc.prems assms(5)] by blast
  then have "\<exists>u. read_loop E f False (replicate n id @ g # gs) t = read_loop E f False gs (g u)
    \<and> w_dev u = w_dev t \<and> w_lst u = w_lst t \<and> w_info u = w_info t \<and> w_idr u = w_idr t \<and> w_drv u = w_drv t
    \<and> bal (w_log u) = bal (w_log t)"
    using Suc.prems by (intro Suc.IH) (simp_all add: no_irq_def)
  with t show ?case by (simp add: id_def)
qed

section \<open>Opening and closing a file\<close>

text \<open>What an open file holds, and a run of an optional callback.\<close>

definition open_held :: "ptr \<Rightarrow> uio_device \<Rightarrow> ptr \<Rightarrow> resource \<Rightarrow> int" where
  "open_held idev d f x =
     one (Mem K_uio_listener f) x + one (Kref idev) x + one (Module_ref (d_owner d)) x"

definition cb_run :: "'d cb option \<Rightarrow> env \<Rightarrow> 'd \<Rightarrow> klog \<Rightarrow> int \<Rightarrow> 'd \<Rightarrow> klog \<Rightarrow> bool" where
  "cb_run f E drv l r drv' l' \<longleftrightarrow>
     (case f of None \<Rightarrow> r = 0 \<and> drv' = drv \<and> l' = l | Some g \<Rightarrow> g E (drv, l) = (r, drv', l'))"

lemma run_cb_sel:
  assumes "run_cb E f ip s = (r, t)"
  shows "w_info t = w_info s" "w_dev t = w_dev s" "w_lst t = w_lst s" "w_idr t = w_idr s"
    "w_class_registered t = w_class_registered s"
    "\<exists>drv. f E (w_drv s ip, w_log s) = (r, drv, w_log t) \<and> w_drv t = (w_drv s)(ip := drv)"
  using assms by (auto simp: run_cb_def split: prod.splits)

lemma open_info_spec:
  assumes "w_dev s idev = Some d" "open_info E idev s = (r, t)"
  shows "w_info t = w_info s \<and> w_dev t = w_dev s \<and> w_lst t = w_lst s \<and> w_idr t = w_idr s
    \<and> w_class_registered t = w_class_registered s
    \<and> (if d_info d = NULL then r = - EINVAL \<and> w_drv t = w_drv s \<and> bal (w_log t) = bal (w_log s)
       else \<exists>l' drv'. cb_run (info_open (w_info s (d_info d))) E (w_drv s (d_info d))
              (w_log (mutex_lock (Info_lock idev) s)) r drv' l'
          \<and> w_drv t = (w_drv s)(d_info d := drv') \<and> (\<forall>x. bal (w_log t) x = bal l' x - one (Lock (Info_lock idev)) x))"
proof (cases "d_info d = NULL")
  case True
  then show ?thesis using assms by (auto simp: open_info_def effect_simps fun_eq_iff)
next
  case False
  show ?thesis
  proof (cases "info_open (w_info s (d_info d))")
    case None
    then show ?thesis using assms False
      by (auto simp: open_info_def cb_run_def effect_simps fun_upd_idem)
  next
    case (Some f)
    obtain r' u where u: "run_cb E f (d_info d) (mutex_lock (Info_lock idev) s) = (r', u)" by fastforce
    then have "r' = r" "t = mutex_unlock (Info_lock idev) u"
      using assms False Some by (auto simp: open_info_def)
    with run_cb_sel [OF u] False Some show ?thesis by (auto simp: cb_run_def effect_simps)
  qed
qed

lemma get_device_spec:
  assumes "w_dev s p = Some d"
  shows "\<exists>t. get_device p s = Some t \<and> w_info t = w_info s \<and> w_idr t = w_idr s \<and> w_lst t = w_lst s
    \<and> w_drv t = w_drv s \<and> w_class_registered t = w_class_registered s
    \<and> w_dev t = (w_dev s)(p \<mapsto> d\<lparr>d_kref := Suc (d_kref d)\<rparr>)
    \<and> (\<forall>x. bal (w_log t) x = bal (w_log s) x + one (Kref p) x)"
  using assms by (simp add: get_device_def effect_simps)

text \<open>Dropping the reference that an open took: the device had one before.\<close>

lemma err_module_get_spec:
  assumes "w_dev s p = Some (d\<lparr>d_kref := Suc (d_kref d)\<rparr>)" "1 \<le> d_kref d" "p \<noteq> NULL"
  shows "\<exists>t. err_module_get p ret s = Some (ret, t) \<and> w_info t = w_info s \<and> w_idr t = w_idr s \<and> w_lst t = w_lst s
    \<and> w_drv t = w_drv s \<and> w_class_registered t = w_class_registered s \<and> w_dev t = (w_dev s)(p \<mapsto> d)
    \<and> (\<forall>x. bal (w_log t) x = bal (w_log s) x - one (Kref p) x)"
  using put_device_spec [OF assms(1,3)] assms(2) by (auto simp: err_module_get_def)

lemma err_alloc_listener_spec:
  assumes "w_dev s p = Some (d\<lparr>d_kref := Suc (d_kref d)\<rparr>)" "1 \<le> d_kref d" "p \<noteq> NULL"
  shows "\<exists>t. err_alloc_listener p ret s = Some (ret, t) \<and> w_info t = w_info s \<and> w_idr t = w_idr s \<and> w_lst t = w_lst s
    \<and> w_drv t = w_drv s \<and> w_class_registered t = w_class_registered s \<and> w_dev t = (w_dev s)(p \<mapsto> d)
    \<and> (\<forall>x. bal (w_log t) x = bal (w_log s) x - one (Module_ref (d_owner d)) x - one (Kref p) x)"
  using err_module_get_spec [of "kvoid_w (Dev (Module_put (d_owner d))) s" p d ret] assms
  by (auto simp: err_alloc_listener_def effect_simps)

lemma err_infoopen_spec:
  assumes "w_dev s p = Some (d\<lparr>d_kref := Suc (d_kref d)\<rparr>)" "1 \<le> d_kref d" "p \<noteq> NULL" "f \<noteq> NULL"
  shows "\<exists>t. err_infoopen p f ret s = Some (ret, t) \<and> w_info t = w_info s \<and> w_idr t = w_idr s
    \<and> w_lst t = (w_lst s)(f := None) \<and> w_drv t = w_drv s \<and> w_class_registered t = w_class_registered s
    \<and> w_dev t = (w_dev s)(p \<mapsto> d) \<and> (\<forall>x. bal (w_log t) x = bal (w_log s) x - open_held p d f x)"
  using err_alloc_listener_spec [of "kvoid_w (Obj (Kfree K_uio_listener f)) (s\<lparr>w_lst := (w_lst s)(f := None)\<rparr>)" p d ret] assms
  by (auto simp: err_infoopen_def effect_simps open_held_def algebra_simps)

text \<open>The outcome of \<open>uio_open\<close> on a device: with an error nothing has changed but what the driver's
  callback did; otherwise there is a new listener at the current event count and a new reference.\<close>

definition open_outcome :: "env \<Rightarrow> ptr \<Rightarrow> uio_device \<Rightarrow> 'd world \<Rightarrow> int \<Rightarrow> ptr \<Rightarrow> 'd world \<Rightarrow> bool" where
  "open_outcome E idev d s r f t \<longleftrightarrow>
     w_info t = w_info s \<and> w_idr t = w_idr s \<and> w_class_registered t = w_class_registered s
     \<and> (if r = 0
        then f \<noteq> NULL \<and> w_lst s f = None \<and> w_lst t = (w_lst s)(f \<mapsto> \<lparr>l_dev = idev, l_event_count = d_event d\<rparr>)
           \<and> w_dev t = (w_dev s)(idev \<mapsto> d\<lparr>d_kref := Suc (d_kref d)\<rparr>)
        else w_lst t = w_lst s \<and> w_dev t = w_dev s)
     \<and> (r \<noteq> 0 \<and> w_drv t = w_drv s \<and> bal (w_log t) = bal (w_log s)
        \<or> d_info d \<noteq> NULL
          \<and> (\<exists>l l' drv'. (\<forall>x. bal l x = bal (w_log s) x + open_held idev d f x + one (Lock (Info_lock idev)) x)
             \<and> cb_run (info_open (w_info s (d_info d))) E (w_drv s (d_info d)) l r drv' l'
             \<and> w_drv t = (w_drv s)(d_info d := drv')
             \<and> (\<forall>x. bal (w_log t) x = bal l' x - one (Lock (Info_lock idev)) x
                    - (if r = 0 then 0 else open_held idev d f x))))"

lemma store_ok_fresh_lst:
  assumes "store_ok s" "kernel_ok E" "E l (Obj (Kmalloc K_uio_listener)) = p" "p \<noteq> NULL"
    "bal l (Mem K_uio_listener p) = bal (w_log s) (Mem K_uio_listener p)"
  shows "w_lst s p = None"
  using kernel_ok_mem [OF assms(2), of l K_uio_listener p K_uio_listener] assms
  by (simp add: store_ok_def split: if_splits)

lemma open_dev_cases:
  assumes "w_dev s idev = Some (d\<lparr>d_kref := Suc (d_kref d)\<rparr>)" "1 \<le> d_kref d" "idev \<noteq> NULL" "kernel_ok E"
    and fresh: "\<And>l p. E l (Obj (Kmalloc K_uio_listener)) = p \<Longrightarrow> p \<noteq> NULL \<Longrightarrow>
      bal l (Mem K_uio_listener p) = bal (w_log s) (Mem K_uio_listener p) \<Longrightarrow> w_lst s p = None"
  shows "\<exists>r f t. open_dev E idev s = Some (r, f, t) \<and>
    w_info t = w_info s \<and> w_idr t = w_idr s \<and> w_class_registered t = w_class_registered s
     \<and> (if r = 0
        then f \<noteq> NULL \<and> w_lst s f = None \<and> w_lst t = (w_lst s)(f \<mapsto> \<lparr>l_dev = idev, l_event_count = d_event d\<rparr>)
           \<and> w_dev t = w_dev s
        else w_lst t = w_lst s \<and> w_dev t = (w_dev s)(idev \<mapsto> d))
     \<and> (r \<noteq> 0 \<and> w_drv t = w_drv s \<and> (\<forall>x. bal (w_log t) x = bal (w_log s) x - one (Kref idev) x)
        \<or> d_info d \<noteq> NULL
          \<and> (\<exists>l l' drv'. (\<forall>x. bal l x = bal (w_log s) x - one (Kref idev) x + open_held idev d f x
                             + one (Lock (Info_lock idev)) x)
             \<and> cb_run (info_open (w_info s (d_info d))) E (w_drv s (d_info d)) l r drv' l'
             \<and> w_drv t = (w_drv s)(d_info d := drv')
             \<and> (\<forall>x. bal (w_log t) x = bal l' x - one (Lock (Info_lock idev)) x
                    - (if r = 0 then 0 else open_held idev d f x))))"
    (is "\<exists>r f t. _ \<and> ?P r f t")
proof -
  let ?D = "d\<lparr>d_kref := Suc (d_kref d)\<rparr>"
  let ?c1 = "Dev (Try_module_get (d_owner d))"
  let ?s1 = "snd (kdo_w E ?c1 s)"
  let ?c2 = "Obj (Kmalloc K_uio_listener)"
  let ?f = "E (w_log ?s1) ?c2" let ?s2 = "snd (kdo_w E ?c2 ?s1)"
  let ?s3 = "?s2\<lparr>w_lst := (w_lst ?s2)(?f \<mapsto> \<lparr>l_dev = idev, l_event_count = d_event d\<rparr>)\<rparr>"
  have b1: "bal (w_log ?s1) x = bal (w_log s) x + (if E (w_log s) ?c1 = 0 then 0 else one (Module_ref (d_owner d)) x)" for x
    by (simp add: effect_simps)
  have d1: "w_dev ?s1 idev = Some ?D" "w_dev ?s2 idev = Some ?D" using assms(1) by simp_all
  consider (module) "E (w_log s) ?c1 = 0" | (mem) "E (w_log s) ?c1 \<noteq> 0" "?f = NULL"
    | (cb) "E (w_log s) ?c1 \<noteq> 0" "?f \<noteq> NULL" by blast
  then show ?thesis
  proof cases
    case module
    obtain t where t: "err_module_get idev (- ENODEV) ?s1 = Some (- ENODEV, t)" "?P (- ENODEV) NULL t"
      using err_module_get_spec [OF d1(1) assms(2,3), of "- ENODEV"] b1 module by (auto simp: errno_simps simp del: kdo_w_sel(2))
    then have "open_dev E idev s = Some (- ENODEV, NULL, t)"
      using module assms(1) by (simp add: open_dev_def case_prod_beta)
    with t(2) show ?thesis by blast
  next
    case mem
    have b2: "bal (w_log ?s2) x = bal (w_log s) x + one (Module_ref (d_owner d)) x" for x
      using mem by (simp add: effect_simps)
    obtain t where t: "err_alloc_listener idev (- ENOMEM) ?s2 = Some (- ENOMEM, t)" "?P (- ENOMEM) NULL t"
      using err_alloc_listener_spec [OF d1(2) assms(2,3), of "- ENOMEM"] b2 by (auto simp: errno_simps simp del: kdo_w_sel(2))
    then have "open_dev E idev s = Some (- ENOMEM, NULL, t)"
      using mem assms(1) by (simp add: open_dev_def case_prod_beta Let_def)
    with t(2) show ?thesis by blast
  next
    case cb
    have b3: "bal (w_log ?s3) x = bal (w_log s) x - one (Kref idev) x + open_held idev d ?f x" for x
      using cb by (simp add: effect_simps open_held_def)
    have fr: "w_lst s ?f = None" by (rule fresh [OF refl cb(2)]) (use cb in \<open>simp add: effect_simps\<close>)
    obtain r s4 where s4: "open_info E idev ?s3 = (r, s4)" by fastforce
    have d3: "w_dev ?s3 idev = Some ?D" using d1(2) by simp
    note oi = open_info_spec [OF d3 s4]
    have top: "open_dev E idev s = (if r \<noteq> 0 then map_option (\<lambda>(r, t). (r, ?f, t)) (err_infoopen idev ?f r s4)
        else Some (0, ?f, s4))"
      using cb assms(1) s4 by (simp add: open_dev_def case_prod_beta Let_def)
    have w4: "w_info s4 = w_info s" "w_dev s4 = w_dev s" "w_idr s4 = w_idr s"
      "w_lst s4 = (w_lst s)(?f \<mapsto> \<lparr>l_dev = idev, l_event_count = d_event d\<rparr>)" "w_class_registered s4 = w_class_registered s"
      using oi by simp_all
    let ?l = "w_log (mutex_lock (Info_lock idev) ?s3)"
    have bl: "bal ?l x = bal (w_log s) x - one (Kref idev) x + open_held idev d ?f x + one (Lock (Info_lock idev)) x" for x
      unfolding mutex_bal(1) b3 by simp
    have run: "d_info d \<noteq> NULL \<Longrightarrow> \<exists>l' drv'. cb_run (info_open (w_info s (d_info d))) E (w_drv s (d_info d)) ?l r drv' l'
        \<and> w_drv s4 = (w_drv s)(d_info d := drv') \<and> (\<forall>x. bal (w_log s4) x = bal l' x - one (Lock (Info_lock idev)) x)"
      and einval: "d_info d = NULL \<Longrightarrow> r \<noteq> 0 \<and> w_drv s4 = w_drv s \<and> (\<forall>x. bal (w_log s4) x
          = bal (w_log s) x - one (Kref idev) x + open_held idev d ?f x)"
      using oi b3 by (simp_all add: errno_simps split: if_splits)
    show ?thesis
    proof (cases "r = 0")
      case True
      then have "?P r ?f s4"
        using run einval bl w4 fr cb(2) by auto
      with top True show ?thesis by auto
    next
      case False
      have "w_dev s4 idev = Some ?D" using w4(2) assms(1) by simp
      from err_infoopen_spec [OF this assms(2,3) cb(2), of r] obtain t where
        t: "err_infoopen idev ?f r s4 = Some (r, t)" "w_info t = w_info s4" "w_idr t = w_idr s4"
          "w_lst t = (w_lst s4)(?f := None)" "w_drv t = w_drv s4" "w_class_registered t = w_class_registered s4"
          "w_dev t = (w_dev s4)(idev \<mapsto> d)" "\<forall>x. bal (w_log t) x = bal (w_log s4) x - open_held idev d ?f x" by blast
      have "w_lst t = w_lst s" using t(4) w4(4) fr by (auto simp: fun_eq_iff)
      moreover have "r \<noteq> 0 \<and> w_drv t = w_drv s \<and> (\<forall>x. bal (w_log t) x = bal (w_log s) x - one (Kref idev) x)
        \<or> d_info d \<noteq> NULL
          \<and> (\<exists>l l' drv'. (\<forall>x. bal l x = bal (w_log s) x - one (Kref idev) x + open_held idev d ?f x
                             + one (Lock (Info_lock idev)) x)
             \<and> cb_run (info_open (w_info s (d_info d))) E (w_drv s (d_info d)) l r drv' l'
             \<and> w_drv t = (w_drv s)(d_info d := drv')
             \<and> (\<forall>x. bal (w_log t) x = bal l' x - one (Lock (Info_lock idev)) x - open_held idev d ?f x))"
      proof (cases "d_info d = NULL")
        case True
        then show ?thesis using False einval [OF True] t(5,8) by simp
      next
        case dn: False
        then show ?thesis using run [OF dn] bl t(5,8) by metis
      qed
      ultimately have "?P r ?f t" using False w4 t by simp
      with top False t(1) show ?thesis by auto
    qed
  qed
qed


lemma open_cases:
  assumes "store_ok s" "kernel_ok E" "w_idr s m = Some idev" "w_dev s idev = Some d" "1 \<le> d_kref d"
  shows "\<exists>r f t. uio_open E m s = Some (r, f, t) \<and> open_outcome E idev d s r f t"
proof -
  have n: "idev \<noteq> NULL" using assms(1,4) by (auto simp: store_ok_def)
  let ?s1 = "mutex_lock Minor_lock s"
  have "w_dev ?s1 idev = Some d" using assms(4) by simp
  from get_device_spec [OF this] obtain s2 where s2: "get_device idev ?s1 = Some s2" "w_info s2 = w_info s"
    "w_idr s2 = w_idr s" "w_lst s2 = w_lst s" "w_drv s2 = w_drv s" "w_class_registered s2 = w_class_registered s"
    "w_dev s2 = (w_dev s)(idev \<mapsto> d\<lparr>d_kref := Suc (d_kref d)\<rparr>)"
    "\<forall>x. bal (w_log s2) x = bal (w_log ?s1) x + one (Kref idev) x" by auto
  let ?s3 = "mutex_unlock Minor_lock s2"
  have b3: "bal (w_log ?s3) x = bal (w_log s) x + one (Kref idev) x" for x
    using s2(8) by (simp add: effect_simps)
  have d3: "w_dev ?s3 idev = Some (d\<lparr>d_kref := Suc (d_kref d)\<rparr>)" using s2(7) by simp
  have fresh: "w_lst ?s3 p = None" if "E l (Obj (Kmalloc K_uio_listener)) = p" "p \<noteq> NULL"
      "bal l (Mem K_uio_listener p) = bal (w_log ?s3) (Mem K_uio_listener p)" for l p
    using store_ok_fresh_lst [OF assms(1,2) that(1,2)] that(3) b3 s2(4) by simp
  have w3: "w_info ?s3 = w_info s" "w_idr ?s3 = w_idr s" "w_lst ?s3 = w_lst s" "w_drv ?s3 = w_drv s"
    "w_class_registered ?s3 = w_class_registered s" "w_dev ?s3 = (w_dev s)(idev \<mapsto> d\<lparr>d_kref := Suc (d_kref d)\<rparr>)"
    using s2 by simp_all
  have up: "(w_dev s)(idev \<mapsto> x, idev \<mapsto> d) = w_dev s" for x using assms(4) by auto
  note od = open_dev_cases [OF d3 assms(5) n assms(2) fresh]
  have "uio_open E m s = open_dev E idev ?s3"
    using assms(3) s2(1) by (simp add: uio_open_def Let_def)
  then show ?thesis
    using od unfolding w3 b3 up open_outcome_def by (simp add: fun_eq_iff)
qed

text \<open>Closing: the listener goes, with it one reference, and the device with its last reference.\<close>

lemma release_cases:
  assumes "w_lst s f = Some l" "w_dev s (l_dev l) = Some d" "l_dev l \<noteq> NULL" "f \<noteq> NULL"
  shows "\<exists>r t. uio_release E f s = Some (r, t) \<and> w_info t = w_info s \<and> w_idr t = w_idr s
    \<and> w_class_registered t = w_class_registered s \<and> w_lst t = (w_lst s)(f := None)
    \<and> w_dev t = (w_dev s)(l_dev l := if d_kref d = 1 then None else Some (d\<lparr>d_kref := d_kref d - 1\<rparr>))
    \<and> (\<exists>k k' drv'. (\<forall>x. bal k x = bal (w_log s) x + one (Lock (Info_lock (l_dev l))) x)
        \<and> cb_run (if d_info d = NULL then None else info_release (w_info s (d_info d))) E (w_drv s (d_info d)) k r drv' k'
        \<and> w_drv t = (if d_info d = NULL then w_drv s else (w_drv s)(d_info d := drv'))
        \<and> (\<forall>x. bal (w_log t) x = bal k' x - one (Lock (Info_lock (l_dev l))) x - open_held (l_dev l) d f x
               - (if d_kref d = 1 then one (Mem K_uio_device (l_dev l)) x else 0)))"
proof -
  let ?p = "l_dev l"
  let ?s1 = "mutex_lock (Info_lock ?p) s"
  let ?cb = "if d_info d = NULL then None else info_release (w_info s (d_info d))"
  obtain r s2 where s2: "(r, s2) = (case ?cb of None \<Rightarrow> (0, ?s1) | Some g \<Rightarrow> run_cb E g (d_info d) ?s1)"
    by (metis surj_pair)
  have w2: "w_info s2 = w_info s" "w_dev s2 = w_dev s" "w_lst s2 = w_lst s" "w_idr s2 = w_idr s"
    "w_class_registered s2 = w_class_registered s"
    and run: "\<exists>drv'. cb_run ?cb E (w_drv s (d_info d)) (w_log ?s1) r drv' (w_log s2)
      \<and> w_drv s2 = (if d_info d = NULL then w_drv s else (w_drv s)(d_info d := drv'))"
    using s2 run_cb_sel [of E _ "d_info d" ?s1 r s2]
    by (auto simp: cb_run_def split: option.splits if_splits)
  let ?s4 = "kvoid_w (Dev (Module_put (d_owner d))) (mutex_unlock (Info_lock ?p) s2)"
  let ?s5 = "kvoid_w (Obj (Kfree K_uio_listener f)) (?s4\<lparr>w_lst := (w_lst ?s4)(f := None)\<rparr>)"
  have d5: "w_dev ?s5 ?p = Some d" using assms(2) w2 by simp
  have b5: "bal (w_log ?s5) x = bal (w_log s2) x - one (Lock (Info_lock ?p)) x - open_held ?p d f x + one (Kref ?p) x" for x
    using assms(4) by (simp add: effect_simps open_held_def)
  obtain t where t: "put_device ?p ?s5 = Some t" "w_info t = w_info s" "w_idr t = w_idr s"
    "w_lst t = (w_lst s)(f := None)" "w_drv t = w_drv s2" "w_class_registered t = w_class_registered s"
    "w_dev t = (w_dev s)(?p := if d_kref d = 1 then None else Some (d\<lparr>d_kref := d_kref d - 1\<rparr>))"
    "\<forall>x. bal (w_log t) x = bal (w_log ?s5) x - one (Kref ?p) x - (if d_kref d = 1 then one (Mem K_uio_device ?p) x else 0)"
    using put_device_spec [OF d5 assms(3)] w2 by auto
  have "uio_release E f s = Some (r, t)"
    using assms(1,2) s2 t(1) by (auto simp: uio_release_def Let_def split: prod.splits option.splits if_splits)
  moreover have "\<forall>x. bal (w_log t) x = bal (w_log s2) x - one (Lock (Info_lock ?p)) x - open_held ?p d f x
               - (if d_kref d = 1 then one (Mem K_uio_device ?p) x else 0)"
    using t(8) unfolding b5 by simp
  moreover have "\<forall>x. bal (w_log ?s1) x = bal (w_log s) x + one (Lock (Info_lock ?p)) x" by (simp add: effect_simps)
  ultimately show ?thesis using run t(2-7) by metis
qed


section \<open>The contract of a driver\<close>

text \<open>What a driver promises of its \<open>open\<close> and \<open>release\<close> callbacks: they count the open files (\<open>users\<close>), a
  failed open counts nothing, what the driver holds of the kernel changes only with its private data
  (\<open>held\<close>), and without users it holds nothing.  The lemmas of the core hold for every such driver.\<close>

locale uio_driver =
  fixes opn rel :: "'d cb option"
    and users :: "'d \<Rightarrow> int"
    and held :: "'d \<Rightarrow> resource \<Rightarrow> int"
  assumes open_users: "0 \<le> users d \<Longrightarrow> cb_run opn E d l r d' l' \<Longrightarrow> users d' = (if r = 0 then users d + 1 else users d)"
    and open_books: "0 \<le> users d \<Longrightarrow> cb_run opn E d l r d' l' \<Longrightarrow> bal l' x - held d' x = bal l x - held d x"
    and release_users: "0 < users d \<Longrightarrow> cb_run rel E d l r d' l' \<Longrightarrow> users d' = users d - 1"
    and release_books: "0 < users d \<Longrightarrow> cb_run rel E d l r d' l' \<Longrightarrow> bal l' x - held d' x = bal l x - held d x"
    and idle: "users d = 0 \<Longrightarrow> held d x = 0"
begin

definition served :: "'d world \<Rightarrow> ptr \<Rightarrow> bool" where
  "served s ip \<longleftrightarrow> info_open (w_info s ip) = opn \<and> info_release (w_info s ip) = rel \<and> 0 \<le> users (w_drv s ip)"

text \<open>Every return of \<open>uio_open\<close> keeps the books: a success costs exactly the open file.\<close>

lemma open_keeps_books:
  assumes "open_outcome E idev d s r f t" "served s (d_info d)"
  shows "users (w_drv t (d_info d)) = users (w_drv s (d_info d)) + (if r = 0 then 1 else 0)"
    and "bal (w_log t) x - held (w_drv t (d_info d)) x =
      bal (w_log s) x - held (w_drv s (d_info d)) x + (if r = 0 then open_held idev d f x else 0)"
proof -
  let ?ip = "d_info d"
  consider "r \<noteq> 0" "w_drv t = w_drv s" "bal (w_log t) = bal (w_log s)"
    | l l' drv' where "\<forall>x. bal l x = bal (w_log s) x + open_held idev d f x + one (Lock (Info_lock idev)) x"
        "cb_run opn E (w_drv s ?ip) l r drv' l'" "w_drv t = (w_drv s)(?ip := drv')"
        "\<forall>x. bal (w_log t) x = bal l' x - one (Lock (Info_lock idev)) x - (if r = 0 then 0 else open_held idev d f x)"
    using assms by (auto simp: open_outcome_def served_def)
  then have "users (w_drv t ?ip) = users (w_drv s ?ip) + (if r = 0 then 1 else 0)
    \<and> bal (w_log t) x - held (w_drv t ?ip) x =
      bal (w_log s) x - held (w_drv s ?ip) x + (if r = 0 then open_held idev d f x else 0)"
  proof cases
    case 2
    have u: "0 \<le> users (w_drv s ?ip)" using assms(2) by (simp add: served_def)
    show ?thesis using open_users [OF u 2(2)] open_books [OF u 2(2), of x] 2 by simp
  qed simp
  then show "users (w_drv t ?ip) = users (w_drv s ?ip) + (if r = 0 then 1 else 0)"
    "bal (w_log t) x - held (w_drv t ?ip) x =
      bal (w_log s) x - held (w_drv s ?ip) x + (if r = 0 then open_held idev d f x else 0)" by simp_all
qed

lemma open_close:
  assumes "store_ok s" "kernel_ok E" "w_idr s m = Some idev" "w_dev s idev = Some d" "1 \<le> d_kref d"
    "d_info d \<noteq> NULL" "served s (d_info d)" "users (w_drv s (d_info d)) = 0" "uio_open E m s = Some (0, f, t)"
  shows "\<exists>r u. uio_release E f t = Some (r, u) \<and> bal (w_log u) = bal (w_log s) \<and> w_dev u = w_dev s \<and> w_lst u = w_lst s
    \<and> w_idr u = w_idr s \<and> w_info u = w_info s \<and> users (w_drv u (d_info d)) = 0"
proof -
  let ?ip = "d_info d" let ?d = "d\<lparr>d_kref := Suc (d_kref d)\<rparr>"
  have o: "open_outcome E idev d s 0 f t" using open_cases [OF assms(1-5)] assms(9) by auto
  note k = open_keeps_books [OF o assms(7)]
  have n: "idev \<noteq> NULL" using assms(1,4) by (auto simp: store_ok_def)
  have w: "w_lst t = (w_lst s)(f \<mapsto> \<lparr>l_dev = idev, l_event_count = d_event d\<rparr>)" "f \<noteq> NULL" "w_lst s f = None"
    "w_dev t = (w_dev s)(idev \<mapsto> ?d)" "w_info t = w_info s" "w_idr t = w_idr s"
    using o by (simp_all add: open_outcome_def)
  then have c: "w_lst t f = Some \<lparr>l_dev = idev, l_event_count = d_event d\<rparr>"
    "w_dev t (l_dev \<lparr>l_dev = idev, l_event_count = d_event d\<rparr>) = Some ?d"
    "l_dev \<lparr>l_dev = idev, l_event_count = d_event d\<rparr> \<noteq> NULL" using n by simp_all
  from release_cases [OF c w(2), of E] obtain r u kk k' drv' where u: "uio_release E f t = Some (r, u)"
    "w_info u = w_info t" "w_idr u = w_idr t" "w_lst u = (w_lst t)(f := None)"
    "w_dev u = (w_dev t)(idev := Some (?d\<lparr>d_kref := d_kref d\<rparr>))"
    "\<forall>x. bal kk x = bal (w_log t) x + one (Lock (Info_lock idev)) x"
    "cb_run (info_release (w_info t ?ip)) E (w_drv t ?ip) kk r drv' k'" "w_drv u = (w_drv t)(?ip := drv')"
    "\<forall>x. bal (w_log u) x = bal k' x - one (Lock (Info_lock idev)) x - open_held idev ?d f x"
    using assms(5,6) by (auto)
  have rel: "info_release (w_info t ?ip) = rel" using assms(7) w(5) by (simp add: served_def)
  have ut: "0 < users (w_drv t ?ip)" using k(1) assms(8) by simp
  note cb = u(7) [unfolded rel]
  have zero: "users drv' = 0" using release_users [OF ut cb] k(1) assms(8) by simp
  have "bal (w_log u) x = bal (w_log s) x" for x
    using release_books [OF ut cb, of x] k(2) [of x] u(6,9) idle [OF zero, of x] idle [OF assms(8), of x]
    by (simp add: open_held_def)
  moreover have "w_dev u = w_dev s" using u(5) w(4) assms(4) by (auto simp: fun_eq_iff)
  moreover have "w_lst u = w_lst s" using u(4) w(1,3) by (auto simp: fun_eq_iff)
  ultimately show ?thesis using u w zero by (auto simp: fun_eq_iff)
qed

end

section \<open>Properties\<close>

text \<open>The event counter is a 32-bit counter: after \<open>n\<close> notifications a listener that was up to date
  finds the device readable unless \<open>n\<close> is a multiple of \<open>2^32\<close>, and never sees an error.\<close>

theorem poll_after_events:
  assumes "info_uio_dev (w_info s ip) = l_dev l" "w_lst s f = Some l" "w_dev s (l_dev l) = Some d"
    "\<not> no_irq d s" "l_event_count l = d_event d"
  shows "\<exists>t u. notify_times n ip s = Some t
    \<and> uio_poll f t = Some (if 2 ^ 32 dvd n then 0 else EPOLLIN OR EPOLLRDNORM, u)"
proof -
  obtain t where t: "notify_times n ip s = Some t" "w_lst t = w_lst s" "w_info t = w_info s"
    "w_dev t = (w_dev s)(l_dev l \<mapsto> d\<lparr>d_event := d_event d + of_nat n\<rparr>)"
    using notify_times_spec [OF assms(1,3), of n] by blast
  have a: "w_lst t f = Some l" "w_dev t (l_dev l) = Some (d\<lparr>d_event := d_event d + of_nat n\<rparr>)"
    using assms t by simp_all
  have "(d_event d \<noteq> d_event d + of_nat n) = (\<not> 2 ^ 32 dvd n)"
    by (metis add_cancel_left_right of_nat_u32_0)
  with poll_spec [OF a] assms(4,5) t(1,3) show ?thesis by (auto simp: no_irq_def)
qed

text \<open>C27. \<open>poll\<close> and \<open>read\<close> agree: a poll of an open file returns 0 exactly when a read that may not block
  returns \<open>-EAGAIN\<close>.\<close>

theorem poll_zero_iff_read_eagain:
  assumes "w_lst s f = Some l" "w_dev s (l_dev l) = Some d"
  shows "(\<exists>t. uio_poll f s = Some (0, t))
    \<longleftrightarrow> (\<exists>t. uio_read E f sizeof_s32 True gs s = Read_done (- EAGAIN) None t)"
proof -
  let ?s = "kvoid_w (Sync (Add_wait_queue (l_dev l))) s"
  have nz: "EPOLLIN OR EPOLLRDNORM \<noteq> 0" "(of_int (- EIO) :: u32) \<noteq> 0"
    by (simp_all add: EPOLLIN_def EPOLLRDNORM_def EIO_def)
  have p: "(\<exists>t. uio_poll f s = Some (0, t)) \<longleftrightarrow> \<not> no_irq d s \<and> l_event_count l = d_event d"
    using poll_spec [OF assms] nz by (auto split: if_splits)
  have "read_loop E f True gs ?s = read_round E f True ?s"
    using assms by (cases gs) (auto simp: read_round_def Let_def case_prod_beta split: read_state.splits)
  then have "(\<exists>t. uio_read E f sizeof_s32 True gs s = Read_done (- EAGAIN) None t)
      \<longleftrightarrow> (\<exists>t. read_round E f True ?s = Read_done (- EAGAIN) None t)"
    using assms by (cases "read_round E f True ?s") (simp_all add: uio_read_def)
  also have "\<dots> \<longleftrightarrow> \<not> no_irq d s \<and> l_event_count l = d_event d"
    using assms by (auto simp: read_round_def Let_def case_prod_beta no_irq_def errno_simps sizeof_s32_def)
  finally show ?thesis using p by blast
qed




text \<open>C8. Unregistering a device whose files are open is safe for them: afterwards its number is unknown
  to \<open>open\<close>, a poll and a read, blocking or not, report \<open>-EIO\<close>, a write reports \<open>-EINVAL\<close> without calling
  the driver, and closing the file succeeds without calling the driver and frees the device exactly
  when this was its last reference.\<close>

theorem unplug_with_open_file:
  assumes "registered ip (l_dev l) s" "w_dev s (l_dev l) = Some d" "w_lst s f = Some l" "f \<noteq> NULL" "2 \<le> d_kref d"
    "\<forall>k. E k (Mm Copy_from_user) = 0"
  shows "\<exists>t. uio_unregister_device ip s = Some t
    \<and> (\<exists>u. uio_open E (d_minor d) t = Some (- ENODEV, NULL, u))
    \<and> (\<exists>u. uio_poll f t = Some (of_int (- EIO), u))
    \<and> (\<exists>u. uio_read E f 4 nb gs t = Read_done (- EIO) None u)
    \<and> (\<exists>u. uio_write E f 4 t = Some (- EINVAL, u) \<and> w_drv u = w_drv s)
    \<and> (\<exists>u. uio_release E f t = Some (0, u) \<and> w_drv u = w_drv s \<and> w_lst u = (w_lst s)(f := None)
          \<and> (w_dev u (l_dev l) = None \<longleftrightarrow> d_kref d = 2))"
proof -
  let ?p = "l_dev l" let ?d = "d\<lparr>d_info := NULL, d_kref := d_kref d - 1\<rparr>"
  have n: "?p \<noteq> NULL" using assms(1) by (auto simp: registered_def)
  obtain t where t: "uio_unregister_device ip s = Some t" "w_lst t = w_lst s" "w_drv t = w_drv s"
    "w_idr t = (w_idr s)(d_minor d := None)" "w_dev t = (w_dev s)(?p \<mapsto> ?d)"
    using unregister_cases [OF assms(1,2)] assms(5) by (auto split: if_splits)
  have l: "w_lst t f = Some l" "w_dev t ?p = Some ?d" using assms(3) t by simp_all
  have o: "\<exists>u. uio_open E (d_minor d) t = Some (- ENODEV, NULL, u)"
    using t(4) by (simp add: uio_open_def)
  have p: "\<exists>u. uio_poll f t = Some (of_int (- EIO), u)"
    using poll_spec [OF l] by (auto simp: no_irq_def)
  have "\<exists>u. read_loop E f nb gs (kvoid_w (Sync (Add_wait_queue ?p)) t) = Read_done (- EIO) None u"
    using l by (cases gs) (simp_all add: read_round_def no_irq_def Let_def)
  then have r: "\<exists>u. uio_read E f 4 nb gs t = Read_done (- EIO) None u"
    using l by (auto simp: uio_read_def sizeof_s32_def)
  have w: "\<exists>u. uio_write E f 4 t = Some (- EINVAL, u) \<and> w_drv u = w_drv s"
    using l assms(6) t(3) by (simp add: uio_write_def case_prod_beta Let_def sizeof_s32_def errno_simps)
  have "\<exists>u. uio_release E f t = Some (0, u) \<and> w_drv u = w_drv s \<and> w_lst u = (w_lst s)(f := None)
          \<and> (w_dev u ?p = None \<longleftrightarrow> d_kref d = 2)"
  proof -
    obtain r u k k' drv' where u: "uio_release E f t = Some (r, u)" "w_lst u = (w_lst t)(f := None)"
      "w_dev u = (w_dev t)(?p := if d_kref ?d = 1 then None else Some (?d\<lparr>d_kref := d_kref ?d - 1\<rparr>))"
      "cb_run (if d_info ?d = NULL then None else info_release (w_info t (d_info ?d))) E (w_drv t (d_info ?d)) k r drv' k'"
      "w_drv u = (if d_info ?d = NULL then w_drv t else (w_drv t)(d_info ?d := drv'))"
      using release_cases [OF l n assms(4), of E] by blast
    have "r = 0" "w_drv u = w_drv s" using u(4,5) t(3) by (simp_all add: cb_run_def)
    moreover have "w_dev u ?p = None \<longleftrightarrow> d_kref d = 2" using u(3) assms(5) by simp linarith
    ultimately show ?thesis using u(1,2) t(2) by simp
  qed
  with t(1) o p r w show ?thesis by (simp only: option.inject ex_simps simp_thms)
qed

section \<open>Examples\<close>

text \<open>A registered device with an interrupt whose one file has seen all its events.\<close>

definition demo_file_world :: "unit world" where
  "demo_file_world = (init_world ())\<lparr>
     w_info := (\<lambda>_. zero_info\<lparr>info_uio_dev := 128, info_irq := UIO_IRQ_CUSTOM\<rparr>),
     w_dev := [128 \<mapsto> zero_device\<lparr>d_info := 64, d_kref := 2, d_minor := 3, d_event := 41\<rparr>],
     w_idr := [3 \<mapsto> 128], w_lst := [256 \<mapsto> \<lparr>l_dev = 128, l_event_count = 41\<rparr>]\<rparr>"

lemma demo_file_facts:
  "w_lst demo_file_world 256 = Some \<lparr>l_dev = 128, l_event_count = 41\<rparr>"
  "w_dev demo_file_world 128 = Some (zero_device\<lparr>d_info := 64, d_kref := 2, d_minor := 3, d_event := 41\<rparr>)"
  "info_uio_dev (w_info demo_file_world 64) = 128"
  "\<not> no_irq (zero_device\<lparr>d_info := 64, d_kref := 2, d_minor := 3, d_event := 41\<rparr>) demo_file_world"
  "registered 64 128 demo_file_world"
  by (simp_all add: demo_file_world_def init_world_def no_irq_def zero_device_def registered_def
      wf_info_def zero_info_def attrs_live_def used_maps_def used_ports_def zero_mem_def zero_port_def uio_consts)

theorem poll_after_events_witness:
  "\<exists>t u. notify_times 2 64 demo_file_world = Some t \<and> uio_poll 256 t = Some (EPOLLIN OR EPOLLRDNORM, u)"
  using poll_after_events [of demo_file_world 64 "\<lparr>l_dev = 128, l_event_count = 41\<rparr>" 256 _ 2] demo_file_facts by simp

theorem poll_zero_iff_read_eagain_witness:
  "(\<exists>t. uio_poll 256 demo_file_world = Some (0, t))
    \<longleftrightarrow> (\<exists>t. uio_read calm_env 256 sizeof_s32 True [] demo_file_world = Read_done (- EAGAIN) None t)"
  by (rule poll_zero_iff_read_eagain [OF demo_file_facts(1)]) (simp add: demo_file_facts(2))


theorem unplug_with_open_file_witness:
  "\<exists>t u. uio_unregister_device 64 demo_file_world = Some t \<and> uio_release calm_env 256 t = Some (0, u)
    \<and> w_dev u 128 = None"
  using unplug_with_open_file [of 64 "\<lparr>l_dev = 128, l_event_count = 41\<rparr>" demo_file_world
      "zero_device\<lparr>d_info := 64, d_kref := 2, d_minor := 3, d_event := 41\<rparr>" 256 calm_env False "[]"]
    demo_file_facts by (auto simp: calm_env_def)

end
