(* ===== verification/Uio_Mmap.thy ===== *)
theory Uio_Mmap
  imports Uio_File
begin

text \<open>
  Mapping device memory into a process (\<open>uio.c\<close>): \<open>uio_mmap\<close> with its three kinds of memory and the
  page-fault handler of logical and virtual memory.  Addresses, sizes and page offsets are 64-bit
  words, so the arithmetic wraps as in C.

  The lemmas are about the bounds: what a successful \<open>mmap\<close> or a later page fault can reach.
\<close>

section \<open>Definitions\<close>

text \<open>\<open>vma->vm_pgoff\<close> selects the map.\<close>

definition uio_find_mem_index :: "vm_area_struct \<Rightarrow> 'd world \<Rightarrow> int" where
  "uio_find_mem_index vma s =
     (case w_dev s (vm_private_data vma) of
        None \<Rightarrow> -1
      | Some d \<Rightarrow>
          if unat (vm_pgoff vma) < MAX_UIO_MAPS then
            if mem_size (info_mem (w_info s (d_info d)) ! unat (vm_pgoff vma)) = 0 then -1
            else int (unat (vm_pgoff vma))
          else -1)"

definition VM_FAULT_SIGBUS :: int where "VM_FAULT_SIGBUS = 2"

text \<open>The page of the fault is \<open>vmf->page\<close>; the second component of the result.\<close>

definition uio_vma_fault :: "env \<Rightarrow> vm_area_struct \<Rightarrow> u64 \<Rightarrow> 'd world \<Rightarrow> (int \<times> ptr \<times> 'd world) option" where
  "uio_vma_fault E vma pgoff s =
     (let idev = vm_private_data vma in
      case w_dev s idev of
        None \<Rightarrow> None
      | Some d \<Rightarrow>
          let s1 = mutex_lock (Info_lock idev) s in
          if d_info d = NULL then Some (VM_FAULT_SIGBUS, NULL, mutex_unlock (Info_lock idev) s1)
          else
            let mi = uio_find_mem_index vma s1 in
            if mi < 0 then Some (VM_FAULT_SIGBUS, NULL, mutex_unlock (Info_lock idev) s1)
            else
              let mem = info_mem (w_info s1 (d_info d)) ! nat mi;
                  offset = push_bit PAGE_SHIFT (pgoff - of_int mi);
                  addr = mem_addr mem + offset;
                  (page, s2) =
                    (if mem_memtype mem = UIO_MEM_LOGICAL then kdo_w E (Mm (Virt_to_page addr)) s1
                     else kdo_w E (Mm (Vmalloc_to_page addr)) s1);
                  s3 = kvoid_w (Mm (Get_page page)) s2
              in Some (0, page, mutex_unlock (Info_lock idev) s3))"

definition uio_mmap_logical :: "vm_area_struct \<Rightarrow> int \<times> vm_area_struct" where
  "uio_mmap_logical vma = (0, vma\<lparr>vm_dontexpand := True, vm_dontdump := True, vm_ops := Some Uio_logical_vm_ops\<rparr>)"

definition uio_mmap_physical ::
    "env \<Rightarrow> vm_area_struct \<Rightarrow> 'd world \<Rightarrow> int \<times> vm_area_struct \<times> 'd world" where
  "uio_mmap_physical E vma s =
     (let mi = uio_find_mem_index vma s in
      if mi < 0 then (- EINVAL, vma, s)
      else
        let i = w_info s (case w_dev s (vm_private_data vma) of None \<Rightarrow> NULL | Some d \<Rightarrow> d_info d);
            mem = info_mem i ! nat mi in
        if mem_addr mem AND NOT PAGE_MASK \<noteq> 0 then (- ENODEV, vma, s)
        else if vm_end vma - vm_start vma > mem_size mem then (- EINVAL, vma, s)
        else
          let vma1 = vma\<lparr>vm_ops := Some Uio_physical_vm_ops\<rparr>;
              vma2 = (if mem_memtype mem = UIO_MEM_PHYS then vma1\<lparr>vm_noncached := True\<rparr> else vma1);
              (ret, s1) = kdo_w E (Mm (Remap_pfn_range (vm_start vma) (drop_bit PAGE_SHIFT (mem_addr mem))
                                     (vm_end vma - vm_start vma))) s
          in (ret, vma2, s1))"

definition uio_mmap_dma_coherent ::
    "env \<Rightarrow> vm_area_struct \<Rightarrow> 'd world \<Rightarrow> int \<times> vm_area_struct \<times> 'd world" where
  "uio_mmap_dma_coherent E vma s =
     (let mi = uio_find_mem_index vma s in
      if mi < 0 then (- EINVAL, vma, s)
      else
        let i = w_info s (case w_dev s (vm_private_data vma) of None \<Rightarrow> NULL | Some d \<Rightarrow> d_info d);
            mem = info_mem i ! nat mi in
        if mem_addr mem AND NOT PAGE_MASK \<noteq> 0 then (- ENODEV, vma, s)
        else if mem_dma_addr mem AND NOT PAGE_MASK \<noteq> 0 then (- ENODEV, vma, s)
        else if mem_dma_device mem = NULL then (- ENODEV, vma, s)
        else if vm_end vma - vm_start vma > mem_size mem then (- EINVAL, vma, s)
        else
          let s1 = kvoid_w (Dev (Dev_warn ''use of UIO_MEM_DMA_COHERENT is highly discouraged'')) s;
              vma1 = vma\<lparr>vm_pgoff := 0\<rparr>;
              (ret, s2) = kdo_w E (Mm (Dma_mmap_coherent (mem_addr mem) (mem_dma_addr mem)
                                     (vm_end vma1 - vm_start vma1))) s1
          in (ret, vma1\<lparr>vm_pgoff := of_int mi\<rparr>, s2))"

definition vma_pages :: "vm_area_struct \<Rightarrow> u64" where
  "vma_pages vma = drop_bit PAGE_SHIFT (vm_end vma - vm_start vma)"

definition actual_pages :: "uio_mem \<Rightarrow> u64" where
  "actual_pages mem = drop_bit PAGE_SHIFT ((mem_addr mem AND NOT PAGE_MASK) + mem_size mem + PAGE_SIZE - 1)"

text \<open>The part of \<open>uio_mmap\<close> between lock and unlock; a driver may replace the mapping by its own.\<close>

definition mmap_locked ::
    "env \<Rightarrow> vm_area_struct \<Rightarrow> ptr \<Rightarrow> 'd world \<Rightarrow> int \<times> vm_area_struct \<times> 'd world" where
  "mmap_locked E vma ip s =
     (if ip = NULL then (- EINVAL, vma, s)
      else
        let mi = uio_find_mem_index vma s in
        if mi < 0 then (- EINVAL, vma, s)
        else
          let mem = info_mem (w_info s ip) ! nat mi in
          if vma_pages vma > actual_pages mem then (- EINVAL, vma, s)
          else (case info_mmap (w_info s ip) of
                  Some f \<Rightarrow> let (ret, s1) = run_cb E (f vma) ip s in (ret, vma, s1)
                | None \<Rightarrow>
                    if mem_memtype mem = UIO_MEM_IOVA \<or> mem_memtype mem = UIO_MEM_PHYS
                    then uio_mmap_physical E vma s
                    else if mem_memtype mem = UIO_MEM_LOGICAL \<or> mem_memtype mem = UIO_MEM_VIRTUAL
                    then (let (ret, vma1) = uio_mmap_logical vma in (ret, vma1, s))
                    else if mem_memtype mem = UIO_MEM_DMA_COHERENT then uio_mmap_dma_coherent E vma s
                    else (- EINVAL, vma, s)))"

definition uio_mmap ::
    "env \<Rightarrow> ptr \<Rightarrow> vm_area_struct \<Rightarrow> 'd world \<Rightarrow> (int \<times> vm_area_struct \<times> 'd world) option" where
  "uio_mmap E filep vma s =
     (case w_lst s filep of
        None \<Rightarrow> None
      | Some listener \<Rightarrow>
          let idev = l_dev listener in
          if vm_end vma < vm_start vma then Some (- EINVAL, vma, s)
          else
            let vma1 = vma\<lparr>vm_private_data := idev\<rparr> in
            (case w_dev s idev of
               None \<Rightarrow> None
             | Some d \<Rightarrow>
                 let s1 = mutex_lock (Info_lock idev) s;
                     (ret, vma2, s2) = mmap_locked E vma1 (d_info d) s1
                 in Some (ret, vma2, mutex_unlock (Info_lock idev) s2)))"


section \<open>Page arithmetic\<close>

lemma unat_add_le: "unat (a + b :: u64) \<le> unat a + unat b"
  by (simp add: unat_word_ariths(1))

lemma actual_pages_bound:
  "4096 * unat (actual_pages m) \<le> unat (mem_addr m) mod 4096 + unat (mem_size m) + 4095"
proof -
  let ?o = "mem_addr m AND NOT PAGE_MASK"
  let ?x = "?o + mem_size m + PAGE_SIZE - 1"
  have x: "?x = (?o + mem_size m) + 4095" by (simp add: PAGE_SIZE_def)
  have "unat ?x \<le> unat ?o + unat (mem_size m) + 4095"
    unfolding x using unat_add_le [of "?o + mem_size m" 4095] unat_add_le [of ?o "mem_size m"] by simp
  then have "unat ?x \<le> unat (mem_addr m) mod 4096 + unat (mem_size m) + 4095"
    by (simp only: page_offset_mod)
  moreover have "4096 * unat (actual_pages m) \<le> unat ?x"
    unfolding actual_pages_def unat_shift_page by simp
  ultimately show ?thesis by linarith
qed

text \<open>The page of the \<open>k\<close>-th page of a mapping lies among the pages the region touches, when \<open>k\<close> is below
  the number of pages that \<open>uio_mmap\<close> allows and the region does not wrap around the address space.\<close>

lemma fault_page_in_region:
  assumes "k < unat (actual_pages m)" "unat (mem_addr m) + unat (mem_size m) + 4096 \<le> 2 ^ 64"
  shows "unat (mem_addr m + push_bit PAGE_SHIFT (of_nat k)) = unat (mem_addr m) + 4096 * k"
    and "unat (mem_addr m) div 4096 * 4096 + 4096 * k < unat (mem_addr m) + unat (mem_size m)"
proof -
  have b: "4096 * k + 4096 \<le> unat (mem_addr m) mod 4096 + unat (mem_size m) + 4095"
    using actual_pages_bound [of m] assms(1) by linarith
  then show "unat (mem_addr m) div 4096 * 4096 + 4096 * k < unat (mem_addr m) + unat (mem_size m)"
    using div_mult_mod_eq [of "unat (mem_addr m)" 4096] by linarith
  have lt: "4096 * k + unat (mem_addr m) < 2 ^ 64"
    using b assms(2) mod_less_eq_dividend [of "unat (mem_addr m)" 4096] by linarith
  have "push_bit PAGE_SHIFT (of_nat k :: u64) = of_nat (4096 * k)"
    by (simp add: PAGE_SHIFT_def push_bit_eq_mult)
  then have "unat (push_bit PAGE_SHIFT (of_nat k :: u64)) = 4096 * k"
    using lt by (simp only: unat_of_nat) simp
  with lt show "unat (mem_addr m + push_bit PAGE_SHIFT (of_nat k)) = unat (mem_addr m) + 4096 * k"
    by (simp add: unat_word_ariths(1))
qed


section \<open>What a mapping reaches\<close>

definition sel_mem :: "'d world \<Rightarrow> ptr \<Rightarrow> u64 \<Rightarrow> uio_mem" where
  "sel_mem s ip pgoff = info_mem (w_info s ip) ! unat pgoff"

text \<open>A call that maps memory stays inside a region: a physical mapping starts at the region's address
  and is not longer than the region, and so is a coherent DMA mapping.\<close>

fun maps_inside :: "uio_mem \<Rightarrow> kcall \<Rightarrow> bool" where
  "maps_inside m (Mm (Remap_pfn_range start pfn n)) = (4096 * unat pfn = unat (mem_addr m) \<and> unat n \<le> unat (mem_size m))"
| "maps_inside m (Mm (Dma_mmap_coherent addr dma n)) =
     (addr = mem_addr m \<and> dma = mem_dma_addr m \<and> 4096 dvd unat addr \<and> unat n \<le> unat (mem_size m))"
| "maps_inside m c = True"

lemma find_mem_index_cases:
  assumes "w_dev s (vm_private_data vma) = Some d"
  shows "uio_find_mem_index vma s =
    (if unat (vm_pgoff vma) < 5 \<and> mem_size (sel_mem s (d_info d) (vm_pgoff vma)) \<noteq> 0 then int (unat (vm_pgoff vma)) else -1)"
  using assms by (simp add: uio_find_mem_index_def sel_mem_def MAX_UIO_MAPS_def)

lemma pfn_aligned: "a AND NOT PAGE_MASK = 0 \<Longrightarrow> 4096 * unat (drop_bit PAGE_SHIFT (a :: u64)) = unat a"
  by (simp only: page_aligned_iff unat_shift_page dvd_mult_div_cancel)

lemma mmap_locked_calls:
  assumes "w_dev s (vm_private_data vma) = Some d" "info_mmap (w_info s (d_info d)) = None"
    "mmap_locked E vma (d_info d) s = (ret, vma', t)"
  shows "\<exists>new. w_log t = new @ w_log s \<and> (\<forall>e\<in>set new. maps_inside (sel_mem s (d_info d) (vm_pgoff vma)) (fst e))"
    and "vm_pgoff vma' = vm_pgoff vma"
proof -
  let ?m = "sel_mem s (d_info d) (vm_pgoff vma)"
  have sel: "info_mem (w_info s (d_info d)) ! unat (vm_pgoff vma) = ?m" by (simp add: sel_mem_def)
  note defs = mmap_locked_def uio_mmap_physical_def uio_mmap_dma_coherent_def uio_mmap_logical_def
  have "(w_log t = w_log s \<or> (\<exists>c r. w_log t = [(c, r)] @ w_log s \<and> maps_inside ?m c)
      \<or> (\<exists>c r c' r'. w_log t = [(c, r), (c', r')] @ w_log s \<and> maps_inside ?m c \<and> maps_inside ?m c'))
    \<and> vm_pgoff vma' = vm_pgoff vma"
    using assms
    by (auto simp: defs find_mem_index_cases Let_def case_prod_beta sel pfn_aligned page_aligned_iff
        not_less word_le_nat_alt split: if_splits)
  then show "\<exists>new. w_log t = new @ w_log s \<and> (\<forall>e\<in>set new. maps_inside ?m (fst e))" and "vm_pgoff vma' = vm_pgoff vma"
    by fastforce+
qed


lemma mmap_locked_bal:
  assumes "w_dev s (vm_private_data vma) = Some d" "info_mmap (w_info s (d_info d)) = None"
    "mmap_locked E vma (d_info d) s = (ret, vma', t)"
  shows "bal (w_log t) = bal (w_log s)"
  using assms
  by (auto simp: mmap_locked_def uio_mmap_physical_def uio_mmap_dma_coherent_def uio_mmap_logical_def Let_def
      case_prod_beta effect_simps fun_eq_iff split: if_splits)

section \<open>Properties\<close>

text \<open>C7. Whatever range and page offset a process asks for, a mapping of a device whose driver has no
  \<open>mmap\<close> of its own never leaves the selected region: every physical or coherent mapping that
  \<open>uio_mmap\<close> makes starts at the region's page-aligned address and is not longer than the region, the
  page offset of the area is kept, and the device's lock is given back.\<close>

theorem mmap_stays_inside_region:
  assumes "w_lst s f = Some l" "w_dev s (l_dev l) = Some d" "info_mmap (w_info s (d_info d)) = None"
    "uio_mmap E f vma s = Some (ret, vma', t)"
  shows "(\<exists>new. w_log t = new @ w_log s \<and> (\<forall>e\<in>set new. maps_inside (sel_mem s (d_info d) (vm_pgoff vma)) (fst e)))
    \<and> vm_pgoff vma' = vm_pgoff vma \<and> bal (w_log t) (Lock k) = bal (w_log s) (Lock k)"
proof (cases "vm_end vma < vm_start vma")
  case True
  then show ?thesis using assms by (auto simp: uio_mmap_def)
next
  case False
  let ?p = "l_dev l" let ?v = "vma\<lparr>vm_private_data := ?p\<rparr>" let ?s1 = "mutex_lock (Info_lock ?p) s"
  obtain u where u: "mmap_locked E ?v (d_info d) ?s1 = (ret, vma', u)" "t = mutex_unlock (Info_lock ?p) u"
    using assms False by (auto simp: uio_mmap_def Let_def split: prod.splits)
  have d: "w_dev ?s1 (vm_private_data ?v) = Some d" "info_mmap (w_info ?s1 (d_info d)) = None"
    using assms by simp_all
  have m: "sel_mem ?s1 (d_info d) (vm_pgoff ?v) = sel_mem s (d_info d) (vm_pgoff vma)" by (simp add: sel_mem_def)
  obtain new where n: "w_log u = new @ w_log ?s1" "\<forall>e\<in>set new. maps_inside (sel_mem s (d_info d) (vm_pgoff vma)) (fst e)"
    using mmap_locked_calls(1) [OF d u(1)] unfolding m by blast
  have "w_log t = ((Sync (Mutex_unlock (Info_lock ?p)), 0) # new @ [(Sync (Mutex_lock (Info_lock ?p)), 0)]) @ w_log s"
    using n(1) u(2) by (simp add: mutex_lock_def mutex_unlock_def)
  moreover have "vm_pgoff vma' = vm_pgoff vma" using mmap_locked_calls(2) [OF d u(1)] by simp
  moreover have "bal (w_log t) (Lock k) = bal (w_log s) (Lock k)"
    using mmap_locked_bal [OF d u(1)] u(2) by (simp add: effect_simps)
  moreover have "\<forall>e\<in>set ((Sync (Mutex_unlock (Info_lock ?p)), 0) # new @ [(Sync (Mutex_lock (Info_lock ?p)), 0)]).
      maps_inside (sel_mem s (d_info d) (vm_pgoff vma)) (fst e)" using n(2) by simp
  ultimately show ?thesis by blast
qed

text \<open>C17. Page faults stay in the region: after a successful \<open>mmap\<close> of logical or virtual memory, a
  fault on any page of the area is served with a reference to the page at an address that lies at the
  same offset from the region's address, and that page contains memory of the region; the fault does
  not depend on the region being page aligned.\<close>

theorem fault_after_mmap_in_region:
  assumes "w_lst s f = Some l" "w_dev s (l_dev l) = Some d" "info_mmap (w_info s (d_info d)) = None"
    "uio_mmap E f vma s = Some (0, vma', t)"
    "mem_memtype (sel_mem s (d_info d) (vm_pgoff vma)) \<in> {UIO_MEM_LOGICAL, UIO_MEM_VIRTUAL}"
    "k < unat (vma_pages vma)"
    "unat (mem_addr (sel_mem s (d_info d) (vm_pgoff vma))) + unat (mem_size (sel_mem s (d_info d) (vm_pgoff vma))) + 4096 \<le> 2 ^ 64"
  shows "\<exists>page u a. uio_vma_fault E vma' (vm_pgoff vma + of_nat k) t = Some (0, page, u)
    \<and> (\<exists>c\<in>{Virt_to_page a, Vmalloc_to_page a}. (Mm c, page) \<in> set (w_log u))
    \<and> (Mm (Get_page page), 0) \<in> set (w_log u)
    \<and> unat a = unat (mem_addr (sel_mem s (d_info d) (vm_pgoff vma))) + 4096 * k
    \<and> unat a div 4096 * 4096 < unat (mem_addr (sel_mem s (d_info d) (vm_pgoff vma))) + unat (mem_size (sel_mem s (d_info d) (vm_pgoff vma)))
    \<and> bal (w_log u) (Lock j) = bal (w_log t) (Lock j)"
proof -
  let ?p = "l_dev l" let ?s1 = "mutex_lock (Info_lock ?p) s" let ?m = "sel_mem s (d_info d) (vm_pgoff vma)"
  let ?v = "vma\<lparr>vm_private_data := ?p\<rparr>"
  have ok: "\<not> vm_end vma < vm_start vma" using assms(1,4) by (auto simp: uio_mmap_def EINVAL_def)
  obtain u where u: "mmap_locked E ?v (d_info d) ?s1 = (0, vma', u)" "t = mutex_unlock (Info_lock ?p) u"
    using assms(1,2,4) ok by (auto simp: uio_mmap_def Let_def split: prod.splits)
  have sm: "info_mem (w_info s (d_info d)) ! unat (vm_pgoff vma) = ?m" "sel_mem ?s1 (d_info d) (vm_pgoff vma) = ?m"
    by (simp_all add: sel_mem_def)
  have g: "d_info d \<noteq> NULL" "unat (vm_pgoff vma) < 5" "mem_size ?m \<noteq> 0" "vma_pages vma \<le> actual_pages ?m"
    "vm_private_data vma' = ?p" "vm_pgoff vma' = vm_pgoff vma" "u = ?s1"
    using u(1) assms(2,3,5)
    by (auto simp: mmap_locked_def Let_def find_mem_index_cases sm vma_pages_def EINVAL_def uio_consts
        uio_mmap_logical_def split: if_splits)
  have t: "w_dev t = w_dev s" "w_info t = w_info s" using u(2) g(7) by simp_all
  have st: "sel_mem (mutex_lock (Info_lock ?p) t) (d_info d) (vm_pgoff vma) = ?m" using t by (simp add: sel_mem_def)
  have k: "k < unat (actual_pages ?m)" using assms(6) g(4) by (simp add: word_le_nat_alt)
  let ?a = "mem_addr ?m + push_bit PAGE_SHIFT (of_nat k)"
  note a = fault_page_in_region [OF k assms(7)]
  have "unat ?a div 4096 * 4096 < unat (mem_addr ?m) + unat (mem_size ?m)"
    using a by simp
  moreover have "\<exists>page u. uio_vma_fault E vma' (vm_pgoff vma + of_nat k) t = Some (0, page, u)
    \<and> (\<exists>c\<in>{Virt_to_page ?a, Vmalloc_to_page ?a}. (Mm c, page) \<in> set (w_log u))
    \<and> (Mm (Get_page page), 0) \<in> set (w_log u) \<and> bal (w_log u) (Lock j) = bal (w_log t) (Lock j)"
    using g t sm assms(2)
    by (simp add: uio_vma_fault_def Let_def find_mem_index_cases st case_prod_beta effect_simps)
      (simp add: mutex_unlock_def mutex_lock_def)
  ultimately show ?thesis using a(1) by metis
qed

section \<open>Examples\<close>

text \<open>An open file of a device with a physical region of two pages and a virtual region that starts in
  the middle of a page.\<close>

definition demo_mmap_world :: "unit world" where
  "demo_mmap_world = demo_file_world\<lparr>w_info := (\<lambda>_. zero_info\<lparr>info_mem :=
     (replicate 5 zero_mem)[0 := zero_mem\<lparr>mem_addr := 0x10000, mem_size := 8192, mem_memtype := UIO_MEM_PHYS\<rparr>,
        1 := zero_mem\<lparr>mem_addr := 0x20800, mem_size := 4096, mem_memtype := UIO_MEM_VIRTUAL\<rparr>]\<rparr>)\<rparr>"

definition demo_vma :: "u64 \<Rightarrow> vm_area_struct" where
  "demo_vma n = \<lparr>vm_start = 0x700000, vm_end = 0x702000, vm_pgoff = n, vm_private_data = 0, vm_ops = None,
     vm_dontexpand = False, vm_dontdump = False, vm_noncached = False\<rparr>"

lemma demo_mmap_facts:
  "w_lst demo_mmap_world 256 = Some \<lparr>l_dev = 128, l_event_count = 41\<rparr>"
  "w_dev demo_mmap_world 128 = Some (zero_device\<lparr>d_info := 64, d_kref := 2, d_minor := 3, d_event := 41\<rparr>)"
  "info_mmap (w_info demo_mmap_world 64) = None"
  "sel_mem demo_mmap_world 64 0 = zero_mem\<lparr>mem_addr := 0x10000, mem_size := 8192, mem_memtype := UIO_MEM_PHYS\<rparr>"
  "sel_mem demo_mmap_world 64 1 = zero_mem\<lparr>mem_addr := 0x20800, mem_size := 4096, mem_memtype := UIO_MEM_VIRTUAL\<rparr>"
  by (simp_all add: demo_mmap_world_def demo_file_world_def init_world_def zero_info_def sel_mem_def)

lemma demo_mmap_runs:
  "map_option fst (uio_mmap calm_env 256 (demo_vma 0) demo_mmap_world) = Some 0"
  "map_option fst (uio_mmap calm_env 256 (demo_vma 1) demo_mmap_world) = Some 0"
  by code_simp+

theorem mmap_stays_inside_region_witness:
  "\<exists>vma' t new. uio_mmap calm_env 256 (demo_vma 0) demo_mmap_world = Some (0, vma', t)
    \<and> w_log t = new @ w_log demo_mmap_world
    \<and> (\<forall>e\<in>set new. maps_inside (zero_mem\<lparr>mem_addr := 0x10000, mem_size := 8192, mem_memtype := UIO_MEM_PHYS\<rparr>) (fst e))"
proof -
  obtain v t where r: "uio_mmap calm_env 256 (demo_vma 0) demo_mmap_world = Some (0, v, t)"
    using demo_mmap_runs(1) by auto
  have "vm_pgoff (demo_vma 0) = 0" by (simp add: demo_vma_def)
  then show ?thesis
    using mmap_stays_inside_region [OF demo_mmap_facts(1) _ _ r] demo_mmap_facts(2-4) r by fastforce
qed

theorem fault_after_mmap_in_region_witness:
  "\<exists>vma' t page u. uio_mmap calm_env 256 (demo_vma 1) demo_mmap_world = Some (0, vma', t)
    \<and> uio_vma_fault calm_env vma' (1 + of_nat 1) t = Some (0, page, u) \<and> (Mm (Get_page page), 0) \<in> set (w_log u)"
proof -
  obtain v t where r: "uio_mmap calm_env 256 (demo_vma 1) demo_mmap_world = Some (0, v, t)"
    using demo_mmap_runs(2) by auto
  have v: "vm_pgoff (demo_vma 1) = 1" "1 < unat (vma_pages (demo_vma 1))"
    by (simp_all add: demo_vma_def vma_pages_def PAGE_SHIFT_def drop_bit_eq_div)
  show ?thesis
    using fault_after_mmap_in_region [OF demo_mmap_facts(1) _ _ r _ v(2), unfolded v(1)] demo_mmap_facts(2,3,5) r
    by fastforce
qed

end
