(* ===== verification/Uio_Maps.thy ===== *)
theory Uio_Maps
  imports Uio_Device
begin

text \<open>
  The kobjects behind the \<open>mapN\<close> directories: after a registration each map in use has a kobject of its own
  that leads back to it, so reading an attribute of \<open>mapN\<close> shows the values of map \<open>N\<close> and of no other.
\<close>

section \<open>Maps and their kobjects\<close>

definition maps_linked :: "ptr \<Rightarrow> 'd world \<Rightarrow> bool" where
  "maps_linked ip s \<longleftrightarrow>
     (\<forall>i<used_maps (w_info s ip). w_map s (mem_map (info_mem (w_info s ip) ! i)) = Some \<lparr>umap_mem = (ip, i)\<rparr>)"

text \<open>The first \<open>k\<close> maps have their kobjects, in memory that is allocated.\<close>

definition linked :: "ptr \<Rightarrow> nat \<Rightarrow> 'd world \<Rightarrow> bool" where
  "linked ip k s \<longleftrightarrow>
     (\<forall>i<k. w_map s (mem_map (info_mem (w_info s ip) ! i)) = Some \<lparr>umap_mem = (ip, i)\<rparr>
        \<and> 1 \<le> bal (w_log s) (Mem K_uio_map (mem_map (info_mem (w_info s ip) ! i))))"

lemma used_maps_le: "k < length (info_mem i) \<Longrightarrow> mem_size (info_mem i ! k) = 0 \<Longrightarrow> used_maps i \<le> k"
proof (rule ccontr)
  assume k: "mem_size (info_mem i ! k) = 0" "\<not> used_maps i \<le> k"
  let ?t = "takeWhile (\<lambda>m. mem_size m \<noteq> 0) (info_mem i)"
  have "k < length ?t" using k(2) by (simp add: used_maps_def)
  then have "?t ! k \<in> set ?t" "?t ! k = info_mem i ! k" by (rule nth_mem, rule takeWhile_nth)
  then show False using k(1) by (metis set_takeWhileD)
qed

lemma linked_maps: "linked ip k s \<Longrightarrow> used_maps (w_info s ip) \<le> k \<Longrightarrow> maps_linked ip s"
  by (auto simp: linked_def maps_linked_def)

section \<open>The loops link the maps\<close>

lemma map_kobj1_links:
  assumes "kernel_ok E" "mi < length (info_mem (w_info s ip))" "linked ip mi s" "map_kobj1 E idev ip mi s = (None, t)"
  shows "linked ip (Suc mi) t \<and> map mem_size (info_mem (w_info t ip)) = map mem_size (info_mem (w_info s ip))"
proof -
  define p where "p = E (w_log s) (Obj (Kzalloc K_uio_map))"
  have p: "p \<noteq> NULL" using assms(4) by (auto simp: map_kobj1_def p_def case_prod_beta Let_def)
  then have new: "bal (w_log s) (Mem K_uio_map p) = 0"
    using kernel_ok_mem [OF assms(1), of "w_log s" K_uio_map p K_uio_map] by (simp add: p_def)
  have t: "w_map t = (w_map s)(p \<mapsto> \<lparr>umap_mem = (ip, mi)\<rparr>)"
    "info_mem (w_info t ip) = (info_mem (w_info s ip))[mi := (info_mem (w_info s ip) ! mi)\<lparr>mem_map := p\<rparr>]"
    "\<And>q. bal (w_log t) (Mem K_uio_map q) = bal (w_log s) (Mem K_uio_map q) + one (Mem K_uio_map p) (Mem K_uio_map q)"
    using assms(4) p
    by (auto simp: map_kobj1_def p_def case_prod_beta Let_def effect_simps set_mem_def upd_info_def split: if_splits)
  have "map mem_size (info_mem (w_info t ip)) = map mem_size (info_mem (w_info s ip))"
    unfolding t(2) using assms(2) by (intro nth_equalityI) (auto simp: nth_list_update)
  moreover have "linked ip (Suc mi) t"
    unfolding linked_def
  proof (intro allI impI)
    fix i assume i: "i < Suc mi"
    let ?q = "mem_map (info_mem (w_info t ip) ! i)"
    show "w_map t ?q = Some \<lparr>umap_mem = (ip, i)\<rparr> \<and> 1 \<le> bal (w_log t) (Mem K_uio_map ?q)"
    proof (cases "i = mi")
      case True
      then show ?thesis using t new assms(2) by simp
    next
      case False
      then have "?q = mem_map (info_mem (w_info s ip) ! i)" using t(2) by simp
      then have "w_map s ?q = Some \<lparr>umap_mem = (ip, i)\<rparr>" "1 \<le> bal (w_log s) (Mem K_uio_map ?q)"
        using assms(3) i False by (simp_all add: linked_def)
      then show ?thesis using t(1,3) new by auto
    qed
  qed
  ultimately show ?thesis by blast
qed

lemma map_dir1_links: "linked ip k (map_dir1 E idev f s) = linked ip k s" "w_info (map_dir1 E idev f s) = w_info s"
  by (simp_all add: map_dir1_def linked_def case_prod_beta effect_simps) (simp add: upd_dev_def kdo_w_def)

lemma add_maps_links:
  assumes "kernel_ok E" "linked ip mi s" "mi + n = length (info_mem (w_info s ip))"
    "add_maps E idev ip n mi found s = (Loop_done k, t)"
  shows "linked ip k t \<and> used_maps (w_info t ip) \<le> k"
  using assms(2-4)
proof (induction n arbitrary: mi found s)
  case 0
  then have "k = length (info_mem (w_info t ip))" "t = s" "k = mi" by auto
  moreover have "used_maps (w_info t ip) \<le> length (info_mem (w_info t ip))" by (simp add: used_maps_def length_takeWhile_le)
  ultimately show ?case using "0.prems"(1) by simp
next
  case (Suc n)
  show ?case
  proof (cases "mem_size (info_mem (w_info s ip) ! mi) = 0")
    case True
    then show ?thesis using Suc.prems used_maps_le [of mi "w_info s ip"] by simp
  next
    case False
    then obtain s1 where s1: "add_map1 E idev ip mi found s = (None, s1)" "add_maps E idev ip n (Suc mi) True s1 = (Loop_done k, t)"
      using Suc.prems(3) by (auto simp: add_map1_def map_kobj1_def Let_def case_prod_beta split: if_splits option.splits prod.splits)
    let ?s = "map_dir1 E idev found s"
    have "map_kobj1 E idev ip mi ?s = (None, s1)" using s1(1) by (auto simp: add_map1_def Let_def split: if_splits)
    from map_kobj1_links [OF assms(1) _ _ this] Suc.prems(1,2)
    have l: "linked ip (Suc mi) s1" "map mem_size (info_mem (w_info s1 ip)) = map mem_size (info_mem (w_info s ip))"
      by (simp_all add: map_dir1_links)
    then have "Suc mi + n = length (info_mem (w_info s1 ip))" using Suc.prems(2) by (metis add_Suc add_Suc_right length_map)
    from Suc.IH [OF l(1) this s1(2)] show ?thesis .
  qed
qed

text \<open>The loop over the port regions leaves the maps alone.\<close>

definition same_maps :: "ptr \<Rightarrow> 'd world \<Rightarrow> 'd world \<Rightarrow> bool" where
  "same_maps ip s t \<longleftrightarrow> w_map t = w_map s \<and> info_mem (w_info t ip) = info_mem (w_info s ip)
     \<and> (\<forall>p. bal (w_log t) (Mem K_uio_map p) = bal (w_log s) (Mem K_uio_map p))"

lemma same_maps_linked: "same_maps ip s t \<Longrightarrow> linked ip k s \<Longrightarrow> linked ip k t"
  by (simp add: same_maps_def linked_def)

lemma same_maps_used: "same_maps ip s t \<Longrightarrow> used_maps (w_info t ip) = used_maps (w_info s ip)"
  by (simp add: same_maps_def used_maps_def)

lemma w_map_sel [simp]: "w_map (upd_dev p f s) = w_map s" "w_map (upd_info q g s) = w_map s" "w_map (set_port ip i r s) = w_map s"
  by (simp_all add: upd_dev_def upd_info_def set_port_def)

lemma add_port1_maps: "same_maps ip s (snd (add_port1 E idev ip pi found s))"
  by (simp add: same_maps_def add_port1_def portio_dir1_def portio_kobj1_def case_prod_beta Let_def effect_simps)

lemma same_maps_trans: "same_maps ip s t \<Longrightarrow> same_maps ip t u \<Longrightarrow> same_maps ip s u"
  by (simp add: same_maps_def)

lemma add_ports_maps: "same_maps ip s (snd (add_ports E idev ip n pi found s))"
proof (induction n arbitrary: pi found s)
  case (Suc n)
  have a: "same_maps ip s (snd (add_port1 E idev ip pi found s))" by (rule add_port1_maps)
  then show ?case
    using same_maps_trans [OF a Suc] a
    by (cases "add_port1 E idev ip pi found s") (auto simp: same_maps_def split: option.splits)
qed (simp add: same_maps_def)

text \<open>A loop that is left early is left with an error.\<close>

lemma add_exits:
  "add_maps E idev ip n k found s = (e, t) \<Longrightarrow> (\<exists>j. e = Loop_done j) \<or> exit_err e"
  "add_ports E idev ip n k found s = (e, t) \<Longrightarrow> (\<exists>j. e = Loop_done j) \<or> exit_err e"
proof -
  have m: "add_map1 E idev ip k found s = (Some e, t) \<Longrightarrow> exit_err e"
    and p: "add_port1 E idev ip k found s = (Some e, t) \<Longrightarrow> exit_err e" for k found e and s t :: "'a world"
    by (auto simp: add_map1_def map_kobj1_def add_port1_def portio_kobj1_def Let_def case_prod_beta ENOMEM_def split: if_splits)
  show "add_maps E idev ip n k found s = (e, t) \<Longrightarrow> (\<exists>j. e = Loop_done j) \<or> exit_err e"
  proof (induction n arbitrary: k found s)
    case (Suc n)
    then show ?case using m [of k found s] by (fastforce split: if_splits prod.splits option.splits)
  qed auto
  show "add_ports E idev ip n k found s = (e, t) \<Longrightarrow> (\<exists>j. e = Loop_done j) \<or> exit_err e"
  proof (induction n arbitrary: k found s)
    case (Suc n)
    then show ?case using p [of k found s] by (fastforce split: if_splits prod.splits option.splits)
  qed auto
qed

lemma add_attributes_links:
  assumes "kernel_ok E" "w_dev s idev = Some d" "wf_info (w_info s (d_info d))" "uio_dev_add_attributes E idev s = Some (0, t)"
  shows "maps_linked (d_info d) t"
proof -
  let ?ip = "d_info d"
  obtain e s1 where m: "add_maps E idev ?ip MAX_UIO_MAPS 0 False s = (e, s1)" by fastforce
  show ?thesis
  proof (cases e)
    case (Loop_done k)
    have l: "linked ?ip k s1 \<and> used_maps (w_info s1 ?ip) \<le> k"
      using add_maps_links [OF assms(1), of ?ip 0 s MAX_UIO_MAPS idev False k s1] m Loop_done assms(3)
      by (simp add: linked_def wf_info_def)
    obtain f s2 where p: "add_ports E idev ?ip MAX_UIO_PORT_REGIONS 0 False s1 = (f, s2)" by fastforce
    have sm: "same_maps ?ip s1 s2" using add_ports_maps [of ?ip s1 E idev MAX_UIO_PORT_REGIONS 0 False] p by simp
    show ?thesis
    proof (cases f)
      case (Loop_done j)
      then have "t = s2" using assms(2,4) m p \<open>e = Loop_done k\<close> by (simp add: uio_dev_add_attributes_def)
      then show ?thesis using l linked_maps [OF same_maps_linked [OF sm], of k] same_maps_used [OF sm] by simp
    qed (use assms(2,4) m p add_exits(2) [OF p] \<open>e = Loop_done k\<close> in
        \<open>auto simp: uio_dev_add_attributes_def err_portio_def err_map_def Let_def\<close>)
  qed (use assms(2,4) m add_exits(1) [OF m] in \<open>auto simp: uio_dev_add_attributes_def err_map_def Let_def\<close>)
qed

section \<open>Registration links the maps\<close>

lemma err_paths:
  "err_device_create idev ret s = Some (r, t) \<Longrightarrow> r = ret"
  "err_uio_dev_add_attributes idev ret s = Some (r, t) \<Longrightarrow> r = ret"
  "err_request_irq idev ret s = Some (r, t) \<Longrightarrow> r = ret"
  by (auto simp: err_device_create_def err_uio_dev_add_attributes_def err_request_irq_def Let_def split: option.splits)

lemma register_device_links:
  assumes "kernel_ok E" "w_dev s idev = Some d" "d_info d = ip" "wf_info (w_info s ip)" "register_device E idev parent ip s = Some (0, t)"
  shows "maps_linked ip t"
proof -
  let ?s1 = "upd_dev idev (\<lambda>d. d\<lparr>d_kref := 1, d_parent := parent\<rparr>) (kvoid_w (Dev (Device_initialize idev)) s)"
  let ?s3 = "snd (kdo_w E (Dev (Device_add idev)) (snd (kdo_w E (Dev (Dev_set_name idev ''uio%d'' (d_minor d))) ?s1)))"
  obtain s4 where s4: "uio_dev_add_attributes E idev ?s3 = Some (0, s4)" "register_irq E idev ip (set_uio_dev ip idev s4) = Some (0, t)"
    using assms(2,5)
    by (auto simp: register_device_def Let_def case_prod_beta dest: err_paths split: if_splits option.splits)
  have d3: "w_dev ?s3 idev = Some (d\<lparr>d_kref := 1, d_parent := parent\<rparr>)" using assms(2) by simp
  have "maps_linked ip s4" using add_attributes_links [OF assms(1) d3 _ s4(1)] assms(3,4) by simp
  then have "maps_linked ip (set_uio_dev ip idev s4)" by (simp add: maps_linked_def set_uio_dev_def used_maps_def)
  then show ?thesis
    using s4(2) by (auto simp: register_irq_def Let_def case_prod_beta maps_linked_def dest: err_paths split: if_splits)
qed

lemma register_links:
  assumes "kernel_ok E" "wf_info (w_info s ip)" "uio_register_device E owner parent ip s = Some (0, t)"
  shows "maps_linked ip t"
proof -
  let ?s1 = "set_uio_dev ip NULL s" let ?p = "E (w_log s) (Obj (Kzalloc K_uio_device))"
  let ?s2 = "snd (kdo_w E (Obj (Kzalloc K_uio_device)) ?s1)"
  let ?s3 = "?s2\<lparr>w_dev := (w_dev ?s2)(?p \<mapsto> zero_device\<lparr>d_owner := owner, d_info := ip, d_event := 0\<rparr>)\<rparr>"
  obtain s4 where s4: "uio_get_minor E ?p ?s3 = (0, s4)" "register_device E ?p parent ip s4 = Some (0, t)"
    using assms(3)
    by (auto simp: uio_register_device_def Let_def case_prod_beta set_uio_dev_def errno_simps prod_eq_iff split: if_splits)
  have w: "w_info s4 = w_info ?s3" "\<exists>d. w_dev s4 ?p = Some d \<and> d_info d = ip"
    using s4(1) by (auto simp: uio_get_minor_def Let_def case_prod_beta mutex_lock_def mutex_unlock_def split: if_splits)
  then show ?thesis
    using register_device_links [OF assms(1) _ _ _ s4(2)] assms(2) by (auto simp: set_uio_dev_def wf_info_def)
qed

section \<open>A kernel that grants every request\<close>

text \<open>Under a kernel that has memory, names and numbers for all, a registration with valid arguments succeeds.\<close>

definition generous :: "env \<Rightarrow> bool" where
  "generous E \<longleftrightarrow>
     (\<forall>l t. E l (Obj (Kzalloc t)) \<noteq> NULL) \<and> (\<forall>l n. E l (Obj (Kobject_create_and_add n)) \<noteq> NULL)
     \<and> (\<forall>l p q n k. E l (Obj (Kobject_add p q n k)) = 0) \<and> (\<forall>l p. E l (Obj (Kobject_uevent p)) = 0)
     \<and> (\<forall>l p n k. E l (Dev (Dev_set_name p n k)) = 0) \<and> (\<forall>l p. E l (Dev (Device_add p)) = 0)
     \<and> (\<forall>l i f p. E l (Dev (Request_threaded_irq i f p)) = 0)
     \<and> (\<forall>l p. bal l (Minor_no 0) = 0 \<longrightarrow> E l (Dev (Idr_alloc p)) = 0)"

lemma add_loops_granted:
  assumes "generous E" "w_dev s idev \<noteq> None"
  shows "\<exists>k t. add_maps E idev ip n mi found s = (Loop_done k, t) \<and> w_dev t idev \<noteq> None"
    "\<exists>k t. add_ports E idev ip n mi found s = (Loop_done k, t) \<and> w_dev t idev \<noteq> None"
proof -
  have m: "\<exists>t. add_map1 E idev ip k f s = (None, t) \<and> w_dev t idev \<noteq> None"
    and p: "\<exists>t. add_port1 E idev ip k f s = (None, t) \<and> w_dev t idev \<noteq> None"
    if "w_dev s idev \<noteq> None" for k f and s :: "'a world"
    using assms(1) that
    by (auto simp: generous_def add_map1_def map_dir1_def map_kobj1_def add_port1_def portio_dir1_def portio_kobj1_def
        map_dir_of_def portio_dir_of_def Let_def case_prod_beta)
  show "\<exists>k t. add_maps E idev ip n mi found s = (Loop_done k, t) \<and> w_dev t idev \<noteq> None"
    using assms(2)
  proof (induction n arbitrary: mi found s)
    case (Suc n)
    from m [OF Suc.prems, of mi found] Suc show ?case by fastforce
  qed simp
  show "\<exists>k t. add_ports E idev ip n mi found s = (Loop_done k, t) \<and> w_dev t idev \<noteq> None"
    using assms(2)
  proof (induction n arbitrary: mi found s)
    case (Suc n)
    from p [OF Suc.prems, of mi found] Suc show ?case by fastforce
  qed simp
qed

lemma add_attributes_granted:
  assumes "generous E" "w_dev s idev \<noteq> None"
  shows "\<exists>t. uio_dev_add_attributes E idev s = Some (0, t)"
proof -
  obtain d where d: "w_dev s idev = Some d" using assms(2) by blast
  obtain k t where 1: "add_maps E idev (d_info d) MAX_UIO_MAPS 0 False s = (Loop_done k, t)" "w_dev t idev \<noteq> None"
    using add_loops_granted(1) [OF assms] by blast
  obtain j u where "add_ports E idev (d_info d) MAX_UIO_PORT_REGIONS 0 False t = (Loop_done j, u)"
    using add_loops_granted(2) [OF assms(1) 1(2)] by blast
  with 1 d show ?thesis by (simp add: uio_dev_add_attributes_def)
qed

lemma register_granted:
  assumes "generous E" "reg_args_ok parent ip s" "bal (w_log s) (Minor_no 0) = 0"
  shows "\<exists>t. uio_register_device E owner parent ip s = Some (0, t)"
proof -
  have dev: "\<exists>t. register_device E idev parent ip s = Some (0, t)" if dd: "w_dev s idev \<noteq> None" for idev and s :: "'a world"
  proof -
    obtain d where d: "w_dev s idev = Some d" using dd by blast
    let ?s1 = "upd_dev idev (\<lambda>d. d\<lparr>d_kref := 1, d_parent := parent\<rparr>) (kvoid_w (Dev (Device_initialize idev)) s)"
    let ?s3 = "snd (kdo_w E (Dev (Device_add idev)) (snd (kdo_w E (Dev (Dev_set_name idev ''uio%d'' (d_minor d))) ?s1)))"
    obtain t where "uio_dev_add_attributes E idev ?s3 = Some (0, t)"
      using add_attributes_granted [OF assms(1), of ?s3 idev] d by auto
    then show ?thesis
      using d assms(1) by (auto simp: register_device_def Let_def case_prod_beta register_irq_def generous_def)
  qed
  show ?thesis
    using assms unfolding uio_register_device_def Let_def case_prod_beta
    by (auto simp: reg_args_ok_def generous_def uio_get_minor_def mutex_lock_def mutex_unlock_def Let_def case_prod_beta
        effect_simps set_uio_dev_def intro!: dev)
qed

end
