(* ===== verification/Hyperv_Vmbus.thy ===== *)
theory Hyperv_Vmbus
  imports Kernel
begin

text \<open>
  The parts of \<open>hyperv_vmbus.h\<close> that compute: the interrupt page and its channel bits, the table of
  preferred ring sizes, and the bookkeeping of the CPUs that serve performance-critical channels.

  The device table \<open>vmbus_devs\<close>, the map of CPUs to NUMA nodes and the list of channels belong to the
  VMBus driver and are parameters.
\<close>

section \<open>Channels\<close>

text \<open>The fields of \<open>struct vmbus_channel\<close> that the sources use; the interrupt mask is the one in the
  header of the inbound ring.\<close>

datatype vmbus_channel_state =
    CHANNEL_OFFER_STATE | CHANNEL_OPENING_STATE | CHANNEL_OPEN_STATE | CHANNEL_OPENED_STATE

datatype hv_callback_mode = HV_CALL_BATCHED | HV_CALL_DIRECT | HV_CALL_ISR

record vmbus_channel =
  ch_device_id :: nat
  ch_target_cpu :: nat
  ch_interrupt_mask :: u32
  ch_monitor_allocated :: bool
  ch_read_mode :: hv_callback_mode
  ch_state :: vmbus_channel_state

record vmbus_device =
  vd_perf_device :: bool
  vd_pref_ring_size :: u64

definition hv_is_perf_channel :: "(nat \<Rightarrow> vmbus_device) \<Rightarrow> vmbus_channel \<Rightarrow> bool" where
  "hv_is_perf_channel vmbus_devs channel = vd_perf_device (vmbus_devs (ch_device_id channel))"

definition hv_dev_ring_size :: "(nat \<Rightarrow> vmbus_device) \<Rightarrow> vmbus_channel \<Rightarrow> u64" where
  "hv_dev_ring_size vmbus_devs channel = vd_pref_ring_size (vmbus_devs (ch_device_id channel))"

text \<open>\<open>None\<close> is the NULL channel; the callback is an argument.\<close>

definition hv_poll_channel :: "'c option \<Rightarrow> ('c \<Rightarrow> 's \<Rightarrow> 's) \<Rightarrow> 's \<Rightarrow> 's" where
  "hv_poll_channel channel cb s = (case channel of None \<Rightarrow> s | Some c \<Rightarrow> cb c s)"

section \<open>The interrupt page\<close>

definition HV_HYP_PAGE_SIZE :: nat where "HV_HYP_PAGE_SIZE = 4096"
definition HV_EVENT_FLAGS_COUNT :: nat where "HV_EVENT_FLAGS_COUNT = 256 * 8"

definition MAX_NUM_CHANNELS :: nat where
  "MAX_NUM_CHANNELS = push_bit 3 (drop_bit 1 HV_HYP_PAGE_SIZE)"

definition MAX_NUM_CHANNELS_SUPPORTED :: nat where "MAX_NUM_CHANNELS_SUPPORTED = 256"

definition MAX_CHANNEL_RELIDS :: nat where
  "MAX_CHANNEL_RELIDS = max MAX_NUM_CHANNELS_SUPPORTED HV_EVENT_FLAGS_COUNT"

text \<open>\<open>sync_set_bit\<close> on a page of bytes (little endian): bit \<open>n\<close> is bit \<open>n mod 8\<close> of byte \<open>n div 8\<close>.  A bit
  behind the end of the page is not in the model: \<open>None\<close>.\<close>

definition sync_set_bit :: "nat \<Rightarrow> u8 list \<Rightarrow> u8 list option" where
  "sync_set_bit n page =
     (if n div 8 < length page then Some (page[n div 8 := set_bit (n mod 8) (page ! (n div 8))]) else None)"

definition test_page_bit :: "nat \<Rightarrow> u8 list \<Rightarrow> bool" where
  "test_page_bit n page = bit (page ! (n div 8)) (n mod 8)"

text \<open>\<open>vmbus_connection.send_int_page\<close> is the second half of the interrupt page.\<close>

definition vmbus_send_interrupt :: "u32 \<Rightarrow> u8 list \<Rightarrow> u8 list option" where
  "vmbus_send_interrupt relid send_int_page = sync_set_bit (unat relid) send_int_page"

section \<open>CPUs of performance channels\<close>

text \<open>A channel of \<open>vmbus_connection.chn_list\<close> with its list of subchannels.\<close>

type_synonym chn_list = "(vmbus_channel \<times> vmbus_channel list) list"

fun sc_on_cpu :: "nat \<Rightarrow> vmbus_channel list \<Rightarrow> bool" where
  "sc_on_cpu cpu [] = False"
| "sc_on_cpu cpu (sc # scs) = (if ch_target_cpu sc = cpu then True else sc_on_cpu cpu scs)"

fun hv_is_allocated_cpu :: "(nat \<Rightarrow> vmbus_device) \<Rightarrow> chn_list \<Rightarrow> nat \<Rightarrow> bool" where
  "hv_is_allocated_cpu devs [] cpu = False"
| "hv_is_allocated_cpu devs ((channel, sc_list) # rest) cpu =
     (if \<not> hv_is_perf_channel devs channel then hv_is_allocated_cpu devs rest cpu
      else if ch_target_cpu channel = cpu then True
      else if sc_on_cpu cpu sc_list then True
      else hv_is_allocated_cpu devs rest cpu)"

text \<open>\<open>hv_context.hv_numa_map\<close>: for each node the mask of its allocated CPUs.\<close>

type_synonym numa_map = "nat \<Rightarrow> nat set"

definition hv_set_allocated_cpu :: "(nat \<Rightarrow> nat) \<Rightarrow> nat \<Rightarrow> numa_map \<Rightarrow> numa_map" where
  "hv_set_allocated_cpu cpu_to_node cpu m = m(cpu_to_node cpu := insert cpu (m (cpu_to_node cpu)))"

definition hv_clear_allocated_cpu ::
    "(nat \<Rightarrow> vmbus_device) \<Rightarrow> chn_list \<Rightarrow> (nat \<Rightarrow> nat) \<Rightarrow> nat \<Rightarrow> numa_map \<Rightarrow> numa_map" where
  "hv_clear_allocated_cpu devs chns cpu_to_node cpu m =
     (if hv_is_allocated_cpu devs chns cpu then m
      else m(cpu_to_node cpu := m (cpu_to_node cpu) - {cpu}))"

definition hv_update_allocated_cpus ::
    "(nat \<Rightarrow> vmbus_device) \<Rightarrow> chn_list \<Rightarrow> (nat \<Rightarrow> nat) \<Rightarrow> nat \<Rightarrow> nat \<Rightarrow> numa_map \<Rightarrow> numa_map" where
  "hv_update_allocated_cpus devs chns cpu_to_node old_cpu new_cpu m =
     hv_clear_allocated_cpu devs chns cpu_to_node old_cpu (hv_set_allocated_cpu cpu_to_node new_cpu m)"

section \<open>The constants of the connection\<close>

datatype vmbus_connect_state = DISCONNECTED | CONNECTING | CONNECTED | DISCONNECTING

datatype vmbus_message_handler_type = VMHT_BLOCKING | VMHT_NON_BLOCKING

datatype hvutil_device_state =
    HVUTIL_DEVICE_INIT | HVUTIL_READY | HVUTIL_HOSTMSG_RECEIVED | HVUTIL_USERSPACE_REQ
  | HVUTIL_USERSPACE_RECV | HVUTIL_DEVICE_DYING

primrec hvutil_device_state_val :: "hvutil_device_state \<Rightarrow> int" where
  "hvutil_device_state_val HVUTIL_DEVICE_INIT = 0"
| "hvutil_device_state_val HVUTIL_READY = 1"
| "hvutil_device_state_val HVUTIL_HOSTMSG_RECEIVED = 2"
| "hvutil_device_state_val HVUTIL_USERSPACE_REQ = 3"
| "hvutil_device_state_val HVUTIL_USERSPACE_RECV = 4"
| "hvutil_device_state_val HVUTIL_DEVICE_DYING = 5"

text \<open>Without \<open>CONFIG_HYPERV_TESTING\<close> the debug hooks do nothing and the setup functions report -1.\<close>

definition hv_debug_init :: int where "hv_debug_init = -1"
definition hv_debug_add_dev_dir :: "ptr \<Rightarrow> int" where "hv_debug_add_dev_dir dev = -1"

section \<open>Lemmas\<close>

lemma sc_on_cpu_iff: "sc_on_cpu cpu scs \<longleftrightarrow> (\<exists>sc\<in>set scs. ch_target_cpu sc = cpu)"
  by (induction scs) auto

lemma hv_is_allocated_cpu_iff:
  "hv_is_allocated_cpu devs chns cpu \<longleftrightarrow>
     (\<exists>(ch, scs)\<in>set chns. hv_is_perf_channel devs ch
        \<and> (ch_target_cpu ch = cpu \<or> (\<exists>sc\<in>set scs. ch_target_cpu sc = cpu)))"
  by (induction devs chns cpu rule: hv_is_allocated_cpu.induct) (auto simp: sc_on_cpu_iff)

lemma set_page_bit:
  assumes "n div 8 < length page" "m div 8 < length page"
  shows "test_page_bit m (page[n div 8 := set_bit (n mod 8) (page ! (n div 8))]) \<longleftrightarrow> m = n \<or> test_page_bit m page"
proof (cases "m div 8 = n div 8")
  case True
  have "(m mod 8 = n mod 8) = (m = n)" using True by (metis div_mult_mod_eq)
  with True assms show ?thesis
    by (auto simp: test_page_bit_def bit_set_bit_iff)
next
  case False
  then show ?thesis by (auto simp: test_page_bit_def nth_list_update)
qed

lemma mem_update_cpus:
  "cpu \<in> hv_update_allocated_cpus devs chns node old_cpu new_cpu m (node cpu) \<longleftrightarrow>
     (cpu = new_cpu \<or> cpu \<in> m (node cpu)) \<and> (cpu \<noteq> old_cpu \<or> hv_is_allocated_cpu devs chns old_cpu)"
  by (auto simp: hv_update_allocated_cpus_def hv_clear_allocated_cpu_def hv_set_allocated_cpu_def)

section \<open>Properties\<close>

text \<open>Signalling a channel sets exactly its bit: for every channel number below \<open>MAX_NUM_CHANNELS\<close> the
  bit lies in the half of the interrupt page that is used for sending, and every other bit is kept.\<close>

theorem send_interrupt_sets_one_bit:
  assumes "unat relid < MAX_NUM_CHANNELS" "length page = HV_HYP_PAGE_SIZE div 2"
  shows "\<exists>page'. vmbus_send_interrupt relid page = Some page' \<and> length page' = length page
    \<and> (\<forall>m<MAX_NUM_CHANNELS. test_page_bit m page' \<longleftrightarrow> m = unat relid \<or> test_page_bit m page)"
proof -
  have l: "n < MAX_NUM_CHANNELS \<Longrightarrow> n div 8 < length page" for n
    using assms(2) by (simp add: MAX_NUM_CHANNELS_def HV_HYP_PAGE_SIZE_def push_bit_eq_mult drop_bit_eq_div)
  then show ?thesis
    using assms(1) by (auto simp: vmbus_send_interrupt_def sync_set_bit_def set_page_bit)
qed

theorem send_interrupt_sets_one_bit_witness:
  "\<exists>page'. vmbus_send_interrupt 16383 (replicate 2048 0) = Some page' \<and> test_page_bit 16383 page'"
  using send_interrupt_sets_one_bit [of 16383 "replicate 2048 0"]
  by (auto simp: MAX_NUM_CHANNELS_def HV_HYP_PAGE_SIZE_def push_bit_eq_mult drop_bit_eq_div)

text \<open>When a channel moves from one CPU to another, the masks of the NUMA nodes go on to mark every
  CPU that serves a performance channel, mark the new CPU, and no longer mark the old one when no
  performance channel or subchannel is left on it.\<close>

theorem update_allocated_cpus_tracks_channels:
  assumes "\<And>cpu. hv_is_allocated_cpu devs chns cpu \<Longrightarrow> cpu = new_cpu \<or> cpu \<in> m (node cpu)"
  shows "(\<forall>cpu. hv_is_allocated_cpu devs chns cpu
            \<longrightarrow> cpu \<in> hv_update_allocated_cpus devs chns node old_cpu new_cpu m (node cpu))
    \<and> (old_cpu \<in> hv_update_allocated_cpus devs chns node old_cpu new_cpu m (node old_cpu)
          \<longrightarrow> hv_is_allocated_cpu devs chns old_cpu)
    \<and> (new_cpu \<noteq> old_cpu \<longrightarrow> new_cpu \<in> hv_update_allocated_cpus devs chns node old_cpu new_cpu m (node new_cpu))
    \<and> (\<forall>cpu. cpu \<noteq> old_cpu \<longrightarrow> cpu \<noteq> new_cpu \<longrightarrow>
          cpu \<in> hv_update_allocated_cpus devs chns node old_cpu new_cpu m (node cpu) \<longleftrightarrow> cpu \<in> m (node cpu))"
  using assms by (simp add: mem_update_cpus)

text \<open>A list of one performance channel that just moved from CPU 1 to CPU 2, with a subchannel on CPU 1.\<close>

definition demo_chan :: "nat \<Rightarrow> vmbus_channel" where
  "demo_chan cpu = \<lparr>ch_device_id = 0, ch_target_cpu = cpu, ch_interrupt_mask = 0, ch_monitor_allocated = False,
     ch_read_mode = HV_CALL_BATCHED, ch_state = CHANNEL_OPENED_STATE\<rparr>"

definition demo_devs :: "nat \<Rightarrow> vmbus_device" where
  "demo_devs n = \<lparr>vd_perf_device = True, vd_pref_ring_size = 0\<rparr>"

lemma demo_allocated:
  "hv_is_allocated_cpu demo_devs [(demo_chan 2, [demo_chan 1])] cpu \<longleftrightarrow> cpu = 1 \<or> cpu = 2"
  by (auto simp: hv_is_allocated_cpu_iff hv_is_perf_channel_def demo_devs_def demo_chan_def)

theorem update_allocated_cpus_tracks_channels_witness:
  "1 \<in> hv_update_allocated_cpus demo_devs [(demo_chan 2, [demo_chan 1])] (\<lambda>_. 0) 1 2 (\<lambda>_. {1}) 0"
  using update_allocated_cpus_tracks_channels [of demo_devs "[(demo_chan 2, [demo_chan 1])]" 2 "\<lambda>_. {1}" "\<lambda>_. 0" 1]
  unfolding demo_allocated by blast

end
