(* ===== verification/Hv_Uio.thy ===== *)
theory Hv_Uio
  imports Uio_Mmap Uio_Maps Hyperv_Vmbus
begin

text \<open>
  The generic UIO driver for VMBus devices (\<open>uio_hv_generic.c\<close>): its callbacks for the UIO core, its
  channel callbacks, probe and remove.

  The private data \<open>hv_uio_private_data\<close> is allocated with its \<open>uio_info\<close> as first member, so one address
  names both: the \<open>uio_info\<close> is \<open>w_info s p\<close>, the rest of the structure \<open>w_drv s p\<close>.  The state of the
  channels of the device is kept with it (\<open>pd_chans\<close>, by the address of the channel), and
  \<open>pd_channel\<close> is \<open>device->channel\<close>.  \<open>hs_drvdata\<close> is the driver data of the \<open>hv_device\<close>.

  \<open>vmbus_alloc_ring\<close>, \<open>vmbus_establish_gpadl\<close> and their kind belong to the VMBus driver: their results
  and out-parameters come from the kernel parameter.  A failed \<open>vmbus_establish_gpadl\<close> does not set
  the handle; after it, as after \<open>vmbus_teardown_gpadl\<close>, the flag \<open>decrypted\<close> says whether the buffer
  is still shared with the host, in which case the driver must not free it.
\<close>

section \<open>Data\<close>

definition SEND_BUFFER_SIZE :: u64 where "SEND_BUFFER_SIZE = 16 * 1024 * 1024"
definition RECV_BUFFER_SIZE :: u64 where "RECV_BUFFER_SIZE = 31 * 1024 * 1024"
definition SZ_2M :: u64 where "SZ_2M = 0x200000"

definition DRIVER_VERSION :: string where "DRIVER_VERSION = ''0.02.1''"

text \<open>\<open>enum hv_uio_map\<close>\<close>

definition TXRX_RING_MAP :: nat where "TXRX_RING_MAP = 0"
definition INT_PAGE_MAP :: nat where "INT_PAGE_MAP = 1"
definition MON_PAGE_MAP :: nat where "MON_PAGE_MAP = 2"
definition RECV_BUF_MAP :: nat where "RECV_BUF_MAP = 3"
definition SEND_BUF_MAP :: nat where "SEND_BUF_MAP = 4"

record vmbus_gpadl =
  gp_handle :: u32
  gp_decrypted :: bool

record hv_uio_private_data =
  pd_device :: ptr
  pd_channel :: ptr
  pd_chans :: "ptr \<Rightarrow> vmbus_channel"
  pd_refcnt :: int
  pd_recv_buf :: ptr
  pd_recv_gpadl :: vmbus_gpadl
  pd_recv_name :: string
  pd_send_buf :: ptr
  pd_send_gpadl :: vmbus_gpadl
  pd_send_name :: string

type_synonym pdata = hv_uio_private_data

record hv_state =
  hs_w :: "hv_uio_private_data world"
  hs_drvdata :: "ptr \<Rightarrow> ptr"

text \<open>The addresses of \<open>vmbus_connection\<close> that the driver exports.\<close>

record conn_pages =
  cp_int_page :: u64
  cp_monitor_page1 :: u64

definition THIS_MODULE :: ptr where "THIS_MODULE = 1"

definition set_mask :: "ptr \<Rightarrow> u32 \<Rightarrow> pdata \<Rightarrow> pdata" where
  "set_mask ch m pd = pd\<lparr>pd_chans := (pd_chans pd)(ch := (pd_chans pd ch)\<lparr>ch_interrupt_mask := m\<rparr>)\<rparr>"

definition set_channel_read_mode :: "ptr \<Rightarrow> hv_callback_mode \<Rightarrow> pdata \<Rightarrow> pdata" where
  "set_channel_read_mode ch m pd = pd\<lparr>pd_chans := (pd_chans pd)(ch := (pd_chans pd ch)\<lparr>ch_read_mode := m\<rparr>)\<rparr>"

section \<open>Callbacks for the UIO core\<close>

definition hv_uio_irqcontrol :: "int \<Rightarrow> pdata cb" where
  "hv_uio_irqcontrol irq_state E pl =
     (let (pd, l) = pl; ch = pd_channel pd;
          pd1 = set_mask ch (if irq_state = 0 then 1 else 0) pd;
          l1 = kvoid (Sync Virt_mb) l;
          l2 = (if \<not> ch_monitor_allocated (pd_chans pd1 ch) \<and> irq_state \<noteq> 0
                then kvoid (Hv (Vmbus_setevent ch)) l1 else l1)
      in (0, pd1, l2))"

definition hv_uio_open :: "pdata cb" where
  "hv_uio_open E pl =
     (let (pd, l) = pl; ch = pd_channel pd;
          pd1 = pd\<lparr>pd_refcnt := pd_refcnt pd + 1\<rparr> in
      if pd_refcnt pd1 \<noteq> 1 then (0, pd1, l)
      else
        let l1 = kvoid (Hv (Vmbus_set_chn_rescind_callback ch)) l;
            l2 = kvoid (Hv (Vmbus_set_sc_create_callback ch)) l1;
            (ret, l3) = kdo E (Hv (Vmbus_connect_ring ch)) l2
        in (ret, if ret = 0 then set_mask ch 1 pd1 else pd1\<lparr>pd_refcnt := pd_refcnt pd1 - 1\<rparr>, l3))"

definition hv_uio_release :: "pdata cb" where
  "hv_uio_release E pl =
     (let (pd, l) = pl;
          pd1 = pd\<lparr>pd_refcnt := pd_refcnt pd - 1\<rparr> in
      if pd_refcnt pd1 = 0 then
        let (ret, l1) = kdo E (Hv (Vmbus_disconnect_ring (pd_channel pd1))) l in (ret, pd1, l1)
      else (0, pd1, l))"

section \<open>Callbacks for the VMBus driver\<close>

definition on_drv :: "ptr \<Rightarrow> (pdata \<Rightarrow> pdata) \<Rightarrow> pdata world \<Rightarrow> pdata world" where
  "on_drv p f s = s\<lparr>w_drv := (w_drv s)(p := f (w_drv s p))\<rparr>"

text \<open>The channel \<open>ch\<close> of the device \<open>dev\<close> has something in its inbound ring; the private data is the driver
  data of the device, and its \<open>uio_info\<close> is followed.  \<open>owner\<close> is the private data that holds the
  state of the channel.\<close>

definition hv_uio_channel_cb :: "ptr \<Rightarrow> ptr \<Rightarrow> ptr \<Rightarrow> hv_state \<Rightarrow> hv_state option" where
  "hv_uio_channel_cb dev owner ch hs =
     (let p = hs_drvdata hs dev;
          s1 = on_drv owner (set_mask ch 1) (hs_w hs);
          s2 = kvoid_w (Sync Virt_mb) s1 in
      if p = NULL then None
      else map_option (\<lambda>t. hs\<lparr>hs_w := t\<rparr>) (uio_event_notify p s2))"

definition hv_uio_rescind :: "ptr \<Rightarrow> hv_state \<Rightarrow> hv_state option" where
  "hv_uio_rescind dev hs =
     (let p = hs_drvdata hs dev in
      if p = NULL then None
      else
        let s1 = upd_info p (\<lambda>i. i\<lparr>info_irq := 0\<rparr>) (hs_w hs) in
        (case uio_event_notify p s1 of
           None \<Rightarrow> None
         | Some s2 \<Rightarrow> Some (hs\<lparr>hs_w := kvoid_w (Hv (Vmbus_device_unregister dev)) s2\<rparr>)))"

text \<open>The mapping of the ring for a subchannel: \<open>phys\<close> and \<open>pagecount\<close> are those of its ring pages.\<close>

definition hv_uio_ring_mmap :: "env \<Rightarrow> vmbus_channel \<Rightarrow> u64 \<Rightarrow> u32 \<Rightarrow> 'd world \<Rightarrow> int \<times> 'd world" where
  "hv_uio_ring_mmap E channel phys pagecount s =
     (if ch_state channel \<noteq> CHANNEL_OPENED_STATE then (- ENODEV, s)
      else kdo_w E (Mm (Vm_iomap_memory phys (ucast (push_bit PAGE_SHIFT pagecount)))) s)"

definition hv_uio_new_channel :: "env \<Rightarrow> ptr \<Rightarrow> ptr \<Rightarrow> pdata world \<Rightarrow> pdata world" where
  "hv_uio_new_channel E p new_sc s =
     (let (ret, s1) = kdo_w E (Hv (Vmbus_open new_sc SZ_2M SZ_2M)) s in
      if ret \<noteq> 0 then kvoid_w (Dev (Dev_err ''vmbus_open subchannel failed'')) s1
      else
        let s2 = on_drv p (\<lambda>pd. set_channel_read_mode new_sc HV_CALL_ISR (set_mask new_sc 1 pd)) s1;
            (ret, s3) = kdo_w E (Hv (Sysfs_create_bin_file new_sc)) s2 in
        if ret \<noteq> 0 then
          kvoid_w (Hv (Vmbus_close new_sc)) (kvoid_w (Dev (Dev_err ''sysfs create ring bin file failed'')) s3)
        else s3)"

section \<open>Probe and remove\<close>

text \<open>Tearing one buffer down: what \<open>hv_uio_cleanup\<close> does for each of its two buffers.\<close>

definition free_gpadl :: "env \<Rightarrow> ptr \<Rightarrow> vmbus_gpadl \<Rightarrow> 'd world \<Rightarrow> vmbus_gpadl \<times> 'd world" where
  "free_gpadl E buf g s =
     (if gp_handle g = 0 then (g, s)
      else
        let s1 = kvoid_w (Hv (Vmbus_teardown_gpadl buf (gp_handle g))) s;
            (dec, s2) = kdo_w E (Hv (Out_gpadl_decrypted buf)) s1;
            g1 = \<lparr>gp_handle = 0, gp_decrypted = dec \<noteq> 0\<rparr>
        in (g1, if \<not> gp_decrypted g1 then kvoid_w (Mm (Vfree buf)) s2 else s2))"

definition hv_uio_cleanup :: "env \<Rightarrow> ptr \<Rightarrow> pdata world \<Rightarrow> pdata world" where
  "hv_uio_cleanup E p s =
     (let (g, s1) = free_gpadl E (pd_send_buf (w_drv s p)) (pd_send_gpadl (w_drv s p)) s;
          s2 = on_drv p (\<lambda>pd. pd\<lparr>pd_send_gpadl := g\<rparr>) s1;
          (h, s3) = free_gpadl E (pd_recv_buf (w_drv s2 p)) (pd_recv_gpadl (w_drv s2 p)) s2
      in on_drv p (\<lambda>pd. pd\<lparr>pd_recv_gpadl := h\<rparr>) s3)"

definition zero_gpadl :: vmbus_gpadl where
  "zero_gpadl = \<lparr>gp_handle = 0, gp_decrypted = False\<rparr>"

text \<open>The private data as \<open>devm_kzalloc\<close> returns it, for a device with a channel in state \<open>c\<close>.\<close>

definition zero_pdata :: "ptr \<Rightarrow> (ptr \<Rightarrow> vmbus_channel) \<Rightarrow> pdata" where
  "zero_pdata ch chans = \<lparr>pd_device = NULL, pd_channel = ch, pd_chans = chans, pd_refcnt = 0, pd_recv_buf = NULL,
     pd_recv_gpadl = zero_gpadl, pd_recv_name = '''', pd_send_buf = NULL, pd_send_gpadl = zero_gpadl,
     pd_send_name = ''''\<rparr>"

definition set_region :: "nat \<Rightarrow> string \<Rightarrow> u64 \<Rightarrow> u64 \<Rightarrow> int \<Rightarrow> 'd uio_info \<Rightarrow> 'd uio_info" where
  "set_region k nm addr sz ty i =
     i\<lparr>info_mem := (info_mem i)[k := (info_mem i ! k)\<lparr>mem_name := Some nm, mem_addr := addr, mem_size := sz, mem_memtype := ty\<rparr>]\<rparr>"

text \<open>The general part of \<open>uio_info\<close> and the three regions that exist before the buffers.\<close>

definition probe_info :: "conn_pages \<Rightarrow> u64 \<Rightarrow> u32 \<Rightarrow> pdata uio_info \<Rightarrow> pdata uio_info" where
  "probe_info conn phys pagecount i =
     (let i1 = i\<lparr>info_name := Some ''uio_hv_generic'', info_version := Some DRIVER_VERSION,
                 info_irqcontrol := Some hv_uio_irqcontrol, info_open := Some hv_uio_open,
                 info_release := Some hv_uio_release, info_irq := UIO_IRQ_CUSTOM\<rparr>;
          i2 = set_region TXRX_RING_MAP ''txrx_rings'' phys (ucast (push_bit PAGE_SHIFT pagecount)) UIO_MEM_IOVA i1;
          i3 = set_region INT_PAGE_MAP ''int_page'' (cp_int_page conn) PAGE_SIZE UIO_MEM_LOGICAL i2
      in set_region MON_PAGE_MAP ''monitor_page'' (cp_monitor_page1 conn) PAGE_SIZE UIO_MEM_LOGICAL i3)"

text \<open>Allocating one buffer and its GPADL: the result is the error (0 on success) and the descriptor; after
  a failure the buffer has been freed, unless it is still shared with the host.\<close>

definition probe_buf :: "env \<Rightarrow> ptr \<Rightarrow> u64 \<Rightarrow> 'd world \<Rightarrow> int \<times> ptr \<times> vmbus_gpadl \<times> 'd world" where
  "probe_buf E ch n s =
     (let (buf, s1) = kdo_w E (Mm (Vzalloc n)) s in
      if buf = NULL then (- ENOMEM, NULL, zero_gpadl, s1)
      else
        let (ret, s2) = kdo_w E (Hv (Vmbus_establish_gpadl ch buf n)) s1;
            (dec, s3) = kdo_w E (Hv (Out_gpadl_decrypted buf)) s2 in
        if ret \<noteq> 0 then
          (ret, buf, \<lparr>gp_handle = 0, gp_decrypted = dec \<noteq> 0\<rparr>, if dec \<noteq> 0 then s3 else kvoid_w (Mm (Vfree buf)) s3)
        else
          let (h, s4) = kdo_w E (Hv (Out_gpadl_handle buf)) s3
          in (0, buf, \<lparr>gp_handle = of_int h, gp_decrypted = dec \<noteq> 0\<rparr>, s4))"

definition fail_free_ring :: "ptr \<Rightarrow> ptr \<Rightarrow> int \<Rightarrow> pdata world \<Rightarrow> int \<times> pdata world" where
  "fail_free_ring p ch ret s = (ret, kvoid_w (Hv (Vmbus_free_ring ch)) s)"

definition fail_close :: "env \<Rightarrow> ptr \<Rightarrow> ptr \<Rightarrow> int \<Rightarrow> pdata world \<Rightarrow> int \<times> pdata world" where
  "fail_close E p ch ret s = fail_free_ring p ch ret (hv_uio_cleanup E p s)"

text \<open>The end of the probe: registration, the ring file and the driver data.\<close>

definition probe_register :: "env \<Rightarrow> ptr \<Rightarrow> ptr \<Rightarrow> ptr \<Rightarrow> hv_state \<Rightarrow> (int \<times> hv_state) option" where
  "probe_register E dev ch p hs =
     (let s1 = on_drv p (\<lambda>pd. pd\<lparr>pd_device := dev\<rparr>) (upd_info p (\<lambda>i. i\<lparr>info_priv := p\<rparr>) (hs_w hs)) in
      case uio_register_device E THIS_MODULE dev p s1 of
        None \<Rightarrow> None
      | Some (ret, s2) \<Rightarrow>
          if ret \<noteq> 0 then
            (let (r, s3) = fail_close E p ch ret (kvoid_w (Dev (Dev_err ''hv_uio register failed'')) s2)
             in Some (r, hs\<lparr>hs_w := s3\<rparr>))
          else
            let (ret, s3) = kdo_w E (Hv (Sysfs_create_bin_file ch)) s2;
                s4 = (if ret \<noteq> 0 then kvoid_w (Dev (Dev_notice ''sysfs create ring bin file failed'')) s3 else s3)
            in Some (0, hs\<lparr>hs_w := s4, hs_drvdata := (hs_drvdata hs)(dev := p)\<rparr>))"

text \<open>The middle of the probe, from the allocation of the receive buffer on.\<close>

definition probe_bufs :: "env \<Rightarrow> ptr \<Rightarrow> ptr \<Rightarrow> ptr \<Rightarrow> hv_state \<Rightarrow> (int \<times> hv_state) option" where
  "probe_bufs E dev ch p hs =
     (let (ret, buf, g, s1) = probe_buf E ch RECV_BUFFER_SIZE (hs_w hs);
          s2 = on_drv p (\<lambda>pd. pd\<lparr>pd_recv_buf := buf, pd_recv_gpadl := g\<rparr>) s1 in
      if buf = NULL then (let (r, s3) = fail_free_ring p ch ret s2 in Some (r, hs\<lparr>hs_w := s3\<rparr>))
      else if ret \<noteq> 0 then (let (r, s3) = fail_close E p ch ret s2 in Some (r, hs\<lparr>hs_w := s3\<rparr>))
      else
        let name = ''recv:'' @ fmt_u (unat (gp_handle g));
            s3 = on_drv p (\<lambda>pd. pd\<lparr>pd_recv_name := name\<rparr>)
                   (upd_info p (set_region RECV_BUF_MAP name (of_int buf) RECV_BUFFER_SIZE UIO_MEM_VIRTUAL) s2);
            (ret, buf, g, s4) = probe_buf E ch SEND_BUFFER_SIZE s3;
            s5 = on_drv p (\<lambda>pd. pd\<lparr>pd_send_buf := buf, pd_send_gpadl := g\<rparr>) s4 in
        if ret \<noteq> 0 then (let (r, s6) = fail_close E p ch ret s5 in Some (r, hs\<lparr>hs_w := s6\<rparr>))
        else
          let name = ''send:'' @ fmt_u (unat (gp_handle g));
              s6 = on_drv p (\<lambda>pd. pd\<lparr>pd_send_name := name\<rparr>)
                     (upd_info p (set_region SEND_BUF_MAP name (of_int buf) SEND_BUFFER_SIZE UIO_MEM_VIRTUAL) s5)
          in probe_register E dev ch p (hs\<lparr>hs_w := s6\<rparr>))"

definition hv_uio_probe ::
    "env \<Rightarrow> (nat \<Rightarrow> vmbus_device) \<Rightarrow> conn_pages \<Rightarrow> ptr \<Rightarrow> ptr \<Rightarrow> (ptr \<Rightarrow> vmbus_channel) \<Rightarrow> hv_state
      \<Rightarrow> (int \<times> hv_state) option" where
  "hv_uio_probe E vmbus_devs conn dev ch chans hs =
     (let ring_size = (if hv_dev_ring_size vmbus_devs (chans ch) = 0 then SZ_2M
                       else hv_dev_ring_size vmbus_devs (chans ch));
          (p, s1) = kdo_w E (Hv Devm_kzalloc) (hs_w hs) in
      if p = NULL then Some (- ENOMEM, hs\<lparr>hs_w := s1\<rparr>)
      else
        let s2 = on_drv p (\<lambda>_. zero_pdata ch chans) (upd_info p (\<lambda>_. zero_info) s1);
            (ret, s3) = kdo_w E (Hv (Vmbus_alloc_ring ch ring_size ring_size)) s2 in
        if ret \<noteq> 0 then Some (ret, hs\<lparr>hs_w := s3\<rparr>)
        else
          let s4 = on_drv p (set_channel_read_mode ch HV_CALL_ISR) s3;
              (phys, s5) = kdo_w E (Mm (Out_ring_phys ch)) s4;
              (pagecount, s6) = kdo_w E (Mm (Out_ring_pagecount ch)) s5;
              s7 = upd_info p (probe_info conn (of_int phys) (of_int pagecount)) s6
          in probe_bufs E dev ch p (hs\<lparr>hs_w := s7\<rparr>))"

definition hv_uio_remove :: "env \<Rightarrow> ptr \<Rightarrow> ptr \<Rightarrow> hv_state \<Rightarrow> hv_state option" where
  "hv_uio_remove E dev ch hs =
     (let p = hs_drvdata hs dev in
      if p = NULL then Some hs
      else
        let s1 = kvoid_w (Hv (Sysfs_remove_bin_file ch)) (hs_w hs) in
        (case uio_unregister_device p s1 of
           None \<Rightarrow> None
         | Some s2 \<Rightarrow>
             let s3 = hv_uio_cleanup E p s2
             in Some (hs\<lparr>hs_w := kvoid_w (Hv (Vmbus_free_ring ch)) s3\<rparr>)))"

definition hyperv_module_init :: "env \<Rightarrow> 'd world \<Rightarrow> int \<times> 'd world" where
  "hyperv_module_init E s = kdo_w E (Hv Vmbus_driver_register) s"

definition hyperv_module_exit :: "'d world \<Rightarrow> 'd world" where
  "hyperv_module_exit s = kvoid_w (Hv Vmbus_driver_unregister) s"


section \<open>The driver keeps the contract of the core\<close>

text \<open>The driver holds the connection of the ring while a file is open.\<close>

definition hv_held :: "pdata \<Rightarrow> resource \<Rightarrow> int" where
  "hv_held pd x = (if 0 < pd_refcnt pd then one (Ring_conn (pd_channel pd)) x else 0)"

lemma set_mask_sel [simp]:
  "pd_refcnt (set_mask ch m pd) = pd_refcnt pd" "pd_channel (set_mask ch m pd) = pd_channel pd"
  "hv_held (set_mask ch m pd) = hv_held pd"
  by (simp_all add: set_mask_def hv_held_def fun_eq_iff)

lemma hv_open_cb:
  assumes "0 \<le> pd_refcnt d" "hv_uio_open E (d, l) = (r, d', l')"
  shows "pd_refcnt d' = (if r = 0 then pd_refcnt d + 1 else pd_refcnt d)
    \<and> bal l' x - hv_held d' x = bal l x - hv_held d x"
proof (cases "pd_refcnt d = 0")
  case True
  then show ?thesis using assms(2)
    by (auto simp: hv_uio_open_def Let_def case_prod_beta effect_simps hv_held_def split: if_splits)
next
  case False
  then show ?thesis using assms by (auto simp: hv_uio_open_def Let_def hv_held_def)
qed

lemma hv_release_cb:
  assumes "0 < pd_refcnt d" "hv_uio_release E (d, l) = (r, d', l')"
  shows "pd_refcnt d' = pd_refcnt d - 1 \<and> bal l' x - hv_held d' x = bal l x - hv_held d x"
proof (cases "pd_refcnt d = 1")
  case True
  then show ?thesis using assms(2)
    by (auto simp: hv_uio_release_def Let_def case_prod_beta effect_simps hv_held_def)
next
  case False
  then show ?thesis using assms by (auto simp: hv_uio_release_def Let_def hv_held_def)
qed

interpretation hv: uio_driver "Some hv_uio_open" "Some hv_uio_release" pd_refcnt hv_held
proof (unfold_locales, goal_cases)
  case (1 d E l r d' l')
  then show ?case using hv_open_cb [of d E l r d' l'] by (simp add: cb_run_def)
next
  case (2 d E l r d' l' x)
  then show ?case using hv_open_cb [of d E l r d' l' x] by (simp add: cb_run_def)
next
  case (3 d E l r d' l')
  then show ?case using hv_release_cb [of d E l r d' l'] by (simp add: cb_run_def)
next
  case (4 d E l r d' l' x)
  then show ?case using hv_release_cb [of d E l r d' l' x] by (simp add: cb_run_def)
next
  case (5 d x)
  then show ?case by (simp add: hv_held_def)
qed

section \<open>Buffers\<close>

text \<open>What the VMBus driver promises of a GPADL that was established: its handle is not 0.  \<open>reencrypts\<close>
  says that no buffer is left shared with the host; when one is, the driver leaks it on purpose, and
  \<open>accounted\<close> leaves the buffers out of the account.\<close>

definition handles_ok :: "env \<Rightarrow> bool" where
  "handles_ok E \<longleftrightarrow> (\<forall>l b. (of_int (E l (Hv (Out_gpadl_handle b))) :: u32) \<noteq> 0)"

definition reencrypts :: "env \<Rightarrow> bool" where
  "reencrypts E \<longleftrightarrow> (\<forall>l b. E l (Hv (Out_gpadl_decrypted b)) = 0)"

definition accounted :: "env \<Rightarrow> resource \<Rightarrow> bool" where
  "accounted E x \<longleftrightarrow> reencrypts E \<or> (\<forall>b. x \<noteq> Vbuf b)"

lemma accounted_leak:
  "accounted E x \<Longrightarrow> E l (Hv (Out_gpadl_decrypted b)) \<noteq> 0 \<Longrightarrow> one (Vbuf b) x = 0"
  by (auto simp: accounted_def reencrypts_def)

text \<open>The stores of the core, which the driver's own calls do not touch.\<close>

definition same_core :: "ptr \<Rightarrow> 'd world \<Rightarrow> 'd world \<Rightarrow> bool" where
  "same_core p s t \<longleftrightarrow> w_dev t = w_dev s \<and> w_lst t = w_lst s \<and> w_idr t = w_idr s
     \<and> w_class_registered t = w_class_registered s \<and> (\<forall>q. q \<noteq> p \<longrightarrow> w_info t q = w_info s q)
     \<and> (\<forall>q. q \<noteq> p \<longrightarrow> w_drv t q = w_drv s q)"

lemma same_core_refl [simp]: "same_core p s s"
  by (simp add: same_core_def)

lemma same_core_trans: "same_core p s t \<Longrightarrow> same_core p t u \<Longrightarrow> same_core p s u"
  by (simp add: same_core_def)

lemma same_core_calls [simp]:
  "same_core p s (kvoid_w c t) = same_core p s t" "same_core p s (snd (kdo_w E c t)) = same_core p s t"
  "same_core p s (upd_info p f t) = same_core p s t" "same_core p s (on_drv p g t) = same_core p s (t :: pdata world)"
  by (auto simp: same_core_def on_drv_def)

lemma on_drv_sel [simp]:
  "w_log (on_drv p g s) = w_log s" "w_info (on_drv p g s) = w_info s" "w_drv (on_drv p g s) p = g (w_drv s p)"
  "w_dev (on_drv p g s) = w_dev s" "w_idr (on_drv p g s) = w_idr s" "w_lst (on_drv p g s) = w_lst s"
  by (simp_all add: on_drv_def)

definition buf_held :: "ptr \<Rightarrow> vmbus_gpadl \<Rightarrow> resource \<Rightarrow> int" where
  "buf_held buf g x = (if gp_handle g = 0 then 0 else one (Vbuf buf) x + one (Gpadl buf (gp_handle g)) x)"

lemma probe_buf_spec:
  assumes "probe_buf E ch n s = (ret, buf, g, t)" "handles_ok E" "accounted E x"
  shows "w_info t = w_info s \<and> w_drv t = w_drv s \<and> same_core p s t
    \<and> (ret \<noteq> 0 \<longrightarrow> gp_handle g = 0) \<and> (ret = 0 \<longrightarrow> buf \<noteq> NULL \<and> gp_handle g \<noteq> 0)
    \<and> (buf = NULL \<longrightarrow> ret \<noteq> 0) \<and> bal (w_log t) x = bal (w_log s) x + buf_held buf g x"
  using assms(1)
proof (cases "E (w_log s) (Mm (Vzalloc n)) = 0")
  case True
  then show ?thesis using assms(1)
    by (auto simp: probe_buf_def case_prod_beta effect_simps buf_held_def zero_gpadl_def errno_simps same_core_def)
next
  case False
  then show ?thesis using assms
    by (auto simp: probe_buf_def case_prod_beta Let_def effect_simps buf_held_def handles_ok_def same_core_def
        accounted_leak split: if_splits)
qed

lemma free_gpadl_spec:
  assumes "free_gpadl E buf g s = (g', t)" "accounted E x" "gp_handle g \<noteq> 0 \<longrightarrow> buf \<noteq> NULL"
  shows "w_info t = w_info s \<and> w_drv t = w_drv s \<and> same_core p s t \<and> gp_handle g' = 0
    \<and> bal (w_log t) x = bal (w_log s) x - buf_held buf g x"
  using assms
  by (auto simp: free_gpadl_def case_prod_beta Let_def effect_simps buf_held_def same_core_def accounted_leak
      split: if_splits)

lemma core_accounted: "core_res x \<Longrightarrow> accounted E x"
  by (auto simp: accounted_def)

lemma buf_held_core: "core_res x \<Longrightarrow> buf_held buf g x = 0"
  by (auto simp: buf_held_def one_def)

text \<open>What the two buffers hold.\<close>

definition bufs_held :: "pdata \<Rightarrow> resource \<Rightarrow> int" where
  "bufs_held pd x = buf_held (pd_recv_buf pd) (pd_recv_gpadl pd) x + buf_held (pd_send_buf pd) (pd_send_gpadl pd) x"

definition bufs_ok :: "pdata \<Rightarrow> bool" where
  "bufs_ok pd \<longleftrightarrow> (gp_handle (pd_recv_gpadl pd) \<noteq> 0 \<longrightarrow> pd_recv_buf pd \<noteq> NULL)
     \<and> (gp_handle (pd_send_gpadl pd) \<noteq> 0 \<longrightarrow> pd_send_buf pd \<noteq> NULL)"

lemma cleanup_spec:
  assumes "accounted E x" "bufs_ok (w_drv s p)"
  shows "w_info (hv_uio_cleanup E p s) = w_info s \<and> same_core p s (hv_uio_cleanup E p s)
    \<and> bal (w_log (hv_uio_cleanup E p s)) x = bal (w_log s) x - bufs_held (w_drv s p) x"
proof -
  obtain g s1 where s1: "free_gpadl E (pd_send_buf (w_drv s p)) (pd_send_gpadl (w_drv s p)) s = (g, s1)" by fastforce
  let ?s2 = "on_drv p (\<lambda>pd. pd\<lparr>pd_send_gpadl := g\<rparr>) s1"
  obtain h s3 where s3: "free_gpadl E (pd_recv_buf (w_drv ?s2 p)) (pd_recv_gpadl (w_drv ?s2 p)) ?s2 = (h, s3)" by fastforce
  have 1: "w_info s1 = w_info s" "w_drv s1 = w_drv s" "same_core p s s1"
    "bal (w_log s1) x = bal (w_log s) x - buf_held (pd_send_buf (w_drv s p)) (pd_send_gpadl (w_drv s p)) x"
    using free_gpadl_spec [OF s1 assms(1), of p] assms(2) by (simp_all add: bufs_ok_def)
  have 3: "w_info s3 = w_info ?s2" "same_core p ?s2 s3"
    "bal (w_log s3) x = bal (w_log ?s2) x - buf_held (pd_recv_buf (w_drv ?s2 p)) (pd_recv_gpadl (w_drv ?s2 p)) x"
    using free_gpadl_spec [OF s3 assms(1), of p] assms(2) 1(2) by (simp_all add: bufs_ok_def)
  have "hv_uio_cleanup E p s = on_drv p (\<lambda>pd. pd\<lparr>pd_recv_gpadl := h\<rparr>) s3"
    using s1 s3 by (simp add: hv_uio_cleanup_def Let_def)
  moreover have "same_core p s s3" using 1(3) 3(2) same_core_trans [of p s ?s2 s3] by simp
  ultimately show ?thesis using 1 3 by (simp add: bufs_held_def)
qed


section \<open>Probe and remove\<close>

lemma accounted_other: "accounted E Class_reg"
  by (simp add: accounted_def)

lemma fail_close_spec:
  assumes "bufs_ok (w_drv s p)"
  shows "\<exists>t. fail_close E p ch ret s = (ret, t) \<and> same_core p s t
    \<and> (\<forall>x. accounted E x \<longrightarrow> bal (w_log t) x = bal (w_log s) x - bufs_held (w_drv s p) x - one (Ring ch) x)"
  using cleanup_spec [OF _ assms, of E] cleanup_spec [OF accounted_other assms, of E]
  by (simp add: fail_close_def fail_free_ring_def effect_simps)

text \<open>What a bound device holds: the ring, the buffers, and what the core holds for it.\<close>

definition dev_held :: "ptr \<Rightarrow> ptr \<Rightarrow> ptr \<Rightarrow> int \<Rightarrow> pdata world \<Rightarrow> resource \<Rightarrow> int" where
  "dev_held ch p idev m s x = one (Ring ch) x + bufs_held (w_drv s p) x + one (Mem K_uio_device idev) x
     + reg_held idev m (w_info s p) s x"

definition bound :: "ptr \<Rightarrow> ptr \<Rightarrow> ptr \<Rightarrow> int \<Rightarrow> hv_state \<Rightarrow> bool" where
  "bound dev p idev m hs \<longleftrightarrow> hs_drvdata hs dev = p \<and> p \<noteq> NULL \<and> bufs_ok (w_drv (hs_w hs) p)
     \<and> registered p idev (hs_w hs) \<and> hv.served (hs_w hs) p
     \<and> (\<exists>d. w_dev (hs_w hs) idev = Some d \<and> d_minor d = m \<and> d_info d = p)"


lemma came_up_served:
  assumes "came_up owner p idev m s t" "info_open (w_info s p) = Some hv_uio_open"
    "info_release (w_info s p) = Some hv_uio_release" "0 \<le> pd_refcnt (w_drv s p)"
  shows "hv.served t p"
  using assms clean_info_sel [of "w_info t p" "(w_info s p)\<lparr>info_uio_dev := idev\<rparr>"]
  by (simp add: came_up_def hv.served_def)

text \<open>The outcome of the probe, from its state before the ring was allocated: failed with everything given
  back, or bound.\<close>

definition probe_outcome :: "env \<Rightarrow> ptr \<Rightarrow> ptr \<Rightarrow> ptr \<Rightarrow> (resource \<Rightarrow> int) \<Rightarrow> hv_state \<Rightarrow> int \<Rightarrow> hv_state \<Rightarrow> bool" where
  "probe_outcome E dev ch p b hs ret hs' \<longleftrightarrow>
     (if ret = 0
      then (\<exists>idev m. bound dev p idev m hs' \<and> w_dev (hs_w hs) idev = None \<and> w_idr (hs_w hs) m = None
             \<and> (\<exists>d. w_dev (hs_w hs') = (w_dev (hs_w hs))(idev \<mapsto> d) \<and> d_kref d = 1)
             \<and> w_idr (hs_w hs') = (w_idr (hs_w hs))(m \<mapsto> idev) \<and> w_lst (hs_w hs') = w_lst (hs_w hs)
             \<and> pd_refcnt (w_drv (hs_w hs') p) = 0
             \<and> (\<forall>x. accounted E x \<longrightarrow> x \<noteq> Bin_file ch \<longrightarrow>
                   bal (w_log (hs_w hs')) x = b x + dev_held ch p idev m (hs_w hs') x))
      else w_dev (hs_w hs') = w_dev (hs_w hs) \<and> w_idr (hs_w hs') = w_idr (hs_w hs) \<and> w_lst (hs_w hs') = w_lst (hs_w hs)
        \<and> hs_drvdata hs' = hs_drvdata hs \<and> (\<forall>x. accounted E x \<longrightarrow> bal (w_log (hs_w hs')) x = b x))"

lemma probe_outcome_start:
  assumes "same_core p (hs_w hs) s" "probe_outcome E dev ch p b (hs\<lparr>hs_w := s\<rparr>) ret hs'"
  shows "probe_outcome E dev ch p b hs ret hs'"
proof -
  have "w_dev s = w_dev (hs_w hs)" "w_idr s = w_idr (hs_w hs)" "w_lst s = w_lst (hs_w hs)"
    using assms(1) by (simp_all add: same_core_def)
  moreover have "hs_w (hs\<lparr>hs_w := s\<rparr>) = s" "hs_drvdata (hs\<lparr>hs_w := s\<rparr>) = hs_drvdata hs" by simp_all
  ultimately show ?thesis using assms(2) unfolding probe_outcome_def by (simp only:)
qed

definition ready_info :: "pdata uio_info \<Rightarrow> bool" where
  "ready_info i \<longleftrightarrow> wf_info i \<and> info_open i = Some hv_uio_open \<and> info_release i = Some hv_uio_release"

lemma probe_register_outcome:
  assumes "store_ok (hs_w hs)" "kernel_ok E" "ready_info (w_info (hs_w hs) p)" "bufs_ok (w_drv (hs_w hs) p)"
    "pd_refcnt (w_drv (hs_w hs) p) = 0" "p \<noteq> NULL"
    "\<And>x. accounted E x \<Longrightarrow> bal (w_log (hs_w hs)) x = b x + one (Ring ch) x + bufs_held (w_drv (hs_w hs) p) x"
  shows "\<exists>ret hs'. probe_register E dev ch p hs = Some (ret, hs') \<and> probe_outcome E dev ch p b hs ret hs'"
proof -
  let ?s1 = "on_drv p (\<lambda>pd. pd\<lparr>pd_device := dev\<rparr>) (upd_info p (\<lambda>i. i\<lparr>info_priv := p\<rparr>) (hs_w hs))"
  have st: "store_ok ?s1" "wf_info (w_info ?s1 p)" using assms(1,3) by (simp_all add: store_ok_def ready_info_def wf_info_def)
  have bh: "bufs_held (w_drv ?s1 p) = bufs_held (w_drv (hs_w hs) p)" "bufs_ok (w_drv ?s1 p)"
    using assms(4) by (simp_all add: bufs_held_def bufs_ok_def fun_eq_iff)
  have fail: "\<exists>ret' hs'. probe_register E dev ch p hs = Some (ret', hs') \<and> probe_outcome E dev ch p b hs ret' hs'"
    if r: "uio_register_device E THIS_MODULE dev p ?s1 = Some (ret, s2)" "ret \<noteq> 0" "no_trace p ?s1 s2" for ret s2
  proof -
    let ?s3 = "kvoid_w (Dev (Dev_err ''hv_uio register failed'')) s2"
    have "w_drv ?s3 p = w_drv ?s1 p" using r(3) by (simp add: no_trace_def)
    then obtain t where t: "fail_close E p ch ret ?s3 = (ret, t)" "same_core p ?s3 t"
      "\<forall>x. accounted E x \<longrightarrow> bal (w_log t) x = bal (w_log ?s3) x - bufs_held (w_drv ?s1 p) x - one (Ring ch) x"
      using fail_close_spec [of ?s3 p E ch ret] bh(2) by auto
    have "probe_register E dev ch p hs = Some (ret, hs\<lparr>hs_w := t\<rparr>)"
      using r t(1) by (simp add: probe_register_def)
    moreover have "bal (w_log t) x = b x" if "accounted E x" for x
      using t(3) that assms(7) [OF that] r(3) bh(1) by (simp add: no_trace_def effect_simps)
    then have "probe_outcome E dev ch p b hs ret (hs\<lparr>hs_w := t\<rparr>)"
      using t(2) r(2,3) by (simp add: probe_outcome_def same_core_def no_trace_def)
    ultimately show ?thesis by blast
  qed
  show ?thesis
  proof (cases "reg_args_ok dev p ?s1")
    case False
    from register_early [OF False, of E THIS_MODULE] obtain ret where
      "uio_register_device E THIS_MODULE dev p ?s1 = Some (ret, ?s1)" "ret < 0" by blast
    then show ?thesis using fail [of ret ?s1] by (simp add: no_trace_def)
  next
    case True
    obtain ret s2 where s2: "uio_register_device E THIS_MODULE dev p ?s1 = Some (ret, s2)"
      "ret = 0 \<Longrightarrow> \<exists>idev m. came_up THIS_MODULE p idev m ?s1 s2" "ret \<noteq> 0 \<Longrightarrow> no_trace p ?s1 s2"
      using register_cases [OF st(1) assms(2) True st(2), of THIS_MODULE] by (auto split: if_splits)
    show ?thesis
    proof (cases "ret = 0")
      case False
      then show ?thesis using fail [OF s2(1)] s2(3) by blast
    next
      case r: True
      then obtain idev m where c: "came_up THIS_MODULE p idev m ?s1 s2" using s2(2) by blast
      let ?s3 = "snd (kdo_w E (Hv (Sysfs_create_bin_file ch)) s2)"
      define s4 where "s4 = (if E (w_log s2) (Hv (Sysfs_create_bin_file ch)) \<noteq> 0
        then kvoid_w (Dev (Dev_notice ''sysfs create ring bin file failed'')) ?s3 else ?s3)"
      let ?hs = "hs\<lparr>hs_w := s4, hs_drvdata := (hs_drvdata hs)(dev := p)\<rparr>"
      have top: "probe_register E dev ch p hs = Some (0, ?hs)"
        using s2(1) r by (simp add: probe_register_def Let_def case_prod_beta s4_def)
      have w4: "w_dev s4 = w_dev s2" "w_info s4 = w_info s2" "w_idr s4 = w_idr s2" "w_drv s4 = w_drv s2" "w_lst s4 = w_lst s2"
        by (simp_all add: s4_def)
      have b4: "x \<noteq> Bin_file ch \<Longrightarrow> bal (w_log s4) x = bal (w_log s2) x" for x by (simp add: s4_def effect_simps)
      have reg: "registered p idev s2" using came_up_registered [OF c assms(6)] .
      have "hv.served s2 p" using came_up_served [OF c] assms(3,5) by (simp add: ready_info_def)
      then have bd: "bound dev p idev m ?hs"
        using reg c bh(2) assms(6) by (auto simp: bound_def w4 registered_def came_up_def hv.served_def)
      have "w_drv s4 p = w_drv ?s1 p" using c w4(4) by (simp add: came_up_def)
      then have hd: "dev_held ch p idev m s4 x = one (Ring ch) x + bufs_held (w_drv ?s1 p) x + one (Mem K_uio_device idev) x
          + reg_held idev m (w_info s2 p) s2 x" and rc: "pd_refcnt (w_drv s4 p) = 0" for x
        using assms(5) by (simp_all add: dev_held_def reg_held_def w4(2) attrs_held_dev [OF w4(1)])
      have bal4: "\<forall>x. accounted E x \<longrightarrow> x \<noteq> Bin_file ch \<longrightarrow> bal (w_log s4) x = b x + dev_held ch p idev m s4 x"
        unfolding hd using b4 assms(7) c bh(1) by (simp add: came_up_def)
      have "w_dev (hs_w hs) idev = None" "w_idr (hs_w hs) m = None" "\<exists>d. w_dev s4 = (w_dev (hs_w hs))(idev \<mapsto> d) \<and> d_kref d = 1"
        "w_idr s4 = (w_idr (hs_w hs))(m \<mapsto> idev)" "w_lst s4 = w_lst (hs_w hs)"
        using c w4 by (auto simp: came_up_def)
      moreover have hw: "hs_w ?hs = s4" by simp
      ultimately have "probe_outcome E dev ch p b hs 0 ?hs"
        unfolding probe_outcome_def hw using bd bal4 rc by (subst if_P [OF refl]) blast
      with top show ?thesis by blast
    qed
  qed
qed


lemma probe_bufs_outcome:
  assumes "store_ok (hs_w hs)" "kernel_ok E" "handles_ok E" "ready_info (w_info (hs_w hs) p)"
    "w_drv (hs_w hs) p = set_channel_read_mode ch HV_CALL_ISR (zero_pdata ch chans)" "p \<noteq> NULL"
    "\<And>x. bal (w_log (hs_w hs)) x = b x + one (Ring ch) x"
  shows "\<exists>ret hs'. probe_bufs E dev ch p hs = Some (ret, hs') \<and> probe_outcome E dev ch p b hs ret hs'"
proof -
  have pd0: "pd_refcnt (w_drv (hs_w hs) p) = 0" "pd_send_gpadl (w_drv (hs_w hs) p) = zero_gpadl"
    using assms(5) by (simp_all add: set_channel_read_mode_def zero_pdata_def)
  obtain r1 buf1 g1 s1 where s1: "probe_buf E ch RECV_BUFFER_SIZE (hs_w hs) = (r1, buf1, g1, s1)" by (metis surj_pair)
  note b1 = probe_buf_spec [OF s1 assms(3)]
  note f1 = b1 [OF accounted_other, of p]
  let ?s2 = "on_drv p (\<lambda>pd. pd\<lparr>pd_recv_buf := buf1, pd_recv_gpadl := g1\<rparr>) s1"
  have c1: "same_core p (hs_w hs) s1" "w_drv s1 = w_drv (hs_w hs)" "w_info s1 = w_info (hs_w hs)" using f1 by blast+
  have bh1: "bufs_held (w_drv ?s2 p) x = buf_held buf1 g1 x" for x
    using c1 pd0 by (simp add: bufs_held_def buf_held_def zero_gpadl_def)
  have bl1: "accounted E x \<Longrightarrow> bal (w_log ?s2) x = b x + one (Ring ch) x + buf_held buf1 g1 x" for x
    using b1 [of x p] assms(7) [of x] by simp
  have fail: "probe_outcome E dev ch p b hs r (hs\<lparr>hs_w := t\<rparr>)"
    if "r \<noteq> 0" "same_core p (hs_w hs) t" "\<And>x. accounted E x \<Longrightarrow> bal (w_log t) x = b x" for r t
    using that by (simp add: probe_outcome_def same_core_def)
  consider (none) "buf1 = NULL" | (err) "buf1 \<noteq> NULL" "r1 \<noteq> 0" | (ok) "buf1 \<noteq> NULL" "r1 = 0" by blast
  then show ?thesis
  proof cases
    case none
    let ?t = "kvoid_w (Hv (Vmbus_free_ring ch)) ?s2"
    have "r1 \<noteq> 0" "gp_handle g1 = 0" using none f1 by auto
    moreover have "bal (w_log ?t) x = b x" if "accounted E x" for x
      using bl1 [OF that] calculation(2) by (simp add: effect_simps buf_held_def)
    ultimately have "probe_outcome E dev ch p b hs r1 (hs\<lparr>hs_w := ?t\<rparr>)" using c1 by (intro fail) simp_all
    with none s1 show ?thesis by (simp add: probe_bufs_def fail_free_ring_def Let_def)
  next
    case err
    have "gp_handle g1 = 0" using err f1 by auto
    then have "bufs_ok (w_drv ?s2 p)" using c1 pd0 by (simp add: bufs_ok_def zero_gpadl_def)
    from fail_close_spec [OF this, of E ch r1] obtain t where t: "fail_close E p ch r1 ?s2 = (r1, t)" "same_core p ?s2 t"
      "\<forall>x. accounted E x \<longrightarrow> bal (w_log t) x = bal (w_log ?s2) x - buf_held buf1 g1 x - one (Ring ch) x"
      unfolding bh1 by blast
    have "same_core p (hs_w hs) t" using c1(1) t(2) same_core_trans [of p "hs_w hs" ?s2 t] by simp
    then have "probe_outcome E dev ch p b hs r1 (hs\<lparr>hs_w := t\<rparr>)" using err t(3) bl1 by (intro fail) simp_all
    with err s1 t(1) show ?thesis by (simp add: probe_bufs_def Let_def)
  next
    case ok
    let ?n = "''recv:'' @ fmt_u (unat (gp_handle g1))"
    let ?s3 = "on_drv p (\<lambda>pd. pd\<lparr>pd_recv_name := ?n\<rparr>)
      (upd_info p (set_region RECV_BUF_MAP ?n (of_int buf1) RECV_BUFFER_SIZE UIO_MEM_VIRTUAL) ?s2)"
    obtain r2 buf2 g2 s4 where s4: "probe_buf E ch SEND_BUFFER_SIZE ?s3 = (r2, buf2, g2, s4)" by (metis surj_pair)
    note b2 = probe_buf_spec [OF s4 assms(3)]
    note f2 = b2 [OF accounted_other, of p]
    let ?s5 = "on_drv p (\<lambda>pd. pd\<lparr>pd_send_buf := buf2, pd_send_gpadl := g2\<rparr>) s4"
    have c2: "same_core p (hs_w hs) s4" "w_drv s4 p = w_drv ?s3 p" "w_info s4 = w_info ?s3"
      using f2 c1(1) same_core_trans [of p "hs_w hs" ?s3 s4] by simp_all
    have bh2: "bufs_held (w_drv ?s5 p) x = buf_held buf1 g1 x + buf_held buf2 g2 x" for x
      using c2(2) by (simp add: bufs_held_def)
    have bo2: "bufs_ok (w_drv ?s5 p)" using c2(2) ok f2 by (auto simp: bufs_ok_def)
    have bl2: "accounted E x \<Longrightarrow> bal (w_log ?s5) x = b x + one (Ring ch) x + (buf_held buf1 g1 x + buf_held buf2 g2 x)" for x
      using b2 [of x p] bl1 [of x] by simp
    show ?thesis
    proof (cases "r2 = 0")
      case False
      from fail_close_spec [OF bo2, of E ch r2] obtain t where t: "fail_close E p ch r2 ?s5 = (r2, t)" "same_core p ?s5 t"
        "\<forall>x. accounted E x \<longrightarrow> bal (w_log t) x = bal (w_log ?s5) x - (buf_held buf1 g1 x + buf_held buf2 g2 x) - one (Ring ch) x"
        unfolding bh2 by blast
      have "same_core p (hs_w hs) t" using c2(1) t(2) same_core_trans [of p "hs_w hs" ?s5 t] by simp
      then have "probe_outcome E dev ch p b hs r2 (hs\<lparr>hs_w := t\<rparr>)" using False t(3) bl2 by (intro fail) simp_all
      with ok False s1 s4 t(1) show ?thesis by (simp add: probe_bufs_def Let_def)
    next
      case True
      let ?m = "''send:'' @ fmt_u (unat (gp_handle g2))"
      let ?s6 = "on_drv p (\<lambda>pd. pd\<lparr>pd_send_name := ?m\<rparr>)
        (upd_info p (set_region SEND_BUF_MAP ?m (of_int buf2) SEND_BUFFER_SIZE UIO_MEM_VIRTUAL) ?s5)"
      let ?hs = "hs\<lparr>hs_w := ?s6\<rparr>"
      have top: "probe_bufs E dev ch p hs = probe_register E dev ch p ?hs"
        using ok True s1 s4 by (simp add: probe_bufs_def Let_def)
      have sc: "same_core p (hs_w hs) ?s6" using c2(1) by simp
      have "bal (w_log ?s6) x = bal (w_log (hs_w hs)) x" if "core_res x" for x
        using bl2 [of x] assms(7) [of x] that by (auto simp: core_accounted buf_held_core)
      then have st: "store_ok (hs_w ?hs)"
        using store_ok_frame [OF assms(1), of ?s6] sc by (simp add: same_core_def)
      have ri: "ready_info (w_info (hs_w ?hs) p)"
        using assms(4) c1(3) c2(3) by (simp add: ready_info_def wf_info_def set_region_def)
      have pd: "bufs_ok (w_drv (hs_w ?hs) p)" "pd_refcnt (w_drv (hs_w ?hs) p) = 0"
        using bo2 c2(2) pd0(1) c1(2) by (simp_all add: bufs_ok_def)
      have "\<exists>ret hs'. probe_register E dev ch p ?hs = Some (ret, hs') \<and> probe_outcome E dev ch p b ?hs ret hs'"
        by (rule probe_register_outcome [OF st assms(2) ri pd assms(6)])
          (use bl2 bh2 in \<open>simp add: bufs_held_def\<close>)
      then show ?thesis using top probe_outcome_start [OF sc] by auto
    qed
  qed
qed

lemma probe_cases:
  assumes "store_ok (hs_w hs)" "kernel_ok E" "handles_ok E"
  shows "\<exists>ret hs' p. hv_uio_probe E devs conn dev ch chans hs = Some (ret, hs')
    \<and> probe_outcome E dev ch p (bal (w_log (hs_w hs))) hs ret hs'"
proof -
  let ?p = "E (w_log (hs_w hs)) (Hv Devm_kzalloc)"
  let ?rs = "if hv_dev_ring_size devs (chans ch) = 0 then SZ_2M else hv_dev_ring_size devs (chans ch)"
  let ?s1 = "snd (kdo_w E (Hv Devm_kzalloc) (hs_w hs))"
  let ?s2 = "on_drv ?p (\<lambda>_. zero_pdata ch chans) (upd_info ?p (\<lambda>_. zero_info) ?s1)"
  let ?s3 = "snd (kdo_w E (Hv (Vmbus_alloc_ring ch ?rs ?rs)) ?s2)"
  let ?r3 = "E (w_log ?s2) (Hv (Vmbus_alloc_ring ch ?rs ?rs))"
  consider (mem) "?p = NULL" | (ring) "?p \<noteq> NULL" "?r3 \<noteq> 0" | (ok) "?p \<noteq> NULL" "?r3 = 0" by blast
  then show ?thesis
  proof cases
    case mem
    then show ?thesis by (simp add: hv_uio_probe_def Let_def case_prod_beta probe_outcome_def errno_simps effect_simps)
  next
    case ring
    then show ?thesis by (simp add: hv_uio_probe_def Let_def case_prod_beta probe_outcome_def effect_simps)
  next
    case ok
    let ?s4 = "on_drv ?p (set_channel_read_mode ch HV_CALL_ISR) ?s3"
    let ?s5 = "snd (kdo_w E (Mm (Out_ring_phys ch)) ?s4)"
    let ?s6 = "snd (kdo_w E (Mm (Out_ring_pagecount ch)) ?s5)"
    define s7 where "s7 = upd_info ?p (probe_info conn (of_int (E (w_log ?s4) (Mm (Out_ring_phys ch))))
      (of_int (E (w_log ?s5) (Mm (Out_ring_pagecount ch))))) ?s6"
    let ?hs = "hs\<lparr>hs_w := s7\<rparr>"
    have top: "hv_uio_probe E devs conn dev ch chans hs = probe_bufs E dev ch ?p ?hs"
      using ok by (simp add: hv_uio_probe_def Let_def case_prod_beta s7_def)
    have sc: "same_core ?p (hs_w hs) s7" by (simp add: s7_def)
    have b7: "bal (w_log s7) x = bal (w_log (hs_w hs)) x + one (Ring ch) x" for x
      using ok by (simp add: s7_def effect_simps)
    have "bal (w_log s7) x = bal (w_log (hs_w hs)) x" if "core_res x" for x
      unfolding b7 using that by (auto simp: one_def)
    then have st: "store_ok (hs_w ?hs)"
      using store_ok_frame [OF assms(1), of s7] sc by (simp add: same_core_def)
    have ri: "ready_info (w_info (hs_w ?hs) ?p)"
      by (simp add: s7_def ready_info_def wf_info_def zero_info_def probe_info_def set_region_def Let_def)
    have pd: "w_drv (hs_w ?hs) ?p = set_channel_read_mode ch HV_CALL_ISR (zero_pdata ch chans)"
      by (simp add: s7_def)
    have "\<exists>ret hs'. probe_bufs E dev ch ?p ?hs = Some (ret, hs') \<and> probe_outcome E dev ch ?p (bal (w_log (hs_w hs))) ?hs ret hs'"
      by (rule probe_bufs_outcome [OF st assms(2,3) ri pd ok(1)]) (simp add: b7)
    then show ?thesis using top probe_outcome_start [OF sc] by metis
  qed
qed


lemma remove_spec:
  assumes "bound dev p idev m hs" "w_dev (hs_w hs) idev = Some d"
  shows "\<exists>hs'. hv_uio_remove E dev ch hs = Some hs' \<and> w_lst (hs_w hs') = w_lst (hs_w hs)
    \<and> w_idr (hs_w hs') = (w_idr (hs_w hs))(m := None)
    \<and> w_dev (hs_w hs') = (w_dev (hs_w hs))(idev := if d_kref d = 1 then None else Some (d\<lparr>d_info := NULL, d_kref := d_kref d - 1\<rparr>))
    \<and> (\<forall>x. accounted E x \<longrightarrow> x \<noteq> Bin_file ch \<longrightarrow> bal (w_log (hs_w hs')) x = bal (w_log (hs_w hs)) x
          - dev_held ch p idev m (hs_w hs) x + (if d_kref d = 1 then 0 else one (Mem K_uio_device idev) x))"
proof -
  let ?s1 = "kvoid_w (Hv (Sysfs_remove_bin_file ch)) (hs_w hs)"
  have p: "hs_drvdata hs dev = p" "p \<noteq> NULL" "bufs_ok (w_drv (hs_w hs) p)" "d_minor d = m"
    using assms by (auto simp: bound_def)
  have r: "registered p idev ?s1" "w_dev ?s1 idev = Some d" using assms by (auto simp: bound_def registered_def)
  obtain s2 where s2: "uio_unregister_device p ?s1 = Some s2" "w_info s2 = w_info (hs_w hs)" "w_drv s2 = w_drv (hs_w hs)"
    "w_idr s2 = (w_idr (hs_w hs))(m := None)" "w_lst s2 = w_lst (hs_w hs)"
    "w_dev s2 = (w_dev (hs_w hs))(idev := if d_kref d = 1 then None else Some (d\<lparr>d_info := NULL, d_kref := d_kref d - 1\<rparr>))"
    "\<forall>x. bal (w_log s2) x = bal (w_log ?s1) x - reg_held idev m (w_info ?s1 p) ?s1 x
          - (if d_kref d = 1 then one (Mem K_uio_device idev) x else 0)"
    using unregister_cases [OF r] p(4) by auto
  have rh: "reg_held idev m (w_info ?s1 p) ?s1 x = reg_held idev m (w_info (hs_w hs) p) (hs_w hs) x" for x
    by (simp add: reg_held_def attrs_held_dev [of ?s1 "hs_w hs"])
  let ?s3 = "hv_uio_cleanup E p s2"
  have bo: "bufs_ok (w_drv s2 p)" using p(3) s2(3) by simp
  have c: "same_core p s2 ?s3" using cleanup_spec [OF accounted_other bo] by blast
  have b3: "accounted E x \<Longrightarrow> bal (w_log ?s3) x = bal (w_log s2) x - bufs_held (w_drv (hs_w hs) p) x" for x
    using cleanup_spec [OF _ bo, of E x] s2(3) by simp
  have "hv_uio_remove E dev ch hs = Some (hs\<lparr>hs_w := kvoid_w (Hv (Vmbus_free_ring ch)) ?s3\<rparr>)"
    using p(1,2) s2(1) by (simp add: hv_uio_remove_def Let_def)
  moreover have "bal (w_log (kvoid_w (Hv (Vmbus_free_ring ch)) ?s3)) x = bal (w_log (hs_w hs)) x
          - dev_held ch p idev m (hs_w hs) x + (if d_kref d = 1 then 0 else one (Mem K_uio_device idev) x)"
    if "accounted E x" "x \<noteq> Bin_file ch" for x
    using that b3 [OF that(1)] s2(7) unfolding rh by (simp add: effect_simps dev_held_def)
  ultimately show ?thesis using c s2 by (simp add: same_core_def)
qed

section \<open>Properties\<close>





text \<open>Writing a word to the device file of the driver turns the channel's interrupts off (0) or on (any
  other value) through the interrupt mask of the inbound ring, signals the host exactly when they are
  turned on and the channel has no monitor, returns 4 and gives the lock back.\<close>

theorem hv_write_sets_interrupt_mask:
  assumes "w_lst s f = Some l" "w_dev s (l_dev l) = Some d" "d_info d \<noteq> NULL"
    "info_irq (w_info s (d_info d)) = UIO_IRQ_CUSTOM" "info_irqcontrol (w_info s (d_info d)) = Some hv_uio_irqcontrol"
    "\<forall>k. E k (Mm Copy_from_user) = 0" "\<forall>k. E k (Mm Out_copy_from_user) = v" "ch = pd_channel (w_drv s (d_info d))"
  shows "\<exists>t. uio_write E f 4 s = Some (4, t)
    \<and> ch_interrupt_mask (pd_chans (w_drv t (d_info d)) ch) = (if (of_int v :: u32) = 0 then 1 else 0)
    \<and> ((Hv (Vmbus_setevent ch), 0) \<in> set (w_log t) - set (w_log s)
         \<longleftrightarrow> (of_int v :: u32) \<noteq> 0 \<and> \<not> ch_monitor_allocated (pd_chans (w_drv s (d_info d)) ch)
           \<and> (Hv (Vmbus_setevent ch), 0) \<notin> set (w_log s))
    \<and> bal (w_log t) = bal (w_log s)"
proof -
  have z: "sint (of_int v :: u32) = 0 \<longleftrightarrow> (of_int v :: u32) = 0" by (rule signed_eq_0_iff)
  show ?thesis
    using assms
    by (auto simp: uio_write_def case_prod_beta Let_def sizeof_s32_def run_cb_def hv_uio_irqcontrol_def z set_mask_def
        UIO_IRQ_CUSTOM_def mutex_lock_def mutex_unlock_def kvoid_def effect_simps fun_eq_iff)
qed

text \<open>A channel interrupt of a bound device reaches the reader and stops further interrupts: the
  callback sets the interrupt mask of the channel and adds one event, so a listener that was up to
  date finds the device readable.\<close>

theorem channel_interrupt_reaches_listener:
  assumes "bound dev p (l_dev l) m hs" "w_lst (hs_w hs) f = Some l" "w_dev (hs_w hs) (l_dev l) = Some d"
    "info_irq (w_info (hs_w hs) p) \<noteq> 0" "l_event_count l = d_event d"
  shows "\<exists>hs' u. hv_uio_channel_cb dev p ch hs = Some hs'
    \<and> ch_interrupt_mask (pd_chans (w_drv (hs_w hs') p) ch) = 1
    \<and> uio_poll f (hs_w hs') = Some (EPOLLIN OR EPOLLRDNORM, u) \<and> bal (w_log (hs_w hs')) = bal (w_log (hs_w hs))"
proof -
  have p: "hs_drvdata hs dev = p" "p \<noteq> NULL" "d_info d = p" "info_uio_dev (w_info (hs_w hs) p) = l_dev l"
    using assms(1,3) by (auto simp: bound_def registered_def)
  let ?s2 = "kvoid_w (Sync Virt_mb) (on_drv p (set_mask ch 1) (hs_w hs))"
  have i: "info_uio_dev (w_info ?s2 p) = l_dev l" "w_dev ?s2 (l_dev l) = Some d" using p assms by simp_all
  obtain t where t: "uio_event_notify p ?s2 = Some t" "w_dev t = (w_dev ?s2)(l_dev l \<mapsto> d\<lparr>d_event := d_event d + 1\<rparr>)"
    "w_info t = w_info ?s2" "w_lst t = w_lst ?s2" "w_drv t = w_drv ?s2" "bal (w_log t) = bal (w_log ?s2)"
    using notify_once [OF i] by blast
  have "w_lst t f = Some l" "w_dev t (l_dev l) = Some (d\<lparr>d_event := d_event d + 1\<rparr>)" using t assms by simp_all
  from poll_spec [OF this] obtain u where "uio_poll f t = Some (EPOLLIN OR EPOLLRDNORM, u)"
    using assms(4,5) p t(3) by (auto simp: no_irq_def)
  moreover have "hv_uio_channel_cb dev p ch hs = Some (hs\<lparr>hs_w := t\<rparr>)"
    using p t(1) by (simp add: hv_uio_channel_cb_def Let_def)
  moreover have "ch_interrupt_mask (pd_chans (w_drv t p) ch) = 1" using t(5) by (simp add: set_mask_def)
  moreover have "bal (w_log t) = bal (w_log (hs_w hs))" using t(6) by (simp add: effect_simps fun_eq_iff)
  ultimately show ?thesis by auto
qed

text \<open>When the host rescinds the channel, readers are told: the device's interrupt is turned off and
  an event is sent, after which poll and read of every open file of the device report \<open>-EIO\<close>, and the
  device is unregistered from the bus.\<close>

theorem rescind_ends_reads:
  assumes "bound dev p (l_dev l) m hs" "w_lst (hs_w hs) f = Some l" "w_dev (hs_w hs) (l_dev l) = Some d"
  shows "\<exists>hs' u v. hv_uio_rescind dev hs = Some hs'
    \<and> uio_poll f (hs_w hs') = Some (of_int (- EIO), u)
    \<and> uio_read E f 4 nb gs (hs_w hs') = Read_done (- EIO) None v
    \<and> hd (w_log (hs_w hs')) = (Hv (Vmbus_device_unregister dev), 0)"
proof -
  have p: "hs_drvdata hs dev = p" "p \<noteq> NULL" "d_info d = p" "info_uio_dev (w_info (hs_w hs) p) = l_dev l"
    using assms(1,3) by (auto simp: bound_def registered_def)
  let ?s1 = "upd_info p (\<lambda>i. i\<lparr>info_irq := 0\<rparr>) (hs_w hs)"
  have i: "info_uio_dev (w_info ?s1 p) = l_dev l" "w_dev ?s1 (l_dev l) = Some d" using p assms by simp_all
  obtain t where t: "uio_event_notify p ?s1 = Some t" "w_dev t = (w_dev ?s1)(l_dev l \<mapsto> d\<lparr>d_event := d_event d + 1\<rparr>)"
    "w_info t = w_info ?s1" "w_lst t = w_lst ?s1"
    using notify_once [OF i] by blast
  let ?t = "kvoid_w (Hv (Vmbus_device_unregister dev)) t"
  have l: "w_lst ?t f = Some l" "w_dev ?t (l_dev l) = Some (d\<lparr>d_event := d_event d + 1\<rparr>)"
    "no_irq (d\<lparr>d_event := d_event d + 1\<rparr>) ?t" using t assms p by (simp_all add: no_irq_def)
  have "\<exists>u. uio_poll f ?t = Some (of_int (- EIO), u)" using poll_spec [OF l(1,2)] l(3) by auto
  moreover have "\<exists>v. read_loop E f nb gs (kvoid_w (Sync (Add_wait_queue (l_dev l))) ?t) = Read_done (- EIO) None v"
    using l by (cases gs) (simp_all add: read_round_def no_irq_def Let_def)
  then have "\<exists>v. uio_read E f 4 nb gs ?t = Read_done (- EIO) None v"
    using l by (auto simp: uio_read_def sizeof_s32_def)
  moreover have "hv_uio_rescind dev hs = Some (hs\<lparr>hs_w := ?t\<rparr>)"
    using p t(1) by (simp add: hv_uio_rescind_def Let_def)
  ultimately show ?thesis by auto
qed


text \<open>Opening a subchannel either leaves it open with its interrupts masked and its ring exported, or
  leaves nothing: a failure of \<open>vmbus_open\<close> or of the ring file gives back what was taken.\<close>

theorem new_channel_all_or_nothing:
  "bal (w_log (hv_uio_new_channel E p sc s)) = bal (w_log s)
   \<or> (\<forall>x. bal (w_log (hv_uio_new_channel E p sc s)) x = bal (w_log s) x + one (Chan_open sc) x + one (Bin_file sc) x)
     \<and> ch_interrupt_mask (pd_chans (w_drv (hv_uio_new_channel E p sc s) p) sc) = 1
     \<and> ch_read_mode (pd_chans (w_drv (hv_uio_new_channel E p sc s) p) sc) = HV_CALL_ISR"
  by (auto simp: hv_uio_new_channel_def Let_def case_prod_beta effect_simps fun_eq_iff set_mask_def set_channel_read_mode_def)

text \<open>C28. Removing the driver while a file is open does not disconnect the ring: the ring is freed, but the
  connection that the open made stays, and closing the file afterwards does not undo it either, because
  the core no longer calls the driver.\<close>

theorem remove_while_open_keeps_connection:
  assumes "bound dev p (l_dev l) m hs" "w_dev (hs_w hs) (l_dev l) = Some d" "w_lst (hs_w hs) f = Some l" "f \<noteq> NULL"
    "2 \<le> d_kref d"
  shows "\<exists>hs' r u. hv_uio_remove E dev ch hs = Some hs' \<and> uio_release E f (hs_w hs') = Some (r, u)
    \<and> bal (w_log u) (Ring ch) = bal (w_log (hs_w hs)) (Ring ch) - 1
    \<and> bal (w_log u) (Ring_conn c) = bal (w_log (hs_w hs)) (Ring_conn c)"
proof -
  let ?d = "d\<lparr>d_info := NULL, d_kref := d_kref d - 1\<rparr>"
  have ac: "accounted E (Ring ch)" "accounted E (Ring_conn c)" by (simp_all add: accounted_def)
  obtain hs' where h: "hv_uio_remove E dev ch hs = Some hs'" "w_lst (hs_w hs') = w_lst (hs_w hs)"
    "w_dev (hs_w hs') = (w_dev (hs_w hs))(l_dev l \<mapsto> ?d)"
    "\<forall>x. accounted E x \<longrightarrow> x \<noteq> Bin_file ch \<longrightarrow> bal (w_log (hs_w hs')) x = bal (w_log (hs_w hs)) x
          - dev_held ch p (l_dev l) m (hs_w hs) x + one (Mem K_uio_device (l_dev l)) x"
    using remove_spec [OF assms(1,2), of E ch] assms(5) by (auto split: if_splits)
  have n: "l_dev l \<noteq> NULL" using assms(1) by (auto simp: bound_def registered_def)
  have "w_lst (hs_w hs') f = Some l" "w_dev (hs_w hs') (l_dev l) = Some ?d" using h assms(3) by simp_all
  from release_cases [OF this n assms(4), of E] obtain r u k k' drv' where
    u: "uio_release E f (hs_w hs') = Some (r, u)"
      "\<forall>x. bal k x = bal (w_log (hs_w hs')) x + one (Lock (Info_lock (l_dev l))) x"
      "cb_run (if d_info ?d = NULL then None else info_release (w_info (hs_w hs') (d_info ?d))) E (w_drv (hs_w hs') (d_info ?d)) k r drv' k'"
      "\<forall>x. bal (w_log u) x = bal k' x - one (Lock (Info_lock (l_dev l))) x - open_held (l_dev l) ?d f x
               - (if d_kref ?d = 1 then one (Mem K_uio_device (l_dev l)) x else 0)"
    by blast
  have "k' = k" using u(3) by (simp add: cb_run_def)
  then have "bal (w_log u) x = bal (w_log (hs_w hs')) x" if "x = Ring ch \<or> x = Ring_conn c" for x
    using u(2,4) that by (auto simp: open_held_def)
  moreover have "dev_held ch p (l_dev l) m (hs_w hs) (Ring ch) = 1" "dev_held ch p (l_dev l) m (hs_w hs) (Ring_conn c) = 0"
    by (simp_all add: dev_held_def bufs_held_def buf_held_def reg_held_def attrs_held_def dir_held_def)
  ultimately show ?thesis using h(1,4) u(1) ac by auto
qed

section \<open>Examples\<close>

text \<open>A device with its channel before the driver is bound; a kernel without memory for the buffers.\<close>

definition demo_hs :: hv_state where
  "demo_hs = \<lparr>hs_w = (init_world (zero_pdata 0 (\<lambda>_. demo_chan 0)))\<lparr>w_class_registered := True\<rparr>, hs_drvdata = (\<lambda>_. NULL)\<rparr>"

definition demo_conn :: conn_pages where
  "demo_conn = \<lparr>cp_int_page = 0x5000, cp_monitor_page1 = 0x6000\<rparr>"

definition no_vmalloc_env :: env where
  "no_vmalloc_env = sound_env (\<lambda>l c. case c of Mm (Vzalloc n) \<Rightarrow> NULL | _ \<Rightarrow> calm_env l c)"

lemma demo_hs_runs:
  "map_option fst (hv_uio_probe no_vmalloc_env demo_devs demo_conn 8 9 (\<lambda>_. demo_chan 0) demo_hs) = Some (- ENOMEM)"
  by code_simp

text \<open>A kernel that never refuses memory: it hands out an address larger than all it has seen.\<close>

fun seen_addr :: "kcall \<Rightarrow> int \<Rightarrow> int" where
  "seen_addr (Obj (Kzalloc t)) r = \<bar>r\<bar>"
| "seen_addr (Obj (Kmalloc t)) r = \<bar>r\<bar>"
| "seen_addr (Obj (Kfree t p)) r = \<bar>p\<bar>"
| "seen_addr c r = 0"

definition fresh_addr :: "klog \<Rightarrow> ptr" where
  "fresh_addr l = 1 + (\<Sum>e\<leftarrow>l. seen_addr (fst e) (snd e))"

definition lib_env :: env where
  "lib_env l c = (case c of
      Obj (Kzalloc t) \<Rightarrow> fresh_addr l
    | Obj (Kmalloc t) \<Rightarrow> fresh_addr l
    | _ \<Rightarrow> sound_env calm_env l c)"

lemma seen_addr_touch:
  assumes "Mem t p \<in> set (acquires c r) \<or> Mem t p \<in> set (releases c)"
  shows "seen_addr c r = \<bar>p\<bar>"
proof (cases c)
  case (Obj k)
  then show ?thesis using assms by (cases k) (auto split: if_splits)
next
  case (Sync k)
  then show ?thesis using assms by (cases k) auto
next
  case (Dev k)
  then show ?thesis using assms by (cases k) (auto split: if_splits)
next
  case (Reg k)
  then show ?thesis using assms by (cases k) (auto split: if_splits)
next
  case (Mm k)
  then show ?thesis using assms by (cases k) (auto split: if_splits)
next
  case (Hv k)
  then show ?thesis using assms by (cases k) (auto split: if_splits)
qed

lemma seen_addr_nonneg: "0 \<le> seen_addr c r"
  by (cases "(c, r)" rule: seen_addr.cases) auto

lemma seen_sum_nonneg: "0 \<le> (\<Sum>e\<leftarrow>l. seen_addr (fst e) (snd e))"
  by (induction l) (auto simp: seen_addr_nonneg)

lemma larger_unused: "(\<Sum>e\<leftarrow>l. seen_addr (fst e) (snd e)) < p \<Longrightarrow> bal l (Mem t p) = 0"
proof (induction l)
  case (Cons e l)
  have "seen_addr (fst e) (snd e) < p" "(\<Sum>e\<leftarrow>l. seen_addr (fst e) (snd e)) < p"
    using Cons.prems seen_addr_nonneg [of "fst e" "snd e"] seen_sum_nonneg [of l] by simp_all
  then have "bal l (Mem t p) = 0" "Mem t p \<notin> set (acquires (fst e) (snd e))" "Mem t p \<notin> set (releases (fst e))"
    using Cons.IH seen_addr_touch [of t p "fst e" "snd e"] by auto
  then show ?case by (simp add: eff_def)
qed simp

lemma fresh_addr_unused: "unused_mem l (fresh_addr l)"
  by (simp add: unused_mem_def larger_unused fresh_addr_def)

lemma fresh_addr_pos: "0 < fresh_addr l"
  using seen_sum_nonneg [of l] by (simp add: fresh_addr_def)

lemma kernel_ok_lib: "kernel_ok lib_env"
  using kernel_ok_sound_env [of calm_env]
  by (simp add: kernel_ok_def lib_env_def fresh_addr_unused)

text \<open>VMBus grants its part: rings, buffers and their handles.\<close>

definition hv_generous :: "env \<Rightarrow> bool" where
  "hv_generous E \<longleftrightarrow> generous E \<and> (\<forall>l. E l (Hv Devm_kzalloc) \<noteq> NULL) \<and> (\<forall>l n. E l (Mm (Vzalloc n)) \<noteq> NULL)
     \<and> (\<forall>l a c d. E l (Hv (Vmbus_alloc_ring a c d)) = 0) \<and> (\<forall>l a b z. E l (Hv (Vmbus_establish_gpadl a b z)) = 0)"

lemma lib_generous: "hv_generous lib_env"
  using fresh_addr_pos by (auto simp: hv_generous_def generous_def lib_env_def calm_env_def less_le)

lemma probe_buf_granted:
  assumes "hv_generous E"
  shows "\<exists>buf g t. probe_buf E ch n s = (0, buf, g, t) \<and> buf \<noteq> NULL \<and> w_info t = w_info s
    \<and> w_class_registered t = w_class_registered s \<and> bal (w_log t) (Minor_no 0) = bal (w_log s) (Minor_no 0)"
  using assms by (simp add: probe_buf_def case_prod_beta Let_def hv_generous_def effect_simps)

lemma on_drv_class [simp]: "w_class_registered (on_drv p f s) = w_class_registered s"
  by (simp add: on_drv_def)

lemma probe_bufs_granted:
  assumes "hv_generous E" "w_class_registered (hs_w hs)" "dev \<noteq> NULL" "p \<noteq> NULL" "info_name (w_info (hs_w hs) p) \<noteq> None"
    "info_version (w_info (hs_w hs) p) \<noteq> None" "bal (w_log (hs_w hs)) (Minor_no 0) = 0"
  shows "\<exists>hs'. probe_bufs E dev ch p hs = Some (0, hs')"
proof -
  obtain b1 g1 s1 where 1: "probe_buf E ch RECV_BUFFER_SIZE (hs_w hs) = (0, b1, g1, s1)" "b1 \<noteq> NULL" "w_info s1 = w_info (hs_w hs)"
    "w_class_registered s1" "bal (w_log s1) (Minor_no 0) = 0"
    using probe_buf_granted [OF assms(1), of ch RECV_BUFFER_SIZE "hs_w hs"] assms by auto
  define n where "n = ''recv:'' @ fmt_u (unat (gp_handle g1))"
  define s3 where "s3 = on_drv p (\<lambda>pd. pd\<lparr>pd_recv_name := n\<rparr>)
    (upd_info p (set_region RECV_BUF_MAP n (of_int b1) RECV_BUFFER_SIZE UIO_MEM_VIRTUAL)
      (on_drv p (\<lambda>pd. pd\<lparr>pd_recv_buf := b1, pd_recv_gpadl := g1\<rparr>) s1))"
  obtain b2 g2 s4 where 2: "probe_buf E ch SEND_BUFFER_SIZE s3 = (0, b2, g2, s4)" "b2 \<noteq> NULL" "w_info s4 = w_info s3"
    "w_class_registered s4" "bal (w_log s4) (Minor_no 0) = 0"
    using probe_buf_granted [OF assms(1), of ch SEND_BUFFER_SIZE s3] 1 by (auto simp: s3_def)
  define q where "q = ''send:'' @ fmt_u (unat (gp_handle g2))"
  define s6 where "s6 = on_drv p (\<lambda>pd. pd\<lparr>pd_send_name := q\<rparr>)
    (upd_info p (set_region SEND_BUF_MAP q (of_int b2) SEND_BUFFER_SIZE UIO_MEM_VIRTUAL)
      (on_drv p (\<lambda>pd. pd\<lparr>pd_send_buf := b2, pd_send_gpadl := g2\<rparr>) s4))"
  define s7 where "s7 = on_drv p (\<lambda>pd. pd\<lparr>pd_device := dev\<rparr>) (upd_info p (\<lambda>i. i\<lparr>info_priv := p\<rparr>) s6)"
  have "probe_bufs E dev ch p hs = probe_register E dev ch p (hs\<lparr>hs_w := s6\<rparr>)"
    using 1 2 by (simp add: probe_bufs_def Let_def s3_def s6_def n_def q_def)
  moreover have "\<exists>t. uio_register_device E THIS_MODULE dev p s7 = Some (0, t)"
    using assms 1 2
    by (intro register_granted) (simp_all add: hv_generous_def s7_def s6_def s3_def reg_args_ok_def set_region_def)
  ultimately show ?thesis by (auto simp: probe_register_def s7_def Let_def case_prod_beta)
qed

lemma probe_granted:
  assumes "hv_generous E" "w_class_registered (hs_w hs)" "dev \<noteq> NULL" "bal (w_log (hs_w hs)) (Minor_no 0) = 0"
  shows "\<exists>hs'. hv_uio_probe E devs conn dev ch chans hs = Some (0, hs')"
proof -
  define p where "p = E (w_log (hs_w hs)) (Hv Devm_kzalloc)"
  define ring where "ring = (if hv_dev_ring_size devs (chans ch) = 0 then SZ_2M else hv_dev_ring_size devs (chans ch))"
  define s2 where "s2 = on_drv p (\<lambda>_. zero_pdata ch chans) (upd_info p (\<lambda>_. zero_info) (snd (kdo_w E (Hv Devm_kzalloc) (hs_w hs))))"
  define s4 where "s4 = on_drv p (set_channel_read_mode ch HV_CALL_ISR) (snd (kdo_w E (Hv (Vmbus_alloc_ring ch ring ring)) s2))"
  define s5 where "s5 = snd (kdo_w E (Mm (Out_ring_phys ch)) s4)"
  define s7 where "s7 = upd_info p (probe_info conn (of_int (E (w_log s4) (Mm (Out_ring_phys ch))))
    (of_int (E (w_log s5) (Mm (Out_ring_pagecount ch))))) (snd (kdo_w E (Mm (Out_ring_pagecount ch)) s5))"
  have p: "p \<noteq> NULL" "\<And>l a c d. E l (Hv (Vmbus_alloc_ring a c d)) = 0" using assms(1) by (simp_all add: hv_generous_def p_def)
  then have "hv_uio_probe E devs conn dev ch chans hs = probe_bufs E dev ch p (hs\<lparr>hs_w := s7\<rparr>)"
    unfolding s7_def s5_def s4_def s2_def p_def ring_def by (simp add: hv_uio_probe_def Let_def case_prod_beta)
  moreover have "w_class_registered s7" "bal (w_log s7) (Minor_no 0) = 0" "info_name (w_info s7 p) \<noteq> None" "info_version (w_info s7 p) \<noteq> None"
    using assms by (simp_all add: s7_def s5_def s4_def s2_def effect_simps probe_info_def set_region_def Let_def)
  ultimately show ?thesis using probe_bufs_granted [OF assms(1), of "hs\<lparr>hs_w := s7\<rparr>" dev p ch] assms(3) p(1) by simp
qed

lemma demo_probe_ok: "\<exists>hs'. hv_uio_probe lib_env demo_devs demo_conn 8 9 (\<lambda>_. demo_chan 0) demo_hs = Some (0, hs')"
  by (rule probe_granted [OF lib_generous]) (simp_all add: demo_hs_def init_world_def)

lemma demo_hs_ok:
  "store_ok (hs_w demo_hs)" "kernel_ok no_vmalloc_env" "kernel_ok good_env" "handles_ok no_vmalloc_env" "handles_ok lib_env"
  by (simp_all add: demo_hs_def init_world_def store_ok_def no_vmalloc_env_def good_env_def kernel_ok_sound_env
      handles_ok_def calm_env_def lib_env_def)



text \<open>A bound device, its file not yet open, and the same device with an open file.\<close>

definition demo_pdata :: "int \<Rightarrow> pdata" where
  "demo_pdata n = (zero_pdata 9 (\<lambda>_. demo_chan 0))\<lparr>pd_refcnt := n\<rparr>"

definition demo_idle_world :: "pdata world" where
  "demo_idle_world = (init_world (demo_pdata 0))\<lparr>
     w_info := (\<lambda>_. zero_info\<lparr>info_uio_dev := 128, info_irq := UIO_IRQ_CUSTOM, info_open := Some hv_uio_open,
       info_release := Some hv_uio_release, info_irqcontrol := Some hv_uio_irqcontrol\<rparr>),
     w_dev := [128 \<mapsto> zero_device\<lparr>d_info := 64, d_kref := 1, d_minor := 3\<rparr>], w_idr := [3 \<mapsto> 128],
     w_log := [(Dev (Idr_alloc 128), 3), (Obj (Kzalloc K_uio_device), 128)]\<rparr>"

definition demo_open_hs :: hv_state where
  "demo_open_hs = \<lparr>hs_w = demo_idle_world\<lparr>w_drv := (\<lambda>_. demo_pdata 1),
     w_dev := [128 \<mapsto> zero_device\<lparr>d_info := 64, d_kref := 2, d_minor := 3\<rparr>],
     w_lst := [256 \<mapsto> \<lparr>l_dev = 128, l_event_count = 0\<rparr>]\<rparr>, hs_drvdata = (\<lambda>_. 64)\<rparr>"

lemma demo_open_facts:
  "w_lst (hs_w demo_open_hs) 256 = Some \<lparr>l_dev = 128, l_event_count = 0\<rparr>"
  "w_dev (hs_w demo_open_hs) 128 = Some (zero_device\<lparr>d_info := 64, d_kref := 2, d_minor := 3\<rparr>)"
  "info_irq (w_info (hs_w demo_open_hs) 64) = UIO_IRQ_CUSTOM"
  "info_irqcontrol (w_info (hs_w demo_open_hs) 64) = Some hv_uio_irqcontrol"
  "pd_channel (w_drv (hs_w demo_open_hs) 64) = 9"
  "bound 8 64 128 3 demo_open_hs"
  by (simp_all add: demo_open_hs_def demo_idle_world_def init_world_def bound_def registered_def hv.served_def
      zero_device_def wf_info_def zero_info_def attrs_live_def used_maps_def used_ports_def zero_mem_def zero_port_def
      uio_consts demo_pdata_def zero_pdata_def bufs_ok_def zero_gpadl_def)

lemma demo_idle_facts:
  "store_ok demo_idle_world" "w_idr demo_idle_world 3 = Some 128"
  "w_dev demo_idle_world 128 = Some (zero_device\<lparr>d_info := 64, d_kref := 1, d_minor := 3\<rparr>)"
  "info_open (w_info demo_idle_world 64) = Some hv_uio_open" "info_release (w_info demo_idle_world 64) = Some hv_uio_release"
  "pd_refcnt (w_drv demo_idle_world 64) = 0"
  by (simp_all add: demo_idle_world_def init_world_def store_ok_def effect_simps one_def demo_pdata_def)

lemma demo_idle_runs: "map_option fst (uio_open good_env 3 demo_idle_world) = Some 0"
  by code_simp


theorem hv_write_sets_interrupt_mask_witness:
  "\<exists>t. uio_write calm_env 256 4 (hs_w demo_open_hs) = Some (4, t)
    \<and> ch_interrupt_mask (pd_chans (w_drv t 64) 9) = 1"
  using hv_write_sets_interrupt_mask [OF demo_open_facts(1), of "zero_device\<lparr>d_info := 64, d_kref := 2, d_minor := 3\<rparr>" calm_env 0 9]
    demo_open_facts by (auto simp: calm_env_def)

theorem channel_interrupt_reaches_listener_witness:
  "\<exists>hs' u. hv_uio_channel_cb 8 64 9 demo_open_hs = Some hs' \<and> uio_poll 256 (hs_w hs') = Some (EPOLLIN OR EPOLLRDNORM, u)"
  using channel_interrupt_reaches_listener [OF _ demo_open_facts(1), of 8 64 3 _ 9] demo_open_facts(2,3,6)
  by (auto simp: UIO_IRQ_CUSTOM_def zero_device_def)

theorem rescind_ends_reads_witness:
  "\<exists>hs' u. hv_uio_rescind 8 demo_open_hs = Some hs' \<and> uio_poll 256 (hs_w hs') = Some (of_int (- EIO), u)"
  using rescind_ends_reads [OF _ demo_open_facts(1), of 8 64 3 _ calm_env False "[]"] demo_open_facts(2,6) by auto

theorem remove_while_open_keeps_connection_witness:
  "\<exists>hs' r u. hv_uio_remove calm_env 8 9 demo_open_hs = Some hs' \<and> uio_release calm_env 256 (hs_w hs') = Some (r, u)
    \<and> bal (w_log u) (Ring_conn 9) = bal (w_log (hs_w demo_open_hs)) (Ring_conn 9)"
  using remove_while_open_keeps_connection [OF _ _ demo_open_facts(1), of 8 64 3 _ calm_env 9 9] demo_open_facts(2,6) by auto

end
