(* ===== verification/Uio_System.thy ===== *)
theory Uio_System
  imports Uio_Mmap
begin

text \<open>
  The UIO core as a whole: any number of drivers and processes that use it at the same time.

  \<open>uio_step\<close> is one step of the running system: a driver registers or unregisters a device, prepares the
  \<open>uio_info\<close> of a device that is not registered, changes the interrupt of one that is or its own data or
  makes a call of its own, an event or an interrupt arrives, or a process opens, polls, reads, writes, maps or closes a file.  A read
  that blocks is not one step: entering the wait queue, every round of its loop and leaving the queue are
  steps of their own, so everything else may happen between them.  Each operation is the one of the
  component theories and holds the lock of the device from its first to its last access of the device,
  so taking them as single steps loses no interleaving of these accesses.

  \<open>sys_inv\<close> is what holds between the steps: the stores agree with the ledger, no lock is held, every open
  file refers to a device that still exists, the reference count of a device is the number of its open
  files plus one while it is registered, and the minor numbers are those of the registered devices.  It
  is proved once per operation (\<open>inv_\<dots>\<close>) and for all runs by rule induction; the properties
  read off it that no run uses freed memory.
\<close>

section \<open>Steps\<close>

text \<open>What the core asks of the callbacks of a driver: they leave the locks, the memory and the minor
  numbers of the core alone.\<close>

definition quiet_cb :: "'d cb \<Rightarrow> bool" where
  "quiet_cb f \<longleftrightarrow> (\<forall>E d l x. core_res x \<longrightarrow> bal (snd (snd (f E (d, l)))) x = bal l x)"

definition quiet_info :: "'d uio_info \<Rightarrow> bool" where
  "quiet_info i \<longleftrightarrow> (\<forall>f. info_open i = Some f \<longrightarrow> quiet_cb f) \<and> (\<forall>f. info_release i = Some f \<longrightarrow> quiet_cb f)
     \<and> (\<forall>f n. info_irqcontrol i = Some f \<longrightarrow> quiet_cb (f n)) \<and> (\<forall>f v. info_mmap i = Some f \<longrightarrow> quiet_cb (f v))"

definition in_use :: "ptr \<Rightarrow> 'd world \<Rightarrow> bool" where
  "in_use ip s \<longleftrightarrow> ip = NULL \<or> (\<exists>p d. w_dev s p = Some d \<and> d_info d = ip)"

text \<open>The calls a driver makes for itself: to VMBus, to the memory manager, for messages and barriers.\<close>

fun driver_call :: "kcall \<Rightarrow> bool" where
  "driver_call (Hv c) = True"
| "driver_call (Mm c) = True"
| "driver_call (Dev (Dev_err m)) = True"
| "driver_call (Dev (Dev_warn m)) = True"
| "driver_call (Dev (Dev_notice m)) = True"
| "driver_call (Sync Virt_mb) = True"
| "driver_call c = False"

inductive uio_step :: "env \<Rightarrow> 'd world \<Rightarrow> 'd world \<Rightarrow> bool" for E :: env where
  Prepare: "\<not> in_use ip s \<Longrightarrow> uio_step E s (upd_info ip f s)"
| Register: "\<not> in_use ip s \<Longrightarrow> wf_info (w_info s ip) \<Longrightarrow> quiet_info (w_info s ip) \<Longrightarrow>
    uio_register_device E owner parent ip s = Some (r, t) \<Longrightarrow> uio_step E s t"
| Unregister: "in_use ip s \<Longrightarrow> ip \<noteq> NULL \<Longrightarrow> uio_unregister_device ip s = Some t \<Longrightarrow> uio_step E s t"
| Set_irq: "uio_step E s (upd_info ip (\<lambda>i. i\<lparr>info_irq := n\<rparr>) s)"
| Driver_data: "uio_step E s (s\<lparr>w_drv := v\<rparr>)"
| Driver_call: "driver_call c \<Longrightarrow> t = snd (kdo_w E c s) \<or> t = kvoid_w c s \<Longrightarrow> uio_step E s t"
| Notify: "in_use ip s \<Longrightarrow> ip \<noteq> NULL \<Longrightarrow> uio_event_notify ip s = Some t \<Longrightarrow> uio_step E s t"
| Interrupt: "uio_interrupt_handler irq idev s = Some (ret, t) \<Longrightarrow> uio_step E s t"
| Open: "uio_open E m s = Some (r, f, t) \<Longrightarrow> uio_step E s t"
| Release: "uio_release E f s = Some (r, t) \<Longrightarrow> uio_step E s t"
| Poll: "uio_poll f s = Some (ev, t) \<Longrightarrow> uio_step E s t"
| Fasync: "uio_fasync E fd f on s = Some (r, t) \<Longrightarrow> uio_step E s t"
| Read_enter: "w_lst s f = Some l \<Longrightarrow> uio_step E s (kvoid_w (Sync (Add_wait_queue (l_dev l))) s)"
| Read_round: "read_round E f nb s = Read_done r b t \<or> read_round E f nb s = Read_asleep t \<Longrightarrow> uio_step E s t"
| Read_leave: "w_lst s f = Some l \<Longrightarrow> uio_step E s (kvoid_w (Sync (Remove_wait_queue (l_dev l))) s)"
| Write: "uio_write E f n s = Some (r, t) \<Longrightarrow> uio_step E s t"
| Mmap: "uio_mmap E f vma s = Some (r, vma', t) \<Longrightarrow> uio_step E s t"
| Fault: "uio_vma_fault E vma pgoff s = Some (r, page, t) \<Longrightarrow> uio_step E s t"

text \<open>The states of the system after the module has been loaded.\<close>

inductive reachable :: "env \<Rightarrow> 'd \<Rightarrow> 'd world \<Rightarrow> bool" for E :: env and drv :: 'd where
  Load: "uio_init E (init_world drv) = (0, s) \<Longrightarrow> reachable E drv s"
| Step: "reachable E drv s \<Longrightarrow> uio_step E s t \<Longrightarrow> reachable E drv t"

section \<open>The invariant\<close>

definition files :: "'d world \<Rightarrow> ptr \<Rightarrow> nat" where
  "files s p = card {f. map_option l_dev (w_lst s f) = Some p}"

definition dev_inv :: "'d world \<Rightarrow> ptr \<Rightarrow> uio_device \<Rightarrow> bool" where
  "dev_inv s p d \<longleftrightarrow> 1 \<le> d_kref d \<and> d_kref d = files s p + of_bool (d_info d \<noteq> NULL)
     \<and> (d_info d \<noteq> NULL \<longrightarrow> registered (d_info d) p s \<and> quiet_info (w_info s (d_info d)))"

definition sys_inv :: "'d world \<Rightarrow> bool" where
  "sys_inv s \<longleftrightarrow> store_ok s \<and> (\<forall>k. bal (w_log s) (Lock k) = 0) \<and> finite (dom (w_lst s))
     \<and> (\<forall>f l. w_lst s f = Some l \<longrightarrow> w_dev s (l_dev l) \<noteq> None)
     \<and> (\<forall>p d. w_dev s p = Some d \<longrightarrow> dev_inv s p d)
     \<and> (\<forall>m p. w_idr s m = Some p \<longrightarrow> (\<exists>d. w_dev s p = Some d \<and> d_minor d = m \<and> d_info d \<noteq> NULL))"

lemma sys_invD:
  assumes "sys_inv s"
  shows "store_ok s" "bal (w_log s) (Lock k) = 0" "finite (dom (w_lst s))"
    "w_lst s f = Some l \<Longrightarrow> \<exists>d. w_dev s (l_dev l) = Some d" "w_dev s p = Some d \<Longrightarrow> dev_inv s p d"
    "w_idr s m = Some p \<Longrightarrow> \<exists>d. w_dev s p = Some d \<and> d_minor d = m \<and> d_info d \<noteq> NULL"
  using assms unfolding sys_inv_def by (blast, blast, blast, blast, blast, blast)

lemma sys_inv_not_null:
  assumes "sys_inv s"
  shows "w_dev s p = Some d \<Longrightarrow> p \<noteq> NULL" "w_lst s f = Some l \<Longrightarrow> f \<noteq> NULL"
  using sys_invD(1) [OF assms] by (auto simp: store_ok_def)

text \<open>A \<open>uio_info\<close> serves at most one device, the one it points to.\<close>

lemma in_use_registered:
  assumes "sys_inv s" "in_use ip s" "ip \<noteq> NULL"
  shows "\<exists>idev d. w_dev s idev = Some d \<and> d_info d = ip \<and> registered ip idev s"
proof -
  obtain p d where d: "w_dev s p = Some d" "d_info d = ip" using assms by (auto simp: in_use_def)
  then have "registered ip p s" using sys_invD(5) [OF assms(1) d(1)] assms(3) by (simp add: dev_inv_def)
  with d show ?thesis by blast
qed

lemma one_device_per_info:
  assumes "sys_inv s" "w_dev s p = Some d" "w_dev s q = Some e" "d_info d = d_info e" "d_info d \<noteq> NULL"
  shows "p = q"
  using sys_invD(5) [OF assms(1) assms(2)] sys_invD(5) [OF assms(1) assms(3)] assms(4,5)
  by (simp add: dev_inv_def registered_def)

section \<open>Steps that only use devices\<close>

text \<open>A step that leaves devices, files and numbers alone, gives back its locks and touches of the
  \<open>uio_info\<close> at most the interrupt keeps the invariant.\<close>

definition same_info :: "'d uio_info \<Rightarrow> 'd uio_info \<Rightarrow> bool" where
  "same_info i j \<longleftrightarrow> (\<exists>n. j = i\<lparr>info_irq := n\<rparr>)"

lemma same_info_attrs:
  assumes "same_info i j"
  shows "info_uio_dev j = info_uio_dev i" "wf_info j = wf_info i" "attrs_live j = attrs_live i" "quiet_info j = quiet_info i"
  using assms
  by (auto simp: same_info_def wf_info_def attrs_live_def quiet_info_def used_maps_def used_ports_def map_ptrs_def port_ptrs_def)

lemma same_info_refl [simp]: "same_info i i"
  unfolding same_info_def by (rule exI [of _ "info_irq i"]) simp

text \<open>Two states with the same devices and files, up to event counts.\<close>

definition same_dev :: "uio_device \<Rightarrow> uio_device \<Rightarrow> bool" where
  "same_dev d e \<longleftrightarrow> (\<exists>n. e = d\<lparr>d_event := n\<rparr>)"

lemma same_dev_refl [simp]: "same_dev d d"
  unfolding same_dev_def by (rule exI [of _ "d_event d"]) simp

lemma same_dev_sel:
  "same_dev d e \<Longrightarrow> d_kref e = d_kref d \<and> d_info e = d_info d \<and> d_minor e = d_minor d"
  by (auto simp: same_dev_def)

definition same_system :: "'d world \<Rightarrow> 'd world \<Rightarrow> bool" where
  "same_system s t \<longleftrightarrow> w_idr t = w_idr s \<and> (\<forall>p. rel_option same_dev (w_dev s p) (w_dev t p))
     \<and> (\<forall>f. map_option l_dev (w_lst t f) = map_option l_dev (w_lst s f))
     \<and> (\<forall>p. in_use p s \<longrightarrow> p \<noteq> NULL \<longrightarrow> same_info (w_info s p) (w_info t p))
     \<and> (\<forall>x. core_res x \<longrightarrow> bal (w_log t) x = bal (w_log s) x)"

lemma same_systemI:
  assumes "w_dev t = w_dev s" "w_lst t = w_lst s" "w_idr t = w_idr s" "w_info t = w_info s"
    "\<And>x. core_res x \<Longrightarrow> bal (w_log t) x = bal (w_log s) x"
  shows "same_system s t"
  using assms by (simp add: same_system_def option.rel_refl)

lemma same_system_dev:
  assumes "same_system s t"
  shows "w_dev t p = Some d \<Longrightarrow> \<exists>e. w_dev s p = Some e \<and> same_dev e d"
    "w_dev s p = Some e \<Longrightarrow> \<exists>d. w_dev t p = Some d \<and> same_dev e d"
    "(w_dev t p = None) = (w_dev s p = None)" "(w_lst t f = None) = (w_lst s f = None)" "files t p = files s p"
proof -
  have "rel_option same_dev (w_dev s p) (w_dev t p)" "map_option l_dev (w_lst t f) = map_option l_dev (w_lst s f)"
    using assms by (simp_all add: same_system_def)
  then show "w_dev t p = Some d \<Longrightarrow> \<exists>e. w_dev s p = Some e \<and> same_dev e d"
    "w_dev s p = Some e \<Longrightarrow> \<exists>d. w_dev t p = Some d \<and> same_dev e d"
    "(w_dev t p = None) = (w_dev s p = None)" "(w_lst t f = None) = (w_lst s f = None)"
    by (auto simp: option_rel_Some1 option_rel_Some2 rel_option_iff split: option.splits)
  show "files t p = files s p" using assms by (simp add: files_def same_system_def)
qed

lemma same_system_in_use:
  assumes "same_system s t"
  shows "in_use p t = in_use p s"
proof -
  have "(\<exists>d. w_dev t q = Some d \<and> d_info d = p) = (\<exists>d. w_dev s q = Some d \<and> d_info d = p)" for q
    using same_system_dev(1,2) [OF assms, of q] same_dev_sel
    by (cases "w_dev s q"; cases "w_dev t q") fastforce+
  then show ?thesis by (simp add: in_use_def)
qed

lemma same_system_trans [trans]:
  assumes "same_system s t" "same_system t u"
  shows "same_system s u"
proof -
  have "rel_option same_dev (w_dev s p) (w_dev u p)" for p
    using same_system_dev(1-3) [OF assms(1), of p] same_system_dev(1-3) [OF assms(2), of p]
    by (cases "w_dev s p"; cases "w_dev t p"; cases "w_dev u p") (auto simp: same_dev_def)
  moreover have "same_info (w_info s p) (w_info u p)" if "in_use p s" "p \<noteq> NULL" for p
    using assms that same_system_in_use [OF assms(1), of p] by (fastforce simp: same_system_def same_info_def)
  ultimately show ?thesis using assms by (simp add: same_system_def)
qed

lemma inv_same_system:
  assumes "sys_inv s" "same_system s t"
  shows "sys_inv t"
proof -
  note dv = same_system_dev [OF assms(2)]
  have b: "w_idr t = w_idr s" "core_res x \<Longrightarrow> bal (w_log t) x = bal (w_log s) x"
    "in_use p s \<Longrightarrow> p \<noteq> NULL \<Longrightarrow> same_info (w_info s p) (w_info t p)" for x p
    using assms(2) by (simp_all add: same_system_def)
  have st: "store_ok t" using sys_invD(1) [OF assms(1)] by (simp add: store_ok_def b dv)
  have dm: "dom (w_lst t) = dom (w_lst s)" unfolding dom_def dv(4) ..
  have ds: "dev_inv t p d" if d: "w_dev t p = Some d" for p d
  proof -
    obtain e where e: "w_dev s p = Some e" "same_dev e d" using dv(1) [OF d] by blast
    note i = sys_invD(5) [OF assms(1) e(1)] and sd = same_dev_sel [OF e(2)]
    have "registered (d_info d) p t \<and> quiet_info (w_info t (d_info d))" if nn: "d_info d \<noteq> NULL"
    proof -
      have "same_info (w_info s (d_info e)) (w_info t (d_info e))"
        using b(3) [of "d_info e"] e(1) sd nn by (auto simp: in_use_def)
      note sa = same_info_attrs [OF this]
      show ?thesis using i nn d e(1) sd sa by (auto simp: dev_inv_def registered_def b(1))
    qed
    then show ?thesis using i sd by (simp add: dev_inv_def dv(5))
  qed
  have ls: "w_dev t (l_dev l) \<noteq> None" if tf: "w_lst t f = Some l" for f l
  proof -
    have "map_option l_dev (w_lst t f) = map_option l_dev (w_lst s f)" using assms(2) by (simp add: same_system_def)
    then obtain l' where "w_lst s f = Some l'" "l_dev l' = l_dev l" using tf by (cases "w_lst s f") auto
    then show ?thesis using sys_invD(4) [OF assms(1), of f l'] dv(3) [of "l_dev l"] by auto
  qed
  have "\<exists>d. w_dev t p = Some d \<and> d_minor d = m \<and> d_info d \<noteq> NULL" if "w_idr t m = Some p" for m p
    using sys_invD(6) [OF assms(1), of m p] that b(1) dv(2) same_dev_sel by metis
  then show ?thesis
    using st ds ls sys_invD(2,3) [OF assms(1)] by (simp add: sys_inv_def dm b(2))
qed

text \<open>The operations on an open file that neither open nor close it.\<close>

lemma quiet_run:
  assumes "quiet_cb f"
  shows "same_system s (snd (run_cb E f ip s))"
proof (rule same_systemI)
  let ?t = "snd (run_cb E f ip s)"
  have run: "run_cb E f ip s = (fst (run_cb E f ip s), ?t)" by simp
  show "bal (w_log ?t) x = bal (w_log s) x" if "core_res x" for x
  proof -
    obtain r drv where "f E (w_drv s ip, w_log s) = (r, drv, w_log ?t)" using run_cb_sel(6) [OF run] by blast
    then show ?thesis using assms that unfolding quiet_cb_def by (metis snd_conv)
  qed
  show "w_dev ?t = w_dev s" "w_lst ?t = w_lst s" "w_idr ?t = w_idr s" "w_info ?t = w_info s"
    using run_cb_sel [OF run] by simp_all
qed

lemma poll_same: "w_lst s f = Some l \<Longrightarrow> w_dev s (l_dev l) = Some d \<Longrightarrow> uio_poll f s = Some (ev, t) \<Longrightarrow> same_system s t"
  using poll_spec [of s f l d] by (auto intro: same_systemI)

lemma fasync_same: "uio_fasync E fd f on s = Some (r, t) \<Longrightarrow> same_system s t"
  by (rule same_systemI) (auto simp: uio_fasync_def kdo_w_def effect_simps split: option.splits)

lemma read_same:
  assumes "w_lst s f = Some l" "w_dev s (l_dev l) = Some d"
    "read_round E f nb s = Read_done r b t \<or> read_round E f nb s = Read_asleep t"
  shows "same_system s t"
proof -
  have "w_dev t = w_dev s" "w_info t = w_info s" "w_idr t = w_idr s" "bal (w_log t) = bal (w_log s)"
    "w_lst t = w_lst s \<or> w_lst t = (w_lst s)(f \<mapsto> l\<lparr>l_event_count := d_event d\<rparr>)"
    using read_round_spec [OF assms(1,2), of E nb] assms(3) by auto
  then show ?thesis using assms(1) by (auto simp: same_system_def option.rel_refl)
qed

lemma notify_same:
  assumes "registered ip idev s" "uio_event_notify ip s = Some t"
  shows "same_system s t"
proof -
  obtain d where d: "w_dev s idev = Some d" "info_uio_dev (w_info s ip) = idev" using assms(1) by (auto simp: registered_def)
  have "same_dev d (d\<lparr>d_event := d_event d + 1\<rparr>)" by (auto simp: same_dev_def)
  then show ?thesis using notify_once [OF d(2,1)] assms(2) d(1) by (auto simp: same_system_def option.rel_refl)
qed

lemma interrupt_same: "uio_interrupt_handler irq idev s = Some (ret, t) \<Longrightarrow> same_system s t"
  by (rule same_systemI) (auto simp: uio_interrupt_handler_def case_prod_beta split: option.splits if_splits)

lemma same_system_calls:
  "same_system s t \<Longrightarrow> \<forall>x. core_res x \<longrightarrow> eff c 0 x = 0 \<Longrightarrow> same_system s (kvoid_w c t)"
  "same_system s t \<Longrightarrow> \<forall>r x. core_res x \<longrightarrow> eff c r x = 0 \<Longrightarrow> same_system s (snd (kdo_w E c t))"
  by (simp_all add: same_system_def kvoid_def)

lemma same_system_locked:
  assumes "same_system (mutex_lock k s) t"
  shows "same_system s (mutex_unlock k t)"
proof -
  have "in_use p (mutex_lock k s) = in_use p s" for p by (simp add: in_use_def)
  then show ?thesis using assms by (simp add: same_system_def effect_simps)
qed

lemma write_same:
  assumes "sys_inv s" "w_lst s f = Some l" "w_dev s (l_dev l) = Some d" "uio_write E f n s = Some (r, t)"
  shows "same_system s t"
proof -
  let ?s1 = "snd (kdo_w E (Mm Copy_from_user) s)" let ?s2 = "snd (kdo_w E (Mm Out_copy_from_user) ?s1)"
  let ?k = "Info_lock (l_dev l)" let ?s3 = "mutex_lock ?k ?s2"
  have 1: "same_system s s" "same_system s ?s1" "same_system s ?s2" by (auto intro!: same_systemI simp: effect_simps)
  have cb: "same_system ?s3 (snd (run_cb E (g m) (d_info d) ?s3))"
    if "d_info d \<noteq> NULL" "info_irqcontrol (w_info s (d_info d)) = Some g" for g m
    using sys_invD(5) [OF assms(1,3)] that by (intro quiet_run) (simp add: dev_inv_def quiet_info_def)
  have locked: "same_system s (mutex_unlock ?k u)" if "same_system ?s3 u" for u
    using same_system_trans [OF 1(3) same_system_locked [OF that]] .
  show ?thesis
    using assms(2-4) 1 locked [OF same_systemI] locked [OF cb]
    by (auto simp: uio_write_def case_prod_beta Let_def split: if_splits option.splits)
qed

lemma mmap_same:
  assumes "sys_inv s" "w_lst s f = Some l" "w_dev s (l_dev l) = Some d" "uio_mmap E f vma s = Some (r, v, t)"
  shows "same_system s t"
proof -
  let ?k = "Info_lock (l_dev l)" let ?s1 = "mutex_lock ?k s" let ?v = "vma\<lparr>vm_private_data := l_dev l\<rparr>"
  have cb: "same_system ?s1 (snd (run_cb E (g m) (d_info d) ?s1))"
    if "d_info d \<noteq> NULL" "info_mmap (w_info s (d_info d)) = Some g" for g m
    using sys_invD(5) [OF assms(1,3)] that by (intro quiet_run) (simp add: dev_inv_def quiet_info_def)
  have refl: "same_system ?s1 ?s1" by (simp add: same_systemI)
  have "same_system ?s1 (snd (snd (uio_mmap_physical E v ?s1)))" "same_system ?s1 (snd (snd (uio_mmap_dma_coherent E v ?s1)))" for v
    by (auto intro!: same_systemI simp: uio_mmap_physical_def uio_mmap_dma_coherent_def Let_def case_prod_beta effect_simps)
  then have "same_system ?s1 (snd (snd (mmap_locked E ?v (d_info d) ?s1)))"
    using refl cb by (auto simp: mmap_locked_def Let_def case_prod_beta uio_mmap_logical_def split: option.splits)
  then have "same_system s (mutex_unlock ?k (snd (snd (mmap_locked E ?v (d_info d) ?s1))))" by (rule same_system_locked)
  then show ?thesis using assms(2-4) by (auto simp: uio_mmap_def Let_def case_prod_beta same_systemI split: if_splits)
qed

lemma core_not_page [simp]: "core_res x \<Longrightarrow> one (Page_ref p) x = 0"
  by (auto simp: one_def)

lemma core_not_wait [simp]: "core_res x \<Longrightarrow> one (Wait_entry p) x = 0"
  by (auto simp: one_def)

lemma fault_same: "uio_vma_fault E vma pgoff s = Some (r, page, t) \<Longrightarrow> same_system s t"
  by (rule same_systemI)
    (auto simp: uio_vma_fault_def Let_def case_prod_beta effect_simps split: option.splits if_splits)

section \<open>Opening and closing files\<close>

lemma files_open:
  assumes "finite (dom (w_lst s))" "w_lst s f = None" "w_lst t = (w_lst s)(f \<mapsto> l)"
  shows "files t p = files s p + of_bool (l_dev l = p)"
proof -
  have fin: "finite {g. map_option l_dev (w_lst s g) = Some p}"
    by (rule finite_subset [OF _ assms(1)]) auto
  have "{g. map_option l_dev (w_lst t g) = Some p} =
      (if l_dev l = p then insert f {g. map_option l_dev (w_lst s g) = Some p} else {g. map_option l_dev (w_lst s g) = Some p})"
    using assms(2,3) by auto
  moreover have "f \<notin> {g. map_option l_dev (w_lst s g) = Some p}" using assms(2) by simp
  ultimately show ?thesis using fin by (simp add: files_def)
qed

lemma files_close:
  assumes "finite (dom (w_lst s))" "w_lst s f = Some l" "w_lst t = (w_lst s)(f := None)"
  shows "files s p = files t p + of_bool (l_dev l = p)"
  using assms by (intro files_open [of t f]) (auto simp: fun_upd_idem_iff)

lemma files_zero:
  assumes "finite (dom (w_lst s))"
  shows "files s p = 0 \<longleftrightarrow> (\<forall>f l. w_lst s f = Some l \<longrightarrow> l_dev l \<noteq> p)"
proof -
  have "finite {g. map_option l_dev (w_lst s g) = Some p}" by (rule finite_subset [OF _ assms]) auto
  then show ?thesis by (auto simp: files_def)
qed

lemma files_same: "w_lst t = w_lst s \<Longrightarrow> files t p = files s p"
  by (simp add: files_def)

text \<open>A driver's callback inside an operation does not disturb the accounts of the core.\<close>

lemma quiet_cb_run:
  assumes "cb_run c E drv l r drv' l'" "\<And>f. c = Some f \<Longrightarrow> quiet_cb f" "core_res x"
  shows "bal l' x = bal l x"
proof (cases c)
  case (Some f)
  then have "f E (drv, l) = (r, drv', l')" "quiet_cb f" using assms by (simp_all add: cb_run_def)
  then show ?thesis using assms(3) unfolding quiet_cb_def by (metis snd_conv)
qed (use assms in \<open>simp add: cb_run_def\<close>)

lemma open_core:
  assumes "sys_inv s" "w_dev s idev = Some d" "open_outcome E idev d s r f t" "core_res x"
  shows "bal (w_log t) x = bal (w_log s) x + (if r = 0 then one (Mem K_uio_listener f) x else 0)"
proof -
  have q: "quiet_info (w_info s (d_info d))" if "d_info d \<noteq> NULL"
    using sys_invD(5) [OF assms(1,2)] that by (simp add: dev_inv_def)
  have h: "open_held idev d f x = one (Mem K_uio_listener f) x"
    using assms(4) by (auto simp: open_held_def one_def)
  consider "r \<noteq> 0" "bal (w_log t) = bal (w_log s)"
    | l l' drv' where "d_info d \<noteq> NULL" "bal l x = bal (w_log s) x + open_held idev d f x + one (Lock (Info_lock idev)) x"
      "cb_run (info_open (w_info s (d_info d))) E (w_drv s (d_info d)) l r drv' l'"
      "bal (w_log t) x = bal l' x - one (Lock (Info_lock idev)) x - (if r = 0 then 0 else open_held idev d f x)"
    using assms(3) unfolding open_outcome_def by blast
  then show ?thesis
  proof cases
    case 2
    then have "bal l' x = bal l x" using quiet_cb_run [OF 2(3) _ assms(4)] q by (simp add: quiet_info_def)
    then show ?thesis using 2 h by simp
  qed simp
qed

lemma inv_open:
  assumes "sys_inv s" "kernel_ok E" "uio_open E m s = Some (r, f, t)"
  shows "sys_inv t"
proof (cases "w_idr s m")
  case None
  then have "same_system s t" using assms(3) by (auto intro!: same_systemI simp: uio_open_def effect_simps)
  then show ?thesis by (rule inv_same_system [OF assms(1)])
next
  case (Some idev)
  obtain d where d: "w_dev s idev = Some d" "1 \<le> d_kref d"
    using sys_invD(6) [OF assms(1) Some] sys_invD(5) [OF assms(1)] by (auto simp: dev_inv_def)
  then have o: "open_outcome E idev d s r f t"
    using open_cases [OF sys_invD(1) [OF assms(1)] assms(2) Some d] assms(3) by auto
  note core = open_core [OF assms(1) d(1) o]
  have w: "w_info t = w_info s" "w_idr t = w_idr s" using o by (simp_all add: open_outcome_def)
  show ?thesis
  proof (cases "r = 0")
    case False
    then have "same_system s t" using o core by (intro same_systemI) (simp_all add: open_outcome_def)
    then show ?thesis by (rule inv_same_system [OF assms(1)])
  next
    case True
    let ?l = "\<lparr>l_dev = idev, l_event_count = d_event d\<rparr>" let ?d = "d\<lparr>d_kref := Suc (d_kref d)\<rparr>"
    have f: "f \<noteq> NULL" "w_lst s f = None" "w_lst t = (w_lst s)(f \<mapsto> ?l)" "w_dev t = (w_dev s)(idev \<mapsto> ?d)"
      using o True by (simp_all add: open_outcome_def)
    note fl = files_open [OF sys_invD(3) [OF assms(1)] f(2,3)]
    have "store_ok t"
      using sys_invD(1) [OF assms(1)] core f d(1) by (auto simp: store_ok_def True w(2) one_def)
    moreover have "dev_inv t p e" if "w_dev t p = Some e" for p e
    proof (cases "p = idev")
      case True
      then show ?thesis using sys_invD(5) [OF assms(1) d(1)] that f(4) d(1)
        by (auto simp: dev_inv_def fl w registered_def)
    next
      case False
      then show ?thesis using sys_invD(5) [OF assms(1), of p e] that f(4) by (auto simp: dev_inv_def fl w registered_def)
    qed
    moreover have "\<exists>e. w_dev t p = Some e \<and> d_minor e = k \<and> d_info e \<noteq> NULL" if "w_idr t k = Some p" for k p
      using sys_invD(6) [OF assms(1), of k p] that w(2) f(4) d(1) by (cases "p = idev") auto
    ultimately show ?thesis
      using sys_invD(2-4) [OF assms(1)] core f(3,4) by (auto simp: sys_inv_def one_def)
  qed
qed

lemma inv_release:
  assumes "sys_inv s" "uio_release E f s = Some (r, t)"
  shows "sys_inv t"
proof -
  obtain l d where l: "w_lst s f = Some l" "w_dev s (l_dev l) = Some d"
    using assms(2) by (auto simp: uio_release_def Let_def split: option.splits)
  let ?p = "l_dev l"
  note n = sys_inv_not_null [OF assms(1)] and di = sys_invD(5) [OF assms(1) l(2)]
  obtain k k' drv' where t: "w_info t = w_info s" "w_idr t = w_idr s" "w_lst t = (w_lst s)(f := None)"
    "w_dev t = (w_dev s)(?p := if d_kref d = 1 then None else Some (d\<lparr>d_kref := d_kref d - 1\<rparr>))"
    "\<forall>x. bal k x = bal (w_log s) x + one (Lock (Info_lock ?p)) x"
    "cb_run (if d_info d = NULL then None else info_release (w_info s (d_info d))) E (w_drv s (d_info d)) k r drv' k'"
    "\<forall>x. bal (w_log t) x = bal k' x - one (Lock (Info_lock ?p)) x - open_held ?p d f x
               - (if d_kref d = 1 then one (Mem K_uio_device ?p) x else 0)"
    using release_cases [OF l n(1) [OF l(2)] n(2) [OF l(1)], of E] assms(2) by auto
  have "quiet_cb g" if "(if d_info d = NULL then None else info_release (w_info s (d_info d))) = Some g" for g
    using di that by (auto simp: dev_inv_def quiet_info_def split: if_splits)
  then have "bal k' x = bal k x" if "core_res x" for x using quiet_cb_run [OF t(6) _ that] by blast
  then have core: "bal (w_log t) x = bal (w_log s) x - one (Mem K_uio_listener f) x
      - (if d_kref d = 1 then one (Mem K_uio_device ?p) x else 0)" if "core_res x" for x
    using t(5,7) that by (auto simp: open_held_def one_def)
  note fl = files_close [OF sys_invD(3) [OF assms(1)] l(1) t(3)]
  have last: "d_info d = NULL" "files t ?p = 0" if "d_kref d = 1"
    using di fl [of ?p] that by (auto simp: dev_inv_def split: if_splits)
  have fin: "finite (dom (w_lst t))" using sys_invD(3) [OF assms(1)] t(3) by simp
  have "store_ok t"
    using sys_invD(1) [OF assms(1)] l by (auto simp: store_ok_def t(2-4) core one_def)
  moreover have "dev_inv t q e" if e: "w_dev t q = Some e" for q e
  proof (cases "q = ?p")
    case True
    then have "e = d\<lparr>d_kref := d_kref d - 1\<rparr>" "d_kref d \<noteq> 1" using e t(4) by (auto split: if_splits)
    then show ?thesis using di fl [of ?p] True e l(2) by (auto simp: dev_inv_def t(1,2) registered_def)
  next
    case False
    then show ?thesis using sys_invD(5) [OF assms(1), of q e] e t(4) fl [of q] by (auto simp: dev_inv_def t(1,2) registered_def)
  qed
  moreover have "w_dev t (l_dev g) \<noteq> None" if g: "w_lst t h = Some g" for h g
  proof -
    have "w_dev s (l_dev g) \<noteq> None" using sys_invD(4) [OF assms(1), of h g] g t(3) by (auto split: if_splits)
    moreover have "d_kref d \<noteq> 1" if "l_dev g = ?p"
      using last(2) files_zero [OF fin, of ?p] g that by auto
    ultimately show ?thesis using t(4) by auto
  qed
  moreover have "\<exists>e. w_dev t q = Some e \<and> d_minor e = m \<and> d_info e \<noteq> NULL" if "w_idr t m = Some q" for m q
    using sys_invD(6) [OF assms(1), of m q] that t(2,4) l(2) last(1) by (cases "q = ?p") auto
  ultimately show ?thesis
    using sys_invD(2) [OF assms(1)] fin core by (auto simp: sys_inv_def)
qed

section \<open>Registering and unregistering devices\<close>

lemma reg_held_core:
  "reg_held idev m i s (Mem K_uio_device p) = 0" "reg_held idev m i s (Mem K_uio_listener p) = 0"
  "reg_held idev m i s (Lock k) = 0" "reg_held idev m i s (Minor_no n) = one (Minor_no m) (Minor_no n)"
  by (simp_all add: reg_held_def attrs_held_def dir_held_def)

lemma inv_unregister:
  assumes "sys_inv s" "in_use ip s" "ip \<noteq> NULL" "uio_unregister_device ip s = Some t"
  shows "sys_inv t"
proof -
  obtain idev d where d: "w_dev s idev = Some d" "d_info d = ip" "registered ip idev s"
    using in_use_registered [OF assms(1-3)] by blast
  let ?d = "d\<lparr>d_info := NULL, d_kref := d_kref d - 1\<rparr>"
  have t: "w_info t = w_info s" "w_idr t = (w_idr s)(d_minor d := None)" "w_lst t = w_lst s"
    "w_dev t = (w_dev s)(idev := if d_kref d = 1 then None else Some ?d)"
    "\<And>x. bal (w_log t) x = bal (w_log s) x - reg_held idev (d_minor d) (w_info s ip) s x
          - (if d_kref d = 1 then one (Mem K_uio_device idev) x else 0)"
    using unregister_cases [OF d(3,1)] assms(4) by auto
  note di = sys_invD(5) [OF assms(1) d(1)]
  have idr: "w_idr s (d_minor d) = Some idev" using d(1,3) by (auto simp: registered_def)
  have last: "files s idev = 0" if "d_kref d = 1" using di that d(2) assms(3) by (simp add: dev_inv_def)
  have "store_ok t"
    using sys_invD(1) [OF assms(1)] d(1) idr by (auto simp: store_ok_def t(2-5) reg_held_core one_def)
  moreover have "dev_inv t q e" if e: "w_dev t q = Some e" for q e
  proof (cases "q = idev")
    case True
    then have "e = ?d" "d_kref d \<noteq> 1" using e t(4) by (auto split: if_splits)
    then show ?thesis using di d(2) assms(3) True by (auto simp: dev_inv_def files_same [OF t(3)])
  next
    case False
    then have "dev_inv s q e" "w_dev s q = Some e" using sys_invD(5) [OF assms(1), of q e] e t(4) by auto
    moreover have "d_minor e \<noteq> d_minor d" if "registered (d_info e) q s"
      using that idr False \<open>w_dev s q = Some e\<close> by (auto simp: registered_def)
    ultimately show ?thesis using e by (auto simp: dev_inv_def files_same [OF t(3)] t(1,2) registered_def)
  qed
  moreover have "w_dev t (l_dev g) \<noteq> None" if g: "w_lst t h = Some g" for h g
  proof -
    have "w_dev s (l_dev g) \<noteq> None" using sys_invD(4) [OF assms(1), of h g] g t(3) by auto
    moreover have "d_kref d \<noteq> 1" if "l_dev g = idev"
      using last files_zero [OF sys_invD(3) [OF assms(1)], of idev] g that t(3) by auto
    ultimately show ?thesis using t(4) by auto
  qed
  moreover have "\<exists>e. w_dev t q = Some e \<and> d_minor e = m \<and> d_info e \<noteq> NULL" if m: "w_idr t m = Some q" for m q
  proof -
    have "m \<noteq> d_minor d" "w_idr s m = Some q" using m t(2) by (auto split: if_splits)
    then have "q \<noteq> idev" using sys_invD(6) [OF assms(1), of m q] d(1) by auto
    then show ?thesis using sys_invD(6) [OF assms(1) \<open>w_idr s m = Some q\<close>] t(4) by simp
  qed
  ultimately show ?thesis
    using sys_invD(2,3) [OF assms(1)] by (auto simp: sys_inv_def t(3,5) reg_held_core)
qed

lemma inv_upd_unused:
  assumes "sys_inv s" "\<not> in_use ip s" "w_dev t = w_dev s" "w_lst t = w_lst s" "w_idr t = w_idr s"
    "\<And>p. p \<noteq> ip \<Longrightarrow> w_info t p = w_info s p" "\<And>x. core_res x \<Longrightarrow> bal (w_log t) x = bal (w_log s) x"
  shows "sys_inv t"
proof (rule inv_same_system [OF assms(1)])
  have "same_info (w_info s p) (w_info t p)" if "in_use p s" for p using assms(2,6) that by (cases "p = ip") auto
  then show "same_system s t" using assms(3-5,7) by (simp add: same_system_def option.rel_refl)
qed

lemma inv_came_up:
  assumes "sys_inv s" "\<not> in_use ip s" "quiet_info (w_info s ip)" "came_up owner ip idev m s t"
  shows "sys_inv t"
proof -
  obtain d where d: "w_dev t = (w_dev s)(idev \<mapsto> d)" "d_info d = ip" "d_minor d = m" "d_kref d = 1"
    using assms(4) by (auto simp: came_up_def)
  have t: "idev \<noteq> NULL" "w_dev s idev = None" "w_idr s m = None" "w_idr t = (w_idr s)(m \<mapsto> idev)" "w_lst t = w_lst s"
    "\<And>p. p \<noteq> ip \<Longrightarrow> w_info t p = w_info s p"
    "\<And>x. bal (w_log t) x = bal (w_log s) x + one (Mem K_uio_device idev) x + reg_held idev m (w_info t ip) t x"
    and ci: "clean_info (w_info t ip) = clean_info ((w_info s ip)\<lparr>info_uio_dev := idev\<rparr>)"
    using assms(4) by (simp_all add: came_up_def)
  have ip: "ip \<noteq> NULL" using assms(2) by (simp add: in_use_def)
  have q: "quiet_info (w_info t ip)" using assms(3) clean_info_sel [OF ci] by (simp add: quiet_info_def)
  have none: "files s idev = 0"
    using sys_invD(4) [OF assms(1)] t(2) files_zero [OF sys_invD(3) [OF assms(1)], of idev] by fastforce
  have "store_ok t"
    using sys_invD(1) [OF assms(1)] t(1-3) by (auto simp: store_ok_def d(1) t(4,5,7) reg_held_core one_def)
  moreover have "dev_inv t p e" if e: "w_dev t p = Some e" for p e
  proof (cases "p = idev")
    case True
    then show ?thesis
      using e d ip q none came_up_registered [OF assms(4) ip] by (auto simp: dev_inv_def files_same [OF t(5)])
  next
    case False
    then have es: "w_dev s p = Some e" using e d(1) by simp
    then have "d_info e \<noteq> ip" using assms(2) by (auto simp: in_use_def)
    then show ?thesis
      using sys_invD(5) [OF assms(1) es] False t(3) e es by (auto simp: dev_inv_def files_same [OF t(5)] registered_def t(4,6))
  qed
  moreover have "\<exists>e. w_dev t p = Some e \<and> d_minor e = k \<and> d_info e \<noteq> NULL" if "w_idr t k = Some p" for k p
    using sys_invD(6) [OF assms(1), of k p] that d t(2,4) ip by (auto split: if_splits)
  ultimately show ?thesis
    using sys_invD(2,3,4) [OF assms(1)] by (auto simp: sys_inv_def t(5,7) d(1) reg_held_core)
qed

lemma inv_register:
  assumes "sys_inv s" "kernel_ok E" "\<not> in_use ip s" "wf_info (w_info s ip)" "quiet_info (w_info s ip)"
    "uio_register_device E owner parent ip s = Some (r, t)"
  shows "sys_inv t"
proof (cases "reg_args_ok parent ip s")
  case False
  with register_early [OF False, of E owner] assms(1,6) show ?thesis by auto
next
  case True
  consider idev m where "came_up owner ip idev m s t" | "no_trace ip s t"
    using register_cases [OF sys_invD(1) [OF assms(1)] assms(2) True assms(4), of owner] assms(6) by (auto split: if_splits)
  then show ?thesis
  proof cases
    case 1
    then show ?thesis by (rule inv_came_up [OF assms(1,3,5)])
  next
    case 2
    then show ?thesis using inv_upd_unused [OF assms(1,3), of t] by (simp add: no_trace_def)
  qed
qed

section \<open>Every step and every run\<close>

lemma driver_call_core: "driver_call c \<Longrightarrow> core_res x \<Longrightarrow> eff c r x = 0"
proof (cases c)
  case (Mm m)
  then show "core_res x \<Longrightarrow> ?thesis" by (cases m) (auto simp: eff_def)
next
  case (Hv h)
  then show "core_res x \<Longrightarrow> ?thesis" by (cases h) (auto simp: eff_def)
next
  case (Dev d)
  then show "driver_call c \<Longrightarrow> ?thesis" by (cases d) (auto simp: eff_def)
next
  case (Sync k)
  then show "driver_call c \<Longrightarrow> ?thesis" by (cases k) (auto simp: eff_def)
qed simp_all

text \<open>An operation that returns on an open file finds the file and its device.\<close>

lemma file_ops_open:
  "uio_poll f s = Some (ev, t) \<Longrightarrow> \<exists>l d. w_lst s f = Some l \<and> w_dev s (l_dev l) = Some d"
  "read_round E f nb s = Read_done r b t \<or> read_round E f nb s = Read_asleep t \<Longrightarrow> \<exists>l d. w_lst s f = Some l \<and> w_dev s (l_dev l) = Some d"
  by (auto simp: uio_poll_def read_round_def Let_def split: option.splits)

lemma file_ops_found:
  assumes "sys_inv s"
  shows "uio_write E f n s = Some (r, t) \<Longrightarrow> \<exists>l d. w_lst s f = Some l \<and> w_dev s (l_dev l) = Some d"
    "uio_mmap E f vma s = Some (r, v, t) \<Longrightarrow> \<exists>l d. w_lst s f = Some l \<and> w_dev s (l_dev l) = Some d"
  using sys_invD(4) [OF assms, of f] by (auto simp: uio_write_def uio_mmap_def split: option.splits)

lemma inv_step:
  assumes "uio_step E s t" "kernel_ok E" "sys_inv s"
  shows "sys_inv t"
  using assms(1)
proof cases
  case (Prepare ip f)
  then show ?thesis using inv_upd_unused [OF assms(3) Prepare(2), of t] by simp
next
  case (Set_irq ip n)
  have "same_info i (i\<lparr>info_irq := n\<rparr>)" for i :: "'a uio_info" by (auto simp: same_info_def)
  then have "same_system s t" using Set_irq by (simp add: same_system_def option.rel_refl)
  then show ?thesis by (rule inv_same_system [OF assms(3)])
next
  case (Notify ip)
  obtain idev where "registered ip idev s" using in_use_registered [OF assms(3) Notify(1,2)] by blast
  then show ?thesis using inv_same_system [OF assms(3) notify_same] Notify(3) by blast
next
  case (Poll f ev)
  then show ?thesis using file_ops_open(1) [OF Poll] poll_same inv_same_system [OF assms(3)] by blast
next
  case (Read_round f nb r b)
  then show ?thesis using file_ops_open(2) [OF Read_round] read_same inv_same_system [OF assms(3)] by blast
next
  case (Write f n r)
  then show ?thesis using file_ops_found(1) [OF assms(3) Write] write_same [OF assms(3)] inv_same_system [OF assms(3)] by blast
next
  case (Mmap f vma r vma')
  then show ?thesis using file_ops_found(2) [OF assms(3) Mmap] mmap_same [OF assms(3)] inv_same_system [OF assms(3)] by blast
next
  case (Interrupt irq idev ret)
  show ?thesis by (rule inv_same_system [OF assms(3) interrupt_same [OF Interrupt]])
next
  case (Fasync fd f on r)
  show ?thesis by (rule inv_same_system [OF assms(3) fasync_same [OF Fasync]])
next
  case (Fault vma pgoff r page)
  show ?thesis by (rule inv_same_system [OF assms(3) fault_same [OF Fault]])
next
  case (Driver_data v)
  then show ?thesis by (intro inv_same_system [OF assms(3) same_systemI]) simp_all
next
  case (Driver_call c)
  then have "same_system s t" using driver_call_core [OF Driver_call(1)] by (auto intro!: same_systemI)
  then show ?thesis by (rule inv_same_system [OF assms(3)])
next
  case (Read_enter f l)
  then show ?thesis by (intro inv_same_system [OF assms(3) same_systemI]) (auto simp: effect_simps)
next
  case (Read_leave f l)
  then show ?thesis by (intro inv_same_system [OF assms(3) same_systemI]) (auto simp: effect_simps)
next
  case Register
  then show ?thesis using inv_register [OF assms(3,2)] by blast
next
  case Unregister
  then show ?thesis using inv_unregister [OF assms(3)] by blast
next
  case Open
  then show ?thesis using inv_open [OF assms(3,2)] by blast
next
  case Release
  then show ?thesis using inv_release [OF assms(3)] by blast
qed

lemma inv_load:
  assumes "uio_init E (init_world drv) = (0, s)"
  shows "sys_inv s"
proof -
  have "w_dev s = Map.empty" "w_idr s = Map.empty" "w_lst s = Map.empty"
    "\<And>x. core_res x \<Longrightarrow> bal (w_log s) x = 0"
    using class_run [OF assms] by (auto simp: init_world_def one_def)
  then show ?thesis by (simp add: sys_inv_def store_ok_def)
qed

lemma reachable_inv: "reachable E drv s \<Longrightarrow> kernel_ok E \<Longrightarrow> sys_inv s"
  by (induction rule: reachable.induct) (blast intro: inv_load inv_step)+

section \<open>Properties\<close>


text \<open>C2. The reference count of a device is exact in every reachable state: it is the number of open files of
  the device plus one while it is registered, so it is never 0 for a device that exists; a
  minor number belongs to at most the one registered device that carries it, every open file refers to an existing device,
  and no mutex is held between operations.\<close>

theorem reference_counts_exact:
  assumes "reachable E drv s" "kernel_ok E"
  shows "(w_dev s p = Some d \<longrightarrow> d_kref d = files s p + of_bool (d_info d \<noteq> NULL) \<and> 0 < d_kref d
        \<and> (d_info d \<noteq> NULL \<longleftrightarrow> w_idr s (d_minor d) = Some p))
    \<and> (w_lst s f = Some l \<longrightarrow> l_dev l \<in> dom (w_dev s) \<and> 0 < files s (l_dev l))
    \<and> bal (w_log s) (Lock k) = 0"
proof -
  note inv = reachable_inv [OF assms]
  have "d_info d \<noteq> NULL \<longleftrightarrow> w_idr s (d_minor d) = Some p" if d: "w_dev s p = Some d"
    using sys_invD(5) [OF inv d] sys_invD(6) [OF inv, of "d_minor d" p] d by (auto simp: dev_inv_def registered_def)
  moreover have "0 < files s (l_dev l)" if "w_lst s f = Some l"
    using files_zero [OF sys_invD(3) [OF inv], of "l_dev l"] that by auto
  ultimately show ?thesis
    using sys_invD(2,4,5) [OF inv] by (fastforce simp: dev_inv_def)
qed


section \<open>Examples\<close>

text \<open>The module is loaded, a driver registers a device, a process opens it, and the device goes away.\<close>

definition demo_loaded :: "unit world" where
  "demo_loaded = upd_info 64 (\<lambda>_. w_info demo_reg_world 64) (snd (uio_init good_env (init_world ())))"

definition demo_added :: "unit world" where
  "demo_added = snd (the (uio_register_device good_env 7 8 64 demo_loaded))"

definition demo_opened :: "unit world" where
  "demo_opened = snd (snd (the (uio_open good_env 0 demo_added)))"

definition demo_file :: ptr where
  "demo_file = fst (snd (the (uio_open good_env 0 demo_added)))"

definition demo_gone :: "unit world" where
  "demo_gone = the (uio_unregister_device 64 demo_opened)"

lemma demo_runs:
  "fst (uio_init good_env (init_world ())) = 0"
  "map_option fst (uio_register_device good_env 7 8 64 demo_loaded) = Some 0"
  "map_option fst (uio_open good_env 0 demo_added) = Some 0"
  "Option.is_none (uio_unregister_device 64 demo_opened) = False"
  "Option.is_none (w_lst demo_gone demo_file) = False"
  "map_option d_info (Option.bind (w_idr demo_opened 0) (w_dev demo_opened)) = Some 64"
  "wf_info (w_info demo_loaded 64)"
  by code_simp+

lemma demo_reachable:
  "reachable good_env () demo_opened" "reachable good_env () demo_gone"
proof -
  have i: "uio_init good_env (init_world ()) = (0, snd (uio_init good_env (init_world ())))"
    using demo_runs(1) by (simp add: prod_eq_iff)
  then have 0: "reachable good_env () (snd (uio_init good_env (init_world ())))" by (rule Load)
  have "w_dev (snd (uio_init good_env (init_world ()))) = Map.empty"
    using class_run [OF i] by (simp add: init_world_def)
  then have u: "\<not> in_use 64 (snd (uio_init good_env (init_world ())))" "\<not> in_use 64 demo_loaded"
    by (simp_all add: in_use_def demo_loaded_def)
  have 1: "reachable good_env () demo_loaded" unfolding demo_loaded_def by (rule Step [OF 0 Prepare [OF u(1)]])
  have q: "quiet_info (w_info demo_loaded 64)" by (simp add: demo_loaded_def quiet_info_def demo_reg_world_def zero_info_def)
  obtain r where "uio_register_device good_env 7 8 64 demo_loaded = Some (r, demo_added)"
    using demo_runs(2) by (auto simp: demo_added_def)
  then have 2: "reachable good_env () demo_added" by (rule Step [OF 1 Register [OF u(2) demo_runs(7) q]])
  obtain r where "uio_open good_env 0 demo_added = Some (r, demo_file, demo_opened)"
    using demo_runs(3) by (auto simp: demo_file_def demo_opened_def)
  then show 3: "reachable good_env () demo_opened" by (rule Step [OF 2 Open])
  have "in_use 64 demo_opened"
    using demo_runs(6) by (auto simp: in_use_def bind_eq_Some_conv)
  moreover have "uio_unregister_device 64 demo_opened = Some demo_gone"
    using demo_runs(4) by (auto simp: demo_gone_def Option.is_none_def)
  ultimately show "reachable good_env () demo_gone" by (intro Step [OF 3 Unregister]) auto
qed


theorem reference_counts_exact_witness:
  "reachable good_env () demo_gone \<and> bal (w_log demo_gone) (Lock Minor_lock) = 0
    \<and> (\<exists>l. w_lst demo_gone demo_file = Some l \<and> 0 < files demo_gone (l_dev l))"
proof -
  obtain l where "w_lst demo_gone demo_file = Some l" using demo_runs(5) by (auto simp: Option.is_none_def)
  then show ?thesis
    using reference_counts_exact [OF demo_reachable(2) demo_reg_ok(3), of 0 undefined demo_file l Minor_lock] demo_reachable(2)
    by blast
qed


end
