(* ===== verification/Hv_System.thy ===== *)
theory Hv_System
  imports Hv_Uio Uio_System
begin

text \<open>
  The VMBus driver as a user of the UIO core.  Its callbacks keep the contract that the core asks of a driver
  (\<open>quiet_info\<close>), and each of its own entry points (probe, remove, channel interrupt, rescind, new subchannel)
  is a run of the system of \<open>Uio_System\<close>: it uses the core only through the operations of the core and
  in the order the core allows.  So what \<open>Uio_System\<close> shows of every run holds of a system with any
  number of VMBus devices.
\<close>

section \<open>The callbacks keep the contract\<close>

lemma driver_books:
  "driver_call c \<Longrightarrow> core_res x \<Longrightarrow> bal (snd (kdo E c l)) x = bal l x"
  "driver_call c \<Longrightarrow> core_res x \<Longrightarrow> bal (kvoid c l) x = bal l x"
  using driver_call_core [of c x] by (simp_all add: kdo_def kvoid_def)

lemma hv_callbacks_quiet: "quiet_cb hv_uio_open" "quiet_cb hv_uio_release" "quiet_cb (hv_uio_irqcontrol n)"
  by (auto simp: quiet_cb_def hv_uio_open_def hv_uio_release_def hv_uio_irqcontrol_def Let_def case_prod_beta driver_books)

text \<open>The \<open>uio_info\<close> that the probe fills in.\<close>

definition hv_info :: "pdata uio_info \<Rightarrow> bool" where
  "hv_info i \<longleftrightarrow> wf_info i \<and> info_open i = Some hv_uio_open \<and> info_release i = Some hv_uio_release
     \<and> info_irqcontrol i = Some hv_uio_irqcontrol \<and> info_mmap i = None"

lemma hv_info_quiet: "hv_info i \<Longrightarrow> quiet_info i"
  by (auto simp: hv_info_def quiet_info_def hv_callbacks_quiet)

lemma hv_info_region [simp]: "hv_info (set_region k nm a sz ty i) = hv_info i" "hv_info (i\<lparr>info_priv := q\<rparr>) = hv_info i"
  by (simp_all add: hv_info_def set_region_def wf_info_def)

lemma hv_info_probe: "hv_info (probe_info conn phys n zero_info)"
  by (simp add: probe_info_def Let_def) (simp add: hv_info_def wf_info_def zero_info_def)

section \<open>Runs of the driver\<close>

text \<open>The driver at work on a \<open>uio_info\<close> that is not registered.\<close>

definition working :: "env \<Rightarrow> pdata \<Rightarrow> ptr \<Rightarrow> pdata world \<Rightarrow> bool" where
  "working E drv p s \<longleftrightarrow> reachable E drv s \<and> \<not> in_use p s"

lemma reachable_call [simp]:
  "reachable E drv s \<Longrightarrow> driver_call c \<Longrightarrow> reachable E drv (kvoid_w c s)"
  "reachable E drv s \<Longrightarrow> driver_call c \<Longrightarrow> reachable E drv (snd (kdo_w E c s))"
  by (auto intro: Step Driver_call)

lemma reachable_on_drv [simp]: "reachable E drv s \<Longrightarrow> reachable E drv (on_drv p f s)"
  unfolding on_drv_def by (auto intro: Step Driver_data)

lemma in_use_calls [simp]:
  "in_use p (kvoid_w c s) = in_use p s" "in_use p (snd (kdo_w E c s)) = in_use p s"
  "in_use p (on_drv q f s) = in_use p s" "in_use p (upd_info q g s) = in_use p s"
  by (simp_all add: in_use_def)

lemma working_calls [simp]:
  "working E drv p s \<Longrightarrow> driver_call c \<Longrightarrow> working E drv p (kvoid_w c s)"
  "working E drv p s \<Longrightarrow> driver_call c \<Longrightarrow> working E drv p (snd (kdo_w E c s))"
  "working E drv p s \<Longrightarrow> working E drv p (on_drv p f s)"
  "working E drv p s \<Longrightarrow> working E drv p (upd_info p g s)"
  by (auto simp: working_def intro: Step Prepare)

lemma working_probe_buf:
  assumes "working E drv p s" "probe_buf E ch n s = (ret, buf, g, t)"
  shows "working E drv p t" "w_info t = w_info s"
  using assms by (auto simp: probe_buf_def case_prod_beta Let_def split: if_splits)

lemma reachable_free_gpadl:
  "reachable E drv s \<Longrightarrow> free_gpadl E buf g s = (g', t) \<Longrightarrow> reachable E drv t"
  by (auto simp: free_gpadl_def case_prod_beta Let_def split: if_splits)

lemma reachable_cleanup:
  assumes "reachable E drv s"
  shows "reachable E drv (hv_uio_cleanup E p s)"
proof -
  obtain g s1 where 1: "free_gpadl E (pd_send_buf (w_drv s p)) (pd_send_gpadl (w_drv s p)) s = (g, s1)" by fastforce
  let ?s2 = "on_drv p (\<lambda>pd. pd\<lparr>pd_send_gpadl := g\<rparr>) s1"
  obtain h s3 where 3: "free_gpadl E (pd_recv_buf (w_drv ?s2 p)) (pd_recv_gpadl (w_drv ?s2 p)) ?s2 = (h, s3)" by fastforce
  have "reachable E drv s3"
    using reachable_free_gpadl [OF reachable_on_drv [OF reachable_free_gpadl [OF assms 1]] 3] .
  then show ?thesis using 1 3 by (simp add: hv_uio_cleanup_def Let_def)
qed

lemma reachable_fails:
  "reachable E drv s \<Longrightarrow> reachable E drv (snd (fail_free_ring p ch ret s))"
  "reachable E drv s \<Longrightarrow> reachable E drv (snd (fail_close E p ch ret s))"
  by (simp_all add: fail_free_ring_def fail_close_def reachable_cleanup)

lemma reachable_probe_register:
  assumes "working E drv p (hs_w hs)" "hv_info (w_info (hs_w hs) p)" "probe_register E dev ch p hs = Some (r, hs')"
  shows "reachable E drv (hs_w hs')"
proof -
  let ?s1 = "on_drv p (\<lambda>pd. pd\<lparr>pd_device := dev\<rparr>) (upd_info p (\<lambda>i. i\<lparr>info_priv := p\<rparr>) (hs_w hs))"
  have w: "working E drv p ?s1" using assms(1) by simp
  have i: "hv_info (w_info ?s1 p)" using assms(2) by simp
  obtain ret s2 where s2: "uio_register_device E THIS_MODULE dev p ?s1 = Some (ret, s2)"
    using assms(3) by (auto simp: probe_register_def Let_def split: option.splits)
  have "reachable E drv s2"
    using w i hv_info_quiet [OF i] by (intro Step [OF _ Register [OF _ _ _ s2]]) (simp_all add: working_def hv_info_def)
  then show ?thesis
    using assms(3) s2 reachable_fails(2) [of E drv "kvoid_w (Dev (Dev_err ''hv_uio register failed'')) s2" p ch ret]
    by (auto simp: probe_register_def Let_def case_prod_beta split: if_splits)
qed

lemma reachable_probe_bufs:
  assumes "working E drv p (hs_w hs)" "hv_info (w_info (hs_w hs) p)" "probe_bufs E dev ch p hs = Some (r, hs')"
  shows "reachable E drv (hs_w hs')"
    and "r = 0 \<Longrightarrow> \<exists>s6 a b c d. working E drv p s6 \<and> probe_register E dev ch p (hs\<lparr>hs_w := s6\<rparr>) = Some (0, hs')
      \<and> w_info s6 p = set_region SEND_BUF_MAP a b SEND_BUFFER_SIZE UIO_MEM_VIRTUAL
          (set_region RECV_BUF_MAP c d RECV_BUFFER_SIZE UIO_MEM_VIRTUAL (w_info (hs_w hs) p))"
proof -
  obtain r1 b1 g1 s1 where 1: "probe_buf E ch RECV_BUFFER_SIZE (hs_w hs) = (r1, b1, g1, s1)" by (metis surj_pair)
  define n where "n = ''recv:'' @ fmt_u (unat (gp_handle g1))"
  define s2 where "s2 = on_drv p (\<lambda>pd. pd\<lparr>pd_recv_buf := b1, pd_recv_gpadl := g1\<rparr>) s1"
  define s3 where "s3 = on_drv p (\<lambda>pd. pd\<lparr>pd_recv_name := n\<rparr>)
    (upd_info p (set_region RECV_BUF_MAP n (of_int b1) RECV_BUFFER_SIZE UIO_MEM_VIRTUAL) s2)"
  obtain r2 b2 g2 s4 where 2: "probe_buf E ch SEND_BUFFER_SIZE s3 = (r2, b2, g2, s4)" by (metis surj_pair)
  define q where "q = ''send:'' @ fmt_u (unat (gp_handle g2))"
  define s5 where "s5 = on_drv p (\<lambda>pd. pd\<lparr>pd_send_buf := b2, pd_send_gpadl := g2\<rparr>) s4"
  define s6 where "s6 = on_drv p (\<lambda>pd. pd\<lparr>pd_send_name := q\<rparr>)
    (upd_info p (set_region SEND_BUF_MAP q (of_int b2) SEND_BUFFER_SIZE UIO_MEM_VIRTUAL) s5)"
  have w2: "working E drv p s2" "hv_info (w_info s2 p)"
    using working_probe_buf [OF assms(1) 1] assms(2) by (simp_all add: s2_def)
  have w3: "working E drv p s3" "hv_info (w_info s3 p)" using w2 by (simp_all add: s3_def)
  have w5: "working E drv p s5" "hv_info (w_info s5 p)" using working_probe_buf [OF w3(1) 2] w3(2) by (simp_all add: s5_def)
  have w6: "working E drv p s6" "hv_info (w_info s6 p)" using w5 by (simp_all add: s6_def)
  have last: "reachable E drv (hs_w hs'')" if "probe_register E dev ch p (hs\<lparr>hs_w := s6\<rparr>) = Some (r, hs'')" for hs''
    using reachable_probe_register [OF _ _ that] w6 by simp
  have run: "probe_bufs E dev ch p hs =
      (if b1 = NULL then Some (fst (fail_free_ring p ch r1 s2), hs\<lparr>hs_w := snd (fail_free_ring p ch r1 s2)\<rparr>)
       else if r1 \<noteq> 0 then Some (fst (fail_close E p ch r1 s2), hs\<lparr>hs_w := snd (fail_close E p ch r1 s2)\<rparr>)
       else if r2 \<noteq> 0 then Some (fst (fail_close E p ch r2 s5), hs\<lparr>hs_w := snd (fail_close E p ch r2 s5)\<rparr>)
       else probe_register E dev ch p (hs\<lparr>hs_w := s6\<rparr>))"
    using 1 2 unfolding s6_def s5_def q_def s3_def s2_def n_def
    by (cases "b1 = NULL"; cases "r1 = 0"; cases "r2 = 0") (simp_all add: probe_bufs_def Let_def split: prod.split)
  show "reachable E drv (hs_w hs')"
    using assms(3) w2(1) w5(1) last reachable_fails [of E drv s2 p ch r1] reachable_fails [of E drv s5 p ch r2]
    by (auto simp: run working_def split: if_splits)
  have "r1 \<noteq> 0" if "b1 = NULL" using 1 that by (auto simp: probe_buf_def errno_simps Let_def split: prod.splits if_splits)
  then have "probe_register E dev ch p (hs\<lparr>hs_w := s6\<rparr>) = Some (0, hs')" if "r = 0"
    using assms(3) that by (auto simp: run fail_free_ring_def fail_close_def split: if_splits)
  moreover have "w_info s6 p = set_region SEND_BUF_MAP q (of_int b2) SEND_BUFFER_SIZE UIO_MEM_VIRTUAL
      (set_region RECV_BUF_MAP n (of_int b1) RECV_BUFFER_SIZE UIO_MEM_VIRTUAL (w_info (hs_w hs) p))"
    using working_probe_buf(2) [OF assms(1) 1] working_probe_buf(2) [OF w3(1) 2]
    by (simp add: s6_def s5_def s3_def s2_def)
  ultimately show "r = 0 \<Longrightarrow> \<exists>s6 a b c d. working E drv p s6 \<and> probe_register E dev ch p (hs\<lparr>hs_w := s6\<rparr>) = Some (0, hs')
      \<and> w_info s6 p = set_region SEND_BUF_MAP a b SEND_BUFFER_SIZE UIO_MEM_VIRTUAL
          (set_region RECV_BUF_MAP c d RECV_BUFFER_SIZE UIO_MEM_VIRTUAL (w_info (hs_w hs) p))"
    using w6(1) by blast
qed

lemma in_use_bound: "bound dev p idev m hs \<Longrightarrow> in_use p (hs_w hs) \<and> p \<noteq> NULL"
  by (auto simp: bound_def in_use_def)

lemma reachable_probe:
  assumes "reachable E drv (hs_w hs)" "hv_uio_probe E devs conn dev ch chans hs = Some (r, hs')"
    "\<not> in_use (E (w_log (hs_w hs)) (Hv Devm_kzalloc)) (hs_w hs)"
  shows "reachable E drv (hs_w hs')"
    and "r = 0 \<Longrightarrow> \<exists>s7 l phys. working E drv (E (w_log (hs_w hs)) (Hv Devm_kzalloc)) s7
      \<and> w_info s7 (E (w_log (hs_w hs)) (Hv Devm_kzalloc)) = probe_info conn phys (of_int (E l (Mm (Out_ring_pagecount ch)))) zero_info
      \<and> probe_bufs E dev ch (E (w_log (hs_w hs)) (Hv Devm_kzalloc)) (hs\<lparr>hs_w := s7\<rparr>) = Some (r, hs')"
proof -
  define ring where "ring = (if hv_dev_ring_size devs (chans ch) = 0 then SZ_2M else hv_dev_ring_size devs (chans ch))"
  define p where "p = E (w_log (hs_w hs)) (Hv Devm_kzalloc)"
  define s2 where "s2 = on_drv p (\<lambda>_. zero_pdata ch chans) (upd_info p (\<lambda>_. zero_info) (snd (kdo_w E (Hv Devm_kzalloc) (hs_w hs))))"
  define s3 where "s3 = snd (kdo_w E (Hv (Vmbus_alloc_ring ch ring ring)) s2)"
  define s4 where "s4 = on_drv p (set_channel_read_mode ch HV_CALL_ISR) s3"
  define s5 where "s5 = snd (kdo_w E (Mm (Out_ring_phys ch)) s4)"
  define s6 where "s6 = snd (kdo_w E (Mm (Out_ring_pagecount ch)) s5)"
  define s7 where "s7 = upd_info p (probe_info conn (of_int (E (w_log s4) (Mm (Out_ring_phys ch))))
    (of_int (E (w_log s5) (Mm (Out_ring_pagecount ch))))) s6"
  have "working E drv p (hs_w hs)" using assms by (simp add: working_def p_def)
  then have w: "working E drv p s3" "working E drv p s7" by (simp_all add: s2_def s3_def s4_def s5_def s6_def s7_def)
  have i: "hv_info (w_info s7 p)" by (simp add: s7_def s6_def s5_def s4_def s3_def s2_def hv_info_probe)
  have p: "p \<noteq> NULL" using assms(3) by (auto simp: in_use_def p_def)
  have run: "r \<noteq> 0 \<and> hs' = hs\<lparr>hs_w := s3\<rparr> \<or> probe_bufs E dev ch p (hs\<lparr>hs_w := s7\<rparr>) = Some (r, hs')"
    using assms(2) p unfolding p_def s7_def s6_def s5_def s4_def s3_def s2_def ring_def
    by (auto simp: hv_uio_probe_def Let_def case_prod_beta split: if_splits)
  then show "reachable E drv (hs_w hs')"
    using w i reachable_probe_bufs(1) [of E drv p "hs\<lparr>hs_w := s7\<rparr>" dev ch r hs'] by (auto simp: working_def)
  have "w_info s7 p = probe_info conn (of_int (E (w_log s4) (Mm (Out_ring_phys ch))))
      (of_int (E (w_log s5) (Mm (Out_ring_pagecount ch)))) zero_info"
    by (simp add: s7_def s6_def s5_def s4_def s3_def s2_def)
  then show "r = 0 \<Longrightarrow> \<exists>s7 l phys. working E drv (E (w_log (hs_w hs)) (Hv Devm_kzalloc)) s7
      \<and> w_info s7 (E (w_log (hs_w hs)) (Hv Devm_kzalloc)) = probe_info conn phys (of_int (E l (Mm (Out_ring_pagecount ch)))) zero_info
      \<and> probe_bufs E dev ch (E (w_log (hs_w hs)) (Hv Devm_kzalloc)) (hs\<lparr>hs_w := s7\<rparr>) = Some (r, hs')"
    using run w(2) p_def by blast
qed

lemma reachable_remove:
  assumes "reachable E drv (hs_w hs)" "bound dev p idev m hs" "hv_uio_remove E dev ch hs = Some hs'"
  shows "reachable E drv (hs_w hs')"
proof -
  let ?s1 = "kvoid_w (Hv (Sysfs_remove_bin_file ch)) (hs_w hs)"
  obtain s2 where s2: "uio_unregister_device p ?s1 = Some s2" "hs_w hs' = kvoid_w (Hv (Vmbus_free_ring ch)) (hv_uio_cleanup E p s2)"
    using assms(2,3) by (auto simp: hv_uio_remove_def bound_def Let_def split: option.splits)
  have "reachable E drv s2" by (rule Step [OF _ Unregister [OF _ _ s2(1)]]) (simp_all add: assms(1) in_use_bound [OF assms(2)])
  then show ?thesis using s2(2) by (simp add: reachable_cleanup)
qed

lemma reachable_channel_cb:
  assumes "reachable E drv (hs_w hs)" "bound dev p idev m hs" "hv_uio_channel_cb dev owner ch hs = Some hs'"
  shows "reachable E drv (hs_w hs')"
proof -
  let ?s = "kvoid_w (Sync Virt_mb) (on_drv owner (set_mask ch 1) (hs_w hs))"
  have n: "uio_event_notify p ?s = Some (hs_w hs')" using assms(2,3) by (auto simp: hv_uio_channel_cb_def bound_def Let_def)
  show ?thesis by (rule Step [OF _ Notify [OF _ _ n]]) (simp_all add: assms(1) in_use_bound [OF assms(2)])
qed

lemma reachable_rescind:
  assumes "reachable E drv (hs_w hs)" "bound dev p idev m hs" "hv_uio_rescind dev hs = Some hs'"
  shows "reachable E drv (hs_w hs')"
proof -
  let ?s = "upd_info p (\<lambda>i. i\<lparr>info_irq := 0\<rparr>) (hs_w hs)"
  obtain s2 where s2: "uio_event_notify p ?s = Some s2" "hs_w hs' = kvoid_w (Hv (Vmbus_device_unregister dev)) s2"
    using assms(2,3) by (auto simp: hv_uio_rescind_def bound_def Let_def split: option.splits)
  have "reachable E drv s2"
    by (rule Step [OF Step [OF assms(1) Set_irq] Notify [OF _ _ s2(1)]]) (simp_all add: in_use_bound [OF assms(2)])
  then show ?thesis using s2(2) by simp
qed

lemma reachable_new_channel: "reachable E drv s \<Longrightarrow> reachable E drv (hv_uio_new_channel E p new_sc s)"
  by (simp add: hv_uio_new_channel_def Let_def case_prod_beta)

section \<open>The region of the rings\<close>

text \<open>The first region of a \<open>uio_info\<close> has this name and size.\<close>

definition first_region :: "string \<Rightarrow> u64 \<Rightarrow> 'd uio_info \<Rightarrow> bool" where
  "first_region nm sz i \<longleftrightarrow> wf_info i \<and> mem_name (info_mem i ! 0) = Some nm \<and> mem_size (info_mem i ! 0) = sz"

lemma first_region_set: "0 < k \<Longrightarrow> first_region nm sz (set_region k n a z t i) = first_region nm sz i"
  by (simp add: first_region_def set_region_def wf_info_def nth_list_update)

lemma first_region_clean:
  assumes "clean_info i = clean_info j" "wf_info i" "first_region nm sz j"
  shows "first_region nm sz i"
proof -
  have "map (\<lambda>m. m\<lparr>mem_map := NULL\<rparr>) (info_mem i) = map (\<lambda>m. m\<lparr>mem_map := NULL\<rparr>) (info_mem j)"
    using arg_cong [OF assms(1), of info_mem] by (simp add: clean_info_def)
  note eq = map_through [OF this, of mem_name mem_name] map_through [OF this, of mem_size mem_size]
  have "0 < length (info_mem i)" "0 < length (info_mem j)"
    using assms(2,3) by (simp_all add: first_region_def wf_info_def MAX_UIO_MAPS_def)
  then have "mem_name (info_mem i ! 0) = mem_name (info_mem j ! 0)" "mem_size (info_mem i ! 0) = mem_size (info_mem j ! 0)"
    using eq by (metis nth_map uio_mem.select_convs(1) uio_mem.update_convs(8) uio_mem.surjective,
        metis nth_map uio_mem.select_convs(5) uio_mem.update_convs(8) uio_mem.surjective)
  then show ?thesis using assms(2,3) by (simp add: first_region_def)
qed

lemma probe_info_first:
  "first_region ''txrx_rings'' (ucast (push_bit PAGE_SHIFT n)) (probe_info conn phys n zero_info)"
  by (simp add: probe_info_def Let_def first_region_set INT_PAGE_MAP_def MON_PAGE_MAP_def)
    (simp add: first_region_def set_region_def TXRX_RING_MAP_def wf_info_def zero_info_def MAX_UIO_MAPS_def MAX_UIO_PORT_REGIONS_def)

lemma probe_register_region:
  assumes "working E drv p (hs_w hs)" "kernel_ok E" "first_region nm sz (w_info (hs_w hs) p)"
    "probe_register E dev ch p hs = Some (0, hs')"
  shows "hs_drvdata hs' dev = p \<and> first_region nm sz (w_info (hs_w hs') p) \<and> maps_linked p (hs_w hs')"
proof -
  let ?s1 = "on_drv p (\<lambda>pd. pd\<lparr>pd_device := dev\<rparr>) (upd_info p (\<lambda>i. i\<lparr>info_priv := p\<rparr>) (hs_w hs))"
  have w: "working E drv p ?s1" using assms(1) by simp
  have f: "first_region nm sz (w_info ?s1 p)" using assms(3) by (simp add: first_region_def wf_info_def)
  obtain ret s2 where s2: "uio_register_device E THIS_MODULE dev p ?s1 = Some (ret, s2)"
    using assms(4) by (auto simp: probe_register_def Let_def split: option.splits)
  have r: "ret = 0" using assms(4) s2 by (auto simp: probe_register_def Let_def fail_close_def fail_free_ring_def split: if_splits)
  have "reachable E drv ?s1" using w by (simp only: working_def)
  then have st: "store_ok ?s1" by (rule sys_invD(1) [OF reachable_inv [OF _ assms(2)]])
  have "reg_args_ok dev p ?s1" using register_early [of dev p ?s1 E THIS_MODULE] s2 r by fastforce
  then obtain idev m where "came_up THIS_MODULE p idev m ?s1 s2"
    using register_cases [OF st assms(2), of dev p THIS_MODULE] f s2 r by (auto simp: first_region_def)
  then have c: "clean_info (w_info s2 p) = clean_info ((w_info ?s1 p)\<lparr>info_uio_dev := idev\<rparr>)" "wf_info (w_info s2 p)"
    by (simp_all add: came_up_def)
  have "first_region nm sz (w_info s2 p)"
    using f by (intro first_region_clean [OF c]) (simp add: first_region_def wf_info_def)
  moreover have "maps_linked p s2" using register_links [OF assms(2) _ s2 [unfolded r]] f by (simp add: first_region_def)
  ultimately show ?thesis
    using assms(4) s2 r by (auto simp: probe_register_def Let_def case_prod_beta maps_linked_def)
qed

lemma probe_region:
  assumes "reachable E drv (hs_w hs)" "kernel_ok E" "\<not> in_use (E (w_log (hs_w hs)) (Hv Devm_kzalloc)) (hs_w hs)"
    "hv_uio_probe E devs conn dev ch chans hs = Some (0, hs')"
  shows "\<exists>l. first_region ''txrx_rings'' (ucast (push_bit PAGE_SHIFT (of_int (E l (Mm (Out_ring_pagecount ch))) :: u32)))
    (w_info (hs_w hs') (hs_drvdata hs' dev)) \<and> maps_linked (hs_drvdata hs' dev) (hs_w hs')"
proof -
  define p where "p = E (w_log (hs_w hs)) (Hv Devm_kzalloc)"
  obtain s7 l phys where 7: "working E drv p s7" "probe_bufs E dev ch p (hs\<lparr>hs_w := s7\<rparr>) = Some (0, hs')"
    "w_info s7 p = probe_info conn phys (of_int (E l (Mm (Out_ring_pagecount ch)))) zero_info"
    using reachable_probe(2) [OF assms(1,4,3) refl] unfolding p_def by blast
  let ?sz = "ucast (push_bit PAGE_SHIFT (of_int (E l (Mm (Out_ring_pagecount ch))) :: u32)) :: u64"
  have i: "hv_info (w_info s7 p)" "first_region ''txrx_rings'' ?sz (w_info s7 p)"
    unfolding 7(3) by (rule hv_info_probe, rule probe_info_first)
  then obtain s6 a b c d where 6: "working E drv p s6" "probe_register E dev ch p (hs\<lparr>hs_w := s6\<rparr>) = Some (0, hs')"
    "w_info s6 p = set_region SEND_BUF_MAP a b SEND_BUFFER_SIZE UIO_MEM_VIRTUAL
          (set_region RECV_BUF_MAP c d RECV_BUFFER_SIZE UIO_MEM_VIRTUAL (w_info s7 p))"
    using reachable_probe_bufs(2) [of E drv p "hs\<lparr>hs_w := s7\<rparr>" dev ch 0 hs'] 7(1,2) by auto
  then have "first_region ''txrx_rings'' ?sz (w_info s6 p)"
    using i(2) by (simp add: first_region_set SEND_BUF_MAP_def RECV_BUF_MAP_def)
  then show ?thesis using probe_register_region [OF _ assms(2) _ 6(2)] 6(1) by auto
qed

section \<open>Properties\<close>


section \<open>Examples\<close>

text \<open>The core is loaded, and a device is probed while there is no memory for its buffers.\<close>

definition demo_pd :: pdata where
  "demo_pd = zero_pdata 0 (\<lambda>_. demo_chan 0)"

definition demo_load_hs :: hv_state where
  "demo_load_hs = \<lparr>hs_w = snd (uio_init no_vmalloc_env (init_world demo_pd)), hs_drvdata = (\<lambda>_. NULL)\<rparr>"

lemma demo_load_runs:
  "fst (uio_init no_vmalloc_env (init_world demo_pd)) = 0"
  "map_option fst (hv_uio_probe no_vmalloc_env demo_devs demo_conn 8 9 (\<lambda>_. demo_chan 0) demo_load_hs) = Some (- ENOMEM)"
  "(no_vmalloc_env (w_log (hs_w demo_load_hs)) (Hv Devm_kzalloc) = NULL) = False"
  by code_simp+


end
