(* ===== verification/Client_Device.thy ===== *)
theory Client_Device
  imports Client_Channel Hv_System
begin

text \<open>
  How the managed client finds and opens its devices (\<open>UioHv.cs\<close> and the start of \<open>SynthRdp.cs\<close>): it reads the
  memory maps of a device from sysfs, registers device classes with the driver, waits for a data channel and
  shakes hands with the host.

  The file system is a parameter: \<open>fs_dirs\<close> are the names of the directories in a directory, \<open>fs_is_file\<close> and
  \<open>fs_is_dir\<close> are \<open>File.Exists\<close> and \<open>Directory.Exists\<close>, \<open>fs_text\<close> is the text of a file and \<open>fs_write\<close> is 0 or the \<open>HResult\<close>
  of the exception of a write.  A loop without a bound in the source is a partial function: \<open>None\<close> is a loop
  that does not end.

  Shown: the search ends when there is a last map directory, the wait ends when a channel stays
  present; and, with the sysfs files that the UIO core shows for a device that the driver has probed, the
  client gets a device on exactly the two rings that the driver allocated.
\<close>

section \<open>Files and numbers\<close>

record file_system =
  fs_dirs :: "string \<Rightarrow> string list option"
  fs_is_file :: "string \<Rightarrow> bool"
  fs_is_dir :: "string \<Rightarrow> bool"
  fs_text :: "string \<Rightarrow> string option"
  fs_write :: "string \<Rightarrow> string \<Rightarrow> int"

definition bindE :: "exn + 'a \<Rightarrow> ('a \<Rightarrow> exn + 'b) \<Rightarrow> exn + 'b" where
  "bindE r f = (case r of Inl e \<Rightarrow> Inl e | Inr x \<Rightarrow> f x)"

lemma bindE_simps [simp]: "bindE (Inl e) f = Inl e" "bindE (Inr x) f = f x"
  by (simp_all add: bindE_def)

text \<open>\<open>File.ReadAllLines(path)[0]\<close>: a line ends at a carriage return or a line feed, and an empty file has no line.\<close>

definition read_first_line :: "file_system \<Rightarrow> string \<Rightarrow> exn + string" where
  "read_first_line fs path =
     (case fs_text fs path of
        None \<Rightarrow> Inl FileNotFoundException
      | Some t \<Rightarrow> if t = [] then Inl IndexOutOfRangeException
                 else Inr (takeWhile (\<lambda>c. c \<noteq> CHR 0x0A \<and> c \<noteq> CHR 0x0D) t))"

text \<open>\<open>Convert.ToInt64(s, 16)\<close>: an optional plus sign, an optional prefix, digits up to 64 bits, which are those of
  the result.\<close>

definition hex_digit :: "char \<Rightarrow> nat option" where
  "hex_digit c = (let n = of_char c :: nat in
     if 48 \<le> n \<and> n \<le> 57 then Some (n - 48)
     else if 97 \<le> n \<and> n \<le> 102 then Some (n - 87)
     else if 65 \<le> n \<and> n \<le> 70 then Some (n - 55) else None)"

fun grab_longs :: "string \<Rightarrow> nat \<Rightarrow> exn + nat \<times> string" where
  "grab_longs [] r = Inr (r, [])"
| "grab_longs (c # t) r =
     (case hex_digit c of
        None \<Rightarrow> Inr (r, c # t)
      | Some v \<Rightarrow> if (2 ^ 64 - 1) div 16 < r then Inl OverflowException else grab_longs t (r * 16 + v))"

definition ToInt64_16 :: "string \<Rightarrow> exn + int" where
  "ToInt64_16 s =
     (if s = [] then Inl ArgumentOutOfRangeException
      else if hd s = CHR ''-'' then Inl ArgumentException
      else
        let s1 = (if hd s = CHR ''+'' then tl s else s);
            s2 = (if take 2 s1 = ''0x'' \<or> take 2 s1 = ''0X'' then drop 2 s1 else s1) in
        bindE (grab_longs s2 0) (\<lambda>(r, rest).
          if rest = s2 \<or> rest \<noteq> [] then Inl FormatException else Inr (sint (of_nat r :: u64))))"

section \<open>UioHv\<close>

record UioDeviceInformation =
  DeviceObjectPath :: string
  MemoryMap :: "UioDeviceMemoryMapItem list"

text \<open>\<open>string.Format\<close> prints an \<open>int\<close> as \<open>%d\<close> does.\<close>

definition map_path :: "string \<Rightarrow> int \<Rightarrow> string" where
  "map_path FullName i = FullName @ ''/maps/map'' @ fmt_d i"

definition map_item :: "file_system \<Rightarrow> int \<Rightarrow> string \<Rightarrow> int \<Rightarrow> exn + UioDeviceMemoryMapItem" where
  "map_item fs PageSize CurrentPath i =
     bindE (read_first_line fs (CurrentPath @ ''/name'')) (\<lambda>Name.
     bindE (bindE (read_first_line fs (CurrentPath @ ''/size'')) ToInt64_16) (\<lambda>Size.
     Inr \<lparr>item_Name = Name, item_Offset = i32 (i * PageSize), item_Size = Size\<rparr>))"

partial_function (option) memory_map ::
    "file_system \<Rightarrow> int \<Rightarrow> string \<Rightarrow> int \<Rightarrow> UioDeviceMemoryMapItem list \<Rightarrow> (exn + UioDeviceMemoryMapItem list) option" where
  "memory_map fs PageSize FullName i items =
     (if \<not> fs_is_dir fs (map_path FullName i) then Some (Inr items)
      else case map_item fs PageSize (map_path FullName i) i of
             Inl e \<Rightarrow> Some (Inl e)
           | Inr Item \<Rightarrow> memory_map fs PageSize FullName (i32 (i + 1)) (items @ [Item]))"

definition instances_path :: "string \<Rightarrow> string" where
  "instances_path InstanceId = ''/sys/bus/vmbus/devices/'' @ InstanceId @ ''/uio''"

fun search_instances ::
    "file_system \<Rightarrow> int \<Rightarrow> string \<Rightarrow> string list \<Rightarrow> (exn + UioDeviceInformation) option" where
  "search_instances fs PageSize path [] = Some (Inl (Exception_of ''Hyper-V VMBus device not found.''))"
| "search_instances fs PageSize path (Name # names) =
     (if fs_is_file fs (''/dev/'' @ Name)
      then map_option (\<lambda>r. bindE r (\<lambda>items. Inr \<lparr>DeviceObjectPath = ''/dev/'' @ Name, MemoryMap = items\<rparr>))
             (memory_map fs PageSize (path @ ''/'' @ Name) 0 [])
      else search_instances fs PageSize path names)"

definition GetDeviceInformation :: "file_system \<Rightarrow> int \<Rightarrow> string \<Rightarrow> (exn + UioDeviceInformation) option" where
  "GetDeviceInformation fs PageSize InstanceId =
     (case fs_dirs fs (instances_path InstanceId) of
        None \<Rightarrow> Some (Inl DirectoryNotFoundException)
      | Some names \<Rightarrow> search_instances fs PageSize (instances_path InstanceId) names)"

definition RegisterDevice :: "file_system \<Rightarrow> string \<Rightarrow> exn + unit" where
  "RegisterDevice fs ClassId =
     (let e = fs_write fs ''/sys/bus/vmbus/drivers/uio_hv_generic/new_id'' ClassId in
      if e = 0 then Inr () else if e \<noteq> 17 then Inl (IOException e) else Inr ())"

text \<open>The whole constructor of \<open>UioHvDevice\<close>; the memory it works on is that of the device file it maps.\<close>

definition open_device :: "file_system \<Rightarrow> int \<Rightarrow> string \<Rightarrow> UioHvDevice cs option" where
  "open_device fs PageSize InstanceId =
     map_option (\<lambda>r. case r of Inl e \<Rightarrow> throw e | Inr I \<Rightarrow> new_UioHvDevice PageSize (MemoryMap I))
       (GetDeviceInformation fs PageSize InstanceId)"

section \<open>Waiting for a data channel\<close>

definition DataInstanceIds :: "string list" where
  "DataInstanceIds = [''99221fa1-24ad-11e2-be98-001aa01bbf6e'', ''99221fa2-24ad-11e2-be98-001aa01bbf6e'',
     ''99221fa3-24ad-11e2-be98-001aa01bbf6e'', ''99221fa4-24ad-11e2-be98-001aa01bbf6e'',
     ''99221fa5-24ad-11e2-be98-001aa01bbf6e'']"

text \<open>The file system may change between two attempts: \<open>F n\<close> is what attempt \<open>n\<close> finds.  One round of the \<open>while\<close>
  loop returns the instance found, if any, and the number of the next attempt.\<close>

fun try_instances :: "(nat \<Rightarrow> file_system) \<Rightarrow> int \<Rightarrow> nat \<Rightarrow> string list \<Rightarrow> (string option \<times> nat) option" where
  "try_instances F PageSize n [] = Some (None, n)"
| "try_instances F PageSize n (InstanceId # ids) =
     (case GetDeviceInformation (F n) PageSize InstanceId of
        None \<Rightarrow> None
      | Some (Inr info) \<Rightarrow> Some (Some InstanceId, Suc n)
      | Some (Inl e) \<Rightarrow> try_instances F PageSize (Suc n) ids)"

partial_function (option) await_instance :: "(nat \<Rightarrow> file_system) \<Rightarrow> int \<Rightarrow> nat \<Rightarrow> (string \<times> nat) option" where
  "await_instance F PageSize n =
     (case try_instances F PageSize n DataInstanceIds of
        None \<Rightarrow> None
      | Some (Some InstanceId, n') \<Rightarrow> Some (InstanceId, n')
      | Some (None, n') \<Rightarrow> await_instance F PageSize n')"

definition WaitForDataChannel :: "(nat \<Rightarrow> file_system) \<Rightarrow> int \<Rightarrow> nat \<Rightarrow> UioHvDevice cs option" where
  "WaitForDataChannel F PageSize n =
     (case await_instance F PageSize n of
        None \<Rightarrow> None
      | Some (InstanceId, n') \<Rightarrow> open_device (F n') PageSize InstanceId)"

section \<open>The remote desktop service\<close>

definition ControlClassId :: string where "ControlClassId = ''f8e65716-3cb3-4a06-9a60-1889c5cccab5''"
definition ControlInstanceId :: string where "ControlInstanceId = ''99221fa0-24ad-11e2-be98-001aa01bbf6e''"
definition DataClassId :: string where "DataClassId = ''f9e9c0d3-b511-4a48-8046-d38079a8830c''"

text \<open>The start of \<open>ServiceMain\<close>, up to the accepted version.\<close>

definition service_start :: "file_system \<Rightarrow> posix_env \<Rightarrow> int \<Rightarrow> UioHvDevice cs option" where
  "service_start fs E PageSize =
     (case bindE (RegisterDevice fs ControlClassId) (\<lambda>_. RegisterDevice fs DataClassId) of
        Inl e \<Rightarrow> Some (throw e)
      | Inr _ \<Rightarrow>
          map_option (\<lambda>new_device. andthen new_device (\<lambda>Device.
            andthen version_request (\<lambda>Request.
            andthen (Send E Device (SynthRdpVersionRequest_bytes Request)) (\<lambda>_.
            andthen (version_response E Device) (\<lambda>Response. ret Device)))))
          (open_device fs PageSize ControlInstanceId))"

text \<open>The connection request of a client: it is received, its requested protocols are cleared, and the
  result goes to the server.\<close>

definition connection_request :: "posix_env \<Rightarrow> UioHvDevice \<Rightarrow> u8 list cs" where
  "connection_request E DataChannel = andthen (Receive E DataChannel) (\<lambda>Content.
     if length Content \<le> 15 then throw IndexOutOfRangeException else ret (Content[15 := 0]))"

text \<open>One round of each of the two forwarding threads.  The result of the first is what it sends to the socket; for
  the second, \<open>Available\<close> and \<open>Receive\<close> of the socket are parameters, the bytes received being those that
  \<open>Take(Count)\<close> keeps.\<close>

definition vmbus_to_tcp :: "UioHvDevice \<Rightarrow> u8 list option cs" where
  "vmbus_to_tcp DataChannel = andthen (PopPipePacket DataChannel) (\<lambda>ReceiveContent.
     ret (if length ReceiveContent \<noteq> 0 then Some ReceiveContent else None))"

definition tcp_to_vmbus :: "posix_env \<Rightarrow> UioHvDevice \<Rightarrow> int \<Rightarrow> (int \<Rightarrow> exn + u8 list) \<Rightarrow> unit cs" where
  "tcp_to_vmbus E DataChannel Available socket_Receive =
     andthen (GetMaximumPushSize DataChannel) (\<lambda>k.
     let MaximumSendSize = min Available k in
     if MaximumSendSize > 0 then
       (case socket_Receive MaximumSendSize of
          Inl e \<Rightarrow> throw e
        | Inr SendContent \<Rightarrow> andthen (PushPipePacket DataChannel SendContent) (\<lambda>_. SignalHost E))
     else ret ())"

section \<open>The loops end\<close>

lemma i32_Suc: "Suc j < 2 ^ 31 \<Longrightarrow> i32 (int j + 1) = int (Suc j)"
  by (simp add: i32_id)

lemma memory_map_ends:
  assumes "\<not> fs_is_dir fs (map_path dir (int k))" "k < 2 ^ 31" "j \<le> k"
  shows "\<exists>r. memory_map fs pg dir (int j) items = Some r"
  using assms(3)
proof (induction "k - j" arbitrary: j items)
  case 0
  then have "j = k" by simp
  then show ?case using assms(1) by (subst memory_map.simps) simp
next
  case (Suc n)
  show ?case
  proof (cases "fs_is_dir fs (map_path dir (int j))")
    case True
    have more: "\<exists>r. memory_map fs pg dir (int (Suc j)) its = Some r" for its
      using Suc.prems Suc.hyps(2) by (intro Suc.hyps(1)) simp_all
    have "i32 (int j + 1) = int (Suc j)" using Suc assms(2) by (intro i32_Suc) simp
    then show ?thesis using more True
      by (subst memory_map.simps) (auto split: sum.split)
  next
    case False
    then show ?thesis by (subst memory_map.simps) simp
  qed
qed

lemma search_ends:
  assumes "\<forall>Name\<in>set names. fs_is_file fs (''/dev/'' @ Name) \<longrightarrow>
      (\<exists>k<2 ^ 31. \<not> fs_is_dir fs (map_path (path @ ''/'' @ Name) (int k)))"
  shows "\<exists>r. search_instances fs pg path names = Some r"
  using assms
proof (induction names)
  case (Cons Name names)
  then show ?case using memory_map_ends [of fs "path @ ''/'' @ Name" _ 0 pg "[]"] by fastforce
qed simp

text \<open>The last map directory exists in every instance of a device.\<close>

definition finite_maps :: "file_system \<Rightarrow> string \<Rightarrow> bool" where
  "finite_maps fs InstanceId \<longleftrightarrow> (\<forall>Name. fs_is_file fs (''/dev/'' @ Name) \<longrightarrow>
     (\<exists>k<2 ^ 31. \<not> fs_is_dir fs (map_path (instances_path InstanceId @ ''/'' @ Name) (int k))))"

lemma information_ends: "finite_maps fs i \<Longrightarrow> \<exists>r. GetDeviceInformation fs pg i = Some r"
  using search_ends [of _ fs "instances_path i" pg]
  by (auto simp: GetDeviceInformation_def finite_maps_def split: option.splits)

lemma try_instances_spec:
  assumes "\<And>n i. i \<in> set ids \<Longrightarrow> finite_maps (F n) i"
  shows "\<exists>r n'. try_instances F pg n ids = Some (r, n') \<and>
    (case r of
       None \<Rightarrow> n' = n + length ids \<and> (\<forall>j<length ids. \<forall>I. GetDeviceInformation (F (n + j)) pg (ids ! j) \<noteq> Some (Inr I))
     | Some i \<Rightarrow> i \<in> set ids \<and> n < n' \<and> (\<exists>I. GetDeviceInformation (F (n' - 1)) pg i = Some (Inr I)))"
  using assms
proof (induction ids arbitrary: n)
  case (Cons i ids)
  obtain r where r: "GetDeviceInformation (F n) pg i = Some r" using information_ends [of "F n" i pg] Cons.prems by auto
  show ?case
  proof (cases r)
    case (Inr I)
    then show ?thesis using r by auto
  next
    case (Inl e)
    from Cons.IH [of "Suc n"] Cons.prems obtain q n' where q: "try_instances F pg (Suc n) ids = Some (q, n')"
      "case q of
         None \<Rightarrow> n' = Suc n + length ids \<and> (\<forall>j<length ids. \<forall>I. GetDeviceInformation (F (Suc n + j)) pg (ids ! j) \<noteq> Some (Inr I))
       | Some i \<Rightarrow> i \<in> set ids \<and> Suc n < n' \<and> (\<exists>I. GetDeviceInformation (F (n' - 1)) pg i = Some (Inr I))"
      by auto
    have run: "try_instances F pg n (i # ids) = Some (q, n')" using r Inl q(1) by simp
    have "(\<forall>j<length (i # ids). \<forall>I. GetDeviceInformation (F (n + j)) pg ((i # ids) ! j) \<noteq> Some (Inr I))" if "q = None"
      using q(2) r Inl that by (auto simp: less_Suc_eq_0_disj)
    then show ?thesis using run q(2) by (cases q) auto
  qed
qed simp

lemma await_ends:
  assumes maps: "\<And>n i. i \<in> set DataInstanceIds \<Longrightarrow> finite_maps (F n) i"
    and ch: "c \<in> set DataInstanceIds" "\<And>n. k \<le> n \<Longrightarrow> \<exists>I. GetDeviceInformation (F n) pg c = Some (Inr I)"
  shows "\<exists>i n'. await_instance F pg n = Some (i, n') \<and> i \<in> set DataInstanceIds \<and> n < n'
    \<and> (\<exists>I. GetDeviceInformation (F (n' - 1)) pg i = Some (Inr I))"
proof (induction "k - n" arbitrary: n rule: less_induct)
  case less
  obtain r n' where t: "try_instances F pg n DataInstanceIds = Some (r, n')"
    "case r of
       None \<Rightarrow> n' = n + length DataInstanceIds \<and> (\<forall>j<length DataInstanceIds. \<forall>I. GetDeviceInformation (F (n + j)) pg (DataInstanceIds ! j) \<noteq> Some (Inr I))
     | Some i \<Rightarrow> i \<in> set DataInstanceIds \<and> n < n' \<and> (\<exists>I. GetDeviceInformation (F (n' - 1)) pg i = Some (Inr I))"
    using try_instances_spec [of DataInstanceIds F pg n, OF maps] by blast
  show ?case
  proof (cases r)
    case (Some i)
    then show ?thesis using t by (subst await_instance.simps) auto
  next
    case None
    obtain j where j: "j < length DataInstanceIds" "DataInstanceIds ! j = c" using ch(1) by (auto simp: in_set_conv_nth)
    then have "n < k" using None t(2) ch(2) [of "n + j"] by (cases "k \<le> n") auto
    moreover have "n < n'" using None t(2) by (simp add: DataInstanceIds_def)
    ultimately have "\<exists>i n''. await_instance F pg n' = Some (i, n'') \<and> i \<in> set DataInstanceIds \<and> n' < n''
        \<and> (\<exists>I. GetDeviceInformation (F (n'' - 1)) pg i = Some (Inr I))"
      by (intro less) simp
    then show ?thesis using None t(1) \<open>n < n'\<close> by (subst await_instance.simps) fastforce
  qed
qed

section \<open>The files of sysfs\<close>

lemma hex_digit_hexdig: "n < 16 \<Longrightarrow> hex_digit (hexdig n) = Some n"
  by (auto simp: hex_digit_def hexdig_def less_Suc_eq numeral_eq_Suc)

lemma hexdig_not_return [simp]: "n < 16 \<Longrightarrow> hexdig n \<noteq> CHR 0x0D"
  by (auto simp: hexdig_def less_Suc_eq numeral_eq_Suc)

lemma foldl_digits_ge: "r \<le> foldl (\<lambda>a c. a * 16 + digval c) r t"
proof (induction t arbitrary: r)
  case (Cons c t)
  have "r \<le> r * 16 + digval c" by simp
  also have "\<dots> \<le> foldl (\<lambda>a c. a * 16 + digval c) (r * 16 + digval c) t" by (rule Cons)
  finally show ?case by simp
qed simp

lemma grab_longs_hex:
  assumes "hex_text t" "foldl (\<lambda>a c. a * 16 + digval c) r t < 2 ^ 64"
  shows "grab_longs t r = Inr (foldl (\<lambda>a c. a * 16 + digval c) r t, [])"
  using assms
proof (induction t arbitrary: r)
  case (Cons c t)
  obtain n where n: "n < 16" "c = hexdig n" using Cons.prems(1) by (auto simp: hex_text_def)
  have h: "hex_text t" using Cons.prems(1) by (simp add: hex_text_def)
  have "r * 16 + n < 2 ^ 64" using foldl_digits_ge [of "r * 16 + n" t] Cons.prems(2) n by simp
  then have "\<not> (2 ^ 64 - 1) div 16 < r" by simp
  then show ?case using Cons.IH [OF h, of "r * 16 + n"] Cons.prems(2) n by (simp add: hex_digit_hexdig)
qed simp

lemma ToInt64_fmt_pa: "ToInt64_16 (fmt_pa a) = Inr (sint a)"
proof -
  define t where "t = replicate (16 - length (fmt_x (unat a))) (CHR ''0'') @ fmt_x (unat a)"
  have p: "fmt_pa a = CHR ''0'' # CHR ''x'' # t" by (simp add: fmt_pa_def t_def Let_def)
  have v: "foldl (\<lambda>a c. a * 16 + digval c) 0 t = unat a"
    using digits_value_zeros [of 16] digits_value_fmt_x [of "unat a"] by (simp add: t_def digits_value_def)
  have "unat a < 2 ^ 64" using unsigned_less [of a, where ?'a = nat] by simp
  then have g: "grab_longs t 0 = Inr (unat a, [])" using grab_longs_hex [of t 0] v by (simp add: t_def)
  have "t \<noteq> []" using fmt_x.simps [of "unat a"] by (auto simp: t_def split: if_splits)
  then show ?thesis using g by (auto simp: ToInt64_16_def p Let_def)
qed

lemma first_line_of:
  assumes "fs_text fs path = Some (t @ newline)"
  shows "read_first_line fs path = Inr (takeWhile (\<lambda>c. c \<noteq> CHR 0x0A \<and> c \<noteq> CHR 0x0D) t)"
proof -
  have "takeWhile P (t @ newline) = takeWhile P t" if "\<not> P (CHR 0x0A)" for P
    using that by (induction t) (simp_all add: newline_def)
  then show ?thesis using assms by (simp add: read_first_line_def newline_def)
qed

lemma plain_line: "\<forall>c\<in>set t. c \<noteq> CHR 0x0A \<and> c \<noteq> CHR 0x0D \<Longrightarrow> takeWhile (\<lambda>c. c \<noteq> CHR 0x0A \<and> c \<noteq> CHR 0x0D) t = t"
  by (simp add: takeWhile_eq_all_conv)

lemma fmt_pa_plain: "takeWhile (\<lambda>c. c \<noteq> CHR 0x0A \<and> c \<noteq> CHR 0x0D) (fmt_pa a) = fmt_pa a"
proof -
  have "c \<noteq> CHR 0x0A \<and> c \<noteq> CHR 0x0D" if c: "c \<in> set (fmt_x (unat a))" for c
  proof -
    obtain k where "k < 16" "c = hexdig k" using fmt_x_digits [OF c] by blast
    then show ?thesis by simp
  qed
  then show ?thesis by (intro plain_line) (auto simp: fmt_pa_def Let_def)
qed

text \<open>How sysfs presents the maps of a registered device: a directory \<open>mapN\<close> for each map in use, in it a file for each
  attribute, whose text is what the \<open>show\<close> function of the kobject of the map writes.\<close>

definition sysfs_shows :: "file_system \<Rightarrow> string \<Rightarrow> ptr \<Rightarrow> 'd world \<Rightarrow> bool" where
  "sysfs_shows fs dir ip s \<longleftrightarrow>
     (\<forall>i. fs_is_dir fs (map_path dir (int i)) \<longleftrightarrow> i < used_maps (w_info s ip))
     \<and> (\<forall>i<used_maps (w_info s ip). \<forall>e\<in>set map_attrs.
          fs_text fs (map_path dir (int i) @ ''/'' @ mattr_name e) =
            map_option (\<lambda>(ret, buf, t). buf) (map_type_show (mem_map (info_mem (w_info s ip) ! i)) e s))"

definition shown_item :: "uio_mem \<Rightarrow> nat \<Rightarrow> UioDeviceMemoryMapItem" where
  "shown_item u i =
     \<lparr>item_Name = takeWhile (\<lambda>c. c \<noteq> CHR 0x0A \<and> c \<noteq> CHR 0x0D) (case mem_name u of None \<Rightarrow> '''' | Some n \<Rightarrow> n),
      item_Offset = i32 (int i * 4096), item_Size = sint (mem_size u)\<rparr>"

lemma map_item_shown:
  assumes "sysfs_shows fs dir ip s" "maps_linked ip s" "i < used_maps (w_info s ip)"
  shows "map_item fs 4096 (map_path dir (int i)) (int i) = Inr (shown_item (info_mem (w_info s ip) ! i) i)"
proof -
  let ?mem = "info_mem (w_info s ip) ! i"
  have k: "w_map s (mem_map ?mem) = Some \<lparr>umap_mem = (ip, i)\<rparr>" using assms(2,3) by (simp add: maps_linked_def)
  have "fs_text fs (map_path dir (int i) @ ''/'' @ mattr_name e) = map_option (\<lambda>(ret, buf, t). buf) (map_type_show (mem_map ?mem) e s)"
    if "e \<in> set map_attrs" for e using assms(1,3) that unfolding sysfs_shows_def by blast
  from this [of name_attribute] this [of size_attribute]
  have "fs_text fs (map_path dir (int i) @ ''/name'') = Some ((case mem_name ?mem of None \<Rightarrow> '''' | Some n \<Rightarrow> n) @ newline)"
    "fs_text fs (map_path dir (int i) @ ''/size'') = Some (fmt_pa (mem_size ?mem) @ newline)"
    using k
    by (simp_all add: map_attrs_def map_type_show_def name_attribute_def size_attribute_def map_name_show_def
        map_size_show_def sprintf_ret_def Let_def split: option.splits)
  then show ?thesis
    by (simp add: map_item_def first_line_of fmt_pa_plain ToInt64_fmt_pa shown_item_def)
qed

lemma memory_map_items:
  assumes "\<And>i. i < k \<Longrightarrow> fs_is_dir fs (map_path dir (int i)) \<and> map_item fs pg (map_path dir (int i)) (int i) = Inr (it i)"
    "\<not> fs_is_dir fs (map_path dir (int k))" "k < 2 ^ 31" "j \<le> k"
  shows "memory_map fs pg dir (int j) items = Some (Inr (items @ map it [j..<k]))"
  using assms(4)
proof (induction "k - j" arbitrary: j items)
  case 0
  then have "j = k" by simp
  then show ?case using assms(2) by (subst memory_map.simps) simp
next
  case (Suc n)
  then have j: "j < k" by simp
  have "i32 (int j + 1) = int (Suc j)" using j assms(3) by (intro i32_Suc) simp
  moreover have "memory_map fs pg dir (int (Suc j)) (items @ [it j]) = Some (Inr ((items @ [it j]) @ map it [Suc j..<k]))"
    using Suc j by (intro Suc.hyps(1)) simp_all
  ultimately show ?case using assms(1) [OF j] j by (subst memory_map.simps) (simp add: upt_conv_Cons)
qed

lemma used_maps_bounds:
  "wf_info i \<Longrightarrow> used_maps i \<le> 5" "wf_info i \<Longrightarrow> mem_size (info_mem i ! 0) \<noteq> 0 \<Longrightarrow> 0 < used_maps i"
proof -
  show "wf_info i \<Longrightarrow> used_maps i \<le> 5"
    using length_takeWhile_le [of "\<lambda>m. mem_size m \<noteq> 0" "info_mem i"] by (simp add: used_maps_def wf_info_def MAX_UIO_MAPS_def)
  show "wf_info i \<Longrightarrow> mem_size (info_mem i ! 0) \<noteq> 0 \<Longrightarrow> 0 < used_maps i"
    by (cases "info_mem i") (auto simp: used_maps_def wf_info_def MAX_UIO_MAPS_def)
qed

text \<open>The client on a device with a given first region.\<close>

lemma open_first_region:
  assumes f: "first_region ''txrx_rings'' sz (w_info s ip)" and sz: "sint sz = 2 * ring" "4096 < ring" "ring < 2 ^ 30"
    and fs: "sysfs_shows fs (instances_path i @ ''/'' @ nm) ip s" "maps_linked ip s"
      "fs_dirs fs (instances_path i) = Some (pre @ nm # post)" "\<forall>n\<in>set pre. \<not> fs_is_file fs (''/dev/'' @ n)"
      "fs_is_file fs (''/dev/'' @ nm)"
    and m: "int (length m) = 2 * ring"
  shows "\<exists>c d m'. open_device fs 4096 i = Some c \<and> c m = (Inr d, m') \<and> mapped d m' \<and> RingBufferSize d = ring
    \<and> ControlMaximumSize d = 4096"
proof -
  let ?i = "w_info s ip" let ?dir = "instances_path i @ ''/'' @ nm" let ?it = "\<lambda>k. shown_item (info_mem ?i ! k) k"
  have w: "wf_info ?i" "mem_size (info_mem ?i ! 0) = sz" "mem_name (info_mem ?i ! 0) = Some ''txrx_rings''"
    using f by (simp_all add: first_region_def)
  have "sz \<noteq> 0" using sz by auto
  then have k: "0 < used_maps ?i" "used_maps ?i \<le> 5" using used_maps_bounds [OF w(1)] w(2) by simp_all
  define items where "items = map ?it [0..<used_maps ?i]"
  have dirs: "fs_is_dir fs (map_path ?dir (int j)) \<longleftrightarrow> j < used_maps ?i" for j using fs(1) by (simp add: sysfs_shows_def)
  have "memory_map fs 4096 ?dir (int 0) [] = Some (Inr ([] @ map ?it [0..<used_maps ?i]))"
    using k dirs map_item_shown [OF fs(1,2)] by (intro memory_map_items) auto
  then have mm: "memory_map fs 4096 ?dir 0 [] = Some (Inr items)" by (simp add: items_def)
  have "search_instances fs 4096 (instances_path i) (p @ nm # post) = Some (Inr \<lparr>DeviceObjectPath = ''/dev/'' @ nm, MemoryMap = items\<rparr>)"
    if "\<forall>n\<in>set p. \<not> fs_is_file fs (''/dev/'' @ n)" for p
    using that fs(5) mm by (induction p) simp_all
  then have open_eq: "open_device fs 4096 i = Some (new_UioHvDevice 4096 items)"
    using fs(3,4) by (simp add: open_device_def GetDeviceInformation_def)
  have "find (\<lambda>x. item_Name x = ''txrx_rings'' \<and> item_Offset x = 0) items = Some (?it 0)"
    using k(1) w(3) by (simp add: items_def upt_conv_Cons shown_item_def i32_def)
  moreover have "item_Size (?it 0) = 2 * ring" using w(2) sz(1) by (simp add: shown_item_def)
  ultimately obtain d m' where "new_UioHvDevice 4096 items m = (Inr d, m')" "mapped d m'" "RingBufferSize d = ring"
      "ControlMaximumSize d = 4096"
    using new_device_maps [of items "?it 0" ring m 4096] m sz(2,3) by auto
  then show ?thesis using open_eq by blast
qed

section \<open>Properties\<close>

text \<open>C6. The client opens exactly the rings that the driver has allocated: after a probe that succeeded, with the files that
  sysfs shows for the device, the constructor of the client's device finds the mapping of the rings among
  the maps, and its two rings, control pages of 4096 bytes included, fill the \<open>2 * k\<close> pages that VMBus allocated for the channel.\<close>

theorem client_opens_driver_rings:
  assumes "reachable E drv (hs_w hs)" "kernel_ok E" "\<not> in_use (E (w_log (hs_w hs)) (Hv Devm_kzalloc)) (hs_w hs)"
    "hv_uio_probe E devs conn dev ch chans hs = Some (0, hs')"
    and "\<forall>l. E l (Mm (Out_ring_pagecount ch)) = 2 * int k" "2 \<le> k" "k < 2 ^ 18"
    and "sysfs_shows fs (instances_path InstanceId @ ''/'' @ nm) (hs_drvdata hs' dev) (hs_w hs')"
    and "fs_dirs fs (instances_path InstanceId) = Some [nm]" "fs_is_file fs (''/dev/'' @ nm)" "length m = 2 * k * 4096"
  shows "\<exists>c d m'. open_device fs 4096 InstanceId = Some c \<and> c m = (Inr d, m') \<and> mapped d m'
    \<and> RingBufferSize d = 4096 * int k \<and> ControlMaximumSize d = 4096"
proof -
  let ?n = "of_int (2 * int k) :: u32" let ?sz = "ucast (push_bit PAGE_SHIFT ?n) :: u64"
  have f: "first_region ''txrx_rings'' ?sz (w_info (hs_w hs') (hs_drvdata hs' dev))" "maps_linked (hs_drvdata hs' dev) (hs_w hs')"
    using probe_region [OF assms(1-4)] assms(5) by simp_all
  have shift: "uint (push_bit PAGE_SHIFT x) = 8192 * int k" if "uint x = 2 * int k" for x :: u32
    using that assms(7) by (simp add: PAGE_SHIFT_def push_bit_eq_mult uint_word_ariths)
  have "uint ?n = 2 * int k" using assms(7) by (simp only: uint_word_of_int) simp
  then have "uint (push_bit PAGE_SHIFT ?n) = 8192 * int k" by (rule shift)
  then have "uint ?sz = 8192 * int k" using assms(7) by (simp add: unsigned_ucast_eq take_bit_int_eq_self)
  then have "sint ?sz = 2 * (4096 * int k)" using assms(7) by (simp add: sint_uint signed_take_bit_int_eq_self)
  then show ?thesis
    using open_first_region [OF f(1) _ _ _ assms(8) f(2), of "4096 * int k" "[]" "[]" m] assms(6,7,9-11) by simp
qed

text \<open>C19. The wait for a data channel ends: if in every file system that an attempt can find each device has a last map
  directory, and from some attempt on one of the five channels is present, the loop returns an instance of the
  list that was present at the attempt that found it; the search for one device ends under the first of the two conditions.\<close>

theorem data_channel_wait_ends:
  assumes "\<forall>n. list_all (finite_maps (F n)) DataInstanceIds"
  shows "(\<forall>n. list_all (\<lambda>i. \<exists>r. GetDeviceInformation (F n) PageSize i = Some r) DataInstanceIds)
    \<and> (c \<in> set DataInstanceIds \<and> (\<forall>n\<ge>k. \<exists>I. GetDeviceInformation (F n) PageSize c = Some (Inr I)) \<longrightarrow>
        (\<exists>i n'. await_instance F PageSize n = Some (i, n') \<and> i \<in> set DataInstanceIds
          \<and> (\<exists>I. GetDeviceInformation (F (n' - 1)) PageSize i = Some (Inr I))))"
proof -
  have maps: "\<And>n i. i \<in> set DataInstanceIds \<Longrightarrow> finite_maps (F n) i" using assms by (simp add: list_all_iff)
  then have "\<forall>n. list_all (\<lambda>i. \<exists>r. GetDeviceInformation (F n) PageSize i = Some r) DataInstanceIds"
    using information_ends by (simp add: list_all_iff)
  then show ?thesis
    using await_ends [where F = F and c = c and k = k and pg = PageSize and n = n] maps by blast
qed

text \<open>The thread that forwards from the socket never asks the ring for more than it has room for: whatever the socket delivers, up to the
  size that was asked for, its packet is accepted, the host is signalled, and unless the packet fills the ring
  completely the host finds it behind the bytes that were waiting.\<close>

theorem forwarding_accepted:
  assumes "ring_inv d m" "\<forall>n>0. \<exists>c. receive n = Inr c \<and> int (length c) \<le> n" "posix_write E (le_bytes 4 1) = 4"
  shows "fst (tcp_to_vmbus E d Available receive m) = Inr ()
    \<and> (GetMaximumPushSize d m = (Inr k, m) \<and> 0 < min Available k \<and> receive (min Available k) = Inr c
        \<and> length (wire_packet 0 c) + length (outgoing d m) < data_of d \<longrightarrow>
       outgoing d (snd (tcp_to_vmbus E d Available receive m)) = outgoing d m @ wire_packet (in_at 0 m) c)"
proof -
  obtain q where q: "GetMaximumPushSize d m = (Inr q, m)" using maximum_push_size [OF assms(1)] by blast
  have sig: "SignalHost E m' = (Inr (), m')" for m' using assms(3) by (simp add: SignalHost_def InterruptControl_def ret_def Let_def)
  have sent: "fits b \<and> tcp_to_vmbus E d Available receive m = (Inr (), snd (PushPipePacket d b m))"
    if "0 < min Available q" "receive (min Available q) = Inr b" for b
  proof -
    have "int (length b) \<le> min Available q" using assms(2) that by fastforce
    then have p: "fst (PushPipePacket d b m) = Inr ()" "fits b" using push_within_maximum [OF assms(1) q, of b] that(1) by auto
    then have "andthen (PushPipePacket d b) (\<lambda>_. SignalHost E) m = (Inr (), snd (PushPipePacket d b m))"
      using sig by (cases "PushPipePacket d b m") (simp add: andthen_def)
    then show ?thesis using p(2) that by (simp add: tcp_to_vmbus_def andthen_ret [of "GetMaximumPushSize d", OF q] Let_def)
  qed
  have "tcp_to_vmbus E d Available receive m = (Inr (), m)" if "\<not> 0 < min Available q"
    using that unfolding tcp_to_vmbus_def by (simp only: andthen_ret [of "GetMaximumPushSize d", OF q] Let_def ret_def if_False)
  moreover obtain b where "0 < min Available q \<longrightarrow> receive (min Available q) = Inr b" using assms(2) by blast
  ultimately have "fst (tcp_to_vmbus E d Available receive m) = Inr ()" using sent [of b] by fastforce
  then show ?thesis using sent [of c] q push_ok [OF assms(1), of c] by auto
qed

text \<open>A connection request that comes late is not patched: when the host has not written it yet, the step that would clear the
  requested protocols fails with its memory unchanged, and when the request arrives the forwarding thread passes it on as it is.\<close>

theorem late_request_not_patched:
  assumes "ring_inv d m" "inside d m" "length (incoming d m) < 24" "0 \<le> posix_read E"
    and "ring_inv d n" "inside d n" "incoming d n = wire_packet j c @ rest" "fits c" "c \<noteq> []"
  shows "connection_request E d m = (Inl (Throws IndexOutOfRangeException), m) \<and> fst (vmbus_to_tcp d n) = Inr (Some c)"
proof -
  have "PopPipePacket d m = (Inr [], m)"
    using pop_spec(1) [of d m] assms(1-3) by (simp add: ring_inv_def inside_def offsets_ok_def)
  then have "Receive E d m = (Inr [], m)"
    using assms(4) by (simp add: Receive_def andthen_def WaitHost_def WaitInterrupt_def ret_def)
  moreover have "fst (PopPipePacket d n) = Inr c"
    using pop_spec(2) [of d n j c rest] assms(5-8) by (simp add: ring_inv_def inside_def offsets_ok_def)
  ultimately show ?thesis
    using assms(9)
    by (cases "PopPipePacket d n") (simp add: connection_request_def vmbus_to_tcp_def andthen_def throw_def ret_def)
qed

section \<open>Examples\<close>

text \<open>A file system with one data channel that has no maps, from the first attempt on.\<close>

definition channel_fs :: file_system where
  "channel_fs = \<lparr>fs_dirs = (\<lambda>p. if p = instances_path (DataInstanceIds ! 2) then Some [''uio0''] else None),
     fs_is_file = (\<lambda>p. p = ''/dev/uio0''), fs_is_dir = (\<lambda>_. False), fs_text = (\<lambda>_. None), fs_write = (\<lambda>_ _. 0)\<rparr>"

lemma channel_fs_found:
  "GetDeviceInformation channel_fs 4096 (DataInstanceIds ! 2) = Some (Inr \<lparr>DeviceObjectPath = ''/dev/uio0'', MemoryMap = []\<rparr>)"
proof -
  have "memory_map channel_fs 4096 p 0 [] = Some (Inr [])" for p
    by (subst memory_map.simps) (simp add: channel_fs_def)
  then show ?thesis by (simp add: GetDeviceInformation_def) (simp add: channel_fs_def)
qed

theorem data_channel_wait_ends_witness:
  "\<exists>i n'. await_instance (\<lambda>_. channel_fs) 4096 0 = Some (i, n') \<and> i \<in> set DataInstanceIds"
proof -
  have f: "\<forall>n::nat. list_all (finite_maps channel_fs) DataInstanceIds"
    by (simp add: list_all_iff finite_maps_def channel_fs_def) (metis zero_less_numeral)
  have "DataInstanceIds ! 2 \<in> set DataInstanceIds" by (simp add: DataInstanceIds_def)
  then show ?thesis
    using data_channel_wait_ends [where F = "\<lambda>_. channel_fs" and PageSize = 4096 and c = "DataInstanceIds ! 2" and k = 0 and n = 0]
      f channel_fs_found by blast
qed

theorem forwarding_accepted_witness:
  "fst (tcp_to_vmbus \<lparr>posix_write = \<lambda>bs. int (length bs), posix_read = 4, posix_errno = 0\<rparr> demo_device 3
     (\<lambda>n. Inr (take (nat n) [1, 2, 3])) (demo_memory 40)) = Inr ()"
  by (rule forwarding_accepted [OF demo_ring, THEN conjunct1]) (auto simp: min_def)

text \<open>A kernel with rings of two pages each, and the files that sysfs shows for a device.\<close>

definition ring_env :: env where
  "ring_env l c = (case c of Mm (Out_ring_pagecount ch) \<Rightarrow> 4 | _ \<Rightarrow> lib_env l c)"

lemma ring_env_facts: "kernel_ok ring_env" "hv_generous ring_env" "\<forall>l. ring_env l (Mm (Out_ring_pagecount ch)) = 2 * int 2"
  using kernel_ok_lib lib_generous by (simp_all add: kernel_ok_def hv_generous_def generous_def ring_env_def)

definition sysfs_of :: "string \<Rightarrow> string \<Rightarrow> ptr \<Rightarrow> 'd world \<Rightarrow> file_system" where
  "sysfs_of i nm ip s =
     (let dir = instances_path i @ ''/'' @ nm; maps = [0..<used_maps (w_info s ip)] in
      \<lparr>fs_dirs = (\<lambda>p. if p = instances_path i then Some [nm] else None), fs_is_file = (\<lambda>p. p = ''/dev/'' @ nm),
       fs_is_dir = (\<lambda>p. p \<in> set (map (\<lambda>k. map_path dir (int k)) maps)),
       fs_text = (\<lambda>p. case find (\<lambda>(k, e). p = map_path dir (int k) @ ''/'' @ mattr_name e) (List.product maps map_attrs) of
           None \<Rightarrow> None
         | Some (k, e) \<Rightarrow> map_option (\<lambda>(ret, buf, t). buf) (map_type_show (mem_map (info_mem (w_info s ip) ! k)) e s)),
       fs_write = (\<lambda>_ _. 0)\<rparr>)"

lemma fmt_u_inj: "fmt_u a = fmt_u b \<Longrightarrow> a = b"
  by (metis digits_value_fmt_u)

lemma fmt_u_digits: "c \<in> set (fmt_u n) \<Longrightarrow> c \<noteq> CHR ''/''"
proof (induction n rule: fmt_u.induct)
  case (1 n)
  have h: "hexdig k \<noteq> CHR ''/''" if "k < 16" for k using that by (auto simp: hexdig_def less_Suc_eq numeral_eq_Suc)
  have "n mod 10 < 16" by (rule less_trans [of _ 10]) simp_all
  then show ?case using "1.prems" "1.IH" h [of n] h [of "n mod 10"] by (auto simp: fmt_u.simps [of n] split: if_splits)
qed

lemma map_path_inj: "map_path dir (int a) = map_path dir (int b) \<longleftrightarrow> a = b"
  using fmt_u_inj by (auto simp: map_path_def fmt_d_def)

lemma attr_path_inj:
  assumes "map_path dir (int a) @ ''/'' @ x = map_path dir (int b) @ ''/'' @ y"
  shows "a = b \<and> x = y"
proof -
  have eq: "fmt_u a @ ''/'' @ x = fmt_u b @ ''/'' @ y" using assms by (simp add: map_path_def fmt_d_def)
  have "takeWhile (\<lambda>c. c \<noteq> CHR ''/'') (fmt_u n @ ''/'' @ z) = fmt_u n" for n z
    using fmt_u_digits by (simp add: takeWhile_append)
  then have "fmt_u a = fmt_u b" using eq by metis
  then show ?thesis using eq fmt_u_inj by simp
qed

lemma find_unique:
  assumes "x \<in> set xs" "P x" "\<And>y. y \<in> set xs \<Longrightarrow> P y \<Longrightarrow> y = x"
  shows "find P xs = Some x"
proof (cases "find P xs")
  case None
  then show ?thesis using assms(1,2) by (simp add: find_None_iff)
next
  case (Some z)
  then obtain i where "i < length xs" "P (xs ! i)" "z = xs ! i" by (auto simp: find_Some_iff)
  then show ?thesis using assms(3) [of z] Some by simp
qed

lemma sysfs_of_shows: "sysfs_shows (sysfs_of i nm ip s) (instances_path i @ ''/'' @ nm) ip s"
proof -
  let ?dir = "instances_path i @ ''/'' @ nm" let ?n = "used_maps (w_info s ip)"
  have names: "distinct (map mattr_name map_attrs)"
    by (simp add: map_attrs_def name_attribute_def addr_attribute_def size_attribute_def offset_attribute_def)
  have "find (\<lambda>(k, e). map_path ?dir (int j) @ ''/'' @ mattr_name a = map_path ?dir (int k) @ ''/'' @ mattr_name e)
      (List.product [0..<?n] map_attrs) = Some (j, a)" if j: "j < ?n" "a \<in> set map_attrs" for j a
  proof -
    have "k = j \<and> e = a" if "e \<in> set map_attrs" "map_path ?dir (int j) @ ''/'' @ mattr_name a = map_path ?dir (int k) @ ''/'' @ mattr_name e" for k e
      using attr_path_inj [OF that(2)] that(1) j(2) names by (auto simp: distinct_map dest: inj_onD)
    then show ?thesis using j by (intro find_unique) auto
  qed
  then show ?thesis
    by (auto simp: sysfs_shows_def sysfs_of_def Let_def map_path_inj)
qed

definition ring_hs :: hv_state where
  "ring_hs = \<lparr>hs_w = snd (uio_init ring_env (init_world demo_pd)), hs_drvdata = (\<lambda>_. NULL)\<rparr>"

theorem client_opens_driver_rings_witness:
  "\<exists>hs' fs c d m'. hv_uio_probe ring_env demo_devs demo_conn 8 9 (\<lambda>_. demo_chan 0) ring_hs = Some (0, hs')
    \<and> open_device fs 4096 ControlInstanceId = Some c \<and> c (replicate 16384 0) = (Inr d, m') \<and> RingBufferSize d = 8192"
proof -
  have "fst (uio_init ring_env (init_world demo_pd)) = 0"
    by (simp add: uio_init_def init_uio_class_def uio_major_init_def ring_env_def lib_env_def calm_env_def case_prod_beta Let_def)
  then have i: "uio_init ring_env (init_world demo_pd) = (0, hs_w ring_hs)" by (simp add: prod_eq_iff ring_hs_def)
  then have w: "w_dev (hs_w ring_hs) = Map.empty" "w_class_registered (hs_w ring_hs)" "bal (w_log (hs_w ring_hs)) (Minor_no 0) = 0"
    using class_run [OF i] by (simp_all add: init_world_def)
  have u: "\<not> in_use (ring_env (w_log (hs_w ring_hs)) (Hv Devm_kzalloc)) (hs_w ring_hs)"
    using w(1) ring_env_facts(2) by (simp add: in_use_def hv_generous_def)
  obtain hs' where hs': "hv_uio_probe ring_env demo_devs demo_conn 8 9 (\<lambda>_. demo_chan 0) ring_hs = Some (0, hs')"
    using probe_granted [OF ring_env_facts(2) w(2) _ w(3)] by fastforce
  let ?fs = "sysfs_of ControlInstanceId ''uio0'' (hs_drvdata hs' 8) (hs_w hs')"
  have "fs_dirs ?fs (instances_path ControlInstanceId) = Some [''uio0'']" "fs_is_file ?fs (''/dev/'' @ ''uio0'')"
    by (simp_all add: sysfs_of_def Let_def)
  then obtain c d m' where "open_device ?fs 4096 ControlInstanceId = Some c" "c (replicate 16384 0) = (Inr d, m')" "RingBufferSize d = 4096 * int 2"
    using client_opens_driver_rings [OF Load [OF i] ring_env_facts(1) u hs' ring_env_facts(3) _ _ sysfs_of_shows,
        where InstanceId = ControlInstanceId and nm = "''uio0''" and m = "replicate 16384 0"] by auto
  then show ?thesis using hs' by auto
qed

end
