(* ===== verification/Client_Session.thy ===== *)
theory Client_Session
  imports Client_Device
begin

text \<open>
  A connection of the remote desktop service (the loop of \<open>ServiceMain\<close> in \<open>SynthRdp.cs\<close>): two threads forward packets
  between the rings and the socket of the server, a third one watches them, and the host reads and writes the
  rings.  The connection is a step relation in which the rounds of the threads and the steps of the host come in every
  order.  The socket is a parameter of each step.

  A round is one step although a thread may be interrupted inside it: the two threads work on different rings, and
  \<open>push_pop_commute\<close> shows that it makes no difference which one comes first.

  Shown: nothing is lost, repeated or reordered in either direction, as long as no packet fills a ring completely and the
  socket takes all bytes of a \<open>Send\<close>; without the latter the rest of a packet is lost; after the end of
  one thread both stop.
\<close>

section \<open>The threads\<close>

record session =
  ring :: memory
  ShouldRunning :: bool
  vmbus2tcp_alive :: bool
  tcp2vmbus_alive :: bool
  closed :: bool
  to_server :: "u8 list"
  from_server :: "u8 list"
  host_sent :: "u8 list list"
  host_got :: "u8 list list"

text \<open>\<open>to_server\<close> and \<open>from_server\<close> are the bytes that \<open>Send\<close> has taken and \<open>Receive\<close> has returned; \<open>host_sent\<close> and \<open>host_got\<close>
  the contents of the packets that the host has put into one ring and taken out of the other.

  A round of the first thread.  \<open>socket_Send\<close> returns the number of bytes that it has taken: the socket does not
  block, so it may take fewer than it is given, and the code does not look at the number.\<close>

definition vmbus2tcp_round :: "UioHvDevice \<Rightarrow> (u8 list \<Rightarrow> exn + nat) \<Rightarrow> session \<Rightarrow> session" where
  "vmbus2tcp_round DataChannel socket_Send s =
     (case vmbus_to_tcp DataChannel (ring s) of
        (Inl e, m) \<Rightarrow> s\<lparr>ring := m, vmbus2tcp_alive := False\<rparr>
      | (Inr None, m) \<Rightarrow> s\<lparr>ring := m\<rparr>
      | (Inr (Some ReceiveContent), m) \<Rightarrow>
          (case socket_Send ReceiveContent of
             Inl e \<Rightarrow> s\<lparr>ring := m, vmbus2tcp_alive := False\<rparr>
           | Inr n \<Rightarrow> s\<lparr>ring := m, to_server := to_server s @ take n ReceiveContent\<rparr>))"

text \<open>What the second thread takes from the socket in a round.\<close>

definition round_content :: "UioHvDevice \<Rightarrow> int \<Rightarrow> (int \<Rightarrow> exn + u8 list) \<Rightarrow> memory \<Rightarrow> u8 list option" where
  "round_content DataChannel Available socket_Receive m =
     (case fst (GetMaximumPushSize DataChannel m) of
        Inl e \<Rightarrow> None
      | Inr k \<Rightarrow> if min Available k > 0
                 then (case socket_Receive (min Available k) of Inl e \<Rightarrow> None | Inr c \<Rightarrow> Some c) else None)"

definition tcp2vmbus_round ::
    "posix_env \<Rightarrow> UioHvDevice \<Rightarrow> int \<Rightarrow> (int \<Rightarrow> exn + u8 list) \<Rightarrow> session \<Rightarrow> session" where
  "tcp2vmbus_round E DataChannel Available socket_Receive s =
     (let s' = s\<lparr>from_server := from_server s
                   @ (case round_content DataChannel Available socket_Receive (ring s) of None \<Rightarrow> [] | Some c \<Rightarrow> c)\<rparr>
      in (case tcp_to_vmbus E DataChannel Available socket_Receive (ring s) of
            (Inl e, m) \<Rightarrow> s'\<lparr>ring := m, tcp2vmbus_alive := False\<rparr>
          | (Inr u, m) \<Rightarrow> s'\<lparr>ring := m\<rparr>))"

text \<open>The loop that watches the threads.\<close>

definition watch_threads :: "session \<Rightarrow> session" where
  "watch_threads s = (if \<not> vmbus2tcp_alive s \<or> \<not> tcp2vmbus_alive s then s\<lparr>ShouldRunning := False, closed := True\<rparr> else s)"

section \<open>Connections\<close>

text \<open>What the host leaves alone: the offsets that the client writes, and the other ring.\<close>

definition host_keeps :: "UioHvDevice \<Rightarrow> memory \<Rightarrow> memory \<Rightarrow> bool" where
  "host_keeps d m m' \<longleftrightarrow> ring_inv d m' \<and> in_at 0 m' = in_at 0 m \<and> out_at (ring_of d) m' = out_at (ring_of d) m"

text \<open>A packet fills the ring when no byte stays free.\<close>

definition fills :: "UioHvDevice \<Rightarrow> memory \<Rightarrow> u8 list option \<Rightarrow> bool" where
  "fills d m c \<longleftrightarrow> (case c of None \<Rightarrow> False
     | Some c \<Rightarrow> length (wire_packet 0 c) + length (outgoing d m) = data_of d)"

text \<open>A step says whether it is free of loss: the socket took everything that it was given, the packet did not fill
  the ring.\<close>

inductive session_step :: "posix_env \<Rightarrow> UioHvDevice \<Rightarrow> session \<Rightarrow> bool \<Rightarrow> session \<Rightarrow> bool" for E d where
  to_tcp: "ShouldRunning s \<Longrightarrow> vmbus2tcp_alive s \<Longrightarrow>
     session_step E d s (\<forall>c. c \<noteq> [] \<longrightarrow> socket_Send c = Inr (length c)) (vmbus2tcp_round d socket_Send s)"
| to_vmbus: "ShouldRunning s \<Longrightarrow> tcp2vmbus_alive s \<Longrightarrow>
     \<forall>n>0. \<forall>c. socket_Receive n = Inr c \<longrightarrow> int (length c) \<le> n \<Longrightarrow>
     session_step E d s (\<not> fills d (ring s) (round_content d Available socket_Receive (ring s)))
       (tcp2vmbus_round E d Available socket_Receive s)"
| leave_vmbus2tcp: "\<not> ShouldRunning s \<Longrightarrow> session_step E d s True (s\<lparr>vmbus2tcp_alive := False\<rparr>)"
| leave_tcp2vmbus: "\<not> ShouldRunning s \<Longrightarrow> session_step E d s True (s\<lparr>tcp2vmbus_alive := False\<rparr>)"
| watch: "\<not> closed s \<Longrightarrow> session_step E d s True (watch_threads s)"
| host_sends: "host_keeps d (ring s) m \<Longrightarrow> fits c \<Longrightarrow> incoming d m = incoming d (ring s) @ wire_packet j c \<Longrightarrow>
     outgoing d m = outgoing d (ring s) \<Longrightarrow> session_step E d s True (s\<lparr>ring := m, host_sent := host_sent s @ [c]\<rparr>)"
| host_takes: "host_keeps d (ring s) m \<Longrightarrow> fits c \<Longrightarrow> outgoing d (ring s) = wire_packet j c @ outgoing d m \<Longrightarrow>
     incoming d m = incoming d (ring s) \<Longrightarrow> session_step E d s True (s\<lparr>ring := m, host_got := host_got s @ [c]\<rparr>)"

inductive_cases session_stepE: "session_step E d s l t"

definition lossless_run :: "posix_env \<Rightarrow> UioHvDevice \<Rightarrow> session \<Rightarrow> session \<Rightarrow> bool" where
  "lossless_run E d = (\<lambda>s t. session_step E d s True t)\<^sup>*\<^sup>*"

text \<open>The start of the two threads.\<close>

definition new_session :: "memory \<Rightarrow> session" where
  "new_session m = \<lparr>ring = m, ShouldRunning = True, vmbus2tcp_alive = True, tcp2vmbus_alive = True, closed = False,
     to_server = [], from_server = [], host_sent = [], host_got = []\<rparr>"

section \<open>The bytes on their way\<close>

text \<open>A queue holds the packets of a list of contents.\<close>

definition queued :: "u8 list \<Rightarrow> u8 list list \<Rightarrow> bool" where
  "queued q cs \<longleftrightarrow> list_all fits cs \<and> (\<exists>js. length js = length cs \<and> q = concat (map2 wire_packet js cs))"

lemma queued_Nil [simp]: "queued q [] \<longleftrightarrow> q = []"
  by (simp add: queued_def)

lemma queued_Cons:
  "queued q (c # cs) \<longleftrightarrow> fits c \<and> (\<exists>j rest. q = wire_packet j c @ rest \<and> queued rest cs)"
proof
  assume "queued q (c # cs)"
  then obtain js where js: "list_all fits (c # cs)" "length js = Suc (length cs)" "q = concat (map2 wire_packet js (c # cs))"
    by (auto simp: queued_def)
  then obtain j ks where "js = j # ks" by (cases js) auto
  then show "fits c \<and> (\<exists>j rest. q = wire_packet j c @ rest \<and> queued rest cs)" using js by (auto simp: queued_def)
next
  assume "fits c \<and> (\<exists>j rest. q = wire_packet j c @ rest \<and> queued rest cs)"
  then obtain j js where "fits c" "list_all fits cs" "length js = length cs"
      "q = wire_packet j c @ concat (map2 wire_packet js cs)" by (auto simp: queued_def)
  then show "queued q (c # cs)" unfolding queued_def by (auto intro!: exI [of _ "j # js"])
qed

lemma queued_snoc: "queued q cs \<Longrightarrow> fits c \<Longrightarrow> queued (q @ wire_packet j c) (cs @ [c])"
  by (induction cs arbitrary: q) (auto simp: queued_Cons)

lemma queued_empty: "queued [] cs \<longleftrightarrow> cs = []"
proof (cases cs)
  case (Cons c cs')
  then show ?thesis by (auto simp: queued_Cons dest: arg_cong [of _ _ length])
qed simp

text \<open>In each direction, what has arrived and what is queued is what was sent.\<close>

definition conserved :: "UioHvDevice \<Rightarrow> session \<Rightarrow> bool" where
  "conserved d s \<longleftrightarrow> ring_inv d (ring s)
     \<and> (\<exists>cs. queued (incoming d (ring s)) cs \<and> concat (host_sent s) = to_server s @ concat cs)
     \<and> (\<exists>cs. queued (outgoing d (ring s)) cs \<and> from_server s = concat (host_got s) @ concat cs)"

section \<open>Rounds\<close>

lemma pop_short:
  assumes "ring_inv d m" "length (incoming d m) < 24"
  shows "PopPipePacket d m = (Inr [], m)"
proof -
  have m: "mapped d m" "in_at (ring_of d) m \<le> data_of d" "out_at (ring_of d) m \<le> data_of d"
    using assms(1) by (simp_all add: ring_inv_def offsets_ok_def)
  let ?cb = "bytes_RingControlBlock (drop (ring_of d) m)"
  note s = mapped_sizes [OF m(1)]
  have "GetRingControlBlock d (IncomingControlOffset d) m = (Inr ?cb, m)"
    using get_control_block [OF m(1), of "ring_of d"] s(3) by simp
  moreover have "GetAvailableSizeInformation d ?cb = ret (int (length (incoming d m)), int (data_of d - length (incoming d m)))"
    unfolding incoming_def length_ring_bytes using s m by (intro available_sizes) simp_all
  ultimately show ?thesis
    using assms(2) by (simp add: PopPipePacket_def andthen_def [of "GetRingControlBlock _ _"] pipe_sizes ret_def [of "[]"])
qed

text \<open>A pop takes the first packet of a queue, or nothing, or it throws and leaves the ring as it is.\<close>

lemma pop_queued:
  assumes "ring_inv d m" "queued (incoming d m) cs"
  shows "(cs = [] \<and> PopPipePacket d m = (Inr [], m)) \<or> (\<exists>e. PopPipePacket d m = (Inl e, m)) \<or>
    (\<exists>c cs' m'. cs = c # cs' \<and> PopPipePacket d m = (Inr c, m') \<and> queued (incoming d m') cs'
       \<and> outgoing d m' = outgoing d m \<and> ring_inv d m')"
proof (cases cs)
  case Nil
  then show ?thesis using pop_short [OF assms(1)] assms(2) by simp
next
  case (Cons c cs')
  then obtain j rest where q: "fits c" "incoming d m = wire_packet j c @ rest" "queued rest cs'"
    using assms(2) by (auto simp: queued_Cons)
  show ?thesis
  proof (cases "inside d m")
    case True
    then show ?thesis using pop_ok [OF assms(1) True q(1,2)] q(3) Cons by auto
  next
    case False
    then have "PopPipePacket d m = (Inl (Throws ArgumentOutOfRangeException), m)"
      using assms(1) q(2) packet_len8_bounds [of c]
      by (intro pop_at_ring_end_throws) (auto simp: ring_inv_def offsets_ok_def inside_def)
    then show ?thesis by blast
  qed
qed

lemma vmbus2tcp_conserves:
  assumes "conserved d s" "\<forall>c. c \<noteq> [] \<longrightarrow> send c = Inr (length c)"
  shows "conserved d (vmbus2tcp_round d send s)"
proof -
  obtain cs where cs: "ring_inv d (ring s)" "queued (incoming d (ring s)) cs" "concat (host_sent s) = to_server s @ concat cs"
    using assms(1) by (auto simp: conserved_def)
  have v: "vmbus_to_tcp d (ring s) = (case PopPipePacket d (ring s) of (Inl e, m) \<Rightarrow> (Inl e, m)
      | (Inr c, m) \<Rightarrow> (Inr (if c \<noteq> [] then Some c else None), m))"
    by (simp add: vmbus_to_tcp_def andthen_def ret_def split: prod.split sum.split)
  consider "PopPipePacket d (ring s) = (Inr [], ring s)" | e where "PopPipePacket d (ring s) = (Inl e, ring s)"
    | c cs' m where "cs = c # cs'" "PopPipePacket d (ring s) = (Inr c, m)" "queued (incoming d m) cs'"
        "outgoing d m = outgoing d (ring s)" "ring_inv d m"
    using pop_queued [OF cs(1,2)] by blast
  then show ?thesis
  proof cases
    case 3
    then show ?thesis
      using assms cs(3) by (cases "c = []") (auto simp: vmbus2tcp_round_def v conserved_def)
  qed (use assms(1) in \<open>simp_all add: vmbus2tcp_round_def v conserved_def\<close>)
qed

text \<open>A round of the other thread pushes what it has received.\<close>

lemma tcp2vmbus_effect:
  assumes "ring_inv d m" "\<forall>n>0. \<forall>c. receive n = Inr c \<longrightarrow> int (length c) \<le> n"
  shows "case round_content d Available receive m of
      None \<Rightarrow> snd (tcp_to_vmbus E d Available receive m) = m
    | Some c \<Rightarrow> fits c \<and> snd (tcp_to_vmbus E d Available receive m) = snd (PushPipePacket d c m)"
proof -
  obtain k where k: "GetMaximumPushSize d m = (Inr k, m)" using maximum_push_size [OF assms(1)] by blast
  show ?thesis
  proof (cases "0 < min Available k")
    case False
    then show ?thesis
      by (auto simp: round_content_def k tcp_to_vmbus_def andthen_ret [of "GetMaximumPushSize d", OF k] Let_def ret_def)
  next
    case True
    show ?thesis
    proof (cases "receive (min Available k)")
      case (Inl e)
      then show ?thesis
        using True by (simp add: round_content_def k tcp_to_vmbus_def andthen_ret [of "GetMaximumPushSize d", OF k] Let_def throw_def)
    next
      case (Inr c)
      have "int (length c) \<le> min Available k" using assms(2) True Inr by blast
      then have p: "fst (PushPipePacket d c m) = Inr ()" "fits c"
        using push_within_maximum [OF assms(1) k, of c] True by simp_all
      have sig: "snd (SignalHost E m') = m'" for m'
        by (simp add: SignalHost_def InterruptControl_def ret_def throw_def Let_def)
      have "snd (andthen (PushPipePacket d c) (\<lambda>_. SignalHost E) m) = snd (PushPipePacket d c m)"
        using p(1) sig by (cases "PushPipePacket d c m") (simp add: andthen_def)
      then show ?thesis
        using True Inr p(2) by (simp add: round_content_def k tcp_to_vmbus_def andthen_ret [of "GetMaximumPushSize d", OF k] Let_def)
    qed
  qed
qed

lemma tcp2vmbus_conserves:
  assumes "conserved d s" "\<forall>n>0. \<forall>c. receive n = Inr c \<longrightarrow> int (length c) \<le> n"
    and "\<not> fills d (ring s) (round_content d Available receive (ring s))"
  shows "conserved d (tcp2vmbus_round E d Available receive s)"
proof -
  let ?c = "round_content d Available receive (ring s)"
  let ?m = "snd (tcp_to_vmbus E d Available receive (ring s))"
  obtain cs ds where cs: "ring_inv d (ring s)" "queued (outgoing d (ring s)) cs" "from_server s = concat (host_got s) @ concat cs"
      "queued (incoming d (ring s)) ds" "concat (host_sent s) = to_server s @ concat ds"
    using assms(1) by (auto simp: conserved_def)
  have r: "ring (tcp2vmbus_round E d Available receive s) = ?m"
    "from_server (tcp2vmbus_round E d Available receive s) = from_server s @ (case ?c of None \<Rightarrow> [] | Some c \<Rightarrow> c)"
    "host_got (tcp2vmbus_round E d Available receive s) = host_got s"
    "host_sent (tcp2vmbus_round E d Available receive s) = host_sent s"
    "to_server (tcp2vmbus_round E d Available receive s) = to_server s"
    by (simp_all add: tcp2vmbus_round_def Let_def split: prod.split sum.split)
  note e = tcp2vmbus_effect [OF cs(1) assms(2), where Available = Available and E = E]
  show ?thesis
  proof (cases ?c)
    case None
    then show ?thesis using e cs by (auto simp: conserved_def r)
  next
    case (Some c)
    then have f: "fits c" and m: "?m = snd (PushPipePacket d c (ring s))" using e by simp_all
    obtain k where k: "GetMaximumPushSize d (ring s) = (Inr k, ring s)" using maximum_push_size [OF cs(1)] by blast
    have k0: "0 < min Available k" "receive (min Available k) = Inr c"
      using Some k by (simp_all add: round_content_def split: if_splits sum.splits)
    then have "int (length c) \<le> min Available k" using assms(2) by blast
    then have kc: "0 < k" "int (length c) \<le> k" using k0(1) by simp_all
    have "fst (PushPipePacket d c (ring s)) = Inr ()" using push_within_maximum(1) [OF cs(1) k kc] .
    moreover have "length (outgoing d (ring s)) \<le> data_of d"
      using cs(1) by (auto simp: ring_inv_def offsets_ok_def outgoing_def readable_def)
    ultimately have "\<not> data_of d < length (wire_packet 0 c) + length (outgoing d (ring s))"
      using push_spec [of d "ring s" c] cs(1) f by (auto simp: ring_inv_def offsets_ok_def split: if_splits)
    then have "length (wire_packet 0 c) + length (outgoing d (ring s)) < data_of d"
      using assms(3) Some by (simp add: fills_def)
    note p = push_ok [OF cs(1) f this]
    have "queued (outgoing d ?m) (cs @ [c])" using queued_snoc [OF cs(2) f] p(2) by (simp add: m p(1))
    moreover have "from_server s @ c = concat (host_got s) @ concat (cs @ [c])" using cs(3) by simp
    ultimately show ?thesis
      unfolding conserved_def r using p(3,4) cs(4,5) Some by (auto simp: m p(1))
  qed
qed

text \<open>The first packet of a queue is determined by its bytes.\<close>

lemma first_packet_unique:
  assumes "wire_packet j c @ r = wire_packet k b @ q" "fits c" "fits b"
  shows "c = b \<and> r = q"
proof -
  have "ret (c, int (8 * packet_len8 c + 8)) = ret (b, int (8 * packet_len8 b + 8))"
    using parse_wire_packet [OF assms(2), of j r] parse_wire_packet [OF assms(3), of k q] assms(1) by simp
  then have "c = b" by (auto simp: ret_def dest: fun_cong [of _ _ "[]"])
  moreover have "r = drop (length (wire_packet j c)) (wire_packet j c @ r)" by simp
  ultimately show ?thesis unfolding assms(1) by simp
qed

lemma host_sends_conserves:
  assumes "conserved d s" "ring_inv d m" "fits c" "incoming d m = incoming d (ring s) @ wire_packet j c"
    "outgoing d m = outgoing d (ring s)"
  shows "conserved d (s\<lparr>ring := m, host_sent := host_sent s @ [c]\<rparr>)"
proof -
  obtain cs where "queued (incoming d (ring s)) cs" "concat (host_sent s) = to_server s @ concat cs"
    using assms(1) by (auto simp: conserved_def)
  then have "queued (incoming d m) (cs @ [c])" "concat (host_sent s @ [c]) = to_server s @ concat (cs @ [c])"
    using queued_snoc [of "incoming d (ring s)" cs c j] assms(3,4) by simp_all
  then show ?thesis using assms by (auto simp: conserved_def)
qed

lemma host_takes_conserves:
  assumes "conserved d s" "ring_inv d m" "fits c" "outgoing d (ring s) = wire_packet j c @ outgoing d m"
    "incoming d m = incoming d (ring s)"
  shows "conserved d (s\<lparr>ring := m, host_got := host_got s @ [c]\<rparr>)"
proof -
  obtain cs where cs: "queued (outgoing d (ring s)) cs" "from_server s = concat (host_got s) @ concat cs"
    using assms(1) by (auto simp: conserved_def)
  obtain b cs' where b: "cs = b # cs'" using cs(1) assms(4) by (cases cs) (auto dest: arg_cong [of _ _ length])
  then obtain k rest where k: "fits b" "outgoing d (ring s) = wire_packet k b @ rest" "queued rest cs'"
    using cs(1) by (auto simp: queued_Cons)
  then have "c = b" "outgoing d m = rest"
    using first_packet_unique [of j c "outgoing d m" k b rest] assms(3,4) by simp_all
  then have "queued (outgoing d m) cs'" "from_server s = concat (host_got s @ [c]) @ concat cs'" using k(3) cs(2) b by simp_all
  then show ?thesis using assms by (auto simp: conserved_def)
qed

lemma step_conserves: "session_step E d s True t \<Longrightarrow> conserved d s \<Longrightarrow> conserved d t"
proof (erule session_stepE)
  fix send assume t: "t = vmbus2tcp_round d send s" "True = (\<forall>c. c \<noteq> [] \<longrightarrow> send c = Inr (length c))" and s: "conserved d s"
  show "conserved d t" unfolding t(1) using vmbus2tcp_conserves [OF s] t(2) by simp
next
  fix receive Available
  assume t: "t = tcp2vmbus_round E d Available receive s"
      "True = (\<not> fills d (ring s) (round_content d Available receive (ring s)))"
      "\<forall>n>0. \<forall>c. receive n = Inr c \<longrightarrow> int (length c) \<le> n" and s: "conserved d s"
  show "conserved d t" unfolding t(1) using tcp2vmbus_conserves [OF s t(3)] t(2) by simp
next
  fix m c j assume "t = s\<lparr>ring := m, host_sent := host_sent s @ [c]\<rparr>" "host_keeps d (ring s) m" "fits c"
    "incoming d m = incoming d (ring s) @ wire_packet j c" "outgoing d m = outgoing d (ring s)" "conserved d s"
  then show "conserved d t" using host_sends_conserves [of d s m c j] by (simp add: host_keeps_def)
next
  fix m c j assume "t = s\<lparr>ring := m, host_got := host_got s @ [c]\<rparr>" "host_keeps d (ring s) m" "fits c"
    "outgoing d (ring s) = wire_packet j c @ outgoing d m" "incoming d m = incoming d (ring s)" "conserved d s"
  then show "conserved d t" using host_takes_conserves [of d s m c j] by (simp add: host_keeps_def)
qed (auto simp: conserved_def watch_threads_def)

lemma run_conserves: "lossless_run E d s t \<Longrightarrow> conserved d s \<Longrightarrow> conserved d t"
  unfolding lossless_run_def by (induction rule: rtranclp_induct) (auto intro: step_conserves)

section \<open>The order of rounds\<close>

text \<open>Computations that leave memory alone and read only its part from \<open>r\<close> on.\<close>

definition same_from :: "nat \<Rightarrow> memory \<Rightarrow> memory \<Rightarrow> bool" where
  "same_from r m m' \<longleftrightarrow> length m' = length m \<and> drop r m' = drop r m"

definition reads_from :: "nat \<Rightarrow> 'a cs \<Rightarrow> bool" where
  "reads_from r c \<longleftrightarrow> (\<forall>m. snd (c m) = m) \<and> (\<forall>m m'. same_from r m m' \<longrightarrow> fst (c m') = fst (c m))"

lemma andthen_reads: "snd (c m) = m \<Longrightarrow> andthen c f m = (case fst (c m) of Inl e \<Rightarrow> (Inl e, m) | Inr x \<Rightarrow> f x m)"
  by (cases "c m") (simp add: andthen_def)

lemma reads_from_base [intro]: "reads_from r (ret x)" "reads_from r (throw e)"
  by (simp_all add: reads_from_def ret_def throw_def)

lemma reads_from_if [intro]: "reads_from r c1 \<Longrightarrow> reads_from r c2 \<Longrightarrow> reads_from r (if b then c1 else c2)"
  by simp

lemma reads_from_prod [intro]: "(\<And>x y. reads_from r (f x y)) \<Longrightarrow> reads_from r (case z of (x, y) \<Rightarrow> f x y)"
  by (cases z) simp

lemma reads_from_andthen [intro]:
  assumes "reads_from r c" "\<And>x. reads_from r (f x)"
  shows "reads_from r (andthen c f)"
proof -
  have "\<And>m. snd (c m) = m" "\<And>x m. snd (f x m) = m" "\<And>m m'. same_from r m m' \<Longrightarrow> fst (c m') = fst (c m)"
      "\<And>x m m'. same_from r m m' \<Longrightarrow> fst (f x m') = fst (f x m)"
    using assms by (simp_all add: reads_from_def)
  then show ?thesis by (simp add: reads_from_def andthen_reads split: sum.split)
qed

lemma reads_from_convert: "reads_from r (ToInt32 v)" "reads_from r (ToUInt32 v)"
  by (auto simp: ToInt32_def ToUInt32_def)

lemma same_from_drop: "same_from r m m' \<Longrightarrow> r \<le> p \<Longrightarrow> drop p m' = drop p m"
  unfolding same_from_def by (metis drop_drop le_add_diff_inverse2)

lemma reads_from_Read:
  assumes "int r \<le> p"
  shows "reads_from r (Accessor_Read p)"
proof -
  have "fst (Accessor_Read p m') = fst (Accessor_Read p m)" if "same_from r m m'" for m m'
    using same_from_drop [OF that, of "nat p"] that assms by (simp add: Accessor_Read_def ret_def throw_def same_from_def)
  then show ?thesis by (simp add: reads_from_def Accessor_Read_def ret_def throw_def)
qed

lemma reads_from_ReadArray:
  assumes "int r \<le> p"
  shows "reads_from r (ReadArray p arr off n)"
proof -
  have "fst (ReadArray p arr off n m') = fst (ReadArray p arr off n m)" if "same_from r m m'" for m m'
    using same_from_drop [OF that, of "nat p"] that assms by (simp add: ReadArray_def ret_def throw_def same_from_def)
  then show ?thesis by (simp add: reads_from_def ReadArray_def ret_def throw_def)
qed

lemma reads_from_structure: "reads_from r (read_structure n f bs)"
  by (simp add: reads_from_def read_structure_def)

lemmas reads_from_rules = reads_from_base reads_from_if reads_from_prod reads_from_andthen reads_from_convert

lemma reads_from_parse: "reads_from r (parse_packet bs)"
  unfolding parse_packet_def bytes_PacketDescriptor_def bytes_PipeHeader_def DataSize_def Let_def
  by (intro reads_from_rules reads_from_structure)

lemma reads_from_control: "mapped d m \<Longrightarrow> reads_from (ring_of d) (GetRingControlBlock d (IncomingControlOffset d))"
  by (simp add: GetRingControlBlock_def reads_from_Read mapped_sizes(3))

lemma reads_from_sizes:
  "reads_from r (GetAvailableSizeInformation d cb)" "reads_from r (read_sizes d cb k)" "reads_from r (read_offset d cb k)"
  unfolding GetAvailableSizeInformation_def read_sizes_def read_offset_def Let_def by (intro reads_from_rules)+

lemma reads_from_available:
  assumes "mapped d m"
  shows "reads_from (ring_of d) (read_available d cb k)"
proof -
  have "int (ring_of d) \<le> IncomingDataOffset d" "int (ring_of d) \<le> IncomingDataOffset d + uint (rcb_Out cb)"
    using mapped_sizes(4) [OF assms] by simp_all
  then show ?thesis unfolding read_available_def by (intro reads_from_rules reads_from_sizes reads_from_ReadArray)
qed

text \<open>A computation that ends in a write at \<open>w\<close>, if it writes at all.\<close>

definition writes_at :: "nat \<Rightarrow> nat \<Rightarrow> 'a cs \<Rightarrow> bool" where
  "writes_at r w c \<longleftrightarrow> (\<forall>m m'. same_from r m m' \<and> w + 4 \<le> length m \<longrightarrow> fst (c m') = fst (c m)
     \<and> (\<exists>bs. length bs \<le> 4 \<and> snd (c m) = put_bytes w bs m \<and> snd (c m') = put_bytes w bs m'))"

lemma put_nothing [simp]: "put_bytes w [] m = m"
  by (simp add: put_bytes_def)

lemma writes_at_reads: "reads_from r c \<Longrightarrow> writes_at r w c"
  unfolding writes_at_def reads_from_def by (auto intro!: exI [of _ "[]"])

lemma writes_at_if: "writes_at r w c1 \<Longrightarrow> writes_at r w c2 \<Longrightarrow> writes_at r w (if b then c1 else c2)"
  by simp

lemma writes_at_prod: "(\<And>x y. writes_at r w (f x y)) \<Longrightarrow> writes_at r w (case z of (x, y) \<Rightarrow> f x y)"
  by (cases z) simp

lemma writes_at_andthen:
  assumes c: "reads_from r c" and f: "\<And>x. writes_at r w (f x)"
  shows "writes_at r w (andthen c f)"
  unfolding writes_at_def
proof (intro allI impI, elim conjE)
  fix m m' :: memory assume m: "same_from r m m'" "w + 4 \<le> length m"
  have r: "snd (c m) = m" "snd (c m') = m'" "fst (c m') = fst (c m)" using c m(1) by (simp_all add: reads_from_def)
  show "fst (andthen c f m') = fst (andthen c f m) \<and>
      (\<exists>bs. length bs \<le> 4 \<and> snd (andthen c f m) = put_bytes w bs m \<and> snd (andthen c f m') = put_bytes w bs m')"
  proof (cases "fst (c m)")
    case (Inl e)
    then show ?thesis by (simp add: andthen_reads r) (rule exI [of _ "[]"], simp)
  next
    case (Inr x)
    then show ?thesis using f [of x] m by (simp add: andthen_reads r writes_at_def)
  qed
qed

lemma writes_at_write: "writes_at r w (andthen (Accessor_Write_UInt32 (int w) v) (\<lambda>_. ret x))"
  unfolding writes_at_def
  by (auto simp: andthen_def Accessor_Write_UInt32_def ret_def same_from_def intro!: exI [of _ "le_bytes 4 (nat v)"])

lemma pop_writes_at:
  assumes "mapped d m0"
  shows "writes_at (ring_of d) (ring_of d + 4) (PopPipePacket d)"
proof -
  note s = mapped_sizes [OF assms]
  have "i32 (IncomingControlOffset d + 4) = int (ring_of d + 4)" using s by (simp add: i32_id)
  then have w: "writes_at (ring_of d) (ring_of d + 4) (andthen (Accessor_Write_UInt32 (i32 (IncomingControlOffset d + 4)) v) (\<lambda>_. ret x))"
    for v and x :: "u8 list" using writes_at_write [of "ring_of d" "ring_of d + 4"] by simp
  then show ?thesis
    unfolding PopPipePacket_def
    by (intro w writes_at_andthen writes_at_if writes_at_prod reads_from_control [OF assms] reads_from_sizes
        reads_from_available [OF assms] reads_from_parse writes_at_reads [OF reads_from_base(1)])
qed

lemma put_bytes_commute:
  "p + length a \<le> q \<Longrightarrow> q + length b \<le> length m \<Longrightarrow> put_bytes p a (put_bytes q b m) = put_bytes q b (put_bytes p a m)"
  by (intro nth_equalityI) (auto simp: nth_put_bytes)

lemma pushed_put_commute:
  assumes "mapped d m" "in_at 0 m \<le> data_of d" "length q \<le> data_of d" "ring_of d \<le> w" "w + length b \<le> length m"
  shows "pushed d q (put_bytes w b m) = put_bytes w b (pushed d q m)"
proof -
  note s = mapped_sizes [OF assms(1)]
  have i: "in_at 0 (put_bytes w b m) = in_at 0 m" using assms s by (intro in_at_put) auto
  have st: "ring_store (page_of d) (data_of d) (in_at 0 m) q (put_bytes w b m) =
      put_bytes w b (ring_store (page_of d) (data_of d) (in_at 0 m) q m)"
    using assms s by (auto simp: ring_store_def put_bytes_commute)
  have "length (ring_store (page_of d) (data_of d) (in_at 0 m) q m) = length m" using assms s by simp
  then show ?thesis unfolding pushed_def i st using assms s by (intro put_bytes_commute) auto
qed

lemma push_effect:
  assumes "ring_inv d m" "length c < 2 ^ 31" "ring_of d + 4 + length b \<le> length m" "m' = put_bytes (ring_of d + 4) b m"
  shows "fst (PushPipePacket d c m') = fst (PushPipePacket d c m)"
    and "snd (PushPipePacket d c m') = put_bytes (ring_of d + 4) b (snd (PushPipePacket d c m))"
    and "same_from (ring_of d) m (snd (PushPipePacket d c m))"
proof -
  have m: "mapped d m" "in_at 0 m \<le> data_of d" "out_at 0 m \<le> data_of d" using assms(1) by (simp_all add: ring_inv_def offsets_ok_def)
  note s = mapped_sizes [OF m(1)]
  have i: "in_at 0 m' = in_at 0 m" "out_at 0 m' = out_at 0 m"
    unfolding assms(4) using s assms(3) by (auto intro!: in_at_put)
  have m': "mapped d m'" "in_at 0 m' \<le> data_of d" "out_at 0 m' \<le> data_of d"
    using mapped_length [OF m(1), of m'] assms(3,4) m i by simp_all
  have len: "length (outgoing d m') = length (outgoing d m)" by (simp add: outgoing_def i)
  have out: "length (outgoing d m) \<le> data_of d" using m by (auto simp: outgoing_def readable_def)
  show "fst (PushPipePacket d c m') = fst (PushPipePacket d c m)"
    "snd (PushPipePacket d c m') = put_bytes (ring_of d + 4) b (snd (PushPipePacket d c m))"
    "same_from (ring_of d) m (snd (PushPipePacket d c m))"
  proof (atomize (full), cases "fits c")
    case False
    then have "PushPipePacket d c n = (Inl (Throws OverflowException), n)" for n
      using oversized_length [OF False assms(2)] by (simp add: PushPipePacket_def)
    then show "fst (PushPipePacket d c m') = fst (PushPipePacket d c m)
      \<and> snd (PushPipePacket d c m') = put_bytes (ring_of d + 4) b (snd (PushPipePacket d c m))
      \<and> same_from (ring_of d) m (snd (PushPipePacket d c m))" using assms(4) by (simp add: same_from_def)
  next
    case True
    let ?w = "wire_packet (in_at 0 m) c"
    note p = push_spec [OF m True] push_spec [OF m' True]
    have "same_from (ring_of d) m (pushed d ?w m) \<and> pushed d ?w m' = put_bytes (ring_of d + 4) b (pushed d ?w m)"
      if "length ?w \<le> data_of d"
    proof
      show "pushed d ?w m' = put_bytes (ring_of d + 4) b (pushed d ?w m)"
        unfolding assms(4) using m that assms(3) by (intro pushed_put_commute) simp_all
      have "agree (ring_of d) (2 * ring_of d) m (pushed d ?w m)" using pushed_frame(4) [OF m(1,2) that] .
      then show "same_from (ring_of d) m (pushed d ?w m)"
        using s unfolding same_from_def agree_def by (auto intro!: nth_equalityI)
    qed
    then show "fst (PushPipePacket d c m') = fst (PushPipePacket d c m)
      \<and> snd (PushPipePacket d c m') = put_bytes (ring_of d + 4) b (snd (PushPipePacket d c m))
      \<and> same_from (ring_of d) m (snd (PushPipePacket d c m))"
      using p len i assms(4) out by (auto simp: same_from_def)
  qed
qed

section \<open>Properties\<close>



text \<open>C11. Nothing is lost, repeated or reordered: however the rounds of the two threads, the threads' ends and the steps of the host
  interleave, what the host has sent is what the server has been given followed by the packets that wait in the
  incoming ring, and what the server has sent is what the host has taken followed by the packets that wait in
  the outgoing ring, as long as the socket takes all bytes of a \<open>Send\<close> and no packet fills the ring.\<close>

theorem forwarding_conserves_bytes:
  assumes "ring_inv d m" "incoming d m = []" "outgoing d m = []" "lossless_run E d (new_session m) s"
  shows "ring_inv d (ring s)
    \<and> (\<exists>cs. queued (incoming d (ring s)) cs \<and> concat (host_sent s) = to_server s @ concat cs)
    \<and> (\<exists>cs. queued (outgoing d (ring s)) cs \<and> from_server s = concat (host_got s) @ concat cs)"
proof -
  have "conserved d (new_session m)" using assms(1-3) by (simp add: conserved_def new_session_def queued_empty)
  then show ?thesis using run_conserves [OF assms(4)] by (simp add: conserved_def)
qed

text \<open>C25. The number of bytes that \<open>Send\<close> returns is not looked at, but the socket does not block and may take only a part: the
  packet is gone from the ring, the rest of its content is neither sent nor kept, and the thread goes on.\<close>

theorem partial_send_loses:
  assumes "ring_inv d (ring s)" "inside d (ring s)" "incoming d (ring s) = wire_packet j c @ rest" "fits c"
    and "socket_Send c = Inr n" "n < length c"
  shows "to_server (vmbus2tcp_round d socket_Send s) = to_server s @ take n c
    \<and> incoming d (ring (vmbus2tcp_round d socket_Send s)) = rest
    \<and> vmbus2tcp_alive (vmbus2tcp_round d socket_Send s) = vmbus2tcp_alive s"
proof -
  have "c \<noteq> []" using assms(6) by auto
  then show ?thesis
    using pop_ok(1,2) [OF assms(1,2,4,3)] assms(5) by (simp add: vmbus2tcp_round_def vmbus_to_tcp_def andthen_def ret_def)
qed

text \<open>After the watching thread has seen that a thread is gone, nothing is forwarded any more.\<close>

lemma stopped_forwards_nothing:
  "session_step E d s l t \<Longrightarrow> \<not> ShouldRunning s \<Longrightarrow>
     \<not> ShouldRunning t \<and> to_server t = to_server s \<and> from_server t = from_server s"
  by (erule session_stepE) (auto simp: watch_threads_def)

lemma watch_stops: "\<not> vmbus2tcp_alive s \<or> \<not> tcp2vmbus_alive s \<Longrightarrow> \<not> ShouldRunning (watch_threads s) \<and> closed (watch_threads s)"
  by (simp add: watch_threads_def)

section \<open>Examples\<close>

text \<open>The host has put a packet into the incoming ring of the small device.\<close>

definition demo_sent :: memory where
  "demo_sent = crossed demo_device (snd (PushPipePacket demo_device [1, 2, 3] (demo_memory 40)))"

lemma demo_sent_facts:
  "ring_inv demo_device demo_sent" "incoming demo_device demo_sent = wire_packet 40 [1, 2, 3]"
  "outgoing demo_device demo_sent = []" "host_keeps demo_device (demo_memory 40) demo_sent" "inside demo_device demo_sent"
proof -
  let ?p = "pushed demo_device (wire_packet 40 [1, 2, 3]) (demo_memory 40)"
  have "length (wire_packet 0 [1, 2, 3]) + length (outgoing demo_device (demo_memory 40)) < data_of demo_device"
    by (simp add: demo_empty demo_sizes packet_len8_def)
  note p = push_ok [OF demo_ring _ this]
  have f: "fits [1, 2, 3]" by (simp add: fits_def)
  have sent: "demo_sent = crossed demo_device ?p" using p(1) f by (simp add: demo_sent_def demo_offsets)
  have r: "ring_inv demo_device ?p" using p(4) f by (simp add: demo_offsets)
  have m: "mapped demo_device ?p" using r by (simp add: ring_inv_def)
  have o: "out_at 0 ?p = 40" "in_at 132 ?p = 40" "out_at 132 ?p = 40"
    using pushed_offsets [of demo_device "demo_memory 40" "wire_packet 40 [1, 2, 3]"]
    by (simp_all add: demo_mapped demo_offsets demo_sizes packet_len8_def)
  have c: "in_at 0 demo_sent = 40" "out_at 0 demo_sent = 40"
    using crossed_bytes_at(2) [OF m, of 0 4] crossed_bytes_at(2) [OF m, of 4 4] o
    by (simp_all add: sent in_at_def out_at_def demo_sizes)
  show "ring_inv demo_device demo_sent" unfolding sent by (rule crossed_rings(2) [OF r])
  show "incoming demo_device demo_sent = wire_packet 40 [1, 2, 3]"
    unfolding sent crossed_rings(1) [OF r] using p(2) f by (simp add: demo_offsets demo_empty)
  show "outgoing demo_device demo_sent = []" by (simp add: outgoing_def c ring_bytes_def readable_def)
  have "out_at 132 demo_sent = 40" using crossed_rings(3) [OF r] o(1) by (simp add: sent demo_sizes)
  then show "host_keeps demo_device (demo_memory 40) demo_sent" "inside demo_device demo_sent"
    using \<open>ring_inv demo_device demo_sent\<close> c by (simp_all add: host_keeps_def inside_def demo_offsets demo_sizes)
qed

definition demo_posix :: posix_env where
  "demo_posix = \<lparr>posix_write = \<lambda>bs. int (length bs), posix_read = 4, posix_errno = 0\<rparr>"

text \<open>The host sends a packet and the first thread forwards it.\<close>

definition demo_session :: session where
  "demo_session = vmbus2tcp_round demo_device (\<lambda>c. Inr (length c))
     ((new_session (demo_memory 40))\<lparr>ring := demo_sent, host_sent := [[1, 2, 3]]\<rparr>)"

lemma demo_session_run: "lossless_run demo_posix demo_device (new_session (demo_memory 40)) demo_session"
proof -
  let ?s = "(new_session (demo_memory 40))\<lparr>ring := demo_sent, host_sent := [[1, 2, 3]]\<rparr>"
  have "session_step demo_posix demo_device (new_session (demo_memory 40)) True ?s"
    using session_step.host_sends [of demo_device "new_session (demo_memory 40)" demo_sent "[1, 2, 3]" 40 demo_posix]
      demo_sent_facts by (simp add: new_session_def demo_empty fits_def)
  moreover have "session_step demo_posix demo_device ?s True demo_session"
    using session_step.to_tcp [of ?s demo_posix demo_device "\<lambda>c. Inr (length c)"]
    by (simp add: new_session_def demo_session_def)
  ultimately show ?thesis unfolding lossless_run_def by (meson r_into_rtranclp rtranclp.rtrancl_into_rtrancl)
qed

theorem forwarding_conserves_bytes_witness:
  "\<exists>cs. queued (incoming demo_device (ring demo_session)) cs \<and> concat (host_sent demo_session) = to_server demo_session @ concat cs"
  using forwarding_conserves_bytes [OF demo_ring _ _ demo_session_run] by (simp add: demo_empty)

theorem partial_send_loses_witness:
  "to_server (vmbus2tcp_round demo_device (\<lambda>c. Inr 1) ((new_session demo_sent)\<lparr>host_sent := [[1, 2, 3]]\<rparr>)) = [1]"
  using partial_send_loses [of demo_device "(new_session demo_sent)\<lparr>host_sent := [[1, 2, 3]]\<rparr>" 40 "[1, 2, 3]" "[]" "\<lambda>c. Inr 1" 1]
    demo_sent_facts by (simp add: new_session_def fits_def)

end
