(* ===== verification/Hyperv_Layout.thy ===== *)
theory Hyperv_Layout
  imports CLayout Hyperv_Vmbus
begin

text \<open>
  The memory layouts of \<open>hyperv_vmbus.h\<close>: the monitor page, which the driver maps into user space, and the input of
  the post-message hypercall, as the kernel's compiler lays them out (\<open>sysv\<close>).  \<open>union hv_connection_id\<close> is a type
  of the kernel's own headers and an argument here; the code relies on it being a 32-bit word.
  Shown: the members of the monitor page are where the comment in the header puts them, and it fills one page.
\<close>

section \<open>Definitions\<close>

definition hv_monitor_trigger_group :: cty where
  "hv_monitor_trigger_group = Union 0 (flds_of [
       mem ''as_uint64'' U64, mem '''' (Struct 0 (flds_of [mem ''pending'' U32, mem ''armed'' U32]))])"

definition hv_monitor_parameter :: "cty \<Rightarrow> cty" where
  "hv_monitor_parameter hv_connection_id = Struct 0 (flds_of [
       mem ''connectionid'' hv_connection_id, mem ''flagnumber'' U16, mem ''rsvdz'' U16])"

definition hv_monitor_trigger_state :: cty where
  "hv_monitor_trigger_state = Union 0 (flds_of [
       mem ''asu32'' U32, mem '''' (Struct 0 (flds_of [bits ''group_enable'' U32 4, bits ''rsvdz'' U32 28]))])"

definition hv_monitor_page :: "cty \<Rightarrow> cty" where
  "hv_monitor_page hv_connection_id = Struct 0 (flds_of [
       mem ''trigger_state'' hv_monitor_trigger_state, mem ''rsvdz1'' U32,
       mem ''trigger_group'' (Arr hv_monitor_trigger_group 4), mem ''rsvdz2'' (Arr U64 3),
       mem ''next_checktime'' (Arr (Arr U32 32) 4),
       mem ''latency'' (Arr (Arr U16 32) 4), mem ''rsvdz3'' (Arr U64 32),
       mem ''parameter'' (Arr (Arr (hv_monitor_parameter hv_connection_id) 32) 4),
       mem ''rsvdz4'' (Arr U8 1984)])"

text \<open>The table in the comment above the structure: the offset of each member.\<close>

definition hv_monitor_page_layout :: "(string \<times> nat) list" where
  "hv_monitor_page_layout =
     [(''trigger_state'', 0x0), (''rsvdz1'', 0x4), (''trigger_group'', 0x8), (''rsvdz2'', 0x28),
      (''next_checktime'', 0x40), (''latency'', 0x240), (''rsvdz3'', 0x340), (''parameter'', 0x440),
      (''rsvdz4'', 0x840)]"

definition hv_input_post_message :: "cty \<Rightarrow> nat \<Rightarrow> cty" where
  "hv_input_post_message hv_connection_id payload_qwords = Struct 0 (flds_of [
       mem ''connectionid'' hv_connection_id, mem ''reserved'' U32, mem ''message_type'' U32,
       mem ''payload_size'' U32, mem ''payload'' (Arr U64 payload_qwords)])"

definition vmbus_ids :: enum_tab where
  "vmbus_ids = enum_of [
     (''VMBUS_MESSAGE_CONNECTION_ID'', Val 1), (''VMBUS_MESSAGE_CONNECTION_ID_4'', Val 4),
     (''VMBUS_MESSAGE_PORT_ID'', Val 1), (''VMBUS_EVENT_CONNECTION_ID'', Val 2),
     (''VMBUS_EVENT_PORT_ID'', Val 2), (''VMBUS_MONITOR_CONNECTION_ID'', Val 3),
     (''VMBUS_MONITOR_PORT_ID'', Val 3), (''VMBUS_MESSAGE_SINT'', Val 2)]"

definition delay :: enum_tab where
  "delay = enum_of [(''INTERRUPT_DELAY'', Val 0), (''MESSAGE_DELAY'', Val 1)]"

text \<open>The offsets of the members of a structure, in bytes.\<close>

fun struct_offsets :: "abi \<Rightarrow> cty \<Rightarrow> (string \<times> nat) list" where
  "struct_offsets A (Struct p fs) = map (\<lambda>(n, st, wd). (n, st div 8)) (places A p fs start_cursor)"
| "struct_offsets A _ = []"

section \<open>Properties\<close>

lemma hv_parameter_size:
  assumes "csize sysv cid = 4" "calign sysv cid = 4"
  shows "csize sysv (hv_monitor_parameter cid) = 8" "calign sysv (hv_monitor_parameter cid) = 4"
  using assms by (simp_all add: hv_monitor_parameter_def align_up_def packed_def start_cursor_def place_def
      advance_def Let_def)

text \<open>The monitor page is laid out as its comment says and fills exactly one page of the hypervisor, for
  every connection identifier of four bytes; the input of a post-message hypercall puts the payload at
  offset 16, aligned to its 64-bit words.\<close>

theorem monitor_page_layout:
  assumes "csize sysv cid = 4" "calign sysv cid = 4"
  shows "struct_offsets sysv (hv_monitor_page cid) = hv_monitor_page_layout
    \<and> csize sysv (hv_monitor_page cid) = HV_HYP_PAGE_SIZE
    \<and> (''payload'', 16) \<in> set (struct_offsets sysv (hv_input_post_message cid n))
    \<and> calign sysv (hv_input_post_message cid n) = 8"
  using assms hv_parameter_size [OF assms]
  by (simp add: hv_monitor_page_def hv_monitor_page_layout_def hv_monitor_trigger_state_def
      hv_monitor_trigger_group_def hv_input_post_message_def HV_HYP_PAGE_SIZE_def layout_eval Let_def)

theorem monitor_page_layout_witness: "csize sysv (hv_monitor_page U32) = 4096"
  using monitor_page_layout [of U32] by (simp add: HV_HYP_PAGE_SIZE_def)

end
