(* ===== verification/Guest_Interface.thy ===== *)
theory Guest_Interface
  imports Guest_Protocols Hyperv_Layout
begin

text \<open>
  \<open>Mile.HyperV.Guest.Interface.h\<close>: the interface of the hypervisor to a guest.  Status codes, CPUID leaves,
  synthetic registers, the messages and pages of the synthetic interrupt controller, hypercalls with their inputs
  and the names of the virtual registers.  The header is written for two architectures: \<open>arch\<close> is the one that the
  compiler defines (\<open>_M_AMD64\<close> or \<open>_M_ARM64\<close>; it refuses others), and a declaration that depends on it has it
  as an argument.
\<close>

unbundle bit_operations_syntax

datatype arch = X64 | ARM64

section \<open>HV-STATUS Definitions\<close>

definition HV_STATUS :: cty where "HV_STATUS = U16"

definition HV_STATUS_SUCCESS :: "16 word" where "HV_STATUS_SUCCESS = 0x0000"

definition HV_STATUS_INVALID_HYPERCALL_CODE :: "16 word" where "HV_STATUS_INVALID_HYPERCALL_CODE = 0x0002"

definition HV_STATUS_INVALID_HYPERCALL_INPUT :: "16 word" where "HV_STATUS_INVALID_HYPERCALL_INPUT = 0x0003"

definition HV_STATUS_INVALID_ALIGNMENT :: "16 word" where "HV_STATUS_INVALID_ALIGNMENT = 0x0004"

definition HV_STATUS_INVALID_PARAMETER :: "16 word" where "HV_STATUS_INVALID_PARAMETER = 0x0005"

definition HV_STATUS_ACCESS_DENIED :: "16 word" where "HV_STATUS_ACCESS_DENIED = 0x0006"

definition HV_STATUS_INVALID_PARTITION_STATE :: "16 word" where "HV_STATUS_INVALID_PARTITION_STATE = 0x0007"

definition HV_STATUS_OPERATION_DENIED :: "16 word" where "HV_STATUS_OPERATION_DENIED = 0x0008"

definition HV_STATUS_UNKNOWN_PROPERTY :: "16 word" where "HV_STATUS_UNKNOWN_PROPERTY = 0x0009"

definition HV_STATUS_PROPERTY_VALUE_OUT_OF_RANGE :: "16 word" where "HV_STATUS_PROPERTY_VALUE_OUT_OF_RANGE = 0x000A"

definition HV_STATUS_INSUFFICIENT_MEMORY :: "16 word" where "HV_STATUS_INSUFFICIENT_MEMORY = 0x000B"

definition HV_STATUS_PARTITION_TOO_DEEP :: "16 word" where "HV_STATUS_PARTITION_TOO_DEEP = 0x000C"

definition HV_STATUS_INVALID_PARTITION_ID :: "16 word" where "HV_STATUS_INVALID_PARTITION_ID = 0x000D"

definition HV_STATUS_INVALID_VP_INDEX :: "16 word" where "HV_STATUS_INVALID_VP_INDEX = 0x000E"

definition HV_STATUS_NOT_FOUND :: "16 word" where "HV_STATUS_NOT_FOUND = 0x0010"

definition HV_STATUS_INVALID_PORT_ID :: "16 word" where "HV_STATUS_INVALID_PORT_ID = 0x0011"

definition HV_STATUS_INVALID_CONNECTION_ID :: "16 word" where "HV_STATUS_INVALID_CONNECTION_ID = 0x0012"

definition HV_STATUS_INSUFFICIENT_BUFFERS :: "16 word" where "HV_STATUS_INSUFFICIENT_BUFFERS = 0x0013"

definition HV_STATUS_NOT_ACKNOWLEDGED :: "16 word" where "HV_STATUS_NOT_ACKNOWLEDGED = 0x0014"

definition HV_STATUS_INVALID_VP_STATE :: "16 word" where "HV_STATUS_INVALID_VP_STATE = 0x0015"

definition HV_STATUS_ACKNOWLEDGED :: "16 word" where "HV_STATUS_ACKNOWLEDGED = 0x0016"

definition HV_STATUS_INVALID_SAVE_RESTORE_STATE :: "16 word" where "HV_STATUS_INVALID_SAVE_RESTORE_STATE = 0x0017"

definition HV_STATUS_INVALID_SYNIC_STATE :: "16 word" where "HV_STATUS_INVALID_SYNIC_STATE = 0x0018"

definition HV_STATUS_OBJECT_IN_USE :: "16 word" where "HV_STATUS_OBJECT_IN_USE = 0x0019"

definition HV_STATUS_INVALID_PROXIMITY_DOMAIN_INFO :: "16 word" where "HV_STATUS_INVALID_PROXIMITY_DOMAIN_INFO = 0x001A"

definition HV_STATUS_NO_DATA :: "16 word" where "HV_STATUS_NO_DATA = 0x001B"

definition HV_STATUS_INACTIVE :: "16 word" where "HV_STATUS_INACTIVE = 0x001C"

definition HV_STATUS_NO_RESOURCES :: "16 word" where "HV_STATUS_NO_RESOURCES = 0x001D"

definition HV_STATUS_FEATURE_UNAVAILABLE :: "16 word" where "HV_STATUS_FEATURE_UNAVAILABLE = 0x001E"

definition HV_STATUS_PARTIAL_PACKET :: "16 word" where "HV_STATUS_PARTIAL_PACKET = 0x001F"

definition HV_STATUS_PROCESSOR_FEATURE_NOT_SUPPORTED :: "16 word" where "HV_STATUS_PROCESSOR_FEATURE_NOT_SUPPORTED = 0x0020"

definition HV_STATUS_PROCESSOR_CACHE_LINE_FLUSH_SIZE_INCOMPATIBLE :: "16 word" where "HV_STATUS_PROCESSOR_CACHE_LINE_FLUSH_SIZE_INCOMPATIBLE = 0x0030"

definition HV_STATUS_INSUFFICIENT_BUFFER :: "16 word" where "HV_STATUS_INSUFFICIENT_BUFFER = 0x0033"

definition HV_STATUS_INCOMPATIBLE_PROCESSOR :: "16 word" where "HV_STATUS_INCOMPATIBLE_PROCESSOR = 0x0037"

definition HV_STATUS_INSUFFICIENT_DEVICE_DOMAINS :: "16 word" where "HV_STATUS_INSUFFICIENT_DEVICE_DOMAINS = 0x0038"

definition HV_STATUS_CPUID_FEATURE_VALIDATION_ERROR :: "16 word" where "HV_STATUS_CPUID_FEATURE_VALIDATION_ERROR = 0x003C"

definition HV_STATUS_CPUID_XSAVE_FEATURE_VALIDATION_ERROR :: "16 word" where "HV_STATUS_CPUID_XSAVE_FEATURE_VALIDATION_ERROR = 0x003D"

definition HV_STATUS_PROCESSOR_STARTUP_TIMEOUT :: "16 word" where "HV_STATUS_PROCESSOR_STARTUP_TIMEOUT = 0x003E"

definition HV_STATUS_SMX_ENABLED :: "16 word" where "HV_STATUS_SMX_ENABLED = 0x003F"

definition HV_STATUS_INVALID_LP_INDEX :: "16 word" where "HV_STATUS_INVALID_LP_INDEX = 0x0041"

definition HV_STATUS_INVALID_REGISTER_VALUE :: "16 word" where "HV_STATUS_INVALID_REGISTER_VALUE = 0x0050"

definition HV_STATUS_INVALID_VTL_STATE :: "16 word" where "HV_STATUS_INVALID_VTL_STATE = 0x0051"

definition HV_STATUS_NX_NOT_DETECTED :: "16 word" where "HV_STATUS_NX_NOT_DETECTED = 0x0055"

definition HV_STATUS_INVALID_DEVICE_ID :: "16 word" where "HV_STATUS_INVALID_DEVICE_ID = 0x0057"

definition HV_STATUS_INVALID_DEVICE_STATE :: "16 word" where "HV_STATUS_INVALID_DEVICE_STATE = 0x0058"

definition HV_STATUS_PENDING_PAGE_REQUESTS :: "16 word" where "HV_STATUS_PENDING_PAGE_REQUESTS = 0x0059"

definition HV_STATUS_PAGE_REQUEST_INVALID :: "16 word" where "HV_STATUS_PAGE_REQUEST_INVALID = 0x0060"

definition HV_STATUS_KEY_ALREADY_EXISTS :: "16 word" where "HV_STATUS_KEY_ALREADY_EXISTS = 0x0065"

definition HV_STATUS_DEVICE_ALREADY_IN_DOMAIN :: "16 word" where "HV_STATUS_DEVICE_ALREADY_IN_DOMAIN = 0x0066"

definition HV_STATUS_INVALID_CPU_GROUP_ID :: "16 word" where "HV_STATUS_INVALID_CPU_GROUP_ID = 0x006F"

definition HV_STATUS_INVALID_CPU_GROUP_STATE :: "16 word" where "HV_STATUS_INVALID_CPU_GROUP_STATE = 0x0070"

definition HV_STATUS_OPERATION_FAILED :: "16 word" where "HV_STATUS_OPERATION_FAILED = 0x0071"

definition HV_STATUS_NOT_ALLOWED_WITH_NESTED_VIRT_ACTIVE :: "16 word" where "HV_STATUS_NOT_ALLOWED_WITH_NESTED_VIRT_ACTIVE = 0x0072"

definition HV_STATUS_INSUFFICIENT_ROOT_MEMORY :: "16 word" where "HV_STATUS_INSUFFICIENT_ROOT_MEMORY = 0x0073"

section \<open>Basic Type Definitions\<close>

definition HV_MAXIMUM_PROCESSORS :: "32 word" where "HV_MAXIMUM_PROCESSORS = 2048"

definition HV_GPA :: cty where "HV_GPA = U64"

definition HV_GPA_PAGE_NUMBER :: cty where "HV_GPA_PAGE_NUMBER = U64"

definition HV_GVA :: cty where "HV_GVA = U64"

definition HV_ARM64_PAGE_SIZE :: "32 word" where "HV_ARM64_PAGE_SIZE = 4096"

definition HV_ARM64_LARGE_PAGE_SIZE :: "32 word" where "HV_ARM64_LARGE_PAGE_SIZE = 0x200000"

definition HV_ARM64_LARGE_PAGE_SIZE_1GB :: "32 word" where "HV_ARM64_LARGE_PAGE_SIZE_1GB = 0x40000000"

definition HV_ARM64_HVC_IMM16 :: "32 word" where "HV_ARM64_HVC_IMM16 = 1"

definition HV_ARM64_HVC_VTLENTRY_IMM16 :: "32 word" where "HV_ARM64_HVC_VTLENTRY_IMM16 = 2"

definition HV_ARM64_HVC_VTLEXIT_IMM16 :: "32 word" where "HV_ARM64_HVC_VTLEXIT_IMM16 = 3"

definition HV_ARM64_HVC_LAUNCH_IMM16 :: "32 word" where "HV_ARM64_HVC_LAUNCH_IMM16 = 4"

definition HV_ARM64_HVC_LAUNCH_SL_IMM16 :: "32 word" where "HV_ARM64_HVC_LAUNCH_SL_IMM16 = 5"

definition HV_ARM64_ENABLE_SRE :: "32 word" where "HV_ARM64_ENABLE_SRE = 2"

definition HV_ARM64_SYSTEM_RESET2_FIRMWARE_CRASH :: "32 word" where "HV_ARM64_SYSTEM_RESET2_FIRMWARE_CRASH = 0x80000001"

definition HV_X64_PAGE_SIZE :: "32 word" where "HV_X64_PAGE_SIZE = 4096"

definition HV_X64_LARGE_PAGE_SIZE :: "32 word" where "HV_X64_LARGE_PAGE_SIZE = 0x200000"

definition HV_X64_LARGE_PAGE_SIZE_1GB :: "32 word" where "HV_X64_LARGE_PAGE_SIZE_1GB = 0x40000000"

definition HV_PAGE_SIZE :: "arch \<Rightarrow> 32 word" where
  "HV_PAGE_SIZE a = (case a of X64 \<Rightarrow> HV_X64_PAGE_SIZE | ARM64 \<Rightarrow> HV_ARM64_PAGE_SIZE)"

definition HV_LARGE_PAGE_SIZE :: "arch \<Rightarrow> 32 word" where
  "HV_LARGE_PAGE_SIZE a = (case a of X64 \<Rightarrow> HV_X64_LARGE_PAGE_SIZE | ARM64 \<Rightarrow> HV_ARM64_LARGE_PAGE_SIZE)"

definition HV_LARGE_PAGE_SIZE_1GB :: "arch \<Rightarrow> 32 word" where
  "HV_LARGE_PAGE_SIZE_1GB a = (case a of X64 \<Rightarrow> HV_X64_LARGE_PAGE_SIZE_1GB | ARM64 \<Rightarrow> HV_ARM64_LARGE_PAGE_SIZE_1GB)"

definition HV_PARTITION_ID :: cty where "HV_PARTITION_ID = U64"

definition HV_PARTITION_ID_INVALID :: "64 word" where "HV_PARTITION_ID_INVALID = 0x0"

definition HV_PARTITION_ID_SELF :: "64 word" where "HV_PARTITION_ID_SELF = - 1"

definition HV_NANO100_TIME :: cty where "HV_NANO100_TIME = U64"

definition HV_NANO100_DURATION :: cty where "HV_NANO100_DURATION = U64"

definition HV_NANO100_TIME_NEVER :: "64 word" where "HV_NANO100_TIME_NEVER = - 1"

definition HV_IOMMU_ID :: cty where "HV_IOMMU_ID = U32"

definition HV_INTERCEPT_ACCESS_TYPE :: cty where "HV_INTERCEPT_ACCESS_TYPE = U8"

definition HV_VP_INDEX :: cty where "HV_VP_INDEX = U32"

definition HV_VTL :: cty where "HV_VTL = U8"

definition HV_MAP_GPA_FLAGS :: cty where "HV_MAP_GPA_FLAGS = U32"

definition HV_X64_SEGMENT_REGISTER :: cty where
  "HV_X64_SEGMENT_REGISTER = Struct 0 (flds_of
       [mem ''Base'' U64, mem ''Limit'' U32, mem ''Selector'' U16,
       mem '''' (Union 0 (flds_of [mem '''' (Struct 0 (flds_of [bits ''SegmentType'' U16 4, bits ''NonSystemSegment'' U16 1,
             bits ''DescriptorPrivilegeLevel'' U16 2, bits ''Present'' U16 1, bits ''Reserved'' U16 4,
             bits ''Available'' U16 1, bits ''Long'' U16 1, bits ''Default'' U16 1,
             bits ''Granularity'' U16 1])),
          mem ''Attributes'' U16]))])"

definition HV_X64_TABLE_REGISTER :: cty where
  "HV_X64_TABLE_REGISTER = Struct 0 (flds_of
       [mem ''Pad'' (Arr U16 3), mem ''Limit'' U16, mem ''Base'' U64])"

definition HV_INITIAL_VP_CONTEXT :: "arch \<Rightarrow> cty" where
  "HV_INITIAL_VP_CONTEXT a = Struct 0 (flds_of
       ((case a of X64 \<Rightarrow> [mem ''Rip'' U64, mem ''Rsp'' U64, mem ''Rflags'' U64, mem ''Cs'' HV_X64_SEGMENT_REGISTER,
       mem ''Ds'' HV_X64_SEGMENT_REGISTER, mem ''Es'' HV_X64_SEGMENT_REGISTER,
       mem ''Fs'' HV_X64_SEGMENT_REGISTER, mem ''Gs'' HV_X64_SEGMENT_REGISTER,
       mem ''Ss'' HV_X64_SEGMENT_REGISTER, mem ''Tr'' HV_X64_SEGMENT_REGISTER,
       mem ''Ldtr'' HV_X64_SEGMENT_REGISTER, mem ''Idtr'' HV_X64_TABLE_REGISTER,
       mem ''Gdtr'' HV_X64_TABLE_REGISTER, mem ''Efer'' U64, mem ''Cr0'' U64, mem ''Cr3'' U64,
       mem ''Cr4'' U64, mem ''MsrCrPat'' U64] | ARM64 \<Rightarrow>
        [mem ''Pc'' U64, mem ''Sp_ELh'' U64, mem ''SCTLR_EL1'' U64, mem ''MAIR_EL1'' U64,
       mem ''TCR_EL1'' U64, mem ''VBAR_EL1'' U64, mem ''TTBR0_EL1'' U64, mem ''TTBR1_EL1'' U64,
       mem ''X18'' U64])))"

definition HV_MAP_GPA_PERMISSIONS_NONE :: "32 word" where "HV_MAP_GPA_PERMISSIONS_NONE = 0x0"

definition HV_MAP_GPA_READABLE :: "32 word" where "HV_MAP_GPA_READABLE = 0x1"

definition HV_MAP_GPA_WRITABLE :: "32 word" where "HV_MAP_GPA_WRITABLE = 0x2"

section \<open>CPUID Definitions\<close>

definition HV_HYPERVISOR_INTERFACE :: "enum_tab" where
  "HV_HYPERVISOR_INTERFACE = enum_of
     [(''HvMicrosoftHypervisorInterface'', Val 0x31237648)]"

definition HV_HYPERVISOR_VERSION_INFO :: cty where
  "HV_HYPERVISOR_VERSION_INFO = Struct 0 (flds_of
       [mem ''BuildNumber'' U32, bits ''MinorVersion'' U32 16, bits ''MajorVersion'' U32 16,
       mem ''ServicePack'' U32, bits ''ServiceNumber'' U32 24, bits ''ServiceBranch'' U32 8])"

definition HV_PARTITION_PRIVILEGE_MASK :: cty where
  "HV_PARTITION_PRIVILEGE_MASK = Union 0 (flds_of
       [mem ''AsUINT64'' U64,
       mem '''' (Struct 0 (flds_of [bits ''AccessVpRunTimeReg'' U64 1, bits ''AccessPartitionReferenceCounter'' U64 1,
          bits ''AccessSynicRegs'' U64 1, bits ''AccessSyntheticTimerRegs'' U64 1,
          bits ''AccessIntrCtrlRegs'' U64 1, bits ''AccessHypercallMsrs'' U64 1,
          bits ''AccessVpIndex'' U64 1, bits ''AccessResetReg'' U64 1,
          bits ''AccessStatsReg'' U64 1, bits ''AccessPartitionReferenceTsc'' U64 1,
          bits ''AccessGuestIdleReg'' U64 1, bits ''AccessFrequencyRegs'' U64 1,
          bits ''AccessDebugRegs'' U64 1, bits ''AccessReenlightenmentControls'' U64 1,
          bits ''AccessRootSchedulerReg'' U64 1, bits ''Reserved1'' U64 17,
          bits ''CreatePartitions'' U64 1, bits ''AccessPartitionId'' U64 1,
          bits ''AccessMemoryPool'' U64 1, bits ''AdjustMessageBuffers'' U64 1,
          bits ''PostMessages'' U64 1, bits ''SignalEvents'' U64 1, bits ''CreatePort'' U64 1,
          bits ''ConnectPort'' U64 1, bits ''AccessStats'' U64 1, bits ''Reserved2'' U64 2,
          bits ''Debugging'' U64 1, bits ''CpuManagement'' U64 1, bits ''ConfigureProfiler'' U64 1,
          bits ''AccessVpExitTracing'' U64 1,
          bits ''EnableExtendedGvaRangesForFlushVirtualAddressList'' U64 1,
          bits ''AccessVsm'' U64 1, bits ''AccessVpRegisters'' U64 1, bits ''UnusedBit'' U64 1,
          bits ''FastHypercallOutput'' U64 1, bits ''EnableExtendedHypercalls'' U64 1,
          bits ''StartVirtualProcessor'' U64 1, bits ''Isolation'' U64 1, bits ''Reserved3'' U64 9]))])"

definition HV_X64_PLATFORM_CAPABILITIES :: cty where
  "HV_X64_PLATFORM_CAPABILITIES = Union 0 (flds_of
       [mem ''AsUINT64'' (Arr U64 2),
       mem '''' (Struct 0 (flds_of [bits ''AllowRedSignedCode'' U32 1, bits ''AllowKernelModeDebugging'' U32 1,
          bits ''AllowUserModeDebugging'' U32 1, bits ''AllowTelnetServer'' U32 1,
          bits ''AllowIOPorts'' U32 1, bits ''AllowFullMsrSpace'' U32 1,
          bits ''AllowPerfCounters'' U32 1, bits ''AllowHost512MB'' U32 1,
          bits ''ReservedEax1'' U32 1, bits ''AllowRemoteRecovery'' U32 1,
          bits ''AllowStreaming'' U32 1, bits ''AllowPushDeployment'' U32 1,
          bits ''AllowPullDeployment'' U32 1, bits ''AllowProfiling'' U32 1,
          bits ''AllowJsProfiling'' U32 1, bits ''AllowCrashDump'' U32 1,
          bits ''AllowVsCrashDump'' U32 1, bits ''AllowToolFileIO'' U32 1,
          bits ''AllowConsoleMgmt'' U32 1, bits ''AllowTracing'' U32 1,
          bits ''AllowXStudio'' U32 1, bits ''AllowGestureBuilder'' U32 1,
          bits ''AllowSpeechLab'' U32 1, bits ''AllowSmartglassStudio'' U32 1,
          bits ''AllowNetworkTools'' U32 1, bits ''AllowTcrTool'' U32 1,
          bits ''AllowHostNetworkStack'' U32 1, bits ''AllowSystemUpdateTest'' U32 1,
          bits ''AllowOffChipPerfCtrStreaming'' U32 1, bits ''AllowToolingMemory'' U32 1,
          bits ''AllowSystemDowngrade'' U32 1, bits ''AllowGreenDiskLicenses'' U32 1,
          bits ''IsLiveConnected'' U32 1, bits ''IsMteBoosted'' U32 1, bits ''IsQaSlt'' U32 1,
          bits ''IsStockImage'' U32 1, bits ''IsMsTestLab'' U32 1, bits ''IsRetailDebugger'' U32 1,
          bits ''IsXvdSrt'' U32 1, bits ''IsGreenDebug'' U32 1, bits ''IsHwDevTest'' U32 1,
          bits ''AllowDiskLicenses'' U32 1, bits ''AllowInstrumentation'' U32 1,
          bits ''AllowWifiTester'' U32 1, bits ''AllowWifiTesterDFS'' U32 1,
          bits ''IsHwTest'' U32 1, bits ''AllowHostOddTest'' U32 1,
          bits ''IsLiveUnrestricted'' U32 1, bits ''AllowDiscLicensesWithoutMediaAuth'' U32 1,
          bits ''ReservedEbx'' U32 15, mem ''ReservedEcx'' U32, bits ''ReservedEdx'' U32 31,
          bits ''UseAlternateXvd'' U32 1]))])"

definition HV_CPUID_FUNCTION :: "enum_tab" where
  "HV_CPUID_FUNCTION = enum_of
     [(''HvCpuIdFunctionVersionAndFeatures'', Val 0x00000001),
     (''HvCpuIdFunctionHvVendorAndMaxFunction'', Val 0x40000000),
     (''HvCpuIdFunctionHvInterface'', Val 0x40000001),
     (''HvCpuIdFunctionMsHvVersion'', Val 0x40000002),
     (''HvCpuIdFunctionMsHvFeatures'', Val 0x40000003),
     (''HvCpuIdFunctionMsHvEnlightenmentInformation'', Val 0x40000004),
     (''HvCpuIdFunctionMsHvImplementationLimits'', Val 0x40000005),
     (''HvCpuIdFunctionMsHvHardwareFeatures'', Val 0x40000006),
     (''HvCpuIdFunctionMsHvCpuManagementFeatures'', Val 0x40000007),
     (''HvCpuIdFunctionMsHvSvmFeatures'', Val 0x40000008),
     (''HvCpuIdFunctionMsHvSkipLevelFeatures'', Val 0x40000009),
     (''HvCpuidFunctionMsHvNestedVirtFeatures'', Val 0x4000000a),
     (''HvCpuidFunctionMsHvIsolationConfiguration'', Val 0x4000000c),
     (''HvCpuIdFunctionMaxReserved'', Val 0x4000000c)]"

definition HV_VENDOR_AND_MAX_FUNCTION :: cty where
  "HV_VENDOR_AND_MAX_FUNCTION = Struct 0 (flds_of
       [mem ''MaxFunction'' U32, mem ''VendorName'' (Arr U8 12)])"

definition HV_HYPERVISOR_INTERFACE_INFO :: cty where
  "HV_HYPERVISOR_INTERFACE_INFO = Struct 0 (flds_of
       [mem ''Interface'' U32, mem ''Reserved1'' U32, mem ''Reserved2'' U32, mem ''Reserved3'' U32])"

definition HV_X64_HYPERVISOR_FEATURES :: cty where
  "HV_X64_HYPERVISOR_FEATURES = Struct 0 (flds_of
       [mem ''PartitionPrivileges'' HV_PARTITION_PRIVILEGE_MASK,
       bits ''MaxSupportedCState'' U32 4, bits ''HpetNeededForC3PowerState_Deprecated'' U32 1,
       bits ''Reserved'' U32 27, bits ''MwaitAvailable_Deprecated'' U32 1,
       bits ''GuestDebuggingAvailable'' U32 1, bits ''PerformanceMonitorsAvailable'' U32 1,
       bits ''CpuDynamicPartitioningAvailable'' U32 1,
       bits ''XmmRegistersForFastHypercallAvailable'' U32 1, bits ''GuestIdleAvailable'' U32 1,
       bits ''HypervisorSleepStateSupportAvailable'' U32 1,
       bits ''NumaDistanceQueryAvailable'' U32 1, bits ''FrequencyRegsAvailable'' U32 1,
       bits ''SyntheticMachineCheckAvailable'' U32 1, bits ''GuestCrashRegsAvailable'' U32 1,
       bits ''DebugRegsAvailable'' U32 1, bits ''Npiep1Available'' U32 1,
       bits ''DisableHypervisorAvailable'' U32 1,
       bits ''ExtendedGvaRangesForFlushVirtualAddressListAvailable'' U32 1,
       bits ''FastHypercallOutputAvailable'' U32 1, bits ''PasidFeaturesAvailable'' U32 1,
       bits ''SintPollingModeAvailable'' U32 1, bits ''HypercallMsrLockAvailable'' U32 1,
       bits ''DirectSyntheticTimers'' U32 1, bits ''RegisterPatAvailable'' U32 1,
       bits ''RegisterBndcfgsAvailable'' U32 1, bits ''WatchdogTimerAvailable'' U32 1,
       bits ''SyntheticTimeUnhaltedTimerAvailable'' U32 1,
       bits ''DeviceDomainsAvailable'' U32 1, bits ''S1DeviceDomainsAvailable'' U32 1,
       bits ''Reserved1'' U32 6])"

definition HV_ARM64_HYPERVISOR_FEATURES :: cty where
  "HV_ARM64_HYPERVISOR_FEATURES = Struct 0 (flds_of
       [mem ''PartitionPrivileges'' HV_PARTITION_PRIVILEGE_MASK,
       bits ''GuestDebuggingAvailable'' U32 1, bits ''PerformanceMonitorsAvailable'' U32 1,
       bits ''CpuDynamicPartitioningAvailable'' U32 1, bits ''GuestIdleAvailable'' U32 1,
       bits ''HypervisorSleepStateSupportAvailable'' U32 1,
       bits ''NumaDistanceQueryAvailable'' U32 1, bits ''FrequencyRegsAvailable'' U32 1,
       bits ''SyntheticMachineCheckAvailable'' U32 1, bits ''GuestCrashRegsAvailable'' U32 1,
       bits ''DebugRegsAvailable'' U32 1, bits ''DisableHypervisorAvailable'' U32 1,
       bits ''ExtendedGvaRangesForFlushVirtualAddressListAvailable'' U32 1,
       bits ''SintPollingModeAvailable'' U32 1, bits ''DirectSyntheticTimers'' U32 1,
       bits ''DeviceDomainsAvailable'' U32 1, bits ''S1DeviceDomainsAvailable'' U32 1,
       bits ''Reserved1'' U32 16])"

definition HV_HYPERVISOR_FEATURES :: "arch \<Rightarrow> cty" where
  "HV_HYPERVISOR_FEATURES a = (case a of X64 \<Rightarrow> HV_X64_HYPERVISOR_FEATURES | ARM64 \<Rightarrow> HV_ARM64_HYPERVISOR_FEATURES)"

definition HV_X64_ENLIGHTENMENT_INFORMATION :: cty where
  "HV_X64_ENLIGHTENMENT_INFORMATION = Struct 0 (flds_of
       [bits ''UseHypercallForAddressSpaceSwitch'' U32 1,
       bits ''UseHypercallForLocalFlush'' U32 1,
       bits ''UseHypercallForRemoteFlushAndLocalFlushEntire'' U32 1, bits ''UseApicMsrs'' U32 1,
       bits ''UseHvRegisterForReset'' U32 1, bits ''UseRelaxedTiming'' U32 1,
       bits ''UseDmaRemapping_Deprecated'' U32 1,
       bits ''UseInterruptRemapping_Deprecated'' U32 1, bits ''UseX2ApicMsrs'' U32 1,
       bits ''DeprecateAutoEoi'' U32 1, bits ''UseSyntheticClusterIpi'' U32 1,
       bits ''UseExProcessorMasks'' U32 1, bits ''Nested'' U32 1,
       bits ''UseIntForMbecSystemCalls'' U32 1, bits ''UseVmcsEnlightenments'' U32 1,
       bits ''UseSyncedTimeline'' U32 1, bits ''Available'' U32 1,
       bits ''UseDirectLocalFlushEntire'' U32 1, bits ''Reserved'' U32 14,
       mem ''LongSpinWaitCount'' U32, mem ''ReservedEcx'' U32, mem ''ReservedEdx'' U32])"

definition HV_ARM64_ENLIGHTENMENT_INFORMATION :: cty where
  "HV_ARM64_ENLIGHTENMENT_INFORMATION = Struct 0 (flds_of
       [bits ''UseHvRegisterForReset'' U32 1, bits ''UseRelaxedTiming'' U32 1,
       bits ''UseSyntheticClusterIpi'' U32 1, bits ''UseExProcessorMasks'' U32 1,
       bits ''Nested'' U32 1, bits ''UseSyncedTimeline'' U32 1, bits ''Reserved'' U32 26,
       mem ''LongSpinWaitCount'' U32, mem ''Reserved0'' U32, mem ''Reserved1'' U32])"

definition HV_ENLIGHTENMENT_INFORMATION :: "arch \<Rightarrow> cty" where
  "HV_ENLIGHTENMENT_INFORMATION a = (case a of X64 \<Rightarrow> HV_X64_ENLIGHTENMENT_INFORMATION | ARM64 \<Rightarrow> HV_ARM64_ENLIGHTENMENT_INFORMATION)"

definition HV_IMPLEMENTATION_LIMITS :: cty where
  "HV_IMPLEMENTATION_LIMITS = Struct 0 (flds_of
       [mem ''MaxVirtualProcessorCount'' U32, mem ''MaxLogicalProcessorCount'' U32,
       mem ''MaxInterruptMappingCount'' U32, mem ''Reserved'' U32])"

definition HV_X64_HYPERVISOR_HARDWARE_FEATURES :: cty where
  "HV_X64_HYPERVISOR_HARDWARE_FEATURES = Struct 0 (flds_of
       [bits ''ApicOverlayAssistInUse'' U32 1, bits ''MsrBitmapsInUse'' U32 1,
       bits ''ArchitecturalPerformanceCountersInUse'' U32 1,
       bits ''SecondLevelAddressTranslationInUse'' U32 1, bits ''DmaRemappingInUse'' U32 1,
       bits ''InterruptRemappingInUse'' U32 1, bits ''MemoryPatrolScrubberPresent'' U32 1,
       bits ''DmaProtectionInUse'' U32 1, bits ''HpetRequested'' U32 1,
       bits ''SyntheticTimersVolatile'' U32 1, bits ''HypervisorLevel'' U32 4,
       bits ''PhysicalDestinationModeRequired'' U32 1,
       bits ''UseVmfuncForAliasMapSwitch'' U32 1,
       bits ''HvRegisterForMemoryZeroingSupported'' U32 1,
       bits ''UnrestrictedGuestSupported'' U32 1, bits ''RdtAFeaturesSupported'' U32 1,
       bits ''RdtMFeaturesSupported'' U32 1, bits ''ChildPerfmonPmuSupported'' U32 1,
       bits ''ChildPerfmonLbrSupported'' U32 1, bits ''ChildPerfmonIptSupported'' U32 1,
       bits ''ApicEmulationSupported'' U32 1, bits ''ChildX2ApicRecommended'' U32 1,
       bits ''HardwareWatchdogReserved'' U32 1, bits ''DeviceAccessTrackingSupported'' U32 1,
       bits ''Reserved'' U32 5, bits ''DeviceDomainInputWidth'' U32 8,
       bits ''ReservedEbx'' U32 24, mem ''ReservedEcx'' U32, mem ''ReservedEdx'' U32])"

definition HV_ARM64_HYPERVISOR_HARDWARE_FEATURES :: cty where
  "HV_ARM64_HYPERVISOR_HARDWARE_FEATURES = Struct 0 (flds_of
       [bits ''ArchitecturalPerformanceCountersInUse'' U32 1,
       bits ''SecondLevelAddressTranslationInUse'' U32 1, bits ''DmaRemappingInUse'' U32 1,
       bits ''InterruptRemappingInUse'' U32 1, bits ''MemoryPatrolScrubberPresent'' U32 1,
       bits ''DmaProtectionInUse'' U32 1, bits ''SyntheticTimersVolatile'' U32 1,
       bits ''HvRegisterForMemoryZeroingSupported'' U32 1, bits ''Reserved'' U32 24,
       mem ''Reserved0'' U32, mem ''Reserved1'' U32, mem ''Reserved2'' U32])"

definition HV_HYPERVISOR_HARDWARE_FEATURES :: "arch \<Rightarrow> cty" where
  "HV_HYPERVISOR_HARDWARE_FEATURES a = (case a of X64 \<Rightarrow> HV_X64_HYPERVISOR_HARDWARE_FEATURES | ARM64 \<Rightarrow> HV_ARM64_HYPERVISOR_HARDWARE_FEATURES)"

definition HV_X64_HYPERVISOR_CPU_MANAGEMENT_FEATURES :: cty where
  "HV_X64_HYPERVISOR_CPU_MANAGEMENT_FEATURES = Struct 0 (flds_of
       [bits ''StartLogicalProcessor'' U32 1, bits ''CreateRootVirtualProcessor'' U32 1,
       bits ''PerformanceCounterSync'' U32 1, bits ''Reserved0'' U32 28,
       bits ''ReservedIdentityBit'' U32 1, bits ''ProcessorPowerManagement'' U32 1,
       bits ''MwaitIdleStates'' U32 1, bits ''LogicalProcessorIdling'' U32 1,
       bits ''Reserved1'' U32 29, bits ''RemapGuestUncached'' U32 1, bits ''ReservedZ2'' U32 31,
       mem ''ReservedEdx'' U32])"

definition HV_ARM64_HYPERVISOR_CPU_MANAGEMENT_FEATURES :: cty where
  "HV_ARM64_HYPERVISOR_CPU_MANAGEMENT_FEATURES = Struct 0 (flds_of
       [bits ''StartLogicalProcessor'' U32 1, bits ''CreateRootVirtualProcessor'' U32 1,
       bits ''PerformanceCounterSync'' U32 1, bits ''Reserved0'' U32 28,
       bits ''ReservedIdentityBit'' U32 1, bits ''ProcessorPowerManagement'' U32 1,
       bits ''RootManagedIdleStates'' U32 1, bits ''Reserved1'' U32 30, mem ''ReservedEcx'' U32,
       mem ''ReservedEdx'' U32])"

definition HV_HYPERVISOR_CPU_MANAGEMENT_FEATURES :: "arch \<Rightarrow> cty" where
  "HV_HYPERVISOR_CPU_MANAGEMENT_FEATURES a = (case a of X64 \<Rightarrow> HV_X64_HYPERVISOR_CPU_MANAGEMENT_FEATURES | ARM64 \<Rightarrow> HV_ARM64_HYPERVISOR_CPU_MANAGEMENT_FEATURES)"

definition HV_HYPERVISOR_SVM_FEATURES :: cty where
  "HV_HYPERVISOR_SVM_FEATURES = Struct 0 (flds_of
       [bits ''SvmSupported'' U32 1, bits ''Reserved0'' U32 10,
       bits ''MaxPasidSpacePasidCount'' U32 21, mem ''MaxPasidSpaceCount'' U32,
       mem ''MaxDevicePrqSize'' U32, mem ''Reserved1'' U32])"

definition HV_HYPERVISOR_NESTED_VIRT_FEATURES :: cty where
  "HV_HYPERVISOR_NESTED_VIRT_FEATURES = Struct 0 (flds_of
       [bits ''EnlightenedVmcsVersionLow'' U32 8, bits ''EnlightenedVmcsVersionHigh'' U32 8,
       bits ''FlushGuestPhysicalHypercall_Deprecated'' U32 1,
       bits ''NestedFlushVirtualHypercall'' U32 1, bits ''FlushGuestPhysicalHypercall'' U32 1,
       bits ''MsrBitmap'' U32 1, bits ''VirtualizationException'' U32 1,
       bits ''Reserved0'' U32 11, mem ''ReservedEbx'' U32, mem ''ReservedEcx'' U32,
       mem ''ReservedEdx'' U32])"

definition HV_HYPERVISOR_ISOLATION_CONFIGURATION :: cty where
  "HV_HYPERVISOR_ISOLATION_CONFIGURATION = Struct 0 (flds_of
       [bits ''ParavisorPresent'' U32 1, bits ''Reserved0'' U32 31, bits ''IsolationType'' U32 4,
       bits ''Reserved11'' U32 1, bits ''SharedGpaBoundaryActive'' U32 1,
       bits ''SharedGpaBoundaryBits'' U32 6, bits ''Reserved12'' U32 20, mem ''Reserved2'' U32,
       mem ''Reserved3'' U32])"

definition HV_PARTITION_ISOLATION_TYPE_NONE :: "32 word" where "HV_PARTITION_ISOLATION_TYPE_NONE = 0"

definition HV_PARTITION_ISOLATION_TYPE_VBS :: "32 word" where "HV_PARTITION_ISOLATION_TYPE_VBS = 1"

definition HV_PARTITION_ISOLATION_TYPE_SNP :: "32 word" where "HV_PARTITION_ISOLATION_TYPE_SNP = 2"

definition HV_PARTITION_ISOLATION_TYPE_TDX :: "32 word" where "HV_PARTITION_ISOLATION_TYPE_TDX = 3"

definition HV_CPUID_RESULT :: "arch \<Rightarrow> cty" where
  "HV_CPUID_RESULT a = Union 0 (flds_of
       ([mem ''AsUINT32'' (Arr U32 4)] @
        (case a of X64 \<Rightarrow> [mem '''' (Struct 0 (flds_of [mem ''Eax'' U32, mem ''Ebx'' U32, mem ''Ecx'' U32, mem ''Edx'' U32])),
       mem ''VersionAndFeatures'' (Struct 0 (flds_of [mem ''ReservedEax'' U32, bits ''ReservedEbx'' U32 24, bits ''InitialApicId'' U32 8,
          bits ''ReservedEcx'' U32 31, bits ''HypervisorPresent'' U32 1, mem ''ReservedEdx'' U32])),
       mem ''MsHvPlatformCapabilities'' HV_X64_PLATFORM_CAPABILITIES,
       mem ''MsHvNestedVirtFeatures'' HV_HYPERVISOR_NESTED_VIRT_FEATURES] | ARM64 \<Rightarrow> []) @
        [mem ''HvVendorAndMaxFunction'' HV_VENDOR_AND_MAX_FUNCTION,
       mem ''HvInterface'' HV_HYPERVISOR_INTERFACE_INFO,
       mem ''MsHvVersion'' HV_HYPERVISOR_VERSION_INFO,
       mem ''MsHvFeatures'' (HV_HYPERVISOR_FEATURES a),
       mem ''MsHvEnlightenmentInformation'' (HV_ENLIGHTENMENT_INFORMATION a),
       mem ''MsHvImplementationLimits'' HV_IMPLEMENTATION_LIMITS,
       mem ''MsHvHardwareFeatures'' (HV_HYPERVISOR_HARDWARE_FEATURES a),
       mem ''MsHvCpuManagementFeatures'' (HV_HYPERVISOR_CPU_MANAGEMENT_FEATURES a),
       mem ''MsHvSvmFeatures'' HV_HYPERVISOR_SVM_FEATURES,
       mem ''MsHvIsolationConfiguration'' HV_HYPERVISOR_ISOLATION_CONFIGURATION]))"

section \<open>MSR Definitions\<close>

definition HV_GUEST_OS_VENDOR :: "enum_tab" where
  "HV_GUEST_OS_VENDOR = enum_of
     [(''HvGuestOsVendorMicrosoft'', Val 0x0001)]"

definition HV_GUEST_OS_MICROSOFT_IDS :: "enum_tab" where
  "HV_GUEST_OS_MICROSOFT_IDS = enum_of
     [(''HvGuestOsMicrosoftUndefined'', Val 0x00), (''HvGuestOsMicrosoftMSDOS'', Val 0x01),
     (''HvGuestOsMicrosoftWindows3x'', Val 0x02), (''HvGuestOsMicrosoftWindows9x'', Val 0x03),
     (''HvGuestOsMicrosoftWindowsNT'', Val 0x04), (''HvGuestOsMicrosoftWindowsCE'', Val 0x05)]"

definition HV_X64_SYNTHETIC_MSR :: "enum_tab" where
  "HV_X64_SYNTHETIC_MSR = enum_of
     [(''HvSyntheticMsrGuestOsId'', Val 0x40000000),
     (''HvSyntheticMsrHypercall'', Val 0x40000001), (''HvSyntheticMsrVpIndex'', Val 0x40000002),
     (''HvSyntheticMsrReset'', Val 0x40000003),
     (''HvSyntheticMsrCpuMgmtVersion'', Val 0x40000004),
     (''XbSyntheticMsrTbFlushHost'', Val 0x40000006),
     (''XbSyntheticMsrTbFlush'', Val 0x40000007), (''XbSyntheticMsrCrash'', Val 0x40000008),
     (''XbSyntheticMsrGuestOsType'', Val 0x40000009),
     (''HvSyntheticMsrVpRuntime'', Val 0x40000010),
     (''XbSyntheticMsrRefTimeOffset'', Val 0x40000011),
     (''XbSyntheticMsrRefTscScale'', Val 0x40000012),
     (''XbSyntheticMsrVpCount'', Val 0x40000013), (''XbSyntheticMsrWbinvd'', Val 0x40000014),
     (''XbSyntheticMsrFlushWb'', Val 0x40000015),
     (''XbSyntheticMsrFlushTbCurrent'', Val 0x40000016),
     (''XbSyntheticMsrKcfgDone'', Val 0x40000017),
     (''HvSyntheticMsrTimeRefCount'', Val 0x40000020),
     (''HvSyntheticMsrReferenceTsc'', Val 0x40000021),
     (''HvSyntheticMsrTscFrequency'', Val 0x40000022),
     (''HvSyntheticMsrApicFrequency'', Val 0x40000023),
     (''HvSyntheticMsrNpiepConfig'', Val 0x40000040), (''HvSyntheticMsrEoi'', Val 0x40000070),
     (''HvSyntheticMsrIcr'', Val 0x40000071), (''HvSyntheticMsrTpr'', Val 0x40000072),
     (''HvSyntheticMsrVpAssistPage'', Val 0x40000073),
     (''HvSyntheticMsrSControl'', Val 0x40000080), (''HvSyntheticMsrSVersion'', Val 0x40000081),
     (''HvSyntheticMsrSiefp'', Val 0x40000082), (''HvSyntheticMsrSimp'', Val 0x40000083),
     (''HvSyntheticMsrEom'', Val 0x40000084), (''HvSyntheticMsrSirb'', Val 0x40000085),
     (''HvSyntheticMsrSint0'', Val 0x40000090), (''HvSyntheticMsrSint1'', Val 0x40000091),
     (''HvSyntheticMsrSint2'', Val 0x40000092), (''HvSyntheticMsrSint3'', Val 0x40000093),
     (''HvSyntheticMsrSint4'', Val 0x40000094), (''HvSyntheticMsrSint5'', Val 0x40000095),
     (''HvSyntheticMsrSint6'', Val 0x40000096), (''HvSyntheticMsrSint7'', Val 0x40000097),
     (''HvSyntheticMsrSint8'', Val 0x40000098), (''HvSyntheticMsrSint9'', Val 0x40000099),
     (''HvSyntheticMsrSint10'', Val 0x4000009a), (''HvSyntheticMsrSint11'', Val 0x4000009b),
     (''HvSyntheticMsrSint12'', Val 0x4000009c), (''HvSyntheticMsrSint13'', Val 0x4000009d),
     (''HvSyntheticMsrSint14'', Val 0x4000009e), (''HvSyntheticMsrSint15'', Val 0x4000009f),
     (''HvSyntheticMsrSTimer0Config'', Val 0x400000b0),
     (''HvSyntheticMsrSTimer0Count'', Val 0x400000b1),
     (''HvSyntheticMsrSTimer1Config'', Val 0x400000b2),
     (''HvSyntheticMsrSTimer1Count'', Val 0x400000b3),
     (''HvSyntheticMsrSTimer2Config'', Val 0x400000b4),
     (''HvSyntheticMsrSTimer2Count'', Val 0x400000b5),
     (''HvSyntheticMsrSTimer3Config'', Val 0x400000b6),
     (''HvSyntheticMsrSTimer3Count'', Val 0x400000b7),
     (''HvSyntheticMsrPerfFeedbackTrigger'', Val 0x400000c1),
     (''HvSyntheticMsrGuestSchedulerEvent'', Val 0x400000c2),
     (''HvSyntheticMsrGuestIdle'', Val 0x400000f0),
     (''HvSyntheticMsrSynthDebugControl'', Val 0x400000f1),
     (''HvSyntheticMsrSynthDebugStatus'', Val 0x400000f2),
     (''HvSyntheticMsrSynthDebugSendBuffer'', Val 0x400000f3),
     (''HvSyntheticMsrSynthDebugReceiveBuffer'', Val 0x400000f4),
     (''HvSyntheticMsrSynthDebugPendingBuffer'', Val 0x400000f5),
     (''XbSyntheticMsrSynthDebugTransition'', Val 0x400000f6),
     (''HvSyntheticMsrDebugDeviceOptions'', Val 0x400000ff),
     (''HvSyntheticMsrCrashP0'', Val 0x40000100), (''HvSyntheticMsrCrashP1'', Val 0x40000101),
     (''HvSyntheticMsrCrashP2'', Val 0x40000102), (''HvSyntheticMsrCrashP3'', Val 0x40000103),
     (''HvSyntheticMsrCrashP4'', Val 0x40000104), (''HvSyntheticMsrCrashCtl'', Val 0x40000105),
     (''HvSyntheticMsrReenlightenmentControl'', Val 0x40000106),
     (''HvSyntheticMsrTscEmulationControl'', Val 0x40000107),
     (''HvSyntheticMsrTscEmulationStatus'', Val 0x40000108),
     (''HvSyntheticMsrSWatchdogConfig'', Val 0x40000110),
     (''HvSyntheticMsrSWatchdogCount'', Val 0x40000111),
     (''HvSyntheticMsrSWatchdogStatus'', Val 0x40000112),
     (''HvSyntheticMsrSTimeUnhaltedTimerConfig'', Val 0x40000114),
     (''HvSyntheticMsrSTimeUnhaltedTimerCount'', Val 0x40000115),
     (''HvSyntheticMsrMemoryZeroingControl'', Val 0x40000116),
     (''XbSyntheticMsrFsBase'', Val 0x40000122), (''XbSyntheticMsrXOnly'', Val 0x40000123),
     (''HvSyntheticMsrBelow1MbPage'', Val 0x40000200),
     (''HvSyntheticMsrNestedVpIndex'', Val 0x40001002),
     (''HvSyntheticMsrNestedSControl'', Val 0x40001080),
     (''HvSyntheticMsrNestedSVersion'', Val 0x40001081),
     (''HvSyntheticMsrNestedSiefp'', Val 0x40001082),
     (''HvSyntheticMsrNestedSimp'', Val 0x40001083),
     (''HvSyntheticMsrNestedEom'', Val 0x40001084),
     (''HvSyntheticMsrNestedSirb'', Val 0x40001085),
     (''HvSyntheticMsrNestedSint0'', Val 0x40001090),
     (''HvSyntheticMsrNestedSint1'', Val 0x40001091),
     (''HvSyntheticMsrNestedSint2'', Val 0x40001092),
     (''HvSyntheticMsrNestedSint3'', Val 0x40001093),
     (''HvSyntheticMsrNestedSint4'', Val 0x40001094),
     (''HvSyntheticMsrNestedSint5'', Val 0x40001095),
     (''HvSyntheticMsrNestedSint6'', Val 0x40001096),
     (''HvSyntheticMsrNestedSint7'', Val 0x40001097),
     (''HvSyntheticMsrNestedSint8'', Val 0x40001098),
     (''HvSyntheticMsrNestedSint9'', Val 0x40001099),
     (''HvSyntheticMsrNestedSint10'', Val 0x4000109a),
     (''HvSyntheticMsrNestedSint11'', Val 0x4000109b),
     (''HvSyntheticMsrNestedSint12'', Val 0x4000109c),
     (''HvSyntheticMsrNestedSint13'', Val 0x4000109d),
     (''HvSyntheticMsrNestedSint14'', Val 0x4000109e),
     (''HvSyntheticMsrNestedSint15'', Val 0x4000109f)]"

definition HV_X64_MSR_GUEST_OS_ID :: int where
  "HV_X64_MSR_GUEST_OS_ID = enumerator HV_X64_SYNTHETIC_MSR ''HvSyntheticMsrGuestOsId''"

definition HV_GUEST_OS_ID_CONTENTS :: cty where
  "HV_GUEST_OS_ID_CONTENTS = Union 0 (flds_of
       [mem ''AsUINT64'' U64,
       mem '''' (Struct 0 (flds_of [bits ''BuildNumber'' U64 16, bits ''ServiceVersion'' U64 8, bits ''MinorVersion'' U64 8,
          bits ''MajorVersion'' U64 8, bits ''OsId'' U64 8, bits ''VendorId'' U64 16])),
       mem ''OpenSource'' (Struct 0 (flds_of [bits ''VendorSpecific1'' U64 16, bits ''Version'' U64 32, bits ''VendorSpecific2'' U64 8,
          bits ''OsId'' U64 7, bits ''IsOpenSource'' U64 1]))])"

definition HV_X64_MSR_HYPERCALL :: int where
  "HV_X64_MSR_HYPERCALL = enumerator HV_X64_SYNTHETIC_MSR ''HvSyntheticMsrHypercall''"

definition HV_X64_MSR_HYPERCALL_CONTENTS :: cty where
  "HV_X64_MSR_HYPERCALL_CONTENTS = Union 0 (flds_of
       [mem ''AsUINT64'' U64,
       mem '''' (Struct 0 (flds_of [bits ''Enable'' U64 1, bits ''Locked'' U64 1, bits ''ReservedP'' U64 10,
          bits ''GpaPageNumber'' U64 52]))])"

definition HV_CRASH_MAXIMUM_MESSAGE_SIZE :: "64 word" where "HV_CRASH_MAXIMUM_MESSAGE_SIZE = 4096"

definition HV_CRASH_CTL_REG_CONTENTS :: cty where
  "HV_CRASH_CTL_REG_CONTENTS = Union 0 (flds_of
       [mem ''AsUINT64'' U64,
       mem '''' (Struct 0 (flds_of [bits ''Reserved'' U64 58, bits ''PreOSId'' U64 3, bits ''NoCrashDump'' U64 1,
          bits ''CrashMessage'' U64 1, bits ''CrashNotify'' U64 1]))])"

definition HV_SYNIC_SINT :: "arch \<Rightarrow> cty" where
  "HV_SYNIC_SINT a = Union 0 (flds_of
       [mem ''AsUINT64'' U64,
       mem '''' (Struct 0 (flds_of ((case a of X64 \<Rightarrow> [bits ''Vector'' U64 8, bits ''ReservedP1'' U64 8] | ARM64 \<Rightarrow>
           [bits ''Vector'' U64 10, bits ''ReservedP1'' U64 6]) @
           [bits ''Masked'' U64 1, bits ''AutoEoi'' U64 1, bits ''Polling'' U64 1,
          bits ''AsIntercept'' U64 1, bits ''Proxy'' U64 1, bits ''ReservedP2'' U64 43])))])"

definition HV_SYNIC_STIMER_COUNT :: "32 word" where "HV_SYNIC_STIMER_COUNT = 4"

definition HV_PORT_ID :: cty where
  "HV_PORT_ID = Union 0 (flds_of
       [mem ''AsUINT32'' U32,
       mem '''' (Struct 0 (flds_of [bits ''Id'' U32 24, bits ''Reserved'' U32 8]))])"

definition HV_SYNIC_SINT_INDEX :: cty where "HV_SYNIC_SINT_INDEX = U32"

definition HV_SYNIC_SINT_COUNT :: nat where "HV_SYNIC_SINT_COUNT = 16"

definition HV_MESSAGE_SIZE :: "32 word" where "HV_MESSAGE_SIZE = 256"

definition HV_MESSAGE_PAYLOAD_BYTE_COUNT :: "32 word" where "HV_MESSAGE_PAYLOAD_BYTE_COUNT = 240"

definition HV_MESSAGE_PAYLOAD_QWORD_COUNT :: nat where "HV_MESSAGE_PAYLOAD_QWORD_COUNT = 30"

definition HV_MESSAGE_TYPE :: "arch \<Rightarrow> enum_tab" where
  "HV_MESSAGE_TYPE a = enum_of
     ([(''HvMessageTypeNone'', Val 0x00000000), (''HvMessageTypeUnmappedGpa'', Val 0x80000000),
     (''HvMessageTypeGpaIntercept'', Val 0x80000001)] @
     (case a of X64 \<Rightarrow> [] | ARM64 \<Rightarrow> [(''HvMessageTypeMmioIntercept'', Val 0x80000002)]) @
     [(''HvMessageTypeUnacceptedGpa'', Val 0x80000003),
     (''HvMessageTypeGpaAttributeIntercept'', Val 0x80000004),
     (''HvMessageTimerExpired'', Val 0x80000010),
     (''HvMessageTypeInvalidVpRegisterValue'', Val 0x80000020),
     (''HvMessageTypeUnrecoverableException'', Val 0x80000021),
     (''HvMessageTypeUnsupportedFeature'', Val 0x80000022),
     (''HvMessageTypeTlbPageSizeMismatch'', Val 0x80000023),
     (''HvMessageTypeIommuFault'', Val 0x80000024),
     (''HvMessageTypeEventLogBufferComplete'', Val 0x80000040),
     (''HvMessageTypeHypercallIntercept'', Val 0x80000050),
     (''HvMessageTypeSynicEventIntercept'', Val 0x80000060),
     (''HvMessageTypeSchedulerIdRangeStart'', Val 0x80000100),
     (''HvMessageTypeSchedulerVpSignalBitset'', Val 0x80000100),
     (''HvMessageTypeSchedulerVpSignalPair'', Val 0x80000101),
     (''HvMessageTypeSchedulerIdRangeEnd'', Val 0x800001ff),
     (''HvMessageTypeMsrIntercept'', Val 0x80010001),
     (''HvMessageTypeExceptionIntercept'', Val 0x80010003),
     (''HvMessageTypeRegisterIntercept'', Val 0x80010006)] @
     (case a of X64 \<Rightarrow> [(''HvMessageTypeX64IoPortIntercept'', Val 0x80010000),
     (''HvMessageTypeX64CpuidIntercept'', Val 0x80010002),
     (''HvMessageTypeX64ApicEoi'', Val 0x80010004),
     (''HvMessageTypeX64IommuPrq'', Val 0x80010006), (''HvMessageTypeX64Halt'', Val 0x80010007),
     (''HvMessageTypeX64InterruptionDeliverable'', Val 0x80010008),
     (''HvMessageTypeX64SipiIntercept'', Val 0x80010009)] | ARM64 \<Rightarrow>
     [(''HvMessageTypeArm64ResetIntercept'', Val 0x80010000)]))"

definition HV_MESSAGE_FLAGS :: cty where
  "HV_MESSAGE_FLAGS = Union 0 (flds_of
       [mem ''AsUINT8'' U8,
       mem '''' (Struct 0 (flds_of [bits ''MessagePending'' U8 1, bits ''Reserved'' U8 7]))])"

definition HV_MESSAGE_HEADER :: cty where
  "HV_MESSAGE_HEADER = Struct 0 (flds_of
       [mem ''MessageType'' Enum_ty, mem ''PayloadSize'' U8,
       mem ''MessageFlags'' HV_MESSAGE_FLAGS, mem ''Reserved'' (Arr U8 2),
       mem '''' (Union 0 (flds_of [mem ''Sender'' HV_PARTITION_ID, mem ''Port'' HV_PORT_ID]))])"

definition HV_EVENT_FLAGS_COUNT :: "32 word" where "HV_EVENT_FLAGS_COUNT = 256 * 8"

definition HV_EVENT_FLAGS_BYTE_COUNT :: nat where "HV_EVENT_FLAGS_BYTE_COUNT = 256"

definition HV_EVENT_FLAGS_DWORD_COUNT :: nat where "HV_EVENT_FLAGS_DWORD_COUNT = 256 div csize sysv U32"

definition HV_SYNIC_EVENT_FLAGS :: cty where
  "HV_SYNIC_EVENT_FLAGS = Union 0 (flds_of
       [mem ''Flags8'' (Arr U8 HV_EVENT_FLAGS_BYTE_COUNT),
       mem ''Flags32'' (Arr U32 HV_EVENT_FLAGS_DWORD_COUNT)])"

definition HV_SYNIC_EVENT_FLAGS_PAGE :: cty where
  "HV_SYNIC_EVENT_FLAGS_PAGE = Struct 0 (flds_of
       [mem ''SintEventFlags'' (Arr HV_SYNIC_EVENT_FLAGS HV_SYNIC_SINT_COUNT)])"

definition HV_X64_MSR_STIMER_CONFIG_CONTENTS :: cty where
  "HV_X64_MSR_STIMER_CONFIG_CONTENTS = Struct 0 (flds_of
       [mem '''' (Union 0 (flds_of [mem ''AsUINT64'' U64,
          mem '''' (Struct 0 (flds_of [bits ''Enable'' U64 1, bits ''Periodic'' U64 1, bits ''Lazy'' U64 1,
             bits ''AutoEnable'' U64 1, bits ''ApicVector'' U64 8, bits ''DirectMode'' U64 1,
             bits ''ReservedZ1'' U64 3, bits ''SINTx'' U64 4, bits ''ReservedZ2'' U64 44]))]))])"

definition HV_SYNIC_SIMP :: cty where
  "HV_SYNIC_SIMP = Union 0 (flds_of
       [mem ''AsUINT64'' U64,
       mem '''' (Struct 0 (flds_of [bits ''SimpEnabled'' U64 1, bits ''Preserved'' U64 11, bits ''BaseSimpGpa'' U64 52]))])"

definition HV_EVENTLOG_BUFFER_INDEX :: cty where "HV_EVENTLOG_BUFFER_INDEX = U32"

definition HV_EVENTLOG_TYPE :: "enum_tab" where
  "HV_EVENTLOG_TYPE = enum_of
     [(''HvEventLogTypeGlobalSystemEvents'', Val 0x00000000),
     (''HvEventLogTypeLocalDiagnostics'', Val 0x00000001),
     (''HvEventLogTypeMaximum'', Val 0x00000001)]"

definition HV_EVENTLOG_MESSAGE_PAYLOAD :: cty where
  "HV_EVENTLOG_MESSAGE_PAYLOAD = Struct 0 (flds_of
       [mem ''EventLogType'' Enum_ty, mem ''BufferIndex'' HV_EVENTLOG_BUFFER_INDEX])"

definition HV_TIMER_MESSAGE_PAYLOAD :: cty where
  "HV_TIMER_MESSAGE_PAYLOAD = Struct 0 (flds_of
       [mem ''TimerIndex'' U32, mem ''Reserved'' U32, mem ''ExpirationTime'' HV_NANO100_TIME,
       mem ''DeliveryTime'' HV_NANO100_TIME])"

definition HV_IOMMU_PRQ_MESSAGE_PAYLOAD :: cty where
  "HV_IOMMU_PRQ_MESSAGE_PAYLOAD = Struct 0 (flds_of
       [mem ''IommuId'' HV_IOMMU_ID])"

definition HV_IOMMU_FAULT_TYPE :: "arch \<Rightarrow> enum_tab" where
  "HV_IOMMU_FAULT_TYPE a = enum_of
     ([(''HvIommuTranslationFault'', Auto), (''HvIommuTranslationBlocked'', Auto),
     (''HvIommuInterruptFault'', Auto)] @
     (case a of X64 \<Rightarrow> [] | ARM64 \<Rightarrow> [(''HvIommuPermissionFault'', Auto), (''HvIommuAddressSizeFault'', Auto),
     (''HvIommuTlbMatchConflict'', Auto), (''HvIommuExternalFault'', Auto),
     (''HvIommuUnsupportedUpstreamTransaction'', Auto)]))"

definition HV_IOMMU_FAULT_MESSAGE_PAYLOAD :: cty where
  "HV_IOMMU_FAULT_MESSAGE_PAYLOAD = Struct 0 (flds_of
       [mem ''Type'' Enum_ty, mem ''AccessType'' HV_INTERCEPT_ACCESS_TYPE,
       mem ''Flags'' (Struct 0 (flds_of [bits ''FaultAddressValid'' U32 1, bits ''DeviceIdValid'' U32 1])),
       mem ''LogicalDeviceId'' U64, mem ''FaultAddress'' HV_GVA])"

definition HV_MESSAGE :: cty where
  "HV_MESSAGE = Aligned 16 (Struct 0 (flds_of
       [mem ''Header'' HV_MESSAGE_HEADER,
       mem '''' (Union 0 (flds_of [mem ''Payload'' (Arr U64 HV_MESSAGE_PAYLOAD_QWORD_COUNT),
          mem ''TimerPayload'' HV_TIMER_MESSAGE_PAYLOAD,
          mem ''TracePayload'' HV_EVENTLOG_MESSAGE_PAYLOAD,
          mem ''IommuPrqPayload'' HV_IOMMU_PRQ_MESSAGE_PAYLOAD,
          mem ''IommuFaultPayload'' HV_IOMMU_FAULT_MESSAGE_PAYLOAD]))]))"

definition HV_MESSAGE_PAGE :: cty where
  "HV_MESSAGE_PAGE = Struct 0 (flds_of
       [mem ''SintMessage'' (Arr HV_MESSAGE HV_SYNIC_SINT_COUNT)])"

definition HV_SYNIC_SIEFP :: cty where
  "HV_SYNIC_SIEFP = Union 0 (flds_of
       [mem ''AsUINT64'' U64,
       mem '''' (Struct 0 (flds_of [bits ''SiefpEnabled'' U64 1, bits ''ReservedP'' U64 11, bits ''BaseSiefpGpa'' U64 52]))])"

section \<open>Hypercall Definitions\<close>

definition HV_UINT128 :: cty where
  "HV_UINT128 = Aligned 16 (Union 0 (flds_of
       [mem '''' (Struct 0 (flds_of [mem ''Low64'' U64, mem ''High64'' U64])),
       mem ''Dword'' (Arr U32 4), mem ''AsUINT8'' (Arr U8 16)]))"

definition HV_CALL_ALIGNMENT :: nat where "HV_CALL_ALIGNMENT = 8"

definition HV_CALL_ATTRIBUTES :: "cty \<Rightarrow> cty" where "HV_CALL_ATTRIBUTES = Aligned HV_CALL_ALIGNMENT"

definition HV_ADDRESS_SPACE_ID :: cty where "HV_ADDRESS_SPACE_ID = U64"

definition HV_INPUT_SWITCH_VIRTUAL_ADDRESS_SPACE :: cty where
  "HV_INPUT_SWITCH_VIRTUAL_ADDRESS_SPACE = HV_CALL_ATTRIBUTES (Struct 0 (flds_of
       [mem ''AddressSpace'' HV_ADDRESS_SPACE_ID]))"

definition HV_CONNECTION_ID :: cty where
  "HV_CONNECTION_ID = Union 0 (flds_of
       [mem ''AsUINT32'' U32,
       mem '''' (Struct 0 (flds_of [bits ''Id'' U32 24, bits ''Reserved'' U32 6, bits ''Scope'' U32 2]))])"

definition HV_CALL_CODE :: "enum_tab" where
  "HV_CALL_CODE = enum_of
     [(''HvCallReserved0000'', Val 0x0000), (''HvCallSwitchVirtualAddressSpace'', Val 0x0001),
     (''HvCallFlushVirtualAddressSpace'', Val 0x0002),
     (''HvCallFlushVirtualAddressList'', Val 0x0003),
     (''HvCallGetLogicalProcessorRunTime'', Val 0x0004),
     (''HvCallUpdateHvProcessorFeatures'', Val 0x0005), (''HvCallSwitchAliasMap'', Val 0x0006),
     (''HvCallUpdateMicrocode'', Val 0x0007), (''HvCallNotifyLongSpinWait'', Val 0x0008),
     (''HvCallParkedVirtualProcessors'', Val 0x0009),
     (''HvCallInvokeHypervisorDebugger'', Val 0x000a),
     (''HvCallSendSyntheticClusterIpi'', Val 0x000b),
     (''HvCallModifyVtlProtectionMask'', Val 0x000c),
     (''HvCallEnablePartitionVtl'', Val 0x000d), (''HvCallDisablePartitionVtl'', Val 0x000e),
     (''HvCallEnableVpVtl'', Val 0x000f), (''HvCallDisableVpVtl'', Val 0x0010),
     (''HvCallVtlCall'', Val 0x0011), (''HvCallVtlReturn'', Val 0x0012),
     (''HvCallFlushVirtualAddressSpaceEx'', Val 0x0013),
     (''HvCallFlushVirtualAddressListEx'', Val 0x0014),
     (''HvCallSendSyntheticClusterIpiEx'', Val 0x0015), (''HvCallQueryImageInfo'', Val 0x0016),
     (''HvCallMapImagePages'', Val 0x0017), (''HvCallCommitPatch'', Val 0x0018),
     (''HvCallReserved0019'', Val 0x0019), (''HvCallReserved001a'', Val 0x001a),
     (''HvCallReserved001b'', Val 0x001b), (''HvCallReserved001c'', Val 0x001c),
     (''HvCallReserved001d'', Val 0x001d), (''HvCallReserved001e'', Val 0x001e),
     (''HvCallReserved001f'', Val 0x001f), (''HvCallReserved0020'', Val 0x0020),
     (''HvCallReserved0021'', Val 0x0021), (''HvCallReserved0022'', Val 0x0022),
     (''HvCallReserved0023'', Val 0x0023), (''HvCallReserved0024'', Val 0x0024),
     (''HvCallReserved0025'', Val 0x0025), (''HvCallReserved0026'', Val 0x0026),
     (''HvCallReserved0027'', Val 0x0027), (''HvCallReserved0028'', Val 0x0028),
     (''HvCallReserved0029'', Val 0x0029), (''HvCallReserved002a'', Val 0x002a),
     (''HvCallReserved002b'', Val 0x002b), (''HvCallReserved002c'', Val 0x002c),
     (''HvCallReserved002d'', Val 0x002d), (''HvCallReserved002e'', Val 0x002e),
     (''HvCallReserved002f'', Val 0x002f), (''HvCallReserved0030'', Val 0x0030),
     (''HvCallReserved0031'', Val 0x0031), (''HvCallReserved0032'', Val 0x0032),
     (''HvCallReserved0033'', Val 0x0033), (''HvCallReserved0034'', Val 0x0034),
     (''HvCallReserved0035'', Val 0x0035), (''HvCallReserved0036'', Val 0x0036),
     (''HvCallReserved0037'', Val 0x0037), (''HvCallReserved0038'', Val 0x0038),
     (''HvCallReserved0039'', Val 0x0039), (''HvCallReserved003a'', Val 0x003a),
     (''HvCallReserved003b'', Val 0x003b), (''HvCallReserved003c'', Val 0x003c),
     (''HvCallReserved003d'', Val 0x003d), (''HvCallReserved003e'', Val 0x003e),
     (''HvCallReserved003f'', Val 0x003f), (''HvCallCreatePartition'', Val 0x0040),
     (''HvCallInitializePartition'', Val 0x0041), (''HvCallFinalizePartition'', Val 0x0042),
     (''HvCallDeletePartition'', Val 0x0043), (''HvCallGetPartitionProperty'', Val 0x0044),
     (''HvCallSetPartitionProperty'', Val 0x0045), (''HvCallGetPartitionId'', Val 0x0046),
     (''HvCallGetNextChildPartition'', Val 0x0047), (''HvCallDepositMemory'', Val 0x0048),
     (''HvCallWithdrawMemory'', Val 0x0049), (''HvCallGetMemoryBalance'', Val 0x004a),
     (''HvCallMapGpaPages'', Val 0x004b), (''HvCallUnmapGpaPages'', Val 0x004c),
     (''HvCallInstallIntercept'', Val 0x004d), (''HvCallCreateVp'', Val 0x004e),
     (''HvCallDeleteVp'', Val 0x004f), (''HvCallGetVpRegisters'', Val 0x0050),
     (''HvCallSetVpRegisters'', Val 0x0051), (''HvCallTranslateVirtualAddress'', Val 0x0052),
     (''HvCallReadGpa'', Val 0x0053), (''HvCallWriteGpa'', Val 0x0054),
     (''HvCallAssertVirtualInterruptDeprecated'', Val 0x0055),
     (''HvCallClearVirtualInterrupt'', Val 0x0056),
     (''HvCallCreatePortDeprecated'', Val 0x0057), (''HvCallDeletePort'', Val 0x0058),
     (''HvCallConnectPortDeprecated'', Val 0x0059), (''HvCallGetPortProperty'', Val 0x005a),
     (''HvCallDisconnectPort'', Val 0x005b), (''HvCallPostMessage'', Val 0x005c),
     (''HvCallSignalEvent'', Val 0x005d), (''HvCallSavePartitionState'', Val 0x005e),
     (''HvCallRestorePartitionState'', Val 0x005f),
     (''HvCallInitializeEventLogBufferGroup'', Val 0x0060),
     (''HvCallFinalizeEventLogBufferGroup'', Val 0x0061),
     (''HvCallCreateEventLogBuffer'', Val 0x0062), (''HvCallDeleteEventLogBuffer'', Val 0x0063),
     (''HvCallMapEventLogBuffer'', Val 0x0064), (''HvCallUnmapEventLogBuffer'', Val 0x0065),
     (''HvCallSetEventLogGroupSources'', Val 0x0066),
     (''HvCallReleaseEventLogBuffer'', Val 0x0067), (''HvCallFlushEventLogBuffer'', Val 0x0068),
     (''HvCallPostDebugData'', Val 0x0069), (''HvCallRetrieveDebugData'', Val 0x006a),
     (''HvCallResetDebugSession'', Val 0x006b), (''HvCallMapStatsPage'', Val 0x006c),
     (''HvCallUnmapStatsPage'', Val 0x006d), (''HvCallMapSparseGpaPages'', Val 0x006e),
     (''HvCallSetSystemProperty'', Val 0x006f), (''HvCallSetPortProperty'', Val 0x0070),
     (''HvCallOutputDebugCharacter'', Val 0x0071), (''HvCallEchoIncrement'', Val 0x0072),
     (''HvCallPerfNop'', Val 0x0073), (''HvCallPerfNopInput'', Val 0x0074),
     (''HvCallPerfNopOutput'', Val 0x0075), (''HvCallAddLogicalProcessor'', Val 0x0076),
     (''HvCallRemoveLogicalProcessor'', Val 0x0077), (''HvCallQueryNumaDistance'', Val 0x0078),
     (''HvCallSetLogicalProcessorProperty'', Val 0x0079),
     (''HvCallGetLogicalProcessorProperty'', Val 0x007a),
     (''HvCallGetSystemProperty'', Val 0x007b), (''HvCallMapDeviceInterrupt'', Val 0x007c),
     (''HvCallUnmapDeviceInterrupt'', Val 0x007d),
     (''HvCallRetargetDeviceInterrupt'', Val 0x007e),
     (''HvCallRetargetRootDeviceInterrupt'', Val 0x007f),
     (''HvCallAssertDeviceInterrupt'', Val 0x0080), (''HvCallReserved0081'', Val 0x0081),
     (''HvCallAttachDevice'', Val 0x0082), (''HvCallDetachDevice'', Val 0x0083),
     (''HvCallEnterSleepState'', Val 0x0084), (''HvCallNotifyStandbyTransition'', Val 0x0085),
     (''HvCallPrepareForHibernate'', Val 0x0086), (''HvCallNotifyPartitionEvent'', Val 0x0087),
     (''HvCallGetLogicalProcessorRegisters'', Val 0x0088),
     (''HvCallSetLogicalProcessorRegisters'', Val 0x0089),
     (''HvCallQueryAssociatedLpsForMca'', Val 0x008a),
     (''HvCallNotifyPortRingEmpty'', Val 0x008b),
     (''HvCallInjectSyntheticMachineCheck'', Val 0x008c),
     (''HvCallScrubPartition'', Val 0x008d), (''HvCallCollectLivedump'', Val 0x008e),
     (''HvCallDisableHypervisor'', Val 0x008f), (''HvCallModifySparseGpaPages'', Val 0x0090),
     (''HvCallRegisterInterceptResult'', Val 0x0091),
     (''HvCallUnregisterInterceptResult'', Val 0x0092), (''HvCallGetCoverageData'', Val 0x0093),
     (''HvCallAssertVirtualInterrupt'', Val 0x0094), (''HvCallCreatePort'', Val 0x0095),
     (''HvCallConnectPort'', Val 0x0096), (''HvCallGetSpaPageList'', Val 0x0097),
     (''HvCallArm64GetStartStub'', Val 0x0098), (''HvCallStartVirtualProcessor'', Val 0x0099),
     (''HvCallGetVpIndexFromApicId'', Val 0x009a), (''HvCallGetPowerProperty'', Val 0x009b),
     (''HvCallSetPowerProperty'', Val 0x009c), (''HvCallCreatePasidSpace'', Val 0x009d),
     (''HvCallDeletePasidSpace'', Val 0x009e), (''HvCallSetPasidAddressSpace'', Val 0x009f),
     (''HvCallFlushPasidAddressSpace'', Val 0x00a0),
     (''HvCallFlushPasidAddressList'', Val 0x00a1), (''HvCallAttachPasidSpace'', Val 0x00a2),
     (''HvCallDetachPasidSpace'', Val 0x00a3), (''HvCallEnablePasid'', Val 0x00a4),
     (''HvCallDisablePasid'', Val 0x00a5), (''HvCallAcknowledgeDevicePageRequest'', Val 0x00a6),
     (''HvCallCreateDevicePrQueue'', Val 0x00a7), (''HvCallDeleteDevicePrQueue'', Val 0x00a8),
     (''HvCallSetDevicePrqProperty'', Val 0x00a9),
     (''HvCallGetPhysicalDeviceProperty'', Val 0x00aa),
     (''HvCallSetPhysicalDeviceProperty'', Val 0x00ab),
     (''HvCallTranslateVirtualAddressEx'', Val 0x00ac),
     (''HvCallCheckForIoIntercept'', Val 0x00ad), (''HvCallSetGpaPageAttributes'', Val 0x00ae),
     (''HvCallFlushGuestPhysicalAddressSpace'', Val 0x00af),
     (''HvCallFlushGuestPhysicalAddressList'', Val 0x00b0),
     (''HvCallCreateDeviceDomain'', Val 0x00b1), (''HvCallAttachDeviceDomain'', Val 0x00b2),
     (''HvCallMapDeviceGpaPages'', Val 0x00b3), (''HvCallUnmapDeviceGpaPages'', Val 0x00b4),
     (''HvCallCreateCpuGroup'', Val 0x00b5), (''HvCallDeleteCpuGroup'', Val 0x00b6),
     (''HvCallGetCpuGroupProperty'', Val 0x00b7), (''HvCallSetCpuGroupProperty'', Val 0x00b8),
     (''HvCallGetCpuGroupAffinity'', Val 0x00b9), (''HvCallGetNextCpuGroup'', Val 0x00ba),
     (''HvCallGetNextCpuGroupPartition'', Val 0x00bb),
     (''HvCallAddPhysicalMemory'', Val 0x00bc), (''HvCallCompleteIntercept'', Val 0x00bd),
     (''HvCallPrecommitGpaPages'', Val 0x00be), (''HvCallUncommitGpaPages'', Val 0x00bf),
     (''HvCallConfigureVirtualInterruptLine'', Val 0x00c0),
     (''HvCallSetVirtualInterruptLineState'', Val 0x00c1), (''HvCallDispatchVp'', Val 0x00c2),
     (''HvCallProcessIommuPrq'', Val 0x00c3), (''HvCallDetachDeviceDomain'', Val 0x00c4),
     (''HvCallDeleteDeviceDomain'', Val 0x00c5), (''HvCallQueryDeviceDomain'', Val 0x00c6),
     (''HvCallMapSparseDeviceGpaPages'', Val 0x00c7),
     (''HvCallUnmapSparseDeviceGpaPages'', Val 0x00c8),
     (''HvCallGetGpaPagesAccessState'', Val 0x00c9),
     (''HvCallGetSparseGpaPagesAccessState'', Val 0x00ca),
     (''HvCallInvokeTestFramework'', Val 0x00cb),
     (''HvCallQueryVtlProtectionMaskRange'', Val 0x00cc),
     (''HvCallModifyVtlProtectionMaskRange'', Val 0x00cd),
     (''HvCallConfigureDeviceDomain'', Val 0x00ce),
     (''HvCallQueryDeviceDomainProperties'', Val 0x00cf),
     (''HvCallFlushDeviceDomain'', Val 0x00d0), (''HvCallFlushDeviceDomainList'', Val 0x00d1),
     (''HvCallAcquireSparseGpaPageHostAccess'', Val 0x00d2),
     (''HvCallReleaseSparseGpaPageHostAccess'', Val 0x00d3),
     (''HvCallCheckSparseGpaPageVtlAccess'', Val 0x00d4),
     (''HvCallEnableDeviceInterrupt'', Val 0x00d5), (''HvCallFlushTlb'', Val 0x00d6),
     (''HvCallAcquireSparseSpaPageHostAccess'', Val 0x00d7),
     (''HvCallReleaseSparseSpaPageHostAccess'', Val 0x00d8),
     (''HvCallAcceptGpaPages'', Val 0x00d9), (''HvCallUnacceptGpaPages'', Val 0x00da),
     (''HvCallModifySparseGpaPageHostVisibility'', Val 0x00db),
     (''HvCallLockSparseGpaPageMapping'', Val 0x00dc),
     (''HvCallUnlockSparseGpaPageMapping'', Val 0x00dd),
     (''HvCallRequestProcessorHalt'', Val 0x00de), (''HvCallGetInterceptData'', Val 0x00df),
     (''HvCallCount'', Auto)]"

definition HV_X64_MAX_HYPERCALL_ELEMENTS :: "32 word" where "HV_X64_MAX_HYPERCALL_ELEMENTS = push_bit 12 1 - 1"

definition HV_HYPERCALL_INPUT :: cty where
  "HV_HYPERCALL_INPUT = Union 0 (flds_of
       [mem '''' (Struct 0 (flds_of [bits ''CallCode'' U32 16, bits ''IsFast'' U32 1, bits ''Reserved1'' U32 14,
          bits ''IsNested'' U32 1, bits ''CountOfElements'' U32 12, bits ''Reserved2'' U32 4,
          bits ''RepStartIndex'' U32 12, bits ''Reserved3'' U32 4])),
       mem ''AsUINT64'' U64])"

definition HV_HYPERCALL_OUTPUT :: cty where
  "HV_HYPERCALL_OUTPUT = Union 0 (flds_of
       [mem '''' (Struct 0 (flds_of [mem ''CallStatus'' U16, mem ''Reserved1'' U16, bits ''ElementsProcessed'' U32 12,
          bits ''Reserved2'' U32 20])),
       mem ''AsUINT64'' U64])"

definition HV_INPUT_POST_MESSAGE :: cty where
  "HV_INPUT_POST_MESSAGE = HV_CALL_ATTRIBUTES (Struct 0 (flds_of
       [mem ''ConnectionId'' HV_CONNECTION_ID, mem ''Reserved'' U32, mem ''MessageType'' Enum_ty,
       mem ''PayloadSize'' U32, mem ''Payload'' (Arr U64 HV_MESSAGE_PAYLOAD_QWORD_COUNT)]))"

definition HV_INPUT_SIGNAL_EVENT :: cty where
  "HV_INPUT_SIGNAL_EVENT = HV_CALL_ATTRIBUTES (Struct 0 (flds_of
       [mem ''ConnectionId'' HV_CONNECTION_ID, mem ''FlagNumber'' U16, mem ''RsvdZ'' (Arr U16 3)]))"

definition HV_REGISTER_NAME :: "arch \<Rightarrow> enum_tab" where
  "HV_REGISTER_NAME a = enum_of
     ([(''HvRegisterExplicitSuspend'', Val 0x00000000),
     (''HvRegisterInterceptSuspend'', Val 0x00000001),
     (''HvRegisterInstructionEmulationHints'', Val 0x00000002),
     (''HvRegisterDispatchSuspend'', Val 0x00000003),
     (''HvRegisterHypervisorVersion'', Val 0x00000100),
     (''HvRegisterPrivilegesAndFeaturesInfo'', Val 0x00000200),
     (''HvRegisterFeaturesInfo'', Val 0x00000201),
     (''HvRegisterImplementationLimitsInfo'', Val 0x00000202),
     (''HvRegisterHardwareFeaturesInfo'', Val 0x00000203),
     (''HvRegisterCpuManagementFeaturesInfo'', Val 0x00000204),
     (''HvRegisterSvmFeaturesInfo'', Val 0x00000205),
     (''HvRegisterSkipLevelFeaturesInfo'', Val 0x00000206),
     (''HvRegisterNestedVirtFeaturesInfo'', Val 0x00000207),
     (''HvRegisterIsolationConfiguration'', Val 0x00000209),
     (''HvRegisterGuestCrashP0'', Val 0x00000210), (''HvRegisterGuestCrashP1'', Val 0x00000211),
     (''HvRegisterGuestCrashP2'', Val 0x00000212), (''HvRegisterGuestCrashP3'', Val 0x00000213),
     (''HvRegisterGuestCrashP4'', Val 0x00000214),
     (''HvRegisterGuestCrashCtl'', Val 0x00000215),
     (''HvRegisterPowerStateConfigC1'', Val 0x00000220),
     (''HvRegisterPowerStateTriggerC1'', Val 0x00000221),
     (''HvRegisterPowerStateConfigC2'', Val 0x00000222),
     (''HvRegisterPowerStateTriggerC2'', Val 0x00000223),
     (''HvRegisterPowerStateConfigC3'', Val 0x00000224),
     (''HvRegisterPowerStateTriggerC3'', Val 0x00000225),
     (''HvRegisterProcessorClockFrequency'', Val 0x00000240),
     (''HvRegisterInterruptClockFrequency'', Val 0x00000241),
     (''HvRegisterGuestIdle'', Val 0x00000250),
     (''HvRegisterDebugDeviceOptions'', Val 0x00000260),
     (''HvRegisterMemoryZeroingControl'', Val 0x00000270),
     (''HvRegisterPendingInterruption'', Val 0x00010002),
     (''HvRegisterInterruptState'', Val 0x00010003),
     (''HvRegisterPendingEvent0'', Val 0x00010004),
     (''HvRegisterPendingEvent1'', Val 0x00010005), (''HvRegisterVpRuntime'', Val 0x00090000),
     (''HvRegisterGuestOsId'', Val 0x00090002), (''HvRegisterVpIndex'', Val 0x00090003),
     (''HvRegisterTimeRefCount'', Val 0x00090004),
     (''HvRegisterCpuManagementVersion'', Val 0x00090007),
     (''HvRegisterVpAssistPage'', Val 0x00090013),
     (''HvRegisterVpRootSignalCount'', Val 0x00090014),
     (''HvRegisterStatsPartitionRetail'', Val 0x00090020),
     (''HvRegisterStatsPartitionInternal'', Val 0x00090021),
     (''HvRegisterStatsVpRetail'', Val 0x00090022),
     (''HvRegisterStatsVpInternal'', Val 0x00090023),
     (''HvRegisterNestedVpIndex'', Val 0x00091003), (''HvRegisterSint0'', Val 0x000a0000),
     (''HvRegisterSint1'', Val 0x000a0001), (''HvRegisterSint2'', Val 0x000a0002),
     (''HvRegisterSint3'', Val 0x000a0003), (''HvRegisterSint4'', Val 0x000a0004),
     (''HvRegisterSint5'', Val 0x000a0005), (''HvRegisterSint6'', Val 0x000a0006),
     (''HvRegisterSint7'', Val 0x000a0007), (''HvRegisterSint8'', Val 0x000a0008),
     (''HvRegisterSint9'', Val 0x000a0009), (''HvRegisterSint10'', Val 0x000a000a),
     (''HvRegisterSint11'', Val 0x000a000b), (''HvRegisterSint12'', Val 0x000a000c),
     (''HvRegisterSint13'', Val 0x000a000d), (''HvRegisterSint14'', Val 0x000a000e),
     (''HvRegisterSint15'', Val 0x000a000f), (''HvRegisterScontrol'', Val 0x000a0010),
     (''HvRegisterSversion'', Val 0x000a0011), (''HvRegisterSifp'', Val 0x000a0012),
     (''HvRegisterSipp'', Val 0x000a0013), (''HvRegisterEom'', Val 0x000a0014),
     (''HvRegisterSirbp'', Val 0x000a0015), (''HvRegisterNestedSint0'', Val 0x000a1000),
     (''HvRegisterNestedSint1'', Val 0x000a1001), (''HvRegisterNestedSint2'', Val 0x000a1002),
     (''HvRegisterNestedSint3'', Val 0x000a1003), (''HvRegisterNestedSint4'', Val 0x000a1004),
     (''HvRegisterNestedSint5'', Val 0x000a1005), (''HvRegisterNestedSint6'', Val 0x000a1006),
     (''HvRegisterNestedSint7'', Val 0x000a1007), (''HvRegisterNestedSint8'', Val 0x000a1008),
     (''HvRegisterNestedSint9'', Val 0x000a1009), (''HvRegisterNestedSint10'', Val 0x000a100a),
     (''HvRegisterNestedSint11'', Val 0x000a100b), (''HvRegisterNestedSint12'', Val 0x000a100c),
     (''HvRegisterNestedSint13'', Val 0x000a100d), (''HvRegisterNestedSint14'', Val 0x000a100e),
     (''HvRegisterNestedSint15'', Val 0x000a100f),
     (''HvRegisterNestedScontrol'', Val 0x000a1010),
     (''HvRegisterNestedSversion'', Val 0x000a1011), (''HvRegisterNestedSifp'', Val 0x000a1012),
     (''HvRegisterNestedSipp'', Val 0x000a1013), (''HvRegisterNestedEom'', Val 0x000a1014),
     (''HvRegisterNestedSirbp'', Val 0x000a1015), (''HvRegisterStimer0Config'', Val 0x000b0000),
     (''HvRegisterStimer0Count'', Val 0x000b0001),
     (''HvRegisterStimer1Config'', Val 0x000b0002),
     (''HvRegisterStimer1Count'', Val 0x000b0003),
     (''HvRegisterStimer2Config'', Val 0x000b0004),
     (''HvRegisterStimer2Count'', Val 0x000b0005),
     (''HvRegisterStimer3Config'', Val 0x000b0006),
     (''HvRegisterStimer3Count'', Val 0x000b0007),
     (''HvRegisterStimeUnhaltedTimerConfig'', Val 0x000b0100),
     (''HvRegisterStimeUnhaltedTimerCount'', Val 0x000b0101),
     (''HvRegisterVsmCodePageOffsets'', Val 0x000d0002),
     (''HvRegisterVsmVpStatus'', Val 0x000d0003),
     (''HvRegisterVsmPartitionStatus'', Val 0x000d0004),
     (''HvRegisterVsmVina'', Val 0x000d0005), (''HvRegisterVsmCapabilities'', Val 0x000d0006),
     (''HvRegisterVsmPartitionConfig'', Val 0x000d0007),
     (''HvRegisterVsmVpSecureConfigVtl0'', Val 0x000d0010),
     (''HvRegisterVsmVpSecureConfigVtl1'', Val 0x000d0011),
     (''HvRegisterVsmVpSecureConfigVtl2'', Val 0x000d0012),
     (''HvRegisterVsmVpSecureConfigVtl3'', Val 0x000d0013),
     (''HvRegisterVsmVpSecureConfigVtl4'', Val 0x000d0014),
     (''HvRegisterVsmVpSecureConfigVtl5'', Val 0x000d0015),
     (''HvRegisterVsmVpSecureConfigVtl6'', Val 0x000d0016),
     (''HvRegisterVsmVpSecureConfigVtl7'', Val 0x000d0017),
     (''HvRegisterVsmVpSecureConfigVtl8'', Val 0x000d0018),
     (''HvRegisterVsmVpSecureConfigVtl9'', Val 0x000d0019),
     (''HvRegisterVsmVpSecureConfigVtl10'', Val 0x000d001a),
     (''HvRegisterVsmVpSecureConfigVtl11'', Val 0x000d001b),
     (''HvRegisterVsmVpSecureConfigVtl12'', Val 0x000d001c),
     (''HvRegisterVsmVpSecureConfigVtl13'', Val 0x000d001d),
     (''HvRegisterVsmVpSecureConfigVtl14'', Val 0x000d001e),
     (''HvRegisterVsmVpWaitForTlbLock'', Val 0x000d0020),
     (''HvRegisterIsolationCapabilities'', Val 0x000d0100)] @
     (case a of X64 \<Rightarrow> [(''HvX64RegisterDeliverabilityNotifications'', Val 0x00010006),
     (''HvX64RegisterRax'', Val 0x00020000), (''HvX64RegisterRcx'', Val 0x00020001),
     (''HvX64RegisterRdx'', Val 0x00020002), (''HvX64RegisterRbx'', Val 0x00020003),
     (''HvX64RegisterRsp'', Val 0x00020004), (''HvX64RegisterRbp'', Val 0x00020005),
     (''HvX64RegisterRsi'', Val 0x00020006), (''HvX64RegisterRdi'', Val 0x00020007),
     (''HvX64RegisterR8'', Val 0x00020008), (''HvX64RegisterR9'', Val 0x00020009),
     (''HvX64RegisterR10'', Val 0x0002000a), (''HvX64RegisterR11'', Val 0x0002000b),
     (''HvX64RegisterR12'', Val 0x0002000c), (''HvX64RegisterR13'', Val 0x0002000d),
     (''HvX64RegisterR14'', Val 0x0002000e), (''HvX64RegisterR15'', Val 0x0002000f),
     (''HvX64RegisterRip'', Val 0x00020010), (''HvX64RegisterRflags'', Val 0x00020011),
     (''HvX64RegisterXmm0'', Val 0x00030000), (''HvX64RegisterXmm1'', Val 0x00030001),
     (''HvX64RegisterXmm2'', Val 0x00030002), (''HvX64RegisterXmm3'', Val 0x00030003),
     (''HvX64RegisterXmm4'', Val 0x00030004), (''HvX64RegisterXmm5'', Val 0x00030005),
     (''HvX64RegisterXmm6'', Val 0x00030006), (''HvX64RegisterXmm7'', Val 0x00030007),
     (''HvX64RegisterXmm8'', Val 0x00030008), (''HvX64RegisterXmm9'', Val 0x00030009),
     (''HvX64RegisterXmm10'', Val 0x0003000a), (''HvX64RegisterXmm11'', Val 0x0003000b),
     (''HvX64RegisterXmm12'', Val 0x0003000c), (''HvX64RegisterXmm13'', Val 0x0003000d),
     (''HvX64RegisterXmm14'', Val 0x0003000e), (''HvX64RegisterXmm15'', Val 0x0003000f),
     (''HvX64RegisterFpMmx0'', Val 0x00030010), (''HvX64RegisterFpMmx1'', Val 0x00030011),
     (''HvX64RegisterFpMmx2'', Val 0x00030012), (''HvX64RegisterFpMmx3'', Val 0x00030013),
     (''HvX64RegisterFpMmx4'', Val 0x00030014), (''HvX64RegisterFpMmx5'', Val 0x00030015),
     (''HvX64RegisterFpMmx6'', Val 0x00030016), (''HvX64RegisterFpMmx7'', Val 0x00030017),
     (''HvX64RegisterFpControlStatus'', Val 0x00030018),
     (''HvX64RegisterXmmControlStatus'', Val 0x00030019),
     (''HvX64RegisterCr0'', Val 0x00040000), (''HvX64RegisterCr2'', Val 0x00040001),
     (''HvX64RegisterCr3'', Val 0x00040002), (''HvX64RegisterCr4'', Val 0x00040003),
     (''HvX64RegisterCr8'', Val 0x00040004), (''HvX64RegisterXfem'', Val 0x00040005),
     (''HvX64RegisterIntermediateCr0'', Val 0x00041000),
     (''HvX64RegisterIntermediateCr4'', Val 0x00041003),
     (''HvX64RegisterIntermediateCr8'', Val 0x00041004), (''HvX64RegisterDr0'', Val 0x00050000),
     (''HvX64RegisterDr1'', Val 0x00050001), (''HvX64RegisterDr2'', Val 0x00050002),
     (''HvX64RegisterDr3'', Val 0x00050003), (''HvX64RegisterDr6'', Val 0x00050004),
     (''HvX64RegisterDr7'', Val 0x00050005), (''HvX64RegisterEs'', Val 0x00060000),
     (''HvX64RegisterCs'', Val 0x00060001), (''HvX64RegisterSs'', Val 0x00060002),
     (''HvX64RegisterDs'', Val 0x00060003), (''HvX64RegisterFs'', Val 0x00060004),
     (''HvX64RegisterGs'', Val 0x00060005), (''HvX64RegisterLdtr'', Val 0x00060006),
     (''HvX64RegisterTr'', Val 0x00060007), (''HvX64RegisterIdtr'', Val 0x00070000),
     (''HvX64RegisterGdtr'', Val 0x00070001), (''HvX64RegisterTsc'', Val 0x00080000),
     (''HvX64RegisterEfer'', Val 0x00080001), (''HvX64RegisterKernelGsBase'', Val 0x00080002),
     (''HvX64RegisterApicBase'', Val 0x00080003), (''HvX64RegisterPat'', Val 0x00080004),
     (''HvX64RegisterSysenterCs'', Val 0x00080005),
     (''HvX64RegisterSysenterEip'', Val 0x00080006),
     (''HvX64RegisterSysenterEsp'', Val 0x00080007), (''HvX64RegisterStar'', Val 0x00080008),
     (''HvX64RegisterLstar'', Val 0x00080009), (''HvX64RegisterCstar'', Val 0x0008000a),
     (''HvX64RegisterSfmask'', Val 0x0008000b),
     (''HvX64RegisterInitialApicId'', Val 0x0008000c),
     (''HvX64RegisterMsrMtrrCap'', Val 0x0008000d),
     (''HvX64RegisterMsrMtrrDefType'', Val 0x0008000e),
     (''HvX64RegisterMsrMtrrPhysBase0'', Val 0x00080010),
     (''HvX64RegisterMsrMtrrPhysBase1'', Val 0x00080011),
     (''HvX64RegisterMsrMtrrPhysBase2'', Val 0x00080012),
     (''HvX64RegisterMsrMtrrPhysBase3'', Val 0x00080013),
     (''HvX64RegisterMsrMtrrPhysBase4'', Val 0x00080014),
     (''HvX64RegisterMsrMtrrPhysBase5'', Val 0x00080015),
     (''HvX64RegisterMsrMtrrPhysBase6'', Val 0x00080016),
     (''HvX64RegisterMsrMtrrPhysBase7'', Val 0x00080017),
     (''HvX64RegisterMsrMtrrPhysBase8'', Val 0x00080018),
     (''HvX64RegisterMsrMtrrPhysBase9'', Val 0x00080019),
     (''HvX64RegisterMsrMtrrPhysBaseA'', Val 0x0008001a),
     (''HvX64RegisterMsrMtrrPhysBaseB'', Val 0x0008001b),
     (''HvX64RegisterMsrMtrrPhysBaseC'', Val 0x0008001c),
     (''HvX64RegisterMsrMtrrPhysBaseD'', Val 0x0008001d),
     (''HvX64RegisterMsrMtrrPhysBaseE'', Val 0x0008001e),
     (''HvX64RegisterMsrMtrrPhysBaseF'', Val 0x0008001f),
     (''HvX64RegisterMsrMtrrPhysMask0'', Val 0x00080040),
     (''HvX64RegisterMsrMtrrPhysMask1'', Val 0x00080041),
     (''HvX64RegisterMsrMtrrPhysMask2'', Val 0x00080042),
     (''HvX64RegisterMsrMtrrPhysMask3'', Val 0x00080043),
     (''HvX64RegisterMsrMtrrPhysMask4'', Val 0x00080044),
     (''HvX64RegisterMsrMtrrPhysMask5'', Val 0x00080045),
     (''HvX64RegisterMsrMtrrPhysMask6'', Val 0x00080046),
     (''HvX64RegisterMsrMtrrPhysMask7'', Val 0x00080047),
     (''HvX64RegisterMsrMtrrPhysMask8'', Val 0x00080048),
     (''HvX64RegisterMsrMtrrPhysMask9'', Val 0x00080049),
     (''HvX64RegisterMsrMtrrPhysMaskA'', Val 0x0008004a),
     (''HvX64RegisterMsrMtrrPhysMaskB'', Val 0x0008004b),
     (''HvX64RegisterMsrMtrrPhysMaskC'', Val 0x0008004c),
     (''HvX64RegisterMsrMtrrPhysMaskD'', Val 0x0008004d),
     (''HvX64RegisterMsrMtrrPhysMaskE'', Val 0x0008004e),
     (''HvX64RegisterMsrMtrrPhysMaskF'', Val 0x0008004f),
     (''HvX64RegisterMsrMtrrFix64k00000'', Val 0x00080070),
     (''HvX64RegisterMsrMtrrFix16k80000'', Val 0x00080071),
     (''HvX64RegisterMsrMtrrFix16kA0000'', Val 0x00080072),
     (''HvX64RegisterMsrMtrrFix4kC0000'', Val 0x00080073),
     (''HvX64RegisterMsrMtrrFix4kC8000'', Val 0x00080074),
     (''HvX64RegisterMsrMtrrFix4kD0000'', Val 0x00080075),
     (''HvX64RegisterMsrMtrrFix4kD8000'', Val 0x00080076),
     (''HvX64RegisterMsrMtrrFix4kE0000'', Val 0x00080077),
     (''HvX64RegisterMsrMtrrFix4kE8000'', Val 0x00080078),
     (''HvX64RegisterMsrMtrrFix4kF0000'', Val 0x00080079),
     (''HvX64RegisterMsrMtrrFix4kF8000'', Val 0x0008007a),
     (''HvX64RegisterTscAux'', Val 0x0008007b), (''HvX64RegisterBndcfgs'', Val 0x0008007c),
     (''HvX64RegisterDebugCtl'', Val 0x0008007d),
     (''HvX64RegisterAvailable0008007E'', Val 0x0008007e),
     (''HvX64RegisterAvailable0008007F'', Val 0x0008007f),
     (''HvX64RegisterSgxLaunchControl0'', Val 0x00080080),
     (''HvX64RegisterSgxLaunchControl1'', Val 0x00080081),
     (''HvX64RegisterSgxLaunchControl2'', Val 0x00080082),
     (''HvX64RegisterSgxLaunchControl3'', Val 0x00080083),
     (''HvX64RegisterSpecCtrl'', Val 0x00080084), (''HvX64RegisterPredCmd'', Val 0x00080085),
     (''HvX64RegisterMsrIa32MiscEnable'', Val 0x000800a0),
     (''HvX64RegisterIa32FeatureControl'', Val 0x000800a1),
     (''HvX64RegisterIa32VmxBasic'', Val 0x000800a2),
     (''HvX64RegisterIa32VmxPinbasedCtls'', Val 0x000800a3),
     (''HvX64RegisterIa32VmxProcbasedCtls'', Val 0x000800a4),
     (''HvX64RegisterIa32VmxExitCtls'', Val 0x000800a5),
     (''HvX64RegisterIa32VmxEntryCtls'', Val 0x000800a6),
     (''HvX64RegisterIa32VmxMisc'', Val 0x000800a7),
     (''HvX64RegisterIa32VmxCr0Fixed0'', Val 0x000800a8),
     (''HvX64RegisterIa32VmxCr0Fixed1'', Val 0x000800a9),
     (''HvX64RegisterIa32VmxCr4Fixed0'', Val 0x000800aa),
     (''HvX64RegisterIa32VmxCr4Fixed1'', Val 0x000800ab),
     (''HvX64RegisterIa32VmxVmcsEnum'', Val 0x000800ac),
     (''HvX64RegisterIa32VmxProcbasedCtls2'', Val 0x000800ad),
     (''HvX64RegisterIa32VmxEptVpidCap'', Val 0x000800ae),
     (''HvX64RegisterIa32VmxTruePinbasedCtls'', Val 0x000800af),
     (''HvX64RegisterIa32VmxTrueProcbasedCtls'', Val 0x000800b0),
     (''HvX64RegisterIa32VmxTrueExitCtls'', Val 0x000800b1),
     (''HvX64RegisterIa32VmxTrueEntryCtls'', Val 0x000800b2),
     (''HvX64RegisterPerfGlobalCtrl'', Val 0x00081000),
     (''HvX64RegisterPerfGlobalStatus'', Val 0x00081001),
     (''HvX64RegisterPerfGlobalInUse'', Val 0x00081002),
     (''HvX64RegisterFixedCtrCtrl'', Val 0x00081003), (''HvX64RegisterDsArea'', Val 0x00081004),
     (''HvX64RegisterPebsEnable'', Val 0x00081005),
     (''HvX64RegisterPebsLdLat'', Val 0x00081006),
     (''HvX64RegisterPebsFrontend'', Val 0x00081007),
     (''HvX64RegisterPerfEvtSel0'', Val 0x00081100), (''HvX64RegisterPmc0'', Val 0x00081200),
     (''HvX64RegisterFixedCtr0'', Val 0x00081300), (''HvX64RegisterLbrTos'', Val 0x00082000),
     (''HvX64RegisterLbrSelect'', Val 0x00082001),
     (''HvX64RegisterLerFromLip'', Val 0x00082002), (''HvX64RegisterLerToLip'', Val 0x00082003),
     (''HvX64RegisterLbrFrom0'', Val 0x00082100), (''HvX64RegisterLbrTo0'', Val 0x00082200),
     (''HvX64RegisterLbrInfo0'', Val 0x00083300), (''HvX64RegisterHypercall'', Val 0x00090001),
     (''HvX64RegisterEoi'', Val 0x00090010), (''HvX64RegisterIcr'', Val 0x00090011),
     (''HvX64RegisterTpr'', Val 0x00090012),
     (''HvX64RegisterEmulatedTimerPeriod'', Val 0x00090030),
     (''HvX64RegisterEmulatedTimerControl'', Val 0x00090031),
     (''HvX64RegisterPmTimerAssist'', Val 0x00090032),
     (''HvX64RegisterCrInterceptControl'', Val 0x000e0000),
     (''HvX64RegisterCrInterceptCr0Mask'', Val 0x000e0001),
     (''HvX64RegisterCrInterceptCr4Mask'', Val 0x000e0002),
     (''HvX64RegisterCrInterceptIa32MiscEnableMask'', Val 0x000e0003)] | ARM64 \<Rightarrow>
     [(''HvArm64RegisterX0'', Val 0x00020000), (''HvArm64RegisterX1'', Val 0x00020001),
     (''HvArm64RegisterX2'', Val 0x00020002), (''HvArm64RegisterX3'', Val 0x00020003),
     (''HvArm64RegisterX4'', Val 0x00020004), (''HvArm64RegisterX5'', Val 0x00020005),
     (''HvArm64RegisterX6'', Val 0x00020006), (''HvArm64RegisterX7'', Val 0x00020007),
     (''HvArm64RegisterX8'', Val 0x00020008), (''HvArm64RegisterX9'', Val 0x00020009),
     (''HvArm64RegisterX10'', Val 0x0002000a), (''HvArm64RegisterX11'', Val 0x0002000b),
     (''HvArm64RegisterX12'', Val 0x0002000c), (''HvArm64RegisterX13'', Val 0x0002000d),
     (''HvArm64RegisterX14'', Val 0x0002000e), (''HvArm64RegisterX15'', Val 0x0002000f),
     (''HvArm64RegisterX16'', Val 0x00020010), (''HvArm64RegisterX17'', Val 0x00020011),
     (''HvArm64RegisterX18'', Val 0x00020012), (''HvArm64RegisterX19'', Val 0x00020013),
     (''HvArm64RegisterX20'', Val 0x00020014), (''HvArm64RegisterX21'', Val 0x00020015),
     (''HvArm64RegisterX22'', Val 0x00020016), (''HvArm64RegisterX23'', Val 0x00020017),
     (''HvArm64RegisterX24'', Val 0x00020018), (''HvArm64RegisterX25'', Val 0x00020019),
     (''HvArm64RegisterX26'', Val 0x0002001a), (''HvArm64RegisterX27'', Val 0x0002001b),
     (''HvArm64RegisterX28'', Val 0x0002001c), (''HvArm64RegisterXFp'', Val 0x0002001d),
     (''HvArm64RegisterXLr'', Val 0x0002001e), (''HvArm64RegisterXSp'', Val 0x0002001f),
     (''HvArm64RegisterXSpEl0'', Val 0x00020020), (''HvArm64RegisterXSpElx'', Val 0x00020021),
     (''HvArm64RegisterXPc'', Val 0x00020022), (''HvArm64RegisterCpsr'', Val 0x00020023),
     (''HvArm64RegisterQ0'', Val 0x00030000), (''HvArm64RegisterQ1'', Val 0x00030001),
     (''HvArm64RegisterQ2'', Val 0x00030002), (''HvArm64RegisterQ3'', Val 0x00030003),
     (''HvArm64RegisterQ4'', Val 0x00030004), (''HvArm64RegisterQ5'', Val 0x00030005),
     (''HvArm64RegisterQ6'', Val 0x00030006), (''HvArm64RegisterQ7'', Val 0x00030007),
     (''HvArm64RegisterQ8'', Val 0x00030008), (''HvArm64RegisterQ9'', Val 0x00030009),
     (''HvArm64RegisterQ10'', Val 0x0003000a), (''HvArm64RegisterQ11'', Val 0x0003000b),
     (''HvArm64RegisterQ12'', Val 0x0003000c), (''HvArm64RegisterQ13'', Val 0x0003000d),
     (''HvArm64RegisterQ14'', Val 0x0003000e), (''HvArm64RegisterQ15'', Val 0x0003000f),
     (''HvArm64RegisterQ16'', Val 0x00030010), (''HvArm64RegisterQ17'', Val 0x00030011),
     (''HvArm64RegisterQ18'', Val 0x00030012), (''HvArm64RegisterQ19'', Val 0x00030013),
     (''HvArm64RegisterQ20'', Val 0x00030014), (''HvArm64RegisterQ21'', Val 0x00030015),
     (''HvArm64RegisterQ22'', Val 0x00030016), (''HvArm64RegisterQ23'', Val 0x00030017),
     (''HvArm64RegisterQ24'', Val 0x00030018), (''HvArm64RegisterQ25'', Val 0x00030019),
     (''HvArm64RegisterQ26'', Val 0x0003001a), (''HvArm64RegisterQ27'', Val 0x0003001b),
     (''HvArm64RegisterQ28'', Val 0x0003001c), (''HvArm64RegisterQ29'', Val 0x0003001d),
     (''HvArm64RegisterQ30'', Val 0x0003001e), (''HvArm64RegisterQ31'', Val 0x0003001f),
     (''HvArm64RegisterFpControl'', Val 0x00030020),
     (''HvArm64RegisterFpStatus'', Val 0x00030021), (''HvArm64RegisterBcr0'', Val 0x00050000),
     (''HvArm64RegisterBcr1'', Val 0x00050001), (''HvArm64RegisterBcr2'', Val 0x00050002),
     (''HvArm64RegisterBcr3'', Val 0x00050003), (''HvArm64RegisterBcr4'', Val 0x00050004),
     (''HvArm64RegisterBcr5'', Val 0x00050005), (''HvArm64RegisterBcr6'', Val 0x00050006),
     (''HvArm64RegisterBcr7'', Val 0x00050007), (''HvArm64RegisterBcr8'', Val 0x00050008),
     (''HvArm64RegisterBcr9'', Val 0x00050009), (''HvArm64RegisterBcr10'', Val 0x0005000a),
     (''HvArm64RegisterBcr11'', Val 0x0005000b), (''HvArm64RegisterBcr12'', Val 0x0005000c),
     (''HvArm64RegisterBcr13'', Val 0x0005000d), (''HvArm64RegisterBcr14'', Val 0x0005000e),
     (''HvArm64RegisterBcr15'', Val 0x0005000f), (''HvArm64RegisterWcr0'', Val 0x00050010),
     (''HvArm64RegisterWcr1'', Val 0x00050011), (''HvArm64RegisterWcr2'', Val 0x00050012),
     (''HvArm64RegisterWcr3'', Val 0x00050013), (''HvArm64RegisterWcr4'', Val 0x00050014),
     (''HvArm64RegisterWcr5'', Val 0x00050015), (''HvArm64RegisterWcr6'', Val 0x00050016),
     (''HvArm64RegisterWcr7'', Val 0x00050017), (''HvArm64RegisterWcr8'', Val 0x00050018),
     (''HvArm64RegisterWcr9'', Val 0x00050019), (''HvArm64RegisterWcr10'', Val 0x0005001a),
     (''HvArm64RegisterWcr11'', Val 0x0005001b), (''HvArm64RegisterWcr12'', Val 0x0005001c),
     (''HvArm64RegisterWcr13'', Val 0x0005001d), (''HvArm64RegisterWcr14'', Val 0x0005001e),
     (''HvArm64RegisterWcr15'', Val 0x0005001f), (''HvArm64RegisterBvr0'', Val 0x00050020),
     (''HvArm64RegisterBvr1'', Val 0x00050021), (''HvArm64RegisterBvr2'', Val 0x00050022),
     (''HvArm64RegisterBvr3'', Val 0x00050023), (''HvArm64RegisterBvr4'', Val 0x00050024),
     (''HvArm64RegisterBvr5'', Val 0x00050025), (''HvArm64RegisterBvr6'', Val 0x00050026),
     (''HvArm64RegisterBvr7'', Val 0x00050027), (''HvArm64RegisterBvr8'', Val 0x00050028),
     (''HvArm64RegisterBvr9'', Val 0x00050029), (''HvArm64RegisterBvr10'', Val 0x0005002a),
     (''HvArm64RegisterBvr11'', Val 0x0005002b), (''HvArm64RegisterBvr12'', Val 0x0005002c),
     (''HvArm64RegisterBvr13'', Val 0x0005002d), (''HvArm64RegisterBvr14'', Val 0x0005002e),
     (''HvArm64RegisterBvr15'', Val 0x0005002f), (''HvArm64RegisterWvr0'', Val 0x00050030),
     (''HvArm64RegisterWvr1'', Val 0x00050031), (''HvArm64RegisterWvr2'', Val 0x00050032),
     (''HvArm64RegisterWvr3'', Val 0x00050033), (''HvArm64RegisterWvr4'', Val 0x00050034),
     (''HvArm64RegisterWvr5'', Val 0x00050035), (''HvArm64RegisterWvr6'', Val 0x00050036),
     (''HvArm64RegisterWvr7'', Val 0x00050037), (''HvArm64RegisterWvr8'', Val 0x00050038),
     (''HvArm64RegisterWvr9'', Val 0x00050039), (''HvArm64RegisterWvr10'', Val 0x0005003a),
     (''HvArm64RegisterWvr11'', Val 0x0005003b), (''HvArm64RegisterWvr12'', Val 0x0005003c),
     (''HvArm64RegisterWvr13'', Val 0x0005003d), (''HvArm64RegisterWvr14'', Val 0x0005003e),
     (''HvArm64RegisterWvr15'', Val 0x0005003f), (''HvArm64RegisterMidr'', Val 0x00040000),
     (''HvArm64RegisterMpidr'', Val 0x00040001), (''HvArm64RegisterSctlr'', Val 0x00040002),
     (''HvArm64RegisterActlr'', Val 0x00040003), (''HvArm64RegisterCpacr'', Val 0x00040004),
     (''HvArm64RegisterTtbr0'', Val 0x00040005), (''HvArm64RegisterTtbr1'', Val 0x00040006),
     (''HvArm64RegisterTcr'', Val 0x00040007), (''HvArm64RegisterEsrEl1'', Val 0x00040008),
     (''HvArm64RegisterFarEl1'', Val 0x00040009), (''HvArm64RegisterParEl1'', Val 0x0004000a),
     (''HvArm64RegisterMair'', Val 0x0004000b), (''HvArm64RegisterVbar'', Val 0x0004000c),
     (''HvArm64RegisterContextIdr'', Val 0x0004000d),
     (''HvArm64RegisterTpidr'', Val 0x0004000e), (''HvArm64RegisterCntkctl'', Val 0x0004000f),
     (''HvArm64RegisterTpidrroEl0'', Val 0x00040010),
     (''HvArm64RegisterTpidrEl0'', Val 0x00040011),
     (''HvArm64RegisterFpcrEl1'', Val 0x00040012), (''HvArm64RegisterFpsrEl1'', Val 0x00040013),
     (''HvArm64RegisterSpsrEl1'', Val 0x00040014), (''HvArm64RegisterElrEl1'', Val 0x00040015),
     (''HvArm64RegisterAfsr0'', Val 0x00040016), (''HvArm64RegisterAfsr1'', Val 0x00040017),
     (''HvArm64RegisterAMair'', Val 0x00040018), (''HvArm64RegisterMdscr'', Val 0x00040019),
     (''HvArm64RegisterMdcr'', Val 0x00040101), (''HvArm64RegisterCptr'', Val 0x00040102),
     (''HvArm64RegisterHstr'', Val 0x00040103), (''HvArm64RegisterHacr'', Val 0x00040104),
     (''HvArm64RegisterCnthCtl'', Val 0x000b0400), (''HvArm64RegisterCntkCtl'', Val 0x000b0401),
     (''HvArm64RegisterCntpCtl'', Val 0x000b0402),
     (''HvArm64RegisterCntpCval'', Val 0x000b0403),
     (''HvArm64RegisterCntvOffset'', Val 0x000b0404),
     (''HvArm64RegisterCntvCtl'', Val 0x000b0405),
     (''HvArm64RegisterCntvCval'', Val 0x000b0406), (''HvArm64RegisterCtr'', Val 0x00040300),
     (''HvArm64RegisterDczid'', Val 0x00040301), (''HvArm64RegisterRevidr'', Val 0x00040302),
     (''HvArm64RegisterIdAa64pfr0'', Val 0x00040303),
     (''HvArm64RegisterIdAa64pfr1'', Val 0x00040304),
     (''HvArm64RegisterIdAa64dfr0'', Val 0x00040305),
     (''HvArm64RegisterIdAa64dfr1'', Val 0x00040306),
     (''HvArm64RegisterIdAa64afr0'', Val 0x00040307),
     (''HvArm64RegisterIdAa64afr1'', Val 0x00040308),
     (''HvArm64RegisterIdAa64isar0'', Val 0x00040309),
     (''HvArm64RegisterIdAa64isar1'', Val 0x0004030a),
     (''HvArm64RegisterIdAa64mmfr0'', Val 0x0004030b),
     (''HvArm64RegisterIdAa64mmfr1'', Val 0x0004030c),
     (''HvArm64RegisterClidr'', Val 0x0004030d), (''HvArm64RegisterAidr'', Val 0x0004030e),
     (''HvArm64RegisterCsselr'', Val 0x0004030f), (''HvArm64RegisterCcsidr'', Val 0x00040310),
     (''HvArm64RegisterSyntheticException'', Val 0x00040400),
     (''HvArm64RegisterInterfaceVersion'', Val 0x00090006),
     (''HvArm64RegisterPartitionInfoPage'', Val 0x00090015),
     (''HvArm64RegisterTlbiControl'', Val 0x00090016)]))"

definition HV_REGISTER_VALUE :: cty where
  "HV_REGISTER_VALUE = Union 0 (flds_of
       [mem ''Reg128'' HV_UINT128, mem ''Reg64'' U64, mem ''Reg32'' U32, mem ''Reg16'' U16,
       mem ''Reg8'' U8])"

definition HV_INPUT_START_VIRTUAL_PROCESSOR :: "arch \<Rightarrow> cty" where
  "HV_INPUT_START_VIRTUAL_PROCESSOR a = HV_CALL_ATTRIBUTES (Struct 0 (flds_of
       [mem ''PartitionId'' HV_PARTITION_ID, mem ''VpIndex'' HV_VP_INDEX,
       mem ''TargetVtl'' HV_VTL, mem ''ReservedZ0'' U8, mem ''ReservedZ1'' U16,
       mem ''VpContext'' (HV_INITIAL_VP_CONTEXT a)]))"

definition HV_INPUT_MODIFY_SPARSE_GPA_PAGE_HOST_VISIBILITY :: cty where
  "HV_INPUT_MODIFY_SPARSE_GPA_PAGE_HOST_VISIBILITY = HV_CALL_ATTRIBUTES (Struct 0 (flds_of
       [mem ''TargetPartitionId'' HV_PARTITION_ID, bits ''HostVisibility'' U32 2,
       bits ''Reserved0'' U32 30, mem ''Reserved1'' U32,
       mem ''GpaPageList'' (HV_CALL_ATTRIBUTES (Arr HV_GPA_PAGE_NUMBER HV_ANYSIZE_ARRAY))]))"

section \<open>Tables\<close>

text \<open>The types that a program for the architecture sees, and the status codes.\<close>

definition interface_types :: "arch \<Rightarrow> (string \<times> cty) list" where
  "interface_types a = [
     (''HV_STATUS'', HV_STATUS), (''HV_GPA'', HV_GPA), (''HV_GPA_PAGE_NUMBER'', HV_GPA_PAGE_NUMBER),
     (''HV_GVA'', HV_GVA), (''HV_PARTITION_ID'', HV_PARTITION_ID),
     (''HV_NANO100_TIME'', HV_NANO100_TIME), (''HV_NANO100_DURATION'', HV_NANO100_DURATION),
     (''HV_IOMMU_ID'', HV_IOMMU_ID), (''HV_INTERCEPT_ACCESS_TYPE'', HV_INTERCEPT_ACCESS_TYPE),
     (''HV_VP_INDEX'', HV_VP_INDEX), (''HV_VTL'', HV_VTL), (''HV_MAP_GPA_FLAGS'', HV_MAP_GPA_FLAGS),
     (''HV_INITIAL_VP_CONTEXT'', HV_INITIAL_VP_CONTEXT a),
     (''HV_HYPERVISOR_VERSION_INFO'', HV_HYPERVISOR_VERSION_INFO),
     (''HV_PARTITION_PRIVILEGE_MASK'', HV_PARTITION_PRIVILEGE_MASK),
     (''HV_VENDOR_AND_MAX_FUNCTION'', HV_VENDOR_AND_MAX_FUNCTION),
     (''HV_HYPERVISOR_INTERFACE_INFO'', HV_HYPERVISOR_INTERFACE_INFO),
     (''HV_HYPERVISOR_FEATURES'', HV_HYPERVISOR_FEATURES a),
     (''HV_ENLIGHTENMENT_INFORMATION'', HV_ENLIGHTENMENT_INFORMATION a),
     (''HV_IMPLEMENTATION_LIMITS'', HV_IMPLEMENTATION_LIMITS),
     (''HV_HYPERVISOR_HARDWARE_FEATURES'', HV_HYPERVISOR_HARDWARE_FEATURES a),
     (''HV_HYPERVISOR_CPU_MANAGEMENT_FEATURES'', HV_HYPERVISOR_CPU_MANAGEMENT_FEATURES a),
     (''HV_HYPERVISOR_SVM_FEATURES'', HV_HYPERVISOR_SVM_FEATURES),
     (''HV_HYPERVISOR_ISOLATION_CONFIGURATION'', HV_HYPERVISOR_ISOLATION_CONFIGURATION),
     (''HV_CPUID_RESULT'', HV_CPUID_RESULT a),
     (''HV_GUEST_OS_ID_CONTENTS'', HV_GUEST_OS_ID_CONTENTS),
     (''HV_X64_MSR_HYPERCALL_CONTENTS'', HV_X64_MSR_HYPERCALL_CONTENTS),
     (''HV_CRASH_CTL_REG_CONTENTS'', HV_CRASH_CTL_REG_CONTENTS),
     (''HV_SYNIC_SINT'', HV_SYNIC_SINT a), (''HV_PORT_ID'', HV_PORT_ID),
     (''HV_SYNIC_SINT_INDEX'', HV_SYNIC_SINT_INDEX), (''HV_MESSAGE_FLAGS'', HV_MESSAGE_FLAGS),
     (''HV_MESSAGE_HEADER'', HV_MESSAGE_HEADER), (''HV_SYNIC_EVENT_FLAGS'', HV_SYNIC_EVENT_FLAGS),
     (''HV_SYNIC_EVENT_FLAGS_PAGE'', HV_SYNIC_EVENT_FLAGS_PAGE),
     (''HV_X64_MSR_STIMER_CONFIG_CONTENTS'', HV_X64_MSR_STIMER_CONFIG_CONTENTS),
     (''HV_SYNIC_SIMP'', HV_SYNIC_SIMP), (''HV_EVENTLOG_BUFFER_INDEX'', HV_EVENTLOG_BUFFER_INDEX),
     (''HV_EVENTLOG_MESSAGE_PAYLOAD'', HV_EVENTLOG_MESSAGE_PAYLOAD),
     (''HV_TIMER_MESSAGE_PAYLOAD'', HV_TIMER_MESSAGE_PAYLOAD),
     (''HV_IOMMU_PRQ_MESSAGE_PAYLOAD'', HV_IOMMU_PRQ_MESSAGE_PAYLOAD),
     (''HV_IOMMU_FAULT_MESSAGE_PAYLOAD'', HV_IOMMU_FAULT_MESSAGE_PAYLOAD),
     (''HV_MESSAGE'', HV_MESSAGE), (''HV_MESSAGE_PAGE'', HV_MESSAGE_PAGE),
     (''HV_SYNIC_SIEFP'', HV_SYNIC_SIEFP), (''HV_UINT128'', HV_UINT128),
     (''HV_ADDRESS_SPACE_ID'', HV_ADDRESS_SPACE_ID),
     (''HV_INPUT_SWITCH_VIRTUAL_ADDRESS_SPACE'', HV_INPUT_SWITCH_VIRTUAL_ADDRESS_SPACE),
     (''HV_CONNECTION_ID'', HV_CONNECTION_ID), (''HV_HYPERCALL_INPUT'', HV_HYPERCALL_INPUT),
     (''HV_HYPERCALL_OUTPUT'', HV_HYPERCALL_OUTPUT),
     (''HV_INPUT_POST_MESSAGE'', HV_INPUT_POST_MESSAGE),
     (''HV_INPUT_SIGNAL_EVENT'', HV_INPUT_SIGNAL_EVENT), (''HV_REGISTER_VALUE'', HV_REGISTER_VALUE),
     (''HV_INPUT_START_VIRTUAL_PROCESSOR'', HV_INPUT_START_VIRTUAL_PROCESSOR a),
     (''HV_INPUT_MODIFY_SPARSE_GPA_PAGE_HOST_VISIBILITY'', HV_INPUT_MODIFY_SPARSE_GPA_PAGE_HOST_VISIBILITY)] @
     (case a of X64 \<Rightarrow> [
     (''HV_X64_SEGMENT_REGISTER'', HV_X64_SEGMENT_REGISTER),
     (''HV_X64_TABLE_REGISTER'', HV_X64_TABLE_REGISTER),
     (''HV_X64_PLATFORM_CAPABILITIES'', HV_X64_PLATFORM_CAPABILITIES),
     (''HV_X64_HYPERVISOR_FEATURES'', HV_X64_HYPERVISOR_FEATURES),
     (''HV_X64_ENLIGHTENMENT_INFORMATION'', HV_X64_ENLIGHTENMENT_INFORMATION),
     (''HV_X64_HYPERVISOR_HARDWARE_FEATURES'', HV_X64_HYPERVISOR_HARDWARE_FEATURES),
     (''HV_X64_HYPERVISOR_CPU_MANAGEMENT_FEATURES'', HV_X64_HYPERVISOR_CPU_MANAGEMENT_FEATURES),
     (''HV_HYPERVISOR_NESTED_VIRT_FEATURES'', HV_HYPERVISOR_NESTED_VIRT_FEATURES)]
   | ARM64 \<Rightarrow> [
     (''HV_ARM64_HYPERVISOR_FEATURES'', HV_ARM64_HYPERVISOR_FEATURES),
     (''HV_ARM64_ENLIGHTENMENT_INFORMATION'', HV_ARM64_ENLIGHTENMENT_INFORMATION),
     (''HV_ARM64_HYPERVISOR_HARDWARE_FEATURES'', HV_ARM64_HYPERVISOR_HARDWARE_FEATURES),
     (''HV_ARM64_HYPERVISOR_CPU_MANAGEMENT_FEATURES'', HV_ARM64_HYPERVISOR_CPU_MANAGEMENT_FEATURES)])"

definition hv_status_codes :: "16 word list" where
  "hv_status_codes = [
     HV_STATUS_SUCCESS, HV_STATUS_INVALID_HYPERCALL_CODE, HV_STATUS_INVALID_HYPERCALL_INPUT,
     HV_STATUS_INVALID_ALIGNMENT, HV_STATUS_INVALID_PARAMETER, HV_STATUS_ACCESS_DENIED,
     HV_STATUS_INVALID_PARTITION_STATE, HV_STATUS_OPERATION_DENIED, HV_STATUS_UNKNOWN_PROPERTY,
     HV_STATUS_PROPERTY_VALUE_OUT_OF_RANGE, HV_STATUS_INSUFFICIENT_MEMORY,
     HV_STATUS_PARTITION_TOO_DEEP, HV_STATUS_INVALID_PARTITION_ID, HV_STATUS_INVALID_VP_INDEX,
     HV_STATUS_NOT_FOUND, HV_STATUS_INVALID_PORT_ID, HV_STATUS_INVALID_CONNECTION_ID,
     HV_STATUS_INSUFFICIENT_BUFFERS, HV_STATUS_NOT_ACKNOWLEDGED, HV_STATUS_INVALID_VP_STATE,
     HV_STATUS_ACKNOWLEDGED, HV_STATUS_INVALID_SAVE_RESTORE_STATE, HV_STATUS_INVALID_SYNIC_STATE,
     HV_STATUS_OBJECT_IN_USE, HV_STATUS_INVALID_PROXIMITY_DOMAIN_INFO, HV_STATUS_NO_DATA,
     HV_STATUS_INACTIVE, HV_STATUS_NO_RESOURCES, HV_STATUS_FEATURE_UNAVAILABLE,
     HV_STATUS_PARTIAL_PACKET, HV_STATUS_PROCESSOR_FEATURE_NOT_SUPPORTED,
     HV_STATUS_PROCESSOR_CACHE_LINE_FLUSH_SIZE_INCOMPATIBLE, HV_STATUS_INSUFFICIENT_BUFFER,
     HV_STATUS_INCOMPATIBLE_PROCESSOR, HV_STATUS_INSUFFICIENT_DEVICE_DOMAINS,
     HV_STATUS_CPUID_FEATURE_VALIDATION_ERROR, HV_STATUS_CPUID_XSAVE_FEATURE_VALIDATION_ERROR,
     HV_STATUS_PROCESSOR_STARTUP_TIMEOUT, HV_STATUS_SMX_ENABLED, HV_STATUS_INVALID_LP_INDEX,
     HV_STATUS_INVALID_REGISTER_VALUE, HV_STATUS_INVALID_VTL_STATE, HV_STATUS_NX_NOT_DETECTED,
     HV_STATUS_INVALID_DEVICE_ID, HV_STATUS_INVALID_DEVICE_STATE, HV_STATUS_PENDING_PAGE_REQUESTS,
     HV_STATUS_PAGE_REQUEST_INVALID, HV_STATUS_KEY_ALREADY_EXISTS,
     HV_STATUS_DEVICE_ALREADY_IN_DOMAIN, HV_STATUS_INVALID_CPU_GROUP_ID,
     HV_STATUS_INVALID_CPU_GROUP_STATE, HV_STATUS_OPERATION_FAILED,
     HV_STATUS_NOT_ALLOWED_WITH_NESTED_VIRT_ACTIVE, HV_STATUS_INSUFFICIENT_ROOT_MEMORY]"

lemmas interface_type_defs =
  HV_STATUS_def HV_GPA_def HV_GPA_PAGE_NUMBER_def HV_GVA_def HV_PARTITION_ID_def HV_NANO100_TIME_def
  HV_NANO100_DURATION_def HV_IOMMU_ID_def HV_INTERCEPT_ACCESS_TYPE_def HV_VP_INDEX_def HV_VTL_def
  HV_MAP_GPA_FLAGS_def HV_X64_SEGMENT_REGISTER_def HV_X64_TABLE_REGISTER_def
  HV_INITIAL_VP_CONTEXT_def HV_HYPERVISOR_VERSION_INFO_def HV_PARTITION_PRIVILEGE_MASK_def
  HV_X64_PLATFORM_CAPABILITIES_def HV_VENDOR_AND_MAX_FUNCTION_def HV_HYPERVISOR_INTERFACE_INFO_def
  HV_X64_HYPERVISOR_FEATURES_def HV_ARM64_HYPERVISOR_FEATURES_def HV_HYPERVISOR_FEATURES_def
  HV_X64_ENLIGHTENMENT_INFORMATION_def HV_ARM64_ENLIGHTENMENT_INFORMATION_def
  HV_ENLIGHTENMENT_INFORMATION_def HV_IMPLEMENTATION_LIMITS_def
  HV_X64_HYPERVISOR_HARDWARE_FEATURES_def HV_ARM64_HYPERVISOR_HARDWARE_FEATURES_def
  HV_HYPERVISOR_HARDWARE_FEATURES_def HV_X64_HYPERVISOR_CPU_MANAGEMENT_FEATURES_def
  HV_ARM64_HYPERVISOR_CPU_MANAGEMENT_FEATURES_def HV_HYPERVISOR_CPU_MANAGEMENT_FEATURES_def
  HV_HYPERVISOR_SVM_FEATURES_def HV_HYPERVISOR_NESTED_VIRT_FEATURES_def
  HV_HYPERVISOR_ISOLATION_CONFIGURATION_def HV_CPUID_RESULT_def HV_GUEST_OS_ID_CONTENTS_def
  HV_X64_MSR_HYPERCALL_CONTENTS_def HV_CRASH_CTL_REG_CONTENTS_def HV_SYNIC_SINT_def HV_PORT_ID_def
  HV_SYNIC_SINT_INDEX_def HV_MESSAGE_FLAGS_def HV_MESSAGE_HEADER_def HV_SYNIC_EVENT_FLAGS_def
  HV_SYNIC_EVENT_FLAGS_PAGE_def HV_X64_MSR_STIMER_CONFIG_CONTENTS_def HV_SYNIC_SIMP_def
  HV_EVENTLOG_BUFFER_INDEX_def HV_EVENTLOG_MESSAGE_PAYLOAD_def HV_TIMER_MESSAGE_PAYLOAD_def
  HV_IOMMU_PRQ_MESSAGE_PAYLOAD_def HV_IOMMU_FAULT_MESSAGE_PAYLOAD_def HV_MESSAGE_def
  HV_MESSAGE_PAGE_def HV_SYNIC_SIEFP_def HV_UINT128_def HV_ADDRESS_SPACE_ID_def
  HV_INPUT_SWITCH_VIRTUAL_ADDRESS_SPACE_def HV_CONNECTION_ID_def HV_HYPERCALL_INPUT_def
  HV_HYPERCALL_OUTPUT_def HV_INPUT_POST_MESSAGE_def HV_INPUT_SIGNAL_EVENT_def HV_REGISTER_VALUE_def
  HV_INPUT_START_VIRTUAL_PROCESSOR_def HV_INPUT_MODIFY_SPARSE_GPA_PAGE_HOST_VISIBILITY_def
  HV_CALL_ATTRIBUTES_def HV_CALL_ALIGNMENT_def HV_EVENT_FLAGS_BYTE_COUNT_def
  HV_EVENT_FLAGS_DWORD_COUNT_def HV_MESSAGE_PAYLOAD_QWORD_COUNT_def HV_SYNIC_SINT_COUNT_def
  HV_ANYSIZE_ARRAY_def

lemmas hv_status_defs =
  HV_STATUS_SUCCESS_def HV_STATUS_INVALID_HYPERCALL_CODE_def HV_STATUS_INVALID_HYPERCALL_INPUT_def
  HV_STATUS_INVALID_ALIGNMENT_def HV_STATUS_INVALID_PARAMETER_def HV_STATUS_ACCESS_DENIED_def
  HV_STATUS_INVALID_PARTITION_STATE_def HV_STATUS_OPERATION_DENIED_def HV_STATUS_UNKNOWN_PROPERTY_def
  HV_STATUS_PROPERTY_VALUE_OUT_OF_RANGE_def HV_STATUS_INSUFFICIENT_MEMORY_def
  HV_STATUS_PARTITION_TOO_DEEP_def HV_STATUS_INVALID_PARTITION_ID_def HV_STATUS_INVALID_VP_INDEX_def
  HV_STATUS_NOT_FOUND_def HV_STATUS_INVALID_PORT_ID_def HV_STATUS_INVALID_CONNECTION_ID_def
  HV_STATUS_INSUFFICIENT_BUFFERS_def HV_STATUS_NOT_ACKNOWLEDGED_def HV_STATUS_INVALID_VP_STATE_def
  HV_STATUS_ACKNOWLEDGED_def HV_STATUS_INVALID_SAVE_RESTORE_STATE_def
  HV_STATUS_INVALID_SYNIC_STATE_def HV_STATUS_OBJECT_IN_USE_def
  HV_STATUS_INVALID_PROXIMITY_DOMAIN_INFO_def HV_STATUS_NO_DATA_def HV_STATUS_INACTIVE_def
  HV_STATUS_NO_RESOURCES_def HV_STATUS_FEATURE_UNAVAILABLE_def HV_STATUS_PARTIAL_PACKET_def
  HV_STATUS_PROCESSOR_FEATURE_NOT_SUPPORTED_def
  HV_STATUS_PROCESSOR_CACHE_LINE_FLUSH_SIZE_INCOMPATIBLE_def HV_STATUS_INSUFFICIENT_BUFFER_def
  HV_STATUS_INCOMPATIBLE_PROCESSOR_def HV_STATUS_INSUFFICIENT_DEVICE_DOMAINS_def
  HV_STATUS_CPUID_FEATURE_VALIDATION_ERROR_def HV_STATUS_CPUID_XSAVE_FEATURE_VALIDATION_ERROR_def
  HV_STATUS_PROCESSOR_STARTUP_TIMEOUT_def HV_STATUS_SMX_ENABLED_def HV_STATUS_INVALID_LP_INDEX_def
  HV_STATUS_INVALID_REGISTER_VALUE_def HV_STATUS_INVALID_VTL_STATE_def HV_STATUS_NX_NOT_DETECTED_def
  HV_STATUS_INVALID_DEVICE_ID_def HV_STATUS_INVALID_DEVICE_STATE_def
  HV_STATUS_PENDING_PAGE_REQUESTS_def HV_STATUS_PAGE_REQUEST_INVALID_def
  HV_STATUS_KEY_ALREADY_EXISTS_def HV_STATUS_DEVICE_ALREADY_IN_DOMAIN_def
  HV_STATUS_INVALID_CPU_GROUP_ID_def HV_STATUS_INVALID_CPU_GROUP_STATE_def
  HV_STATUS_OPERATION_FAILED_def HV_STATUS_NOT_ALLOWED_WITH_NESTED_VIRT_ACTIVE_def
  HV_STATUS_INSUFFICIENT_ROOT_MEMORY_def

section \<open>Padding\<close>

text \<open>A type is gapless when its members use every bit: in a structure the widths add up to the size, in a union each
  alternative is gapless itself.\<close>

fun gapless :: "abi \<Rightarrow> cty \<Rightarrow> bool"
and gapless_flds :: "abi \<Rightarrow> flds \<Rightarrow> bool"
and flds_bits :: "abi \<Rightarrow> flds \<Rightarrow> nat" where
  "gapless A (Prim n) = True"
| "gapless A Long_ty = True"
| "gapless A Ptr_ty = True"
| "gapless A (Arr t n) = gapless A t"
| "gapless A (Struct p fs) = (flds_bits A fs = 8 * csize A (Struct p fs) \<and> gapless_flds A fs)"
| "gapless A (Union p fs) = gapless_flds A fs"
| "gapless A (Aligned a t) = (csize A (Aligned a t) = csize A t \<and> gapless A t)"
| "gapless_flds A No_flds = True"
| "gapless_flds A (Fld n t w fs) = (gapless A t \<and> gapless_flds A fs)"
| "flds_bits A No_flds = 0"
| "flds_bits A (Fld n t w fs) = width_bits (csize A t) w + flds_bits A fs"

definition padded_types :: "abi \<Rightarrow> arch \<Rightarrow> string list" where
  "padded_types A a = map fst (filter (\<lambda>(n, t). \<not> gapless A t) (interface_types a))"

definition covers :: "(string \<times> nat \<times> nat) list \<Rightarrow> nat \<Rightarrow> nat \<Rightarrow> bool" where
  "covers qs k b \<longleftrightarrow> k < length qs \<and> fst (snd (qs ! k)) \<le> b \<and> b < fst (snd (qs ! k)) + snd (snd (qs ! k))"

lemma flds_bits_places: "flds_bits A fs = sum_list (map (\<lambda>q. snd (snd q)) (places A p fs cu))"
  by (induction fs arbitrary: cu) simp_all

lemma in_order_room: "in_order pos qs e \<Longrightarrow> pos + sum_list (map (\<lambda>q. snd (snd q)) qs) \<le> e"
proof (induction qs arbitrary: pos)
  case (Cons q qs)
  then have "fst (snd q) + snd (snd q) + sum_list (map (\<lambda>q. snd (snd q)) qs) \<le> e" by simp
  then show ?case using Cons.prems by simp
qed simp

text \<open>Members in order whose widths fill the range leave no gap.\<close>

lemma in_order_covers:
  assumes "in_order pos qs e" "pos + sum_list (map (\<lambda>q. snd (snd q)) qs) = e" "pos \<le> b" "b < e"
  shows "\<exists>k. covers qs k b"
  using assms
proof (induction qs arbitrary: pos)
  case (Cons q qs)
  let ?e = "fst (snd q) + snd (snd q)"
  have "?e + sum_list (map (\<lambda>q. snd (snd q)) qs) \<le> e" using in_order_room [of ?e qs e] Cons.prems(1) by simp
  then have pos: "pos = fst (snd q)" "?e + sum_list (map (\<lambda>q. snd (snd q)) qs) = e"
    using Cons.prems(1,2) by simp_all
  show ?case
  proof (cases "b < ?e")
    case True
    then have "covers (q # qs) 0 b" using Cons.prems(3) pos by (simp add: covers_def)
    then show ?thesis ..
  next
    case False
    then obtain k where "covers qs k b" using Cons.IH [of ?e] Cons.prems pos by auto
    then have "covers (q # qs) (Suc k) b" by (simp add: covers_def)
    then show ?thesis ..
  qed
qed simp

lemma gapless_struct:
  assumes "ok_abi A" "ok_flds fs" "gapless A (Struct p fs)" "b < 8 * csize A (Struct p fs)"
  shows "\<exists>!k. covers (places A p fs start_cursor) k b"
proof -
  define qs e N where def_qs: "qs = places A p fs start_cursor" "e = fst (snd (fcur A p fs start_cursor))"
    "N = 8 * csize A (Struct p fs)"
  have ord: "in_order 0 qs e"
    using places_in_order [OF assms(1,2) start_cursor_ok, of p] unfolding def_qs by (simp add: start_cursor_def)
  have "sum_list (map (\<lambda>q. snd (snd q)) qs) = N"
    using assms(3) unfolding def_qs gapless.simps flds_bits_places [of A fs p start_cursor] by blast
  moreover have "e \<le> N" using fcur_in_struct [OF assms(1,2), of p] unfolding def_qs .
  moreover have "b < N" using assms(4) unfolding def_qs .
  ultimately have "\<exists>k. covers qs k b"
    using in_order_room [OF ord] in_order_covers [OF ord, of b] by simp
  then obtain k where k: "covers qs k b" ..
  have "j = k" if "covers qs j b" for j
    using in_order_disjoint [OF ord, of j k] in_order_disjoint [OF ord, of k j] that k
    by (cases j k rule: linorder_cases) (simp_all add: covers_def)
  then show ?thesis using k unfolding def_qs by blast
qed

section \<open>Layouts\<close>

text \<open>Sizes, alignments and padding of the types, in the order of the header: each lemma uses those of the members.\<close>

named_theorems interface_layout

lemma abi_sel: "abi_long sysv = 8" "abi_long msvc = 4" "abi_ptr sysv = 8" "abi_ptr msvc = 8"
  "abi_ms_bits msvc" "\<not> abi_ms_bits sysv"
  by (simp_all add: sysv_def msvc_def)

lemma same_ty_prim: "same_ty (Prim n)"
  by (simp add: same_ty_def)

lemma same_tmem: "same_ty t \<Longrightarrow> tmem msvc pre base t = tmem sysv pre base t"
  by (simp add: same_ty_def)

lemmas same_ty_parts = same_ty_struct same_ty_union same_ty_arr same_ty_aligned same_ty_prim HV_CALL_ATTRIBUTES_def

lemmas interface_eval = abi_sel align_up_def packed_def start_cursor_def crosses_unit_def same_unit_def
  place_def advance_def width_bits_def union_bytes_def enter_def shown_def Let_def
  HV_CALL_ATTRIBUTES_def HV_CALL_ALIGNMENT_def HV_EVENT_FLAGS_BYTE_COUNT_def HV_EVENT_FLAGS_DWORD_COUNT_def
  HV_MESSAGE_PAYLOAD_QWORD_COUNT_def HV_SYNIC_SINT_COUNT_def HV_ANYSIZE_ARRAY_def
  numeral_2_eq_2 [symmetric]

lemma scalar_layout [interface_layout]:
  "csize A HV_STATUS = 2" "calign A HV_STATUS = 2" "gapless A HV_STATUS" "same_ty HV_STATUS" "tmem A pre base HV_STATUS = []"
  "csize A HV_GPA = 8" "calign A HV_GPA = 8" "gapless A HV_GPA" "same_ty HV_GPA" "tmem A pre base HV_GPA = []"
  "csize A HV_GPA_PAGE_NUMBER = 8" "calign A HV_GPA_PAGE_NUMBER = 8" "gapless A HV_GPA_PAGE_NUMBER" "same_ty HV_GPA_PAGE_NUMBER" "tmem A pre base HV_GPA_PAGE_NUMBER = []"
  "csize A HV_GVA = 8" "calign A HV_GVA = 8" "gapless A HV_GVA" "same_ty HV_GVA" "tmem A pre base HV_GVA = []"
  "csize A HV_PARTITION_ID = 8" "calign A HV_PARTITION_ID = 8" "gapless A HV_PARTITION_ID" "same_ty HV_PARTITION_ID" "tmem A pre base HV_PARTITION_ID = []"
  "csize A HV_NANO100_TIME = 8" "calign A HV_NANO100_TIME = 8" "gapless A HV_NANO100_TIME" "same_ty HV_NANO100_TIME" "tmem A pre base HV_NANO100_TIME = []"
  "csize A HV_NANO100_DURATION = 8" "calign A HV_NANO100_DURATION = 8" "gapless A HV_NANO100_DURATION" "same_ty HV_NANO100_DURATION" "tmem A pre base HV_NANO100_DURATION = []"
  "csize A HV_IOMMU_ID = 4" "calign A HV_IOMMU_ID = 4" "gapless A HV_IOMMU_ID" "same_ty HV_IOMMU_ID" "tmem A pre base HV_IOMMU_ID = []"
  "csize A HV_INTERCEPT_ACCESS_TYPE = 1" "calign A HV_INTERCEPT_ACCESS_TYPE = 1" "gapless A HV_INTERCEPT_ACCESS_TYPE" "same_ty HV_INTERCEPT_ACCESS_TYPE" "tmem A pre base HV_INTERCEPT_ACCESS_TYPE = []"
  "csize A HV_VP_INDEX = 4" "calign A HV_VP_INDEX = 4" "gapless A HV_VP_INDEX" "same_ty HV_VP_INDEX" "tmem A pre base HV_VP_INDEX = []"
  "csize A HV_VTL = 1" "calign A HV_VTL = 1" "gapless A HV_VTL" "same_ty HV_VTL" "tmem A pre base HV_VTL = []"
  "csize A HV_MAP_GPA_FLAGS = 4" "calign A HV_MAP_GPA_FLAGS = 4" "gapless A HV_MAP_GPA_FLAGS" "same_ty HV_MAP_GPA_FLAGS" "tmem A pre base HV_MAP_GPA_FLAGS = []"
  "csize A HV_SYNIC_SINT_INDEX = 4" "calign A HV_SYNIC_SINT_INDEX = 4" "gapless A HV_SYNIC_SINT_INDEX" "same_ty HV_SYNIC_SINT_INDEX" "tmem A pre base HV_SYNIC_SINT_INDEX = []"
  "csize A HV_EVENTLOG_BUFFER_INDEX = 4" "calign A HV_EVENTLOG_BUFFER_INDEX = 4" "gapless A HV_EVENTLOG_BUFFER_INDEX" "same_ty HV_EVENTLOG_BUFFER_INDEX" "tmem A pre base HV_EVENTLOG_BUFFER_INDEX = []"
  "csize A HV_ADDRESS_SPACE_ID = 8" "calign A HV_ADDRESS_SPACE_ID = 8" "gapless A HV_ADDRESS_SPACE_ID" "same_ty HV_ADDRESS_SPACE_ID" "tmem A pre base HV_ADDRESS_SPACE_ID = []"
  by (simp_all add: same_ty_prim HV_STATUS_def HV_GPA_def HV_GPA_PAGE_NUMBER_def HV_GVA_def HV_PARTITION_ID_def HV_NANO100_TIME_def HV_NANO100_DURATION_def HV_IOMMU_ID_def HV_INTERCEPT_ACCESS_TYPE_def HV_VP_INDEX_def HV_VTL_def HV_MAP_GPA_FLAGS_def HV_SYNIC_SINT_INDEX_def HV_EVENTLOG_BUFFER_INDEX_def HV_ADDRESS_SPACE_ID_def)

lemma HV_X64_SEGMENT_REGISTER_layout [interface_layout]:
  "csize sysv HV_X64_SEGMENT_REGISTER = 16" "csize msvc HV_X64_SEGMENT_REGISTER = 16" "calign sysv HV_X64_SEGMENT_REGISTER = 8" "calign msvc HV_X64_SEGMENT_REGISTER = 8"
  "gapless sysv HV_X64_SEGMENT_REGISTER" "gapless msvc HV_X64_SEGMENT_REGISTER"
  by (simp_all add: HV_X64_SEGMENT_REGISTER_def interface_eval interface_layout)

lemma HV_X64_SEGMENT_REGISTER_same [interface_layout]: "same_ty HV_X64_SEGMENT_REGISTER"
  by (simp add: HV_X64_SEGMENT_REGISTER_def same_ty_def interface_eval interface_layout)

lemmas HV_X64_SEGMENT_REGISTER_tmem [interface_layout] = same_tmem [OF HV_X64_SEGMENT_REGISTER_same]

lemma HV_X64_TABLE_REGISTER_layout [interface_layout]:
  "csize sysv HV_X64_TABLE_REGISTER = 16" "csize msvc HV_X64_TABLE_REGISTER = 16" "calign sysv HV_X64_TABLE_REGISTER = 8" "calign msvc HV_X64_TABLE_REGISTER = 8"
  "gapless sysv HV_X64_TABLE_REGISTER" "gapless msvc HV_X64_TABLE_REGISTER"
  by (simp_all add: HV_X64_TABLE_REGISTER_def interface_eval interface_layout)

lemma HV_X64_TABLE_REGISTER_same [interface_layout]: "same_ty HV_X64_TABLE_REGISTER"
  by (simp add: HV_X64_TABLE_REGISTER_def same_ty_parts interface_layout)

lemmas HV_X64_TABLE_REGISTER_tmem [interface_layout] = same_tmem [OF HV_X64_TABLE_REGISTER_same]

lemma HV_INITIAL_VP_CONTEXT_X64_layout [interface_layout]:
  "csize sysv (HV_INITIAL_VP_CONTEXT X64) = 224" "csize msvc (HV_INITIAL_VP_CONTEXT X64) = 224" "calign sysv (HV_INITIAL_VP_CONTEXT X64) = 8" "calign msvc (HV_INITIAL_VP_CONTEXT X64) = 8"
  "gapless sysv (HV_INITIAL_VP_CONTEXT X64)" "gapless msvc (HV_INITIAL_VP_CONTEXT X64)"
  by (simp_all add: HV_INITIAL_VP_CONTEXT_def interface_eval interface_layout)

lemma HV_INITIAL_VP_CONTEXT_X64_same [interface_layout]: "same_ty (HV_INITIAL_VP_CONTEXT X64)"
  by (simp add: HV_INITIAL_VP_CONTEXT_def same_ty_parts interface_layout)

lemmas HV_INITIAL_VP_CONTEXT_X64_tmem [interface_layout] = same_tmem [OF HV_INITIAL_VP_CONTEXT_X64_same]

lemma HV_INITIAL_VP_CONTEXT_ARM64_layout [interface_layout]:
  "csize sysv (HV_INITIAL_VP_CONTEXT ARM64) = 72" "csize msvc (HV_INITIAL_VP_CONTEXT ARM64) = 72" "calign sysv (HV_INITIAL_VP_CONTEXT ARM64) = 8" "calign msvc (HV_INITIAL_VP_CONTEXT ARM64) = 8"
  "gapless sysv (HV_INITIAL_VP_CONTEXT ARM64)" "gapless msvc (HV_INITIAL_VP_CONTEXT ARM64)"
  by (simp_all add: HV_INITIAL_VP_CONTEXT_def interface_eval interface_layout)

lemma HV_INITIAL_VP_CONTEXT_ARM64_same [interface_layout]: "same_ty (HV_INITIAL_VP_CONTEXT ARM64)"
  by (simp add: HV_INITIAL_VP_CONTEXT_def same_ty_parts interface_layout)

lemmas HV_INITIAL_VP_CONTEXT_ARM64_tmem [interface_layout] = same_tmem [OF HV_INITIAL_VP_CONTEXT_ARM64_same]

lemma HV_HYPERVISOR_VERSION_INFO_layout [interface_layout]:
  "csize sysv HV_HYPERVISOR_VERSION_INFO = 16" "csize msvc HV_HYPERVISOR_VERSION_INFO = 16" "calign sysv HV_HYPERVISOR_VERSION_INFO = 4" "calign msvc HV_HYPERVISOR_VERSION_INFO = 4"
  "gapless sysv HV_HYPERVISOR_VERSION_INFO" "gapless msvc HV_HYPERVISOR_VERSION_INFO"
  by (simp_all add: HV_HYPERVISOR_VERSION_INFO_def interface_eval interface_layout)

lemma HV_HYPERVISOR_VERSION_INFO_same [interface_layout]: "same_ty HV_HYPERVISOR_VERSION_INFO"
  by (simp add: HV_HYPERVISOR_VERSION_INFO_def same_ty_def interface_eval interface_layout)

lemmas HV_HYPERVISOR_VERSION_INFO_tmem [interface_layout] = same_tmem [OF HV_HYPERVISOR_VERSION_INFO_same]

lemma HV_PARTITION_PRIVILEGE_MASK_layout [interface_layout]:
  "csize sysv HV_PARTITION_PRIVILEGE_MASK = 8" "csize msvc HV_PARTITION_PRIVILEGE_MASK = 8" "calign sysv HV_PARTITION_PRIVILEGE_MASK = 8" "calign msvc HV_PARTITION_PRIVILEGE_MASK = 8"
  "gapless sysv HV_PARTITION_PRIVILEGE_MASK" "gapless msvc HV_PARTITION_PRIVILEGE_MASK"
  by (simp_all add: HV_PARTITION_PRIVILEGE_MASK_def interface_eval interface_layout)

lemma HV_PARTITION_PRIVILEGE_MASK_same [interface_layout]: "same_ty HV_PARTITION_PRIVILEGE_MASK"
  by (simp add: HV_PARTITION_PRIVILEGE_MASK_def same_ty_def interface_eval interface_layout)

lemmas HV_PARTITION_PRIVILEGE_MASK_tmem [interface_layout] = same_tmem [OF HV_PARTITION_PRIVILEGE_MASK_same]

lemma HV_X64_PLATFORM_CAPABILITIES_layout [interface_layout]:
  "csize sysv HV_X64_PLATFORM_CAPABILITIES = 16" "csize msvc HV_X64_PLATFORM_CAPABILITIES = 16" "calign sysv HV_X64_PLATFORM_CAPABILITIES = 8" "calign msvc HV_X64_PLATFORM_CAPABILITIES = 8"
  "gapless sysv HV_X64_PLATFORM_CAPABILITIES" "gapless msvc HV_X64_PLATFORM_CAPABILITIES"
  by (simp_all add: HV_X64_PLATFORM_CAPABILITIES_def interface_eval interface_layout)

lemma HV_X64_PLATFORM_CAPABILITIES_same [interface_layout]: "same_ty HV_X64_PLATFORM_CAPABILITIES"
  by (simp add: HV_X64_PLATFORM_CAPABILITIES_def same_ty_def interface_eval interface_layout)

lemmas HV_X64_PLATFORM_CAPABILITIES_tmem [interface_layout] = same_tmem [OF HV_X64_PLATFORM_CAPABILITIES_same]

lemma HV_VENDOR_AND_MAX_FUNCTION_layout [interface_layout]:
  "csize sysv HV_VENDOR_AND_MAX_FUNCTION = 16" "csize msvc HV_VENDOR_AND_MAX_FUNCTION = 16" "calign sysv HV_VENDOR_AND_MAX_FUNCTION = 4" "calign msvc HV_VENDOR_AND_MAX_FUNCTION = 4"
  "gapless sysv HV_VENDOR_AND_MAX_FUNCTION" "gapless msvc HV_VENDOR_AND_MAX_FUNCTION"
  by (simp_all add: HV_VENDOR_AND_MAX_FUNCTION_def interface_eval interface_layout)

lemma HV_VENDOR_AND_MAX_FUNCTION_same [interface_layout]: "same_ty HV_VENDOR_AND_MAX_FUNCTION"
  by (simp add: HV_VENDOR_AND_MAX_FUNCTION_def same_ty_parts interface_layout)

lemmas HV_VENDOR_AND_MAX_FUNCTION_tmem [interface_layout] = same_tmem [OF HV_VENDOR_AND_MAX_FUNCTION_same]

lemma HV_HYPERVISOR_INTERFACE_INFO_layout [interface_layout]:
  "csize sysv HV_HYPERVISOR_INTERFACE_INFO = 16" "csize msvc HV_HYPERVISOR_INTERFACE_INFO = 16" "calign sysv HV_HYPERVISOR_INTERFACE_INFO = 4" "calign msvc HV_HYPERVISOR_INTERFACE_INFO = 4"
  "gapless sysv HV_HYPERVISOR_INTERFACE_INFO" "gapless msvc HV_HYPERVISOR_INTERFACE_INFO"
  by (simp_all add: HV_HYPERVISOR_INTERFACE_INFO_def interface_eval interface_layout)

lemma HV_HYPERVISOR_INTERFACE_INFO_same [interface_layout]: "same_ty HV_HYPERVISOR_INTERFACE_INFO"
  by (simp add: HV_HYPERVISOR_INTERFACE_INFO_def same_ty_parts interface_layout)

lemmas HV_HYPERVISOR_INTERFACE_INFO_tmem [interface_layout] = same_tmem [OF HV_HYPERVISOR_INTERFACE_INFO_same]

lemma HV_X64_HYPERVISOR_FEATURES_layout [interface_layout]:
  "csize sysv HV_X64_HYPERVISOR_FEATURES = 16" "csize msvc HV_X64_HYPERVISOR_FEATURES = 16" "calign sysv HV_X64_HYPERVISOR_FEATURES = 8" "calign msvc HV_X64_HYPERVISOR_FEATURES = 8"
  "gapless sysv HV_X64_HYPERVISOR_FEATURES" "gapless msvc HV_X64_HYPERVISOR_FEATURES"
  by (simp_all add: HV_X64_HYPERVISOR_FEATURES_def interface_eval interface_layout)

lemma HV_X64_HYPERVISOR_FEATURES_same [interface_layout]: "same_ty HV_X64_HYPERVISOR_FEATURES"
  by (simp add: HV_X64_HYPERVISOR_FEATURES_def same_ty_def interface_eval interface_layout)

lemmas HV_X64_HYPERVISOR_FEATURES_tmem [interface_layout] = same_tmem [OF HV_X64_HYPERVISOR_FEATURES_same]

lemma HV_ARM64_HYPERVISOR_FEATURES_layout [interface_layout]:
  "csize sysv HV_ARM64_HYPERVISOR_FEATURES = 16" "csize msvc HV_ARM64_HYPERVISOR_FEATURES = 16" "calign sysv HV_ARM64_HYPERVISOR_FEATURES = 8" "calign msvc HV_ARM64_HYPERVISOR_FEATURES = 8"
  "\<not> gapless sysv HV_ARM64_HYPERVISOR_FEATURES" "\<not> gapless msvc HV_ARM64_HYPERVISOR_FEATURES"
  by (simp_all add: HV_ARM64_HYPERVISOR_FEATURES_def interface_eval interface_layout)

lemma HV_ARM64_HYPERVISOR_FEATURES_same [interface_layout]: "same_ty HV_ARM64_HYPERVISOR_FEATURES"
  by (simp add: HV_ARM64_HYPERVISOR_FEATURES_def same_ty_def interface_eval interface_layout)

lemmas HV_ARM64_HYPERVISOR_FEATURES_tmem [interface_layout] = same_tmem [OF HV_ARM64_HYPERVISOR_FEATURES_same]

lemma HV_HYPERVISOR_FEATURES_X64_layout [interface_layout]:
  "csize sysv (HV_HYPERVISOR_FEATURES X64) = 16" "csize msvc (HV_HYPERVISOR_FEATURES X64) = 16" "calign sysv (HV_HYPERVISOR_FEATURES X64) = 8" "calign msvc (HV_HYPERVISOR_FEATURES X64) = 8"
  "gapless sysv (HV_HYPERVISOR_FEATURES X64)" "gapless msvc (HV_HYPERVISOR_FEATURES X64)"
  by (simp_all add: HV_HYPERVISOR_FEATURES_def interface_eval interface_layout)

lemma HV_HYPERVISOR_FEATURES_X64_same [interface_layout]: "same_ty (HV_HYPERVISOR_FEATURES X64)"
  by (simp add: HV_HYPERVISOR_FEATURES_def same_ty_parts interface_layout)

lemmas HV_HYPERVISOR_FEATURES_X64_tmem [interface_layout] = same_tmem [OF HV_HYPERVISOR_FEATURES_X64_same]

lemma HV_HYPERVISOR_FEATURES_ARM64_layout [interface_layout]:
  "csize sysv (HV_HYPERVISOR_FEATURES ARM64) = 16" "csize msvc (HV_HYPERVISOR_FEATURES ARM64) = 16" "calign sysv (HV_HYPERVISOR_FEATURES ARM64) = 8" "calign msvc (HV_HYPERVISOR_FEATURES ARM64) = 8"
  "\<not> gapless sysv (HV_HYPERVISOR_FEATURES ARM64)" "\<not> gapless msvc (HV_HYPERVISOR_FEATURES ARM64)"
  by (simp_all add: HV_HYPERVISOR_FEATURES_def interface_eval interface_layout)

lemma HV_HYPERVISOR_FEATURES_ARM64_same [interface_layout]: "same_ty (HV_HYPERVISOR_FEATURES ARM64)"
  by (simp add: HV_HYPERVISOR_FEATURES_def same_ty_parts interface_layout)

lemmas HV_HYPERVISOR_FEATURES_ARM64_tmem [interface_layout] = same_tmem [OF HV_HYPERVISOR_FEATURES_ARM64_same]

lemma HV_X64_ENLIGHTENMENT_INFORMATION_layout [interface_layout]:
  "csize sysv HV_X64_ENLIGHTENMENT_INFORMATION = 16" "csize msvc HV_X64_ENLIGHTENMENT_INFORMATION = 16" "calign sysv HV_X64_ENLIGHTENMENT_INFORMATION = 4" "calign msvc HV_X64_ENLIGHTENMENT_INFORMATION = 4"
  "gapless sysv HV_X64_ENLIGHTENMENT_INFORMATION" "gapless msvc HV_X64_ENLIGHTENMENT_INFORMATION"
  by (simp_all add: HV_X64_ENLIGHTENMENT_INFORMATION_def interface_eval interface_layout)

lemma HV_X64_ENLIGHTENMENT_INFORMATION_same [interface_layout]: "same_ty HV_X64_ENLIGHTENMENT_INFORMATION"
  by (simp add: HV_X64_ENLIGHTENMENT_INFORMATION_def same_ty_def interface_eval interface_layout)

lemmas HV_X64_ENLIGHTENMENT_INFORMATION_tmem [interface_layout] = same_tmem [OF HV_X64_ENLIGHTENMENT_INFORMATION_same]

lemma HV_ARM64_ENLIGHTENMENT_INFORMATION_layout [interface_layout]:
  "csize sysv HV_ARM64_ENLIGHTENMENT_INFORMATION = 16" "csize msvc HV_ARM64_ENLIGHTENMENT_INFORMATION = 16" "calign sysv HV_ARM64_ENLIGHTENMENT_INFORMATION = 4" "calign msvc HV_ARM64_ENLIGHTENMENT_INFORMATION = 4"
  "gapless sysv HV_ARM64_ENLIGHTENMENT_INFORMATION" "gapless msvc HV_ARM64_ENLIGHTENMENT_INFORMATION"
  by (simp_all add: HV_ARM64_ENLIGHTENMENT_INFORMATION_def interface_eval interface_layout)

lemma HV_ARM64_ENLIGHTENMENT_INFORMATION_same [interface_layout]: "same_ty HV_ARM64_ENLIGHTENMENT_INFORMATION"
  by (simp add: HV_ARM64_ENLIGHTENMENT_INFORMATION_def same_ty_def interface_eval interface_layout)

lemmas HV_ARM64_ENLIGHTENMENT_INFORMATION_tmem [interface_layout] = same_tmem [OF HV_ARM64_ENLIGHTENMENT_INFORMATION_same]

lemma HV_ENLIGHTENMENT_INFORMATION_X64_layout [interface_layout]:
  "csize sysv (HV_ENLIGHTENMENT_INFORMATION X64) = 16" "csize msvc (HV_ENLIGHTENMENT_INFORMATION X64) = 16" "calign sysv (HV_ENLIGHTENMENT_INFORMATION X64) = 4" "calign msvc (HV_ENLIGHTENMENT_INFORMATION X64) = 4"
  "gapless sysv (HV_ENLIGHTENMENT_INFORMATION X64)" "gapless msvc (HV_ENLIGHTENMENT_INFORMATION X64)"
  by (simp_all add: HV_ENLIGHTENMENT_INFORMATION_def interface_eval interface_layout)

lemma HV_ENLIGHTENMENT_INFORMATION_X64_same [interface_layout]: "same_ty (HV_ENLIGHTENMENT_INFORMATION X64)"
  by (simp add: HV_ENLIGHTENMENT_INFORMATION_def same_ty_parts interface_layout)

lemmas HV_ENLIGHTENMENT_INFORMATION_X64_tmem [interface_layout] = same_tmem [OF HV_ENLIGHTENMENT_INFORMATION_X64_same]

lemma HV_ENLIGHTENMENT_INFORMATION_ARM64_layout [interface_layout]:
  "csize sysv (HV_ENLIGHTENMENT_INFORMATION ARM64) = 16" "csize msvc (HV_ENLIGHTENMENT_INFORMATION ARM64) = 16" "calign sysv (HV_ENLIGHTENMENT_INFORMATION ARM64) = 4" "calign msvc (HV_ENLIGHTENMENT_INFORMATION ARM64) = 4"
  "gapless sysv (HV_ENLIGHTENMENT_INFORMATION ARM64)" "gapless msvc (HV_ENLIGHTENMENT_INFORMATION ARM64)"
  by (simp_all add: HV_ENLIGHTENMENT_INFORMATION_def interface_eval interface_layout)

lemma HV_ENLIGHTENMENT_INFORMATION_ARM64_same [interface_layout]: "same_ty (HV_ENLIGHTENMENT_INFORMATION ARM64)"
  by (simp add: HV_ENLIGHTENMENT_INFORMATION_def same_ty_parts interface_layout)

lemmas HV_ENLIGHTENMENT_INFORMATION_ARM64_tmem [interface_layout] = same_tmem [OF HV_ENLIGHTENMENT_INFORMATION_ARM64_same]

lemma HV_IMPLEMENTATION_LIMITS_layout [interface_layout]:
  "csize sysv HV_IMPLEMENTATION_LIMITS = 16" "csize msvc HV_IMPLEMENTATION_LIMITS = 16" "calign sysv HV_IMPLEMENTATION_LIMITS = 4" "calign msvc HV_IMPLEMENTATION_LIMITS = 4"
  "gapless sysv HV_IMPLEMENTATION_LIMITS" "gapless msvc HV_IMPLEMENTATION_LIMITS"
  by (simp_all add: HV_IMPLEMENTATION_LIMITS_def interface_eval interface_layout)

lemma HV_IMPLEMENTATION_LIMITS_same [interface_layout]: "same_ty HV_IMPLEMENTATION_LIMITS"
  by (simp add: HV_IMPLEMENTATION_LIMITS_def same_ty_parts interface_layout)

lemmas HV_IMPLEMENTATION_LIMITS_tmem [interface_layout] = same_tmem [OF HV_IMPLEMENTATION_LIMITS_same]

lemma HV_X64_HYPERVISOR_HARDWARE_FEATURES_layout [interface_layout]:
  "csize sysv HV_X64_HYPERVISOR_HARDWARE_FEATURES = 16" "csize msvc HV_X64_HYPERVISOR_HARDWARE_FEATURES = 16" "calign sysv HV_X64_HYPERVISOR_HARDWARE_FEATURES = 4" "calign msvc HV_X64_HYPERVISOR_HARDWARE_FEATURES = 4"
  "gapless sysv HV_X64_HYPERVISOR_HARDWARE_FEATURES" "gapless msvc HV_X64_HYPERVISOR_HARDWARE_FEATURES"
  by (simp_all add: HV_X64_HYPERVISOR_HARDWARE_FEATURES_def interface_eval interface_layout)

lemma HV_X64_HYPERVISOR_HARDWARE_FEATURES_same [interface_layout]: "same_ty HV_X64_HYPERVISOR_HARDWARE_FEATURES"
  by (simp add: HV_X64_HYPERVISOR_HARDWARE_FEATURES_def same_ty_def interface_eval interface_layout)

lemmas HV_X64_HYPERVISOR_HARDWARE_FEATURES_tmem [interface_layout] = same_tmem [OF HV_X64_HYPERVISOR_HARDWARE_FEATURES_same]

lemma HV_ARM64_HYPERVISOR_HARDWARE_FEATURES_layout [interface_layout]:
  "csize sysv HV_ARM64_HYPERVISOR_HARDWARE_FEATURES = 16" "csize msvc HV_ARM64_HYPERVISOR_HARDWARE_FEATURES = 16" "calign sysv HV_ARM64_HYPERVISOR_HARDWARE_FEATURES = 4" "calign msvc HV_ARM64_HYPERVISOR_HARDWARE_FEATURES = 4"
  "gapless sysv HV_ARM64_HYPERVISOR_HARDWARE_FEATURES" "gapless msvc HV_ARM64_HYPERVISOR_HARDWARE_FEATURES"
  by (simp_all add: HV_ARM64_HYPERVISOR_HARDWARE_FEATURES_def interface_eval interface_layout)

lemma HV_ARM64_HYPERVISOR_HARDWARE_FEATURES_same [interface_layout]: "same_ty HV_ARM64_HYPERVISOR_HARDWARE_FEATURES"
  by (simp add: HV_ARM64_HYPERVISOR_HARDWARE_FEATURES_def same_ty_def interface_eval interface_layout)

lemmas HV_ARM64_HYPERVISOR_HARDWARE_FEATURES_tmem [interface_layout] = same_tmem [OF HV_ARM64_HYPERVISOR_HARDWARE_FEATURES_same]

lemma HV_HYPERVISOR_HARDWARE_FEATURES_X64_layout [interface_layout]:
  "csize sysv (HV_HYPERVISOR_HARDWARE_FEATURES X64) = 16" "csize msvc (HV_HYPERVISOR_HARDWARE_FEATURES X64) = 16" "calign sysv (HV_HYPERVISOR_HARDWARE_FEATURES X64) = 4" "calign msvc (HV_HYPERVISOR_HARDWARE_FEATURES X64) = 4"
  "gapless sysv (HV_HYPERVISOR_HARDWARE_FEATURES X64)" "gapless msvc (HV_HYPERVISOR_HARDWARE_FEATURES X64)"
  by (simp_all add: HV_HYPERVISOR_HARDWARE_FEATURES_def interface_eval interface_layout)

lemma HV_HYPERVISOR_HARDWARE_FEATURES_X64_same [interface_layout]: "same_ty (HV_HYPERVISOR_HARDWARE_FEATURES X64)"
  by (simp add: HV_HYPERVISOR_HARDWARE_FEATURES_def same_ty_parts interface_layout)

lemmas HV_HYPERVISOR_HARDWARE_FEATURES_X64_tmem [interface_layout] = same_tmem [OF HV_HYPERVISOR_HARDWARE_FEATURES_X64_same]

lemma HV_HYPERVISOR_HARDWARE_FEATURES_ARM64_layout [interface_layout]:
  "csize sysv (HV_HYPERVISOR_HARDWARE_FEATURES ARM64) = 16" "csize msvc (HV_HYPERVISOR_HARDWARE_FEATURES ARM64) = 16" "calign sysv (HV_HYPERVISOR_HARDWARE_FEATURES ARM64) = 4" "calign msvc (HV_HYPERVISOR_HARDWARE_FEATURES ARM64) = 4"
  "gapless sysv (HV_HYPERVISOR_HARDWARE_FEATURES ARM64)" "gapless msvc (HV_HYPERVISOR_HARDWARE_FEATURES ARM64)"
  by (simp_all add: HV_HYPERVISOR_HARDWARE_FEATURES_def interface_eval interface_layout)

lemma HV_HYPERVISOR_HARDWARE_FEATURES_ARM64_same [interface_layout]: "same_ty (HV_HYPERVISOR_HARDWARE_FEATURES ARM64)"
  by (simp add: HV_HYPERVISOR_HARDWARE_FEATURES_def same_ty_parts interface_layout)

lemmas HV_HYPERVISOR_HARDWARE_FEATURES_ARM64_tmem [interface_layout] = same_tmem [OF HV_HYPERVISOR_HARDWARE_FEATURES_ARM64_same]

lemma HV_X64_HYPERVISOR_CPU_MANAGEMENT_FEATURES_layout [interface_layout]:
  "csize sysv HV_X64_HYPERVISOR_CPU_MANAGEMENT_FEATURES = 16" "csize msvc HV_X64_HYPERVISOR_CPU_MANAGEMENT_FEATURES = 16" "calign sysv HV_X64_HYPERVISOR_CPU_MANAGEMENT_FEATURES = 4" "calign msvc HV_X64_HYPERVISOR_CPU_MANAGEMENT_FEATURES = 4"
  "gapless sysv HV_X64_HYPERVISOR_CPU_MANAGEMENT_FEATURES" "gapless msvc HV_X64_HYPERVISOR_CPU_MANAGEMENT_FEATURES"
  by (simp_all add: HV_X64_HYPERVISOR_CPU_MANAGEMENT_FEATURES_def interface_eval interface_layout)

lemma HV_X64_HYPERVISOR_CPU_MANAGEMENT_FEATURES_same [interface_layout]: "same_ty HV_X64_HYPERVISOR_CPU_MANAGEMENT_FEATURES"
  by (simp add: HV_X64_HYPERVISOR_CPU_MANAGEMENT_FEATURES_def same_ty_def interface_eval interface_layout)

lemmas HV_X64_HYPERVISOR_CPU_MANAGEMENT_FEATURES_tmem [interface_layout] = same_tmem [OF HV_X64_HYPERVISOR_CPU_MANAGEMENT_FEATURES_same]

lemma HV_ARM64_HYPERVISOR_CPU_MANAGEMENT_FEATURES_layout [interface_layout]:
  "csize sysv HV_ARM64_HYPERVISOR_CPU_MANAGEMENT_FEATURES = 16" "csize msvc HV_ARM64_HYPERVISOR_CPU_MANAGEMENT_FEATURES = 16" "calign sysv HV_ARM64_HYPERVISOR_CPU_MANAGEMENT_FEATURES = 4" "calign msvc HV_ARM64_HYPERVISOR_CPU_MANAGEMENT_FEATURES = 4"
  "gapless sysv HV_ARM64_HYPERVISOR_CPU_MANAGEMENT_FEATURES" "gapless msvc HV_ARM64_HYPERVISOR_CPU_MANAGEMENT_FEATURES"
  by (simp_all add: HV_ARM64_HYPERVISOR_CPU_MANAGEMENT_FEATURES_def interface_eval interface_layout)

lemma HV_ARM64_HYPERVISOR_CPU_MANAGEMENT_FEATURES_same [interface_layout]: "same_ty HV_ARM64_HYPERVISOR_CPU_MANAGEMENT_FEATURES"
  by (simp add: HV_ARM64_HYPERVISOR_CPU_MANAGEMENT_FEATURES_def same_ty_def interface_eval interface_layout)

lemmas HV_ARM64_HYPERVISOR_CPU_MANAGEMENT_FEATURES_tmem [interface_layout] = same_tmem [OF HV_ARM64_HYPERVISOR_CPU_MANAGEMENT_FEATURES_same]

lemma HV_HYPERVISOR_CPU_MANAGEMENT_FEATURES_X64_layout [interface_layout]:
  "csize sysv (HV_HYPERVISOR_CPU_MANAGEMENT_FEATURES X64) = 16" "csize msvc (HV_HYPERVISOR_CPU_MANAGEMENT_FEATURES X64) = 16" "calign sysv (HV_HYPERVISOR_CPU_MANAGEMENT_FEATURES X64) = 4" "calign msvc (HV_HYPERVISOR_CPU_MANAGEMENT_FEATURES X64) = 4"
  "gapless sysv (HV_HYPERVISOR_CPU_MANAGEMENT_FEATURES X64)" "gapless msvc (HV_HYPERVISOR_CPU_MANAGEMENT_FEATURES X64)"
  by (simp_all add: HV_HYPERVISOR_CPU_MANAGEMENT_FEATURES_def interface_eval interface_layout)

lemma HV_HYPERVISOR_CPU_MANAGEMENT_FEATURES_X64_same [interface_layout]: "same_ty (HV_HYPERVISOR_CPU_MANAGEMENT_FEATURES X64)"
  by (simp add: HV_HYPERVISOR_CPU_MANAGEMENT_FEATURES_def same_ty_parts interface_layout)

lemmas HV_HYPERVISOR_CPU_MANAGEMENT_FEATURES_X64_tmem [interface_layout] = same_tmem [OF HV_HYPERVISOR_CPU_MANAGEMENT_FEATURES_X64_same]

lemma HV_HYPERVISOR_CPU_MANAGEMENT_FEATURES_ARM64_layout [interface_layout]:
  "csize sysv (HV_HYPERVISOR_CPU_MANAGEMENT_FEATURES ARM64) = 16" "csize msvc (HV_HYPERVISOR_CPU_MANAGEMENT_FEATURES ARM64) = 16" "calign sysv (HV_HYPERVISOR_CPU_MANAGEMENT_FEATURES ARM64) = 4" "calign msvc (HV_HYPERVISOR_CPU_MANAGEMENT_FEATURES ARM64) = 4"
  "gapless sysv (HV_HYPERVISOR_CPU_MANAGEMENT_FEATURES ARM64)" "gapless msvc (HV_HYPERVISOR_CPU_MANAGEMENT_FEATURES ARM64)"
  by (simp_all add: HV_HYPERVISOR_CPU_MANAGEMENT_FEATURES_def interface_eval interface_layout)

lemma HV_HYPERVISOR_CPU_MANAGEMENT_FEATURES_ARM64_same [interface_layout]: "same_ty (HV_HYPERVISOR_CPU_MANAGEMENT_FEATURES ARM64)"
  by (simp add: HV_HYPERVISOR_CPU_MANAGEMENT_FEATURES_def same_ty_parts interface_layout)

lemmas HV_HYPERVISOR_CPU_MANAGEMENT_FEATURES_ARM64_tmem [interface_layout] = same_tmem [OF HV_HYPERVISOR_CPU_MANAGEMENT_FEATURES_ARM64_same]

lemma HV_HYPERVISOR_SVM_FEATURES_layout [interface_layout]:
  "csize sysv HV_HYPERVISOR_SVM_FEATURES = 16" "csize msvc HV_HYPERVISOR_SVM_FEATURES = 16" "calign sysv HV_HYPERVISOR_SVM_FEATURES = 4" "calign msvc HV_HYPERVISOR_SVM_FEATURES = 4"
  "gapless sysv HV_HYPERVISOR_SVM_FEATURES" "gapless msvc HV_HYPERVISOR_SVM_FEATURES"
  by (simp_all add: HV_HYPERVISOR_SVM_FEATURES_def interface_eval interface_layout)

lemma HV_HYPERVISOR_SVM_FEATURES_same [interface_layout]: "same_ty HV_HYPERVISOR_SVM_FEATURES"
  by (simp add: HV_HYPERVISOR_SVM_FEATURES_def same_ty_def interface_eval interface_layout)

lemmas HV_HYPERVISOR_SVM_FEATURES_tmem [interface_layout] = same_tmem [OF HV_HYPERVISOR_SVM_FEATURES_same]

lemma HV_HYPERVISOR_NESTED_VIRT_FEATURES_layout [interface_layout]:
  "csize sysv HV_HYPERVISOR_NESTED_VIRT_FEATURES = 16" "csize msvc HV_HYPERVISOR_NESTED_VIRT_FEATURES = 16" "calign sysv HV_HYPERVISOR_NESTED_VIRT_FEATURES = 4" "calign msvc HV_HYPERVISOR_NESTED_VIRT_FEATURES = 4"
  "gapless sysv HV_HYPERVISOR_NESTED_VIRT_FEATURES" "gapless msvc HV_HYPERVISOR_NESTED_VIRT_FEATURES"
  by (simp_all add: HV_HYPERVISOR_NESTED_VIRT_FEATURES_def interface_eval interface_layout)

lemma HV_HYPERVISOR_NESTED_VIRT_FEATURES_same [interface_layout]: "same_ty HV_HYPERVISOR_NESTED_VIRT_FEATURES"
  by (simp add: HV_HYPERVISOR_NESTED_VIRT_FEATURES_def same_ty_def interface_eval interface_layout)

lemmas HV_HYPERVISOR_NESTED_VIRT_FEATURES_tmem [interface_layout] = same_tmem [OF HV_HYPERVISOR_NESTED_VIRT_FEATURES_same]

lemma HV_HYPERVISOR_ISOLATION_CONFIGURATION_layout [interface_layout]:
  "csize sysv HV_HYPERVISOR_ISOLATION_CONFIGURATION = 16" "csize msvc HV_HYPERVISOR_ISOLATION_CONFIGURATION = 16" "calign sysv HV_HYPERVISOR_ISOLATION_CONFIGURATION = 4" "calign msvc HV_HYPERVISOR_ISOLATION_CONFIGURATION = 4"
  "gapless sysv HV_HYPERVISOR_ISOLATION_CONFIGURATION" "gapless msvc HV_HYPERVISOR_ISOLATION_CONFIGURATION"
  by (simp_all add: HV_HYPERVISOR_ISOLATION_CONFIGURATION_def interface_eval interface_layout)

lemma HV_HYPERVISOR_ISOLATION_CONFIGURATION_same [interface_layout]: "same_ty HV_HYPERVISOR_ISOLATION_CONFIGURATION"
  by (simp add: HV_HYPERVISOR_ISOLATION_CONFIGURATION_def same_ty_def interface_eval interface_layout)

lemmas HV_HYPERVISOR_ISOLATION_CONFIGURATION_tmem [interface_layout] = same_tmem [OF HV_HYPERVISOR_ISOLATION_CONFIGURATION_same]

lemma HV_CPUID_RESULT_X64_layout [interface_layout]:
  "csize sysv (HV_CPUID_RESULT X64) = 16" "csize msvc (HV_CPUID_RESULT X64) = 16" "calign sysv (HV_CPUID_RESULT X64) = 8" "calign msvc (HV_CPUID_RESULT X64) = 8"
  "gapless sysv (HV_CPUID_RESULT X64)" "gapless msvc (HV_CPUID_RESULT X64)"
  by (simp_all add: HV_CPUID_RESULT_def interface_eval interface_layout)

lemma HV_CPUID_RESULT_X64_same [interface_layout]: "same_ty (HV_CPUID_RESULT X64)"
  by (simp add: HV_CPUID_RESULT_def same_ty_def interface_eval interface_layout)

lemmas HV_CPUID_RESULT_X64_tmem [interface_layout] = same_tmem [OF HV_CPUID_RESULT_X64_same]

lemma HV_CPUID_RESULT_ARM64_layout [interface_layout]:
  "csize sysv (HV_CPUID_RESULT ARM64) = 16" "csize msvc (HV_CPUID_RESULT ARM64) = 16" "calign sysv (HV_CPUID_RESULT ARM64) = 8" "calign msvc (HV_CPUID_RESULT ARM64) = 8"
  "\<not> gapless sysv (HV_CPUID_RESULT ARM64)" "\<not> gapless msvc (HV_CPUID_RESULT ARM64)"
  by (simp_all add: HV_CPUID_RESULT_def interface_eval interface_layout)

lemma HV_CPUID_RESULT_ARM64_same [interface_layout]: "same_ty (HV_CPUID_RESULT ARM64)"
  by (simp add: HV_CPUID_RESULT_def same_ty_def interface_eval interface_layout)

lemmas HV_CPUID_RESULT_ARM64_tmem [interface_layout] = same_tmem [OF HV_CPUID_RESULT_ARM64_same]

lemma HV_GUEST_OS_ID_CONTENTS_layout [interface_layout]:
  "csize sysv HV_GUEST_OS_ID_CONTENTS = 8" "csize msvc HV_GUEST_OS_ID_CONTENTS = 8" "calign sysv HV_GUEST_OS_ID_CONTENTS = 8" "calign msvc HV_GUEST_OS_ID_CONTENTS = 8"
  "gapless sysv HV_GUEST_OS_ID_CONTENTS" "gapless msvc HV_GUEST_OS_ID_CONTENTS"
  by (simp_all add: HV_GUEST_OS_ID_CONTENTS_def interface_eval interface_layout)

lemma HV_GUEST_OS_ID_CONTENTS_same [interface_layout]: "same_ty HV_GUEST_OS_ID_CONTENTS"
  by (simp add: HV_GUEST_OS_ID_CONTENTS_def same_ty_def interface_eval interface_layout)

lemmas HV_GUEST_OS_ID_CONTENTS_tmem [interface_layout] = same_tmem [OF HV_GUEST_OS_ID_CONTENTS_same]

lemma HV_X64_MSR_HYPERCALL_CONTENTS_layout [interface_layout]:
  "csize sysv HV_X64_MSR_HYPERCALL_CONTENTS = 8" "csize msvc HV_X64_MSR_HYPERCALL_CONTENTS = 8" "calign sysv HV_X64_MSR_HYPERCALL_CONTENTS = 8" "calign msvc HV_X64_MSR_HYPERCALL_CONTENTS = 8"
  "gapless sysv HV_X64_MSR_HYPERCALL_CONTENTS" "gapless msvc HV_X64_MSR_HYPERCALL_CONTENTS"
  by (simp_all add: HV_X64_MSR_HYPERCALL_CONTENTS_def interface_eval interface_layout)

lemma HV_X64_MSR_HYPERCALL_CONTENTS_same [interface_layout]: "same_ty HV_X64_MSR_HYPERCALL_CONTENTS"
  by (simp add: HV_X64_MSR_HYPERCALL_CONTENTS_def same_ty_def interface_eval interface_layout)

lemmas HV_X64_MSR_HYPERCALL_CONTENTS_tmem [interface_layout] = same_tmem [OF HV_X64_MSR_HYPERCALL_CONTENTS_same]

lemma HV_CRASH_CTL_REG_CONTENTS_layout [interface_layout]:
  "csize sysv HV_CRASH_CTL_REG_CONTENTS = 8" "csize msvc HV_CRASH_CTL_REG_CONTENTS = 8" "calign sysv HV_CRASH_CTL_REG_CONTENTS = 8" "calign msvc HV_CRASH_CTL_REG_CONTENTS = 8"
  "gapless sysv HV_CRASH_CTL_REG_CONTENTS" "gapless msvc HV_CRASH_CTL_REG_CONTENTS"
  by (simp_all add: HV_CRASH_CTL_REG_CONTENTS_def interface_eval interface_layout)

lemma HV_CRASH_CTL_REG_CONTENTS_same [interface_layout]: "same_ty HV_CRASH_CTL_REG_CONTENTS"
  by (simp add: HV_CRASH_CTL_REG_CONTENTS_def same_ty_def interface_eval interface_layout)

lemmas HV_CRASH_CTL_REG_CONTENTS_tmem [interface_layout] = same_tmem [OF HV_CRASH_CTL_REG_CONTENTS_same]

lemma HV_SYNIC_SINT_X64_layout [interface_layout]:
  "csize sysv (HV_SYNIC_SINT X64) = 8" "csize msvc (HV_SYNIC_SINT X64) = 8" "calign sysv (HV_SYNIC_SINT X64) = 8" "calign msvc (HV_SYNIC_SINT X64) = 8"
  "gapless sysv (HV_SYNIC_SINT X64)" "gapless msvc (HV_SYNIC_SINT X64)"
  by (simp_all add: HV_SYNIC_SINT_def interface_eval interface_layout)

lemma HV_SYNIC_SINT_X64_same [interface_layout]: "same_ty (HV_SYNIC_SINT X64)"
  by (simp add: HV_SYNIC_SINT_def same_ty_def interface_eval interface_layout)

lemmas HV_SYNIC_SINT_X64_tmem [interface_layout] = same_tmem [OF HV_SYNIC_SINT_X64_same]

lemma HV_SYNIC_SINT_ARM64_layout [interface_layout]:
  "csize sysv (HV_SYNIC_SINT ARM64) = 8" "csize msvc (HV_SYNIC_SINT ARM64) = 8" "calign sysv (HV_SYNIC_SINT ARM64) = 8" "calign msvc (HV_SYNIC_SINT ARM64) = 8"
  "gapless sysv (HV_SYNIC_SINT ARM64)" "gapless msvc (HV_SYNIC_SINT ARM64)"
  by (simp_all add: HV_SYNIC_SINT_def interface_eval interface_layout)

lemma HV_SYNIC_SINT_ARM64_same [interface_layout]: "same_ty (HV_SYNIC_SINT ARM64)"
  by (simp add: HV_SYNIC_SINT_def same_ty_def interface_eval interface_layout)

lemmas HV_SYNIC_SINT_ARM64_tmem [interface_layout] = same_tmem [OF HV_SYNIC_SINT_ARM64_same]

lemma HV_PORT_ID_layout [interface_layout]:
  "csize sysv HV_PORT_ID = 4" "csize msvc HV_PORT_ID = 4" "calign sysv HV_PORT_ID = 4" "calign msvc HV_PORT_ID = 4"
  "gapless sysv HV_PORT_ID" "gapless msvc HV_PORT_ID"
  by (simp_all add: HV_PORT_ID_def interface_eval interface_layout)

lemma HV_PORT_ID_same [interface_layout]: "same_ty HV_PORT_ID"
  by (simp add: HV_PORT_ID_def same_ty_def interface_eval interface_layout)

lemmas HV_PORT_ID_tmem [interface_layout] = same_tmem [OF HV_PORT_ID_same]

lemma HV_MESSAGE_FLAGS_layout [interface_layout]:
  "csize sysv HV_MESSAGE_FLAGS = 1" "csize msvc HV_MESSAGE_FLAGS = 1" "calign sysv HV_MESSAGE_FLAGS = 1" "calign msvc HV_MESSAGE_FLAGS = 1"
  "gapless sysv HV_MESSAGE_FLAGS" "gapless msvc HV_MESSAGE_FLAGS"
  by (simp_all add: HV_MESSAGE_FLAGS_def interface_eval interface_layout)

lemma HV_MESSAGE_FLAGS_same [interface_layout]: "same_ty HV_MESSAGE_FLAGS"
  by (simp add: HV_MESSAGE_FLAGS_def same_ty_def interface_eval interface_layout)

lemmas HV_MESSAGE_FLAGS_tmem [interface_layout] = same_tmem [OF HV_MESSAGE_FLAGS_same]

lemma HV_MESSAGE_HEADER_layout [interface_layout]:
  "csize sysv HV_MESSAGE_HEADER = 16" "csize msvc HV_MESSAGE_HEADER = 16" "calign sysv HV_MESSAGE_HEADER = 8" "calign msvc HV_MESSAGE_HEADER = 8"
  "gapless sysv HV_MESSAGE_HEADER" "gapless msvc HV_MESSAGE_HEADER"
  by (simp_all add: HV_MESSAGE_HEADER_def interface_eval interface_layout)

lemma HV_MESSAGE_HEADER_same [interface_layout]: "same_ty HV_MESSAGE_HEADER"
  by (simp add: HV_MESSAGE_HEADER_def same_ty_parts interface_layout)

lemmas HV_MESSAGE_HEADER_tmem [interface_layout] = same_tmem [OF HV_MESSAGE_HEADER_same]

lemma HV_SYNIC_EVENT_FLAGS_layout [interface_layout]:
  "csize sysv HV_SYNIC_EVENT_FLAGS = 256" "csize msvc HV_SYNIC_EVENT_FLAGS = 256" "calign sysv HV_SYNIC_EVENT_FLAGS = 4" "calign msvc HV_SYNIC_EVENT_FLAGS = 4"
  "gapless sysv HV_SYNIC_EVENT_FLAGS" "gapless msvc HV_SYNIC_EVENT_FLAGS"
  by (simp_all add: HV_SYNIC_EVENT_FLAGS_def interface_eval interface_layout)

lemma HV_SYNIC_EVENT_FLAGS_same [interface_layout]: "same_ty HV_SYNIC_EVENT_FLAGS"
  by (simp add: HV_SYNIC_EVENT_FLAGS_def same_ty_parts interface_layout)

lemmas HV_SYNIC_EVENT_FLAGS_tmem [interface_layout] = same_tmem [OF HV_SYNIC_EVENT_FLAGS_same]

lemma HV_SYNIC_EVENT_FLAGS_PAGE_layout [interface_layout]:
  "csize sysv HV_SYNIC_EVENT_FLAGS_PAGE = 4096" "csize msvc HV_SYNIC_EVENT_FLAGS_PAGE = 4096" "calign sysv HV_SYNIC_EVENT_FLAGS_PAGE = 4" "calign msvc HV_SYNIC_EVENT_FLAGS_PAGE = 4"
  "gapless sysv HV_SYNIC_EVENT_FLAGS_PAGE" "gapless msvc HV_SYNIC_EVENT_FLAGS_PAGE"
  by (simp_all add: HV_SYNIC_EVENT_FLAGS_PAGE_def interface_eval interface_layout)

lemma HV_SYNIC_EVENT_FLAGS_PAGE_same [interface_layout]: "same_ty HV_SYNIC_EVENT_FLAGS_PAGE"
  by (simp add: HV_SYNIC_EVENT_FLAGS_PAGE_def same_ty_parts interface_layout)

lemmas HV_SYNIC_EVENT_FLAGS_PAGE_tmem [interface_layout] = same_tmem [OF HV_SYNIC_EVENT_FLAGS_PAGE_same]

lemma HV_X64_MSR_STIMER_CONFIG_CONTENTS_layout [interface_layout]:
  "csize sysv HV_X64_MSR_STIMER_CONFIG_CONTENTS = 8" "csize msvc HV_X64_MSR_STIMER_CONFIG_CONTENTS = 8" "calign sysv HV_X64_MSR_STIMER_CONFIG_CONTENTS = 8" "calign msvc HV_X64_MSR_STIMER_CONFIG_CONTENTS = 8"
  "gapless sysv HV_X64_MSR_STIMER_CONFIG_CONTENTS" "gapless msvc HV_X64_MSR_STIMER_CONFIG_CONTENTS"
  by (simp_all add: HV_X64_MSR_STIMER_CONFIG_CONTENTS_def interface_eval interface_layout)

lemma HV_X64_MSR_STIMER_CONFIG_CONTENTS_same [interface_layout]: "same_ty HV_X64_MSR_STIMER_CONFIG_CONTENTS"
  by (simp add: HV_X64_MSR_STIMER_CONFIG_CONTENTS_def same_ty_def interface_eval interface_layout)

lemmas HV_X64_MSR_STIMER_CONFIG_CONTENTS_tmem [interface_layout] = same_tmem [OF HV_X64_MSR_STIMER_CONFIG_CONTENTS_same]

lemma HV_SYNIC_SIMP_layout [interface_layout]:
  "csize sysv HV_SYNIC_SIMP = 8" "csize msvc HV_SYNIC_SIMP = 8" "calign sysv HV_SYNIC_SIMP = 8" "calign msvc HV_SYNIC_SIMP = 8"
  "gapless sysv HV_SYNIC_SIMP" "gapless msvc HV_SYNIC_SIMP"
  by (simp_all add: HV_SYNIC_SIMP_def interface_eval interface_layout)

lemma HV_SYNIC_SIMP_same [interface_layout]: "same_ty HV_SYNIC_SIMP"
  by (simp add: HV_SYNIC_SIMP_def same_ty_def interface_eval interface_layout)

lemmas HV_SYNIC_SIMP_tmem [interface_layout] = same_tmem [OF HV_SYNIC_SIMP_same]

lemma HV_EVENTLOG_MESSAGE_PAYLOAD_layout [interface_layout]:
  "csize sysv HV_EVENTLOG_MESSAGE_PAYLOAD = 8" "csize msvc HV_EVENTLOG_MESSAGE_PAYLOAD = 8" "calign sysv HV_EVENTLOG_MESSAGE_PAYLOAD = 4" "calign msvc HV_EVENTLOG_MESSAGE_PAYLOAD = 4"
  "gapless sysv HV_EVENTLOG_MESSAGE_PAYLOAD" "gapless msvc HV_EVENTLOG_MESSAGE_PAYLOAD"
  by (simp_all add: HV_EVENTLOG_MESSAGE_PAYLOAD_def interface_eval interface_layout)

lemma HV_EVENTLOG_MESSAGE_PAYLOAD_same [interface_layout]: "same_ty HV_EVENTLOG_MESSAGE_PAYLOAD"
  by (simp add: HV_EVENTLOG_MESSAGE_PAYLOAD_def same_ty_parts interface_layout)

lemmas HV_EVENTLOG_MESSAGE_PAYLOAD_tmem [interface_layout] = same_tmem [OF HV_EVENTLOG_MESSAGE_PAYLOAD_same]

lemma HV_TIMER_MESSAGE_PAYLOAD_layout [interface_layout]:
  "csize sysv HV_TIMER_MESSAGE_PAYLOAD = 24" "csize msvc HV_TIMER_MESSAGE_PAYLOAD = 24" "calign sysv HV_TIMER_MESSAGE_PAYLOAD = 8" "calign msvc HV_TIMER_MESSAGE_PAYLOAD = 8"
  "gapless sysv HV_TIMER_MESSAGE_PAYLOAD" "gapless msvc HV_TIMER_MESSAGE_PAYLOAD"
  by (simp_all add: HV_TIMER_MESSAGE_PAYLOAD_def interface_eval interface_layout)

lemma HV_TIMER_MESSAGE_PAYLOAD_same [interface_layout]: "same_ty HV_TIMER_MESSAGE_PAYLOAD"
  by (simp add: HV_TIMER_MESSAGE_PAYLOAD_def same_ty_parts interface_layout)

lemmas HV_TIMER_MESSAGE_PAYLOAD_tmem [interface_layout] = same_tmem [OF HV_TIMER_MESSAGE_PAYLOAD_same]

lemma HV_IOMMU_PRQ_MESSAGE_PAYLOAD_layout [interface_layout]:
  "csize sysv HV_IOMMU_PRQ_MESSAGE_PAYLOAD = 4" "csize msvc HV_IOMMU_PRQ_MESSAGE_PAYLOAD = 4" "calign sysv HV_IOMMU_PRQ_MESSAGE_PAYLOAD = 4" "calign msvc HV_IOMMU_PRQ_MESSAGE_PAYLOAD = 4"
  "gapless sysv HV_IOMMU_PRQ_MESSAGE_PAYLOAD" "gapless msvc HV_IOMMU_PRQ_MESSAGE_PAYLOAD"
  by (simp_all add: HV_IOMMU_PRQ_MESSAGE_PAYLOAD_def interface_eval interface_layout)

lemma HV_IOMMU_PRQ_MESSAGE_PAYLOAD_same [interface_layout]: "same_ty HV_IOMMU_PRQ_MESSAGE_PAYLOAD"
  by (simp add: HV_IOMMU_PRQ_MESSAGE_PAYLOAD_def same_ty_parts interface_layout)

lemmas HV_IOMMU_PRQ_MESSAGE_PAYLOAD_tmem [interface_layout] = same_tmem [OF HV_IOMMU_PRQ_MESSAGE_PAYLOAD_same]

lemma HV_IOMMU_FAULT_MESSAGE_PAYLOAD_layout [interface_layout]:
  "csize sysv HV_IOMMU_FAULT_MESSAGE_PAYLOAD = 32" "csize msvc HV_IOMMU_FAULT_MESSAGE_PAYLOAD = 32" "calign sysv HV_IOMMU_FAULT_MESSAGE_PAYLOAD = 8" "calign msvc HV_IOMMU_FAULT_MESSAGE_PAYLOAD = 8"
  "\<not> gapless sysv HV_IOMMU_FAULT_MESSAGE_PAYLOAD" "\<not> gapless msvc HV_IOMMU_FAULT_MESSAGE_PAYLOAD"
  by (simp_all add: HV_IOMMU_FAULT_MESSAGE_PAYLOAD_def interface_eval interface_layout)

lemma HV_IOMMU_FAULT_MESSAGE_PAYLOAD_same [interface_layout]: "same_ty HV_IOMMU_FAULT_MESSAGE_PAYLOAD"
  by (simp add: HV_IOMMU_FAULT_MESSAGE_PAYLOAD_def same_ty_def interface_eval interface_layout)

lemmas HV_IOMMU_FAULT_MESSAGE_PAYLOAD_tmem [interface_layout] = same_tmem [OF HV_IOMMU_FAULT_MESSAGE_PAYLOAD_same]

lemma HV_MESSAGE_layout [interface_layout]:
  "csize sysv HV_MESSAGE = 256" "csize msvc HV_MESSAGE = 256" "calign sysv HV_MESSAGE = 16" "calign msvc HV_MESSAGE = 16"
  "\<not> gapless sysv HV_MESSAGE" "\<not> gapless msvc HV_MESSAGE"
  by (simp_all add: HV_MESSAGE_def interface_eval interface_layout)

lemma HV_MESSAGE_same [interface_layout]: "same_ty HV_MESSAGE"
  by (simp add: HV_MESSAGE_def same_ty_parts interface_layout)

lemmas HV_MESSAGE_tmem [interface_layout] = same_tmem [OF HV_MESSAGE_same]

lemma HV_MESSAGE_PAGE_layout [interface_layout]:
  "csize sysv HV_MESSAGE_PAGE = 4096" "csize msvc HV_MESSAGE_PAGE = 4096" "calign sysv HV_MESSAGE_PAGE = 16" "calign msvc HV_MESSAGE_PAGE = 16"
  "\<not> gapless sysv HV_MESSAGE_PAGE" "\<not> gapless msvc HV_MESSAGE_PAGE"
  by (simp_all add: HV_MESSAGE_PAGE_def interface_eval interface_layout)

lemma HV_MESSAGE_PAGE_same [interface_layout]: "same_ty HV_MESSAGE_PAGE"
  by (simp add: HV_MESSAGE_PAGE_def same_ty_parts interface_layout)

lemmas HV_MESSAGE_PAGE_tmem [interface_layout] = same_tmem [OF HV_MESSAGE_PAGE_same]

lemma HV_SYNIC_SIEFP_layout [interface_layout]:
  "csize sysv HV_SYNIC_SIEFP = 8" "csize msvc HV_SYNIC_SIEFP = 8" "calign sysv HV_SYNIC_SIEFP = 8" "calign msvc HV_SYNIC_SIEFP = 8"
  "gapless sysv HV_SYNIC_SIEFP" "gapless msvc HV_SYNIC_SIEFP"
  by (simp_all add: HV_SYNIC_SIEFP_def interface_eval interface_layout)

lemma HV_SYNIC_SIEFP_same [interface_layout]: "same_ty HV_SYNIC_SIEFP"
  by (simp add: HV_SYNIC_SIEFP_def same_ty_def interface_eval interface_layout)

lemmas HV_SYNIC_SIEFP_tmem [interface_layout] = same_tmem [OF HV_SYNIC_SIEFP_same]

lemma HV_UINT128_layout [interface_layout]:
  "csize sysv HV_UINT128 = 16" "csize msvc HV_UINT128 = 16" "calign sysv HV_UINT128 = 16" "calign msvc HV_UINT128 = 16"
  "gapless sysv HV_UINT128" "gapless msvc HV_UINT128"
  by (simp_all add: HV_UINT128_def interface_eval interface_layout)

lemma HV_UINT128_same [interface_layout]: "same_ty HV_UINT128"
  by (simp add: HV_UINT128_def same_ty_parts interface_layout)

lemmas HV_UINT128_tmem [interface_layout] = same_tmem [OF HV_UINT128_same]

lemma HV_INPUT_SWITCH_VIRTUAL_ADDRESS_SPACE_layout [interface_layout]:
  "csize sysv HV_INPUT_SWITCH_VIRTUAL_ADDRESS_SPACE = 8" "csize msvc HV_INPUT_SWITCH_VIRTUAL_ADDRESS_SPACE = 8" "calign sysv HV_INPUT_SWITCH_VIRTUAL_ADDRESS_SPACE = 8" "calign msvc HV_INPUT_SWITCH_VIRTUAL_ADDRESS_SPACE = 8"
  "gapless sysv HV_INPUT_SWITCH_VIRTUAL_ADDRESS_SPACE" "gapless msvc HV_INPUT_SWITCH_VIRTUAL_ADDRESS_SPACE"
  by (simp_all add: HV_INPUT_SWITCH_VIRTUAL_ADDRESS_SPACE_def interface_eval interface_layout)

lemma HV_INPUT_SWITCH_VIRTUAL_ADDRESS_SPACE_same [interface_layout]: "same_ty HV_INPUT_SWITCH_VIRTUAL_ADDRESS_SPACE"
  by (simp add: HV_INPUT_SWITCH_VIRTUAL_ADDRESS_SPACE_def same_ty_parts interface_layout)

lemmas HV_INPUT_SWITCH_VIRTUAL_ADDRESS_SPACE_tmem [interface_layout] = same_tmem [OF HV_INPUT_SWITCH_VIRTUAL_ADDRESS_SPACE_same]

lemma HV_CONNECTION_ID_layout [interface_layout]:
  "csize sysv HV_CONNECTION_ID = 4" "csize msvc HV_CONNECTION_ID = 4" "calign sysv HV_CONNECTION_ID = 4" "calign msvc HV_CONNECTION_ID = 4"
  "gapless sysv HV_CONNECTION_ID" "gapless msvc HV_CONNECTION_ID"
  by (simp_all add: HV_CONNECTION_ID_def interface_eval interface_layout)

lemma HV_CONNECTION_ID_same [interface_layout]: "same_ty HV_CONNECTION_ID"
  by (simp add: HV_CONNECTION_ID_def same_ty_def interface_eval interface_layout)

lemmas HV_CONNECTION_ID_tmem [interface_layout] = same_tmem [OF HV_CONNECTION_ID_same]

lemma HV_HYPERCALL_INPUT_layout [interface_layout]:
  "csize sysv HV_HYPERCALL_INPUT = 8" "csize msvc HV_HYPERCALL_INPUT = 8" "calign sysv HV_HYPERCALL_INPUT = 8" "calign msvc HV_HYPERCALL_INPUT = 8"
  "gapless sysv HV_HYPERCALL_INPUT" "gapless msvc HV_HYPERCALL_INPUT"
  by (simp_all add: HV_HYPERCALL_INPUT_def interface_eval interface_layout)

lemma HV_HYPERCALL_INPUT_same [interface_layout]: "same_ty HV_HYPERCALL_INPUT"
  by (simp add: HV_HYPERCALL_INPUT_def same_ty_def interface_eval interface_layout)

lemmas HV_HYPERCALL_INPUT_tmem [interface_layout] = same_tmem [OF HV_HYPERCALL_INPUT_same]

lemma HV_HYPERCALL_OUTPUT_layout [interface_layout]:
  "csize sysv HV_HYPERCALL_OUTPUT = 8" "csize msvc HV_HYPERCALL_OUTPUT = 8" "calign sysv HV_HYPERCALL_OUTPUT = 8" "calign msvc HV_HYPERCALL_OUTPUT = 8"
  "gapless sysv HV_HYPERCALL_OUTPUT" "gapless msvc HV_HYPERCALL_OUTPUT"
  by (simp_all add: HV_HYPERCALL_OUTPUT_def interface_eval interface_layout)

lemma HV_HYPERCALL_OUTPUT_same [interface_layout]: "same_ty HV_HYPERCALL_OUTPUT"
  by (simp add: HV_HYPERCALL_OUTPUT_def same_ty_def interface_eval interface_layout)

lemmas HV_HYPERCALL_OUTPUT_tmem [interface_layout] = same_tmem [OF HV_HYPERCALL_OUTPUT_same]

lemma HV_INPUT_POST_MESSAGE_layout [interface_layout]:
  "csize sysv HV_INPUT_POST_MESSAGE = 256" "csize msvc HV_INPUT_POST_MESSAGE = 256" "calign sysv HV_INPUT_POST_MESSAGE = 8" "calign msvc HV_INPUT_POST_MESSAGE = 8"
  "gapless sysv HV_INPUT_POST_MESSAGE" "gapless msvc HV_INPUT_POST_MESSAGE"
  by (simp_all add: HV_INPUT_POST_MESSAGE_def interface_eval interface_layout)

lemma HV_INPUT_POST_MESSAGE_same [interface_layout]: "same_ty HV_INPUT_POST_MESSAGE"
  by (simp add: HV_INPUT_POST_MESSAGE_def same_ty_parts interface_layout)

lemmas HV_INPUT_POST_MESSAGE_tmem [interface_layout] = same_tmem [OF HV_INPUT_POST_MESSAGE_same]

lemma HV_INPUT_SIGNAL_EVENT_layout [interface_layout]:
  "csize sysv HV_INPUT_SIGNAL_EVENT = 16" "csize msvc HV_INPUT_SIGNAL_EVENT = 16" "calign sysv HV_INPUT_SIGNAL_EVENT = 8" "calign msvc HV_INPUT_SIGNAL_EVENT = 8"
  "\<not> gapless sysv HV_INPUT_SIGNAL_EVENT" "\<not> gapless msvc HV_INPUT_SIGNAL_EVENT"
  by (simp_all add: HV_INPUT_SIGNAL_EVENT_def interface_eval interface_layout)

lemma HV_INPUT_SIGNAL_EVENT_same [interface_layout]: "same_ty HV_INPUT_SIGNAL_EVENT"
  by (simp add: HV_INPUT_SIGNAL_EVENT_def same_ty_parts interface_layout)

lemmas HV_INPUT_SIGNAL_EVENT_tmem [interface_layout] = same_tmem [OF HV_INPUT_SIGNAL_EVENT_same]

lemma HV_REGISTER_VALUE_layout [interface_layout]:
  "csize sysv HV_REGISTER_VALUE = 16" "csize msvc HV_REGISTER_VALUE = 16" "calign sysv HV_REGISTER_VALUE = 16" "calign msvc HV_REGISTER_VALUE = 16"
  "gapless sysv HV_REGISTER_VALUE" "gapless msvc HV_REGISTER_VALUE"
  by (simp_all add: HV_REGISTER_VALUE_def interface_eval interface_layout)

lemma HV_REGISTER_VALUE_same [interface_layout]: "same_ty HV_REGISTER_VALUE"
  by (simp add: HV_REGISTER_VALUE_def same_ty_parts interface_layout)

lemmas HV_REGISTER_VALUE_tmem [interface_layout] = same_tmem [OF HV_REGISTER_VALUE_same]

lemma HV_INPUT_START_VIRTUAL_PROCESSOR_X64_layout [interface_layout]:
  "csize sysv (HV_INPUT_START_VIRTUAL_PROCESSOR X64) = 240" "csize msvc (HV_INPUT_START_VIRTUAL_PROCESSOR X64) = 240" "calign sysv (HV_INPUT_START_VIRTUAL_PROCESSOR X64) = 8" "calign msvc (HV_INPUT_START_VIRTUAL_PROCESSOR X64) = 8"
  "gapless sysv (HV_INPUT_START_VIRTUAL_PROCESSOR X64)" "gapless msvc (HV_INPUT_START_VIRTUAL_PROCESSOR X64)"
  by (simp_all add: HV_INPUT_START_VIRTUAL_PROCESSOR_def interface_eval interface_layout)

lemma HV_INPUT_START_VIRTUAL_PROCESSOR_X64_same [interface_layout]: "same_ty (HV_INPUT_START_VIRTUAL_PROCESSOR X64)"
  by (simp add: HV_INPUT_START_VIRTUAL_PROCESSOR_def same_ty_parts interface_layout)

lemmas HV_INPUT_START_VIRTUAL_PROCESSOR_X64_tmem [interface_layout] = same_tmem [OF HV_INPUT_START_VIRTUAL_PROCESSOR_X64_same]

lemma HV_INPUT_START_VIRTUAL_PROCESSOR_ARM64_layout [interface_layout]:
  "csize sysv (HV_INPUT_START_VIRTUAL_PROCESSOR ARM64) = 88" "csize msvc (HV_INPUT_START_VIRTUAL_PROCESSOR ARM64) = 88" "calign sysv (HV_INPUT_START_VIRTUAL_PROCESSOR ARM64) = 8" "calign msvc (HV_INPUT_START_VIRTUAL_PROCESSOR ARM64) = 8"
  "gapless sysv (HV_INPUT_START_VIRTUAL_PROCESSOR ARM64)" "gapless msvc (HV_INPUT_START_VIRTUAL_PROCESSOR ARM64)"
  by (simp_all add: HV_INPUT_START_VIRTUAL_PROCESSOR_def interface_eval interface_layout)

lemma HV_INPUT_START_VIRTUAL_PROCESSOR_ARM64_same [interface_layout]: "same_ty (HV_INPUT_START_VIRTUAL_PROCESSOR ARM64)"
  by (simp add: HV_INPUT_START_VIRTUAL_PROCESSOR_def same_ty_parts interface_layout)

lemmas HV_INPUT_START_VIRTUAL_PROCESSOR_ARM64_tmem [interface_layout] = same_tmem [OF HV_INPUT_START_VIRTUAL_PROCESSOR_ARM64_same]

lemma HV_INPUT_MODIFY_SPARSE_GPA_PAGE_HOST_VISIBILITY_layout [interface_layout]:
  "csize sysv HV_INPUT_MODIFY_SPARSE_GPA_PAGE_HOST_VISIBILITY = 24" "csize msvc HV_INPUT_MODIFY_SPARSE_GPA_PAGE_HOST_VISIBILITY = 24" "calign sysv HV_INPUT_MODIFY_SPARSE_GPA_PAGE_HOST_VISIBILITY = 8" "calign msvc HV_INPUT_MODIFY_SPARSE_GPA_PAGE_HOST_VISIBILITY = 8"
  "gapless sysv HV_INPUT_MODIFY_SPARSE_GPA_PAGE_HOST_VISIBILITY" "gapless msvc HV_INPUT_MODIFY_SPARSE_GPA_PAGE_HOST_VISIBILITY"
  by (simp_all add: HV_INPUT_MODIFY_SPARSE_GPA_PAGE_HOST_VISIBILITY_def interface_eval interface_layout)

lemma HV_INPUT_MODIFY_SPARSE_GPA_PAGE_HOST_VISIBILITY_same [interface_layout]: "same_ty HV_INPUT_MODIFY_SPARSE_GPA_PAGE_HOST_VISIBILITY"
  by (simp add: HV_INPUT_MODIFY_SPARSE_GPA_PAGE_HOST_VISIBILITY_def same_ty_def interface_eval interface_layout)

lemmas HV_INPUT_MODIFY_SPARSE_GPA_PAGE_HOST_VISIBILITY_tmem [interface_layout] = same_tmem [OF HV_INPUT_MODIFY_SPARSE_GPA_PAGE_HOST_VISIBILITY_same]

lemma interface_types_ok: "list_all (\<lambda>(n, t). ok_ty t) (interface_types a)"
  by (cases a) (simp_all add: interface_types_def interface_type_defs bit_ok_def)

text \<open>The number that a hypercall takes in a register, and the members of a type as parts of a number.\<close>

definition put_field :: "abi \<Rightarrow> cty \<Rightarrow> string list \<Rightarrow> nat \<Rightarrow> nat \<Rightarrow> nat" where
  "put_field A t f v x = (case map_of (members A t) f of None \<Rightarrow> x | Some q \<Rightarrow> put_bits q v x)"

definition get_field :: "abi \<Rightarrow> cty \<Rightarrow> string list \<Rightarrow> nat \<Rightarrow> nat option" where
  "get_field A t f x = map_option (\<lambda>q. get_bits q x) (map_of (members A t) f)"

definition positions :: "abi \<Rightarrow> cty \<Rightarrow> (nat \<times> nat) list" where
  "positions A t = map snd (members A t)"

lemma hypercall_members:
  assumes "A = sysv \<or> A = msvc"
  shows "map_of (members A HV_HYPERCALL_INPUT) [''CallCode''] = Some (0, 16)"
    "map_of (members A HV_HYPERCALL_INPUT) [''IsFast''] = Some (16, 1)"
    "map_of (members A HV_HYPERCALL_INPUT) [''CountOfElements''] = Some (32, 12)"
    "map_of (members A HV_HYPERCALL_INPUT) [''RepStartIndex''] = Some (48, 12)"
    "map_of (members A HV_HYPERCALL_INPUT) [''AsUINT64''] = Some (0, 64)"
proof -
  have "members sysv HV_HYPERCALL_INPUT =
     [([''CallCode''], 0, 16), ([''IsFast''], 16, 1), ([''Reserved1''], 17, 14), ([''IsNested''], 31, 1),
      ([''CountOfElements''], 32, 12), ([''Reserved2''], 44, 4), ([''RepStartIndex''], 48, 12), ([''Reserved3''], 60, 4),
      ([''AsUINT64''], 0, 64)]"
    by (simp add: members_def HV_HYPERCALL_INPUT_def interface_eval)
  moreover have "members msvc HV_HYPERCALL_INPUT = members sysv HV_HYPERCALL_INPUT"
    using HV_HYPERCALL_INPUT_same by (simp add: members_def same_ty_def)
  ultimately have "members A HV_HYPERCALL_INPUT =
     [([''CallCode''], 0, 16), ([''IsFast''], 16, 1), ([''Reserved1''], 17, 14), ([''IsNested''], 31, 1),
      ([''CountOfElements''], 32, 12), ([''Reserved2''], 44, 4), ([''RepStartIndex''], 48, 12), ([''Reserved3''], 60, 4),
      ([''AsUINT64''], 0, 64)]"
    using assms by auto
  then show "map_of (members A HV_HYPERCALL_INPUT) [''CallCode''] = Some (0, 16)"
    "map_of (members A HV_HYPERCALL_INPUT) [''IsFast''] = Some (16, 1)"
    "map_of (members A HV_HYPERCALL_INPUT) [''CountOfElements''] = Some (32, 12)"
    "map_of (members A HV_HYPERCALL_INPUT) [''RepStartIndex''] = Some (48, 12)"
    "map_of (members A HV_HYPERCALL_INPUT) [''AsUINT64''] = Some (0, 64)" by simp_all
qed

text \<open>The assignments that fill in the input of a call.\<close>

definition hypercall_input :: "abi \<Rightarrow> nat \<Rightarrow> bool \<Rightarrow> nat \<Rightarrow> nat \<Rightarrow> nat" where
  "hypercall_input A code fast count start =
     put_field A HV_HYPERCALL_INPUT [''RepStartIndex''] start
       (put_field A HV_HYPERCALL_INPUT [''CountOfElements''] count
         (put_field A HV_HYPERCALL_INPUT [''IsFast''] (of_bool fast)
           (put_field A HV_HYPERCALL_INPUT [''CallCode''] code 0)))"

lemma call_codes_contiguous: "map snd HV_CALL_CODE = [0..224]"
  by code_simp

text \<open>On x64 the two message types have one number, so a message of one cannot be told from the other.\<close>

lemma message_type_clash:
  "map_of (HV_MESSAGE_TYPE X64) ''HvMessageTypeRegisterIntercept'' = map_of (HV_MESSAGE_TYPE X64) ''HvMessageTypeX64IommuPrq''"
  by code_simp

section \<open>Properties\<close>

text \<open>The only types of the interface with bits that no member names are the report of an IOMMU fault (with the
  message and the page that contain it), the input of the signal-event call and, on ARM64, the feature leaf of
  CPUID.  In every other structure each bit belongs to exactly one member, under both compilers.\<close>

theorem interface_padding:
  assumes "A = sysv \<or> A = msvc"
  shows "padded_types A a =
     (case a of X64 \<Rightarrow> [''HV_IOMMU_FAULT_MESSAGE_PAYLOAD'', ''HV_MESSAGE'', ''HV_MESSAGE_PAGE'', ''HV_INPUT_SIGNAL_EVENT'']
      | ARM64 \<Rightarrow> [''HV_HYPERVISOR_FEATURES'', ''HV_CPUID_RESULT'', ''HV_IOMMU_FAULT_MESSAGE_PAYLOAD'', ''HV_MESSAGE'',
          ''HV_MESSAGE_PAGE'', ''HV_INPUT_SIGNAL_EVENT'', ''HV_ARM64_HYPERVISOR_FEATURES''])
    \<and> ((n, Struct p fs) \<in> set (interface_types a) \<and> n \<notin> set (padded_types A a) \<and> b < 8 * csize A (Struct p fs) \<longrightarrow>
         (\<exists>!k. covers (places A p fs start_cursor) k b))"
proof
  have "padded_types sysv X64 = [''HV_IOMMU_FAULT_MESSAGE_PAYLOAD'', ''HV_MESSAGE'', ''HV_MESSAGE_PAGE'', ''HV_INPUT_SIGNAL_EVENT'']"
    "padded_types msvc X64 = [''HV_IOMMU_FAULT_MESSAGE_PAYLOAD'', ''HV_MESSAGE'', ''HV_MESSAGE_PAGE'', ''HV_INPUT_SIGNAL_EVENT'']"
    "padded_types sysv ARM64 = [''HV_HYPERVISOR_FEATURES'', ''HV_CPUID_RESULT'', ''HV_IOMMU_FAULT_MESSAGE_PAYLOAD'', ''HV_MESSAGE'',
          ''HV_MESSAGE_PAGE'', ''HV_INPUT_SIGNAL_EVENT'', ''HV_ARM64_HYPERVISOR_FEATURES'']"
    "padded_types msvc ARM64 = [''HV_HYPERVISOR_FEATURES'', ''HV_CPUID_RESULT'', ''HV_IOMMU_FAULT_MESSAGE_PAYLOAD'', ''HV_MESSAGE'',
          ''HV_MESSAGE_PAGE'', ''HV_INPUT_SIGNAL_EVENT'', ''HV_ARM64_HYPERVISOR_FEATURES'']"
    by (simp_all add: padded_types_def interface_types_def interface_layout)
  then show "padded_types A a =
     (case a of X64 \<Rightarrow> [''HV_IOMMU_FAULT_MESSAGE_PAYLOAD'', ''HV_MESSAGE'', ''HV_MESSAGE_PAGE'', ''HV_INPUT_SIGNAL_EVENT'']
      | ARM64 \<Rightarrow> [''HV_HYPERVISOR_FEATURES'', ''HV_CPUID_RESULT'', ''HV_IOMMU_FAULT_MESSAGE_PAYLOAD'', ''HV_MESSAGE'',
          ''HV_MESSAGE_PAGE'', ''HV_INPUT_SIGNAL_EVENT'', ''HV_ARM64_HYPERVISOR_FEATURES''])"
    using assms by (cases a) auto
  have A: "ok_abi A" using assms by auto
  show "(n, Struct p fs) \<in> set (interface_types a) \<and> n \<notin> set (padded_types A a) \<and> b < 8 * csize A (Struct p fs) \<longrightarrow>
         (\<exists>!k. covers (places A p fs start_cursor) k b)"
  proof
    assume h: "(n, Struct p fs) \<in> set (interface_types a) \<and> n \<notin> set (padded_types A a) \<and> b < 8 * csize A (Struct p fs)"
    then have "gapless A (Struct p fs)" by (force simp: padded_types_def simp del: gapless.simps)
    moreover have "ok_flds fs" using h interface_types_ok [of a] by (fastforce simp: list_all_iff)
    ultimately show "\<exists>!k. covers (places A p fs start_cursor) k b" using gapless_struct [OF A] h by blast
  qed
qed

theorem interface_padding_witness:
  "padded_types sysv X64 = [''HV_IOMMU_FAULT_MESSAGE_PAYLOAD'', ''HV_MESSAGE'', ''HV_MESSAGE_PAGE'', ''HV_INPUT_SIGNAL_EVENT'']
    \<and> (\<exists>!k. covers (places sysv 0 (flds_of [mem ''Pad'' (Arr U16 3), mem ''Limit'' U16, mem ''Base'' U64]) start_cursor) k 50)"
proof -
  have t: "(''HV_X64_TABLE_REGISTER'', HV_X64_TABLE_REGISTER) \<in> set (interface_types X64)"
    by (simp add: interface_types_def)
  show ?thesis
    using interface_padding [of sysv X64 "''HV_X64_TABLE_REGISTER''" 0
        "flds_of [mem ''Pad'' (Arr U16 3), mem ''Limit'' U16, mem ''Base'' U64]" 50]
      t HV_X64_TABLE_REGISTER_layout(1) by (simp add: HV_X64_TABLE_REGISTER_def del: csize.simps)
qed





end
