(* ===== verification/Tlfs_Types.thy ===== *)
theory Tlfs_Types
  imports Guest_Interface Hv_Devices
begin

text \<open>
  The first part of \<open>Mile.HyperV.TLFS.h\<close>, the interface of the hypervisor to partitions (lines 57 to 5605): processor
  and partition features, statistics, events and traces, scheduling, memory, intercepts and their messages, virtual
  processor state.  It is translated like \<open>Guest_Interface\<close>: structures and unions as C types of \<open>CLayout\<close>, with their
  alignment attributes, enumerations as tables, macros as words or functions on words, a declaration that depends on the architecture as a
  function of it.
\<close>

unbundle bit_operations_syntax

definition HV_WCHAR :: cty where "HV_WCHAR = U16"

definition HV_UINT256 :: cty where
  "HV_UINT256 = Aligned 32 (Struct 0 (flds_of
       [mem ''Low128'' HV_UINT128, mem ''High128'' HV_UINT128]))"

definition HV_UINT512 :: cty where
  "HV_UINT512 = Aligned 64 (Struct 0 (flds_of
       [mem ''Low128'' HV_UINT256, mem ''High128'' HV_UINT256]))"

definition HV_CALL_ATTRIBUTES_ALIGNED :: "nat \<Rightarrow> cty \<Rightarrow> cty" where
  "HV_CALL_ATTRIBUTES_ALIGNED alignment = Aligned alignment"

definition HV_SPA :: cty where
  "HV_SPA = U64"

definition X64_PAGE_SIZE :: "32 word" where "X64_PAGE_SIZE = HV_X64_PAGE_SIZE"

definition X64_LARGE_PAGE_SIZE :: "32 word" where "X64_LARGE_PAGE_SIZE = HV_X64_LARGE_PAGE_SIZE"

definition X64_1GB_PAGE_SIZE :: "32 word" where "X64_1GB_PAGE_SIZE = HV_X64_LARGE_PAGE_SIZE_1GB"

definition HV_X64_MAX_PAGE_NUMBER :: "64 word" where "HV_X64_MAX_PAGE_NUMBER = - 1 div ucast X64_PAGE_SIZE"

definition HV_X64_MAX_LARGE_PAGE_NUMBER :: "64 word" where
  "HV_X64_MAX_LARGE_PAGE_NUMBER = - 1 div ucast X64_LARGE_PAGE_SIZE"

definition HV_X64_MAX_1GB_PAGE_NUMBER :: "64 word" where
  "HV_X64_MAX_1GB_PAGE_NUMBER = - 1 div ucast X64_1GB_PAGE_SIZE"

definition HV_1GB_PAGE_SIZE :: "32 word" where "HV_1GB_PAGE_SIZE = X64_1GB_PAGE_SIZE"

definition HV_PAGE_MASK :: "arch \<Rightarrow> 32 word" where "HV_PAGE_MASK a = (HV_PAGE_SIZE a) - 1"

definition HV_LARGE_PAGE_MASK :: "arch \<Rightarrow> 32 word" where
  "HV_LARGE_PAGE_MASK a = (HV_LARGE_PAGE_SIZE a) - 1"

definition HV_1GB_PAGE_MASK :: "32 word" where "HV_1GB_PAGE_MASK = HV_1GB_PAGE_SIZE - 1"

definition HV_SPA_PAGE_NUMBER :: cty where
  "HV_SPA_PAGE_NUMBER = U64"

definition HV_GVA_PAGE_NUMBER :: cty where
  "HV_GVA_PAGE_NUMBER = U64"

definition HV_IO_PORT :: cty where
  "HV_IO_PORT = U16"

definition HV_STATUS_PROCESSOR_FEATURE_SSE3_NOT_SUPPORTED :: "16 word" where
  "HV_STATUS_PROCESSOR_FEATURE_SSE3_NOT_SUPPORTED = 0x0020"

definition HV_STATUS_PROCESSOR_FEATURE_LAHFSAHF_NOT_SUPPORTED :: "16 word" where
  "HV_STATUS_PROCESSOR_FEATURE_LAHFSAHF_NOT_SUPPORTED = 0x0021"

definition HV_STATUS_PROCESSOR_FEATURE_SSSE3_NOT_SUPPORTED :: "16 word" where
  "HV_STATUS_PROCESSOR_FEATURE_SSSE3_NOT_SUPPORTED = 0x0022"

definition HV_STATUS_PROCESSOR_FEATURE_SSE4_1_NOT_SUPPORTED :: "16 word" where
  "HV_STATUS_PROCESSOR_FEATURE_SSE4_1_NOT_SUPPORTED = 0x0023"

definition HV_STATUS_PROCESSOR_FEATURE_SSE4_2_NOT_SUPPORTED :: "16 word" where
  "HV_STATUS_PROCESSOR_FEATURE_SSE4_2_NOT_SUPPORTED = 0x0024"

definition HV_STATUS_PROCESSOR_FEATURE_SSE4A_NOT_SUPPORTED :: "16 word" where
  "HV_STATUS_PROCESSOR_FEATURE_SSE4A_NOT_SUPPORTED = 0x0025"

definition HV_STATUS_PROCESSOR_FEATURE_SSE5_NOT_SUPPORTED :: "16 word" where
  "HV_STATUS_PROCESSOR_FEATURE_SSE5_NOT_SUPPORTED = 0x0026"

definition HV_STATUS_PROCESSOR_FEATURE_POPCNT_NOT_SUPPORTED :: "16 word" where
  "HV_STATUS_PROCESSOR_FEATURE_POPCNT_NOT_SUPPORTED = 0x0027"

definition HV_STATUS_PROCESSOR_FEATURE_CMPXCHG16B_NOT_SUPPORTED :: "16 word" where
  "HV_STATUS_PROCESSOR_FEATURE_CMPXCHG16B_NOT_SUPPORTED = 0x0028"

definition HV_STATUS_PROCESSOR_FEATURE_ALTMOVCR8_NOT_SUPPORTED :: "16 word" where
  "HV_STATUS_PROCESSOR_FEATURE_ALTMOVCR8_NOT_SUPPORTED = 0x0029"

definition HV_STATUS_PROCESSOR_FEATURE_LZCNT_NOT_SUPPORTED :: "16 word" where
  "HV_STATUS_PROCESSOR_FEATURE_LZCNT_NOT_SUPPORTED = 0x002a"

definition HV_STATUS_PROCESSOR_FEATURE_MISALIGNED_SSE_NOT_SUPPORTED :: "16 word" where
  "HV_STATUS_PROCESSOR_FEATURE_MISALIGNED_SSE_NOT_SUPPORTED = 0x002b"

definition HV_STATUS_PROCESSOR_FEATURE_MMX_EXT_NOT_SUPPORTED :: "16 word" where
  "HV_STATUS_PROCESSOR_FEATURE_MMX_EXT_NOT_SUPPORTED = 0x002c"

definition HV_STATUS_PROCESSOR_FEATURE_3DNOW_NOT_SUPPORTED :: "16 word" where
  "HV_STATUS_PROCESSOR_FEATURE_3DNOW_NOT_SUPPORTED = 0x002d"

definition HV_STATUS_PROCESSOR_FEATURE_EXTENDED_3DNOW_NOT_SUPPORTED :: "16 word" where
  "HV_STATUS_PROCESSOR_FEATURE_EXTENDED_3DNOW_NOT_SUPPORTED = 0x002e"

definition HV_STATUS_PROCESSOR_FEATURE_PAGE_1GB_NOT_SUPPORTED :: "16 word" where
  "HV_STATUS_PROCESSOR_FEATURE_PAGE_1GB_NOT_SUPPORTED = 0x002f"

definition HV_STATUS_PROCESSOR_FEATURE_XSAVE_NOT_SUPPORTED :: "16 word" where
  "HV_STATUS_PROCESSOR_FEATURE_XSAVE_NOT_SUPPORTED = 0x0031"

definition HV_STATUS_PROCESSOR_FEATURE_XSAVEOPT_NOT_SUPPORTED :: "16 word" where
  "HV_STATUS_PROCESSOR_FEATURE_XSAVEOPT_NOT_SUPPORTED = 0x0032"

definition HV_STATUS_PROCESSOR_FEATURE_XSAVE_LEGACY_SSE_NOT_SUPPORTED :: "16 word" where
  "HV_STATUS_PROCESSOR_FEATURE_XSAVE_LEGACY_SSE_NOT_SUPPORTED = 0x0033"

definition HV_STATUS_PROCESSOR_FEATURE_XSAVE_AVX_NOT_SUPPORTED :: "16 word" where
  "HV_STATUS_PROCESSOR_FEATURE_XSAVE_AVX_NOT_SUPPORTED = 0x0034"

definition HV_STATUS_PROCESSOR_FEATURE_XSAVE_UNKNOWN_FEATURE_NOT_SUPPORTED :: "16 word" where
  "HV_STATUS_PROCESSOR_FEATURE_XSAVE_UNKNOWN_FEATURE_NOT_SUPPORTED = 0x0035"

definition HV_STATUS_PROCESSOR_XSAVE_SAVE_AREA_INCOMPATIBLE :: "16 word" where
  "HV_STATUS_PROCESSOR_XSAVE_SAVE_AREA_INCOMPATIBLE = 0x0036"

definition HV_STATUS_EVENT_BUFFER_ALREADY_FREED :: "16 word" where
  "HV_STATUS_EVENT_BUFFER_ALREADY_FREED = 0x0074"

definition HV_STATUS_CALL_PENDING :: "16 word" where "HV_STATUS_CALL_PENDING = 0x0079"

definition HV_STATUS_VTL_ALREADY_ENABLED :: "16 word" where "HV_STATUS_VTL_ALREADY_ENABLED = 0x0086"

definition HV_X64_FP_REGISTER :: cty where
  "HV_X64_FP_REGISTER = Union 0 (flds_of
       [mem ''AsUINT128'' HV_UINT128,
       mem '''' (Struct 0 (flds_of [mem ''Mantissa'' U64, bits ''BiasedExponent'' U64 15, bits ''Sign'' U64 1,
          bits ''Reserved'' U64 48]))])"

definition HV_X64_FP_CONTROL_STATUS_REGISTER :: cty where
  "HV_X64_FP_CONTROL_STATUS_REGISTER = Union 0 (flds_of
       [mem ''AsUINT128'' HV_UINT128,
       mem '''' (Struct 0 (flds_of [mem ''FpControl'' U16, mem ''FpStatus'' U16, mem ''FpTag'' U8, bits ''IgnNe'' U8 1,
          bits ''Reserved'' U8 7, mem ''LastFpOp'' U16,
          mem '''' (Union 0 (flds_of [mem ''LastFpRip'' U64,
             mem '''' (Struct 0 (flds_of [mem ''LastFpEip'' U32, mem ''LastFpCs'' U16]))]))]))])"

definition HV_X64_XMM_CONTROL_STATUS_REGISTER :: cty where
  "HV_X64_XMM_CONTROL_STATUS_REGISTER = Union 0 (flds_of
       [mem ''AsUINT128'' HV_UINT128,
       mem '''' (Struct 0 (flds_of [mem '''' (Union 0 (flds_of [mem ''LastFpRdp'' U64,
             mem '''' (Struct 0 (flds_of [mem ''LastFpDp'' U32, mem ''LastFpDs'' U16]))])),
          mem ''XmmStatusControl'' U32, mem ''XmmStatusControlMask'' U32]))])"

definition HV_ARCHITECTURE :: enum_tab where
  "HV_ARCHITECTURE = enum_of
     [(''HvArchitectureX64'', Auto), (''HvArchitectureX86'', Auto),
     (''HvArchitectureARM64'', Auto), (''HvArchitectureMaximum'', Auto)]"

definition HV_X64_FP_MMX_REGISTER :: cty where
  "HV_X64_FP_MMX_REGISTER = Union 0 (flds_of
       [mem ''AsUINT128'' HV_UINT128, mem ''Fp'' HV_X64_FP_REGISTER, mem ''Mmx'' U64])"

definition HV_X64_FXSAVE_AREA_SIZE :: "32 word" where "HV_X64_FXSAVE_AREA_SIZE = 512"

definition HV_X64_FX_REGISTERS :: cty where
  "HV_X64_FX_REGISTERS = Aligned 16 (Union 0 (flds_of
       [mem '''' (Struct 0 (flds_of [mem ''FpControlStatus'' HV_X64_FP_CONTROL_STATUS_REGISTER,
          mem ''XmmControlStatus'' HV_X64_XMM_CONTROL_STATUS_REGISTER,
          mem ''FpMmx'' (Arr HV_X64_FP_MMX_REGISTER 8), mem ''Xmm'' (Arr HV_UINT128 16)])),
       mem ''FxSaveArea'' (Arr U8 (unat HV_X64_FXSAVE_AREA_SIZE))]))"

definition HV_X64_XSAVE_XFEM_REGISTER :: cty where
  "HV_X64_XSAVE_XFEM_REGISTER = Union 0 (flds_of
       [mem ''AsUINT64'' U64,
       mem '''' (Struct 0 (flds_of [mem ''LowUINT32'' U32, mem ''HighUINT32'' U32])),
       mem '''' (Struct 0 (flds_of [bits ''LegacyX87'' U64 1, bits ''LegacySse'' U64 1, bits ''Avx'' U64 1,
          bits ''MpxBndreg'' U64 1, bits ''MpxBndcsr'' U64 1, bits ''Avx512OpMask'' U64 1,
          bits ''Avx512Zmmhi'' U64 1, bits ''Avx512Zmm16_31'' U64 1, bits ''Reserved8_9'' U64 2,
          bits ''Pasid'' U64 1, bits ''CetU'' U64 1, bits ''CetS'' U64 1,
          bits ''Reserved13_16'' U64 4, bits ''XtileCfg'' U64 1, bits ''XtileData'' U64 1,
          bits ''Reserved19_63'' U64 45]))])"

definition HV_X64_XSAVE_HEADER :: cty where
  "HV_X64_XSAVE_HEADER = Aligned 64 (Struct 0 (flds_of
       [mem ''XstateBv'' HV_X64_XSAVE_XFEM_REGISTER, mem ''XcompBv'' HV_X64_XSAVE_XFEM_REGISTER,
       mem ''RevisionID'' U16, mem ''Reserved1MBZ'' U16, mem ''Reserved2'' U32,
       mem ''Reserved3'' U64, mem ''Reserved4'' U64, mem ''Reserved5'' U64,
       mem ''Reserved6'' U64, mem ''Reserved7'' U64]))"

definition HV_X64_XSAVE_AREA_HEADER_SIZE :: "32 word" where "HV_X64_XSAVE_AREA_HEADER_SIZE = 64"

definition HV_X64_XSAVE_AREA_AVX_SIZE :: "32 word" where "HV_X64_XSAVE_AREA_AVX_SIZE = 256"

definition HV_X64_XSAVE_AREA_MPX_SIZE :: "32 word" where "HV_X64_XSAVE_AREA_MPX_SIZE = 80"

definition HV_X64_XSAVE_AREA_AVX512_SIZE :: "32 word" where "HV_X64_XSAVE_AREA_AVX512_SIZE = 1600"

definition HV_X64_XSAVE_AREA_PT_SIZE :: "32 word" where "HV_X64_XSAVE_AREA_PT_SIZE = 72"

definition HV_X64_XSAVE_AREA_PKRU_SIZE :: "32 word" where "HV_X64_XSAVE_AREA_PKRU_SIZE = 4"

definition HV_X64_XSAVE_AREA_HDC_SIZE :: "32 word" where "HV_X64_XSAVE_AREA_HDC_SIZE = 8"

definition HV_X64_XSAVE_AREA_UNKNOWN_SIZE :: "32 word" where "HV_X64_XSAVE_AREA_UNKNOWN_SIZE = 92"

definition HV_X64_XSAVE_AREA_SIZE :: "32 word" where
  "HV_X64_XSAVE_AREA_SIZE = (((((((HV_X64_FXSAVE_AREA_SIZE + HV_X64_XSAVE_AREA_HEADER_SIZE) + HV_X64_XSAVE_AREA_AVX_SIZE) + HV_X64_XSAVE_AREA_MPX_SIZE) + HV_X64_XSAVE_AREA_AVX512_SIZE) + HV_X64_XSAVE_AREA_PT_SIZE) + HV_X64_XSAVE_AREA_PKRU_SIZE) + HV_X64_XSAVE_AREA_HDC_SIZE) + HV_X64_XSAVE_AREA_UNKNOWN_SIZE"

definition HV_X64_X_REGISTERS :: cty where
  "HV_X64_X_REGISTERS = Aligned 64 (Union 0 (flds_of
       [mem '''' (Struct 0 (flds_of [mem ''FpControlStatus'' HV_X64_FP_CONTROL_STATUS_REGISTER,
          mem ''XmmControlStatus'' HV_X64_XMM_CONTROL_STATUS_REGISTER,
          mem ''FpMmx'' (Arr HV_X64_FP_MMX_REGISTER 8),
          mem '''' (Union 0 (flds_of [mem ''Xmm'' (Arr HV_UINT128 16), mem ''YmmLow'' (Arr HV_UINT128 16)])),
          mem ''Reserved'' (Arr HV_UINT128 6), mem ''Header'' HV_X64_XSAVE_HEADER,
          mem ''YmmHigh'' (Arr HV_UINT128 16)])),
       mem ''XSaveArea'' (Arr U8 (unat HV_X64_XSAVE_AREA_SIZE))]))"

definition HV_X64_CONTEXT :: cty where
  "HV_X64_CONTEXT = Struct 0 (flds_of
       [mem ''InitialApicId'' U64, mem ''Rax'' U64, mem ''Rbx'' U64, mem ''Rcx'' U64,
       mem ''Rdx'' U64, mem ''Rsi'' U64, mem ''Rdi'' U64, mem ''Rbp'' U64, mem ''Rsp'' U64,
       mem ''R8'' U64, mem ''R9'' U64, mem ''R10'' U64, mem ''R11'' U64, mem ''R12'' U64,
       mem ''R13'' U64, mem ''R14'' U64, mem ''R15'' U64, mem ''Rip'' U64, mem ''Rflags'' U64,
       mem ''Cr0'' U64, mem ''Cr2'' U64, mem ''Cr3'' U64, mem ''Cr4'' U64, mem ''Cr8'' U64,
       mem ''Efer'' U64, mem ''Xfem'' U64, mem ''Dr0'' U64, mem ''Dr1'' U64, mem ''Dr2'' U64,
       mem ''Dr3'' U64, mem ''Dr6'' U64, mem ''Dr7'' U64, mem ''Idtr'' HV_X64_TABLE_REGISTER,
       mem ''Gdtr'' HV_X64_TABLE_REGISTER, mem ''Cs'' HV_X64_SEGMENT_REGISTER,
       mem ''Ds'' HV_X64_SEGMENT_REGISTER, mem ''Es'' HV_X64_SEGMENT_REGISTER,
       mem ''Fs'' HV_X64_SEGMENT_REGISTER, mem ''Gs'' HV_X64_SEGMENT_REGISTER,
       mem ''Ss'' HV_X64_SEGMENT_REGISTER, mem ''Tr'' HV_X64_SEGMENT_REGISTER,
       mem ''Ldtr'' HV_X64_SEGMENT_REGISTER, mem ''KernelGsBase'' U64, mem ''Star'' U64,
       mem ''Lstar'' U64, mem ''Cstar'' U64, mem ''Sfmask'' U64, mem ''SysenterCs'' U64,
       mem ''SysenterEip'' U64, mem ''SysenterEsp'' U64, mem ''MsrCrPat'' U64,
       mem ''LocalApicId'' U32, mem ''LocalApicVersion'' U32, mem ''LocalApicLdr'' U32,
       mem ''LocalApicDfr'' U32, mem ''LocalApicSpurious'' U32, mem ''LocalApicIcrLow'' U32,
       mem ''LocalApicIcrHigh'' U32, mem ''LocalApicIsr'' (Arr U32 8),
       mem ''LocalApicTmr'' (Arr U32 8), mem ''LocalApicLvtTimer'' U32,
       mem ''LocalApicLvtPerfmon'' U32, mem ''LocalApicLvtLint0'' U32,
       mem ''LocalApicLvtLint1'' U32, mem ''LocalApicCurrentCount'' U32,
       mem ''LocalApicInitialCount'' U32, mem ''LocalApicDivider'' U32,
       mem ''LocalApicBaseMsr'' U64,
       mem '''' (Union 0 (flds_of [mem ''FxRegisters'' HV_X64_FX_REGISTERS, mem ''XRegisters'' HV_X64_X_REGISTERS]))])"

definition HV_ARM64_CONTEXT :: cty where
  "HV_ARM64_CONTEXT = Struct 0 (flds_of
       [mem ''X0'' U64, mem ''X1'' U64, mem ''X2'' U64, mem ''X3'' U64, mem ''X4'' U64,
       mem ''X5'' U64, mem ''X6'' U64, mem ''X7'' U64, mem ''X8'' U64, mem ''X9'' U64,
       mem ''X10'' U64, mem ''X11'' U64, mem ''X12'' U64, mem ''X13'' U64, mem ''X14'' U64,
       mem ''X15'' U64, mem ''Q0'' HV_UINT128, mem ''Q1'' HV_UINT128, mem ''Q2'' HV_UINT128,
       mem ''Q3'' HV_UINT128, mem ''Q4'' HV_UINT128, mem ''Q5'' HV_UINT128,
       mem ''Q6'' HV_UINT128, mem ''Q7'' HV_UINT128, mem ''Q16'' HV_UINT128,
       mem ''Q17'' HV_UINT128, mem ''Q18'' HV_UINT128, mem ''Q19'' HV_UINT128,
       mem ''Q20'' HV_UINT128, mem ''Q21'' HV_UINT128, mem ''Q22'' HV_UINT128,
       mem ''Q23'' HV_UINT128, mem ''Q24'' HV_UINT128, mem ''Q25'' HV_UINT128,
       mem ''Q26'' HV_UINT128, mem ''Q27'' HV_UINT128, mem ''Q28'' HV_UINT128,
       mem ''Q29'' HV_UINT128, mem ''Q30'' HV_UINT128, mem ''Q31'' HV_UINT128, mem ''X16'' U64,
       mem ''X17'' U64, mem ''X18'' U64, mem ''X19'' U64, mem ''X20'' U64, mem ''X21'' U64,
       mem ''X22'' U64, mem ''X23'' U64, mem ''X24'' U64, mem ''X25'' U64, mem ''X26'' U64,
       mem ''X27'' U64, mem ''X28'' U64, mem ''XFp'' U64, mem ''XLr'' U64,
       mem ''Q8'' HV_UINT128, mem ''Q9'' HV_UINT128, mem ''Q10'' HV_UINT128,
       mem ''Q11'' HV_UINT128, mem ''Q12'' HV_UINT128, mem ''Q13'' HV_UINT128,
       mem ''Q14'' HV_UINT128, mem ''Q15'' HV_UINT128, mem ''Cpsr'' U32, mem ''Sp'' U64,
       mem ''Pc'' U64, mem ''SCTLR_EL1'' U64, mem ''ACTLR_EL1'' U64, mem ''CPACR_EL1'' U64,
       mem ''TPIDRRO_EL0'' U64, mem ''TPIDR_EL0'' U64, mem ''TTBR0_EL1'' U64,
       mem ''TTBR1_EL1'' U64, mem ''TCR_EL1'' U64, mem ''ESR_EL1'' U64, mem ''FAR_EL1'' U64,
       mem ''PAR_EL1'' U64, mem ''MAIR_EL1'' U64, mem ''VBAR_EL1'' U64,
       mem ''CONTEXTIDR_EL1'' U64, mem ''TPIDR_EL1'' U64, mem ''SPSR_EL1'' U64,
       mem ''ELR_EL1'' U64, mem ''AFSR0_EL1'' U64, mem ''AFSR1_EL1'' U64, mem ''AMAIR_EL1'' U64])"

definition HV_VIRTUAL_PROCESSOR_REGISTERS_VERSION :: "32 word" where
  "HV_VIRTUAL_PROCESSOR_REGISTERS_VERSION = 1"

definition HV_VP_CONTEXT :: "arch \<Rightarrow> cty" where
  "HV_VP_CONTEXT a = Struct 0 (flds_of
       [mem '''' (Union 0 (flds_of ([mem '''' (Struct 0 (flds_of [mem ''Version'' U32, mem ''Architecture'' Enum_ty,
             mem '''' (Union 0 (flds_of ((case a of X64 \<Rightarrow> [mem ''x64'' HV_X64_CONTEXT] | ARM64 \<Rightarrow>
                 [mem ''aa64'' HV_ARM64_CONTEXT]))))]))] @
           (case a of X64 \<Rightarrow> [] | ARM64 \<Rightarrow> [mem '''' (Struct 0 (flds_of [mem ''Pc'' U64, mem ''Sctlr'' U64, mem ''Ttbr0'' U64, mem ''Ttbr1'' U64, mem ''Tcr'' U64,
             mem ''Mair'' U64]))]))))])"

definition HV_STATISTICS_GROUP_TYPE :: cty where
  "HV_STATISTICS_GROUP_TYPE = U16"

definition HV_STATISTICS_GROUP_LENGTH :: cty where
  "HV_STATISTICS_GROUP_LENGTH = U16"

definition HV_STATISTICS_GROUP_VERSION :: cty where
  "HV_STATISTICS_GROUP_VERSION = Struct 0 (flds_of
       [mem ''Minor'' U16, mem ''Major'' U16])"

definition HV_STATISTICS_GROUP_HEADER :: cty where
  "HV_STATISTICS_GROUP_HEADER = Aligned 2 (Struct 0 (flds_of
       [mem ''Type'' HV_STATISTICS_GROUP_TYPE, mem ''Version'' HV_STATISTICS_GROUP_VERSION,
       mem ''Length'' HV_STATISTICS_GROUP_LENGTH]))"

definition HV_STATISTICS_GROUP_END_OF_LIST :: "32 word" where "HV_STATISTICS_GROUP_END_OF_LIST = 0"

definition HV_STATISTICS_GROUP_END_OF_PAGE :: "32 word" where "HV_STATISTICS_GROUP_END_OF_PAGE = 1"

definition HV_STATISTICS_GROUP_HYPERCALL_BASED :: "32 word" where "HV_STATISTICS_GROUP_HYPERCALL_BASED = 15"

definition HV_STATISTICS_GROUP_HVA_ID :: "32 word" where "HV_STATISTICS_GROUP_HVA_ID = 2"

definition HV_STATISTICS_GROUP_HVA_VERSION :: "32 word" where "HV_STATISTICS_GROUP_HVA_VERSION = 0x00010000"

definition HV_STATISTICS_GROUP_HVV_ID :: "32 word" where "HV_STATISTICS_GROUP_HVV_ID = 3"

definition HV_STATISTICS_GROUP_HVV_VERSION :: "32 word" where "HV_STATISTICS_GROUP_HVV_VERSION = 0x00010000"

definition HV_STATISTICS_GROUP_HVI_ID :: "32 word" where "HV_STATISTICS_GROUP_HVI_ID = 14"

definition HV_STATISTICS_GROUP_HVI_VERSION :: "32 word" where "HV_STATISTICS_GROUP_HVI_VERSION = 0x00010000"

definition HV_STATISTICS_GROUP_LPA_ID :: "32 word" where "HV_STATISTICS_GROUP_LPA_ID = 2"

definition HV_STATISTICS_GROUP_LPA_VERSION :: "32 word" where "HV_STATISTICS_GROUP_LPA_VERSION = 0x00010000"

definition HV_STATISTICS_GROUP_LPV_ID :: "32 word" where "HV_STATISTICS_GROUP_LPV_ID = 3"

definition HV_STATISTICS_GROUP_LPV_VERSION :: "32 word" where "HV_STATISTICS_GROUP_LPV_VERSION = 0x00010000"

definition HV_STATISTICS_GROUP_LPI_ID :: "32 word" where "HV_STATISTICS_GROUP_LPI_ID = 14"

definition HV_STATISTICS_GROUP_LPI_VERSION :: "32 word" where "HV_STATISTICS_GROUP_LPI_VERSION = 0x00010000"

definition HV_STATISTICS_GROUP_PTA_ID :: "32 word" where "HV_STATISTICS_GROUP_PTA_ID = 2"

definition HV_STATISTICS_GROUP_PTA_VERSION :: "32 word" where "HV_STATISTICS_GROUP_PTA_VERSION = 0x00010000"

definition HV_STATISTICS_GROUP_PTV_ID :: "32 word" where "HV_STATISTICS_GROUP_PTV_ID = 3"

definition HV_STATISTICS_GROUP_PTV_VERSION :: "32 word" where "HV_STATISTICS_GROUP_PTV_VERSION = 0x00010000"

definition HV_STATISTICS_GROUP_PTI_ID :: "32 word" where "HV_STATISTICS_GROUP_PTI_ID = 14"

definition HV_STATISTICS_GROUP_PTI_VERSION :: "32 word" where "HV_STATISTICS_GROUP_PTI_VERSION = 0x00010000"

definition HV_STATISTICS_GROUP_VPA_ID :: "32 word" where "HV_STATISTICS_GROUP_VPA_ID = 2"

definition HV_STATISTICS_GROUP_VPA_VERSION :: "32 word" where "HV_STATISTICS_GROUP_VPA_VERSION = 0x00010000"

definition HV_STATISTICS_GROUP_VPV_ID :: "32 word" where "HV_STATISTICS_GROUP_VPV_ID = 3"

definition HV_STATISTICS_GROUP_VPV_VERSION :: "32 word" where "HV_STATISTICS_GROUP_VPV_VERSION = 0x00010000"

definition HV_STATISTICS_GROUP_VPI_ID :: "32 word" where "HV_STATISTICS_GROUP_VPI_ID = 14"

definition HV_STATISTICS_GROUP_VPI_VERSION :: "32 word" where "HV_STATISTICS_GROUP_VPI_VERSION = 0x00010000"

definition HV_ST_MAX_COUNTERS_PER_GROUP :: "arch \<Rightarrow> nat" where
  "HV_ST_MAX_COUNTERS_PER_GROUP a =
     (unat (HV_PAGE_SIZE a) - 2 * csize sysv HV_STATISTICS_GROUP_HEADER) div csize sysv U64"

definition HV_STATS_PAGE :: "arch \<Rightarrow> cty" where
  "HV_STATS_PAGE a = Struct 0 (flds_of
       [mem ''Data'' (Arr U64 (unat (HV_PAGE_SIZE a) div csize sysv U64))])"

definition HV_STATS_OBJECT_TYPE :: enum_tab where
  "HV_STATS_OBJECT_TYPE = enum_of
     [(''HvStatsObjectHypervisor'', Val 0x00000001),
     (''HvStatsObjectLogicalProcessor'', Val 0x00000002),
     (''HvStatsObjectPartition'', Val 0x00010001), (''HvStatsObjectVp'', Val 0x00010002)]"

definition HV_ST_MAP_LOCATION :: cty where
  "HV_ST_MAP_LOCATION = Union 0 (flds_of
       [mem ''AsUINT64'' U64,
       mem '''' (Struct 0 (flds_of [bits ''MapEnabled'' U64 1, bits ''ReservedP'' U64 11, bits ''BaseMapGpaPageNumber'' U64 52]))])"

definition HV_HYPERVISOR_COUNTER :: enum_tab where
  "HV_HYPERVISOR_COUNTER = enum_of
     [(''StHvCounterLogicalProcessors'', Val 1), (''StHvCounterPartitions'', Val 2),
     (''StHvCounterTotalPages'', Val 3), (''StHvCounterVirtualProcessors'', Val 4),
     (''StHvCounterMonitoredNotifications'', Val 5),
     (''StCounterHvLogicalProcessors'', Val 0x1), (''StCounterHvPartitions'', Val 0x2),
     (''StCounterHvTotalPages'', Val 0x3), (''StCounterHvVirtualProcessors'', Val 0x4),
     (''StCounterHvMonitoredNotifications'', Val 0x5),
     (''StCounterHvModernStandbyEntries'', Val 0x6),
     (''StCounterHvPlatformIdleTransitions'', Val 0x7),
     (''StCounterHvHypervisorStartupCost'', Val 0x8), (''StCounterHvIOSpacePages'', Val 0xa),
     (''StCounterHvNonEssentialPagesForDump'', Val 0xb),
     (''StCounterHvSubsumedPages'', Val 0xc), (''StCounterHvMAXIMUM'', Val 0xd)]"

definition HV_STATISTICS_GROUP_HVA_LENGTH :: "32 word" where "HV_STATISTICS_GROUP_HVA_LENGTH = 40"

definition HV_STATISTICS_GROUP_HVV_LENGTH :: "32 word" where "HV_STATISTICS_GROUP_HVV_LENGTH = 0"

definition HV_CPU_COUNTER :: enum_tab where
  "HV_CPU_COUNTER = enum_of
     [(''StLpCounterGlobalTime'', Val 1), (''StLpCounterTotalRunTime'', Val 2),
     (''StLpCounterHypervisorRunTime'', Val 3), (''StLpCounterHardwareInterrupts'', Val 4),
     (''StLpCounterContextSwitches'', Val 5), (''StLpCounterInterProcessorInterrupts'', Val 6),
     (''StLpCounterSchedulerInterrupts'', Val 7), (''StLpCounterTimerInterrupts'', Val 8),
     (''StLpCounterInterProcessorInterruptsSent'', Val 9),
     (''StLpCounterProcessorHalts'', Val 10), (''StLpCounterMonitorTransitionCost'', Val 11),
     (''StLpCounterContextSwitchTime'', Val 12), (''StLpCounterC1TransitionsCount'', Val 13),
     (''StLpCounterC1RunTime'', Val 14), (''StLpCounterC2TransitionsCount'', Val 15),
     (''StLpCounterC2RunTime'', Val 16), (''StLpCounterC3TransitionsCount'', Val 17),
     (''StLpCounterC3RunTime'', Val 18), (''StLpCounterMAXIMUM'', Auto),
     (''StCounterLpGlobalTime'', Val 0x1), (''StCounterLpTotalRunTime'', Val 0x2),
     (''StCounterLpHypervisorRunTime'', Val 0x3), (''StCounterLpHardwareInterrupts'', Val 0x4),
     (''StCounterLpContextSwitches'', Val 0x5),
     (''StCounterLpInterProcessorInterrupts'', Val 0x6),
     (''StCounterLpSchedulerInterrupts'', Val 0x7), (''StCounterLpTimerInterrupts'', Val 0x8),
     (''StCounterLpInterProcessorInterruptsSent'', Val 0x9),
     (''StCounterLpProcessorHalts'', Val 0xa), (''StCounterLpMonitorTransitionCost'', Val 0xb),
     (''StCounterLpContextSwitchTime'', Val 0xc), (''StCounterLpC1TransitionsCount'', Val 0xd),
     (''StCounterLpC1RunTime'', Val 0xe), (''StCounterLpC2TransitionsCount'', Val 0xf),
     (''StCounterLpC2RunTime'', Val 0x10), (''StCounterLpC3TransitionsCount'', Val 0x11),
     (''StCounterLpC3RunTime'', Val 0x12), (''StCounterLpRootVpIndex'', Val 0x13),
     (''StCounterLpIdleSequenceNumber'', Val 0x14), (''StCounterLpGlobalTscCount'', Val 0x15),
     (''StCounterLpActiveTscCount'', Val 0x16), (''StCounterLpIdleAccumulation'', Val 0x17),
     (''StCounterLpReferenceCycleCount0'', Val 0x18),
     (''StCounterLpActualCycleCount0'', Val 0x19),
     (''StCounterLpReferenceCycleCount1'', Val 0x1a),
     (''StCounterLpActualCycleCount1'', Val 0x1b), (''StCounterLpProximityDomainId'', Val 0x1c),
     (''StCounterLpPostedInterruptNotifications'', Val 0x1d),
     (''StCounterLpBranchPredictorFlushes'', Val 0x1e),
     (''StCounterLpCounterRefreshSequenceNumber'', Val 0x1f),
     (''StCounterLpCounterRefreshReferenceTime'', Val 0x20),
     (''StCounterLpIdleAccumulationSnapshot'', Val 0x21),
     (''StCounterLpActiveTscCountSnapshot'', Val 0x22),
     (''StCounterLpHwpRequestContextSwitches'', Val 0x23),
     (''StCounterLpPlaceholder2'', Val 0x24), (''StCounterLpPlaceholder3'', Val 0x25),
     (''StCounterLpPlaceholder4'', Val 0x26), (''StCounterLpPlaceholder5'', Val 0x27),
     (''StCounterLpPlaceholder6'', Val 0x28), (''StCounterLpPlaceholder7'', Val 0x29),
     (''StCounterLpPlaceholder8'', Val 0x2a), (''StCounterLpPlaceholder9'', Val 0x2b),
     (''StCounterLpSchLocalRunListSize'', Val 0x2c), (''StCounterLpReserveGroupId'', Val 0x2d),
     (''StCounterLpRunningPriority'', Val 0x2e), (''StCounterLpMAXIMUM'', Val 0x2f)]"

definition HV_STATISTICS_GROUP_LPA_LENGTH :: "32 word" where "HV_STATISTICS_GROUP_LPA_LENGTH = 144"

definition HV_STATISTICS_GROUP_LPV_LENGTH :: "32 word" where "HV_STATISTICS_GROUP_LPV_LENGTH = 0"

definition HV_PROCESS_COUNTER :: enum_tab where
  "HV_PROCESS_COUNTER = enum_of
     [(''StPtCounterVirtualProcessors'', Val 1), (''StPtCounterTlbSize'', Val 3),
     (''StPtCounterAddressSpaces'', Val 4), (''StPtCounterDepositedPages'', Val 5),
     (''StPtCounterGpaPages'', Val 6), (''StPtCounterGpaSpaceModifications'', Val 7),
     (''StPtCounterVirtualTlbFlushEntires'', Val 8), (''StPtCounterRecommendedTlbSize'', Val 9),
     (''StPtCounterGpaPages4K'', Val 10), (''StPtCounterGpaPages2M'', Val 11),
     (''StPtCounterGpaPages1G'', Val 12), (''StPtCounterGpaPages512G'', Val 13),
     (''StPtCounterMAXIMUM'', Auto), (''StCounterPtVirtualProcessors'', Val 0x1),
     (''StCounterPtTlbSize'', Val 0x3), (''StCounterPtAddressSpaces'', Val 0x4),
     (''StCounterPtDepositedPages'', Val 0x5), (''StCounterPtGpaPages'', Val 0x6),
     (''StCounterPtGpaSpaceModifications'', Val 0x7),
     (''StCounterPtVirtualTlbFlushEntires'', Val 0x8),
     (''StCounterPtRecommendedTlbSize'', Val 0x9), (''StCounterPtGpaPages4K'', Val 0xa),
     (''StCounterPtGpaPages2M'', Val 0xb), (''StCounterPtGpaPages1G'', Val 0xc),
     (''StCounterPtGpaPages512G'', Val 0xd), (''StCounterPtDevicePages4K'', Val 0xe),
     (''StCounterPtDevicePages2M'', Val 0xf), (''StCounterPtDevicePages1G'', Val 0x10),
     (''StCounterPtDevicePages512G'', Val 0x11), (''StCounterPtAttachedDevices'', Val 0x12),
     (''StCounterPtDeviceInterruptMappings'', Val 0x13),
     (''StCounterPtIoTlbFlushes'', Val 0x14), (''StCounterPtIoTlbFlushCost'', Val 0x15),
     (''StCounterPtDeviceInterruptErrors'', Val 0x16),
     (''StCounterPtDeviceDmaErrors'', Val 0x17),
     (''StCounterPtDeviceInterruptThrottleEvents'', Val 0x18),
     (''StCounterPtSkippedTimerTicks'', Val 0x19), (''StCounterPtPartitionId'', Val 0x1a),
     (''StCounterPtHwpRequestValue'', Val 0x1b), (''StCounterPtMAXIMUM'', Val 0x1c)]"

definition HV_STATISTICS_GROUP_PTA_LENGTH :: "32 word" where "HV_STATISTICS_GROUP_PTA_LENGTH = 8"

definition HV_STATISTICS_GROUP_PTV_LENGTH :: "32 word" where "HV_STATISTICS_GROUP_PTV_LENGTH = 88"

definition HV_THREAD_COUNTER :: "arch \<Rightarrow> enum_tab" where
  "HV_THREAD_COUNTER a = enum_of
     ((case a of X64 \<Rightarrow> [(''StVpCounterTotalRunTime'', Val 1), (''StVpCounterHypervisorRunTime'', Val 2),
     (''StVpCounterHypercallsCount'', Val 4), (''StVpCounterHypercallsTime'', Val 5),
     (''StVpCounterPageInvalidationsCount'', Val 6),
     (''StVpCounterPageInvalidationsTime'', Val 7),
     (''StVpCounterControlRegisterAccessesCount'', Val 8),
     (''StVpCounterControlRegisterAccessesTime'', Val 9),
     (''StVpCounterIoInstructionsCount'', Val 10), (''StVpCounterIoInstructionsTime'', Val 11),
     (''StVpCounterHltInstructionsCount'', Val 12),
     (''StVpCounterHltInstructionsTime'', Val 13),
     (''StVpCounterMwaitInstructionsCount'', Val 14),
     (''StVpCounterMwaitInstructionsTime'', Val 15),
     (''StVpCounterCpuidInstructionsCount'', Val 16),
     (''StVpCounterCpuidInstructionsTime'', Val 17), (''StVpCounterMsrAccessesCount'', Val 18),
     (''StVpCounterMsrAccessesTime'', Val 19), (''StVpCounterOtherInterceptsCount'', Val 20),
     (''StVpCounterOtherInterceptsTime'', Val 21),
     (''StVpCounterExternalInterruptsCount'', Val 22),
     (''StVpCounterExternalInterruptsTime'', Val 23),
     (''StVpCounterPendingInterruptsCount'', Val 24),
     (''StVpCounterPendingInterruptsTime'', Val 25),
     (''StVpCounterEmulatedInstructionsCount'', Val 26),
     (''StVpCounterEmulatedInstructionsTime'', Val 27),
     (''StVpCounterDebugRegisterAccessesCount'', Val 28),
     (''StVpCounterDebugRegisterAccessesTime'', Val 29),
     (''StVpCounterPageFaultInterceptsCount'', Val 30),
     (''StVpCounterPageFaultInterceptsTime'', Val 31),
     (''StVpCounterGuestPageTableMaps'', Val 32), (''StVpCounterLargePageTlbFills'', Val 33),
     (''StVpCounterSmallPageTlbFills'', Val 34),
     (''StVpCounterReflectedGuestPageFaults'', Val 35),
     (''StVpCounterApicMmioAccesses'', Val 36), (''StVpCounterIoInterceptMessages'', Val 37),
     (''StVpCounterMemoryInterceptMessages'', Val 38), (''StVpCounterApicEoiAccesses'', Val 39),
     (''StVpCounterOtherMessages'', Val 40), (''StVpCounterPageTableAllocations'', Val 41),
     (''StVpCounterLogicalProcessorMigrations'', Val 42),
     (''StVpCounterAddressSpaceEvictions'', Val 43),
     (''StVpCounterAddressSpaceSwitches'', Val 44),
     (''StVpCounterAddressDomainFlushes'', Val 45),
     (''StVpCounterAddressSpaceFlushes'', Val 46),
     (''StVpCounterGlobalGvaRangeFlushes'', Val 47),
     (''StVpCounterLocalGvaRangeFlushes'', Val 48), (''StVpCounterPageTableEvictions'', Val 49),
     (''StVpCounterPageTableReclamations'', Val 50), (''StVpCounterPageTableResets'', Val 51),
     (''StVpCounterPageTableValidations'', Val 52), (''StVpCounterApicTprAccesses'', Val 53),
     (''StVpCounterPageTableWriteIntercepts'', Val 54),
     (''StVpCounterSyntheticInterrupts'', Val 55), (''StVpCounterVirtualInterrupts'', Val 56),
     (''StVpCounterApicIpisSent'', Val 57), (''StVpCounterApicSelfIpisSent'', Val 58),
     (''StVpCounterGpaSpaceHypercalls'', Val 59),
     (''StVpCounterLogicalProcessorHypercalls'', Val 60),
     (''StVpCounterLongSpinWaitHypercalls'', Val 61), (''StVpCounterOtherHypercalls'', Val 62),
     (''StVpCounterSyntheticInterruptHypercalls'', Val 63),
     (''StVpCounterVirtualInterruptHypercalls'', Val 64),
     (''StVpCounterVirtualMmuHypercalls'', Val 65),
     (''StVpCounterVirtualProcessorHypercalls'', Val 66), (''StVpCounterMAXIMUM'', Auto)] | ARM64 \<Rightarrow>
     [(''StCounterVpTotalRunTime'', Val 0x1), (''StCounterVpHypervisorRunTime'', Val 0x2),
     (''StCounterVpRemoteNodeRunTime'', Val 0x3), (''StCounterVpNormalizedRunTime'', Val 0x4),
     (''StCounterVpIdealCpu'', Val 0x5), (''StCounterVpHypercallsCount'', Val 0x7),
     (''StCounterVpHypercallsTime'', Val 0x8), (''StCounterVpSysRegAccessesCount'', Val 0x9),
     (''StCounterVpSysRegAccessesTime'', Val 0xa),
     (''StCounterVpSmcInstructionsCount'', Val 0xb),
     (''StCounterVpSmcInstructionsTime'', Val 0xc),
     (''StCounterVpOtherInterceptsCount'', Val 0xd),
     (''StCounterVpOtherInterceptsTime'', Val 0xe),
     (''StCounterVpExternalInterruptsCount'', Val 0xf),
     (''StCounterVpExternalInterruptsTime'', Val 0x10),
     (''StCounterVpPendingInterruptsCount'', Val 0x11),
     (''StCounterVpPendingInterruptsTime'', Val 0x12),
     (''StCounterVpGuestPageTableMaps'', Val 0x13),
     (''StCounterVpLargePageTlbFills'', Val 0x14), (''StCounterVpSmallPageTlbFills'', Val 0x15),
     (''StCounterVpReflectedGuestPageFaults'', Val 0x16),
     (''StCounterVpMemoryInterceptMessages'', Val 0x17),
     (''StCounterVpOtherMessages'', Val 0x18),
     (''StCounterVpLogicalProcessorMigrations'', Val 0x19),
     (''StCounterVpAddressDomainFlushes'', Val 0x1a),
     (''StCounterVpAddressSpaceFlushes'', Val 0x1b),
     (''StCounterVpSyntheticInterrupts'', Val 0x1c),
     (''StCounterVpVirtualInterrupts'', Val 0x1d), (''StCounterVpApicSelfIpisSent'', Val 0x1e),
     (''StCounterVpGpaSpaceHypercalls'', Val 0x1f),
     (''StCounterVpLogicalProcessorHypercalls'', Val 0x20),
     (''StCounterVpLongSpinWaitHypercalls'', Val 0x21),
     (''StCounterVpOtherHypercalls'', Val 0x22),
     (''StCounterVpSyntheticInterruptHypercalls'', Val 0x23),
     (''StCounterVpVirtualInterruptHypercalls'', Val 0x24),
     (''StCounterVpVirtualMmuHypercalls'', Val 0x25),
     (''StCounterVpVirtualProcessorHypercalls'', Val 0x26),
     (''StCounterVpHardwareInterrupts'', Val 0x27),
     (''StCounterVpNestedPageFaultInterceptsCount'', Val 0x28),
     (''StCounterVpNestedPageFaultInterceptsTime'', Val 0x29),
     (''StCounterVpLogicalProcessorDispatches'', Val 0x2a),
     (''StCounterVpWaitingForCpuTime'', Val 0x2b),
     (''StCounterVpExtendedHypercalls'', Val 0x2c),
     (''StCounterVpExtendedHypercallInterceptMessages'', Val 0x2d),
     (''StCounterVpMbecNestedPageTableSwitches'', Val 0x2e),
     (''StCounterVpOtherReflectedGuestExceptions'', Val 0x2f),
     (''StCounterVpGlobalIoTlbFlushes'', Val 0x30),
     (''StCounterVpGlobalIoTlbFlushCost'', Val 0x31),
     (''StCounterVpLocalIoTlbFlushes'', Val 0x32),
     (''StCounterVpLocalIoTlbFlushCost'', Val 0x33),
     (''StCounterVpFlushGuestPhysicalAddressSpaceHypercalls'', Val 0x34),
     (''StCounterVpFlushGuestPhysicalAddressListHypercalls'', Val 0x35),
     (''StCounterVpPostedInterruptNotifications'', Val 0x36),
     (''StCounterVpPostedInterruptScans'', Val 0x37),
     (''StCounterVpTotalCoreRunTime'', Val 0x38), (''StCounterVpMaximumRunTime'', Val 0x39),
     (''StCounterVpWaitingForCpuTimeBucket0'', Val 0x3a),
     (''StCounterVpWaitingForCpuTimeBucket1'', Val 0x3b),
     (''StCounterVpWaitingForCpuTimeBucket2'', Val 0x3c),
     (''StCounterVpWaitingForCpuTimeBucket3'', Val 0x3d),
     (''StCounterVpWaitingForCpuTimeBucket4'', Val 0x3e),
     (''StCounterVpWaitingForCpuTimeBucket5'', Val 0x3f),
     (''StCounterVpWaitingForCpuTimeBucket6'', Val 0x40),
     (''StCounterVpHwpRequestContextSwitches'', Val 0x41),
     (''StCounterVpPlaceholder2'', Val 0x42), (''StCounterVpPlaceholder3'', Val 0x43),
     (''StCounterVpPlaceholder4'', Val 0x44), (''StCounterVpPlaceholder5'', Val 0x45),
     (''StCounterVpPlaceholder6'', Val 0x46), (''StCounterVpPlaceholder7'', Val 0x47),
     (''StCounterVpPlaceholder8'', Val 0x48), (''StCounterVpContentionTime'', Val 0x49),
     (''StCounterVpWakeUpTime'', Val 0x4a), (''StCounterVpSchedulingPriority'', Val 0x4b),
     (''StCounterVpVtl1DispatchCount'', Val 0x4c), (''StCounterVpVtl2DispatchCount'', Val 0x4d),
     (''StCounterVpVtl2DispatchBucket0'', Val 0x4e),
     (''StCounterVpVtl2DispatchBucket1'', Val 0x4f),
     (''StCounterVpVtl2DispatchBucket2'', Val 0x50),
     (''StCounterVpVtl2DispatchBucket3'', Val 0x51),
     (''StCounterVpVtl2DispatchBucket4'', Val 0x52),
     (''StCounterVpVtl2DispatchBucket5'', Val 0x53),
     (''StCounterVpVtl2DispatchBucket6'', Val 0x54), (''StCounterVpVtl1RunTime'', Val 0x55),
     (''StCounterVpVtl2RunTime'', Val 0x56), (''StCounterVpIommuHypercalls'', Val 0x57),
     (''StCounterVpCpuGroupHypercalls'', Val 0x58), (''StCounterVpVsmHypercalls'', Val 0x59),
     (''StCounterVpEventLogHypercalls'', Val 0x5a),
     (''StCounterVpDeviceDomainHypercalls'', Val 0x5b),
     (''StCounterVpDepositHypercalls'', Val 0x5c), (''StCounterVpSvmHypercalls'', Val 0x5d),
     (''StCounterVpMAXIMUM'', Val 0x5e)]))"

definition HV_STATISTICS_GROUP_VPA_LENGTH :: "32 word" where "HV_STATISTICS_GROUP_VPA_LENGTH = 16"

definition HV_STATISTICS_GROUP_VPV_LENGTH :: "32 word" where "HV_STATISTICS_GROUP_VPV_LENGTH = 504"

definition HV_TIME_STAMP :: cty where
  "HV_TIME_STAMP = U64"

definition HV_LOGICAL_PROCESSOR_INDEX :: cty where
  "HV_LOGICAL_PROCESSOR_INDEX = U32"

definition HV_X64_PPM_IDLE_STATE_CHANGE_METHOD :: enum_tab where
  "HV_X64_PPM_IDLE_STATE_CHANGE_METHOD = enum_of
     [(''HvX64PowerChangeIssueHlt'', Auto), (''HvX64PowerChangeReadIoThenIssueHlt'', Auto),
     (''HvX64PowerChangeReadIo'', Auto), (''HvX64PowerChangeIssueMwait'', Auto)]"

definition HV_INTERRUPT_TYPE :: "arch \<Rightarrow> enum_tab" where
  "HV_INTERRUPT_TYPE a = enum_of
     ((case a of X64 \<Rightarrow> [(''HvX64InterruptTypeFixed'', Val 0x0000),
     (''HvX64InterruptTypeLowestPriority'', Val 0x0001),
     (''HvX64InterruptTypeSmi'', Val 0x0002), (''HvX64InterruptTypeRemoteRead'', Val 0x0003),
     (''HvX64InterruptTypeNmi'', Val 0x0004), (''HvX64InterruptTypeInit'', Val 0x0005),
     (''HvX64InterruptTypeSipi'', Val 0x0006), (''HvX64InterruptTypeExtInt'', Val 0x0007),
     (''HvX64InterruptTypeLocalInt0'', Val 0x0008),
     (''HvX64InterruptTypeLocalInt1'', Val 0x0009), (''HvX64InterruptTypeMaximum'', Val 0x000a)] | ARM64 \<Rightarrow>
     [(''HvArm64InterruptTypeFixed'', Val 0x0000), (''HvArm64InterruptTypeMaximum'', Val 0x0008)]))"

definition HV_INTERRUPT_VECTOR :: cty where
  "HV_INTERRUPT_VECTOR = U32"

definition HV_INTERRUPT_VECTOR_NONE :: "32 word" where "HV_INTERRUPT_VECTOR_NONE = 0xffffffff"

definition HV_PROFILE_SOURCE :: enum_tab where
  "HV_PROFILE_SOURCE = enum_of
     [(''HvProfileInvalid'', Auto), (''HvProfileCyclesNotHalted'', Val 1),
     (''HvProfileCacheMisses'', Auto), (''HvProfileBranchMispredictions'', Auto),
     (''HvProfileDispatchedFPUOps'', Val 64), (''HvProfileCyclesNoFPUOpsRetired'', Auto),
     (''HvProfileDispathedFPUOpsWithFastFlag'', Auto), (''HvProfileRetiredSSEOps'', Auto),
     (''HvProfileRetiredMoveOps'', Auto), (''HvProfileSegmentRegisterLoad'', Auto),
     (''HvProfileResyncBySelfModifyingCode'', Auto), (''HvProfileResyncBySnoop'', Auto),
     (''HvProfileBuffer2Full'', Auto), (''HvProfileLockedOperation'', Auto),
     (''HvProfileRetiredCLFLUSH'', Auto), (''HvProfileRetiredCPUID'', Auto),
     (''HvProfileLSDispatch'', Auto), (''HvProfileCancelledStoreToLoadFwdOperations'', Auto),
     (''HvProfileSMIReceived'', Auto), (''HvProfileDataAccess'', Auto),
     (''HvProfileDataMiss'', Auto), (''HvProfileDCRefillFromL2'', Auto),
     (''HvProfileDCRefillFromSystem'', Auto), (''HvProfileDCRefillCopyBack'', Auto),
     (''HvProfileDCL1DTLBMissL2DTLBHit'', Auto), (''HvProfileDCL1DTLBMissL2DTLBMiss'', Auto),
     (''HvProfileDCMisalignedDataReference'', Auto),
     (''HvProfileDCLateCancelOfAnAccess'', Auto), (''HvProfileDCEarlyCancelOfAnAccess'', Auto),
     (''HvProfileDCOneBitECCError'', Auto),
     (''HvProfileDCDispatchedPrefetchInstructions'', Auto),
     (''HvProfileDCacheMissByLockedInstructions'', Auto), (''HvProfileL1DTLBHit'', Auto),
     (''HvProfileL1DTLBReloadLatency'', Auto),
     (''HvProfileIneffectiveSoftwarePrefetches'', Auto), (''HvProfileGlobalTLBFlushes'', Auto),
     (''HvProfileRetiredINVLPGAndINVLPGA'', Auto), (''HvProfileMemoryAccessesToUC'', Auto),
     (''HvProfileMemoryAccessesToWCAndWCBufferFlushToWB'', Auto),
     (''HvProfileStreamStoreToWB'', Auto), (''HvProfileDataPrefetchCancelled'', Auto),
     (''HvProfileDataPrefetchAttempts'', Auto), (''HvProfileMABRequests'', Auto),
     (''HvProfileNBReadResponsesForForCacheRefill'', Auto),
     (''HvProfileOctwordsWriitenToSystem'', Auto),
     (''HvProfilePageTableWalkerPDPERefillHitInL2'', Auto),
     (''HvProfilePageTableWalkerPDPELookupMissedInPDC'', Auto),
     (''HvProfilePageTableWalkerPML4ERefillHitInL2'', Auto),
     (''HvProfilePageTableWalkerPML4ELookupMissedInPDC'', Auto),
     (''HvProfilePageTableWalkerPTERefillHitInL2'', Auto),
     (''HvProfilePageTableWalkerPDERefillHitInL2'', Auto),
     (''HvProfilePageTableWalkerPDELookupMissedInPDC'', Auto),
     (''HvProfilePageTableWalkerPDELookupInPDC'', Auto), (''HvProfileProbeHits'', Auto),
     (''HvProfileCacheCrossInvalidates'', Auto), (''HvProfileTLBFlushEvents'', Auto),
     (''HvProfileL2Request'', Auto), (''HvProfileL2CacheMisses'', Auto),
     (''HvProfileL2CacheMissesICFill'', Auto), (''HvProfileL2CacheMissesDCFill'', Auto),
     (''HvProfileL2CacheMissesTLBPageTableWalk'', Auto), (''HvProfileL2Fill'', Auto),
     (''HvProfileICFetch'', Auto), (''HvProfileICMiss'', Auto),
     (''HvProfileICRefillFromL2'', Auto), (''HvProfileICRefillFromSystem'', Auto),
     (''HvProfileICL1TLBMissL2TLBHit'', Auto), (''HvProfileICL1TLBMissL2TLBMiss'', Auto),
     (''HvProfileICResyncBySnoop'', Auto), (''HvProfileICInstructionFetchStall'', Auto),
     (''HvProfileICReturnStackHit'', Auto), (''HvProfileICReturnStackOverflow'', Auto),
     (''HvProfileInstructionCacheVictims'', Auto),
     (''HvProfileInstructionCacheLinesInvalidated'', Auto), (''HvProfileITLBReloads'', Auto),
     (''HvProfileITLBReloadsAborted'', Auto), (''HvProfileRetiredInstructions'', Auto),
     (''HvProfileRetireduops'', Auto), (''HvProfileRetiredBranches'', Auto),
     (''HvProfileRetiredBranchesMispredicted'', Auto), (''HvProfileTakenBranches'', Auto),
     (''HvProfileTakenBranchesMispredicted'', Auto),
     (''HvProfileRetiredFarControlTransfers'', Auto),
     (''HvProfileRetiredResyncsNonControlTransferBranches'', Auto),
     (''HvProfileRetiredNearReturns'', Auto),
     (''HvProfileRetiredNearReturnsMispredicted'', Auto),
     (''HvProfileTakenBranchesMispredictedByAddressMiscompare'', Auto),
     (''HvProfileRetiredFPUInstructions'', Auto),
     (''HvProfileRetiredFastpathDoubleOpInstructions'', Auto),
     (''HvProfileInterruptsMaskedCycles'', Auto),
     (''HvProfileInterruptsMaskedWhilePendingCycles'', Auto),
     (''HvProfileTakenHardwareInterrupts'', Auto), (''HvProfileNothingToDispatch'', Auto),
     (''HvProfileDispatchStalls'', Auto),
     (''HvProfileDispatchStallsFromBranchAbortToRetire'', Auto),
     (''HvProfileDispatchStallsForSerialization'', Auto),
     (''HvProfileDispatchStallsForSegmentLoad'', Auto),
     (''HvProfileDispatchStallsWhenReorderBufferFull'', Auto),
     (''HvProfileDispatchStallsWhenReservationStationsFull'', Auto),
     (''HvProfileDispatchStallsWhenFPUFull'', Auto),
     (''HvProfileDispatchStallsWhenLSFull'', Auto),
     (''HvProfileDispatchStallsWhenWaitingForAllQuiet'', Auto),
     (''HvProfileDispatchStallsWhenFarControlOrResyncBranchPending'', Auto),
     (''HvProfileFPUExceptions'', Auto), (''HvProfileNumberOfBreakPointsForDR0'', Auto),
     (''HvProfileNumberOfBreakPointsForDR1'', Auto),
     (''HvProfileNumberOfBreakPointsForDR2'', Auto),
     (''HvProfileNumberOfBreakPointsForDR3'', Auto), (''HvProfileDRAMAccess'', Auto),
     (''HvProfileDRAMPageTableOverflow'', Auto),
     (''HvProfileDRAMDRAMCommandSlotsMissed'', Auto),
     (''HvProfileMemoryControllerTurnAround'', Auto),
     (''HvProfileMemoryControllerBypassCounter'', Auto), (''HvProfileSizedCommands'', Auto),
     (''HvProfileProbeResult'', Auto), (''HvProfileUpstreamRequest'', Auto),
     (''HvProfileHyperTransportBus0Bandwidth'', Auto),
     (''HvProfileHyperTransportBus1Bandwidth'', Auto),
     (''HvProfileHyperTransportBus2Bandwidth'', Auto),
     (''HvProfileGuestTLBMissesAndInvalidates'', Auto), (''HvProfileGuestTLBMisses'', Auto),
     (''HvProfileGuestTLBInvalidates'', Auto),
     (''HvProfileHostPageLargerThanGuestPage_RevC'', Auto),
     (''HvProfilePageSizeMismatchCausedByMTRR_RevC'', Auto),
     (''HvProfileGuestPageLargerThanHostPage_RevC'', Auto),
     (''HvProfileInterruptChecks'', Auto), (''HvProfileRetiredLFENCE'', Auto),
     (''HvProfileRetiredSFENCE'', Auto), (''HvProfileRetiredMFENCE'', Auto),
     (''HvProfileCPUToDRAMRequestsLocalToNode0'', Auto),
     (''HvProfileCPUToDRAMRequestsLocalToNode1'', Auto),
     (''HvProfileCPUToDRAMRequestsLocalToNode2'', Auto),
     (''HvProfileCPUToDRAMRequestsLocalToNode3'', Auto),
     (''HvProfileCPUToDRAMRequestsLocalToNode4'', Auto),
     (''HvProfileCPUToDRAMRequestsLocalToNode5'', Auto),
     (''HvProfileCPUToDRAMRequestsLocalToNode6'', Auto),
     (''HvProfileCPUToDRAMRequestsLocalToNode7'', Auto),
     (''HvProfileIOToDRAMRequestsLocalToNode0'', Auto),
     (''HvProfileIOToDRAMRequestsLocalToNode1'', Auto),
     (''HvProfileIOToDRAMRequestsLocalToNode2'', Auto),
     (''HvProfileIOToDRAMRequestsLocalToNode3'', Auto),
     (''HvProfileIOToDRAMRequestsLocalToNode4'', Auto),
     (''HvProfileIOToDRAMRequestsLocalToNode5'', Auto),
     (''HvProfileIOToDRAMRequestsLocalToNode6'', Auto),
     (''HvProfileIOToDRAMRequestsLocalToNode7'', Auto), (''HvProfileCPURequestsToAPIC'', Auto),
     (''HvProfileInstructionsRetired'', Val 512), (''HvProfileUnhaltedReferenceCycles'', Auto),
     (''HvProfileLLCReference'', Auto), (''HvProfileLLCMisses'', Auto),
     (''HvProfileBranchInstuctionRetired'', Auto), (''HvProfileBranchMispredict'', Auto)]"

definition HV_PROXIMITY_DOMAIN_ID :: cty where
  "HV_PROXIMITY_DOMAIN_ID = U32"

definition HV_PROXIMITY_DOMAIN_FLAGS :: cty where
  "HV_PROXIMITY_DOMAIN_FLAGS = Struct 0 (flds_of
       [bits ''ProximityPreferred'' U32 1, bits ''Reserved'' U32 30,
       bits ''ProximityInfoValid'' U32 1])"

definition HV_PROXIMITY_DOMAIN_INFO :: cty where
  "HV_PROXIMITY_DOMAIN_INFO = Struct 0 (flds_of
       [mem ''Id'' HV_PROXIMITY_DOMAIN_ID, mem ''Flags'' HV_PROXIMITY_DOMAIN_FLAGS])"

definition HV_PROCESSOR_HW_ID :: cty where
  "HV_PROCESSOR_HW_ID = U64"

definition HV_PROCESSOR_INFO :: "arch \<Rightarrow> cty" where
  "HV_PROCESSOR_INFO a = Struct 0 (flds_of
       ((case a of X64 \<Rightarrow> [mem ''LocalApicId'' U32] | ARM64 \<Rightarrow>
        [mem ''ProcessorHwId'' HV_PROCESSOR_HW_ID]) @
        [mem ''ProximityDomainId'' HV_PROXIMITY_DOMAIN_ID]))"

definition HV_MEMORY_RANGE_INFO :: cty where
  "HV_MEMORY_RANGE_INFO = Struct 0 (flds_of
       [mem ''BaseAddress'' HV_SPA, mem ''Length'' U64,
       mem '''' (Union 0 (flds_of [mem ''ProximityDomainId'' HV_PROXIMITY_DOMAIN_ID,
          mem ''Attributes'' (Union 0 (flds_of [mem ''AsUINT8'' U8,
             mem '''' (Struct 0 (flds_of [bits ''IsRam'' U8 1, bits ''IsNonRootRam'' U8 1, bits ''IsHotAddableRam'' U8 1,
                bits ''IsBadRam'' U8 1, bits ''Reserved'' U8 4]))]))]))])"

definition HV_EVENTLOG_BUFFER_INDEX_NONE :: "32 word" where "HV_EVENTLOG_BUFFER_INDEX_NONE = 0xffffffff"

definition HV_EVENTLOG_TYPE_PRIVATE :: enum_tab where
  "HV_EVENTLOG_TYPE_PRIVATE = enum_of
     [(''HvEventLogTypeSystemDiagnostics'', Val 0x00000002)]"

definition HV_EVENTLOG_BUFFER_STATE :: enum_tab where
  "HV_EVENTLOG_BUFFER_STATE = enum_of
     [(''HvEventLogBufferStateStandby'', Val 0x0), (''HvEventLogBufferStateFree'', Val 0x1),
     (''HvEventLogBufferStateInUse'', Val 0x2), (''HvEventLogBufferStateComplete'', Val 0x3),
     (''HvEventLogBufferStateReady'', Val 0x4), (''HvEventLogBufferStateUnmapping'', Val 0x5),
     (''HvEventLogBufferStateDeleting'', Val 0x6),
     (''HvEventLogBufferStateProcessorListInUse'', Val 0x7)]"

definition HV_EVENTLOG_ENTRY_TIME_BASIS :: enum_tab where
  "HV_EVENTLOG_ENTRY_TIME_BASIS = enum_of
     [(''HvEventLogEntryTimeReference'', Val 0x0), (''HvEventLogEntryTimeTsc'', Val 0x1),
     (''HvEventLogEntryTimeQpc'', Val 0x2)]"

definition HV_EVENTLOG_ENTRY_TIME :: cty where
  "HV_EVENTLOG_ENTRY_TIME = Union 0 (flds_of
       [mem ''ReferenceTime'' HV_NANO100_TIME, mem ''TimeStamp'' HV_TIME_STAMP])"

definition HV_EVENTLOG_BUFFER_HEADER :: cty where
  "HV_EVENTLOG_BUFFER_HEADER = Struct 0 (flds_of
       [mem ''BufferSize'' U32, mem ''BufferIndex'' HV_EVENTLOG_BUFFER_INDEX,
       mem ''EventsLost'' U32, mem ''ReferenceCounter'' U32,
       mem '''' (Union 0 (flds_of [mem ''TimeStamp'' HV_TIME_STAMP, mem ''ReferenceTime'' HV_NANO100_TIME])),
       mem ''Reserved1'' U64, mem ''Reserved2'' U64, mem ''LogicalProcessor'' U16,
       mem ''LoggerId'' U16, mem ''BufferState'' Enum_ty, mem ''NextBufferOffset'' U32,
       mem '''' (Union 0 (flds_of [mem ''Type'' Enum_ty,
          mem '''' (Struct 0 (flds_of [mem ''BufferFlag'' U16, mem ''BufferType'' U16]))])),
       mem ''NextBufferIndex'' HV_EVENTLOG_BUFFER_INDEX, mem ''LpSequenceNumber'' U32,
       mem ''Reserved4'' (Arr U32 2)])"

definition HV_EVENTLOG_ENTRY_HEADER :: cty where
  "HV_EVENTLOG_ENTRY_HEADER = Struct 0 (flds_of
       [mem ''Context'' U32, mem ''Size'' U16, mem ''Type'' U16,
       mem '''' (Union 0 (flds_of [mem ''TimeStamp'' HV_TIME_STAMP, mem ''ReferenceTime'' HV_NANO100_TIME]))])"

definition HV_TR_EVENTLOG_GROUP_HYPERVISOR :: "32 word" where "HV_TR_EVENTLOG_GROUP_HYPERVISOR = 0x1d00"

definition HV_TR_EVENTLOG_GROUP_HYPERVISORX :: "32 word" where "HV_TR_EVENTLOG_GROUP_HYPERVISORX = 0x1e00"

definition HV_TR_GROUP_NONE :: "32 word" where "HV_TR_GROUP_NONE = 0x0000000000000000"

definition HV_EVENTLOG_ENABLE_AUDIT_SUCCESS :: "32 word" where
  "HV_EVENTLOG_ENABLE_AUDIT_SUCCESS = 0x0000000000000001"

definition HV_EVENTLOG_ENABLE_AUDIT_FAILURE :: "32 word" where
  "HV_EVENTLOG_ENABLE_AUDIT_FAILURE = 0x0000000000000002"

definition HV_EVENTLOG_ENABLE_PARTITION :: "32 word" where
  "HV_EVENTLOG_ENABLE_PARTITION = 0x0000000000000004"

definition HV_EVENTLOG_ENABLE_TEST :: "64 word" where "HV_EVENTLOG_ENABLE_TEST = 0x8000000000000000"

definition HV_TR_GROUP_ADMIN :: "32 word" where "HV_TR_GROUP_ADMIN = 0x0000000000000001"

definition HV_TR_GROUP_DIAG :: "32 word" where "HV_TR_GROUP_DIAG = 0x0000000000000002"

definition HV_TR_GROUP_WARN :: "32 word" where "HV_TR_GROUP_WARN = 0x0000000000000003"

definition HV_TR_GROUP_BM :: "32 word" where "HV_TR_GROUP_BM = 0x0000000000000100"

definition HV_TR_GROUP_DM :: "32 word" where "HV_TR_GROUP_DM = 0x0000000000000200"

definition HV_TR_GROUP_HC :: "32 word" where "HV_TR_GROUP_HC = 0x0000000000000400"

definition HV_TR_GROUP_IM :: "32 word" where "HV_TR_GROUP_IM = 0x0000000000000800"

definition HV_TR_GROUP_IC :: "32 word" where "HV_TR_GROUP_IC = 0x0000000000001000"

definition HV_TR_GROUP_OB :: "32 word" where "HV_TR_GROUP_OB = 0x0000000000002000"

definition HV_TR_GROUP_PT :: "32 word" where "HV_TR_GROUP_PT = 0x0000000000004000"

definition HV_TR_GROUP_VP :: "32 word" where "HV_TR_GROUP_VP = 0x0000000000008000"

definition HV_TR_GROUP_SYNIC :: "32 word" where "HV_TR_GROUP_SYNIC = 0x0000000000010000"

definition HV_TR_GROUP_SYNIC_TI :: "32 word" where "HV_TR_GROUP_SYNIC_TI = 0x0000000000020000"

definition HV_TR_GROUP_AM_GVA :: "32 word" where "HV_TR_GROUP_AM_GVA = 0x0000000000040000"

definition HV_TR_GROUP_AM :: "32 word" where "HV_TR_GROUP_AM = 0x0000000000080000"

definition HV_TR_GROUP_VAL :: "32 word" where "HV_TR_GROUP_VAL = 0x0000000000100000"

definition HV_TR_GROUP_VM :: "32 word" where "HV_TR_GROUP_VM = 0x0000000000200000"

definition HV_TR_GROUP_SCH :: "32 word" where "HV_TR_GROUP_SCH = 0x0000000000400000"

definition HV_TR_GROUP_TH :: "32 word" where "HV_TR_GROUP_TH = 0x0000000000800000"

definition HV_TR_GROUP_TI :: "32 word" where "HV_TR_GROUP_TI = 0x0000000001000000"

definition HV_TR_GROUP_KE :: "32 word" where "HV_TR_GROUP_KE = 0x0000000002000000"

definition HV_TR_GROUP_MM :: "32 word" where "HV_TR_GROUP_MM = 0x0000000004000000"

definition HV_TR_GROUP_PROFILER :: "32 word" where "HV_TR_GROUP_PROFILER = 0x0000000008000000"

definition HV_TR_ALL_GROUPS :: "32 word" where
  "HV_TR_ALL_GROUPS = HV_TR_GROUP_BM OR HV_TR_GROUP_DM OR HV_TR_GROUP_HC OR HV_TR_GROUP_IM OR
     HV_TR_GROUP_IC OR HV_TR_GROUP_OB OR HV_TR_GROUP_PT OR HV_TR_GROUP_VP OR HV_TR_GROUP_SYNIC OR
     HV_TR_GROUP_SYNIC_TI OR HV_TR_GROUP_AM_GVA OR HV_TR_GROUP_AM OR HV_TR_GROUP_VAL OR HV_TR_GROUP_VM OR
     HV_TR_GROUP_SCH OR HV_TR_GROUP_TH OR HV_TR_GROUP_TI OR HV_TR_GROUP_KE OR HV_TR_GROUP_MM OR
     HV_TR_GROUP_PROFILER"

definition HV_TR_IS_GROUP_RETAIL :: "64 word \<Rightarrow> bool" where
  "HV_TR_IS_GROUP_RETAIL g \<longleftrightarrow> 0 < g \<and> g AND ucast HV_TR_ALL_GROUPS \<noteq> 0 \<and> g AND (g - 1) = 0"

definition HV_TR_GROUP_BM_INTERNAL :: "64 word" where "HV_TR_GROUP_BM_INTERNAL = 0x0000010000000000"

definition HV_TR_GROUP_DM_INTERNAL :: "64 word" where "HV_TR_GROUP_DM_INTERNAL = 0x0000020000000000"

definition HV_TR_GROUP_HC_INTERNAL :: "64 word" where "HV_TR_GROUP_HC_INTERNAL = 0x0000040000000000"

definition HV_TR_GROUP_IM_INTERNAL :: "64 word" where "HV_TR_GROUP_IM_INTERNAL = 0x0000080000000000"

definition HV_TR_GROUP_IC_INTERNAL :: "64 word" where "HV_TR_GROUP_IC_INTERNAL = 0x0000100000000000"

definition HV_TR_GROUP_OB_INTERNAL :: "64 word" where "HV_TR_GROUP_OB_INTERNAL = 0x0000200000000000"

definition HV_TR_GROUP_PT_INTERNAL :: "64 word" where "HV_TR_GROUP_PT_INTERNAL = 0x0000400000000000"

definition HV_TR_GROUP_VP_INTERNAL :: "64 word" where "HV_TR_GROUP_VP_INTERNAL = 0x0000800000000000"

definition HV_TR_GROUP_SYNIC_INTERNAL :: "64 word" where "HV_TR_GROUP_SYNIC_INTERNAL = 0x0001000000000000"

definition HV_TR_GROUP_SYNIC_TI_INTERNAL :: "64 word" where
  "HV_TR_GROUP_SYNIC_TI_INTERNAL = 0x0002000000000000"

definition HV_TR_GROUP_AM_GVA_INTERNAL :: "64 word" where "HV_TR_GROUP_AM_GVA_INTERNAL = 0x0004000000000000"

definition HV_TR_GROUP_AM_INTERNAL :: "64 word" where "HV_TR_GROUP_AM_INTERNAL = 0x0008000000000000"

definition HV_TR_GROUP_VAL_INTERNAL :: "64 word" where "HV_TR_GROUP_VAL_INTERNAL = 0x0010000000000000"

definition HV_TR_GROUP_VM_INTERNAL :: "64 word" where "HV_TR_GROUP_VM_INTERNAL = 0x0020000000000000"

definition HV_TR_GROUP_SCH_INTERNAL :: "64 word" where "HV_TR_GROUP_SCH_INTERNAL = 0x0040000000000000"

definition HV_TR_GROUP_TH_INTERNAL :: "64 word" where "HV_TR_GROUP_TH_INTERNAL = 0x0080000000000000"

definition HV_TR_GROUP_TI_INTERNAL :: "64 word" where "HV_TR_GROUP_TI_INTERNAL = 0x0100000000000000"

definition HV_TR_GROUP_KE_INTERNAL :: "64 word" where "HV_TR_GROUP_KE_INTERNAL = 0x0200000000000000"

definition HV_TR_GROUP_MM_INTERNAL :: "64 word" where "HV_TR_GROUP_MM_INTERNAL = 0x0400000000000000"

definition HV_TR_GROUP_TF :: "64 word" where "HV_TR_GROUP_TF = 0x1000000000000000"

definition HV_TR_GROUP_SIMULATE_FULL :: "64 word" where "HV_TR_GROUP_SIMULATE_FULL = 0x2000000000000000"

definition HV_TR_GROUP_CYCLIC :: "64 word" where "HV_TR_GROUP_CYCLIC = 0x4000000000000000"

definition HV_TR_GROUP_ICE :: "64 word" where "HV_TR_GROUP_ICE = 0x8000000000000000"

definition HV_TR_ALL_GROUPS_INTERNAL :: "64 word" where
  "HV_TR_ALL_GROUPS_INTERNAL = HV_TR_GROUP_BM_INTERNAL OR HV_TR_GROUP_DM_INTERNAL OR
     HV_TR_GROUP_HC_INTERNAL OR HV_TR_GROUP_IM_INTERNAL OR HV_TR_GROUP_IC_INTERNAL OR
     HV_TR_GROUP_OB_INTERNAL OR HV_TR_GROUP_PT_INTERNAL OR HV_TR_GROUP_VP_INTERNAL OR
     HV_TR_GROUP_SYNIC_INTERNAL OR HV_TR_GROUP_SYNIC_TI_INTERNAL OR HV_TR_GROUP_AM_GVA_INTERNAL OR
     HV_TR_GROUP_AM_INTERNAL OR HV_TR_GROUP_VAL_INTERNAL OR HV_TR_GROUP_VM_INTERNAL OR
     HV_TR_GROUP_SCH_INTERNAL OR HV_TR_GROUP_TH_INTERNAL OR HV_TR_GROUP_TI_INTERNAL OR
     HV_TR_GROUP_KE_INTERNAL OR HV_TR_GROUP_MM_INTERNAL OR HV_TR_GROUP_TF OR HV_TR_GROUP_SIMULATE_FULL OR
     HV_TR_GROUP_CYCLIC OR HV_TR_GROUP_ICE"

definition HV_TR_IS_GROUP_INTERNAL :: "64 word \<Rightarrow> bool" where
  "HV_TR_IS_GROUP_INTERNAL g \<longleftrightarrow> 0 < g \<and> g AND HV_TR_ALL_GROUPS_INTERNAL \<noteq> 0 \<and> g AND (g - 1) = 0"

definition HV_EVENTLOG_OPERATIONAL_PARTITION_CREATED :: "32 word" where
  "HV_EVENTLOG_OPERATIONAL_PARTITION_CREATED = 0x4101"

definition HV_EVENTLOG_OPERATIONAL_PARTITION_DELETED :: "32 word" where
  "HV_EVENTLOG_OPERATIONAL_PARTITION_DELETED = 0x4102"

definition HV_EVENTLOG_OPERATIONAL_PARTITION_CREATION_FAILED :: "32 word" where
  "HV_EVENTLOG_OPERATIONAL_PARTITION_CREATION_FAILED = 0x2103"

definition HV_EVENTLOG_ADMIN_TEST :: "32 word" where "HV_EVENTLOG_ADMIN_TEST = 0x4001"

definition HV_TR_HC_HYPERCALL :: "32 word" where "HV_TR_HC_HYPERCALL = 0x1a"

definition HV_TR_IM_GUEST_EXCEPTION :: "32 word" where "HV_TR_IM_GUEST_EXCEPTION = 0x20"

definition HV_TR_IM_MSR_READ :: "32 word" where "HV_TR_IM_MSR_READ = 0x21"

definition HV_TR_IM_MSR_WRITE :: "32 word" where "HV_TR_IM_MSR_WRITE = 0x22"

definition HV_TR_IM_CR_READ :: "32 word" where "HV_TR_IM_CR_READ = 0x23"

definition HV_TR_IM_CR_WRITE :: "32 word" where "HV_TR_IM_CR_WRITE = 0x24"

definition HV_TR_IM_HLT_INSTRUCTION :: "32 word" where "HV_TR_IM_HLT_INSTRUCTION = 0x25"

definition HV_TR_IM_MWAIT_INSTRUCTION :: "32 word" where "HV_TR_IM_MWAIT_INSTRUCTION = 0x26"

definition HV_TR_IM_CPUID_INSTRUCTION :: "32 word" where "HV_TR_IM_CPUID_INSTRUCTION = 0x27"

definition HV_TR_IM_IO_PORT_READ :: "32 word" where "HV_TR_IM_IO_PORT_READ = 0x28"

definition HV_TR_IM_IO_PORT_WRITE :: "32 word" where "HV_TR_IM_IO_PORT_WRITE = 0x29"

definition HV_TR_IM_EXTERNAL_INTERRUPT :: "32 word" where "HV_TR_IM_EXTERNAL_INTERRUPT = 0x2a"

definition HV_TR_IM_INTERRUPT_PENDING :: "32 word" where "HV_TR_IM_INTERRUPT_PENDING = 0x2b"

definition HV_TR_IM_GUEST_SHUTDOWN :: "32 word" where "HV_TR_IM_GUEST_SHUTDOWN = 0x2c"

definition HV_TR_IM_EMULATED_INSTRUCTION :: "32 word" where "HV_TR_IM_EMULATED_INSTRUCTION = 0x2d"

definition HV_TR_IM_NMI_INTERRUPT :: "32 word" where "HV_TR_IM_NMI_INTERRUPT = 0x2e"

definition HV_TR_IM_INVLPG_INSTRUCTION :: "32 word" where "HV_TR_IM_INVLPG_INSTRUCTION = 0x2f"

definition HV_TR_IM_IRET_INSTRUCTION :: "32 word" where "HV_TR_IM_IRET_INSTRUCTION = 0x30"

definition HV_TR_IM_TASK_SWITCH :: "32 word" where "HV_TR_IM_TASK_SWITCH = 0x31"

definition HV_TR_IM_INVD_INSTRUCTION :: "32 word" where "HV_TR_IM_INVD_INSTRUCTION = 0x32"

definition HV_TR_IM_DR_ACCESS :: "32 word" where "HV_TR_IM_DR_ACCESS = 0x33"

definition HV_TR_IM_FERR_FREEZE :: "32 word" where "HV_TR_IM_FERR_FREEZE = 0x34"

definition HV_TR_IM_REAL_MODE_INTERRUPT :: "32 word" where "HV_TR_IM_REAL_MODE_INTERRUPT = 0x35"

definition HV_TR_IM_MEMORY_INTERCEPT :: "32 word" where "HV_TR_IM_MEMORY_INTERCEPT = 0x36"

definition HV_TR_IM_REFLECTED_EXCEPTION :: "32 word" where "HV_TR_IM_REFLECTED_EXCEPTION = 0x37"

definition HV_TR_OB_CREATE_PARTITION :: "32 word" where "HV_TR_OB_CREATE_PARTITION = 0x40"

definition HV_TR_OB_DELETE_PARTITION :: "32 word" where "HV_TR_OB_DELETE_PARTITION = 0x41"

definition HV_TR_PT_REFERENCE_TIME :: "32 word" where "HV_TR_PT_REFERENCE_TIME = 0x46"

definition HV_TR_VP_CREATE_VP :: "32 word" where "HV_TR_VP_CREATE_VP = 0x4b"

definition HV_TR_VP_DELETE_VP :: "32 word" where "HV_TR_VP_DELETE_VP = 0x4c"

definition HV_TR_AM_GVA_GROW_VIRTUAL_TLB :: "32 word" where "HV_TR_AM_GVA_GROW_VIRTUAL_TLB = 0x70"

definition HV_TR_AM_GVA_SHRINK_VIRTUAL_TLB :: "32 word" where "HV_TR_AM_GVA_SHRINK_VIRTUAL_TLB = 0x71"

definition HV_TR_AM_GVA_FLUSH_VIRTUAL_TLB :: "32 word" where "HV_TR_AM_GVA_FLUSH_VIRTUAL_TLB = 0x72"

definition HV_TR_SCH_CONTEXT_SWITCH :: "32 word" where "HV_TR_SCH_CONTEXT_SWITCH = 0xb0"

definition HV_TR_KE_OVERRUN :: "32 word" where "HV_TR_KE_OVERRUN = 0xe0"

definition HV_TR_KE_OVERRUN_PARAMS :: "32 word" where "HV_TR_KE_OVERRUN_PARAMS = 0xe1"

definition HV_TR_PROFILER_SAMPLE :: "32 word" where "HV_TR_PROFILER_SAMPLE = 0xf0"

definition HV_TR_PROFILER_HV_MODULE :: "32 word" where "HV_TR_PROFILER_HV_MODULE = 0xf1"

definition HV_TR_DMP_INTERCEPT :: "32 word" where "HV_TR_DMP_INTERCEPT = 0x10"

definition HV_TR_DMP_DISPATCH_EVENTS :: "32 word" where "HV_TR_DMP_DISPATCH_EVENTS = 0x11"

definition HV_TR_IMP_SEND_INTERCEPT_MESSAGE :: "32 word" where "HV_TR_IMP_SEND_INTERCEPT_MESSAGE = 0x20"

definition HV_TR_ICP_EMULATE_INSTR :: "32 word" where "HV_TR_ICP_EMULATE_INSTR = 0x3c"

definition HV_TR_SYNICP_ASSERT :: "32 word" where "HV_TR_SYNICP_ASSERT = 0x50"

definition HV_TR_SYNICP_EVAL_LOW_PRI :: "32 word" where "HV_TR_SYNICP_EVAL_LOW_PRI = 0x51"

definition HV_TR_SYNICP_EVAL_IMMEDIATE :: "32 word" where "HV_TR_SYNICP_EVAL_IMMEDIATE = 0x52"

definition HV_TR_SYNICP_EVAL_QUEUE :: "32 word" where "HV_TR_SYNICP_EVAL_QUEUE = 0x53"

definition HV_TR_SYNICP_PENDING :: "32 word" where "HV_TR_SYNICP_PENDING = 0x54"

definition HV_TR_SYNICP_EOI :: "32 word" where "HV_TR_SYNICP_EOI = 0x55"

definition HV_TR_SYNICP_LATENCY_EXCEEDED :: "32 word" where "HV_TR_SYNICP_LATENCY_EXCEEDED = 0x56"

definition HV_TR_SYNICP_MARK_PENDING :: "32 word" where "HV_TR_SYNICP_MARK_PENDING = 0x57"

definition HV_TR_SYNICP_EVAL_APIC_INTS :: "32 word" where "HV_TR_SYNICP_EVAL_APIC_INTS = 0x58"

definition HV_TR_SYNICP_READ_APIC_GPA :: "32 word" where "HV_TR_SYNICP_READ_APIC_GPA = 0x59"

definition HV_TR_SYNICP_WRITE_APIC_GPA :: "32 word" where "HV_TR_SYNICP_WRITE_APIC_GPA = 0x5a"

definition HV_TR_SYNICP_READ_APIC_MSR :: "32 word" where "HV_TR_SYNICP_READ_APIC_MSR = 0x5b"

definition HV_TR_SYNICP_WRITE_APIC_MSR :: "32 word" where "HV_TR_SYNICP_WRITE_APIC_MSR = 0x5c"

definition HV_TR_SYNICP_EXTERNAL_INT :: "32 word" where "HV_TR_SYNICP_EXTERNAL_INT = 0x5d"

definition HV_TR_SYNICP_APIC_IPI :: "32 word" where "HV_TR_SYNICP_APIC_IPI = 0x5e"

definition HV_TR_SYNICP_SIGNAL_EVENT_PORT :: "32 word" where "HV_TR_SYNICP_SIGNAL_EVENT_PORT = 0x5f"

definition HV_TR_SYNICP_POST_MESSAGE :: "32 word" where "HV_TR_SYNICP_POST_MESSAGE = 0x60"

definition HV_TR_SYNICP_PERIODIC_TIMER_UPDATE :: "32 word" where "HV_TR_SYNICP_PERIODIC_TIMER_UPDATE = 0x66"

definition HV_TR_SYNICP_PERIODIC_TIMER_RESET :: "32 word" where "HV_TR_SYNICP_PERIODIC_TIMER_RESET = 0x67"

definition HV_TR_SYNICP_TIMER_SEND_MESSAGE :: "32 word" where "HV_TR_SYNICP_TIMER_SEND_MESSAGE = 0x68"

definition HV_TR_SYNICP_TIMER_SCAN_MESSAGE :: "32 word" where "HV_TR_SYNICP_TIMER_SCAN_MESSAGE = 0x69"

definition HV_TR_SYNICP_TIMER_ASSIST_EXPIRE :: "32 word" where "HV_TR_SYNICP_TIMER_ASSIST_EXPIRE = 0x6a"

definition HV_TR_AMP_GVA_PAGE_FAULT :: "32 word" where "HV_TR_AMP_GVA_PAGE_FAULT = 0x70"

definition HV_TR_AMP_GVA_VTLB_WRITABILITY_CHANGE :: "32 word" where
  "HV_TR_AMP_GVA_VTLB_WRITABILITY_CHANGE = 0x71"

definition HV_TR_AMP_GVA_SWITCH_SPACE :: "32 word" where "HV_TR_AMP_GVA_SWITCH_SPACE = 0x72"

definition HV_TR_AMP_GVA_FLUSH_VA_LOCAL :: "32 word" where "HV_TR_AMP_GVA_FLUSH_VA_LOCAL = 0x73"

definition HV_TR_AMP_GVA_FLUSH_VA_GLOBAL :: "32 word" where "HV_TR_AMP_GVA_FLUSH_VA_GLOBAL = 0x74"

definition HV_TR_AMP_GVA_FLUSH_VTLB_RANGE :: "32 word" where "HV_TR_AMP_GVA_FLUSH_VTLB_RANGE = 0x75"

definition HV_TR_AMP_GVA_FLUSH_SPACE :: "32 word" where "HV_TR_AMP_GVA_FLUSH_SPACE = 0x76"

definition HV_TR_AMP_GVA_FLUSH_DOMAIN :: "32 word" where "HV_TR_AMP_GVA_FLUSH_DOMAIN = 0x77"

definition HV_TR_AMP_GVA_RESET_DOMAIN :: "32 word" where "HV_TR_AMP_GVA_RESET_DOMAIN = 0x78"

definition HV_TR_AMP_GVA_TRANSLATE_VA :: "32 word" where "HV_TR_AMP_GVA_TRANSLATE_VA = 0x79"

definition HV_TR_AMP_GVA_READ_VM :: "32 word" where "HV_TR_AMP_GVA_READ_VM = 0x7a"

definition HV_TR_AMP_GVA_WRITE_VM :: "32 word" where "HV_TR_AMP_GVA_WRITE_VM = 0x7b"

definition HV_TR_AMP_GVA_RESET_PT :: "32 word" where "HV_TR_AMP_GVA_RESET_PT = 0x7c"

definition HV_TR_AMP_GVA_UNLINK_PT :: "32 word" where "HV_TR_AMP_GVA_UNLINK_PT = 0x7d"

definition HV_TR_AMP_GVA_UNLINK_PT_VALIDATE :: "32 word" where "HV_TR_AMP_GVA_UNLINK_PT_VALIDATE = 0x7e"

definition HV_TR_AMP_GVA_UNLINK_PT_FILL :: "32 word" where "HV_TR_AMP_GVA_UNLINK_PT_FILL = 0x7f"

definition HV_TR_AMP_GVA_UNLINK_PT_LINK :: "32 word" where "HV_TR_AMP_GVA_UNLINK_PT_LINK = 0x80"

definition HV_TR_AMP_GVA_UNLINK_PT_RESET :: "32 word" where "HV_TR_AMP_GVA_UNLINK_PT_RESET = 0x81"

definition HV_TR_AMP_GVA_UNLINK_PT_EVICT :: "32 word" where "HV_TR_AMP_GVA_UNLINK_PT_EVICT = 0x82"

definition HV_TR_AMP_GVA_UNLINK_PT_CLEAN :: "32 word" where "HV_TR_AMP_GVA_UNLINK_PT_CLEAN = 0x83"

definition HV_TR_AMP_GVA_CONSTRUCT_PT :: "32 word" where "HV_TR_AMP_GVA_CONSTRUCT_PT = 0x84"

definition HV_TR_AMP_GVA_DESTRUCT_PT :: "32 word" where "HV_TR_AMP_GVA_DESTRUCT_PT = 0x85"

definition HV_TR_AMP_GVA_WALK_PT :: "32 word" where "HV_TR_AMP_GVA_WALK_PT = 0x86"

definition HV_TR_AMP_GVA_WAIT_FOR_PT_FILL :: "32 word" where "HV_TR_AMP_GVA_WAIT_FOR_PT_FILL = 0x87"

definition HV_TR_AMP_GVA_CLEAN_SAS :: "32 word" where "HV_TR_AMP_GVA_CLEAN_SAS = 0x88"

definition HV_TR_AMP_GVA_CLEAN_SAS_OVERFLOW :: "32 word" where "HV_TR_AMP_GVA_CLEAN_SAS_OVERFLOW = 0x89"

definition HV_TR_AMP_GVA_EVICT_PTS :: "32 word" where "HV_TR_AMP_GVA_EVICT_PTS = 0x8a"

definition HV_TR_AMP_GVA_RECLAIM_PTS :: "32 word" where "HV_TR_AMP_GVA_RECLAIM_PTS = 0x8b"

definition HV_TR_AMP_GVA_FREE_RECLAIMED_PTS :: "32 word" where "HV_TR_AMP_GVA_FREE_RECLAIMED_PTS = 0x8c"

definition HV_TR_AMP_GVA_HASH_PROCESSED :: "32 word" where "HV_TR_AMP_GVA_HASH_PROCESSED = 0x8d"

definition HV_TR_AMP_MAP_GPA :: "32 word" where "HV_TR_AMP_MAP_GPA = 0x98"

definition HV_TR_AMP_UNMAP_GPA :: "32 word" where "HV_TR_AMP_UNMAP_GPA = 0x99"

definition HV_TR_VALP_PAUSE_LOOP_EXIT :: "32 word" where "HV_TR_VALP_PAUSE_LOOP_EXIT = 0xa0"

definition HV_TR_SCHP_NEXT_THREAD :: "32 word" where "HV_TR_SCHP_NEXT_THREAD = 0xb0"

definition HV_TR_SCHP_ADD_LOCAL :: "32 word" where "HV_TR_SCHP_ADD_LOCAL = 0xb1"

definition HV_TR_SCHP_EVAL_PRI :: "32 word" where "HV_TR_SCHP_EVAL_PRI = 0xb2"

definition HV_TR_SCHP_TIMESLICE_MIN :: "32 word" where "HV_TR_SCHP_TIMESLICE_MIN = 0xb3"

definition HV_TR_SCHP_AFFINITY_CHANGE :: "32 word" where "HV_TR_SCHP_AFFINITY_CHANGE = 0xb4"

definition HV_TR_SCHP_ADD_DEFERRED :: "32 word" where "HV_TR_SCHP_ADD_DEFERRED = 0xb6"

definition HV_TR_SCHP_DEFERRED_READY_THREAD :: "32 word" where "HV_TR_SCHP_DEFERRED_READY_THREAD = 0xb7"

definition HV_TR_SCHP_TIMESLICE_END :: "32 word" where "HV_TR_SCHP_TIMESLICE_END = 0xb8"

definition HV_TR_SCHP_EVAL_SEND :: "32 word" where "HV_TR_SCHP_EVAL_SEND = 0xb9"

definition HV_TR_SCHP_EVAL_RECV :: "32 word" where "HV_TR_SCHP_EVAL_RECV = 0xba"

definition HV_TR_SCHP_YIELD :: "32 word" where "HV_TR_SCHP_YIELD = 0xbb"

definition HV_TR_SCHP_SET_PRI :: "32 word" where "HV_TR_SCHP_SET_PRI = 0xbc"

definition HV_TR_SCHP_COMPUTE_TIMESLICE :: "32 word" where "HV_TR_SCHP_COMPUTE_TIMESLICE = 0xbd"

definition HV_TR_SCHP_BLOCK_ON_EVENT :: "32 word" where "HV_TR_SCHP_BLOCK_ON_EVENT = 0xbe"

definition HV_TR_SCHP_UNBLOCK_FROM_EVENT :: "32 word" where "HV_TR_SCHP_UNBLOCK_FROM_EVENT = 0xbf"

definition HV_TR_SCHP_SIGNAL_EVENT :: "32 word" where "HV_TR_SCHP_SIGNAL_EVENT = 0xc0"

definition HV_TR_SCHP_WATCHDOG :: "32 word" where "HV_TR_SCHP_WATCHDOG = 0xc1"

definition HV_TR_SCHP_LOAD_BALANCER :: "32 word" where "HV_TR_SCHP_LOAD_BALANCER = 0xc2"

definition HV_TR_SCHP_EVAL :: "32 word" where "HV_TR_SCHP_EVAL = 0xc3"

definition HV_TR_SCHP_CPU_IDLE :: "32 word" where "HV_TR_SCHP_CPU_IDLE = 0xc4"

definition HV_TR_SCHP_READY_UNBLOCKED_THREAD :: "32 word" where "HV_TR_SCHP_READY_UNBLOCKED_THREAD = 0xc5"

definition HV_TR_SCHP_EXPRESS_THREAD :: "32 word" where "HV_TR_SCHP_EXPRESS_THREAD = 0xc6"

definition HV_TR_SCHP_EXPRESS_PROCESS :: "32 word" where "HV_TR_SCHP_EXPRESS_PROCESS = 0xc7"

definition HV_TR_SCHP_EVALUATE_CAPS :: "32 word" where "HV_TR_SCHP_EVALUATE_CAPS = 0xc8"

definition HV_TR_SCHP_SET_CAPS_TIMER :: "32 word" where "HV_TR_SCHP_SET_CAPS_TIMER = 0xc9"

definition HV_TR_THP_SEND_WORK :: "32 word" where "HV_TR_THP_SEND_WORK = 0xce"

definition HV_TR_TIP_SET_APIC :: "32 word" where "HV_TR_TIP_SET_APIC = 0xd0"

definition HV_TR_TIP_INT :: "32 word" where "HV_TR_TIP_INT = 0xd1"

definition HV_TR_TIP_NEW_TIMER :: "32 word" where "HV_TR_TIP_NEW_TIMER = 0xd2"

definition HV_TR_TIP_INSERT_TIMER :: "32 word" where "HV_TR_TIP_INSERT_TIMER = 0xd3"

definition HV_TR_TIP_CALLBACK :: "32 word" where "HV_TR_TIP_CALLBACK = 0xd4"

definition HV_TR_TIP_REMOTE_REMOVE_TIMER :: "32 word" where "HV_TR_TIP_REMOTE_REMOVE_TIMER = 0xd5"

definition HV_TR_KEP_FLUSH_ENTIRE_HW_TLB :: "32 word" where "HV_TR_KEP_FLUSH_ENTIRE_HW_TLB = 0xe0"

definition HV_TR_KEP_FLUSH_HV_HW_TLB :: "32 word" where "HV_TR_KEP_FLUSH_HV_HW_TLB = 0xe1"

definition HV_TR_KEP_FLUSH_MULTIPLE_HW_TLB :: "32 word" where "HV_TR_KEP_FLUSH_MULTIPLE_HW_TLB = 0xe2"

definition HV_TR_KEP_SIGNAL_PROCESSORS :: "32 word" where "HV_TR_KEP_SIGNAL_PROCESSORS = 0xe3"

definition HV_TR_KEP_RUN_GUEST :: "32 word" where "HV_TR_KEP_RUN_GUEST = 0xe4"

definition HV_TR_KEP_SEND_IPI :: "32 word" where "HV_TR_KEP_SEND_IPI = 0xe5"

definition HV_TR_KEP_SEND_IPI_NO_IPI :: "32 word" where "HV_TR_KEP_SEND_IPI_NO_IPI = 0xe6"

definition HV_TR_KEP_WAIT_FOR_IPI_BARRIER :: "32 word" where "HV_TR_KEP_WAIT_FOR_IPI_BARRIER = 0xe7"

definition HV_TR_KEP_FLUSH_ENTIRE_HW_CACHE :: "32 word" where "HV_TR_KEP_FLUSH_ENTIRE_HW_CACHE = 0xe8"

definition HV_TR_TF_INTERCEPT :: "32 word" where "HV_TR_TF_INTERCEPT = 0xfa"

definition HV_TR_ICE_CALL :: "32 word" where "HV_TR_ICE_CALL = 0xf0"

definition HV_TR_ICE_RETURN :: "32 word" where "HV_TR_ICE_RETURN = 0xf1"

definition HV_TR_ICE_ACQUIRE :: "32 word" where "HV_TR_ICE_ACQUIRE = 0xf2"

definition HV_TR_ICE_RELEASE :: "32 word" where "HV_TR_ICE_RELEASE = 0xf3"

definition HV_TR_ICE_COMMENT :: "32 word" where "HV_TR_ICE_COMMENT = 0xf8"

definition HV_TR_THREAD_ID_IDLE :: "32 word" where "HV_TR_THREAD_ID_IDLE = 0"

definition HV_TR_THREAD_ID_TEST :: "32 word" where "HV_TR_THREAD_ID_TEST = 9"

definition HV_PHYSICAL_NODE_INDEX :: cty where
  "HV_PHYSICAL_NODE_INDEX = U32"

definition HV_PHYSICAL_NODE_INDEX_UNSPECIFIED :: "32 word" where
  "HV_PHYSICAL_NODE_INDEX_UNSPECIFIED = 0xffffffff"

definition HV_SAVE_RESTORE_STATE_RESULT :: "arch \<Rightarrow> enum_tab" where
  "HV_SAVE_RESTORE_STATE_RESULT a = enum_of
     ([(''HvStateComplete'', Val 0), (''HvStateIncomplete'', Val 1)] @
     (case a of X64 \<Rightarrow> [(''HvStateRestorable'', Val 2), (''HvStateCorruptData'', Val 3),
     (''HvStateUnsupportedVersion'', Val 4), (''HvStateProcessorFeatureMismatch'', Val 5),
     (''HvStateHardwareFeatureMismatch'', Val 6), (''HvStateProcessorCountMismatch'', Val 7),
     (''HvStateProcessorFlagsMismatch'', Val 8), (''HvStateProcessorIndexMismatch'', Val 9),
     (''HvStateProcessorInsufficientMemory'', Val 10),
     (''HvStateIncompatibleProcessor'', Val 11),
     (''HvStateProcessorFeatureSse3Mismatch'', Val 12),
     (''HvStateProcessorFeatureLahfSahfMismatch'', Val 13),
     (''HvStateProcessorFeaturSsse3eMismatch'', Val 14),
     (''HvStateProcessorFeatureSse41Mismatch'', Val 15),
     (''HvStateProcessorFeatureSse42Mismatch'', Val 16),
     (''HvStateProcessorFeatureSse4aMismatch'', Val 17),
     (''HvStateProcessorFeatureSse5Mismatch'', Val 18),
     (''HvStateProcessorFeaturePopcntMismatch'', Val 19),
     (''HvStateProcessorFeatureCmpxchg16bMismatch'', Val 20),
     (''HvStateProcessorFeatureAltmovcr8Mismatch'', Val 21),
     (''HvStateProcessorFeatureLzcntMismatch'', Val 22),
     (''HvStateProcessorFeatureMisalignedSseMismatch'', Val 23),
     (''HvStateProcessorFeatureMmxExtMismatch'', Val 24),
     (''HvStateProcessorFeature3DNowMismatch'', Val 25),
     (''HvStateProcessorFeatureExtended3DNowMismatch'', Val 26),
     (''HvStateProcessorFeaturePage1GBMismatch'', Val 27),
     (''HvStateProcessorCacheLineFlushSizeMismatch'', Val 28),
     (''HvStateProcessorFeatureXsaveMismatch'', Val 29),
     (''HvStateProcessorFeatureXsaveoptMismatch'', Val 30),
     (''HvStateProcessorFeatureXsaveLegacySseMismatch'', Val 31),
     (''HvStateProcessorFeatureXsaveAvxMismatch'', Val 32),
     (''HvStateProcessorFeatureXsaveUnknownFeatureMismatch'', Val 33),
     (''HvStateProcessorXsaveSaveAreaMismatch'', Val 34)] | ARM64 \<Rightarrow>
     [(''HvStateCorruptData'', Val 2), (''HvStateUnsupportedVersion'', Val 3),
     (''HvStateProcessorFeatureMismatch'', Val 4), (''HvStateIncompatibleProcessor'', Val 5),
     (''HvStateProcessorCacheLineFlushSizeMismatch'', Val 6)]))"

definition HV_SAVE_RESTORE_STATE_FLAGS :: cty where
  "HV_SAVE_RESTORE_STATE_FLAGS = U32"

definition HV_SAVE_RESTORE_STATE_START :: "32 word" where "HV_SAVE_RESTORE_STATE_START = 0x00000001"

definition HV_SAVE_RESTORE_STATE_SUMMARY :: "32 word" where "HV_SAVE_RESTORE_STATE_SUMMARY = 0x00000002"

definition HV_PARTITION_PRIVILEGE_MASK_PRIVATE :: cty where
  "HV_PARTITION_PRIVILEGE_MASK_PRIVATE = Union 0 (flds_of
       [mem ''AsUINT64'' U64,
       mem '''' (Struct 0 (flds_of [bits ''Reserved0'' U64 15, bits ''AccessTscInvariantControls'' U64 1,
          bits ''Reserved1'' U64 16, bits ''Reserved2'' U64 32]))])"

definition HV_PROCESSOR_VENDOR :: enum_tab where
  "HV_PROCESSOR_VENDOR = enum_of
     [(''HvProcessorVendorAmd'', Val 0x0), (''HvProcessorVendorIntel'', Val 0x1),
     (''HvProcessorVendorHygon'', Val 0x2), (''HvProcessorVendorArm'', Val 0x10)]"

definition HV_PARTITION_PROCESSOR_FEATURES_BANKS :: "arch \<Rightarrow> 32 word" where
  "HV_PARTITION_PROCESSOR_FEATURES_BANKS a = (case a of X64 \<Rightarrow> 2 | ARM64 \<Rightarrow> 1)"

definition HV_PARTITION_PROCESSOR_FEATURES :: "arch \<Rightarrow> cty" where
  "HV_PARTITION_PROCESSOR_FEATURES a = Union 0 (flds_of
       ([mem ''AsUINT64'' (Arr U64 (unat (HV_PARTITION_PROCESSOR_FEATURES_BANKS a)))] @
        (case a of X64 \<Rightarrow> [mem '''' (Struct 0 (flds_of [bits ''Sse3Support'' U64 1, bits ''LahfSahfSupport'' U64 1, bits ''Ssse3Support'' U64 1,
          bits ''Sse4_1Support'' U64 1, bits ''Sse4_2Support'' U64 1, bits ''Sse4aSupport'' U64 1,
          bits ''XopSupport'' U64 1, bits ''PopCntSupport'' U64 1,
          bits ''Cmpxchg16bSupport'' U64 1, bits ''Altmovcr8Support'' U64 1,
          bits ''LzcntSupport'' U64 1, bits ''MisAlignSseSupport'' U64 1,
          bits ''MmxExtSupport'' U64 1, bits ''Amd3DNowSupport'' U64 1,
          bits ''ExtendedAmd3DNowSupport'' U64 1, bits ''Page1GBSupport'' U64 1,
          bits ''AesSupport'' U64 1, bits ''PclmulqdqSupport'' U64 1, bits ''PcidSupport'' U64 1,
          bits ''Fma4Support'' U64 1, bits ''F16cSupport'' U64 1, bits ''RdRandSupport'' U64 1,
          bits ''RdWrFsGsSupport'' U64 1, bits ''SmepSupport'' U64 1,
          bits ''EnhancedFastStringSupport'' U64 1, bits ''Bmi1Support'' U64 1,
          bits ''Bmi2Support'' U64 1, bits ''HleSupportDeprecated'' U64 1,
          bits ''RtmSupportDeprecated'' U64 1, bits ''MovbeSupport'' U64 1,
          bits ''Npiep1Support'' U64 1, bits ''DepX87FpuSaveSupport'' U64 1,
          bits ''RdSeedSupport'' U64 1, bits ''AdxSupport'' U64 1,
          bits ''IntelPrefetchSupport'' U64 1, bits ''SmapSupport'' U64 1,
          bits ''HleSupport'' U64 1, bits ''RtmSupport'' U64 1, bits ''RdtscpSupport'' U64 1,
          bits ''ClflushoptSupport'' U64 1, bits ''ClwbSupport'' U64 1, bits ''ShaSupport'' U64 1,
          bits ''X87PointersSavedSupport'' U64 1, bits ''InvpcidSupport'' U64 1,
          bits ''IbrsSupport'' U64 1, bits ''StibpSupport'' U64 1, bits ''IbpbSupport'' U64 1,
          bits ''UnrestrictedGuestSupport'' U64 1, bits ''MddSupport'' U64 1,
          bits ''FastShortRepMovSupport'' U64 1, bits ''L1dcacheFlushSupport'' U64 1,
          bits ''RdclNoSupport'' U64 1, bits ''IbrsAllSupport'' U64 1,
          bits ''SkipL1dfSupport'' U64 1, bits ''SsbNoSupport'' U64 1,
          bits ''RsbANoSupport'' U64 1, bits ''VirtSpecCtrlSupport'' U64 1,
          bits ''RdPidSupport'' U64 1, bits ''UmipSupport'' U64 1, bits ''MbsNoSupport'' U64 1,
          bits ''MbClearSupport'' U64 1, bits ''TaaNoSupport'' U64 1,
          bits ''TsxCtrlSupport'' U64 1, bits ''ReservedBank0'' U64 1,
          bits ''AcountMcountSupport'' U64 1, bits ''TscInvariantSupport'' U64 1,
          bits ''ClZeroSupport'' U64 1, bits ''RdpruSupport'' U64 1, bits ''La57Support'' U64 1,
          bits ''MbecSupport'' U64 1, bits ''NestedVirtSupport'' U64 1, bits ''PsfdSupport'' U64 1,
          bits ''CetSsSupport'' U64 1, bits ''CetIbtSupport'' U64 1,
          bits ''VmxExceptionInjectSupport'' U64 1, bits ''EnqcmdSupport'' U64 1,
          bits ''UmwaitTpauseSupport'' U64 1, bits ''MovdiriSupport'' U64 1,
          bits ''Movdir64bSupport'' U64 1, bits ''CldemoteSupport'' U64 1,
          bits ''SerializeSupport'' U64 1, bits ''TscDeadlineTmrSupport'' U64 1,
          bits ''TscAdjustSupport'' U64 1, bits ''FzlrepMovsb'' U64 1, bits ''FsrepStosb'' U64 1,
          bits ''FsrepCmpsb'' U64 1, bits ''ReservedBank1'' U64 42]))] | ARM64 \<Rightarrow>
        [mem '''' (Struct 0 (flds_of [bits ''Asid16'' U64 1, bits ''TGran16'' U64 1, bits ''TGran64'' U64 1,
          bits ''Haf'' U64 1, bits ''Hdbs'' U64 1, bits ''Pan'' U64 1, bits ''AtS1E1'' U64 1,
          bits ''Uao'' U64 1, bits ''El0Aarch32'' U64 1, bits ''Fp'' U64 1, bits ''FpHp'' U64 1,
          bits ''AdvSimd'' U64 1, bits ''AdvSimdHp'' U64 1, bits ''GicV3V4'' U64 1,
          bits ''GicV4P1'' U64 1, bits ''Ras'' U64 1, bits ''PmuV3'' U64 1,
          bits ''PmuV3ArmV81'' U64 1, bits ''PmuV3ArmV84'' U64 1, bits ''PmuV3ArmV85'' U64 1,
          bits ''Aes'' U64 1, bits ''PolyMul'' U64 1, bits ''Sha1'' U64 1, bits ''Sha256'' U64 1,
          bits ''Sha512'' U64 1, bits ''Crc32'' U64 1, bits ''Atomic'' U64 1, bits ''Rdm'' U64 1,
          bits ''Sha3'' U64 1, bits ''Sm3'' U64 1, bits ''Sm4'' U64 1, bits ''Dp'' U64 1,
          bits ''Fhm'' U64 1, bits ''DcCvap'' U64 1, bits ''DcCvadp'' U64 1,
          bits ''ApaBase'' U64 1, bits ''ApaEp'' U64 1, bits ''ApaEp2'' U64 1,
          bits ''ApaEp2Fp'' U64 1, bits ''ApaEp2Fpc'' U64 1, bits ''Jscvt'' U64 1,
          bits ''Fcma'' U64 1, bits ''RcpcV83'' U64 1, bits ''RcpcV84'' U64 1, bits ''Gpa'' U64 1,
          bits ''L1ipPipt'' U64 1, bits ''DzPermitted'' U64 1, bits ''Ssbs'' U64 1,
          bits ''SsbsRw'' U64 1, bits ''SmcccW1Supported'' U64 1, bits ''SmcccW1Mitigated'' U64 1,
          bits ''SmcccW2Supported'' U64 1, bits ''SmcccW2Mitigated'' U64 1, bits ''Csv2'' U64 1,
          bits ''Csv3'' U64 1, bits ''Sb'' U64 1, bits ''Idc'' U64 1, bits ''Dic'' U64 1,
          bits ''TlbiOs'' U64 1, bits ''TlbiOsRange'' U64 1, bits ''FlagsM'' U64 1,
          bits ''FlagsM2'' U64 1, bits ''Bf16'' U64 1, bits ''Ebf16'' U64 1,
          bits ''SveBf16'' U64 1, bits ''SveEbf16'' U64 1, bits ''I8mm'' U64 1,
          bits ''SveI8mm'' U64 1, bits ''Frintts'' U64 1, bits ''Specres'' U64 1,
          bits ''Mtpmu'' U64 1, bits ''Rpres'' U64 1, bits ''Exs'' U64 1, bits ''SpecSei'' U64 1,
          bits ''Ets'' U64 1, bits ''Afp'' U64 1, bits ''Iesb'' U64 1, bits ''Rng'' U64 1,
          bits ''Lse2'' U64 1, bits ''Idst'' U64 1, bits ''RasV1P1'' U64 1,
          bits ''RasFracV1P1'' U64 1, bits ''Sel2'' U64 1, bits ''AmuV1'' U64 1,
          bits ''AmuV1P1'' U64 1, bits ''Dit'' U64 1, bits ''Ccidx'' U64 1,
          bits ''FgtForIntercepts'' U64 1, bits ''L1ipVpipt'' U64 1, bits ''L1ipVipt'' U64 1,
          bits ''DebugV8'' U64 1, bits ''DebugV8P2'' U64 1, bits ''DebugV8P4'' U64 1,
          bits ''PmuV3ArmV87'' U64 1, bits ''DoubleLock'' U64 1, bits ''Clrbhb'' U64 1,
          bits ''Spe'' U64 1, bits ''SpeV1P1'' U64 1, bits ''SpeV1P2'' U64 1, bits ''TtCnp'' U64 1,
          bits ''Hpds'' U64 1, bits ''Sve'' U64 1, bits ''SveV2'' U64 1, bits ''SveV2P1'' U64 1,
          bits ''SpecFpacc'' U64 1, bits ''ReservedBank1'' U64 23]))])))"

definition HV_PARTITION_PROCESSOR_FEATURES_INTEL_COMPATIBILITY_MODE :: "nat list" where
  "HV_PARTITION_PROCESSOR_FEATURES_INTEL_COMPATIBILITY_MODE =
     [1, 1, 0, 0, 0, 0, 0, 0, 1, 0, 0, 0, 0, 0, 0, 0, 0]"

definition HV_PARTITION_PROCESSOR_FEATURES_AMD_COMPATIBILITY_MODE :: "nat list" where
  "HV_PARTITION_PROCESSOR_FEATURES_AMD_COMPATIBILITY_MODE =
     [1, 1, 0, 0, 0, 0, 0, 0, 1, 1, 0, 0, 1, 0, 0, 0, 0]"

definition HV_PARTITION_PROCESSOR_XSAVE_FEATURES :: "arch \<Rightarrow> cty" where
  "HV_PARTITION_PROCESSOR_XSAVE_FEATURES a = Union 0 (flds_of
       ((case a of X64 \<Rightarrow> [mem '''' (Struct 0 (flds_of [bits ''XsaveSupport'' U64 1, bits ''XsaveoptSupport'' U64 1, bits ''AvxSupport'' U64 1,
          bits ''Reserved1'' U64 61]))] | ARM64 \<Rightarrow> []) @
        [mem ''AsUINT64'' U64]))"

definition HV_PARTITION_PROCESSOR_XSAVE_FEATURES_INTEL_COMPATIBILITY_MODE :: "nat list" where
  "HV_PARTITION_PROCESSOR_XSAVE_FEATURES_INTEL_COMPATIBILITY_MODE =
     [0, 0, 0, 0]"

definition HV_PARTITION_PROCESSOR_XSAVE_FEATURES_AMD_COMPATIBILITY_MODE :: "nat list" where
  "HV_PARTITION_PROCESSOR_XSAVE_FEATURES_AMD_COMPATIBILITY_MODE =
     [0, 0, 0, 0]"

definition HV_PARTITION_PROCESSOR_CL_FLUSHSIZE_INTEL_COMPATIBILITY_MODE :: "32 word" where
  "HV_PARTITION_PROCESSOR_CL_FLUSHSIZE_INTEL_COMPATIBILITY_MODE = 8"

definition HV_PARTITION_PROCESSOR_CL_FLUSHSIZE_AMD_COMPATIBILITY_MODE :: "32 word" where
  "HV_PARTITION_PROCESSOR_CL_FLUSHSIZE_AMD_COMPATIBILITY_MODE = 8"

definition HV_EXPLICIT_SUSPEND_REGISTER :: cty where
  "HV_EXPLICIT_SUSPEND_REGISTER = Union 0 (flds_of
       [mem ''AsUINT64'' U64,
       mem '''' (Struct 0 (flds_of [bits ''Suspended'' U64 1, bits ''Reserved'' U64 63]))])"

definition HV_INTERCEPT_SUSPEND_REGISTER :: "arch \<Rightarrow> cty" where
  "HV_INTERCEPT_SUSPEND_REGISTER a = Union 0 (flds_of
       [mem ''AsUINT64'' U64,
       mem '''' (Struct 0 (flds_of ((case a of X64 \<Rightarrow> [bits ''Suspended'' U64 1, bits ''TlbLocked'' U64 1, bits ''Reserved'' U64 62] | ARM64 \<Rightarrow>
           [bits ''Suspended'' U64 1, bits ''Reserved'' U64 63]))))])"

definition HV_DISPATCH_SUSPEND_REGISTER :: cty where
  "HV_DISPATCH_SUSPEND_REGISTER = Union 0 (flds_of
       [mem ''AsUINT64'' U64,
       mem '''' (Struct 0 (flds_of [bits ''Suspended'' U64 1, bits ''Reserved'' U64 63]))])"

definition HV_X64_INTERRUPT_STATE_REGISTER :: cty where
  "HV_X64_INTERRUPT_STATE_REGISTER = Union 0 (flds_of
       [mem ''AsUINT64'' U64,
       mem '''' (Struct 0 (flds_of [bits ''InterruptShadow'' U64 1, bits ''NmiMasked'' U64 1,
          bits ''GlobalInterruptDisable'' U64 1, bits ''Reserved'' U64 61]))])"

definition HV_X64_PENDING_INTERRUPTION_TYPE :: enum_tab where
  "HV_X64_PENDING_INTERRUPTION_TYPE = enum_of
     [(''HvX64PendingInterrupt'', Val 0), (''HvX64PendingNmi'', Val 2),
     (''HvX64PendingException'', Val 3), (''HvX64PendingSoftwareInterrupt'', Val 4),
     (''HvX64PendingPrivilegedSoftwareException'', Val 5),
     (''HvX64PendingSoftwareException'', Val 6)]"

definition HV_X64_PENDING_INTERRUPTION_REGISTER :: cty where
  "HV_X64_PENDING_INTERRUPTION_REGISTER = Union 0 (flds_of
       [mem ''AsUINT64'' U64,
       mem '''' (Struct 0 (flds_of [bits ''InterruptionPending'' U32 1, bits ''InterruptionType'' U32 3,
          bits ''DeliverErrorCode'' U32 1, bits ''InstructionLength'' U32 4,
          bits ''NestedEvent'' U32 1, bits ''Reserved'' U32 6, bits ''InterruptionVector'' U32 16,
          mem ''ErrorCode'' U32]))])"

definition HV_X64_MSR_NPIEP_CONFIG_CONTENTS :: cty where
  "HV_X64_MSR_NPIEP_CONFIG_CONTENTS = Union 0 (flds_of
       [mem ''AsUINT64'' U64,
       mem '''' (Struct 0 (flds_of [bits ''PreventsGdt'' U64 1, bits ''PreventsIdt'' U64 1, bits ''PreventsLdt'' U64 1,
          bits ''PreventsTr'' U64 1, bits ''Reserved'' U64 60]))])"

definition HV_X64_PENDING_EXCEPTION_EVENT :: cty where
  "HV_X64_PENDING_EXCEPTION_EVENT = Union 0 (flds_of
       [mem ''AsUINT64'' (Arr U64 2),
       mem '''' (Struct 0 (flds_of [bits ''EventPending'' U32 1, bits ''EventType'' U32 3, bits ''Reserved0'' U32 4,
          bits ''DeliverErrorCode'' U32 1, bits ''Reserved1'' U32 7, bits ''Vector'' U32 16,
          mem ''ErrorCode'' U32, mem ''ExceptionParameter'' U64]))])"

definition HV_ARM64_PENDING_EXCEPTION_EVENT :: cty where
  "HV_ARM64_PENDING_EXCEPTION_EVENT = Union 0 (flds_of
       [mem ''AsUINT64'' (Arr U64 3),
       mem '''' (Struct 0 (flds_of [bits ''EventPending'' U8 1, bits ''EventType'' U8 3, bits ''Reserved'' U8 4,
          mem ''EsrElx'' U64, mem ''FarElx'' U64]))])"

definition HV_X64_PENDING_VIRTUALIZATION_FAULT_EVENT :: cty where
  "HV_X64_PENDING_VIRTUALIZATION_FAULT_EVENT = Union 0 (flds_of
       [mem ''AsUINT64'' (Arr U64 2),
       mem '''' (Struct 0 (flds_of [bits ''EventPending'' U32 1, bits ''EventType'' U32 3, bits ''Reserved0'' U32 4,
          bits ''Reserved1'' U32 8, bits ''Parameter0'' U32 16, mem ''Code'' U32,
          mem ''Parameter1'' U64]))])"

definition HV_ARM64_PENDING_INTERRUPTION_TYPE :: enum_tab where
  "HV_ARM64_PENDING_INTERRUPTION_TYPE = enum_of
     [(''HvArm64PendingInterrupt'', Val 0), (''HvArm64PendingException'', Val 1)]"

definition HV_ARM64_PENDING_INTERRUPTION_REGISTER :: cty where
  "HV_ARM64_PENDING_INTERRUPTION_REGISTER = Union 0 (flds_of
       [mem ''AsUINT64'' U64,
       mem '''' (Struct 0 (flds_of [bits ''InterruptionPending'' U64 1, bits ''InterruptionType'' U64 1,
          bits ''Reserved'' U64 30, bits ''ErrorCode'' U64 32]))])"

definition HV_ARM64_INTERRUPT_STATE_REGISTER :: cty where
  "HV_ARM64_INTERRUPT_STATE_REGISTER = Union 0 (flds_of
       [mem ''AsUINT64'' U64,
       mem '''' (Struct 0 (flds_of [bits ''InterruptShadow'' U64 1, bits ''Reserved'' U64 63]))])"

definition HV_ARM64_PENDING_SYNTHETIC_EXCEPTION_EVENT :: cty where
  "HV_ARM64_PENDING_SYNTHETIC_EXCEPTION_EVENT = Union 0 (flds_of
       [mem ''AsUINT64'' (Arr U64 2),
       mem '''' (Struct 0 (flds_of [bits ''EventPending'' U8 1, bits ''EventType'' U8 3, bits ''Reserved'' U8 4,
          mem ''ExceptionType'' U32, mem ''Context'' U64]))])"

definition HV_REGISTER_VALUE_PRIVATE :: "arch \<Rightarrow> cty" where
  "HV_REGISTER_VALUE_PRIVATE a = Union 0 (flds_of
       ([mem ''ExplicitSuspend'' HV_EXPLICIT_SUSPEND_REGISTER,
       mem ''InterceptSuspend'' (HV_INTERCEPT_SUSPEND_REGISTER a),
       mem ''DispatchSuspend'' HV_DISPATCH_SUSPEND_REGISTER] @
        (case a of X64 \<Rightarrow> [mem ''Fp'' HV_X64_FP_REGISTER, mem ''FpControlStatus'' HV_X64_FP_CONTROL_STATUS_REGISTER,
       mem ''XmmControlStatus'' HV_X64_XMM_CONTROL_STATUS_REGISTER,
       mem ''Segment'' HV_X64_SEGMENT_REGISTER, mem ''Table'' HV_X64_TABLE_REGISTER,
       mem ''InterruptState'' HV_X64_INTERRUPT_STATE_REGISTER,
       mem ''PendingInterruption'' HV_X64_PENDING_INTERRUPTION_REGISTER,
       mem ''NpiepConfig'' HV_X64_MSR_NPIEP_CONFIG_CONTENTS,
       mem ''PendingExceptionEvent'' HV_X64_PENDING_EXCEPTION_EVENT,
       mem ''PendingVirtualizationFaultEvent'' HV_X64_PENDING_VIRTUALIZATION_FAULT_EVENT] | ARM64 \<Rightarrow>
        [mem ''PendingInterruption'' HV_ARM64_PENDING_INTERRUPTION_REGISTER,
       mem ''InterruptState'' HV_ARM64_INTERRUPT_STATE_REGISTER,
       mem ''PendingSyntheticExceptionEvent'' HV_ARM64_PENDING_SYNTHETIC_EXCEPTION_EVENT])))"

definition HV_INTERCEPT_ACCESS_READ :: "32 word" where "HV_INTERCEPT_ACCESS_READ = 0"

definition HV_INTERCEPT_ACCESS_WRITE :: "32 word" where "HV_INTERCEPT_ACCESS_WRITE = 1"

definition HV_INTERCEPT_ACCESS_EXECUTE :: "32 word" where "HV_INTERCEPT_ACCESS_EXECUTE = 2"

definition HV_INTERCEPT_ACCESS_TYPE_MASK :: cty where
  "HV_INTERCEPT_ACCESS_TYPE_MASK = U32"

definition HV_INTERCEPT_ACCESS_MASK_NONE :: "32 word" where "HV_INTERCEPT_ACCESS_MASK_NONE = 0x00"

definition HV_INTERCEPT_ACCESS_MASK_READ :: "32 word" where "HV_INTERCEPT_ACCESS_MASK_READ = 0x01"

definition HV_INTERCEPT_ACCESS_MASK_WRITE :: "32 word" where "HV_INTERCEPT_ACCESS_MASK_WRITE = 0x02"

definition HV_INTERCEPT_ACCESS_MASK_EXECUTE :: "32 word" where "HV_INTERCEPT_ACCESS_MASK_EXECUTE = 0x04"

definition HV_INTERCEPT_TYPE :: "arch \<Rightarrow> enum_tab" where
  "HV_INTERCEPT_TYPE a = enum_of
     ((case a of X64 \<Rightarrow> [(''HvInterceptTypeX64IoPort'', Val 0x00000000),
     (''HvInterceptTypeX64Msr'', Val 0x00000001), (''HvInterceptTypeX64Cpuid'', Val 0x00000002),
     (''HvInterceptTypeX64Exception'', Val 0x00000003),
     (''HvInterceptTypeRegister'', Val 0x00000004), (''HvInterceptTypeMmio'', Val 0x00000005),
     (''HvInterceptTypeX64GlobalCpuid'', Val 0x00000006),
     (''HvInterceptTypeX64ApicSmi'', Val 0x00000007),
     (''HvInterceptTypeHypercall'', Val 0x00000008),
     (''HvInterceptTypeX64ApicInitSipi'', Val 0x00000009),
     (''HvInterceptTypeX64ApicWrite'', Val 0x0000000b),
     (''HvInterceptTypeX64MsrIndex'', Val 0x0000000c), (''HvInterceptTypeMax'', Auto)] | ARM64 \<Rightarrow>
     [(''HvInterceptTypeException'', Val 0x00000003),
     (''HvInterceptTypeReserved0'', Val 0x00000004), (''HvInterceptTypeMmio'', Val 0x00000005),
     (''HvInterceptTypeHypercall'', Val 0x00000008),
     (''HvInterceptTypeUnknownSynicConnection'', Val 0x0000000d),
     (''HvInterceptTypeRetargetInterruptWithUnknownDeviceId'', Val 0x0000000f),
     (''HvInterceptTypeRegister'', Val 0x00000012), (''HvInterceptTypeMax'', Val 0x00000013)]) @
     [(''HvInterceptTypeInvalid'', Val 0xffffffff)])"

definition HV_X64_IO_PORT :: cty where
  "HV_X64_IO_PORT = U16"

definition HV_INTERCEPT_PARAMETERS :: "arch \<Rightarrow> cty" where
  "HV_INTERCEPT_PARAMETERS a = Union 0 (flds_of
       ([mem ''AsUINT64'' U64] @
        (case a of X64 \<Rightarrow> [mem ''IoPort'' HV_X64_IO_PORT, mem ''CpuidIndex'' U32, mem ''ApicWriteMask'' U32,
       mem ''ExceptionVector'' U16, mem ''MsrIndex'' U32] | ARM64 \<Rightarrow>
        [mem ''ExceptionVector'' U16])))"

definition HV_INTERCEPT_PARAMETERS_EX :: cty where
  "HV_INTERCEPT_PARAMETERS_EX = Union 0 (flds_of
       [mem ''InterceptParamsRaw'' (Arr U64 16),
       mem ''RegisterInterceptParams'' (Struct 0 (flds_of [mem ''RegisterName'' Enum_ty, mem ''AccessTypeMask'' U32, mem ''WriteInterceptMask'' U64,
          mem ''Reserved'' (Arr U64 14)]))])"

definition HV_INTERCEPT_DESCRIPTOR :: "arch \<Rightarrow> cty" where
  "HV_INTERCEPT_DESCRIPTOR a = Struct 0 (flds_of
       [mem ''Type'' Enum_ty, mem ''Parameters'' (HV_INTERCEPT_PARAMETERS a)])"

definition HV_MAX_VP_INDEX :: "32 word" where "HV_MAX_VP_INDEX = HV_MAXIMUM_PROCESSORS - 1"

definition HV_FLUSH_FLAGS :: cty where
  "HV_FLUSH_FLAGS = U64"

definition HV_FLUSH_ALL_PROCESSORS :: "32 word" where "HV_FLUSH_ALL_PROCESSORS = 0x00000001"

definition HV_FLUSH_ALL_VIRTUAL_ADDRESS_SPACES :: "32 word" where
  "HV_FLUSH_ALL_VIRTUAL_ADDRESS_SPACES = 0x00000002"

definition HV_FLUSH_NON_GLOBAL_MAPPINGS_ONLY :: "32 word" where
  "HV_FLUSH_NON_GLOBAL_MAPPINGS_ONLY = 0x00000004"

definition HV_FLUSH_USE_EXTENDED_RANGE_FORMAT :: "32 word" where
  "HV_FLUSH_USE_EXTENDED_RANGE_FORMAT = 0x00000008"

definition HV_FLUSH_MASK :: "32 word" where
  "HV_FLUSH_MASK = HV_FLUSH_ALL_PROCESSORS OR HV_FLUSH_ALL_VIRTUAL_ADDRESS_SPACES OR
     HV_FLUSH_NON_GLOBAL_MAPPINGS_ONLY OR HV_FLUSH_USE_EXTENDED_RANGE_FORMAT"

definition HV_TRANSLATE_GVA_CONTROL_FLAGS :: cty where
  "HV_TRANSLATE_GVA_CONTROL_FLAGS = U64"

definition HV_TRANSLATE_GVA_VALIDATE_READ :: "32 word" where "HV_TRANSLATE_GVA_VALIDATE_READ = 0x0001"

definition HV_TRANSLATE_GVA_VALIDATE_WRITE :: "32 word" where "HV_TRANSLATE_GVA_VALIDATE_WRITE = 0x0002"

definition HV_TRANSLATE_GVA_VALIDATE_EXECUTE :: "32 word" where "HV_TRANSLATE_GVA_VALIDATE_EXECUTE = 0x0004"

definition HV_TRANSLATE_GVA_PRIVILEGE_EXEMPT :: "32 word" where "HV_TRANSLATE_GVA_PRIVILEGE_EXEMPT = 0x0008"

definition HV_TRANSLATE_GVA_SET_PAGE_TABLE_BITS :: "32 word" where
  "HV_TRANSLATE_GVA_SET_PAGE_TABLE_BITS = 0x0010"

definition HV_TRANSLATE_GVA_TLB_FLUSH_INHIBIT :: "32 word" where
  "HV_TRANSLATE_GVA_TLB_FLUSH_INHIBIT = 0x0020"

definition HV_TRANSLATE_GVA_CONTROL_MASK :: "32 word" where "HV_TRANSLATE_GVA_CONTROL_MASK = 0x003f"

definition HV_TRANSLATE_GVA_INPUT_VTL_MASK :: "64 word" where
  "HV_TRANSLATE_GVA_INPUT_VTL_MASK = 0xff00000000000000"

definition HV_TRANSLATE_GVA_RESULT_CODE :: enum_tab where
  "HV_TRANSLATE_GVA_RESULT_CODE = enum_of
     [(''HvTranslateGvaSuccess'', Val 0), (''HvTranslateGvaPageNotPresent'', Val 1),
     (''HvTranslateGvaPrivilegeViolation'', Val 2),
     (''HvTranslateGvaInvalidPageTableFlags'', Val 3), (''HvTranslateGvaGpaUnmapped'', Val 4),
     (''HvTranslateGvaGpaNoReadAccess'', Val 5), (''HvTranslateGvaGpaNoWriteAccess'', Val 6),
     (''HvTranslateGvaGpaIllegalOverlayAccess'', Val 7), (''HvTranslateGvaIntercept'', Val 8),
     (''HvTranslateGvaGpaUnaccepted'', Val 9)]"

definition HV_TRANSLATE_GVA_RESULT :: cty where
  "HV_TRANSLATE_GVA_RESULT = Union 0 (flds_of
       [mem ''AsUINT64'' U64,
       mem '''' (Struct 0 (flds_of [mem ''ResultCode'' Enum_ty, bits ''CacheType'' U32 8, bits ''OverlayPage'' U32 1,
          bits ''Reserved3'' U32 23]))])"

definition HV_INPUT_VTL :: cty where
  "HV_INPUT_VTL = Union 0 (flds_of
       [mem ''AsUINT8'' U8,
       mem '''' (Struct 0 (flds_of [bits ''TargetVtl'' U8 4, bits ''UseTargetVtl'' U8 1, bits ''ReservedZ'' U8 3]))])"

definition HV_ACCESS_GPA_CONTROL_FLAGS :: cty where
  "HV_ACCESS_GPA_CONTROL_FLAGS = Union 0 (flds_of
       [mem ''AsUINT64'' U64,
       mem '''' (Struct 0 (flds_of [mem ''CacheType'' U8, mem ''InputVtl'' HV_INPUT_VTL, mem ''ReservedZ0'' U16,
          mem ''ReservedZ1'' U32]))])"

definition HV_ACCESS_GPA_RESULT_CODE :: enum_tab where
  "HV_ACCESS_GPA_RESULT_CODE = enum_of
     [(''HvAccessGpaSuccess'', Val 0), (''HvAccessGpaUnmapped'', Val 1),
     (''HvAccessGpaReadIntercept'', Val 2), (''HvAccessGpaWriteIntercept'', Val 3),
     (''HvAccessGpaIllegalOverlayAccess'', Val 4)]"

definition HV_ACCESS_GPA_RESULT :: cty where
  "HV_ACCESS_GPA_RESULT = Union 0 (flds_of
       [mem ''AsUINT64'' U64,
       mem '''' (Struct 0 (flds_of [mem ''ResultCode'' Enum_ty, mem ''Reserved'' U32]))])"

definition HV_CACHE_TYPE :: enum_tab where
  "HV_CACHE_TYPE = enum_of
     [(''HvCacheTypeX64Uncached'', Val 0), (''HvCacheTypeUncached'', Val 0),
     (''HvCacheTypeX64WriteCombining'', Val 1), (''HvCacheTypeWriteCombining'', Val 1),
     (''HvCacheTypeX64WriteThrough'', Val 4), (''HvCacheTypeWriteThrough'', Val 4),
     (''HvCacheTypeX64WriteProtected'', Val 5), (''HvCacheTypeX64WriteBack'', Val 6),
     (''HvCacheTypeWriteBack'', Val 6)]"

definition HV_MAP_GPA_KERNEL_EXECUTABLE :: "32 word" where "HV_MAP_GPA_KERNEL_EXECUTABLE = 0x00000004"

definition HV_MAP_GPA_USER_EXECUTABLE :: "32 word" where "HV_MAP_GPA_USER_EXECUTABLE = 0x00000008"

definition HV_MAP_GPA_EXECUTABLE :: "32 word" where "HV_MAP_GPA_EXECUTABLE = 0x0000000c"

definition HV_MAP_GPA_PERMISSIONS_MASK :: "32 word" where "HV_MAP_GPA_PERMISSIONS_MASK = 0x0000000f"

definition HV_GVA_RANGE_SIMPLE :: cty where
  "HV_GVA_RANGE_SIMPLE = Union 0 (flds_of
       [mem ''AsUINT64'' U64,
       mem '''' (Struct 0 (flds_of [bits ''AdditionalPages'' U64 12, bits ''GvaPageNumber'' U64 52]))])"

definition HV_GVA_RANGE_EXTENDED :: cty where
  "HV_GVA_RANGE_EXTENDED = Union 0 (flds_of
       [mem ''AsUINT64'' U64,
       mem '''' (Struct 0 (flds_of [bits ''AdditionalPages'' U64 11, bits ''LargePage'' U64 1,
          mem '''' (Union 0 (flds_of [bits ''GvaPageNumber'' U64 52,
             mem '''' (Struct 0 (flds_of [bits ''PageSize'' U64 1, bits ''Reserved'' U64 8, bits ''GvaLargePageNumber'' U64 43]))]))]))])"

definition HV_GVA_RANGE :: cty where
  "HV_GVA_RANGE = Union 0 (flds_of
       [mem ''AsUINT64'' U64, mem ''Simple'' HV_GVA_RANGE_SIMPLE,
       mem ''Extended'' HV_GVA_RANGE_EXTENDED])"

definition HV_SYNIC_INTERCEPTION_SINT_INDEX :: "32 word" where "HV_SYNIC_INTERCEPTION_SINT_INDEX = 0"

definition HV_SYNIC_IOMMU_FAULT_SINT_INDEX :: "32 word" where "HV_SYNIC_IOMMU_FAULT_SINT_INDEX = 1"

definition HV_SYNIC_VMBUS_SINT_INDEX :: "32 word" where "HV_SYNIC_VMBUS_SINT_INDEX = 2"

definition HV_SYNIC_FIRST_UNUSED_SINT_INDEX :: "32 word" where "HV_SYNIC_FIRST_UNUSED_SINT_INDEX = 5"

definition HV_SYNIC_DOORBELL_SINT_INDEX :: "32 word" where
  "HV_SYNIC_DOORBELL_SINT_INDEX = HV_SYNIC_FIRST_UNUSED_SINT_INDEX"

definition HV_SYNIC_VERSION :: "32 word" where "HV_SYNIC_VERSION = 1"

definition HV_SYNIC_VERSION_1 :: "32 word" where "HV_SYNIC_VERSION_1 = 0x1"

definition HV_ANY_VP :: "32 word" where "HV_ANY_VP = 0xffffffff"

definition HV_VP_INDEX_SELF :: "32 word" where "HV_VP_INDEX_SELF = 0xfffffffe"

definition HV_SYNIC_APIC_MINIMUM_VECTOR :: "32 word" where "HV_SYNIC_APIC_MINIMUM_VECTOR = 0x10"

definition HV_MESSAGE_TYPE_PRIVATE :: "arch \<Rightarrow> enum_tab" where
  "HV_MESSAGE_TYPE_PRIVATE a = enum_of
     ([(''HvMessageTypeEnablePartitionVtlIntercept'', Val 0x80000005),
     (''HvMessageTypeOpaqueIntercept'', Val 0x8000003f),
     (''HvMessageTypeSynicSintIntercept'', Val 0x80000061),
     (''HvMessageTypeSynicSintDeliverable'', Val 0x80000062),
     (''HvMessageInsufficientMemory'', Val 0x80000071),
     (''HvMessageMirroringNotification'', Val 0x80000072),
     (''HvMessageRestartCompletionNotification'', Val 0x80000073),
     (''HvMessageTypeAsyncCallCompletion'', Val 0x80000070)] @
     (case a of X64 \<Rightarrow> [(''HvMessageTypeX64LegacyFpError'', Val 0x80010005),
     (''HvMessageTypeX64ProxyInterruptIntercept'', Val 0x8001000f)] | ARM64 \<Rightarrow>
     [(''HvMessageTypeArm64ResetInterceptUndocumented'', Val 0x8001000c)]))"

definition HV_MESSAGE_TYPE_HYPERVISOR_MASK :: "32 word" where "HV_MESSAGE_TYPE_HYPERVISOR_MASK = 0x80000000"

definition HV_X64_APIC_EOI_MESSAGE :: cty where
  "HV_X64_APIC_EOI_MESSAGE = Struct 0 (flds_of
       [mem ''VpIndex'' HV_VP_INDEX, mem ''InterruptVector'' HV_INTERRUPT_VECTOR])"

definition HV_PORT_TYPE :: enum_tab where
  "HV_PORT_TYPE = enum_of
     [(''HvPortTypeMessage'', Val 1), (''HvPortTypeEvent'', Val 2),
     (''HvPortTypeMonitor'', Val 3), (''HvPortTypeDoorbell'', Val 4)]"

definition HV_PORT_INFO :: cty where
  "HV_PORT_INFO = Struct 0 (flds_of
       [mem ''PortType'' Enum_ty, mem ''ReservedZ'' U32,
       mem '''' (Union 0 (flds_of [mem ''MessagePortInfo'' (Struct 0 (flds_of [mem ''TargetSint'' HV_SYNIC_SINT_INDEX, mem ''TargetVp'' HV_VP_INDEX, mem ''RsvdZ'' U64])),
          mem ''EventPortInfo'' (Struct 0 (flds_of [mem ''TargetSint'' HV_SYNIC_SINT_INDEX, mem ''TargetVp'' HV_VP_INDEX,
             mem ''BaseFlagNumber'' U16, mem ''FlagCount'' U16, mem ''RsvdZ'' U32])),
          mem ''MonitorPortInfo'' (Struct 0 (flds_of [mem ''MonitorAddress'' HV_GPA, mem ''RsvdZ'' U64])),
          mem ''DoorbellPortInfo'' (Struct 0 (flds_of [mem ''TargetSint'' U32, mem ''TargetVp'' HV_VP_INDEX, mem ''RsvdZ'' U64]))]))])"

definition HV_DOORBELL_FLAG_TRIGGER_SIZE_MASK :: "32 word" where
  "HV_DOORBELL_FLAG_TRIGGER_SIZE_MASK = 0x00000007"

definition HV_DOORBELL_FLAG_TRIGGER_SIZE_ANY :: "32 word" where
  "HV_DOORBELL_FLAG_TRIGGER_SIZE_ANY = 0x00000000"

definition HV_DOORBELL_FLAG_TRIGGER_SIZE_BYTE :: "32 word" where
  "HV_DOORBELL_FLAG_TRIGGER_SIZE_BYTE = 0x00000001"

definition HV_DOORBELL_FLAG_TRIGGER_SIZE_WORD :: "32 word" where
  "HV_DOORBELL_FLAG_TRIGGER_SIZE_WORD = 0x00000002"

definition HV_DOORBELL_FLAG_TRIGGER_SIZE_DWORD :: "32 word" where
  "HV_DOORBELL_FLAG_TRIGGER_SIZE_DWORD = 0x00000003"

definition HV_DOORBELL_FLAG_TRIGGER_SIZE_QWORD :: "32 word" where
  "HV_DOORBELL_FLAG_TRIGGER_SIZE_QWORD = 0x00000004"

definition HV_DOORBELL_FLAG_TRIGGER_ANY_VALUE :: "32 word" where
  "HV_DOORBELL_FLAG_TRIGGER_ANY_VALUE = 0x80000000"

definition HV_CONNECTION_INFO :: cty where
  "HV_CONNECTION_INFO = Struct 0 (flds_of
       [mem ''PortType'' Enum_ty, mem ''Padding'' U32,
       mem '''' (Union 0 (flds_of [mem ''MessageConnectionInfo'' (Struct 0 (flds_of [mem ''RsvdZ'' U64])),
          mem ''EventConnectionInfo'' (Struct 0 (flds_of [mem ''RsvdZ'' U64])),
          mem ''MonitorConnectionInfo'' (Struct 0 (flds_of [mem ''MonitorAddress'' HV_GPA])),
          mem ''DoorbellConnectionInfo'' (Struct 0 (flds_of [mem ''GuestPhysicalAddress'' HV_GPA, mem ''TriggerValue'' U64, mem ''Flags'' U64]))]))])"

definition HV_PORT_PROPERTY :: cty where
  "HV_PORT_PROPERTY = U64"

definition HV_PORT_PROPERTY_CODE :: enum_tab where
  "HV_PORT_PROPERTY_CODE = enum_of
     [(''HvPortPropertyPostCount'', Val 0x0), (''HvPortPropertyPreferredTargetVp'', Val 0x1),
     (''HvPortPropertyMonitorAddress'', Val 0x2), (''HvPortPropertyUseRingBuffer'', Val 0x3),
     (''HvPortPropertyTargetVp'', Val 0x4),
     (''HvPortPropertyPreferredTargetDuration'', Val 0x5),
     (''HvPortPropertyRetryPostMessage'', Val 0x6),
     (''HvPortPropertyInterceptOnSignal'', Val 0x7), (''HvPortPropertySignalCount'', Val 0x8),
     (''HvPortPropertyPendingRing'', Val 0x9)]"

definition HV_MESSAGE_HEADER_PRIVATE :: cty where
  "HV_MESSAGE_HEADER_PRIVATE = Struct 0 (flds_of
       [mem ''Reversed'' U64, mem '''' (Union 0 (flds_of [mem ''OriginationId'' U64]))])"

definition HV_FAULT_DEVICE_ID :: cty where
  "HV_FAULT_DEVICE_ID = Union 0 (flds_of
       [mem ''AsUINT64'' U64, mem ''StreamId'' U64])"

definition HV_IOMMU_FAULT_MESSAGE_PAYLOAD_PRIVATE :: cty where
  "HV_IOMMU_FAULT_MESSAGE_PAYLOAD_PRIVATE = Struct 0 (flds_of
       [mem ''Reserved0'' U64,
       mem ''Flags'' (Struct 0 (flds_of [bits ''Reserved1'' U32 2, bits ''IsStage1Fault'' U32 1])),
       mem ''LogicalId'' U64, mem ''DeviceId'' HV_FAULT_DEVICE_ID, mem ''FaultAddress'' U64,
       mem ''IommuBaseAddress'' HV_GVA])"

definition HV_SINT_NOTIFICATION_MESSAGE_PAYLOAD :: cty where
  "HV_SINT_NOTIFICATION_MESSAGE_PAYLOAD = Struct 0 (flds_of
       [mem ''SintIndex'' U32])"

definition HV_MESSAGE_PRIVATE :: cty where
  "HV_MESSAGE_PRIVATE = Aligned 16 (Struct 0 (flds_of
       [mem ''Header'' HV_MESSAGE_HEADER_PRIVATE,
       mem '''' (Union 0 (flds_of [mem ''IommuFaultPayload'' HV_IOMMU_FAULT_MESSAGE_PAYLOAD_PRIVATE,
          mem ''SintNotificationPayload'' HV_SINT_NOTIFICATION_MESSAGE_PAYLOAD]))]))"

definition HV_PORT_MESSAGE_BUFFER_COUNT :: "32 word" where "HV_PORT_MESSAGE_BUFFER_COUNT = 16"

definition HV_X64_MSR_APIC_ASSIST_CONTENTS :: cty where
  "HV_X64_MSR_APIC_ASSIST_CONTENTS = Union 0 (flds_of
       [mem ''AsUINT64'' U64,
       mem '''' (Struct 0 (flds_of [bits ''Enable'' U64 1, bits ''ReservedP'' U64 11, bits ''GpaPageNumber'' U64 52]))])"

definition HV_VIRTUAL_APIC_NO_EOI_REQUIRED :: "32 word" where "HV_VIRTUAL_APIC_NO_EOI_REQUIRED = 0x0"

definition HV_VIRTUAL_APIC_ASSIST :: cty where
  "HV_VIRTUAL_APIC_ASSIST = Union 0 (flds_of
       [mem ''ApicFlags'' U32, mem '''' (Struct 0 (flds_of [bits ''NoEOIRequired'' U32 1]))])"

definition HV_INTERRUPT_CONTROL :: "arch \<Rightarrow> cty" where
  "HV_INTERRUPT_CONTROL a = Struct 0 (flds_of
       [mem ''AsUINT64'' U64,
       mem '''' (Struct 0 (flds_of ([mem ''InterruptType'' Enum_ty, bits ''LevelTriggered'' U32 1,
          bits ''LogicalDestinationMode'' U32 1] @
           (case a of X64 \<Rightarrow> [bits ''Reserved'' U32 30] | ARM64 \<Rightarrow>
           [bits ''Asserted'' U32 1, bits ''Reserved'' U32 29]))))])"

definition HV_EMULATED_TIMER_PERIOD :: cty where
  "HV_EMULATED_TIMER_PERIOD = Union 0 (flds_of
       [mem ''AsUINT64'' U64, mem ''Period'' HV_NANO100_DURATION])"

definition HV_EMULATED_TIMER_CONTROL :: cty where
  "HV_EMULATED_TIMER_CONTROL = Union 0 (flds_of
       [mem ''AsUINT64'' U64,
       mem '''' (Struct 0 (flds_of [bits ''Vector'' U32 8, bits ''DeliveryMode'' U32 3,
          bits ''LogicalDestinationMode'' U32 1, bits ''Enabled'' U32 1, bits ''Reserved1'' U32 19,
          bits ''Mda'' U32 32]))])"

definition HV_PM_TIMER_INFO :: cty where
  "HV_PM_TIMER_INFO = Union 0 (flds_of
       [mem ''AsUINT64'' U64,
       mem '''' (Struct 0 (flds_of [bits ''Port'' U32 16, bits ''Width24'' U32 1, bits ''Enabled'' U32 1,
          bits ''Reserved1'' U32 14, bits ''Reserved2'' U32 32]))])"

definition HV_MONITOR_TRIGGER_GROUP :: cty where
  "HV_MONITOR_TRIGGER_GROUP = Union 0 (flds_of
       [mem ''AsUINT64'' U64,
       mem '''' (Struct 0 (flds_of [mem ''Pending'' U32, mem ''Armed'' U32]))])"

definition HV_MONITOR_PARAMETER :: cty where
  "HV_MONITOR_PARAMETER = Struct 0 (flds_of
       [mem ''ConnectionId'' HV_CONNECTION_ID, mem ''FlagNumber'' U16, mem ''ReservedZ'' U16])"

definition HV_MONITOR_TRIGGER_STATE :: cty where
  "HV_MONITOR_TRIGGER_STATE = Union 0 (flds_of
       [mem ''AsUINT32'' U32,
       mem '''' (Struct 0 (flds_of [bits ''GroupEnable'' U32 4, bits ''ReservedZ'' U32 28]))])"

definition HV_MONITOR_PAGE :: cty where
  "HV_MONITOR_PAGE = Struct 0 (flds_of
       [mem ''TriggerState'' HV_MONITOR_TRIGGER_STATE, mem ''RsvdZ1'' U32,
       mem ''TriggerGroup'' (Arr HV_MONITOR_TRIGGER_GROUP 4), mem ''RsvdZ2'' (Arr U64 3),
       mem ''NextCheckTime'' (Arr (Arr U32 32) 4), mem ''Latency'' (Arr (Arr U16 32) 4),
       mem ''RsvdZ3'' (Arr U64 32), mem ''Parameter'' (Arr (Arr HV_MONITOR_PARAMETER 32) 4),
       mem ''Reserved4'' (Arr U8 1984)])"

definition HV_DEBUG_CHANNEL_IDENTIFIER :: cty where
  "HV_DEBUG_CHANNEL_IDENTIFIER = U16"

definition HV_DEBUG_MAXIMUM_DATA_SIZE :: "32 word" where "HV_DEBUG_MAXIMUM_DATA_SIZE = 4088"

definition HV_DEBUG_OPTIONS :: cty where
  "HV_DEBUG_OPTIONS = U32"

definition HV_DEBUG_POST_LOOP :: "32 word" where "HV_DEBUG_POST_LOOP = 0x00000001"

definition HV_DEBUG_RETRIEVE_LOOP :: "32 word" where "HV_DEBUG_RETRIEVE_LOOP = 0x00000001"

definition HV_DEBUG_RETRIEVE_TEST_ACTIVITY :: "32 word" where "HV_DEBUG_RETRIEVE_TEST_ACTIVITY = 0x00000002"

definition HV_DEBUG_PURGE_INCOMING_DATA :: "32 word" where "HV_DEBUG_PURGE_INCOMING_DATA = 0x00000001"

definition HV_DEBUG_PURGE_OUTGOING_DATA :: "32 word" where "HV_DEBUG_PURGE_OUTGOING_DATA = 0x00000002"

definition HV_MUX_PACKET_LEADER :: "32 word" where "HV_MUX_PACKET_LEADER = 0x11223344"

definition HV_MUX_PACKET_TYPE_DATA :: "32 word" where "HV_MUX_PACKET_TYPE_DATA = 0x0001"

definition HV_MUX_PACKET_TYPE_BREAKIN :: "32 word" where "HV_MUX_PACKET_TYPE_BREAKIN = 0x0002"

definition HV_MUX_PACKET_TYPE_QUERY_CHANNELS :: "32 word" where "HV_MUX_PACKET_TYPE_QUERY_CHANNELS = 0x0003"

definition HV_MUX_PACKET_TYPE_MAXIMUM :: "32 word" where
  "HV_MUX_PACKET_TYPE_MAXIMUM = HV_MUX_PACKET_TYPE_QUERY_CHANNELS"

definition HV_MUX_PACKET_HEADER :: cty where
  "HV_MUX_PACKET_HEADER = Struct 1 (flds_of
       [mem ''Leader'' U32, mem ''Type'' U16, mem ''Length'' U16, mem ''CRC'' U32,
       mem ''Channel'' HV_DEBUG_CHANNEL_IDENTIFIER, mem ''Reserved'' U16])"

definition MUX_CHANNEL_DATA :: cty where
  "MUX_CHANNEL_DATA = Struct 1 (flds_of
       [mem ''Count'' U32, mem ''ChannelIds'' (Arr HV_DEBUG_CHANNEL_IDENTIFIER 1)])"

definition HV_DEBUG_CHANNEL_ID_HYPERVISOR :: "32 word" where "HV_DEBUG_CHANNEL_ID_HYPERVISOR = 0x00000000"

definition HV_DEBUG_CHANNEL_ID_ROOT :: "32 word" where "HV_DEBUG_CHANNEL_ID_ROOT = 0x00000001"

definition HV_DEBUG_CHANNEL_ID_DEFAULT :: "32 word" where "HV_DEBUG_CHANNEL_ID_DEFAULT = 0x0000bada"

definition HV_DEBUG_CHANNEL_ID_ASSIGN_START :: "32 word" where
  "HV_DEBUG_CHANNEL_ID_ASSIGN_START = 0x00000002"

definition HV_DEBUG_CHANNEL_ID_FW_MAX :: "32 word" where "HV_DEBUG_CHANNEL_ID_FW_MAX = 0x0000003e"

definition HV_CRASHDUMP_AREA_VERSION :: "32 word" where "HV_CRASHDUMP_AREA_VERSION = 2"

definition HV_IMAGE_NAME_MAX_LENGTH :: "32 word" where "HV_IMAGE_NAME_MAX_LENGTH = 32"

definition HV_DEFAULT_CRASHDUMP_SPA_PAGES :: "32 word" where "HV_DEFAULT_CRASHDUMP_SPA_PAGES = 5"

definition HV_CRASHDUMP_AREA_V1 :: cty where
  "HV_CRASHDUMP_AREA_V1 = Struct 0 (flds_of
       [mem ''Version'' U32,
       mem '''' (Union 0 (flds_of [mem ''FlagsAsUINT32'' U32,
          mem '''' (Struct 0 (flds_of [bits ''Valid'' U32 1, bits ''Reserved'' U32 31]))])),
       mem ''HypervisorBase'' U64, mem ''SizeOfImage'' U32, mem ''ImageNameLength'' U16,
       mem ''ImageName'' (Arr HV_WCHAR (unat HV_IMAGE_NAME_MAX_LENGTH)),
       mem ''BugCheckData'' (Arr U64 5), mem ''BugCheckErrorReturnAddress'' Ptr_ty,
       mem ''PageTableBase'' U64, mem ''PfnDataBase'' U64, mem ''DebuggerDataBlock'' U64,
       mem ''NumberProcessors'' U32, mem ''ProcessorStateOffset'' U32,
       mem ''ProcessorStateSize'' U32, mem ''CrashStackSize'' U32, mem ''CrashStackOffset'' U32,
       mem ''CrashStackAddress'' U64])"

definition HV_CRASHDUMP_PROCESSOR_STATE :: cty where
  "HV_CRASHDUMP_PROCESSOR_STATE = Struct 0 (flds_of
       [mem ''RegisterStateOffset'' U32, mem ''RegisterStateSize'' U32,
       mem ''CrashStackSize'' U32, mem ''CrashStackOffset'' U32, mem ''CrashStackAddress'' U64,
       mem ''PlatformStateSize'' U32, mem ''PlatformStateOffset'' U32])"

definition CODE_CHUNK_SIZE :: "32 word" where "CODE_CHUNK_SIZE = 0x200"

definition HV_CRASHDUMP_AREA_V2 :: cty where
  "HV_CRASHDUMP_AREA_V2 = Struct 0 (flds_of
       [mem ''Version'' U32,
       mem '''' (Union 0 (flds_of [mem ''FlagsAsUINT32'' U32,
          mem '''' (Struct 0 (flds_of [bits ''Valid'' U32 1, bits ''Reserved'' U32 31]))])),
       mem ''HypervisorBase'' U64, mem ''SizeOfImage'' U32, mem ''CheckSum'' U32,
       mem ''CurrentPartition'' U64, mem ''PartitionsCreated'' U64,
       mem ''PartitionsRunning'' U32, mem ''CompartmentFreePfns'' U64,
       mem ''ImageNameLength'' U16,
       mem ''ImageName'' (Arr HV_WCHAR (unat HV_IMAGE_NAME_MAX_LENGTH)),
       mem ''BugCheckData'' (Arr U64 5), mem ''BugCheckErrorReturnAddress'' U64,
       mem ''PageTableBase'' U64, mem ''PfnDataBase'' U64, mem ''DebuggerDataBlock'' U64,
       mem ''NumberProcessors'' U32, mem ''CurrentProcessor'' U32, mem ''CodeSpa'' U64,
       mem ''CodeChunk'' (Arr U8 (unat CODE_CHUNK_SIZE)), mem ''ContextCount'' U32,
       mem ''ContextOffset'' U32, mem ''ContextSize'' U32])"

definition HV_CRASHDUMP_AREA_V3 :: cty where
  "HV_CRASHDUMP_AREA_V3 = Struct 0 (flds_of
       [mem ''Version'' U32,
       mem '''' (Union 0 (flds_of [mem ''FlagsAsUINT32'' U32,
          mem '''' (Struct 0 (flds_of [bits ''Valid'' U32 1, bits ''Reserved'' U32 31]))])),
       mem ''HypervisorBase'' U64, mem ''SizeOfImage'' U32, mem ''CheckSum'' U32,
       mem ''CurrentPartition'' U64, mem ''PartitionsCreated'' U64,
       mem ''PartitionsRunning'' U32, mem ''CompartmentFreePfns'' U64,
       mem ''ImageNameLength'' U16,
       mem ''ImageName'' (Arr HV_WCHAR (unat HV_IMAGE_NAME_MAX_LENGTH)),
       mem ''BugCheckData'' (Arr U64 5), mem ''BugCheckErrorReturnAddress'' U64,
       mem ''PageTableBase'' U64, mem ''PfnDataBase'' U64, mem ''MaxPfn'' U64,
       mem ''DebuggerDataBlock'' U64, mem ''NumberProcessors'' U32,
       mem ''CurrentProcessor'' U32, mem ''CodeSpa'' U64,
       mem ''CodeChunk'' (Arr U8 (unat CODE_CHUNK_SIZE)), mem ''ContextCount'' U32,
       mem ''ContextOffset'' U32, mem ''ContextSize'' U32, mem ''PfnEntrySize'' U32,
       mem ''AllocatedPfnEntryMask'' U16])"

definition HV_CRASHDUMP_AREA_V4 :: cty where
  "HV_CRASHDUMP_AREA_V4 = Struct 0 (flds_of
       [mem ''Version'' U32,
       mem '''' (Union 0 (flds_of [mem ''FlagsAsUINT32'' U32,
          mem '''' (Struct 0 (flds_of [bits ''Valid'' U32 1, bits ''Reserved'' U32 31]))])),
       mem ''HypervisorBase'' U64, mem ''SizeOfImage'' U32, mem ''CheckSum'' U32,
       mem ''CurrentPartition'' U64, mem ''PartitionsCreated'' U64,
       mem ''PartitionsRunning'' U32, mem ''CompartmentFreePfns'' U64,
       mem ''ImageNameLength'' U16,
       mem ''ImageName'' (Arr HV_WCHAR (unat HV_IMAGE_NAME_MAX_LENGTH)),
       mem ''BugCheckData'' (Arr U64 5), mem ''BugCheckErrorReturnAddress'' U64,
       mem ''PageTableBase'' U64, mem ''PfnDataBase'' U64, mem ''MaxPfn'' U64,
       mem ''DebuggerDataBlock'' U64, mem ''NumberProcessors'' U32,
       mem ''CurrentProcessor'' U32, mem ''CodeSpa'' U64,
       mem ''CodeChunk'' (Arr U8 (unat CODE_CHUNK_SIZE)), mem ''ContextCount'' U32,
       mem ''ContextOffset'' U32, mem ''ContextSize'' U32, mem ''PfnEntrySize'' U32,
       mem ''AllocatedPfnEntryMask'' U16, mem ''Partial'' U8])"

definition HV_CRASHDUMP_AREA :: cty where
  "HV_CRASHDUMP_AREA = Struct 0 (flds_of
       [mem ''Version'' U32,
       mem '''' (Union 0 (flds_of [mem ''FlagsAsUINT32'' U32,
          mem '''' (Struct 0 (flds_of [bits ''Valid'' U32 1, bits ''NotAllProcessorsSuspended'' U32 1,
             bits ''ExcludesNonEssentialPages'' U32 1, bits ''Reserved'' U32 29]))])),
       mem '''' (Union 0 (flds_of [mem '''' (Struct 0 (flds_of [mem ''HypervisorBase'' U64, mem ''SizeOfImage'' U32, mem ''CheckSum'' U32])),
          mem ''ImageInfo'' (Arr (Struct 0 (flds_of [mem ''Base'' U64, mem ''Size'' U32, mem ''Checksum'' U32, mem ''Timestamp'' U32])) 3)])),
       mem ''CurrentPartition'' U64, mem ''PartitionsCreated'' U64,
       mem ''PartitionsRunning'' U32, mem ''CompartmentFreePfns'' U64,
       mem ''ImageNameLength'' U16,
       mem ''ImageName'' (Arr HV_WCHAR (unat HV_IMAGE_NAME_MAX_LENGTH)),
       mem ''BugCheckData'' (Arr U64 5), mem ''BugCheckErrorReturnAddress'' U64,
       mem ''PageTableBase'' U64, mem ''PfnDataBase'' U64, mem ''DebuggerDataBlock'' U64,
       mem ''NumberProcessors'' U32, mem ''CurrentProcessor'' U32, mem ''CodeSpa'' U64,
       mem ''CodeChunk'' (Arr U8 (unat CODE_CHUNK_SIZE)), mem ''ContextCount'' U32,
       mem ''ContextOffset'' U32, mem ''ContextSize'' U32, mem ''Partial'' U8])"

definition HV_X64_VP_EXECUTION_STATE :: cty where
  "HV_X64_VP_EXECUTION_STATE = Union 0 (flds_of
       [mem ''AsUINT16'' U16,
       mem '''' (Struct 0 (flds_of [bits ''Cpl'' U16 2, bits ''Cr0Pe'' U16 1, bits ''Cr0Am'' U16 1, bits ''EferLma'' U16 1,
          bits ''DebugActive'' U16 1, bits ''InterruptionPending'' U16 1, bits ''Vtl'' U16 4,
          bits ''EnclaveMode'' U16 1, bits ''InterruptShadow'' U16 1,
          bits ''VirtualizationFaultActive'' U16 1, bits ''Reserved'' U16 2]))])"

definition HV_ARM64_VP_EXECUTION_STATE :: cty where
  "HV_ARM64_VP_EXECUTION_STATE = Union 0 (flds_of
       [mem ''AsUINT16'' U16,
       mem '''' (Struct 0 (flds_of [bits ''Cpl'' U16 2, bits ''DebugActive'' U16 1, bits ''InterruptionPending'' U16 1,
          bits ''Vtl'' U16 4, bits ''VirtualizationFaultActive'' U16 1, bits ''Reserved'' U16 7]))])"

definition HV_X64_INTERCEPT_MESSAGE_HEADER :: cty where
  "HV_X64_INTERCEPT_MESSAGE_HEADER = Struct 0 (flds_of
       [mem ''VpIndex'' HV_VP_INDEX, bits ''InstructionLength'' U8 4, bits ''Cr8'' U8 4,
       mem ''InterceptAccessType'' U8, mem ''ExecutionState'' HV_X64_VP_EXECUTION_STATE,
       mem ''CsSegment'' HV_X64_SEGMENT_REGISTER, mem ''Rip'' U64, mem ''Rflags'' U64])"

definition HV_ARM64_INTERCEPT_MESSAGE_HEADER :: cty where
  "HV_ARM64_INTERCEPT_MESSAGE_HEADER = Struct 0 (flds_of
       [mem ''VpIndex'' HV_VP_INDEX, mem ''InstructionLength'' U8,
       mem ''InterceptAccessType'' U8, mem ''ExecutionState'' HV_ARM64_VP_EXECUTION_STATE,
       mem ''Pc'' U64, mem ''Cpsr'' U64])"

definition HV_X64_MEMORY_ACCESS_INFO :: cty where
  "HV_X64_MEMORY_ACCESS_INFO = Union 0 (flds_of
       [mem ''AsUINT8'' U8,
       mem '''' (Struct 0 (flds_of [bits ''GvaValid'' U8 1, bits ''GvaGpaValid'' U8 1, bits ''HypercallOutputPending'' U8 1,
          bits ''TlbLockedNoOverlay'' U8 1, bits ''Reserved'' U8 4]))])"

definition HV_ARM64_MEMORY_ACCESS_INFO :: cty where
  "HV_ARM64_MEMORY_ACCESS_INFO = Union 0 (flds_of
       [mem ''AsUINT8'' U8,
       mem '''' (Struct 0 (flds_of [bits ''GvaValid'' U8 1, bits ''GvaGpaValid'' U8 1, bits ''HypercallOutputPending'' U8 1,
          bits ''Reserved'' U8 5]))])"

definition HV_X64_MEMORY_INTERCEPT_MESSAGE :: cty where
  "HV_X64_MEMORY_INTERCEPT_MESSAGE = Struct 0 (flds_of
       [mem ''Header'' HV_X64_INTERCEPT_MESSAGE_HEADER, mem ''CacheType'' Enum_ty,
       mem ''InstructionByteCount'' U8, mem ''MemoryAccessInfo'' HV_X64_MEMORY_ACCESS_INFO,
       mem ''TprPriority'' U8, mem ''Reserved1'' U8, mem ''GuestVirtualAddress'' U64,
       mem ''GuestPhysicalAddress'' U64, mem ''InstructionBytes'' (Arr U8 16),
       mem ''DsSegment'' HV_X64_SEGMENT_REGISTER, mem ''SsSegment'' HV_X64_SEGMENT_REGISTER,
       mem ''Rax'' U64, mem ''Rcx'' U64, mem ''Rdx'' U64, mem ''Rbx'' U64, mem ''Rsp'' U64,
       mem ''Rbp'' U64, mem ''Rsi'' U64, mem ''Rdi'' U64, mem ''R8'' U64, mem ''R9'' U64,
       mem ''R10'' U64, mem ''R11'' U64, mem ''R12'' U64, mem ''R13'' U64, mem ''R14'' U64,
       mem ''R15'' U64])"

definition HV_ARM64_MEMORY_INTERCEPT_MESSAGE :: cty where
  "HV_ARM64_MEMORY_INTERCEPT_MESSAGE = Struct 0 (flds_of
       [mem ''Header'' HV_ARM64_INTERCEPT_MESSAGE_HEADER, mem ''CacheType'' Enum_ty,
       mem ''InstructionByteCount'' U8, mem ''MemoryAccessInfo'' HV_ARM64_MEMORY_ACCESS_INFO,
       mem ''Reserved1'' U16, mem ''InstructionBytes'' (Arr U8 4), mem ''Reserved2'' U32,
       mem ''GuestVirtualAddress'' U64, mem ''GuestPhysicalAddress'' U64, mem ''Syndrome'' U64])"

definition HV_X64_MSR_INTERCEPT_MESSAGE :: cty where
  "HV_X64_MSR_INTERCEPT_MESSAGE = Struct 0 (flds_of
       [mem ''Header'' HV_X64_INTERCEPT_MESSAGE_HEADER, mem ''MsrNumber'' U32,
       mem ''Reserved'' U32, mem ''Rdx'' U64, mem ''Rax'' U64])"

definition HV_ARM64_MSR_INTERCEPT_MESSAGE :: cty where
  "HV_ARM64_MSR_INTERCEPT_MESSAGE = Struct 0 (flds_of
       [mem ''Header'' HV_ARM64_INTERCEPT_MESSAGE_HEADER, mem ''VirtualRegisterNumber'' U64,
       mem ''X0'' U64, mem ''X1'' U64])"

definition HV_X64_EXCEPTION_INFO :: cty where
  "HV_X64_EXCEPTION_INFO = Union 0 (flds_of
       [mem ''AsUINT8'' U8,
       mem '''' (Struct 0 (flds_of [bits ''ErrorCodeValid'' U8 1, bits ''SoftwareException'' U8 1, bits ''Reserved'' U8 6]))])"

definition HV_ARM64_EXCEPTION_INFO :: cty where
  "HV_ARM64_EXCEPTION_INFO = Union 0 (flds_of
       [mem ''AsUINT8'' U8,
       mem '''' (Struct 0 (flds_of [bits ''ErrorCodeValid'' U8 1, bits ''Reserved'' U8 7]))])"

definition HV_X64_EXCEPTION_INTERCEPT_MESSAGE :: cty where
  "HV_X64_EXCEPTION_INTERCEPT_MESSAGE = Struct 0 (flds_of
       [mem ''Header'' HV_X64_INTERCEPT_MESSAGE_HEADER, mem ''ExceptionVector'' U16,
       mem ''ExceptionInfo'' HV_X64_EXCEPTION_INFO, mem ''InstructionByteCount'' U8,
       mem ''ErrorCode'' U32, mem ''ExceptionParameter'' U64, mem ''Reserved'' U64,
       mem ''InstructionBytes'' (Arr U8 16), mem ''DsSegment'' HV_X64_SEGMENT_REGISTER,
       mem ''SsSegment'' HV_X64_SEGMENT_REGISTER, mem ''Rax'' U64, mem ''Rcx'' U64,
       mem ''Rdx'' U64, mem ''Rbx'' U64, mem ''Rsp'' U64, mem ''Rbp'' U64, mem ''Rsi'' U64,
       mem ''Rdi'' U64, mem ''R8'' U64, mem ''R9'' U64, mem ''R10'' U64, mem ''R11'' U64,
       mem ''R12'' U64, mem ''R13'' U64, mem ''R14'' U64, mem ''R15'' U64])"

definition HV_ARM64_SYNTHETIC_EXCEPTION_TYPE :: enum_tab where
  "HV_ARM64_SYNTHETIC_EXCEPTION_TYPE = enum_of
     [(''HvArm64SyntheticExceptionTypeSmc'', Val 0x0),
     (''HvArm64SyntheticExceptionTypeSecure'', Val 0x1),
     (''HvArm64SyntheticExceptionTypeCrashdump'', Val 0x2),
     (''HvArm64SyntheticExceptionTypeVirtualizationFault'', Val 0x3),
     (''HvArm64SyntheticExceptionTypeMax'', Val 0x40)]"

definition HV_ARM64_EXCEPTION_INTERCEPT_MESSAGE :: cty where
  "HV_ARM64_EXCEPTION_INTERCEPT_MESSAGE = Struct 0 (flds_of
       [mem ''Header'' HV_ARM64_INTERCEPT_MESSAGE_HEADER, mem ''ExceptionType'' Enum_ty,
       mem ''ExceptionSyndrome'' U64, mem ''FaultGVA'' U64, mem ''FaultGPA'' U64,
       mem ''FaultSPA'' U64])"

definition HV_X64_UNRECOVERABLE_EXCEPTION_MESSAGE :: cty where
  "HV_X64_UNRECOVERABLE_EXCEPTION_MESSAGE = Struct 0 (flds_of
       [mem ''Header'' HV_X64_INTERCEPT_MESSAGE_HEADER])"

definition HV_ARM64_UNRECOVERABLE_EXCEPTION_MESSAGE :: cty where
  "HV_ARM64_UNRECOVERABLE_EXCEPTION_MESSAGE = Struct 0 (flds_of
       [mem ''Header'' HV_ARM64_INTERCEPT_MESSAGE_HEADER])"

definition HV_HYPERCALL_INTERCEPT_MAX_XMM_REGISTERS :: "32 word" where
  "HV_HYPERCALL_INTERCEPT_MAX_XMM_REGISTERS = 6"

definition HV_X64_HYPERCALL_INTERCEPT_MESSAGE :: cty where
  "HV_X64_HYPERCALL_INTERCEPT_MESSAGE = Struct 0 (flds_of
       [mem ''Header'' HV_X64_INTERCEPT_MESSAGE_HEADER, mem ''Rax'' U64, mem ''Rbx'' U64,
       mem ''Rcx'' U64, mem ''Rdx'' U64, mem ''R8'' U64, mem ''Rsi'' U64, mem ''Rdi'' U64,
       mem ''Xmmregisters'' (Arr HV_UINT128 (unat HV_HYPERCALL_INTERCEPT_MAX_XMM_REGISTERS)),
       mem '''' (Struct 0 (flds_of [bits ''Isolated'' U32 1, bits ''Reserved'' U32 31]))])"

definition HV_ARM64_HYPERCALL_INTERCEPT_MESSAGE :: cty where
  "HV_ARM64_HYPERCALL_INTERCEPT_MESSAGE = Struct 0 (flds_of
       [mem ''Header'' HV_ARM64_INTERCEPT_MESSAGE_HEADER, mem ''Immediate'' U16,
       mem ''Reserved'' U16, bits ''Isolated'' U32 1, bits ''Reserved2'' U32 31,
       mem ''X'' (Arr U64 18)])"

definition HV_X64_REGISTER_ACCESS_INFO :: cty where
  "HV_X64_REGISTER_ACCESS_INFO = Union 0 (flds_of
       [mem ''SourceValue'' HV_REGISTER_VALUE, mem ''DestinationRegister'' Enum_ty,
       mem ''SourceAddress'' U64, mem ''DestinationAddress'' U64])"

definition HV_ARM64_REGISTER_ACCESS_INFO :: cty where
  "HV_ARM64_REGISTER_ACCESS_INFO = Union 0 (flds_of
       [mem ''SourceValue'' HV_REGISTER_VALUE, mem ''DestinationRegister'' Enum_ty])"

definition HV_X64_REGISTER_INTERCEPT_MESSAGE :: cty where
  "HV_X64_REGISTER_INTERCEPT_MESSAGE = Struct 0 (flds_of
       [mem ''Header'' HV_X64_INTERCEPT_MESSAGE_HEADER,
       mem '''' (Struct 0 (flds_of [bits ''IsMemoryOp'' U8 1, bits ''Reserved'' U8 7])),
       mem ''Reserved1'' (Arr U8 3), mem ''RegisterName'' Enum_ty,
       mem ''AccessInfo'' HV_X64_REGISTER_ACCESS_INFO])"

definition HV_ARM64_REGISTER_INTERCEPT_MESSAGE :: cty where
  "HV_ARM64_REGISTER_INTERCEPT_MESSAGE = Struct 0 (flds_of
       [mem ''Header'' HV_ARM64_INTERCEPT_MESSAGE_HEADER, bits ''IsMemoryOp'' U8 1,
       bits ''Reserved'' U8 7, mem ''Reserved8'' U8, mem ''Reserved16'' U16,
       mem ''RegisterName'' Enum_ty, mem ''AccessInfo'' HV_ARM64_REGISTER_ACCESS_INFO])"

definition HV_X64_INVALID_VP_REGISTER_MESSAGE :: cty where
  "HV_X64_INVALID_VP_REGISTER_MESSAGE = Struct 0 (flds_of
       [mem ''VpIndex'' HV_VP_INDEX, mem ''Reserved'' U32])"

definition HV_ARM64_INVALID_VP_REGISTER_MESSAGE :: cty where
  "HV_ARM64_INVALID_VP_REGISTER_MESSAGE = Struct 0 (flds_of
       [mem ''VpIndex'' HV_VP_INDEX, mem ''Reserved'' U32])"

definition HV_X64_UNSUPPORTED_FEATURE_CODE :: enum_tab where
  "HV_X64_UNSUPPORTED_FEATURE_CODE = enum_of
     [(''HvUnsupportedFeatureIntercept'', Val 1), (''HvUnsupportedFeatureTaskSwitchTss'', Val 2)]"

definition HV_ARM64_UNSUPPORTED_FEATURE_CODE :: enum_tab where
  "HV_ARM64_UNSUPPORTED_FEATURE_CODE = enum_of
     [(''HvUnsupportedFeatureIntercept'', Val 0x1),
     (''HvUnsupportedFeatureMemoryIntercept'', Val 0x2)]"

definition HV_X64_UNSUPPORTED_FEATURE_MESSAGE :: cty where
  "HV_X64_UNSUPPORTED_FEATURE_MESSAGE = Struct 0 (flds_of
       [mem ''VpIndex'' HV_VP_INDEX, mem ''FeatureCode'' Enum_ty, mem ''FeatureParameter'' U64])"

definition HV_ARM64_UNSUPPORTED_FEATURE_MESSAGE :: cty where
  "HV_ARM64_UNSUPPORTED_FEATURE_MESSAGE = Struct 0 (flds_of
       [mem ''VpIndex'' HV_VP_INDEX, mem ''FeatureCode'' Enum_ty, mem ''FeatureParameter'' U64])"

definition HV_X64_IO_PORT_ACCESS_INFO :: cty where
  "HV_X64_IO_PORT_ACCESS_INFO = Union 0 (flds_of
       [mem ''AsUINT8'' U8,
       mem '''' (Struct 0 (flds_of [bits ''AccessSize'' U8 3, bits ''StringOp'' U8 1, bits ''RepPrefix'' U8 1,
          bits ''Reserved'' U8 3]))])"

definition HV_X64_CPUID_INTERCEPT_MESSAGE :: cty where
  "HV_X64_CPUID_INTERCEPT_MESSAGE = Struct 0 (flds_of
       [mem ''Header'' HV_X64_INTERCEPT_MESSAGE_HEADER, mem ''Rax'' U64, mem ''Rcx'' U64,
       mem ''Rdx'' U64, mem ''Rbx'' U64, mem ''DefaultResultRax'' U64,
       mem ''DefaultResultRcx'' U64, mem ''DefaultResultRdx'' U64, mem ''DefaultResultRbx'' U64])"

definition HV_X64_IO_PORT_INTERCEPT_MESSAGE :: cty where
  "HV_X64_IO_PORT_INTERCEPT_MESSAGE = Struct 0 (flds_of
       [mem ''Header'' HV_X64_INTERCEPT_MESSAGE_HEADER, mem ''PortNumber'' U16,
       mem ''AccessInfo'' HV_X64_IO_PORT_ACCESS_INFO, mem ''InstructionByteCount'' U8,
       mem ''Reserved'' U32, mem ''Rax'' U64, mem ''InstructionBytes'' (Arr U8 16),
       mem ''DsSegment'' HV_X64_SEGMENT_REGISTER, mem ''EsSegment'' HV_X64_SEGMENT_REGISTER,
       mem ''Rcx'' U64, mem ''Rsi'' U64, mem ''Rdi'' U64])"

definition HV_X64_LEGACY_FP_ERROR_MESSAGE :: cty where
  "HV_X64_LEGACY_FP_ERROR_MESSAGE = Struct 0 (flds_of
       [mem ''VpIndex'' HV_VP_INDEX, mem ''Reserved'' U32])"

definition HV_X64_HALT_MESSAGE :: cty where
  "HV_X64_HALT_MESSAGE = Struct 0 (flds_of
       [mem ''Header'' HV_X64_INTERCEPT_MESSAGE_HEADER])"

definition HV_X64_PENDING_INTERRUPT :: "32 word" where "HV_X64_PENDING_INTERRUPT = 0"

definition HV_X64_PENDING_NMI :: "32 word" where "HV_X64_PENDING_NMI = 2"

definition HV_X64_PENDING_EXCEPTION :: "32 word" where "HV_X64_PENDING_EXCEPTION = 3"

definition HV_X64_INTERRUPTION_DELIVERABLE_MESSAGE :: cty where
  "HV_X64_INTERRUPTION_DELIVERABLE_MESSAGE = Struct 0 (flds_of
       [mem ''Header'' HV_X64_INTERCEPT_MESSAGE_HEADER, mem ''DeliverableType'' U32,
       mem ''Rsvd'' U32])"

definition HV_X64_SINT_DELIVERABLE_MESSAGE :: cty where
  "HV_X64_SINT_DELIVERABLE_MESSAGE = Struct 0 (flds_of
       [mem ''Header'' HV_X64_INTERCEPT_MESSAGE_HEADER, mem ''DeliverableSints'' U16,
       mem ''Rsvd'' (Arr U8 6)])"

definition HV_X64_SIPI_INTERCEPT_MESSAGE :: cty where
  "HV_X64_SIPI_INTERCEPT_MESSAGE = Struct 0 (flds_of
       [mem ''Header'' HV_X64_INTERCEPT_MESSAGE_HEADER, mem ''TargetVpIndex'' HV_VP_INDEX,
       mem ''InterruptVector'' HV_INTERRUPT_VECTOR])"

definition HV_ARM64_RESET_TYPE :: enum_tab where
  "HV_ARM64_RESET_TYPE = enum_of
     [(''HvArm64ResetTypePowerOff'', Val 0x0), (''HvArm64ResetTypeReboot'', Val 0x1),
     (''HvArm64ResetTypeMax'', Val 0x2)]"

definition HV_ARM64_RESET_INTERCEPT_MESSAGE :: cty where
  "HV_ARM64_RESET_INTERCEPT_MESSAGE = Struct 0 (flds_of
       [mem ''Header'' HV_ARM64_INTERCEPT_MESSAGE_HEADER, mem ''ResetType'' Enum_ty])"

definition HV_ARM64_MMIO_INTERCEPT_MESSAGE :: cty where
  "HV_ARM64_MMIO_INTERCEPT_MESSAGE = Struct 0 (flds_of
       [mem ''Header'' HV_ARM64_INTERCEPT_MESSAGE_HEADER, mem ''GuestPhysicalAddress'' U64,
       mem ''AccessSize'' U32, mem ''Data'' (Arr U8 32)])"

definition HV_SYNIC_SINT_DELIVERABLE_MESSAGE :: cty where
  "HV_SYNIC_SINT_DELIVERABLE_MESSAGE = Struct 0 (flds_of
       [mem ''Header'' HV_ARM64_INTERCEPT_MESSAGE_HEADER, mem ''DeliverableSints'' U16,
       mem ''Rsvd1'' U16, mem ''Rsvd2'' U32])"

definition HV_INPUT_GET_VP_REGISTER_CODE :: cty where
  "HV_INPUT_GET_VP_REGISTER_CODE = HV_CALL_ATTRIBUTES (Struct 0 (flds_of
       [mem ''PartitionId'' HV_PARTITION_ID, mem ''RegisterIndex'' U32]))"

definition HV_GUEST_OS_VENDOR_PRIVATE :: enum_tab where
  "HV_GUEST_OS_VENDOR_PRIVATE = enum_of
     [(''HvGuestOsVendorHPE'', Val 0x0002), (''HvGuestOsVendorLANCOM'', Val 0x0200)]"

definition HV_GUEST_OS_OPENSOURCE_IDS :: enum_tab where
  "HV_GUEST_OS_OPENSOURCE_IDS = enum_of
     [(''HvGuestOsOpenSourceUndefined'', Val 0x0), (''HvGuestOsOpenSourceLinux'', Val 0x1),
     (''HvGuestOsOpenSourceFreeBSD'', Val 0x2), (''HvGuestOsOpenSourceXen'', Val 0x3),
     (''HvGuestOsOpenSourceIllumos'', Val 0x4)]"

definition HV_PARTITION_PROPERTY :: cty where
  "HV_PARTITION_PROPERTY = U64"

definition HV_PARTITION_PROPERTY_CODE :: enum_tab where
  "HV_PARTITION_PROPERTY_CODE = enum_of
     [(''HvPartitionPropertyPrivilegeFlags'', Val 0x00010000),
     (''HvPartitionPropertySyntheticProcFeatures'', Val 0x00010001),
     (''HvPartitionPropertyAllowedParentUserModeHypercalls'', Val 0x00010002),
     (''HvPartitionPropertySuspend'', Val 0x00020000),
     (''HvPartitionPropertyCpuReserve'', Val 0x00020001),
     (''HvPartitionPropertyCpuCap'', Val 0x00020002),
     (''HvPartitionPropertyCpuWeight'', Val 0x00020003),
     (''HvPartitionPropertyCpuGroupId'', Val 0x00020004),
     (''HvPartitionPropertyEmulatedTimerPeriod'', Val 0x00030000),
     (''HvPartitionPropertyEmulatedTimerControl'', Val 0x00030001),
     (''HvPartitionPropertyPmTimerAssist'', Val 0x00030002),
     (''HvPartitionPropertyTimeFreeze'', Val 0x00030003),
     (''HvPartitionPropertyApicFrequency'', Val 0x00030004),
     (''HvPartitionPropertyReferenceTime'', Val 0x00030005),
     (''HvPartitionPropertyDebugChannelId'', Val 0x00040000),
     (''HvPartitionPropertyVirtualTlbPageCount'', Val 0x00050000),
     (''HvPartitionPropertyVsmConfig'', Val 0x00050001),
     (''HvPartitionPropertyZeroMemoryOnReset'', Val 0x00050002),
     (''HvPartitionPropertyProcessorsPerSocket'', Val 0x00050003),
     (''HvPartitionPropertyNestedTlbSize'', Val 0x00050004),
     (''HvPartitionPropertyGpaPageAccessTracking'', Val 0x00050005),
     (''HvPartitionPropertyVsmPermissionsDirtySinceLastQuery'', Val 0x00050006),
     (''HvPartitionPropertySgxLaunchControlConfig'', Val 0x00050007),
     (''HvPartitionPropertyDefaultSgxLaunchControl0'', Val 0x00050008),
     (''HvPartitionPropertyDefaultSgxLaunchControl1'', Val 0x00050009),
     (''HvPartitionPropertyDefaultSgxLaunchControl2'', Val 0x0005000a),
     (''HvPartitionPropertyDefaultSgxLaunchControl3'', Val 0x0005000b),
     (''HvPartitionPropertyIsolationState'', Val 0x0005000c),
     (''HvPartitionPropertyIsolationControl'', Val 0x0005000d),
     (''HvPartitionPropertyAllocationId'', Val 0x0005000e),
     (''HvPartitionPropertyMonitoringId'', Val 0x0005000f),
     (''HvPartitionPropertyImplementedPhysicalAddressBits'', Val 0x00050010),
     (''HvPartitionPropertyNonArchitecturalCoreSharing'', Val 0x00050011),
     (''HvPartitionPropertyHypercallDoorbellPage'', Val 0x00050012),
     (''HvPartitionPropertyCppcRequestValue'', Val 0x00050013),
     (''HvPartitionPropertyIsolationPolicy'', Val 0x00050014),
     (''HvPartitionPropertyDmaCapableDevices'', Val 0x00050015),
     (''HvPartitionPropertyProcessorsPerL3'', Val 0x00050016),
     (''HvPartitionPropertyUnimplementedMsrAction'', Val 0x00050017),
     (''HvPartitionPropertyAmdNodesPerSocket'', Val 0x00050018),
     (''HvPartitionPropertyReferenceTscPageActive'', Val 0x00050019),
     (''HvPartitionPropertyAutoEoiEnabled'', Val 0x0005001a),
     (''HvPartitionPropertyL3CacheWays'', Val 0x0005001b),
     (''HvPartitionPropertyIsolationType'', Val 0x0005001c),
     (''HvPartitionPropertyPerfmonMode'', Val 0x0005001d),
     (''HvPartitionPropertyDepositStatus'', Val 0x0005001e),
     (''HvPartitionPropertyMirroring'', Val 0x0005001f),
     (''HvPartitionPropertyMirrorState'', Val 0x00050020),
     (''HvPartitionPropertyMgmtVtlMaxMemorySections'', Val 0x00050021),
     (''HvPartitionPropertySevVmgexitOffloads'', Val 0x00050022),
     (''HvPartitionPropertyPenalizeBusLock'', Val 0x00050023),
     (''HvPartitionPropertyTopologyApicIdOptIn'', Val 0x00050024),
     (''HvPartitionPropertyCppcResourcePrioritiesValue'', Val 0x00050025),
     (''HvPartitionPropertyPartitionDiagBufferConfig'', Val 0x00050026),
     (''HvPartitionPropertyTerminateOnInstructionTimeout'', Val 0x00050027),
     (''HvPartitionPropertyProcessorVendor'', Val 0x00060000),
     (''HvPartitionPropertyProcessorFeaturesDeprecated'', Val 0x00060001),
     (''HvPartitionPropertyProcessorXsaveFeatures'', Val 0x00060002),
     (''HvPartitionPropertyProcessorCLFlushSize'', Val 0x00060003),
     (''HvPartitionPropertyEnlightenmentModifications'', Val 0x00060004),
     (''HvPartitionPropertyCompatibilityVersion'', Val 0x00060005),
     (''HvPartitionPropertyPhysicalAddressWidth'', Val 0x00060006),
     (''HvPartitionPropertyXsaveStates'', Val 0x00060007),
     (''HvPartitionPropertyMaxXsaveDataSize'', Val 0x00060008),
     (''HvPartitionPropertyProcessorClockFrequency'', Val 0x00060009),
     (''HvPartitionPropertyProcessorFeatures0'', Val 0x0006000a),
     (''HvPartitionPropertyProcessorFeatures1'', Val 0x0006000b),
     (''HvPartitionPropertyProcessorInstructionCLFlushSize'', Val 0x0006000c),
     (''HvPartitionPropertyProcessorZeroDataCacheBs'', Val 0x0006000d),
     (''HvPartitionPropertyProcessorPREbits'', Val 0x0006000e),
     (''HvPartitionPropertyProcessorPRIbits'', Val 0x0006000f),
     (''HvPartitionPropertyRootProcessorFeatures0'', Val 0x00060010),
     (''HvPartitionPropertyRootProcessorFeatures1'', Val 0x00060011),
     (''HvPartitionPropertyRootProcessorXsaveFeatures'', Val 0x00060012),
     (''HvPartitionPropertyRootSyntheticProcFeatures'', Val 0x00060013),
     (''HvPartitionPropertyPhysicalAddressSize'', Val 0x00060014),
     (''HvPartitionPropertyGuestOsId'', Val 0x00070000),
     (''HvPartitionPropertyProcessorVirtualizationFeatures'', Val 0x00080000),
     (''HvPartitionPropertyMaxHardwareIsolatedGuests'', Val 0x00080001),
     (''HvPartitionPropertySnpEnabled'', Val 0x00080002),
     (''HvPartitionPropertyNestedVmxBasic'', Val 0x00080003),
     (''HvPartitionPropertyNestedVmxPinbasedCtls'', Val 0x00080004),
     (''HvPartitionPropertyNestedVmxProcbasedCtls'', Val 0x00080005),
     (''HvPartitionPropertyNestedVmxExitCtls'', Val 0x00080006),
     (''HvPartitionPropertyNestedVmxEntryCtls'', Val 0x00080007),
     (''HvPartitionPropertyNestedVmxMisc'', Val 0x00080008),
     (''HvPartitionPropertyNestedVmxCr0Fixed0'', Val 0x00080009),
     (''HvPartitionPropertyNestedVmxCr0Fixed1'', Val 0x0008000a),
     (''HvPartitionPropertyNestedVmxCr4Fixed0'', Val 0x0008000b),
     (''HvPartitionPropertyNestedVmxCr4Fixed1'', Val 0x0008000c),
     (''HvPartitionPropertyNestedVmxVmcsEnum'', Val 0x0008000d),
     (''HvPartitionPropertyNestedVmxProcbasedCtls2'', Val 0x0008000e),
     (''HvPartitionPropertyNestedVmxEptVpidCap'', Val 0x0008000f),
     (''HvPartitionPropertyNestedVmxTruePinbasedCtls'', Val 0x00080010),
     (''HvPartitionPropertyNestedVmxTrueProcbasedCtls'', Val 0x00080011),
     (''HvPartitionPropertyNestedVmxTrueExitCtls'', Val 0x00080012),
     (''HvPartitionPropertyNestedVmxTrueEntryCtls'', Val 0x00080013),
     (''HvPartitionPropertyVhChildrenState'', Val 0x00080100),
     (''HvPartitionPropertyMaxHierarchicalPartitionCount'', Val 0x00080101),
     (''HvPartitionPropertyMaxHierarchicalVpCount'', Val 0x00080102),
     (''HvPartitionPropertyInheritedDeviceDomainReservedRegions'', Val 0x00090000),
     (''HvPartitionPropertyTdMrConfigId'', Val 0x00090001),
     (''HvPartitionPropertyTdMrOwner'', Val 0x00090002),
     (''HvPartitionPropertyTdMrOwnerConfig'', Val 0x00090003),
     (''HvPartitionPropertyExRootProcessorFeaturesExperimental'', Val 0x00090004),
     (''HvPartitionPropertyRootVpSharedPages'', Val 0x00090005),
     (''HVPartitionPropertyExtendedProperyMax'', Val 0x000a0000)]"

definition HvPartitionPropertyMinimumCpuReserve :: "32 word" where
  "HvPartitionPropertyMinimumCpuReserve = push_bit 16 0"

definition HvPartitionPropertyMaximumCpuReserve :: "32 word" where
  "HvPartitionPropertyMaximumCpuReserve = push_bit 16 1"

definition HvPartitionPropertyMinimumCpuCap :: "32 word" where
  "HvPartitionPropertyMinimumCpuCap = push_bit 16 0"

definition HvPartitionPropertyMaximumCpuCap :: "32 word" where
  "HvPartitionPropertyMaximumCpuCap = push_bit 16 1"

definition HvPartitionPropertyMinimumCpuWeight :: "32 word" where "HvPartitionPropertyMinimumCpuWeight = 1"

definition HvPartitionPropertyMaximumCpuWeight :: "32 word" where
  "HvPartitionPropertyMaximumCpuWeight = 10000"

definition HV_REGISTER_NAME_PRIVATE :: "arch \<Rightarrow> enum_tab" where
  "HV_REGISTER_NAME_PRIVATE a = enum_of
     ([(''HvRegisterInternalActivityState'', Val 0x00000004),
     (''HvRegisterIptFeaturesInfo'', Val 0x00000208),
     (''HvRegisterSystemReset'', Val 0x00000230),
     (''HvRegisterDeliverabilityNotifications'', Val 0x00010006),
     (''HvRegisterPendingEvent2'', Val 0x00010008),
     (''HvRegisterPendingEvent3'', Val 0x00010009),
     (''HvRegisterVsmVpVtlControl'', Val 0x000d0000),
     (''HvRegisterGuestVsmPartitionConfig'', Val 0x000d0008),
     (''HvRegisterHvptControl'', Val 0xd0000009)] @
     (case a of X64 \<Rightarrow> [(''HvX64RegisterMtrrCap'', Val 0x0008000d), (''HvX64RegisterMtrrDefType'', Val 0x0008000e),
     (''HvX64RegisterMtrrPhysBase0'', Val 0x00080010),
     (''HvX64RegisterMtrrPhysBase1'', Val 0x00080011),
     (''HvX64RegisterMtrrPhysBase2'', Val 0x00080012),
     (''HvX64RegisterMtrrPhysBase3'', Val 0x00080013),
     (''HvX64RegisterMtrrPhysBase4'', Val 0x00080014),
     (''HvX64RegisterMtrrPhysBase5'', Val 0x00080015),
     (''HvX64RegisterMtrrPhysBase6'', Val 0x00080016),
     (''HvX64RegisterMtrrPhysBase7'', Val 0x00080017),
     (''HvX64RegisterMtrrPhysBase8'', Val 0x00080018),
     (''HvX64RegisterMtrrPhysBase9'', Val 0x00080019),
     (''HvX64RegisterMtrrPhysBaseA'', Val 0x0008001a),
     (''HvX64RegisterMtrrPhysBaseB'', Val 0x0008001b),
     (''HvX64RegisterMtrrPhysBaseC'', Val 0x0008001c),
     (''HvX64RegisterMtrrPhysBaseD'', Val 0x0008001d),
     (''HvX64RegisterMtrrPhysBaseE'', Val 0x0008001e),
     (''HvX64RegisterMtrrPhysBaseF'', Val 0x0008001f),
     (''HvX64RegisterMtrrPhysMask0'', Val 0x00080040),
     (''HvX64RegisterMtrrPhysMask1'', Val 0x00080041),
     (''HvX64RegisterMtrrPhysMask2'', Val 0x00080042),
     (''HvX64RegisterMtrrPhysMask3'', Val 0x00080043),
     (''HvX64RegisterMtrrPhysMask4'', Val 0x00080044),
     (''HvX64RegisterMtrrPhysMask5'', Val 0x00080045),
     (''HvX64RegisterMtrrPhysMask6'', Val 0x00080046),
     (''HvX64RegisterMtrrPhysMask7'', Val 0x00080047),
     (''HvX64RegisterMtrrPhysMask8'', Val 0x00080048),
     (''HvX64RegisterMtrrPhysMask9'', Val 0x00080049),
     (''HvX64RegisterMtrrPhysMaskA'', Val 0x0008004a),
     (''HvX64RegisterMtrrPhysMaskB'', Val 0x0008004b),
     (''HvX64RegisterMtrrPhysMaskC'', Val 0x0008004c),
     (''HvX64RegisterMtrrPhysMaskD'', Val 0x0008004d),
     (''HvX64RegisterMtrrPhysMaskE'', Val 0x0008004e),
     (''HvX64RegisterMtrrPhysMaskF'', Val 0x0008004f),
     (''HvX64RegisterMtrrFix64k00000'', Val 0x00080070),
     (''HvX64RegisterMtrrFix16k80000'', Val 0x00080071),
     (''HvX64RegisterMtrrFix16kA0000'', Val 0x00080072),
     (''HvX64RegisterMtrrFix4kC0000'', Val 0x00080073),
     (''HvX64RegisterMtrrFix4kC8000'', Val 0x00080074),
     (''HvX64RegisterMtrrFix4kD0000'', Val 0x00080075),
     (''HvX64RegisterMtrrFix4kD8000'', Val 0x00080076),
     (''HvX64RegisterMtrrFix4kE0000'', Val 0x00080077),
     (''HvX64RegisterMtrrFix4kE8000'', Val 0x00080078),
     (''HvX64RegisterMtrrFix4kF0000'', Val 0x00080079),
     (''HvX64RegisterMtrrFix4kF8000'', Val 0x0008007a),
     (''HvX64RegisterMCount'', Val 0x0008007e), (''HvX64RegisterACount'', Val 0x0008007f),
     (''HvX64RegisterVirtSpecCtrl'', Val 0x00080086),
     (''HvX64RegisterTscVirtualOffset'', Val 0x00080087),
     (''HvX64RegisterTsxCtrl'', Val 0x00080088),
     (''HvX64RegisterMsrMcUpdatePatchLevel'', Val 0x00080089),
     (''HvX64RegisterAvailable1'', Val 0x0008008a), (''HvX64RegisterXss'', Val 0x0008008b),
     (''HvX64RegisterUCet'', Val 0x0008008c), (''HvX64RegisterSCet'', Val 0x0008008d),
     (''HvX64RegisterSsp'', Val 0x0008008e), (''HvX64RegisterPl0Ssp'', Val 0x0008008f),
     (''HvX64RegisterPl1Ssp'', Val 0x00080090), (''HvX64RegisterPl2Ssp'', Val 0x00080091),
     (''HvX64RegisterPl3Ssp'', Val 0x00080092),
     (''HvX64RegisterInterruptSspTableAddr'', Val 0x00080093),
     (''HvX64RegisterTscVirtualMultiplier'', Val 0x00080094),
     (''HvX64RegisterTscDeadline'', Val 0x00080095),
     (''HvX64RegisterTscAdjust'', Val 0x00080096), (''HvX64RegisterPasid'', Val 0x00080097),
     (''HvX64RegisterUmwaitControl'', Val 0x00080098), (''HvX64RegisterXfd'', Val 0x00080099),
     (''HvX64RegisterXfdErr'', Val 0x0008009a), (''HvX64RegisterVpRuntime'', Val 0x00090000),
     (''HvRegisterReferenceTsc'', Val 0x00090017), (''HvRegisterVpConfig'', Val 0x00090018),
     (''HvRegisterGhcb'', Val 0x00090019), (''HvRegisterReferenceTscSequence'', Val 0x0009001a),
     (''HvRegisterGuestSchedulerEvent'', Val 0x0009001b),
     (''HvX64RegisterRegPage'', Val 0x0009001c), (''HvX64RegisterSevControl'', Val 0x00090040),
     (''HvX64RegisterYmm0Low'', Val 0x000c0000), (''HvX64RegisterYmm1Low'', Val 0x000c0001),
     (''HvX64RegisterYmm2Low'', Val 0x000c0002), (''HvX64RegisterYmm3Low'', Val 0x000c0003),
     (''HvX64RegisterYmm4Low'', Val 0x000c0004), (''HvX64RegisterYmm5Low'', Val 0x000c0005),
     (''HvX64RegisterYmm6Low'', Val 0x000c0006), (''HvX64RegisterYmm7Low'', Val 0x000c0007),
     (''HvX64RegisterYmm8Low'', Val 0x000c0008), (''HvX64RegisterYmm9Low'', Val 0x000c0009),
     (''HvX64RegisterYmm10Low'', Val 0x000c000a), (''HvX64RegisterYmm11Low'', Val 0x000c000b),
     (''HvX64RegisterYmm12Low'', Val 0x000c000c), (''HvX64RegisterYmm13Low'', Val 0x000c000d),
     (''HvX64RegisterYmm14Low'', Val 0x000c000e), (''HvX64RegisterYmm15Low'', Val 0x000c000f),
     (''HvX64RegisterYmm0High'', Val 0x000c0010), (''HvX64RegisterYmm1High'', Val 0x000c0011),
     (''HvX64RegisterYmm2High'', Val 0x000c0012), (''HvX64RegisterYmm3High'', Val 0x000c0013),
     (''HvX64RegisterYmm4High'', Val 0x000c0014), (''HvX64RegisterYmm5High'', Val 0x000c0015),
     (''HvX64RegisterYmm6High'', Val 0x000c0016), (''HvX64RegisterYmm7High'', Val 0x000c0017),
     (''HvX64RegisterYmm8High'', Val 0x000c0018), (''HvX64RegisterYmm9High'', Val 0x000c0019),
     (''HvX64RegisterYmm10High'', Val 0x000c001a), (''HvX64RegisterYmm11High'', Val 0x000c001b),
     (''HvX64RegisterYmm12High'', Val 0x000c001c), (''HvX64RegisterYmm13High'', Val 0x000c001d),
     (''HvX64RegisterYmm14High'', Val 0x000c001e), (''HvX64RegisterYmm15High'', Val 0x000c001f)] | ARM64 \<Rightarrow>
     [(''HvArm64RegisterSp'', Val 0x0002001f), (''HvArm64RegisterSpEl0'', Val 0x00020020),
     (''HvArm64RegisterSpEl1'', Val 0x00020021), (''HvArm64RegisterPstate'', Val 0x00020023),
     (''HvArm64RegisterSpEl2'', Val 0x00021000), (''HvArm64RegisterElrEl2'', Val 0x00021001),
     (''HvArm64RegisterSpsrEl2'', Val 0x00021002),
     (''HvArm64RegisterCurrentEl'', Val 0x00021003), (''HvArm64RegisterDaif'', Val 0x00021004),
     (''HvArm64RegisterDit'', Val 0x00021005), (''HvArm64RegisterNzcv'', Val 0x00021006),
     (''HvArm64RegisterPan'', Val 0x00021007), (''HvArm64RegisterSpSel'', Val 0x00021008),
     (''HvArm64RegisterSsbs'', Val 0x00021009), (''HvArm64RegisterTco'', Val 0x0002100a),
     (''HvArm64RegisterUao'', Val 0x0002100b), (''HvArm64RegisterElrElx'', Val 0x0002100c),
     (''HvArm64RegisterSpsrElx'', Val 0x0002100d),
     (''HvArm64RegisterIdRes00El1'', Val 0x00022000),
     (''HvArm64RegisterIdRes01El1'', Val 0x00022001),
     (''HvArm64RegisterIdRes02El1'', Val 0x00022002),
     (''HvArm64RegisterIdRes03El1'', Val 0x00022003),
     (''HvArm64RegisterIdRes04El1'', Val 0x00022004),
     (''HvArm64RegisterIdRes05El1'', Val 0x00022005),
     (''HvArm64RegisterIdRes06El1'', Val 0x00022006),
     (''HvArm64RegisterIdRes07El1'', Val 0x00022007),
     (''HvArm64RegisterIdPfr0El1'', Val 0x00022008),
     (''HvArm64RegisterIdPfr1El1'', Val 0x00022009),
     (''HvArm64RegisterIdDfr0El1'', Val 0x0002200a),
     (''HvArm64RegisterIdRes13El1'', Val 0x0002200b),
     (''HvArm64RegisterIdMmfr0El1'', Val 0x0002200c),
     (''HvArm64RegisterIdMmfr1El1'', Val 0x0002200d),
     (''HvArm64RegisterIdMmfr2El1'', Val 0x0002200e),
     (''HvArm64RegisterIdMmfr3El1'', Val 0x0002200f),
     (''HvArm64RegisterIdIsar0El1'', Val 0x00022010),
     (''HvArm64RegisterIdIsar1El1'', Val 0x00022011),
     (''HvArm64RegisterIdIsar2El1'', Val 0x00022012),
     (''HvArm64RegisterIdIsar3El1'', Val 0x00022013),
     (''HvArm64RegisterIdIsar4El1'', Val 0x00022014),
     (''HvArm64RegisterIdIsar5El1'', Val 0x00022015),
     (''HvArm64RegisterIdRes26El1'', Val 0x00022016),
     (''HvArm64RegisterIdRes27El1'', Val 0x00022017),
     (''HvArm64RegisterIdRes30El1'', Val 0x00022018),
     (''HvArm64RegisterIdRes31El1'', Val 0x00022019),
     (''HvArm64RegisterIdRes32El1'', Val 0x0002201a),
     (''HvArm64RegisterIdRes33El1'', Val 0x0002201b),
     (''HvArm64RegisterIdPfr2El1'', Val 0x0002201c),
     (''HvArm64RegisterIdRes35El1'', Val 0x0002201d),
     (''HvArm64RegisterIdRes36El1'', Val 0x0002201e),
     (''HvArm64RegisterIdRes37El1'', Val 0x0002201f),
     (''HvArm64RegisterIdAa64Pfr0El1'', Val 0x00022020),
     (''HvArm64RegisterIdAa64Pfr1El1'', Val 0x00022021),
     (''HvArm64RegisterIdAa64Pfr2El1'', Val 0x00022022),
     (''HvArm64RegisterIdRes43El1'', Val 0x00022023),
     (''HvArm64RegisterIdAa64Zfr0El1'', Val 0x00022024),
     (''HvArm64RegisterIdAa64Smfr0El1'', Val 0x00022025),
     (''HvArm64RegisterIdRes46El1'', Val 0x00022026),
     (''HvArm64RegisterIdRes47El1'', Val 0x00022027),
     (''HvArm64RegisterIdAa64Dfr0El1'', Val 0x00022028),
     (''HvArm64RegisterIdAa64Dfr1El1'', Val 0x00022029),
     (''HvArm64RegisterIdRes52El1'', Val 0x0002202a),
     (''HvArm64RegisterIdRes53El1'', Val 0x0002202b),
     (''HvArm64RegisterIdRes54El1'', Val 0x0002202c),
     (''HvArm64RegisterIdRes55El1'', Val 0x0002202d),
     (''HvArm64RegisterIdRes56El1'', Val 0x0002202e),
     (''HvArm64RegisterIdRes57El1'', Val 0x0002202f),
     (''HvArm64RegisterIdAa64Isar0El1'', Val 0x00022030),
     (''HvArm64RegisterIdAa64Isar1El1'', Val 0x00022031),
     (''HvArm64RegisterIdAa64Isar2El1'', Val 0x00022032),
     (''HvArm64RegisterIdRes63El1'', Val 0x00022033),
     (''HvArm64RegisterIdRes64El1'', Val 0x00022034),
     (''HvArm64RegisterIdRes65El1'', Val 0x00022035),
     (''HvArm64RegisterIdRes66El1'', Val 0x00022036),
     (''HvArm64RegisterIdRes67El1'', Val 0x00022037),
     (''HvArm64RegisterIdAa64Mmfr0El1'', Val 0x00022038),
     (''HvArm64RegisterIdAa64Mmfr1El1'', Val 0x00022039),
     (''HvArm64RegisterIdAa64Mmfr2El1'', Val 0x0002203a),
     (''HvArm64RegisterIdAa64Mmfr3El1'', Val 0x0002203b),
     (''HvArm64RegisterIdAa64Mmfr4El1'', Val 0x0002203c),
     (''HvArm64RegisterIdRes75El1'', Val 0x0002203d),
     (''HvArm64RegisterIdRes76El1'', Val 0x0002203e),
     (''HvArm64RegisterIdRes77El1'', Val 0x0002203f),
     (''HvArm64RegisterIdRes80El1'', Val 0x00022040),
     (''HvArm64RegisterIdRes81El1'', Val 0x00022041),
     (''HvArm64RegisterIdRes82El1'', Val 0x00022042),
     (''HvArm64RegisterIdRes83El1'', Val 0x00022043),
     (''HvArm64RegisterIdRes84El1'', Val 0x00022044),
     (''HvArm64RegisterIdRes85El1'', Val 0x00022045),
     (''HvArm64RegisterIdRes86El1'', Val 0x00022046),
     (''HvArm64RegisterIdRes87El1'', Val 0x00022047),
     (''HvArm64RegisterIdRes90El1'', Val 0x00022048),
     (''HvArm64RegisterIdRes91El1'', Val 0x00022049),
     (''HvArm64RegisterIdRes92El1'', Val 0x0002204a),
     (''HvArm64RegisterIdRes93El1'', Val 0x0002204b),
     (''HvArm64RegisterIdRes94El1'', Val 0x0002204c),
     (''HvArm64RegisterIdRes95El1'', Val 0x0002204d),
     (''HvArm64RegisterIdRes96El1'', Val 0x0002204e),
     (''HvArm64RegisterIdRes97El1'', Val 0x0002204f),
     (''HvArm64RegisterIdRes100El1'', Val 0x00022050),
     (''HvArm64RegisterIdRes101El1'', Val 0x00022051),
     (''HvArm64RegisterIdRes102El1'', Val 0x00022052),
     (''HvArm64RegisterIdRes103El1'', Val 0x00022053),
     (''HvArm64RegisterIdRes104El1'', Val 0x00022054),
     (''HvArm64RegisterIdRes105El1'', Val 0x00022055),
     (''HvArm64RegisterIdRes106El1'', Val 0x00022056),
     (''HvArm64RegisterIdRes107El1'', Val 0x00022057),
     (''HvArm64RegisterIdRes110El1'', Val 0x00022058),
     (''HvArm64RegisterIdRes111El1'', Val 0x00022059),
     (''HvArm64RegisterIdRes112El1'', Val 0x0002205a),
     (''HvArm64RegisterIdRes113El1'', Val 0x0002205b),
     (''HvArm64RegisterIdRes114El1'', Val 0x0002205c),
     (''HvArm64RegisterIdRes115El1'', Val 0x0002205d),
     (''HvArm64RegisterIdRes116El1'', Val 0x0002205e),
     (''HvArm64RegisterIdRes117El1'', Val 0x0002205f),
     (''HvArm64RegisterIdRes120El1'', Val 0x00022060),
     (''HvArm64RegisterIdRes121El1'', Val 0x00022061),
     (''HvArm64RegisterIdRes122El1'', Val 0x00022062),
     (''HvArm64RegisterIdRes123El1'', Val 0x00022063),
     (''HvArm64RegisterIdRes124El1'', Val 0x00022064),
     (''HvArm64RegisterIdRes125El1'', Val 0x00022065),
     (''HvArm64RegisterIdRes126El1'', Val 0x00022066),
     (''HvArm64RegisterIdRes127El1'', Val 0x00022067),
     (''HvArm64RegisterIdRes130El1'', Val 0x00022068),
     (''HvArm64RegisterIdRes131El1'', Val 0x00022069),
     (''HvArm64RegisterIdRes132El1'', Val 0x0002206a),
     (''HvArm64RegisterIdRes133El1'', Val 0x0002206b),
     (''HvArm64RegisterIdRes134El1'', Val 0x0002206c),
     (''HvArm64RegisterIdRes135El1'', Val 0x0002206d),
     (''HvArm64RegisterIdRes136El1'', Val 0x0002206e),
     (''HvArm64RegisterIdRes137El1'', Val 0x0002206f),
     (''HvArm64RegisterIdRes140El1'', Val 0x00022070),
     (''HvArm64RegisterIdRes141El1'', Val 0x00022071),
     (''HvArm64RegisterIdRes142El1'', Val 0x00022072),
     (''HvArm64RegisterIdRes143El1'', Val 0x00022073),
     (''HvArm64RegisterIdRes144El1'', Val 0x00022074),
     (''HvArm64RegisterIdRes145El1'', Val 0x00022075),
     (''HvArm64RegisterIdRes146El1'', Val 0x00022076),
     (''HvArm64RegisterIdRes147El1'', Val 0x00022077),
     (''HvArm64RegisterIdRes150El1'', Val 0x00022078),
     (''HvArm64RegisterIdRes151El1'', Val 0x00022079),
     (''HvArm64RegisterIdRes152El1'', Val 0x0002207a),
     (''HvArm64RegisterIdRes153El1'', Val 0x0002207b),
     (''HvArm64RegisterIdRes154El1'', Val 0x0002207c),
     (''HvArm64RegisterIdRes155El1'', Val 0x0002207d),
     (''HvArm64RegisterIdRes156El1'', Val 0x0002207e),
     (''HvArm64RegisterIdRes157El1'', Val 0x0002207f), (''HvArm64RegisterXzr'', Val 0x0002fffe),
     (''HvArm64RegisterZ0'', Val 0x00030100), (''HvArm64RegisterZ1'', Val 0x00030101),
     (''HvArm64RegisterZ2'', Val 0x00030102), (''HvArm64RegisterZ3'', Val 0x00030103),
     (''HvArm64RegisterZ4'', Val 0x00030104), (''HvArm64RegisterZ5'', Val 0x00030105),
     (''HvArm64RegisterZ6'', Val 0x00030106), (''HvArm64RegisterZ7'', Val 0x00030107),
     (''HvArm64RegisterZ8'', Val 0x00030108), (''HvArm64RegisterZ9'', Val 0x00030109),
     (''HvArm64RegisterZ10'', Val 0x0003010a), (''HvArm64RegisterZ11'', Val 0x0003010b),
     (''HvArm64RegisterZ12'', Val 0x0003010c), (''HvArm64RegisterZ13'', Val 0x0003010d),
     (''HvArm64RegisterZ14'', Val 0x0003010e), (''HvArm64RegisterZ15'', Val 0x0003010f),
     (''HvArm64RegisterZ16'', Val 0x00030110), (''HvArm64RegisterZ17'', Val 0x00030111),
     (''HvArm64RegisterZ18'', Val 0x00030112), (''HvArm64RegisterZ19'', Val 0x00030113),
     (''HvArm64RegisterZ20'', Val 0x00030114), (''HvArm64RegisterZ21'', Val 0x00030115),
     (''HvArm64RegisterZ22'', Val 0x00030116), (''HvArm64RegisterZ23'', Val 0x00030117),
     (''HvArm64RegisterZ24'', Val 0x00030118), (''HvArm64RegisterZ25'', Val 0x00030119),
     (''HvArm64RegisterZ26'', Val 0x0003011a), (''HvArm64RegisterZ27'', Val 0x0003011b),
     (''HvArm64RegisterZ28'', Val 0x0003011c), (''HvArm64RegisterZ29'', Val 0x0003011d),
     (''HvArm64RegisterZ30'', Val 0x0003011e), (''HvArm64RegisterZ31'', Val 0x0003011f),
     (''HvArm64RegisterP0'', Val 0x00030120), (''HvArm64RegisterP1'', Val 0x00030121),
     (''HvArm64RegisterP2'', Val 0x00030122), (''HvArm64RegisterP3'', Val 0x00030123),
     (''HvArm64RegisterP4'', Val 0x00030124), (''HvArm64RegisterP5'', Val 0x00030125),
     (''HvArm64RegisterP6'', Val 0x00030126), (''HvArm64RegisterP7'', Val 0x00030127),
     (''HvArm64RegisterP8'', Val 0x00030128), (''HvArm64RegisterP9'', Val 0x00030129),
     (''HvArm64RegisterP10'', Val 0x0003012a), (''HvArm64RegisterP11'', Val 0x0003012b),
     (''HvArm64RegisterP12'', Val 0x0003012c), (''HvArm64RegisterP13'', Val 0x0003012d),
     (''HvArm64RegisterP14'', Val 0x0003012e), (''HvArm64RegisterP15'', Val 0x0003012f),
     (''HvArm64RegisterFFR'', Val 0x00030130), (''HvArm64RegisterMpidrEl1'', Val 0x00040001),
     (''HvArm64RegisterSctlrEl1'', Val 0x00040002),
     (''HvArm64RegisterActlrEl1'', Val 0x00040003),
     (''HvArm64RegisterCpacrEl1'', Val 0x00040004),
     (''HvArm64RegisterTtbr0El1'', Val 0x00040005),
     (''HvArm64RegisterTtbr1El1'', Val 0x00040006), (''HvArm64RegisterTcrEl1'', Val 0x00040007),
     (''HvArm64RegisterMairEl1'', Val 0x0004000b), (''HvArm64RegisterVbarEl1'', Val 0x0004000c),
     (''HvArm64RegisterContextidrEl1'', Val 0x0004000d),
     (''HvArm64RegisterTpidrEl1'', Val 0x0004000e), (''HvArm64RegisterFpcr'', Val 0x00040012),
     (''HvArm64RegisterFpsr'', Val 0x00040013), (''HvArm64RegisterAfsr0El1'', Val 0x00040016),
     (''HvArm64RegisterAfsr1El1'', Val 0x00040017),
     (''HvArm64RegisterAmairEl1'', Val 0x00040018),
     (''HvArm64RegisterAccdataEl1'', Val 0x00040020),
     (''HvArm64RegisterActlrEl2'', Val 0x00040021),
     (''HvArm64RegisterAfsr0El2'', Val 0x00040022),
     (''HvArm64RegisterAfsr1El2'', Val 0x00040023),
     (''HvArm64RegisterAidrEl1'', Val 0x00040024),
     (''HvArm64RegisterAmairEl2'', Val 0x00040025),
     (''HvArm64RegisterApdAKeyHiEl1'', Val 0x00040026),
     (''HvArm64RegisterApdAKeyLoEl1'', Val 0x00040027),
     (''HvArm64RegisterApdBKeyHiEl1'', Val 0x00040028),
     (''HvArm64RegisterApdBKeyLoEl1'', Val 0x00040029),
     (''HvArm64RegisterApgAKeyHiEl1'', Val 0x0004002a),
     (''HvArm64RegisterApgAKeyLoEl1'', Val 0x0004002b),
     (''HvArm64RegisterApiAKeyHiEl1'', Val 0x0004002c),
     (''HvArm64RegisterApiAKeyLoEl1'', Val 0x0004002d),
     (''HvArm64RegisterApiBKeyHiEl1'', Val 0x0004002e),
     (''HvArm64RegisterApiBKeyLoEl1'', Val 0x0004002f),
     (''HvArm64RegisterCcsidrEl1'', Val 0x00040030),
     (''HvArm64RegisterCcsidr2El1'', Val 0x00040031),
     (''HvArm64RegisterClidrEl1'', Val 0x00040032),
     (''HvArm64RegisterContextidrEl2'', Val 0x00040033),
     (''HvArm64RegisterCptrEl2'', Val 0x00040034),
     (''HvArm64RegisterCsselrEl1'', Val 0x00040035),
     (''HvArm64RegisterCtrEl0'', Val 0x00040036),
     (''HvArm64RegisterDacr32El2'', Val 0x00040037),
     (''HvArm64RegisterDczidEl0'', Val 0x00040038), (''HvArm64RegisterEsrEl2'', Val 0x00040039),
     (''HvArm64RegisterFarEl2'', Val 0x0004003a),
     (''HvArm64RegisterFpexc32El2'', Val 0x0004003b),
     (''HvArm64RegisterGcrEl1'', Val 0x0004003c), (''HvArm64RegisterGmidEl1'', Val 0x0004003d),
     (''HvArm64RegisterHacrEl2'', Val 0x0004003e),
     (''HvArm64RegisterHafgrtrEl2'', Val 0x0004003f),
     (''HvArm64RegisterHcrEl2'', Val 0x00040040), (''HvArm64RegisterHcrxEl2'', Val 0x00040041),
     (''HvArm64RegisterHdfgrtrEl2'', Val 0x00040042),
     (''HvArm64RegisterHdfgwtrEl2'', Val 0x00040043),
     (''HvArm64RegisterHfgitrEl2'', Val 0x00040044),
     (''HvArm64RegisterHfgrtrEl2'', Val 0x00040045),
     (''HvArm64RegisterHfgwtrEl2'', Val 0x00040046),
     (''HvArm64RegisterHpfarEl2'', Val 0x00040047),
     (''HvArm64RegisterHstrEl2'', Val 0x00040048),
     (''HvArm64RegisterIfsr32El2'', Val 0x00040049),
     (''HvArm64RegisterIsrEl1'', Val 0x0004004a), (''HvArm64RegisterLorcEl1'', Val 0x0004004b),
     (''HvArm64RegisterLoreaEl1'', Val 0x0004004c),
     (''HvArm64RegisterLoridEl1'', Val 0x0004004d),
     (''HvArm64RegisterLornEl1'', Val 0x0004004e),
     (''HvArm64RegisterLorsaEl1'', Val 0x0004004f),
     (''HvArm64RegisterMairEl2'', Val 0x00040050), (''HvArm64RegisterMidrEl1'', Val 0x00040051),
     (''HvArm64RegisterMvfr0El1'', Val 0x00040052),
     (''HvArm64RegisterMvfr1El1'', Val 0x00040053),
     (''HvArm64RegisterMvfr2El1'', Val 0x00040054),
     (''HvArm64RegisterRevidrEl1'', Val 0x00040055),
     (''HvArm64RegisterRgsrEl1'', Val 0x00040056), (''HvArm64RegisterRndr'', Val 0x00040057),
     (''HvArm64RegisterRndrrs'', Val 0x00040058), (''HvArm64RegisterSctlrEl2'', Val 0x00040059),
     (''HvArm64RegisterScxtnumEl0'', Val 0x0004005a),
     (''HvArm64RegisterScxtnumEl1'', Val 0x0004005b),
     (''HvArm64RegisterScxtnumEl2'', Val 0x0004005c),
     (''HvArm64RegisterSmcrEl1'', Val 0x0004005d), (''HvArm64RegisterSmcrEl2'', Val 0x0004005e),
     (''HvArm64RegisterSmidrEl1'', Val 0x0004005f),
     (''HvArm64RegisterSmpriEl1'', Val 0x00040060),
     (''HvArm64RegisterSmprimapEl2'', Val 0x00040061),
     (''HvArm64RegisterTcrEl2'', Val 0x00040062),
     (''HvArm64RegisterTfsre0El1'', Val 0x00040063),
     (''HvArm64RegisterTfsrEl1'', Val 0x00040064), (''HvArm64RegisterTfsrEl2'', Val 0x00040065),
     (''HvArm64RegisterTpidr2El0'', Val 0x00040066),
     (''HvArm64RegisterTpidrEl2'', Val 0x00040067),
     (''HvArm64RegisterTtbr0El2'', Val 0x00040068),
     (''HvArm64RegisterVbarEl2'', Val 0x00040069),
     (''HvArm64RegisterVmpidrEl2'', Val 0x0004006a),
     (''HvArm64RegisterVncrEl2'', Val 0x0004006b),
     (''HvArm64RegisterVpidrEl2'', Val 0x0004006c),
     (''HvArm64RegisterVstcrEl2'', Val 0x0004006d),
     (''HvArm64RegisterVsttbrEl2'', Val 0x0004006e),
     (''HvArm64RegisterVtcrEl2'', Val 0x0004006f),
     (''HvArm64RegisterVttbrEl2'', Val 0x00040070), (''HvArm64RegisterZcrEl1'', Val 0x00040071),
     (''HvArm64RegisterZcrEl2'', Val 0x00040072), (''HvArm64RegisterAfsr0Elx'', Val 0x00040073),
     (''HvArm64RegisterAfsr1Elx'', Val 0x00040074),
     (''HvArm64RegisterAmairElx'', Val 0x00040075),
     (''HvArm64RegisterContextidrElx'', Val 0x00040076),
     (''HvArm64RegisterCpacrElx'', Val 0x00040077), (''HvArm64RegisterEsrElx'', Val 0x00040078),
     (''HvArm64RegisterFarElx'', Val 0x00040079), (''HvArm64RegisterMairElx'', Val 0x0004007a),
     (''HvArm64RegisterSctlrElx'', Val 0x0004007b), (''HvArm64RegisterTcrElx'', Val 0x0004007c),
     (''HvArm64RegisterTtbr0Elx'', Val 0x0004007d),
     (''HvArm64RegisterTtbr1El2'', Val 0x0004007e),
     (''HvArm64RegisterTtbr1Elx'', Val 0x0004007f),
     (''HvArm64RegisterVbarElx'', Val 0x00040080), (''HvArm64RegisterZcrElx'', Val 0x00040081),
     (''HvArm64RegisterSyntheticVbarEl1'', Val 0x00040400),
     (''HvArm64RegisterSyntheticEsrEl1'', Val 0x00040401),
     (''HvArm64RegisterDbgbcr0El1'', Val 0x00050000),
     (''HvArm64RegisterDbgbcr1El1'', Val 0x00050001),
     (''HvArm64RegisterDbgbcr2El1'', Val 0x00050002),
     (''HvArm64RegisterDbgbcr3El1'', Val 0x00050003),
     (''HvArm64RegisterDbgbcr4El1'', Val 0x00050004),
     (''HvArm64RegisterDbgbcr5El1'', Val 0x00050005),
     (''HvArm64RegisterDbgbcr6El1'', Val 0x00050006),
     (''HvArm64RegisterDbgbcr7El1'', Val 0x00050007),
     (''HvArm64RegisterDbgbcr8El1'', Val 0x00050008),
     (''HvArm64RegisterDbgbcr9El1'', Val 0x00050009),
     (''HvArm64RegisterDbgbcr10El1'', Val 0x0005000a),
     (''HvArm64RegisterDbgbcr11El1'', Val 0x0005000b),
     (''HvArm64RegisterDbgbcr12El1'', Val 0x0005000c),
     (''HvArm64RegisterDbgbcr13El1'', Val 0x0005000d),
     (''HvArm64RegisterDbgbcr14El1'', Val 0x0005000e),
     (''HvArm64RegisterDbgbcr15El1'', Val 0x0005000f),
     (''HvArm64RegisterDbgwcr0El1'', Val 0x00050010),
     (''HvArm64RegisterDbgwcr1El1'', Val 0x00050011),
     (''HvArm64RegisterDbgwcr2El1'', Val 0x00050012),
     (''HvArm64RegisterDbgwcr3El1'', Val 0x00050013),
     (''HvArm64RegisterDbgwcr4El1'', Val 0x00050014),
     (''HvArm64RegisterDbgwcr5El1'', Val 0x00050015),
     (''HvArm64RegisterDbgwcr6El1'', Val 0x00050016),
     (''HvArm64RegisterDbgwcr7El1'', Val 0x00050017),
     (''HvArm64RegisterDbgwcr8El1'', Val 0x00050018),
     (''HvArm64RegisterDbgwcr9El1'', Val 0x00050019),
     (''HvArm64RegisterDbgwcr10El1'', Val 0x0005001a),
     (''HvArm64RegisterDbgwcr11El1'', Val 0x0005001b),
     (''HvArm64RegisterDbgwcr12El1'', Val 0x0005001c),
     (''HvArm64RegisterDbgwcr13El1'', Val 0x0005001d),
     (''HvArm64RegisterDbgwcr14El1'', Val 0x0005001e),
     (''HvArm64RegisterDbgwcr15El1'', Val 0x0005001f),
     (''HvArm64RegisterDbgbvr0El1'', Val 0x00050020),
     (''HvArm64RegisterDbgbvr1El1'', Val 0x00050021),
     (''HvArm64RegisterDbgbvr2El1'', Val 0x00050022),
     (''HvArm64RegisterDbgbvr3El1'', Val 0x00050023),
     (''HvArm64RegisterDbgbvr4El1'', Val 0x00050024),
     (''HvArm64RegisterDbgbvr5El1'', Val 0x00050025),
     (''HvArm64RegisterDbgbvr6El1'', Val 0x00050026),
     (''HvArm64RegisterDbgbvr7El1'', Val 0x00050027),
     (''HvArm64RegisterDbgbvr8El1'', Val 0x00050028),
     (''HvArm64RegisterDbgbvr9El1'', Val 0x00050029),
     (''HvArm64RegisterDbgbvr10El1'', Val 0x0005002a),
     (''HvArm64RegisterDbgbvr11El1'', Val 0x0005002b),
     (''HvArm64RegisterDbgbvr12El1'', Val 0x0005002c),
     (''HvArm64RegisterDbgbvr13El1'', Val 0x0005002d),
     (''HvArm64RegisterDbgbvr14El1'', Val 0x0005002e),
     (''HvArm64RegisterDbgbvr15El1'', Val 0x0005002f),
     (''HvArm64RegisterDbgwvr0El1'', Val 0x00050030),
     (''HvArm64RegisterDbgwvr1El1'', Val 0x00050031),
     (''HvArm64RegisterDbgwvr2El1'', Val 0x00050032),
     (''HvArm64RegisterDbgwvr3El1'', Val 0x00050033),
     (''HvArm64RegisterDbgwvr4El1'', Val 0x00050034),
     (''HvArm64RegisterDbgwvr5El1'', Val 0x00050035),
     (''HvArm64RegisterDbgwvr6El1'', Val 0x00050036),
     (''HvArm64RegisterDbgwvr7El1'', Val 0x00050037),
     (''HvArm64RegisterDbgwvr8El1'', Val 0x00050038),
     (''HvArm64RegisterDbgwvr9El1'', Val 0x00050039),
     (''HvArm64RegisterDbgwvr10El1'', Val 0x0005003a),
     (''HvArm64RegisterDbgwvr11El1'', Val 0x0005003b),
     (''HvArm64RegisterDbgwvr12El1'', Val 0x0005003c),
     (''HvArm64RegisterDbgwvr13El1'', Val 0x0005003d),
     (''HvArm64RegisterDbgwvr14El1'', Val 0x0005003e),
     (''HvArm64RegisterDbgwvr15El1'', Val 0x0005003f),
     (''HvArm64RegisterDbgauthstatusEl1'', Val 0x00050040),
     (''HvArm64RegisterDbgclaimclrEl1'', Val 0x00050041),
     (''HvArm64RegisterDbgclaimsetEl1'', Val 0x00050042),
     (''HvArm64RegisterDbgdtrrxEl0'', Val 0x00050043),
     (''HvArm64RegisterDbgdtrtxEl0'', Val 0x00050044),
     (''HvArm64RegisterDbgprcrEl1'', Val 0x00050045),
     (''HvArm64RegisterDbgvcr32El2'', Val 0x00050046),
     (''HvArm64RegisterDlrEl0'', Val 0x00050047), (''HvArm64RegisterDspsrEl0'', Val 0x00050048),
     (''HvArm64RegisterMdccintEl1'', Val 0x00050049),
     (''HvArm64RegisterMdccsrEl0'', Val 0x0005004a),
     (''HvArm64RegisterMdcrEl2'', Val 0x0005004b),
     (''HvArm64RegisterMdrarEl1'', Val 0x0005004c),
     (''HvArm64RegisterMdscrEl1'', Val 0x0005004d),
     (''HvArm64RegisterOsdlrEl1'', Val 0x0005004e),
     (''HvArm64RegisterOsdtrrxEl1'', Val 0x0005004f),
     (''HvArm64RegisterOsdtrtxEl1'', Val 0x00050050),
     (''HvArm64RegisterOseccrEl1'', Val 0x00050051),
     (''HvArm64RegisterOslarEl1'', Val 0x00050052),
     (''HvArm64RegisterOslsrEl1'', Val 0x00050053),
     (''HvArm64RegisterSder32El2'', Val 0x00050054),
     (''HvArm64RegisterTrfcrEl1'', Val 0x00050055),
     (''HvArm64RegisterTrfcrEl2'', Val 0x00050056),
     (''HvArm64RegisterTrfcrElx'', Val 0x00050057),
     (''HvArm64RegisterPmccfiltrEl0'', Val 0x00052000),
     (''HvArm64RegisterPmccntrEl0'', Val 0x00052001),
     (''HvArm64RegisterPmceid0El0'', Val 0x00052002),
     (''HvArm64RegisterPmceid1El0'', Val 0x00052003),
     (''HvArm64RegisterPmcntenclrEl0'', Val 0x00052004),
     (''HvArm64RegisterPmcntensetEl0'', Val 0x00052005),
     (''HvArm64RegisterPmcrEl0'', Val 0x00052006),
     (''HvArm64RegisterPmevcntr0El0'', Val 0x00052007),
     (''HvArm64RegisterPmevcntr1El0'', Val 0x00052008),
     (''HvArm64RegisterPmevcntr2El0'', Val 0x00052009),
     (''HvArm64RegisterPmevcntr3El0'', Val 0x0005200a),
     (''HvArm64RegisterPmevcntr4El0'', Val 0x0005200b),
     (''HvArm64RegisterPmevcntr5El0'', Val 0x0005200c),
     (''HvArm64RegisterPmevcntr6El0'', Val 0x0005200d),
     (''HvArm64RegisterPmevcntr7El0'', Val 0x0005200e),
     (''HvArm64RegisterPmevcntr8El0'', Val 0x0005200f),
     (''HvArm64RegisterPmevcntr9El0'', Val 0x00052010),
     (''HvArm64RegisterPmevcntr10El0'', Val 0x00052011),
     (''HvArm64RegisterPmevcntr11El0'', Val 0x00052012),
     (''HvArm64RegisterPmevcntr12El0'', Val 0x00052013),
     (''HvArm64RegisterPmevcntr13El0'', Val 0x00052014),
     (''HvArm64RegisterPmevcntr14El0'', Val 0x00052015),
     (''HvArm64RegisterPmevcntr15El0'', Val 0x00052016),
     (''HvArm64RegisterPmevcntr16El0'', Val 0x00052017),
     (''HvArm64RegisterPmevcntr17El0'', Val 0x00052018),
     (''HvArm64RegisterPmevcntr18El0'', Val 0x00052019),
     (''HvArm64RegisterPmevcntr19El0'', Val 0x0005201a),
     (''HvArm64RegisterPmevcntr20El0'', Val 0x0005201b),
     (''HvArm64RegisterPmevcntr21El0'', Val 0x0005201c),
     (''HvArm64RegisterPmevcntr22El0'', Val 0x0005201d),
     (''HvArm64RegisterPmevcntr23El0'', Val 0x0005201e),
     (''HvArm64RegisterPmevcntr24El0'', Val 0x0005201f),
     (''HvArm64RegisterPmevcntr25El0'', Val 0x00052020),
     (''HvArm64RegisterPmevcntr26El0'', Val 0x00052021),
     (''HvArm64RegisterPmevcntr27El0'', Val 0x00052022),
     (''HvArm64RegisterPmevcntr28El0'', Val 0x00052023),
     (''HvArm64RegisterPmevcntr29El0'', Val 0x00052024),
     (''HvArm64RegisterPmevcntr30El0'', Val 0x00052025),
     (''HvArm64RegisterPmevtyper0El0'', Val 0x00052026),
     (''HvArm64RegisterPmevtyper1El0'', Val 0x00052027),
     (''HvArm64RegisterPmevtyper2El0'', Val 0x00052028),
     (''HvArm64RegisterPmevtyper3El0'', Val 0x00052029),
     (''HvArm64RegisterPmevtyper4El0'', Val 0x0005202a),
     (''HvArm64RegisterPmevtyper5El0'', Val 0x0005202b),
     (''HvArm64RegisterPmevtyper6El0'', Val 0x0005202c),
     (''HvArm64RegisterPmevtyper7El0'', Val 0x0005202d),
     (''HvArm64RegisterPmevtyper8El0'', Val 0x0005202e),
     (''HvArm64RegisterPmevtyper9El0'', Val 0x0005202f),
     (''HvArm64RegisterPmevtyper10El0'', Val 0x00052030),
     (''HvArm64RegisterPmevtyper11El0'', Val 0x00052031),
     (''HvArm64RegisterPmevtyper12El0'', Val 0x00052032),
     (''HvArm64RegisterPmevtyper13El0'', Val 0x00052033),
     (''HvArm64RegisterPmevtyper14El0'', Val 0x00052034),
     (''HvArm64RegisterPmevtyper15El0'', Val 0x00052035),
     (''HvArm64RegisterPmevtyper16El0'', Val 0x00052036),
     (''HvArm64RegisterPmevtyper17El0'', Val 0x00052037),
     (''HvArm64RegisterPmevtyper18El0'', Val 0x00052038),
     (''HvArm64RegisterPmevtyper19El0'', Val 0x00052039),
     (''HvArm64RegisterPmevtyper20El0'', Val 0x0005203a),
     (''HvArm64RegisterPmevtyper21El0'', Val 0x0005203b),
     (''HvArm64RegisterPmevtyper22El0'', Val 0x0005203c),
     (''HvArm64RegisterPmevtyper23El0'', Val 0x0005203d),
     (''HvArm64RegisterPmevtyper24El0'', Val 0x0005203e),
     (''HvArm64RegisterPmevtyper25El0'', Val 0x0005203f),
     (''HvArm64RegisterPmevtyper26El0'', Val 0x00052040),
     (''HvArm64RegisterPmevtyper27El0'', Val 0x00052041),
     (''HvArm64RegisterPmevtyper28El0'', Val 0x00052042),
     (''HvArm64RegisterPmevtyper29El0'', Val 0x00052043),
     (''HvArm64RegisterPmevtyper30El0'', Val 0x00052044),
     (''HvArm64RegisterPmintenclrEl1'', Val 0x00052045),
     (''HvArm64RegisterPmintensetEl1'', Val 0x00052046),
     (''HvArm64RegisterPmmirEl1'', Val 0x00052047),
     (''HvArm64RegisterPmovsclrEl0'', Val 0x00052048),
     (''HvArm64RegisterPmovssetEl0'', Val 0x00052049),
     (''HvArm64RegisterPmselrEl0'', Val 0x0005204a),
     (''HvArm64RegisterPmswincEl0'', Val 0x0005204b),
     (''HvArm64RegisterPmuserenrEl0'', Val 0x0005204c),
     (''HvArm64RegisterPmxevcntrEl0'', Val 0x0005204d),
     (''HvArm64RegisterPmxevtyperEl0'', Val 0x0005204e),
     (''HvArm64RegisterAmevcntr00El0'', Val 0x00053000),
     (''HvArm64RegisterAmevcntr01El0'', Val 0x00053001),
     (''HvArm64RegisterAmevcntr02El0'', Val 0x00053002),
     (''HvArm64RegisterAmevcntr03El0'', Val 0x00053003),
     (''HvArm64RegisterPmbidrEl1'', Val 0x00054000),
     (''HvArm64RegisterPmblimitrEl1'', Val 0x00054001),
     (''HvArm64RegisterPmbptrEl1'', Val 0x00054002),
     (''HvArm64RegisterPmbsrEl1'', Val 0x00054003),
     (''HvArm64RegisterPmscrEl1'', Val 0x00054004),
     (''HvArm64RegisterPmscrEl2'', Val 0x00054005),
     (''HvArm64RegisterPmsevfrEl1'', Val 0x00054006),
     (''HvArm64RegisterPmsfcrEl1'', Val 0x00054007),
     (''HvArm64RegisterPmsicrEl1'', Val 0x00054008),
     (''HvArm64RegisterPmsidrEl1'', Val 0x00054009),
     (''HvArm64RegisterPmsirrEl1'', Val 0x0005400a),
     (''HvArm64RegisterPmslatfrEl1'', Val 0x0005400b),
     (''HvArm64RegisterPmsnevfrEl1'', Val 0x0005400c),
     (''HvArm64RegisterDisrEl1'', Val 0x00056000),
     (''HvArm64RegisterErridrEl1'', Val 0x00056001),
     (''HvArm64RegisterErrselrEl1'', Val 0x00056002),
     (''HvArm64RegisterErxaddrEl1'', Val 0x00056003),
     (''HvArm64RegisterErxctlrEl1'', Val 0x00056004),
     (''HvArm64RegisterErrxfrEl1'', Val 0x00056005),
     (''HvArm64RegisterErxmisc0El1'', Val 0x00056006),
     (''HvArm64RegisterErxmisc1El1'', Val 0x00056007),
     (''HvArm64RegisterErxmisc2El1'', Val 0x00056008),
     (''HvArm64RegisterErxmisc3El1'', Val 0x00056009),
     (''HvArm64RegisterErxpfgcdnEl1'', Val 0x0005600a),
     (''HvArm64RegisterErxpfgctlEl1'', Val 0x0005600b),
     (''HvArm64RegisterErxpfgfEl1'', Val 0x0005600c),
     (''HvArm64RegisterErxstatusEl1'', Val 0x0005600d),
     (''HvArm64RegisterVdisrEl2'', Val 0x0005600e),
     (''HvArm64RegisterVsesrEl2'', Val 0x0005600f),
     (''HvArm64RegisterCntfrqEl0'', Val 0x00058000),
     (''HvArm64RegisterCnthctlEl2'', Val 0x00058001),
     (''HvArm64RegisterCnthpCtlEl2'', Val 0x00058002),
     (''HvArm64RegisterCnthpCvalEl2'', Val 0x00058003),
     (''HvArm64RegisterCnthpTvalEl2'', Val 0x00058004),
     (''HvArm64RegisterCnthvCtlEl2'', Val 0x00058005),
     (''HvArm64RegisterCnthvCvalEl2'', Val 0x00058006),
     (''HvArm64RegisterCnthvTvalEl2'', Val 0x00058007),
     (''HvArm64RegisterCntkctlEl1'', Val 0x00058008),
     (''HvArm64RegisterCntpCtlEl0'', Val 0x00058009),
     (''HvArm64RegisterCntpCvalEl0'', Val 0x0005800a),
     (''HvArm64RegisterCntpTvalEl0'', Val 0x0005800b),
     (''HvArm64RegisterCntpctEl0'', Val 0x0005800c),
     (''HvArm64RegisterCntpoffEl2'', Val 0x0005800d),
     (''HvArm64RegisterCntvCtlEl0'', Val 0x0005800e),
     (''HvArm64RegisterCntvCvalEl0'', Val 0x0005800f),
     (''HvArm64RegisterCntvTvalEl0'', Val 0x00058010),
     (''HvArm64RegisterCntvctEl0'', Val 0x00058011),
     (''HvArm64RegisterCntvoffEl2'', Val 0x00058012),
     (''HvArm64RegisterCntkctlElx'', Val 0x00058013),
     (''HvArm64RegisterCntpCtlElx'', Val 0x00058014),
     (''HvArm64RegisterCntpCvalElx'', Val 0x00058015),
     (''HvArm64RegisterCntpTvalElx'', Val 0x00058016),
     (''HvArm64RegisterCntvCtlElx'', Val 0x00058017),
     (''HvArm64RegisterCntvCvalElx'', Val 0x00058018),
     (''HvArm64RegisterCntvTvalElx'', Val 0x00058019),
     (''HvArm64RegisterIccAp1R0El1'', Val 0x00060000),
     (''HvArm64RegisterIccAp1R1El1'', Val 0x00060001),
     (''HvArm64RegisterIccAp1R2El1'', Val 0x00060002),
     (''HvArm64RegisterIccAp1R3El1'', Val 0x00060003),
     (''HvArm64RegisterIccAsgi1REl1'', Val 0x00060004),
     (''HvArm64RegisterIccBpr1El1'', Val 0x00060005),
     (''HvArm64RegisterIccCtlrEl1'', Val 0x00060006),
     (''HvArm64RegisterIccDirEl1'', Val 0x00060007),
     (''HvArm64RegisterIccEoir1El1'', Val 0x00060008),
     (''HvArm64RegisterIccHppir1El1'', Val 0x00060009),
     (''HvArm64RegisterIccIar1El1'', Val 0x0006000a),
     (''HvArm64RegisterIccIgrpen1El1'', Val 0x0006000b),
     (''HvArm64RegisterIccPmrEl1'', Val 0x0006000c),
     (''HvArm64RegisterIccRprEl1'', Val 0x0006000d),
     (''HvArm64RegisterIccSgi1REl1'', Val 0x0006000e),
     (''HvArm64RegisterIccSreEl1'', Val 0x0006000f),
     (''HvArm64RegisterIccSreEl2'', Val 0x00060010),
     (''HvArm64RegisterIchAp1R0El2'', Val 0x00061000),
     (''HvArm64RegisterIchAp1R1El2'', Val 0x00061001),
     (''HvArm64RegisterIchAp1R2El2'', Val 0x00061002),
     (''HvArm64RegisterIchAp1R3El2'', Val 0x00061003),
     (''HvArm64RegisterIchEisrEl2'', Val 0x00061004),
     (''HvArm64RegisterIchElrsrEl2'', Val 0x00061005),
     (''HvArm64RegisterIchHcrEl2'', Val 0x00061006),
     (''HvArm64RegisterIchLr0El2'', Val 0x00061007),
     (''HvArm64RegisterIchLr1El2'', Val 0x00061008),
     (''HvArm64RegisterIchLr2El2'', Val 0x00061009),
     (''HvArm64RegisterIchLr3El2'', Val 0x0006100a),
     (''HvArm64RegisterIchLr4El2'', Val 0x0006100b),
     (''HvArm64RegisterIchLr5El2'', Val 0x0006100c),
     (''HvArm64RegisterIchLr6El2'', Val 0x0006100d),
     (''HvArm64RegisterIchLr7El2'', Val 0x0006100e),
     (''HvArm64RegisterIchLr8El2'', Val 0x0006100f),
     (''HvArm64RegisterIchLr9El2'', Val 0x00061010),
     (''HvArm64RegisterIchLr10El2'', Val 0x00061011),
     (''HvArm64RegisterIchLr11El2'', Val 0x00061012),
     (''HvArm64RegisterIchLr12El2'', Val 0x00061013),
     (''HvArm64RegisterIchLr13El2'', Val 0x00061014),
     (''HvArm64RegisterIchLr14El2'', Val 0x00061015),
     (''HvArm64RegisterIchLr15El2'', Val 0x00061016),
     (''HvArm64RegisterIchMisrEl2'', Val 0x00061017),
     (''HvArm64RegisterIchVmcrEl2'', Val 0x00061018),
     (''HvArm64RegisterIchVtrEl2'', Val 0x00061019),
     (''HvArm64RegisterMpam0El1'', Val 0x00071000),
     (''HvArm64RegisterMpam1El1'', Val 0x00071001),
     (''HvArm64RegisterMpam2El2'', Val 0x00071002),
     (''HvArm64RegisterMpamhcrEl2'', Val 0x00071003),
     (''HvArm64RegisterMpamidrEl1'', Val 0x00071004),
     (''HvArm64RegisterMpamsmEl1'', Val 0x00071005),
     (''HvArm64RegisterMpamvpm0El2'', Val 0x00071006),
     (''HvArm64RegisterMpamvpm1El2'', Val 0x00071007),
     (''HvArm64RegisterMpamvpm2El2'', Val 0x00071008),
     (''HvArm64RegisterMpamvpm3El2'', Val 0x00071009),
     (''HvArm64RegisterMpamvpm4El2'', Val 0x0007100a),
     (''HvArm64RegisterMpamvpm5El2'', Val 0x0007100b),
     (''HvArm64RegisterMpamvpm6El2'', Val 0x0007100c),
     (''HvArm64RegisterMpamvpm7El2'', Val 0x0007100d),
     (''HvArm64RegisterMpamvpmvEl2'', Val 0x0007100e),
     (''HvArm64RegisterS3ImpldefinedRegMin'', Val 0x00072000),
     (''HvArm64RegisterS3ImpldefinedRegMax'', Val 0x00072fff),
     (''HvArm64RegisterGicrPropbaser'', Val 0x00090100),
     (''HvArm64RegisterGicrPendbaser'', Val 0x00090101)]))"

definition HV_STATS_OBJECT_FLAG :: cty where
  "HV_STATS_OBJECT_FLAG = U16"

definition HvStatsObjectSelfStats :: "32 word" where "HvStatsObjectSelfStats = 0x0001"

definition HV_STATS_OBJECT_IDENTITY :: cty where
  "HV_STATS_OBJECT_IDENTITY = Union 0 (flds_of
       [mem ''Hypervisor'' (Struct 0 (flds_of [mem ''ReservedZ0'' U64, mem ''ReservedZ1'' U32, mem ''ReservedZ2'' U16,
          mem ''ReservedZ3'' U8, mem ''ReservedZ4'' U8])),
       mem ''LogicalProcessor'' (Struct 0 (flds_of [mem ''LogicalProcessorIndex'' HV_LOGICAL_PROCESSOR_INDEX, mem ''ReservedZ0'' U32,
          mem ''ReservedZ1'' U32, mem ''ReservedZ2'' U16, mem ''ReservedZ3'' U8,
          mem ''ReservedZ4'' U8])),
       mem ''Partition'' (Struct 0 (flds_of [mem ''PartitionId'' HV_PARTITION_ID, mem ''ReservedZ1'' U32,
          mem ''Flags'' HV_STATS_OBJECT_FLAG, mem ''ReservedZ3'' U8, mem ''ReservedZ4'' U8])),
       mem ''Vp'' (Struct 0 (flds_of [mem ''PartitionId'' HV_PARTITION_ID, mem ''VpIndex'' HV_VP_INDEX,
          mem ''Flags'' HV_STATS_OBJECT_FLAG, mem ''ReservedZ3'' U8, mem ''ReservedZ4'' U8]))])"

section \<open>Hypervisor Beyond WDK's hvgdk.h Definitions\<close>

definition HV_BOOLEAN :: cty where
  "HV_BOOLEAN = U8"

definition HV_SPA_PAGE_OFFSET :: cty where
  "HV_SPA_PAGE_OFFSET = U32"

definition HV_GPA_PAGE_OFFSET :: cty where
  "HV_GPA_PAGE_OFFSET = U32"

definition HV_GVA_PAGE_OFFSET :: cty where
  "HV_GVA_PAGE_OFFSET = U32"

definition X64_CR4_LA57 :: "32 word" where "X64_CR4_LA57 = 0x0000000000001000"

definition X64_PTE_PRESENT :: "32 word" where "X64_PTE_PRESENT = 0x1"

definition X64_PTE_READ_WRITE :: "32 word" where "X64_PTE_READ_WRITE = 0x2"

definition X64_PTE_ACCESSED :: "32 word" where "X64_PTE_ACCESSED = 0x20"

definition X64_PTE_DIRTY :: "32 word" where "X64_PTE_DIRTY = 0x40"

definition X64_PTE_LARGE_PAGE :: "32 word" where "X64_PTE_LARGE_PAGE = 0x80"

definition PAGE_TABLE_ENTRY_COUNT :: "32 word" where "PAGE_TABLE_ENTRY_COUNT = 512"

definition X64_PAGE_SHIFT :: "32 word" where "X64_PAGE_SHIFT = 12"

definition X64_PTE_BITS :: "32 word" where "X64_PTE_BITS = 9"

definition HV_GENERIC_SET_FORMAT :: enum_tab where
  "HV_GENERIC_SET_FORMAT = enum_of
     [(''HvGenericSetSparse4k'', Auto), (''HvGenericSetAll'', Auto),
     (''HvGenericSetInvalid'', Auto)]"

definition HV_GENERIC_SET_HEADER :: cty where
  "HV_GENERIC_SET_HEADER = Struct 0 (flds_of
       [mem ''Format'' U64, mem ''ValidBanksMask'' U64])"

definition HV_GENERIC_SET :: cty where
  "HV_GENERIC_SET = Struct 0 (flds_of
       [mem ''Format'' U64, mem ''ValidBanksMask'' U64,
       mem ''BankContents'' (Arr U64 HV_ANYSIZE_ARRAY)])"

definition HV_APIC_ID :: cty where
  "HV_APIC_ID = U32"

definition HV_NUM_VTLS :: "32 word" where "HV_NUM_VTLS = 2"

definition HV_INVALID_VTL :: "8 word" where "HV_INVALID_VTL = - 1"

definition HV_VTL_ALL :: "32 word" where "HV_VTL_ALL = 0xf"

definition HV_X64_PENDING_EVENT_TYPE :: enum_tab where
  "HV_X64_PENDING_EVENT_TYPE = enum_of
     [(''HvX64PendingEventException'', Val 0x0), (''HvX64PendingEventMemoryIntercept'', Val 0x1),
     (''HvX64PendingEventNestedMemoryIntercept'', Val 0x2)]"

definition HV_ARM64_PENDING_EVENT_TYPE :: enum_tab where
  "HV_ARM64_PENDING_EVENT_TYPE = enum_of
     [(''HvArm64PendingEventException'', Val 0x0),
     (''HvArm64PendingEventSyntheticException'', Val 0x1),
     (''HvArm64PendingEventHypercallOutput'', Val 0x2)]"

definition HV_X64_PENDING_MEMORY_INTERCEPT_EVENT :: cty where
  "HV_X64_PENDING_MEMORY_INTERCEPT_EVENT = Union 0 (flds_of
       [mem ''AsUINT64'' (Arr U64 4),
       mem '''' (Struct 0 (flds_of [bits ''EventPending'' U8 1, bits ''EventType'' U8 3, bits ''Reserved0'' U8 4,
          mem ''TargetVtl'' HV_VTL, mem ''AccessType'' U8, bits ''GuestLinearAddressValid'' U8 1,
          bits ''Reserved1'' U8 7, mem ''Reserved2'' U32, mem ''GuestLinearAddress'' U64,
          mem ''GuestPhysicalAddress'' U64, mem ''Reserved3'' U64]))])"

definition HV_X64_PENDING_NESTED_MEMORY_INTERCEPT_EVENT :: cty where
  "HV_X64_PENDING_NESTED_MEMORY_INTERCEPT_EVENT = Union 0 (flds_of
       [mem ''AsUINT64'' (Arr U64 4),
       mem '''' (Struct 0 (flds_of [bits ''EventPending'' U8 1, bits ''EventType'' U8 3, bits ''Reserved0'' U8 4,
          mem ''AccessType'' U8, mem ''GuestAccessPermission'' U8,
          bits ''GuestLinearAddressValid'' U8 1, bits ''CausedByGpaAccess'' U8 1,
          bits ''PageTableMisconfiguration'' U8 1, bits ''Reserved1'' U8 5, mem ''Reserved2'' U32,
          mem ''GuestLinearAddress'' U64, mem ''GuestNestedPhysicalAddress'' U64,
          mem ''Reserved3'' U64]))])"

definition HV_ARM64_PENDING_HYPERCALL_OUTPUT_EVENT :: cty where
  "HV_ARM64_PENDING_HYPERCALL_OUTPUT_EVENT = Union 0 (flds_of
       [mem ''AsUINT64'' (Arr U64 2),
       mem '''' (Struct 0 (flds_of [bits ''EventPending'' U8 1, bits ''EventType'' U8 3, bits ''Reserved'' U8 4,
          bits ''Retired'' U8 1, bits ''Reserved1'' U8 7, mem ''Reserved2'' U16,
          mem ''OutputSize'' U32, mem ''OutputGpa'' U64]))])"

definition HV_X64_PENDING_EVENT :: cty where
  "HV_X64_PENDING_EVENT = Union 0 (flds_of
       [mem '''' (Struct 0 (flds_of [mem ''Reg0'' HV_UINT128, mem ''Reg1'' HV_UINT128])),
       mem '''' (Struct 0 (flds_of [bits ''EventPending'' U8 1, bits ''EventType'' U8 3, bits ''Reserved'' U8 4,
          mem ''EventData'' (Arr U8 15)])),
       mem ''Exception'' HV_X64_PENDING_EXCEPTION_EVENT,
       mem ''MemoryIntercept'' HV_X64_PENDING_MEMORY_INTERCEPT_EVENT,
       mem ''NestedMemoryIntercept'' HV_X64_PENDING_NESTED_MEMORY_INTERCEPT_EVENT])"

definition HV_ARM64_PENDING_EVENT :: cty where
  "HV_ARM64_PENDING_EVENT = Union 0 (flds_of
       [mem '''' (Struct 0 (flds_of [mem ''Reg0'' HV_UINT128, mem ''Reg1'' HV_UINT128])),
       mem '''' (Struct 0 (flds_of [bits ''EventPending'' U8 1, bits ''EventType'' U8 3, bits ''Reserved'' U8 4,
          mem ''EventData'' (Arr U8 15)])),
       mem ''Exception'' HV_ARM64_PENDING_EXCEPTION_EVENT,
       mem ''SyntheticException'' HV_ARM64_PENDING_SYNTHETIC_EXCEPTION_EVENT,
       mem ''HypercallOutput'' HV_ARM64_PENDING_HYPERCALL_OUTPUT_EVENT])"

definition HV_TRANSLATE_GVA_RESULT_EX :: "arch \<Rightarrow> cty" where
  "HV_TRANSLATE_GVA_RESULT_EX a = Struct 0 (flds_of
       ([mem ''ResultCode'' Enum_ty, bits ''CacheType'' U32 8, bits ''OverlayPage'' U32 1,
       bits ''Reserved'' U32 23] @
        (case a of X64 \<Rightarrow> [mem ''EventInfo'' HV_X64_PENDING_EVENT] | ARM64 \<Rightarrow>
        [mem ''EventInfo'' HV_ARM64_PENDING_EVENT])))"

definition HV_INTERRUPT_SOURCE :: enum_tab where
  "HV_INTERRUPT_SOURCE = enum_of
     [(''HvInterruptSourceMsi'', Val 1), (''HvInterruptSourceIoApic'', Auto),
     (''HvInterruptSourceGicd'', Auto)]"

definition HV_MSI_ADDRESS_REGISTER :: cty where
  "HV_MSI_ADDRESS_REGISTER = Union 0 (flds_of
       [mem ''AsUINT32'' U32,
       mem '''' (Struct 0 (flds_of [bits ''Reserved1'' U32 2, bits ''DestinationMode'' U32 1, bits ''RedirectionHint'' U32 1,
          bits ''Reserved2'' U32 8, bits ''DestinationId'' U32 8, bits ''MsiBase'' U32 12]))])"

definition HV_MSI_DATA_REGISTER :: cty where
  "HV_MSI_DATA_REGISTER = Union 0 (flds_of
       [mem ''AsUINT32'' U32,
       mem '''' (Struct 0 (flds_of [bits ''Vector'' U32 8, bits ''DeliveryMode'' U32 3, bits ''Reserved1'' U32 3,
          bits ''LevelAssert'' U32 1, bits ''TriggerMode'' U32 1, bits ''Reserved2'' U32 16]))])"

definition HV_MSI_ENTRY :: "arch \<Rightarrow> cty" where
  "HV_MSI_ENTRY a = Union 0 (flds_of
       ((case a of X64 \<Rightarrow> [mem ''AsUINT64'' U64,
       mem '''' (Struct 0 (flds_of [mem ''Address'' HV_MSI_ADDRESS_REGISTER, mem ''Data'' HV_MSI_DATA_REGISTER]))] | ARM64 \<Rightarrow>
        [mem ''AsUINT64'' (Arr U64 2),
       mem '''' (Struct 0 (flds_of [mem ''Address'' U64, mem ''Data'' HV_MSI_DATA_REGISTER, mem ''Reserved'' U32]))])))"

definition HV_IOAPIC_RTE :: cty where
  "HV_IOAPIC_RTE = Union 0 (flds_of
       [mem ''AsUINT64'' U64,
       mem '''' (Struct 0 (flds_of [bits ''Vector'' U32 8, bits ''DeliveryMode'' U32 3, bits ''DestinationMode'' U32 1,
          bits ''DeliveryStatus'' U32 1, bits ''InterruptPolarity'' U32 1,
          bits ''RemoteIRR'' U32 1, bits ''TriggerMode'' U32 1, bits ''InterruptMask'' U32 1,
          bits ''Reserved1'' U32 15, bits ''Reserved2'' U32 24, bits ''DestinationId'' U32 8])),
       mem '''' (Struct 0 (flds_of [mem ''LowUINT32'' U32, mem ''HighUINT32'' U32]))])"

definition HV_GICD_ENTRY :: cty where
  "HV_GICD_ENTRY = Union 0 (flds_of
       [mem ''AsUINT64'' U64,
       mem '''' (Struct 0 (flds_of [bits ''Polarity'' U32 1, bits ''TriggerMode'' U32 1, bits ''Line'' U32 10,
          bits ''ProcessorTarget'' U32 3, bits ''Vector'' U32 10, bits ''Priority'' U32 7,
          bits ''UnitId'' U32 24, bits ''Flags'' U32 8])),
       mem '''' (Struct 0 (flds_of [mem ''LowUINT32'' U32, mem ''HighUINT32'' U32]))])"

definition HV_INTERRUPT_ENTRY :: "arch \<Rightarrow> cty" where
  "HV_INTERRUPT_ENTRY a = Struct 0 (flds_of
       [mem ''InterruptSource'' Enum_ty, mem ''Reserved'' U32,
       mem '''' (Union 0 (flds_of ([mem ''MsiEntry'' (HV_MSI_ENTRY a)] @
           (case a of X64 \<Rightarrow> [mem ''IoApicRte'' HV_IOAPIC_RTE, mem ''Data'' U64] | ARM64 \<Rightarrow>
           [mem ''GicdEntry'' HV_GICD_ENTRY, mem ''Data'' (Arr U64 2)]))))])"

definition HV_DEVICE_INTERRUPT_TARGET_MULTICAST :: "32 word" where "HV_DEVICE_INTERRUPT_TARGET_MULTICAST = 1"

definition HV_DEVICE_INTERRUPT_TARGET_PROCESSOR_SET :: "32 word" where
  "HV_DEVICE_INTERRUPT_TARGET_PROCESSOR_SET = 2"

definition HV_DEVICE_INTERRUPT_TARGET_HEADER :: cty where
  "HV_DEVICE_INTERRUPT_TARGET_HEADER = Struct 0 (flds_of
       [mem ''Vector'' HV_INTERRUPT_VECTOR, mem ''Flags'' U32])"

definition HV_DEVICE_INTERRUPT_TARGET :: cty where
  "HV_DEVICE_INTERRUPT_TARGET = Struct 0 (flds_of
       [mem ''Vector'' HV_INTERRUPT_VECTOR, mem ''Flags'' U32,
       mem '''' (Union 0 (flds_of [mem ''ProcessorMask'' U64, mem ''ProcessorSet'' (Arr U64 HV_ANYSIZE_ARRAY)]))])"

definition HV_REGISTER_VSM_PARTITION_STATUS :: cty where
  "HV_REGISTER_VSM_PARTITION_STATUS = Union 0 (flds_of
       [mem ''AsUINT64'' U64,
       mem '''' (Struct 0 (flds_of [bits ''EnabledVtlSet'' U64 16, bits ''MaximumVtl'' U64 4,
          bits ''MbecEnabledVtlSet'' U64 16, bits ''SupervisorShadowStackEnabledVtlSet'' U64 4,
          bits ''ReservedZ'' U64 24]))])"

definition HV_REGISTER_VSM_VP_STATUS :: cty where
  "HV_REGISTER_VSM_VP_STATUS = Union 0 (flds_of
       [mem ''AsUINT64'' U64,
       mem '''' (Struct 0 (flds_of [bits ''ActiveVtl'' U64 4, bits ''ActiveMbecEnabled'' U64 1, bits ''ReservedZ0'' U64 11,
          bits ''EnabledVtlSet'' U64 16, bits ''ReservedZ1'' U64 32]))])"

definition HV_REGISTER_VSM_PARTITION_CONFIG :: cty where
  "HV_REGISTER_VSM_PARTITION_CONFIG = Union 0 (flds_of
       [mem ''AsUINT64'' U64,
       mem '''' (Struct 0 (flds_of [bits ''EnableVtlProtection'' U64 1, bits ''DefaultVtlProtectionMask'' U64 4,
          bits ''ZeroMemoryOnReset'' U64 1, bits ''DenyLowerVtlStartup'' U64 1,
          bits ''InterceptAcceptance'' U64 1, bits ''InterceptEnableVtlProtection'' U64 1,
          bits ''InterceptVpStartup'' U64 1, bits ''InterceptCpuidUnimplemented'' U64 1,
          bits ''InterceptUnrecoverableException'' U64 1, bits ''InterceptPage'' U64 1,
          bits ''InterceptRestorePartitionTime'' U64 1, bits ''InterceptNotPresent'' U64 1,
          bits ''ReservedZ'' U64 49]))])"

definition HV_REGISTER_GUEST_VSM_PARTITION_CONFIG :: cty where
  "HV_REGISTER_GUEST_VSM_PARTITION_CONFIG = Union 0 (flds_of
       [mem ''AsUINT64'' U64,
       mem '''' (Struct 0 (flds_of [bits ''MaximumVtl'' U64 4, bits ''Vtl0InterruptInjectionPolicy'' U64 2,
          bits ''Vtl1InterruptInjectionPolicy'' U64 2, bits ''ReservedZ'' U64 56]))])"

definition HV_REGISTER_VSM_VP_SECURE_VTL_CONFIG :: cty where
  "HV_REGISTER_VSM_VP_SECURE_VTL_CONFIG = Union 0 (flds_of
       [mem ''AsUINT64'' U64,
       mem '''' (Struct 0 (flds_of [bits ''MbecEnabled'' U64 1, bits ''TlbLocked'' U64 1,
          bits ''SupervisorShadowStackEnabled'' U64 1, bits ''HardwareHvptEnabled'' U64 1,
          bits ''ReservedZ'' U64 60]))])"

definition HV_REGISTER_VSM_CODE_PAGE_OFFSETS :: cty where
  "HV_REGISTER_VSM_CODE_PAGE_OFFSETS = Union 0 (flds_of
       [mem ''AsUINT64'' U64,
       mem '''' (Struct 0 (flds_of [bits ''VtlCallOffset'' U64 12, bits ''VtlReturnOffset'' U64 12, bits ''ReservedZ'' U64 40]))])"

definition HV_REGISTER_VSM_VINA :: cty where
  "HV_REGISTER_VSM_VINA = Union 0 (flds_of
       [mem ''AsUINT64'' U64,
       mem '''' (Struct 0 (flds_of [bits ''Vector'' U64 8, bits ''Enabled'' U64 1, bits ''AutoReset'' U64 1,
          bits ''AutoEoi'' U64 1, bits ''ReservedP'' U64 53]))])"

definition HV_REGISTER_CR_INTERCEPT_CONTROL :: cty where
  "HV_REGISTER_CR_INTERCEPT_CONTROL = Union 0 (flds_of
       [mem ''AsUINT64'' U64,
       mem '''' (Struct 0 (flds_of [bits ''Cr0Write'' U64 1, bits ''Cr4Write'' U64 1, bits ''XCr0Write'' U64 1,
          bits ''IA32MiscEnableRead'' U64 1, bits ''IA32MiscEnableWrite'' U64 1,
          bits ''MsrLstarRead'' U64 1, bits ''MsrLstarWrite'' U64 1, bits ''MsrStarRead'' U64 1,
          bits ''MsrStarWrite'' U64 1, bits ''MsrCstarRead'' U64 1, bits ''MsrCstarWrite'' U64 1,
          bits ''ApicBaseMsrRead'' U64 1, bits ''ApicBaseMsrWrite'' U64 1,
          bits ''MsrEferRead'' U64 1, bits ''MsrEferWrite'' U64 1, bits ''GdtrWrite'' U64 1,
          bits ''IdtrWrite'' U64 1, bits ''LdtrWrite'' U64 1, bits ''TrWrite'' U64 1,
          bits ''MsrSysenterCsWrite'' U64 1, bits ''MsrSysenterEipWrite'' U64 1,
          bits ''MsrSysenterEspWrite'' U64 1, bits ''MsrSfmaskWrite'' U64 1,
          bits ''MsrTscAuxWrite'' U64 1, bits ''MsrSgxLaunchControlWrite'' U64 1,
          bits ''MsrXssWrite'' U64 1, bits ''MsrSCetWrite'' U64 1, bits ''MsrPlsSspWrite'' U64 1,
          bits ''MsrInterruptSspTableAddrWrite'' U64 1, bits ''RsvdZ'' U64 35]))])"

definition VM_PARTITION_ASSIST_PAGE :: cty where
  "VM_PARTITION_ASSIST_PAGE = Struct 0 (flds_of
       [mem ''TlbLockCount'' U32])"

definition HV_VMX_SYNTHETIC_EXIT_REASON_TRAP_AFTER_FLUSH :: "32 word" where
  "HV_VMX_SYNTHETIC_EXIT_REASON_TRAP_AFTER_FLUSH = 0x10000031"

definition HV_GPA_PAGE_RANGE :: cty where
  "HV_GPA_PAGE_RANGE = Union 0 (flds_of
       [mem ''AsUINT64'' U64,
       mem '''' (Struct 0 (flds_of [bits ''AdditionalPages'' U64 11, bits ''LargePage'' U64 1,
          mem '''' (Union 0 (flds_of [bits ''BasePfn'' U64 52,
             mem '''' (Struct 0 (flds_of [bits ''PageSize'' U64 1, bits ''Reserved1'' U64 8, bits ''BaseLargePfn'' U64 43]))]))]))])"

definition HV_VMX_ENLIGHTENED_VMCS :: cty where
  "HV_VMX_ENLIGHTENED_VMCS = Struct 0 (flds_of
       [mem ''VersionNumber'' U32, mem ''AbortIndicator'' U32, mem ''HostEsSelector'' U16,
       mem ''HostCsSelector'' U16, mem ''HostSsSelector'' U16, mem ''HostDsSelector'' U16,
       mem ''HostFsSelector'' U16, mem ''HostGsSelector'' U16, mem ''HostTrSelector'' U16,
       mem ''HostPat'' U64, mem ''HostEfer'' U64, mem ''HostCr0'' U64, mem ''HostCr3'' U64,
       mem ''HostCr4'' U64, mem ''HostSysenterEspMsr'' U64, mem ''HostSysenterEipMsr'' U64,
       mem ''HostRip'' U64, mem ''HostSysenterCsMsr'' U32, mem ''PinControls'' U32,
       mem ''ExitControls'' U32, mem ''SecondaryProcessorControls'' U32,
       mem ''IoBitmapA'' HV_GPA, mem ''IoBitmapB'' HV_GPA, mem ''MsrBitmap'' HV_GPA,
       mem ''GuestEsSelector'' U16, mem ''GuestCsSelector'' U16, mem ''GuestSsSelector'' U16,
       mem ''GuestDsSelector'' U16, mem ''GuestFsSelector'' U16, mem ''GuestGsSelector'' U16,
       mem ''GuestLdtrSelector'' U16, mem ''GuestTrSelector'' U16, mem ''GuestEsLimit'' U32,
       mem ''GuestCsLimit'' U32, mem ''GuestSsLimit'' U32, mem ''GuestDsLimit'' U32,
       mem ''GuestFsLimit'' U32, mem ''GuestGsLimit'' U32, mem ''GuestLdtrLimit'' U32,
       mem ''GuestTrLimit'' U32, mem ''GuestGdtrLimit'' U32, mem ''GuestIdtrLimit'' U32,
       mem ''GuestEsAttributes'' U32, mem ''GuestCsAttributes'' U32,
       mem ''GuestSsAttributes'' U32, mem ''GuestDsAttributes'' U32,
       mem ''GuestFsAttributes'' U32, mem ''GuestGsAttributes'' U32,
       mem ''GuestLdtrAttributes'' U32, mem ''GuestTrAttributes'' U32, mem ''GuestEsBase'' U64,
       mem ''GuestCsBase'' U64, mem ''GuestSsBase'' U64, mem ''GuestDsBase'' U64,
       mem ''GuestFsBase'' U64, mem ''GuestGsBase'' U64, mem ''GuestLdtrBase'' U64,
       mem ''GuestTrBase'' U64, mem ''GuestGdtrBase'' U64, mem ''GuestIdtrBase'' U64,
       mem ''Rsvd1'' (Arr U64 3), mem ''ExitMsrStoreAddress'' HV_GPA,
       mem ''ExitMsrLoadAddress'' HV_GPA, mem ''EntryMsrLoadAddress'' HV_GPA,
       mem ''Cr3Target0'' U64, mem ''Cr3Target1'' U64, mem ''Cr3Target2'' U64,
       mem ''Cr3Target3'' U64, mem ''PfecMask'' U32, mem ''PfecMatch'' U32,
       mem ''Cr3TargetCount'' U32, mem ''ExitMsrStoreCount'' U32, mem ''ExitMsrLoadCount'' U32,
       mem ''EntryMsrLoadCount'' U32, mem ''TscOffset'' U64, mem ''VirtualApicPage'' HV_GPA,
       mem ''GuestWorkingVmcsPtr'' HV_GPA, mem ''GuestIa32DebugCtl'' U64, mem ''GuestPat'' U64,
       mem ''GuestEfer'' U64, mem ''GuestPdpte0'' U64, mem ''GuestPdpte1'' U64,
       mem ''GuestPdpte2'' U64, mem ''GuestPdpte3'' U64,
       mem ''GuestPendingDebugExceptions'' U64, mem ''GuestSysenterEspMsr'' U64,
       mem ''GuestSysenterEipMsr'' U64, mem ''GuestSleepState'' U32,
       mem ''GuestSysenterCsMsr'' U32, mem ''Cr0GuestHostMask'' U64,
       mem ''Cr4GuestHostMask'' U64, mem ''Cr0ReadShadow'' U64, mem ''Cr4ReadShadow'' U64,
       mem ''GuestCr0'' U64, mem ''GuestCr3'' U64, mem ''GuestCr4'' U64, mem ''GuestDr7'' U64,
       mem ''HostFsBase'' U64, mem ''HostGsBase'' U64, mem ''HostTrBase'' U64,
       mem ''HostGdtrBase'' U64, mem ''HostIdtrBase'' U64, mem ''HostRsp'' U64,
       mem ''EptRoot'' U64, mem ''Vpid'' U16, mem ''Rsvd2'' (Arr U16 3),
       mem ''Rsvd3'' (Arr U64 5), mem ''ExitEptFaultGpa'' U64, mem ''ExitInstructionError'' U32,
       mem ''ExitReason'' U32, mem ''ExitInterruptionInfo'' U32,
       mem ''ExitExceptionErrorCode'' U32, mem ''ExitIdtVectoringInfo'' U32,
       mem ''ExitIdtVectoringErrorCode'' U32, mem ''ExitInstructionLength'' U32,
       mem ''ExitInstructionInfo'' U32, mem ''ExitQualification'' U64,
       mem ''ExitIoInstructionEcx'' U64, mem ''ExitIoInstructionEsi'' U64,
       mem ''ExitIoInstructionEdi'' U64, mem ''ExitIoInstructionEip'' U64,
       mem ''GuestLinearAddress'' U64, mem ''GuestRsp'' U64, mem ''GuestRflags'' U64,
       mem ''GuestInterruptibility'' U32, mem ''ProcessorControls'' U32,
       mem ''ExceptionBitmap'' U32, mem ''EntryControls'' U32, mem ''EntryInterruptInfo'' U32,
       mem ''EntryExceptionErrorCode'' U32, mem ''EntryInstructionLength'' U32,
       mem ''TprThreshold'' U32, mem ''GuestRip'' U64, mem ''CleanFields'' U32,
       mem ''Rsvd4'' U32, mem ''SyntheticControls'' U32,
       mem ''EnlightenmentsControl'' (Union 0 (flds_of [mem ''AsUINT32'' U32,
          mem '''' (Struct 0 (flds_of [bits ''NestedFlushVirtualHypercall'' U32 1, bits ''MsrBitmap'' U32 1,
             bits ''Reserved'' U32 30]))])),
       mem ''VpId'' U32, mem ''VmId'' U64, mem ''PartitionAssistPage'' U64,
       mem ''Rsvd5'' (Arr U64 4), mem ''GuestBndcfgs'' U64, mem ''Rsvd6'' (Arr U64 7),
       mem ''XssExitingBitmap'' U64, mem ''EnclsExitingBitmap'' U64, mem ''Rsvd7'' (Arr U64 6)])"

definition HV_VMX_ENLIGHTENED_CLEAN_FIELD_NONE :: "32 word" where "HV_VMX_ENLIGHTENED_CLEAN_FIELD_NONE = 0"

definition HV_VMX_ENLIGHTENED_CLEAN_FIELD_IO_BITMAP :: "32 word" where
  "HV_VMX_ENLIGHTENED_CLEAN_FIELD_IO_BITMAP = push_bit 0 1"

definition HV_VMX_ENLIGHTENED_CLEAN_FIELD_MSR_BITMAP :: "32 word" where
  "HV_VMX_ENLIGHTENED_CLEAN_FIELD_MSR_BITMAP = push_bit 1 1"

definition HV_VMX_ENLIGHTENED_CLEAN_FIELD_CONTROL_GRP2 :: "32 word" where
  "HV_VMX_ENLIGHTENED_CLEAN_FIELD_CONTROL_GRP2 = push_bit 2 1"

definition HV_VMX_ENLIGHTENED_CLEAN_FIELD_CONTROL_GRP1 :: "32 word" where
  "HV_VMX_ENLIGHTENED_CLEAN_FIELD_CONTROL_GRP1 = push_bit 3 1"

definition HV_VMX_ENLIGHTENED_CLEAN_FIELD_CONTROL_PROC :: "32 word" where
  "HV_VMX_ENLIGHTENED_CLEAN_FIELD_CONTROL_PROC = push_bit 4 1"

definition HV_VMX_ENLIGHTENED_CLEAN_FIELD_CONTROL_EVENT :: "32 word" where
  "HV_VMX_ENLIGHTENED_CLEAN_FIELD_CONTROL_EVENT = push_bit 5 1"

definition HV_VMX_ENLIGHTENED_CLEAN_FIELD_CONTROL_ENTRY :: "32 word" where
  "HV_VMX_ENLIGHTENED_CLEAN_FIELD_CONTROL_ENTRY = push_bit 6 1"

definition HV_VMX_ENLIGHTENED_CLEAN_FIELD_CONTROL_EXCPN :: "32 word" where
  "HV_VMX_ENLIGHTENED_CLEAN_FIELD_CONTROL_EXCPN = push_bit 7 1"

definition HV_VMX_ENLIGHTENED_CLEAN_FIELD_CRDR :: "32 word" where
  "HV_VMX_ENLIGHTENED_CLEAN_FIELD_CRDR = push_bit 8 1"

definition HV_VMX_ENLIGHTENED_CLEAN_FIELD_CONTROL_XLAT :: "32 word" where
  "HV_VMX_ENLIGHTENED_CLEAN_FIELD_CONTROL_XLAT = push_bit 9 1"

definition HV_VMX_ENLIGHTENED_CLEAN_FIELD_GUEST_BASIC :: "32 word" where
  "HV_VMX_ENLIGHTENED_CLEAN_FIELD_GUEST_BASIC = push_bit 10 1"

definition HV_VMX_ENLIGHTENED_CLEAN_FIELD_GUEST_GRP1 :: "32 word" where
  "HV_VMX_ENLIGHTENED_CLEAN_FIELD_GUEST_GRP1 = push_bit 11 1"

definition HV_VMX_ENLIGHTENED_CLEAN_FIELD_GUEST_GRP2 :: "32 word" where
  "HV_VMX_ENLIGHTENED_CLEAN_FIELD_GUEST_GRP2 = push_bit 12 1"

definition HV_VMX_ENLIGHTENED_CLEAN_FIELD_HOST_POINTER :: "32 word" where
  "HV_VMX_ENLIGHTENED_CLEAN_FIELD_HOST_POINTER = push_bit 13 1"

definition HV_VMX_ENLIGHTENED_CLEAN_FIELD_HOST_GRP1 :: "32 word" where
  "HV_VMX_ENLIGHTENED_CLEAN_FIELD_HOST_GRP1 = push_bit 14 1"

definition HV_VMX_ENLIGHTENED_CLEAN_FIELD_ENLIGHTENMENTSCONTROL :: "32 word" where
  "HV_VMX_ENLIGHTENED_CLEAN_FIELD_ENLIGHTENMENTSCONTROL = push_bit 15 1"

section \<open>Layouts\<close>

text \<open>Sizes and alignments, in the order of the header: each lemma uses those of the members.  They hold for every
  compiler model unless a member is a pointer or the bit-fields are laid out differently; then both compilers are
  named.\<close>

named_theorems tlfs_layout

text \<open>A union of this header often has a member \<open>AsUINT32\<close> or \<open>AsUINT64\<close> (or an array of that name), the integer that is
  to be the whole of it: \<open>integer_view\<close> is the size of that member.\<close>

fun view_flds :: "abi \<Rightarrow> flds \<Rightarrow> nat option" where
  "view_flds A No_flds = None"
| "view_flds A (Fld n t w fs) = (if w = 0 \<and> take 6 n = ''AsUINT'' then Some (csize A t) else view_flds A fs)"

fun integer_view :: "abi \<Rightarrow> cty \<Rightarrow> nat option" where
  "integer_view A (Union p fs) = view_flds A fs"
| "integer_view A (Aligned a t) = integer_view A t"
| "integer_view A t = None"

text \<open>A union whose integer is not the whole of it.\<close>

definition partial_view :: "abi \<Rightarrow> cty \<Rightarrow> bool" where
  "partial_view A t \<longleftrightarrow> (case integer_view A t of None \<Rightarrow> False | Some k \<Rightarrow> k \<noteq> csize A t)"

lemmas tlfs_eval = interface_eval HV_CALL_ATTRIBUTES_ALIGNED_def

lemma array_lengths [tlfs_layout]:
  "unat HV_SYNIC_STIMER_COUNT = 4" "unat HV_MESSAGE_SIZE = 256" "unat HV_X64_FXSAVE_AREA_SIZE = 512"
  "unat HV_X64_XSAVE_AREA_SIZE = 2688" "unat (HV_PARTITION_PROCESSOR_FEATURES_BANKS X64) = 2"
  "unat (HV_PARTITION_PROCESSOR_FEATURES_BANKS ARM64) = 1" "unat HV_DEBUG_MAXIMUM_DATA_SIZE = 4088"
  "unat HV_IMAGE_NAME_MAX_LENGTH = 32" "unat CODE_CHUNK_SIZE = 512" "unat HV_HYPERCALL_INTERCEPT_MAX_XMM_REGISTERS = 6"
  "unat (HV_PAGE_SIZE a) = 4096"
  by (simp_all add: HV_SYNIC_STIMER_COUNT_def HV_MESSAGE_SIZE_def HV_X64_FXSAVE_AREA_SIZE_def HV_X64_XSAVE_AREA_SIZE_def
      HV_PARTITION_PROCESSOR_FEATURES_BANKS_def HV_DEBUG_MAXIMUM_DATA_SIZE_def HV_IMAGE_NAME_MAX_LENGTH_def
      CODE_CHUNK_SIZE_def HV_X64_XSAVE_AREA_HEADER_SIZE_def HV_X64_XSAVE_AREA_AVX_SIZE_def
      HV_X64_XSAVE_AREA_MPX_SIZE_def HV_X64_XSAVE_AREA_AVX512_SIZE_def HV_X64_XSAVE_AREA_PT_SIZE_def
      HV_X64_XSAVE_AREA_PKRU_SIZE_def HV_X64_XSAVE_AREA_HDC_SIZE_def HV_X64_XSAVE_AREA_UNKNOWN_SIZE_def
      HV_HYPERCALL_INTERCEPT_MAX_XMM_REGISTERS_def HV_PAGE_SIZE_def HV_X64_PAGE_SIZE_def
      HV_ARM64_PAGE_SIZE_def split: arch.split)

lemma ipv6_layout [tlfs_layout]: "csize A HV_IPV6_ADDRESS = 16" "calign A HV_IPV6_ADDRESS = 8"
  "csize A HV_WCHAR = 2" "calign A HV_WCHAR = 2"
  by (simp_all add: HV_IPV6_ADDRESS_def HV_WCHAR_def tlfs_eval)

lemma interface_scalar_sizes [tlfs_layout]:
  "csize A HV_STATUS = 2" "calign A HV_STATUS = 2" "integer_view A HV_STATUS = None"
  "csize A HV_GPA = 8" "calign A HV_GPA = 8" "integer_view A HV_GPA = None"
  "csize A HV_GPA_PAGE_NUMBER = 8" "calign A HV_GPA_PAGE_NUMBER = 8" "integer_view A HV_GPA_PAGE_NUMBER = None"
  "csize A HV_GVA = 8" "calign A HV_GVA = 8" "integer_view A HV_GVA = None"
  "csize A HV_PARTITION_ID = 8" "calign A HV_PARTITION_ID = 8" "integer_view A HV_PARTITION_ID = None"
  "csize A HV_NANO100_TIME = 8" "calign A HV_NANO100_TIME = 8" "integer_view A HV_NANO100_TIME = None"
  "csize A HV_NANO100_DURATION = 8" "calign A HV_NANO100_DURATION = 8" "integer_view A HV_NANO100_DURATION = None"
  "csize A HV_IOMMU_ID = 4" "calign A HV_IOMMU_ID = 4" "integer_view A HV_IOMMU_ID = None"
  "csize A HV_INTERCEPT_ACCESS_TYPE = 1" "calign A HV_INTERCEPT_ACCESS_TYPE = 1" "integer_view A HV_INTERCEPT_ACCESS_TYPE = None"
  "csize A HV_VP_INDEX = 4" "calign A HV_VP_INDEX = 4" "integer_view A HV_VP_INDEX = None"
  "csize A HV_VTL = 1" "calign A HV_VTL = 1" "integer_view A HV_VTL = None"
  "csize A HV_MAP_GPA_FLAGS = 4" "calign A HV_MAP_GPA_FLAGS = 4" "integer_view A HV_MAP_GPA_FLAGS = None"
  "csize A HV_SYNIC_SINT_INDEX = 4" "calign A HV_SYNIC_SINT_INDEX = 4" "integer_view A HV_SYNIC_SINT_INDEX = None"
  "csize A HV_EVENTLOG_BUFFER_INDEX = 4" "calign A HV_EVENTLOG_BUFFER_INDEX = 4" "integer_view A HV_EVENTLOG_BUFFER_INDEX = None"
  "csize A HV_ADDRESS_SPACE_ID = 8" "calign A HV_ADDRESS_SPACE_ID = 8" "integer_view A HV_ADDRESS_SPACE_ID = None"
  by (simp_all add: scalar_layout HV_STATUS_def HV_GPA_def HV_GPA_PAGE_NUMBER_def HV_GVA_def HV_PARTITION_ID_def HV_NANO100_TIME_def HV_NANO100_DURATION_def HV_IOMMU_ID_def HV_INTERCEPT_ACCESS_TYPE_def HV_VP_INDEX_def HV_VTL_def HV_MAP_GPA_FLAGS_def HV_SYNIC_SINT_INDEX_def HV_EVENTLOG_BUFFER_INDEX_def HV_ADDRESS_SPACE_ID_def)

lemma HV_UINT128_generic_layout [tlfs_layout]: "csize A HV_UINT128 = 16" "calign A HV_UINT128 = 16"
  "integer_view A HV_UINT128 = Some 16"
  by (cases "abi_ms_bits A", simp_all add: HV_UINT128_def tlfs_eval tlfs_layout)

lemma HV_PORT_ID_generic_layout [tlfs_layout]: "csize A HV_PORT_ID = 4" "calign A HV_PORT_ID = 4"
  "integer_view A HV_PORT_ID = Some 4"
  by (cases "abi_ms_bits A", simp_all add: HV_PORT_ID_def tlfs_eval tlfs_layout)

lemma HV_CONNECTION_ID_generic_layout [tlfs_layout]: "csize A HV_CONNECTION_ID = 4" "calign A HV_CONNECTION_ID = 4"
  "integer_view A HV_CONNECTION_ID = Some 4"
  by (cases "abi_ms_bits A", simp_all add: HV_CONNECTION_ID_def tlfs_eval tlfs_layout)

lemma HV_X64_SEGMENT_REGISTER_generic_layout [tlfs_layout]: "csize A HV_X64_SEGMENT_REGISTER = 16" "calign A HV_X64_SEGMENT_REGISTER = 8"
  "integer_view A HV_X64_SEGMENT_REGISTER = None"
  by (cases "abi_ms_bits A", simp_all add: HV_X64_SEGMENT_REGISTER_def tlfs_eval tlfs_layout)

lemma HV_X64_TABLE_REGISTER_generic_layout [tlfs_layout]: "csize A HV_X64_TABLE_REGISTER = 16" "calign A HV_X64_TABLE_REGISTER = 8"
  "integer_view A HV_X64_TABLE_REGISTER = None"
  by (cases "abi_ms_bits A", simp_all add: HV_X64_TABLE_REGISTER_def tlfs_eval tlfs_layout)

lemma HV_REGISTER_VALUE_generic_layout [tlfs_layout]: "csize A HV_REGISTER_VALUE = 16" "calign A HV_REGISTER_VALUE = 16"
  "integer_view A HV_REGISTER_VALUE = None"
  by (cases "abi_ms_bits A", simp_all add: HV_REGISTER_VALUE_def tlfs_eval tlfs_layout)

lemma HV_HYPERCALL_INPUT_generic_layout [tlfs_layout]: "csize A HV_HYPERCALL_INPUT = 8" "calign A HV_HYPERCALL_INPUT = 8"
  "integer_view A HV_HYPERCALL_INPUT = Some 8"
  by (cases "abi_ms_bits A", simp_all add: HV_HYPERCALL_INPUT_def tlfs_eval tlfs_layout)

lemma HV_HYPERCALL_OUTPUT_generic_layout [tlfs_layout]: "csize A HV_HYPERCALL_OUTPUT = 8" "calign A HV_HYPERCALL_OUTPUT = 8"
  "integer_view A HV_HYPERCALL_OUTPUT = Some 8"
  by (cases "abi_ms_bits A", simp_all add: HV_HYPERCALL_OUTPUT_def tlfs_eval tlfs_layout)

lemma HV_UINT256_layout [tlfs_layout]:
  "csize A HV_UINT256 = 32" "calign A HV_UINT256 = 32"
  "integer_view A HV_UINT256 = None"
  by (simp_all add: HV_UINT256_def tlfs_eval tlfs_layout)

lemma HV_UINT512_layout [tlfs_layout]:
  "csize A HV_UINT512 = 64" "calign A HV_UINT512 = 64"
  "integer_view A HV_UINT512 = None"
  by (simp_all add: HV_UINT512_def tlfs_eval tlfs_layout)

lemma HV_SPA_scalars [tlfs_layout]:
  "csize A HV_SPA = 8" "calign A HV_SPA = 8" "integer_view A HV_SPA = None"
  "csize A HV_SPA_PAGE_NUMBER = 8" "calign A HV_SPA_PAGE_NUMBER = 8" "integer_view A HV_SPA_PAGE_NUMBER = None"
  "csize A HV_GVA_PAGE_NUMBER = 8" "calign A HV_GVA_PAGE_NUMBER = 8" "integer_view A HV_GVA_PAGE_NUMBER = None"
  "csize A HV_IO_PORT = 2" "calign A HV_IO_PORT = 2" "integer_view A HV_IO_PORT = None"
  by (simp_all add: HV_SPA_def HV_SPA_PAGE_NUMBER_def HV_GVA_PAGE_NUMBER_def HV_IO_PORT_def tlfs_layout)

lemma HV_X64_FP_REGISTER_layout [tlfs_layout]:
  "csize A HV_X64_FP_REGISTER = 16" "calign A HV_X64_FP_REGISTER = 16"
  "integer_view A HV_X64_FP_REGISTER = Some 16"
  by (cases "abi_ms_bits A", simp_all add: HV_X64_FP_REGISTER_def tlfs_eval tlfs_layout)

lemma HV_X64_FP_CONTROL_STATUS_REGISTER_layout [tlfs_layout]:
  "csize A HV_X64_FP_CONTROL_STATUS_REGISTER = 16" "calign A HV_X64_FP_CONTROL_STATUS_REGISTER = 16"
  "integer_view A HV_X64_FP_CONTROL_STATUS_REGISTER = Some 16"
  by (cases "abi_ms_bits A", simp_all add: HV_X64_FP_CONTROL_STATUS_REGISTER_def tlfs_eval tlfs_layout)

lemma HV_X64_XMM_CONTROL_STATUS_REGISTER_layout [tlfs_layout]:
  "csize A HV_X64_XMM_CONTROL_STATUS_REGISTER = 16" "calign A HV_X64_XMM_CONTROL_STATUS_REGISTER = 16"
  "integer_view A HV_X64_XMM_CONTROL_STATUS_REGISTER = Some 16"
  by (simp_all add: HV_X64_XMM_CONTROL_STATUS_REGISTER_def tlfs_eval tlfs_layout)

lemma HV_X64_FP_MMX_REGISTER_layout [tlfs_layout]:
  "csize A HV_X64_FP_MMX_REGISTER = 16" "calign A HV_X64_FP_MMX_REGISTER = 16"
  "integer_view A HV_X64_FP_MMX_REGISTER = Some 16"
  by (simp_all add: HV_X64_FP_MMX_REGISTER_def tlfs_eval tlfs_layout)

lemma HV_X64_FX_REGISTERS_layout [tlfs_layout]:
  "csize A HV_X64_FX_REGISTERS = 512" "calign A HV_X64_FX_REGISTERS = 16"
  "integer_view A HV_X64_FX_REGISTERS = None"
  by (simp_all add: HV_X64_FX_REGISTERS_def tlfs_eval tlfs_layout)

lemma HV_X64_XSAVE_XFEM_REGISTER_layout [tlfs_layout]:
  "csize A HV_X64_XSAVE_XFEM_REGISTER = 8" "calign A HV_X64_XSAVE_XFEM_REGISTER = 8"
  "integer_view A HV_X64_XSAVE_XFEM_REGISTER = Some 8"
  by (cases "abi_ms_bits A", simp_all add: HV_X64_XSAVE_XFEM_REGISTER_def tlfs_eval tlfs_layout)

lemma HV_X64_XSAVE_HEADER_layout [tlfs_layout]:
  "csize A HV_X64_XSAVE_HEADER = 64" "calign A HV_X64_XSAVE_HEADER = 64"
  "integer_view A HV_X64_XSAVE_HEADER = None"
  by (simp_all add: HV_X64_XSAVE_HEADER_def tlfs_eval tlfs_layout)

lemma HV_X64_X_REGISTERS_layout [tlfs_layout]:
  "csize A HV_X64_X_REGISTERS = 2688" "calign A HV_X64_X_REGISTERS = 64"
  "integer_view A HV_X64_X_REGISTERS = None"
  by (simp_all add: HV_X64_X_REGISTERS_def tlfs_eval tlfs_layout)

lemma HV_X64_CONTEXT_layout [tlfs_layout]:
  "csize A HV_X64_CONTEXT = 3328" "calign A HV_X64_CONTEXT = 64"
  "integer_view A HV_X64_CONTEXT = None"
  by (simp_all add: HV_X64_CONTEXT_def tlfs_eval tlfs_layout)

lemma HV_ARM64_CONTEXT_layout [tlfs_layout]:
  "csize A HV_ARM64_CONTEXT = 960" "calign A HV_ARM64_CONTEXT = 16"
  "integer_view A HV_ARM64_CONTEXT = None"
  by (simp_all add: HV_ARM64_CONTEXT_def tlfs_eval tlfs_layout)

lemma HV_VP_CONTEXT_X64_layout [tlfs_layout]:
  "csize A (HV_VP_CONTEXT X64) = 3392" "calign A (HV_VP_CONTEXT X64) = 64"
  "integer_view A (HV_VP_CONTEXT X64) = None"
  by (simp_all add: HV_VP_CONTEXT_def tlfs_eval tlfs_layout)

lemma HV_VP_CONTEXT_ARM64_layout [tlfs_layout]:
  "csize A (HV_VP_CONTEXT ARM64) = 976" "calign A (HV_VP_CONTEXT ARM64) = 16"
  "integer_view A (HV_VP_CONTEXT ARM64) = None"
  by (simp_all add: HV_VP_CONTEXT_def tlfs_eval tlfs_layout)

lemma HV_STATISTICS_GROUP_TYPE_scalars [tlfs_layout]:
  "csize A HV_STATISTICS_GROUP_TYPE = 2" "calign A HV_STATISTICS_GROUP_TYPE = 2" "integer_view A HV_STATISTICS_GROUP_TYPE = None"
  "csize A HV_STATISTICS_GROUP_LENGTH = 2" "calign A HV_STATISTICS_GROUP_LENGTH = 2" "integer_view A HV_STATISTICS_GROUP_LENGTH = None"
  by (simp_all add: HV_STATISTICS_GROUP_TYPE_def HV_STATISTICS_GROUP_LENGTH_def tlfs_layout)

lemma HV_STATISTICS_GROUP_VERSION_layout [tlfs_layout]:
  "csize A HV_STATISTICS_GROUP_VERSION = 4" "calign A HV_STATISTICS_GROUP_VERSION = 2"
  "integer_view A HV_STATISTICS_GROUP_VERSION = None"
  by (simp_all add: HV_STATISTICS_GROUP_VERSION_def tlfs_eval tlfs_layout)

lemma HV_STATISTICS_GROUP_HEADER_layout [tlfs_layout]:
  "csize A HV_STATISTICS_GROUP_HEADER = 8" "calign A HV_STATISTICS_GROUP_HEADER = 2"
  "integer_view A HV_STATISTICS_GROUP_HEADER = None"
  by (simp_all add: HV_STATISTICS_GROUP_HEADER_def tlfs_eval tlfs_layout)

lemma HV_STATS_PAGE_X64_layout [tlfs_layout]:
  "csize A (HV_STATS_PAGE X64) = 4096" "calign A (HV_STATS_PAGE X64) = 8"
  "integer_view A (HV_STATS_PAGE X64) = None"
  by (simp_all add: HV_STATS_PAGE_def tlfs_eval tlfs_layout)

lemma HV_STATS_PAGE_ARM64_layout [tlfs_layout]:
  "csize A (HV_STATS_PAGE ARM64) = 4096" "calign A (HV_STATS_PAGE ARM64) = 8"
  "integer_view A (HV_STATS_PAGE ARM64) = None"
  by (simp_all add: HV_STATS_PAGE_def tlfs_eval tlfs_layout)

lemma HV_ST_MAP_LOCATION_layout [tlfs_layout]:
  "csize A HV_ST_MAP_LOCATION = 8" "calign A HV_ST_MAP_LOCATION = 8"
  "integer_view A HV_ST_MAP_LOCATION = Some 8"
  by (cases "abi_ms_bits A", simp_all add: HV_ST_MAP_LOCATION_def tlfs_eval tlfs_layout)

lemma HV_TIME_STAMP_scalars [tlfs_layout]:
  "csize A HV_TIME_STAMP = 8" "calign A HV_TIME_STAMP = 8" "integer_view A HV_TIME_STAMP = None"
  "csize A HV_LOGICAL_PROCESSOR_INDEX = 4" "calign A HV_LOGICAL_PROCESSOR_INDEX = 4" "integer_view A HV_LOGICAL_PROCESSOR_INDEX = None"
  "csize A HV_INTERRUPT_VECTOR = 4" "calign A HV_INTERRUPT_VECTOR = 4" "integer_view A HV_INTERRUPT_VECTOR = None"
  "csize A HV_PROXIMITY_DOMAIN_ID = 4" "calign A HV_PROXIMITY_DOMAIN_ID = 4" "integer_view A HV_PROXIMITY_DOMAIN_ID = None"
  by (simp_all add: HV_TIME_STAMP_def HV_LOGICAL_PROCESSOR_INDEX_def HV_INTERRUPT_VECTOR_def HV_PROXIMITY_DOMAIN_ID_def tlfs_layout)

lemma HV_PROXIMITY_DOMAIN_FLAGS_layout [tlfs_layout]:
  "csize A HV_PROXIMITY_DOMAIN_FLAGS = 4" "calign A HV_PROXIMITY_DOMAIN_FLAGS = 4"
  "integer_view A HV_PROXIMITY_DOMAIN_FLAGS = None"
  by (cases "abi_ms_bits A", simp_all add: HV_PROXIMITY_DOMAIN_FLAGS_def tlfs_eval tlfs_layout)

lemma HV_PROXIMITY_DOMAIN_INFO_layout [tlfs_layout]:
  "csize A HV_PROXIMITY_DOMAIN_INFO = 8" "calign A HV_PROXIMITY_DOMAIN_INFO = 4"
  "integer_view A HV_PROXIMITY_DOMAIN_INFO = None"
  by (simp_all add: HV_PROXIMITY_DOMAIN_INFO_def tlfs_eval tlfs_layout)

lemma HV_PROCESSOR_HW_ID_scalars [tlfs_layout]:
  "csize A HV_PROCESSOR_HW_ID = 8" "calign A HV_PROCESSOR_HW_ID = 8" "integer_view A HV_PROCESSOR_HW_ID = None"
  by (simp_all add: HV_PROCESSOR_HW_ID_def tlfs_layout)

lemma HV_PROCESSOR_INFO_X64_layout [tlfs_layout]:
  "csize A (HV_PROCESSOR_INFO X64) = 8" "calign A (HV_PROCESSOR_INFO X64) = 4"
  "integer_view A (HV_PROCESSOR_INFO X64) = None"
  by (simp_all add: HV_PROCESSOR_INFO_def tlfs_eval tlfs_layout)

lemma HV_PROCESSOR_INFO_ARM64_layout [tlfs_layout]:
  "csize A (HV_PROCESSOR_INFO ARM64) = 16" "calign A (HV_PROCESSOR_INFO ARM64) = 8"
  "integer_view A (HV_PROCESSOR_INFO ARM64) = None"
  by (simp_all add: HV_PROCESSOR_INFO_def tlfs_eval tlfs_layout)

lemma HV_MEMORY_RANGE_INFO_layout [tlfs_layout]:
  "csize A HV_MEMORY_RANGE_INFO = 24" "calign A HV_MEMORY_RANGE_INFO = 8"
  "integer_view A HV_MEMORY_RANGE_INFO = None"
  by (cases "abi_ms_bits A", simp_all add: HV_MEMORY_RANGE_INFO_def tlfs_eval tlfs_layout)

lemma HV_EVENTLOG_ENTRY_TIME_layout [tlfs_layout]:
  "csize A HV_EVENTLOG_ENTRY_TIME = 8" "calign A HV_EVENTLOG_ENTRY_TIME = 8"
  "integer_view A HV_EVENTLOG_ENTRY_TIME = None"
  by (simp_all add: HV_EVENTLOG_ENTRY_TIME_def tlfs_eval tlfs_layout)

lemma HV_EVENTLOG_BUFFER_HEADER_layout [tlfs_layout]:
  "csize A HV_EVENTLOG_BUFFER_HEADER = 72" "calign A HV_EVENTLOG_BUFFER_HEADER = 8"
  "integer_view A HV_EVENTLOG_BUFFER_HEADER = None"
  by (simp_all add: HV_EVENTLOG_BUFFER_HEADER_def tlfs_eval tlfs_layout)

lemma HV_EVENTLOG_ENTRY_HEADER_layout [tlfs_layout]:
  "csize A HV_EVENTLOG_ENTRY_HEADER = 16" "calign A HV_EVENTLOG_ENTRY_HEADER = 8"
  "integer_view A HV_EVENTLOG_ENTRY_HEADER = None"
  by (simp_all add: HV_EVENTLOG_ENTRY_HEADER_def tlfs_eval tlfs_layout)

lemma HV_PHYSICAL_NODE_INDEX_scalars [tlfs_layout]:
  "csize A HV_PHYSICAL_NODE_INDEX = 4" "calign A HV_PHYSICAL_NODE_INDEX = 4" "integer_view A HV_PHYSICAL_NODE_INDEX = None"
  "csize A HV_SAVE_RESTORE_STATE_FLAGS = 4" "calign A HV_SAVE_RESTORE_STATE_FLAGS = 4" "integer_view A HV_SAVE_RESTORE_STATE_FLAGS = None"
  by (simp_all add: HV_PHYSICAL_NODE_INDEX_def HV_SAVE_RESTORE_STATE_FLAGS_def tlfs_layout)

lemma HV_PARTITION_PRIVILEGE_MASK_PRIVATE_layout [tlfs_layout]:
  "csize A HV_PARTITION_PRIVILEGE_MASK_PRIVATE = 8" "calign A HV_PARTITION_PRIVILEGE_MASK_PRIVATE = 8"
  "integer_view A HV_PARTITION_PRIVILEGE_MASK_PRIVATE = Some 8"
  by (cases "abi_ms_bits A", simp_all add: HV_PARTITION_PRIVILEGE_MASK_PRIVATE_def tlfs_eval tlfs_layout)

lemma HV_PARTITION_PROCESSOR_FEATURES_X64_layout [tlfs_layout]:
  "csize A (HV_PARTITION_PROCESSOR_FEATURES X64) = 16" "calign A (HV_PARTITION_PROCESSOR_FEATURES X64) = 8"
  "integer_view A (HV_PARTITION_PROCESSOR_FEATURES X64) = Some 16"
  by (cases "abi_ms_bits A", simp_all add: HV_PARTITION_PROCESSOR_FEATURES_def tlfs_eval tlfs_layout)

lemma HV_PARTITION_PROCESSOR_FEATURES_ARM64_layout [tlfs_layout]:
  "csize A (HV_PARTITION_PROCESSOR_FEATURES ARM64) = 16" "calign A (HV_PARTITION_PROCESSOR_FEATURES ARM64) = 8"
  "integer_view A (HV_PARTITION_PROCESSOR_FEATURES ARM64) = Some 8"
  by (cases "abi_ms_bits A", simp_all add: HV_PARTITION_PROCESSOR_FEATURES_def tlfs_eval tlfs_layout)

lemma HV_PARTITION_PROCESSOR_XSAVE_FEATURES_X64_layout [tlfs_layout]:
  "csize A (HV_PARTITION_PROCESSOR_XSAVE_FEATURES X64) = 8" "calign A (HV_PARTITION_PROCESSOR_XSAVE_FEATURES X64) = 8"
  "integer_view A (HV_PARTITION_PROCESSOR_XSAVE_FEATURES X64) = Some 8"
  by (cases "abi_ms_bits A", simp_all add: HV_PARTITION_PROCESSOR_XSAVE_FEATURES_def tlfs_eval tlfs_layout)

lemma HV_PARTITION_PROCESSOR_XSAVE_FEATURES_ARM64_layout [tlfs_layout]:
  "csize A (HV_PARTITION_PROCESSOR_XSAVE_FEATURES ARM64) = 8" "calign A (HV_PARTITION_PROCESSOR_XSAVE_FEATURES ARM64) = 8"
  "integer_view A (HV_PARTITION_PROCESSOR_XSAVE_FEATURES ARM64) = Some 8"
  by (cases "abi_ms_bits A", simp_all add: HV_PARTITION_PROCESSOR_XSAVE_FEATURES_def tlfs_eval tlfs_layout)

lemma HV_EXPLICIT_SUSPEND_REGISTER_layout [tlfs_layout]:
  "csize A HV_EXPLICIT_SUSPEND_REGISTER = 8" "calign A HV_EXPLICIT_SUSPEND_REGISTER = 8"
  "integer_view A HV_EXPLICIT_SUSPEND_REGISTER = Some 8"
  by (cases "abi_ms_bits A", simp_all add: HV_EXPLICIT_SUSPEND_REGISTER_def tlfs_eval tlfs_layout)

lemma HV_INTERCEPT_SUSPEND_REGISTER_X64_layout [tlfs_layout]:
  "csize A (HV_INTERCEPT_SUSPEND_REGISTER X64) = 8" "calign A (HV_INTERCEPT_SUSPEND_REGISTER X64) = 8"
  "integer_view A (HV_INTERCEPT_SUSPEND_REGISTER X64) = Some 8"
  by (cases "abi_ms_bits A", simp_all add: HV_INTERCEPT_SUSPEND_REGISTER_def tlfs_eval tlfs_layout)

lemma HV_INTERCEPT_SUSPEND_REGISTER_ARM64_layout [tlfs_layout]:
  "csize A (HV_INTERCEPT_SUSPEND_REGISTER ARM64) = 8" "calign A (HV_INTERCEPT_SUSPEND_REGISTER ARM64) = 8"
  "integer_view A (HV_INTERCEPT_SUSPEND_REGISTER ARM64) = Some 8"
  by (cases "abi_ms_bits A", simp_all add: HV_INTERCEPT_SUSPEND_REGISTER_def tlfs_eval tlfs_layout)

lemma HV_DISPATCH_SUSPEND_REGISTER_layout [tlfs_layout]:
  "csize A HV_DISPATCH_SUSPEND_REGISTER = 8" "calign A HV_DISPATCH_SUSPEND_REGISTER = 8"
  "integer_view A HV_DISPATCH_SUSPEND_REGISTER = Some 8"
  by (cases "abi_ms_bits A", simp_all add: HV_DISPATCH_SUSPEND_REGISTER_def tlfs_eval tlfs_layout)

lemma HV_X64_INTERRUPT_STATE_REGISTER_layout [tlfs_layout]:
  "csize A HV_X64_INTERRUPT_STATE_REGISTER = 8" "calign A HV_X64_INTERRUPT_STATE_REGISTER = 8"
  "integer_view A HV_X64_INTERRUPT_STATE_REGISTER = Some 8"
  by (cases "abi_ms_bits A", simp_all add: HV_X64_INTERRUPT_STATE_REGISTER_def tlfs_eval tlfs_layout)

lemma HV_X64_PENDING_INTERRUPTION_REGISTER_layout [tlfs_layout]:
  "csize A HV_X64_PENDING_INTERRUPTION_REGISTER = 8" "calign A HV_X64_PENDING_INTERRUPTION_REGISTER = 8"
  "integer_view A HV_X64_PENDING_INTERRUPTION_REGISTER = Some 8"
  by (cases "abi_ms_bits A", simp_all add: HV_X64_PENDING_INTERRUPTION_REGISTER_def tlfs_eval tlfs_layout)

lemma HV_X64_MSR_NPIEP_CONFIG_CONTENTS_layout [tlfs_layout]:
  "csize A HV_X64_MSR_NPIEP_CONFIG_CONTENTS = 8" "calign A HV_X64_MSR_NPIEP_CONFIG_CONTENTS = 8"
  "integer_view A HV_X64_MSR_NPIEP_CONFIG_CONTENTS = Some 8"
  by (cases "abi_ms_bits A", simp_all add: HV_X64_MSR_NPIEP_CONFIG_CONTENTS_def tlfs_eval tlfs_layout)

lemma HV_X64_PENDING_EXCEPTION_EVENT_layout [tlfs_layout]:
  "csize A HV_X64_PENDING_EXCEPTION_EVENT = 16" "calign A HV_X64_PENDING_EXCEPTION_EVENT = 8"
  "integer_view A HV_X64_PENDING_EXCEPTION_EVENT = Some 16"
  by (cases "abi_ms_bits A", simp_all add: HV_X64_PENDING_EXCEPTION_EVENT_def tlfs_eval tlfs_layout)

lemma HV_ARM64_PENDING_EXCEPTION_EVENT_layout [tlfs_layout]:
  "csize A HV_ARM64_PENDING_EXCEPTION_EVENT = 24" "calign A HV_ARM64_PENDING_EXCEPTION_EVENT = 8"
  "integer_view A HV_ARM64_PENDING_EXCEPTION_EVENT = Some 24"
  by (cases "abi_ms_bits A", simp_all add: HV_ARM64_PENDING_EXCEPTION_EVENT_def tlfs_eval tlfs_layout)

lemma HV_X64_PENDING_VIRTUALIZATION_FAULT_EVENT_layout [tlfs_layout]:
  "csize A HV_X64_PENDING_VIRTUALIZATION_FAULT_EVENT = 16" "calign A HV_X64_PENDING_VIRTUALIZATION_FAULT_EVENT = 8"
  "integer_view A HV_X64_PENDING_VIRTUALIZATION_FAULT_EVENT = Some 16"
  by (cases "abi_ms_bits A", simp_all add: HV_X64_PENDING_VIRTUALIZATION_FAULT_EVENT_def tlfs_eval tlfs_layout)

lemma HV_ARM64_PENDING_INTERRUPTION_REGISTER_layout [tlfs_layout]:
  "csize A HV_ARM64_PENDING_INTERRUPTION_REGISTER = 8" "calign A HV_ARM64_PENDING_INTERRUPTION_REGISTER = 8"
  "integer_view A HV_ARM64_PENDING_INTERRUPTION_REGISTER = Some 8"
  by (cases "abi_ms_bits A", simp_all add: HV_ARM64_PENDING_INTERRUPTION_REGISTER_def tlfs_eval tlfs_layout)

lemma HV_ARM64_INTERRUPT_STATE_REGISTER_layout [tlfs_layout]:
  "csize A HV_ARM64_INTERRUPT_STATE_REGISTER = 8" "calign A HV_ARM64_INTERRUPT_STATE_REGISTER = 8"
  "integer_view A HV_ARM64_INTERRUPT_STATE_REGISTER = Some 8"
  by (cases "abi_ms_bits A", simp_all add: HV_ARM64_INTERRUPT_STATE_REGISTER_def tlfs_eval tlfs_layout)

lemma HV_ARM64_PENDING_SYNTHETIC_EXCEPTION_EVENT_layout [tlfs_layout]:
  "csize A HV_ARM64_PENDING_SYNTHETIC_EXCEPTION_EVENT = 16" "calign A HV_ARM64_PENDING_SYNTHETIC_EXCEPTION_EVENT = 8"
  "integer_view A HV_ARM64_PENDING_SYNTHETIC_EXCEPTION_EVENT = Some 16"
  by (cases "abi_ms_bits A", simp_all add: HV_ARM64_PENDING_SYNTHETIC_EXCEPTION_EVENT_def tlfs_eval tlfs_layout)

lemma HV_REGISTER_VALUE_PRIVATE_X64_layout [tlfs_layout]:
  "csize A (HV_REGISTER_VALUE_PRIVATE X64) = 16" "calign A (HV_REGISTER_VALUE_PRIVATE X64) = 16"
  "integer_view A (HV_REGISTER_VALUE_PRIVATE X64) = None"
  by (simp_all add: HV_REGISTER_VALUE_PRIVATE_def tlfs_eval tlfs_layout)

lemma HV_REGISTER_VALUE_PRIVATE_ARM64_layout [tlfs_layout]:
  "csize A (HV_REGISTER_VALUE_PRIVATE ARM64) = 16" "calign A (HV_REGISTER_VALUE_PRIVATE ARM64) = 8"
  "integer_view A (HV_REGISTER_VALUE_PRIVATE ARM64) = None"
  by (simp_all add: HV_REGISTER_VALUE_PRIVATE_def tlfs_eval tlfs_layout)

lemma HV_INTERCEPT_ACCESS_TYPE_MASK_scalars [tlfs_layout]:
  "csize A HV_INTERCEPT_ACCESS_TYPE_MASK = 4" "calign A HV_INTERCEPT_ACCESS_TYPE_MASK = 4" "integer_view A HV_INTERCEPT_ACCESS_TYPE_MASK = None"
  "csize A HV_X64_IO_PORT = 2" "calign A HV_X64_IO_PORT = 2" "integer_view A HV_X64_IO_PORT = None"
  by (simp_all add: HV_INTERCEPT_ACCESS_TYPE_MASK_def HV_X64_IO_PORT_def tlfs_layout)

lemma HV_INTERCEPT_PARAMETERS_X64_layout [tlfs_layout]:
  "csize A (HV_INTERCEPT_PARAMETERS X64) = 8" "calign A (HV_INTERCEPT_PARAMETERS X64) = 8"
  "integer_view A (HV_INTERCEPT_PARAMETERS X64) = Some 8"
  by (simp_all add: HV_INTERCEPT_PARAMETERS_def tlfs_eval tlfs_layout)

lemma HV_INTERCEPT_PARAMETERS_ARM64_layout [tlfs_layout]:
  "csize A (HV_INTERCEPT_PARAMETERS ARM64) = 8" "calign A (HV_INTERCEPT_PARAMETERS ARM64) = 8"
  "integer_view A (HV_INTERCEPT_PARAMETERS ARM64) = Some 8"
  by (simp_all add: HV_INTERCEPT_PARAMETERS_def tlfs_eval tlfs_layout)

lemma HV_INTERCEPT_PARAMETERS_EX_layout [tlfs_layout]:
  "csize A HV_INTERCEPT_PARAMETERS_EX = 128" "calign A HV_INTERCEPT_PARAMETERS_EX = 8"
  "integer_view A HV_INTERCEPT_PARAMETERS_EX = None"
  by (simp_all add: HV_INTERCEPT_PARAMETERS_EX_def tlfs_eval tlfs_layout)

lemma HV_INTERCEPT_DESCRIPTOR_X64_layout [tlfs_layout]:
  "csize A (HV_INTERCEPT_DESCRIPTOR X64) = 16" "calign A (HV_INTERCEPT_DESCRIPTOR X64) = 8"
  "integer_view A (HV_INTERCEPT_DESCRIPTOR X64) = None"
  by (simp_all add: HV_INTERCEPT_DESCRIPTOR_def tlfs_eval tlfs_layout)

lemma HV_INTERCEPT_DESCRIPTOR_ARM64_layout [tlfs_layout]:
  "csize A (HV_INTERCEPT_DESCRIPTOR ARM64) = 16" "calign A (HV_INTERCEPT_DESCRIPTOR ARM64) = 8"
  "integer_view A (HV_INTERCEPT_DESCRIPTOR ARM64) = None"
  by (simp_all add: HV_INTERCEPT_DESCRIPTOR_def tlfs_eval tlfs_layout)

lemma HV_FLUSH_FLAGS_scalars [tlfs_layout]:
  "csize A HV_FLUSH_FLAGS = 8" "calign A HV_FLUSH_FLAGS = 8" "integer_view A HV_FLUSH_FLAGS = None"
  "csize A HV_TRANSLATE_GVA_CONTROL_FLAGS = 8" "calign A HV_TRANSLATE_GVA_CONTROL_FLAGS = 8" "integer_view A HV_TRANSLATE_GVA_CONTROL_FLAGS = None"
  by (simp_all add: HV_FLUSH_FLAGS_def HV_TRANSLATE_GVA_CONTROL_FLAGS_def tlfs_layout)

lemma HV_TRANSLATE_GVA_RESULT_layout [tlfs_layout]:
  "csize A HV_TRANSLATE_GVA_RESULT = 8" "calign A HV_TRANSLATE_GVA_RESULT = 8"
  "integer_view A HV_TRANSLATE_GVA_RESULT = Some 8"
  by (cases "abi_ms_bits A", simp_all add: HV_TRANSLATE_GVA_RESULT_def tlfs_eval tlfs_layout)

lemma HV_INPUT_VTL_layout [tlfs_layout]:
  "csize A HV_INPUT_VTL = 1" "calign A HV_INPUT_VTL = 1"
  "integer_view A HV_INPUT_VTL = Some 1"
  by (cases "abi_ms_bits A", simp_all add: HV_INPUT_VTL_def tlfs_eval tlfs_layout)

lemma HV_ACCESS_GPA_CONTROL_FLAGS_layout [tlfs_layout]:
  "csize A HV_ACCESS_GPA_CONTROL_FLAGS = 8" "calign A HV_ACCESS_GPA_CONTROL_FLAGS = 8"
  "integer_view A HV_ACCESS_GPA_CONTROL_FLAGS = Some 8"
  by (simp_all add: HV_ACCESS_GPA_CONTROL_FLAGS_def tlfs_eval tlfs_layout)

lemma HV_ACCESS_GPA_RESULT_layout [tlfs_layout]:
  "csize A HV_ACCESS_GPA_RESULT = 8" "calign A HV_ACCESS_GPA_RESULT = 8"
  "integer_view A HV_ACCESS_GPA_RESULT = Some 8"
  by (simp_all add: HV_ACCESS_GPA_RESULT_def tlfs_eval tlfs_layout)

lemma HV_GVA_RANGE_SIMPLE_layout [tlfs_layout]:
  "csize A HV_GVA_RANGE_SIMPLE = 8" "calign A HV_GVA_RANGE_SIMPLE = 8"
  "integer_view A HV_GVA_RANGE_SIMPLE = Some 8"
  by (cases "abi_ms_bits A", simp_all add: HV_GVA_RANGE_SIMPLE_def tlfs_eval tlfs_layout)

lemma HV_GVA_RANGE_EXTENDED_layout [tlfs_layout]:
  "csize A HV_GVA_RANGE_EXTENDED = 16" "calign A HV_GVA_RANGE_EXTENDED = 8"
  "integer_view A HV_GVA_RANGE_EXTENDED = Some 8"
  by (cases "abi_ms_bits A", simp_all add: HV_GVA_RANGE_EXTENDED_def tlfs_eval tlfs_layout)

lemma HV_GVA_RANGE_layout [tlfs_layout]:
  "csize A HV_GVA_RANGE = 16" "calign A HV_GVA_RANGE = 8"
  "integer_view A HV_GVA_RANGE = Some 8"
  by (simp_all add: HV_GVA_RANGE_def tlfs_eval tlfs_layout)

lemma HV_X64_APIC_EOI_MESSAGE_layout [tlfs_layout]:
  "csize A HV_X64_APIC_EOI_MESSAGE = 8" "calign A HV_X64_APIC_EOI_MESSAGE = 4"
  "integer_view A HV_X64_APIC_EOI_MESSAGE = None"
  by (simp_all add: HV_X64_APIC_EOI_MESSAGE_def tlfs_eval tlfs_layout)

lemma HV_PORT_INFO_layout [tlfs_layout]:
  "csize A HV_PORT_INFO = 24" "calign A HV_PORT_INFO = 8"
  "integer_view A HV_PORT_INFO = None"
  by (simp_all add: HV_PORT_INFO_def tlfs_eval tlfs_layout)

lemma HV_CONNECTION_INFO_layout [tlfs_layout]:
  "csize A HV_CONNECTION_INFO = 32" "calign A HV_CONNECTION_INFO = 8"
  "integer_view A HV_CONNECTION_INFO = None"
  by (simp_all add: HV_CONNECTION_INFO_def tlfs_eval tlfs_layout)

lemma HV_PORT_PROPERTY_scalars [tlfs_layout]:
  "csize A HV_PORT_PROPERTY = 8" "calign A HV_PORT_PROPERTY = 8" "integer_view A HV_PORT_PROPERTY = None"
  by (simp_all add: HV_PORT_PROPERTY_def tlfs_layout)

lemma HV_MESSAGE_HEADER_PRIVATE_layout [tlfs_layout]:
  "csize A HV_MESSAGE_HEADER_PRIVATE = 16" "calign A HV_MESSAGE_HEADER_PRIVATE = 8"
  "integer_view A HV_MESSAGE_HEADER_PRIVATE = None"
  by (simp_all add: HV_MESSAGE_HEADER_PRIVATE_def tlfs_eval tlfs_layout)

lemma HV_FAULT_DEVICE_ID_layout [tlfs_layout]:
  "csize A HV_FAULT_DEVICE_ID = 8" "calign A HV_FAULT_DEVICE_ID = 8"
  "integer_view A HV_FAULT_DEVICE_ID = Some 8"
  by (simp_all add: HV_FAULT_DEVICE_ID_def tlfs_eval tlfs_layout)

lemma HV_IOMMU_FAULT_MESSAGE_PAYLOAD_PRIVATE_layout [tlfs_layout]:
  "csize A HV_IOMMU_FAULT_MESSAGE_PAYLOAD_PRIVATE = 48" "calign A HV_IOMMU_FAULT_MESSAGE_PAYLOAD_PRIVATE = 8"
  "integer_view A HV_IOMMU_FAULT_MESSAGE_PAYLOAD_PRIVATE = None"
  by (cases "abi_ms_bits A", simp_all add: HV_IOMMU_FAULT_MESSAGE_PAYLOAD_PRIVATE_def tlfs_eval tlfs_layout)

lemma HV_SINT_NOTIFICATION_MESSAGE_PAYLOAD_layout [tlfs_layout]:
  "csize A HV_SINT_NOTIFICATION_MESSAGE_PAYLOAD = 4" "calign A HV_SINT_NOTIFICATION_MESSAGE_PAYLOAD = 4"
  "integer_view A HV_SINT_NOTIFICATION_MESSAGE_PAYLOAD = None"
  by (simp_all add: HV_SINT_NOTIFICATION_MESSAGE_PAYLOAD_def tlfs_eval tlfs_layout)

lemma HV_MESSAGE_PRIVATE_layout [tlfs_layout]:
  "csize A HV_MESSAGE_PRIVATE = 64" "calign A HV_MESSAGE_PRIVATE = 16"
  "integer_view A HV_MESSAGE_PRIVATE = None"
  by (simp_all add: HV_MESSAGE_PRIVATE_def tlfs_eval tlfs_layout)

lemma HV_X64_MSR_APIC_ASSIST_CONTENTS_layout [tlfs_layout]:
  "csize A HV_X64_MSR_APIC_ASSIST_CONTENTS = 8" "calign A HV_X64_MSR_APIC_ASSIST_CONTENTS = 8"
  "integer_view A HV_X64_MSR_APIC_ASSIST_CONTENTS = Some 8"
  by (cases "abi_ms_bits A", simp_all add: HV_X64_MSR_APIC_ASSIST_CONTENTS_def tlfs_eval tlfs_layout)

lemma HV_VIRTUAL_APIC_ASSIST_layout [tlfs_layout]:
  "csize A HV_VIRTUAL_APIC_ASSIST = 4" "calign A HV_VIRTUAL_APIC_ASSIST = 4"
  "integer_view A HV_VIRTUAL_APIC_ASSIST = None"
  by (cases "abi_ms_bits A", simp_all add: HV_VIRTUAL_APIC_ASSIST_def tlfs_eval tlfs_layout)

lemma HV_INTERRUPT_CONTROL_X64_layout [tlfs_layout]:
  "csize A (HV_INTERRUPT_CONTROL X64) = 16" "calign A (HV_INTERRUPT_CONTROL X64) = 8"
  "integer_view A (HV_INTERRUPT_CONTROL X64) = None"
  by (cases "abi_ms_bits A", simp_all add: HV_INTERRUPT_CONTROL_def tlfs_eval tlfs_layout)

lemma HV_INTERRUPT_CONTROL_ARM64_layout [tlfs_layout]:
  "csize A (HV_INTERRUPT_CONTROL ARM64) = 16" "calign A (HV_INTERRUPT_CONTROL ARM64) = 8"
  "integer_view A (HV_INTERRUPT_CONTROL ARM64) = None"
  by (cases "abi_ms_bits A", simp_all add: HV_INTERRUPT_CONTROL_def tlfs_eval tlfs_layout)

lemma HV_EMULATED_TIMER_PERIOD_layout [tlfs_layout]:
  "csize A HV_EMULATED_TIMER_PERIOD = 8" "calign A HV_EMULATED_TIMER_PERIOD = 8"
  "integer_view A HV_EMULATED_TIMER_PERIOD = Some 8"
  by (simp_all add: HV_EMULATED_TIMER_PERIOD_def tlfs_eval tlfs_layout)

lemma HV_EMULATED_TIMER_CONTROL_layout [tlfs_layout]:
  "csize A HV_EMULATED_TIMER_CONTROL = 8" "calign A HV_EMULATED_TIMER_CONTROL = 8"
  "integer_view A HV_EMULATED_TIMER_CONTROL = Some 8"
  by (cases "abi_ms_bits A", simp_all add: HV_EMULATED_TIMER_CONTROL_def tlfs_eval tlfs_layout)

lemma HV_PM_TIMER_INFO_layout [tlfs_layout]:
  "csize A HV_PM_TIMER_INFO = 8" "calign A HV_PM_TIMER_INFO = 8"
  "integer_view A HV_PM_TIMER_INFO = Some 8"
  by (cases "abi_ms_bits A", simp_all add: HV_PM_TIMER_INFO_def tlfs_eval tlfs_layout)

lemma HV_MONITOR_TRIGGER_GROUP_layout [tlfs_layout]:
  "csize A HV_MONITOR_TRIGGER_GROUP = 8" "calign A HV_MONITOR_TRIGGER_GROUP = 8"
  "integer_view A HV_MONITOR_TRIGGER_GROUP = Some 8"
  by (simp_all add: HV_MONITOR_TRIGGER_GROUP_def tlfs_eval tlfs_layout)

lemma HV_MONITOR_PARAMETER_layout [tlfs_layout]:
  "csize A HV_MONITOR_PARAMETER = 8" "calign A HV_MONITOR_PARAMETER = 4"
  "integer_view A HV_MONITOR_PARAMETER = None"
  by (simp_all add: HV_MONITOR_PARAMETER_def tlfs_eval tlfs_layout)

lemma HV_MONITOR_TRIGGER_STATE_layout [tlfs_layout]:
  "csize A HV_MONITOR_TRIGGER_STATE = 4" "calign A HV_MONITOR_TRIGGER_STATE = 4"
  "integer_view A HV_MONITOR_TRIGGER_STATE = Some 4"
  by (cases "abi_ms_bits A", simp_all add: HV_MONITOR_TRIGGER_STATE_def tlfs_eval tlfs_layout)

lemma HV_MONITOR_PAGE_layout [tlfs_layout]:
  "csize A HV_MONITOR_PAGE = 4096" "calign A HV_MONITOR_PAGE = 8"
  "integer_view A HV_MONITOR_PAGE = None"
  by (simp_all add: HV_MONITOR_PAGE_def tlfs_eval tlfs_layout)

lemma HV_DEBUG_CHANNEL_IDENTIFIER_scalars [tlfs_layout]:
  "csize A HV_DEBUG_CHANNEL_IDENTIFIER = 2" "calign A HV_DEBUG_CHANNEL_IDENTIFIER = 2" "integer_view A HV_DEBUG_CHANNEL_IDENTIFIER = None"
  "csize A HV_DEBUG_OPTIONS = 4" "calign A HV_DEBUG_OPTIONS = 4" "integer_view A HV_DEBUG_OPTIONS = None"
  by (simp_all add: HV_DEBUG_CHANNEL_IDENTIFIER_def HV_DEBUG_OPTIONS_def tlfs_layout)

lemma HV_MUX_PACKET_HEADER_layout [tlfs_layout]:
  "csize A HV_MUX_PACKET_HEADER = 16" "calign A HV_MUX_PACKET_HEADER = 1"
  "integer_view A HV_MUX_PACKET_HEADER = None"
  by (simp_all add: HV_MUX_PACKET_HEADER_def tlfs_eval tlfs_layout)

lemma MUX_CHANNEL_DATA_layout [tlfs_layout]:
  "csize A MUX_CHANNEL_DATA = 6" "calign A MUX_CHANNEL_DATA = 1"
  "integer_view A MUX_CHANNEL_DATA = None"
  by (simp_all add: MUX_CHANNEL_DATA_def tlfs_eval tlfs_layout)

lemma HV_CRASHDUMP_AREA_V1_layout [tlfs_layout]:
  "csize sysv HV_CRASHDUMP_AREA_V1 = 192" "csize msvc HV_CRASHDUMP_AREA_V1 = 192"
  "calign sysv HV_CRASHDUMP_AREA_V1 = 8" "calign msvc HV_CRASHDUMP_AREA_V1 = 8"
  "integer_view sysv HV_CRASHDUMP_AREA_V1 = None" "integer_view msvc HV_CRASHDUMP_AREA_V1 = None"
  by (simp_all add: HV_CRASHDUMP_AREA_V1_def tlfs_eval tlfs_layout interface_layout)

lemma HV_CRASHDUMP_PROCESSOR_STATE_layout [tlfs_layout]:
  "csize A HV_CRASHDUMP_PROCESSOR_STATE = 32" "calign A HV_CRASHDUMP_PROCESSOR_STATE = 8"
  "integer_view A HV_CRASHDUMP_PROCESSOR_STATE = None"
  by (simp_all add: HV_CRASHDUMP_PROCESSOR_STATE_def tlfs_eval tlfs_layout)

lemma HV_CRASHDUMP_AREA_V2_layout [tlfs_layout]:
  "csize A HV_CRASHDUMP_AREA_V2 = 744" "calign A HV_CRASHDUMP_AREA_V2 = 8"
  "integer_view A HV_CRASHDUMP_AREA_V2 = None"
  by (cases "abi_ms_bits A", simp_all add: HV_CRASHDUMP_AREA_V2_def tlfs_eval tlfs_layout)

lemma HV_CRASHDUMP_AREA_V3_layout [tlfs_layout]:
  "csize A HV_CRASHDUMP_AREA_V3 = 760" "calign A HV_CRASHDUMP_AREA_V3 = 8"
  "integer_view A HV_CRASHDUMP_AREA_V3 = None"
  by (cases "abi_ms_bits A", simp_all add: HV_CRASHDUMP_AREA_V3_def tlfs_eval tlfs_layout)

lemma HV_CRASHDUMP_AREA_V4_layout [tlfs_layout]:
  "csize A HV_CRASHDUMP_AREA_V4 = 760" "calign A HV_CRASHDUMP_AREA_V4 = 8"
  "integer_view A HV_CRASHDUMP_AREA_V4 = None"
  by (cases "abi_ms_bits A", simp_all add: HV_CRASHDUMP_AREA_V4_def tlfs_eval tlfs_layout)

lemma HV_CRASHDUMP_AREA_layout [tlfs_layout]:
  "csize A HV_CRASHDUMP_AREA = 800" "calign A HV_CRASHDUMP_AREA = 8"
  "integer_view A HV_CRASHDUMP_AREA = None"
  by (cases "abi_ms_bits A", simp_all add: HV_CRASHDUMP_AREA_def tlfs_eval tlfs_layout)

lemma HV_X64_VP_EXECUTION_STATE_layout [tlfs_layout]:
  "csize A HV_X64_VP_EXECUTION_STATE = 2" "calign A HV_X64_VP_EXECUTION_STATE = 2"
  "integer_view A HV_X64_VP_EXECUTION_STATE = Some 2"
  by (cases "abi_ms_bits A", simp_all add: HV_X64_VP_EXECUTION_STATE_def tlfs_eval tlfs_layout)

lemma HV_ARM64_VP_EXECUTION_STATE_layout [tlfs_layout]:
  "csize A HV_ARM64_VP_EXECUTION_STATE = 2" "calign A HV_ARM64_VP_EXECUTION_STATE = 2"
  "integer_view A HV_ARM64_VP_EXECUTION_STATE = Some 2"
  by (cases "abi_ms_bits A", simp_all add: HV_ARM64_VP_EXECUTION_STATE_def tlfs_eval tlfs_layout)

lemma HV_X64_INTERCEPT_MESSAGE_HEADER_layout [tlfs_layout]:
  "csize A HV_X64_INTERCEPT_MESSAGE_HEADER = 40" "calign A HV_X64_INTERCEPT_MESSAGE_HEADER = 8"
  "integer_view A HV_X64_INTERCEPT_MESSAGE_HEADER = None"
  by (cases "abi_ms_bits A", simp_all add: HV_X64_INTERCEPT_MESSAGE_HEADER_def tlfs_eval tlfs_layout)

lemma HV_ARM64_INTERCEPT_MESSAGE_HEADER_layout [tlfs_layout]:
  "csize A HV_ARM64_INTERCEPT_MESSAGE_HEADER = 24" "calign A HV_ARM64_INTERCEPT_MESSAGE_HEADER = 8"
  "integer_view A HV_ARM64_INTERCEPT_MESSAGE_HEADER = None"
  by (simp_all add: HV_ARM64_INTERCEPT_MESSAGE_HEADER_def tlfs_eval tlfs_layout)

lemma HV_X64_MEMORY_ACCESS_INFO_layout [tlfs_layout]:
  "csize A HV_X64_MEMORY_ACCESS_INFO = 1" "calign A HV_X64_MEMORY_ACCESS_INFO = 1"
  "integer_view A HV_X64_MEMORY_ACCESS_INFO = Some 1"
  by (cases "abi_ms_bits A", simp_all add: HV_X64_MEMORY_ACCESS_INFO_def tlfs_eval tlfs_layout)

lemma HV_ARM64_MEMORY_ACCESS_INFO_layout [tlfs_layout]:
  "csize A HV_ARM64_MEMORY_ACCESS_INFO = 1" "calign A HV_ARM64_MEMORY_ACCESS_INFO = 1"
  "integer_view A HV_ARM64_MEMORY_ACCESS_INFO = Some 1"
  by (cases "abi_ms_bits A", simp_all add: HV_ARM64_MEMORY_ACCESS_INFO_def tlfs_eval tlfs_layout)

lemma HV_X64_MEMORY_INTERCEPT_MESSAGE_layout [tlfs_layout]:
  "csize A HV_X64_MEMORY_INTERCEPT_MESSAGE = 240" "calign A HV_X64_MEMORY_INTERCEPT_MESSAGE = 8"
  "integer_view A HV_X64_MEMORY_INTERCEPT_MESSAGE = None"
  by (simp_all add: HV_X64_MEMORY_INTERCEPT_MESSAGE_def tlfs_eval tlfs_layout)

lemma HV_ARM64_MEMORY_INTERCEPT_MESSAGE_layout [tlfs_layout]:
  "csize A HV_ARM64_MEMORY_INTERCEPT_MESSAGE = 64" "calign A HV_ARM64_MEMORY_INTERCEPT_MESSAGE = 8"
  "integer_view A HV_ARM64_MEMORY_INTERCEPT_MESSAGE = None"
  by (simp_all add: HV_ARM64_MEMORY_INTERCEPT_MESSAGE_def tlfs_eval tlfs_layout)

lemma HV_X64_MSR_INTERCEPT_MESSAGE_layout [tlfs_layout]:
  "csize A HV_X64_MSR_INTERCEPT_MESSAGE = 64" "calign A HV_X64_MSR_INTERCEPT_MESSAGE = 8"
  "integer_view A HV_X64_MSR_INTERCEPT_MESSAGE = None"
  by (simp_all add: HV_X64_MSR_INTERCEPT_MESSAGE_def tlfs_eval tlfs_layout)

lemma HV_ARM64_MSR_INTERCEPT_MESSAGE_layout [tlfs_layout]:
  "csize A HV_ARM64_MSR_INTERCEPT_MESSAGE = 48" "calign A HV_ARM64_MSR_INTERCEPT_MESSAGE = 8"
  "integer_view A HV_ARM64_MSR_INTERCEPT_MESSAGE = None"
  by (simp_all add: HV_ARM64_MSR_INTERCEPT_MESSAGE_def tlfs_eval tlfs_layout)

lemma HV_X64_EXCEPTION_INFO_layout [tlfs_layout]:
  "csize A HV_X64_EXCEPTION_INFO = 1" "calign A HV_X64_EXCEPTION_INFO = 1"
  "integer_view A HV_X64_EXCEPTION_INFO = Some 1"
  by (cases "abi_ms_bits A", simp_all add: HV_X64_EXCEPTION_INFO_def tlfs_eval tlfs_layout)

lemma HV_ARM64_EXCEPTION_INFO_layout [tlfs_layout]:
  "csize A HV_ARM64_EXCEPTION_INFO = 1" "calign A HV_ARM64_EXCEPTION_INFO = 1"
  "integer_view A HV_ARM64_EXCEPTION_INFO = Some 1"
  by (cases "abi_ms_bits A", simp_all add: HV_ARM64_EXCEPTION_INFO_def tlfs_eval tlfs_layout)

lemma HV_X64_EXCEPTION_INTERCEPT_MESSAGE_layout [tlfs_layout]:
  "csize A HV_X64_EXCEPTION_INTERCEPT_MESSAGE = 240" "calign A HV_X64_EXCEPTION_INTERCEPT_MESSAGE = 8"
  "integer_view A HV_X64_EXCEPTION_INTERCEPT_MESSAGE = None"
  by (simp_all add: HV_X64_EXCEPTION_INTERCEPT_MESSAGE_def tlfs_eval tlfs_layout)

lemma HV_ARM64_EXCEPTION_INTERCEPT_MESSAGE_layout [tlfs_layout]:
  "csize A HV_ARM64_EXCEPTION_INTERCEPT_MESSAGE = 64" "calign A HV_ARM64_EXCEPTION_INTERCEPT_MESSAGE = 8"
  "integer_view A HV_ARM64_EXCEPTION_INTERCEPT_MESSAGE = None"
  by (simp_all add: HV_ARM64_EXCEPTION_INTERCEPT_MESSAGE_def tlfs_eval tlfs_layout)

lemma HV_X64_UNRECOVERABLE_EXCEPTION_MESSAGE_layout [tlfs_layout]:
  "csize A HV_X64_UNRECOVERABLE_EXCEPTION_MESSAGE = 40" "calign A HV_X64_UNRECOVERABLE_EXCEPTION_MESSAGE = 8"
  "integer_view A HV_X64_UNRECOVERABLE_EXCEPTION_MESSAGE = None"
  by (simp_all add: HV_X64_UNRECOVERABLE_EXCEPTION_MESSAGE_def tlfs_eval tlfs_layout)

lemma HV_ARM64_UNRECOVERABLE_EXCEPTION_MESSAGE_layout [tlfs_layout]:
  "csize A HV_ARM64_UNRECOVERABLE_EXCEPTION_MESSAGE = 24" "calign A HV_ARM64_UNRECOVERABLE_EXCEPTION_MESSAGE = 8"
  "integer_view A HV_ARM64_UNRECOVERABLE_EXCEPTION_MESSAGE = None"
  by (simp_all add: HV_ARM64_UNRECOVERABLE_EXCEPTION_MESSAGE_def tlfs_eval tlfs_layout)

lemma HV_X64_HYPERCALL_INTERCEPT_MESSAGE_layout [tlfs_layout]:
  "csize A HV_X64_HYPERCALL_INTERCEPT_MESSAGE = 208" "calign A HV_X64_HYPERCALL_INTERCEPT_MESSAGE = 16"
  "integer_view A HV_X64_HYPERCALL_INTERCEPT_MESSAGE = None"
  by (cases "abi_ms_bits A", simp_all add: HV_X64_HYPERCALL_INTERCEPT_MESSAGE_def tlfs_eval tlfs_layout)

lemma HV_ARM64_HYPERCALL_INTERCEPT_MESSAGE_layout [tlfs_layout]:
  "csize A HV_ARM64_HYPERCALL_INTERCEPT_MESSAGE = 176" "calign A HV_ARM64_HYPERCALL_INTERCEPT_MESSAGE = 8"
  "integer_view A HV_ARM64_HYPERCALL_INTERCEPT_MESSAGE = None"
  by (cases "abi_ms_bits A", simp_all add: HV_ARM64_HYPERCALL_INTERCEPT_MESSAGE_def tlfs_eval tlfs_layout)

lemma HV_X64_REGISTER_ACCESS_INFO_layout [tlfs_layout]:
  "csize A HV_X64_REGISTER_ACCESS_INFO = 16" "calign A HV_X64_REGISTER_ACCESS_INFO = 16"
  "integer_view A HV_X64_REGISTER_ACCESS_INFO = None"
  by (simp_all add: HV_X64_REGISTER_ACCESS_INFO_def tlfs_eval tlfs_layout)

lemma HV_ARM64_REGISTER_ACCESS_INFO_layout [tlfs_layout]:
  "csize A HV_ARM64_REGISTER_ACCESS_INFO = 16" "calign A HV_ARM64_REGISTER_ACCESS_INFO = 16"
  "integer_view A HV_ARM64_REGISTER_ACCESS_INFO = None"
  by (simp_all add: HV_ARM64_REGISTER_ACCESS_INFO_def tlfs_eval tlfs_layout)

lemma HV_X64_REGISTER_INTERCEPT_MESSAGE_layout [tlfs_layout]:
  "csize A HV_X64_REGISTER_INTERCEPT_MESSAGE = 64" "calign A HV_X64_REGISTER_INTERCEPT_MESSAGE = 16"
  "integer_view A HV_X64_REGISTER_INTERCEPT_MESSAGE = None"
  by (cases "abi_ms_bits A", simp_all add: HV_X64_REGISTER_INTERCEPT_MESSAGE_def tlfs_eval tlfs_layout)

lemma HV_ARM64_REGISTER_INTERCEPT_MESSAGE_layout [tlfs_layout]:
  "csize A HV_ARM64_REGISTER_INTERCEPT_MESSAGE = 48" "calign A HV_ARM64_REGISTER_INTERCEPT_MESSAGE = 16"
  "integer_view A HV_ARM64_REGISTER_INTERCEPT_MESSAGE = None"
  by (cases "abi_ms_bits A", simp_all add: HV_ARM64_REGISTER_INTERCEPT_MESSAGE_def tlfs_eval tlfs_layout)

lemma HV_X64_INVALID_VP_REGISTER_MESSAGE_layout [tlfs_layout]:
  "csize A HV_X64_INVALID_VP_REGISTER_MESSAGE = 8" "calign A HV_X64_INVALID_VP_REGISTER_MESSAGE = 4"
  "integer_view A HV_X64_INVALID_VP_REGISTER_MESSAGE = None"
  by (simp_all add: HV_X64_INVALID_VP_REGISTER_MESSAGE_def tlfs_eval tlfs_layout)

lemma HV_ARM64_INVALID_VP_REGISTER_MESSAGE_layout [tlfs_layout]:
  "csize A HV_ARM64_INVALID_VP_REGISTER_MESSAGE = 8" "calign A HV_ARM64_INVALID_VP_REGISTER_MESSAGE = 4"
  "integer_view A HV_ARM64_INVALID_VP_REGISTER_MESSAGE = None"
  by (simp_all add: HV_ARM64_INVALID_VP_REGISTER_MESSAGE_def tlfs_eval tlfs_layout)

lemma HV_X64_UNSUPPORTED_FEATURE_MESSAGE_layout [tlfs_layout]:
  "csize A HV_X64_UNSUPPORTED_FEATURE_MESSAGE = 16" "calign A HV_X64_UNSUPPORTED_FEATURE_MESSAGE = 8"
  "integer_view A HV_X64_UNSUPPORTED_FEATURE_MESSAGE = None"
  by (simp_all add: HV_X64_UNSUPPORTED_FEATURE_MESSAGE_def tlfs_eval tlfs_layout)

lemma HV_ARM64_UNSUPPORTED_FEATURE_MESSAGE_layout [tlfs_layout]:
  "csize A HV_ARM64_UNSUPPORTED_FEATURE_MESSAGE = 16" "calign A HV_ARM64_UNSUPPORTED_FEATURE_MESSAGE = 8"
  "integer_view A HV_ARM64_UNSUPPORTED_FEATURE_MESSAGE = None"
  by (simp_all add: HV_ARM64_UNSUPPORTED_FEATURE_MESSAGE_def tlfs_eval tlfs_layout)

lemma HV_X64_IO_PORT_ACCESS_INFO_layout [tlfs_layout]:
  "csize A HV_X64_IO_PORT_ACCESS_INFO = 1" "calign A HV_X64_IO_PORT_ACCESS_INFO = 1"
  "integer_view A HV_X64_IO_PORT_ACCESS_INFO = Some 1"
  by (cases "abi_ms_bits A", simp_all add: HV_X64_IO_PORT_ACCESS_INFO_def tlfs_eval tlfs_layout)

lemma HV_X64_CPUID_INTERCEPT_MESSAGE_layout [tlfs_layout]:
  "csize A HV_X64_CPUID_INTERCEPT_MESSAGE = 104" "calign A HV_X64_CPUID_INTERCEPT_MESSAGE = 8"
  "integer_view A HV_X64_CPUID_INTERCEPT_MESSAGE = None"
  by (simp_all add: HV_X64_CPUID_INTERCEPT_MESSAGE_def tlfs_eval tlfs_layout)

lemma HV_X64_IO_PORT_INTERCEPT_MESSAGE_layout [tlfs_layout]:
  "csize A HV_X64_IO_PORT_INTERCEPT_MESSAGE = 128" "calign A HV_X64_IO_PORT_INTERCEPT_MESSAGE = 8"
  "integer_view A HV_X64_IO_PORT_INTERCEPT_MESSAGE = None"
  by (simp_all add: HV_X64_IO_PORT_INTERCEPT_MESSAGE_def tlfs_eval tlfs_layout)

lemma HV_X64_LEGACY_FP_ERROR_MESSAGE_layout [tlfs_layout]:
  "csize A HV_X64_LEGACY_FP_ERROR_MESSAGE = 8" "calign A HV_X64_LEGACY_FP_ERROR_MESSAGE = 4"
  "integer_view A HV_X64_LEGACY_FP_ERROR_MESSAGE = None"
  by (simp_all add: HV_X64_LEGACY_FP_ERROR_MESSAGE_def tlfs_eval tlfs_layout)

lemma HV_X64_HALT_MESSAGE_layout [tlfs_layout]:
  "csize A HV_X64_HALT_MESSAGE = 40" "calign A HV_X64_HALT_MESSAGE = 8"
  "integer_view A HV_X64_HALT_MESSAGE = None"
  by (simp_all add: HV_X64_HALT_MESSAGE_def tlfs_eval tlfs_layout)

lemma HV_X64_INTERRUPTION_DELIVERABLE_MESSAGE_layout [tlfs_layout]:
  "csize A HV_X64_INTERRUPTION_DELIVERABLE_MESSAGE = 48" "calign A HV_X64_INTERRUPTION_DELIVERABLE_MESSAGE = 8"
  "integer_view A HV_X64_INTERRUPTION_DELIVERABLE_MESSAGE = None"
  by (simp_all add: HV_X64_INTERRUPTION_DELIVERABLE_MESSAGE_def tlfs_eval tlfs_layout)

lemma HV_X64_SINT_DELIVERABLE_MESSAGE_layout [tlfs_layout]:
  "csize A HV_X64_SINT_DELIVERABLE_MESSAGE = 48" "calign A HV_X64_SINT_DELIVERABLE_MESSAGE = 8"
  "integer_view A HV_X64_SINT_DELIVERABLE_MESSAGE = None"
  by (simp_all add: HV_X64_SINT_DELIVERABLE_MESSAGE_def tlfs_eval tlfs_layout)

lemma HV_X64_SIPI_INTERCEPT_MESSAGE_layout [tlfs_layout]:
  "csize A HV_X64_SIPI_INTERCEPT_MESSAGE = 48" "calign A HV_X64_SIPI_INTERCEPT_MESSAGE = 8"
  "integer_view A HV_X64_SIPI_INTERCEPT_MESSAGE = None"
  by (simp_all add: HV_X64_SIPI_INTERCEPT_MESSAGE_def tlfs_eval tlfs_layout)

lemma HV_ARM64_RESET_INTERCEPT_MESSAGE_layout [tlfs_layout]:
  "csize A HV_ARM64_RESET_INTERCEPT_MESSAGE = 32" "calign A HV_ARM64_RESET_INTERCEPT_MESSAGE = 8"
  "integer_view A HV_ARM64_RESET_INTERCEPT_MESSAGE = None"
  by (simp_all add: HV_ARM64_RESET_INTERCEPT_MESSAGE_def tlfs_eval tlfs_layout)

lemma HV_ARM64_MMIO_INTERCEPT_MESSAGE_layout [tlfs_layout]:
  "csize A HV_ARM64_MMIO_INTERCEPT_MESSAGE = 72" "calign A HV_ARM64_MMIO_INTERCEPT_MESSAGE = 8"
  "integer_view A HV_ARM64_MMIO_INTERCEPT_MESSAGE = None"
  by (simp_all add: HV_ARM64_MMIO_INTERCEPT_MESSAGE_def tlfs_eval tlfs_layout)

lemma HV_SYNIC_SINT_DELIVERABLE_MESSAGE_layout [tlfs_layout]:
  "csize A HV_SYNIC_SINT_DELIVERABLE_MESSAGE = 32" "calign A HV_SYNIC_SINT_DELIVERABLE_MESSAGE = 8"
  "integer_view A HV_SYNIC_SINT_DELIVERABLE_MESSAGE = None"
  by (simp_all add: HV_SYNIC_SINT_DELIVERABLE_MESSAGE_def tlfs_eval tlfs_layout)

lemma HV_INPUT_GET_VP_REGISTER_CODE_layout [tlfs_layout]:
  "csize A HV_INPUT_GET_VP_REGISTER_CODE = 16" "calign A HV_INPUT_GET_VP_REGISTER_CODE = 8"
  "integer_view A HV_INPUT_GET_VP_REGISTER_CODE = None"
  by (simp_all add: HV_INPUT_GET_VP_REGISTER_CODE_def tlfs_eval tlfs_layout)

lemma HV_PARTITION_PROPERTY_scalars [tlfs_layout]:
  "csize A HV_PARTITION_PROPERTY = 8" "calign A HV_PARTITION_PROPERTY = 8" "integer_view A HV_PARTITION_PROPERTY = None"
  "csize A HV_STATS_OBJECT_FLAG = 2" "calign A HV_STATS_OBJECT_FLAG = 2" "integer_view A HV_STATS_OBJECT_FLAG = None"
  by (simp_all add: HV_PARTITION_PROPERTY_def HV_STATS_OBJECT_FLAG_def tlfs_layout)

lemma HV_STATS_OBJECT_IDENTITY_layout [tlfs_layout]:
  "csize A HV_STATS_OBJECT_IDENTITY = 16" "calign A HV_STATS_OBJECT_IDENTITY = 8"
  "integer_view A HV_STATS_OBJECT_IDENTITY = None"
  by (simp_all add: HV_STATS_OBJECT_IDENTITY_def tlfs_eval tlfs_layout)

lemma HV_BOOLEAN_scalars [tlfs_layout]:
  "csize A HV_BOOLEAN = 1" "calign A HV_BOOLEAN = 1" "integer_view A HV_BOOLEAN = None"
  "csize A HV_SPA_PAGE_OFFSET = 4" "calign A HV_SPA_PAGE_OFFSET = 4" "integer_view A HV_SPA_PAGE_OFFSET = None"
  "csize A HV_GPA_PAGE_OFFSET = 4" "calign A HV_GPA_PAGE_OFFSET = 4" "integer_view A HV_GPA_PAGE_OFFSET = None"
  "csize A HV_GVA_PAGE_OFFSET = 4" "calign A HV_GVA_PAGE_OFFSET = 4" "integer_view A HV_GVA_PAGE_OFFSET = None"
  by (simp_all add: HV_BOOLEAN_def HV_SPA_PAGE_OFFSET_def HV_GPA_PAGE_OFFSET_def HV_GVA_PAGE_OFFSET_def tlfs_layout)

lemma HV_GENERIC_SET_HEADER_layout [tlfs_layout]:
  "csize A HV_GENERIC_SET_HEADER = 16" "calign A HV_GENERIC_SET_HEADER = 8"
  "integer_view A HV_GENERIC_SET_HEADER = None"
  by (simp_all add: HV_GENERIC_SET_HEADER_def tlfs_eval tlfs_layout)

lemma HV_GENERIC_SET_layout [tlfs_layout]:
  "csize A HV_GENERIC_SET = 24" "calign A HV_GENERIC_SET = 8"
  "integer_view A HV_GENERIC_SET = None"
  by (simp_all add: HV_GENERIC_SET_def tlfs_eval tlfs_layout)

lemma HV_APIC_ID_scalars [tlfs_layout]:
  "csize A HV_APIC_ID = 4" "calign A HV_APIC_ID = 4" "integer_view A HV_APIC_ID = None"
  by (simp_all add: HV_APIC_ID_def tlfs_layout)

lemma HV_X64_PENDING_MEMORY_INTERCEPT_EVENT_layout [tlfs_layout]:
  "csize A HV_X64_PENDING_MEMORY_INTERCEPT_EVENT = 32" "calign A HV_X64_PENDING_MEMORY_INTERCEPT_EVENT = 8"
  "integer_view A HV_X64_PENDING_MEMORY_INTERCEPT_EVENT = Some 32"
  by (cases "abi_ms_bits A", simp_all add: HV_X64_PENDING_MEMORY_INTERCEPT_EVENT_def tlfs_eval tlfs_layout)

lemma HV_X64_PENDING_NESTED_MEMORY_INTERCEPT_EVENT_layout [tlfs_layout]:
  "csize A HV_X64_PENDING_NESTED_MEMORY_INTERCEPT_EVENT = 32" "calign A HV_X64_PENDING_NESTED_MEMORY_INTERCEPT_EVENT = 8"
  "integer_view A HV_X64_PENDING_NESTED_MEMORY_INTERCEPT_EVENT = Some 32"
  by (cases "abi_ms_bits A", simp_all add: HV_X64_PENDING_NESTED_MEMORY_INTERCEPT_EVENT_def tlfs_eval tlfs_layout)

lemma HV_ARM64_PENDING_HYPERCALL_OUTPUT_EVENT_layout [tlfs_layout]:
  "csize A HV_ARM64_PENDING_HYPERCALL_OUTPUT_EVENT = 16" "calign A HV_ARM64_PENDING_HYPERCALL_OUTPUT_EVENT = 8"
  "integer_view A HV_ARM64_PENDING_HYPERCALL_OUTPUT_EVENT = Some 16"
  by (cases "abi_ms_bits A", simp_all add: HV_ARM64_PENDING_HYPERCALL_OUTPUT_EVENT_def tlfs_eval tlfs_layout)

lemma HV_X64_PENDING_EVENT_layout [tlfs_layout]:
  "csize A HV_X64_PENDING_EVENT = 32" "calign A HV_X64_PENDING_EVENT = 16"
  "integer_view A HV_X64_PENDING_EVENT = None"
  by (cases "abi_ms_bits A", simp_all add: HV_X64_PENDING_EVENT_def tlfs_eval tlfs_layout)

lemma HV_ARM64_PENDING_EVENT_layout [tlfs_layout]:
  "csize A HV_ARM64_PENDING_EVENT = 32" "calign A HV_ARM64_PENDING_EVENT = 16"
  "integer_view A HV_ARM64_PENDING_EVENT = None"
  by (cases "abi_ms_bits A", simp_all add: HV_ARM64_PENDING_EVENT_def tlfs_eval tlfs_layout)

lemma HV_TRANSLATE_GVA_RESULT_EX_X64_layout [tlfs_layout]:
  "csize A (HV_TRANSLATE_GVA_RESULT_EX X64) = 48" "calign A (HV_TRANSLATE_GVA_RESULT_EX X64) = 16"
  "integer_view A (HV_TRANSLATE_GVA_RESULT_EX X64) = None"
  by (cases "abi_ms_bits A", simp_all add: HV_TRANSLATE_GVA_RESULT_EX_def tlfs_eval tlfs_layout)

lemma HV_TRANSLATE_GVA_RESULT_EX_ARM64_layout [tlfs_layout]:
  "csize A (HV_TRANSLATE_GVA_RESULT_EX ARM64) = 48" "calign A (HV_TRANSLATE_GVA_RESULT_EX ARM64) = 16"
  "integer_view A (HV_TRANSLATE_GVA_RESULT_EX ARM64) = None"
  by (cases "abi_ms_bits A", simp_all add: HV_TRANSLATE_GVA_RESULT_EX_def tlfs_eval tlfs_layout)

lemma HV_MSI_ADDRESS_REGISTER_layout [tlfs_layout]:
  "csize A HV_MSI_ADDRESS_REGISTER = 4" "calign A HV_MSI_ADDRESS_REGISTER = 4"
  "integer_view A HV_MSI_ADDRESS_REGISTER = Some 4"
  by (cases "abi_ms_bits A", simp_all add: HV_MSI_ADDRESS_REGISTER_def tlfs_eval tlfs_layout)

lemma HV_MSI_DATA_REGISTER_layout [tlfs_layout]:
  "csize A HV_MSI_DATA_REGISTER = 4" "calign A HV_MSI_DATA_REGISTER = 4"
  "integer_view A HV_MSI_DATA_REGISTER = Some 4"
  by (cases "abi_ms_bits A", simp_all add: HV_MSI_DATA_REGISTER_def tlfs_eval tlfs_layout)

lemma HV_MSI_ENTRY_X64_layout [tlfs_layout]:
  "csize A (HV_MSI_ENTRY X64) = 8" "calign A (HV_MSI_ENTRY X64) = 8"
  "integer_view A (HV_MSI_ENTRY X64) = Some 8"
  by (simp_all add: HV_MSI_ENTRY_def tlfs_eval tlfs_layout)

lemma HV_MSI_ENTRY_ARM64_layout [tlfs_layout]:
  "csize A (HV_MSI_ENTRY ARM64) = 16" "calign A (HV_MSI_ENTRY ARM64) = 8"
  "integer_view A (HV_MSI_ENTRY ARM64) = Some 16"
  by (simp_all add: HV_MSI_ENTRY_def tlfs_eval tlfs_layout)

lemma HV_IOAPIC_RTE_layout [tlfs_layout]:
  "csize A HV_IOAPIC_RTE = 8" "calign A HV_IOAPIC_RTE = 8"
  "integer_view A HV_IOAPIC_RTE = Some 8"
  by (cases "abi_ms_bits A", simp_all add: HV_IOAPIC_RTE_def tlfs_eval tlfs_layout)

lemma HV_GICD_ENTRY_layout [tlfs_layout]:
  "csize A HV_GICD_ENTRY = 8" "calign A HV_GICD_ENTRY = 8"
  "integer_view A HV_GICD_ENTRY = Some 8"
  by (cases "abi_ms_bits A", simp_all add: HV_GICD_ENTRY_def tlfs_eval tlfs_layout)

lemma HV_INTERRUPT_ENTRY_X64_layout [tlfs_layout]:
  "csize A (HV_INTERRUPT_ENTRY X64) = 16" "calign A (HV_INTERRUPT_ENTRY X64) = 8"
  "integer_view A (HV_INTERRUPT_ENTRY X64) = None"
  by (simp_all add: HV_INTERRUPT_ENTRY_def tlfs_eval tlfs_layout)

lemma HV_INTERRUPT_ENTRY_ARM64_layout [tlfs_layout]:
  "csize A (HV_INTERRUPT_ENTRY ARM64) = 24" "calign A (HV_INTERRUPT_ENTRY ARM64) = 8"
  "integer_view A (HV_INTERRUPT_ENTRY ARM64) = None"
  by (simp_all add: HV_INTERRUPT_ENTRY_def tlfs_eval tlfs_layout)

lemma HV_DEVICE_INTERRUPT_TARGET_HEADER_layout [tlfs_layout]:
  "csize A HV_DEVICE_INTERRUPT_TARGET_HEADER = 8" "calign A HV_DEVICE_INTERRUPT_TARGET_HEADER = 4"
  "integer_view A HV_DEVICE_INTERRUPT_TARGET_HEADER = None"
  by (simp_all add: HV_DEVICE_INTERRUPT_TARGET_HEADER_def tlfs_eval tlfs_layout)

lemma HV_DEVICE_INTERRUPT_TARGET_layout [tlfs_layout]:
  "csize A HV_DEVICE_INTERRUPT_TARGET = 16" "calign A HV_DEVICE_INTERRUPT_TARGET = 8"
  "integer_view A HV_DEVICE_INTERRUPT_TARGET = None"
  by (simp_all add: HV_DEVICE_INTERRUPT_TARGET_def tlfs_eval tlfs_layout)

lemma HV_REGISTER_VSM_PARTITION_STATUS_layout [tlfs_layout]:
  "csize A HV_REGISTER_VSM_PARTITION_STATUS = 8" "calign A HV_REGISTER_VSM_PARTITION_STATUS = 8"
  "integer_view A HV_REGISTER_VSM_PARTITION_STATUS = Some 8"
  by (cases "abi_ms_bits A", simp_all add: HV_REGISTER_VSM_PARTITION_STATUS_def tlfs_eval tlfs_layout)

lemma HV_REGISTER_VSM_VP_STATUS_layout [tlfs_layout]:
  "csize A HV_REGISTER_VSM_VP_STATUS = 8" "calign A HV_REGISTER_VSM_VP_STATUS = 8"
  "integer_view A HV_REGISTER_VSM_VP_STATUS = Some 8"
  by (cases "abi_ms_bits A", simp_all add: HV_REGISTER_VSM_VP_STATUS_def tlfs_eval tlfs_layout)

lemma HV_REGISTER_VSM_PARTITION_CONFIG_layout [tlfs_layout]:
  "csize A HV_REGISTER_VSM_PARTITION_CONFIG = 8" "calign A HV_REGISTER_VSM_PARTITION_CONFIG = 8"
  "integer_view A HV_REGISTER_VSM_PARTITION_CONFIG = Some 8"
  by (cases "abi_ms_bits A", simp_all add: HV_REGISTER_VSM_PARTITION_CONFIG_def tlfs_eval tlfs_layout)

lemma HV_REGISTER_GUEST_VSM_PARTITION_CONFIG_layout [tlfs_layout]:
  "csize A HV_REGISTER_GUEST_VSM_PARTITION_CONFIG = 8" "calign A HV_REGISTER_GUEST_VSM_PARTITION_CONFIG = 8"
  "integer_view A HV_REGISTER_GUEST_VSM_PARTITION_CONFIG = Some 8"
  by (cases "abi_ms_bits A", simp_all add: HV_REGISTER_GUEST_VSM_PARTITION_CONFIG_def tlfs_eval tlfs_layout)

lemma HV_REGISTER_VSM_VP_SECURE_VTL_CONFIG_layout [tlfs_layout]:
  "csize A HV_REGISTER_VSM_VP_SECURE_VTL_CONFIG = 8" "calign A HV_REGISTER_VSM_VP_SECURE_VTL_CONFIG = 8"
  "integer_view A HV_REGISTER_VSM_VP_SECURE_VTL_CONFIG = Some 8"
  by (cases "abi_ms_bits A", simp_all add: HV_REGISTER_VSM_VP_SECURE_VTL_CONFIG_def tlfs_eval tlfs_layout)

lemma HV_REGISTER_VSM_CODE_PAGE_OFFSETS_layout [tlfs_layout]:
  "csize A HV_REGISTER_VSM_CODE_PAGE_OFFSETS = 8" "calign A HV_REGISTER_VSM_CODE_PAGE_OFFSETS = 8"
  "integer_view A HV_REGISTER_VSM_CODE_PAGE_OFFSETS = Some 8"
  by (cases "abi_ms_bits A", simp_all add: HV_REGISTER_VSM_CODE_PAGE_OFFSETS_def tlfs_eval tlfs_layout)

lemma HV_REGISTER_VSM_VINA_layout [tlfs_layout]:
  "csize A HV_REGISTER_VSM_VINA = 8" "calign A HV_REGISTER_VSM_VINA = 8"
  "integer_view A HV_REGISTER_VSM_VINA = Some 8"
  by (cases "abi_ms_bits A", simp_all add: HV_REGISTER_VSM_VINA_def tlfs_eval tlfs_layout)

lemma HV_REGISTER_CR_INTERCEPT_CONTROL_layout [tlfs_layout]:
  "csize A HV_REGISTER_CR_INTERCEPT_CONTROL = 8" "calign A HV_REGISTER_CR_INTERCEPT_CONTROL = 8"
  "integer_view A HV_REGISTER_CR_INTERCEPT_CONTROL = Some 8"
  by (cases "abi_ms_bits A", simp_all add: HV_REGISTER_CR_INTERCEPT_CONTROL_def tlfs_eval tlfs_layout)

lemma VM_PARTITION_ASSIST_PAGE_layout [tlfs_layout]:
  "csize A VM_PARTITION_ASSIST_PAGE = 4" "calign A VM_PARTITION_ASSIST_PAGE = 4"
  "integer_view A VM_PARTITION_ASSIST_PAGE = None"
  by (simp_all add: VM_PARTITION_ASSIST_PAGE_def tlfs_eval tlfs_layout)

lemma HV_GPA_PAGE_RANGE_layout [tlfs_layout]:
  "csize A HV_GPA_PAGE_RANGE = 16" "calign A HV_GPA_PAGE_RANGE = 8"
  "integer_view A HV_GPA_PAGE_RANGE = Some 8"
  by (cases "abi_ms_bits A", simp_all add: HV_GPA_PAGE_RANGE_def tlfs_eval tlfs_layout)

lemma HV_VMX_ENLIGHTENED_VMCS_layout [tlfs_layout]:
  "csize A HV_VMX_ENLIGHTENED_VMCS = 1024" "calign A HV_VMX_ENLIGHTENED_VMCS = 8"
  "integer_view A HV_VMX_ENLIGHTENED_VMCS = None"
  by (cases "abi_ms_bits A", simp_all add: HV_VMX_ENLIGHTENED_VMCS_def tlfs_eval tlfs_layout)

end
