(* ===== verification/Tlfs_Symbols.thy ===== *)
theory Tlfs_Symbols
  imports Tlfs_Types
begin

text \<open>
  The second part of \<open>Mile.HyperV.TLFS.h\<close> (lines 5606 to 9192): the declarations that its authors took from symbols.
\<close>

unbundle bit_operations_syntax

section \<open>Hyper-V headers from Microsoft mshv Linux kernel module Definitions\<close>

definition HV_NOTIFICATION_MESSAGE_PAYLOAD :: cty where
  "HV_NOTIFICATION_MESSAGE_PAYLOAD = Struct 0 (flds_of
       [mem ''SintIndex'' U32])"

definition HV_X64_PROXY_INTERRUPT_MESSAGE_PAYLOAD :: cty where
  "HV_X64_PROXY_INTERRUPT_MESSAGE_PAYLOAD = Struct 0 (flds_of
       [mem ''InterruptVtl'' U8, mem ''AssertMultiple'' U8, mem ''RsvdZ'' (Arr U8 2),
       mem '''' (Union 0 (flds_of [mem ''AssertedVector'' U32, mem ''AssertedIrr'' (Arr U32 8)]))])"

definition HV_UNIMPLEMENTED_MSR_ACTION :: enum_tab where
  "HV_UNIMPLEMENTED_MSR_ACTION = enum_of
     [(''HvUnimplementedMsrActionFault'', Val 0),
     (''HvUnimplementedMsrActionIgnoreWriteReadZero'', Val 1),
     (''HvUnimplementedMsrActionCount'', Val 2)]"

definition HV_GENERIC_SET_SHIFT :: "32 word" where "HV_GENERIC_SET_SHIFT = 6"

definition HV_GENERIC_SET_MASK :: "32 word" where "HV_GENERIC_SET_MASK = 63"

definition HV_MAX_SPARSE_VCPU_BANKS :: "32 word" where "HV_MAX_SPARSE_VCPU_BANKS = 64"

definition HV_VCPUS_PER_SPARSE_BANK :: "32 word" where "HV_VCPUS_PER_SPARSE_BANK = 64"

definition HV_SCHEDULER_TYPE :: enum_tab where
  "HV_SCHEDULER_TYPE = enum_of
     [(''HvSchedulerTypeLp'', Val 1), (''HvSchedulerTypeLpSmt'', Val 2),
     (''HvSchedulerTypeCoreSmt'', Val 3), (''HvSchedulerTypeRoot'', Val 4),
     (''HvSchedulerTypeMax'', Auto)]"

definition HV_SYSTEM_PROPERTY :: enum_tab where
  "HV_SYSTEM_PROPERTY = enum_of
     [(''HvPerfCounterProperty'', Val 0x1),
     (''HvDeprecatedLegacyPowerPolicySettingProperty'', Val 0x2),
     (''HvSleepStateProperty'', Val 0x3), (''HvMachineCheckProperty'', Val 0x4),
     (''HvIommuInitStatusProperty'', Val 0x5), (''HvHpetConfigProperty'', Val 0x6),
     (''HvHpetInterruptProperty'', Val 0x7), (''HvHpetEnabledProperty'', Val 0x8),
     (''HvHypervisorLaunchStatsProperty'', Val 0x9), (''HvHypervisorDebugProperty'', Val 0xa),
     (''HvRootPasidCapabilitiesProperty'', Val 0xb), (''HvRootNumaCostPagesProperty'', Val 0xc),
     (''HvHostPageTableRootProperty'', Val 0xd), (''HvTscSyncStatusProperty'', Val 0xe),
     (''HvSchedulerTypeProperty'', Val 0xf),
     (''HvPlatformVirtualizationSupportProperty'', Val 0x10),
     (''HvHostDebugTransferPages'', Val 0x11), (''HvHostTimelineBiasProperty'', Val 0x12),
     (''HvSmcDataPathProperty'', Val 0x13), (''HvDmaInitializeBlockedProperty'', Val 0x14),
     (''HvDynamicProcessorFeatureProperty'', Val 0x15),
     (''HvUnusedSystemProperty_22'', Val 0x16),
     (''HvRdtCatCosBitmaskProperty_Legacy'', Val 0x17),
     (''HvUnusedSystemProperty_24'', Val 0x18),
     (''HvGuestStateScrubbingStatusProperty'', Val 0x19),
     (''HvDmaUnblockedProperty'', Val 0x1a), (''HvRdtMbaCosThrottleProperty_Legacy'', Val 0x1b),
     (''HvSystemDiagnosticsLogBuffers'', Val 0x1c),
     (''HvSystemPageCombiningIntervalProperty'', Val 0x1d),
     (''HvIommuLiveHandoffProperty'', Val 0x1e),
     (''HvIommuDomainIdSelectorProperty'', Val 0x1f),
     (''HvIommuRootFaultReportingReady'', Val 0x20), (''HvGuestAssertProperty'', Val 0x21),
     (''HvLogicalProcessorCountProperty'', Val 0x22), (''HvSnpPspIdProperty'', Val 0x23),
     (''HvSchedulingIntervalProperty'', Val 0x24), (''HvSnpPspTcbVersionProperty'', Val 0x25),
     (''HvSubnodeInformationProperty'', Val 0x26), (''HvSnpPspDevicesProperty'', Val 0x27),
     (''HvProcessorLiveHandoffProperty'', Val 0x28),
     (''HvProcessorParkBlockProperty'', Val 0x29), (''HvBootConfigProperty'', Val 0x2a),
     (''HvVirtualizationFeaturesProperty'', Val 0x2b),
     (''HvSystemRebootCountProperty'', Val 0x2c), (''HvSystemMirroringProperty'', Val 0x2d),
     (''HvSystemProtoAbiVersionProperty'', Val 0x2e),
     (''HvCrashdumpAreaAddressProperty'', Val 0x2f), (''HvMicrocodeLatencyProperty'', Val 0x30),
     (''HvDefaultIoCacheBitmapProperty'', Val 0x31),
     (''HvHardwareIsolationEnabledProperty'', Val 0x32),
     (''HvFirmwareX2ApicProperty'', Val 0x33),
     (''HvCrashdumpTrampolineAddressProperty'', Val 0x34),
     (''HvResourceControlSupportProperty'', Val 0x35),
     (''HvResourceControlBitmaskProperty'', Val 0x36),
     (''HvResourceControlMonitorValueProperty'', Val 0x37),
     (''HvSgxEUpdateSvnProperty'', Val 0x38)]"

definition HV_GPA_PAGE_ACCESS_STATE_FLAGS :: cty where
  "HV_GPA_PAGE_ACCESS_STATE_FLAGS = Union 0 (flds_of
       [mem '''' (Struct 0 (flds_of [bits ''ClearAccessed'' U64 1, bits ''SetAccess'' U64 1, bits ''ClearDirty'' U64 1,
          bits ''SetDirty'' U64 1, bits ''Reserved'' U64 60])),
       mem ''AsUINT64'' U64])"

definition HV_GPA_PAGE_ACCESS_STATE :: cty where
  "HV_GPA_PAGE_ACCESS_STATE = Union 0 (flds_of
       [mem '''' (Struct 0 (flds_of [bits ''Accessed'' U8 1, bits ''Dirty'' U8 1, bits ''Reserved'' U8 6])),
       mem ''AsUINT8'' U8])"

definition HV_X64_REGISTER_CLASS_GENERAL :: "32 word" where "HV_X64_REGISTER_CLASS_GENERAL = 0"

definition HV_X64_REGISTER_CLASS_IP :: "32 word" where "HV_X64_REGISTER_CLASS_IP = 1"

definition HV_X64_REGISTER_CLASS_XMM :: "32 word" where "HV_X64_REGISTER_CLASS_XMM = 2"

definition HV_X64_REGISTER_CLASS_SEGMENT :: "32 word" where "HV_X64_REGISTER_CLASS_SEGMENT = 3"

definition HV_X64_REGISTER_CLASS_FLAGS :: "32 word" where "HV_X64_REGISTER_CLASS_FLAGS = 4"

definition HV_VP_REGISTER_PAGE_VERSION_1 :: "32 word" where "HV_VP_REGISTER_PAGE_VERSION_1 = 1"

definition HV_VP_REGISTER_PAGE :: "arch \<Rightarrow> cty" where
  "HV_VP_REGISTER_PAGE a = Struct 0 (flds_of
       ([mem ''Version'' U16, mem ''IsValid'' U8, mem ''Vtl'' HV_VTL, mem ''Dirty'' U32] @
        (case a of X64 \<Rightarrow> [mem '''' (Union 0 (flds_of [mem '''' (Struct 0 (flds_of [mem '''' (Union 0 (flds_of [mem '''' (Struct 0 (flds_of [mem ''Rax'' U64, mem ''Rcx'' U64, mem ''Rdx'' U64, mem ''Rbx'' U64, mem ''Rsp'' U64,
                   mem ''Rbp'' U64, mem ''Rsi'' U64, mem ''Rdi'' U64, mem ''R8'' U64, mem ''R9'' U64,
                   mem ''R10'' U64, mem ''R11'' U64, mem ''R12'' U64, mem ''R13'' U64, mem ''R14'' U64,
                   mem ''R15'' U64])),
                mem ''GpRegisters'' (Arr U64 16)])),
             mem ''Rip'' U64, mem ''Rflags'' U64])),
          mem ''Registers'' (Arr U64 18)])),
       mem '''' (Union 0 (flds_of [mem '''' (Struct 0 (flds_of [mem ''Xmm0'' HV_UINT128, mem ''Xmm1'' HV_UINT128, mem ''Xmm2'' HV_UINT128,
             mem ''Xmm3'' HV_UINT128, mem ''Xmm4'' HV_UINT128, mem ''Xmm5'' HV_UINT128])),
          mem ''XmmRegisters'' (Arr HV_UINT128 6)])),
       mem '''' (Union 0 (flds_of [mem '''' (Struct 0 (flds_of [mem ''Es'' HV_X64_SEGMENT_REGISTER, mem ''Cs'' HV_X64_SEGMENT_REGISTER,
             mem ''Ss'' HV_X64_SEGMENT_REGISTER, mem ''Ds'' HV_X64_SEGMENT_REGISTER,
             mem ''Fs'' HV_X64_SEGMENT_REGISTER, mem ''Gs'' HV_X64_SEGMENT_REGISTER])),
          mem ''SegmentRegisters'' (Arr HV_X64_SEGMENT_REGISTER 6)])),
       mem ''Cr0'' U64, mem ''Cr3'' U64, mem ''Cr4'' U64, mem ''Cr8'' U64, mem ''Efer'' U64,
       mem ''Dr7'' U64, mem ''PendingInterruption'' HV_X64_PENDING_INTERRUPTION_REGISTER,
       mem ''InterruptState'' HV_X64_INTERRUPT_STATE_REGISTER,
       mem ''InstructionEmulationHints'' U64] | ARM64 \<Rightarrow> [])))"

definition HV_PARTITION_CREATION_PROPERTIES_V1 :: cty where
  "HV_PARTITION_CREATION_PROPERTIES_V1 = Struct 0 (flds_of
       [mem ''DisabledProcessorFeatures'' U64])"

definition HV_PARTITION_CREATION_PROPERTIES_V2 :: "arch \<Rightarrow> cty" where
  "HV_PARTITION_CREATION_PROPERTIES_V2 a = Struct 0 (flds_of
       ([mem ''DisabledProcessorFeatures'' (HV_PARTITION_PROCESSOR_FEATURES a)] @
        (case a of X64 \<Rightarrow> [mem ''DisabledProcessorXsaveFeatures'' (HV_PARTITION_PROCESSOR_XSAVE_FEATURES a)] | ARM64 \<Rightarrow> [])))"

definition HV_PARTITION_CREATION_PROPERTIES :: "arch \<Rightarrow> cty" where
  "HV_PARTITION_CREATION_PROPERTIES a = Struct 0 (flds_of
       ([mem ''DisabledProcessorFeatures'' (HV_PARTITION_PROCESSOR_FEATURES a)] @
        (case a of X64 \<Rightarrow> [mem ''DisabledProcessorXsaveFeatures'' (HV_PARTITION_PROCESSOR_XSAVE_FEATURES a)] | ARM64 \<Rightarrow> [])))"

definition HV_PARTITION_ISOLATION_STATE :: enum_tab where
  "HV_PARTITION_ISOLATION_STATE = enum_of
     [(''HvPartitionIsolationInvalid'', Val 0), (''HvPartitionIsolationInsecureClean'', Val 1),
     (''HvPartitionIsolationInsecureDirty'', Val 2), (''HvPartitionIsolationSecure'', Val 3),
     (''HvPartitionIsolationSecureDirty'', Val 4),
     (''HvPartitionIsolationSecureTerminating'', Val 5)]"

definition HV_PARTITION_SYNTHETIC_PROCESSOR_FEATURES_BANKS :: "32 word" where
  "HV_PARTITION_SYNTHETIC_PROCESSOR_FEATURES_BANKS = 1"

definition HV_PARTITION_SYNTHETIC_PROCESSOR_FEATURES :: cty where
  "HV_PARTITION_SYNTHETIC_PROCESSOR_FEATURES = Union 0 (flds_of
       [mem ''AsUINT64'' (Arr U64 (unat HV_PARTITION_SYNTHETIC_PROCESSOR_FEATURES_BANKS)),
       mem '''' (Struct 0 (flds_of [bits ''HypervisorPresent'' U64 1, bits ''Hv1'' U64 1, bits ''AccessVpRunTimeReg'' U64 1,
          bits ''AccessPartitionReferenceCounter'' U64 1, bits ''AccessSynicRegs'' U64 1,
          bits ''AccessSyntheticTimerRegs'' U64 1, bits ''AccessIntrCtrlRegs'' U64 1,
          bits ''AccessHypercallMsrs'' U64 1, bits ''AccessVpIndex'' U64 1,
          bits ''AccessPartitionReferenceTsc'' U64 1, bits ''AccessGuestIdleReg'' U64 1,
          bits ''AccessFrequencyRegs'' U64 1, bits ''ReservedZ12'' U64 1,
          bits ''ReservedZ13'' U64 1, bits ''ReservedZ14'' U64 1,
          bits ''EnableExtendedGvaRangesForFlushVirtualAddressList'' U64 1,
          bits ''ReservedZ16'' U64 1, bits ''ReservedZ17'' U64 1,
          bits ''FastHypercallOutput'' U64 1, bits ''ReservedZ19'' U64 1,
          bits ''StartVirtualProcessor'' U64 1, bits ''ReservedZ21'' U64 1,
          bits ''DirectSyntheticTimers'' U64 1, bits ''ReservedZ23'' U64 1,
          bits ''ExtendedProcessorMasks'' U64 1, bits ''TbFlushHypercalls'' U64 1,
          bits ''SyntheticClusterIpi'' U64 1, bits ''NotifyLongSpinWait'' U64 1,
          bits ''QueryNumaDistance'' U64 1, bits ''SignalEvents'' U64 1,
          bits ''RetargetDeviceInterrupt'' U64 1, bits ''RestoreTime'' U64 1,
          bits ''EnlightenedVmcs'' U64 1, bits ''ReservedZ33'' U64 1, bits ''ReservedZ34'' U64 1,
          bits ''ReservedZ35'' U64 1, bits ''RegisterInterceptsV1'' U64 1, bits ''WakeVps'' U64 1,
          bits ''AccessVpRegs'' U64 1, bits ''SyncContext'' U64 1,
          bits ''ManagementVtlSynicSupport'' U64 1, bits ''Reserved'' U64 23]))])"

definition HV_MAKE_COMPATIBILITY_VERSION :: "32 word \<Rightarrow> 32 word \<Rightarrow> 32 word" where
  "HV_MAKE_COMPATIBILITY_VERSION major minor = push_bit 8 major OR minor"

definition HV_COMPATIBILITY_21_H2 :: "32 word" where
  "HV_COMPATIBILITY_21_H2 = HV_MAKE_COMPATIBILITY_VERSION 0x6 0x9"

definition HV_PARTITION_ISOLATION_PROPERTIES :: cty where
  "HV_PARTITION_ISOLATION_PROPERTIES = Union 0 (flds_of
       [mem ''AsUINT64'' U64,
       mem '''' (Struct 0 (flds_of [bits ''IsolationType'' U64 5, bits ''IsolationHostType'' U64 2, bits ''RsvdZ'' U64 5,
          bits ''SharedGpaBoundaryPageNumber'' U64 52]))])"

definition HV_PARTITION_ISOLATION_HOST_TYPE_NONE :: "32 word" where
  "HV_PARTITION_ISOLATION_HOST_TYPE_NONE = 0x0"

definition HV_PARTITION_ISOLATION_HOST_TYPE_HARDWARE :: "32 word" where
  "HV_PARTITION_ISOLATION_HOST_TYPE_HARDWARE = 0x1"

definition HV_PARTITION_ISOLATION_HOST_TYPE_RESERVED :: "32 word" where
  "HV_PARTITION_ISOLATION_HOST_TYPE_RESERVED = 0x2"

definition HV_PARTITION_CREATION_FLAG_EXO_PARTITION :: "32 word" where
  "HV_PARTITION_CREATION_FLAG_EXO_PARTITION = push_bit 8 1"

definition HV_PARTITION_CREATION_FLAG_LAPIC_ENABLED :: "32 word" where
  "HV_PARTITION_CREATION_FLAG_LAPIC_ENABLED = push_bit 13 1"

definition HV_PARTITION_CREATION_FLAG_INTERCEPT_MESSAGE_PAGE_ENABLED :: "32 word" where
  "HV_PARTITION_CREATION_FLAG_INTERCEPT_MESSAGE_PAGE_ENABLED = push_bit 19 1"

definition HV_PARTITION_CREATION_FLAG_X2APIC_CAPABLE :: "32 word" where
  "HV_PARTITION_CREATION_FLAG_X2APIC_CAPABLE = push_bit 22 1"

definition HV_VP_STATE_PAGE_TYPE :: enum_tab where
  "HV_VP_STATE_PAGE_TYPE = enum_of
     [(''HvVpStatePageRegisters'', Val 0), (''HvVpStatePageInterceptMessage'', Val 1),
     (''HvVpStatePageCount'', Auto)]"

definition HV_CPUID_LEAF_INFO :: cty where
  "HV_CPUID_LEAF_INFO = Struct 0 (flds_of
       [mem ''Eax'' U32, mem ''Ecx'' U32, mem ''Xfem'' U64, mem ''Xss'' U64])"

definition HV_GET_VP_CPUID_VALUES_FLAGS :: cty where
  "HV_GET_VP_CPUID_VALUES_FLAGS = Union 0 (flds_of
       [mem ''AsUINT32'' U32,
       mem '''' (Struct 0 (flds_of [bits ''UseVpXfemXss'' U32 1, bits ''ApplyRegisteredValues'' U32 1,
          bits ''Reserved'' U32 30]))])"

definition HV_OPAQUE_INTERCEPT_MESSAGE :: cty where
  "HV_OPAQUE_INTERCEPT_MESSAGE = Struct 0 (flds_of
       [mem ''VpIndex'' HV_VP_INDEX])"

definition HV_SYNIC_EVENT_RING_MESSAGE_COUNT :: "32 word" where "HV_SYNIC_EVENT_RING_MESSAGE_COUNT = 63"

definition HV_SYNIC_EVENT_RING :: cty where
  "HV_SYNIC_EVENT_RING = Struct 0 (flds_of
       [mem ''SignalMasked'' U8, mem ''RingFull'' U8, mem ''ReservedZ'' U16,
       mem ''Data'' (Arr U32 (unat HV_SYNIC_EVENT_RING_MESSAGE_COUNT))])"

definition HV_SYNIC_EVENT_RING_PAGE :: cty where
  "HV_SYNIC_EVENT_RING_PAGE = Struct 0 (flds_of
       [mem ''SintEventRing'' (Arr HV_SYNIC_EVENT_RING HV_SYNIC_SINT_COUNT)])"

definition HV_SYNIC_SIRBP :: cty where
  "HV_SYNIC_SIRBP = Union 0 (flds_of
       [mem ''AsUINT64'' U64,
       mem '''' (Struct 0 (flds_of [bits ''SirbpEnabled'' U64 1, bits ''Preserved'' U64 11, bits ''BaseSirbpGpa'' U64 52]))])"

definition HV_LOCAL_INTERRUPT_CONTROLLER_STATE :: cty where
  "HV_LOCAL_INTERRUPT_CONTROLLER_STATE = Struct 0 (flds_of
       [mem ''ApicId'' HV_APIC_ID, mem ''ApicVersion'' U32, mem ''ApicLdr'' U32,
       mem ''ApicDfr'' U32, mem ''ApicSpurious'' U32, mem ''ApicIsr'' (Arr U32 8),
       mem ''ApicTmr'' (Arr U32 8), mem ''ApicIrr'' (Arr U32 8), mem ''ApicEsr'' U32,
       mem ''ApicIcrHigh'' U32, mem ''ApicIcrLow'' U32, mem ''ApicLvtTimer'' U32,
       mem ''ApicLvtThermal'' U32, mem ''ApicLvtPerfmon'' U32, mem ''ApicLvtLint0'' U32,
       mem ''ApicLvtLint1'' U32, mem ''ApicLvtError'' U32, mem ''ApicLvtCmci'' U32,
       mem ''ApicErrorStatus'' U32, mem ''ApicInitialCount'' U32, mem ''ApicCounterValue'' U32,
       mem ''ApicDivideConfiguration'' U32, mem ''ApicRemoteRead'' U32])"

definition HV_STIMER_STATE :: cty where
  "HV_STIMER_STATE = Struct 0 (flds_of
       [mem ''Flags'' (Struct 0 (flds_of [bits ''UndeliveredMessagePending'' U32 1, bits ''Reserved'' U32 31])),
       mem ''Reserved'' U32, mem ''Config'' U64, mem ''Count'' U64, mem ''Adjustment'' U64,
       mem ''UndeliveredExpirationTime'' U64])"

definition HV_SYNTHETIC_TIMERS_STATE :: cty where
  "HV_SYNTHETIC_TIMERS_STATE = Struct 0 (flds_of
       [mem ''Timers'' (Arr HV_STIMER_STATE (unat HV_SYNIC_STIMER_COUNT)),
       mem ''Reserved'' (Arr U64 5)])"

definition HV_REGISTER_X64_CPUID_RESULT_PARAMETERS :: cty where
  "HV_REGISTER_X64_CPUID_RESULT_PARAMETERS = Struct 0 (flds_of
       [mem ''Input'' (Struct 0 (flds_of [mem ''Eax'' U32, mem ''Ecx'' U32, mem ''SubleafSpecific'' U8, mem ''AlwaysOverride'' U8,
          mem ''Padding'' U16])),
       mem ''Result'' (Struct 0 (flds_of [mem ''Eax'' U32, mem ''EaxMask'' U32, mem ''Ebx'' U32, mem ''EbxMask'' U32,
          mem ''Ecx'' U32, mem ''EcxMask'' U32, mem ''Edx'' U32, mem ''EdxMask'' U32]))])"

definition HV_REGISTER_X64_MSR_RESULT_PARAMETERS :: cty where
  "HV_REGISTER_X64_MSR_RESULT_PARAMETERS = Struct 0 (flds_of
       [mem ''MsrIndex'' U32, mem ''AccessType'' U32, mem ''Action'' Enum_ty])"

definition HV_REGISTER_INTERCEPT_RESULT_PARAMETERS :: cty where
  "HV_REGISTER_INTERCEPT_RESULT_PARAMETERS = Union 0 (flds_of
       [mem ''Cpuid'' HV_REGISTER_X64_CPUID_RESULT_PARAMETERS,
       mem ''Msr'' HV_REGISTER_X64_MSR_RESULT_PARAMETERS])"

definition HV_ASYNC_COMPLETION_MESSAGE_PAYLOAD :: cty where
  "HV_ASYNC_COMPLETION_MESSAGE_PAYLOAD = Struct 0 (flds_of
       [mem ''PartitionId'' HV_PARTITION_ID, mem ''Status'' U32, mem ''CompletionCount'' U32,
       mem ''SubStatus'' U64])"

definition HV_GUEST_MAPPING_FLUSH_LIST :: cty where
  "HV_GUEST_MAPPING_FLUSH_LIST = Struct 0 (flds_of
       [mem ''AddressSpace'' U64, mem ''Flags'' HV_FLUSH_FLAGS,
       mem ''GpaList'' (Arr HV_GPA_PAGE_RANGE 0)])"

definition HV_VP_STATE_DATA_XSAVE :: cty where
  "HV_VP_STATE_DATA_XSAVE = Struct 0 (flds_of
       [mem ''Flags'' U64, mem ''States'' HV_X64_XSAVE_XFEM_REGISTER])"

definition HV_GET_SET_VP_STATE_TYPE_PFN :: "32 word" where "HV_GET_SET_VP_STATE_TYPE_PFN = push_bit 31 1"

definition HV_GET_SET_VP_STATE_TYPE :: enum_tab where
  "HV_GET_SET_VP_STATE_TYPE = enum_of
     [(''HvGetSetVpStateLocalInterruptControllerState'', Val (sint (0 OR HV_GET_SET_VP_STATE_TYPE_PFN))),
     (''HvGetSetVpStateXsave'', Val (sint (1 OR HV_GET_SET_VP_STATE_TYPE_PFN))),
     (''HvGetSetVpStateSimPage'', Val (sint (2 OR HV_GET_SET_VP_STATE_TYPE_PFN))),
     (''HvGetSetVpStateSiefPage'', Val (sint (3 OR HV_GET_SET_VP_STATE_TYPE_PFN))),
     (''HvGetSetVpStateSyntheticTimers'', Val 4)]"

definition HV_VP_STATE_DATA :: "arch \<Rightarrow> cty" where
  "HV_VP_STATE_DATA a = Struct 0 (flds_of
       ([mem ''Type'' Enum_ty, mem ''Reserved'' U32] @
        (case a of X64 \<Rightarrow> [mem ''Xsave'' HV_VP_STATE_DATA_XSAVE] | ARM64 \<Rightarrow> [])))"

definition HV_VP_DISPATCH_STATE :: enum_tab where
  "HV_VP_DISPATCH_STATE = enum_of
     [(''HvVpDispatchStateInvalid'', Val 0), (''HvVpDispatchStateBlocked'', Val 1),
     (''HvVpDispatchStateReady'', Val 2)]"

definition HV_VP_DISPATCH_EVENT :: enum_tab where
  "HV_VP_DISPATCH_EVENT = enum_of
     [(''HvVpDispatchEventInvalid'', Val 0x0), (''HvVpDispatchEventSuspend'', Val 0x1),
     (''HvVpDispatchEventIntercept'', Val 0x2), (''HvVpDispatchEventInternal'', Val 0x3),
     (''HvVpDispatchEventPreempted'', Val 0x4), (''HvVpDispatchEventCancelled'', Val 0x5),
     (''HvVpDispatchEventScheduler'', Val 0x6), (''HvVpDispatchEventLongSpinWait'', Val 0x7),
     (''HvVpDispatchEventTimeSliceEnd'', Val 0x8)]"

definition HV_ROOT_SCHEDULER_MAX_VPS_PER_CHILD_PARTITION :: "32 word" where
  "HV_ROOT_SCHEDULER_MAX_VPS_PER_CHILD_PARTITION = 1024"

definition HV_GENERIC_SET_QWORD_COUNT :: "32 word \<Rightarrow> 32 word" where
  "HV_GENERIC_SET_QWORD_COUNT m = (drop_bit 6 (m - 1) + 1) + 2"

definition BITSET_BUFFER_SIZE :: "32 word" where
  "BITSET_BUFFER_SIZE = HV_GENERIC_SET_QWORD_COUNT HV_ROOT_SCHEDULER_MAX_VPS_PER_CHILD_PARTITION"

definition HV_VP_SIGNAL_BITSET_SCHEDULER_MESSAGE :: cty where
  "HV_VP_SIGNAL_BITSET_SCHEDULER_MESSAGE = Struct 0 (flds_of
       [mem ''PartitionId'' HV_PARTITION_ID, mem ''OverflowCount'' U32, mem ''VpCount'' U16,
       mem ''VpBitset'' (Union 0 (flds_of [mem ''Bitset'' HV_GENERIC_SET, mem ''BitsetBuffer'' (Arr U64 (unat BITSET_BUFFER_SIZE))]))])"

definition HV_MESSAGE_MAX_PARTITION_VP_PAIR_COUNT :: nat where
  "HV_MESSAGE_MAX_PARTITION_VP_PAIR_COUNT =
     (csize sysv HV_MESSAGE - csize sysv HV_MESSAGE_HEADER) div (csize sysv U64 + csize sysv U32) - 1"

definition HV_VP_SIGNAL_PAIR_SCHEDULER_MESSAGE :: cty where
  "HV_VP_SIGNAL_PAIR_SCHEDULER_MESSAGE = Struct 0 (flds_of
       [mem ''OverflowCount'' U32, mem ''VpCount'' U8, mem ''Reserved1'' (Arr U8 3),
       mem ''PartitionIds'' (Arr U64 HV_MESSAGE_MAX_PARTITION_VP_PAIR_COUNT),
       mem ''VpIndexes'' (Arr HV_VP_INDEX HV_MESSAGE_MAX_PARTITION_VP_PAIR_COUNT),
       mem ''Reserved2'' (Arr U8 4)])"

definition HV_DISPATCH_VP_FLAG_CLEAR_INTERCEPT_SUSPEND :: "32 word" where
  "HV_DISPATCH_VP_FLAG_CLEAR_INTERCEPT_SUSPEND = 0x1"

definition HV_DISPATCH_VP_FLAG_ENABLE_CALLER_INTERRUPTS :: "32 word" where
  "HV_DISPATCH_VP_FLAG_ENABLE_CALLER_INTERRUPTS = 0x2"

definition HV_DISPATCH_VP_FLAG_SET_CALLER_SPEC_CTRL :: "32 word" where
  "HV_DISPATCH_VP_FLAG_SET_CALLER_SPEC_CTRL = 0x4"

definition HV_DISPATCH_VP_FLAG_SKIP_VP_SPEC_FLUSH :: "32 word" where
  "HV_DISPATCH_VP_FLAG_SKIP_VP_SPEC_FLUSH = 0x8"

definition HV_DISPATCH_VP_FLAG_SKIP_CALLER_SPEC_FLUSH :: "32 word" where
  "HV_DISPATCH_VP_FLAG_SKIP_CALLER_SPEC_FLUSH = 0x10"

definition HV_DISPATCH_VP_FLAG_SKIP_CALLER_USER_SPEC_FLUSH :: "32 word" where
  "HV_DISPATCH_VP_FLAG_SKIP_CALLER_USER_SPEC_FLUSH = 0x20"

section \<open>Extra Hyper-V definitions from Windows symbols\<close>

definition HV_LOGICAL_DEVICE_ID :: cty where
  "HV_LOGICAL_DEVICE_ID = U64"

definition HV_PASID :: cty where
  "HV_PASID = U32"

definition HV_PASID_SPACE_ID :: cty where
  "HV_PASID_SPACE_ID = U32"

definition HV_IOAPIC_ID :: cty where
  "HV_IOAPIC_ID = U8"

definition HV_PCI_SEGMENT :: cty where
  "HV_PCI_SEGMENT = U16"

definition HV_DEVICE_VA :: cty where
  "HV_DEVICE_VA = U64"

definition HV_PCI_RID :: cty where
  "HV_PCI_RID = U16"

definition HV_DEVICE_PR_QUEUE_ID :: cty where
  "HV_DEVICE_PR_QUEUE_ID = U32"

definition HV_SUBNODE_TYPE :: enum_tab where
  "HV_SUBNODE_TYPE = enum_of
     [(''HvSubnodeAny'', Val 0x0), (''HvSubnodeSocket'', Val 0x1),
     (''HvSubnodeCluster'', Val 0x2), (''HvSubnodeL3'', Val 0x3), (''HvSubnodeCount'', Val 0x4),
     (''HvSubnodeInvalid'', Val 0xffffffff)]"

definition HV_INPUT_FLUSH_VIRTUAL_ADDRESS_SPACE_HEADER :: cty where
  "HV_INPUT_FLUSH_VIRTUAL_ADDRESS_SPACE_HEADER = Struct 0 (flds_of
       [mem ''AddressSpace'' HV_ADDRESS_SPACE_ID, mem ''Flags'' HV_FLUSH_FLAGS,
       mem ''ProcessorMask'' U64])"

definition HV_INPUT_FLUSH_VIRTUAL_ADDRESS_SPACE_HEADER_EX :: cty where
  "HV_INPUT_FLUSH_VIRTUAL_ADDRESS_SPACE_HEADER_EX = Struct 0 (flds_of
       [mem ''AddressSpace'' HV_ADDRESS_SPACE_ID, mem ''Flags'' HV_FLUSH_FLAGS,
       mem ''ProcessorSet'' HV_GENERIC_SET])"

definition HV_GPA_PAGE_ATTRIBUTES :: cty where
  "HV_GPA_PAGE_ATTRIBUTES = Union 0 (flds_of
       [mem ''AsUINT64'' U64,
       mem '''' (Struct 0 (flds_of [bits ''Protectable'' U64 1, bits ''Reserved'' U64 63]))])"

definition HV_NESTED_MSR_INTERCEPT_MODE :: enum_tab where
  "HV_NESTED_MSR_INTERCEPT_MODE = enum_of
     [(''HvNestedMsrInterceptModeSlow'', Val 0x0), (''HvNestedMsrInterceptModeFast'', Val 0x1),
     (''HvNestedMsrInterceptModeEnlightened'', Val 0x2),
     (''HvNestedMsrInterceptModeCount'', Val 0x3)]"

definition HV_STORE_DATA_RESULT :: enum_tab where
  "HV_STORE_DATA_RESULT = enum_of
     [(''StoreDataSuccess'', Val 0x0), (''StoreDataNoWritesRequired'', Val 0x1),
     (''StoreDataFailure'', Val 0x2), (''StoreDataResultMaximum'', Val 0x3)]"

definition HV_FILE_STATUS :: enum_tab where
  "HV_FILE_STATUS = enum_of
     [(''Shrunk'', Val 0x0), (''Grown'', Val 0x1), (''Unchanged'', Val 0x2)]"

definition HV_BACKING_STORAGE_TYPE :: enum_tab where
  "HV_BACKING_STORAGE_TYPE = enum_of
     [(''HvStorageLoader'', Val 0x0), (''HvStoragePool'', Val 0x1),
     (''HvStorageSystemCache'', Val 0x2)]"

definition HV_LOG_SWAP_REASON :: enum_tab where
  "HV_LOG_SWAP_REASON = enum_of
     [(''HvLogSwapSpaceExhausted'', Val 0x0), (''HvLogSwapReconcile'', Val 0x1)]"

definition HV_LOGICAL_PROCESSOR_PROPERTY_TYPE :: "arch \<Rightarrow> enum_tab" where
  "HV_LOGICAL_PROCESSOR_PROPERTY_TYPE a = enum_of
     ((case a of X64 \<Rightarrow> [(''HvLogicalProcessorPerfStateConfig'', Val 0x0),
     (''HvLogicalProcessorThrottleStateConfig'', Val 0x1),
     (''HvLogicalProcessorPccConfig'', Val 0x2), (''HvLogicalProcessorPerfStateCap'', Val 0x3),
     (''HvLogicalProcessorMachineCheckContextInfo'', Val 0x4),
     (''HvLogicalProcessorMcUpdateUpdateStatus'', Val 0x5)] | ARM64 \<Rightarrow>
     [(''HvLogicalProcessorMachineCheckContextInfo'', Val 0x0),
     (''HvLogicalProcessorMcUpdateUpdateStatus'', Val 0x1),
     (''HvLogicalProcessorUpdateLpIndex'', Val 0x2), (''HvLogicalProcessorProcHwId'', Val 0x3),
     (''HvLogicalProcessorProximityDomainId'', Val 0x4)]))"

definition HV_LOGICAL_PROCESSOR_REGISTER_TYPE :: "arch \<Rightarrow> enum_tab" where
  "HV_LOGICAL_PROCESSOR_REGISTER_TYPE a = enum_of
     ((case a of X64 \<Rightarrow> [(''HvX64LpRegisterTypeCpuid'', Val 0x10000), (''HvX64LpRegisterTypeMsr'', Val 0x10001),
     (''HvX64LpRegisterTypeWbinvd'', Val 0x10002)] | ARM64 \<Rightarrow>
     [(''HvArm64LpRegisterTypeHvRegister'', Val 0x10000)]))"

definition HV_POWER_PROPERTY_TYPE :: enum_tab where
  "HV_POWER_PROPERTY_TYPE = enum_of
     [(''HvPowerPropertyLpIdleStateConfig'', Val 0x0),
     (''HvPowerPropertyLpPerfFeedbackCounters'', Val 0x1),
     (''HvPowerPropertyLpPercentageFrequency'', Val 0x2),
     (''HvPowerPropertyLpNextPlatformStateIndex'', Val 0x3),
     (''HvPowerPropertyStatsOffsets'', Val 0x4), (''HvPowerPropertyPolicySetting'', Val 0x5),
     (''HvPowerPropertyLpCppcRequestValue'', Val 0x6),
     (''HvPowerPropertyLpCppcRequestRegister'', Val 0x7),
     (''HvPowerPropertyLpIdleStateConfigEx'', Val 0x8)]"

definition HV_PARTITION_EVENT :: enum_tab where
  "HV_PARTITION_EVENT = enum_of
     [(''HvPartitionEventDebugDeviceAvailable'', Val 0x1),
     (''HvPartitionEventRootCrashdump'', Val 0x2), (''HvPartitionEventAcpiReenabled'', Val 0x3),
     (''HvPartitionAllLogicalProcessorsStarted'', Val 0x4),
     (''HvPartitionCommitLpIndices'', Val 0x5)]"

definition HV_PPM_POWER_POLICY_SETTING_ID :: "arch \<Rightarrow> enum_tab" where
  "HV_PPM_POWER_POLICY_SETTING_ID a = enum_of
     ([(''HvPowerPolicyIdleDisable'', Val 0x0), (''HvPowerPolicyIdleTimeCheck'', Val 0x1)] @
     (case a of X64 \<Rightarrow> [(''HvPowerPolicyIdlePromoteThreshold'', Val 0x2),
     (''HvPowerPolicyIdleDemoteThreshold'', Val 0x3),
     (''HvPowerPolicyIdleStateMaximum'', Val 0x4), (''HvPowerPolicyThrottleMaximum'', Val 0x5),
     (''HvPowerPolicyThrottleMinimum'', Val 0x6),
     (''HvPowerPolicyPerfIncreaseThreshold'', Val 0x7),
     (''HvPowerPolicyPerfDecreaseThreshold'', Val 0x8),
     (''HvPowerPolicyPerfIncreasePolicy'', Val 0x9),
     (''HvPowerPolicyPerfDecreasePolicy'', Val 0xa),
     (''HvPowerPolicyCoreParkingIncreasePolicy'', Val 0xb),
     (''HvPowerPolicyCoreParkingDecreasePolicy'', Val 0xc),
     (''HvPowerPolicyCoreParkingMaxCores'', Val 0xd),
     (''HvPowerPolicyCoreParkingMinCores'', Val 0xe), (''HvPowerPolicyPerfTimeCheck'', Val 0xf),
     (''HvPowerPolicyPerfIncreaseTime'', Val 0x10),
     (''HvPowerPolicyPerfDecreaseTime'', Val 0x11),
     (''HvPowerPolicyPerfBoostPolicy'', Val 0x12), (''HvPowerPolicyPerfBoostMode'', Val 0x13),
     (''HvPowerPolicyMax'', Val 0x14)] | ARM64 \<Rightarrow>
     [(''HvPowerPolicyIdleScalingAllow'', Val 0x2),
     (''HvPowerPolicyIdlePromoteThreshold'', Val 0x3),
     (''HvPowerPolicyIdleDemoteThreshold'', Val 0x4),
     (''HvPowerPolicyIdleStateMaximum'', Val 0x5), (''HvPowerPolicyMax'', Val 0x6)]))"

definition HV_BOOT_DEBUG_PORT_TYPE :: enum_tab where
  "HV_BOOT_DEBUG_PORT_TYPE = enum_of
     [(''HvBootDbgPortNone'', Val 0x0), (''HvBootDbgPortCom'', Val 0x1),
     (''HvBootDbgPortFirewire'', Val 0x2), (''HvBootDbgPortNet'', Val 0x3)]"

definition HV_CRASHDUMP_ACTION :: enum_tab where
  "HV_CRASHDUMP_ACTION = enum_of
     [(''HvCrashdumpNone'', Val 0x0), (''HvCrashdumpSuspendAllVps'', Val 0x1),
     (''HvCrashdumpPrepareForStateSave'', Val 0x2), (''HvCrashdumpStateSaved'', Val 0x3),
     (''HvCrashdumpEntry'', Val 0x4)]"

definition HV_PHYSICAL_DEVICE_PROPERTY :: enum_tab where
  "HV_PHYSICAL_DEVICE_PROPERTY = enum_of
     [(''HvPhysicalDevicePropertyCapabilities'', Val 0x0),
     (''HvPhysicalDevicePropertyEnabled'', Val 0x1),
     (''HvPhysicalDevicePropertyDmaEnabled'', Val 0x1),
     (''HvPhysicalDevicePropertyAtsEnabled'', Val 0x1),
     (''HvPhysicalDevicePropertyFaultReporting'', Val 0x2),
     (''HvPhysicalDevicePropertyIrtRange'', Val 0x4)]"

definition HV_X64_PPM_PERF_STATE_PORT_ACCESS_SIZE :: enum_tab where
  "HV_X64_PPM_PERF_STATE_PORT_ACCESS_SIZE = enum_of
     [(''HvX64PerfStatePort8Bit'', Val 0x0), (''HvX64PerfStatePort16Bit'', Val 0x1),
     (''HvX64PerfStatePort32Bit'', Val 0x2)]"

definition HV_MACHINE_CHECK_RECOVERY_FLAG :: enum_tab where
  "HV_MACHINE_CHECK_RECOVERY_FLAG = enum_of
     [(''InvalidRecoveryFlag'', Val 0x0), (''NewDeferredRecoveryQueued'', Val 0x1),
     (''DeferredRecoveryCompleted'', Val 0x2)]"

definition HV_MACHINE_CHECK_SOURCE :: enum_tab where
  "HV_MACHINE_CHECK_SOURCE = enum_of
     [(''HV_MACHINE_CHECK_SOURCE_NONE'', Val 0x0), (''HV_MACHINE_CHECK_SOURCE_HV'', Val 0x1),
     (''HV_MACHINE_CHECK_SOURCE_ROOT_VP'', Val 0x2),
     (''HV_MACHINE_CHECK_SOURCE_NON_ROOT_VP'', Val 0x3)]"

definition HV_DEVICE_TYPE :: enum_tab where
  "HV_DEVICE_TYPE = enum_of
     [(''HV_DEVICE_TYPE_LOGICAL'', Val 0x0), (''HV_DEVICE_TYPE_PCI'', Val 0x1),
     (''HV_DEVICE_TYPE_IOAPIC'', Val 0x2), (''HV_DEVICE_TYPE_ACPI'', Val 0x3)]"

definition HV_COVERAGE_OPERATION :: enum_tab where
  "HV_COVERAGE_OPERATION = enum_of
     [(''HvCoverageFetchInfo'', Val 0x0), (''HvCoverageFetchCovHeader'', Val 0x1),
     (''HvCoverageFetchCovSection'', Val 0x2), (''HvCoverageResetCovVector'', Val 0x3)]"

definition HV_BOOT_DEBUG_COM_PORT_TYPE :: enum_tab where
  "HV_BOOT_DEBUG_COM_PORT_TYPE = enum_of
     [(''HvBootDbgPortComIoPort'', Val 0x0), (''HvBootDbgPortComMemoryMapped'', Val 0x1)]"

definition HV_INTERRUPT_TRIGGER_MODE :: enum_tab where
  "HV_INTERRUPT_TRIGGER_MODE = enum_of
     [(''HvInterruptTriggerModeEdge'', Val 0x0), (''HvInterruptTriggerModeLevel'', Val 0x1)]"

definition HV_SLEEP_STATE :: enum_tab where
  "HV_SLEEP_STATE = enum_of
     [(''HvSleepStateS1'', Val 0x1), (''HvSleepStateS2'', Val 0x2),
     (''HvSleepStateS3'', Val 0x3), (''HvSleepStateS4'', Val 0x4),
     (''HvSleepStateS5'', Val 0x5), (''HvSleepStateLock'', Val 0x6)]"

definition HV_DEVICE_PRQ_PROPERTY :: enum_tab where
  "HV_DEVICE_PRQ_PROPERTY = enum_of
     [(''HvDevicePrqPropertyStalled'', Val 0x0), (''HvDevicePrqPropertyInterruptMasked'', Val 0x1)]"

definition HV_MACHINE_CHECK_PROPERTY_TYPE :: enum_tab where
  "HV_MACHINE_CHECK_PROPERTY_TYPE = enum_of
     [(''MachineCheckHandlerState'', Val 0x1), (''MachineCheckDeferredRecoveryState'', Val 0x2)]"

definition HV_PPM_PERF_STATE_REGISTER_TYPE :: enum_tab where
  "HV_PPM_PERF_STATE_REGISTER_TYPE = enum_of
     [(''HvPerfStateRegisterNone'', Val 0x0), (''HvPerfStateRegisterMsr'', Val 0x1),
     (''HvPerfStateRegisterIo'', Val 0x2), (''HvPerfStateRegisterMemory'', Val 0x3)]"

definition HV_X64_PPM_PERF_DOMAIN_COORDINATION :: enum_tab where
  "HV_X64_PPM_PERF_DOMAIN_COORDINATION = enum_of
     [(''HvX64PerfDomainCoordinationSwAll'', Val 0x0),
     (''HvX64PerfDomainCoordinationSwAny'', Val 0x1),
     (''HvX64PerfDomainCoordinationHwAll'', Val 0x2)]"

definition HV_ERROR_TYPES :: enum_tab where
  "HV_ERROR_TYPES = enum_of
     [(''HV_MISCELLANEOUS_ERROR'', Val 0x0), (''HV_PERFORMANCE_COUNTER_DECREASED'', Val 0x1),
     (''HV_PERFORMANCE_COUNTER_SKIPPED'', Val 0x2),
     (''HV_FREED_TOO_MANY_COMMON_BUFFERS'', Val 0x3),
     (''HV_FREED_TOO_MANY_ADAPTER_CHANNELS'', Val 0x4),
     (''HV_FREED_TOO_MANY_MAP_REGISTERS'', Val 0x5),
     (''HV_FREED_TOO_MANY_SCATTER_GATHER_LISTS'', Val 0x6),
     (''HV_LEFTOVER_COMMON_BUFFERS'', Val 0x7), (''HV_LEFTOVER_ADAPTER_CHANNELS'', Val 0x8),
     (''HV_LEFTOVER_MAP_REGISTERS'', Val 0x9), (''HV_LEFTOVER_SCATTER_GATHER_LISTS'', Val 0xa),
     (''HV_TOO_MANY_ADAPTER_CHANNELS'', Val 0xb), (''HV_TOO_MANY_MAP_REGISTERS'', Val 0xc),
     (''HV_DID_NOT_FLUSH_ADAPTER_BUFFERS'', Val 0xd), (''HV_DMA_BUFFER_NOT_LOCKED'', Val 0xe),
     (''HV_BOUNDARY_OVERRUN'', Val 0xf), (''HV_CANNOT_FREE_MAP_REGISTERS'', Val 0x10),
     (''HV_DID_NOT_PUT_ADAPTER'', Val 0x11), (''HV_MDL_FLAGS_NOT_SET'', Val 0x12),
     (''HV_BAD_IRQL'', Val 0x13), (''HV_BAD_IRQL_JUST_WARN'', Val 0x14),
     (''HV_OUT_OF_MAP_REGISTERS'', Val 0x15), (''HV_FLUSH_EMPTY_BUFFERS'', Val 0x16),
     (''HV_MISMATCHED_MAP_FLUSH'', Val 0x17), (''HV_ADAPTER_ALREADY_RELEASED'', Val 0x18),
     (''HV_NULL_DMA_ADAPTER'', Val 0x19), (''HV_MAP_FLUSH_NO_TRANSFER'', Val 0x1a),
     (''HV_ADDRESS_NOT_IN_MDL'', Val 0x1b), (''HV_DATA_LOSS'', Val 0x1c),
     (''HV_DOUBLE_MAP_REGISTER'', Val 0x1d), (''HV_OBSOLETE_API'', Val 0x1e),
     (''HV_BAD_MDL'', Val 0x1f), (''HV_FLUSH_NOT_MAPPED'', Val 0x20),
     (''HV_MAP_ZERO_LENGTH_BUFFER'', Val 0x21),
     (''HV_BUFFER_NOT_MAPPED_IN_SYSTEM_VA'', Val 0x22), (''HV_INCOMPLETE_FLUSH'', Val 0x23),
     (''HV_INSUFFICIENT_BUFFER'', Val 0x24),
     (''HV_UNKNOWN_DEVICE_DESCRIPTION_VERSION'', Val 0x25), (''HV_MAX_ERROR_TYPES'', Val 0x26),
     (''HV_ERROR_HAS_SUBCODE'', Val 0x10000000)]"

definition HV_PPM_POWER_POLICY_SETTING :: cty where
  "HV_PPM_POWER_POLICY_SETTING = Struct 0 (flds_of
       [mem ''SettingId'' Enum_ty, mem ''Value'' U32])"

definition HV_IOMMU_INIT_STATUS :: cty where
  "HV_IOMMU_INIT_STATUS = Struct 0 (flds_of
       [mem ''HardwarePresent'' U8, mem ''Enabled'' U8, mem ''Policy'' U64, mem ''Features'' U64,
       mem ''InitStatus'' U64, mem ''Errors'' U64, mem ''Errata'' U64])"

definition HV_TSC_SYNC_STATUS :: cty where
  "HV_TSC_SYNC_STATUS = Struct 0 (flds_of
       [mem ''SyncFailed'' U8, mem ''SyncNeeded'' U8, mem ''MaxDelta'' U64, mem ''MinDelta'' U64])"

definition HV_PCI_BDF :: cty where
  "HV_PCI_BDF = Union 0 (flds_of
       [mem ''AsUINT16'' U16,
       mem '''' (Struct 0 (flds_of [bits ''Function'' U8 3, bits ''Device'' U8 5, mem ''Bus'' U8]))])"

definition HV_PCI_BUS_RANGE :: cty where
  "HV_PCI_BUS_RANGE = Union 0 (flds_of
       [mem ''AsUINT16'' U16,
       mem '''' (Struct 0 (flds_of [mem ''SubordinateBus'' U8, mem ''SecondaryBus'' U8]))])"

definition HV_DEVICE_ID :: "arch \<Rightarrow> cty" where
  "HV_DEVICE_ID a = Union 0 (flds_of
       [mem ''AsUINT64'' U64,
       mem ''Logical'' (Struct 0 (flds_of [bits ''Id'' U64 62, bits ''DeviceType'' U64 2])),
       mem ''Pci'' (Struct 0 (flds_of ([mem '''' (Union 0 (flds_of [mem ''Rid'' U16, mem ''Bdf'' HV_PCI_BDF])),
          mem ''Segment'' U16] @
           (case a of X64 \<Rightarrow> [bits ''DeviceType'' U8 2, bits ''SourceShadow'' U8 2, bits ''PhantomFunctionBits'' U8 2,
          bits ''RsvdZ0'' U8 2, mem ''IoApicId'' HV_IOAPIC_ID,
          mem '''' (Union 0 (flds_of [mem ''ShadowBdf'' HV_PCI_BDF, mem ''ShadowBusRange'' HV_PCI_BUS_RANGE]))] | ARM64 \<Rightarrow>
           [mem ''RsvdZ0'' U16, bits ''PhantomFunctionBits'' U16 2, bits ''RsvdZ1'' U16 12,
          bits ''DeviceType'' U16 2])))),
       mem ''Acpi'' (Struct 0 (flds_of [mem ''InputMappingBase'' U32, bits ''InputMappingsCount'' U32 30,
          bits ''DeviceType'' U32 2])),
       mem '''' (Struct 0 (flds_of [bits '''' U64 62, bits ''DeviceType'' U64 2]))])"

definition HV_HPET_CONFIG_INFO :: "arch \<Rightarrow> cty" where
  "HV_HPET_CONFIG_INFO a = Struct 0 (flds_of
       [mem ''BaseAddressDeprecated'' U64, mem ''TimerIndex'' U32,
       mem ''DeviceId'' (HV_DEVICE_ID a), mem ''TimerInterruptPin'' U8])"

definition HV_HPET_INTERRUPT_INFO :: "arch \<Rightarrow> cty" where
  "HV_HPET_INTERRUPT_INFO a = Struct 0 (flds_of
       [mem ''InterruptEntry'' (HV_INTERRUPT_ENTRY a)])"

definition HV_HPET_ENABLED_INFO :: cty where
  "HV_HPET_ENABLED_INFO = Struct 0 (flds_of
       [bits ''HpetEnabled'' U8 1, bits ''Reserved'' U8 7])"

definition HV_HYPERVISOR_LAUNCH_STATS :: cty where
  "HV_HYPERVISOR_LAUNCH_STATS = Struct 0 (flds_of
       [mem ''RootBspTscAdjustment'' U64])"

definition HV_ROOT_SVM_CAPABILITIES_PROPERTY :: cty where
  "HV_ROOT_SVM_CAPABILITIES_PROPERTY = Struct 0 (flds_of
       [mem ''IommuCount'' U32, mem ''MinIommuPasidCount'' U32])"

definition HV_NUMA_NODE_RESERVED_PAGE_INFO :: cty where
  "HV_NUMA_NODE_RESERVED_PAGE_INFO = Struct 0 (flds_of
       [mem ''PhysicalAddress'' U64, mem ''ProximityDomainId'' U32])"

definition HV_ROOT_NUMA_COST_PAGES_PROPERTY :: cty where
  "HV_ROOT_NUMA_COST_PAGES_PROPERTY = Struct 0 (flds_of
       [mem ''NumaNodeCount'' U32, mem ''ReservedP'' U32,
       mem ''NumaNodePfn'' (Arr HV_NUMA_NODE_RESERVED_PAGE_INFO 64)])"

definition HV_SLEEP_STATE_INFO :: cty where
  "HV_SLEEP_STATE_INFO = Struct 0 (flds_of
       [mem ''SleepState'' Enum_ty, mem ''Pm1a_SLP_TYP'' U8, mem ''Pm1b_SLP_TYP'' U8])"

definition HV_MACHINE_CHECK_PROPERTY_INFO :: cty where
  "HV_MACHINE_CHECK_PROPERTY_INFO = Struct 0 (flds_of
       [mem ''PropertyType'' Enum_ty,
       mem '''' (Union 0 (flds_of [mem ''MachineCheckHandlerReady'' U8, mem ''MachineCheckRecoveryFlag'' Enum_ty]))])"

definition HV_HYPERVISOR_DEBUG_PROPERTY :: cty where
  "HV_HYPERVISOR_DEBUG_PROPERTY = Struct 0 (flds_of
       [mem ''PowerStateEnabled'' U8])"

definition HV_PLATFORM_VIRTUALIZATION_SUPPORT_INFO :: cty where
  "HV_PLATFORM_VIRTUALIZATION_SUPPORT_INFO = Struct 0 (flds_of
       [mem ''NestedVirtualization'' U8, mem ''Sgx'' U8])"

definition HV_SPA_PAGE_LIST_FLAGS :: cty where
  "HV_SPA_PAGE_LIST_FLAGS = Union 0 (flds_of
       [mem ''AsUINT64'' U64,
       mem '''' (Struct 0 (flds_of [bits ''Deposited'' U64 1, bits ''Minimal'' U64 1, bits ''Hardware'' U64 1,
          bits ''RsvdZ'' U64 61]))])"

definition HV_X64_PPM_PERF_STATE :: cty where
  "HV_X64_PPM_PERF_STATE = Struct 0 (flds_of
       [mem ''Control'' U64, mem ''Status'' U64, mem ''ControlMask'' U64, mem ''StatusMask'' U64,
       mem ''Frequency'' U32, mem ''TransitionLatency'' U32, mem ''BusMasterLatency'' U32,
       mem ''PowerConsumption'' U32])"

definition HV_PPM_PERF_STATE_REGISTER :: "arch \<Rightarrow> cty" where
  "HV_PPM_PERF_STATE_REGISTER a = Union 0 (flds_of
       ([mem ''AsUINT64'' U64,
       mem '''' (Struct 0 (flds_of [bits ''TypeSpecific'' U64 52, bits ''RegisterType'' U64 12])),
       mem ''Msr'' (Struct 0 (flds_of [mem ''RegisterNumber'' U32, mem ''BitWidth'' U8, mem ''BitOffset'' U8,
          bits ''ReservedZ'' U16 4])),
       mem ''Io'' (Struct 0 (flds_of [mem ''Port'' U16, mem ''AccessSize'' U16, mem ''BitWidth'' U8, mem ''BitOffset'' U8,
          bits ''ReservedZ'' U16 4]))] @
        (case a of X64 \<Rightarrow> [mem ''Memory'' (Struct 0 (flds_of [bits ''Address'' U64 52]))] | ARM64 \<Rightarrow> [])))"

definition HV_X64_PPM_PERF_STATE_CONFIG_PROPERTY :: "arch \<Rightarrow> cty" where
  "HV_X64_PPM_PERF_STATE_CONFIG_PROPERTY a = Struct 0 (flds_of
       [mem ''StateCount'' U32, mem ''States'' (Arr HV_X64_PPM_PERF_STATE 64),
       mem ''DomainId'' U32, mem ''NumProcInDomain'' U32, mem ''Coordination'' Enum_ty,
       mem ''ControlRegister'' (HV_PPM_PERF_STATE_REGISTER a),
       mem ''StatusRegister'' (HV_PPM_PERF_STATE_REGISTER a)])"

definition HV_X64_PPM_THROTTLE_STATE :: cty where
  "HV_X64_PPM_THROTTLE_STATE = Struct 0 (flds_of
       [mem ''Control'' U64, mem ''Status'' U64, mem ''PercentFrequency'' U32,
       mem ''TransitionLatency'' U32, mem ''PowerConsumption'' U32])"

definition HV_X64_PPM_THROTTLE_STATE_CONFIG_PROPERTY :: "arch \<Rightarrow> cty" where
  "HV_X64_PPM_THROTTLE_STATE_CONFIG_PROPERTY a = Struct 0 (flds_of
       [mem ''StateCount'' U32, mem ''States'' (Arr HV_X64_PPM_THROTTLE_STATE 100),
       mem ''DomainId'' U32, mem ''NumProcInDomain'' U32, mem ''Coordination'' Enum_ty,
       mem ''ControlRegister'' (HV_PPM_PERF_STATE_REGISTER a),
       mem ''StatusRegister'' (HV_PPM_PERF_STATE_REGISTER a), mem ''ControlMask'' U64,
       mem ''StatusMask'' U64])"

definition HV_X64_PPM_PCC_CONFIG_PROPERTY :: "arch \<Rightarrow> cty" where
  "HV_X64_PPM_PCC_CONFIG_PROPERTY a = Struct 0 (flds_of
       [mem ''Flags'' U32, mem ''DomainId'' U32, mem ''NumProcInDomain'' U32,
       mem ''Coordination'' Enum_ty, mem ''SharedMemoryAddress'' U64,
       mem ''SharedMemoryLength'' U32, mem ''Doorbell'' (HV_PPM_PERF_STATE_REGISTER a),
       mem ''DoorbellPreserve'' U64, mem ''DoorbellWrite'' U64, mem ''DoorbellMask'' U64,
       mem ''InputBufferOffset'' U32, mem ''OutputBufferOffset'' U32])"

definition HV_X64_PPM_PERF_STATE_CAP_PROPERTY :: cty where
  "HV_X64_PPM_PERF_STATE_CAP_PROPERTY = Struct 0 (flds_of
       [mem ''PStateCap'' U32, mem ''TStateCap'' U32, mem ''ThermalCap'' U32])"

definition HV_MACHINE_CHECK_CONTEXT :: cty where
  "HV_MACHINE_CHECK_CONTEXT = Struct 0 (flds_of
       [mem ''PartitionId'' HV_PARTITION_ID, mem ''VpIndex'' HV_VP_INDEX, mem ''Vtl'' HV_VTL])"

definition HV_MACHINE_CHECK_CONTEXT_INFO :: cty where
  "HV_MACHINE_CHECK_CONTEXT_INFO = Struct 0 (flds_of
       [mem ''MachineCheckSource'' Enum_ty, mem ''MachineCheckContext'' HV_MACHINE_CHECK_CONTEXT])"

definition HV_MCUPDATE_UPDATE_STATUS :: cty where
  "HV_MCUPDATE_UPDATE_STATUS = Struct 0 (flds_of
       [mem ''Valid'' HV_BOOLEAN, mem ''UpdateLoadStatus'' U32, mem ''UpdateRevision'' U64,
       mem ''PreviousUpdateRevision'' U64, mem ''PlatformSpecificField1'' U32,
       mem ''PlatformSpecificField2'' U32])"

definition HV_LOGICAL_PROCESSOR_PROPERTY :: "arch \<Rightarrow> cty" where
  "HV_LOGICAL_PROCESSOR_PROPERTY a = Union 0 (flds_of
       ((case a of X64 \<Rightarrow> [mem ''PerfStateConfig'' (HV_X64_PPM_PERF_STATE_CONFIG_PROPERTY a),
       mem ''ThrottleStateConfig'' (HV_X64_PPM_THROTTLE_STATE_CONFIG_PROPERTY a),
       mem ''PccConfig'' (HV_X64_PPM_PCC_CONFIG_PROPERTY a),
       mem ''PerfStateCap'' HV_X64_PPM_PERF_STATE_CAP_PROPERTY] | ARM64 \<Rightarrow>
        [mem ''UpdateLpIndex'' U32, mem ''ProcHwId'' HV_PROCESSOR_HW_ID,
       mem ''ProximityDomainId'' HV_PROXIMITY_DOMAIN_ID]) @
        [mem ''MachineCheckContextInfo'' HV_MACHINE_CHECK_CONTEXT_INFO,
       mem ''UpdateStatus'' HV_MCUPDATE_UPDATE_STATUS]))"

definition HV_DEVICE_DOMAIN_ID :: cty where
  "HV_DEVICE_DOMAIN_ID = Union 0 (flds_of
       [mem ''AsUINT64'' U64,
       mem '''' (Struct 0 (flds_of [bits ''Type'' U32 4, bits ''Reserved'' U32 28, mem ''Id'' U32]))])"

definition HV_INPUT_DEVICE_DOMAIN :: cty where
  "HV_INPUT_DEVICE_DOMAIN = Struct 0 (flds_of
       [mem ''PartitionId'' HV_PARTITION_ID, mem ''OwnerVtl'' HV_INPUT_VTL,
       mem ''DomainId'' HV_DEVICE_DOMAIN_ID])"

definition HV_FULL_PASID :: cty where
  "HV_FULL_PASID = Union 0 (flds_of
       [mem ''AsUINT64'' U64,
       mem '''' (Struct 0 (flds_of [mem ''Pasid'' HV_PASID, mem ''PasidSpaceId'' HV_PASID_SPACE_ID]))])"

definition HV_DEVICE_ADDRESS_SPACE :: cty where
  "HV_DEVICE_ADDRESS_SPACE = Union 0 (flds_of
       [mem ''AsUINT64'' U64,
       mem '''' (Struct 0 (flds_of [bits ''Present'' U64 1, bits ''Supervisor'' U64 1, bits ''Reserved'' U64 10,
          bits ''PageTableRootPfn'' U64 52]))])"

definition HV_DEVICE_INTERRUPT_DESCRIPTOR_HEADER :: cty where
  "HV_DEVICE_INTERRUPT_DESCRIPTOR_HEADER = Struct 0 (flds_of
       [mem ''InterruptType'' Enum_ty, mem ''TriggerMode'' Enum_ty, mem ''VectorCount'' U32,
       mem ''Reserved'' U32])"

definition HV_DEVICE_INTERRUPT_DESCRIPTOR :: cty where
  "HV_DEVICE_INTERRUPT_DESCRIPTOR = Struct 0 (flds_of
       [mem ''InterruptType'' Enum_ty, mem ''TriggerMode'' Enum_ty, mem ''VectorCount'' U32,
       mem ''Reserved'' U32, mem ''Target'' HV_DEVICE_INTERRUPT_TARGET])"

definition HV_ATTACH_DEVICE_FLAGS :: "arch \<Rightarrow> cty" where
  "HV_ATTACH_DEVICE_FLAGS a = Union 0 (flds_of
       [mem ''AsUINT32'' U32,
       mem '''' (Struct 0 (flds_of ([bits ''LogicalId'' U32 1] @
           (case a of X64 \<Rightarrow> [bits ''PasidSupported'' U32 1, bits ''PasidEnabled'' U32 1, bits ''Reserved'' U32 29] | ARM64 \<Rightarrow>
           [bits ''Reserved0'' U32 1, bits ''AtsEnabled'' U32 1, bits ''VirtualFunction'' U32 1,
          bits ''SharedInterruptsChild'' U32 1, bits ''VirtualDevice'' U32 1,
          bits ''AtsSupported'' U32 1, bits ''SmallIrt'' U32 1, bits ''Reserved1'' U32 24]))))])"

definition HV_DEVICE_PCI_CAPABILITIES :: cty where
  "HV_DEVICE_PCI_CAPABILITIES = Union 0 (flds_of
       [mem ''AsUINT32'' U32,
       mem '''' (Struct 0 (flds_of [bits ''MaxPasidWidth'' U32 5, bits ''InvalidateQueueDepth'' U32 5,
          bits ''GlobalInvalidate'' U32 1, bits ''PrgResponsePasidRequired'' U32 1,
          bits ''Reserved'' U32 20]))])"

definition HV_X64_PROC_STATE_GP_REGS :: cty where
  "HV_X64_PROC_STATE_GP_REGS = Struct 0 (flds_of
       [mem ''Rip'' U64, mem ''Rsp'' U64, mem ''Rbp'' U64, mem ''Rbx'' U64, mem ''Rdi'' U64,
       mem ''Rsi'' U64, mem ''R12'' U64, mem ''R13'' U64, mem ''R14'' U64, mem ''R15'' U64])"

definition HV_ARM64_PROC_STATE_GP_REGS :: cty where
  "HV_ARM64_PROC_STATE_GP_REGS = Struct 0 (flds_of
       [mem ''X'' (Arr U64 13), mem ''Sp'' U64, mem ''Pc'' U64])"

definition HV_PARTITION_EVENT_ROOT_CRASHDUMP_INPUT :: cty where
  "HV_PARTITION_EVENT_ROOT_CRASHDUMP_INPUT = Struct 0 (flds_of
       [mem ''CrashdumpAction'' Enum_ty])"

definition HV_PARTITION_EVENT_COMMIT_PROCESSOR_INDICES_INPUT :: cty where
  "HV_PARTITION_EVENT_COMMIT_PROCESSOR_INDICES_INPUT = Struct 0 (flds_of
       [mem ''SchedulableProcessorCount'' U32])"

definition HV_PARTITION_EVENT_INPUT :: cty where
  "HV_PARTITION_EVENT_INPUT = Union 0 (flds_of
       [mem ''CrashdumpInput'' HV_PARTITION_EVENT_ROOT_CRASHDUMP_INPUT,
       mem ''CommitLpIndicesInput'' HV_PARTITION_EVENT_COMMIT_PROCESSOR_INDICES_INPUT])"

definition HV_PPM_IDLE_STATE_CONFIG :: cty where
  "HV_PPM_IDLE_STATE_CONFIG = Union 0 (flds_of
       [mem ''AsUINT64'' U64,
       mem '''' (Struct 0 (flds_of [bits ''TypeSpecific'' U64 52, bits ''ChangeType'' U64 4, bits ''CheckBM_STS'' U64 1,
          bits ''SetBM_RST'' U64 1, bits ''ClearBM_RST'' U64 1, bits ''SetARB_DIS'' U64 1,
          bits ''ReservedZ'' U64 4])),
       mem ''Hlt'' (Struct 0 (flds_of [bits ''ReservedZ'' U64 52])),
       mem ''Io'' (Struct 0 (flds_of [mem ''Port'' U16, mem ''ReservedZ1'' U16, bits ''ReservedZ2'' U32 20])),
       mem ''Mwait'' (Struct 0 (flds_of [mem ''Hints'' U32, bits ''BreakOnMaskedInterrupt'' U32 1, bits ''ReservedZ'' U32 19])),
       mem ''Psci'' (Struct 0 (flds_of [mem ''PowerState'' U32, mem ''Reserved'' U32]))])"

definition HV_PPM_IDLE_STATE :: cty where
  "HV_PPM_IDLE_STATE = Struct 0 (flds_of
       [mem ''Config'' HV_PPM_IDLE_STATE_CONFIG, mem ''Type'' U32, mem ''HardwareLatency'' U32,
       mem ''PowerConsumption'' U32])"

definition HV_X64_PPM_IDLE_STATE_CONFIG_PROPERTY :: cty where
  "HV_X64_PPM_IDLE_STATE_CONFIG_PROPERTY = Struct 0 (flds_of
       [mem ''StateCount'' U32, mem ''States'' (Arr HV_PPM_IDLE_STATE 16)])"

definition HV_PPM_FEEDBACK_REGISTER_PAIR :: "arch \<Rightarrow> cty" where
  "HV_PPM_FEEDBACK_REGISTER_PAIR a = Struct 0 (flds_of
       [mem ''ReferenceCount'' (HV_PPM_PERF_STATE_REGISTER a),
       mem ''ActualCount'' (HV_PPM_PERF_STATE_REGISTER a), mem ''ResetRegisters'' U8])"

definition HV_PROCESSOR_PERF_FEEDBACK_COUNTERS_CONFIG :: "arch \<Rightarrow> cty" where
  "HV_PROCESSOR_PERF_FEEDBACK_COUNTERS_CONFIG a = Struct 0 (flds_of
       [mem ''Count'' U32, mem ''FeedbackCounters'' (Arr (HV_PPM_FEEDBACK_REGISTER_PAIR a) 4)])"

definition HV_POWER_STATS_OFFSETS :: cty where
  "HV_POWER_STATS_OFFSETS = Struct 0 (flds_of
       [mem ''GlobalTime'' U32, mem ''TotalRunTime'' U32, mem ''IdleSequenceNumber'' U32,
       mem ''GlobalTscCount'' U32, mem ''ActiveTscCount'' U32, mem ''IdleAccumulation'' U32,
       mem ''CycleCount'' (Arr (Struct 0 (flds_of [mem ''Reference'' U32, mem ''Actual'' U32])) 2),
       mem ''CounterRefreshSequenceNumber'' U32, mem ''CounterRefreshReferenceTime'' U32,
       mem ''IdleAccumulationSnapshot'' U32, mem ''ActiveTscCountSnapshot'' U32])"

definition HV_DEBUG_NET_DATA :: cty where
  "HV_DEBUG_NET_DATA = Struct 0 (flds_of
       [mem ''Ipv4'' (Struct 0 (flds_of [mem ''HostIp'' U32, mem ''TargetIp'' U32, mem ''HostPort'' U16, mem ''TargetPort'' U16,
          mem ''HostMac'' (Arr U8 6), mem ''TargetMac'' (Arr U8 6)])),
       mem ''Ipv6'' (Struct 0 (flds_of [mem ''HostIp'' HV_IPV6_ADDRESS, mem ''TargetIp'' HV_IPV6_ADDRESS, mem ''HostPort'' U16,
          mem ''TargetPort'' U16, mem ''HostMac'' (Arr U8 6), mem ''TargetMac'' (Arr U8 6)]))])"

definition HV_LP_STARTUP_STATUS :: cty where
  "HV_LP_STARTUP_STATUS = Struct 0 (flds_of
       [mem ''Status'' U16, mem ''SubStatus1'' U64, mem ''SubStatus2'' U64,
       mem ''SubStatus3'' U64, mem ''SubStatus4'' U64, mem ''SubStatus5'' U64,
       mem ''SubStatus6'' U64])"

definition HV_MEMORY_DESCRIPTOR :: cty where
  "HV_MEMORY_DESCRIPTOR = Struct 0 (flds_of
       [mem ''Pages'' U64, mem ''Levels'' U32, mem ''PageTableRoot'' U64])"

definition HV_PHYSICAL_DEVICE_PROPERTY_CAPABILITIES :: cty where
  "HV_PHYSICAL_DEVICE_PROPERTY_CAPABILITIES = Struct 0 (flds_of
       [bits ''RootSvm'' U32 1, bits ''Execute'' U32 1, bits ''Privileged'' U32 1,
       bits ''IovAts'' U32 1, bits ''DeviceDomains'' U32 1, bits ''S1DeviceDomains'' U32 1,
       bits ''RootAts'' U32 1, bits ''DomainTransitionSupported'' U32 1, bits ''La57'' U32 1,
       bits ''RootPasid'' U32 1, bits ''RootDefaultDomainAts'' U32 1, bits ''Reserved0'' U32 21,
       mem ''PasidCount'' U32, mem ''RootSvmIommuIndex'' U32, mem ''Reserved1'' U32])"

definition HV_PHYSICAL_DEVICE_PROPERTY_DMA_ENABLED :: cty where
  "HV_PHYSICAL_DEVICE_PROPERTY_DMA_ENABLED = Struct 0 (flds_of
       [mem ''PasidEnabled'' U8, mem ''Reserved0'' U8, mem ''Reserved1'' U16,
       mem ''Reserved2'' U32])"

definition HV_PHYSICAL_DEVICE_PROPERTY_ATS_ENABLED :: cty where
  "HV_PHYSICAL_DEVICE_PROPERTY_ATS_ENABLED = HV_PHYSICAL_DEVICE_PROPERTY_DMA_ENABLED"

definition HV_IOMMU_EXTENDED_STATUS :: cty where
  "HV_IOMMU_EXTENDED_STATUS = Struct 0 (flds_of
       [mem ''Severity'' U8, mem ''Status'' U16, mem ''Params'' (Arr U64 4)])"

definition HV_IMAGE_COVERAGE_INFO :: cty where
  "HV_IMAGE_COVERAGE_INFO = Struct 0 (flds_of
       [mem ''HeaderSize'' U32, mem ''Size'' U32,
       mem ''ImageName'' (Arr HV_WCHAR (unat HV_IMAGE_NAME_MAX_LENGTH))])"

definition HV_SPA_PAGE_RANGE :: cty where
  "HV_SPA_PAGE_RANGE = Union 0 (flds_of
       [mem ''AsUINT64'' U64,
       mem '''' (Struct 0 (flds_of [bits ''BasePfn'' U64 40, bits ''AdditionalPages'' U64 24]))])"

definition HV_REGISTER_NESTED_CONTROL :: cty where
  "HV_REGISTER_NESTED_CONTROL = Union 0 (flds_of
       [mem ''AsUINT64'' U64,
       mem '''' (Struct 0 (flds_of [bits ''MsrInterceptMode'' U64 2, bits ''MsrBitmapDirty'' U64 1, bits ''RsvdZ'' U64 61]))])"

definition HV_REGISTER_VSM_VP_VTL_CONTROL :: cty where
  "HV_REGISTER_VSM_VP_VTL_CONTROL = Union 0 (flds_of
       [mem ''AsUINT64'' U64,
       mem '''' (Struct 0 (flds_of [bits ''Mapped'' U64 1, bits ''ReservedP'' U64 11, bits ''GpaPageNumber'' U64 52]))])"

definition HV_X64_XSAVE_AREA :: cty where
  "HV_X64_XSAVE_AREA = Union 0 (flds_of
       [mem ''LegacyFxRegisters'' HV_X64_FX_REGISTERS, mem ''XRegisters'' HV_X64_X_REGISTERS])"

definition HV_X64_REGISTER_VSM_CAPABILITIES :: cty where
  "HV_X64_REGISTER_VSM_CAPABILITIES = Union 0 (flds_of
       [mem ''AsUINT64'' U64,
       mem '''' (Struct 0 (flds_of [bits ''Dr6Shared'' U64 1, bits ''MbecVtlMask'' U64 16, bits ''ReservedZ'' U64 47]))])"

definition HV_ARM64_REGISTER_VSM_CAPABILITIES :: cty where
  "HV_ARM64_REGISTER_VSM_CAPABILITIES = Union 0 (flds_of
       [mem ''AsUINT64'' U64,
       mem '''' (Struct 0 (flds_of [bits ''ReservedZ0'' U64 1, bits ''MbecVtlMask'' U64 16,
          bits ''DenyLowerVtlStartup'' U64 1, bits ''SupervisorShadowStack'' U64 1,
          bits ''HardwareHvptAvailable'' U64 1, bits ''SoftwareHvptAvailable'' U64 1,
          bits ''HardwareHvptRangeBits'' U64 6, bits ''InterceptPageAvailable'' U64 1,
          bits ''ReturnActionAvailable'' U64 1, bits ''Vtl0AliasMapAvailable'' U64 1,
          bits ''InterceptNotPresentAvailable'' U64 1, bits ''InstallInterceptEx'' U64 1,
          bits ''ReservedZ'' U64 32]))])"

definition HV_VTL_RETURN_INPUT :: cty where
  "HV_VTL_RETURN_INPUT = Union 0 (flds_of
       [mem ''AsUINT64'' U64,
       mem '''' (Struct 0 (flds_of [bits ''FastReturn'' U64 1, bits ''ReservedZ'' U64 63]))])"

definition HV_X64_LOGICAL_PROCESSOR_REGISTER_ADDRESS :: cty where
  "HV_X64_LOGICAL_PROCESSOR_REGISTER_ADDRESS = Union 0 (flds_of
       [mem ''MsrIndex'' U32, mem '''' (Struct 0 (flds_of [mem ''Eax'' U32, mem ''Ecx'' U32]))])"

definition HV_ARM64_LOGICAL_PROCESSOR_REGISTER_ADDRESS :: cty where
  "HV_ARM64_LOGICAL_PROCESSOR_REGISTER_ADDRESS = Union 0 (flds_of
       [mem ''HvRegisterName'' Enum_ty])"

definition HV_LOGICAL_PROCESSOR_REGISTER_ID :: "arch \<Rightarrow> cty" where
  "HV_LOGICAL_PROCESSOR_REGISTER_ID a = Struct 0 (flds_of
       ([mem ''LpIndex'' HV_LOGICAL_PROCESSOR_INDEX, mem ''Type'' Enum_ty] @
        (case a of X64 \<Rightarrow> [mem ''Address'' HV_X64_LOGICAL_PROCESSOR_REGISTER_ADDRESS] | ARM64 \<Rightarrow>
        [mem ''Address'' HV_ARM64_LOGICAL_PROCESSOR_REGISTER_ADDRESS])))"

definition HV_MCUPDATE_DATA_HEADER :: cty where
  "HV_MCUPDATE_DATA_HEADER = Struct 0 (flds_of
       [mem ''DataSize'' U32, mem ''TableOffset'' U32])"

definition HV_BOOT_DEBUG_PARAMETERS :: cty where
  "HV_BOOT_DEBUG_PARAMETERS = Struct 0 (flds_of
       [mem ''PortType'' Enum_ty, mem ''TransferPagesSpa'' U64, mem ''TransferPagesCount'' U32,
       mem '''' (Union 0 (flds_of [mem ''Com'' (Struct 0 (flds_of [mem ''ComPortType'' Enum_ty, mem ''InterfaceType'' U32,
             mem '''' (Union 0 (flds_of [mem ''IoPort'' U16, mem ''RegistersSpa'' U64])),
             mem ''RegistersSize'' U32, mem ''BaudRate'' U32, mem ''ExclusiveMode'' HV_BOOLEAN])),
          mem ''Firewire'' (Struct 0 (flds_of [mem ''Bus'' U32, mem ''Slot'' U32, mem ''Flags'' U16, mem ''HvChannelId'' U8,
             mem ''RootChannelId'' U8, mem ''OhciRegistersSpa'' U64])),
          mem ''Net'' (Struct 0 (flds_of [mem ''Key'' (Arr U64 4), mem ''HostIP'' HV_IPV6_ADDRESS,
             mem ''TargetIP'' HV_IPV6_ADDRESS, mem ''GatewayIP'' HV_IPV6_ADDRESS,
             mem ''HostRootPort'' U16, mem ''HostHvPort'' U16,
             mem ''DefaultTargetMacAddress'' (Arr U8 6), mem ''Flags'' U32, mem ''Bus'' U32,
             mem ''Slot'' U32, mem ''Segment'' U16, mem ''VendorID'' U16, mem ''DeviceID'' U16,
             mem ''BaseClass'' U8, mem ''SubClass'' U8, mem ''ProgIf'' U8,
             mem ''BaseAddressRegisterSPA'' (Arr U64 6),
             mem ''BaseAddressRegisterByteCount'' (Arr U32 6),
             mem ''BaseAddressRegisterType'' (Arr U16 6), mem ''KdNetPciMmCfgAddr'' U64,
             mem ''Dbg2TableIndex'' U32, mem ''PortType'' U16, mem ''PortSubtype'' U16,
             mem ''NameSpace'' U32, mem ''KdNetDataSize'' U32]))]))])"

definition HV_BOOT_PARAMETERS :: cty where
  "HV_BOOT_PARAMETERS = Struct 0 (flds_of
       [mem ''DebugParams'' HV_BOOT_DEBUG_PARAMETERS, mem ''Flags'' U64])"

definition HV_HARDWARE_DETAILS :: cty where
  "HV_HARDWARE_DETAILS = Struct 0 (flds_of
       [mem ''ErrataType'' U32, bits ''SupportPsci'' U32 1, bits ''Reserved'' U32 31])"

definition HV_IMAGE_SECTION_DETAIL :: cty where
  "HV_IMAGE_SECTION_DETAIL = Struct 0 (flds_of
       [mem ''SectionPhysicalAddress'' U64, mem ''SectionSize'' U32, bits ''Writeable'' U64 1,
       bits ''Executable'' U64 1])"

definition HV_IMAGE_DETAIL :: cty where
  "HV_IMAGE_DETAIL = Struct 0 (flds_of
       [mem ''SectionCount'' U32, mem ''Sections'' (Arr HV_IMAGE_SECTION_DETAIL 15)])"

definition HV_MINI_LOADER_BLOCK :: cty where
  "HV_MINI_LOADER_BLOCK = Struct 0 (flds_of
       [mem ''LoaderBlockSize'' U32, mem ''LoaderBlockVersion'' U32,
       mem ''LoaderBlockPhysicalAddress'' U64, mem ''HypervisorEntryPoint'' U64,
       mem ''HypervisorTransTabBasePhys'' U64, mem ''BootParameters'' HV_BOOT_PARAMETERS,
       mem ''RootPartitionProcessorCount'' U32,
       mem ''RootPartitionProcessorsContextsOffset'' U32, mem ''VpContextSize'' U32,
       mem ''MiniVpContextSize'' U32, mem ''HypervisorCrashdumpAreaPageCount'' U32,
       mem ''HypervisorCrashdumpAreaSpa'' U64, mem ''RuntimeServicesMemoryRangesCount'' U32,
       mem ''RuntimeServicesMemoryRanges'' (Arr (Struct 0 (flds_of [mem ''BasePage'' U64, mem ''PageCount'' U64])) 512),
       mem ''HardwareDetails'' HV_HARDWARE_DETAILS, mem ''HypervisorImageDetail'' HV_IMAGE_DETAIL])"

definition HV_CPU_MANAGEMENT_VERSION_REGISTER :: cty where
  "HV_CPU_MANAGEMENT_VERSION_REGISTER = Union 0 (flds_of
       [mem ''AsUINT64'' U64,
       mem '''' (Struct 0 (flds_of [bits ''VersionNumber'' U64 8, bits ''RsvdZ'' U64 54, bits ''Available'' U64 1,
          bits ''Locked'' U64 1]))])"

definition HV_PCI_ID :: cty where
  "HV_PCI_ID = Union 0 (flds_of
       [mem ''AsUINT32'' U32,
       mem '''' (Struct 0 (flds_of [mem ''Rid'' U16, mem ''Segment'' U16])),
       mem ''Bdf'' HV_PCI_BDF])"

definition HV_MCA_FAULTING_LP_MSR :: cty where
  "HV_MCA_FAULTING_LP_MSR = Union 0 (flds_of
       [mem ''AsUINT64'' U64,
       mem '''' (Struct 0 (flds_of [mem ''LpIndex'' HV_LOGICAL_PROCESSOR_INDEX, mem ''Reserved'' U32]))])"

definition HV_DEVICE_PAGE_REQUEST :: "arch \<Rightarrow> cty" where
  "HV_DEVICE_PAGE_REQUEST a = Union 0 (flds_of
       [mem ''AsUINT64'' (Arr U64 4),
       mem '''' (Struct 0 (flds_of [mem ''DeviceId'' (HV_DEVICE_ID a),
          mem '''' (Struct 0 (flds_of [bits ''GroupIndex'' U64 9, bits ''LastInGroup'' U64 1, bits ''Virtual'' U64 1,
             bits ''Pasid'' U64 20, bits ''Reserved0'' U64 33, bits ''Read'' U64 1,
             bits ''Write'' U64 1, bits ''Execute'' U64 1, bits ''Privileged'' U64 1,
             bits ''Reserved2'' U64 8, bits ''PageNumber'' U64 52, mem ''Reserved3'' U64])),
          mem '''' (Struct 0 (flds_of [bits '''' U64 31, bits ''Reserved1'' U64 30, bits ''InvalidRequest'' U64 1,
             bits ''ValidateGpa'' U64 1, bits ''Overflow'' U64 1])),
          mem '''' (Struct 0 (flds_of [bits '''' U64 63, bits ''SendResponse'' U64 1]))]))])"

definition HV_DEVICE_PRQ_PROPERTY_INTERRUPT_MASKED :: cty where
  "HV_DEVICE_PRQ_PROPERTY_INTERRUPT_MASKED = Struct 0 (flds_of
       [mem ''InterruptMasked'' U8, mem ''Reserved0'' U8, mem ''Reserved1'' U16,
       mem ''Reserved2'' U32])"

definition HV_X64_VOLATILE_GP_REGS :: cty where
  "HV_X64_VOLATILE_GP_REGS = Struct 0 (flds_of
       [mem ''Rax'' U64, mem ''Rcx'' U64, mem ''Rdx'' U64, mem ''R8'' U64, mem ''R9'' U64,
       mem ''R10'' U64, mem ''R11'' U64])"

definition HV_PCI_PATH :: cty where
  "HV_PCI_PATH = Struct 0 (flds_of
       [mem ''PathLength'' U8, mem ''Segment'' U16, mem ''StartBus'' U8,
       mem ''Path'' (Arr (Union 0 (flds_of [mem ''AsUINT8'' U8,
          mem '''' (Struct 0 (flds_of [bits ''Function'' U8 3, bits ''Device'' U8 5]))])) 0)])"

definition HV_DEVICE_PRQ_HEADER :: cty where
  "HV_DEVICE_PRQ_HEADER = Struct 0 (flds_of
       [mem ''Head'' U32, mem ''Tail'' U32, mem ''Pending'' U8, mem ''Stalled'' U8,
       mem ''Error'' U8])"

definition HV_CPU_GROUP_ID :: cty where
  "HV_CPU_GROUP_ID = U64"

definition HV_CPU_GROUP_PROPERTY :: cty where
  "HV_CPU_GROUP_PROPERTY = U64"

definition HV_INPUT_PARTITION_PROPERTY_ARG :: cty where
  "HV_INPUT_PARTITION_PROPERTY_ARG = U64"

definition HV_DEVICE_VA_PAGE_NUMBER :: cty where
  "HV_DEVICE_VA_PAGE_NUMBER = U64"

definition HV_MSI_ADDRESS :: cty where
  "HV_MSI_ADDRESS = U64"

definition HV_MODIFY_SPA_PAGE_HOST_ACCESS_FLAGS :: cty where
  "HV_MODIFY_SPA_PAGE_HOST_ACCESS_FLAGS = U32"

definition HV_LOCK_GPA_PAGE_MAPPING_FLAGS :: cty where
  "HV_LOCK_GPA_PAGE_MAPPING_FLAGS = U32"

definition HV_UNMAP_GPA_FLAGS :: cty where
  "HV_UNMAP_GPA_FLAGS = U32"

definition HV_KEY_ID :: cty where
  "HV_KEY_ID = U64"

definition HV_IOMMU_STATUS_SEVERITY :: cty where
  "HV_IOMMU_STATUS_SEVERITY = U8"

definition HV_PRECOMMIT_GPA_FLAGS :: cty where
  "HV_PRECOMMIT_GPA_FLAGS = U32"

definition HV_IOMMU_STATUS :: cty where
  "HV_IOMMU_STATUS = U16"

definition HV_PARTITION_PROCESSOR_FEATURES_FIELD_INDEX :: enum_tab where
  "HV_PARTITION_PROCESSOR_FEATURES_FIELD_INDEX = enum_of
     [(''HvPartitionProcessorFeaturesAsid16Index'', Val 0x0),
     (''HvPartitionProcessorFeaturesTGran16Index'', Val 0x1),
     (''HvPartitionProcessorFeaturesTGran64Index'', Val 0x2),
     (''HvPartitionProcessorFeaturesHafIndex'', Val 0x3),
     (''HvPartitionProcessorFeaturesHdbsIndex'', Val 0x4),
     (''HvPartitionProcessorFeaturesPanIndex'', Val 0x5),
     (''HvPartitionProcessorFeaturesAtS1E1Index'', Val 0x6),
     (''HvPartitionProcessorFeaturesUaoIndex'', Val 0x7),
     (''HvPartitionProcessorFeaturesEl0Aarch32Index'', Val 0x8),
     (''HvPartitionProcessorFeaturesFpIndex'', Val 0x9),
     (''HvPartitionProcessorFeaturesFpHpIndex'', Val 0xa),
     (''HvPartitionProcessorFeaturesAdvSimdIndex'', Val 0xb),
     (''HvPartitionProcessorFeaturesAdvSimdHpIndex'', Val 0xc),
     (''HvPartitionProcessorFeaturesGicV3V4Index'', Val 0xd),
     (''HvPartitionProcessorFeaturesGicV4P1Index'', Val 0xe),
     (''HvPartitionProcessorFeaturesRasIndex'', Val 0xf),
     (''HvPartitionProcessorFeaturesPmuV3Index'', Val 0x10),
     (''HvPartitionProcessorFeaturesPmuV3ArmV81Index'', Val 0x11),
     (''HvPartitionProcessorFeaturesPmuV3ArmV84Index'', Val 0x12),
     (''HvPartitionProcessorFeaturesPmuV3ArmV85Index'', Val 0x13),
     (''HvPartitionProcessorFeaturesAesIndex'', Val 0x14),
     (''HvPartitionProcessorFeaturesPolyMulIndex'', Val 0x15),
     (''HvPartitionProcessorFeaturesSha1Index'', Val 0x16),
     (''HvPartitionProcessorFeaturesSha256Index'', Val 0x17),
     (''HvPartitionProcessorFeaturesSha512Index'', Val 0x18),
     (''HvPartitionProcessorFeaturesCrc32Index'', Val 0x19),
     (''HvPartitionProcessorFeaturesAtomicIndex'', Val 0x1a),
     (''HvPartitionProcessorFeaturesRdmIndex'', Val 0x1b),
     (''HvPartitionProcessorFeaturesSha3Index'', Val 0x1c),
     (''HvPartitionProcessorFeaturesSm3Index'', Val 0x1d),
     (''HvPartitionProcessorFeaturesSm4Index'', Val 0x1e),
     (''HvPartitionProcessorFeaturesDpIndex'', Val 0x1f),
     (''HvPartitionProcessorFeaturesFhmIndex'', Val 0x20),
     (''HvPartitionProcessorFeaturesDcCvapIndex'', Val 0x21),
     (''HvPartitionProcessorFeaturesDcCvadpIndex'', Val 0x22),
     (''HvPartitionProcessorFeaturesApaBaseIndex'', Val 0x23),
     (''HvPartitionProcessorFeaturesApaEpIndex'', Val 0x24),
     (''HvPartitionProcessorFeaturesApaEp2Index'', Val 0x25),
     (''HvPartitionProcessorFeaturesApaEp2FpIndex'', Val 0x26),
     (''HvPartitionProcessorFeaturesApaEp2FpcIndex'', Val 0x27),
     (''HvPartitionProcessorFeaturesJscvtIndex'', Val 0x28),
     (''HvPartitionProcessorFeaturesFcmaIndex'', Val 0x29),
     (''HvPartitionProcessorFeaturesRcpcV83Index'', Val 0x2a),
     (''HvPartitionProcessorFeaturesRcpcV84Index'', Val 0x2b),
     (''HvPartitionProcessorFeaturesGpaIndex'', Val 0x2c),
     (''HvPartitionProcessorFeaturesL1ipPiptIndex'', Val 0x2d),
     (''HvPartitionProcessorFeaturesDzPermittedIndex'', Val 0x2e),
     (''HvPartitionProcessorFeaturesSsbsIndex'', Val 0x2f),
     (''HvPartitionProcessorFeaturesSsbsRwIndex'', Val 0x30),
     (''HvPartitionProcessorFeaturesSmcccW1SupportedIndex'', Val 0x31),
     (''HvPartitionProcessorFeaturesSmcccW1MitigatedIndex'', Val 0x32),
     (''HvPartitionProcessorFeaturesSmcccW2SupportedIndex'', Val 0x33),
     (''HvPartitionProcessorFeaturesSmcccW2MitigatedIndex'', Val 0x34),
     (''HvPartitionProcessorFeaturesCsv2Index'', Val 0x35),
     (''HvPartitionProcessorFeaturesCsv3Index'', Val 0x36),
     (''HvPartitionProcessorFeaturesSbIndex'', Val 0x37),
     (''HvPartitionProcessorFeaturesIdcIndex'', Val 0x38),
     (''HvPartitionProcessorFeaturesDicIndex'', Val 0x39),
     (''HvPartitionProcessorFeaturesTlbiOsIndex'', Val 0x3a),
     (''HvPartitionProcessorFeaturesTlbiOsRangeIndex'', Val 0x3b),
     (''HvPartitionProcessorFeaturesFlagsMIndex'', Val 0x3c),
     (''HvPartitionProcessorFeaturesFlagsM2Index'', Val 0x3d),
     (''HvPartitionProcessorFeaturesBf16Index'', Val 0x3e),
     (''HvPartitionProcessorFeaturesEbf16Index'', Val 0x3f),
     (''HvPartitionProcessorFeaturesSveBf16Index'', Val 0x40),
     (''HvPartitionProcessorFeaturesSveEbf16Index'', Val 0x41),
     (''HvPartitionProcessorFeaturesI8mmIndex'', Val 0x42),
     (''HvPartitionProcessorFeaturesSveI8mmIndex'', Val 0x43),
     (''HvPartitionProcessorFeaturesFrinttsIndex'', Val 0x44),
     (''HvPartitionProcessorFeaturesSpecresIndex'', Val 0x45),
     (''HvPartitionProcessorFeaturesMtpmuIndex'', Val 0x46),
     (''HvPartitionProcessorFeaturesRpresIndex'', Val 0x47),
     (''HvPartitionProcessorFeaturesExsIndex'', Val 0x48),
     (''HvPartitionProcessorFeaturesSpecSeiIndex'', Val 0x49),
     (''HvPartitionProcessorFeaturesEtsIndex'', Val 0x4a),
     (''HvPartitionProcessorFeaturesAfpIndex'', Val 0x4b),
     (''HvPartitionProcessorFeaturesIesbIndex'', Val 0x4c),
     (''HvPartitionProcessorFeaturesRngIndex'', Val 0x4d),
     (''HvPartitionProcessorFeaturesLse2Index'', Val 0x4e),
     (''HvPartitionProcessorFeaturesIdstIndex'', Val 0x4f),
     (''HvPartitionProcessorFeaturesRasV1P1Index'', Val 0x50),
     (''HvPartitionProcessorFeaturesRasFracV1P1Index'', Val 0x51),
     (''HvPartitionProcessorFeaturesSel2Index'', Val 0x52),
     (''HvPartitionProcessorFeaturesAmuV1Index'', Val 0x53),
     (''HvPartitionProcessorFeaturesAmuV1P1Index'', Val 0x54),
     (''HvPartitionProcessorFeaturesDitIndex'', Val 0x55),
     (''HvPartitionProcessorFeaturesCcidxIndex'', Val 0x56),
     (''HvPartitionProcessorFeaturesFgtForInterceptsIndex'', Val 0x57),
     (''HvPartitionProcessorFeaturesL1ipVpiptIndex'', Val 0x58),
     (''HvPartitionProcessorFeaturesL1ipViptIndex'', Val 0x59),
     (''HvPartitionProcessorFeaturesDebugV8Index'', Val 0x5a),
     (''HvPartitionProcessorFeaturesDebugV8P2Index'', Val 0x5b),
     (''HvPartitionProcessorFeaturesDebugV8P4Index'', Val 0x5c),
     (''HvPartitionProcessorFeaturesPmuV3ArmV87Index'', Val 0x5d),
     (''HvPartitionProcessorFeaturesDoubleLockIndex'', Val 0x5e),
     (''HvPartitionProcessorFeaturesClrbhbIndex'', Val 0x5f),
     (''HvPartitionProcessorFeaturesSpeIndex'', Val 0x60),
     (''HvPartitionProcessorFeaturesSpeV1P1Index'', Val 0x61),
     (''HvPartitionProcessorFeaturesSpeV1P2Index'', Val 0x62),
     (''HvPartitionProcessorFeaturesTtCnpIndex'', Val 0x63),
     (''HvPartitionProcessorFeaturesHpdsIndex'', Val 0x64),
     (''HvPartitionProcessorFeaturesSveIndex'', Val 0x65),
     (''HvPartitionProcessorFeaturesSveV2Index'', Val 0x66),
     (''HvPartitionProcessorFeaturesSveV2P1Index'', Val 0x67),
     (''HvPartitionProcessorFeaturesSpecFpaccIndex'', Val 0x68)]"

definition HV_PARTITION_MIRRORING_POLICY :: enum_tab where
  "HV_PARTITION_MIRRORING_POLICY = enum_of
     [(''HvPartitionMirroringNone'', Val 0x0), (''HvPartitionMirroringInclude'', Val 0x1),
     (''HvPartitionMirroringExclude'', Val 0x2), (''HvPartitionMirroringMax'', Val 0x2)]"

definition HV_IMAGE_QUERY_TYPE :: enum_tab where
  "HV_IMAGE_QUERY_TYPE = enum_of
     [(''ImageQueryTypeModuleCount'', Val 0x0), (''ImageQueryTypeModuleTraits'', Val 0x1),
     (''ImageQueryTypeSlotVaMappings'', Val 0x2), (''ImageQueryTypeMax'', Val 0x3)]"

definition HV_COMPATIBILITY_VERSION :: enum_tab where
  "HV_COMPATIBILITY_VERSION = enum_of
     [(''HvCompatibilityVersionRedstone1'', Val 0x600),
     (''HvCompatibilityVersionRedstone2'', Val 0x601),
     (''HvCompatibilityVersionRedstone3'', Val 0x602),
     (''HvCompatibilityVersionRedstone4'', Val 0x603),
     (''HvCompatibilityVersionRedstone5'', Val 0x604),
     (''HvCompatibilityVersion19H1'', Val 0x605),
     (''HvCompatibilityVersionVibranium'', Val 0x606),
     (''HvCompatibilityVersionManganese'', Val 0x607),
     (''HvCompatibilityVersionIron'', Val 0x608), (''HvCompatibilityVersionNickel'', Val 0x609),
     (''HvCompatibilityVersionCopper'', Val 0x60a),
     (''HvCompatibilityVersionGermanium'', Val 0x1000),
     (''HvCompatibilityVersionPrerelease'', Val 0xfe00),
     (''HvCompatibilityVersionExperiment'', Val 0xff00)]"

definition HV_SMC_DATA_PATH_LOCK_STATE :: enum_tab where
  "HV_SMC_DATA_PATH_LOCK_STATE = enum_of
     [(''HvSmcDataPathUnlocked'', Val 0x0), (''HvSmcDataPathLockedByHvx'', Val 0x1),
     (''HvSmcDataPathLockedByVtl1'', Val 0x2)]"

definition HV_NON_ARCH_CORE_SHARING_TYPE :: enum_tab where
  "HV_NON_ARCH_CORE_SHARING_TYPE = enum_of
     [(''HvNonArchCoreSharingUnreported'', Val 0x0), (''HvNonArchCoreSharingOff'', Val 0x1),
     (''HvNonArchCoreSharingOn'', Val 0x2), (''HvNonArchCoreSharingMax'', Val 0x2)]"

definition HV_CPU_GROUP_PROPERTY_CODE :: enum_tab where
  "HV_CPU_GROUP_PROPERTY_CODE = enum_of
     [(''HvCpuGroupPropertyCpuCap'', Val 0x10000),
     (''HvCpuGroupPropertySchedulingPriority'', Val 0x20000),
     (''HvCpuGroupPropertyIdleLpReserve'', Val 0x30000)]"

definition HV_SNP_STATUS :: enum_tab where
  "HV_SNP_STATUS = enum_of
     [(''HvSnpStatusNone'', Val 0x0), (''HvSnpStatusAvailable'', Val 0x1),
     (''HvSnpStatusIncompatible'', Val 0x2), (''HvSnpStatusPspUnavailable'', Val 0x3),
     (''HvSnpStatusPspInitFailed'', Val 0x4), (''HvSnpStatusPspBadFwVersion'', Val 0x5),
     (''HvSnpStatusBadConfiguration'', Val 0x6),
     (''HvSnpStatusPspFwUpdateInProgress'', Val 0x7), (''HvSnpStatusPspRbInitFailed'', Val 0x8),
     (''HvSnpStatusPspPlatformStatusFailed'', Val 0x9),
     (''HvSnpStatusPspInitLateFailed'', Val 0xa), (''HvSnpStatusPspInitEarlyFailed'', Val 0xb),
     (''HvSnpStatusPspUnexpectedState'', Val 0xc), (''HvSnpStatusDisabled'', Val 0xd)]"

definition HV_PARTITION_PERFMON_MODE :: enum_tab where
  "HV_PARTITION_PERFMON_MODE = enum_of
     [(''HvPartitionPerfmonModeUnsupported'', Val 0x0),
     (''HvPartitionPerfmonModeDynamicSystem'', Val 0x1),
     (''HvPartitionPerfmonModeGuest'', Val 0x2), (''HvPartitionPerfmonModeRemote'', Val 0x3)]"

definition HV_RESTART_COMPLETION_TYPE :: enum_tab where
  "HV_RESTART_COMPLETION_TYPE = enum_of
     [(''HvRestartCompletionSuccess'', Val 0x0), (''HvRestartCompletionCancelled'', Val 0x1)]"

definition HV_X64_PPM_CPPC_CONTEXT_SWITCH_POLICY :: enum_tab where
  "HV_X64_PPM_CPPC_CONTEXT_SWITCH_POLICY = enum_of
     [(''HvX64CppcContextSwitchUnsupported'', Val 0x0),
     (''HvX64CppcContextSwitchLazy'', Val 0x1), (''HvX64CppcContextSwitchAggressive'', Val 0x2)]"

definition HV_PARTITION_VH_TARGET_CHILDREN_STATE :: enum_tab where
  "HV_PARTITION_VH_TARGET_CHILDREN_STATE = enum_of
     [(''HvVhDeleteChildren'', Val 0x0), (''HvVhSuspendChildren'', Val 0x1),
     (''HvVhResumeChildren'', Val 0x2)]"

definition HV_SEC_FW_UPDATE_STATUS :: enum_tab where
  "HV_SEC_FW_UPDATE_STATUS = enum_of
     [(''HvSecFwUpdateStatusNone'', Val 0x0), (''HvSecFwUpdateStatusSuccess'', Val 0x1),
     (''HvSecFwUpdateStatusMissing'', Val 0x2), (''HvSecFwUpdateStatusOlder'', Val 0x3),
     (''HvSecFwUpdateStatusRejected'', Val 0x4), (''HvSecFwUpdateStatusSvnTooLow'', Val 0x5),
     (''HvSecFwUpdateStatusRollbackWrongVersion'', Val 0x6),
     (''HvSecFwUpdateStatusPreservingUnsupported'', Val 0x7)]"

definition HV_THREAD_HYPERCALLBASED_COUNTER :: enum_tab where
  "HV_THREAD_HYPERCALLBASED_COUNTER = enum_of
     [(''StCounterHcVpGuestRunTime'', Val 0x1), (''StCounterHcVpTotalRunTimePercent'', Val 0x2),
     (''StCounterHcVpHypervisorRunTimePercent'', Val 0x3),
     (''StCounterHcVpGuestRunTimePercent'', Val 0x4),
     (''StCounterHcVpGuestRelativeUtilizationPercent'', Val 0x5),
     (''StCounterHcVpTotalCoreRunTimePercent'', Val 0x6),
     (''StCounterHcVpTotalMessages'', Val 0x7), (''StCounterHcVpTotalInterceptsBase'', Val 0x8),
     (''StCounterHcVpTotalIntercepts'', Val 0x9),
     (''StCounterHcVpTotalInterceptsCost'', Val 0xa),
     (''StCounterHcVpRemoteRunTimePercent'', Val 0xb),
     (''StCounterHcVpVtl1RunTimePercent'', Val 0xc),
     (''StCounterHcVpVtl2RunTimePercent'', Val 0xd),
     (''StCounterHcVpGlobalReferenceTime'', Val 0xe), (''StCounterHcVpMAXIMUM'', Val 0xf)]"

definition HV_EXT_MEMORY_HEAT_HINT_TYPE :: enum_tab where
  "HV_EXT_MEMORY_HEAT_HINT_TYPE = enum_of
     [(''HvExtMemoryHeatHintTypeCold'', Val 0x0), (''HvExtMemoryHeatHintTypeHot'', Val 0x1),
     (''HvExtMemoryHeatHintTypeColdDiscard'', Val 0x2), (''HvExtMemoryHeatHintTypeMax'', Val 0x3)]"

definition HV_VP_DISPATCH_LOOP_EVENT :: enum_tab where
  "HV_VP_DISPATCH_LOOP_EVENT = enum_of
     [(''HvVpDispatchLoopEventInvalid'', Val 0x0), (''HvVpDispatchLoopEventIntercept'', Val 0x1),
     (''HvVpDispatchLoopEventCancelled'', Val 0x2),
     (''HvVpDispatchLoopEventTerminated'', Val 0x3)]"

definition HV_PAGE_ACCESS_TRACKING_GRANULARITY :: enum_tab where
  "HV_PAGE_ACCESS_TRACKING_GRANULARITY = enum_of
     [(''HvPageAccessTrackingGranularitySmallPage'', Val 0x0),
     (''HvPageAccessTrackingGranularityLargePage'', Val 0x1)]"

definition HV_TDX_STATUS :: enum_tab where
  "HV_TDX_STATUS = enum_of
     [(''HvTdxStatusNone'', Val 0x0), (''HvTdxStatusAvailable'', Val 0x1)]"

definition HV_ARM64_SYNTHETIC_MSR :: enum_tab where
  "HV_ARM64_SYNTHETIC_MSR = enum_of
     [(''HvSyntheticMsrGuestOsId'', Val 0x40000000),
     (''HvSyntheticMsrHypercall'', Val 0x40000001), (''HvSyntheticMsrVpIndex'', Val 0x40000002),
     (''HvSyntheticMsrReset'', Val 0x40000003),
     (''HvSyntheticMsrCpuMgmtVersion'', Val 0x40000004),
     (''HvSyntheticMsrTimeRefCount'', Val 0x40000020),
     (''HvSyntheticMsrReferenceTsc'', Val 0x40000021),
     (''HvSyntheticMsrTscFrequency'', Val 0x40000022),
     (''HvSyntheticMsrVpAssistPage'', Val 0x40000073),
     (''HvSyntheticMsrSControl'', Val 0x40000080), (''HvSyntheticMsrSVersion'', Val 0x40000081),
     (''HvSyntheticMsrSiefp'', Val 0x40000082), (''HvSyntheticMsrSimp'', Val 0x40000083),
     (''HvSyntheticMsrEom'', Val 0x40000084), (''HvSyntheticMsrSirb'', Val 0x40000085),
     (''HvSyntheticMsrSint0'', Val 0x40000090), (''HvSyntheticMsrSint1'', Val 0x40000091),
     (''HvSyntheticMsrSint2'', Val 0x40000092), (''HvSyntheticMsrSint3'', Val 0x40000093),
     (''HvSyntheticMsrSint4'', Val 0x40000094), (''HvSyntheticMsrSint5'', Val 0x40000095),
     (''HvSyntheticMsrSint6'', Val 0x40000096), (''HvSyntheticMsrSint7'', Val 0x40000097),
     (''HvSyntheticMsrSint8'', Val 0x40000098), (''HvSyntheticMsrSint9'', Val 0x40000099),
     (''HvSyntheticMsrSint10'', Val 0x4000009a), (''HvSyntheticMsrSint11'', Val 0x4000009b),
     (''HvSyntheticMsrSint12'', Val 0x4000009c), (''HvSyntheticMsrSint13'', Val 0x4000009d),
     (''HvSyntheticMsrSint14'', Val 0x4000009e), (''HvSyntheticMsrSint15'', Val 0x4000009f),
     (''HvSyntheticMsrSTimer0Config'', Val 0x400000b0),
     (''HvSyntheticMsrSTimer0Count'', Val 0x400000b1),
     (''HvSyntheticMsrSTimer1Config'', Val 0x400000b2),
     (''HvSyntheticMsrSTimer1Count'', Val 0x400000b3),
     (''HvSyntheticMsrSTimer2Config'', Val 0x400000b4),
     (''HvSyntheticMsrSTimer2Count'', Val 0x400000b5),
     (''HvSyntheticMsrSTimer3Config'', Val 0x400000b6),
     (''HvSyntheticMsrSTimer3Count'', Val 0x400000b7),
     (''HvSyntheticMsrReserved400000C1'', Val 0x400000c1),
     (''HvSyntheticMsrGuestSchedulerEvent'', Val 0x400000c2),
     (''HvSyntheticMsrGuestIdle'', Val 0x400000f0),
     (''HvSyntheticMsrDebugDeviceOptions'', Val 0x400000ff),
     (''HvSyntheticMsrCrashP0'', Val 0x40000100), (''HvSyntheticMsrCrashP1'', Val 0x40000101),
     (''HvSyntheticMsrCrashP2'', Val 0x40000102), (''HvSyntheticMsrCrashP3'', Val 0x40000103),
     (''HvSyntheticMsrCrashP4'', Val 0x40000104), (''HvSyntheticMsrCrashCtl'', Val 0x40000105),
     (''HvSyntheticMsrReenlightenmentControl'', Val 0x40000106),
     (''HvSyntheticMsrTscEmulationControl'', Val 0x40000107),
     (''HvSyntheticMsrTscEmulationStatus'', Val 0x40000108),
     (''HvSyntheticMsrSWatchdogConfig'', Val 0x40000110),
     (''HvSyntheticMsrSWatchdogCount'', Val 0x40000111),
     (''HvSyntheticMsrSWatchdogStatus'', Val 0x40000112),
     (''HvSyntheticMsrSTimeUnhaltedTimerConfig'', Val 0x40000114),
     (''HvSyntheticMsrSTimeUnhaltedTimerCount'', Val 0x40000115),
     (''HvSyntheticMsrMemoryZeroingControl'', Val 0x40000116)]"

definition HV_PARTITION_PERFMON_CONFIGURATION_STATUS :: enum_tab where
  "HV_PARTITION_PERFMON_CONFIGURATION_STATUS = enum_of
     [(''HvPartitionPerfmonSuccess'', Val 0x0), (''HvPartitionPerfmonInUse'', Val 0x1),
     (''HvPartitionPerfmonInterrupted'', Val 0x2)]"

definition HV_ACCEPT_MEMORY_TYPE :: enum_tab where
  "HV_ACCEPT_MEMORY_TYPE = enum_of
     [(''HvAcceptMemoryTypeAny'', Val 0x0), (''HvAcceptMemoryTypeRam'', Val 0x1),
     (''HvAcceptMemoryTypeCount'', Val 0x2)]"

definition HV_GPA_ACCESS_TRACKING_RANGE_SIZE :: enum_tab where
  "HV_GPA_ACCESS_TRACKING_RANGE_SIZE = enum_of
     [(''HvGpaAccessTrackingRange4k'', Val 0x0), (''HvGpaAccessTrackingRange2m'', Val 0x1),
     (''HvGpaAccessTrackingRange1g'', Val 0x2), (''HvGpaAccessTrackingRange512g'', Val 0x3),
     (''HvGpaAccessTrackingRange256t'', Val 0x4), (''HvGpaAccessTrackingRangeMax'', Val 0x5)]"

definition HV_CPU_HYPERCALLBASED_COUNTER :: enum_tab where
  "HV_CPU_HYPERCALLBASED_COUNTER = enum_of
     [(''StCounterHcLpGuestRunTime'', Val 0x1), (''StCounterHcLpIdleTime'', Val 0x2),
     (''StCounterHcLpTotalRunTimePercent'', Val 0x3),
     (''StCounterHcLpHypervisorRunTimePercent'', Val 0x4),
     (''StCounterHcLpGuestRunTimePercent'', Val 0x5),
     (''StCounterHcLpIdleTimePercent'', Val 0x6), (''StCounterHcLpTotalInterrupts'', Val 0x7),
     (''StCounterHcLpMAXIMUM'', Val 0x8)]"

definition HV_PARTITION_MIRROR_STATE :: enum_tab where
  "HV_PARTITION_MIRROR_STATE = enum_of
     [(''HvPartitionMirrorNotStarted'', Val 0x0), (''HvPartitionMirrorInProgress'', Val 0x1),
     (''HvPartitionMirrorComplete'', Val 0x2)]"

definition HV_EVENTLOG_EXTENDED_TRACE_MODE :: enum_tab where
  "HV_EVENTLOG_EXTENDED_TRACE_MODE = enum_of
     [(''HvEventLogExtendedModeNone'', Val 0x0), (''HvEventLogExtendedModeLegacy'', Val 0x1),
     (''HvEventLogExtendedModeScenario'', Val 0x2),
     (''HvEventLogExtendedModeGranular'', Val 0x3), (''HvEventLogExtendedModeCount'', Val 0x4)]"

definition HV_EXT_VIRTUALIZATION_FAULT_CODE :: enum_tab where
  "HV_EXT_VIRTUALIZATION_FAULT_CODE = enum_of
     [(''HvExtVirtualizationFaultNone'', Val 0x0), (''HvExtVirtualizationFaultEpf'', Val 0x1),
     (''HvExtVirtualizationFaultMax'', Val 0x2)]"

definition HV_PLATFORM_STATE_INDEX :: enum_tab where
  "HV_PLATFORM_STATE_INDEX = enum_of
     [(''HvPlatformStateNonIdle'', Val 0x0), (''HvPlatformStateIdle'', Val 0x1)]"

definition HV_EVENTLOG_MODE :: enum_tab where
  "HV_EVENTLOG_MODE = enum_of
     [(''HvEventLogModeRegular'', Val 0x0), (''HvEventLogModeCircular'', Val 0x1),
     (''HvEventLogModeMaximum'', Val 0x1)]"

definition HV_EVENTLOG_EXTENDED_GRANULAR_OPERATION :: enum_tab where
  "HV_EVENTLOG_EXTENDED_GRANULAR_OPERATION = enum_of
     [(''HvEventLogGranularSet'', Val 0x0), (''HvEventLogGranularAdd'', Val 0x1),
     (''HvEventLogGranularRemove'', Val 0x2), (''HvEventLogGranularOperationCount'', Val 0x3)]"

definition HV_SPA_PAGE_OWNERSHIP :: enum_tab where
  "HV_SPA_PAGE_OWNERSHIP = enum_of
     [(''HvSpaPageOwnershipShared'', Val 0x0), (''HvSpaPageOwnershipExclusive'', Val 0x1)]"

definition HV_CHECK_GPA_PAGE_VTL_ACCESS_RESULT_CODE :: enum_tab where
  "HV_CHECK_GPA_PAGE_VTL_ACCESS_RESULT_CODE = enum_of
     [(''HvCheckGpaPageVtlAccessSuccess'', Val 0x0),
     (''HvCheckGpaPageVtlAccessMemoryIntercept'', Val 0x1)]"

definition HV_RESOURCE_CONTROL_TYPE :: enum_tab where
  "HV_RESOURCE_CONTROL_TYPE = enum_of
     [(''HvResourceControlProcessorCache'', Val 0x0),
     (''HvResourceControlMemoryBandwidth'', Val 0x1),
     (''HvResourceControlProcessorCacheMonitor'', Val 0x2)]"

definition HV_PPM_IDLE_STATE_CHANGE_METHOD :: enum_tab where
  "HV_PPM_IDLE_STATE_CHANGE_METHOD = enum_of
     [(''HvPowerChangeIssueHlt'', Val 0x0), (''HvPowerChangeReadIoThenIssueHlt'', Val 0x1),
     (''HvPowerChangeReadIo'', Val 0x2), (''HvPowerChangeIssueMwait'', Val 0x3),
     (''HvPowerChangeIssueWfi'', Val 0x4), (''HvPowerChangeIssuePsci'', Val 0x5)]"

definition HV_HW_WATCHDOG_STATUS :: enum_tab where
  "HV_HW_WATCHDOG_STATUS = enum_of
     [(''HvHwWatchdogUnsupported'', Val 0x0), (''HvHwWatchdogReady'', Val 0x1),
     (''HvHwWatchdogStaticAvailable'', Val 0x2), (''HvHwWatchdogDynamicAvailable'', Val 0x3),
     (''HvHwWatchdogStaticActive'', Val 0x4), (''HvHwWatchdogDynamicActive'', Val 0x5)]"

definition HV_PSP_STATUS :: enum_tab where
  "HV_PSP_STATUS = enum_of
     [(''HvPspStatusSuccess'', Val 0x0), (''HvPspStatusInvalidPlatformState'', Val 0x1),
     (''HvPspStatusInvalidGuestState'', Val 0x2), (''HvPspStatusInvalidConfig'', Val 0x3),
     (''HvPspStatusInvalidLength'', Val 0x4), (''HvPspStatusAlreadyOwned'', Val 0x5),
     (''HvPspStatusInvalidCertificate'', Val 0x6), (''HvPspStatusPolicyFailure'', Val 0x7),
     (''HvPspStatusInactive'', Val 0x8), (''HvPspStatusInvalidAddress'', Val 0x9),
     (''HvPspStatusBadSignature'', Val 0xa), (''HvPspStatusBadMeasurement'', Val 0xb),
     (''HvPspStatusAsidOwned'', Val 0xc), (''HvPspStatusInvalidAsid'', Val 0xd),
     (''HvPspStatusWbinvdRequired'', Val 0xe), (''HvPspStatusDfflushRequired'', Val 0xf),
     (''HvPspStatusInvalidGuest'', Val 0x10), (''HvPspStatusInvalidCommand'', Val 0x11),
     (''HvPspStatusActive'', Val 0x12), (''HvPspStatusHwerrorPlatform'', Val 0x13),
     (''HvPspStatusHwerrorUnsafe'', Val 0x14), (''HvPspStatusUnsupported'', Val 0x15),
     (''HvPspStatusInvalidParam'', Val 0x16), (''HvPspStatusNoResources'', Val 0x17),
     (''HvPspStatusSecureDataInvalid'', Val 0x18), (''HvPspStatusInvalidPageSize'', Val 0x19),
     (''HvPspStatusInvalidPageState'', Val 0x1a), (''HvPspStatusInvalidMdataEntry'', Val 0x1b),
     (''HvPspStatusInvalidPageOwner'', Val 0x1c), (''HvPspStatusAeadOverflow'', Val 0x1d),
     (''HvPspStatusRingbufferModeExited'', Val 0x1f),
     (''HvPspStatusRmpInitRequired'', Val 0x20), (''HvPspStatusBadSvn'', Val 0x21),
     (''HvPspStatusBadVersion'', Val 0x22), (''HvPspStatusShutdownRequired'', Val 0x23),
     (''HvPspStatusUpdateFailed'', Val 0x24)]"

definition HV_SUBNODE :: cty where
  "HV_SUBNODE = Aligned 8 (Struct 0 (flds_of
       [mem ''SubnodeId'' U64, mem ''SubnodeType'' Enum_ty]))"

definition HV_PARTITION_PROPERTY_INHERITED_DEVICE_DOMAIN_REGIONS :: cty where
  "HV_PARTITION_PROPERTY_INHERITED_DEVICE_DOMAIN_REGIONS = Struct 0 (flds_of
       [mem ''UnitSizePages'' U64, mem ''ReservedUnitMap'' (Arr U32 16)])"

definition HV_PARTITION_PROPERTY_SHA384 :: cty where
  "HV_PARTITION_PROPERTY_SHA384 = Struct 0 (flds_of
       [mem ''Data'' (Arr U8 48)])"

definition HV_PARTITION_PROPERTY_EX_ROOT_PROCESSOR_FEATURES_EXPERIMENTAL :: cty where
  "HV_PARTITION_PROPERTY_EX_ROOT_PROCESSOR_FEATURES_EXPERIMENTAL = Struct 0 (flds_of
       [mem ''Banks'' (Arr U64 2)])"

definition HV_PARTITION_PROPERTY_VP_SHARED_PAGES :: cty where
  "HV_PARTITION_PROPERTY_VP_SHARED_PAGES = Struct 0 (flds_of
       [mem ''Flags'' U32, mem ''VpAssistPage'' U64, mem ''SimPage'' U64])"

definition HV_PARTITION_PROPERTY_EX :: cty where
  "HV_PARTITION_PROPERTY_EX = Union 0 (flds_of
       [mem ''Buffer'' (Arr U8 4096), mem ''CommonProperty'' HV_PARTITION_PROPERTY,
       mem ''InheritedDeviceDomainRegions'' HV_PARTITION_PROPERTY_INHERITED_DEVICE_DOMAIN_REGIONS,
       mem ''Sha384'' HV_PARTITION_PROPERTY_SHA384,
       mem ''RootProcessorFeaturesExp'' HV_PARTITION_PROPERTY_EX_ROOT_PROCESSOR_FEATURES_EXPERIMENTAL,
       mem ''VpSharedPages'' HV_PARTITION_PROPERTY_VP_SHARED_PAGES])"

definition HV_HOST_TIMELINE_INFO :: cty where
  "HV_HOST_TIMELINE_INFO = Struct 0 (flds_of
       [mem ''TimelineBias'' U64])"

definition HV_SMC_DATA_PATH_PROPERTY :: cty where
  "HV_SMC_DATA_PATH_PROPERTY = Struct 0 (flds_of
       [mem ''LockState'' U16, mem ''Reserved'' U16])"

definition HV_SYSTEM_MIRRORING_PROPERTY :: cty where
  "HV_SYSTEM_MIRRORING_PROPERTY = Union 0 (flds_of
       [mem ''AsUINT64'' U64,
       mem '''' (Struct 0 (flds_of [bits ''MirroringPolicy'' U64 1, bits ''HypervisorHotRestart'' U64 1,
          bits ''Reserved'' U64 62]))])"

definition HV_RESOURCE_CONTROL_MONITOR :: cty where
  "HV_RESOURCE_CONTROL_MONITOR = Struct 0 (flds_of
       [mem ''PartId'' U16, mem ''Pmg'' U8, mem ''Enable'' U8, mem ''Reserved'' U32])"

definition HV_RESOURCE_CONTROL_VALUE_PROPERTY :: cty where
  "HV_RESOURCE_CONTROL_VALUE_PROPERTY = Struct 0 (flds_of
       [mem ''Type'' Enum_ty, mem ''Index'' U32,
       mem '''' (Union 0 (flds_of [mem ''Value'' U64, mem ''Monitor'' HV_RESOURCE_CONTROL_MONITOR]))])"

definition HV_RESOURCE_CONTROL_MONITOR_DATA :: cty where
  "HV_RESOURCE_CONTROL_MONITOR_DATA = Struct 0 (flds_of
       [mem ''ProcessorCache'' (Struct 0 (flds_of [mem ''Valid'' U8, mem ''L3OccupancyBytes'' U64, mem ''L3TotalBwBytes'' U64,
          mem ''L3LocalBwBytes'' U64]))])"

definition HV_RESOURCE_CONTROL_SUPPORT_PROPERTY :: cty where
  "HV_RESOURCE_CONTROL_SUPPORT_PROPERTY = Struct 0 (flds_of
       [bits ''ProcessorCacheAllocationSupport'' U32 1,
       bits ''ProcessorCacheMonitoringSupport'' U32 1,
       bits ''ProcessorCacheOccupancySupport'' U32 1,
       bits ''ProcessorCacheTotalBwSupport'' U32 1, bits ''ProcessorCacheLocalBwSupport'' U32 1,
       bits ''MemoryBandwidthAllocationSupport'' U32 1, bits ''Reserved1'' U32 26,
       mem ''ProcessorCacheMaskWidth'' U32, mem ''ProcessorCacheMaskHwReserved'' U32,
       mem ''ProcessorCacheMaskSlots'' U32, mem ''ProcessorCacheMonitorSlots'' U32,
       mem ''MemoryBandwidthSlots'' U32, mem ''MemoryBandwidthMaxValue'' U32,
       bits ''MemoryBandwidthLinear'' U32 1, bits ''Reserved2'' U32 31])"

definition HV_RESOURCE_CONTROL_VALUES_PROPERTY :: cty where
  "HV_RESOURCE_CONTROL_VALUES_PROPERTY = Struct 0 (flds_of
       [mem ''NumValues'' U32,
       mem '''' (Union 0 (flds_of [mem ''Values'' (Arr U64 128), mem ''Monitors'' (Arr HV_RESOURCE_CONTROL_MONITOR 128)]))])"

definition HV_SYSTEM_DIAG_LOG_BUFFER_CONFIG :: cty where
  "HV_SYSTEM_DIAG_LOG_BUFFER_CONFIG = Struct 0 (flds_of
       [mem ''BufferCount'' U32, mem ''BufferSizeInPages'' U32])"

definition HV_SCHEDULING_INTERVAL_INFO :: cty where
  "HV_SCHEDULING_INTERVAL_INFO = Struct 0 (flds_of
       [mem ''MaxSchedulingIntervalInUs'' U32,
       mem ''MinimumSupportedSchedulingIntervalInUs'' U32,
       mem ''MaximumSupportedSchedulingIntervalInUs'' U32])"

definition HV_VIRTUALIZATION_FEATURE_SET :: cty where
  "HV_VIRTUALIZATION_FEATURE_SET = Union 0 (flds_of
       [mem ''AsUINT64'' (Arr U64 4),
       mem '''' (Struct 0 (flds_of [mem ''ValFeatureSet'' U64,
          mem '''' (Union 0 (flds_of [mem ''Intel'' (Struct 0 (flds_of [mem ''FeatureSet'' U64])),
             mem ''Amd'' (Struct 0 (flds_of [mem ''FeatureSet'' U64])),
             mem ''Arm'' (Struct 0 (flds_of [mem ''FeatureSet'' U64]))]))]))])"

definition HV_BOOT_CONFIG_PROPERTY :: cty where
  "HV_BOOT_CONFIG_PROPERTY = Struct 0 (flds_of
       [mem ''BootFlags'' U64, mem ''StartupModeNormal'' U64])"

definition HV_SYNMC_ARM64_EVENT :: cty where
  "HV_SYNMC_ARM64_EVENT = Union 0 (flds_of
       [mem ''ModelSpecificErrorCode'' U16,
       mem '''' (Struct 0 (flds_of [bits ''ErrorDetail'' U16 14, bits ''HypervisorError'' U16 1, bits ''SoftwareError'' U16 1]))])"

definition HV_SYNMC_EVENT :: cty where
  "HV_SYNMC_EVENT = HV_SYNMC_ARM64_EVENT"

definition HV_PPM_IDLE_STATE_EX :: cty where
  "HV_PPM_IDLE_STATE_EX = Struct 0 (flds_of
       [mem '''' (Union 0 (flds_of [mem ''LegacyHvIdleState'' HV_PPM_IDLE_STATE,
          mem '''' (Struct 0 (flds_of [mem ''Config'' HV_PPM_IDLE_STATE_CONFIG, mem ''Type'' U32, mem ''HardwareLatency'' U32,
             mem ''PowerConsumption'' U32]))])),
       mem ''MinimumResidency'' U32])"

definition HV_X64_PPM_IDLE_STATE_CONFIG_PROPERTY_EX :: cty where
  "HV_X64_PPM_IDLE_STATE_CONFIG_PROPERTY_EX = Struct 0 (flds_of
       [mem ''Version'' U32, mem ''StateCount'' U32, mem ''States'' (Arr HV_PPM_IDLE_STATE_EX 16)])"

definition HV_PROCESSOR_CPPC_REQUEST_REGISTER :: cty where
  "HV_PROCESSOR_CPPC_REQUEST_REGISTER = Struct 0 (flds_of
       [mem ''PhysicalAddress'' U64, mem ''Address'' U64, mem ''Mask'' U64, mem ''AccessSize'' U8])"

definition HV_PHYSICAL_DEVICE_FLAGS :: cty where
  "HV_PHYSICAL_DEVICE_FLAGS = Union 0 (flds_of
       [mem ''AsUINT64'' U64,
       mem '''' (Struct 0 (flds_of [bits ''VirtualFunction'' U64 1, bits ''PhysicalFunctionRid'' U64 16,
          bits ''Reserved'' U64 47]))])"

definition HV_PHYSICAL_DEVICE_PROPERTY_FAULT_REPORTING :: cty where
  "HV_PHYSICAL_DEVICE_PROPERTY_FAULT_REPORTING = Struct 0 (flds_of
       [mem ''FaultReportingEnabled'' U8, mem ''Reserved0'' U8, mem ''Reserved1'' U16,
       mem ''Reserved2'' U32])"

definition HV_PHYSICAL_DEVICE_PROPERTY_IRT_RANGE :: cty where
  "HV_PHYSICAL_DEVICE_PROPERTY_IRT_RANGE = Struct 0 (flds_of
       [mem ''BaseIrtIndex'' U32, mem ''Count'' U32])"

definition HV_VTL_PERMISSION_SET :: cty where
  "HV_VTL_PERMISSION_SET = Union 0 (flds_of
       [mem ''AsUINT32'' U32, mem ''VtlPermissionFrom1'' (Arr U16 2)])"

definition HV_GPA_PAGE_MAPPING_DATA :: cty where
  "HV_GPA_PAGE_MAPPING_DATA = Union 0 (flds_of
       [mem ''AsUINT64'' U64,
       mem '''' (Struct 0 (flds_of [bits ''Acceptance'' U64 2, bits ''Vtl1Permission'' U64 16, bits ''Vtl2Permission'' U64 16]))])"

definition HV_X64_DELIVERABILITY_NOTIFICATIONS_REGISTER :: cty where
  "HV_X64_DELIVERABILITY_NOTIFICATIONS_REGISTER = Union 0 (flds_of
       [mem ''AsUINT64'' U64,
       mem '''' (Struct 0 (flds_of [bits ''NmiNotification'' U64 1, bits ''InterruptNotification'' U64 1,
          bits ''InterruptPriority'' U64 4, bits ''RsvdZ'' U64 42, bits ''Sint'' U64 16]))])"

definition HV_ARM64_DELIVERABILITY_NOTIFICATIONS_REGISTER :: cty where
  "HV_ARM64_DELIVERABILITY_NOTIFICATIONS_REGISTER = Union 0 (flds_of
       [mem ''AsUINT64'' U64,
       mem '''' (Struct 0 (flds_of [bits ''RsvdZ'' U64 48, bits ''Sint'' U64 16]))])"

definition HV_INTERNAL_ACTIVITY_REGISTER :: cty where
  "HV_INTERNAL_ACTIVITY_REGISTER = Union 0 (flds_of
       [mem ''AsUINT64'' U64,
       mem '''' (Struct 0 (flds_of [bits ''StartupSuspend'' U64 1, bits ''HaltSuspend'' U64 1, bits ''IdleSuspend'' U64 1,
          bits ''RsvdZ'' U64 61]))])"

definition HV_MIRRORING_NOTIFICATION_MESSAGE_PAYLOAD :: cty where
  "HV_MIRRORING_NOTIFICATION_MESSAGE_PAYLOAD = Struct 0 (flds_of
       [mem ''Status'' U16])"

definition HV_X64_REGISTER_SEV_CONTROL :: cty where
  "HV_X64_REGISTER_SEV_CONTROL = Union 0 (flds_of
       [mem ''AsUINT64'' U64,
       mem '''' (Struct 0 (flds_of [bits ''EnableEncryptedState'' U64 1, bits ''ReservedZ'' U64 11,
          bits ''VmsaGpaPageNumber'' U64 52]))])"

definition HV_PARTITION_VSM_CONFIG :: cty where
  "HV_PARTITION_VSM_CONFIG = Union 0 (flds_of
       [mem ''AsUINT64'' U64,
       mem '''' (Struct 0 (flds_of [bits ''MaximumVtl'' U64 4, bits ''Vtl0InterruptInjectionPolicy'' U64 2,
          bits ''Vtl1InterruptInjectionPolicy'' U64 2, bits ''ReservedZ'' U64 56]))])"

definition HV_RDT_CAT_COS_BITMASK_PROPERTY :: cty where
  "HV_RDT_CAT_COS_BITMASK_PROPERTY = Struct 0 (flds_of
       [mem ''CosIndex'' U32, mem ''CosBitmask'' U32])"

definition HV_PARK_BLOCK_INFO :: cty where
  "HV_PARK_BLOCK_INFO = Struct 0 (flds_of
       [mem ''ParkBlockOffset'' U32, mem ''ParkBlockSize'' U32])"

definition HV_ENABLE_PARTITION_VTL_INTERCEPT_COMPLETION_DATA :: cty where
  "HV_ENABLE_PARTITION_VTL_INTERCEPT_COMPLETION_DATA = Struct 0 (flds_of
       [mem ''Status'' U16])"

definition HV_X64_IO_PORT_READ_COMPLETION_DATA :: cty where
  "HV_X64_IO_PORT_READ_COMPLETION_DATA = Struct 0 (flds_of
       [mem ''Value'' U32])"

definition HV_PICO100_DURATION :: cty where
  "HV_PICO100_DURATION = Union 0 (flds_of
       [mem ''AsUINT64'' U64])"

definition HV_GPA_ATTRIBUTE_INTERCEPT_MESSAGE :: cty where
  "HV_GPA_ATTRIBUTE_INTERCEPT_MESSAGE = Struct 0 (flds_of
       [mem ''VpIndex'' HV_VP_INDEX, bits ''RangeCount'' U32 5, bits ''Adjust'' U32 1,
       bits ''HostVisibility'' U32 2, bits ''MemoryType'' U32 6, bits ''Reserved'' U32 18,
       mem ''Ranges'' (Arr HV_GPA_PAGE_RANGE 29)])"

definition HV_REGISTER_VSM_VP_WAIT_FOR_TLB_LOCK :: cty where
  "HV_REGISTER_VSM_VP_WAIT_FOR_TLB_LOCK = Union 0 (flds_of
       [mem ''AsUINT64'' U64,
       mem '''' (Struct 0 (flds_of [bits ''Wait'' U64 1, bits ''ReservedZ'' U64 63]))])"

definition HV_SNP_PSP_TCB_VERSION :: cty where
  "HV_SNP_PSP_TCB_VERSION = Struct 0 (flds_of
       [mem '''' (Union 0 (flds_of [mem '''' (Struct 0 (flds_of [bits ''BootLoader'' U64 8, bits ''Tee'' U64 8, bits ''ReservedZ'' U64 32,
             bits ''Snp'' U64 8, bits ''Microcode'' U64 8])),
          mem ''AsUINT64'' U64]))])"

definition HV_INPUT_PROTO_CREATE_PERSISTED_CPU_GROUP :: cty where
  "HV_INPUT_PROTO_CREATE_PERSISTED_CPU_GROUP = Struct 0 (flds_of
       [mem ''CpuGroupId'' HV_CPU_GROUP_ID, mem ''LpIndexSetSize'' U16,
       mem ''LpIndexSetOffset'' U16])"

definition HV_VP_ASSIST_PAGE_ACTION :: cty where
  "HV_VP_ASSIST_PAGE_ACTION = Union 0 (flds_of
       [mem ''AsUINT64'' U64,
       mem '''' (Struct 0 (flds_of [bits ''Type'' U64 8, bits ''Reserved'' U64 56]))])"

definition HV_MINROOT_NUMA_LPS :: cty where
  "HV_MINROOT_NUMA_LPS = Struct 0 (flds_of
       [mem ''NodeIndex'' U32, mem ''Mask'' (Arr U64 32)])"

definition HV_X64_MSR_VP_EXIT_REASON_CONTENTS :: cty where
  "HV_X64_MSR_VP_EXIT_REASON_CONTENTS = Union 0 (flds_of
       [mem ''AsUINT64'' U64,
       mem '''' (Struct 0 (flds_of [mem ''AdditionalReason'' U32, mem ''Reason'' U8, mem ''ReservedZ'' (Arr U8 3)]))])"

definition HV_PARTITION_PROPERTY_ASSOC :: cty where
  "HV_PARTITION_PROPERTY_ASSOC = Struct 0 (flds_of
       [mem ''PropertyCode'' Enum_ty, mem ''PropertyValue'' HV_PARTITION_PROPERTY])"

definition HV_ROOT_PASID_CAPABILITIES_PROPERTY :: cty where
  "HV_ROOT_PASID_CAPABILITIES_PROPERTY = Struct 0 (flds_of
       [mem ''SvmIommuCount'' U32, mem ''MinIommuPasidCount'' U32])"

definition HV_PSP_DEVICE :: cty where
  "HV_PSP_DEVICE = Struct 0 (flds_of
       [mem '''' (Union 0 (flds_of [mem ''Pci'' (Struct 0 (flds_of [mem ''MmConfigAddress'' U64, mem ''PciId'' HV_PCI_ID, mem ''BridgeMmConfigAddress'' U64,
             mem ''BridgePciId'' HV_PCI_ID,
             mem ''Bar'' (Arr (Struct 0 (flds_of [mem ''Spa'' U32, mem ''PageCount'' U32])) 6)])),
          mem ''AcpiV1'' (Struct 0 (flds_of [mem ''FeatureRegister'' U64, mem ''InterruptEnableRegister'' U64,
             mem ''InterruptStatusRegister'' U64, mem ''SevMailboxInterruptId'' U8,
             mem ''RsvdZ'' (Arr U8 7), mem ''SevCmdRespRegister'' U64,
             mem ''SevCmdBufAddrLoRegister'' U64, mem ''SevCmdBufAddrHiRegister'' U64,
             mem ''AcpiCmdRespRegister'' U64])),
          mem ''AcpiV2'' (Struct 0 (flds_of [mem ''RegisterBase'' U64, mem ''RegisterPages'' U32, mem ''FeatureRegister'' U32,
             mem ''InterruptEnableRegister'' U32, mem ''InterruptStatusRegister'' U32,
             mem ''SevMailboxInterruptId'' U8, mem ''RsvdZ'' (Arr U8 3),
             mem ''SevCmdRespRegister'' U32, mem ''SevCmdBufAddrLoRegister'' U32,
             mem ''SevCmdBufAddrHiRegister'' U32, mem ''AcpiCmdRespRegister'' U32]))])),
       bits ''IsInitialized'' U32 1, bits ''IsPci'' U32 1, bits ''Reserved0'' U32 2,
       bits ''AcpiRevision'' U32 4, bits ''Reserved1'' U32 24])"

definition HV_SNP_PSP_DEVICES :: cty where
  "HV_SNP_PSP_DEVICES = Struct 0 (flds_of
       [mem ''Count'' U8, mem ''PspDevice'' (Arr HV_PSP_DEVICE 2)])"

definition HV_EVENTLOG_EVENTGROUP_CONFIGURATION :: cty where
  "HV_EVENTLOG_EVENTGROUP_CONFIGURATION = Struct 0 (flds_of
       [mem ''GroupId'' U32, mem ''RsvdZ'' U16, mem ''EventCount'' U16,
       mem ''EventId'' (Arr U8 256)])"

definition HV_INPUT_EVENTLOG_SET_EVENTS :: cty where
  "HV_INPUT_EVENTLOG_SET_EVENTS = Struct 0 (flds_of
       [mem ''EventLogType'' Enum_ty, mem ''GroupCount'' U32, mem ''ConfigurationFlags'' U64,
       mem ''Groups'' (Arr HV_EVENTLOG_EVENTGROUP_CONFIGURATION 2)])"

definition HV_REGISTER_HVPT_CONTROL :: cty where
  "HV_REGISTER_HVPT_CONTROL = Union 0 (flds_of
       [mem ''AsUINT64'' U64,
       mem '''' (Struct 0 (flds_of [bits ''Enabled'' U64 1, bits ''HardwareEnforced'' U64 1,
          bits ''HardwareRangeBits'' U64 6, bits ''ReservedZ'' U64 4, bits ''GpaPageNumber'' U64 52]))])"

definition HV_PARTITION_PERFMON_MODE_CONFIG :: cty where
  "HV_PARTITION_PERFMON_MODE_CONFIG = Union 0 (flds_of
       [mem ''AsUINT64'' U64,
       mem '''' (Struct 0 (flds_of [bits ''PerfmonMode'' U64 8, bits ''DisableCounting'' U64 1, bits ''Reserved'' U64 55]))])"

definition HV_REGISTER_REFERENCE_TSC :: cty where
  "HV_REGISTER_REFERENCE_TSC = Union 0 (flds_of
       [mem ''AsUINT64'' U64,
       mem '''' (Struct 0 (flds_of [bits ''Enable'' U64 1, bits ''ReservedP'' U64 11, bits ''GpaPageNumber'' U64 52]))])"

definition HV_ENABLE_PARTITION_VTL_INTERCEPT_MESSAGE :: cty where
  "HV_ENABLE_PARTITION_VTL_INTERCEPT_MESSAGE = Struct 0 (flds_of
       [mem ''VpIndex'' HV_VP_INDEX, mem ''TargetVtl'' HV_VTL, bits ''EnableMbec'' U8 1,
       bits ''EnableSupervisorShadowStack'' U8 1, bits ''EnableHardwareHvpt'' U8 1])"

definition HV_REGISTER_PARTITION_INFO_PAGE :: cty where
  "HV_REGISTER_PARTITION_INFO_PAGE = Union 0 (flds_of
       [mem ''AsUINT64'' U64,
       mem '''' (Struct 0 (flds_of [bits ''Enabled'' U64 1, bits ''Reserved'' U64 11, bits ''GpaPage'' U64 52]))])"

definition HV_SEAM_TDMR_RESERVATION :: cty where
  "HV_SEAM_TDMR_RESERVATION = Struct 0 (flds_of
       [mem ''BaseAddress'' U64, mem ''Size'' U64])"

definition HV_SEAM_TDMR :: cty where
  "HV_SEAM_TDMR = Struct 0 (flds_of
       [mem ''BaseAddress'' U64, mem ''Size'' U64, mem ''Pamt1GBaseAddress'' U64,
       mem ''Pamt1GSize'' U64, mem ''Pamt2MBaseAddress'' U64, mem ''Pamt2MSize'' U64,
       mem ''Pamt4KBaseAddress'' U64, mem ''Pamt4KSize'' U64, mem ''NumReservedRegions'' U64,
       mem ''ReservedRegions'' (Arr HV_SEAM_TDMR_RESERVATION 0)])"

definition HV_X64_REGISTER_SEV_HV_DOORBELL :: cty where
  "HV_X64_REGISTER_SEV_HV_DOORBELL = Union 0 (flds_of
       [mem ''AsUINT64'' U64,
       mem '''' (Struct 0 (flds_of [bits ''Enabled'' U64 1, bits ''ReservedZ'' U64 11, bits ''PageNumber'' U64 52]))])"

definition HV_X64_REGISTER_SEV_GHCB :: cty where
  "HV_X64_REGISTER_SEV_GHCB = Union 0 (flds_of
       [mem ''AsUINT64'' U64,
       mem '''' (Struct 0 (flds_of [bits ''Enabled'' U64 1, bits ''ReservedZ'' U64 11, bits ''PageNumber'' U64 52]))])"

definition HV_GPA_ATTRIBUTE_INTERCEPT_COMPLETION_DATA :: cty where
  "HV_GPA_ATTRIBUTE_INTERCEPT_COMPLETION_DATA = Struct 0 (flds_of
       [mem ''Status'' U16])"

definition HV_EVENTLOG_EXTENDED_TRACE_FLAGS :: cty where
  "HV_EVENTLOG_EXTENDED_TRACE_FLAGS = Union 0 (flds_of
       [mem ''Scenario'' (Struct 0 (flds_of [bits ''Rsvd'' U64 8, bits ''Id'' U64 8, bits ''RsvdZ'' U64 48])),
       mem ''Granular'' (Struct 0 (flds_of [bits ''Rsvd'' U64 8, bits ''Operation'' U64 8, bits ''RsvdZ'' U64 48])),
       mem ''Legacy'' (Struct 0 (flds_of [mem ''Flags'' U64])),
       mem ''Common'' (Struct 0 (flds_of [bits ''Extended'' U64 1, bits ''Mode'' U64 7, bits ''Rsvd'' U64 56])),
       mem ''AsUINT64'' U64])"

definition HV_PARTITION_DIAG_LOG_BUFFER_CONFIG :: cty where
  "HV_PARTITION_DIAG_LOG_BUFFER_CONFIG = Union 0 (flds_of
       [mem ''AsUINT64'' U64,
       mem '''' (Struct 0 (flds_of [mem ''BufferCount'' U32, mem ''BufferSizeInPages'' U32]))])"

definition HV_PARTITION_ENLIGHTENMENT_MODIFICATIONS :: cty where
  "HV_PARTITION_ENLIGHTENMENT_MODIFICATIONS = Union 0 (flds_of
       [mem '''' (Struct 0 (flds_of [bits ''FavorAutoEoi'' U64 1, bits ''FavorAutoEoiLegacyOs'' U64 1, bits ''Rsvd'' U64 62])),
       mem ''AsUINT64'' U64])"

definition HV_INSUFFICIENT_MEMORY_MESSAGE_PAYLOAD :: cty where
  "HV_INSUFFICIENT_MEMORY_MESSAGE_PAYLOAD = Struct 0 (flds_of
       [mem ''VpIndex'' HV_VP_INDEX, mem ''Status'' U16,
       mem ''ProximityDomainInfo'' HV_PROXIMITY_DOMAIN_INFO])"

definition HV_ARM64_REGISTER_TLBI_CONTROL :: cty where
  "HV_ARM64_REGISTER_TLBI_CONTROL = Union 0 (flds_of
       [mem ''AsUINT64'' U64,
       mem '''' (Struct 0 (flds_of [bits ''TlbiEnlightened'' U64 1, bits ''Reserved'' U64 63]))])"

definition HV_SGX_LAUNCH_CONTROL_CONFIG :: cty where
  "HV_SGX_LAUNCH_CONTROL_CONFIG = Union 0 (flds_of
       [mem ''AsUINT64'' U64,
       mem '''' (Struct 0 (flds_of [bits ''Readable'' U64 1, bits ''Writable'' U64 1, bits ''Reserved'' U64 62]))])"

definition HV_LOADER_PCI_SEGMENT_ENTRY :: cty where
  "HV_LOADER_PCI_SEGMENT_ENTRY = Struct 0 (flds_of
       [mem ''SegmentNumber'' U16, mem ''ReservedDeviceBitmap'' (Arr U64 1024),
       mem ''Intel'' (Struct 0 (flds_of [mem ''AtsBusBitmap'' (Arr U64 4), mem ''SecureIntegratedAtsDeviceBitmap'' (Arr U64 1024)]))])"

definition HV_VP_ASSIST_PAGE_ACTION_SIGNAL_EVENT :: cty where
  "HV_VP_ASSIST_PAGE_ACTION_SIGNAL_EVENT = Union 0 (flds_of
       [mem ''AsUINT64'' (Arr U64 2),
       mem '''' (Struct 0 (flds_of [bits ''Type'' U64 8, bits ''Reserved'' U64 56, mem ''TargetVp'' U32,
          mem ''TargetVtl'' U8, mem ''TargetSint'' U8, mem ''FlagNumber'' U16]))])"

definition HV_SYNIC_EVENT_INTERCEPT_MESSAGE :: cty where
  "HV_SYNIC_EVENT_INTERCEPT_MESSAGE = Struct 0 (flds_of
       [mem ''VpIndex'' HV_VP_INDEX, bits ''Vtl'' U32 4, bits ''Reserved'' U32 28,
       mem ''ConnectionId'' HV_CONNECTION_ID, mem ''FlagNumber'' U32])"

definition HV_INPUT_GET_PARTITION_RESERVED_PAGES :: cty where
  "HV_INPUT_GET_PARTITION_RESERVED_PAGES = Struct 0 (flds_of
       [mem ''PartitionId'' U64,
       mem '''' (Union 0 (flds_of [mem ''AsUINT64'' U64, mem '''' (Struct 0 (flds_of [bits ''Continue'' U64 1]))]))])"

definition HV_RDT_MBA_COS_VALUE_PROPERTY :: cty where
  "HV_RDT_MBA_COS_VALUE_PROPERTY = Struct 0 (flds_of
       [mem ''CosIndex'' U32, mem ''CosThrottleValue'' U32])"

definition HV_PARTITION_PROCESSOR_VIRTUALIZATION_FEATURES :: cty where
  "HV_PARTITION_PROCESSOR_VIRTUALIZATION_FEATURES = Union 0 (flds_of
       [mem '''' (Struct 0 (flds_of [bits ''HideHypervisorPresent'' U64 1, bits ''RsvdZ'' U64 63])),
       mem ''AsUINT64'' U64])"

definition HV_INPUT_GPA_PAGE_PINNING :: cty where
  "HV_INPUT_GPA_PAGE_PINNING = Struct 0 (flds_of
       [mem ''Reserved'' U64, mem ''GpaRangeList'' (Arr HV_GPA_PAGE_RANGE 0)])"

definition HV_OUTPUT_GET_PARTITION_RESERVED_PAGES :: cty where
  "HV_OUTPUT_GET_PARTITION_RESERVED_PAGES = Struct 0 (flds_of
       [mem '''' (Union 0 (flds_of [mem ''AsUINT64'' U64, mem ''RangeCount'' U16])),
       mem ''RangeList'' (Arr HV_SPA_PAGE_RANGE 511)])"

definition HV_PARTITION_ISOLATION_CONTROL :: cty where
  "HV_PARTITION_ISOLATION_CONTROL = Union 0 (flds_of
       [mem ''AsUINT64'' U64,
       mem '''' (Struct 0 (flds_of [bits ''Runnable'' U64 1, bits ''ReservedZ'' U64 63]))])"

definition HV_X64_MSR_VP_EXIT_INTERRUPT_CONTROL_CONTENTS :: cty where
  "HV_X64_MSR_VP_EXIT_INTERRUPT_CONTROL_CONTENTS = Union 0 (flds_of
       [mem ''AsUINT64'' U64,
       mem '''' (Struct 0 (flds_of [mem ''Vector'' U8, mem ''SampleRate'' U8, mem ''ReservedZ'' (Arr U8 6)]))])"

definition HV_LOADER_IOMMU_ENTRY :: cty where
  "HV_LOADER_IOMMU_ENTRY = Struct 0 (flds_of
       [mem ''SegmentNumber'' U16, mem ''RegisterBaseAddress'' U64, mem ''Idr0'' U32,
       mem ''Idr1'' U32, mem ''Idr2'' U32, mem ''Idr3'' U32, mem ''Idr4'' U32, mem ''Idr5'' U32,
       mem ''Aidr'' U32, mem ''StreamTableBase'' U64, mem ''StreamTableSizeInPages'' U32,
       mem ''StrTabBaseCfg'' U32, mem ''Mpamidr'' U32])"

definition HV_DEPRECATED_OUTPUT_QUERY_IOMMU_PROPERTIES :: cty where
  "HV_DEPRECATED_OUTPUT_QUERY_IOMMU_PROPERTIES = Struct 0 (flds_of
       [mem '''' (Union 0 (flds_of [mem ''Amd'' (Struct 0 (flds_of [mem ''DeviceTableSizeInPages'' U32, mem ''DeviceTableSpaBasePage'' U64])),
          mem ''Intel'' (Struct 0 (flds_of [mem ''ContextTableCount'' U32, mem ''InterruptRemappingTableSizeInPages'' U32,
             mem ''RootTableSpaPage'' U64, mem ''ContextTableSpaPages'' (Arr U64 256),
             mem ''InterruptRemappingTableSpaBasePage'' U64]))])),
       mem ''Flags'' (Union 0 (flds_of [mem '''' (Struct 0 (flds_of [bits ''LiveDomainIdSelector'' U32 1, bits ''Reserved'' U32 31])),
          mem ''AsUINT32'' U32]))])"

definition HV_CHECK_GPA_PAGE_VTL_ACCESS_RESULT :: cty where
  "HV_CHECK_GPA_PAGE_VTL_ACCESS_RESULT = Union 0 (flds_of
       [mem ''AsUINT64'' U64,
       mem '''' (Struct 0 (flds_of [bits ''ResultCode'' U32 8, bits ''DeniedAccess'' U32 8, bits ''InterceptingVtl'' U32 4,
          bits ''Reserved0'' U32 12, mem ''Reserved1'' U32]))])"

definition HV_INSTRUCTION_EMULATION_HINTS_REGISTER :: cty where
  "HV_INSTRUCTION_EMULATION_HINTS_REGISTER = Union 0 (flds_of
       [mem ''AsUINT64'' U64,
       mem '''' (Struct 0 (flds_of [bits ''PartitionSecureVtlEnabled'' U64 1, bits ''MbecUserExecuteControl'' U64 1]))])"

definition HV_PARTITION_ISOLATION_POLICY :: cty where
  "HV_PARTITION_ISOLATION_POLICY = Union 0 (flds_of
       [mem ''AsUINT64'' U64])"

definition HV_PSP_REQUEST_COMPLETION_DATA :: cty where
  "HV_PSP_REQUEST_COMPLETION_DATA = Struct 0 (flds_of
       [mem ''PspStatus'' Enum_ty])"

definition HV_SNP_PSP_ID :: cty where
  "HV_SNP_PSP_ID = Struct 0 (flds_of
       [mem ''Id'' (Arr U8 512), mem ''Size'' U32, mem ''Count'' U8])"

definition HV_USER_MODE_HYPERCALLS :: cty where
  "HV_USER_MODE_HYPERCALLS = Union 0 (flds_of
       [mem '''' (Struct 0 (flds_of [bits ''DispatchVp'' U64 1, bits ''AssertVirtualInterrupt'' U64 1,
          bits ''SignalEventDirect'' U64 1, bits ''ReadGpa'' U64 1, bits ''WriteGpa'' U64 1,
          bits ''UnregisterInterceptResult'' U64 1, bits ''TranslateVirtualAddressEx'' U64 1,
          bits ''GetVpRegisters'' U64 1, bits ''SetVpRegisters'' U64 1,
          bits ''AssertDeviceInterrupt'' U64 1, bits ''RetargetDeviceInterrupt'' U64 1,
          bits ''PostMessageDirect'' U64 1, bits ''GetVpCpuidValues'' U64 1,
          bits ''GetVpSetFromMda'' U64 1, bits ''Reserved'' U64 50])),
       mem ''AsUINT64'' U64])"

definition HV_PARTITION_DEPOSIT_STATUS :: cty where
  "HV_PARTITION_DEPOSIT_STATUS = Union 0 (flds_of
       [mem ''AsUINT64'' U64,
       mem '''' (Struct 0 (flds_of [bits ''Success'' U64 1, bits ''Async'' U64 1, bits ''Remote'' U64 1,
          bits ''Reserved'' U64 61]))])"

definition HV_IOMMU_GVA_RANGE :: cty where
  "HV_IOMMU_GVA_RANGE = Union 0 (flds_of
       [mem ''AsUINT64'' U64,
       mem '''' (Struct 0 (flds_of [bits ''PageMaskShift'' U64 6, bits ''Reserved'' U64 6, bits ''PageNumber'' U64 52]))])"

definition HV_PARTITION_INFO_PAGE :: cty where
  "HV_PARTITION_INFO_PAGE = Union 0 (flds_of
       [mem ''Padding'' (Arr U8 4096), mem ''TlbInUse'' U32])"

definition HV_ARM64_TLB_PAGE_SIZE_MISMATCH_MESSAGE :: cty where
  "HV_ARM64_TLB_PAGE_SIZE_MISMATCH_MESSAGE = Struct 0 (flds_of
       [mem ''VpIndex'' HV_VP_INDEX, mem ''Reserved'' U32])"

definition HV_ARM64_VOLATILE_GP_REGS :: cty where
  "HV_ARM64_VOLATILE_GP_REGS = Struct 0 (flds_of
       [mem ''X'' (Arr U64 18)])"

definition HV_PARTITION_PAGE_ACCESS_TRACKING_CONFIG :: cty where
  "HV_PARTITION_PAGE_ACCESS_TRACKING_CONFIG = Union 0 (flds_of
       [mem ''AsUINT64'' U64,
       mem '''' (Struct 0 (flds_of [bits ''Enabled'' U64 1, bits ''Granularity'' U64 2, bits ''RangeEnabled'' U64 1,
          bits ''ReservedZ'' U64 60]))])"

definition HV_MEMORY_PROXIMITY_INFO :: cty where
  "HV_MEMORY_PROXIMITY_INFO = Struct 0 (flds_of
       [mem ''BaseAddress'' U64, mem ''EndAddress'' U64,
       mem ''ProximityDomainId'' HV_PROXIMITY_DOMAIN_ID])"

definition HV_DMA_RANGE :: cty where
  "HV_DMA_RANGE = Struct 0 (flds_of
       [mem ''StartPage'' U64, mem ''PageCount'' U32])"

definition HV_VP_DISPATCH_LOOP_RESULT :: cty where
  "HV_VP_DISPATCH_LOOP_RESULT = Union 0 (flds_of
       [mem ''AsUINT64'' U64,
       mem '''' (Struct 0 (flds_of [mem ''ExitEvent'' Enum_ty, mem ''Reserved'' U32]))])"

definition HV_HYPERCALL_INTERCEPT_COMPLETION_DATA :: cty where
  "HV_HYPERCALL_INTERCEPT_COMPLETION_DATA = Struct 0 (flds_of
       [mem ''Status'' U16, mem ''OutputData'' (Arr U8 0)])"

definition HV_INPUT_NOTIFY_EVENT_RING_EMPTY :: cty where
  "HV_INPUT_NOTIFY_EVENT_RING_EMPTY = Struct 0 (flds_of
       [mem ''SintIndex'' U32, mem ''RsvdZ'' U32])"

definition HV_REGISTER_ISOLATION_CAPABILITIES :: cty where
  "HV_REGISTER_ISOLATION_CAPABILITIES = Union 0 (flds_of
       [mem ''AsUINT64'' U64, mem '''' (Struct 0 (flds_of [bits ''ReservedZ'' U64 64]))])"

definition HV_SEC_FW_VERSION :: cty where
  "HV_SEC_FW_VERSION = Union 0 (flds_of
       [mem ''Snp'' (Struct 0 (flds_of [bits ''Build'' U64 32, bits ''MinorVersion'' U64 8, bits ''MajorVersion'' U64 8,
          bits ''Reserved'' U64 16])),
       mem ''AsUINT64'' U64])"

definition HV_RESTART_COMPLETION_MESSAGE_PAYLOAD :: cty where
  "HV_RESTART_COMPLETION_MESSAGE_PAYLOAD = Struct 0 (flds_of
       [mem ''VpIndex'' HV_VP_INDEX, mem ''CompletionType'' Enum_ty])"

section \<open>Layouts\<close>

lemma array_lengths_symbols [tlfs_layout]:
  "unat HV_PARTITION_SYNTHETIC_PROCESSOR_FEATURES_BANKS = 1" "unat HV_SYNIC_EVENT_RING_MESSAGE_COUNT = 63"
  "unat BITSET_BUFFER_SIZE = 18"
  by (simp_all add: HV_PARTITION_SYNTHETIC_PROCESSOR_FEATURES_BANKS_def HV_SYNIC_EVENT_RING_MESSAGE_COUNT_def
      BITSET_BUFFER_SIZE_def HV_GENERIC_SET_QWORD_COUNT_def HV_ROOT_SCHEDULER_MAX_VPS_PER_CHILD_PARTITION_def)

lemma message_pair_count [tlfs_layout]: "HV_MESSAGE_MAX_PARTITION_VP_PAIR_COUNT = 19"
  by (simp add: HV_MESSAGE_MAX_PARTITION_VP_PAIR_COUNT_def interface_layout)

lemma HV_NOTIFICATION_MESSAGE_PAYLOAD_layout [tlfs_layout]:
  "csize A HV_NOTIFICATION_MESSAGE_PAYLOAD = 4" "calign A HV_NOTIFICATION_MESSAGE_PAYLOAD = 4"
  "integer_view A HV_NOTIFICATION_MESSAGE_PAYLOAD = None"
  by (simp_all add: HV_NOTIFICATION_MESSAGE_PAYLOAD_def tlfs_eval tlfs_layout)

lemma HV_X64_PROXY_INTERRUPT_MESSAGE_PAYLOAD_layout [tlfs_layout]:
  "csize A HV_X64_PROXY_INTERRUPT_MESSAGE_PAYLOAD = 36" "calign A HV_X64_PROXY_INTERRUPT_MESSAGE_PAYLOAD = 4"
  "integer_view A HV_X64_PROXY_INTERRUPT_MESSAGE_PAYLOAD = None"
  by (simp_all add: HV_X64_PROXY_INTERRUPT_MESSAGE_PAYLOAD_def tlfs_eval tlfs_layout)

lemma HV_GPA_PAGE_ACCESS_STATE_FLAGS_layout [tlfs_layout]:
  "csize A HV_GPA_PAGE_ACCESS_STATE_FLAGS = 8" "calign A HV_GPA_PAGE_ACCESS_STATE_FLAGS = 8"
  "integer_view A HV_GPA_PAGE_ACCESS_STATE_FLAGS = Some 8"
  by (cases "abi_ms_bits A", simp_all add: HV_GPA_PAGE_ACCESS_STATE_FLAGS_def tlfs_eval tlfs_layout)

lemma HV_GPA_PAGE_ACCESS_STATE_layout [tlfs_layout]:
  "csize A HV_GPA_PAGE_ACCESS_STATE = 1" "calign A HV_GPA_PAGE_ACCESS_STATE = 1"
  "integer_view A HV_GPA_PAGE_ACCESS_STATE = Some 1"
  by (cases "abi_ms_bits A", simp_all add: HV_GPA_PAGE_ACCESS_STATE_def tlfs_eval tlfs_layout)

lemma HV_VP_REGISTER_PAGE_X64_layout [tlfs_layout]:
  "csize A (HV_VP_REGISTER_PAGE X64) = 432" "calign A (HV_VP_REGISTER_PAGE X64) = 16"
  "integer_view A (HV_VP_REGISTER_PAGE X64) = None"
  by (simp_all add: HV_VP_REGISTER_PAGE_def tlfs_eval tlfs_layout)

lemma HV_VP_REGISTER_PAGE_ARM64_layout [tlfs_layout]:
  "csize A (HV_VP_REGISTER_PAGE ARM64) = 8" "calign A (HV_VP_REGISTER_PAGE ARM64) = 4"
  "integer_view A (HV_VP_REGISTER_PAGE ARM64) = None"
  by (simp_all add: HV_VP_REGISTER_PAGE_def tlfs_eval tlfs_layout)

lemma HV_PARTITION_CREATION_PROPERTIES_V1_layout [tlfs_layout]:
  "csize A HV_PARTITION_CREATION_PROPERTIES_V1 = 8" "calign A HV_PARTITION_CREATION_PROPERTIES_V1 = 8"
  "integer_view A HV_PARTITION_CREATION_PROPERTIES_V1 = None"
  by (simp_all add: HV_PARTITION_CREATION_PROPERTIES_V1_def tlfs_eval tlfs_layout)

lemma HV_PARTITION_CREATION_PROPERTIES_V2_X64_layout [tlfs_layout]:
  "csize A (HV_PARTITION_CREATION_PROPERTIES_V2 X64) = 24" "calign A (HV_PARTITION_CREATION_PROPERTIES_V2 X64) = 8"
  "integer_view A (HV_PARTITION_CREATION_PROPERTIES_V2 X64) = None"
  by (simp_all add: HV_PARTITION_CREATION_PROPERTIES_V2_def tlfs_eval tlfs_layout)

lemma HV_PARTITION_CREATION_PROPERTIES_V2_ARM64_layout [tlfs_layout]:
  "csize A (HV_PARTITION_CREATION_PROPERTIES_V2 ARM64) = 16" "calign A (HV_PARTITION_CREATION_PROPERTIES_V2 ARM64) = 8"
  "integer_view A (HV_PARTITION_CREATION_PROPERTIES_V2 ARM64) = None"
  by (simp_all add: HV_PARTITION_CREATION_PROPERTIES_V2_def tlfs_eval tlfs_layout)

lemma HV_PARTITION_CREATION_PROPERTIES_X64_layout [tlfs_layout]:
  "csize A (HV_PARTITION_CREATION_PROPERTIES X64) = 24" "calign A (HV_PARTITION_CREATION_PROPERTIES X64) = 8"
  "integer_view A (HV_PARTITION_CREATION_PROPERTIES X64) = None"
  by (simp_all add: HV_PARTITION_CREATION_PROPERTIES_def tlfs_eval tlfs_layout)

lemma HV_PARTITION_CREATION_PROPERTIES_ARM64_layout [tlfs_layout]:
  "csize A (HV_PARTITION_CREATION_PROPERTIES ARM64) = 16" "calign A (HV_PARTITION_CREATION_PROPERTIES ARM64) = 8"
  "integer_view A (HV_PARTITION_CREATION_PROPERTIES ARM64) = None"
  by (simp_all add: HV_PARTITION_CREATION_PROPERTIES_def tlfs_eval tlfs_layout)

lemma HV_PARTITION_SYNTHETIC_PROCESSOR_FEATURES_layout [tlfs_layout]:
  "csize A HV_PARTITION_SYNTHETIC_PROCESSOR_FEATURES = 8" "calign A HV_PARTITION_SYNTHETIC_PROCESSOR_FEATURES = 8"
  "integer_view A HV_PARTITION_SYNTHETIC_PROCESSOR_FEATURES = Some 8"
  by (cases "abi_ms_bits A", simp_all add: HV_PARTITION_SYNTHETIC_PROCESSOR_FEATURES_def tlfs_eval tlfs_layout)

lemma HV_PARTITION_ISOLATION_PROPERTIES_layout [tlfs_layout]:
  "csize A HV_PARTITION_ISOLATION_PROPERTIES = 8" "calign A HV_PARTITION_ISOLATION_PROPERTIES = 8"
  "integer_view A HV_PARTITION_ISOLATION_PROPERTIES = Some 8"
  by (cases "abi_ms_bits A", simp_all add: HV_PARTITION_ISOLATION_PROPERTIES_def tlfs_eval tlfs_layout)

lemma HV_CPUID_LEAF_INFO_layout [tlfs_layout]:
  "csize A HV_CPUID_LEAF_INFO = 24" "calign A HV_CPUID_LEAF_INFO = 8"
  "integer_view A HV_CPUID_LEAF_INFO = None"
  by (simp_all add: HV_CPUID_LEAF_INFO_def tlfs_eval tlfs_layout)

lemma HV_GET_VP_CPUID_VALUES_FLAGS_layout [tlfs_layout]:
  "csize A HV_GET_VP_CPUID_VALUES_FLAGS = 4" "calign A HV_GET_VP_CPUID_VALUES_FLAGS = 4"
  "integer_view A HV_GET_VP_CPUID_VALUES_FLAGS = Some 4"
  by (cases "abi_ms_bits A", simp_all add: HV_GET_VP_CPUID_VALUES_FLAGS_def tlfs_eval tlfs_layout)

lemma HV_OPAQUE_INTERCEPT_MESSAGE_layout [tlfs_layout]:
  "csize A HV_OPAQUE_INTERCEPT_MESSAGE = 4" "calign A HV_OPAQUE_INTERCEPT_MESSAGE = 4"
  "integer_view A HV_OPAQUE_INTERCEPT_MESSAGE = None"
  by (simp_all add: HV_OPAQUE_INTERCEPT_MESSAGE_def tlfs_eval tlfs_layout)

lemma HV_SYNIC_EVENT_RING_layout [tlfs_layout]:
  "csize A HV_SYNIC_EVENT_RING = 256" "calign A HV_SYNIC_EVENT_RING = 4"
  "integer_view A HV_SYNIC_EVENT_RING = None"
  by (simp_all add: HV_SYNIC_EVENT_RING_def tlfs_eval tlfs_layout)

lemma HV_SYNIC_EVENT_RING_PAGE_layout [tlfs_layout]:
  "csize A HV_SYNIC_EVENT_RING_PAGE = 4096" "calign A HV_SYNIC_EVENT_RING_PAGE = 4"
  "integer_view A HV_SYNIC_EVENT_RING_PAGE = None"
  by (simp_all add: HV_SYNIC_EVENT_RING_PAGE_def tlfs_eval tlfs_layout)

lemma HV_SYNIC_SIRBP_layout [tlfs_layout]:
  "csize A HV_SYNIC_SIRBP = 8" "calign A HV_SYNIC_SIRBP = 8"
  "integer_view A HV_SYNIC_SIRBP = Some 8"
  by (cases "abi_ms_bits A", simp_all add: HV_SYNIC_SIRBP_def tlfs_eval tlfs_layout)

lemma HV_LOCAL_INTERRUPT_CONTROLLER_STATE_layout [tlfs_layout]:
  "csize A HV_LOCAL_INTERRUPT_CONTROLLER_STATE = 176" "calign A HV_LOCAL_INTERRUPT_CONTROLLER_STATE = 4"
  "integer_view A HV_LOCAL_INTERRUPT_CONTROLLER_STATE = None"
  by (simp_all add: HV_LOCAL_INTERRUPT_CONTROLLER_STATE_def tlfs_eval tlfs_layout)

lemma HV_STIMER_STATE_layout [tlfs_layout]:
  "csize A HV_STIMER_STATE = 40" "calign A HV_STIMER_STATE = 8"
  "integer_view A HV_STIMER_STATE = None"
  by (cases "abi_ms_bits A", simp_all add: HV_STIMER_STATE_def tlfs_eval tlfs_layout)

lemma HV_SYNTHETIC_TIMERS_STATE_layout [tlfs_layout]:
  "csize A HV_SYNTHETIC_TIMERS_STATE = 200" "calign A HV_SYNTHETIC_TIMERS_STATE = 8"
  "integer_view A HV_SYNTHETIC_TIMERS_STATE = None"
  by (simp_all add: HV_SYNTHETIC_TIMERS_STATE_def tlfs_eval tlfs_layout)

lemma HV_REGISTER_X64_CPUID_RESULT_PARAMETERS_layout [tlfs_layout]:
  "csize A HV_REGISTER_X64_CPUID_RESULT_PARAMETERS = 44" "calign A HV_REGISTER_X64_CPUID_RESULT_PARAMETERS = 4"
  "integer_view A HV_REGISTER_X64_CPUID_RESULT_PARAMETERS = None"
  by (simp_all add: HV_REGISTER_X64_CPUID_RESULT_PARAMETERS_def tlfs_eval tlfs_layout)

lemma HV_REGISTER_X64_MSR_RESULT_PARAMETERS_layout [tlfs_layout]:
  "csize A HV_REGISTER_X64_MSR_RESULT_PARAMETERS = 12" "calign A HV_REGISTER_X64_MSR_RESULT_PARAMETERS = 4"
  "integer_view A HV_REGISTER_X64_MSR_RESULT_PARAMETERS = None"
  by (simp_all add: HV_REGISTER_X64_MSR_RESULT_PARAMETERS_def tlfs_eval tlfs_layout)

lemma HV_REGISTER_INTERCEPT_RESULT_PARAMETERS_layout [tlfs_layout]:
  "csize A HV_REGISTER_INTERCEPT_RESULT_PARAMETERS = 44" "calign A HV_REGISTER_INTERCEPT_RESULT_PARAMETERS = 4"
  "integer_view A HV_REGISTER_INTERCEPT_RESULT_PARAMETERS = None"
  by (simp_all add: HV_REGISTER_INTERCEPT_RESULT_PARAMETERS_def tlfs_eval tlfs_layout)

lemma HV_ASYNC_COMPLETION_MESSAGE_PAYLOAD_layout [tlfs_layout]:
  "csize A HV_ASYNC_COMPLETION_MESSAGE_PAYLOAD = 24" "calign A HV_ASYNC_COMPLETION_MESSAGE_PAYLOAD = 8"
  "integer_view A HV_ASYNC_COMPLETION_MESSAGE_PAYLOAD = None"
  by (simp_all add: HV_ASYNC_COMPLETION_MESSAGE_PAYLOAD_def tlfs_eval tlfs_layout)

lemma HV_GUEST_MAPPING_FLUSH_LIST_layout [tlfs_layout]:
  "csize A HV_GUEST_MAPPING_FLUSH_LIST = 16" "calign A HV_GUEST_MAPPING_FLUSH_LIST = 8"
  "integer_view A HV_GUEST_MAPPING_FLUSH_LIST = None"
  by (simp_all add: HV_GUEST_MAPPING_FLUSH_LIST_def tlfs_eval tlfs_layout)

lemma HV_VP_STATE_DATA_XSAVE_layout [tlfs_layout]:
  "csize A HV_VP_STATE_DATA_XSAVE = 16" "calign A HV_VP_STATE_DATA_XSAVE = 8"
  "integer_view A HV_VP_STATE_DATA_XSAVE = None"
  by (simp_all add: HV_VP_STATE_DATA_XSAVE_def tlfs_eval tlfs_layout)

lemma HV_VP_STATE_DATA_X64_layout [tlfs_layout]:
  "csize A (HV_VP_STATE_DATA X64) = 24" "calign A (HV_VP_STATE_DATA X64) = 8"
  "integer_view A (HV_VP_STATE_DATA X64) = None"
  by (simp_all add: HV_VP_STATE_DATA_def tlfs_eval tlfs_layout)

lemma HV_VP_STATE_DATA_ARM64_layout [tlfs_layout]:
  "csize A (HV_VP_STATE_DATA ARM64) = 8" "calign A (HV_VP_STATE_DATA ARM64) = 4"
  "integer_view A (HV_VP_STATE_DATA ARM64) = None"
  by (simp_all add: HV_VP_STATE_DATA_def tlfs_eval tlfs_layout)

lemma HV_VP_SIGNAL_BITSET_SCHEDULER_MESSAGE_layout [tlfs_layout]:
  "csize A HV_VP_SIGNAL_BITSET_SCHEDULER_MESSAGE = 160" "calign A HV_VP_SIGNAL_BITSET_SCHEDULER_MESSAGE = 8"
  "integer_view A HV_VP_SIGNAL_BITSET_SCHEDULER_MESSAGE = None"
  by (simp_all add: HV_VP_SIGNAL_BITSET_SCHEDULER_MESSAGE_def tlfs_eval tlfs_layout)

lemma HV_VP_SIGNAL_PAIR_SCHEDULER_MESSAGE_layout [tlfs_layout]:
  "csize A HV_VP_SIGNAL_PAIR_SCHEDULER_MESSAGE = 240" "calign A HV_VP_SIGNAL_PAIR_SCHEDULER_MESSAGE = 8"
  "integer_view A HV_VP_SIGNAL_PAIR_SCHEDULER_MESSAGE = None"
  by (simp_all add: HV_VP_SIGNAL_PAIR_SCHEDULER_MESSAGE_def tlfs_eval tlfs_layout)

lemma HV_LOGICAL_DEVICE_ID_scalars [tlfs_layout]:
  "csize A HV_LOGICAL_DEVICE_ID = 8" "calign A HV_LOGICAL_DEVICE_ID = 8" "integer_view A HV_LOGICAL_DEVICE_ID = None"
  "csize A HV_PASID = 4" "calign A HV_PASID = 4" "integer_view A HV_PASID = None"
  "csize A HV_PASID_SPACE_ID = 4" "calign A HV_PASID_SPACE_ID = 4" "integer_view A HV_PASID_SPACE_ID = None"
  "csize A HV_IOAPIC_ID = 1" "calign A HV_IOAPIC_ID = 1" "integer_view A HV_IOAPIC_ID = None"
  "csize A HV_PCI_SEGMENT = 2" "calign A HV_PCI_SEGMENT = 2" "integer_view A HV_PCI_SEGMENT = None"
  "csize A HV_DEVICE_VA = 8" "calign A HV_DEVICE_VA = 8" "integer_view A HV_DEVICE_VA = None"
  "csize A HV_PCI_RID = 2" "calign A HV_PCI_RID = 2" "integer_view A HV_PCI_RID = None"
  "csize A HV_DEVICE_PR_QUEUE_ID = 4" "calign A HV_DEVICE_PR_QUEUE_ID = 4" "integer_view A HV_DEVICE_PR_QUEUE_ID = None"
  by (simp_all add: HV_LOGICAL_DEVICE_ID_def HV_PASID_def HV_PASID_SPACE_ID_def HV_IOAPIC_ID_def HV_PCI_SEGMENT_def HV_DEVICE_VA_def HV_PCI_RID_def HV_DEVICE_PR_QUEUE_ID_def tlfs_layout)

lemma HV_INPUT_FLUSH_VIRTUAL_ADDRESS_SPACE_HEADER_layout [tlfs_layout]:
  "csize A HV_INPUT_FLUSH_VIRTUAL_ADDRESS_SPACE_HEADER = 24" "calign A HV_INPUT_FLUSH_VIRTUAL_ADDRESS_SPACE_HEADER = 8"
  "integer_view A HV_INPUT_FLUSH_VIRTUAL_ADDRESS_SPACE_HEADER = None"
  by (simp_all add: HV_INPUT_FLUSH_VIRTUAL_ADDRESS_SPACE_HEADER_def tlfs_eval tlfs_layout)

lemma HV_INPUT_FLUSH_VIRTUAL_ADDRESS_SPACE_HEADER_EX_layout [tlfs_layout]:
  "csize A HV_INPUT_FLUSH_VIRTUAL_ADDRESS_SPACE_HEADER_EX = 40" "calign A HV_INPUT_FLUSH_VIRTUAL_ADDRESS_SPACE_HEADER_EX = 8"
  "integer_view A HV_INPUT_FLUSH_VIRTUAL_ADDRESS_SPACE_HEADER_EX = None"
  by (simp_all add: HV_INPUT_FLUSH_VIRTUAL_ADDRESS_SPACE_HEADER_EX_def tlfs_eval tlfs_layout)

lemma HV_GPA_PAGE_ATTRIBUTES_layout [tlfs_layout]:
  "csize A HV_GPA_PAGE_ATTRIBUTES = 8" "calign A HV_GPA_PAGE_ATTRIBUTES = 8"
  "integer_view A HV_GPA_PAGE_ATTRIBUTES = Some 8"
  by (cases "abi_ms_bits A", simp_all add: HV_GPA_PAGE_ATTRIBUTES_def tlfs_eval tlfs_layout)

lemma HV_PPM_POWER_POLICY_SETTING_layout [tlfs_layout]:
  "csize A HV_PPM_POWER_POLICY_SETTING = 8" "calign A HV_PPM_POWER_POLICY_SETTING = 4"
  "integer_view A HV_PPM_POWER_POLICY_SETTING = None"
  by (simp_all add: HV_PPM_POWER_POLICY_SETTING_def tlfs_eval tlfs_layout)

lemma HV_IOMMU_INIT_STATUS_layout [tlfs_layout]:
  "csize A HV_IOMMU_INIT_STATUS = 48" "calign A HV_IOMMU_INIT_STATUS = 8"
  "integer_view A HV_IOMMU_INIT_STATUS = None"
  by (simp_all add: HV_IOMMU_INIT_STATUS_def tlfs_eval tlfs_layout)

lemma HV_TSC_SYNC_STATUS_layout [tlfs_layout]:
  "csize A HV_TSC_SYNC_STATUS = 24" "calign A HV_TSC_SYNC_STATUS = 8"
  "integer_view A HV_TSC_SYNC_STATUS = None"
  by (simp_all add: HV_TSC_SYNC_STATUS_def tlfs_eval tlfs_layout)

lemma HV_PCI_BDF_layout [tlfs_layout]:
  "csize A HV_PCI_BDF = 2" "calign A HV_PCI_BDF = 2"
  "integer_view A HV_PCI_BDF = Some 2"
  by (cases "abi_ms_bits A", simp_all add: HV_PCI_BDF_def tlfs_eval tlfs_layout)

lemma HV_PCI_BUS_RANGE_layout [tlfs_layout]:
  "csize A HV_PCI_BUS_RANGE = 2" "calign A HV_PCI_BUS_RANGE = 2"
  "integer_view A HV_PCI_BUS_RANGE = Some 2"
  by (simp_all add: HV_PCI_BUS_RANGE_def tlfs_eval tlfs_layout)

lemma HV_DEVICE_ID_X64_layout [tlfs_layout]:
  "csize A (HV_DEVICE_ID X64) = 8" "calign A (HV_DEVICE_ID X64) = 8"
  "integer_view A (HV_DEVICE_ID X64) = Some 8"
  by (cases "abi_ms_bits A", simp_all add: HV_DEVICE_ID_def tlfs_eval tlfs_layout)

lemma HV_DEVICE_ID_ARM64_layout [tlfs_layout]:
  "csize A (HV_DEVICE_ID ARM64) = 8" "calign A (HV_DEVICE_ID ARM64) = 8"
  "integer_view A (HV_DEVICE_ID ARM64) = Some 8"
  by (cases "abi_ms_bits A", simp_all add: HV_DEVICE_ID_def tlfs_eval tlfs_layout)

lemma HV_HPET_CONFIG_INFO_X64_layout [tlfs_layout]:
  "csize A (HV_HPET_CONFIG_INFO X64) = 32" "calign A (HV_HPET_CONFIG_INFO X64) = 8"
  "integer_view A (HV_HPET_CONFIG_INFO X64) = None"
  by (simp_all add: HV_HPET_CONFIG_INFO_def tlfs_eval tlfs_layout)

lemma HV_HPET_CONFIG_INFO_ARM64_layout [tlfs_layout]:
  "csize A (HV_HPET_CONFIG_INFO ARM64) = 32" "calign A (HV_HPET_CONFIG_INFO ARM64) = 8"
  "integer_view A (HV_HPET_CONFIG_INFO ARM64) = None"
  by (simp_all add: HV_HPET_CONFIG_INFO_def tlfs_eval tlfs_layout)

lemma HV_HPET_INTERRUPT_INFO_X64_layout [tlfs_layout]:
  "csize A (HV_HPET_INTERRUPT_INFO X64) = 16" "calign A (HV_HPET_INTERRUPT_INFO X64) = 8"
  "integer_view A (HV_HPET_INTERRUPT_INFO X64) = None"
  by (simp_all add: HV_HPET_INTERRUPT_INFO_def tlfs_eval tlfs_layout)

lemma HV_HPET_INTERRUPT_INFO_ARM64_layout [tlfs_layout]:
  "csize A (HV_HPET_INTERRUPT_INFO ARM64) = 24" "calign A (HV_HPET_INTERRUPT_INFO ARM64) = 8"
  "integer_view A (HV_HPET_INTERRUPT_INFO ARM64) = None"
  by (simp_all add: HV_HPET_INTERRUPT_INFO_def tlfs_eval tlfs_layout)

lemma HV_HPET_ENABLED_INFO_layout [tlfs_layout]:
  "csize A HV_HPET_ENABLED_INFO = 1" "calign A HV_HPET_ENABLED_INFO = 1"
  "integer_view A HV_HPET_ENABLED_INFO = None"
  by (cases "abi_ms_bits A", simp_all add: HV_HPET_ENABLED_INFO_def tlfs_eval tlfs_layout)

lemma HV_HYPERVISOR_LAUNCH_STATS_layout [tlfs_layout]:
  "csize A HV_HYPERVISOR_LAUNCH_STATS = 8" "calign A HV_HYPERVISOR_LAUNCH_STATS = 8"
  "integer_view A HV_HYPERVISOR_LAUNCH_STATS = None"
  by (simp_all add: HV_HYPERVISOR_LAUNCH_STATS_def tlfs_eval tlfs_layout)

lemma HV_ROOT_SVM_CAPABILITIES_PROPERTY_layout [tlfs_layout]:
  "csize A HV_ROOT_SVM_CAPABILITIES_PROPERTY = 8" "calign A HV_ROOT_SVM_CAPABILITIES_PROPERTY = 4"
  "integer_view A HV_ROOT_SVM_CAPABILITIES_PROPERTY = None"
  by (simp_all add: HV_ROOT_SVM_CAPABILITIES_PROPERTY_def tlfs_eval tlfs_layout)

lemma HV_NUMA_NODE_RESERVED_PAGE_INFO_layout [tlfs_layout]:
  "csize A HV_NUMA_NODE_RESERVED_PAGE_INFO = 16" "calign A HV_NUMA_NODE_RESERVED_PAGE_INFO = 8"
  "integer_view A HV_NUMA_NODE_RESERVED_PAGE_INFO = None"
  by (simp_all add: HV_NUMA_NODE_RESERVED_PAGE_INFO_def tlfs_eval tlfs_layout)

lemma HV_ROOT_NUMA_COST_PAGES_PROPERTY_layout [tlfs_layout]:
  "csize A HV_ROOT_NUMA_COST_PAGES_PROPERTY = 1032" "calign A HV_ROOT_NUMA_COST_PAGES_PROPERTY = 8"
  "integer_view A HV_ROOT_NUMA_COST_PAGES_PROPERTY = None"
  by (simp_all add: HV_ROOT_NUMA_COST_PAGES_PROPERTY_def tlfs_eval tlfs_layout)

lemma HV_SLEEP_STATE_INFO_layout [tlfs_layout]:
  "csize A HV_SLEEP_STATE_INFO = 8" "calign A HV_SLEEP_STATE_INFO = 4"
  "integer_view A HV_SLEEP_STATE_INFO = None"
  by (simp_all add: HV_SLEEP_STATE_INFO_def tlfs_eval tlfs_layout)

lemma HV_MACHINE_CHECK_PROPERTY_INFO_layout [tlfs_layout]:
  "csize A HV_MACHINE_CHECK_PROPERTY_INFO = 8" "calign A HV_MACHINE_CHECK_PROPERTY_INFO = 4"
  "integer_view A HV_MACHINE_CHECK_PROPERTY_INFO = None"
  by (simp_all add: HV_MACHINE_CHECK_PROPERTY_INFO_def tlfs_eval tlfs_layout)

lemma HV_HYPERVISOR_DEBUG_PROPERTY_layout [tlfs_layout]:
  "csize A HV_HYPERVISOR_DEBUG_PROPERTY = 1" "calign A HV_HYPERVISOR_DEBUG_PROPERTY = 1"
  "integer_view A HV_HYPERVISOR_DEBUG_PROPERTY = None"
  by (simp_all add: HV_HYPERVISOR_DEBUG_PROPERTY_def tlfs_eval tlfs_layout)

lemma HV_PLATFORM_VIRTUALIZATION_SUPPORT_INFO_layout [tlfs_layout]:
  "csize A HV_PLATFORM_VIRTUALIZATION_SUPPORT_INFO = 2" "calign A HV_PLATFORM_VIRTUALIZATION_SUPPORT_INFO = 1"
  "integer_view A HV_PLATFORM_VIRTUALIZATION_SUPPORT_INFO = None"
  by (simp_all add: HV_PLATFORM_VIRTUALIZATION_SUPPORT_INFO_def tlfs_eval tlfs_layout)

lemma HV_SPA_PAGE_LIST_FLAGS_layout [tlfs_layout]:
  "csize A HV_SPA_PAGE_LIST_FLAGS = 8" "calign A HV_SPA_PAGE_LIST_FLAGS = 8"
  "integer_view A HV_SPA_PAGE_LIST_FLAGS = Some 8"
  by (cases "abi_ms_bits A", simp_all add: HV_SPA_PAGE_LIST_FLAGS_def tlfs_eval tlfs_layout)

lemma HV_X64_PPM_PERF_STATE_layout [tlfs_layout]:
  "csize A HV_X64_PPM_PERF_STATE = 48" "calign A HV_X64_PPM_PERF_STATE = 8"
  "integer_view A HV_X64_PPM_PERF_STATE = None"
  by (simp_all add: HV_X64_PPM_PERF_STATE_def tlfs_eval tlfs_layout)

lemma HV_PPM_PERF_STATE_REGISTER_X64_layout [tlfs_layout]:
  "csize A (HV_PPM_PERF_STATE_REGISTER X64) = 8" "calign A (HV_PPM_PERF_STATE_REGISTER X64) = 8"
  "integer_view A (HV_PPM_PERF_STATE_REGISTER X64) = Some 8"
  by (cases "abi_ms_bits A", simp_all add: HV_PPM_PERF_STATE_REGISTER_def tlfs_eval tlfs_layout)

lemma HV_PPM_PERF_STATE_REGISTER_ARM64_layout [tlfs_layout]:
  "csize A (HV_PPM_PERF_STATE_REGISTER ARM64) = 8" "calign A (HV_PPM_PERF_STATE_REGISTER ARM64) = 8"
  "integer_view A (HV_PPM_PERF_STATE_REGISTER ARM64) = Some 8"
  by (cases "abi_ms_bits A", simp_all add: HV_PPM_PERF_STATE_REGISTER_def tlfs_eval tlfs_layout)

lemma HV_X64_PPM_PERF_STATE_CONFIG_PROPERTY_X64_layout [tlfs_layout]:
  "csize A (HV_X64_PPM_PERF_STATE_CONFIG_PROPERTY X64) = 3112" "calign A (HV_X64_PPM_PERF_STATE_CONFIG_PROPERTY X64) = 8"
  "integer_view A (HV_X64_PPM_PERF_STATE_CONFIG_PROPERTY X64) = None"
  by (simp_all add: HV_X64_PPM_PERF_STATE_CONFIG_PROPERTY_def tlfs_eval tlfs_layout)

lemma HV_X64_PPM_PERF_STATE_CONFIG_PROPERTY_ARM64_layout [tlfs_layout]:
  "csize A (HV_X64_PPM_PERF_STATE_CONFIG_PROPERTY ARM64) = 3112" "calign A (HV_X64_PPM_PERF_STATE_CONFIG_PROPERTY ARM64) = 8"
  "integer_view A (HV_X64_PPM_PERF_STATE_CONFIG_PROPERTY ARM64) = None"
  by (simp_all add: HV_X64_PPM_PERF_STATE_CONFIG_PROPERTY_def tlfs_eval tlfs_layout)

lemma HV_X64_PPM_THROTTLE_STATE_layout [tlfs_layout]:
  "csize A HV_X64_PPM_THROTTLE_STATE = 32" "calign A HV_X64_PPM_THROTTLE_STATE = 8"
  "integer_view A HV_X64_PPM_THROTTLE_STATE = None"
  by (simp_all add: HV_X64_PPM_THROTTLE_STATE_def tlfs_eval tlfs_layout)

lemma HV_X64_PPM_THROTTLE_STATE_CONFIG_PROPERTY_X64_layout [tlfs_layout]:
  "csize A (HV_X64_PPM_THROTTLE_STATE_CONFIG_PROPERTY X64) = 3256" "calign A (HV_X64_PPM_THROTTLE_STATE_CONFIG_PROPERTY X64) = 8"
  "integer_view A (HV_X64_PPM_THROTTLE_STATE_CONFIG_PROPERTY X64) = None"
  by (simp_all add: HV_X64_PPM_THROTTLE_STATE_CONFIG_PROPERTY_def tlfs_eval tlfs_layout)

lemma HV_X64_PPM_THROTTLE_STATE_CONFIG_PROPERTY_ARM64_layout [tlfs_layout]:
  "csize A (HV_X64_PPM_THROTTLE_STATE_CONFIG_PROPERTY ARM64) = 3256" "calign A (HV_X64_PPM_THROTTLE_STATE_CONFIG_PROPERTY ARM64) = 8"
  "integer_view A (HV_X64_PPM_THROTTLE_STATE_CONFIG_PROPERTY ARM64) = None"
  by (simp_all add: HV_X64_PPM_THROTTLE_STATE_CONFIG_PROPERTY_def tlfs_eval tlfs_layout)

lemma HV_X64_PPM_PCC_CONFIG_PROPERTY_X64_layout [tlfs_layout]:
  "csize A (HV_X64_PPM_PCC_CONFIG_PROPERTY X64) = 72" "calign A (HV_X64_PPM_PCC_CONFIG_PROPERTY X64) = 8"
  "integer_view A (HV_X64_PPM_PCC_CONFIG_PROPERTY X64) = None"
  by (simp_all add: HV_X64_PPM_PCC_CONFIG_PROPERTY_def tlfs_eval tlfs_layout)

lemma HV_X64_PPM_PCC_CONFIG_PROPERTY_ARM64_layout [tlfs_layout]:
  "csize A (HV_X64_PPM_PCC_CONFIG_PROPERTY ARM64) = 72" "calign A (HV_X64_PPM_PCC_CONFIG_PROPERTY ARM64) = 8"
  "integer_view A (HV_X64_PPM_PCC_CONFIG_PROPERTY ARM64) = None"
  by (simp_all add: HV_X64_PPM_PCC_CONFIG_PROPERTY_def tlfs_eval tlfs_layout)

lemma HV_X64_PPM_PERF_STATE_CAP_PROPERTY_layout [tlfs_layout]:
  "csize A HV_X64_PPM_PERF_STATE_CAP_PROPERTY = 12" "calign A HV_X64_PPM_PERF_STATE_CAP_PROPERTY = 4"
  "integer_view A HV_X64_PPM_PERF_STATE_CAP_PROPERTY = None"
  by (simp_all add: HV_X64_PPM_PERF_STATE_CAP_PROPERTY_def tlfs_eval tlfs_layout)

lemma HV_MACHINE_CHECK_CONTEXT_layout [tlfs_layout]:
  "csize A HV_MACHINE_CHECK_CONTEXT = 16" "calign A HV_MACHINE_CHECK_CONTEXT = 8"
  "integer_view A HV_MACHINE_CHECK_CONTEXT = None"
  by (simp_all add: HV_MACHINE_CHECK_CONTEXT_def tlfs_eval tlfs_layout)

lemma HV_MACHINE_CHECK_CONTEXT_INFO_layout [tlfs_layout]:
  "csize A HV_MACHINE_CHECK_CONTEXT_INFO = 24" "calign A HV_MACHINE_CHECK_CONTEXT_INFO = 8"
  "integer_view A HV_MACHINE_CHECK_CONTEXT_INFO = None"
  by (simp_all add: HV_MACHINE_CHECK_CONTEXT_INFO_def tlfs_eval tlfs_layout)

lemma HV_MCUPDATE_UPDATE_STATUS_layout [tlfs_layout]:
  "csize A HV_MCUPDATE_UPDATE_STATUS = 32" "calign A HV_MCUPDATE_UPDATE_STATUS = 8"
  "integer_view A HV_MCUPDATE_UPDATE_STATUS = None"
  by (simp_all add: HV_MCUPDATE_UPDATE_STATUS_def tlfs_eval tlfs_layout)

lemma HV_LOGICAL_PROCESSOR_PROPERTY_X64_layout [tlfs_layout]:
  "csize A (HV_LOGICAL_PROCESSOR_PROPERTY X64) = 3256" "calign A (HV_LOGICAL_PROCESSOR_PROPERTY X64) = 8"
  "integer_view A (HV_LOGICAL_PROCESSOR_PROPERTY X64) = None"
  by (simp_all add: HV_LOGICAL_PROCESSOR_PROPERTY_def tlfs_eval tlfs_layout)

lemma HV_LOGICAL_PROCESSOR_PROPERTY_ARM64_layout [tlfs_layout]:
  "csize A (HV_LOGICAL_PROCESSOR_PROPERTY ARM64) = 32" "calign A (HV_LOGICAL_PROCESSOR_PROPERTY ARM64) = 8"
  "integer_view A (HV_LOGICAL_PROCESSOR_PROPERTY ARM64) = None"
  by (simp_all add: HV_LOGICAL_PROCESSOR_PROPERTY_def tlfs_eval tlfs_layout)

lemma HV_DEVICE_DOMAIN_ID_layout [tlfs_layout]:
  "csize A HV_DEVICE_DOMAIN_ID = 8" "calign A HV_DEVICE_DOMAIN_ID = 8"
  "integer_view A HV_DEVICE_DOMAIN_ID = Some 8"
  by (cases "abi_ms_bits A", simp_all add: HV_DEVICE_DOMAIN_ID_def tlfs_eval tlfs_layout)

lemma HV_INPUT_DEVICE_DOMAIN_layout [tlfs_layout]:
  "csize A HV_INPUT_DEVICE_DOMAIN = 24" "calign A HV_INPUT_DEVICE_DOMAIN = 8"
  "integer_view A HV_INPUT_DEVICE_DOMAIN = None"
  by (simp_all add: HV_INPUT_DEVICE_DOMAIN_def tlfs_eval tlfs_layout)

lemma HV_FULL_PASID_layout [tlfs_layout]:
  "csize A HV_FULL_PASID = 8" "calign A HV_FULL_PASID = 8"
  "integer_view A HV_FULL_PASID = Some 8"
  by (simp_all add: HV_FULL_PASID_def tlfs_eval tlfs_layout)

lemma HV_DEVICE_ADDRESS_SPACE_layout [tlfs_layout]:
  "csize A HV_DEVICE_ADDRESS_SPACE = 8" "calign A HV_DEVICE_ADDRESS_SPACE = 8"
  "integer_view A HV_DEVICE_ADDRESS_SPACE = Some 8"
  by (cases "abi_ms_bits A", simp_all add: HV_DEVICE_ADDRESS_SPACE_def tlfs_eval tlfs_layout)

lemma HV_DEVICE_INTERRUPT_DESCRIPTOR_HEADER_layout [tlfs_layout]:
  "csize A HV_DEVICE_INTERRUPT_DESCRIPTOR_HEADER = 16" "calign A HV_DEVICE_INTERRUPT_DESCRIPTOR_HEADER = 4"
  "integer_view A HV_DEVICE_INTERRUPT_DESCRIPTOR_HEADER = None"
  by (simp_all add: HV_DEVICE_INTERRUPT_DESCRIPTOR_HEADER_def tlfs_eval tlfs_layout)

lemma HV_DEVICE_INTERRUPT_DESCRIPTOR_layout [tlfs_layout]:
  "csize A HV_DEVICE_INTERRUPT_DESCRIPTOR = 32" "calign A HV_DEVICE_INTERRUPT_DESCRIPTOR = 8"
  "integer_view A HV_DEVICE_INTERRUPT_DESCRIPTOR = None"
  by (simp_all add: HV_DEVICE_INTERRUPT_DESCRIPTOR_def tlfs_eval tlfs_layout)

lemma HV_ATTACH_DEVICE_FLAGS_X64_layout [tlfs_layout]:
  "csize A (HV_ATTACH_DEVICE_FLAGS X64) = 4" "calign A (HV_ATTACH_DEVICE_FLAGS X64) = 4"
  "integer_view A (HV_ATTACH_DEVICE_FLAGS X64) = Some 4"
  by (cases "abi_ms_bits A", simp_all add: HV_ATTACH_DEVICE_FLAGS_def tlfs_eval tlfs_layout)

lemma HV_ATTACH_DEVICE_FLAGS_ARM64_layout [tlfs_layout]:
  "csize A (HV_ATTACH_DEVICE_FLAGS ARM64) = 4" "calign A (HV_ATTACH_DEVICE_FLAGS ARM64) = 4"
  "integer_view A (HV_ATTACH_DEVICE_FLAGS ARM64) = Some 4"
  by (cases "abi_ms_bits A", simp_all add: HV_ATTACH_DEVICE_FLAGS_def tlfs_eval tlfs_layout)

lemma HV_DEVICE_PCI_CAPABILITIES_layout [tlfs_layout]:
  "csize A HV_DEVICE_PCI_CAPABILITIES = 4" "calign A HV_DEVICE_PCI_CAPABILITIES = 4"
  "integer_view A HV_DEVICE_PCI_CAPABILITIES = Some 4"
  by (cases "abi_ms_bits A", simp_all add: HV_DEVICE_PCI_CAPABILITIES_def tlfs_eval tlfs_layout)

lemma HV_X64_PROC_STATE_GP_REGS_layout [tlfs_layout]:
  "csize A HV_X64_PROC_STATE_GP_REGS = 80" "calign A HV_X64_PROC_STATE_GP_REGS = 8"
  "integer_view A HV_X64_PROC_STATE_GP_REGS = None"
  by (simp_all add: HV_X64_PROC_STATE_GP_REGS_def tlfs_eval tlfs_layout)

lemma HV_ARM64_PROC_STATE_GP_REGS_layout [tlfs_layout]:
  "csize A HV_ARM64_PROC_STATE_GP_REGS = 120" "calign A HV_ARM64_PROC_STATE_GP_REGS = 8"
  "integer_view A HV_ARM64_PROC_STATE_GP_REGS = None"
  by (simp_all add: HV_ARM64_PROC_STATE_GP_REGS_def tlfs_eval tlfs_layout)

lemma HV_PARTITION_EVENT_ROOT_CRASHDUMP_INPUT_layout [tlfs_layout]:
  "csize A HV_PARTITION_EVENT_ROOT_CRASHDUMP_INPUT = 4" "calign A HV_PARTITION_EVENT_ROOT_CRASHDUMP_INPUT = 4"
  "integer_view A HV_PARTITION_EVENT_ROOT_CRASHDUMP_INPUT = None"
  by (simp_all add: HV_PARTITION_EVENT_ROOT_CRASHDUMP_INPUT_def tlfs_eval tlfs_layout)

lemma HV_PARTITION_EVENT_COMMIT_PROCESSOR_INDICES_INPUT_layout [tlfs_layout]:
  "csize A HV_PARTITION_EVENT_COMMIT_PROCESSOR_INDICES_INPUT = 4" "calign A HV_PARTITION_EVENT_COMMIT_PROCESSOR_INDICES_INPUT = 4"
  "integer_view A HV_PARTITION_EVENT_COMMIT_PROCESSOR_INDICES_INPUT = None"
  by (simp_all add: HV_PARTITION_EVENT_COMMIT_PROCESSOR_INDICES_INPUT_def tlfs_eval tlfs_layout)

lemma HV_PARTITION_EVENT_INPUT_layout [tlfs_layout]:
  "csize A HV_PARTITION_EVENT_INPUT = 4" "calign A HV_PARTITION_EVENT_INPUT = 4"
  "integer_view A HV_PARTITION_EVENT_INPUT = None"
  by (simp_all add: HV_PARTITION_EVENT_INPUT_def tlfs_eval tlfs_layout)

lemma HV_PPM_IDLE_STATE_CONFIG_layout [tlfs_layout]:
  "csize A HV_PPM_IDLE_STATE_CONFIG = 8" "calign A HV_PPM_IDLE_STATE_CONFIG = 8"
  "integer_view A HV_PPM_IDLE_STATE_CONFIG = Some 8"
  by (cases "abi_ms_bits A", simp_all add: HV_PPM_IDLE_STATE_CONFIG_def tlfs_eval tlfs_layout)

lemma HV_PPM_IDLE_STATE_layout [tlfs_layout]:
  "csize A HV_PPM_IDLE_STATE = 24" "calign A HV_PPM_IDLE_STATE = 8"
  "integer_view A HV_PPM_IDLE_STATE = None"
  by (simp_all add: HV_PPM_IDLE_STATE_def tlfs_eval tlfs_layout)

lemma HV_X64_PPM_IDLE_STATE_CONFIG_PROPERTY_layout [tlfs_layout]:
  "csize A HV_X64_PPM_IDLE_STATE_CONFIG_PROPERTY = 392" "calign A HV_X64_PPM_IDLE_STATE_CONFIG_PROPERTY = 8"
  "integer_view A HV_X64_PPM_IDLE_STATE_CONFIG_PROPERTY = None"
  by (simp_all add: HV_X64_PPM_IDLE_STATE_CONFIG_PROPERTY_def tlfs_eval tlfs_layout)

lemma HV_PPM_FEEDBACK_REGISTER_PAIR_X64_layout [tlfs_layout]:
  "csize A (HV_PPM_FEEDBACK_REGISTER_PAIR X64) = 24" "calign A (HV_PPM_FEEDBACK_REGISTER_PAIR X64) = 8"
  "integer_view A (HV_PPM_FEEDBACK_REGISTER_PAIR X64) = None"
  by (simp_all add: HV_PPM_FEEDBACK_REGISTER_PAIR_def tlfs_eval tlfs_layout)

lemma HV_PPM_FEEDBACK_REGISTER_PAIR_ARM64_layout [tlfs_layout]:
  "csize A (HV_PPM_FEEDBACK_REGISTER_PAIR ARM64) = 24" "calign A (HV_PPM_FEEDBACK_REGISTER_PAIR ARM64) = 8"
  "integer_view A (HV_PPM_FEEDBACK_REGISTER_PAIR ARM64) = None"
  by (simp_all add: HV_PPM_FEEDBACK_REGISTER_PAIR_def tlfs_eval tlfs_layout)

lemma HV_PROCESSOR_PERF_FEEDBACK_COUNTERS_CONFIG_X64_layout [tlfs_layout]:
  "csize A (HV_PROCESSOR_PERF_FEEDBACK_COUNTERS_CONFIG X64) = 104" "calign A (HV_PROCESSOR_PERF_FEEDBACK_COUNTERS_CONFIG X64) = 8"
  "integer_view A (HV_PROCESSOR_PERF_FEEDBACK_COUNTERS_CONFIG X64) = None"
  by (simp_all add: HV_PROCESSOR_PERF_FEEDBACK_COUNTERS_CONFIG_def tlfs_eval tlfs_layout)

lemma HV_PROCESSOR_PERF_FEEDBACK_COUNTERS_CONFIG_ARM64_layout [tlfs_layout]:
  "csize A (HV_PROCESSOR_PERF_FEEDBACK_COUNTERS_CONFIG ARM64) = 104" "calign A (HV_PROCESSOR_PERF_FEEDBACK_COUNTERS_CONFIG ARM64) = 8"
  "integer_view A (HV_PROCESSOR_PERF_FEEDBACK_COUNTERS_CONFIG ARM64) = None"
  by (simp_all add: HV_PROCESSOR_PERF_FEEDBACK_COUNTERS_CONFIG_def tlfs_eval tlfs_layout)

lemma HV_POWER_STATS_OFFSETS_layout [tlfs_layout]:
  "csize A HV_POWER_STATS_OFFSETS = 56" "calign A HV_POWER_STATS_OFFSETS = 4"
  "integer_view A HV_POWER_STATS_OFFSETS = None"
  by (simp_all add: HV_POWER_STATS_OFFSETS_def tlfs_eval tlfs_layout)

lemma HV_DEBUG_NET_DATA_layout [tlfs_layout]:
  "csize A HV_DEBUG_NET_DATA = 72" "calign A HV_DEBUG_NET_DATA = 8"
  "integer_view A HV_DEBUG_NET_DATA = None"
  by (simp_all add: HV_DEBUG_NET_DATA_def tlfs_eval tlfs_layout)

lemma HV_LP_STARTUP_STATUS_layout [tlfs_layout]:
  "csize A HV_LP_STARTUP_STATUS = 56" "calign A HV_LP_STARTUP_STATUS = 8"
  "integer_view A HV_LP_STARTUP_STATUS = None"
  by (simp_all add: HV_LP_STARTUP_STATUS_def tlfs_eval tlfs_layout)

lemma HV_MEMORY_DESCRIPTOR_layout [tlfs_layout]:
  "csize A HV_MEMORY_DESCRIPTOR = 24" "calign A HV_MEMORY_DESCRIPTOR = 8"
  "integer_view A HV_MEMORY_DESCRIPTOR = None"
  by (simp_all add: HV_MEMORY_DESCRIPTOR_def tlfs_eval tlfs_layout)

lemma HV_PHYSICAL_DEVICE_PROPERTY_CAPABILITIES_layout [tlfs_layout]:
  "csize A HV_PHYSICAL_DEVICE_PROPERTY_CAPABILITIES = 16" "calign A HV_PHYSICAL_DEVICE_PROPERTY_CAPABILITIES = 4"
  "integer_view A HV_PHYSICAL_DEVICE_PROPERTY_CAPABILITIES = None"
  by (cases "abi_ms_bits A", simp_all add: HV_PHYSICAL_DEVICE_PROPERTY_CAPABILITIES_def tlfs_eval tlfs_layout)

lemma HV_PHYSICAL_DEVICE_PROPERTY_DMA_ENABLED_layout [tlfs_layout]:
  "csize A HV_PHYSICAL_DEVICE_PROPERTY_DMA_ENABLED = 8" "calign A HV_PHYSICAL_DEVICE_PROPERTY_DMA_ENABLED = 4"
  "integer_view A HV_PHYSICAL_DEVICE_PROPERTY_DMA_ENABLED = None"
  by (simp_all add: HV_PHYSICAL_DEVICE_PROPERTY_DMA_ENABLED_def tlfs_eval tlfs_layout)

lemma HV_PHYSICAL_DEVICE_PROPERTY_ATS_ENABLED_scalars [tlfs_layout]:
  "csize A HV_PHYSICAL_DEVICE_PROPERTY_ATS_ENABLED = 8" "calign A HV_PHYSICAL_DEVICE_PROPERTY_ATS_ENABLED = 4" "integer_view A HV_PHYSICAL_DEVICE_PROPERTY_ATS_ENABLED = None"
  by (simp_all add: HV_PHYSICAL_DEVICE_PROPERTY_ATS_ENABLED_def tlfs_layout)

lemma HV_IOMMU_EXTENDED_STATUS_layout [tlfs_layout]:
  "csize A HV_IOMMU_EXTENDED_STATUS = 40" "calign A HV_IOMMU_EXTENDED_STATUS = 8"
  "integer_view A HV_IOMMU_EXTENDED_STATUS = None"
  by (simp_all add: HV_IOMMU_EXTENDED_STATUS_def tlfs_eval tlfs_layout)

lemma HV_IMAGE_COVERAGE_INFO_layout [tlfs_layout]:
  "csize A HV_IMAGE_COVERAGE_INFO = 72" "calign A HV_IMAGE_COVERAGE_INFO = 4"
  "integer_view A HV_IMAGE_COVERAGE_INFO = None"
  by (simp_all add: HV_IMAGE_COVERAGE_INFO_def tlfs_eval tlfs_layout)

lemma HV_SPA_PAGE_RANGE_layout [tlfs_layout]:
  "csize A HV_SPA_PAGE_RANGE = 8" "calign A HV_SPA_PAGE_RANGE = 8"
  "integer_view A HV_SPA_PAGE_RANGE = Some 8"
  by (cases "abi_ms_bits A", simp_all add: HV_SPA_PAGE_RANGE_def tlfs_eval tlfs_layout)

lemma HV_REGISTER_NESTED_CONTROL_layout [tlfs_layout]:
  "csize A HV_REGISTER_NESTED_CONTROL = 8" "calign A HV_REGISTER_NESTED_CONTROL = 8"
  "integer_view A HV_REGISTER_NESTED_CONTROL = Some 8"
  by (cases "abi_ms_bits A", simp_all add: HV_REGISTER_NESTED_CONTROL_def tlfs_eval tlfs_layout)

lemma HV_REGISTER_VSM_VP_VTL_CONTROL_layout [tlfs_layout]:
  "csize A HV_REGISTER_VSM_VP_VTL_CONTROL = 8" "calign A HV_REGISTER_VSM_VP_VTL_CONTROL = 8"
  "integer_view A HV_REGISTER_VSM_VP_VTL_CONTROL = Some 8"
  by (cases "abi_ms_bits A", simp_all add: HV_REGISTER_VSM_VP_VTL_CONTROL_def tlfs_eval tlfs_layout)

lemma HV_X64_XSAVE_AREA_layout [tlfs_layout]:
  "csize A HV_X64_XSAVE_AREA = 2688" "calign A HV_X64_XSAVE_AREA = 64"
  "integer_view A HV_X64_XSAVE_AREA = None"
  by (simp_all add: HV_X64_XSAVE_AREA_def tlfs_eval tlfs_layout)

lemma HV_X64_REGISTER_VSM_CAPABILITIES_layout [tlfs_layout]:
  "csize A HV_X64_REGISTER_VSM_CAPABILITIES = 8" "calign A HV_X64_REGISTER_VSM_CAPABILITIES = 8"
  "integer_view A HV_X64_REGISTER_VSM_CAPABILITIES = Some 8"
  by (cases "abi_ms_bits A", simp_all add: HV_X64_REGISTER_VSM_CAPABILITIES_def tlfs_eval tlfs_layout)

lemma HV_ARM64_REGISTER_VSM_CAPABILITIES_layout [tlfs_layout]:
  "csize A HV_ARM64_REGISTER_VSM_CAPABILITIES = 8" "calign A HV_ARM64_REGISTER_VSM_CAPABILITIES = 8"
  "integer_view A HV_ARM64_REGISTER_VSM_CAPABILITIES = Some 8"
  by (cases "abi_ms_bits A", simp_all add: HV_ARM64_REGISTER_VSM_CAPABILITIES_def tlfs_eval tlfs_layout)

lemma HV_VTL_RETURN_INPUT_layout [tlfs_layout]:
  "csize A HV_VTL_RETURN_INPUT = 8" "calign A HV_VTL_RETURN_INPUT = 8"
  "integer_view A HV_VTL_RETURN_INPUT = Some 8"
  by (cases "abi_ms_bits A", simp_all add: HV_VTL_RETURN_INPUT_def tlfs_eval tlfs_layout)

lemma HV_X64_LOGICAL_PROCESSOR_REGISTER_ADDRESS_layout [tlfs_layout]:
  "csize A HV_X64_LOGICAL_PROCESSOR_REGISTER_ADDRESS = 8" "calign A HV_X64_LOGICAL_PROCESSOR_REGISTER_ADDRESS = 4"
  "integer_view A HV_X64_LOGICAL_PROCESSOR_REGISTER_ADDRESS = None"
  by (simp_all add: HV_X64_LOGICAL_PROCESSOR_REGISTER_ADDRESS_def tlfs_eval tlfs_layout)

lemma HV_ARM64_LOGICAL_PROCESSOR_REGISTER_ADDRESS_layout [tlfs_layout]:
  "csize A HV_ARM64_LOGICAL_PROCESSOR_REGISTER_ADDRESS = 4" "calign A HV_ARM64_LOGICAL_PROCESSOR_REGISTER_ADDRESS = 4"
  "integer_view A HV_ARM64_LOGICAL_PROCESSOR_REGISTER_ADDRESS = None"
  by (simp_all add: HV_ARM64_LOGICAL_PROCESSOR_REGISTER_ADDRESS_def tlfs_eval tlfs_layout)

lemma HV_LOGICAL_PROCESSOR_REGISTER_ID_X64_layout [tlfs_layout]:
  "csize A (HV_LOGICAL_PROCESSOR_REGISTER_ID X64) = 16" "calign A (HV_LOGICAL_PROCESSOR_REGISTER_ID X64) = 4"
  "integer_view A (HV_LOGICAL_PROCESSOR_REGISTER_ID X64) = None"
  by (simp_all add: HV_LOGICAL_PROCESSOR_REGISTER_ID_def tlfs_eval tlfs_layout)

lemma HV_LOGICAL_PROCESSOR_REGISTER_ID_ARM64_layout [tlfs_layout]:
  "csize A (HV_LOGICAL_PROCESSOR_REGISTER_ID ARM64) = 12" "calign A (HV_LOGICAL_PROCESSOR_REGISTER_ID ARM64) = 4"
  "integer_view A (HV_LOGICAL_PROCESSOR_REGISTER_ID ARM64) = None"
  by (simp_all add: HV_LOGICAL_PROCESSOR_REGISTER_ID_def tlfs_eval tlfs_layout)

lemma HV_MCUPDATE_DATA_HEADER_layout [tlfs_layout]:
  "csize A HV_MCUPDATE_DATA_HEADER = 8" "calign A HV_MCUPDATE_DATA_HEADER = 4"
  "integer_view A HV_MCUPDATE_DATA_HEADER = None"
  by (simp_all add: HV_MCUPDATE_DATA_HEADER_def tlfs_eval tlfs_layout)

lemma HV_BOOT_DEBUG_PARAMETERS_layout [tlfs_layout]:
  "csize A HV_BOOT_DEBUG_PARAMETERS = 256" "calign A HV_BOOT_DEBUG_PARAMETERS = 8"
  "integer_view A HV_BOOT_DEBUG_PARAMETERS = None"
  by (simp_all add: HV_BOOT_DEBUG_PARAMETERS_def tlfs_eval tlfs_layout)

lemma HV_BOOT_PARAMETERS_layout [tlfs_layout]:
  "csize A HV_BOOT_PARAMETERS = 264" "calign A HV_BOOT_PARAMETERS = 8"
  "integer_view A HV_BOOT_PARAMETERS = None"
  by (simp_all add: HV_BOOT_PARAMETERS_def tlfs_eval tlfs_layout)

lemma HV_HARDWARE_DETAILS_layout [tlfs_layout]:
  "csize A HV_HARDWARE_DETAILS = 8" "calign A HV_HARDWARE_DETAILS = 4"
  "integer_view A HV_HARDWARE_DETAILS = None"
  by (cases "abi_ms_bits A", simp_all add: HV_HARDWARE_DETAILS_def tlfs_eval tlfs_layout)

lemma HV_IMAGE_SECTION_DETAIL_layout [tlfs_layout]:
  "csize sysv HV_IMAGE_SECTION_DETAIL = 16" "csize msvc HV_IMAGE_SECTION_DETAIL = 24"
  "calign sysv HV_IMAGE_SECTION_DETAIL = 8" "calign msvc HV_IMAGE_SECTION_DETAIL = 8"
  "integer_view sysv HV_IMAGE_SECTION_DETAIL = None" "integer_view msvc HV_IMAGE_SECTION_DETAIL = None"
  by (simp_all add: HV_IMAGE_SECTION_DETAIL_def tlfs_eval tlfs_layout interface_layout)

lemma HV_IMAGE_DETAIL_layout [tlfs_layout]:
  "csize sysv HV_IMAGE_DETAIL = 248" "csize msvc HV_IMAGE_DETAIL = 368"
  "calign sysv HV_IMAGE_DETAIL = 8" "calign msvc HV_IMAGE_DETAIL = 8"
  "integer_view sysv HV_IMAGE_DETAIL = None" "integer_view msvc HV_IMAGE_DETAIL = None"
  by (simp_all add: HV_IMAGE_DETAIL_def tlfs_eval tlfs_layout interface_layout)

lemma HV_MINI_LOADER_BLOCK_layout [tlfs_layout]:
  "csize sysv HV_MINI_LOADER_BLOCK = 8784" "csize msvc HV_MINI_LOADER_BLOCK = 8904"
  "calign sysv HV_MINI_LOADER_BLOCK = 8" "calign msvc HV_MINI_LOADER_BLOCK = 8"
  "integer_view sysv HV_MINI_LOADER_BLOCK = None" "integer_view msvc HV_MINI_LOADER_BLOCK = None"
  by (simp_all add: HV_MINI_LOADER_BLOCK_def tlfs_eval tlfs_layout interface_layout)

lemma HV_CPU_MANAGEMENT_VERSION_REGISTER_layout [tlfs_layout]:
  "csize A HV_CPU_MANAGEMENT_VERSION_REGISTER = 8" "calign A HV_CPU_MANAGEMENT_VERSION_REGISTER = 8"
  "integer_view A HV_CPU_MANAGEMENT_VERSION_REGISTER = Some 8"
  by (cases "abi_ms_bits A", simp_all add: HV_CPU_MANAGEMENT_VERSION_REGISTER_def tlfs_eval tlfs_layout)

lemma HV_PCI_ID_layout [tlfs_layout]:
  "csize A HV_PCI_ID = 4" "calign A HV_PCI_ID = 4"
  "integer_view A HV_PCI_ID = Some 4"
  by (simp_all add: HV_PCI_ID_def tlfs_eval tlfs_layout)

lemma HV_MCA_FAULTING_LP_MSR_layout [tlfs_layout]:
  "csize A HV_MCA_FAULTING_LP_MSR = 8" "calign A HV_MCA_FAULTING_LP_MSR = 8"
  "integer_view A HV_MCA_FAULTING_LP_MSR = Some 8"
  by (simp_all add: HV_MCA_FAULTING_LP_MSR_def tlfs_eval tlfs_layout)

lemma HV_DEVICE_PAGE_REQUEST_X64_layout [tlfs_layout]:
  "csize A (HV_DEVICE_PAGE_REQUEST X64) = 48" "calign A (HV_DEVICE_PAGE_REQUEST X64) = 8"
  "integer_view A (HV_DEVICE_PAGE_REQUEST X64) = Some 32"
  by (cases "abi_ms_bits A", simp_all add: HV_DEVICE_PAGE_REQUEST_def tlfs_eval tlfs_layout)

lemma HV_DEVICE_PAGE_REQUEST_ARM64_layout [tlfs_layout]:
  "csize A (HV_DEVICE_PAGE_REQUEST ARM64) = 48" "calign A (HV_DEVICE_PAGE_REQUEST ARM64) = 8"
  "integer_view A (HV_DEVICE_PAGE_REQUEST ARM64) = Some 32"
  by (cases "abi_ms_bits A", simp_all add: HV_DEVICE_PAGE_REQUEST_def tlfs_eval tlfs_layout)

lemma HV_DEVICE_PRQ_PROPERTY_INTERRUPT_MASKED_layout [tlfs_layout]:
  "csize A HV_DEVICE_PRQ_PROPERTY_INTERRUPT_MASKED = 8" "calign A HV_DEVICE_PRQ_PROPERTY_INTERRUPT_MASKED = 4"
  "integer_view A HV_DEVICE_PRQ_PROPERTY_INTERRUPT_MASKED = None"
  by (simp_all add: HV_DEVICE_PRQ_PROPERTY_INTERRUPT_MASKED_def tlfs_eval tlfs_layout)

lemma HV_X64_VOLATILE_GP_REGS_layout [tlfs_layout]:
  "csize A HV_X64_VOLATILE_GP_REGS = 56" "calign A HV_X64_VOLATILE_GP_REGS = 8"
  "integer_view A HV_X64_VOLATILE_GP_REGS = None"
  by (simp_all add: HV_X64_VOLATILE_GP_REGS_def tlfs_eval tlfs_layout)

lemma HV_PCI_PATH_layout [tlfs_layout]:
  "csize A HV_PCI_PATH = 6" "calign A HV_PCI_PATH = 2"
  "integer_view A HV_PCI_PATH = None"
  by (cases "abi_ms_bits A", simp_all add: HV_PCI_PATH_def tlfs_eval tlfs_layout)

lemma HV_DEVICE_PRQ_HEADER_layout [tlfs_layout]:
  "csize A HV_DEVICE_PRQ_HEADER = 12" "calign A HV_DEVICE_PRQ_HEADER = 4"
  "integer_view A HV_DEVICE_PRQ_HEADER = None"
  by (simp_all add: HV_DEVICE_PRQ_HEADER_def tlfs_eval tlfs_layout)

lemma HV_CPU_GROUP_ID_scalars [tlfs_layout]:
  "csize A HV_CPU_GROUP_ID = 8" "calign A HV_CPU_GROUP_ID = 8" "integer_view A HV_CPU_GROUP_ID = None"
  "csize A HV_CPU_GROUP_PROPERTY = 8" "calign A HV_CPU_GROUP_PROPERTY = 8" "integer_view A HV_CPU_GROUP_PROPERTY = None"
  "csize A HV_INPUT_PARTITION_PROPERTY_ARG = 8" "calign A HV_INPUT_PARTITION_PROPERTY_ARG = 8" "integer_view A HV_INPUT_PARTITION_PROPERTY_ARG = None"
  "csize A HV_DEVICE_VA_PAGE_NUMBER = 8" "calign A HV_DEVICE_VA_PAGE_NUMBER = 8" "integer_view A HV_DEVICE_VA_PAGE_NUMBER = None"
  "csize A HV_MSI_ADDRESS = 8" "calign A HV_MSI_ADDRESS = 8" "integer_view A HV_MSI_ADDRESS = None"
  "csize A HV_MODIFY_SPA_PAGE_HOST_ACCESS_FLAGS = 4" "calign A HV_MODIFY_SPA_PAGE_HOST_ACCESS_FLAGS = 4" "integer_view A HV_MODIFY_SPA_PAGE_HOST_ACCESS_FLAGS = None"
  "csize A HV_LOCK_GPA_PAGE_MAPPING_FLAGS = 4" "calign A HV_LOCK_GPA_PAGE_MAPPING_FLAGS = 4" "integer_view A HV_LOCK_GPA_PAGE_MAPPING_FLAGS = None"
  "csize A HV_UNMAP_GPA_FLAGS = 4" "calign A HV_UNMAP_GPA_FLAGS = 4" "integer_view A HV_UNMAP_GPA_FLAGS = None"
  "csize A HV_KEY_ID = 8" "calign A HV_KEY_ID = 8" "integer_view A HV_KEY_ID = None"
  "csize A HV_IOMMU_STATUS_SEVERITY = 1" "calign A HV_IOMMU_STATUS_SEVERITY = 1" "integer_view A HV_IOMMU_STATUS_SEVERITY = None"
  "csize A HV_PRECOMMIT_GPA_FLAGS = 4" "calign A HV_PRECOMMIT_GPA_FLAGS = 4" "integer_view A HV_PRECOMMIT_GPA_FLAGS = None"
  "csize A HV_IOMMU_STATUS = 2" "calign A HV_IOMMU_STATUS = 2" "integer_view A HV_IOMMU_STATUS = None"
  by (simp_all add: HV_CPU_GROUP_ID_def HV_CPU_GROUP_PROPERTY_def HV_INPUT_PARTITION_PROPERTY_ARG_def HV_DEVICE_VA_PAGE_NUMBER_def HV_MSI_ADDRESS_def HV_MODIFY_SPA_PAGE_HOST_ACCESS_FLAGS_def HV_LOCK_GPA_PAGE_MAPPING_FLAGS_def HV_UNMAP_GPA_FLAGS_def HV_KEY_ID_def HV_IOMMU_STATUS_SEVERITY_def HV_PRECOMMIT_GPA_FLAGS_def HV_IOMMU_STATUS_def tlfs_layout)

lemma HV_SUBNODE_layout [tlfs_layout]:
  "csize A HV_SUBNODE = 16" "calign A HV_SUBNODE = 8"
  "integer_view A HV_SUBNODE = None"
  by (simp_all add: HV_SUBNODE_def tlfs_eval tlfs_layout)

lemma HV_PARTITION_PROPERTY_INHERITED_DEVICE_DOMAIN_REGIONS_layout [tlfs_layout]:
  "csize A HV_PARTITION_PROPERTY_INHERITED_DEVICE_DOMAIN_REGIONS = 72" "calign A HV_PARTITION_PROPERTY_INHERITED_DEVICE_DOMAIN_REGIONS = 8"
  "integer_view A HV_PARTITION_PROPERTY_INHERITED_DEVICE_DOMAIN_REGIONS = None"
  by (simp_all add: HV_PARTITION_PROPERTY_INHERITED_DEVICE_DOMAIN_REGIONS_def tlfs_eval tlfs_layout)

lemma HV_PARTITION_PROPERTY_SHA384_layout [tlfs_layout]:
  "csize A HV_PARTITION_PROPERTY_SHA384 = 48" "calign A HV_PARTITION_PROPERTY_SHA384 = 1"
  "integer_view A HV_PARTITION_PROPERTY_SHA384 = None"
  by (simp_all add: HV_PARTITION_PROPERTY_SHA384_def tlfs_eval tlfs_layout)

lemma HV_PARTITION_PROPERTY_EX_ROOT_PROCESSOR_FEATURES_EXPERIMENTAL_layout [tlfs_layout]:
  "csize A HV_PARTITION_PROPERTY_EX_ROOT_PROCESSOR_FEATURES_EXPERIMENTAL = 16" "calign A HV_PARTITION_PROPERTY_EX_ROOT_PROCESSOR_FEATURES_EXPERIMENTAL = 8"
  "integer_view A HV_PARTITION_PROPERTY_EX_ROOT_PROCESSOR_FEATURES_EXPERIMENTAL = None"
  by (simp_all add: HV_PARTITION_PROPERTY_EX_ROOT_PROCESSOR_FEATURES_EXPERIMENTAL_def tlfs_eval tlfs_layout)

lemma HV_PARTITION_PROPERTY_VP_SHARED_PAGES_layout [tlfs_layout]:
  "csize A HV_PARTITION_PROPERTY_VP_SHARED_PAGES = 24" "calign A HV_PARTITION_PROPERTY_VP_SHARED_PAGES = 8"
  "integer_view A HV_PARTITION_PROPERTY_VP_SHARED_PAGES = None"
  by (simp_all add: HV_PARTITION_PROPERTY_VP_SHARED_PAGES_def tlfs_eval tlfs_layout)

lemma HV_PARTITION_PROPERTY_EX_layout [tlfs_layout]:
  "csize A HV_PARTITION_PROPERTY_EX = 4096" "calign A HV_PARTITION_PROPERTY_EX = 8"
  "integer_view A HV_PARTITION_PROPERTY_EX = None"
  by (simp_all add: HV_PARTITION_PROPERTY_EX_def tlfs_eval tlfs_layout)

lemma HV_HOST_TIMELINE_INFO_layout [tlfs_layout]:
  "csize A HV_HOST_TIMELINE_INFO = 8" "calign A HV_HOST_TIMELINE_INFO = 8"
  "integer_view A HV_HOST_TIMELINE_INFO = None"
  by (simp_all add: HV_HOST_TIMELINE_INFO_def tlfs_eval tlfs_layout)

lemma HV_SMC_DATA_PATH_PROPERTY_layout [tlfs_layout]:
  "csize A HV_SMC_DATA_PATH_PROPERTY = 4" "calign A HV_SMC_DATA_PATH_PROPERTY = 2"
  "integer_view A HV_SMC_DATA_PATH_PROPERTY = None"
  by (simp_all add: HV_SMC_DATA_PATH_PROPERTY_def tlfs_eval tlfs_layout)

lemma HV_SYSTEM_MIRRORING_PROPERTY_layout [tlfs_layout]:
  "csize A HV_SYSTEM_MIRRORING_PROPERTY = 8" "calign A HV_SYSTEM_MIRRORING_PROPERTY = 8"
  "integer_view A HV_SYSTEM_MIRRORING_PROPERTY = Some 8"
  by (cases "abi_ms_bits A", simp_all add: HV_SYSTEM_MIRRORING_PROPERTY_def tlfs_eval tlfs_layout)

lemma HV_RESOURCE_CONTROL_MONITOR_layout [tlfs_layout]:
  "csize A HV_RESOURCE_CONTROL_MONITOR = 8" "calign A HV_RESOURCE_CONTROL_MONITOR = 4"
  "integer_view A HV_RESOURCE_CONTROL_MONITOR = None"
  by (simp_all add: HV_RESOURCE_CONTROL_MONITOR_def tlfs_eval tlfs_layout)

lemma HV_RESOURCE_CONTROL_VALUE_PROPERTY_layout [tlfs_layout]:
  "csize A HV_RESOURCE_CONTROL_VALUE_PROPERTY = 16" "calign A HV_RESOURCE_CONTROL_VALUE_PROPERTY = 8"
  "integer_view A HV_RESOURCE_CONTROL_VALUE_PROPERTY = None"
  by (simp_all add: HV_RESOURCE_CONTROL_VALUE_PROPERTY_def tlfs_eval tlfs_layout)

lemma HV_RESOURCE_CONTROL_MONITOR_DATA_layout [tlfs_layout]:
  "csize A HV_RESOURCE_CONTROL_MONITOR_DATA = 32" "calign A HV_RESOURCE_CONTROL_MONITOR_DATA = 8"
  "integer_view A HV_RESOURCE_CONTROL_MONITOR_DATA = None"
  by (simp_all add: HV_RESOURCE_CONTROL_MONITOR_DATA_def tlfs_eval tlfs_layout)

lemma HV_RESOURCE_CONTROL_SUPPORT_PROPERTY_layout [tlfs_layout]:
  "csize A HV_RESOURCE_CONTROL_SUPPORT_PROPERTY = 32" "calign A HV_RESOURCE_CONTROL_SUPPORT_PROPERTY = 4"
  "integer_view A HV_RESOURCE_CONTROL_SUPPORT_PROPERTY = None"
  by (cases "abi_ms_bits A", simp_all add: HV_RESOURCE_CONTROL_SUPPORT_PROPERTY_def tlfs_eval tlfs_layout)

lemma HV_RESOURCE_CONTROL_VALUES_PROPERTY_layout [tlfs_layout]:
  "csize A HV_RESOURCE_CONTROL_VALUES_PROPERTY = 1032" "calign A HV_RESOURCE_CONTROL_VALUES_PROPERTY = 8"
  "integer_view A HV_RESOURCE_CONTROL_VALUES_PROPERTY = None"
  by (simp_all add: HV_RESOURCE_CONTROL_VALUES_PROPERTY_def tlfs_eval tlfs_layout)

lemma HV_SYSTEM_DIAG_LOG_BUFFER_CONFIG_layout [tlfs_layout]:
  "csize A HV_SYSTEM_DIAG_LOG_BUFFER_CONFIG = 8" "calign A HV_SYSTEM_DIAG_LOG_BUFFER_CONFIG = 4"
  "integer_view A HV_SYSTEM_DIAG_LOG_BUFFER_CONFIG = None"
  by (simp_all add: HV_SYSTEM_DIAG_LOG_BUFFER_CONFIG_def tlfs_eval tlfs_layout)

lemma HV_SCHEDULING_INTERVAL_INFO_layout [tlfs_layout]:
  "csize A HV_SCHEDULING_INTERVAL_INFO = 12" "calign A HV_SCHEDULING_INTERVAL_INFO = 4"
  "integer_view A HV_SCHEDULING_INTERVAL_INFO = None"
  by (simp_all add: HV_SCHEDULING_INTERVAL_INFO_def tlfs_eval tlfs_layout)

lemma HV_VIRTUALIZATION_FEATURE_SET_layout [tlfs_layout]:
  "csize A HV_VIRTUALIZATION_FEATURE_SET = 32" "calign A HV_VIRTUALIZATION_FEATURE_SET = 8"
  "integer_view A HV_VIRTUALIZATION_FEATURE_SET = Some 32"
  by (simp_all add: HV_VIRTUALIZATION_FEATURE_SET_def tlfs_eval tlfs_layout)

lemma HV_BOOT_CONFIG_PROPERTY_layout [tlfs_layout]:
  "csize A HV_BOOT_CONFIG_PROPERTY = 16" "calign A HV_BOOT_CONFIG_PROPERTY = 8"
  "integer_view A HV_BOOT_CONFIG_PROPERTY = None"
  by (simp_all add: HV_BOOT_CONFIG_PROPERTY_def tlfs_eval tlfs_layout)

lemma HV_SYNMC_ARM64_EVENT_layout [tlfs_layout]:
  "csize A HV_SYNMC_ARM64_EVENT = 2" "calign A HV_SYNMC_ARM64_EVENT = 2"
  "integer_view A HV_SYNMC_ARM64_EVENT = None"
  by (cases "abi_ms_bits A", simp_all add: HV_SYNMC_ARM64_EVENT_def tlfs_eval tlfs_layout)

lemma HV_SYNMC_EVENT_scalars [tlfs_layout]:
  "csize A HV_SYNMC_EVENT = 2" "calign A HV_SYNMC_EVENT = 2" "integer_view A HV_SYNMC_EVENT = None"
  by (simp_all add: HV_SYNMC_EVENT_def tlfs_layout)

lemma HV_PPM_IDLE_STATE_EX_layout [tlfs_layout]:
  "csize A HV_PPM_IDLE_STATE_EX = 32" "calign A HV_PPM_IDLE_STATE_EX = 8"
  "integer_view A HV_PPM_IDLE_STATE_EX = None"
  by (simp_all add: HV_PPM_IDLE_STATE_EX_def tlfs_eval tlfs_layout)

lemma HV_X64_PPM_IDLE_STATE_CONFIG_PROPERTY_EX_layout [tlfs_layout]:
  "csize A HV_X64_PPM_IDLE_STATE_CONFIG_PROPERTY_EX = 520" "calign A HV_X64_PPM_IDLE_STATE_CONFIG_PROPERTY_EX = 8"
  "integer_view A HV_X64_PPM_IDLE_STATE_CONFIG_PROPERTY_EX = None"
  by (simp_all add: HV_X64_PPM_IDLE_STATE_CONFIG_PROPERTY_EX_def tlfs_eval tlfs_layout)

lemma HV_PROCESSOR_CPPC_REQUEST_REGISTER_layout [tlfs_layout]:
  "csize A HV_PROCESSOR_CPPC_REQUEST_REGISTER = 32" "calign A HV_PROCESSOR_CPPC_REQUEST_REGISTER = 8"
  "integer_view A HV_PROCESSOR_CPPC_REQUEST_REGISTER = None"
  by (simp_all add: HV_PROCESSOR_CPPC_REQUEST_REGISTER_def tlfs_eval tlfs_layout)

lemma HV_PHYSICAL_DEVICE_FLAGS_layout [tlfs_layout]:
  "csize A HV_PHYSICAL_DEVICE_FLAGS = 8" "calign A HV_PHYSICAL_DEVICE_FLAGS = 8"
  "integer_view A HV_PHYSICAL_DEVICE_FLAGS = Some 8"
  by (cases "abi_ms_bits A", simp_all add: HV_PHYSICAL_DEVICE_FLAGS_def tlfs_eval tlfs_layout)

lemma HV_PHYSICAL_DEVICE_PROPERTY_FAULT_REPORTING_layout [tlfs_layout]:
  "csize A HV_PHYSICAL_DEVICE_PROPERTY_FAULT_REPORTING = 8" "calign A HV_PHYSICAL_DEVICE_PROPERTY_FAULT_REPORTING = 4"
  "integer_view A HV_PHYSICAL_DEVICE_PROPERTY_FAULT_REPORTING = None"
  by (simp_all add: HV_PHYSICAL_DEVICE_PROPERTY_FAULT_REPORTING_def tlfs_eval tlfs_layout)

lemma HV_PHYSICAL_DEVICE_PROPERTY_IRT_RANGE_layout [tlfs_layout]:
  "csize A HV_PHYSICAL_DEVICE_PROPERTY_IRT_RANGE = 8" "calign A HV_PHYSICAL_DEVICE_PROPERTY_IRT_RANGE = 4"
  "integer_view A HV_PHYSICAL_DEVICE_PROPERTY_IRT_RANGE = None"
  by (simp_all add: HV_PHYSICAL_DEVICE_PROPERTY_IRT_RANGE_def tlfs_eval tlfs_layout)

lemma HV_VTL_PERMISSION_SET_layout [tlfs_layout]:
  "csize A HV_VTL_PERMISSION_SET = 4" "calign A HV_VTL_PERMISSION_SET = 4"
  "integer_view A HV_VTL_PERMISSION_SET = Some 4"
  by (simp_all add: HV_VTL_PERMISSION_SET_def tlfs_eval tlfs_layout)

lemma HV_GPA_PAGE_MAPPING_DATA_layout [tlfs_layout]:
  "csize A HV_GPA_PAGE_MAPPING_DATA = 8" "calign A HV_GPA_PAGE_MAPPING_DATA = 8"
  "integer_view A HV_GPA_PAGE_MAPPING_DATA = Some 8"
  by (cases "abi_ms_bits A", simp_all add: HV_GPA_PAGE_MAPPING_DATA_def tlfs_eval tlfs_layout)

lemma HV_X64_DELIVERABILITY_NOTIFICATIONS_REGISTER_layout [tlfs_layout]:
  "csize A HV_X64_DELIVERABILITY_NOTIFICATIONS_REGISTER = 8" "calign A HV_X64_DELIVERABILITY_NOTIFICATIONS_REGISTER = 8"
  "integer_view A HV_X64_DELIVERABILITY_NOTIFICATIONS_REGISTER = Some 8"
  by (cases "abi_ms_bits A", simp_all add: HV_X64_DELIVERABILITY_NOTIFICATIONS_REGISTER_def tlfs_eval tlfs_layout)

lemma HV_ARM64_DELIVERABILITY_NOTIFICATIONS_REGISTER_layout [tlfs_layout]:
  "csize A HV_ARM64_DELIVERABILITY_NOTIFICATIONS_REGISTER = 8" "calign A HV_ARM64_DELIVERABILITY_NOTIFICATIONS_REGISTER = 8"
  "integer_view A HV_ARM64_DELIVERABILITY_NOTIFICATIONS_REGISTER = Some 8"
  by (cases "abi_ms_bits A", simp_all add: HV_ARM64_DELIVERABILITY_NOTIFICATIONS_REGISTER_def tlfs_eval tlfs_layout)

lemma HV_INTERNAL_ACTIVITY_REGISTER_layout [tlfs_layout]:
  "csize A HV_INTERNAL_ACTIVITY_REGISTER = 8" "calign A HV_INTERNAL_ACTIVITY_REGISTER = 8"
  "integer_view A HV_INTERNAL_ACTIVITY_REGISTER = Some 8"
  by (cases "abi_ms_bits A", simp_all add: HV_INTERNAL_ACTIVITY_REGISTER_def tlfs_eval tlfs_layout)

lemma HV_MIRRORING_NOTIFICATION_MESSAGE_PAYLOAD_layout [tlfs_layout]:
  "csize A HV_MIRRORING_NOTIFICATION_MESSAGE_PAYLOAD = 2" "calign A HV_MIRRORING_NOTIFICATION_MESSAGE_PAYLOAD = 2"
  "integer_view A HV_MIRRORING_NOTIFICATION_MESSAGE_PAYLOAD = None"
  by (simp_all add: HV_MIRRORING_NOTIFICATION_MESSAGE_PAYLOAD_def tlfs_eval tlfs_layout)

lemma HV_X64_REGISTER_SEV_CONTROL_layout [tlfs_layout]:
  "csize A HV_X64_REGISTER_SEV_CONTROL = 8" "calign A HV_X64_REGISTER_SEV_CONTROL = 8"
  "integer_view A HV_X64_REGISTER_SEV_CONTROL = Some 8"
  by (cases "abi_ms_bits A", simp_all add: HV_X64_REGISTER_SEV_CONTROL_def tlfs_eval tlfs_layout)

lemma HV_PARTITION_VSM_CONFIG_layout [tlfs_layout]:
  "csize A HV_PARTITION_VSM_CONFIG = 8" "calign A HV_PARTITION_VSM_CONFIG = 8"
  "integer_view A HV_PARTITION_VSM_CONFIG = Some 8"
  by (cases "abi_ms_bits A", simp_all add: HV_PARTITION_VSM_CONFIG_def tlfs_eval tlfs_layout)

lemma HV_RDT_CAT_COS_BITMASK_PROPERTY_layout [tlfs_layout]:
  "csize A HV_RDT_CAT_COS_BITMASK_PROPERTY = 8" "calign A HV_RDT_CAT_COS_BITMASK_PROPERTY = 4"
  "integer_view A HV_RDT_CAT_COS_BITMASK_PROPERTY = None"
  by (simp_all add: HV_RDT_CAT_COS_BITMASK_PROPERTY_def tlfs_eval tlfs_layout)

lemma HV_PARK_BLOCK_INFO_layout [tlfs_layout]:
  "csize A HV_PARK_BLOCK_INFO = 8" "calign A HV_PARK_BLOCK_INFO = 4"
  "integer_view A HV_PARK_BLOCK_INFO = None"
  by (simp_all add: HV_PARK_BLOCK_INFO_def tlfs_eval tlfs_layout)

lemma HV_ENABLE_PARTITION_VTL_INTERCEPT_COMPLETION_DATA_layout [tlfs_layout]:
  "csize A HV_ENABLE_PARTITION_VTL_INTERCEPT_COMPLETION_DATA = 2" "calign A HV_ENABLE_PARTITION_VTL_INTERCEPT_COMPLETION_DATA = 2"
  "integer_view A HV_ENABLE_PARTITION_VTL_INTERCEPT_COMPLETION_DATA = None"
  by (simp_all add: HV_ENABLE_PARTITION_VTL_INTERCEPT_COMPLETION_DATA_def tlfs_eval tlfs_layout)

lemma HV_X64_IO_PORT_READ_COMPLETION_DATA_layout [tlfs_layout]:
  "csize A HV_X64_IO_PORT_READ_COMPLETION_DATA = 4" "calign A HV_X64_IO_PORT_READ_COMPLETION_DATA = 4"
  "integer_view A HV_X64_IO_PORT_READ_COMPLETION_DATA = None"
  by (simp_all add: HV_X64_IO_PORT_READ_COMPLETION_DATA_def tlfs_eval tlfs_layout)

lemma HV_PICO100_DURATION_layout [tlfs_layout]:
  "csize A HV_PICO100_DURATION = 8" "calign A HV_PICO100_DURATION = 8"
  "integer_view A HV_PICO100_DURATION = Some 8"
  by (simp_all add: HV_PICO100_DURATION_def tlfs_eval tlfs_layout)

lemma HV_GPA_ATTRIBUTE_INTERCEPT_MESSAGE_layout [tlfs_layout]:
  "csize A HV_GPA_ATTRIBUTE_INTERCEPT_MESSAGE = 472" "calign A HV_GPA_ATTRIBUTE_INTERCEPT_MESSAGE = 8"
  "integer_view A HV_GPA_ATTRIBUTE_INTERCEPT_MESSAGE = None"
  by (cases "abi_ms_bits A", simp_all add: HV_GPA_ATTRIBUTE_INTERCEPT_MESSAGE_def tlfs_eval tlfs_layout)

lemma HV_REGISTER_VSM_VP_WAIT_FOR_TLB_LOCK_layout [tlfs_layout]:
  "csize A HV_REGISTER_VSM_VP_WAIT_FOR_TLB_LOCK = 8" "calign A HV_REGISTER_VSM_VP_WAIT_FOR_TLB_LOCK = 8"
  "integer_view A HV_REGISTER_VSM_VP_WAIT_FOR_TLB_LOCK = Some 8"
  by (cases "abi_ms_bits A", simp_all add: HV_REGISTER_VSM_VP_WAIT_FOR_TLB_LOCK_def tlfs_eval tlfs_layout)

lemma HV_SNP_PSP_TCB_VERSION_layout [tlfs_layout]:
  "csize A HV_SNP_PSP_TCB_VERSION = 8" "calign A HV_SNP_PSP_TCB_VERSION = 8"
  "integer_view A HV_SNP_PSP_TCB_VERSION = None"
  by (cases "abi_ms_bits A", simp_all add: HV_SNP_PSP_TCB_VERSION_def tlfs_eval tlfs_layout)

lemma HV_INPUT_PROTO_CREATE_PERSISTED_CPU_GROUP_layout [tlfs_layout]:
  "csize A HV_INPUT_PROTO_CREATE_PERSISTED_CPU_GROUP = 16" "calign A HV_INPUT_PROTO_CREATE_PERSISTED_CPU_GROUP = 8"
  "integer_view A HV_INPUT_PROTO_CREATE_PERSISTED_CPU_GROUP = None"
  by (simp_all add: HV_INPUT_PROTO_CREATE_PERSISTED_CPU_GROUP_def tlfs_eval tlfs_layout)

lemma HV_VP_ASSIST_PAGE_ACTION_layout [tlfs_layout]:
  "csize A HV_VP_ASSIST_PAGE_ACTION = 8" "calign A HV_VP_ASSIST_PAGE_ACTION = 8"
  "integer_view A HV_VP_ASSIST_PAGE_ACTION = Some 8"
  by (cases "abi_ms_bits A", simp_all add: HV_VP_ASSIST_PAGE_ACTION_def tlfs_eval tlfs_layout)

lemma HV_MINROOT_NUMA_LPS_layout [tlfs_layout]:
  "csize A HV_MINROOT_NUMA_LPS = 264" "calign A HV_MINROOT_NUMA_LPS = 8"
  "integer_view A HV_MINROOT_NUMA_LPS = None"
  by (simp_all add: HV_MINROOT_NUMA_LPS_def tlfs_eval tlfs_layout)

lemma HV_X64_MSR_VP_EXIT_REASON_CONTENTS_layout [tlfs_layout]:
  "csize A HV_X64_MSR_VP_EXIT_REASON_CONTENTS = 8" "calign A HV_X64_MSR_VP_EXIT_REASON_CONTENTS = 8"
  "integer_view A HV_X64_MSR_VP_EXIT_REASON_CONTENTS = Some 8"
  by (simp_all add: HV_X64_MSR_VP_EXIT_REASON_CONTENTS_def tlfs_eval tlfs_layout)

lemma HV_PARTITION_PROPERTY_ASSOC_layout [tlfs_layout]:
  "csize A HV_PARTITION_PROPERTY_ASSOC = 16" "calign A HV_PARTITION_PROPERTY_ASSOC = 8"
  "integer_view A HV_PARTITION_PROPERTY_ASSOC = None"
  by (simp_all add: HV_PARTITION_PROPERTY_ASSOC_def tlfs_eval tlfs_layout)

lemma HV_ROOT_PASID_CAPABILITIES_PROPERTY_layout [tlfs_layout]:
  "csize A HV_ROOT_PASID_CAPABILITIES_PROPERTY = 8" "calign A HV_ROOT_PASID_CAPABILITIES_PROPERTY = 4"
  "integer_view A HV_ROOT_PASID_CAPABILITIES_PROPERTY = None"
  by (simp_all add: HV_ROOT_PASID_CAPABILITIES_PROPERTY_def tlfs_eval tlfs_layout)

lemma HV_PSP_DEVICE_layout [tlfs_layout]:
  "csize A HV_PSP_DEVICE = 88" "calign A HV_PSP_DEVICE = 8"
  "integer_view A HV_PSP_DEVICE = None"
  by (cases "abi_ms_bits A", simp_all add: HV_PSP_DEVICE_def tlfs_eval tlfs_layout)

lemma HV_SNP_PSP_DEVICES_layout [tlfs_layout]:
  "csize A HV_SNP_PSP_DEVICES = 184" "calign A HV_SNP_PSP_DEVICES = 8"
  "integer_view A HV_SNP_PSP_DEVICES = None"
  by (simp_all add: HV_SNP_PSP_DEVICES_def tlfs_eval tlfs_layout)

lemma HV_EVENTLOG_EVENTGROUP_CONFIGURATION_layout [tlfs_layout]:
  "csize A HV_EVENTLOG_EVENTGROUP_CONFIGURATION = 264" "calign A HV_EVENTLOG_EVENTGROUP_CONFIGURATION = 4"
  "integer_view A HV_EVENTLOG_EVENTGROUP_CONFIGURATION = None"
  by (simp_all add: HV_EVENTLOG_EVENTGROUP_CONFIGURATION_def tlfs_eval tlfs_layout)

lemma HV_INPUT_EVENTLOG_SET_EVENTS_layout [tlfs_layout]:
  "csize A HV_INPUT_EVENTLOG_SET_EVENTS = 544" "calign A HV_INPUT_EVENTLOG_SET_EVENTS = 8"
  "integer_view A HV_INPUT_EVENTLOG_SET_EVENTS = None"
  by (simp_all add: HV_INPUT_EVENTLOG_SET_EVENTS_def tlfs_eval tlfs_layout)

lemma HV_REGISTER_HVPT_CONTROL_layout [tlfs_layout]:
  "csize A HV_REGISTER_HVPT_CONTROL = 8" "calign A HV_REGISTER_HVPT_CONTROL = 8"
  "integer_view A HV_REGISTER_HVPT_CONTROL = Some 8"
  by (cases "abi_ms_bits A", simp_all add: HV_REGISTER_HVPT_CONTROL_def tlfs_eval tlfs_layout)

lemma HV_PARTITION_PERFMON_MODE_CONFIG_layout [tlfs_layout]:
  "csize A HV_PARTITION_PERFMON_MODE_CONFIG = 8" "calign A HV_PARTITION_PERFMON_MODE_CONFIG = 8"
  "integer_view A HV_PARTITION_PERFMON_MODE_CONFIG = Some 8"
  by (cases "abi_ms_bits A", simp_all add: HV_PARTITION_PERFMON_MODE_CONFIG_def tlfs_eval tlfs_layout)

lemma HV_REGISTER_REFERENCE_TSC_layout [tlfs_layout]:
  "csize A HV_REGISTER_REFERENCE_TSC = 8" "calign A HV_REGISTER_REFERENCE_TSC = 8"
  "integer_view A HV_REGISTER_REFERENCE_TSC = Some 8"
  by (cases "abi_ms_bits A", simp_all add: HV_REGISTER_REFERENCE_TSC_def tlfs_eval tlfs_layout)

lemma HV_ENABLE_PARTITION_VTL_INTERCEPT_MESSAGE_layout [tlfs_layout]:
  "csize A HV_ENABLE_PARTITION_VTL_INTERCEPT_MESSAGE = 8" "calign A HV_ENABLE_PARTITION_VTL_INTERCEPT_MESSAGE = 4"
  "integer_view A HV_ENABLE_PARTITION_VTL_INTERCEPT_MESSAGE = None"
  by (cases "abi_ms_bits A", simp_all add: HV_ENABLE_PARTITION_VTL_INTERCEPT_MESSAGE_def tlfs_eval tlfs_layout)

lemma HV_REGISTER_PARTITION_INFO_PAGE_layout [tlfs_layout]:
  "csize A HV_REGISTER_PARTITION_INFO_PAGE = 8" "calign A HV_REGISTER_PARTITION_INFO_PAGE = 8"
  "integer_view A HV_REGISTER_PARTITION_INFO_PAGE = Some 8"
  by (cases "abi_ms_bits A", simp_all add: HV_REGISTER_PARTITION_INFO_PAGE_def tlfs_eval tlfs_layout)

lemma HV_SEAM_TDMR_RESERVATION_layout [tlfs_layout]:
  "csize A HV_SEAM_TDMR_RESERVATION = 16" "calign A HV_SEAM_TDMR_RESERVATION = 8"
  "integer_view A HV_SEAM_TDMR_RESERVATION = None"
  by (simp_all add: HV_SEAM_TDMR_RESERVATION_def tlfs_eval tlfs_layout)

lemma HV_SEAM_TDMR_layout [tlfs_layout]:
  "csize A HV_SEAM_TDMR = 72" "calign A HV_SEAM_TDMR = 8"
  "integer_view A HV_SEAM_TDMR = None"
  by (simp_all add: HV_SEAM_TDMR_def tlfs_eval tlfs_layout)

lemma HV_X64_REGISTER_SEV_HV_DOORBELL_layout [tlfs_layout]:
  "csize A HV_X64_REGISTER_SEV_HV_DOORBELL = 8" "calign A HV_X64_REGISTER_SEV_HV_DOORBELL = 8"
  "integer_view A HV_X64_REGISTER_SEV_HV_DOORBELL = Some 8"
  by (cases "abi_ms_bits A", simp_all add: HV_X64_REGISTER_SEV_HV_DOORBELL_def tlfs_eval tlfs_layout)

lemma HV_X64_REGISTER_SEV_GHCB_layout [tlfs_layout]:
  "csize A HV_X64_REGISTER_SEV_GHCB = 8" "calign A HV_X64_REGISTER_SEV_GHCB = 8"
  "integer_view A HV_X64_REGISTER_SEV_GHCB = Some 8"
  by (cases "abi_ms_bits A", simp_all add: HV_X64_REGISTER_SEV_GHCB_def tlfs_eval tlfs_layout)

lemma HV_GPA_ATTRIBUTE_INTERCEPT_COMPLETION_DATA_layout [tlfs_layout]:
  "csize A HV_GPA_ATTRIBUTE_INTERCEPT_COMPLETION_DATA = 2" "calign A HV_GPA_ATTRIBUTE_INTERCEPT_COMPLETION_DATA = 2"
  "integer_view A HV_GPA_ATTRIBUTE_INTERCEPT_COMPLETION_DATA = None"
  by (simp_all add: HV_GPA_ATTRIBUTE_INTERCEPT_COMPLETION_DATA_def tlfs_eval tlfs_layout)

lemma HV_EVENTLOG_EXTENDED_TRACE_FLAGS_layout [tlfs_layout]:
  "csize A HV_EVENTLOG_EXTENDED_TRACE_FLAGS = 8" "calign A HV_EVENTLOG_EXTENDED_TRACE_FLAGS = 8"
  "integer_view A HV_EVENTLOG_EXTENDED_TRACE_FLAGS = Some 8"
  by (cases "abi_ms_bits A", simp_all add: HV_EVENTLOG_EXTENDED_TRACE_FLAGS_def tlfs_eval tlfs_layout)

lemma HV_PARTITION_DIAG_LOG_BUFFER_CONFIG_layout [tlfs_layout]:
  "csize A HV_PARTITION_DIAG_LOG_BUFFER_CONFIG = 8" "calign A HV_PARTITION_DIAG_LOG_BUFFER_CONFIG = 8"
  "integer_view A HV_PARTITION_DIAG_LOG_BUFFER_CONFIG = Some 8"
  by (simp_all add: HV_PARTITION_DIAG_LOG_BUFFER_CONFIG_def tlfs_eval tlfs_layout)

lemma HV_PARTITION_ENLIGHTENMENT_MODIFICATIONS_layout [tlfs_layout]:
  "csize A HV_PARTITION_ENLIGHTENMENT_MODIFICATIONS = 8" "calign A HV_PARTITION_ENLIGHTENMENT_MODIFICATIONS = 8"
  "integer_view A HV_PARTITION_ENLIGHTENMENT_MODIFICATIONS = Some 8"
  by (cases "abi_ms_bits A", simp_all add: HV_PARTITION_ENLIGHTENMENT_MODIFICATIONS_def tlfs_eval tlfs_layout)

lemma HV_INSUFFICIENT_MEMORY_MESSAGE_PAYLOAD_layout [tlfs_layout]:
  "csize A HV_INSUFFICIENT_MEMORY_MESSAGE_PAYLOAD = 16" "calign A HV_INSUFFICIENT_MEMORY_MESSAGE_PAYLOAD = 4"
  "integer_view A HV_INSUFFICIENT_MEMORY_MESSAGE_PAYLOAD = None"
  by (simp_all add: HV_INSUFFICIENT_MEMORY_MESSAGE_PAYLOAD_def tlfs_eval tlfs_layout)

lemma HV_ARM64_REGISTER_TLBI_CONTROL_layout [tlfs_layout]:
  "csize A HV_ARM64_REGISTER_TLBI_CONTROL = 8" "calign A HV_ARM64_REGISTER_TLBI_CONTROL = 8"
  "integer_view A HV_ARM64_REGISTER_TLBI_CONTROL = Some 8"
  by (cases "abi_ms_bits A", simp_all add: HV_ARM64_REGISTER_TLBI_CONTROL_def tlfs_eval tlfs_layout)

lemma HV_SGX_LAUNCH_CONTROL_CONFIG_layout [tlfs_layout]:
  "csize A HV_SGX_LAUNCH_CONTROL_CONFIG = 8" "calign A HV_SGX_LAUNCH_CONTROL_CONFIG = 8"
  "integer_view A HV_SGX_LAUNCH_CONTROL_CONFIG = Some 8"
  by (cases "abi_ms_bits A", simp_all add: HV_SGX_LAUNCH_CONTROL_CONFIG_def tlfs_eval tlfs_layout)

lemma HV_LOADER_PCI_SEGMENT_ENTRY_layout [tlfs_layout]:
  "csize A HV_LOADER_PCI_SEGMENT_ENTRY = 16424" "calign A HV_LOADER_PCI_SEGMENT_ENTRY = 8"
  "integer_view A HV_LOADER_PCI_SEGMENT_ENTRY = None"
  by (simp_all add: HV_LOADER_PCI_SEGMENT_ENTRY_def tlfs_eval tlfs_layout)

lemma HV_VP_ASSIST_PAGE_ACTION_SIGNAL_EVENT_layout [tlfs_layout]:
  "csize A HV_VP_ASSIST_PAGE_ACTION_SIGNAL_EVENT = 16" "calign A HV_VP_ASSIST_PAGE_ACTION_SIGNAL_EVENT = 8"
  "integer_view A HV_VP_ASSIST_PAGE_ACTION_SIGNAL_EVENT = Some 16"
  by (cases "abi_ms_bits A", simp_all add: HV_VP_ASSIST_PAGE_ACTION_SIGNAL_EVENT_def tlfs_eval tlfs_layout)

lemma HV_SYNIC_EVENT_INTERCEPT_MESSAGE_layout [tlfs_layout]:
  "csize A HV_SYNIC_EVENT_INTERCEPT_MESSAGE = 16" "calign A HV_SYNIC_EVENT_INTERCEPT_MESSAGE = 4"
  "integer_view A HV_SYNIC_EVENT_INTERCEPT_MESSAGE = None"
  by (cases "abi_ms_bits A", simp_all add: HV_SYNIC_EVENT_INTERCEPT_MESSAGE_def tlfs_eval tlfs_layout)

lemma HV_INPUT_GET_PARTITION_RESERVED_PAGES_layout [tlfs_layout]:
  "csize A HV_INPUT_GET_PARTITION_RESERVED_PAGES = 16" "calign A HV_INPUT_GET_PARTITION_RESERVED_PAGES = 8"
  "integer_view A HV_INPUT_GET_PARTITION_RESERVED_PAGES = None"
  by (cases "abi_ms_bits A", simp_all add: HV_INPUT_GET_PARTITION_RESERVED_PAGES_def tlfs_eval tlfs_layout)

lemma HV_RDT_MBA_COS_VALUE_PROPERTY_layout [tlfs_layout]:
  "csize A HV_RDT_MBA_COS_VALUE_PROPERTY = 8" "calign A HV_RDT_MBA_COS_VALUE_PROPERTY = 4"
  "integer_view A HV_RDT_MBA_COS_VALUE_PROPERTY = None"
  by (simp_all add: HV_RDT_MBA_COS_VALUE_PROPERTY_def tlfs_eval tlfs_layout)

lemma HV_PARTITION_PROCESSOR_VIRTUALIZATION_FEATURES_layout [tlfs_layout]:
  "csize A HV_PARTITION_PROCESSOR_VIRTUALIZATION_FEATURES = 8" "calign A HV_PARTITION_PROCESSOR_VIRTUALIZATION_FEATURES = 8"
  "integer_view A HV_PARTITION_PROCESSOR_VIRTUALIZATION_FEATURES = Some 8"
  by (cases "abi_ms_bits A", simp_all add: HV_PARTITION_PROCESSOR_VIRTUALIZATION_FEATURES_def tlfs_eval tlfs_layout)

lemma HV_INPUT_GPA_PAGE_PINNING_layout [tlfs_layout]:
  "csize A HV_INPUT_GPA_PAGE_PINNING = 8" "calign A HV_INPUT_GPA_PAGE_PINNING = 8"
  "integer_view A HV_INPUT_GPA_PAGE_PINNING = None"
  by (simp_all add: HV_INPUT_GPA_PAGE_PINNING_def tlfs_eval tlfs_layout)

lemma HV_OUTPUT_GET_PARTITION_RESERVED_PAGES_layout [tlfs_layout]:
  "csize A HV_OUTPUT_GET_PARTITION_RESERVED_PAGES = 4096" "calign A HV_OUTPUT_GET_PARTITION_RESERVED_PAGES = 8"
  "integer_view A HV_OUTPUT_GET_PARTITION_RESERVED_PAGES = None"
  by (simp_all add: HV_OUTPUT_GET_PARTITION_RESERVED_PAGES_def tlfs_eval tlfs_layout)

lemma HV_PARTITION_ISOLATION_CONTROL_layout [tlfs_layout]:
  "csize A HV_PARTITION_ISOLATION_CONTROL = 8" "calign A HV_PARTITION_ISOLATION_CONTROL = 8"
  "integer_view A HV_PARTITION_ISOLATION_CONTROL = Some 8"
  by (cases "abi_ms_bits A", simp_all add: HV_PARTITION_ISOLATION_CONTROL_def tlfs_eval tlfs_layout)

lemma HV_X64_MSR_VP_EXIT_INTERRUPT_CONTROL_CONTENTS_layout [tlfs_layout]:
  "csize A HV_X64_MSR_VP_EXIT_INTERRUPT_CONTROL_CONTENTS = 8" "calign A HV_X64_MSR_VP_EXIT_INTERRUPT_CONTROL_CONTENTS = 8"
  "integer_view A HV_X64_MSR_VP_EXIT_INTERRUPT_CONTROL_CONTENTS = Some 8"
  by (simp_all add: HV_X64_MSR_VP_EXIT_INTERRUPT_CONTROL_CONTENTS_def tlfs_eval tlfs_layout)

lemma HV_LOADER_IOMMU_ENTRY_layout [tlfs_layout]:
  "csize A HV_LOADER_IOMMU_ENTRY = 72" "calign A HV_LOADER_IOMMU_ENTRY = 8"
  "integer_view A HV_LOADER_IOMMU_ENTRY = None"
  by (simp_all add: HV_LOADER_IOMMU_ENTRY_def tlfs_eval tlfs_layout)

lemma HV_DEPRECATED_OUTPUT_QUERY_IOMMU_PROPERTIES_layout [tlfs_layout]:
  "csize A HV_DEPRECATED_OUTPUT_QUERY_IOMMU_PROPERTIES = 2080" "calign A HV_DEPRECATED_OUTPUT_QUERY_IOMMU_PROPERTIES = 8"
  "integer_view A HV_DEPRECATED_OUTPUT_QUERY_IOMMU_PROPERTIES = None"
  by (cases "abi_ms_bits A", simp_all add: HV_DEPRECATED_OUTPUT_QUERY_IOMMU_PROPERTIES_def tlfs_eval tlfs_layout)

lemma HV_CHECK_GPA_PAGE_VTL_ACCESS_RESULT_layout [tlfs_layout]:
  "csize A HV_CHECK_GPA_PAGE_VTL_ACCESS_RESULT = 8" "calign A HV_CHECK_GPA_PAGE_VTL_ACCESS_RESULT = 8"
  "integer_view A HV_CHECK_GPA_PAGE_VTL_ACCESS_RESULT = Some 8"
  by (cases "abi_ms_bits A", simp_all add: HV_CHECK_GPA_PAGE_VTL_ACCESS_RESULT_def tlfs_eval tlfs_layout)

lemma HV_INSTRUCTION_EMULATION_HINTS_REGISTER_layout [tlfs_layout]:
  "csize A HV_INSTRUCTION_EMULATION_HINTS_REGISTER = 8" "calign A HV_INSTRUCTION_EMULATION_HINTS_REGISTER = 8"
  "integer_view A HV_INSTRUCTION_EMULATION_HINTS_REGISTER = Some 8"
  by (cases "abi_ms_bits A", simp_all add: HV_INSTRUCTION_EMULATION_HINTS_REGISTER_def tlfs_eval tlfs_layout)

lemma HV_PARTITION_ISOLATION_POLICY_layout [tlfs_layout]:
  "csize A HV_PARTITION_ISOLATION_POLICY = 8" "calign A HV_PARTITION_ISOLATION_POLICY = 8"
  "integer_view A HV_PARTITION_ISOLATION_POLICY = Some 8"
  by (simp_all add: HV_PARTITION_ISOLATION_POLICY_def tlfs_eval tlfs_layout)

lemma HV_PSP_REQUEST_COMPLETION_DATA_layout [tlfs_layout]:
  "csize A HV_PSP_REQUEST_COMPLETION_DATA = 4" "calign A HV_PSP_REQUEST_COMPLETION_DATA = 4"
  "integer_view A HV_PSP_REQUEST_COMPLETION_DATA = None"
  by (simp_all add: HV_PSP_REQUEST_COMPLETION_DATA_def tlfs_eval tlfs_layout)

lemma HV_SNP_PSP_ID_layout [tlfs_layout]:
  "csize A HV_SNP_PSP_ID = 520" "calign A HV_SNP_PSP_ID = 4"
  "integer_view A HV_SNP_PSP_ID = None"
  by (simp_all add: HV_SNP_PSP_ID_def tlfs_eval tlfs_layout)

lemma HV_USER_MODE_HYPERCALLS_layout [tlfs_layout]:
  "csize A HV_USER_MODE_HYPERCALLS = 8" "calign A HV_USER_MODE_HYPERCALLS = 8"
  "integer_view A HV_USER_MODE_HYPERCALLS = Some 8"
  by (cases "abi_ms_bits A", simp_all add: HV_USER_MODE_HYPERCALLS_def tlfs_eval tlfs_layout)

lemma HV_PARTITION_DEPOSIT_STATUS_layout [tlfs_layout]:
  "csize A HV_PARTITION_DEPOSIT_STATUS = 8" "calign A HV_PARTITION_DEPOSIT_STATUS = 8"
  "integer_view A HV_PARTITION_DEPOSIT_STATUS = Some 8"
  by (cases "abi_ms_bits A", simp_all add: HV_PARTITION_DEPOSIT_STATUS_def tlfs_eval tlfs_layout)

lemma HV_IOMMU_GVA_RANGE_layout [tlfs_layout]:
  "csize A HV_IOMMU_GVA_RANGE = 8" "calign A HV_IOMMU_GVA_RANGE = 8"
  "integer_view A HV_IOMMU_GVA_RANGE = Some 8"
  by (cases "abi_ms_bits A", simp_all add: HV_IOMMU_GVA_RANGE_def tlfs_eval tlfs_layout)

lemma HV_PARTITION_INFO_PAGE_layout [tlfs_layout]:
  "csize A HV_PARTITION_INFO_PAGE = 4096" "calign A HV_PARTITION_INFO_PAGE = 4"
  "integer_view A HV_PARTITION_INFO_PAGE = None"
  by (simp_all add: HV_PARTITION_INFO_PAGE_def tlfs_eval tlfs_layout)

lemma HV_ARM64_TLB_PAGE_SIZE_MISMATCH_MESSAGE_layout [tlfs_layout]:
  "csize A HV_ARM64_TLB_PAGE_SIZE_MISMATCH_MESSAGE = 8" "calign A HV_ARM64_TLB_PAGE_SIZE_MISMATCH_MESSAGE = 4"
  "integer_view A HV_ARM64_TLB_PAGE_SIZE_MISMATCH_MESSAGE = None"
  by (simp_all add: HV_ARM64_TLB_PAGE_SIZE_MISMATCH_MESSAGE_def tlfs_eval tlfs_layout)

lemma HV_ARM64_VOLATILE_GP_REGS_layout [tlfs_layout]:
  "csize A HV_ARM64_VOLATILE_GP_REGS = 144" "calign A HV_ARM64_VOLATILE_GP_REGS = 8"
  "integer_view A HV_ARM64_VOLATILE_GP_REGS = None"
  by (simp_all add: HV_ARM64_VOLATILE_GP_REGS_def tlfs_eval tlfs_layout)

lemma HV_PARTITION_PAGE_ACCESS_TRACKING_CONFIG_layout [tlfs_layout]:
  "csize A HV_PARTITION_PAGE_ACCESS_TRACKING_CONFIG = 8" "calign A HV_PARTITION_PAGE_ACCESS_TRACKING_CONFIG = 8"
  "integer_view A HV_PARTITION_PAGE_ACCESS_TRACKING_CONFIG = Some 8"
  by (cases "abi_ms_bits A", simp_all add: HV_PARTITION_PAGE_ACCESS_TRACKING_CONFIG_def tlfs_eval tlfs_layout)

lemma HV_MEMORY_PROXIMITY_INFO_layout [tlfs_layout]:
  "csize A HV_MEMORY_PROXIMITY_INFO = 24" "calign A HV_MEMORY_PROXIMITY_INFO = 8"
  "integer_view A HV_MEMORY_PROXIMITY_INFO = None"
  by (simp_all add: HV_MEMORY_PROXIMITY_INFO_def tlfs_eval tlfs_layout)

lemma HV_DMA_RANGE_layout [tlfs_layout]:
  "csize A HV_DMA_RANGE = 16" "calign A HV_DMA_RANGE = 8"
  "integer_view A HV_DMA_RANGE = None"
  by (simp_all add: HV_DMA_RANGE_def tlfs_eval tlfs_layout)

lemma HV_VP_DISPATCH_LOOP_RESULT_layout [tlfs_layout]:
  "csize A HV_VP_DISPATCH_LOOP_RESULT = 8" "calign A HV_VP_DISPATCH_LOOP_RESULT = 8"
  "integer_view A HV_VP_DISPATCH_LOOP_RESULT = Some 8"
  by (simp_all add: HV_VP_DISPATCH_LOOP_RESULT_def tlfs_eval tlfs_layout)

lemma HV_HYPERCALL_INTERCEPT_COMPLETION_DATA_layout [tlfs_layout]:
  "csize A HV_HYPERCALL_INTERCEPT_COMPLETION_DATA = 2" "calign A HV_HYPERCALL_INTERCEPT_COMPLETION_DATA = 2"
  "integer_view A HV_HYPERCALL_INTERCEPT_COMPLETION_DATA = None"
  by (simp_all add: HV_HYPERCALL_INTERCEPT_COMPLETION_DATA_def tlfs_eval tlfs_layout)

lemma HV_INPUT_NOTIFY_EVENT_RING_EMPTY_layout [tlfs_layout]:
  "csize A HV_INPUT_NOTIFY_EVENT_RING_EMPTY = 8" "calign A HV_INPUT_NOTIFY_EVENT_RING_EMPTY = 4"
  "integer_view A HV_INPUT_NOTIFY_EVENT_RING_EMPTY = None"
  by (simp_all add: HV_INPUT_NOTIFY_EVENT_RING_EMPTY_def tlfs_eval tlfs_layout)

lemma HV_REGISTER_ISOLATION_CAPABILITIES_layout [tlfs_layout]:
  "csize A HV_REGISTER_ISOLATION_CAPABILITIES = 8" "calign A HV_REGISTER_ISOLATION_CAPABILITIES = 8"
  "integer_view A HV_REGISTER_ISOLATION_CAPABILITIES = Some 8"
  by (cases "abi_ms_bits A", simp_all add: HV_REGISTER_ISOLATION_CAPABILITIES_def tlfs_eval tlfs_layout)

lemma HV_SEC_FW_VERSION_layout [tlfs_layout]:
  "csize A HV_SEC_FW_VERSION = 8" "calign A HV_SEC_FW_VERSION = 8"
  "integer_view A HV_SEC_FW_VERSION = Some 8"
  by (cases "abi_ms_bits A", simp_all add: HV_SEC_FW_VERSION_def tlfs_eval tlfs_layout)

lemma HV_RESTART_COMPLETION_MESSAGE_PAYLOAD_layout [tlfs_layout]:
  "csize A HV_RESTART_COMPLETION_MESSAGE_PAYLOAD = 8" "calign A HV_RESTART_COMPLETION_MESSAGE_PAYLOAD = 4"
  "integer_view A HV_RESTART_COMPLETION_MESSAGE_PAYLOAD = None"
  by (simp_all add: HV_RESTART_COMPLETION_MESSAGE_PAYLOAD_def tlfs_eval tlfs_layout)

end
