(* ===== verification/Tlfs_Calls.thy ===== *)
theory Tlfs_Calls
  imports Tlfs_Symbols
begin

text \<open>
  The third part of \<open>Mile.HyperV.TLFS.h\<close> (from line 9193): CPUID leaves, the codes of the hypercalls and their inputs
  and outputs.  At the end tables of the types that the properties of \<open>Tlfs_Properties\<close> are about.
\<close>

unbundle bit_operations_syntax

section \<open>Hypervisor CPUID Definitions\<close>

definition HV_CPUID_FUNCTION_PRIVATE :: enum_tab where
  "HV_CPUID_FUNCTION_PRIVATE = enum_of
     [(''HvCpuIdFunctionMsHvPasidFeatures'', Val 0x40000008),
     (''HvCpuIdFunctionMsHvIsolationConfiguration'', Val 0x40000009),
     (''HvCpuidFunctionMsHvIptFeatures'', Val 0x4000000b)]"

definition HV_CPUID_HV_VENDOR_MICROSOFT :: string where "HV_CPUID_HV_VENDOR_MICROSOFT = ''Microsoft Hv''"

definition HV_CPUID_HV_VENDOR_MICROSOFT_EBX :: "32 word" where
  "HV_CPUID_HV_VENDOR_MICROSOFT_EBX = 0x7263694d"

definition HV_CPUID_HV_VENDOR_MICROSOFT_ECX :: "32 word" where
  "HV_CPUID_HV_VENDOR_MICROSOFT_ECX = 0x666f736f"

definition HV_CPUID_HV_VENDOR_MICROSOFT_EDX :: "32 word" where
  "HV_CPUID_HV_VENDOR_MICROSOFT_EDX = 0x76482074"

definition HV_HYPERVISOR_INTERFACE_PRIVATE :: enum_tab where
  "HV_HYPERVISOR_INTERFACE_PRIVATE = enum_of
     [(''HvMicrosoftXboxNanovisor'', Val 0x766e6258)]"

definition HV_SERVICE_BRANCH :: enum_tab where
  "HV_SERVICE_BRANCH = enum_of
     [(''HvServiceBranchGdr'', Val 0x00000000), (''HvServiceBranchQfe'', Val 0x00000001)]"

definition HV_X64_HYPERVISOR_FEATURES_PRIVATE :: cty where
  "HV_X64_HYPERVISOR_FEATURES_PRIVATE = Struct 0 (flds_of
       [mem ''PartitionPrivileges'' HV_PARTITION_PRIVILEGE_MASK_PRIVATE,
       bits ''Reserved0'' U32 5, bits ''InvariantMperfAvailable'' U32 1,
       bits ''SupervisorShadowStackAvailable'' U32 1, bits ''ArchPmuAvailable'' U32 1,
       bits ''ExceptionTrapInterceptAvailable'' U32 1, bits ''Reserved1'' U32 23,
       bits ''Reserved2'' U32 26, bits ''LbrAvailable'' U32 1, bits ''IptAvailable'' U32 1,
       bits ''CrossVtlFlushAvailable'' U32 1, bits ''IdleSpecCtrlAvailable'' U32 1,
       bits ''TranslateGvaFlagsAvailable'' U32 1, bits ''ApicEoiInterceptAvailable'' U32 1])"

definition HV_ARM64_HYPERVISOR_FEATURES_PRIVATE :: cty where
  "HV_ARM64_HYPERVISOR_FEATURES_PRIVATE = Struct 0 (flds_of
       [mem ''PartitionPrivileges'' HV_PARTITION_PRIVILEGE_MASK_PRIVATE,
       bits ''Reserved0'' U32 16, bits ''CrossVtlFlushAvailable'' U32 1,
       bits ''S1ExtendedAsidsAvailable'' U32 1, bits ''Reserved1'' U32 14])"

definition HV_HYPERVISOR_FEATURES_PRIVATE :: "arch \<Rightarrow> cty" where
  "HV_HYPERVISOR_FEATURES_PRIVATE a = (case a of
     X64 \<Rightarrow> HV_X64_HYPERVISOR_FEATURES_PRIVATE
   | ARM64 \<Rightarrow> HV_ARM64_HYPERVISOR_FEATURES_PRIVATE)"

definition HV_X64_ENLIGHTENMENT_INFORMATION_PRIVATE :: cty where
  "HV_X64_ENLIGHTENMENT_INFORMATION_PRIVATE = Struct 0 (flds_of
       [bits ''Reserved0'' U32 16, bits ''CoreSchedulerRequested'' U32 1,
       bits ''Reserved1'' U32 1, bits ''NoNonArchitecturalCoreSharing'' U32 1,
       bits ''UseX2Apic'' U32 1, bits ''RestoreTimeOnResume'' U32 1,
       bits ''UseHypercallForMmioAccess'' U32 1, bits ''UseGpaPinningHypercall'' U32 1,
       bits ''WakeVps'' U32 1, bits ''Reserved'' U32 8, mem ''Reserved2'' U32,
       bits ''ImplementedPhysicalAddressBits'' U32 7, bits ''ReservedEcx'' U32 25,
       mem ''ReservedEdx'' U32])"

definition HV_ARM64_ENLIGHTENMENT_INFORMATION_PRIVATE :: cty where
  "HV_ARM64_ENLIGHTENMENT_INFORMATION_PRIVATE = Struct 0 (flds_of
       [bits ''Reserved01'' U32 21, bits ''UseHypercallForMmioAccess'' U32 1,
       bits ''UseGpaPinningHypercall'' U32 1, bits ''WakeVps'' U32 1,
       bits ''SyncContext'' U32 1, bits ''Reserved02'' U32 7, mem ''Reserved1'' U32,
       mem ''Reserved2'' U32, mem ''Reserved3'' U32])"

definition HV_ENLIGHTENMENT_INFORMATION_PRIVATE :: "arch \<Rightarrow> cty" where
  "HV_ENLIGHTENMENT_INFORMATION_PRIVATE a = (case a of
     X64 \<Rightarrow> HV_X64_ENLIGHTENMENT_INFORMATION_PRIVATE
   | ARM64 \<Rightarrow> HV_ARM64_ENLIGHTENMENT_INFORMATION_PRIVATE)"

definition HV_X64_HYPERVISOR_HARDWARE_FEATURES_PRIVATE :: cty where
  "HV_X64_HYPERVISOR_HARDWARE_FEATURES_PRIVATE = Struct 0 (flds_of
       [bits ''Reserved0'' U32 18, bits ''L3CachePartitioningSupported'' U32 1,
       bits ''L3CacheMonitoringSupported'' U32 1, bits ''Reserved1'' U32 7,
       bits ''HardwareGpaAccessTrackingSupported'' U32 1, bits ''Reserved2'' U32 4,
       mem ''ReservedEbx'' U32, mem ''ReservedEcx'' U32, mem ''ReservedEdx'' U32])"

definition HV_ARM64_HYPERVISOR_HARDWARE_FEATURES_PRIVATE :: cty where
  "HV_ARM64_HYPERVISOR_HARDWARE_FEATURES_PRIVATE = Struct 0 (flds_of
       [bits ''Reserved0'' U32 8, bits ''ApicEmulationSupported'' U32 1,
       bits ''DeviceAccessTrackingSupported'' U32 1, bits ''DeviceDomainInputWidth'' U32 8,
       bits ''HardwareGpaAccessTrackingSupported'' U32 1, bits ''Reserved1'' U32 13,
       mem ''Reserved2'' U32, mem ''Reserved3'' U32, mem ''Reserved4'' U32])"

definition HV_HYPERVISOR_HARDWARE_FEATURES_PRIVATE :: "arch \<Rightarrow> cty" where
  "HV_HYPERVISOR_HARDWARE_FEATURES_PRIVATE a = (case a of
     X64 \<Rightarrow> HV_X64_HYPERVISOR_HARDWARE_FEATURES_PRIVATE
   | ARM64 \<Rightarrow> HV_ARM64_HYPERVISOR_HARDWARE_FEATURES_PRIVATE)"

definition HV_X64_HYPERVISOR_CPU_MANAGEMENT_FEATURES_PRIVATE :: cty where
  "HV_X64_HYPERVISOR_CPU_MANAGEMENT_FEATURES_PRIVATE = Struct 0 (flds_of
       [mem ''ReservedEax'' U32, bits ''Reserved0'' U32 3, bits ''DriveIdleTransitions'' U32 1,
       bits ''Reserved1'' U32 28, mem ''ReservedEcx'' U32, mem ''ReservedEdx'' U32])"

definition HV_ARM64_HYPERVISOR_CPU_MANAGEMENT_FEATURES_PRIVATE :: cty where
  "HV_ARM64_HYPERVISOR_CPU_MANAGEMENT_FEATURES_PRIVATE = Struct 0 (flds_of
       [mem ''ReservedEax'' U32, bits ''ReservedEbx0'' U32 3,
       bits ''DriveIdleTransitions'' U32 1, bits ''ReservedEbx1'' U32 28,
       mem ''ReservedEcx'' U32, mem ''ReservedEdx'' U32])"

definition HV_HYPERVISOR_CPU_MANAGEMENT_FEATURES_PRIVATE :: "arch \<Rightarrow> cty" where
  "HV_HYPERVISOR_CPU_MANAGEMENT_FEATURES_PRIVATE a = (case a of
     X64 \<Rightarrow> HV_X64_HYPERVISOR_CPU_MANAGEMENT_FEATURES_PRIVATE
   | ARM64 \<Rightarrow> HV_ARM64_HYPERVISOR_CPU_MANAGEMENT_FEATURES_PRIVATE)"

definition HV_HYPERVISOR_PASID_FEATURES :: cty where
  "HV_HYPERVISOR_PASID_FEATURES = Struct 0 (flds_of
       [bits ''Reserved0'' U32 1, bits ''PasidSupported'' U32 1, bits ''Reserved1'' U32 30,
       mem ''MaxDevicePrqSize'' U32, mem ''Reserved2'' U32, mem ''Reserved3'' U32])"

definition HV_HYPERVISOR_ISOLATION_CONFIGURATION_PRIVATE :: cty where
  "HV_HYPERVISOR_ISOLATION_CONFIGURATION_PRIVATE = Struct 0 (flds_of
       [bits ''Reserved00'' U32 1, bits ''Reserved01'' U32 1, bits ''AccessSynicRegs'' U32 1,
       bits ''Reserved02'' U32 1, bits ''AccessIntrCtrlRegs'' U32 1,
       bits ''AccessHypercallMsrs'' U32 1, bits ''AccessVpIndex'' U32 1,
       bits ''Reserved03'' U32 5, bits ''AccessReenlightenmentControls'' U32 1,
       bits ''Reserved04'' U32 19, mem ''Reserved1'' U32, mem ''Reserved2'' U32,
       bits ''Reserved30'' U32 4, bits ''XmmRegistersForFastHypercallAvailable'' U32 1,
       bits ''Reserved31'' U32 10, bits ''FastHypercallOutputAvailable'' U32 1,
       bits ''Reserved32'' U32 1, bits ''SintPollingModeAvailable'' U32 1,
       bits ''Reserved33'' U32 14])"

definition HV_HYPERVISOR_NESTED_VIRT_FEATURES_PRIVATE :: cty where
  "HV_HYPERVISOR_NESTED_VIRT_FEATURES_PRIVATE = Struct 0 (flds_of
       [bits ''Reserved0'' U32 21, bits ''DebugCtl'' U32 1, bits ''EnlightenedNptTlb'' U32 1,
       bits ''NoRmpTableRequired'' U32 1, bits ''EnlightenedSevSwap'' U32 1,
       bits ''Reserved1'' U32 7, bits ''PerfGlobalCtrl'' U32 1, bits ''Reserved2'' U32 31,
       mem ''ReservedEcx'' U32, mem ''ReservedEdx'' U32])"

definition HV_HYPERVISOR_IPT_FEATURES :: cty where
  "HV_HYPERVISOR_IPT_FEATURES = Struct 0 (flds_of
       [bits ''ChainedToPA'' U32 1, bits ''Enlightened'' U32 1, bits ''Reserved0'' U32 10,
       bits ''MaxTraceBufferSizePerVtl'' U32 20, mem ''Reserved1'' U32, mem ''Reserved2'' U32,
       bits ''HypervisorIpt'' U32 1, bits ''Reserved3'' U32 31])"

definition HV_CPUID_RESULT_PRIVATE :: "arch \<Rightarrow> cty" where
  "HV_CPUID_RESULT_PRIVATE a = Union 0 (flds_of
       [mem ''MsHvFeatures'' (HV_HYPERVISOR_FEATURES_PRIVATE a),
       mem ''MsHvEnlightenmentInformation'' (HV_ENLIGHTENMENT_INFORMATION_PRIVATE a),
       mem ''MsHvHardwareFeatures'' (HV_HYPERVISOR_HARDWARE_FEATURES_PRIVATE a),
       mem ''MsHvCpuManagementFeatures'' (HV_HYPERVISOR_CPU_MANAGEMENT_FEATURES_PRIVATE a),
       mem ''MsHvPasidFeatures'' HV_HYPERVISOR_PASID_FEATURES,
       mem ''MsHvIsolationConfiguration'' HV_HYPERVISOR_ISOLATION_CONFIGURATION_PRIVATE,
       mem ''MsHvNestedVirtFeatures'' HV_HYPERVISOR_NESTED_VIRT_FEATURES_PRIVATE,
       mem ''MsHvIptFeatures'' HV_HYPERVISOR_IPT_FEATURES])"

definition HV_LOGICAL_PROCESSOR_REGISTER_VALUE :: "arch \<Rightarrow> cty" where
  "HV_LOGICAL_PROCESSOR_REGISTER_VALUE a = Union 0 (flds_of
       ([mem ''Reg128'' HV_UINT128, mem ''Reg64'' U64, mem ''Reg32'' U32, mem ''Reg16'' U16,
       mem ''Reg8'' U8] @
        (case a of X64 \<Rightarrow> [mem ''Cpuid'' (HV_CPUID_RESULT a)] | ARM64 \<Rightarrow> [])))"

definition HV_LOGICAL_PROCESSOR_REGISTER_ASSOC :: "arch \<Rightarrow> cty" where
  "HV_LOGICAL_PROCESSOR_REGISTER_ASSOC a = Struct 0 (flds_of
       [mem ''Id'' (HV_LOGICAL_PROCESSOR_REGISTER_ID a),
       mem ''Value'' (HV_LOGICAL_PROCESSOR_REGISTER_VALUE a)])"

section \<open>Hypervisor MSRs Definitions\<close>

definition HV_X64_SYNTHETIC_MSR_PRIVATE :: enum_tab where
  "HV_X64_SYNTHETIC_MSR_PRIVATE = enum_of
     [(''XbSyntheticMsrDebugOutput'', Val 0x4000000a),
     (''XbSyntheticMsrFlushTbThreshold'', Val 0x4000000b),
     (''XbSyntheticMsrOsFlavor'', Val 0x4000000c),
     (''XbSyntheticMsrOsFrameOffset'', Val 0x4000000e),
     (''XbSyntheticMsrClearSignaturePage'', Val 0x40000018),
     (''XbSyntheticMsrPauseElementsCount'', Val 0x40000019),
     (''XbSyntheticMsrTbFlushAll'', Val 0x4000001a),
     (''XbSyntheticMsrUtcFields'', Val 0x40000045),
     (''HvSyntheticMsrVpConfig'', Val 0x40000117),
     (''HvSyntheticMsrTscInvariantControl'', Val 0x40000118),
     (''XbSyntheticMsrBootInfo'', Val 0x40000130)]"

definition HV_X64_MSR_VP_INDEX :: int where
  "HV_X64_MSR_VP_INDEX = enumerator HV_ARM64_SYNTHETIC_MSR ''HvSyntheticMsrVpIndex''"

definition HV_X64_MSR_SYNMC_STATUS_CONTENTS :: cty where
  "HV_X64_MSR_SYNMC_STATUS_CONTENTS = Union 0 (flds_of
       [mem ''AsUINT64'' U64,
       mem '''' (Struct 0 (flds_of [mem ''McaErrorCode'' U16,
          mem '''' (Union 0 (flds_of [mem ''ModelSpecificErrorCode'' U16,
             mem '''' (Struct 0 (flds_of [bits ''ErrorDetail'' U16 14, bits ''HypervisorError'' U16 1, bits ''SoftwareError'' U16 1]))])),
          mem '''' (Struct 0 (flds_of [bits ''Reserved'' U32 23, bits ''ActionRequired'' U32 1, bits ''Signaling'' U32 1,
             bits ''ContextCorrupt'' U32 1, bits ''AddressValid'' U32 1, bits ''MiscValid'' U32 1,
             bits ''ErrorEnabled'' U32 1, bits ''Uncorrected'' U32 1, bits ''Overflow'' U32 1,
             bits ''Valid'' U32 1]))]))])"

definition HV_SYNMC_MCA_ERROR_CODE :: "32 word" where "HV_SYNMC_MCA_ERROR_CODE = 0x0001"

definition HV_X64_MSR_SYNMC_ADDR_CONTENTS :: cty where
  "HV_X64_MSR_SYNMC_ADDR_CONTENTS = U64"

definition HV_X64_MSR_SYNMC_MISC_CONTENTS :: cty where
  "HV_X64_MSR_SYNMC_MISC_CONTENTS = U64"

definition HV_SYNMC_X64_EVENT :: cty where
  "HV_SYNMC_X64_EVENT = Struct 0 (flds_of
       [mem ''Status'' HV_X64_MSR_SYNMC_STATUS_CONTENTS,
       mem ''Addr'' HV_X64_MSR_SYNMC_ADDR_CONTENTS, mem ''Misc'' HV_X64_MSR_SYNMC_MISC_CONTENTS,
       mem ''RipValid'' HV_BOOLEAN, mem ''EipValid'' HV_BOOLEAN])"

definition HV_X64_MSR_RESET :: int where
  "HV_X64_MSR_RESET = enumerator HV_ARM64_SYNTHETIC_MSR ''HvSyntheticMsrReset''"

definition HV_X64_MSR_RESET_CONTENTS :: cty where
  "HV_X64_MSR_RESET_CONTENTS = Union 0 (flds_of
       [mem ''AsUINT64'' U64,
       mem '''' (Struct 0 (flds_of [bits ''Reset'' U64 1, bits ''ReservedZ'' U64 63]))])"

definition HV_ARM64_MSR_RESET_CONTENTS :: cty where
  "HV_ARM64_MSR_RESET_CONTENTS = Union 0 (flds_of
       [mem ''AsUINT64'' U64,
       mem '''' (Struct 0 (flds_of [bits ''Reset'' U64 1, bits ''ReservedZ'' U64 63]))])"

definition HV_X64_MSR_VP_RUNTIME :: int where
  "HV_X64_MSR_VP_RUNTIME = enumerator HV_X64_SYNTHETIC_MSR ''HvSyntheticMsrVpRuntime''"

definition HV_X64_MSR_TIME_REF_COUNT :: int where
  "HV_X64_MSR_TIME_REF_COUNT = enumerator HV_ARM64_SYNTHETIC_MSR ''HvSyntheticMsrTimeRefCount''"

definition HV_X64_MSR_REFERENCE_TSC :: int where
  "HV_X64_MSR_REFERENCE_TSC = enumerator HV_ARM64_SYNTHETIC_MSR ''HvSyntheticMsrReferenceTsc''"

definition HV_X64_MSR_REFERENCE_TSC_CONTENTS :: cty where
  "HV_X64_MSR_REFERENCE_TSC_CONTENTS = Union 0 (flds_of
       [mem ''AsUINT64'' U64,
       mem '''' (Struct 0 (flds_of [bits ''Enable'' U64 1, bits ''ReservedP'' U64 11, bits ''GpaPageNumber'' U64 52]))])"

definition HV_REFERENCE_TSC_SEQUENCE_INVALID :: "32 word" where
  "HV_REFERENCE_TSC_SEQUENCE_INVALID = 0x00000000"

definition HV_REFERENCE_TSC_PAGE :: cty where
  "HV_REFERENCE_TSC_PAGE = Struct 0 (flds_of
       [mem ''TscSequence'' U32, mem ''Reserved1'' U32, mem ''TscScale'' U64,
       mem ''TscOffset'' U64, mem ''TimelineBias'' U64, mem ''TscMultiplier'' U64,
       mem ''Reserved2'' (Arr U64 507)])"

definition HV_X64_MSR_TSC_FREQUENCY :: int where
  "HV_X64_MSR_TSC_FREQUENCY = enumerator HV_ARM64_SYNTHETIC_MSR ''HvSyntheticMsrTscFrequency''"

definition HV_X64_MSR_APIC_FREQUENCY :: int where
  "HV_X64_MSR_APIC_FREQUENCY = enumerator HV_X64_SYNTHETIC_MSR ''HvSyntheticMsrApicFrequency''"

definition HV_X64_MSR_NPIEP_CONFIG :: int where
  "HV_X64_MSR_NPIEP_CONFIG = enumerator HV_X64_SYNTHETIC_MSR ''HvSyntheticMsrNpiepConfig''"

definition HV_X64_MSR_EOI :: int where
  "HV_X64_MSR_EOI = enumerator HV_X64_SYNTHETIC_MSR ''HvSyntheticMsrEoi''"

definition HV_X64_MSR_ICR :: int where
  "HV_X64_MSR_ICR = enumerator HV_X64_SYNTHETIC_MSR ''HvSyntheticMsrIcr''"

definition HV_X64_MSR_TPR :: int where
  "HV_X64_MSR_TPR = enumerator HV_X64_SYNTHETIC_MSR ''HvSyntheticMsrTpr''"

definition HV_X64_MSR_VP_ASSIST_PAGE :: int where
  "HV_X64_MSR_VP_ASSIST_PAGE = enumerator HV_ARM64_SYNTHETIC_MSR ''HvSyntheticMsrVpAssistPage''"

definition HV_VTL_ENTRY_REASON :: enum_tab where
  "HV_VTL_ENTRY_REASON = enum_of
     [(''HvVtlEntryReserved'', Val 0), (''HvVtlEntryVtlCall'', Val 1),
     (''HvVtlEntryInterrupt'', Val 2), (''HvVtlEntryIntercept'', Val 3)]"

definition HV_VP_VTL_CONTROL :: "arch \<Rightarrow> cty" where
  "HV_VP_VTL_CONTROL a = Struct 0 (flds_of
       [mem ''EntryReason'' Enum_ty,
       mem ''VinaStatus'' (Union 0 (flds_of [mem ''AsUINT8'' U8,
          mem '''' (Struct 0 (flds_of [bits ''VinaAsserted'' U8 1, bits ''VinaReservedZ'' U8 7]))])),
       mem ''ReservedZ00'' U8, mem ''ReservedZ01'' U16,
       mem '''' (Union 0 (flds_of ((case a of X64 \<Rightarrow> [mem '''' (Struct 0 (flds_of [mem ''VtlReturnX64Rax'' U64, mem ''VtlReturnX64Rcx'' U64])),
          mem '''' (Struct 0 (flds_of [mem ''VtlReturnX86Eax'' U32, mem ''VtlReturnX86Ecx'' U32, mem ''VtlReturnX86Edx'' U32,
             mem ''ReservedZ1'' U32]))] | ARM64 \<Rightarrow>
           [mem '''' (Struct 0 (flds_of [mem ''ReservedZ2'' U64, mem ''ReservedZ3'' U64]))]))))])"

definition HV_NESTED_ENLIGHTENMENTS_CONTROL :: cty where
  "HV_NESTED_ENLIGHTENMENTS_CONTROL = Struct 0 (flds_of
       [mem ''Features'' (Union 0 (flds_of [mem ''AsUINT32'' U32,
          mem '''' (Struct 0 (flds_of [bits ''DirectHypercall'' U32 1, bits ''VirtualizationException'' U32 1,
             bits ''Reserved'' U32 30]))])),
       mem ''HypercallControls'' (Union 0 (flds_of [mem ''AsUINT32'' U32,
          mem '''' (Struct 0 (flds_of [bits ''InterPartitionCommunication'' U32 1, bits ''Reserved'' U32 31]))]))])"

definition HV_VIRTUALIZATION_FAULT_INFORMATION :: cty where
  "HV_VIRTUALIZATION_FAULT_INFORMATION = Union 0 (flds_of
       [mem '''' (Struct 0 (flds_of [mem ''Parameter0'' U16, mem ''Reserved0'' U16, mem ''Code'' U32, mem ''Parameter1'' U64])),
       mem '''' (Struct 0 (flds_of [mem ''VeInformationArea'' (Arr U8 34), mem ''Reserved1'' (Arr U8 6)]))])"

definition HV_MINIMAL_INTERCEPT_INFORMATION :: cty where
  "HV_MINIMAL_INTERCEPT_INFORMATION = Struct 0 (flds_of
       [mem ''MessageType'' Enum_ty])"

definition HV_VP_ASSIST_PAGE :: "arch \<Rightarrow> cty" where
  "HV_VP_ASSIST_PAGE a = Union 0 (flds_of
       [mem '''' (Struct 0 (flds_of [mem ''ApicAssist'' HV_VIRTUAL_APIC_ASSIST, mem ''ReservedZ0'' U32,
          mem ''VtlControl'' (HV_VP_VTL_CONTROL a),
          mem ''NestedEnlightenmentsControl'' HV_NESTED_ENLIGHTENMENTS_CONTROL,
          mem ''EnlightenVmEntry'' HV_BOOLEAN, mem ''ReservedZ1'' (Arr U8 7),
          mem ''CurrentNestedVmcs'' HV_GPA, mem ''SyntheticTimeUnhaltedTimerExpired'' HV_BOOLEAN,
          mem ''ReservedZ2'' (Arr U8 7),
          mem ''VirtualizationFaultInformation'' HV_VIRTUALIZATION_FAULT_INFORMATION,
          mem ''ReservedZ3'' (Arr U8 8), mem ''InterceptMessage'' HV_MESSAGE,
          mem ''VtlReturnActions'' (Arr U8 256)])),
       mem ''ReservedZBytePadding'' (Arr U8 (unat (HV_PAGE_SIZE a))),
       mem '''' (Struct 0 (flds_of [mem ''Padding'' (Arr U8 112), mem ''MinimalIntercept'' HV_MINIMAL_INTERCEPT_INFORMATION]))])"

definition HV_REGISTER_VP_ASSIST_PAGE :: cty where
  "HV_REGISTER_VP_ASSIST_PAGE = Union 0 (flds_of
       [mem ''AsUINT64'' U64,
       mem '''' (Struct 0 (flds_of [bits ''Enable'' U64 1, bits ''ReservedP'' U64 11, bits ''GpaPageNumber'' U64 52]))])"

definition HV_X64_MSR_SCONTROL :: int where
  "HV_X64_MSR_SCONTROL = enumerator HV_ARM64_SYNTHETIC_MSR ''HvSyntheticMsrSControl''"

definition HV_X64_MSR_SVERSION :: int where
  "HV_X64_MSR_SVERSION = enumerator HV_ARM64_SYNTHETIC_MSR ''HvSyntheticMsrSVersion''"

definition HV_X64_MSR_SIEFP :: int where
  "HV_X64_MSR_SIEFP = enumerator HV_ARM64_SYNTHETIC_MSR ''HvSyntheticMsrSiefp''"

definition HV_X64_MSR_SIMP :: int where
  "HV_X64_MSR_SIMP = enumerator HV_ARM64_SYNTHETIC_MSR ''HvSyntheticMsrSimp''"

definition HV_X64_MSR_EOM :: int where
  "HV_X64_MSR_EOM = enumerator HV_ARM64_SYNTHETIC_MSR ''HvSyntheticMsrEom''"

definition HV_X64_MSR_SIRBP :: int where
  "HV_X64_MSR_SIRBP = enumerator HV_ARM64_SYNTHETIC_MSR ''HvSyntheticMsrSirb''"

definition HV_X64_MSR_SINT0 :: int where
  "HV_X64_MSR_SINT0 = enumerator HV_ARM64_SYNTHETIC_MSR ''HvSyntheticMsrSint0''"

definition HV_X64_MSR_SINT1 :: int where
  "HV_X64_MSR_SINT1 = enumerator HV_ARM64_SYNTHETIC_MSR ''HvSyntheticMsrSint1''"

definition HV_X64_MSR_SINT2 :: int where
  "HV_X64_MSR_SINT2 = enumerator HV_ARM64_SYNTHETIC_MSR ''HvSyntheticMsrSint2''"

definition HV_X64_MSR_SINT3 :: int where
  "HV_X64_MSR_SINT3 = enumerator HV_ARM64_SYNTHETIC_MSR ''HvSyntheticMsrSint3''"

definition HV_X64_MSR_SINT4 :: int where
  "HV_X64_MSR_SINT4 = enumerator HV_ARM64_SYNTHETIC_MSR ''HvSyntheticMsrSint4''"

definition HV_X64_MSR_SINT5 :: int where
  "HV_X64_MSR_SINT5 = enumerator HV_ARM64_SYNTHETIC_MSR ''HvSyntheticMsrSint5''"

definition HV_X64_MSR_SINT6 :: int where
  "HV_X64_MSR_SINT6 = enumerator HV_ARM64_SYNTHETIC_MSR ''HvSyntheticMsrSint6''"

definition HV_X64_MSR_SINT7 :: int where
  "HV_X64_MSR_SINT7 = enumerator HV_ARM64_SYNTHETIC_MSR ''HvSyntheticMsrSint7''"

definition HV_X64_MSR_SINT8 :: int where
  "HV_X64_MSR_SINT8 = enumerator HV_ARM64_SYNTHETIC_MSR ''HvSyntheticMsrSint8''"

definition HV_X64_MSR_SINT9 :: int where
  "HV_X64_MSR_SINT9 = enumerator HV_ARM64_SYNTHETIC_MSR ''HvSyntheticMsrSint9''"

definition HV_X64_MSR_SINT10 :: int where
  "HV_X64_MSR_SINT10 = enumerator HV_ARM64_SYNTHETIC_MSR ''HvSyntheticMsrSint10''"

definition HV_X64_MSR_SINT11 :: int where
  "HV_X64_MSR_SINT11 = enumerator HV_ARM64_SYNTHETIC_MSR ''HvSyntheticMsrSint11''"

definition HV_X64_MSR_SINT12 :: int where
  "HV_X64_MSR_SINT12 = enumerator HV_ARM64_SYNTHETIC_MSR ''HvSyntheticMsrSint12''"

definition HV_X64_MSR_SINT13 :: int where
  "HV_X64_MSR_SINT13 = enumerator HV_ARM64_SYNTHETIC_MSR ''HvSyntheticMsrSint13''"

definition HV_X64_MSR_SINT14 :: int where
  "HV_X64_MSR_SINT14 = enumerator HV_ARM64_SYNTHETIC_MSR ''HvSyntheticMsrSint14''"

definition HV_X64_MSR_SINT15 :: int where
  "HV_X64_MSR_SINT15 = enumerator HV_ARM64_SYNTHETIC_MSR ''HvSyntheticMsrSint15''"

definition HV_SYNIC_SCONTROL :: cty where
  "HV_SYNIC_SCONTROL = Union 0 (flds_of
       [mem ''AsUINT64'' U64,
       mem '''' (Struct 0 (flds_of [bits ''Enable'' U64 1, bits ''Preserved'' U64 63]))])"

definition HV_X64_MSR_STIMER0_CONFIG :: int where
  "HV_X64_MSR_STIMER0_CONFIG = enumerator HV_ARM64_SYNTHETIC_MSR ''HvSyntheticMsrSTimer0Config''"

definition HV_X64_MSR_STIMER0_COUNT :: int where
  "HV_X64_MSR_STIMER0_COUNT = enumerator HV_ARM64_SYNTHETIC_MSR ''HvSyntheticMsrSTimer0Count''"

definition HV_X64_MSR_STIMER1_CONFIG :: int where
  "HV_X64_MSR_STIMER1_CONFIG = enumerator HV_ARM64_SYNTHETIC_MSR ''HvSyntheticMsrSTimer1Config''"

definition HV_X64_MSR_STIMER1_COUNT :: int where
  "HV_X64_MSR_STIMER1_COUNT = enumerator HV_ARM64_SYNTHETIC_MSR ''HvSyntheticMsrSTimer1Count''"

definition HV_X64_MSR_STIMER2_CONFIG :: int where
  "HV_X64_MSR_STIMER2_CONFIG = enumerator HV_ARM64_SYNTHETIC_MSR ''HvSyntheticMsrSTimer2Config''"

definition HV_X64_MSR_STIMER2_COUNT :: int where
  "HV_X64_MSR_STIMER2_COUNT = enumerator HV_ARM64_SYNTHETIC_MSR ''HvSyntheticMsrSTimer2Count''"

definition HV_X64_MSR_STIMER3_CONFIG :: int where
  "HV_X64_MSR_STIMER3_CONFIG = enumerator HV_ARM64_SYNTHETIC_MSR ''HvSyntheticMsrSTimer3Config''"

definition HV_X64_MSR_STIMER3_COUNT :: int where
  "HV_X64_MSR_STIMER3_COUNT = enumerator HV_ARM64_SYNTHETIC_MSR ''HvSyntheticMsrSTimer3Count''"

definition HV_MSR_EOM :: "arch \<Rightarrow> int" where
  "HV_MSR_EOM a = (case a of X64 \<Rightarrow> HV_X64_MSR_EOM
     | ARM64 \<Rightarrow> enumerator (HV_REGISTER_NAME ARM64) ''HvRegisterEom'')"

definition HV_MSR_TIME_REF_COUNT :: "arch \<Rightarrow> int" where
  "HV_MSR_TIME_REF_COUNT a = (case a of X64 \<Rightarrow> HV_X64_MSR_TIME_REF_COUNT
     | ARM64 \<Rightarrow> enumerator (HV_REGISTER_NAME ARM64) ''HvRegisterTimeRefCount'')"

definition HV_MSR_STIMER0_CONFIG :: "arch \<Rightarrow> int" where
  "HV_MSR_STIMER0_CONFIG a = (case a of X64 \<Rightarrow> HV_X64_MSR_STIMER0_CONFIG
     | ARM64 \<Rightarrow> enumerator (HV_REGISTER_NAME ARM64) ''HvRegisterStimer0Config'')"

definition HV_MSR_STIMER0_COUNT :: "arch \<Rightarrow> int" where
  "HV_MSR_STIMER0_COUNT a = (case a of X64 \<Rightarrow> HV_X64_MSR_STIMER0_COUNT
     | ARM64 \<Rightarrow> enumerator (HV_REGISTER_NAME ARM64) ''HvRegisterStimer0Count'')"

definition HV_MSR_SIMP :: "arch \<Rightarrow> int" where
  "HV_MSR_SIMP a = (case a of X64 \<Rightarrow> HV_X64_MSR_SIMP
     | ARM64 \<Rightarrow> enumerator (HV_REGISTER_NAME ARM64) ''HvRegisterSipp'')"

definition HV_MSR_SINT0 :: "arch \<Rightarrow> int" where
  "HV_MSR_SINT0 a = (case a of X64 \<Rightarrow> HV_X64_MSR_SINT0
     | ARM64 \<Rightarrow> enumerator (HV_REGISTER_NAME ARM64) ''HvRegisterSint0'')"

definition HV_X64_MSR_POWER_STATE_TRIGGER_C1 :: "32 word" where
  "HV_X64_MSR_POWER_STATE_TRIGGER_C1 = 0x400000c1"

definition HV_X64_MSR_POWER_STATE_TRIGGER_C2 :: "32 word" where
  "HV_X64_MSR_POWER_STATE_TRIGGER_C2 = 0x400000c2"

definition HV_X64_MSR_POWER_STATE_TRIGGER_C3 :: "32 word" where
  "HV_X64_MSR_POWER_STATE_TRIGGER_C3 = 0x400000c3"

definition HV_X64_MSR_POWER_STATE_TRIGGER :: cty where
  "HV_X64_MSR_POWER_STATE_TRIGGER = Union 0 (flds_of
       [mem ''AsUINT64'' U64,
       mem '''' (Struct 0 (flds_of [mem ''IdleEntryCount'' U8, mem ''Reserved'' (Arr U8 3), bits ''Reserved2'' U32 31,
          bits ''ActiveBM_STS'' U32 1]))])"

definition HV_X64_MSR_POWER_STATE_CONFIG_C1 :: "32 word" where
  "HV_X64_MSR_POWER_STATE_CONFIG_C1 = 0x400000d1"

definition HV_X64_MSR_POWER_STATE_CONFIG_C2 :: "32 word" where
  "HV_X64_MSR_POWER_STATE_CONFIG_C2 = 0x400000d2"

definition HV_X64_MSR_POWER_STATE_CONFIG_C3 :: "32 word" where
  "HV_X64_MSR_POWER_STATE_CONFIG_C3 = 0x400000d3"

definition HV_X64_MSR_POWER_STATE_CONFIG :: cty where
  "HV_X64_MSR_POWER_STATE_CONFIG = Union 0 (flds_of
       [mem ''AsUINT64'' U64,
       mem '''' (Struct 0 (flds_of [bits ''TypeSpecific'' U64 52, bits ''ChangeType'' U64 4, bits ''CheckBM_STS'' U64 1,
          bits ''SetBM_RST'' U64 1, bits ''ClearBM_RST'' U64 1, bits ''SetARB_DIS'' U64 1,
          bits ''ReservedZ'' U64 4])),
       mem ''Hlt'' (Struct 0 (flds_of [bits ''ReservedZ'' U64 52])),
       mem ''Io'' (Struct 0 (flds_of [mem ''Port'' U16, mem ''ReservedZ1'' U16, bits ''ReservedZ2'' U32 20])),
       mem ''Memory'' (Struct 0 (flds_of [bits ''Address'' U64 52])),
       mem ''Mwait'' (Struct 0 (flds_of [mem ''Hints'' U32, bits ''BreakOnMaskedInterrupt'' U32 1, bits ''ReservedZ'' U32 19]))])"

definition HV_X64_MSR_STATS_PARTITION_RETAIL_PAGE :: "32 word" where
  "HV_X64_MSR_STATS_PARTITION_RETAIL_PAGE = 0x400000e0"

definition HV_X64_MSR_STATS_PARTITION_INTERNAL_PAGE :: "32 word" where
  "HV_X64_MSR_STATS_PARTITION_INTERNAL_PAGE = 0x400000e1"

definition HV_X64_MSR_STATS_VP_RETAIL_PAGE :: "32 word" where "HV_X64_MSR_STATS_VP_RETAIL_PAGE = 0x400000e2"

definition HV_X64_MSR_STATS_VP_INTERNAL_PAGE :: "32 word" where
  "HV_X64_MSR_STATS_VP_INTERNAL_PAGE = 0x400000e3"

definition HV_X64_MSR_GUEST_IDLE :: int where
  "HV_X64_MSR_GUEST_IDLE = enumerator HV_ARM64_SYNTHETIC_MSR ''HvSyntheticMsrGuestIdle''"

definition HV_X64_MSR_SYNTH_DEBUG_BUFFER_CONTENTS :: cty where
  "HV_X64_MSR_SYNTH_DEBUG_BUFFER_CONTENTS = Union 0 (flds_of
       [mem ''AsUINT64'' U64,
       mem '''' (Struct 0 (flds_of [bits ''ReservedZ0'' U64 12, bits ''GpaPageNumber'' U64 40, bits ''ReservedZ1'' U64 11,
          bits ''Disabled'' U64 1]))])"

definition HV_X64_MSR_CRASH_P0 :: int where
  "HV_X64_MSR_CRASH_P0 = enumerator HV_ARM64_SYNTHETIC_MSR ''HvSyntheticMsrCrashP0''"

definition HV_X64_MSR_CRASH_P1 :: int where
  "HV_X64_MSR_CRASH_P1 = enumerator HV_ARM64_SYNTHETIC_MSR ''HvSyntheticMsrCrashP1''"

definition HV_X64_MSR_CRASH_P2 :: int where
  "HV_X64_MSR_CRASH_P2 = enumerator HV_ARM64_SYNTHETIC_MSR ''HvSyntheticMsrCrashP2''"

definition HV_X64_MSR_CRASH_P3 :: int where
  "HV_X64_MSR_CRASH_P3 = enumerator HV_ARM64_SYNTHETIC_MSR ''HvSyntheticMsrCrashP3''"

definition HV_X64_MSR_CRASH_P4 :: int where
  "HV_X64_MSR_CRASH_P4 = enumerator HV_ARM64_SYNTHETIC_MSR ''HvSyntheticMsrCrashP4''"

definition HV_X64_MSR_CRASH_CTL :: int where
  "HV_X64_MSR_CRASH_CTL = enumerator HV_ARM64_SYNTHETIC_MSR ''HvSyntheticMsrCrashCtl''"

definition HV_X64_MSR_REENLIGHTENMENT_CONTROL :: int where
  "HV_X64_MSR_REENLIGHTENMENT_CONTROL = enumerator HV_ARM64_SYNTHETIC_MSR ''HvSyntheticMsrReenlightenmentControl''"

definition HV_X64_MSR_TSC_EMULATION_CONTROL :: int where
  "HV_X64_MSR_TSC_EMULATION_CONTROL = enumerator HV_ARM64_SYNTHETIC_MSR ''HvSyntheticMsrTscEmulationControl''"

definition HV_X64_MSR_TSC_EMULATION_STATUS :: int where
  "HV_X64_MSR_TSC_EMULATION_STATUS = enumerator HV_ARM64_SYNTHETIC_MSR ''HvSyntheticMsrTscEmulationStatus''"

definition HV_REENLIGHTENMENT_CONTROL :: cty where
  "HV_REENLIGHTENMENT_CONTROL = Union 0 (flds_of
       [mem ''AsUINT64'' U64,
       mem '''' (Struct 0 (flds_of [bits ''Vector'' U64 8, bits ''RsvdZ1'' U64 8, bits ''Enabled'' U64 1,
          bits ''RsvdZ2'' U64 15, bits ''TargetVp'' U64 32]))])"

definition HV_TSC_EMULATION_CONTROL :: cty where
  "HV_TSC_EMULATION_CONTROL = Union 0 (flds_of
       [mem ''AsUINT64'' U64,
       mem '''' (Struct 0 (flds_of [bits ''Enabled'' U64 1, bits ''RsvdZ'' U64 63]))])"

definition HV_TSC_EMULATION_STATUS :: cty where
  "HV_TSC_EMULATION_STATUS = Union 0 (flds_of
       [mem ''AsUINT64'' U64,
       mem '''' (Struct 0 (flds_of [bits ''InProgress'' U64 1, bits ''RsvdP1'' U64 63]))])"

definition HV_X64_MSR_STIME_UNHALTED_TIMER_CONFIG :: int where
  "HV_X64_MSR_STIME_UNHALTED_TIMER_CONFIG = enumerator HV_ARM64_SYNTHETIC_MSR ''HvSyntheticMsrSTimeUnhaltedTimerConfig''"

definition HV_X64_MSR_STIME_UNHALTED_TIMER_COUNT :: int where
  "HV_X64_MSR_STIME_UNHALTED_TIMER_COUNT = enumerator HV_ARM64_SYNTHETIC_MSR ''HvSyntheticMsrSTimeUnhaltedTimerCount''"

definition HV_X64_MSR_STIME_UNHALTED_TIMER_CONFIG_CONTENTS :: cty where
  "HV_X64_MSR_STIME_UNHALTED_TIMER_CONFIG_CONTENTS = Union 0 (flds_of
       [mem ''AsUINT64'' U64,
       mem '''' (Struct 0 (flds_of [bits ''Vector'' U64 8, bits ''Enabled'' U64 1, bits ''Reserved'' U64 55]))])"

definition HV_MEMORY_ZEROING_CTRL_REG_CONTENTS :: cty where
  "HV_MEMORY_ZEROING_CTRL_REG_CONTENTS = Union 0 (flds_of
       [mem ''AsUINT64'' U64,
       mem '''' (Struct 0 (flds_of [bits ''ZeroMemoryOnReset'' U64 1, bits ''Reserved'' U64 63]))])"

definition HV_REGISTER_VP_CONFIG :: cty where
  "HV_REGISTER_VP_CONFIG = Union 0 (flds_of
       [mem ''AsUINT64'' U64, mem '''' (Struct 0 (flds_of [bits ''Reserved'' U64 64]))])"

definition HV_X64_MSR_TSC_INVARIANT_CONTROL :: int where
  "HV_X64_MSR_TSC_INVARIANT_CONTROL = enumerator HV_X64_SYNTHETIC_MSR_PRIVATE ''HvSyntheticMsrTscInvariantControl''"

definition HV_TSC_INVARIANT_CONTROL :: cty where
  "HV_TSC_INVARIANT_CONTROL = Union 0 (flds_of
       [mem ''AsUINT64'' U64,
       mem '''' (Struct 0 (flds_of [bits ''Enabled'' U64 1, bits ''RsvdZ'' U64 63]))])"

definition HV_X64_MSR_NESTED_SCONTROL :: int where
  "HV_X64_MSR_NESTED_SCONTROL = enumerator HV_X64_SYNTHETIC_MSR ''HvSyntheticMsrNestedSControl''"

definition HV_X64_MSR_NESTED_SVERSION :: int where
  "HV_X64_MSR_NESTED_SVERSION = enumerator HV_X64_SYNTHETIC_MSR ''HvSyntheticMsrNestedSVersion''"

definition HV_X64_MSR_NESTED_SIEFP :: int where
  "HV_X64_MSR_NESTED_SIEFP = enumerator HV_X64_SYNTHETIC_MSR ''HvSyntheticMsrNestedSiefp''"

definition HV_X64_MSR_NESTED_SIMP :: int where
  "HV_X64_MSR_NESTED_SIMP = enumerator HV_X64_SYNTHETIC_MSR ''HvSyntheticMsrNestedSimp''"

definition HV_X64_MSR_NESTED_EOM :: int where
  "HV_X64_MSR_NESTED_EOM = enumerator HV_X64_SYNTHETIC_MSR ''HvSyntheticMsrNestedEom''"

definition HV_X64_MSR_NESTED_SINT0 :: int where
  "HV_X64_MSR_NESTED_SINT0 = enumerator HV_X64_SYNTHETIC_MSR ''HvSyntheticMsrNestedSint0''"

definition HV_X64_MSR_NESTED_SINT1 :: int where
  "HV_X64_MSR_NESTED_SINT1 = enumerator HV_X64_SYNTHETIC_MSR ''HvSyntheticMsrNestedSint1''"

definition HV_X64_MSR_NESTED_SINT2 :: int where
  "HV_X64_MSR_NESTED_SINT2 = enumerator HV_X64_SYNTHETIC_MSR ''HvSyntheticMsrNestedSint2''"

definition HV_X64_MSR_NESTED_SINT3 :: int where
  "HV_X64_MSR_NESTED_SINT3 = enumerator HV_X64_SYNTHETIC_MSR ''HvSyntheticMsrNestedSint3''"

definition HV_X64_MSR_NESTED_SINT4 :: int where
  "HV_X64_MSR_NESTED_SINT4 = enumerator HV_X64_SYNTHETIC_MSR ''HvSyntheticMsrNestedSint4''"

definition HV_X64_MSR_NESTED_SINT5 :: int where
  "HV_X64_MSR_NESTED_SINT5 = enumerator HV_X64_SYNTHETIC_MSR ''HvSyntheticMsrNestedSint5''"

definition HV_X64_MSR_NESTED_SINT6 :: int where
  "HV_X64_MSR_NESTED_SINT6 = enumerator HV_X64_SYNTHETIC_MSR ''HvSyntheticMsrNestedSint6''"

definition HV_X64_MSR_NESTED_SINT7 :: int where
  "HV_X64_MSR_NESTED_SINT7 = enumerator HV_X64_SYNTHETIC_MSR ''HvSyntheticMsrNestedSint7''"

definition HV_X64_MSR_NESTED_SINT8 :: int where
  "HV_X64_MSR_NESTED_SINT8 = enumerator HV_X64_SYNTHETIC_MSR ''HvSyntheticMsrNestedSint8''"

definition HV_X64_MSR_NESTED_SINT9 :: int where
  "HV_X64_MSR_NESTED_SINT9 = enumerator HV_X64_SYNTHETIC_MSR ''HvSyntheticMsrNestedSint9''"

definition HV_X64_MSR_NESTED_SINT10 :: int where
  "HV_X64_MSR_NESTED_SINT10 = enumerator HV_X64_SYNTHETIC_MSR ''HvSyntheticMsrNestedSint10''"

definition HV_X64_MSR_NESTED_SINT11 :: int where
  "HV_X64_MSR_NESTED_SINT11 = enumerator HV_X64_SYNTHETIC_MSR ''HvSyntheticMsrNestedSint11''"

definition HV_X64_MSR_NESTED_SINT12 :: int where
  "HV_X64_MSR_NESTED_SINT12 = enumerator HV_X64_SYNTHETIC_MSR ''HvSyntheticMsrNestedSint12''"

definition HV_X64_MSR_NESTED_SINT13 :: int where
  "HV_X64_MSR_NESTED_SINT13 = enumerator HV_X64_SYNTHETIC_MSR ''HvSyntheticMsrNestedSint13''"

definition HV_X64_MSR_NESTED_SINT14 :: int where
  "HV_X64_MSR_NESTED_SINT14 = enumerator HV_X64_SYNTHETIC_MSR ''HvSyntheticMsrNestedSint14''"

definition HV_X64_MSR_NESTED_SINT15 :: int where
  "HV_X64_MSR_NESTED_SINT15 = enumerator HV_X64_SYNTHETIC_MSR ''HvSyntheticMsrNestedSint15''"

definition HV_NESTED_STATE_REGISTER :: cty where
  "HV_NESTED_STATE_REGISTER = Union 0 (flds_of
       [mem ''AsUINT64'' U64,
       mem '''' (Struct 0 (flds_of [bits ''NestedVirtActive'' U64 1, bits ''NestedGuestMode'' U64 1,
          bits ''VmEntryPending'' U64 1, bits ''Reserved'' U64 61]))])"

section \<open>Hypervisor Hypercall Definitions\<close>

definition HV_X64_HYPERCALL_INPUT :: cty where
  "HV_X64_HYPERCALL_INPUT = HV_HYPERCALL_INPUT"

definition HV_X64_HYPERCALL_OUTPUT :: cty where
  "HV_X64_HYPERCALL_OUTPUT = HV_HYPERCALL_OUTPUT"

definition HV_HYPERCALL_INPUT_PRIVATE :: cty where
  "HV_HYPERCALL_INPUT_PRIVATE = Union 0 (flds_of
       [mem ''AsUINT64'' U64,
       mem '''' (Struct 0 (flds_of [bits ''CallCode'' U32 14, bits ''IsIsolated'' U32 1, bits ''IsExtended'' U32 1,
          bits ''IsFast'' U32 1, bits ''VariableHeaderSize'' U32 9, bits ''Reserved1'' U32 4,
          bits ''AddressesAreVirtual'' U32 1, bits ''IsNested'' U32 1,
          bits ''CountOfElements'' U32 12, bits ''Reserved2'' U32 4, bits ''RepStartIndex'' U32 12,
          bits ''Reserved3'' U32 4]))])"

definition HV_CALL_CODE_PRIVATE :: enum_tab where
  "HV_CALL_CODE_PRIVATE = enum_of
     [(''HvCallSyncContext'', Val 0x0019), (''HvCallSyncContextEx'', Val 0x001a),
     (''HvCallSetPerfRegister'', Val 0x001b), (''HvCallGetPerfRegister'', Val 0x001c),
     (''HvCallFlushCache'', Val 0x001d), (''HvCallLaunchHypervisor'', Val 0x008f),
     (''HvCallReserved0098'', Val 0x0098), (''HvCallSignalEventDirect'', Val 0x00c0),
     (''HvCallPostMessageDirect'', Val 0x00c1), (''HvCallReserved00d5'', Val 0x00d5),
     (''HvCallQueryDeviceInterruptTarget'', Val 0x00e0), (''HvCallMapVpStatePage'', Val 0x00e1),
     (''HvCallUnmapVpStatePage'', Val 0x00e2), (''HvCallGetVpState'', Val 0x00e3),
     (''HvCallSetVpState'', Val 0x00e4), (''HvCallGetVpSetFromMda'', Val 0x00e5),
     (''HvCallReserved00e6'', Val 0x00e6), (''HvCallCreateIptBuffers'', Val 0x00e7),
     (''HvCallDeleteIptBuffers'', Val 0x00e8),
     (''HvCallControlHypervisorIptTrace'', Val 0x00e9),
     (''HvCallReserveDeviceInterrupt'', Val 0x00ea), (''HvCallPersistDevice'', Val 0x00eb),
     (''HvCallUnpersistDevice'', Val 0x00ec), (''HvCallPersistDeviceInterrupt'', Val 0x00ed),
     (''HvCallRefreshPerformanceCounters'', Val 0x00ee),
     (''HvCallImportIsolatedPages'', Val 0x00ef), (''HvCallReserved00f0'', Val 0x00f0),
     (''HvCallCompleteIsolatedImport'', Val 0x00f1),
     (''HvCallIssueSnpPspGuestRequest'', Val 0x00f2), (''HvCallRootSignalEvent'', Val 0x00f3),
     (''HvCallGetVpCpuidValues'', Val 0x00f4), (''HvCallReadSystemMemory'', Val 0x00f5),
     (''HvCallSetHwWatchdogConfig'', Val 0x00f6), (''HvCallRemovePhysicalMemory'', Val 0x00f7),
     (''HvCallLogHypervisorSystemConfig'', Val 0x00f8),
     (''HvCallIssueNestedSnpPspRequests'', Val 0x00f9), (''HvCallReserved00fa'', Val 0x00fa),
     (''HvCallSubsumeInitializedMemory'', Val 0x00fb), (''HvCallSubsumeVp'', Val 0x00fc),
     (''HvCallDestroySubsumedContext'', Val 0x00fd), (''HvCallWriteSysDiagEvent'', Val 0x00fe),
     (''HvCallDepositMemoryMirroring'', Val 0x00ff),
     (''HvCallSetDeviceCapabilities'', Val 0x0100),
     (''HvCallGetPartitionPropertyEx'', Val 0x0101),
     (''HvCallGetGpaRangesAccessState'', Val 0x0102),
     (''HvCallRestorePartitionTime'', Val 0x0103),
     (''HvCallQueryAssociatedLpsForMcaEx'', Val 0x0104),
     (''HvCallQueryPartitionReservedPages'', Val 0x0105),
     (''HvCallMemoryMappedIoRead'', Val 0x0106), (''HvCallMemoryMappedIoWrite'', Val 0x0107),
     (''HvCallMapDmaRange'', Val 0x0108), (''HvCallUnmapDmaRange'', Val 0x0109),
     (''HvCallSetPartitionPropertyEx'', Val 0x010a),
     (''HvCallAttachDevicePrQueue'', Val 0x010b), (''HvCallDetachDevicePrQueue'', Val 0x010c),
     (''HvCallReserveDeviceDomainAttachment'', Val 0x010d),
     (''HvCallUnreserveDeviceDomainAttachment'', Val 0x010e),
     (''HvCallDisableHypervisorEx'', Val 0x010f), (''HvCallInstallInterceptEx'', Val 0x0110),
     (''HvCallMapVpStatePageEx'', Val 0x0111), (''HvCallPinGpaPageRanges'', Val 0x0112),
     (''HvCallUnpinGpaPageRanges'', Val 0x0113), (''HvCallWakeVps'', Val 0x0114),
     (''HvCallSetCpuGroupAffinity'', Val 0x0115),
     (''HvCallMapPartitionEventLogBuffer'', Val 0x0116), (''HvCallPrivateCount'', Auto)]"

definition HV_INPUT_FLUSH_VIRTUAL_ADDRESS_SPACE :: cty where
  "HV_INPUT_FLUSH_VIRTUAL_ADDRESS_SPACE = HV_CALL_ATTRIBUTES (Struct 0 (flds_of
       [mem ''Header'' HV_INPUT_FLUSH_VIRTUAL_ADDRESS_SPACE_HEADER]))"

definition HV_INPUT_FLUSH_VIRTUAL_ADDRESS_LIST :: cty where
  "HV_INPUT_FLUSH_VIRTUAL_ADDRESS_LIST = HV_CALL_ATTRIBUTES (Struct 0 (flds_of
       [mem ''Header'' HV_INPUT_FLUSH_VIRTUAL_ADDRESS_SPACE_HEADER, mem ''GvaList'' (Arr HV_GVA 0)]))"

definition HV_INPUT_GET_LOGICAL_PROCESSOR_RUN_TIME :: cty where
  "HV_INPUT_GET_LOGICAL_PROCESSOR_RUN_TIME = HV_CALL_ATTRIBUTES (Struct 0 (flds_of
       [mem ''LpIndex'' HV_LOGICAL_PROCESSOR_INDEX]))"

definition HV_OUTPUT_GET_LOGICAL_PROCESSOR_RUN_TIME :: cty where
  "HV_OUTPUT_GET_LOGICAL_PROCESSOR_RUN_TIME = HV_CALL_ATTRIBUTES (Struct 0 (flds_of
       [mem ''GlobalTime'' HV_NANO100_TIME, mem ''LocalRunTime'' HV_NANO100_TIME,
       mem ''RsvdZ'' U64, mem ''HypervisorTime'' HV_NANO100_TIME]))"

definition HV_INPUT_UPDATE_PROCESSOR_FEATURES :: cty where
  "HV_INPUT_UPDATE_PROCESSOR_FEATURES = HV_CALL_ATTRIBUTES (Struct 0 (flds_of
       [mem ''Property'' U32, mem ''RsvdZ'' U32, mem ''Value'' U64]))"

definition HV_INPUT_NOTIFY_LONG_SPINWAIT :: cty where
  "HV_INPUT_NOTIFY_LONG_SPINWAIT = HV_CALL_ATTRIBUTES (Struct 0 (flds_of
       [mem ''InitialLongSpinWait'' U64]))"

definition HV_INPUT_PARK_LOGICAL_PROCESSORS :: cty where
  "HV_INPUT_PARK_LOGICAL_PROCESSORS = HV_CALL_ATTRIBUTES (Struct 0 (flds_of
       [mem ''ProcessorMask'' U64]))"

definition HV_INPUT_PARKED_VIRTUAL_PROCESSORS :: cty where
  "HV_INPUT_PARKED_VIRTUAL_PROCESSORS = HV_CALL_ATTRIBUTES (Struct 0 (flds_of
       [mem ''ProcessorSet'' HV_GENERIC_SET]))"

definition HV_DEBUG_INVOKE_REASON_CLOCK_WATCHDOG :: "32 word" where
  "HV_DEBUG_INVOKE_REASON_CLOCK_WATCHDOG = 0x01"

definition HV_DEBUG_INVOKE_REASON_DPC_WATCHDOG :: "32 word" where
  "HV_DEBUG_INVOKE_REASON_DPC_WATCHDOG = 0x02"

definition HV_DEBUG_INVOKE_REASON_DPC_TIMEOUT :: "32 word" where "HV_DEBUG_INVOKE_REASON_DPC_TIMEOUT = 0x03"

definition HV_INPUT_INVOKE_HYPERVISOR_DEBUGGER :: cty where
  "HV_INPUT_INVOKE_HYPERVISOR_DEBUGGER = HV_CALL_ATTRIBUTES (Struct 0 (flds_of
       [mem ''Reason'' U64, mem ''SupplementalCode'' U64]))"

definition HV_INPUT_SEND_SYNTHETIC_CLUSTER_IPI :: cty where
  "HV_INPUT_SEND_SYNTHETIC_CLUSTER_IPI = HV_CALL_ATTRIBUTES (Struct 0 (flds_of
       [mem ''Vector'' HV_INTERRUPT_VECTOR, mem ''TargetVtl'' HV_INPUT_VTL, mem ''RsvdZ0'' U8,
       mem ''RsvdZ1'' U16, mem ''ProcessorMask'' U64]))"

definition HV_INPUT_MODIFY_VTL_PROTECTION_MASK :: cty where
  "HV_INPUT_MODIFY_VTL_PROTECTION_MASK = HV_CALL_ATTRIBUTES (Struct 0 (flds_of
       [mem ''TargetPartitionId'' HV_PARTITION_ID, mem ''MapFlags'' HV_MAP_GPA_FLAGS,
       mem ''TargetVtl'' HV_INPUT_VTL, mem ''RsvdZ8'' U8, mem ''RsvdZ16'' U16,
       mem ''GpaPageList'' (Arr HV_GPA_PAGE_NUMBER 0)]))"

definition HV_ENABLE_PARTITION_VTL_FLAGS :: cty where
  "HV_ENABLE_PARTITION_VTL_FLAGS = Union 0 (flds_of
       [mem ''AsUINT8'' U8,
       mem '''' (Struct 0 (flds_of [bits ''EnableMbec'' U8 1, bits ''EnableSupervisorShadowStack'' U8 1,
          bits ''EnableHardwareHvpt'' U8 1, bits ''Reserved'' U8 5]))])"

definition HV_INPUT_ENABLE_PARTITION_VTL :: cty where
  "HV_INPUT_ENABLE_PARTITION_VTL = HV_CALL_ATTRIBUTES (Struct 0 (flds_of
       [mem ''TargetPartitionId'' HV_PARTITION_ID, mem ''TargetVtl'' HV_VTL,
       mem ''Flags'' HV_ENABLE_PARTITION_VTL_FLAGS, mem ''ReservedZ0'' U16,
       mem ''ReservedZ1'' U32]))"

definition HV_DISABLE_PARTITION_VTL_FLAGS :: cty where
  "HV_DISABLE_PARTITION_VTL_FLAGS = Union 0 (flds_of
       [mem ''AsUINT8'' U8,
       mem '''' (Struct 0 (flds_of [bits ''ScrubOnly'' U8 1, bits ''Reserved'' U8 7]))])"

definition HV_INPUT_DISABLE_PARTITION_VTL :: cty where
  "HV_INPUT_DISABLE_PARTITION_VTL = HV_CALL_ATTRIBUTES (Struct 0 (flds_of
       [mem ''PartitionId'' HV_PARTITION_ID, mem ''TargetVtl'' HV_VTL,
       mem ''Flags'' HV_DISABLE_PARTITION_VTL_FLAGS, mem ''ReservedZ0'' U16,
       mem ''ReservedZ1'' U32]))"

definition HV_INPUT_ENABLE_VP_VTL :: "arch \<Rightarrow> cty" where
  "HV_INPUT_ENABLE_VP_VTL a = HV_CALL_ATTRIBUTES (Struct 0 (flds_of
       [mem ''PartitionId'' HV_PARTITION_ID, mem ''VpIndex'' HV_VP_INDEX,
       mem ''TargetVtl'' HV_VTL, mem ''ReservedZ0'' U8, mem ''ReservedZ1'' U16,
       mem ''VpVtlContext'' (HV_INITIAL_VP_CONTEXT a)]))"

definition HV_DISABLE_VP_VTL_FLAGS :: cty where
  "HV_DISABLE_VP_VTL_FLAGS = Union 0 (flds_of
       [mem ''AsUINT8'' U8,
       mem '''' (Struct 0 (flds_of [bits ''ScrubOnly'' U8 1, bits ''Reserved'' U8 7]))])"

definition HV_INPUT_DISABLE_VP_VTL :: cty where
  "HV_INPUT_DISABLE_VP_VTL = HV_CALL_ATTRIBUTES (Struct 0 (flds_of
       [mem ''PartitionId'' HV_PARTITION_ID, mem ''VpIndex'' HV_VP_INDEX,
       mem ''TargetVtl'' HV_VTL, mem ''Flags'' HV_DISABLE_VP_VTL_FLAGS, mem ''ReservedZ0'' U16]))"

definition HV_INPUT_FLUSH_VIRTUAL_ADDRESS_SPACE_EX :: cty where
  "HV_INPUT_FLUSH_VIRTUAL_ADDRESS_SPACE_EX = HV_CALL_ATTRIBUTES (Struct 0 (flds_of
       [mem ''Header'' HV_INPUT_FLUSH_VIRTUAL_ADDRESS_SPACE_HEADER_EX]))"

definition HV_INPUT_FLUSH_VIRTUAL_ADDRESS_LIST_EX :: cty where
  "HV_INPUT_FLUSH_VIRTUAL_ADDRESS_LIST_EX = HV_CALL_ATTRIBUTES (Struct 0 (flds_of
       [mem ''Header'' HV_INPUT_FLUSH_VIRTUAL_ADDRESS_SPACE_HEADER_EX]))"

definition HV_INPUT_SEND_SYNTHETIC_CLUSTER_IPI_EX :: cty where
  "HV_INPUT_SEND_SYNTHETIC_CLUSTER_IPI_EX = HV_CALL_ATTRIBUTES (Struct 0 (flds_of
       [mem ''Vector'' HV_INTERRUPT_VECTOR, mem ''TargetVtl'' HV_INPUT_VTL, mem ''RsvdZ0'' U8,
       mem ''RsvdZ1'' U16, mem ''ProcessorSet'' HV_GENERIC_SET]))"

definition HV_SLOT_TRAITS :: cty where
  "HV_SLOT_TRAITS = Struct 0 (flds_of
       [mem ''StartVa'' U64, mem ''Size'' U32, bits ''IsPrimarySlot'' U32 1,
       bits ''IsSlotActive'' U32 1, bits ''IsSlotCommitted'' U32 1, bits ''ReservedZ0'' U32 29,
       mem ''Checksum'' U32, mem ''Timestamp'' U32])"

definition HV_MODULE_TRAITS :: cty where
  "HV_MODULE_TRAITS = Struct 0 (flds_of
       [mem ''ModuleName'' (Arr HV_WCHAR 8), mem ''SlotTraits'' (Arr HV_SLOT_TRAITS 3)])"

definition HV_GPA_PAGE_PERMISSION :: cty where
  "HV_GPA_PAGE_PERMISSION = Union 0 (flds_of
       [mem ''AsUINT64'' U64,
       mem '''' (Struct 0 (flds_of [bits ''Valid'' U64 1, bits ''Writable'' U64 1, bits ''Executable'' U64 1,
          bits ''ReservedZ0'' U64 9, bits ''GpaPage'' U64 40, bits ''ReservedZ1'' U64 12]))])"

definition HV_INPUT_QUERY_IMAGE_INFO :: cty where
  "HV_INPUT_QUERY_IMAGE_INFO = HV_CALL_ATTRIBUTES (Struct 0 (flds_of
       [mem ''QueryType'' Enum_ty, mem ''ReservedZ0'' U32,
       mem '''' (Union 0 (flds_of [mem ''ModuleIndex'' U64,
          mem ''Mapping'' (Struct 0 (flds_of [bits ''ModuleIndex'' U64 4, bits ''SlotIndex'' U64 2, bits ''PageCount'' U64 16,
             bits ''ReservedZ0'' U64 42, mem ''StartVa'' U64]))]))]))"

definition HV_OUTPUT_QUERY_IMAGE_INFO :: cty where
  "HV_OUTPUT_QUERY_IMAGE_INFO = HV_CALL_ATTRIBUTES (Union 0 (flds_of
       [mem ''ModuleCount'' U32, mem ''ModuleTraits'' HV_MODULE_TRAITS,
       mem ''GpaPagePerm'' (Arr HV_GPA_PAGE_PERMISSION 512)]))"

definition HV_VA_PERMISSION :: cty where
  "HV_VA_PERMISSION = Union 0 (flds_of
       [mem ''AsUINT64'' U64,
       mem '''' (Struct 0 (flds_of [bits ''Valid'' U64 1, bits ''Writable'' U64 1, bits ''Executable'' U64 1,
          bits ''ReservedZ0'' U64 9, bits ''VirtualPageFrame'' U64 52]))])"

definition HV_INPUT_MAP_IMAGE_PAGES :: cty where
  "HV_INPUT_MAP_IMAGE_PAGES = HV_CALL_ATTRIBUTES (Struct 0 (flds_of
       [bits ''ModuleIndex'' U64 4, bits ''SlotIndex'' U64 2, bits ''ReservedZ0'' U64 58,
       mem ''VirtualPageFramePerm'' (Arr HV_VA_PERMISSION 0)]))"

definition HV_INPUT_COMMIT_PATCH :: cty where
  "HV_INPUT_COMMIT_PATCH = HV_CALL_ATTRIBUTES (Struct 0 (flds_of
       [bits ''ModuleIndex'' U64 4, bits ''SlotIndex'' U64 2, bits ''UseTargetPatch'' U64 1,
       bits ''ReservedZ0'' U64 57, mem ''PatchRoutineVa'' U64,
       mem ''Descriptor'' HV_MEMORY_DESCRIPTOR]))"

definition HV_INPUT_SYNC_CONTEXT :: cty where
  "HV_INPUT_SYNC_CONTEXT = HV_CALL_ATTRIBUTES (Struct 0 (flds_of
       [mem ''Flags'' U64, mem ''ProcessorMask'' U64]))"

definition HV_INPUT_SYNC_CONTEXT_EX :: cty where
  "HV_INPUT_SYNC_CONTEXT_EX = HV_CALL_ATTRIBUTES (Struct 0 (flds_of
       [mem ''Flags'' U64, mem ''ProcessorSet'' HV_GENERIC_SET]))"

definition HV_INPUT_SET_PERF_REGISTER :: "arch \<Rightarrow> cty" where
  "HV_INPUT_SET_PERF_REGISTER a = HV_CALL_ATTRIBUTES (Struct 0 (flds_of
       [mem ''ProcessorIndex'' U32, mem ''Register'' (HV_PPM_PERF_STATE_REGISTER a),
       mem ''PreserveMask'' U64, mem ''Value'' U64]))"

definition HV_INPUT_GET_PERF_REGISTER :: "arch \<Rightarrow> cty" where
  "HV_INPUT_GET_PERF_REGISTER a = HV_CALL_ATTRIBUTES (Struct 0 (flds_of
       [mem ''ProcessorIndex'' U32, mem ''Register'' (HV_PPM_PERF_STATE_REGISTER a)]))"

definition HV_OUTPUT_GET_PERF_REGISTER :: cty where
  "HV_OUTPUT_GET_PERF_REGISTER = HV_CALL_ATTRIBUTES (Struct 0 (flds_of
       [mem ''Value'' U64]))"

definition HV_INPUT_CREATE_PARTITION_V1 :: cty where
  "HV_INPUT_CREATE_PARTITION_V1 = HV_CALL_ATTRIBUTES (Struct 0 (flds_of
       [mem ''Flags'' U64, mem ''ProximityDomainInfo'' HV_PROXIMITY_DOMAIN_INFO,
       mem ''CompatibilityVersion'' Enum_ty,
       mem ''V1Properties'' HV_PARTITION_CREATION_PROPERTIES_V1]))"

definition HV_INPUT_CREATE_PARTITION_V2 :: "arch \<Rightarrow> cty" where
  "HV_INPUT_CREATE_PARTITION_V2 a = HV_CALL_ATTRIBUTES (Struct 0 (flds_of
       [mem ''Flags'' U64, mem ''ProximityDomainInfo'' HV_PROXIMITY_DOMAIN_INFO,
       mem ''CompatibilityVersion'' Enum_ty,
       mem ''Properties'' (HV_PARTITION_CREATION_PROPERTIES_V2 a)]))"

definition HV_INPUT_CREATE_PARTITION :: "arch \<Rightarrow> cty" where
  "HV_INPUT_CREATE_PARTITION a = HV_CALL_ATTRIBUTES (Struct 0 (flds_of
       [mem ''Flags'' U64, mem ''ProximityDomainInfo'' HV_PROXIMITY_DOMAIN_INFO,
       mem ''CompatibilityVersion'' Enum_ty,
       mem ''PartitionCreationProperties'' (HV_PARTITION_CREATION_PROPERTIES a),
       mem ''IsolationProperties'' HV_PARTITION_ISOLATION_PROPERTIES]))"

definition HV_OUTPUT_CREATE_PARTITION :: cty where
  "HV_OUTPUT_CREATE_PARTITION = HV_CALL_ATTRIBUTES (Struct 0 (flds_of
       [mem ''NewPartitionId'' HV_PARTITION_ID]))"

definition HV_INPUT_INITIALIZE_PARTITION :: cty where
  "HV_INPUT_INITIALIZE_PARTITION = HV_CALL_ATTRIBUTES (Struct 0 (flds_of
       [mem ''PartitionId'' HV_PARTITION_ID]))"

definition HV_INPUT_FINALIZE_PARTITION :: cty where
  "HV_INPUT_FINALIZE_PARTITION = HV_CALL_ATTRIBUTES (Struct 0 (flds_of
       [mem ''PartitionId'' HV_PARTITION_ID]))"

definition HV_INPUT_DELETE_PARTITION :: cty where
  "HV_INPUT_DELETE_PARTITION = HV_CALL_ATTRIBUTES (Struct 0 (flds_of
       [mem ''PartitionId'' HV_PARTITION_ID]))"

definition HV_INPUT_GET_PARTITION_PROPERTY :: cty where
  "HV_INPUT_GET_PARTITION_PROPERTY = HV_CALL_ATTRIBUTES (Struct 0 (flds_of
       [mem ''PartitionId'' HV_PARTITION_ID, mem ''PropertyCode'' Enum_ty]))"

definition HV_OUTPUT_GET_PARTITION_PROPERTY :: cty where
  "HV_OUTPUT_GET_PARTITION_PROPERTY = HV_CALL_ATTRIBUTES (Struct 0 (flds_of
       [mem ''PropertyValue'' HV_PARTITION_PROPERTY]))"

definition HV_INPUT_SET_PARTITION_PROPERTY :: cty where
  "HV_INPUT_SET_PARTITION_PROPERTY = HV_CALL_ATTRIBUTES (Struct 0 (flds_of
       [mem ''PartitionId'' HV_PARTITION_ID, mem ''PropertyCode'' Enum_ty,
       mem ''PropertyValue'' HV_PARTITION_PROPERTY]))"

definition HV_OUTPUT_GET_PARTITION_ID :: cty where
  "HV_OUTPUT_GET_PARTITION_ID = HV_CALL_ATTRIBUTES (Struct 0 (flds_of
       [mem ''PartitionId'' HV_PARTITION_ID]))"

definition HV_INPUT_GET_NEXT_CHILD_PARTITION :: cty where
  "HV_INPUT_GET_NEXT_CHILD_PARTITION = HV_CALL_ATTRIBUTES (Struct 0 (flds_of
       [mem ''ParentId'' HV_PARTITION_ID, mem ''PreviousChildId'' HV_PARTITION_ID]))"

definition HV_OUTPUT_GET_NEXT_CHILD_PARTITION :: cty where
  "HV_OUTPUT_GET_NEXT_CHILD_PARTITION = HV_CALL_ATTRIBUTES (Struct 0 (flds_of
       [mem ''NextChildId'' HV_PARTITION_ID]))"

definition HV_INPUT_DEPOSIT_MEMORY :: cty where
  "HV_INPUT_DEPOSIT_MEMORY = HV_CALL_ATTRIBUTES (Struct 0 (flds_of
       [mem ''PartitionId'' HV_PARTITION_ID, mem ''GpaPageList'' (Arr HV_GPA_PAGE_NUMBER 0)]))"

definition HV_INPUT_WITHDRAW_MEMORY :: cty where
  "HV_INPUT_WITHDRAW_MEMORY = HV_CALL_ATTRIBUTES (Struct 0 (flds_of
       [mem ''PartitionId'' HV_PARTITION_ID, mem ''ProximityDomainInfo'' HV_PROXIMITY_DOMAIN_INFO]))"

definition HV_OUTPUT_WITHDRAW_MEMORY :: cty where
  "HV_OUTPUT_WITHDRAW_MEMORY = HV_CALL_ATTRIBUTES (Struct 0 (flds_of
       [mem ''GpaPageList'' (Arr HV_GPA_PAGE_NUMBER HV_ANYSIZE_ARRAY)]))"

definition HV_INPUT_GET_MEMORY_BALANCE :: cty where
  "HV_INPUT_GET_MEMORY_BALANCE = HV_CALL_ATTRIBUTES (Struct 0 (flds_of
       [mem ''PartitionId'' HV_PARTITION_ID, mem ''ProximityDomainInfo'' HV_PROXIMITY_DOMAIN_INFO]))"

definition HV_OUTPUT_GET_MEMORY_BALANCE :: cty where
  "HV_OUTPUT_GET_MEMORY_BALANCE = HV_CALL_ATTRIBUTES (Struct 0 (flds_of
       [mem ''PagesAvailable'' U64, mem ''PagesInUse'' U64]))"

definition HV_INPUT_MAP_GPA_PAGES :: cty where
  "HV_INPUT_MAP_GPA_PAGES = HV_CALL_ATTRIBUTES (Struct 0 (flds_of
       [mem ''TargetPartitionId'' HV_PARTITION_ID, mem ''TargetGpaBase'' HV_GPA_PAGE_NUMBER,
       mem ''MapFlags'' HV_MAP_GPA_FLAGS, mem ''SourceGpaPageList'' (Arr HV_GPA_PAGE_NUMBER 0)]))"

definition HV_INPUT_UNMAP_GPA_PAGES :: cty where
  "HV_INPUT_UNMAP_GPA_PAGES = HV_CALL_ATTRIBUTES (Struct 0 (flds_of
       [mem ''TargetPartitionId'' HV_PARTITION_ID, mem ''TargetGpaBase'' HV_GPA_PAGE_NUMBER,
       mem ''UnmapFlags'' U32]))"

definition HV_INPUT_INSTALL_INTERCEPT :: "arch \<Rightarrow> cty" where
  "HV_INPUT_INSTALL_INTERCEPT a = HV_CALL_ATTRIBUTES (Struct 0 (flds_of
       [mem ''PartitionId'' HV_PARTITION_ID, mem ''AccessType'' HV_INTERCEPT_ACCESS_TYPE_MASK,
       mem ''InterceptType'' Enum_ty, mem ''InterceptParameter'' (HV_INTERCEPT_PARAMETERS a)]))"

definition HV_INPUT_CREATE_VP_V1 :: cty where
  "HV_INPUT_CREATE_VP_V1 = HV_CALL_ATTRIBUTES (Struct 0 (flds_of
       [mem ''PartitionId'' HV_PARTITION_ID, mem ''VpIndex'' HV_VP_INDEX, mem ''Padding'' U32,
       mem ''ProximityDomainInfo'' HV_PROXIMITY_DOMAIN_INFO, mem ''Flags'' U64]))"

definition HV_INPUT_CREATE_VP :: cty where
  "HV_INPUT_CREATE_VP = HV_CALL_ATTRIBUTES (Struct 0 (flds_of
       [mem ''PartitionId'' HV_PARTITION_ID, mem ''VpIndex'' HV_VP_INDEX,
       mem ''Padding'' (Arr U8 3), mem ''SubnodeType'' U8, mem ''SubnodeId'' U64,
       mem ''ProximityDomainInfo'' HV_PROXIMITY_DOMAIN_INFO, mem ''Flags'' U64]))"

definition HV_INPUT_DELETE_VP :: cty where
  "HV_INPUT_DELETE_VP = HV_CALL_ATTRIBUTES (Struct 0 (flds_of
       [mem ''PartitionId'' HV_PARTITION_ID, mem ''VpIndex'' HV_VP_INDEX]))"

definition HV_INPUT_GET_VP_REGISTERS :: cty where
  "HV_INPUT_GET_VP_REGISTERS = HV_CALL_ATTRIBUTES (Struct 0 (flds_of
       [mem ''PartitionId'' HV_PARTITION_ID, mem ''VpIndex'' HV_VP_INDEX,
       mem ''InputVtl'' HV_INPUT_VTL, mem ''RsvdZ8'' U8, mem ''RsvdZ16'' U16,
       mem ''Names'' (Arr Enum_ty 0)]))"

definition HV_OUTPUT_GET_VP_REGISTERS :: cty where
  "HV_OUTPUT_GET_VP_REGISTERS = HV_CALL_ATTRIBUTES_ALIGNED 16 (Struct 0 (flds_of
       [mem ''Values'' (Arr HV_REGISTER_VALUE HV_ANYSIZE_ARRAY)]))"

definition HV_REGISTER_ASSOC :: cty where
  "HV_REGISTER_ASSOC = Struct 0 (flds_of
       [mem ''Name'' Enum_ty, mem ''Reserved1'' U32, mem ''Reserved2'' U64,
       mem ''Value'' HV_REGISTER_VALUE])"

definition HV_INPUT_SET_VP_REGISTERS :: cty where
  "HV_INPUT_SET_VP_REGISTERS = HV_CALL_ATTRIBUTES_ALIGNED 16 (Struct 0 (flds_of
       [mem ''PartitionId'' HV_PARTITION_ID, mem ''VpIndex'' HV_VP_INDEX,
       mem ''InputVtl'' HV_INPUT_VTL, mem ''RsvdZ8'' U8, mem ''RsvdZ16'' U16,
       mem ''Elements'' (Arr HV_REGISTER_ASSOC 0)]))"

definition HV_INPUT_TRANSLATE_VIRTUAL_ADDRESS :: cty where
  "HV_INPUT_TRANSLATE_VIRTUAL_ADDRESS = HV_CALL_ATTRIBUTES (Struct 0 (flds_of
       [mem ''PartitionId'' HV_PARTITION_ID, mem ''VpIndex'' HV_VP_INDEX,
       mem ''ControlFlags'' HV_TRANSLATE_GVA_CONTROL_FLAGS, mem ''GvaPage'' HV_GVA_PAGE_NUMBER]))"

definition HV_OUTPUT_TRANSLATE_VIRTUAL_ADDRESS :: cty where
  "HV_OUTPUT_TRANSLATE_VIRTUAL_ADDRESS = HV_CALL_ATTRIBUTES (Struct 0 (flds_of
       [mem ''TranslationResult'' HV_TRANSLATE_GVA_RESULT, mem ''GpaPage'' HV_GPA_PAGE_NUMBER]))"

definition HV_INPUT_READ_GPA :: cty where
  "HV_INPUT_READ_GPA = HV_CALL_ATTRIBUTES (Struct 0 (flds_of
       [mem ''PartitionId'' HV_PARTITION_ID, mem ''VpIndex'' HV_VP_INDEX, mem ''ByteCount'' U32,
       mem ''BaseGpa'' HV_GPA, mem ''ControlFlags'' HV_ACCESS_GPA_CONTROL_FLAGS]))"

definition HV_OUTPUT_READ_GPA :: cty where
  "HV_OUTPUT_READ_GPA = HV_CALL_ATTRIBUTES (Struct 0 (flds_of
       [mem ''AccessResult'' HV_ACCESS_GPA_RESULT, mem ''Data'' (Arr U8 16)]))"

definition HV_INPUT_WRITE_GPA :: cty where
  "HV_INPUT_WRITE_GPA = HV_CALL_ATTRIBUTES (Struct 0 (flds_of
       [mem ''PartitionId'' HV_PARTITION_ID, mem ''VpIndex'' HV_VP_INDEX, mem ''ByteCount'' U32,
       mem ''BaseGpa'' HV_GPA, mem ''ControlFlags'' HV_ACCESS_GPA_CONTROL_FLAGS,
       mem ''Data'' (Arr U8 16)]))"

definition HV_OUTPUT_WRITE_GPA :: cty where
  "HV_OUTPUT_WRITE_GPA = HV_CALL_ATTRIBUTES (Struct 0 (flds_of
       [mem ''AccessResult'' HV_ACCESS_GPA_RESULT]))"

definition HV_INPUT_ASSERT_VIRTUAL_INTERRUPT_DEPRECATED :: "arch \<Rightarrow> cty" where
  "HV_INPUT_ASSERT_VIRTUAL_INTERRUPT_DEPRECATED a = HV_CALL_ATTRIBUTES (Struct 0 (flds_of
       [mem ''TargetPartition'' HV_PARTITION_ID,
       mem ''InterruptControl'' (HV_INTERRUPT_CONTROL a), mem ''DestinationAddress'' U64,
       mem ''RequestedVector'' HV_INTERRUPT_VECTOR, mem ''Reserved'' U32]))"

definition HV_INPUT_CLEAR_VIRTUAL_INTERRUPT :: cty where
  "HV_INPUT_CLEAR_VIRTUAL_INTERRUPT = HV_CALL_ATTRIBUTES (Struct 0 (flds_of
       [mem ''TargetPartition'' HV_PARTITION_ID]))"

definition HV_INPUT_CREATE_PORT_DEPRECATED :: cty where
  "HV_INPUT_CREATE_PORT_DEPRECATED = HV_CALL_ATTRIBUTES (Struct 0 (flds_of
       [mem ''PortPartition'' HV_PARTITION_ID, mem ''PortId'' HV_PORT_ID, mem ''Padding'' U32,
       mem ''ConnectionPartition'' HV_PARTITION_ID, mem ''PortInfo'' HV_PORT_INFO]))"

definition HV_INPUT_DELETE_PORT :: cty where
  "HV_INPUT_DELETE_PORT = HV_CALL_ATTRIBUTES (Struct 0 (flds_of
       [mem ''PortPartition'' HV_PARTITION_ID, mem ''PortId'' HV_PORT_ID, mem ''Reserved'' U32]))"

definition HV_INPUT_CONNECT_PORT_DEPRECATED :: cty where
  "HV_INPUT_CONNECT_PORT_DEPRECATED = HV_CALL_ATTRIBUTES (Struct 0 (flds_of
       [mem ''ConnectionPartition'' HV_PARTITION_ID, mem ''ConnectionId'' HV_CONNECTION_ID,
       mem ''Reserved1'' U32, mem ''PortPartition'' HV_PARTITION_ID, mem ''PortId'' HV_PORT_ID,
       mem ''Reserved2'' U32, mem ''ConnectionInfo'' HV_CONNECTION_INFO]))"

definition HV_INPUT_GET_PORT_PROPERTY :: cty where
  "HV_INPUT_GET_PORT_PROPERTY = HV_CALL_ATTRIBUTES (Struct 0 (flds_of
       [mem ''PortPartition'' HV_PARTITION_ID, mem ''PortId'' HV_PORT_ID, mem ''Reserved'' U32,
       mem ''PropertyCode'' Enum_ty]))"

definition HV_OUTPUT_GET_PORT_PROPERTY :: cty where
  "HV_OUTPUT_GET_PORT_PROPERTY = HV_CALL_ATTRIBUTES (Struct 0 (flds_of
       [mem ''PropertyValue'' HV_PORT_PROPERTY]))"

definition HV_INPUT_DISCONNECT_PORT :: cty where
  "HV_INPUT_DISCONNECT_PORT = HV_CALL_ATTRIBUTES (Struct 0 (flds_of
       [mem ''ConnectionPartition'' HV_PARTITION_ID, mem ''ConnectionId'' HV_CONNECTION_ID,
       bits ''IsDoorbell'' U32 1, bits ''Reserved'' U32 31]))"

definition HV_INPUT_SAVE_PARTITION_STATE :: cty where
  "HV_INPUT_SAVE_PARTITION_STATE = HV_CALL_ATTRIBUTES (Struct 0 (flds_of
       [mem ''PartitionId'' HV_PARTITION_ID, mem ''Flags'' HV_SAVE_RESTORE_STATE_FLAGS]))"

definition HV_OUTPUT_SAVE_PARTITION_STATE :: cty where
  "HV_OUTPUT_SAVE_PARTITION_STATE = HV_CALL_ATTRIBUTES (Struct 0 (flds_of
       [mem ''SaveDataCount'' U32, mem ''SaveState'' Enum_ty, mem ''SaveData'' (Arr U8 4080)]))"

definition HV_INPUT_RESTORE_PARTITION_STATE :: cty where
  "HV_INPUT_RESTORE_PARTITION_STATE = HV_CALL_ATTRIBUTES (Struct 0 (flds_of
       [mem ''PartitionId'' HV_PARTITION_ID, mem ''Flags'' HV_SAVE_RESTORE_STATE_FLAGS,
       mem ''RestoreDataCount'' U32, mem ''RestoreData'' (Arr U8 4080)]))"

definition HV_OUTPUT_RESTORE_PARTITION_STATE :: cty where
  "HV_OUTPUT_RESTORE_PARTITION_STATE = HV_CALL_ATTRIBUTES (Struct 0 (flds_of
       [mem ''RestoreState'' Enum_ty, mem ''RestoreDataConsumed'' U32]))"

definition HV_EVENTLOG_INIT_TYPE :: cty where
  "HV_EVENTLOG_INIT_TYPE = Struct 0 (flds_of
       [mem ''EventLogType'' U16, mem ''EventLogMode'' U16])"

definition HV_INPUT_INITIALIZE_EVENTLOG_BUFFER_GROUP :: cty where
  "HV_INPUT_INITIALIZE_EVENTLOG_BUFFER_GROUP = HV_CALL_ATTRIBUTES (Struct 0 (flds_of
       [mem ''EventLogInitType'' HV_EVENTLOG_INIT_TYPE, mem ''MaximumBufferCount'' U32,
       mem ''BufferSizeInPages'' U32, mem ''Threshold'' U32, mem ''TimeBasis'' Enum_ty,
       mem ''SystemTime'' HV_NANO100_TIME]))"

definition HV_INPUT_FINALIZE_EVENTLOG_BUFFER_GROUP :: cty where
  "HV_INPUT_FINALIZE_EVENTLOG_BUFFER_GROUP = HV_CALL_ATTRIBUTES (Struct 0 (flds_of
       [mem ''EventLogType'' Enum_ty]))"

definition HV_INPUT_CREATE_EVENTLOG_BUFFER :: cty where
  "HV_INPUT_CREATE_EVENTLOG_BUFFER = HV_CALL_ATTRIBUTES (Struct 0 (flds_of
       [mem ''EventLogType'' Enum_ty, mem ''BufferIndex'' HV_EVENTLOG_BUFFER_INDEX,
       mem ''ProximityInfo'' HV_PROXIMITY_DOMAIN_INFO]))"

definition HV_INPUT_DELETE_EVENTLOG_BUFFER :: cty where
  "HV_INPUT_DELETE_EVENTLOG_BUFFER = HV_CALL_ATTRIBUTES (Struct 0 (flds_of
       [mem ''EventLogType'' Enum_ty, mem ''BufferIndex'' HV_EVENTLOG_BUFFER_INDEX]))"

definition HV_INPUT_MAP_EVENTLOG_BUFFER :: cty where
  "HV_INPUT_MAP_EVENTLOG_BUFFER = HV_CALL_ATTRIBUTES (Struct 0 (flds_of
       [mem ''EventLogType'' Enum_ty, mem ''BufferIndex'' HV_EVENTLOG_BUFFER_INDEX]))"

definition HV_OUTPUT_MAP_EVENTLOG_BUFFER :: cty where
  "HV_OUTPUT_MAP_EVENTLOG_BUFFER = HV_CALL_ATTRIBUTES (Struct 0 (flds_of
       [mem ''GpaPageNumbers'' (Arr HV_GPA_PAGE_NUMBER 512)]))"

definition HV_INPUT_UNMAP_EVENTLOG_BUFFER :: cty where
  "HV_INPUT_UNMAP_EVENTLOG_BUFFER = HV_CALL_ATTRIBUTES (Struct 0 (flds_of
       [mem ''EventLogType'' Enum_ty, mem ''BufferIndex'' HV_EVENTLOG_BUFFER_INDEX]))"

definition HV_INPUT_EVENTLOG_GROUP_EVENTS :: cty where
  "HV_INPUT_EVENTLOG_GROUP_EVENTS = HV_CALL_ATTRIBUTES (Struct 0 (flds_of
       [mem ''EventLogType'' Enum_ty, mem ''EnableFlags'' U64]))"

definition HV_INPUT_EVENTLOG_RELEASE_BUFFER :: cty where
  "HV_INPUT_EVENTLOG_RELEASE_BUFFER = HV_CALL_ATTRIBUTES (Struct 0 (flds_of
       [mem ''EventLogType'' Enum_ty, mem ''BufferIndex'' HV_EVENTLOG_BUFFER_INDEX]))"

definition HV_INPUT_FLUSH_EVENTLOG_BUFFER :: cty where
  "HV_INPUT_FLUSH_EVENTLOG_BUFFER = HV_CALL_ATTRIBUTES (Struct 0 (flds_of
       [mem ''EventLogType'' Enum_ty, mem ''BufferIndex'' HV_EVENTLOG_BUFFER_INDEX]))"

definition HV_INPUT_POST_DEBUG_DATA :: cty where
  "HV_INPUT_POST_DEBUG_DATA = HV_CALL_ATTRIBUTES (Struct 0 (flds_of
       [mem ''Count'' U32, mem ''Options'' HV_DEBUG_OPTIONS,
       mem ''Data'' (Arr U8 (unat HV_DEBUG_MAXIMUM_DATA_SIZE))]))"

definition HV_OUTPUT_POST_DEBUG_DATA :: cty where
  "HV_OUTPUT_POST_DEBUG_DATA = HV_CALL_ATTRIBUTES (Struct 0 (flds_of
       [mem ''PendingCount'' U32]))"

definition HV_INPUT_RETRIEVE_DEBUG_DATA :: cty where
  "HV_INPUT_RETRIEVE_DEBUG_DATA = HV_CALL_ATTRIBUTES (Struct 0 (flds_of
       [mem ''Count'' U32, mem ''Options'' HV_DEBUG_OPTIONS, mem ''Timeout'' HV_NANO100_DURATION]))"

definition HV_OUTPUT_RETRIEVE_DEBUG_DATA :: cty where
  "HV_OUTPUT_RETRIEVE_DEBUG_DATA = HV_CALL_ATTRIBUTES (Struct 0 (flds_of
       [mem ''RetrievedCount'' U32, mem ''RemainingCount'' U32,
       mem ''Data'' (Arr U8 (unat HV_DEBUG_MAXIMUM_DATA_SIZE))]))"

definition HV_INPUT_RESET_DEBUG_SESSION :: cty where
  "HV_INPUT_RESET_DEBUG_SESSION = HV_CALL_ATTRIBUTES (Struct 0 (flds_of
       [mem ''Options'' HV_DEBUG_OPTIONS]))"

definition HV_OUTPUT_RESET_DEBUG_SESSION :: cty where
  "HV_OUTPUT_RESET_DEBUG_SESSION = HV_CALL_ATTRIBUTES (Struct 0 (flds_of
       [mem ''NetData'' HV_DEBUG_NET_DATA]))"

definition HV_INPUT_MAP_STATS_PAGE :: cty where
  "HV_INPUT_MAP_STATS_PAGE = HV_CALL_ATTRIBUTES (Struct 0 (flds_of
       [mem ''StatsType'' Enum_ty, mem ''ObjectIdentity'' HV_STATS_OBJECT_IDENTITY,
       mem ''MapLocation'' HV_GPA_PAGE_NUMBER]))"

definition HV_OUTPUT_MAP_STATS_PAGE :: cty where
  "HV_OUTPUT_MAP_STATS_PAGE = HV_CALL_ATTRIBUTES (Struct 0 (flds_of
       [mem ''MapLocation'' U64]))"

definition HV_INPUT_UNMAP_STATS_PAGE :: cty where
  "HV_INPUT_UNMAP_STATS_PAGE = HV_CALL_ATTRIBUTES (Struct 0 (flds_of
       [mem ''StatsType'' Enum_ty, mem ''ObjectIdentity'' HV_STATS_OBJECT_IDENTITY,
       mem ''MapLocation'' HV_GPA_PAGE_NUMBER]))"

definition HV_GPA_MAPPING :: cty where
  "HV_GPA_MAPPING = Struct 0 (flds_of
       [mem ''TargetGpaPageNumber'' HV_GPA_PAGE_NUMBER,
       mem ''SourceGpaPageNumber'' HV_GPA_PAGE_NUMBER])"

definition HV_INPUT_MAP_SPARSE_GPA_PAGES :: cty where
  "HV_INPUT_MAP_SPARSE_GPA_PAGES = HV_CALL_ATTRIBUTES (Struct 0 (flds_of
       [mem ''TargetPartitionId'' HV_PARTITION_ID, mem ''MapFlags'' HV_MAP_GPA_FLAGS,
       mem ''PageList'' (Arr HV_GPA_MAPPING 0)]))"

definition HV_INPUT_SET_SYSTEM_PROPERTY :: "arch \<Rightarrow> cty" where
  "HV_INPUT_SET_SYSTEM_PROPERTY a = HV_CALL_ATTRIBUTES (Struct 0 (flds_of
       [mem ''PropertyId'' Enum_ty, mem ''Reserved'' U32,
       mem ''Property'' (Union 0 (flds_of [mem ''PerfCounter'' (Struct 0 (flds_of [mem ''EventType'' U16, mem ''ReservedZ1'' U16, mem ''ReservedZ2'' U32, mem ''Period'' U64])),
          mem ''IommuLiveHandoff'' U8, mem ''SetSleepStateInformation'' HV_SLEEP_STATE_INFO,
          mem ''MachineCheckStateInformation'' HV_MACHINE_CHECK_PROPERTY_INFO,
          mem ''Debug'' HV_HYPERVISOR_DEBUG_PROPERTY,
          mem ''PowerPolicySetting'' HV_PPM_POWER_POLICY_SETTING,
          mem ''HpetConfigInfo'' (HV_HPET_CONFIG_INFO a),
          mem ''HpetEnabledInfo'' HV_HPET_ENABLED_INFO, mem ''HostTimeline'' HV_HOST_TIMELINE_INFO,
          mem ''SmcDataPath'' HV_SMC_DATA_PATH_PROPERTY,
          mem ''SystemMirroring'' HV_SYSTEM_MIRRORING_PROPERTY,
          mem ''ResourceControl'' HV_RESOURCE_CONTROL_VALUE_PROPERTY, mem ''GuestAssert'' U8,
          mem ''MaxSchedulingIntervalInUs'' U32, mem ''ProtoAbiVersion'' U32,
          mem ''CrashdumpAreaAddress'' HV_SPA_PAGE_RANGE, mem ''DefaultIoCacheBitmap'' U64,
          mem ''HardwareIsolationEnabled'' U8]))]))"

definition HV_INPUT_SET_PORT_PROPERTY :: cty where
  "HV_INPUT_SET_PORT_PROPERTY = HV_CALL_ATTRIBUTES (Struct 0 (flds_of
       [mem ''PortPartition'' HV_PARTITION_ID, mem ''PortId'' HV_PORT_ID, mem ''Reserved'' U32,
       mem ''PropertyCode'' Enum_ty, mem ''PropertyValue'' HV_PORT_PROPERTY]))"

definition HV_INPUT_ADD_LOGICAL_PROCESSOR :: "arch \<Rightarrow> cty" where
  "HV_INPUT_ADD_LOGICAL_PROCESSOR a = HV_CALL_ATTRIBUTES (Struct 0 (flds_of
       ([mem ''LpIndex'' HV_LOGICAL_PROCESSOR_INDEX] @
        (case a of X64 \<Rightarrow> [mem ''ApicId'' HV_APIC_ID] | ARM64 \<Rightarrow>
        [mem ''ProcHwId'' HV_PROCESSOR_HW_ID]) @
        [mem ''ProximityDomainInfo'' HV_PROXIMITY_DOMAIN_INFO] @
        (case a of X64 \<Rightarrow> [mem ''Flags'' U64] | ARM64 \<Rightarrow> []))))"

definition HV_OUTPUT_ADD_LOGICAL_PROCESSOR :: cty where
  "HV_OUTPUT_ADD_LOGICAL_PROCESSOR = HV_CALL_ATTRIBUTES (Struct 0 (flds_of
       [mem ''StartupStatus'' HV_LP_STARTUP_STATUS]))"

definition HV_INPUT_REMOVE_LOGICAL_PROCESSOR :: cty where
  "HV_INPUT_REMOVE_LOGICAL_PROCESSOR = HV_CALL_ATTRIBUTES (Struct 0 (flds_of
       [mem ''LpIndex'' HV_LOGICAL_PROCESSOR_INDEX, mem ''Flags'' U64]))"

definition HV_INPUT_QUERY_NUMA_DISTANCE :: cty where
  "HV_INPUT_QUERY_NUMA_DISTANCE = HV_CALL_ATTRIBUTES (Struct 0 (flds_of
       [mem ''CpuProximityId'' U32, mem ''MemoryProximityId'' U32]))"

definition HV_OUTPUT_QUERY_NUMA_DISTANCE :: cty where
  "HV_OUTPUT_QUERY_NUMA_DISTANCE = HV_CALL_ATTRIBUTES (Struct 0 (flds_of
       [mem ''Distance'' U64]))"

definition HV_INPUT_SET_LOGICAL_PROCESSOR_PROPERTY :: "arch \<Rightarrow> cty" where
  "HV_INPUT_SET_LOGICAL_PROCESSOR_PROPERTY a = HV_CALL_ATTRIBUTES (Struct 0 (flds_of
       [mem ''LpIndex'' HV_LOGICAL_PROCESSOR_INDEX, mem ''Type'' Enum_ty,
       mem ''Property'' (HV_LOGICAL_PROCESSOR_PROPERTY a)]))"

definition HV_INPUT_GET_LOGICAL_PROCESSOR_PROPERTY :: cty where
  "HV_INPUT_GET_LOGICAL_PROCESSOR_PROPERTY = HV_CALL_ATTRIBUTES (Struct 0 (flds_of
       [mem ''LpIndex'' HV_LOGICAL_PROCESSOR_INDEX, mem ''Type'' Enum_ty]))"

definition HV_OUTPUT_GET_LOGICAL_PROCESSOR_PROPERTY :: "arch \<Rightarrow> cty" where
  "HV_OUTPUT_GET_LOGICAL_PROCESSOR_PROPERTY a = HV_CALL_ATTRIBUTES (Struct 0 (flds_of
       [mem ''Property'' (HV_LOGICAL_PROCESSOR_PROPERTY a)]))"

definition HV_INPUT_GET_SYSTEM_PROPERTY :: "arch \<Rightarrow> cty" where
  "HV_INPUT_GET_SYSTEM_PROPERTY a = HV_CALL_ATTRIBUTES (Struct 0 (flds_of
       ([mem ''PropertyId'' Enum_ty] @
        (case a of X64 \<Rightarrow> [] | ARM64 \<Rightarrow> [mem ''Reserved'' U32]) @
        [mem ''Property'' (Union 0 (flds_of ((case a of X64 \<Rightarrow> [mem ''SettingId'' Enum_ty] | ARM64 \<Rightarrow>
           [mem ''AsUINT64'' U64, mem ''LpIndex'' HV_LOGICAL_PROCESSOR_INDEX,
          mem ''Resource'' (Struct 0 (flds_of [mem ''Type'' Enum_ty, mem ''Id'' U32]))]))))])))"

definition HV_OUTPUT_GET_SYSTEM_PROPERTY :: "arch \<Rightarrow> cty" where
  "HV_OUTPUT_GET_SYSTEM_PROPERTY a = HV_CALL_ATTRIBUTES (Union 0 (flds_of
       [mem ''PerfCounter'' (Struct 0 (flds_of [mem ''EventType'' U16, mem ''ReservedZ1'' U16, mem ''ReservedZ2'' U32, mem ''Period'' U64])),
       mem ''IommuInitStatus'' HV_IOMMU_INIT_STATUS,
       mem ''HvLaunchStats'' HV_HYPERVISOR_LAUNCH_STATS, mem ''SchedulerType'' Enum_ty,
       mem ''VirtualizationInfo'' HV_PLATFORM_VIRTUALIZATION_SUPPORT_INFO,
       mem ''PowerPolicySetting'' HV_PPM_POWER_POLICY_SETTING,
       mem ''TscSyncStatus'' HV_TSC_SYNC_STATUS, mem ''HpetConfigInfo'' (HV_HPET_CONFIG_INFO a),
       mem ''HpetInterruptInfo'' (HV_HPET_INTERRUPT_INFO a),
       mem ''HpetEnabledInfo'' HV_HPET_ENABLED_INFO,
       mem ''RootSvmCapabilities'' HV_ROOT_SVM_CAPABILITIES_PROPERTY,
       mem ''RootNumaCostPages'' HV_ROOT_NUMA_COST_PAGES_PROPERTY,
       mem ''HvHostPageTableRoot'' U64, mem ''HvHostDbgTransferPagesRange'' HV_SPA_PAGE_RANGE,
       mem ''SmcDataPath'' HV_SMC_DATA_PATH_PROPERTY, mem ''DmaInitializeBlocked'' U8,
       mem ''ResourceMonitorData'' HV_RESOURCE_CONTROL_MONITOR_DATA,
       mem ''ResourceControlSupport'' HV_RESOURCE_CONTROL_SUPPORT_PROPERTY,
       mem ''ResourceControlValues'' HV_RESOURCE_CONTROL_VALUES_PROPERTY,
       mem ''GuestStateScrubbingStatus'' U32,
       mem ''SystemDiagnosticsLog'' HV_SYSTEM_DIAG_LOG_BUFFER_CONFIG,
       mem ''IommuLiveHandoff'' U8, mem ''IommuDomainIdSelector'' U32, mem ''GuestAssert'' U8,
       mem ''LogicalProcessorCount'' U32,
       mem ''SchedulingInterval'' HV_SCHEDULING_INTERVAL_INFO,
       mem ''SubnodeInfo'' (Arr HV_SUBNODE 16),
       mem ''VirtualizationFeatures'' HV_VIRTUALIZATION_FEATURE_SET,
       mem ''BootConfig'' HV_BOOT_CONFIG_PROPERTY, mem ''RebootCount'' U32,
       mem ''ProtoAbiVersion'' U32, mem ''SystemMirroring'' HV_SYSTEM_MIRRORING_PROPERTY,
       mem ''MicrocodeLatencyTime'' U64, mem ''CrashdumpAreaAddress'' HV_SPA_PAGE_RANGE]))"

definition HV_INPUT_MAP_DEVICE_INTERRUPT :: "arch \<Rightarrow> cty" where
  "HV_INPUT_MAP_DEVICE_INTERRUPT a = HV_CALL_ATTRIBUTES (Struct 0 (flds_of
       ([mem ''PartitionId'' HV_PARTITION_ID, mem ''DeviceId'' (HV_DEVICE_ID a)] @
        (case a of X64 \<Rightarrow> [mem ''Flags'' U64] | ARM64 \<Rightarrow>
        [mem ''Flags'' U32, mem ''BaseIrtIndex'' U32,
       mem ''LogicalInterruptEntry'' (HV_INTERRUPT_ENTRY a)]) @
        [mem ''InterruptDescriptor'' HV_DEVICE_INTERRUPT_DESCRIPTOR])))"

definition HV_OUTPUT_MAP_DEVICE_INTERRUPT :: "arch \<Rightarrow> cty" where
  "HV_OUTPUT_MAP_DEVICE_INTERRUPT a = HV_CALL_ATTRIBUTES (Struct 0 (flds_of
       [mem ''InterruptEntry'' (HV_INTERRUPT_ENTRY a),
       mem ''ExtendedStatus'' HV_IOMMU_EXTENDED_STATUS]))"

definition HV_INPUT_UNMAP_DEVICE_INTERRUPT :: "arch \<Rightarrow> cty" where
  "HV_INPUT_UNMAP_DEVICE_INTERRUPT a = HV_CALL_ATTRIBUTES (Struct 0 (flds_of
       ([mem ''PartitionId'' HV_PARTITION_ID, mem ''DeviceId'' (HV_DEVICE_ID a),
       mem ''InterruptEntry'' (HV_INTERRUPT_ENTRY a)] @
        (case a of X64 \<Rightarrow> [] | ARM64 \<Rightarrow> [mem ''Flags'' U32]))))"

definition HV_INPUT_RETARGET_DEVICE_INTERRUPT :: "arch \<Rightarrow> cty" where
  "HV_INPUT_RETARGET_DEVICE_INTERRUPT a = HV_CALL_ATTRIBUTES (Struct 0 (flds_of
       [mem ''PartitionId'' HV_PARTITION_ID, mem ''DeviceId'' (HV_DEVICE_ID a),
       mem ''InterruptEntry'' (HV_INTERRUPT_ENTRY a), mem ''Reserved'' U64,
       mem ''InterruptTarget'' HV_DEVICE_INTERRUPT_TARGET]))"

definition HV_OUTPUT_RETARGET_ROOT_DEVICE_INTERRUPT :: "arch \<Rightarrow> cty" where
  "HV_OUTPUT_RETARGET_ROOT_DEVICE_INTERRUPT a = HV_CALL_ATTRIBUTES (Struct 0 (flds_of
       [mem ''InterruptEntry'' (HV_INTERRUPT_ENTRY a)]))"

definition HV_INPUT_ASSERT_DEVICE_INTERRUPT :: "arch \<Rightarrow> cty" where
  "HV_INPUT_ASSERT_DEVICE_INTERRUPT a = HV_CALL_ATTRIBUTES (Struct 0 (flds_of
       [mem ''PartitionId'' HV_PARTITION_ID, mem ''LogicalDeviceId'' HV_LOGICAL_DEVICE_ID,
       mem ''InterruptEntry'' (HV_INTERRUPT_ENTRY a)]))"

definition HV_INPUT_ATTACH_DEVICE :: "arch \<Rightarrow> cty" where
  "HV_INPUT_ATTACH_DEVICE a = HV_CALL_ATTRIBUTES (Struct 0 (flds_of
       [mem ''PartitionId'' HV_PARTITION_ID, mem ''DeviceId'' (HV_DEVICE_ID a),
       mem ''Flags'' (HV_ATTACH_DEVICE_FLAGS a), mem ''Vtl'' HV_VTL, mem ''Reserved0'' U8,
       mem ''Reserved1'' U16, mem ''LogicalDeviceId'' HV_LOGICAL_DEVICE_ID,
       mem ''PciCapabilities'' HV_DEVICE_PCI_CAPABILITIES, mem ''Reserved2'' U32]))"

definition HV_INPUT_DETACH_DEVICE :: "arch \<Rightarrow> cty" where
  "HV_INPUT_DETACH_DEVICE a = HV_CALL_ATTRIBUTES (Struct 0 (flds_of
       [mem ''PartitionId'' HV_PARTITION_ID, mem ''DeviceId'' (HV_DEVICE_ID a)]))"

definition HV_INPUT_ENTER_SLEEP_STATE :: cty where
  "HV_INPUT_ENTER_SLEEP_STATE = HV_CALL_ATTRIBUTES (Struct 0 (flds_of
       [mem ''SleepState'' Enum_ty]))"

definition HV_INPUT_PREPARE_FOR_SLEEP :: cty where
  "HV_INPUT_PREPARE_FOR_SLEEP = HV_CALL_ATTRIBUTES (Struct 0 (flds_of
       [mem ''Entering'' HV_BOOLEAN, mem ''ModernStandby'' HV_BOOLEAN]))"

definition HV_INPUT_PREPARE_FOR_HIBERNATE :: "arch \<Rightarrow> cty" where
  "HV_INPUT_PREPARE_FOR_HIBERNATE a = HV_CALL_ATTRIBUTES (Struct 0 (flds_of
       ((case a of X64 \<Rightarrow> [mem ''ResumeGpRegs'' HV_X64_PROC_STATE_GP_REGS] | ARM64 \<Rightarrow>
        [mem ''ResumeGpRegs'' HV_ARM64_PROC_STATE_GP_REGS]) @
        [mem ''RestrictApVtl'' HV_VTL])))"

definition HV_X64_OUTPUT_PREPARE_FOR_HIBERNATE :: cty where
  "HV_X64_OUTPUT_PREPARE_FOR_HIBERNATE = HV_CALL_ATTRIBUTES (Struct 0 (flds_of
       [mem ''HvCr3'' U64, mem ''HvEntryPoint'' U64, mem ''HvReservedTransitionAddress'' U64,
       mem ''HvReservedTransitionAddressSize'' U64]))"

definition HV_INPUT_NOTIFY_PARTITION_EVENT :: cty where
  "HV_INPUT_NOTIFY_PARTITION_EVENT = HV_CALL_ATTRIBUTES (Struct 0 (flds_of
       [mem ''Event'' Enum_ty, mem ''Input'' HV_PARTITION_EVENT_INPUT]))"

definition HV_INPUT_QUERY_ASSOCIATED_LP_FOR_MCA :: cty where
  "HV_INPUT_QUERY_ASSOCIATED_LP_FOR_MCA = HV_CALL_ATTRIBUTES (Struct 0 (flds_of
       [mem ''VpIndex'' HV_VP_INDEX]))"

definition HV_OUTPUT_QUERY_ASSOCIATED_LP_FOR_MCA :: cty where
  "HV_OUTPUT_QUERY_ASSOCIATED_LP_FOR_MCA = HV_CALL_ATTRIBUTES (Struct 0 (flds_of
       [mem ''Count'' U32, mem ''AssociatedLpList'' (Arr U16 320)]))"

definition HV_INPUT_NOTIFY_PORT_RING_EMPTY :: cty where
  "HV_INPUT_NOTIFY_PORT_RING_EMPTY = HV_CALL_ATTRIBUTES (Union 0 (flds_of
       [mem ''AsUINT64'' U64,
       mem '''' (Struct 0 (flds_of [mem ''SintIndex'' U32, mem ''Reserved'' U32]))]))"

definition HV_INPUT_INJECT_SYNTHETIC_MACHINE_CHECK :: "arch \<Rightarrow> cty" where
  "HV_INPUT_INJECT_SYNTHETIC_MACHINE_CHECK a = HV_CALL_ATTRIBUTES (Struct 0 (flds_of
       ([mem ''PartitionId'' HV_PARTITION_ID, mem ''VpIndex'' HV_VP_INDEX] @
        (case a of X64 \<Rightarrow> [] | ARM64 \<Rightarrow> [mem ''SynmcEvent'' HV_SYNMC_EVENT]))))"

definition HV_INPUT_SCRUB_PARTITION :: cty where
  "HV_INPUT_SCRUB_PARTITION = HV_CALL_ATTRIBUTES (Struct 0 (flds_of
       [mem ''PartitionId'' HV_PARTITION_ID]))"

definition HV_INPUT_COLLECT_LIVE_DUMP :: cty where
  "HV_INPUT_COLLECT_LIVE_DUMP = HV_CALL_ATTRIBUTES (Struct 0 (flds_of
       [mem ''Flags'' U64, mem ''Descriptor'' HV_MEMORY_DESCRIPTOR]))"

definition HV_OUTPUT_COLLECT_LIVE_DUMP :: cty where
  "HV_OUTPUT_COLLECT_LIVE_DUMP = HV_CALL_ATTRIBUTES (Struct 0 (flds_of
       [mem ''PagesCopied'' U64, mem ''DepositedPages'' U64]))"

definition HV_X64_INPUT_DISABLE_HYPERVISOR :: cty where
  "HV_X64_INPUT_DISABLE_HYPERVISOR = HV_CALL_ATTRIBUTES (Struct 0 (flds_of
       [mem ''TrampolineCr3'' U64, mem ''KernelCr3'' U64, mem ''Rip'' U64]))"

definition HV_ARM64_INPUT_LAUNCH_HYPERVISOR :: cty where
  "HV_ARM64_INPUT_LAUNCH_HYPERVISOR = HV_CALL_ATTRIBUTES (Struct 0 (flds_of
       [mem ''HvEntryPoint'' U64]))"

definition HV_INPUT_MODIFY_SPARSE_GPA_PAGES :: cty where
  "HV_INPUT_MODIFY_SPARSE_GPA_PAGES = HV_CALL_ATTRIBUTES (Struct 0 (flds_of
       [mem ''TargetPartitionId'' HV_PARTITION_ID, mem ''MapFlags'' U32, mem ''Rsvdz'' U32,
       mem ''GpaPageList'' (Arr HV_GPA_PAGE_NUMBER 0)]))"

definition HV_INPUT_REGISTER_INTERCEPT_RESULT :: cty where
  "HV_INPUT_REGISTER_INTERCEPT_RESULT = HV_CALL_ATTRIBUTES (Struct 0 (flds_of
       [mem ''PartitionId'' HV_PARTITION_ID, mem ''VpIndex'' HV_VP_INDEX,
       mem ''InterceptType'' Enum_ty, mem ''Parameters'' HV_REGISTER_INTERCEPT_RESULT_PARAMETERS]))"

definition HV_INPUT_GET_COVERAGE_VECTOR :: cty where
  "HV_INPUT_GET_COVERAGE_VECTOR = HV_CALL_ATTRIBUTES (Struct 0 (flds_of
       [mem ''CoverageOp'' Enum_ty, mem ''PageCount'' U32,
       mem ''GpaPageNumbers'' (Arr HV_GPA_PAGE_NUMBER 128)]))"

definition HV_OUTPUT_GET_COVERAGE_VECTOR :: cty where
  "HV_OUTPUT_GET_COVERAGE_VECTOR = HV_CALL_ATTRIBUTES (Struct 0 (flds_of
       [mem ''CoverageInfo'' HV_IMAGE_COVERAGE_INFO]))"

definition HV_INPUT_ASSERT_VIRTUAL_INTERRUPT :: "arch \<Rightarrow> cty" where
  "HV_INPUT_ASSERT_VIRTUAL_INTERRUPT a = HV_CALL_ATTRIBUTES (Struct 0 (flds_of
       [mem ''TargetPartition'' HV_PARTITION_ID,
       mem ''InterruptControl'' (HV_INTERRUPT_CONTROL a), mem ''DestinationAddress'' U64,
       mem ''RequestedVector'' HV_INTERRUPT_VECTOR, mem ''TargetVtl'' HV_VTL,
       mem ''ReservedZ0'' U8, mem ''ReservedZ1'' U16]))"

definition HV_INPUT_CREATE_PORT :: cty where
  "HV_INPUT_CREATE_PORT = HV_CALL_ATTRIBUTES (Struct 0 (flds_of
       [mem ''PortPartition'' HV_PARTITION_ID, mem ''PortId'' HV_PORT_ID, mem ''PortVtl'' HV_VTL,
       mem ''MinConnectionVtl'' HV_VTL, mem ''ReservedZ0'' U16,
       mem ''ConnectionPartition'' HV_PARTITION_ID, mem ''PortInfo'' HV_PORT_INFO,
       mem ''ProximityDomainInfo'' HV_PROXIMITY_DOMAIN_INFO]))"

definition HV_INPUT_CONNECT_PORT :: cty where
  "HV_INPUT_CONNECT_PORT = HV_CALL_ATTRIBUTES (Struct 0 (flds_of
       [mem ''ConnectionPartition'' HV_PARTITION_ID, mem ''ConnectionId'' HV_CONNECTION_ID,
       mem ''ConnectionVtl'' HV_VTL, mem ''ReservedZ0'' U8, mem ''ReservedZ1'' U16,
       mem ''PortPartition'' HV_PARTITION_ID, mem ''PortId'' HV_PORT_ID, mem ''ReservedZ2'' U32,
       mem ''ConnectionInfo'' HV_CONNECTION_INFO,
       mem ''ProximityDomainInfo'' HV_PROXIMITY_DOMAIN_INFO]))"

definition HV_INPUT_GET_SPA_PAGE_LIST :: cty where
  "HV_INPUT_GET_SPA_PAGE_LIST = HV_CALL_ATTRIBUTES (Struct 0 (flds_of
       [mem ''StartPage'' U64, mem ''EndPage'' U64, mem ''Flags'' HV_SPA_PAGE_LIST_FLAGS]))"

definition HV_OUTPUT_GET_SPA_PAGE_LIST :: cty where
  "HV_OUTPUT_GET_SPA_PAGE_LIST = HV_CALL_ATTRIBUTES (Struct 0 (flds_of
       [mem ''NextPageToScan'' U64, mem ''RangeCount'' U16, mem ''Rsvd'' (Arr U16 3),
       mem ''RangeList'' (Arr HV_SPA_PAGE_RANGE 510)]))"

definition HV_INPUT_GET_VP_INDEX_FROM_APIC_ID :: "arch \<Rightarrow> cty" where
  "HV_INPUT_GET_VP_INDEX_FROM_APIC_ID a = HV_CALL_ATTRIBUTES (Struct 0 (flds_of
       ([mem ''PartitionId'' HV_PARTITION_ID, mem ''TargetVtl'' HV_VTL, mem ''ReservedZ0'' U8,
       mem ''ReservedZ1'' U16, mem ''ReservedZ2'' U32] @
        (case a of X64 \<Rightarrow> [mem ''ApicIds'' (Arr HV_APIC_ID 0)] | ARM64 \<Rightarrow>
        [mem ''ProcHwIds'' (Arr HV_PROCESSOR_HW_ID 0)]))))"

definition HV_OUTPUT_GET_VP_INDEX_FROM_APIC_ID :: cty where
  "HV_OUTPUT_GET_VP_INDEX_FROM_APIC_ID = HV_CALL_ATTRIBUTES (Struct 0 (flds_of
       [mem ''VpIndexs'' (Arr HV_VP_INDEX HV_ANYSIZE_ARRAY)]))"

definition HV_INPUT_GET_POWER_PROPERTY :: cty where
  "HV_INPUT_GET_POWER_PROPERTY = HV_CALL_ATTRIBUTES (Struct 0 (flds_of
       [mem ''Type'' Enum_ty,
       mem '''' (Union 0 (flds_of [mem ''Global'' (Union 0 (flds_of [mem ''PolicySettingId'' Enum_ty])),
          mem ''Processor'' (Struct 0 (flds_of [mem ''LpIndex'' HV_LOGICAL_PROCESSOR_INDEX]))]))]))"

definition HV_OUTPUT_GET_POWER_PROPERTY :: "arch \<Rightarrow> cty" where
  "HV_OUTPUT_GET_POWER_PROPERTY a = HV_CALL_ATTRIBUTES (Union 0 (flds_of
       [mem ''IdleStateConfig'' HV_X64_PPM_IDLE_STATE_CONFIG_PROPERTY,
       mem ''PercentFrequency'' U32, mem ''NextPlatformStateIndex'' U32,
       mem ''FeedbackCounterConfig'' (HV_PROCESSOR_PERF_FEEDBACK_COUNTERS_CONFIG a),
       mem ''Policy'' (Struct 0 (flds_of [mem ''Value'' U32])),
       mem ''StatsOffsets'' HV_POWER_STATS_OFFSETS,
       mem ''IdleStateConfigEx'' HV_X64_PPM_IDLE_STATE_CONFIG_PROPERTY_EX]))"

definition HV_INPUT_SET_POWER_PROPERTY :: "arch \<Rightarrow> cty" where
  "HV_INPUT_SET_POWER_PROPERTY a = HV_CALL_ATTRIBUTES (Struct 0 (flds_of
       [mem ''Type'' Enum_ty,
       mem '''' (Union 0 (flds_of [mem ''Processor'' (Struct 0 (flds_of [mem ''LpIndex'' HV_LOGICAL_PROCESSOR_INDEX,
             mem '''' (Union 0 (flds_of [mem ''IdleStateConfig'' HV_X64_PPM_IDLE_STATE_CONFIG_PROPERTY,
                mem ''IdleStateConfigEx'' HV_X64_PPM_IDLE_STATE_CONFIG_PROPERTY_EX,
                mem ''PercentFrequency'' U32, mem ''NextPlatformStateIndex'' Enum_ty,
                mem ''FeedbackCounterConfig'' (HV_PROCESSOR_PERF_FEEDBACK_COUNTERS_CONFIG a),
                mem ''CppcRequestValue'' U32,
                mem ''CppcRequestRegister'' HV_PROCESSOR_CPPC_REQUEST_REGISTER]))])),
          mem ''Global'' (Union 0 (flds_of [mem ''Policy'' HV_PPM_POWER_POLICY_SETTING]))]))]))"

definition HV_INPUT_CREATE_PASID_SPACE :: cty where
  "HV_INPUT_CREATE_PASID_SPACE = HV_CALL_ATTRIBUTES (Struct 0 (flds_of
       [mem ''PartitionId'' HV_PARTITION_ID, mem ''PasidSpaceId'' HV_PASID_SPACE_ID,
       mem ''PasidCount'' U32, mem ''Pat'' U64, mem ''Flags'' U32, mem ''Reserved'' U32]))"

definition HV_INPUT_DELETE_PASID_SPACE :: cty where
  "HV_INPUT_DELETE_PASID_SPACE = HV_CALL_ATTRIBUTES (Struct 0 (flds_of
       [mem ''PartitionId'' HV_PARTITION_ID, mem ''PasidSpaceId'' HV_PASID_SPACE_ID,
       mem ''Reserved'' U32]))"

definition HV_INPUT_SET_PASID_ADDRESS_SPACE :: cty where
  "HV_INPUT_SET_PASID_ADDRESS_SPACE = HV_CALL_ATTRIBUTES (Struct 0 (flds_of
       [mem ''PartitionId'' HV_PARTITION_ID, mem ''FullPasid'' HV_FULL_PASID,
       mem ''AddressSpace'' HV_DEVICE_ADDRESS_SPACE]))"

definition HV_INPUT_FLUSH_PASID_ADDRESS_SPACE :: cty where
  "HV_INPUT_FLUSH_PASID_ADDRESS_SPACE = HV_CALL_ATTRIBUTES (Struct 0 (flds_of
       [mem ''FullPasid'' HV_FULL_PASID, mem ''Flags'' U32, mem ''Reserved'' U32]))"

definition HV_INPUT_FLUSH_PASID_ADDRESS_LIST :: cty where
  "HV_INPUT_FLUSH_PASID_ADDRESS_LIST = HV_CALL_ATTRIBUTES (Struct 0 (flds_of
       [mem ''FullPasid'' HV_FULL_PASID, mem ''Flags'' U32, mem ''VaCount'' U32,
       mem ''VaList'' (Arr HV_GVA_RANGE_EXTENDED 0)]))"

definition HV_INPUT_ATTACH_PASID_SPACE :: cty where
  "HV_INPUT_ATTACH_PASID_SPACE = HV_CALL_ATTRIBUTES (Struct 0 (flds_of
       [mem ''PartitionId'' HV_PARTITION_ID, mem ''LogicalDeviceId'' HV_LOGICAL_DEVICE_ID,
       mem ''PasidSpaceId'' HV_PASID_SPACE_ID, mem ''Reserved'' U32]))"

definition HV_INPUT_DETACH_PASID_SPACE :: cty where
  "HV_INPUT_DETACH_PASID_SPACE = HV_CALL_ATTRIBUTES (Struct 0 (flds_of
       [mem ''PartitionId'' HV_PARTITION_ID, mem ''LogicalDeviceId'' HV_LOGICAL_DEVICE_ID]))"

definition HV_INPUT_ENABLE_PASID :: cty where
  "HV_INPUT_ENABLE_PASID = HV_CALL_ATTRIBUTES (Struct 0 (flds_of
       [mem ''PartitionId'' HV_PARTITION_ID, mem ''LogicalDeviceId'' HV_LOGICAL_DEVICE_ID,
       mem ''Pasid'' HV_PASID, mem ''Reserved'' U32]))"

definition HV_INPUT_DISABLE_PASID :: cty where
  "HV_INPUT_DISABLE_PASID = HV_CALL_ATTRIBUTES (Struct 0 (flds_of
       [mem ''PartitionId'' HV_PARTITION_ID, mem ''LogicalDeviceId'' HV_LOGICAL_DEVICE_ID,
       mem ''Pasid'' HV_PASID, mem ''Reserved'' U32]))"

definition HV_INPUT_CREATE_DEVICE_PR_QUEUE :: cty where
  "HV_INPUT_CREATE_DEVICE_PR_QUEUE = HV_CALL_ATTRIBUTES (Struct 0 (flds_of
       [mem ''PartitionId'' HV_PARTITION_ID, mem ''QueueId'' U32, mem ''Size'' U32,
       mem ''BaseGpaPage'' HV_GPA_PAGE_NUMBER, mem ''InterruptVector'' HV_INTERRUPT_VECTOR,
       mem ''InterruptVpIndex'' HV_VP_INDEX, mem ''Flags'' U32, mem ''Reserved'' U32]))"

definition HV_INPUT_DELETE_DEVICE_PR_QUEUE :: cty where
  "HV_INPUT_DELETE_DEVICE_PR_QUEUE = HV_CALL_ATTRIBUTES (Struct 0 (flds_of
       [mem ''PartitionId'' HV_PARTITION_ID, mem ''QueueId'' U32, mem ''Reserved'' U32]))"

definition HV_INPUT_SET_DEVICE_PRQ_PROPERTY_HEADER :: cty where
  "HV_INPUT_SET_DEVICE_PRQ_PROPERTY_HEADER = HV_CALL_ATTRIBUTES (Struct 0 (flds_of
       [mem ''QueueId'' U32, mem ''Property'' Enum_ty]))"

definition HV_INPUT_GET_PHYSICAL_DEVICE_PROPERTY :: "arch \<Rightarrow> cty" where
  "HV_INPUT_GET_PHYSICAL_DEVICE_PROPERTY a = HV_CALL_ATTRIBUTES (Struct 0 (flds_of
       [mem ''PhysicalDeviceId'' (HV_DEVICE_ID a), mem ''Flags'' HV_PHYSICAL_DEVICE_FLAGS,
       mem ''Property'' Enum_ty, mem ''Reserved'' U32]))"

definition HV_OUTPUT_GET_PHYSICAL_DEVICE_PROPERTY :: cty where
  "HV_OUTPUT_GET_PHYSICAL_DEVICE_PROPERTY = HV_CALL_ATTRIBUTES (Union 0 (flds_of
       [mem ''Capabilities'' HV_PHYSICAL_DEVICE_PROPERTY_CAPABILITIES,
       mem ''DmaEnabled'' HV_PHYSICAL_DEVICE_PROPERTY_DMA_ENABLED,
       mem ''AtsEnabled'' HV_PHYSICAL_DEVICE_PROPERTY_ATS_ENABLED,
       mem ''FaultReporting'' HV_PHYSICAL_DEVICE_PROPERTY_FAULT_REPORTING,
       mem ''IrtRange'' HV_PHYSICAL_DEVICE_PROPERTY_IRT_RANGE]))"

definition HV_INPUT_SET_PHYSICAL_DEVICE_PROPERTY_HEADER :: "arch \<Rightarrow> cty" where
  "HV_INPUT_SET_PHYSICAL_DEVICE_PROPERTY_HEADER a = HV_CALL_ATTRIBUTES (Struct 0 (flds_of
       [mem ''PhysicalDeviceId'' (HV_DEVICE_ID a), mem ''Property'' Enum_ty, mem ''Reserved'' U32]))"

definition HV_OUTPUT_TRANSLATE_VIRTUAL_ADDRESS_EX :: "arch \<Rightarrow> cty" where
  "HV_OUTPUT_TRANSLATE_VIRTUAL_ADDRESS_EX a = HV_CALL_ATTRIBUTES (Struct 0 (flds_of
       [mem ''TranslationResult'' (HV_TRANSLATE_GVA_RESULT_EX a),
       mem ''GpaPage'' HV_GPA_PAGE_NUMBER]))"

definition HV_INPUT_CHECK_FOR_IO_INTERCEPT :: cty where
  "HV_INPUT_CHECK_FOR_IO_INTERCEPT = HV_CALL_ATTRIBUTES (Struct 0 (flds_of
       [mem ''PartitionId'' HV_PARTITION_ID, mem ''VpIndex'' HV_VP_INDEX,
       mem ''TargetVtl'' HV_INPUT_VTL, mem ''Port'' U16, mem ''Size'' U8, mem ''IsWrite'' U8]))"

definition HV_OUTPUT_CHECK_FOR_IO_INTERCEPT :: cty where
  "HV_OUTPUT_CHECK_FOR_IO_INTERCEPT = HV_CALL_ATTRIBUTES (Struct 0 (flds_of
       [mem ''Intercept'' U8]))"

definition HV_INPUT_SET_GPA_PAGE_ATTRIBUTES :: cty where
  "HV_INPUT_SET_GPA_PAGE_ATTRIBUTES = HV_CALL_ATTRIBUTES (Struct 0 (flds_of
       [mem ''PartitionId'' HV_PARTITION_ID, mem ''Attributes'' HV_GPA_PAGE_ATTRIBUTES,
       mem ''GpaPageList'' (Arr HV_GPA_PAGE_NUMBER 0)]))"

definition HV_INPUT_FLUSH_GUEST_PHYSICAL_ADDRESS_SPACE :: cty where
  "HV_INPUT_FLUSH_GUEST_PHYSICAL_ADDRESS_SPACE = HV_CALL_ATTRIBUTES (Struct 0 (flds_of
       [mem ''AddressSpace'' HV_SPA, mem ''Flags'' HV_FLUSH_FLAGS]))"

definition HV_INPUT_FLUSH_GUEST_PHYSICAL_ADDRESS_LIST :: cty where
  "HV_INPUT_FLUSH_GUEST_PHYSICAL_ADDRESS_LIST = HV_CALL_ATTRIBUTES (Struct 0 (flds_of
       [mem ''AddressSpace'' HV_SPA, mem ''Flags'' HV_FLUSH_FLAGS,
       mem ''GpaRangeList'' (Arr HV_GPA_PAGE_RANGE 0)]))"

definition HV_CREATE_DEVICE_DOMAIN_FLAGS :: cty where
  "HV_CREATE_DEVICE_DOMAIN_FLAGS = Union 0 (flds_of
       [mem '''' (Struct 0 (flds_of [bits ''ForwardProgressRequired'' U32 1, bits ''InheritOwningVtl'' U32 1,
          bits ''Reserved'' U32 30])),
       mem ''AsUINT32'' U32])"

definition HV_INPUT_CREATE_DEVICE_DOMAIN :: cty where
  "HV_INPUT_CREATE_DEVICE_DOMAIN = HV_CALL_ATTRIBUTES (Struct 0 (flds_of
       [mem ''DeviceDomain'' HV_INPUT_DEVICE_DOMAIN,
       mem ''CreateDeviceDomainFlags'' HV_CREATE_DEVICE_DOMAIN_FLAGS]))"

definition HV_INPUT_ATTACH_DEVICE_DOMAIN :: "arch \<Rightarrow> cty" where
  "HV_INPUT_ATTACH_DEVICE_DOMAIN a = HV_CALL_ATTRIBUTES (Struct 0 (flds_of
       [mem ''DeviceDomain'' HV_INPUT_DEVICE_DOMAIN, mem ''DeviceId'' (HV_DEVICE_ID a)]))"

definition HV_INPUT_MAP_DEVICE_GPA_PAGES :: cty where
  "HV_INPUT_MAP_DEVICE_GPA_PAGES = HV_CALL_ATTRIBUTES (Struct 0 (flds_of
       [mem ''DeviceDomain'' HV_INPUT_DEVICE_DOMAIN, mem ''TargetVtl'' HV_INPUT_VTL,
       mem ''MapFlags'' U32, mem ''TargetDeviceVaBase'' HV_DEVICE_VA,
       mem ''GpaPageList'' (Arr HV_GPA_PAGE_NUMBER 0)]))"

definition HV_INPUT_UNMAP_DEVICE_GPA_PAGES :: cty where
  "HV_INPUT_UNMAP_DEVICE_GPA_PAGES = HV_CALL_ATTRIBUTES (Struct 0 (flds_of
       [mem ''DeviceDomain'' HV_INPUT_DEVICE_DOMAIN, mem ''TargetDeviceVaBase'' HV_DEVICE_VA]))"

definition HV_OUTPUT_CREATE_CPU_GROUP :: cty where
  "HV_OUTPUT_CREATE_CPU_GROUP = HV_CALL_ATTRIBUTES (Struct 0 (flds_of
       [mem ''NewCpuGroupId'' HV_CPU_GROUP_ID]))"

definition HV_INPUT_DELETE_CPU_GROUP :: cty where
  "HV_INPUT_DELETE_CPU_GROUP = HV_CALL_ATTRIBUTES (Struct 0 (flds_of
       [mem ''CpuGroupId'' HV_CPU_GROUP_ID]))"

definition HV_INPUT_GET_CPU_GROUP_PROPERTY :: cty where
  "HV_INPUT_GET_CPU_GROUP_PROPERTY = HV_CALL_ATTRIBUTES (Struct 0 (flds_of
       [mem ''CpuGroupId'' HV_CPU_GROUP_ID, mem ''PropertyCode'' Enum_ty]))"

definition HV_OUTPUT_GET_CPU_GROUP_PROPERTY :: cty where
  "HV_OUTPUT_GET_CPU_GROUP_PROPERTY = HV_CALL_ATTRIBUTES (Struct 0 (flds_of
       [mem ''PropertyValue'' HV_CPU_GROUP_PROPERTY]))"

definition HV_INPUT_SET_CPU_GROUP_PROPERTY :: cty where
  "HV_INPUT_SET_CPU_GROUP_PROPERTY = HV_CALL_ATTRIBUTES (Struct 0 (flds_of
       [mem ''CpuGroupId'' HV_CPU_GROUP_ID, mem ''PropertyCode'' Enum_ty,
       mem ''PropertyValue'' HV_CPU_GROUP_PROPERTY]))"

definition HV_INPUT_GET_CPU_GROUP_AFFINITY :: cty where
  "HV_INPUT_GET_CPU_GROUP_AFFINITY = HV_CALL_ATTRIBUTES (Struct 0 (flds_of
       [mem ''CpuGroupId'' HV_CPU_GROUP_ID]))"

definition HV_OUTPUT_GET_CPU_GROUP_AFFINITY :: cty where
  "HV_OUTPUT_GET_CPU_GROUP_AFFINITY = HV_CALL_ATTRIBUTES (Struct 0 (flds_of
       [mem ''LpCount'' U32,
       mem ''CpuGroupAffinity'' (Union 0 (flds_of [mem ''Bitset'' HV_GENERIC_SET, mem ''BitsetBuffer'' (Arr U64 7)]))]))"

definition HV_INPUT_GET_NEXT_CPU_GROUP :: cty where
  "HV_INPUT_GET_NEXT_CPU_GROUP = HV_CALL_ATTRIBUTES (Struct 0 (flds_of
       [mem ''PreviousCpuGroupId'' HV_CPU_GROUP_ID]))"

definition HV_OUTPUT_GET_NEXT_CPU_GROUP :: cty where
  "HV_OUTPUT_GET_NEXT_CPU_GROUP = HV_CALL_ATTRIBUTES (Struct 0 (flds_of
       [mem ''NextCpuGroupId'' HV_CPU_GROUP_ID]))"

definition HV_INPUT_GET_NEXT_CPU_GROUP_PARTITION :: cty where
  "HV_INPUT_GET_NEXT_CPU_GROUP_PARTITION = HV_CALL_ATTRIBUTES (Struct 0 (flds_of
       [mem ''CpuGroupId'' HV_CPU_GROUP_ID, mem ''PreviousPartitionId'' HV_PARTITION_ID]))"

definition HV_OUTPUT_GET_NEXT_CPU_GROUP_PARTITION :: cty where
  "HV_OUTPUT_GET_NEXT_CPU_GROUP_PARTITION = HV_CALL_ATTRIBUTES (Struct 0 (flds_of
       [mem ''NextPartitionId'' HV_PARTITION_ID]))"

definition HV_INPUT_ADD_PHYSICAL_MEMORY :: cty where
  "HV_INPUT_ADD_PHYSICAL_MEMORY = HV_CALL_ATTRIBUTES (Struct 0 (flds_of
       [mem ''Prepare'' U8, mem ''LargePage'' U8, mem ''Reserved1'' U16, mem ''Reserved2'' U32,
       mem ''StartPage'' HV_GPA_PAGE_NUMBER]))"

definition HV_OUTPUT_ADD_PHYSICAL_MEMORY :: cty where
  "HV_OUTPUT_ADD_PHYSICAL_MEMORY = HV_CALL_ATTRIBUTES (Struct 0 (flds_of
       [mem ''PagesProcessed'' U64]))"

definition HV_INPUT_COMPLETE_INTERCEPT :: cty where
  "HV_INPUT_COMPLETE_INTERCEPT = HV_CALL_ATTRIBUTES (Struct 0 (flds_of
       [mem ''PartitionId'' HV_PARTITION_ID, mem ''VpIndex'' HV_VP_INDEX, mem ''DataSize'' U32,
       mem ''Data'' (Arr U8 0)]))"

definition HV_INPUT_PRECOMMIT_GPA_PAGES :: cty where
  "HV_INPUT_PRECOMMIT_GPA_PAGES = HV_CALL_ATTRIBUTES (Struct 0 (flds_of
       [mem ''TargetPartitionId'' HV_PARTITION_ID, mem ''Flags'' U32, mem ''TargetGpaBase'' HV_GPA]))"

definition HV_INPUT_UNCOMMIT_GPA_PAGES :: cty where
  "HV_INPUT_UNCOMMIT_GPA_PAGES = HV_CALL_ATTRIBUTES (Struct 0 (flds_of
       [mem ''TargetPartitionId'' HV_PARTITION_ID, mem ''TargetGpaBase'' HV_GPA]))"

definition HV_INPUT_SIGNAL_EVENT_DIRECT :: cty where
  "HV_INPUT_SIGNAL_EVENT_DIRECT = HV_CALL_ATTRIBUTES (Struct 0 (flds_of
       [mem ''TargetPartition'' U64, mem ''TargetVp'' HV_VP_INDEX, mem ''TargetVtl'' HV_VTL,
       mem ''TargetSint'' U8, mem ''FlagNumber'' U16]))"

definition HV_OUTPUT_SIGNAL_EVENT_DIRECT :: cty where
  "HV_OUTPUT_SIGNAL_EVENT_DIRECT = HV_CALL_ATTRIBUTES (Struct 0 (flds_of
       [mem ''NewlySignaled'' U8, mem ''Reserved'' (Arr U8 7)]))"

definition HV_INPUT_POST_MESSAGE_DIRECT :: cty where
  "HV_INPUT_POST_MESSAGE_DIRECT = HV_CALL_ATTRIBUTES (Struct 0 (flds_of
       [mem ''PartitionId'' HV_PARTITION_ID, mem ''VpIndex'' HV_VP_INDEX, mem ''Vtl'' HV_VTL,
       mem ''SintIndex'' U32, mem ''Message'' (Arr U8 (unat HV_MESSAGE_SIZE))]))"

definition HV_INPUT_DISPATCH_VP :: cty where
  "HV_INPUT_DISPATCH_VP = HV_CALL_ATTRIBUTES (Struct 0 (flds_of
       [mem ''PartitionId'' HV_PARTITION_ID, mem ''VpIndex'' HV_VP_INDEX, mem ''Flags'' U32,
       mem ''TimeSlice'' HV_NANO100_DURATION, mem ''SpecCtrl'' U64]))"

definition HV_OUTPUT_DISPATCH_VP :: cty where
  "HV_OUTPUT_DISPATCH_VP = HV_CALL_ATTRIBUTES (Struct 0 (flds_of
       [mem ''DispatchState'' Enum_ty, mem ''DispatchEvent'' Enum_ty]))"

definition HV_INPUT_PROCESS_IOMMU_PRQ :: cty where
  "HV_INPUT_PROCESS_IOMMU_PRQ = HV_CALL_ATTRIBUTES (Struct 0 (flds_of
       [mem ''IommuId'' HV_IOMMU_ID]))"

definition HV_INPUT_DETACH_DEVICE_DOMAIN :: "arch \<Rightarrow> cty" where
  "HV_INPUT_DETACH_DEVICE_DOMAIN a = HV_CALL_ATTRIBUTES (Struct 0 (flds_of
       [mem ''PartitionId'' HV_PARTITION_ID, mem ''DeviceId'' (HV_DEVICE_ID a)]))"

definition HV_INPUT_DELETE_DEVICE_DOMAIN :: cty where
  "HV_INPUT_DELETE_DEVICE_DOMAIN = HV_CALL_ATTRIBUTES (Struct 0 (flds_of
       [mem ''DeviceDomain'' HV_INPUT_DEVICE_DOMAIN]))"

definition HV_INPUT_QUERY_DEVICE_DOMAIN :: cty where
  "HV_INPUT_QUERY_DEVICE_DOMAIN = HV_CALL_ATTRIBUTES (Struct 0 (flds_of
       [mem ''DeviceDomain'' HV_INPUT_DEVICE_DOMAIN,
       mem ''TargetDeviceVaList'' (Arr HV_DEVICE_VA 0)]))"

definition HV_DEVICE_VA_MAPPING :: cty where
  "HV_DEVICE_VA_MAPPING = Struct 0 (flds_of
       [mem ''TargetDeviceVa'' HV_DEVICE_VA, mem ''GpaPageNumber'' HV_GPA_PAGE_NUMBER])"

definition HV_INPUT_MAP_SPARSE_DEVICE_GPA_PAGES :: cty where
  "HV_INPUT_MAP_SPARSE_DEVICE_GPA_PAGES = HV_CALL_ATTRIBUTES (Struct 0 (flds_of
       [mem ''DeviceDomain'' HV_INPUT_DEVICE_DOMAIN, mem ''TargetVtl'' HV_INPUT_VTL,
       mem ''MapFlags'' U32, mem ''PageList'' (Arr HV_DEVICE_VA_MAPPING 0)]))"

definition HV_INPUT_UNMAP_SPARSE_DEVICE_GPA_PAGES :: cty where
  "HV_INPUT_UNMAP_SPARSE_DEVICE_GPA_PAGES = HV_CALL_ATTRIBUTES (Struct 0 (flds_of
       [mem ''DeviceDomain'' HV_INPUT_DEVICE_DOMAIN,
       mem ''TargetDeviceVaList'' (Arr HV_DEVICE_VA 0)]))"

definition HV_INPUT_GET_GPA_PAGES_ACCESS_STATE :: cty where
  "HV_INPUT_GET_GPA_PAGES_ACCESS_STATE = HV_CALL_ATTRIBUTES (Struct 0 (flds_of
       [mem ''TargetPartitionId'' HV_PARTITION_ID, mem ''Flags'' HV_GPA_PAGE_ACCESS_STATE_FLAGS,
       mem ''TargetGpaBase'' HV_GPA_PAGE_NUMBER]))"

definition HV_INPUT_GET_SPARSE_GPA_PAGES_ACCESS_STATE :: cty where
  "HV_INPUT_GET_SPARSE_GPA_PAGES_ACCESS_STATE = HV_CALL_ATTRIBUTES (Struct 0 (flds_of
       [mem ''TargetPartitionId'' HV_PARTITION_ID, mem ''Flags'' HV_GPA_PAGE_ACCESS_STATE_FLAGS,
       mem ''GpaPageList'' (Arr HV_GPA_PAGE_NUMBER 0)]))"

definition HV_INPUT_QUERY_VTL_PROTECTION_MASK_RANGE :: cty where
  "HV_INPUT_QUERY_VTL_PROTECTION_MASK_RANGE = HV_CALL_ATTRIBUTES (Struct 0 (flds_of
       [mem ''TargetPartitionId'' HV_PARTITION_ID, mem ''TargetGpaBase'' HV_GPA,
       mem ''TargetVtlSet'' U16, mem ''Reserved0'' U16, mem ''Reserved1'' U32]))"

definition HV_INPUT_MODIFY_VTL_PROTECTION_MASK_RANGE :: cty where
  "HV_INPUT_MODIFY_VTL_PROTECTION_MASK_RANGE = HV_CALL_ATTRIBUTES (Struct 0 (flds_of
       [mem ''TargetPartitionId'' HV_PARTITION_ID, mem ''TargetGpaBase'' HV_GPA,
       mem ''TargetVtlSet'' U16, mem ''Reserved0'' U16, mem ''Reserved1'' U32,
       mem ''VtlPermissionList'' (Arr HV_VTL_PERMISSION_SET 0)]))"

definition HV_DEVICE_DOMAIN_SETTINGS :: cty where
  "HV_DEVICE_DOMAIN_SETTINGS = Struct 0 (flds_of
       [mem ''Flags'' (Struct 0 (flds_of [bits ''TranslationEnabled'' U64 1, bits ''CoherentTableWalks'' U64 1,
          bits ''Reserved'' U64 62])),
       mem ''PageTableRoot0'' U64, mem ''PageTableRoot1'' U64, mem ''InputSize0'' U8,
       mem ''InputSize1'' U8, mem ''Mair0'' U32, mem ''Mair1'' U32, mem ''Asid'' U16])"

definition HV_INPUT_CONFIGURE_DEVICE_DOMAIN :: cty where
  "HV_INPUT_CONFIGURE_DEVICE_DOMAIN = HV_CALL_ATTRIBUTES (Struct 0 (flds_of
       [mem ''DeviceDomain'' HV_INPUT_DEVICE_DOMAIN, mem ''Settings'' HV_DEVICE_DOMAIN_SETTINGS]))"

definition HV_INPUT_FLUSH_DEVICE_DOMAIN :: cty where
  "HV_INPUT_FLUSH_DEVICE_DOMAIN = HV_CALL_ATTRIBUTES (Struct 0 (flds_of
       [mem ''DeviceDomain'' HV_INPUT_DEVICE_DOMAIN, mem ''Flags'' U32, mem ''Reserved'' U32]))"

definition HV_INPUT_FLUSH_DEVICE_DOMAIN_LIST :: cty where
  "HV_INPUT_FLUSH_DEVICE_DOMAIN_LIST = HV_CALL_ATTRIBUTES (Struct 0 (flds_of
       [mem ''DeviceDomain'' HV_INPUT_DEVICE_DOMAIN, mem ''Flags'' U32, mem ''Reserved'' U32,
       mem ''VaList'' (Arr HV_GVA_RANGE_EXTENDED 0)]))"

definition HV_INPUT_MODIFY_SPARSE_GPA_PAGE_HOST_ACCESS :: cty where
  "HV_INPUT_MODIFY_SPARSE_GPA_PAGE_HOST_ACCESS = HV_CALL_ATTRIBUTES (Struct 0 (flds_of
       [mem ''TargetPartitionId'' HV_PARTITION_ID, bits ''HostAccess'' U32 2,
       bits ''Reserved0'' U32 30, mem ''Reserved1'' U32,
       mem ''GpaPageList'' (Arr HV_GPA_PAGE_NUMBER 0)]))"

definition HV_INPUT_CHECK_SPARSE_GPA_PAGE_VTL_ACCESS :: cty where
  "HV_INPUT_CHECK_SPARSE_GPA_PAGE_VTL_ACCESS = HV_CALL_ATTRIBUTES (Struct 0 (flds_of
       [mem ''TargetPartitionId'' HV_PARTITION_ID, mem ''TargetVtl'' HV_INPUT_VTL,
       mem ''DesiredAccess'' U8, mem ''Reserved0'' U16, mem ''Reserved1'' U32,
       mem ''GpaPageList'' (Arr HV_GPA_PAGE_NUMBER 0)]))"

definition HV_INPUT_MODIFY_SPARSE_SPA_PAGE_HOST_ACCESS :: cty where
  "HV_INPUT_MODIFY_SPARSE_SPA_PAGE_HOST_ACCESS = HV_CALL_ATTRIBUTES (Struct 0 (flds_of
       [bits ''HostAccess'' U32 2, bits ''Reserved'' U32 30, mem ''Flags'' U32,
       mem ''TargetPartitionId'' HV_PARTITION_ID, mem ''SpaPageList'' (Arr HV_SPA_PAGE_NUMBER 0)]))"

definition HV_INPUT_ACCEPT_GPA_PAGES :: cty where
  "HV_INPUT_ACCEPT_GPA_PAGES = HV_CALL_ATTRIBUTES (Struct 0 (flds_of
       [mem ''TargetPartitionId'' HV_PARTITION_ID, bits ''MemoryType'' U32 6,
       bits ''HostVisibility'' U32 2, bits ''VtlSet'' U32 3, bits ''Reserved'' U32 21,
       mem ''VtlPermissionSet'' HV_VTL_PERMISSION_SET, mem ''GpaPageBase'' HV_GPA_PAGE_NUMBER]))"

definition HV_INPUT_UNACCEPT_GPA_PAGES :: cty where
  "HV_INPUT_UNACCEPT_GPA_PAGES = HV_CALL_ATTRIBUTES (Struct 0 (flds_of
       [mem ''TargetPartitionId'' HV_PARTITION_ID, bits ''VtlSet'' U32 3,
       bits ''Reserved'' U32 29, mem ''VtlPermissionSet'' HV_VTL_PERMISSION_SET,
       mem ''GpaPageBase'' HV_GPA_PAGE_NUMBER]))"

definition HV_GPA_PAGE_MAPPING_LOCK_INPUT :: cty where
  "HV_GPA_PAGE_MAPPING_LOCK_INPUT = Union 0 (flds_of
       [mem ''AsUINT64'' U64,
       mem '''' (Struct 0 (flds_of [bits ''AcceptPrivate'' U64 1, bits ''Reserved0'' U64 11, bits ''GpaPage'' U64 40,
          bits ''Reserved1'' U64 12]))])"

definition HV_GPA_PAGE_MAPPING_LOCK_OUTPUT :: cty where
  "HV_GPA_PAGE_MAPPING_LOCK_OUTPUT = Struct 0 (flds_of
       [bits ''SpaPageOwnership'' U64 1, bits ''SpaPageMemoryType'' U64 4,
       bits ''RootReadable'' U64 1, bits ''RootWritable'' U64 1, bits ''RootAdjustable'' U64 1,
       bits ''UntrustedOverlay'' U64 1, bits ''Reserved0'' U64 3, bits ''SpaPage'' U64 40,
       bits ''Reserved1'' U64 12, mem ''Data'' HV_GPA_PAGE_MAPPING_DATA])"

definition HV_INPUT_LOCK_SPARSE_GPA_PAGE_MAPPING :: cty where
  "HV_INPUT_LOCK_SPARSE_GPA_PAGE_MAPPING = HV_CALL_ATTRIBUTES (Struct 0 (flds_of
       [mem ''TargetPartitionId'' HV_PARTITION_ID, mem ''Flags'' U32, mem ''Reserved'' U32,
       mem ''LockList'' (Arr HV_GPA_PAGE_MAPPING_LOCK_INPUT 0)]))"

definition HV_GPA_PAGE_MAPPING_UNLOCK_INPUT :: cty where
  "HV_GPA_PAGE_MAPPING_UNLOCK_INPUT = Struct 0 (flds_of
       [bits ''SetAttributes'' U64 1, bits ''Reserved0'' U64 11, bits ''GpaPage'' U64 40,
       bits ''Reserved1'' U64 12, mem ''Data'' HV_GPA_PAGE_MAPPING_DATA])"

definition HV_INPUT_UNLOCK_SPARSE_GPA_PAGE_MAPPING :: cty where
  "HV_INPUT_UNLOCK_SPARSE_GPA_PAGE_MAPPING = HV_CALL_ATTRIBUTES (Struct 0 (flds_of
       [mem ''TargetPartitionId'' HV_PARTITION_ID,
       mem ''UnlockList'' (Arr HV_GPA_PAGE_MAPPING_UNLOCK_INPUT 0)]))"

definition HV_INPUT_REQUEST_PROCESSOR_HALT_FLAGS :: cty where
  "HV_INPUT_REQUEST_PROCESSOR_HALT_FLAGS = Union 0 (flds_of
       [mem ''AsUINT32'' U32,
       mem '''' (Struct 0 (flds_of [bits ''UseDefaultSuspend'' U32 1, bits ''RsvdZ'' U32 31]))])"

definition HV_PPM_IDLE_STATE_REQUEST :: cty where
  "HV_PPM_IDLE_STATE_REQUEST = Struct 0 (flds_of
       [mem ''Config'' HV_PPM_IDLE_STATE_CONFIG, mem ''CStateType'' U32,
       mem ''Flags'' HV_INPUT_REQUEST_PROCESSOR_HALT_FLAGS])"

definition HV_INPUT_REQUEST_PROCESSOR_HALT :: cty where
  "HV_INPUT_REQUEST_PROCESSOR_HALT = HV_CALL_ATTRIBUTES (Union 0 (flds_of
       [mem ''IdleRequest'' HV_PPM_IDLE_STATE_REQUEST, mem ''AsUINT64'' (Arr U64 2)]))"

definition HV_INPUT_GET_INTERCEPT_DATA :: cty where
  "HV_INPUT_GET_INTERCEPT_DATA = HV_CALL_ATTRIBUTES (Struct 0 (flds_of
       [mem ''PartitionId'' HV_PARTITION_ID, mem ''VpIndex'' HV_VP_INDEX]))"

definition HV_INPUT_QUERY_DEVICE_INTERRUPT_TARGET :: "arch \<Rightarrow> cty" where
  "HV_INPUT_QUERY_DEVICE_INTERRUPT_TARGET a = HV_CALL_ATTRIBUTES (Struct 0 (flds_of
       [mem ''PartitionId'' HV_PARTITION_ID, mem ''LogicalDeviceId'' HV_LOGICAL_DEVICE_ID,
       mem ''InterruptEntry'' (HV_INTERRUPT_ENTRY a)]))"

definition HV_OUTPUT_QUERY_DEVICE_INTERRUPT_TARGET :: "arch \<Rightarrow> cty" where
  "HV_OUTPUT_QUERY_DEVICE_INTERRUPT_TARGET a = HV_CALL_ATTRIBUTES (Struct 0 (flds_of
       [mem ''InterruptTargetSize'' U32,
       mem '''' (Union 0 (flds_of [mem ''InterruptTarget'' HV_DEVICE_INTERRUPT_TARGET,
          mem '''' (Struct 0 (flds_of [mem ''InterruptTargetHeader'' HV_DEVICE_INTERRUPT_TARGET_HEADER,
             mem '''' (Union 0 (flds_of [mem ''InterruptTargetProcessorSet'' HV_GENERIC_SET,
                mem ''InterruptTargetProcessorSetHeader'' HV_GENERIC_SET_HEADER]))]))])),
       mem ''InterruptTargetProcessorSetBankContents'' (Arr U64 4),
       mem ''InterruptEntry'' (HV_INTERRUPT_ENTRY a)]))"

definition HV_INPUT_MAP_VP_STATE_PAGE :: cty where
  "HV_INPUT_MAP_VP_STATE_PAGE = HV_CALL_ATTRIBUTES (Struct 0 (flds_of
       [mem ''PartitionId'' HV_PARTITION_ID, mem ''VpIndex'' HV_VP_INDEX, mem ''Type'' Enum_ty]))"

definition HV_OUTPUT_MAP_VP_STATE_PAGE :: cty where
  "HV_OUTPUT_MAP_VP_STATE_PAGE = HV_CALL_ATTRIBUTES (Struct 0 (flds_of
       [mem ''MapLocation'' HV_GPA_PAGE_NUMBER]))"

definition HV_INPUT_UNMAP_VP_STATE_PAGE :: cty where
  "HV_INPUT_UNMAP_VP_STATE_PAGE = HV_CALL_ATTRIBUTES (Struct 0 (flds_of
       [mem ''PartitionId'' HV_PARTITION_ID, mem ''VpIndex'' HV_VP_INDEX, mem ''Type'' Enum_ty]))"

definition HV_INPUT_GET_VP_STATE :: "arch \<Rightarrow> cty" where
  "HV_INPUT_GET_VP_STATE a = HV_CALL_ATTRIBUTES (Struct 0 (flds_of
       [mem ''PartitionId'' HV_PARTITION_ID, mem ''VpIndex'' HV_VP_INDEX,
       mem ''InputVtl'' HV_VTL, mem ''Reserved0'' U8, mem ''Reserved1'' U16,
       mem ''StateData'' (HV_VP_STATE_DATA a), mem ''OutputDataPfns'' (Arr U64 0)]))"

definition HV_OUTPUT_GET_VP_STATE :: "arch \<Rightarrow> cty" where
  "HV_OUTPUT_GET_VP_STATE a = HV_CALL_ATTRIBUTES (Union 0 (flds_of
       ((case a of X64 \<Rightarrow> [mem ''InterruptControllerState'' HV_LOCAL_INTERRUPT_CONTROLLER_STATE,
       mem ''SyntheticTimersState'' HV_SYNTHETIC_TIMERS_STATE] | ARM64 \<Rightarrow>
        [mem ''Reserved0'' U64]))))"

definition HV_INPUT_SET_VP_STATE_DATA :: cty where
  "HV_INPUT_SET_VP_STATE_DATA = Union 0 (flds_of
       [mem ''Pfns'' U64, mem ''Bytes'' U8])"

definition HV_INPUT_SET_VP_STATE :: "arch \<Rightarrow> cty" where
  "HV_INPUT_SET_VP_STATE a = HV_CALL_ATTRIBUTES (Struct 0 (flds_of
       [mem ''PartitionId'' HV_PARTITION_ID, mem ''VpIndex'' HV_VP_INDEX,
       mem ''InputVtl'' HV_VTL, mem ''Reserved0'' U8, mem ''Reserved1'' U16,
       mem ''StateData'' (HV_VP_STATE_DATA a), mem ''Data'' (Arr HV_INPUT_SET_VP_STATE_DATA 0)]))"

definition HV_INPUT_RESERVE_DEVICE_INTERRUPT :: "arch \<Rightarrow> cty" where
  "HV_INPUT_RESERVE_DEVICE_INTERRUPT a = HV_CALL_ATTRIBUTES (Struct 0 (flds_of
       [mem ''PartitionId'' HV_PARTITION_ID, mem ''LogicalDeviceId'' HV_LOGICAL_DEVICE_ID,
       mem ''VectorCount'' U32, mem ''Flags'' U64,
       mem ''LogicalInterruptEntry'' (HV_INTERRUPT_ENTRY a), mem ''BaseIrtIndex'' U32]))"

definition HV_INPUT_PERSIST_DEVICE :: "arch \<Rightarrow> cty" where
  "HV_INPUT_PERSIST_DEVICE a = HV_CALL_ATTRIBUTES (Struct 0 (flds_of
       [mem ''PartitionId'' HV_PARTITION_ID, mem ''DeviceId'' (HV_DEVICE_ID a),
       mem ''Flags'' (HV_ATTACH_DEVICE_FLAGS a), mem ''LogicalDeviceId'' HV_LOGICAL_DEVICE_ID,
       mem ''PciCapabilities'' HV_DEVICE_PCI_CAPABILITIES, mem ''PhysicalFunctionRid'' U16]))"

definition HV_INPUT_UNPERSIST_DEVICE :: cty where
  "HV_INPUT_UNPERSIST_DEVICE = HV_CALL_ATTRIBUTES (Struct 0 (flds_of
       [mem ''PartitionId'' HV_PARTITION_ID, mem ''LogicalDeviceId'' HV_LOGICAL_DEVICE_ID]))"

definition HV_INPUT_PERSIST_DEVICE_INTERRUPT :: "arch \<Rightarrow> cty" where
  "HV_INPUT_PERSIST_DEVICE_INTERRUPT a = HV_CALL_ATTRIBUTES (Struct 0 (flds_of
       [mem ''PartitionId'' HV_PARTITION_ID, mem ''LogicalDeviceId'' HV_LOGICAL_DEVICE_ID,
       mem ''InterruptEntry'' (HV_INTERRUPT_ENTRY a), mem ''VectorCount'' U32, mem ''Flags'' U64]))"

definition HV_OUTPUT_PERSIST_DEVICE_INTERRUPT :: cty where
  "HV_OUTPUT_PERSIST_DEVICE_INTERRUPT = HV_CALL_ATTRIBUTES (Struct 0 (flds_of
       [mem ''BaseIrtIndex'' U32]))"

definition HV_INPUT_REFRESH_PERFORMANCE_COUNTERS :: cty where
  "HV_INPUT_REFRESH_PERFORMANCE_COUNTERS = HV_CALL_ATTRIBUTES (Struct 0 (flds_of
       [mem ''LpIndex'' HV_LOGICAL_PROCESSOR_INDEX]))"

definition HV_PARTITION_COMPLETE_ISOLATED_IMPORT_DATA :: cty where
  "HV_PARTITION_COMPLETE_ISOLATED_IMPORT_DATA = Union 0 (flds_of
       [mem ''Reserved'' U64])"

definition HV_INPUT_COMPLETE_ISOLATED_IMPORT :: cty where
  "HV_INPUT_COMPLETE_ISOLATED_IMPORT = HV_CALL_ATTRIBUTES (Struct 0 (flds_of
       [mem ''PartitionId'' HV_PARTITION_ID,
       mem ''ImportData'' HV_PARTITION_COMPLETE_ISOLATED_IMPORT_DATA]))"

definition HV_INPUT_ROOT_SIGNAL_EVENT :: cty where
  "HV_INPUT_ROOT_SIGNAL_EVENT = HV_CALL_ATTRIBUTES (Struct 0 (flds_of
       [mem ''ConnectionId'' HV_CONNECTION_ID, mem ''FlagNumber'' U16, mem ''RsvdZ'' U16]))"

definition HV_OUTPUT_ROOT_SIGNAL_EVENT :: cty where
  "HV_OUTPUT_ROOT_SIGNAL_EVENT = HV_CALL_ATTRIBUTES (Struct 0 (flds_of
       [mem ''DestinationPartitionId'' HV_PARTITION_ID, mem ''DestinationVpIndex'' HV_VP_INDEX,
       mem ''NewlySignalled'' U8]))"

definition HV_INPUT_GET_VP_CPUID_VALUES :: cty where
  "HV_INPUT_GET_VP_CPUID_VALUES = HV_CALL_ATTRIBUTES (Struct 0 (flds_of
       [mem ''PartitionId'' HV_PARTITION_ID, mem ''VpIndex'' HV_VP_INDEX,
       mem ''Flags'' HV_GET_VP_CPUID_VALUES_FLAGS, mem ''ReservedZ'' U32,
       mem ''CpuidLeafInfo'' (Arr HV_CPUID_LEAF_INFO 0)]))"

definition HV_OUTPUT_GET_VP_CPUID_VALUES :: cty where
  "HV_OUTPUT_GET_VP_CPUID_VALUES = HV_CALL_ATTRIBUTES (Union 0 (flds_of
       [mem ''AsUINT32'' (Arr U32 4),
       mem '''' (Struct 0 (flds_of [mem ''Eax'' U32, mem ''Ebx'' U32, mem ''Ecx'' U32, mem ''Edx'' U32]))]))"

definition HV_INPUT_READ_SYSTEM_MEMORY :: cty where
  "HV_INPUT_READ_SYSTEM_MEMORY = HV_CALL_ATTRIBUTES (Union 0 (flds_of
       [mem ''AsUINT64'' U64,
       mem '''' (Struct 0 (flds_of [bits ''Spa'' U64 52, bits ''Uncached'' U64 1, bits ''Size'' U64 4,
          bits ''ReservedZ0'' U64 7]))]))"

definition HV_OUTPUT_READ_SYSTEM_MEMORY :: cty where
  "HV_OUTPUT_READ_SYSTEM_MEMORY = HV_CALL_ATTRIBUTES (Union 0 (flds_of
       [mem ''Reg64'' U64, mem ''Reg32'' U32, mem ''Reg16'' U16, mem ''Reg8'' U8]))"

definition HV_INPUT_SET_HW_WATCHDOG_CONFIG :: cty where
  "HV_INPUT_SET_HW_WATCHDOG_CONFIG = HV_CALL_ATTRIBUTES (Union 0 (flds_of
       [mem ''Data'' (Arr U8 HV_ANYSIZE_ARRAY)]))"

definition HV_INPUT_REMOVE_PHYSICAL_MEMORY :: cty where
  "HV_INPUT_REMOVE_PHYSICAL_MEMORY = HV_CALL_ATTRIBUTES (Struct 0 (flds_of
       [mem ''Prepare'' U8, mem ''LargePage'' U8, mem ''Reserved1'' U16, mem ''Reserved2'' U32,
       mem ''StartPage'' U64]))"

definition HV_INPUT_SUBSUME_VP :: cty where
  "HV_INPUT_SUBSUME_VP = HV_CALL_ATTRIBUTES (Struct 0 (flds_of
       [mem ''PartitionId'' HV_PARTITION_ID, mem ''VpIndex'' HV_VP_INDEX]))"

definition HV_INPUT_WRITE_SYS_DIAG_EVENT :: cty where
  "HV_INPUT_WRITE_SYS_DIAG_EVENT = HV_CALL_ATTRIBUTES (Struct 0 (flds_of
       [mem ''Header'' HV_EVENTLOG_ENTRY_HEADER, mem ''DataSize'' U32, mem ''Data'' (Arr U8 0)]))"

definition HV_SET_DEVICE_CAPABILITIES_FLAGS :: cty where
  "HV_SET_DEVICE_CAPABILITIES_FLAGS = HV_CALL_ATTRIBUTES (Union 0 (flds_of
       [mem ''AsUINT32'' U32,
       mem '''' (Struct 0 (flds_of [bits ''Clear'' U32 1, bits ''Set'' U32 1, bits ''SvmSupported'' U32 1,
          bits ''DmaEnabled'' U32 1, bits ''AtsEnabled'' U32 1, bits ''PasidSupported'' U32 1,
          bits ''Reserved'' U32 26]))]))"

definition HV_INPUT_SET_DEVICE_CAPABILITIES :: cty where
  "HV_INPUT_SET_DEVICE_CAPABILITIES = HV_CALL_ATTRIBUTES (Struct 0 (flds_of
       [mem ''PartitionId'' HV_PARTITION_ID, mem ''LogicalDeviceId'' HV_LOGICAL_DEVICE_ID,
       mem ''Flags'' HV_SET_DEVICE_CAPABILITIES_FLAGS,
       mem ''PciCapabilities'' HV_DEVICE_PCI_CAPABILITIES]))"

definition HV_INPUT_GET_PARTITION_PROPERTY_EX :: cty where
  "HV_INPUT_GET_PARTITION_PROPERTY_EX = HV_CALL_ATTRIBUTES (Struct 0 (flds_of
       [mem ''PartitionId'' HV_PARTITION_ID, mem ''PropertyCode'' Enum_ty,
       mem ''Arg'' HV_INPUT_PARTITION_PROPERTY_ARG]))"

definition HV_OUTPUT_GET_PARTITION_PROPERTY_EX :: cty where
  "HV_OUTPUT_GET_PARTITION_PROPERTY_EX = HV_CALL_ATTRIBUTES (Struct 0 (flds_of
       [mem ''PropertyValue'' HV_PARTITION_PROPERTY_EX]))"

definition HV_INPUT_GET_GPA_RANGES_ACCESS_STATE :: cty where
  "HV_INPUT_GET_GPA_RANGES_ACCESS_STATE = HV_CALL_ATTRIBUTES (Struct 0 (flds_of
       [mem ''PartitionId'' U64, mem ''Flags'' HV_GPA_PAGE_ACCESS_STATE_FLAGS,
       mem ''BaseGpaPage'' U64, mem ''RangeSize'' Enum_ty, mem ''Reserved'' U32]))"

definition HV_INPUT_RESTORE_PARTITION_TIME :: cty where
  "HV_INPUT_RESTORE_PARTITION_TIME = HV_CALL_ATTRIBUTES (Struct 0 (flds_of
       [mem ''PartitionId'' U64, mem ''TscSequence'' U32, mem ''ReservedZ'' U32,
       mem ''ReferenceTime'' U64, mem ''Tsc'' U64]))"

definition HV_OUTPUT_QUERY_ASSOCIATED_LP_FOR_MCA_EX :: cty where
  "HV_OUTPUT_QUERY_ASSOCIATED_LP_FOR_MCA_EX = HV_CALL_ATTRIBUTES (Union 0 (flds_of
       [mem ''AssociatedLpSet'' HV_GENERIC_SET, mem ''AssociatedLpSetBuffer'' (Arr U64 7)]))"

definition HV_INPUT_SET_PARTITION_PROPERTY_EX :: cty where
  "HV_INPUT_SET_PARTITION_PROPERTY_EX = HV_CALL_ATTRIBUTES (Struct 0 (flds_of
       [mem ''PartitionId'' HV_PARTITION_ID, mem ''PropertyCode'' Enum_ty,
       mem ''Arg'' HV_INPUT_PARTITION_PROPERTY_ARG,
       mem ''PropertyValue'' (Arr HV_PARTITION_PROPERTY_EX 0)]))"

definition HV_INPUT_ATTACH_DEVICE_PR_QUEUE :: cty where
  "HV_INPUT_ATTACH_DEVICE_PR_QUEUE = HV_CALL_ATTRIBUTES (Struct 0 (flds_of
       [mem ''PartitionId'' HV_PARTITION_ID, mem ''LogicalDeviceId'' HV_LOGICAL_DEVICE_ID,
       mem ''PrQueueId'' HV_DEVICE_PR_QUEUE_ID, mem ''Reserved'' U32]))"

definition HV_INPUT_DETACH_DEVICE_PR_QUEUE :: cty where
  "HV_INPUT_DETACH_DEVICE_PR_QUEUE = HV_CALL_ATTRIBUTES (Struct 0 (flds_of
       [mem ''PartitionId'' HV_PARTITION_ID, mem ''LogicalDeviceId'' HV_LOGICAL_DEVICE_ID]))"

definition HV_INPUT_RESERVE_DEVICE_DOMAIN_ATTACHMENT :: cty where
  "HV_INPUT_RESERVE_DEVICE_DOMAIN_ATTACHMENT = HV_CALL_ATTRIBUTES (Struct 0 (flds_of
       [mem ''DeviceDomain'' HV_INPUT_DEVICE_DOMAIN, mem ''LogicalDeviceId'' HV_LOGICAL_DEVICE_ID]))"

definition HV_INPUT_UNRESERVE_DEVICE_DOMAIN_ATTACHMENT :: cty where
  "HV_INPUT_UNRESERVE_DEVICE_DOMAIN_ATTACHMENT = HV_CALL_ATTRIBUTES (Struct 0 (flds_of
       [mem ''PartitionId'' HV_PARTITION_ID, mem ''LogicalDeviceId'' HV_LOGICAL_DEVICE_ID]))"

definition HV_X64_INPUT_DISABLE_HYPERVISOR_EX :: cty where
  "HV_X64_INPUT_DISABLE_HYPERVISOR_EX = HV_CALL_ATTRIBUTES (Struct 0 (flds_of
       [mem ''Rip'' U64,
       mem ''Flags'' (Union 0 (flds_of [mem ''AsUINT64'' U64, mem '''' (Struct 0 (flds_of [bits ''LongMode'' U64 1]))])),
       mem ''Arg'' U64]))"

definition HV_INPUT_INSTALL_INTERCEPT_EX :: cty where
  "HV_INPUT_INSTALL_INTERCEPT_EX = HV_CALL_ATTRIBUTES (Struct 0 (flds_of
       [mem ''PartitionId'' HV_PARTITION_ID, mem ''InterceptingInputVtl'' HV_INPUT_VTL,
       mem ''InterceptType'' Enum_ty, mem ''Reserved'' (Arr U64 4),
       mem ''InterceptParameters'' (Arr HV_INTERCEPT_PARAMETERS_EX 0)]))"

definition HV_INPUT_WAKE_VPS :: cty where
  "HV_INPUT_WAKE_VPS = HV_CALL_ATTRIBUTES (Struct 0 (flds_of
       [mem ''PartitionId'' HV_PARTITION_ID, mem ''VpsToWake'' HV_GENERIC_SET]))"

definition HV_INPUT_SET_CPU_GROUP_AFFINITY :: cty where
  "HV_INPUT_SET_CPU_GROUP_AFFINITY = HV_CALL_ATTRIBUTES (Struct 0 (flds_of
       [mem ''CpuGroupId'' HV_CPU_GROUP_ID,
       mem ''CpuGroupAffinity'' (Union 0 (flds_of [mem ''Bitset'' HV_GENERIC_SET, mem ''BitsetBuffer'' (Arr U64 7)]))]))"

definition HV_INPUT_MAP_PARTITION_EVENTLOG_BUFFER :: cty where
  "HV_INPUT_MAP_PARTITION_EVENTLOG_BUFFER = HV_CALL_ATTRIBUTES (Struct 0 (flds_of
       [mem ''PartitionId'' HV_PARTITION_ID, mem ''EventLogType'' Enum_ty,
       mem ''BufferIndex'' U32, mem ''GpaRange'' HV_GPA_PAGE_RANGE]))"

section \<open>Hypervisor Extended Hypercall Definitions\<close>

definition HV_EXT_CALL :: enum_tab where
  "HV_EXT_CALL = enum_of
     [(''HvExtCallReserved'', Val 0x8000), (''HvExtCallQueryCapabilities'', Val 0x8001),
     (''HvExtCallGetBootZeroedMemory'', Val 0x8002), (''HvExtCallMemoryHeatHint'', Val 0x8003),
     (''HvExtCallEpfSetup'', Val 0x8004), (''HvExtCallSchedulerAssistSetup'', Val 0x8005),
     (''HvExtCallMemoryHeatHintAsync'', Val 0x8006), (''HvExtCallMax'', Val 0x8007)]"

definition HV_EXT_OUTPUT_QUERY_CAPABILITIES :: cty where
  "HV_EXT_OUTPUT_QUERY_CAPABILITIES = HV_CALL_ATTRIBUTES (Union 0 (flds_of
       [mem ''AsUINT64'' U64,
       mem '''' (Struct 0 (flds_of [bits ''GetBootZeroedMemory'' U64 1, bits ''MemoryHotHint'' U64 1,
          bits ''MemoryColdHint'' U64 1, bits ''Epf'' U64 1, bits ''RootScheduler'' U64 1,
          bits ''PowerSchedulerQos'' U64 1, bits ''AsyncMemoryHint'' U64 1,
          bits ''MemoryColdHintLargeOnly'' U64 1, bits ''MemoryColdDiscardHint'' U64 1,
          bits ''Reserved'' U64 55]))]))"

definition HV_EXT_OUTPUT_BOOT_ZEROED_MEMORY_RANGE :: cty where
  "HV_EXT_OUTPUT_BOOT_ZEROED_MEMORY_RANGE = Struct 0 (flds_of
       [mem ''StartGpa'' HV_GPA, mem ''PageCount'' U64])"

definition HV_EXT_OUTPUT_BOOT_ZEROED_MEMORY :: cty where
  "HV_EXT_OUTPUT_BOOT_ZEROED_MEMORY = HV_CALL_ATTRIBUTES (Struct 0 (flds_of
       [mem ''RangeCount'' U64,
       mem ''ZeroedRanges'' (Arr HV_EXT_OUTPUT_BOOT_ZEROED_MEMORY_RANGE 255)]))"

definition HV_EXT_INPUT_MEMORY_HEAT_HINT :: cty where
  "HV_EXT_INPUT_MEMORY_HEAT_HINT = HV_CALL_ATTRIBUTES (Struct 0 (flds_of
       [bits ''Heat'' U64 2, bits ''Reserved'' U64 62, mem ''Ranges'' (Arr HV_GPA_PAGE_RANGE 0)]))"

definition HV_EXT_EPF_MODE :: enum_tab where
  "HV_EXT_EPF_MODE = enum_of
     [(''HvExtEpfModeMin'', Val 0x0), (''HvExtEpfModeNt'', Val 0x0),
     (''HvExtEpfModeMax'', Val 0x1)]"

definition HV_EXT_EPF_COMPLETION_QUEUE :: cty where
  "HV_EXT_EPF_COMPLETION_QUEUE = Struct 0 (flds_of
       [mem ''ReadCursor'' U64, mem ''WriteCursor'' U64, mem ''Queue'' (Arr U64 HV_ANYSIZE_ARRAY)])"

definition HV_EXT_INPUT_EPF_SETUP :: cty where
  "HV_EXT_INPUT_EPF_SETUP = HV_CALL_ATTRIBUTES (Struct 0 (flds_of
       [mem ''Version'' U32, mem ''Mode'' Enum_ty, mem ''CompletionQueueGpaPage'' HV_GPA,
       mem ''CompletionQueuePageCount'' U64]))"

definition HV_EXT_OUTPUT_EPF_SETUP :: cty where
  "HV_EXT_OUTPUT_EPF_SETUP = HV_CALL_ATTRIBUTES (Struct 0 (flds_of
       [mem ''CompletionQueuePageCount'' U64]))"

definition HV_EXT_SCHEDULER_ASSIST_MODE :: enum_tab where
  "HV_EXT_SCHEDULER_ASSIST_MODE = enum_of
     [(''HvExtSchedulerAssistModeNone'', Val 0x0), (''HvExtSchedulerAssistModeNt'', Val 0x1),
     (''HvExtSchedulerAssistModeMax'', Val 0x2)]"

definition HV_EXT_SCHEDULER_ASSIST_ACTION :: enum_tab where
  "HV_EXT_SCHEDULER_ASSIST_ACTION = enum_of
     [(''HvExtSchedulerAssistSetDataPage'', Val 0x0),
     (''HvExtSchedulerAssistUpdateBamQos'', Val 0x1),
     (''HvExtSchedulerAssistUpdatePriority'', Val 0x2),
     (''HvExtSchedulerAssistRemoveSystemWorkBoost'', Val 0x3),
     (''HvExtSchedulerAssistEventSignalled'', Val 0x4),
     (''HvExtSchedulerAssistActionMax'', Val 0x5)]"

definition HV_EXT_SCHEDULER_ASSIST_DATA :: cty where
  "HV_EXT_SCHEDULER_ASSIST_DATA = Struct 0 (flds_of
       [mem '''' (Union 0 (flds_of [mem ''PriorityState'' U32,
          mem '''' (Struct 0 (flds_of [bits ''RootPriority'' U32 8, bits ''GuestPriority'' U32 8, bits ''Spare'' U32 1,
             bits ''LowPriorityOverride'' U32 1, bits ''RootRequiresPriorityKick'' U32 1,
             bits ''HrTimerActive'' U32 1, bits ''RootProcessingAssistData'' U32 1,
             bits ''InterruptsDisabled'' U32 1, bits ''Reserved'' U32 10]))])),
       mem ''BamQosLevel'' U32, mem ''TargetVpIndex'' HV_VP_INDEX,
       mem ''SchedulerAssistAction'' Enum_ty, mem ''DoNotPreempt'' U8,
       mem ''SystemIrqlMask'' U32, mem ''Spare2'' U32, mem ''DpcInsertedCount'' U32,
       mem ''IpiInsertedCount'' U32, mem ''EventsSignalledCount'' U64,
       mem ''EventsAcknowledgedCount'' U64, mem ''RootIsRunning'' (Aligned 128 U8),
       mem ''RootInHvCallDispatchVp'' U8])"

definition HV_EXT_INPUT_SETUP_SCHEDULER_ASSIST :: cty where
  "HV_EXT_INPUT_SETUP_SCHEDULER_ASSIST = HV_CALL_ATTRIBUTES (Struct 0 (flds_of
       [mem ''Version'' U32, mem ''Mode'' Enum_ty, mem ''SchedulerAssistDataGpa'' HV_GPA]))"

section \<open>Layouts\<close>

lemma HV_X64_HYPERVISOR_FEATURES_PRIVATE_layout [tlfs_layout]:
  "csize A HV_X64_HYPERVISOR_FEATURES_PRIVATE = 16" "calign A HV_X64_HYPERVISOR_FEATURES_PRIVATE = 8"
  "integer_view A HV_X64_HYPERVISOR_FEATURES_PRIVATE = None"
  by (cases "abi_ms_bits A", simp_all add: HV_X64_HYPERVISOR_FEATURES_PRIVATE_def tlfs_eval tlfs_layout)

lemma HV_ARM64_HYPERVISOR_FEATURES_PRIVATE_layout [tlfs_layout]:
  "csize A HV_ARM64_HYPERVISOR_FEATURES_PRIVATE = 16" "calign A HV_ARM64_HYPERVISOR_FEATURES_PRIVATE = 8"
  "integer_view A HV_ARM64_HYPERVISOR_FEATURES_PRIVATE = None"
  by (cases "abi_ms_bits A", simp_all add: HV_ARM64_HYPERVISOR_FEATURES_PRIVATE_def tlfs_eval tlfs_layout)

lemma HV_HYPERVISOR_FEATURES_PRIVATE_X64_layout [tlfs_layout]:
  "csize A (HV_HYPERVISOR_FEATURES_PRIVATE X64) = 16" "calign A (HV_HYPERVISOR_FEATURES_PRIVATE X64) = 8"
  "integer_view A (HV_HYPERVISOR_FEATURES_PRIVATE X64) = None"
  by (simp_all add: HV_HYPERVISOR_FEATURES_PRIVATE_def tlfs_eval tlfs_layout)

lemma HV_HYPERVISOR_FEATURES_PRIVATE_ARM64_layout [tlfs_layout]:
  "csize A (HV_HYPERVISOR_FEATURES_PRIVATE ARM64) = 16" "calign A (HV_HYPERVISOR_FEATURES_PRIVATE ARM64) = 8"
  "integer_view A (HV_HYPERVISOR_FEATURES_PRIVATE ARM64) = None"
  by (simp_all add: HV_HYPERVISOR_FEATURES_PRIVATE_def tlfs_eval tlfs_layout)

lemma HV_X64_ENLIGHTENMENT_INFORMATION_PRIVATE_layout [tlfs_layout]:
  "csize A HV_X64_ENLIGHTENMENT_INFORMATION_PRIVATE = 16" "calign A HV_X64_ENLIGHTENMENT_INFORMATION_PRIVATE = 4"
  "integer_view A HV_X64_ENLIGHTENMENT_INFORMATION_PRIVATE = None"
  by (cases "abi_ms_bits A", simp_all add: HV_X64_ENLIGHTENMENT_INFORMATION_PRIVATE_def tlfs_eval tlfs_layout)

lemma HV_ARM64_ENLIGHTENMENT_INFORMATION_PRIVATE_layout [tlfs_layout]:
  "csize A HV_ARM64_ENLIGHTENMENT_INFORMATION_PRIVATE = 16" "calign A HV_ARM64_ENLIGHTENMENT_INFORMATION_PRIVATE = 4"
  "integer_view A HV_ARM64_ENLIGHTENMENT_INFORMATION_PRIVATE = None"
  by (cases "abi_ms_bits A", simp_all add: HV_ARM64_ENLIGHTENMENT_INFORMATION_PRIVATE_def tlfs_eval tlfs_layout)

lemma HV_ENLIGHTENMENT_INFORMATION_PRIVATE_X64_layout [tlfs_layout]:
  "csize A (HV_ENLIGHTENMENT_INFORMATION_PRIVATE X64) = 16" "calign A (HV_ENLIGHTENMENT_INFORMATION_PRIVATE X64) = 4"
  "integer_view A (HV_ENLIGHTENMENT_INFORMATION_PRIVATE X64) = None"
  by (simp_all add: HV_ENLIGHTENMENT_INFORMATION_PRIVATE_def tlfs_eval tlfs_layout)

lemma HV_ENLIGHTENMENT_INFORMATION_PRIVATE_ARM64_layout [tlfs_layout]:
  "csize A (HV_ENLIGHTENMENT_INFORMATION_PRIVATE ARM64) = 16" "calign A (HV_ENLIGHTENMENT_INFORMATION_PRIVATE ARM64) = 4"
  "integer_view A (HV_ENLIGHTENMENT_INFORMATION_PRIVATE ARM64) = None"
  by (simp_all add: HV_ENLIGHTENMENT_INFORMATION_PRIVATE_def tlfs_eval tlfs_layout)

lemma HV_X64_HYPERVISOR_HARDWARE_FEATURES_PRIVATE_layout [tlfs_layout]:
  "csize A HV_X64_HYPERVISOR_HARDWARE_FEATURES_PRIVATE = 16" "calign A HV_X64_HYPERVISOR_HARDWARE_FEATURES_PRIVATE = 4"
  "integer_view A HV_X64_HYPERVISOR_HARDWARE_FEATURES_PRIVATE = None"
  by (cases "abi_ms_bits A", simp_all add: HV_X64_HYPERVISOR_HARDWARE_FEATURES_PRIVATE_def tlfs_eval tlfs_layout)

lemma HV_ARM64_HYPERVISOR_HARDWARE_FEATURES_PRIVATE_layout [tlfs_layout]:
  "csize A HV_ARM64_HYPERVISOR_HARDWARE_FEATURES_PRIVATE = 16" "calign A HV_ARM64_HYPERVISOR_HARDWARE_FEATURES_PRIVATE = 4"
  "integer_view A HV_ARM64_HYPERVISOR_HARDWARE_FEATURES_PRIVATE = None"
  by (cases "abi_ms_bits A", simp_all add: HV_ARM64_HYPERVISOR_HARDWARE_FEATURES_PRIVATE_def tlfs_eval tlfs_layout)

lemma HV_HYPERVISOR_HARDWARE_FEATURES_PRIVATE_X64_layout [tlfs_layout]:
  "csize A (HV_HYPERVISOR_HARDWARE_FEATURES_PRIVATE X64) = 16" "calign A (HV_HYPERVISOR_HARDWARE_FEATURES_PRIVATE X64) = 4"
  "integer_view A (HV_HYPERVISOR_HARDWARE_FEATURES_PRIVATE X64) = None"
  by (simp_all add: HV_HYPERVISOR_HARDWARE_FEATURES_PRIVATE_def tlfs_eval tlfs_layout)

lemma HV_HYPERVISOR_HARDWARE_FEATURES_PRIVATE_ARM64_layout [tlfs_layout]:
  "csize A (HV_HYPERVISOR_HARDWARE_FEATURES_PRIVATE ARM64) = 16" "calign A (HV_HYPERVISOR_HARDWARE_FEATURES_PRIVATE ARM64) = 4"
  "integer_view A (HV_HYPERVISOR_HARDWARE_FEATURES_PRIVATE ARM64) = None"
  by (simp_all add: HV_HYPERVISOR_HARDWARE_FEATURES_PRIVATE_def tlfs_eval tlfs_layout)

lemma HV_X64_HYPERVISOR_CPU_MANAGEMENT_FEATURES_PRIVATE_layout [tlfs_layout]:
  "csize A HV_X64_HYPERVISOR_CPU_MANAGEMENT_FEATURES_PRIVATE = 16" "calign A HV_X64_HYPERVISOR_CPU_MANAGEMENT_FEATURES_PRIVATE = 4"
  "integer_view A HV_X64_HYPERVISOR_CPU_MANAGEMENT_FEATURES_PRIVATE = None"
  by (cases "abi_ms_bits A", simp_all add: HV_X64_HYPERVISOR_CPU_MANAGEMENT_FEATURES_PRIVATE_def tlfs_eval tlfs_layout)

lemma HV_ARM64_HYPERVISOR_CPU_MANAGEMENT_FEATURES_PRIVATE_layout [tlfs_layout]:
  "csize A HV_ARM64_HYPERVISOR_CPU_MANAGEMENT_FEATURES_PRIVATE = 16" "calign A HV_ARM64_HYPERVISOR_CPU_MANAGEMENT_FEATURES_PRIVATE = 4"
  "integer_view A HV_ARM64_HYPERVISOR_CPU_MANAGEMENT_FEATURES_PRIVATE = None"
  by (cases "abi_ms_bits A", simp_all add: HV_ARM64_HYPERVISOR_CPU_MANAGEMENT_FEATURES_PRIVATE_def tlfs_eval tlfs_layout)

lemma HV_HYPERVISOR_CPU_MANAGEMENT_FEATURES_PRIVATE_X64_layout [tlfs_layout]:
  "csize A (HV_HYPERVISOR_CPU_MANAGEMENT_FEATURES_PRIVATE X64) = 16" "calign A (HV_HYPERVISOR_CPU_MANAGEMENT_FEATURES_PRIVATE X64) = 4"
  "integer_view A (HV_HYPERVISOR_CPU_MANAGEMENT_FEATURES_PRIVATE X64) = None"
  by (simp_all add: HV_HYPERVISOR_CPU_MANAGEMENT_FEATURES_PRIVATE_def tlfs_eval tlfs_layout)

lemma HV_HYPERVISOR_CPU_MANAGEMENT_FEATURES_PRIVATE_ARM64_layout [tlfs_layout]:
  "csize A (HV_HYPERVISOR_CPU_MANAGEMENT_FEATURES_PRIVATE ARM64) = 16" "calign A (HV_HYPERVISOR_CPU_MANAGEMENT_FEATURES_PRIVATE ARM64) = 4"
  "integer_view A (HV_HYPERVISOR_CPU_MANAGEMENT_FEATURES_PRIVATE ARM64) = None"
  by (simp_all add: HV_HYPERVISOR_CPU_MANAGEMENT_FEATURES_PRIVATE_def tlfs_eval tlfs_layout)

lemma HV_HYPERVISOR_PASID_FEATURES_layout [tlfs_layout]:
  "csize A HV_HYPERVISOR_PASID_FEATURES = 16" "calign A HV_HYPERVISOR_PASID_FEATURES = 4"
  "integer_view A HV_HYPERVISOR_PASID_FEATURES = None"
  by (cases "abi_ms_bits A", simp_all add: HV_HYPERVISOR_PASID_FEATURES_def tlfs_eval tlfs_layout)

lemma HV_HYPERVISOR_ISOLATION_CONFIGURATION_PRIVATE_layout [tlfs_layout]:
  "csize A HV_HYPERVISOR_ISOLATION_CONFIGURATION_PRIVATE = 16" "calign A HV_HYPERVISOR_ISOLATION_CONFIGURATION_PRIVATE = 4"
  "integer_view A HV_HYPERVISOR_ISOLATION_CONFIGURATION_PRIVATE = None"
  by (cases "abi_ms_bits A", simp_all add: HV_HYPERVISOR_ISOLATION_CONFIGURATION_PRIVATE_def tlfs_eval tlfs_layout)

lemma HV_HYPERVISOR_NESTED_VIRT_FEATURES_PRIVATE_layout [tlfs_layout]:
  "csize A HV_HYPERVISOR_NESTED_VIRT_FEATURES_PRIVATE = 16" "calign A HV_HYPERVISOR_NESTED_VIRT_FEATURES_PRIVATE = 4"
  "integer_view A HV_HYPERVISOR_NESTED_VIRT_FEATURES_PRIVATE = None"
  by (cases "abi_ms_bits A", simp_all add: HV_HYPERVISOR_NESTED_VIRT_FEATURES_PRIVATE_def tlfs_eval tlfs_layout)

lemma HV_HYPERVISOR_IPT_FEATURES_layout [tlfs_layout]:
  "csize A HV_HYPERVISOR_IPT_FEATURES = 16" "calign A HV_HYPERVISOR_IPT_FEATURES = 4"
  "integer_view A HV_HYPERVISOR_IPT_FEATURES = None"
  by (cases "abi_ms_bits A", simp_all add: HV_HYPERVISOR_IPT_FEATURES_def tlfs_eval tlfs_layout)

lemma HV_CPUID_RESULT_PRIVATE_X64_layout [tlfs_layout]:
  "csize A (HV_CPUID_RESULT_PRIVATE X64) = 16" "calign A (HV_CPUID_RESULT_PRIVATE X64) = 8"
  "integer_view A (HV_CPUID_RESULT_PRIVATE X64) = None"
  by (simp_all add: HV_CPUID_RESULT_PRIVATE_def tlfs_eval tlfs_layout)

lemma HV_CPUID_RESULT_PRIVATE_ARM64_layout [tlfs_layout]:
  "csize A (HV_CPUID_RESULT_PRIVATE ARM64) = 16" "calign A (HV_CPUID_RESULT_PRIVATE ARM64) = 8"
  "integer_view A (HV_CPUID_RESULT_PRIVATE ARM64) = None"
  by (simp_all add: HV_CPUID_RESULT_PRIVATE_def tlfs_eval tlfs_layout)

lemma HV_LOGICAL_PROCESSOR_REGISTER_VALUE_X64_layout [tlfs_layout]:
  "csize sysv (HV_LOGICAL_PROCESSOR_REGISTER_VALUE X64) = 16" "csize msvc (HV_LOGICAL_PROCESSOR_REGISTER_VALUE X64) = 16"
  "calign sysv (HV_LOGICAL_PROCESSOR_REGISTER_VALUE X64) = 16" "calign msvc (HV_LOGICAL_PROCESSOR_REGISTER_VALUE X64) = 16"
  "integer_view sysv (HV_LOGICAL_PROCESSOR_REGISTER_VALUE X64) = None" "integer_view msvc (HV_LOGICAL_PROCESSOR_REGISTER_VALUE X64) = None"
  by (simp_all add: HV_LOGICAL_PROCESSOR_REGISTER_VALUE_def tlfs_eval tlfs_layout interface_layout)

lemma HV_LOGICAL_PROCESSOR_REGISTER_VALUE_ARM64_layout [tlfs_layout]:
  "csize sysv (HV_LOGICAL_PROCESSOR_REGISTER_VALUE ARM64) = 16" "csize msvc (HV_LOGICAL_PROCESSOR_REGISTER_VALUE ARM64) = 16"
  "calign sysv (HV_LOGICAL_PROCESSOR_REGISTER_VALUE ARM64) = 16" "calign msvc (HV_LOGICAL_PROCESSOR_REGISTER_VALUE ARM64) = 16"
  "integer_view sysv (HV_LOGICAL_PROCESSOR_REGISTER_VALUE ARM64) = None" "integer_view msvc (HV_LOGICAL_PROCESSOR_REGISTER_VALUE ARM64) = None"
  by (simp_all add: HV_LOGICAL_PROCESSOR_REGISTER_VALUE_def tlfs_eval tlfs_layout interface_layout)

lemma HV_LOGICAL_PROCESSOR_REGISTER_ASSOC_X64_layout [tlfs_layout]:
  "csize sysv (HV_LOGICAL_PROCESSOR_REGISTER_ASSOC X64) = 32" "csize msvc (HV_LOGICAL_PROCESSOR_REGISTER_ASSOC X64) = 32"
  "calign sysv (HV_LOGICAL_PROCESSOR_REGISTER_ASSOC X64) = 16" "calign msvc (HV_LOGICAL_PROCESSOR_REGISTER_ASSOC X64) = 16"
  "integer_view sysv (HV_LOGICAL_PROCESSOR_REGISTER_ASSOC X64) = None" "integer_view msvc (HV_LOGICAL_PROCESSOR_REGISTER_ASSOC X64) = None"
  by (simp_all add: HV_LOGICAL_PROCESSOR_REGISTER_ASSOC_def tlfs_eval tlfs_layout interface_layout)

lemma HV_LOGICAL_PROCESSOR_REGISTER_ASSOC_ARM64_layout [tlfs_layout]:
  "csize sysv (HV_LOGICAL_PROCESSOR_REGISTER_ASSOC ARM64) = 32" "csize msvc (HV_LOGICAL_PROCESSOR_REGISTER_ASSOC ARM64) = 32"
  "calign sysv (HV_LOGICAL_PROCESSOR_REGISTER_ASSOC ARM64) = 16" "calign msvc (HV_LOGICAL_PROCESSOR_REGISTER_ASSOC ARM64) = 16"
  "integer_view sysv (HV_LOGICAL_PROCESSOR_REGISTER_ASSOC ARM64) = None" "integer_view msvc (HV_LOGICAL_PROCESSOR_REGISTER_ASSOC ARM64) = None"
  by (simp_all add: HV_LOGICAL_PROCESSOR_REGISTER_ASSOC_def tlfs_eval tlfs_layout interface_layout)

lemma HV_X64_MSR_SYNMC_STATUS_CONTENTS_layout [tlfs_layout]:
  "csize A HV_X64_MSR_SYNMC_STATUS_CONTENTS = 8" "calign A HV_X64_MSR_SYNMC_STATUS_CONTENTS = 8"
  "integer_view A HV_X64_MSR_SYNMC_STATUS_CONTENTS = Some 8"
  by (cases "abi_ms_bits A", simp_all add: HV_X64_MSR_SYNMC_STATUS_CONTENTS_def tlfs_eval tlfs_layout)

lemma HV_X64_MSR_SYNMC_ADDR_CONTENTS_scalars [tlfs_layout]:
  "csize A HV_X64_MSR_SYNMC_ADDR_CONTENTS = 8" "calign A HV_X64_MSR_SYNMC_ADDR_CONTENTS = 8" "integer_view A HV_X64_MSR_SYNMC_ADDR_CONTENTS = None"
  "csize A HV_X64_MSR_SYNMC_MISC_CONTENTS = 8" "calign A HV_X64_MSR_SYNMC_MISC_CONTENTS = 8" "integer_view A HV_X64_MSR_SYNMC_MISC_CONTENTS = None"
  by (simp_all add: HV_X64_MSR_SYNMC_ADDR_CONTENTS_def HV_X64_MSR_SYNMC_MISC_CONTENTS_def tlfs_layout)

lemma HV_SYNMC_X64_EVENT_layout [tlfs_layout]:
  "csize A HV_SYNMC_X64_EVENT = 32" "calign A HV_SYNMC_X64_EVENT = 8"
  "integer_view A HV_SYNMC_X64_EVENT = None"
  by (simp_all add: HV_SYNMC_X64_EVENT_def tlfs_eval tlfs_layout)

lemma HV_X64_MSR_RESET_CONTENTS_layout [tlfs_layout]:
  "csize A HV_X64_MSR_RESET_CONTENTS = 8" "calign A HV_X64_MSR_RESET_CONTENTS = 8"
  "integer_view A HV_X64_MSR_RESET_CONTENTS = Some 8"
  by (cases "abi_ms_bits A", simp_all add: HV_X64_MSR_RESET_CONTENTS_def tlfs_eval tlfs_layout)

lemma HV_ARM64_MSR_RESET_CONTENTS_layout [tlfs_layout]:
  "csize A HV_ARM64_MSR_RESET_CONTENTS = 8" "calign A HV_ARM64_MSR_RESET_CONTENTS = 8"
  "integer_view A HV_ARM64_MSR_RESET_CONTENTS = Some 8"
  by (cases "abi_ms_bits A", simp_all add: HV_ARM64_MSR_RESET_CONTENTS_def tlfs_eval tlfs_layout)

lemma HV_X64_MSR_REFERENCE_TSC_CONTENTS_layout [tlfs_layout]:
  "csize A HV_X64_MSR_REFERENCE_TSC_CONTENTS = 8" "calign A HV_X64_MSR_REFERENCE_TSC_CONTENTS = 8"
  "integer_view A HV_X64_MSR_REFERENCE_TSC_CONTENTS = Some 8"
  by (cases "abi_ms_bits A", simp_all add: HV_X64_MSR_REFERENCE_TSC_CONTENTS_def tlfs_eval tlfs_layout)

lemma HV_REFERENCE_TSC_PAGE_layout [tlfs_layout]:
  "csize A HV_REFERENCE_TSC_PAGE = 4096" "calign A HV_REFERENCE_TSC_PAGE = 8"
  "integer_view A HV_REFERENCE_TSC_PAGE = None"
  by (simp_all add: HV_REFERENCE_TSC_PAGE_def tlfs_eval tlfs_layout)

lemma HV_VP_VTL_CONTROL_X64_layout [tlfs_layout]:
  "csize A (HV_VP_VTL_CONTROL X64) = 24" "calign A (HV_VP_VTL_CONTROL X64) = 8"
  "integer_view A (HV_VP_VTL_CONTROL X64) = None"
  by (cases "abi_ms_bits A", simp_all add: HV_VP_VTL_CONTROL_def tlfs_eval tlfs_layout)

lemma HV_VP_VTL_CONTROL_ARM64_layout [tlfs_layout]:
  "csize A (HV_VP_VTL_CONTROL ARM64) = 24" "calign A (HV_VP_VTL_CONTROL ARM64) = 8"
  "integer_view A (HV_VP_VTL_CONTROL ARM64) = None"
  by (cases "abi_ms_bits A", simp_all add: HV_VP_VTL_CONTROL_def tlfs_eval tlfs_layout)

lemma HV_NESTED_ENLIGHTENMENTS_CONTROL_layout [tlfs_layout]:
  "csize A HV_NESTED_ENLIGHTENMENTS_CONTROL = 8" "calign A HV_NESTED_ENLIGHTENMENTS_CONTROL = 4"
  "integer_view A HV_NESTED_ENLIGHTENMENTS_CONTROL = None"
  by (cases "abi_ms_bits A", simp_all add: HV_NESTED_ENLIGHTENMENTS_CONTROL_def tlfs_eval tlfs_layout)

lemma HV_VIRTUALIZATION_FAULT_INFORMATION_layout [tlfs_layout]:
  "csize A HV_VIRTUALIZATION_FAULT_INFORMATION = 40" "calign A HV_VIRTUALIZATION_FAULT_INFORMATION = 8"
  "integer_view A HV_VIRTUALIZATION_FAULT_INFORMATION = None"
  by (simp_all add: HV_VIRTUALIZATION_FAULT_INFORMATION_def tlfs_eval tlfs_layout)

lemma HV_MINIMAL_INTERCEPT_INFORMATION_layout [tlfs_layout]:
  "csize A HV_MINIMAL_INTERCEPT_INFORMATION = 4" "calign A HV_MINIMAL_INTERCEPT_INFORMATION = 4"
  "integer_view A HV_MINIMAL_INTERCEPT_INFORMATION = None"
  by (simp_all add: HV_MINIMAL_INTERCEPT_INFORMATION_def tlfs_eval tlfs_layout)

lemma HV_VP_ASSIST_PAGE_X64_layout [tlfs_layout]:
  "csize sysv (HV_VP_ASSIST_PAGE X64) = 4096" "csize msvc (HV_VP_ASSIST_PAGE X64) = 4096"
  "calign sysv (HV_VP_ASSIST_PAGE X64) = 16" "calign msvc (HV_VP_ASSIST_PAGE X64) = 16"
  "integer_view sysv (HV_VP_ASSIST_PAGE X64) = None" "integer_view msvc (HV_VP_ASSIST_PAGE X64) = None"
  by (simp_all add: HV_VP_ASSIST_PAGE_def tlfs_eval tlfs_layout interface_layout)

lemma HV_VP_ASSIST_PAGE_ARM64_layout [tlfs_layout]:
  "csize sysv (HV_VP_ASSIST_PAGE ARM64) = 4096" "csize msvc (HV_VP_ASSIST_PAGE ARM64) = 4096"
  "calign sysv (HV_VP_ASSIST_PAGE ARM64) = 16" "calign msvc (HV_VP_ASSIST_PAGE ARM64) = 16"
  "integer_view sysv (HV_VP_ASSIST_PAGE ARM64) = None" "integer_view msvc (HV_VP_ASSIST_PAGE ARM64) = None"
  by (simp_all add: HV_VP_ASSIST_PAGE_def tlfs_eval tlfs_layout interface_layout)

lemma HV_REGISTER_VP_ASSIST_PAGE_layout [tlfs_layout]:
  "csize A HV_REGISTER_VP_ASSIST_PAGE = 8" "calign A HV_REGISTER_VP_ASSIST_PAGE = 8"
  "integer_view A HV_REGISTER_VP_ASSIST_PAGE = Some 8"
  by (cases "abi_ms_bits A", simp_all add: HV_REGISTER_VP_ASSIST_PAGE_def tlfs_eval tlfs_layout)

lemma HV_SYNIC_SCONTROL_layout [tlfs_layout]:
  "csize A HV_SYNIC_SCONTROL = 8" "calign A HV_SYNIC_SCONTROL = 8"
  "integer_view A HV_SYNIC_SCONTROL = Some 8"
  by (cases "abi_ms_bits A", simp_all add: HV_SYNIC_SCONTROL_def tlfs_eval tlfs_layout)

lemma HV_X64_MSR_POWER_STATE_TRIGGER_layout [tlfs_layout]:
  "csize A HV_X64_MSR_POWER_STATE_TRIGGER = 8" "calign A HV_X64_MSR_POWER_STATE_TRIGGER = 8"
  "integer_view A HV_X64_MSR_POWER_STATE_TRIGGER = Some 8"
  by (cases "abi_ms_bits A", simp_all add: HV_X64_MSR_POWER_STATE_TRIGGER_def tlfs_eval tlfs_layout)

lemma HV_X64_MSR_POWER_STATE_CONFIG_layout [tlfs_layout]:
  "csize A HV_X64_MSR_POWER_STATE_CONFIG = 8" "calign A HV_X64_MSR_POWER_STATE_CONFIG = 8"
  "integer_view A HV_X64_MSR_POWER_STATE_CONFIG = Some 8"
  by (cases "abi_ms_bits A", simp_all add: HV_X64_MSR_POWER_STATE_CONFIG_def tlfs_eval tlfs_layout)

lemma HV_X64_MSR_SYNTH_DEBUG_BUFFER_CONTENTS_layout [tlfs_layout]:
  "csize A HV_X64_MSR_SYNTH_DEBUG_BUFFER_CONTENTS = 8" "calign A HV_X64_MSR_SYNTH_DEBUG_BUFFER_CONTENTS = 8"
  "integer_view A HV_X64_MSR_SYNTH_DEBUG_BUFFER_CONTENTS = Some 8"
  by (cases "abi_ms_bits A", simp_all add: HV_X64_MSR_SYNTH_DEBUG_BUFFER_CONTENTS_def tlfs_eval tlfs_layout)

lemma HV_REENLIGHTENMENT_CONTROL_layout [tlfs_layout]:
  "csize A HV_REENLIGHTENMENT_CONTROL = 8" "calign A HV_REENLIGHTENMENT_CONTROL = 8"
  "integer_view A HV_REENLIGHTENMENT_CONTROL = Some 8"
  by (cases "abi_ms_bits A", simp_all add: HV_REENLIGHTENMENT_CONTROL_def tlfs_eval tlfs_layout)

lemma HV_TSC_EMULATION_CONTROL_layout [tlfs_layout]:
  "csize A HV_TSC_EMULATION_CONTROL = 8" "calign A HV_TSC_EMULATION_CONTROL = 8"
  "integer_view A HV_TSC_EMULATION_CONTROL = Some 8"
  by (cases "abi_ms_bits A", simp_all add: HV_TSC_EMULATION_CONTROL_def tlfs_eval tlfs_layout)

lemma HV_TSC_EMULATION_STATUS_layout [tlfs_layout]:
  "csize A HV_TSC_EMULATION_STATUS = 8" "calign A HV_TSC_EMULATION_STATUS = 8"
  "integer_view A HV_TSC_EMULATION_STATUS = Some 8"
  by (cases "abi_ms_bits A", simp_all add: HV_TSC_EMULATION_STATUS_def tlfs_eval tlfs_layout)

lemma HV_X64_MSR_STIME_UNHALTED_TIMER_CONFIG_CONTENTS_layout [tlfs_layout]:
  "csize A HV_X64_MSR_STIME_UNHALTED_TIMER_CONFIG_CONTENTS = 8" "calign A HV_X64_MSR_STIME_UNHALTED_TIMER_CONFIG_CONTENTS = 8"
  "integer_view A HV_X64_MSR_STIME_UNHALTED_TIMER_CONFIG_CONTENTS = Some 8"
  by (cases "abi_ms_bits A", simp_all add: HV_X64_MSR_STIME_UNHALTED_TIMER_CONFIG_CONTENTS_def tlfs_eval tlfs_layout)

lemma HV_MEMORY_ZEROING_CTRL_REG_CONTENTS_layout [tlfs_layout]:
  "csize A HV_MEMORY_ZEROING_CTRL_REG_CONTENTS = 8" "calign A HV_MEMORY_ZEROING_CTRL_REG_CONTENTS = 8"
  "integer_view A HV_MEMORY_ZEROING_CTRL_REG_CONTENTS = Some 8"
  by (cases "abi_ms_bits A", simp_all add: HV_MEMORY_ZEROING_CTRL_REG_CONTENTS_def tlfs_eval tlfs_layout)

lemma HV_REGISTER_VP_CONFIG_layout [tlfs_layout]:
  "csize A HV_REGISTER_VP_CONFIG = 8" "calign A HV_REGISTER_VP_CONFIG = 8"
  "integer_view A HV_REGISTER_VP_CONFIG = Some 8"
  by (cases "abi_ms_bits A", simp_all add: HV_REGISTER_VP_CONFIG_def tlfs_eval tlfs_layout)

lemma HV_TSC_INVARIANT_CONTROL_layout [tlfs_layout]:
  "csize A HV_TSC_INVARIANT_CONTROL = 8" "calign A HV_TSC_INVARIANT_CONTROL = 8"
  "integer_view A HV_TSC_INVARIANT_CONTROL = Some 8"
  by (cases "abi_ms_bits A", simp_all add: HV_TSC_INVARIANT_CONTROL_def tlfs_eval tlfs_layout)

lemma HV_NESTED_STATE_REGISTER_layout [tlfs_layout]:
  "csize A HV_NESTED_STATE_REGISTER = 8" "calign A HV_NESTED_STATE_REGISTER = 8"
  "integer_view A HV_NESTED_STATE_REGISTER = Some 8"
  by (cases "abi_ms_bits A", simp_all add: HV_NESTED_STATE_REGISTER_def tlfs_eval tlfs_layout)

lemma HV_X64_HYPERCALL_INPUT_scalars [tlfs_layout]:
  "csize A HV_X64_HYPERCALL_INPUT = 8" "calign A HV_X64_HYPERCALL_INPUT = 8" "integer_view A HV_X64_HYPERCALL_INPUT = Some 8"
  "csize A HV_X64_HYPERCALL_OUTPUT = 8" "calign A HV_X64_HYPERCALL_OUTPUT = 8" "integer_view A HV_X64_HYPERCALL_OUTPUT = Some 8"
  by (simp_all add: HV_X64_HYPERCALL_INPUT_def HV_X64_HYPERCALL_OUTPUT_def tlfs_layout)

lemma HV_HYPERCALL_INPUT_PRIVATE_layout [tlfs_layout]:
  "csize A HV_HYPERCALL_INPUT_PRIVATE = 8" "calign A HV_HYPERCALL_INPUT_PRIVATE = 8"
  "integer_view A HV_HYPERCALL_INPUT_PRIVATE = Some 8"
  by (cases "abi_ms_bits A", simp_all add: HV_HYPERCALL_INPUT_PRIVATE_def tlfs_eval tlfs_layout)

lemma HV_INPUT_FLUSH_VIRTUAL_ADDRESS_SPACE_layout [tlfs_layout]:
  "csize A HV_INPUT_FLUSH_VIRTUAL_ADDRESS_SPACE = 24" "calign A HV_INPUT_FLUSH_VIRTUAL_ADDRESS_SPACE = 8"
  "integer_view A HV_INPUT_FLUSH_VIRTUAL_ADDRESS_SPACE = None"
  by (simp_all add: HV_INPUT_FLUSH_VIRTUAL_ADDRESS_SPACE_def tlfs_eval tlfs_layout)

lemma HV_INPUT_FLUSH_VIRTUAL_ADDRESS_LIST_layout [tlfs_layout]:
  "csize A HV_INPUT_FLUSH_VIRTUAL_ADDRESS_LIST = 24" "calign A HV_INPUT_FLUSH_VIRTUAL_ADDRESS_LIST = 8"
  "integer_view A HV_INPUT_FLUSH_VIRTUAL_ADDRESS_LIST = None"
  by (simp_all add: HV_INPUT_FLUSH_VIRTUAL_ADDRESS_LIST_def tlfs_eval tlfs_layout)

lemma HV_INPUT_GET_LOGICAL_PROCESSOR_RUN_TIME_layout [tlfs_layout]:
  "csize A HV_INPUT_GET_LOGICAL_PROCESSOR_RUN_TIME = 8" "calign A HV_INPUT_GET_LOGICAL_PROCESSOR_RUN_TIME = 8"
  "integer_view A HV_INPUT_GET_LOGICAL_PROCESSOR_RUN_TIME = None"
  by (simp_all add: HV_INPUT_GET_LOGICAL_PROCESSOR_RUN_TIME_def tlfs_eval tlfs_layout)

lemma HV_OUTPUT_GET_LOGICAL_PROCESSOR_RUN_TIME_layout [tlfs_layout]:
  "csize A HV_OUTPUT_GET_LOGICAL_PROCESSOR_RUN_TIME = 32" "calign A HV_OUTPUT_GET_LOGICAL_PROCESSOR_RUN_TIME = 8"
  "integer_view A HV_OUTPUT_GET_LOGICAL_PROCESSOR_RUN_TIME = None"
  by (simp_all add: HV_OUTPUT_GET_LOGICAL_PROCESSOR_RUN_TIME_def tlfs_eval tlfs_layout)

lemma HV_INPUT_UPDATE_PROCESSOR_FEATURES_layout [tlfs_layout]:
  "csize A HV_INPUT_UPDATE_PROCESSOR_FEATURES = 16" "calign A HV_INPUT_UPDATE_PROCESSOR_FEATURES = 8"
  "integer_view A HV_INPUT_UPDATE_PROCESSOR_FEATURES = None"
  by (simp_all add: HV_INPUT_UPDATE_PROCESSOR_FEATURES_def tlfs_eval tlfs_layout)

lemma HV_INPUT_NOTIFY_LONG_SPINWAIT_layout [tlfs_layout]:
  "csize A HV_INPUT_NOTIFY_LONG_SPINWAIT = 8" "calign A HV_INPUT_NOTIFY_LONG_SPINWAIT = 8"
  "integer_view A HV_INPUT_NOTIFY_LONG_SPINWAIT = None"
  by (simp_all add: HV_INPUT_NOTIFY_LONG_SPINWAIT_def tlfs_eval tlfs_layout)

lemma HV_INPUT_PARK_LOGICAL_PROCESSORS_layout [tlfs_layout]:
  "csize A HV_INPUT_PARK_LOGICAL_PROCESSORS = 8" "calign A HV_INPUT_PARK_LOGICAL_PROCESSORS = 8"
  "integer_view A HV_INPUT_PARK_LOGICAL_PROCESSORS = None"
  by (simp_all add: HV_INPUT_PARK_LOGICAL_PROCESSORS_def tlfs_eval tlfs_layout)

lemma HV_INPUT_PARKED_VIRTUAL_PROCESSORS_layout [tlfs_layout]:
  "csize A HV_INPUT_PARKED_VIRTUAL_PROCESSORS = 24" "calign A HV_INPUT_PARKED_VIRTUAL_PROCESSORS = 8"
  "integer_view A HV_INPUT_PARKED_VIRTUAL_PROCESSORS = None"
  by (simp_all add: HV_INPUT_PARKED_VIRTUAL_PROCESSORS_def tlfs_eval tlfs_layout)

lemma HV_INPUT_INVOKE_HYPERVISOR_DEBUGGER_layout [tlfs_layout]:
  "csize A HV_INPUT_INVOKE_HYPERVISOR_DEBUGGER = 16" "calign A HV_INPUT_INVOKE_HYPERVISOR_DEBUGGER = 8"
  "integer_view A HV_INPUT_INVOKE_HYPERVISOR_DEBUGGER = None"
  by (simp_all add: HV_INPUT_INVOKE_HYPERVISOR_DEBUGGER_def tlfs_eval tlfs_layout)

lemma HV_INPUT_SEND_SYNTHETIC_CLUSTER_IPI_layout [tlfs_layout]:
  "csize A HV_INPUT_SEND_SYNTHETIC_CLUSTER_IPI = 16" "calign A HV_INPUT_SEND_SYNTHETIC_CLUSTER_IPI = 8"
  "integer_view A HV_INPUT_SEND_SYNTHETIC_CLUSTER_IPI = None"
  by (simp_all add: HV_INPUT_SEND_SYNTHETIC_CLUSTER_IPI_def tlfs_eval tlfs_layout)

lemma HV_INPUT_MODIFY_VTL_PROTECTION_MASK_layout [tlfs_layout]:
  "csize A HV_INPUT_MODIFY_VTL_PROTECTION_MASK = 16" "calign A HV_INPUT_MODIFY_VTL_PROTECTION_MASK = 8"
  "integer_view A HV_INPUT_MODIFY_VTL_PROTECTION_MASK = None"
  by (simp_all add: HV_INPUT_MODIFY_VTL_PROTECTION_MASK_def tlfs_eval tlfs_layout)

lemma HV_ENABLE_PARTITION_VTL_FLAGS_layout [tlfs_layout]:
  "csize A HV_ENABLE_PARTITION_VTL_FLAGS = 1" "calign A HV_ENABLE_PARTITION_VTL_FLAGS = 1"
  "integer_view A HV_ENABLE_PARTITION_VTL_FLAGS = Some 1"
  by (cases "abi_ms_bits A", simp_all add: HV_ENABLE_PARTITION_VTL_FLAGS_def tlfs_eval tlfs_layout)

lemma HV_INPUT_ENABLE_PARTITION_VTL_layout [tlfs_layout]:
  "csize A HV_INPUT_ENABLE_PARTITION_VTL = 16" "calign A HV_INPUT_ENABLE_PARTITION_VTL = 8"
  "integer_view A HV_INPUT_ENABLE_PARTITION_VTL = None"
  by (simp_all add: HV_INPUT_ENABLE_PARTITION_VTL_def tlfs_eval tlfs_layout)

lemma HV_DISABLE_PARTITION_VTL_FLAGS_layout [tlfs_layout]:
  "csize A HV_DISABLE_PARTITION_VTL_FLAGS = 1" "calign A HV_DISABLE_PARTITION_VTL_FLAGS = 1"
  "integer_view A HV_DISABLE_PARTITION_VTL_FLAGS = Some 1"
  by (cases "abi_ms_bits A", simp_all add: HV_DISABLE_PARTITION_VTL_FLAGS_def tlfs_eval tlfs_layout)

lemma HV_INPUT_DISABLE_PARTITION_VTL_layout [tlfs_layout]:
  "csize A HV_INPUT_DISABLE_PARTITION_VTL = 16" "calign A HV_INPUT_DISABLE_PARTITION_VTL = 8"
  "integer_view A HV_INPUT_DISABLE_PARTITION_VTL = None"
  by (simp_all add: HV_INPUT_DISABLE_PARTITION_VTL_def tlfs_eval tlfs_layout)

lemma HV_INPUT_ENABLE_VP_VTL_X64_layout [tlfs_layout]:
  "csize sysv (HV_INPUT_ENABLE_VP_VTL X64) = 240" "csize msvc (HV_INPUT_ENABLE_VP_VTL X64) = 240"
  "calign sysv (HV_INPUT_ENABLE_VP_VTL X64) = 8" "calign msvc (HV_INPUT_ENABLE_VP_VTL X64) = 8"
  "integer_view sysv (HV_INPUT_ENABLE_VP_VTL X64) = None" "integer_view msvc (HV_INPUT_ENABLE_VP_VTL X64) = None"
  by (simp_all add: HV_INPUT_ENABLE_VP_VTL_def tlfs_eval tlfs_layout interface_layout)

lemma HV_INPUT_ENABLE_VP_VTL_ARM64_layout [tlfs_layout]:
  "csize sysv (HV_INPUT_ENABLE_VP_VTL ARM64) = 88" "csize msvc (HV_INPUT_ENABLE_VP_VTL ARM64) = 88"
  "calign sysv (HV_INPUT_ENABLE_VP_VTL ARM64) = 8" "calign msvc (HV_INPUT_ENABLE_VP_VTL ARM64) = 8"
  "integer_view sysv (HV_INPUT_ENABLE_VP_VTL ARM64) = None" "integer_view msvc (HV_INPUT_ENABLE_VP_VTL ARM64) = None"
  by (simp_all add: HV_INPUT_ENABLE_VP_VTL_def tlfs_eval tlfs_layout interface_layout)

lemma HV_DISABLE_VP_VTL_FLAGS_layout [tlfs_layout]:
  "csize A HV_DISABLE_VP_VTL_FLAGS = 1" "calign A HV_DISABLE_VP_VTL_FLAGS = 1"
  "integer_view A HV_DISABLE_VP_VTL_FLAGS = Some 1"
  by (cases "abi_ms_bits A", simp_all add: HV_DISABLE_VP_VTL_FLAGS_def tlfs_eval tlfs_layout)

lemma HV_INPUT_DISABLE_VP_VTL_layout [tlfs_layout]:
  "csize A HV_INPUT_DISABLE_VP_VTL = 16" "calign A HV_INPUT_DISABLE_VP_VTL = 8"
  "integer_view A HV_INPUT_DISABLE_VP_VTL = None"
  by (simp_all add: HV_INPUT_DISABLE_VP_VTL_def tlfs_eval tlfs_layout)

lemma HV_INPUT_FLUSH_VIRTUAL_ADDRESS_SPACE_EX_layout [tlfs_layout]:
  "csize A HV_INPUT_FLUSH_VIRTUAL_ADDRESS_SPACE_EX = 40" "calign A HV_INPUT_FLUSH_VIRTUAL_ADDRESS_SPACE_EX = 8"
  "integer_view A HV_INPUT_FLUSH_VIRTUAL_ADDRESS_SPACE_EX = None"
  by (simp_all add: HV_INPUT_FLUSH_VIRTUAL_ADDRESS_SPACE_EX_def tlfs_eval tlfs_layout)

lemma HV_INPUT_FLUSH_VIRTUAL_ADDRESS_LIST_EX_layout [tlfs_layout]:
  "csize A HV_INPUT_FLUSH_VIRTUAL_ADDRESS_LIST_EX = 40" "calign A HV_INPUT_FLUSH_VIRTUAL_ADDRESS_LIST_EX = 8"
  "integer_view A HV_INPUT_FLUSH_VIRTUAL_ADDRESS_LIST_EX = None"
  by (simp_all add: HV_INPUT_FLUSH_VIRTUAL_ADDRESS_LIST_EX_def tlfs_eval tlfs_layout)

lemma HV_INPUT_SEND_SYNTHETIC_CLUSTER_IPI_EX_layout [tlfs_layout]:
  "csize A HV_INPUT_SEND_SYNTHETIC_CLUSTER_IPI_EX = 32" "calign A HV_INPUT_SEND_SYNTHETIC_CLUSTER_IPI_EX = 8"
  "integer_view A HV_INPUT_SEND_SYNTHETIC_CLUSTER_IPI_EX = None"
  by (simp_all add: HV_INPUT_SEND_SYNTHETIC_CLUSTER_IPI_EX_def tlfs_eval tlfs_layout)

lemma HV_SLOT_TRAITS_layout [tlfs_layout]:
  "csize A HV_SLOT_TRAITS = 24" "calign A HV_SLOT_TRAITS = 8"
  "integer_view A HV_SLOT_TRAITS = None"
  by (cases "abi_ms_bits A", simp_all add: HV_SLOT_TRAITS_def tlfs_eval tlfs_layout)

lemma HV_MODULE_TRAITS_layout [tlfs_layout]:
  "csize A HV_MODULE_TRAITS = 88" "calign A HV_MODULE_TRAITS = 8"
  "integer_view A HV_MODULE_TRAITS = None"
  by (simp_all add: HV_MODULE_TRAITS_def tlfs_eval tlfs_layout)

lemma HV_GPA_PAGE_PERMISSION_layout [tlfs_layout]:
  "csize A HV_GPA_PAGE_PERMISSION = 8" "calign A HV_GPA_PAGE_PERMISSION = 8"
  "integer_view A HV_GPA_PAGE_PERMISSION = Some 8"
  by (cases "abi_ms_bits A", simp_all add: HV_GPA_PAGE_PERMISSION_def tlfs_eval tlfs_layout)

lemma HV_INPUT_QUERY_IMAGE_INFO_layout [tlfs_layout]:
  "csize A HV_INPUT_QUERY_IMAGE_INFO = 24" "calign A HV_INPUT_QUERY_IMAGE_INFO = 8"
  "integer_view A HV_INPUT_QUERY_IMAGE_INFO = None"
  by (cases "abi_ms_bits A", simp_all add: HV_INPUT_QUERY_IMAGE_INFO_def tlfs_eval tlfs_layout)

lemma HV_OUTPUT_QUERY_IMAGE_INFO_layout [tlfs_layout]:
  "csize A HV_OUTPUT_QUERY_IMAGE_INFO = 4096" "calign A HV_OUTPUT_QUERY_IMAGE_INFO = 8"
  "integer_view A HV_OUTPUT_QUERY_IMAGE_INFO = None"
  by (simp_all add: HV_OUTPUT_QUERY_IMAGE_INFO_def tlfs_eval tlfs_layout)

lemma HV_VA_PERMISSION_layout [tlfs_layout]:
  "csize A HV_VA_PERMISSION = 8" "calign A HV_VA_PERMISSION = 8"
  "integer_view A HV_VA_PERMISSION = Some 8"
  by (cases "abi_ms_bits A", simp_all add: HV_VA_PERMISSION_def tlfs_eval tlfs_layout)

lemma HV_INPUT_MAP_IMAGE_PAGES_layout [tlfs_layout]:
  "csize A HV_INPUT_MAP_IMAGE_PAGES = 8" "calign A HV_INPUT_MAP_IMAGE_PAGES = 8"
  "integer_view A HV_INPUT_MAP_IMAGE_PAGES = None"
  by (cases "abi_ms_bits A", simp_all add: HV_INPUT_MAP_IMAGE_PAGES_def tlfs_eval tlfs_layout)

lemma HV_INPUT_COMMIT_PATCH_layout [tlfs_layout]:
  "csize A HV_INPUT_COMMIT_PATCH = 40" "calign A HV_INPUT_COMMIT_PATCH = 8"
  "integer_view A HV_INPUT_COMMIT_PATCH = None"
  by (cases "abi_ms_bits A", simp_all add: HV_INPUT_COMMIT_PATCH_def tlfs_eval tlfs_layout)

lemma HV_INPUT_SYNC_CONTEXT_layout [tlfs_layout]:
  "csize A HV_INPUT_SYNC_CONTEXT = 16" "calign A HV_INPUT_SYNC_CONTEXT = 8"
  "integer_view A HV_INPUT_SYNC_CONTEXT = None"
  by (simp_all add: HV_INPUT_SYNC_CONTEXT_def tlfs_eval tlfs_layout)

lemma HV_INPUT_SYNC_CONTEXT_EX_layout [tlfs_layout]:
  "csize A HV_INPUT_SYNC_CONTEXT_EX = 32" "calign A HV_INPUT_SYNC_CONTEXT_EX = 8"
  "integer_view A HV_INPUT_SYNC_CONTEXT_EX = None"
  by (simp_all add: HV_INPUT_SYNC_CONTEXT_EX_def tlfs_eval tlfs_layout)

lemma HV_INPUT_SET_PERF_REGISTER_X64_layout [tlfs_layout]:
  "csize A (HV_INPUT_SET_PERF_REGISTER X64) = 32" "calign A (HV_INPUT_SET_PERF_REGISTER X64) = 8"
  "integer_view A (HV_INPUT_SET_PERF_REGISTER X64) = None"
  by (simp_all add: HV_INPUT_SET_PERF_REGISTER_def tlfs_eval tlfs_layout)

lemma HV_INPUT_SET_PERF_REGISTER_ARM64_layout [tlfs_layout]:
  "csize A (HV_INPUT_SET_PERF_REGISTER ARM64) = 32" "calign A (HV_INPUT_SET_PERF_REGISTER ARM64) = 8"
  "integer_view A (HV_INPUT_SET_PERF_REGISTER ARM64) = None"
  by (simp_all add: HV_INPUT_SET_PERF_REGISTER_def tlfs_eval tlfs_layout)

lemma HV_INPUT_GET_PERF_REGISTER_X64_layout [tlfs_layout]:
  "csize A (HV_INPUT_GET_PERF_REGISTER X64) = 16" "calign A (HV_INPUT_GET_PERF_REGISTER X64) = 8"
  "integer_view A (HV_INPUT_GET_PERF_REGISTER X64) = None"
  by (simp_all add: HV_INPUT_GET_PERF_REGISTER_def tlfs_eval tlfs_layout)

lemma HV_INPUT_GET_PERF_REGISTER_ARM64_layout [tlfs_layout]:
  "csize A (HV_INPUT_GET_PERF_REGISTER ARM64) = 16" "calign A (HV_INPUT_GET_PERF_REGISTER ARM64) = 8"
  "integer_view A (HV_INPUT_GET_PERF_REGISTER ARM64) = None"
  by (simp_all add: HV_INPUT_GET_PERF_REGISTER_def tlfs_eval tlfs_layout)

lemma HV_OUTPUT_GET_PERF_REGISTER_layout [tlfs_layout]:
  "csize A HV_OUTPUT_GET_PERF_REGISTER = 8" "calign A HV_OUTPUT_GET_PERF_REGISTER = 8"
  "integer_view A HV_OUTPUT_GET_PERF_REGISTER = None"
  by (simp_all add: HV_OUTPUT_GET_PERF_REGISTER_def tlfs_eval tlfs_layout)

lemma HV_INPUT_CREATE_PARTITION_V1_layout [tlfs_layout]:
  "csize A HV_INPUT_CREATE_PARTITION_V1 = 32" "calign A HV_INPUT_CREATE_PARTITION_V1 = 8"
  "integer_view A HV_INPUT_CREATE_PARTITION_V1 = None"
  by (simp_all add: HV_INPUT_CREATE_PARTITION_V1_def tlfs_eval tlfs_layout)

lemma HV_INPUT_CREATE_PARTITION_V2_X64_layout [tlfs_layout]:
  "csize A (HV_INPUT_CREATE_PARTITION_V2 X64) = 48" "calign A (HV_INPUT_CREATE_PARTITION_V2 X64) = 8"
  "integer_view A (HV_INPUT_CREATE_PARTITION_V2 X64) = None"
  by (simp_all add: HV_INPUT_CREATE_PARTITION_V2_def tlfs_eval tlfs_layout)

lemma HV_INPUT_CREATE_PARTITION_V2_ARM64_layout [tlfs_layout]:
  "csize A (HV_INPUT_CREATE_PARTITION_V2 ARM64) = 40" "calign A (HV_INPUT_CREATE_PARTITION_V2 ARM64) = 8"
  "integer_view A (HV_INPUT_CREATE_PARTITION_V2 ARM64) = None"
  by (simp_all add: HV_INPUT_CREATE_PARTITION_V2_def tlfs_eval tlfs_layout)

lemma HV_INPUT_CREATE_PARTITION_X64_layout [tlfs_layout]:
  "csize A (HV_INPUT_CREATE_PARTITION X64) = 56" "calign A (HV_INPUT_CREATE_PARTITION X64) = 8"
  "integer_view A (HV_INPUT_CREATE_PARTITION X64) = None"
  by (simp_all add: HV_INPUT_CREATE_PARTITION_def tlfs_eval tlfs_layout)

lemma HV_INPUT_CREATE_PARTITION_ARM64_layout [tlfs_layout]:
  "csize A (HV_INPUT_CREATE_PARTITION ARM64) = 48" "calign A (HV_INPUT_CREATE_PARTITION ARM64) = 8"
  "integer_view A (HV_INPUT_CREATE_PARTITION ARM64) = None"
  by (simp_all add: HV_INPUT_CREATE_PARTITION_def tlfs_eval tlfs_layout)

lemma HV_OUTPUT_CREATE_PARTITION_layout [tlfs_layout]:
  "csize A HV_OUTPUT_CREATE_PARTITION = 8" "calign A HV_OUTPUT_CREATE_PARTITION = 8"
  "integer_view A HV_OUTPUT_CREATE_PARTITION = None"
  by (simp_all add: HV_OUTPUT_CREATE_PARTITION_def tlfs_eval tlfs_layout)

lemma HV_INPUT_INITIALIZE_PARTITION_layout [tlfs_layout]:
  "csize A HV_INPUT_INITIALIZE_PARTITION = 8" "calign A HV_INPUT_INITIALIZE_PARTITION = 8"
  "integer_view A HV_INPUT_INITIALIZE_PARTITION = None"
  by (simp_all add: HV_INPUT_INITIALIZE_PARTITION_def tlfs_eval tlfs_layout)

lemma HV_INPUT_FINALIZE_PARTITION_layout [tlfs_layout]:
  "csize A HV_INPUT_FINALIZE_PARTITION = 8" "calign A HV_INPUT_FINALIZE_PARTITION = 8"
  "integer_view A HV_INPUT_FINALIZE_PARTITION = None"
  by (simp_all add: HV_INPUT_FINALIZE_PARTITION_def tlfs_eval tlfs_layout)

lemma HV_INPUT_DELETE_PARTITION_layout [tlfs_layout]:
  "csize A HV_INPUT_DELETE_PARTITION = 8" "calign A HV_INPUT_DELETE_PARTITION = 8"
  "integer_view A HV_INPUT_DELETE_PARTITION = None"
  by (simp_all add: HV_INPUT_DELETE_PARTITION_def tlfs_eval tlfs_layout)

lemma HV_INPUT_GET_PARTITION_PROPERTY_layout [tlfs_layout]:
  "csize A HV_INPUT_GET_PARTITION_PROPERTY = 16" "calign A HV_INPUT_GET_PARTITION_PROPERTY = 8"
  "integer_view A HV_INPUT_GET_PARTITION_PROPERTY = None"
  by (simp_all add: HV_INPUT_GET_PARTITION_PROPERTY_def tlfs_eval tlfs_layout)

lemma HV_OUTPUT_GET_PARTITION_PROPERTY_layout [tlfs_layout]:
  "csize A HV_OUTPUT_GET_PARTITION_PROPERTY = 8" "calign A HV_OUTPUT_GET_PARTITION_PROPERTY = 8"
  "integer_view A HV_OUTPUT_GET_PARTITION_PROPERTY = None"
  by (simp_all add: HV_OUTPUT_GET_PARTITION_PROPERTY_def tlfs_eval tlfs_layout)

lemma HV_INPUT_SET_PARTITION_PROPERTY_layout [tlfs_layout]:
  "csize A HV_INPUT_SET_PARTITION_PROPERTY = 24" "calign A HV_INPUT_SET_PARTITION_PROPERTY = 8"
  "integer_view A HV_INPUT_SET_PARTITION_PROPERTY = None"
  by (simp_all add: HV_INPUT_SET_PARTITION_PROPERTY_def tlfs_eval tlfs_layout)

lemma HV_OUTPUT_GET_PARTITION_ID_layout [tlfs_layout]:
  "csize A HV_OUTPUT_GET_PARTITION_ID = 8" "calign A HV_OUTPUT_GET_PARTITION_ID = 8"
  "integer_view A HV_OUTPUT_GET_PARTITION_ID = None"
  by (simp_all add: HV_OUTPUT_GET_PARTITION_ID_def tlfs_eval tlfs_layout)

lemma HV_INPUT_GET_NEXT_CHILD_PARTITION_layout [tlfs_layout]:
  "csize A HV_INPUT_GET_NEXT_CHILD_PARTITION = 16" "calign A HV_INPUT_GET_NEXT_CHILD_PARTITION = 8"
  "integer_view A HV_INPUT_GET_NEXT_CHILD_PARTITION = None"
  by (simp_all add: HV_INPUT_GET_NEXT_CHILD_PARTITION_def tlfs_eval tlfs_layout)

lemma HV_OUTPUT_GET_NEXT_CHILD_PARTITION_layout [tlfs_layout]:
  "csize A HV_OUTPUT_GET_NEXT_CHILD_PARTITION = 8" "calign A HV_OUTPUT_GET_NEXT_CHILD_PARTITION = 8"
  "integer_view A HV_OUTPUT_GET_NEXT_CHILD_PARTITION = None"
  by (simp_all add: HV_OUTPUT_GET_NEXT_CHILD_PARTITION_def tlfs_eval tlfs_layout)

lemma HV_INPUT_DEPOSIT_MEMORY_layout [tlfs_layout]:
  "csize A HV_INPUT_DEPOSIT_MEMORY = 8" "calign A HV_INPUT_DEPOSIT_MEMORY = 8"
  "integer_view A HV_INPUT_DEPOSIT_MEMORY = None"
  by (simp_all add: HV_INPUT_DEPOSIT_MEMORY_def tlfs_eval tlfs_layout)

lemma HV_INPUT_WITHDRAW_MEMORY_layout [tlfs_layout]:
  "csize A HV_INPUT_WITHDRAW_MEMORY = 16" "calign A HV_INPUT_WITHDRAW_MEMORY = 8"
  "integer_view A HV_INPUT_WITHDRAW_MEMORY = None"
  by (simp_all add: HV_INPUT_WITHDRAW_MEMORY_def tlfs_eval tlfs_layout)

lemma HV_OUTPUT_WITHDRAW_MEMORY_layout [tlfs_layout]:
  "csize A HV_OUTPUT_WITHDRAW_MEMORY = 8" "calign A HV_OUTPUT_WITHDRAW_MEMORY = 8"
  "integer_view A HV_OUTPUT_WITHDRAW_MEMORY = None"
  by (simp_all add: HV_OUTPUT_WITHDRAW_MEMORY_def tlfs_eval tlfs_layout)

lemma HV_INPUT_GET_MEMORY_BALANCE_layout [tlfs_layout]:
  "csize A HV_INPUT_GET_MEMORY_BALANCE = 16" "calign A HV_INPUT_GET_MEMORY_BALANCE = 8"
  "integer_view A HV_INPUT_GET_MEMORY_BALANCE = None"
  by (simp_all add: HV_INPUT_GET_MEMORY_BALANCE_def tlfs_eval tlfs_layout)

lemma HV_OUTPUT_GET_MEMORY_BALANCE_layout [tlfs_layout]:
  "csize A HV_OUTPUT_GET_MEMORY_BALANCE = 16" "calign A HV_OUTPUT_GET_MEMORY_BALANCE = 8"
  "integer_view A HV_OUTPUT_GET_MEMORY_BALANCE = None"
  by (simp_all add: HV_OUTPUT_GET_MEMORY_BALANCE_def tlfs_eval tlfs_layout)

lemma HV_INPUT_MAP_GPA_PAGES_layout [tlfs_layout]:
  "csize A HV_INPUT_MAP_GPA_PAGES = 24" "calign A HV_INPUT_MAP_GPA_PAGES = 8"
  "integer_view A HV_INPUT_MAP_GPA_PAGES = None"
  by (simp_all add: HV_INPUT_MAP_GPA_PAGES_def tlfs_eval tlfs_layout)

lemma HV_INPUT_UNMAP_GPA_PAGES_layout [tlfs_layout]:
  "csize A HV_INPUT_UNMAP_GPA_PAGES = 24" "calign A HV_INPUT_UNMAP_GPA_PAGES = 8"
  "integer_view A HV_INPUT_UNMAP_GPA_PAGES = None"
  by (simp_all add: HV_INPUT_UNMAP_GPA_PAGES_def tlfs_eval tlfs_layout)

lemma HV_INPUT_INSTALL_INTERCEPT_X64_layout [tlfs_layout]:
  "csize A (HV_INPUT_INSTALL_INTERCEPT X64) = 24" "calign A (HV_INPUT_INSTALL_INTERCEPT X64) = 8"
  "integer_view A (HV_INPUT_INSTALL_INTERCEPT X64) = None"
  by (simp_all add: HV_INPUT_INSTALL_INTERCEPT_def tlfs_eval tlfs_layout)

lemma HV_INPUT_INSTALL_INTERCEPT_ARM64_layout [tlfs_layout]:
  "csize A (HV_INPUT_INSTALL_INTERCEPT ARM64) = 24" "calign A (HV_INPUT_INSTALL_INTERCEPT ARM64) = 8"
  "integer_view A (HV_INPUT_INSTALL_INTERCEPT ARM64) = None"
  by (simp_all add: HV_INPUT_INSTALL_INTERCEPT_def tlfs_eval tlfs_layout)

lemma HV_INPUT_CREATE_VP_V1_layout [tlfs_layout]:
  "csize A HV_INPUT_CREATE_VP_V1 = 32" "calign A HV_INPUT_CREATE_VP_V1 = 8"
  "integer_view A HV_INPUT_CREATE_VP_V1 = None"
  by (simp_all add: HV_INPUT_CREATE_VP_V1_def tlfs_eval tlfs_layout)

lemma HV_INPUT_CREATE_VP_layout [tlfs_layout]:
  "csize A HV_INPUT_CREATE_VP = 40" "calign A HV_INPUT_CREATE_VP = 8"
  "integer_view A HV_INPUT_CREATE_VP = None"
  by (simp_all add: HV_INPUT_CREATE_VP_def tlfs_eval tlfs_layout)

lemma HV_INPUT_DELETE_VP_layout [tlfs_layout]:
  "csize A HV_INPUT_DELETE_VP = 16" "calign A HV_INPUT_DELETE_VP = 8"
  "integer_view A HV_INPUT_DELETE_VP = None"
  by (simp_all add: HV_INPUT_DELETE_VP_def tlfs_eval tlfs_layout)

lemma HV_INPUT_GET_VP_REGISTERS_layout [tlfs_layout]:
  "csize A HV_INPUT_GET_VP_REGISTERS = 16" "calign A HV_INPUT_GET_VP_REGISTERS = 8"
  "integer_view A HV_INPUT_GET_VP_REGISTERS = None"
  by (simp_all add: HV_INPUT_GET_VP_REGISTERS_def tlfs_eval tlfs_layout)

lemma HV_OUTPUT_GET_VP_REGISTERS_layout [tlfs_layout]:
  "csize A HV_OUTPUT_GET_VP_REGISTERS = 16" "calign A HV_OUTPUT_GET_VP_REGISTERS = 16"
  "integer_view A HV_OUTPUT_GET_VP_REGISTERS = None"
  by (simp_all add: HV_OUTPUT_GET_VP_REGISTERS_def tlfs_eval tlfs_layout)

lemma HV_REGISTER_ASSOC_layout [tlfs_layout]:
  "csize A HV_REGISTER_ASSOC = 32" "calign A HV_REGISTER_ASSOC = 16"
  "integer_view A HV_REGISTER_ASSOC = None"
  by (simp_all add: HV_REGISTER_ASSOC_def tlfs_eval tlfs_layout)

lemma HV_INPUT_SET_VP_REGISTERS_layout [tlfs_layout]:
  "csize A HV_INPUT_SET_VP_REGISTERS = 16" "calign A HV_INPUT_SET_VP_REGISTERS = 16"
  "integer_view A HV_INPUT_SET_VP_REGISTERS = None"
  by (simp_all add: HV_INPUT_SET_VP_REGISTERS_def tlfs_eval tlfs_layout)

lemma HV_INPUT_TRANSLATE_VIRTUAL_ADDRESS_layout [tlfs_layout]:
  "csize A HV_INPUT_TRANSLATE_VIRTUAL_ADDRESS = 32" "calign A HV_INPUT_TRANSLATE_VIRTUAL_ADDRESS = 8"
  "integer_view A HV_INPUT_TRANSLATE_VIRTUAL_ADDRESS = None"
  by (simp_all add: HV_INPUT_TRANSLATE_VIRTUAL_ADDRESS_def tlfs_eval tlfs_layout)

lemma HV_OUTPUT_TRANSLATE_VIRTUAL_ADDRESS_layout [tlfs_layout]:
  "csize A HV_OUTPUT_TRANSLATE_VIRTUAL_ADDRESS = 16" "calign A HV_OUTPUT_TRANSLATE_VIRTUAL_ADDRESS = 8"
  "integer_view A HV_OUTPUT_TRANSLATE_VIRTUAL_ADDRESS = None"
  by (simp_all add: HV_OUTPUT_TRANSLATE_VIRTUAL_ADDRESS_def tlfs_eval tlfs_layout)

lemma HV_INPUT_READ_GPA_layout [tlfs_layout]:
  "csize A HV_INPUT_READ_GPA = 32" "calign A HV_INPUT_READ_GPA = 8"
  "integer_view A HV_INPUT_READ_GPA = None"
  by (simp_all add: HV_INPUT_READ_GPA_def tlfs_eval tlfs_layout)

lemma HV_OUTPUT_READ_GPA_layout [tlfs_layout]:
  "csize A HV_OUTPUT_READ_GPA = 24" "calign A HV_OUTPUT_READ_GPA = 8"
  "integer_view A HV_OUTPUT_READ_GPA = None"
  by (simp_all add: HV_OUTPUT_READ_GPA_def tlfs_eval tlfs_layout)

lemma HV_INPUT_WRITE_GPA_layout [tlfs_layout]:
  "csize A HV_INPUT_WRITE_GPA = 48" "calign A HV_INPUT_WRITE_GPA = 8"
  "integer_view A HV_INPUT_WRITE_GPA = None"
  by (simp_all add: HV_INPUT_WRITE_GPA_def tlfs_eval tlfs_layout)

lemma HV_OUTPUT_WRITE_GPA_layout [tlfs_layout]:
  "csize A HV_OUTPUT_WRITE_GPA = 8" "calign A HV_OUTPUT_WRITE_GPA = 8"
  "integer_view A HV_OUTPUT_WRITE_GPA = None"
  by (simp_all add: HV_OUTPUT_WRITE_GPA_def tlfs_eval tlfs_layout)

lemma HV_INPUT_ASSERT_VIRTUAL_INTERRUPT_DEPRECATED_X64_layout [tlfs_layout]:
  "csize A (HV_INPUT_ASSERT_VIRTUAL_INTERRUPT_DEPRECATED X64) = 40" "calign A (HV_INPUT_ASSERT_VIRTUAL_INTERRUPT_DEPRECATED X64) = 8"
  "integer_view A (HV_INPUT_ASSERT_VIRTUAL_INTERRUPT_DEPRECATED X64) = None"
  by (simp_all add: HV_INPUT_ASSERT_VIRTUAL_INTERRUPT_DEPRECATED_def tlfs_eval tlfs_layout)

lemma HV_INPUT_ASSERT_VIRTUAL_INTERRUPT_DEPRECATED_ARM64_layout [tlfs_layout]:
  "csize A (HV_INPUT_ASSERT_VIRTUAL_INTERRUPT_DEPRECATED ARM64) = 40" "calign A (HV_INPUT_ASSERT_VIRTUAL_INTERRUPT_DEPRECATED ARM64) = 8"
  "integer_view A (HV_INPUT_ASSERT_VIRTUAL_INTERRUPT_DEPRECATED ARM64) = None"
  by (simp_all add: HV_INPUT_ASSERT_VIRTUAL_INTERRUPT_DEPRECATED_def tlfs_eval tlfs_layout)

lemma HV_INPUT_CLEAR_VIRTUAL_INTERRUPT_layout [tlfs_layout]:
  "csize A HV_INPUT_CLEAR_VIRTUAL_INTERRUPT = 8" "calign A HV_INPUT_CLEAR_VIRTUAL_INTERRUPT = 8"
  "integer_view A HV_INPUT_CLEAR_VIRTUAL_INTERRUPT = None"
  by (simp_all add: HV_INPUT_CLEAR_VIRTUAL_INTERRUPT_def tlfs_eval tlfs_layout)

lemma HV_INPUT_CREATE_PORT_DEPRECATED_layout [tlfs_layout]:
  "csize A HV_INPUT_CREATE_PORT_DEPRECATED = 48" "calign A HV_INPUT_CREATE_PORT_DEPRECATED = 8"
  "integer_view A HV_INPUT_CREATE_PORT_DEPRECATED = None"
  by (simp_all add: HV_INPUT_CREATE_PORT_DEPRECATED_def tlfs_eval tlfs_layout)

lemma HV_INPUT_DELETE_PORT_layout [tlfs_layout]:
  "csize A HV_INPUT_DELETE_PORT = 16" "calign A HV_INPUT_DELETE_PORT = 8"
  "integer_view A HV_INPUT_DELETE_PORT = None"
  by (simp_all add: HV_INPUT_DELETE_PORT_def tlfs_eval tlfs_layout)

lemma HV_INPUT_CONNECT_PORT_DEPRECATED_layout [tlfs_layout]:
  "csize A HV_INPUT_CONNECT_PORT_DEPRECATED = 64" "calign A HV_INPUT_CONNECT_PORT_DEPRECATED = 8"
  "integer_view A HV_INPUT_CONNECT_PORT_DEPRECATED = None"
  by (simp_all add: HV_INPUT_CONNECT_PORT_DEPRECATED_def tlfs_eval tlfs_layout)

lemma HV_INPUT_GET_PORT_PROPERTY_layout [tlfs_layout]:
  "csize A HV_INPUT_GET_PORT_PROPERTY = 24" "calign A HV_INPUT_GET_PORT_PROPERTY = 8"
  "integer_view A HV_INPUT_GET_PORT_PROPERTY = None"
  by (simp_all add: HV_INPUT_GET_PORT_PROPERTY_def tlfs_eval tlfs_layout)

lemma HV_OUTPUT_GET_PORT_PROPERTY_layout [tlfs_layout]:
  "csize A HV_OUTPUT_GET_PORT_PROPERTY = 8" "calign A HV_OUTPUT_GET_PORT_PROPERTY = 8"
  "integer_view A HV_OUTPUT_GET_PORT_PROPERTY = None"
  by (simp_all add: HV_OUTPUT_GET_PORT_PROPERTY_def tlfs_eval tlfs_layout)

lemma HV_INPUT_DISCONNECT_PORT_layout [tlfs_layout]:
  "csize A HV_INPUT_DISCONNECT_PORT = 16" "calign A HV_INPUT_DISCONNECT_PORT = 8"
  "integer_view A HV_INPUT_DISCONNECT_PORT = None"
  by (cases "abi_ms_bits A", simp_all add: HV_INPUT_DISCONNECT_PORT_def tlfs_eval tlfs_layout)

lemma HV_INPUT_SAVE_PARTITION_STATE_layout [tlfs_layout]:
  "csize A HV_INPUT_SAVE_PARTITION_STATE = 16" "calign A HV_INPUT_SAVE_PARTITION_STATE = 8"
  "integer_view A HV_INPUT_SAVE_PARTITION_STATE = None"
  by (simp_all add: HV_INPUT_SAVE_PARTITION_STATE_def tlfs_eval tlfs_layout)

lemma HV_OUTPUT_SAVE_PARTITION_STATE_layout [tlfs_layout]:
  "csize A HV_OUTPUT_SAVE_PARTITION_STATE = 4088" "calign A HV_OUTPUT_SAVE_PARTITION_STATE = 8"
  "integer_view A HV_OUTPUT_SAVE_PARTITION_STATE = None"
  by (simp_all add: HV_OUTPUT_SAVE_PARTITION_STATE_def tlfs_eval tlfs_layout)

lemma HV_INPUT_RESTORE_PARTITION_STATE_layout [tlfs_layout]:
  "csize A HV_INPUT_RESTORE_PARTITION_STATE = 4096" "calign A HV_INPUT_RESTORE_PARTITION_STATE = 8"
  "integer_view A HV_INPUT_RESTORE_PARTITION_STATE = None"
  by (simp_all add: HV_INPUT_RESTORE_PARTITION_STATE_def tlfs_eval tlfs_layout)

lemma HV_OUTPUT_RESTORE_PARTITION_STATE_layout [tlfs_layout]:
  "csize A HV_OUTPUT_RESTORE_PARTITION_STATE = 8" "calign A HV_OUTPUT_RESTORE_PARTITION_STATE = 8"
  "integer_view A HV_OUTPUT_RESTORE_PARTITION_STATE = None"
  by (simp_all add: HV_OUTPUT_RESTORE_PARTITION_STATE_def tlfs_eval tlfs_layout)

lemma HV_EVENTLOG_INIT_TYPE_layout [tlfs_layout]:
  "csize A HV_EVENTLOG_INIT_TYPE = 4" "calign A HV_EVENTLOG_INIT_TYPE = 2"
  "integer_view A HV_EVENTLOG_INIT_TYPE = None"
  by (simp_all add: HV_EVENTLOG_INIT_TYPE_def tlfs_eval tlfs_layout)

lemma HV_INPUT_INITIALIZE_EVENTLOG_BUFFER_GROUP_layout [tlfs_layout]:
  "csize A HV_INPUT_INITIALIZE_EVENTLOG_BUFFER_GROUP = 32" "calign A HV_INPUT_INITIALIZE_EVENTLOG_BUFFER_GROUP = 8"
  "integer_view A HV_INPUT_INITIALIZE_EVENTLOG_BUFFER_GROUP = None"
  by (simp_all add: HV_INPUT_INITIALIZE_EVENTLOG_BUFFER_GROUP_def tlfs_eval tlfs_layout)

lemma HV_INPUT_FINALIZE_EVENTLOG_BUFFER_GROUP_layout [tlfs_layout]:
  "csize A HV_INPUT_FINALIZE_EVENTLOG_BUFFER_GROUP = 8" "calign A HV_INPUT_FINALIZE_EVENTLOG_BUFFER_GROUP = 8"
  "integer_view A HV_INPUT_FINALIZE_EVENTLOG_BUFFER_GROUP = None"
  by (simp_all add: HV_INPUT_FINALIZE_EVENTLOG_BUFFER_GROUP_def tlfs_eval tlfs_layout)

lemma HV_INPUT_CREATE_EVENTLOG_BUFFER_layout [tlfs_layout]:
  "csize A HV_INPUT_CREATE_EVENTLOG_BUFFER = 16" "calign A HV_INPUT_CREATE_EVENTLOG_BUFFER = 8"
  "integer_view A HV_INPUT_CREATE_EVENTLOG_BUFFER = None"
  by (simp_all add: HV_INPUT_CREATE_EVENTLOG_BUFFER_def tlfs_eval tlfs_layout)

lemma HV_INPUT_DELETE_EVENTLOG_BUFFER_layout [tlfs_layout]:
  "csize A HV_INPUT_DELETE_EVENTLOG_BUFFER = 8" "calign A HV_INPUT_DELETE_EVENTLOG_BUFFER = 8"
  "integer_view A HV_INPUT_DELETE_EVENTLOG_BUFFER = None"
  by (simp_all add: HV_INPUT_DELETE_EVENTLOG_BUFFER_def tlfs_eval tlfs_layout)

lemma HV_INPUT_MAP_EVENTLOG_BUFFER_layout [tlfs_layout]:
  "csize A HV_INPUT_MAP_EVENTLOG_BUFFER = 8" "calign A HV_INPUT_MAP_EVENTLOG_BUFFER = 8"
  "integer_view A HV_INPUT_MAP_EVENTLOG_BUFFER = None"
  by (simp_all add: HV_INPUT_MAP_EVENTLOG_BUFFER_def tlfs_eval tlfs_layout)

lemma HV_OUTPUT_MAP_EVENTLOG_BUFFER_layout [tlfs_layout]:
  "csize A HV_OUTPUT_MAP_EVENTLOG_BUFFER = 4096" "calign A HV_OUTPUT_MAP_EVENTLOG_BUFFER = 8"
  "integer_view A HV_OUTPUT_MAP_EVENTLOG_BUFFER = None"
  by (simp_all add: HV_OUTPUT_MAP_EVENTLOG_BUFFER_def tlfs_eval tlfs_layout)

lemma HV_INPUT_UNMAP_EVENTLOG_BUFFER_layout [tlfs_layout]:
  "csize A HV_INPUT_UNMAP_EVENTLOG_BUFFER = 8" "calign A HV_INPUT_UNMAP_EVENTLOG_BUFFER = 8"
  "integer_view A HV_INPUT_UNMAP_EVENTLOG_BUFFER = None"
  by (simp_all add: HV_INPUT_UNMAP_EVENTLOG_BUFFER_def tlfs_eval tlfs_layout)

lemma HV_INPUT_EVENTLOG_GROUP_EVENTS_layout [tlfs_layout]:
  "csize A HV_INPUT_EVENTLOG_GROUP_EVENTS = 16" "calign A HV_INPUT_EVENTLOG_GROUP_EVENTS = 8"
  "integer_view A HV_INPUT_EVENTLOG_GROUP_EVENTS = None"
  by (simp_all add: HV_INPUT_EVENTLOG_GROUP_EVENTS_def tlfs_eval tlfs_layout)

lemma HV_INPUT_EVENTLOG_RELEASE_BUFFER_layout [tlfs_layout]:
  "csize A HV_INPUT_EVENTLOG_RELEASE_BUFFER = 8" "calign A HV_INPUT_EVENTLOG_RELEASE_BUFFER = 8"
  "integer_view A HV_INPUT_EVENTLOG_RELEASE_BUFFER = None"
  by (simp_all add: HV_INPUT_EVENTLOG_RELEASE_BUFFER_def tlfs_eval tlfs_layout)

lemma HV_INPUT_FLUSH_EVENTLOG_BUFFER_layout [tlfs_layout]:
  "csize A HV_INPUT_FLUSH_EVENTLOG_BUFFER = 8" "calign A HV_INPUT_FLUSH_EVENTLOG_BUFFER = 8"
  "integer_view A HV_INPUT_FLUSH_EVENTLOG_BUFFER = None"
  by (simp_all add: HV_INPUT_FLUSH_EVENTLOG_BUFFER_def tlfs_eval tlfs_layout)

lemma HV_INPUT_POST_DEBUG_DATA_layout [tlfs_layout]:
  "csize A HV_INPUT_POST_DEBUG_DATA = 4096" "calign A HV_INPUT_POST_DEBUG_DATA = 8"
  "integer_view A HV_INPUT_POST_DEBUG_DATA = None"
  by (simp_all add: HV_INPUT_POST_DEBUG_DATA_def tlfs_eval tlfs_layout)

lemma HV_OUTPUT_POST_DEBUG_DATA_layout [tlfs_layout]:
  "csize A HV_OUTPUT_POST_DEBUG_DATA = 8" "calign A HV_OUTPUT_POST_DEBUG_DATA = 8"
  "integer_view A HV_OUTPUT_POST_DEBUG_DATA = None"
  by (simp_all add: HV_OUTPUT_POST_DEBUG_DATA_def tlfs_eval tlfs_layout)

lemma HV_INPUT_RETRIEVE_DEBUG_DATA_layout [tlfs_layout]:
  "csize A HV_INPUT_RETRIEVE_DEBUG_DATA = 16" "calign A HV_INPUT_RETRIEVE_DEBUG_DATA = 8"
  "integer_view A HV_INPUT_RETRIEVE_DEBUG_DATA = None"
  by (simp_all add: HV_INPUT_RETRIEVE_DEBUG_DATA_def tlfs_eval tlfs_layout)

lemma HV_OUTPUT_RETRIEVE_DEBUG_DATA_layout [tlfs_layout]:
  "csize A HV_OUTPUT_RETRIEVE_DEBUG_DATA = 4096" "calign A HV_OUTPUT_RETRIEVE_DEBUG_DATA = 8"
  "integer_view A HV_OUTPUT_RETRIEVE_DEBUG_DATA = None"
  by (simp_all add: HV_OUTPUT_RETRIEVE_DEBUG_DATA_def tlfs_eval tlfs_layout)

lemma HV_INPUT_RESET_DEBUG_SESSION_layout [tlfs_layout]:
  "csize A HV_INPUT_RESET_DEBUG_SESSION = 8" "calign A HV_INPUT_RESET_DEBUG_SESSION = 8"
  "integer_view A HV_INPUT_RESET_DEBUG_SESSION = None"
  by (simp_all add: HV_INPUT_RESET_DEBUG_SESSION_def tlfs_eval tlfs_layout)

lemma HV_OUTPUT_RESET_DEBUG_SESSION_layout [tlfs_layout]:
  "csize A HV_OUTPUT_RESET_DEBUG_SESSION = 72" "calign A HV_OUTPUT_RESET_DEBUG_SESSION = 8"
  "integer_view A HV_OUTPUT_RESET_DEBUG_SESSION = None"
  by (simp_all add: HV_OUTPUT_RESET_DEBUG_SESSION_def tlfs_eval tlfs_layout)

lemma HV_INPUT_MAP_STATS_PAGE_layout [tlfs_layout]:
  "csize A HV_INPUT_MAP_STATS_PAGE = 32" "calign A HV_INPUT_MAP_STATS_PAGE = 8"
  "integer_view A HV_INPUT_MAP_STATS_PAGE = None"
  by (simp_all add: HV_INPUT_MAP_STATS_PAGE_def tlfs_eval tlfs_layout)

lemma HV_OUTPUT_MAP_STATS_PAGE_layout [tlfs_layout]:
  "csize A HV_OUTPUT_MAP_STATS_PAGE = 8" "calign A HV_OUTPUT_MAP_STATS_PAGE = 8"
  "integer_view A HV_OUTPUT_MAP_STATS_PAGE = None"
  by (simp_all add: HV_OUTPUT_MAP_STATS_PAGE_def tlfs_eval tlfs_layout)

lemma HV_INPUT_UNMAP_STATS_PAGE_layout [tlfs_layout]:
  "csize A HV_INPUT_UNMAP_STATS_PAGE = 32" "calign A HV_INPUT_UNMAP_STATS_PAGE = 8"
  "integer_view A HV_INPUT_UNMAP_STATS_PAGE = None"
  by (simp_all add: HV_INPUT_UNMAP_STATS_PAGE_def tlfs_eval tlfs_layout)

lemma HV_GPA_MAPPING_layout [tlfs_layout]:
  "csize A HV_GPA_MAPPING = 16" "calign A HV_GPA_MAPPING = 8"
  "integer_view A HV_GPA_MAPPING = None"
  by (simp_all add: HV_GPA_MAPPING_def tlfs_eval tlfs_layout)

lemma HV_INPUT_MAP_SPARSE_GPA_PAGES_layout [tlfs_layout]:
  "csize A HV_INPUT_MAP_SPARSE_GPA_PAGES = 16" "calign A HV_INPUT_MAP_SPARSE_GPA_PAGES = 8"
  "integer_view A HV_INPUT_MAP_SPARSE_GPA_PAGES = None"
  by (simp_all add: HV_INPUT_MAP_SPARSE_GPA_PAGES_def tlfs_eval tlfs_layout)

lemma HV_INPUT_SET_SYSTEM_PROPERTY_X64_layout [tlfs_layout]:
  "csize A (HV_INPUT_SET_SYSTEM_PROPERTY X64) = 40" "calign A (HV_INPUT_SET_SYSTEM_PROPERTY X64) = 8"
  "integer_view A (HV_INPUT_SET_SYSTEM_PROPERTY X64) = None"
  by (simp_all add: HV_INPUT_SET_SYSTEM_PROPERTY_def tlfs_eval tlfs_layout)

lemma HV_INPUT_SET_SYSTEM_PROPERTY_ARM64_layout [tlfs_layout]:
  "csize A (HV_INPUT_SET_SYSTEM_PROPERTY ARM64) = 40" "calign A (HV_INPUT_SET_SYSTEM_PROPERTY ARM64) = 8"
  "integer_view A (HV_INPUT_SET_SYSTEM_PROPERTY ARM64) = None"
  by (simp_all add: HV_INPUT_SET_SYSTEM_PROPERTY_def tlfs_eval tlfs_layout)

lemma HV_INPUT_SET_PORT_PROPERTY_layout [tlfs_layout]:
  "csize A HV_INPUT_SET_PORT_PROPERTY = 32" "calign A HV_INPUT_SET_PORT_PROPERTY = 8"
  "integer_view A HV_INPUT_SET_PORT_PROPERTY = None"
  by (simp_all add: HV_INPUT_SET_PORT_PROPERTY_def tlfs_eval tlfs_layout)

lemma HV_INPUT_ADD_LOGICAL_PROCESSOR_X64_layout [tlfs_layout]:
  "csize A (HV_INPUT_ADD_LOGICAL_PROCESSOR X64) = 24" "calign A (HV_INPUT_ADD_LOGICAL_PROCESSOR X64) = 8"
  "integer_view A (HV_INPUT_ADD_LOGICAL_PROCESSOR X64) = None"
  by (simp_all add: HV_INPUT_ADD_LOGICAL_PROCESSOR_def tlfs_eval tlfs_layout)

lemma HV_INPUT_ADD_LOGICAL_PROCESSOR_ARM64_layout [tlfs_layout]:
  "csize A (HV_INPUT_ADD_LOGICAL_PROCESSOR ARM64) = 24" "calign A (HV_INPUT_ADD_LOGICAL_PROCESSOR ARM64) = 8"
  "integer_view A (HV_INPUT_ADD_LOGICAL_PROCESSOR ARM64) = None"
  by (simp_all add: HV_INPUT_ADD_LOGICAL_PROCESSOR_def tlfs_eval tlfs_layout)

lemma HV_OUTPUT_ADD_LOGICAL_PROCESSOR_layout [tlfs_layout]:
  "csize A HV_OUTPUT_ADD_LOGICAL_PROCESSOR = 56" "calign A HV_OUTPUT_ADD_LOGICAL_PROCESSOR = 8"
  "integer_view A HV_OUTPUT_ADD_LOGICAL_PROCESSOR = None"
  by (simp_all add: HV_OUTPUT_ADD_LOGICAL_PROCESSOR_def tlfs_eval tlfs_layout)

lemma HV_INPUT_REMOVE_LOGICAL_PROCESSOR_layout [tlfs_layout]:
  "csize A HV_INPUT_REMOVE_LOGICAL_PROCESSOR = 16" "calign A HV_INPUT_REMOVE_LOGICAL_PROCESSOR = 8"
  "integer_view A HV_INPUT_REMOVE_LOGICAL_PROCESSOR = None"
  by (simp_all add: HV_INPUT_REMOVE_LOGICAL_PROCESSOR_def tlfs_eval tlfs_layout)

lemma HV_INPUT_QUERY_NUMA_DISTANCE_layout [tlfs_layout]:
  "csize A HV_INPUT_QUERY_NUMA_DISTANCE = 8" "calign A HV_INPUT_QUERY_NUMA_DISTANCE = 8"
  "integer_view A HV_INPUT_QUERY_NUMA_DISTANCE = None"
  by (simp_all add: HV_INPUT_QUERY_NUMA_DISTANCE_def tlfs_eval tlfs_layout)

lemma HV_OUTPUT_QUERY_NUMA_DISTANCE_layout [tlfs_layout]:
  "csize A HV_OUTPUT_QUERY_NUMA_DISTANCE = 8" "calign A HV_OUTPUT_QUERY_NUMA_DISTANCE = 8"
  "integer_view A HV_OUTPUT_QUERY_NUMA_DISTANCE = None"
  by (simp_all add: HV_OUTPUT_QUERY_NUMA_DISTANCE_def tlfs_eval tlfs_layout)

lemma HV_INPUT_SET_LOGICAL_PROCESSOR_PROPERTY_X64_layout [tlfs_layout]:
  "csize A (HV_INPUT_SET_LOGICAL_PROCESSOR_PROPERTY X64) = 3264" "calign A (HV_INPUT_SET_LOGICAL_PROCESSOR_PROPERTY X64) = 8"
  "integer_view A (HV_INPUT_SET_LOGICAL_PROCESSOR_PROPERTY X64) = None"
  by (simp_all add: HV_INPUT_SET_LOGICAL_PROCESSOR_PROPERTY_def tlfs_eval tlfs_layout)

lemma HV_INPUT_SET_LOGICAL_PROCESSOR_PROPERTY_ARM64_layout [tlfs_layout]:
  "csize A (HV_INPUT_SET_LOGICAL_PROCESSOR_PROPERTY ARM64) = 40" "calign A (HV_INPUT_SET_LOGICAL_PROCESSOR_PROPERTY ARM64) = 8"
  "integer_view A (HV_INPUT_SET_LOGICAL_PROCESSOR_PROPERTY ARM64) = None"
  by (simp_all add: HV_INPUT_SET_LOGICAL_PROCESSOR_PROPERTY_def tlfs_eval tlfs_layout)

lemma HV_INPUT_GET_LOGICAL_PROCESSOR_PROPERTY_layout [tlfs_layout]:
  "csize A HV_INPUT_GET_LOGICAL_PROCESSOR_PROPERTY = 8" "calign A HV_INPUT_GET_LOGICAL_PROCESSOR_PROPERTY = 8"
  "integer_view A HV_INPUT_GET_LOGICAL_PROCESSOR_PROPERTY = None"
  by (simp_all add: HV_INPUT_GET_LOGICAL_PROCESSOR_PROPERTY_def tlfs_eval tlfs_layout)

lemma HV_OUTPUT_GET_LOGICAL_PROCESSOR_PROPERTY_X64_layout [tlfs_layout]:
  "csize A (HV_OUTPUT_GET_LOGICAL_PROCESSOR_PROPERTY X64) = 3256" "calign A (HV_OUTPUT_GET_LOGICAL_PROCESSOR_PROPERTY X64) = 8"
  "integer_view A (HV_OUTPUT_GET_LOGICAL_PROCESSOR_PROPERTY X64) = None"
  by (simp_all add: HV_OUTPUT_GET_LOGICAL_PROCESSOR_PROPERTY_def tlfs_eval tlfs_layout)

lemma HV_OUTPUT_GET_LOGICAL_PROCESSOR_PROPERTY_ARM64_layout [tlfs_layout]:
  "csize A (HV_OUTPUT_GET_LOGICAL_PROCESSOR_PROPERTY ARM64) = 32" "calign A (HV_OUTPUT_GET_LOGICAL_PROCESSOR_PROPERTY ARM64) = 8"
  "integer_view A (HV_OUTPUT_GET_LOGICAL_PROCESSOR_PROPERTY ARM64) = None"
  by (simp_all add: HV_OUTPUT_GET_LOGICAL_PROCESSOR_PROPERTY_def tlfs_eval tlfs_layout)

lemma HV_INPUT_GET_SYSTEM_PROPERTY_X64_layout [tlfs_layout]:
  "csize A (HV_INPUT_GET_SYSTEM_PROPERTY X64) = 8" "calign A (HV_INPUT_GET_SYSTEM_PROPERTY X64) = 8"
  "integer_view A (HV_INPUT_GET_SYSTEM_PROPERTY X64) = None"
  by (simp_all add: HV_INPUT_GET_SYSTEM_PROPERTY_def tlfs_eval tlfs_layout)

lemma HV_INPUT_GET_SYSTEM_PROPERTY_ARM64_layout [tlfs_layout]:
  "csize A (HV_INPUT_GET_SYSTEM_PROPERTY ARM64) = 16" "calign A (HV_INPUT_GET_SYSTEM_PROPERTY ARM64) = 8"
  "integer_view A (HV_INPUT_GET_SYSTEM_PROPERTY ARM64) = None"
  by (simp_all add: HV_INPUT_GET_SYSTEM_PROPERTY_def tlfs_eval tlfs_layout)

lemma HV_OUTPUT_GET_SYSTEM_PROPERTY_X64_layout [tlfs_layout]:
  "csize A (HV_OUTPUT_GET_SYSTEM_PROPERTY X64) = 1032" "calign A (HV_OUTPUT_GET_SYSTEM_PROPERTY X64) = 8"
  "integer_view A (HV_OUTPUT_GET_SYSTEM_PROPERTY X64) = None"
  by (simp_all add: HV_OUTPUT_GET_SYSTEM_PROPERTY_def tlfs_eval tlfs_layout)

lemma HV_OUTPUT_GET_SYSTEM_PROPERTY_ARM64_layout [tlfs_layout]:
  "csize A (HV_OUTPUT_GET_SYSTEM_PROPERTY ARM64) = 1032" "calign A (HV_OUTPUT_GET_SYSTEM_PROPERTY ARM64) = 8"
  "integer_view A (HV_OUTPUT_GET_SYSTEM_PROPERTY ARM64) = None"
  by (simp_all add: HV_OUTPUT_GET_SYSTEM_PROPERTY_def tlfs_eval tlfs_layout)

lemma HV_INPUT_MAP_DEVICE_INTERRUPT_X64_layout [tlfs_layout]:
  "csize A (HV_INPUT_MAP_DEVICE_INTERRUPT X64) = 56" "calign A (HV_INPUT_MAP_DEVICE_INTERRUPT X64) = 8"
  "integer_view A (HV_INPUT_MAP_DEVICE_INTERRUPT X64) = None"
  by (simp_all add: HV_INPUT_MAP_DEVICE_INTERRUPT_def tlfs_eval tlfs_layout)

lemma HV_INPUT_MAP_DEVICE_INTERRUPT_ARM64_layout [tlfs_layout]:
  "csize A (HV_INPUT_MAP_DEVICE_INTERRUPT ARM64) = 80" "calign A (HV_INPUT_MAP_DEVICE_INTERRUPT ARM64) = 8"
  "integer_view A (HV_INPUT_MAP_DEVICE_INTERRUPT ARM64) = None"
  by (simp_all add: HV_INPUT_MAP_DEVICE_INTERRUPT_def tlfs_eval tlfs_layout)

lemma HV_OUTPUT_MAP_DEVICE_INTERRUPT_X64_layout [tlfs_layout]:
  "csize A (HV_OUTPUT_MAP_DEVICE_INTERRUPT X64) = 56" "calign A (HV_OUTPUT_MAP_DEVICE_INTERRUPT X64) = 8"
  "integer_view A (HV_OUTPUT_MAP_DEVICE_INTERRUPT X64) = None"
  by (simp_all add: HV_OUTPUT_MAP_DEVICE_INTERRUPT_def tlfs_eval tlfs_layout)

lemma HV_OUTPUT_MAP_DEVICE_INTERRUPT_ARM64_layout [tlfs_layout]:
  "csize A (HV_OUTPUT_MAP_DEVICE_INTERRUPT ARM64) = 64" "calign A (HV_OUTPUT_MAP_DEVICE_INTERRUPT ARM64) = 8"
  "integer_view A (HV_OUTPUT_MAP_DEVICE_INTERRUPT ARM64) = None"
  by (simp_all add: HV_OUTPUT_MAP_DEVICE_INTERRUPT_def tlfs_eval tlfs_layout)

lemma HV_INPUT_UNMAP_DEVICE_INTERRUPT_X64_layout [tlfs_layout]:
  "csize A (HV_INPUT_UNMAP_DEVICE_INTERRUPT X64) = 32" "calign A (HV_INPUT_UNMAP_DEVICE_INTERRUPT X64) = 8"
  "integer_view A (HV_INPUT_UNMAP_DEVICE_INTERRUPT X64) = None"
  by (simp_all add: HV_INPUT_UNMAP_DEVICE_INTERRUPT_def tlfs_eval tlfs_layout)

lemma HV_INPUT_UNMAP_DEVICE_INTERRUPT_ARM64_layout [tlfs_layout]:
  "csize A (HV_INPUT_UNMAP_DEVICE_INTERRUPT ARM64) = 48" "calign A (HV_INPUT_UNMAP_DEVICE_INTERRUPT ARM64) = 8"
  "integer_view A (HV_INPUT_UNMAP_DEVICE_INTERRUPT ARM64) = None"
  by (simp_all add: HV_INPUT_UNMAP_DEVICE_INTERRUPT_def tlfs_eval tlfs_layout)

lemma HV_INPUT_RETARGET_DEVICE_INTERRUPT_X64_layout [tlfs_layout]:
  "csize A (HV_INPUT_RETARGET_DEVICE_INTERRUPT X64) = 56" "calign A (HV_INPUT_RETARGET_DEVICE_INTERRUPT X64) = 8"
  "integer_view A (HV_INPUT_RETARGET_DEVICE_INTERRUPT X64) = None"
  by (simp_all add: HV_INPUT_RETARGET_DEVICE_INTERRUPT_def tlfs_eval tlfs_layout)

lemma HV_INPUT_RETARGET_DEVICE_INTERRUPT_ARM64_layout [tlfs_layout]:
  "csize A (HV_INPUT_RETARGET_DEVICE_INTERRUPT ARM64) = 64" "calign A (HV_INPUT_RETARGET_DEVICE_INTERRUPT ARM64) = 8"
  "integer_view A (HV_INPUT_RETARGET_DEVICE_INTERRUPT ARM64) = None"
  by (simp_all add: HV_INPUT_RETARGET_DEVICE_INTERRUPT_def tlfs_eval tlfs_layout)

lemma HV_OUTPUT_RETARGET_ROOT_DEVICE_INTERRUPT_X64_layout [tlfs_layout]:
  "csize A (HV_OUTPUT_RETARGET_ROOT_DEVICE_INTERRUPT X64) = 16" "calign A (HV_OUTPUT_RETARGET_ROOT_DEVICE_INTERRUPT X64) = 8"
  "integer_view A (HV_OUTPUT_RETARGET_ROOT_DEVICE_INTERRUPT X64) = None"
  by (simp_all add: HV_OUTPUT_RETARGET_ROOT_DEVICE_INTERRUPT_def tlfs_eval tlfs_layout)

lemma HV_OUTPUT_RETARGET_ROOT_DEVICE_INTERRUPT_ARM64_layout [tlfs_layout]:
  "csize A (HV_OUTPUT_RETARGET_ROOT_DEVICE_INTERRUPT ARM64) = 24" "calign A (HV_OUTPUT_RETARGET_ROOT_DEVICE_INTERRUPT ARM64) = 8"
  "integer_view A (HV_OUTPUT_RETARGET_ROOT_DEVICE_INTERRUPT ARM64) = None"
  by (simp_all add: HV_OUTPUT_RETARGET_ROOT_DEVICE_INTERRUPT_def tlfs_eval tlfs_layout)

lemma HV_INPUT_ASSERT_DEVICE_INTERRUPT_X64_layout [tlfs_layout]:
  "csize A (HV_INPUT_ASSERT_DEVICE_INTERRUPT X64) = 32" "calign A (HV_INPUT_ASSERT_DEVICE_INTERRUPT X64) = 8"
  "integer_view A (HV_INPUT_ASSERT_DEVICE_INTERRUPT X64) = None"
  by (simp_all add: HV_INPUT_ASSERT_DEVICE_INTERRUPT_def tlfs_eval tlfs_layout)

lemma HV_INPUT_ASSERT_DEVICE_INTERRUPT_ARM64_layout [tlfs_layout]:
  "csize A (HV_INPUT_ASSERT_DEVICE_INTERRUPT ARM64) = 40" "calign A (HV_INPUT_ASSERT_DEVICE_INTERRUPT ARM64) = 8"
  "integer_view A (HV_INPUT_ASSERT_DEVICE_INTERRUPT ARM64) = None"
  by (simp_all add: HV_INPUT_ASSERT_DEVICE_INTERRUPT_def tlfs_eval tlfs_layout)

lemma HV_INPUT_ATTACH_DEVICE_X64_layout [tlfs_layout]:
  "csize A (HV_INPUT_ATTACH_DEVICE X64) = 40" "calign A (HV_INPUT_ATTACH_DEVICE X64) = 8"
  "integer_view A (HV_INPUT_ATTACH_DEVICE X64) = None"
  by (simp_all add: HV_INPUT_ATTACH_DEVICE_def tlfs_eval tlfs_layout)

lemma HV_INPUT_ATTACH_DEVICE_ARM64_layout [tlfs_layout]:
  "csize A (HV_INPUT_ATTACH_DEVICE ARM64) = 40" "calign A (HV_INPUT_ATTACH_DEVICE ARM64) = 8"
  "integer_view A (HV_INPUT_ATTACH_DEVICE ARM64) = None"
  by (simp_all add: HV_INPUT_ATTACH_DEVICE_def tlfs_eval tlfs_layout)

lemma HV_INPUT_DETACH_DEVICE_X64_layout [tlfs_layout]:
  "csize A (HV_INPUT_DETACH_DEVICE X64) = 16" "calign A (HV_INPUT_DETACH_DEVICE X64) = 8"
  "integer_view A (HV_INPUT_DETACH_DEVICE X64) = None"
  by (simp_all add: HV_INPUT_DETACH_DEVICE_def tlfs_eval tlfs_layout)

lemma HV_INPUT_DETACH_DEVICE_ARM64_layout [tlfs_layout]:
  "csize A (HV_INPUT_DETACH_DEVICE ARM64) = 16" "calign A (HV_INPUT_DETACH_DEVICE ARM64) = 8"
  "integer_view A (HV_INPUT_DETACH_DEVICE ARM64) = None"
  by (simp_all add: HV_INPUT_DETACH_DEVICE_def tlfs_eval tlfs_layout)

lemma HV_INPUT_ENTER_SLEEP_STATE_layout [tlfs_layout]:
  "csize A HV_INPUT_ENTER_SLEEP_STATE = 8" "calign A HV_INPUT_ENTER_SLEEP_STATE = 8"
  "integer_view A HV_INPUT_ENTER_SLEEP_STATE = None"
  by (simp_all add: HV_INPUT_ENTER_SLEEP_STATE_def tlfs_eval tlfs_layout)

lemma HV_INPUT_PREPARE_FOR_SLEEP_layout [tlfs_layout]:
  "csize A HV_INPUT_PREPARE_FOR_SLEEP = 8" "calign A HV_INPUT_PREPARE_FOR_SLEEP = 8"
  "integer_view A HV_INPUT_PREPARE_FOR_SLEEP = None"
  by (simp_all add: HV_INPUT_PREPARE_FOR_SLEEP_def tlfs_eval tlfs_layout)

lemma HV_INPUT_PREPARE_FOR_HIBERNATE_X64_layout [tlfs_layout]:
  "csize A (HV_INPUT_PREPARE_FOR_HIBERNATE X64) = 88" "calign A (HV_INPUT_PREPARE_FOR_HIBERNATE X64) = 8"
  "integer_view A (HV_INPUT_PREPARE_FOR_HIBERNATE X64) = None"
  by (simp_all add: HV_INPUT_PREPARE_FOR_HIBERNATE_def tlfs_eval tlfs_layout)

lemma HV_INPUT_PREPARE_FOR_HIBERNATE_ARM64_layout [tlfs_layout]:
  "csize A (HV_INPUT_PREPARE_FOR_HIBERNATE ARM64) = 128" "calign A (HV_INPUT_PREPARE_FOR_HIBERNATE ARM64) = 8"
  "integer_view A (HV_INPUT_PREPARE_FOR_HIBERNATE ARM64) = None"
  by (simp_all add: HV_INPUT_PREPARE_FOR_HIBERNATE_def tlfs_eval tlfs_layout)

lemma HV_X64_OUTPUT_PREPARE_FOR_HIBERNATE_layout [tlfs_layout]:
  "csize A HV_X64_OUTPUT_PREPARE_FOR_HIBERNATE = 32" "calign A HV_X64_OUTPUT_PREPARE_FOR_HIBERNATE = 8"
  "integer_view A HV_X64_OUTPUT_PREPARE_FOR_HIBERNATE = None"
  by (simp_all add: HV_X64_OUTPUT_PREPARE_FOR_HIBERNATE_def tlfs_eval tlfs_layout)

lemma HV_INPUT_NOTIFY_PARTITION_EVENT_layout [tlfs_layout]:
  "csize A HV_INPUT_NOTIFY_PARTITION_EVENT = 8" "calign A HV_INPUT_NOTIFY_PARTITION_EVENT = 8"
  "integer_view A HV_INPUT_NOTIFY_PARTITION_EVENT = None"
  by (simp_all add: HV_INPUT_NOTIFY_PARTITION_EVENT_def tlfs_eval tlfs_layout)

lemma HV_INPUT_QUERY_ASSOCIATED_LP_FOR_MCA_layout [tlfs_layout]:
  "csize A HV_INPUT_QUERY_ASSOCIATED_LP_FOR_MCA = 8" "calign A HV_INPUT_QUERY_ASSOCIATED_LP_FOR_MCA = 8"
  "integer_view A HV_INPUT_QUERY_ASSOCIATED_LP_FOR_MCA = None"
  by (simp_all add: HV_INPUT_QUERY_ASSOCIATED_LP_FOR_MCA_def tlfs_eval tlfs_layout)

lemma HV_OUTPUT_QUERY_ASSOCIATED_LP_FOR_MCA_layout [tlfs_layout]:
  "csize A HV_OUTPUT_QUERY_ASSOCIATED_LP_FOR_MCA = 648" "calign A HV_OUTPUT_QUERY_ASSOCIATED_LP_FOR_MCA = 8"
  "integer_view A HV_OUTPUT_QUERY_ASSOCIATED_LP_FOR_MCA = None"
  by (simp_all add: HV_OUTPUT_QUERY_ASSOCIATED_LP_FOR_MCA_def tlfs_eval tlfs_layout)

lemma HV_INPUT_NOTIFY_PORT_RING_EMPTY_layout [tlfs_layout]:
  "csize A HV_INPUT_NOTIFY_PORT_RING_EMPTY = 8" "calign A HV_INPUT_NOTIFY_PORT_RING_EMPTY = 8"
  "integer_view A HV_INPUT_NOTIFY_PORT_RING_EMPTY = Some 8"
  by (simp_all add: HV_INPUT_NOTIFY_PORT_RING_EMPTY_def tlfs_eval tlfs_layout)

lemma HV_INPUT_INJECT_SYNTHETIC_MACHINE_CHECK_X64_layout [tlfs_layout]:
  "csize A (HV_INPUT_INJECT_SYNTHETIC_MACHINE_CHECK X64) = 16" "calign A (HV_INPUT_INJECT_SYNTHETIC_MACHINE_CHECK X64) = 8"
  "integer_view A (HV_INPUT_INJECT_SYNTHETIC_MACHINE_CHECK X64) = None"
  by (simp_all add: HV_INPUT_INJECT_SYNTHETIC_MACHINE_CHECK_def tlfs_eval tlfs_layout)

lemma HV_INPUT_INJECT_SYNTHETIC_MACHINE_CHECK_ARM64_layout [tlfs_layout]:
  "csize A (HV_INPUT_INJECT_SYNTHETIC_MACHINE_CHECK ARM64) = 16" "calign A (HV_INPUT_INJECT_SYNTHETIC_MACHINE_CHECK ARM64) = 8"
  "integer_view A (HV_INPUT_INJECT_SYNTHETIC_MACHINE_CHECK ARM64) = None"
  by (simp_all add: HV_INPUT_INJECT_SYNTHETIC_MACHINE_CHECK_def tlfs_eval tlfs_layout)

lemma HV_INPUT_SCRUB_PARTITION_layout [tlfs_layout]:
  "csize A HV_INPUT_SCRUB_PARTITION = 8" "calign A HV_INPUT_SCRUB_PARTITION = 8"
  "integer_view A HV_INPUT_SCRUB_PARTITION = None"
  by (simp_all add: HV_INPUT_SCRUB_PARTITION_def tlfs_eval tlfs_layout)

lemma HV_INPUT_COLLECT_LIVE_DUMP_layout [tlfs_layout]:
  "csize A HV_INPUT_COLLECT_LIVE_DUMP = 32" "calign A HV_INPUT_COLLECT_LIVE_DUMP = 8"
  "integer_view A HV_INPUT_COLLECT_LIVE_DUMP = None"
  by (simp_all add: HV_INPUT_COLLECT_LIVE_DUMP_def tlfs_eval tlfs_layout)

lemma HV_OUTPUT_COLLECT_LIVE_DUMP_layout [tlfs_layout]:
  "csize A HV_OUTPUT_COLLECT_LIVE_DUMP = 16" "calign A HV_OUTPUT_COLLECT_LIVE_DUMP = 8"
  "integer_view A HV_OUTPUT_COLLECT_LIVE_DUMP = None"
  by (simp_all add: HV_OUTPUT_COLLECT_LIVE_DUMP_def tlfs_eval tlfs_layout)

lemma HV_X64_INPUT_DISABLE_HYPERVISOR_layout [tlfs_layout]:
  "csize A HV_X64_INPUT_DISABLE_HYPERVISOR = 24" "calign A HV_X64_INPUT_DISABLE_HYPERVISOR = 8"
  "integer_view A HV_X64_INPUT_DISABLE_HYPERVISOR = None"
  by (simp_all add: HV_X64_INPUT_DISABLE_HYPERVISOR_def tlfs_eval tlfs_layout)

lemma HV_ARM64_INPUT_LAUNCH_HYPERVISOR_layout [tlfs_layout]:
  "csize A HV_ARM64_INPUT_LAUNCH_HYPERVISOR = 8" "calign A HV_ARM64_INPUT_LAUNCH_HYPERVISOR = 8"
  "integer_view A HV_ARM64_INPUT_LAUNCH_HYPERVISOR = None"
  by (simp_all add: HV_ARM64_INPUT_LAUNCH_HYPERVISOR_def tlfs_eval tlfs_layout)

lemma HV_INPUT_MODIFY_SPARSE_GPA_PAGES_layout [tlfs_layout]:
  "csize A HV_INPUT_MODIFY_SPARSE_GPA_PAGES = 16" "calign A HV_INPUT_MODIFY_SPARSE_GPA_PAGES = 8"
  "integer_view A HV_INPUT_MODIFY_SPARSE_GPA_PAGES = None"
  by (simp_all add: HV_INPUT_MODIFY_SPARSE_GPA_PAGES_def tlfs_eval tlfs_layout)

lemma HV_INPUT_REGISTER_INTERCEPT_RESULT_layout [tlfs_layout]:
  "csize A HV_INPUT_REGISTER_INTERCEPT_RESULT = 64" "calign A HV_INPUT_REGISTER_INTERCEPT_RESULT = 8"
  "integer_view A HV_INPUT_REGISTER_INTERCEPT_RESULT = None"
  by (simp_all add: HV_INPUT_REGISTER_INTERCEPT_RESULT_def tlfs_eval tlfs_layout)

lemma HV_INPUT_GET_COVERAGE_VECTOR_layout [tlfs_layout]:
  "csize A HV_INPUT_GET_COVERAGE_VECTOR = 1032" "calign A HV_INPUT_GET_COVERAGE_VECTOR = 8"
  "integer_view A HV_INPUT_GET_COVERAGE_VECTOR = None"
  by (simp_all add: HV_INPUT_GET_COVERAGE_VECTOR_def tlfs_eval tlfs_layout)

lemma HV_OUTPUT_GET_COVERAGE_VECTOR_layout [tlfs_layout]:
  "csize A HV_OUTPUT_GET_COVERAGE_VECTOR = 72" "calign A HV_OUTPUT_GET_COVERAGE_VECTOR = 8"
  "integer_view A HV_OUTPUT_GET_COVERAGE_VECTOR = None"
  by (simp_all add: HV_OUTPUT_GET_COVERAGE_VECTOR_def tlfs_eval tlfs_layout)

lemma HV_INPUT_ASSERT_VIRTUAL_INTERRUPT_X64_layout [tlfs_layout]:
  "csize A (HV_INPUT_ASSERT_VIRTUAL_INTERRUPT X64) = 40" "calign A (HV_INPUT_ASSERT_VIRTUAL_INTERRUPT X64) = 8"
  "integer_view A (HV_INPUT_ASSERT_VIRTUAL_INTERRUPT X64) = None"
  by (simp_all add: HV_INPUT_ASSERT_VIRTUAL_INTERRUPT_def tlfs_eval tlfs_layout)

lemma HV_INPUT_ASSERT_VIRTUAL_INTERRUPT_ARM64_layout [tlfs_layout]:
  "csize A (HV_INPUT_ASSERT_VIRTUAL_INTERRUPT ARM64) = 40" "calign A (HV_INPUT_ASSERT_VIRTUAL_INTERRUPT ARM64) = 8"
  "integer_view A (HV_INPUT_ASSERT_VIRTUAL_INTERRUPT ARM64) = None"
  by (simp_all add: HV_INPUT_ASSERT_VIRTUAL_INTERRUPT_def tlfs_eval tlfs_layout)

lemma HV_INPUT_CREATE_PORT_layout [tlfs_layout]:
  "csize A HV_INPUT_CREATE_PORT = 56" "calign A HV_INPUT_CREATE_PORT = 8"
  "integer_view A HV_INPUT_CREATE_PORT = None"
  by (simp_all add: HV_INPUT_CREATE_PORT_def tlfs_eval tlfs_layout)

lemma HV_INPUT_CONNECT_PORT_layout [tlfs_layout]:
  "csize A HV_INPUT_CONNECT_PORT = 72" "calign A HV_INPUT_CONNECT_PORT = 8"
  "integer_view A HV_INPUT_CONNECT_PORT = None"
  by (simp_all add: HV_INPUT_CONNECT_PORT_def tlfs_eval tlfs_layout)

lemma HV_INPUT_GET_SPA_PAGE_LIST_layout [tlfs_layout]:
  "csize A HV_INPUT_GET_SPA_PAGE_LIST = 24" "calign A HV_INPUT_GET_SPA_PAGE_LIST = 8"
  "integer_view A HV_INPUT_GET_SPA_PAGE_LIST = None"
  by (simp_all add: HV_INPUT_GET_SPA_PAGE_LIST_def tlfs_eval tlfs_layout)

lemma HV_OUTPUT_GET_SPA_PAGE_LIST_layout [tlfs_layout]:
  "csize A HV_OUTPUT_GET_SPA_PAGE_LIST = 4096" "calign A HV_OUTPUT_GET_SPA_PAGE_LIST = 8"
  "integer_view A HV_OUTPUT_GET_SPA_PAGE_LIST = None"
  by (simp_all add: HV_OUTPUT_GET_SPA_PAGE_LIST_def tlfs_eval tlfs_layout)

lemma HV_INPUT_GET_VP_INDEX_FROM_APIC_ID_X64_layout [tlfs_layout]:
  "csize A (HV_INPUT_GET_VP_INDEX_FROM_APIC_ID X64) = 16" "calign A (HV_INPUT_GET_VP_INDEX_FROM_APIC_ID X64) = 8"
  "integer_view A (HV_INPUT_GET_VP_INDEX_FROM_APIC_ID X64) = None"
  by (simp_all add: HV_INPUT_GET_VP_INDEX_FROM_APIC_ID_def tlfs_eval tlfs_layout)

lemma HV_INPUT_GET_VP_INDEX_FROM_APIC_ID_ARM64_layout [tlfs_layout]:
  "csize A (HV_INPUT_GET_VP_INDEX_FROM_APIC_ID ARM64) = 16" "calign A (HV_INPUT_GET_VP_INDEX_FROM_APIC_ID ARM64) = 8"
  "integer_view A (HV_INPUT_GET_VP_INDEX_FROM_APIC_ID ARM64) = None"
  by (simp_all add: HV_INPUT_GET_VP_INDEX_FROM_APIC_ID_def tlfs_eval tlfs_layout)

lemma HV_OUTPUT_GET_VP_INDEX_FROM_APIC_ID_layout [tlfs_layout]:
  "csize A HV_OUTPUT_GET_VP_INDEX_FROM_APIC_ID = 8" "calign A HV_OUTPUT_GET_VP_INDEX_FROM_APIC_ID = 8"
  "integer_view A HV_OUTPUT_GET_VP_INDEX_FROM_APIC_ID = None"
  by (simp_all add: HV_OUTPUT_GET_VP_INDEX_FROM_APIC_ID_def tlfs_eval tlfs_layout)

lemma HV_INPUT_GET_POWER_PROPERTY_layout [tlfs_layout]:
  "csize A HV_INPUT_GET_POWER_PROPERTY = 8" "calign A HV_INPUT_GET_POWER_PROPERTY = 8"
  "integer_view A HV_INPUT_GET_POWER_PROPERTY = None"
  by (simp_all add: HV_INPUT_GET_POWER_PROPERTY_def tlfs_eval tlfs_layout)

lemma HV_OUTPUT_GET_POWER_PROPERTY_X64_layout [tlfs_layout]:
  "csize A (HV_OUTPUT_GET_POWER_PROPERTY X64) = 520" "calign A (HV_OUTPUT_GET_POWER_PROPERTY X64) = 8"
  "integer_view A (HV_OUTPUT_GET_POWER_PROPERTY X64) = None"
  by (simp_all add: HV_OUTPUT_GET_POWER_PROPERTY_def tlfs_eval tlfs_layout)

lemma HV_OUTPUT_GET_POWER_PROPERTY_ARM64_layout [tlfs_layout]:
  "csize A (HV_OUTPUT_GET_POWER_PROPERTY ARM64) = 520" "calign A (HV_OUTPUT_GET_POWER_PROPERTY ARM64) = 8"
  "integer_view A (HV_OUTPUT_GET_POWER_PROPERTY ARM64) = None"
  by (simp_all add: HV_OUTPUT_GET_POWER_PROPERTY_def tlfs_eval tlfs_layout)

lemma HV_INPUT_SET_POWER_PROPERTY_X64_layout [tlfs_layout]:
  "csize A (HV_INPUT_SET_POWER_PROPERTY X64) = 536" "calign A (HV_INPUT_SET_POWER_PROPERTY X64) = 8"
  "integer_view A (HV_INPUT_SET_POWER_PROPERTY X64) = None"
  by (simp_all add: HV_INPUT_SET_POWER_PROPERTY_def tlfs_eval tlfs_layout)

lemma HV_INPUT_SET_POWER_PROPERTY_ARM64_layout [tlfs_layout]:
  "csize A (HV_INPUT_SET_POWER_PROPERTY ARM64) = 536" "calign A (HV_INPUT_SET_POWER_PROPERTY ARM64) = 8"
  "integer_view A (HV_INPUT_SET_POWER_PROPERTY ARM64) = None"
  by (simp_all add: HV_INPUT_SET_POWER_PROPERTY_def tlfs_eval tlfs_layout)

lemma HV_INPUT_CREATE_PASID_SPACE_layout [tlfs_layout]:
  "csize A HV_INPUT_CREATE_PASID_SPACE = 32" "calign A HV_INPUT_CREATE_PASID_SPACE = 8"
  "integer_view A HV_INPUT_CREATE_PASID_SPACE = None"
  by (simp_all add: HV_INPUT_CREATE_PASID_SPACE_def tlfs_eval tlfs_layout)

lemma HV_INPUT_DELETE_PASID_SPACE_layout [tlfs_layout]:
  "csize A HV_INPUT_DELETE_PASID_SPACE = 16" "calign A HV_INPUT_DELETE_PASID_SPACE = 8"
  "integer_view A HV_INPUT_DELETE_PASID_SPACE = None"
  by (simp_all add: HV_INPUT_DELETE_PASID_SPACE_def tlfs_eval tlfs_layout)

lemma HV_INPUT_SET_PASID_ADDRESS_SPACE_layout [tlfs_layout]:
  "csize A HV_INPUT_SET_PASID_ADDRESS_SPACE = 24" "calign A HV_INPUT_SET_PASID_ADDRESS_SPACE = 8"
  "integer_view A HV_INPUT_SET_PASID_ADDRESS_SPACE = None"
  by (simp_all add: HV_INPUT_SET_PASID_ADDRESS_SPACE_def tlfs_eval tlfs_layout)

lemma HV_INPUT_FLUSH_PASID_ADDRESS_SPACE_layout [tlfs_layout]:
  "csize A HV_INPUT_FLUSH_PASID_ADDRESS_SPACE = 16" "calign A HV_INPUT_FLUSH_PASID_ADDRESS_SPACE = 8"
  "integer_view A HV_INPUT_FLUSH_PASID_ADDRESS_SPACE = None"
  by (simp_all add: HV_INPUT_FLUSH_PASID_ADDRESS_SPACE_def tlfs_eval tlfs_layout)

lemma HV_INPUT_FLUSH_PASID_ADDRESS_LIST_layout [tlfs_layout]:
  "csize A HV_INPUT_FLUSH_PASID_ADDRESS_LIST = 16" "calign A HV_INPUT_FLUSH_PASID_ADDRESS_LIST = 8"
  "integer_view A HV_INPUT_FLUSH_PASID_ADDRESS_LIST = None"
  by (simp_all add: HV_INPUT_FLUSH_PASID_ADDRESS_LIST_def tlfs_eval tlfs_layout)

lemma HV_INPUT_ATTACH_PASID_SPACE_layout [tlfs_layout]:
  "csize A HV_INPUT_ATTACH_PASID_SPACE = 24" "calign A HV_INPUT_ATTACH_PASID_SPACE = 8"
  "integer_view A HV_INPUT_ATTACH_PASID_SPACE = None"
  by (simp_all add: HV_INPUT_ATTACH_PASID_SPACE_def tlfs_eval tlfs_layout)

lemma HV_INPUT_DETACH_PASID_SPACE_layout [tlfs_layout]:
  "csize A HV_INPUT_DETACH_PASID_SPACE = 16" "calign A HV_INPUT_DETACH_PASID_SPACE = 8"
  "integer_view A HV_INPUT_DETACH_PASID_SPACE = None"
  by (simp_all add: HV_INPUT_DETACH_PASID_SPACE_def tlfs_eval tlfs_layout)

lemma HV_INPUT_ENABLE_PASID_layout [tlfs_layout]:
  "csize A HV_INPUT_ENABLE_PASID = 24" "calign A HV_INPUT_ENABLE_PASID = 8"
  "integer_view A HV_INPUT_ENABLE_PASID = None"
  by (simp_all add: HV_INPUT_ENABLE_PASID_def tlfs_eval tlfs_layout)

lemma HV_INPUT_DISABLE_PASID_layout [tlfs_layout]:
  "csize A HV_INPUT_DISABLE_PASID = 24" "calign A HV_INPUT_DISABLE_PASID = 8"
  "integer_view A HV_INPUT_DISABLE_PASID = None"
  by (simp_all add: HV_INPUT_DISABLE_PASID_def tlfs_eval tlfs_layout)

lemma HV_INPUT_CREATE_DEVICE_PR_QUEUE_layout [tlfs_layout]:
  "csize A HV_INPUT_CREATE_DEVICE_PR_QUEUE = 40" "calign A HV_INPUT_CREATE_DEVICE_PR_QUEUE = 8"
  "integer_view A HV_INPUT_CREATE_DEVICE_PR_QUEUE = None"
  by (simp_all add: HV_INPUT_CREATE_DEVICE_PR_QUEUE_def tlfs_eval tlfs_layout)

lemma HV_INPUT_DELETE_DEVICE_PR_QUEUE_layout [tlfs_layout]:
  "csize A HV_INPUT_DELETE_DEVICE_PR_QUEUE = 16" "calign A HV_INPUT_DELETE_DEVICE_PR_QUEUE = 8"
  "integer_view A HV_INPUT_DELETE_DEVICE_PR_QUEUE = None"
  by (simp_all add: HV_INPUT_DELETE_DEVICE_PR_QUEUE_def tlfs_eval tlfs_layout)

lemma HV_INPUT_SET_DEVICE_PRQ_PROPERTY_HEADER_layout [tlfs_layout]:
  "csize A HV_INPUT_SET_DEVICE_PRQ_PROPERTY_HEADER = 8" "calign A HV_INPUT_SET_DEVICE_PRQ_PROPERTY_HEADER = 8"
  "integer_view A HV_INPUT_SET_DEVICE_PRQ_PROPERTY_HEADER = None"
  by (simp_all add: HV_INPUT_SET_DEVICE_PRQ_PROPERTY_HEADER_def tlfs_eval tlfs_layout)

lemma HV_INPUT_GET_PHYSICAL_DEVICE_PROPERTY_X64_layout [tlfs_layout]:
  "csize A (HV_INPUT_GET_PHYSICAL_DEVICE_PROPERTY X64) = 24" "calign A (HV_INPUT_GET_PHYSICAL_DEVICE_PROPERTY X64) = 8"
  "integer_view A (HV_INPUT_GET_PHYSICAL_DEVICE_PROPERTY X64) = None"
  by (simp_all add: HV_INPUT_GET_PHYSICAL_DEVICE_PROPERTY_def tlfs_eval tlfs_layout)

lemma HV_INPUT_GET_PHYSICAL_DEVICE_PROPERTY_ARM64_layout [tlfs_layout]:
  "csize A (HV_INPUT_GET_PHYSICAL_DEVICE_PROPERTY ARM64) = 24" "calign A (HV_INPUT_GET_PHYSICAL_DEVICE_PROPERTY ARM64) = 8"
  "integer_view A (HV_INPUT_GET_PHYSICAL_DEVICE_PROPERTY ARM64) = None"
  by (simp_all add: HV_INPUT_GET_PHYSICAL_DEVICE_PROPERTY_def tlfs_eval tlfs_layout)

lemma HV_OUTPUT_GET_PHYSICAL_DEVICE_PROPERTY_layout [tlfs_layout]:
  "csize A HV_OUTPUT_GET_PHYSICAL_DEVICE_PROPERTY = 16" "calign A HV_OUTPUT_GET_PHYSICAL_DEVICE_PROPERTY = 8"
  "integer_view A HV_OUTPUT_GET_PHYSICAL_DEVICE_PROPERTY = None"
  by (simp_all add: HV_OUTPUT_GET_PHYSICAL_DEVICE_PROPERTY_def tlfs_eval tlfs_layout)

lemma HV_INPUT_SET_PHYSICAL_DEVICE_PROPERTY_HEADER_X64_layout [tlfs_layout]:
  "csize A (HV_INPUT_SET_PHYSICAL_DEVICE_PROPERTY_HEADER X64) = 16" "calign A (HV_INPUT_SET_PHYSICAL_DEVICE_PROPERTY_HEADER X64) = 8"
  "integer_view A (HV_INPUT_SET_PHYSICAL_DEVICE_PROPERTY_HEADER X64) = None"
  by (simp_all add: HV_INPUT_SET_PHYSICAL_DEVICE_PROPERTY_HEADER_def tlfs_eval tlfs_layout)

lemma HV_INPUT_SET_PHYSICAL_DEVICE_PROPERTY_HEADER_ARM64_layout [tlfs_layout]:
  "csize A (HV_INPUT_SET_PHYSICAL_DEVICE_PROPERTY_HEADER ARM64) = 16" "calign A (HV_INPUT_SET_PHYSICAL_DEVICE_PROPERTY_HEADER ARM64) = 8"
  "integer_view A (HV_INPUT_SET_PHYSICAL_DEVICE_PROPERTY_HEADER ARM64) = None"
  by (simp_all add: HV_INPUT_SET_PHYSICAL_DEVICE_PROPERTY_HEADER_def tlfs_eval tlfs_layout)

lemma HV_OUTPUT_TRANSLATE_VIRTUAL_ADDRESS_EX_X64_layout [tlfs_layout]:
  "csize A (HV_OUTPUT_TRANSLATE_VIRTUAL_ADDRESS_EX X64) = 64" "calign A (HV_OUTPUT_TRANSLATE_VIRTUAL_ADDRESS_EX X64) = 16"
  "integer_view A (HV_OUTPUT_TRANSLATE_VIRTUAL_ADDRESS_EX X64) = None"
  by (simp_all add: HV_OUTPUT_TRANSLATE_VIRTUAL_ADDRESS_EX_def tlfs_eval tlfs_layout)

lemma HV_OUTPUT_TRANSLATE_VIRTUAL_ADDRESS_EX_ARM64_layout [tlfs_layout]:
  "csize A (HV_OUTPUT_TRANSLATE_VIRTUAL_ADDRESS_EX ARM64) = 64" "calign A (HV_OUTPUT_TRANSLATE_VIRTUAL_ADDRESS_EX ARM64) = 16"
  "integer_view A (HV_OUTPUT_TRANSLATE_VIRTUAL_ADDRESS_EX ARM64) = None"
  by (simp_all add: HV_OUTPUT_TRANSLATE_VIRTUAL_ADDRESS_EX_def tlfs_eval tlfs_layout)

lemma HV_INPUT_CHECK_FOR_IO_INTERCEPT_layout [tlfs_layout]:
  "csize A HV_INPUT_CHECK_FOR_IO_INTERCEPT = 24" "calign A HV_INPUT_CHECK_FOR_IO_INTERCEPT = 8"
  "integer_view A HV_INPUT_CHECK_FOR_IO_INTERCEPT = None"
  by (simp_all add: HV_INPUT_CHECK_FOR_IO_INTERCEPT_def tlfs_eval tlfs_layout)

lemma HV_OUTPUT_CHECK_FOR_IO_INTERCEPT_layout [tlfs_layout]:
  "csize A HV_OUTPUT_CHECK_FOR_IO_INTERCEPT = 8" "calign A HV_OUTPUT_CHECK_FOR_IO_INTERCEPT = 8"
  "integer_view A HV_OUTPUT_CHECK_FOR_IO_INTERCEPT = None"
  by (simp_all add: HV_OUTPUT_CHECK_FOR_IO_INTERCEPT_def tlfs_eval tlfs_layout)

lemma HV_INPUT_SET_GPA_PAGE_ATTRIBUTES_layout [tlfs_layout]:
  "csize A HV_INPUT_SET_GPA_PAGE_ATTRIBUTES = 16" "calign A HV_INPUT_SET_GPA_PAGE_ATTRIBUTES = 8"
  "integer_view A HV_INPUT_SET_GPA_PAGE_ATTRIBUTES = None"
  by (simp_all add: HV_INPUT_SET_GPA_PAGE_ATTRIBUTES_def tlfs_eval tlfs_layout)

lemma HV_INPUT_FLUSH_GUEST_PHYSICAL_ADDRESS_SPACE_layout [tlfs_layout]:
  "csize A HV_INPUT_FLUSH_GUEST_PHYSICAL_ADDRESS_SPACE = 16" "calign A HV_INPUT_FLUSH_GUEST_PHYSICAL_ADDRESS_SPACE = 8"
  "integer_view A HV_INPUT_FLUSH_GUEST_PHYSICAL_ADDRESS_SPACE = None"
  by (simp_all add: HV_INPUT_FLUSH_GUEST_PHYSICAL_ADDRESS_SPACE_def tlfs_eval tlfs_layout)

lemma HV_INPUT_FLUSH_GUEST_PHYSICAL_ADDRESS_LIST_layout [tlfs_layout]:
  "csize A HV_INPUT_FLUSH_GUEST_PHYSICAL_ADDRESS_LIST = 16" "calign A HV_INPUT_FLUSH_GUEST_PHYSICAL_ADDRESS_LIST = 8"
  "integer_view A HV_INPUT_FLUSH_GUEST_PHYSICAL_ADDRESS_LIST = None"
  by (simp_all add: HV_INPUT_FLUSH_GUEST_PHYSICAL_ADDRESS_LIST_def tlfs_eval tlfs_layout)

lemma HV_CREATE_DEVICE_DOMAIN_FLAGS_layout [tlfs_layout]:
  "csize A HV_CREATE_DEVICE_DOMAIN_FLAGS = 4" "calign A HV_CREATE_DEVICE_DOMAIN_FLAGS = 4"
  "integer_view A HV_CREATE_DEVICE_DOMAIN_FLAGS = Some 4"
  by (cases "abi_ms_bits A", simp_all add: HV_CREATE_DEVICE_DOMAIN_FLAGS_def tlfs_eval tlfs_layout)

lemma HV_INPUT_CREATE_DEVICE_DOMAIN_layout [tlfs_layout]:
  "csize A HV_INPUT_CREATE_DEVICE_DOMAIN = 32" "calign A HV_INPUT_CREATE_DEVICE_DOMAIN = 8"
  "integer_view A HV_INPUT_CREATE_DEVICE_DOMAIN = None"
  by (simp_all add: HV_INPUT_CREATE_DEVICE_DOMAIN_def tlfs_eval tlfs_layout)

lemma HV_INPUT_ATTACH_DEVICE_DOMAIN_X64_layout [tlfs_layout]:
  "csize A (HV_INPUT_ATTACH_DEVICE_DOMAIN X64) = 32" "calign A (HV_INPUT_ATTACH_DEVICE_DOMAIN X64) = 8"
  "integer_view A (HV_INPUT_ATTACH_DEVICE_DOMAIN X64) = None"
  by (simp_all add: HV_INPUT_ATTACH_DEVICE_DOMAIN_def tlfs_eval tlfs_layout)

lemma HV_INPUT_ATTACH_DEVICE_DOMAIN_ARM64_layout [tlfs_layout]:
  "csize A (HV_INPUT_ATTACH_DEVICE_DOMAIN ARM64) = 32" "calign A (HV_INPUT_ATTACH_DEVICE_DOMAIN ARM64) = 8"
  "integer_view A (HV_INPUT_ATTACH_DEVICE_DOMAIN ARM64) = None"
  by (simp_all add: HV_INPUT_ATTACH_DEVICE_DOMAIN_def tlfs_eval tlfs_layout)

lemma HV_INPUT_MAP_DEVICE_GPA_PAGES_layout [tlfs_layout]:
  "csize A HV_INPUT_MAP_DEVICE_GPA_PAGES = 40" "calign A HV_INPUT_MAP_DEVICE_GPA_PAGES = 8"
  "integer_view A HV_INPUT_MAP_DEVICE_GPA_PAGES = None"
  by (simp_all add: HV_INPUT_MAP_DEVICE_GPA_PAGES_def tlfs_eval tlfs_layout)

lemma HV_INPUT_UNMAP_DEVICE_GPA_PAGES_layout [tlfs_layout]:
  "csize A HV_INPUT_UNMAP_DEVICE_GPA_PAGES = 32" "calign A HV_INPUT_UNMAP_DEVICE_GPA_PAGES = 8"
  "integer_view A HV_INPUT_UNMAP_DEVICE_GPA_PAGES = None"
  by (simp_all add: HV_INPUT_UNMAP_DEVICE_GPA_PAGES_def tlfs_eval tlfs_layout)

lemma HV_OUTPUT_CREATE_CPU_GROUP_layout [tlfs_layout]:
  "csize A HV_OUTPUT_CREATE_CPU_GROUP = 8" "calign A HV_OUTPUT_CREATE_CPU_GROUP = 8"
  "integer_view A HV_OUTPUT_CREATE_CPU_GROUP = None"
  by (simp_all add: HV_OUTPUT_CREATE_CPU_GROUP_def tlfs_eval tlfs_layout)

lemma HV_INPUT_DELETE_CPU_GROUP_layout [tlfs_layout]:
  "csize A HV_INPUT_DELETE_CPU_GROUP = 8" "calign A HV_INPUT_DELETE_CPU_GROUP = 8"
  "integer_view A HV_INPUT_DELETE_CPU_GROUP = None"
  by (simp_all add: HV_INPUT_DELETE_CPU_GROUP_def tlfs_eval tlfs_layout)

lemma HV_INPUT_GET_CPU_GROUP_PROPERTY_layout [tlfs_layout]:
  "csize A HV_INPUT_GET_CPU_GROUP_PROPERTY = 16" "calign A HV_INPUT_GET_CPU_GROUP_PROPERTY = 8"
  "integer_view A HV_INPUT_GET_CPU_GROUP_PROPERTY = None"
  by (simp_all add: HV_INPUT_GET_CPU_GROUP_PROPERTY_def tlfs_eval tlfs_layout)

lemma HV_OUTPUT_GET_CPU_GROUP_PROPERTY_layout [tlfs_layout]:
  "csize A HV_OUTPUT_GET_CPU_GROUP_PROPERTY = 8" "calign A HV_OUTPUT_GET_CPU_GROUP_PROPERTY = 8"
  "integer_view A HV_OUTPUT_GET_CPU_GROUP_PROPERTY = None"
  by (simp_all add: HV_OUTPUT_GET_CPU_GROUP_PROPERTY_def tlfs_eval tlfs_layout)

lemma HV_INPUT_SET_CPU_GROUP_PROPERTY_layout [tlfs_layout]:
  "csize A HV_INPUT_SET_CPU_GROUP_PROPERTY = 24" "calign A HV_INPUT_SET_CPU_GROUP_PROPERTY = 8"
  "integer_view A HV_INPUT_SET_CPU_GROUP_PROPERTY = None"
  by (simp_all add: HV_INPUT_SET_CPU_GROUP_PROPERTY_def tlfs_eval tlfs_layout)

lemma HV_INPUT_GET_CPU_GROUP_AFFINITY_layout [tlfs_layout]:
  "csize A HV_INPUT_GET_CPU_GROUP_AFFINITY = 8" "calign A HV_INPUT_GET_CPU_GROUP_AFFINITY = 8"
  "integer_view A HV_INPUT_GET_CPU_GROUP_AFFINITY = None"
  by (simp_all add: HV_INPUT_GET_CPU_GROUP_AFFINITY_def tlfs_eval tlfs_layout)

lemma HV_OUTPUT_GET_CPU_GROUP_AFFINITY_layout [tlfs_layout]:
  "csize A HV_OUTPUT_GET_CPU_GROUP_AFFINITY = 64" "calign A HV_OUTPUT_GET_CPU_GROUP_AFFINITY = 8"
  "integer_view A HV_OUTPUT_GET_CPU_GROUP_AFFINITY = None"
  by (simp_all add: HV_OUTPUT_GET_CPU_GROUP_AFFINITY_def tlfs_eval tlfs_layout)

lemma HV_INPUT_GET_NEXT_CPU_GROUP_layout [tlfs_layout]:
  "csize A HV_INPUT_GET_NEXT_CPU_GROUP = 8" "calign A HV_INPUT_GET_NEXT_CPU_GROUP = 8"
  "integer_view A HV_INPUT_GET_NEXT_CPU_GROUP = None"
  by (simp_all add: HV_INPUT_GET_NEXT_CPU_GROUP_def tlfs_eval tlfs_layout)

lemma HV_OUTPUT_GET_NEXT_CPU_GROUP_layout [tlfs_layout]:
  "csize A HV_OUTPUT_GET_NEXT_CPU_GROUP = 8" "calign A HV_OUTPUT_GET_NEXT_CPU_GROUP = 8"
  "integer_view A HV_OUTPUT_GET_NEXT_CPU_GROUP = None"
  by (simp_all add: HV_OUTPUT_GET_NEXT_CPU_GROUP_def tlfs_eval tlfs_layout)

lemma HV_INPUT_GET_NEXT_CPU_GROUP_PARTITION_layout [tlfs_layout]:
  "csize A HV_INPUT_GET_NEXT_CPU_GROUP_PARTITION = 16" "calign A HV_INPUT_GET_NEXT_CPU_GROUP_PARTITION = 8"
  "integer_view A HV_INPUT_GET_NEXT_CPU_GROUP_PARTITION = None"
  by (simp_all add: HV_INPUT_GET_NEXT_CPU_GROUP_PARTITION_def tlfs_eval tlfs_layout)

lemma HV_OUTPUT_GET_NEXT_CPU_GROUP_PARTITION_layout [tlfs_layout]:
  "csize A HV_OUTPUT_GET_NEXT_CPU_GROUP_PARTITION = 8" "calign A HV_OUTPUT_GET_NEXT_CPU_GROUP_PARTITION = 8"
  "integer_view A HV_OUTPUT_GET_NEXT_CPU_GROUP_PARTITION = None"
  by (simp_all add: HV_OUTPUT_GET_NEXT_CPU_GROUP_PARTITION_def tlfs_eval tlfs_layout)

lemma HV_INPUT_ADD_PHYSICAL_MEMORY_layout [tlfs_layout]:
  "csize A HV_INPUT_ADD_PHYSICAL_MEMORY = 16" "calign A HV_INPUT_ADD_PHYSICAL_MEMORY = 8"
  "integer_view A HV_INPUT_ADD_PHYSICAL_MEMORY = None"
  by (simp_all add: HV_INPUT_ADD_PHYSICAL_MEMORY_def tlfs_eval tlfs_layout)

lemma HV_OUTPUT_ADD_PHYSICAL_MEMORY_layout [tlfs_layout]:
  "csize A HV_OUTPUT_ADD_PHYSICAL_MEMORY = 8" "calign A HV_OUTPUT_ADD_PHYSICAL_MEMORY = 8"
  "integer_view A HV_OUTPUT_ADD_PHYSICAL_MEMORY = None"
  by (simp_all add: HV_OUTPUT_ADD_PHYSICAL_MEMORY_def tlfs_eval tlfs_layout)

lemma HV_INPUT_COMPLETE_INTERCEPT_layout [tlfs_layout]:
  "csize A HV_INPUT_COMPLETE_INTERCEPT = 16" "calign A HV_INPUT_COMPLETE_INTERCEPT = 8"
  "integer_view A HV_INPUT_COMPLETE_INTERCEPT = None"
  by (simp_all add: HV_INPUT_COMPLETE_INTERCEPT_def tlfs_eval tlfs_layout)

lemma HV_INPUT_PRECOMMIT_GPA_PAGES_layout [tlfs_layout]:
  "csize A HV_INPUT_PRECOMMIT_GPA_PAGES = 24" "calign A HV_INPUT_PRECOMMIT_GPA_PAGES = 8"
  "integer_view A HV_INPUT_PRECOMMIT_GPA_PAGES = None"
  by (simp_all add: HV_INPUT_PRECOMMIT_GPA_PAGES_def tlfs_eval tlfs_layout)

lemma HV_INPUT_UNCOMMIT_GPA_PAGES_layout [tlfs_layout]:
  "csize A HV_INPUT_UNCOMMIT_GPA_PAGES = 16" "calign A HV_INPUT_UNCOMMIT_GPA_PAGES = 8"
  "integer_view A HV_INPUT_UNCOMMIT_GPA_PAGES = None"
  by (simp_all add: HV_INPUT_UNCOMMIT_GPA_PAGES_def tlfs_eval tlfs_layout)

lemma HV_INPUT_SIGNAL_EVENT_DIRECT_layout [tlfs_layout]:
  "csize A HV_INPUT_SIGNAL_EVENT_DIRECT = 16" "calign A HV_INPUT_SIGNAL_EVENT_DIRECT = 8"
  "integer_view A HV_INPUT_SIGNAL_EVENT_DIRECT = None"
  by (simp_all add: HV_INPUT_SIGNAL_EVENT_DIRECT_def tlfs_eval tlfs_layout)

lemma HV_OUTPUT_SIGNAL_EVENT_DIRECT_layout [tlfs_layout]:
  "csize A HV_OUTPUT_SIGNAL_EVENT_DIRECT = 8" "calign A HV_OUTPUT_SIGNAL_EVENT_DIRECT = 8"
  "integer_view A HV_OUTPUT_SIGNAL_EVENT_DIRECT = None"
  by (simp_all add: HV_OUTPUT_SIGNAL_EVENT_DIRECT_def tlfs_eval tlfs_layout)

lemma HV_INPUT_POST_MESSAGE_DIRECT_layout [tlfs_layout]:
  "csize A HV_INPUT_POST_MESSAGE_DIRECT = 280" "calign A HV_INPUT_POST_MESSAGE_DIRECT = 8"
  "integer_view A HV_INPUT_POST_MESSAGE_DIRECT = None"
  by (simp_all add: HV_INPUT_POST_MESSAGE_DIRECT_def tlfs_eval tlfs_layout)

lemma HV_INPUT_DISPATCH_VP_layout [tlfs_layout]:
  "csize A HV_INPUT_DISPATCH_VP = 32" "calign A HV_INPUT_DISPATCH_VP = 8"
  "integer_view A HV_INPUT_DISPATCH_VP = None"
  by (simp_all add: HV_INPUT_DISPATCH_VP_def tlfs_eval tlfs_layout)

lemma HV_OUTPUT_DISPATCH_VP_layout [tlfs_layout]:
  "csize A HV_OUTPUT_DISPATCH_VP = 8" "calign A HV_OUTPUT_DISPATCH_VP = 8"
  "integer_view A HV_OUTPUT_DISPATCH_VP = None"
  by (simp_all add: HV_OUTPUT_DISPATCH_VP_def tlfs_eval tlfs_layout)

lemma HV_INPUT_PROCESS_IOMMU_PRQ_layout [tlfs_layout]:
  "csize A HV_INPUT_PROCESS_IOMMU_PRQ = 8" "calign A HV_INPUT_PROCESS_IOMMU_PRQ = 8"
  "integer_view A HV_INPUT_PROCESS_IOMMU_PRQ = None"
  by (simp_all add: HV_INPUT_PROCESS_IOMMU_PRQ_def tlfs_eval tlfs_layout)

lemma HV_INPUT_DETACH_DEVICE_DOMAIN_X64_layout [tlfs_layout]:
  "csize A (HV_INPUT_DETACH_DEVICE_DOMAIN X64) = 16" "calign A (HV_INPUT_DETACH_DEVICE_DOMAIN X64) = 8"
  "integer_view A (HV_INPUT_DETACH_DEVICE_DOMAIN X64) = None"
  by (simp_all add: HV_INPUT_DETACH_DEVICE_DOMAIN_def tlfs_eval tlfs_layout)

lemma HV_INPUT_DETACH_DEVICE_DOMAIN_ARM64_layout [tlfs_layout]:
  "csize A (HV_INPUT_DETACH_DEVICE_DOMAIN ARM64) = 16" "calign A (HV_INPUT_DETACH_DEVICE_DOMAIN ARM64) = 8"
  "integer_view A (HV_INPUT_DETACH_DEVICE_DOMAIN ARM64) = None"
  by (simp_all add: HV_INPUT_DETACH_DEVICE_DOMAIN_def tlfs_eval tlfs_layout)

lemma HV_INPUT_DELETE_DEVICE_DOMAIN_layout [tlfs_layout]:
  "csize A HV_INPUT_DELETE_DEVICE_DOMAIN = 24" "calign A HV_INPUT_DELETE_DEVICE_DOMAIN = 8"
  "integer_view A HV_INPUT_DELETE_DEVICE_DOMAIN = None"
  by (simp_all add: HV_INPUT_DELETE_DEVICE_DOMAIN_def tlfs_eval tlfs_layout)

lemma HV_INPUT_QUERY_DEVICE_DOMAIN_layout [tlfs_layout]:
  "csize A HV_INPUT_QUERY_DEVICE_DOMAIN = 24" "calign A HV_INPUT_QUERY_DEVICE_DOMAIN = 8"
  "integer_view A HV_INPUT_QUERY_DEVICE_DOMAIN = None"
  by (simp_all add: HV_INPUT_QUERY_DEVICE_DOMAIN_def tlfs_eval tlfs_layout)

lemma HV_DEVICE_VA_MAPPING_layout [tlfs_layout]:
  "csize A HV_DEVICE_VA_MAPPING = 16" "calign A HV_DEVICE_VA_MAPPING = 8"
  "integer_view A HV_DEVICE_VA_MAPPING = None"
  by (simp_all add: HV_DEVICE_VA_MAPPING_def tlfs_eval tlfs_layout)

lemma HV_INPUT_MAP_SPARSE_DEVICE_GPA_PAGES_layout [tlfs_layout]:
  "csize A HV_INPUT_MAP_SPARSE_DEVICE_GPA_PAGES = 32" "calign A HV_INPUT_MAP_SPARSE_DEVICE_GPA_PAGES = 8"
  "integer_view A HV_INPUT_MAP_SPARSE_DEVICE_GPA_PAGES = None"
  by (simp_all add: HV_INPUT_MAP_SPARSE_DEVICE_GPA_PAGES_def tlfs_eval tlfs_layout)

lemma HV_INPUT_UNMAP_SPARSE_DEVICE_GPA_PAGES_layout [tlfs_layout]:
  "csize A HV_INPUT_UNMAP_SPARSE_DEVICE_GPA_PAGES = 24" "calign A HV_INPUT_UNMAP_SPARSE_DEVICE_GPA_PAGES = 8"
  "integer_view A HV_INPUT_UNMAP_SPARSE_DEVICE_GPA_PAGES = None"
  by (simp_all add: HV_INPUT_UNMAP_SPARSE_DEVICE_GPA_PAGES_def tlfs_eval tlfs_layout)

lemma HV_INPUT_GET_GPA_PAGES_ACCESS_STATE_layout [tlfs_layout]:
  "csize A HV_INPUT_GET_GPA_PAGES_ACCESS_STATE = 24" "calign A HV_INPUT_GET_GPA_PAGES_ACCESS_STATE = 8"
  "integer_view A HV_INPUT_GET_GPA_PAGES_ACCESS_STATE = None"
  by (simp_all add: HV_INPUT_GET_GPA_PAGES_ACCESS_STATE_def tlfs_eval tlfs_layout)

lemma HV_INPUT_GET_SPARSE_GPA_PAGES_ACCESS_STATE_layout [tlfs_layout]:
  "csize A HV_INPUT_GET_SPARSE_GPA_PAGES_ACCESS_STATE = 16" "calign A HV_INPUT_GET_SPARSE_GPA_PAGES_ACCESS_STATE = 8"
  "integer_view A HV_INPUT_GET_SPARSE_GPA_PAGES_ACCESS_STATE = None"
  by (simp_all add: HV_INPUT_GET_SPARSE_GPA_PAGES_ACCESS_STATE_def tlfs_eval tlfs_layout)

lemma HV_INPUT_QUERY_VTL_PROTECTION_MASK_RANGE_layout [tlfs_layout]:
  "csize A HV_INPUT_QUERY_VTL_PROTECTION_MASK_RANGE = 24" "calign A HV_INPUT_QUERY_VTL_PROTECTION_MASK_RANGE = 8"
  "integer_view A HV_INPUT_QUERY_VTL_PROTECTION_MASK_RANGE = None"
  by (simp_all add: HV_INPUT_QUERY_VTL_PROTECTION_MASK_RANGE_def tlfs_eval tlfs_layout)

lemma HV_INPUT_MODIFY_VTL_PROTECTION_MASK_RANGE_layout [tlfs_layout]:
  "csize A HV_INPUT_MODIFY_VTL_PROTECTION_MASK_RANGE = 24" "calign A HV_INPUT_MODIFY_VTL_PROTECTION_MASK_RANGE = 8"
  "integer_view A HV_INPUT_MODIFY_VTL_PROTECTION_MASK_RANGE = None"
  by (simp_all add: HV_INPUT_MODIFY_VTL_PROTECTION_MASK_RANGE_def tlfs_eval tlfs_layout)

lemma HV_DEVICE_DOMAIN_SETTINGS_layout [tlfs_layout]:
  "csize A HV_DEVICE_DOMAIN_SETTINGS = 40" "calign A HV_DEVICE_DOMAIN_SETTINGS = 8"
  "integer_view A HV_DEVICE_DOMAIN_SETTINGS = None"
  by (cases "abi_ms_bits A", simp_all add: HV_DEVICE_DOMAIN_SETTINGS_def tlfs_eval tlfs_layout)

lemma HV_INPUT_CONFIGURE_DEVICE_DOMAIN_layout [tlfs_layout]:
  "csize A HV_INPUT_CONFIGURE_DEVICE_DOMAIN = 64" "calign A HV_INPUT_CONFIGURE_DEVICE_DOMAIN = 8"
  "integer_view A HV_INPUT_CONFIGURE_DEVICE_DOMAIN = None"
  by (simp_all add: HV_INPUT_CONFIGURE_DEVICE_DOMAIN_def tlfs_eval tlfs_layout)

lemma HV_INPUT_FLUSH_DEVICE_DOMAIN_layout [tlfs_layout]:
  "csize A HV_INPUT_FLUSH_DEVICE_DOMAIN = 32" "calign A HV_INPUT_FLUSH_DEVICE_DOMAIN = 8"
  "integer_view A HV_INPUT_FLUSH_DEVICE_DOMAIN = None"
  by (simp_all add: HV_INPUT_FLUSH_DEVICE_DOMAIN_def tlfs_eval tlfs_layout)

lemma HV_INPUT_FLUSH_DEVICE_DOMAIN_LIST_layout [tlfs_layout]:
  "csize A HV_INPUT_FLUSH_DEVICE_DOMAIN_LIST = 32" "calign A HV_INPUT_FLUSH_DEVICE_DOMAIN_LIST = 8"
  "integer_view A HV_INPUT_FLUSH_DEVICE_DOMAIN_LIST = None"
  by (simp_all add: HV_INPUT_FLUSH_DEVICE_DOMAIN_LIST_def tlfs_eval tlfs_layout)

lemma HV_INPUT_MODIFY_SPARSE_GPA_PAGE_HOST_ACCESS_layout [tlfs_layout]:
  "csize A HV_INPUT_MODIFY_SPARSE_GPA_PAGE_HOST_ACCESS = 16" "calign A HV_INPUT_MODIFY_SPARSE_GPA_PAGE_HOST_ACCESS = 8"
  "integer_view A HV_INPUT_MODIFY_SPARSE_GPA_PAGE_HOST_ACCESS = None"
  by (cases "abi_ms_bits A", simp_all add: HV_INPUT_MODIFY_SPARSE_GPA_PAGE_HOST_ACCESS_def tlfs_eval tlfs_layout)

lemma HV_INPUT_CHECK_SPARSE_GPA_PAGE_VTL_ACCESS_layout [tlfs_layout]:
  "csize A HV_INPUT_CHECK_SPARSE_GPA_PAGE_VTL_ACCESS = 16" "calign A HV_INPUT_CHECK_SPARSE_GPA_PAGE_VTL_ACCESS = 8"
  "integer_view A HV_INPUT_CHECK_SPARSE_GPA_PAGE_VTL_ACCESS = None"
  by (simp_all add: HV_INPUT_CHECK_SPARSE_GPA_PAGE_VTL_ACCESS_def tlfs_eval tlfs_layout)

lemma HV_INPUT_MODIFY_SPARSE_SPA_PAGE_HOST_ACCESS_layout [tlfs_layout]:
  "csize A HV_INPUT_MODIFY_SPARSE_SPA_PAGE_HOST_ACCESS = 16" "calign A HV_INPUT_MODIFY_SPARSE_SPA_PAGE_HOST_ACCESS = 8"
  "integer_view A HV_INPUT_MODIFY_SPARSE_SPA_PAGE_HOST_ACCESS = None"
  by (cases "abi_ms_bits A", simp_all add: HV_INPUT_MODIFY_SPARSE_SPA_PAGE_HOST_ACCESS_def tlfs_eval tlfs_layout)

lemma HV_INPUT_ACCEPT_GPA_PAGES_layout [tlfs_layout]:
  "csize A HV_INPUT_ACCEPT_GPA_PAGES = 24" "calign A HV_INPUT_ACCEPT_GPA_PAGES = 8"
  "integer_view A HV_INPUT_ACCEPT_GPA_PAGES = None"
  by (cases "abi_ms_bits A", simp_all add: HV_INPUT_ACCEPT_GPA_PAGES_def tlfs_eval tlfs_layout)

lemma HV_INPUT_UNACCEPT_GPA_PAGES_layout [tlfs_layout]:
  "csize A HV_INPUT_UNACCEPT_GPA_PAGES = 24" "calign A HV_INPUT_UNACCEPT_GPA_PAGES = 8"
  "integer_view A HV_INPUT_UNACCEPT_GPA_PAGES = None"
  by (cases "abi_ms_bits A", simp_all add: HV_INPUT_UNACCEPT_GPA_PAGES_def tlfs_eval tlfs_layout)

lemma HV_GPA_PAGE_MAPPING_LOCK_INPUT_layout [tlfs_layout]:
  "csize A HV_GPA_PAGE_MAPPING_LOCK_INPUT = 8" "calign A HV_GPA_PAGE_MAPPING_LOCK_INPUT = 8"
  "integer_view A HV_GPA_PAGE_MAPPING_LOCK_INPUT = Some 8"
  by (cases "abi_ms_bits A", simp_all add: HV_GPA_PAGE_MAPPING_LOCK_INPUT_def tlfs_eval tlfs_layout)

lemma HV_GPA_PAGE_MAPPING_LOCK_OUTPUT_layout [tlfs_layout]:
  "csize A HV_GPA_PAGE_MAPPING_LOCK_OUTPUT = 16" "calign A HV_GPA_PAGE_MAPPING_LOCK_OUTPUT = 8"
  "integer_view A HV_GPA_PAGE_MAPPING_LOCK_OUTPUT = None"
  by (cases "abi_ms_bits A", simp_all add: HV_GPA_PAGE_MAPPING_LOCK_OUTPUT_def tlfs_eval tlfs_layout)

lemma HV_INPUT_LOCK_SPARSE_GPA_PAGE_MAPPING_layout [tlfs_layout]:
  "csize A HV_INPUT_LOCK_SPARSE_GPA_PAGE_MAPPING = 16" "calign A HV_INPUT_LOCK_SPARSE_GPA_PAGE_MAPPING = 8"
  "integer_view A HV_INPUT_LOCK_SPARSE_GPA_PAGE_MAPPING = None"
  by (simp_all add: HV_INPUT_LOCK_SPARSE_GPA_PAGE_MAPPING_def tlfs_eval tlfs_layout)

lemma HV_GPA_PAGE_MAPPING_UNLOCK_INPUT_layout [tlfs_layout]:
  "csize A HV_GPA_PAGE_MAPPING_UNLOCK_INPUT = 16" "calign A HV_GPA_PAGE_MAPPING_UNLOCK_INPUT = 8"
  "integer_view A HV_GPA_PAGE_MAPPING_UNLOCK_INPUT = None"
  by (cases "abi_ms_bits A", simp_all add: HV_GPA_PAGE_MAPPING_UNLOCK_INPUT_def tlfs_eval tlfs_layout)

lemma HV_INPUT_UNLOCK_SPARSE_GPA_PAGE_MAPPING_layout [tlfs_layout]:
  "csize A HV_INPUT_UNLOCK_SPARSE_GPA_PAGE_MAPPING = 8" "calign A HV_INPUT_UNLOCK_SPARSE_GPA_PAGE_MAPPING = 8"
  "integer_view A HV_INPUT_UNLOCK_SPARSE_GPA_PAGE_MAPPING = None"
  by (simp_all add: HV_INPUT_UNLOCK_SPARSE_GPA_PAGE_MAPPING_def tlfs_eval tlfs_layout)

lemma HV_INPUT_REQUEST_PROCESSOR_HALT_FLAGS_layout [tlfs_layout]:
  "csize A HV_INPUT_REQUEST_PROCESSOR_HALT_FLAGS = 4" "calign A HV_INPUT_REQUEST_PROCESSOR_HALT_FLAGS = 4"
  "integer_view A HV_INPUT_REQUEST_PROCESSOR_HALT_FLAGS = Some 4"
  by (cases "abi_ms_bits A", simp_all add: HV_INPUT_REQUEST_PROCESSOR_HALT_FLAGS_def tlfs_eval tlfs_layout)

lemma HV_PPM_IDLE_STATE_REQUEST_layout [tlfs_layout]:
  "csize A HV_PPM_IDLE_STATE_REQUEST = 16" "calign A HV_PPM_IDLE_STATE_REQUEST = 8"
  "integer_view A HV_PPM_IDLE_STATE_REQUEST = None"
  by (simp_all add: HV_PPM_IDLE_STATE_REQUEST_def tlfs_eval tlfs_layout)

lemma HV_INPUT_REQUEST_PROCESSOR_HALT_layout [tlfs_layout]:
  "csize A HV_INPUT_REQUEST_PROCESSOR_HALT = 16" "calign A HV_INPUT_REQUEST_PROCESSOR_HALT = 8"
  "integer_view A HV_INPUT_REQUEST_PROCESSOR_HALT = Some 16"
  by (simp_all add: HV_INPUT_REQUEST_PROCESSOR_HALT_def tlfs_eval tlfs_layout)

lemma HV_INPUT_GET_INTERCEPT_DATA_layout [tlfs_layout]:
  "csize A HV_INPUT_GET_INTERCEPT_DATA = 16" "calign A HV_INPUT_GET_INTERCEPT_DATA = 8"
  "integer_view A HV_INPUT_GET_INTERCEPT_DATA = None"
  by (simp_all add: HV_INPUT_GET_INTERCEPT_DATA_def tlfs_eval tlfs_layout)

lemma HV_INPUT_QUERY_DEVICE_INTERRUPT_TARGET_X64_layout [tlfs_layout]:
  "csize A (HV_INPUT_QUERY_DEVICE_INTERRUPT_TARGET X64) = 32" "calign A (HV_INPUT_QUERY_DEVICE_INTERRUPT_TARGET X64) = 8"
  "integer_view A (HV_INPUT_QUERY_DEVICE_INTERRUPT_TARGET X64) = None"
  by (simp_all add: HV_INPUT_QUERY_DEVICE_INTERRUPT_TARGET_def tlfs_eval tlfs_layout)

lemma HV_INPUT_QUERY_DEVICE_INTERRUPT_TARGET_ARM64_layout [tlfs_layout]:
  "csize A (HV_INPUT_QUERY_DEVICE_INTERRUPT_TARGET ARM64) = 40" "calign A (HV_INPUT_QUERY_DEVICE_INTERRUPT_TARGET ARM64) = 8"
  "integer_view A (HV_INPUT_QUERY_DEVICE_INTERRUPT_TARGET ARM64) = None"
  by (simp_all add: HV_INPUT_QUERY_DEVICE_INTERRUPT_TARGET_def tlfs_eval tlfs_layout)

lemma HV_OUTPUT_QUERY_DEVICE_INTERRUPT_TARGET_X64_layout [tlfs_layout]:
  "csize A (HV_OUTPUT_QUERY_DEVICE_INTERRUPT_TARGET X64) = 88" "calign A (HV_OUTPUT_QUERY_DEVICE_INTERRUPT_TARGET X64) = 8"
  "integer_view A (HV_OUTPUT_QUERY_DEVICE_INTERRUPT_TARGET X64) = None"
  by (simp_all add: HV_OUTPUT_QUERY_DEVICE_INTERRUPT_TARGET_def tlfs_eval tlfs_layout)

lemma HV_OUTPUT_QUERY_DEVICE_INTERRUPT_TARGET_ARM64_layout [tlfs_layout]:
  "csize A (HV_OUTPUT_QUERY_DEVICE_INTERRUPT_TARGET ARM64) = 96" "calign A (HV_OUTPUT_QUERY_DEVICE_INTERRUPT_TARGET ARM64) = 8"
  "integer_view A (HV_OUTPUT_QUERY_DEVICE_INTERRUPT_TARGET ARM64) = None"
  by (simp_all add: HV_OUTPUT_QUERY_DEVICE_INTERRUPT_TARGET_def tlfs_eval tlfs_layout)

lemma HV_INPUT_MAP_VP_STATE_PAGE_layout [tlfs_layout]:
  "csize A HV_INPUT_MAP_VP_STATE_PAGE = 16" "calign A HV_INPUT_MAP_VP_STATE_PAGE = 8"
  "integer_view A HV_INPUT_MAP_VP_STATE_PAGE = None"
  by (simp_all add: HV_INPUT_MAP_VP_STATE_PAGE_def tlfs_eval tlfs_layout)

lemma HV_OUTPUT_MAP_VP_STATE_PAGE_layout [tlfs_layout]:
  "csize A HV_OUTPUT_MAP_VP_STATE_PAGE = 8" "calign A HV_OUTPUT_MAP_VP_STATE_PAGE = 8"
  "integer_view A HV_OUTPUT_MAP_VP_STATE_PAGE = None"
  by (simp_all add: HV_OUTPUT_MAP_VP_STATE_PAGE_def tlfs_eval tlfs_layout)

lemma HV_INPUT_UNMAP_VP_STATE_PAGE_layout [tlfs_layout]:
  "csize A HV_INPUT_UNMAP_VP_STATE_PAGE = 16" "calign A HV_INPUT_UNMAP_VP_STATE_PAGE = 8"
  "integer_view A HV_INPUT_UNMAP_VP_STATE_PAGE = None"
  by (simp_all add: HV_INPUT_UNMAP_VP_STATE_PAGE_def tlfs_eval tlfs_layout)

lemma HV_INPUT_GET_VP_STATE_X64_layout [tlfs_layout]:
  "csize A (HV_INPUT_GET_VP_STATE X64) = 40" "calign A (HV_INPUT_GET_VP_STATE X64) = 8"
  "integer_view A (HV_INPUT_GET_VP_STATE X64) = None"
  by (simp_all add: HV_INPUT_GET_VP_STATE_def tlfs_eval tlfs_layout)

lemma HV_INPUT_GET_VP_STATE_ARM64_layout [tlfs_layout]:
  "csize A (HV_INPUT_GET_VP_STATE ARM64) = 24" "calign A (HV_INPUT_GET_VP_STATE ARM64) = 8"
  "integer_view A (HV_INPUT_GET_VP_STATE ARM64) = None"
  by (simp_all add: HV_INPUT_GET_VP_STATE_def tlfs_eval tlfs_layout)

lemma HV_OUTPUT_GET_VP_STATE_X64_layout [tlfs_layout]:
  "csize A (HV_OUTPUT_GET_VP_STATE X64) = 200" "calign A (HV_OUTPUT_GET_VP_STATE X64) = 8"
  "integer_view A (HV_OUTPUT_GET_VP_STATE X64) = None"
  by (simp_all add: HV_OUTPUT_GET_VP_STATE_def tlfs_eval tlfs_layout)

lemma HV_OUTPUT_GET_VP_STATE_ARM64_layout [tlfs_layout]:
  "csize A (HV_OUTPUT_GET_VP_STATE ARM64) = 8" "calign A (HV_OUTPUT_GET_VP_STATE ARM64) = 8"
  "integer_view A (HV_OUTPUT_GET_VP_STATE ARM64) = None"
  by (simp_all add: HV_OUTPUT_GET_VP_STATE_def tlfs_eval tlfs_layout)

lemma HV_INPUT_SET_VP_STATE_DATA_layout [tlfs_layout]:
  "csize A HV_INPUT_SET_VP_STATE_DATA = 8" "calign A HV_INPUT_SET_VP_STATE_DATA = 8"
  "integer_view A HV_INPUT_SET_VP_STATE_DATA = None"
  by (simp_all add: HV_INPUT_SET_VP_STATE_DATA_def tlfs_eval tlfs_layout)

lemma HV_INPUT_SET_VP_STATE_X64_layout [tlfs_layout]:
  "csize A (HV_INPUT_SET_VP_STATE X64) = 40" "calign A (HV_INPUT_SET_VP_STATE X64) = 8"
  "integer_view A (HV_INPUT_SET_VP_STATE X64) = None"
  by (simp_all add: HV_INPUT_SET_VP_STATE_def tlfs_eval tlfs_layout)

lemma HV_INPUT_SET_VP_STATE_ARM64_layout [tlfs_layout]:
  "csize A (HV_INPUT_SET_VP_STATE ARM64) = 24" "calign A (HV_INPUT_SET_VP_STATE ARM64) = 8"
  "integer_view A (HV_INPUT_SET_VP_STATE ARM64) = None"
  by (simp_all add: HV_INPUT_SET_VP_STATE_def tlfs_eval tlfs_layout)

lemma HV_INPUT_RESERVE_DEVICE_INTERRUPT_X64_layout [tlfs_layout]:
  "csize A (HV_INPUT_RESERVE_DEVICE_INTERRUPT X64) = 56" "calign A (HV_INPUT_RESERVE_DEVICE_INTERRUPT X64) = 8"
  "integer_view A (HV_INPUT_RESERVE_DEVICE_INTERRUPT X64) = None"
  by (simp_all add: HV_INPUT_RESERVE_DEVICE_INTERRUPT_def tlfs_eval tlfs_layout)

lemma HV_INPUT_RESERVE_DEVICE_INTERRUPT_ARM64_layout [tlfs_layout]:
  "csize A (HV_INPUT_RESERVE_DEVICE_INTERRUPT ARM64) = 64" "calign A (HV_INPUT_RESERVE_DEVICE_INTERRUPT ARM64) = 8"
  "integer_view A (HV_INPUT_RESERVE_DEVICE_INTERRUPT ARM64) = None"
  by (simp_all add: HV_INPUT_RESERVE_DEVICE_INTERRUPT_def tlfs_eval tlfs_layout)

lemma HV_INPUT_PERSIST_DEVICE_X64_layout [tlfs_layout]:
  "csize A (HV_INPUT_PERSIST_DEVICE X64) = 40" "calign A (HV_INPUT_PERSIST_DEVICE X64) = 8"
  "integer_view A (HV_INPUT_PERSIST_DEVICE X64) = None"
  by (simp_all add: HV_INPUT_PERSIST_DEVICE_def tlfs_eval tlfs_layout)

lemma HV_INPUT_PERSIST_DEVICE_ARM64_layout [tlfs_layout]:
  "csize A (HV_INPUT_PERSIST_DEVICE ARM64) = 40" "calign A (HV_INPUT_PERSIST_DEVICE ARM64) = 8"
  "integer_view A (HV_INPUT_PERSIST_DEVICE ARM64) = None"
  by (simp_all add: HV_INPUT_PERSIST_DEVICE_def tlfs_eval tlfs_layout)

lemma HV_INPUT_UNPERSIST_DEVICE_layout [tlfs_layout]:
  "csize A HV_INPUT_UNPERSIST_DEVICE = 16" "calign A HV_INPUT_UNPERSIST_DEVICE = 8"
  "integer_view A HV_INPUT_UNPERSIST_DEVICE = None"
  by (simp_all add: HV_INPUT_UNPERSIST_DEVICE_def tlfs_eval tlfs_layout)

lemma HV_INPUT_PERSIST_DEVICE_INTERRUPT_X64_layout [tlfs_layout]:
  "csize A (HV_INPUT_PERSIST_DEVICE_INTERRUPT X64) = 48" "calign A (HV_INPUT_PERSIST_DEVICE_INTERRUPT X64) = 8"
  "integer_view A (HV_INPUT_PERSIST_DEVICE_INTERRUPT X64) = None"
  by (simp_all add: HV_INPUT_PERSIST_DEVICE_INTERRUPT_def tlfs_eval tlfs_layout)

lemma HV_INPUT_PERSIST_DEVICE_INTERRUPT_ARM64_layout [tlfs_layout]:
  "csize A (HV_INPUT_PERSIST_DEVICE_INTERRUPT ARM64) = 56" "calign A (HV_INPUT_PERSIST_DEVICE_INTERRUPT ARM64) = 8"
  "integer_view A (HV_INPUT_PERSIST_DEVICE_INTERRUPT ARM64) = None"
  by (simp_all add: HV_INPUT_PERSIST_DEVICE_INTERRUPT_def tlfs_eval tlfs_layout)

lemma HV_OUTPUT_PERSIST_DEVICE_INTERRUPT_layout [tlfs_layout]:
  "csize A HV_OUTPUT_PERSIST_DEVICE_INTERRUPT = 8" "calign A HV_OUTPUT_PERSIST_DEVICE_INTERRUPT = 8"
  "integer_view A HV_OUTPUT_PERSIST_DEVICE_INTERRUPT = None"
  by (simp_all add: HV_OUTPUT_PERSIST_DEVICE_INTERRUPT_def tlfs_eval tlfs_layout)

lemma HV_INPUT_REFRESH_PERFORMANCE_COUNTERS_layout [tlfs_layout]:
  "csize A HV_INPUT_REFRESH_PERFORMANCE_COUNTERS = 8" "calign A HV_INPUT_REFRESH_PERFORMANCE_COUNTERS = 8"
  "integer_view A HV_INPUT_REFRESH_PERFORMANCE_COUNTERS = None"
  by (simp_all add: HV_INPUT_REFRESH_PERFORMANCE_COUNTERS_def tlfs_eval tlfs_layout)

lemma HV_PARTITION_COMPLETE_ISOLATED_IMPORT_DATA_layout [tlfs_layout]:
  "csize A HV_PARTITION_COMPLETE_ISOLATED_IMPORT_DATA = 8" "calign A HV_PARTITION_COMPLETE_ISOLATED_IMPORT_DATA = 8"
  "integer_view A HV_PARTITION_COMPLETE_ISOLATED_IMPORT_DATA = None"
  by (simp_all add: HV_PARTITION_COMPLETE_ISOLATED_IMPORT_DATA_def tlfs_eval tlfs_layout)

lemma HV_INPUT_COMPLETE_ISOLATED_IMPORT_layout [tlfs_layout]:
  "csize A HV_INPUT_COMPLETE_ISOLATED_IMPORT = 16" "calign A HV_INPUT_COMPLETE_ISOLATED_IMPORT = 8"
  "integer_view A HV_INPUT_COMPLETE_ISOLATED_IMPORT = None"
  by (simp_all add: HV_INPUT_COMPLETE_ISOLATED_IMPORT_def tlfs_eval tlfs_layout)

lemma HV_INPUT_ROOT_SIGNAL_EVENT_layout [tlfs_layout]:
  "csize A HV_INPUT_ROOT_SIGNAL_EVENT = 8" "calign A HV_INPUT_ROOT_SIGNAL_EVENT = 8"
  "integer_view A HV_INPUT_ROOT_SIGNAL_EVENT = None"
  by (simp_all add: HV_INPUT_ROOT_SIGNAL_EVENT_def tlfs_eval tlfs_layout)

lemma HV_OUTPUT_ROOT_SIGNAL_EVENT_layout [tlfs_layout]:
  "csize A HV_OUTPUT_ROOT_SIGNAL_EVENT = 16" "calign A HV_OUTPUT_ROOT_SIGNAL_EVENT = 8"
  "integer_view A HV_OUTPUT_ROOT_SIGNAL_EVENT = None"
  by (simp_all add: HV_OUTPUT_ROOT_SIGNAL_EVENT_def tlfs_eval tlfs_layout)

lemma HV_INPUT_GET_VP_CPUID_VALUES_layout [tlfs_layout]:
  "csize A HV_INPUT_GET_VP_CPUID_VALUES = 24" "calign A HV_INPUT_GET_VP_CPUID_VALUES = 8"
  "integer_view A HV_INPUT_GET_VP_CPUID_VALUES = None"
  by (simp_all add: HV_INPUT_GET_VP_CPUID_VALUES_def tlfs_eval tlfs_layout)

lemma HV_OUTPUT_GET_VP_CPUID_VALUES_layout [tlfs_layout]:
  "csize A HV_OUTPUT_GET_VP_CPUID_VALUES = 16" "calign A HV_OUTPUT_GET_VP_CPUID_VALUES = 8"
  "integer_view A HV_OUTPUT_GET_VP_CPUID_VALUES = Some 16"
  by (simp_all add: HV_OUTPUT_GET_VP_CPUID_VALUES_def tlfs_eval tlfs_layout)

lemma HV_INPUT_READ_SYSTEM_MEMORY_layout [tlfs_layout]:
  "csize A HV_INPUT_READ_SYSTEM_MEMORY = 8" "calign A HV_INPUT_READ_SYSTEM_MEMORY = 8"
  "integer_view A HV_INPUT_READ_SYSTEM_MEMORY = Some 8"
  by (cases "abi_ms_bits A", simp_all add: HV_INPUT_READ_SYSTEM_MEMORY_def tlfs_eval tlfs_layout)

lemma HV_OUTPUT_READ_SYSTEM_MEMORY_layout [tlfs_layout]:
  "csize A HV_OUTPUT_READ_SYSTEM_MEMORY = 8" "calign A HV_OUTPUT_READ_SYSTEM_MEMORY = 8"
  "integer_view A HV_OUTPUT_READ_SYSTEM_MEMORY = None"
  by (simp_all add: HV_OUTPUT_READ_SYSTEM_MEMORY_def tlfs_eval tlfs_layout)

lemma HV_INPUT_SET_HW_WATCHDOG_CONFIG_layout [tlfs_layout]:
  "csize A HV_INPUT_SET_HW_WATCHDOG_CONFIG = 8" "calign A HV_INPUT_SET_HW_WATCHDOG_CONFIG = 8"
  "integer_view A HV_INPUT_SET_HW_WATCHDOG_CONFIG = None"
  by (simp_all add: HV_INPUT_SET_HW_WATCHDOG_CONFIG_def tlfs_eval tlfs_layout)

lemma HV_INPUT_REMOVE_PHYSICAL_MEMORY_layout [tlfs_layout]:
  "csize A HV_INPUT_REMOVE_PHYSICAL_MEMORY = 16" "calign A HV_INPUT_REMOVE_PHYSICAL_MEMORY = 8"
  "integer_view A HV_INPUT_REMOVE_PHYSICAL_MEMORY = None"
  by (simp_all add: HV_INPUT_REMOVE_PHYSICAL_MEMORY_def tlfs_eval tlfs_layout)

lemma HV_INPUT_SUBSUME_VP_layout [tlfs_layout]:
  "csize A HV_INPUT_SUBSUME_VP = 16" "calign A HV_INPUT_SUBSUME_VP = 8"
  "integer_view A HV_INPUT_SUBSUME_VP = None"
  by (simp_all add: HV_INPUT_SUBSUME_VP_def tlfs_eval tlfs_layout)

lemma HV_INPUT_WRITE_SYS_DIAG_EVENT_layout [tlfs_layout]:
  "csize A HV_INPUT_WRITE_SYS_DIAG_EVENT = 24" "calign A HV_INPUT_WRITE_SYS_DIAG_EVENT = 8"
  "integer_view A HV_INPUT_WRITE_SYS_DIAG_EVENT = None"
  by (simp_all add: HV_INPUT_WRITE_SYS_DIAG_EVENT_def tlfs_eval tlfs_layout)

lemma HV_SET_DEVICE_CAPABILITIES_FLAGS_layout [tlfs_layout]:
  "csize A HV_SET_DEVICE_CAPABILITIES_FLAGS = 8" "calign A HV_SET_DEVICE_CAPABILITIES_FLAGS = 8"
  "integer_view A HV_SET_DEVICE_CAPABILITIES_FLAGS = Some 4"
  by (cases "abi_ms_bits A", simp_all add: HV_SET_DEVICE_CAPABILITIES_FLAGS_def tlfs_eval tlfs_layout)

lemma HV_INPUT_SET_DEVICE_CAPABILITIES_layout [tlfs_layout]:
  "csize A HV_INPUT_SET_DEVICE_CAPABILITIES = 32" "calign A HV_INPUT_SET_DEVICE_CAPABILITIES = 8"
  "integer_view A HV_INPUT_SET_DEVICE_CAPABILITIES = None"
  by (simp_all add: HV_INPUT_SET_DEVICE_CAPABILITIES_def tlfs_eval tlfs_layout)

lemma HV_INPUT_GET_PARTITION_PROPERTY_EX_layout [tlfs_layout]:
  "csize A HV_INPUT_GET_PARTITION_PROPERTY_EX = 24" "calign A HV_INPUT_GET_PARTITION_PROPERTY_EX = 8"
  "integer_view A HV_INPUT_GET_PARTITION_PROPERTY_EX = None"
  by (simp_all add: HV_INPUT_GET_PARTITION_PROPERTY_EX_def tlfs_eval tlfs_layout)

lemma HV_OUTPUT_GET_PARTITION_PROPERTY_EX_layout [tlfs_layout]:
  "csize A HV_OUTPUT_GET_PARTITION_PROPERTY_EX = 4096" "calign A HV_OUTPUT_GET_PARTITION_PROPERTY_EX = 8"
  "integer_view A HV_OUTPUT_GET_PARTITION_PROPERTY_EX = None"
  by (simp_all add: HV_OUTPUT_GET_PARTITION_PROPERTY_EX_def tlfs_eval tlfs_layout)

lemma HV_INPUT_GET_GPA_RANGES_ACCESS_STATE_layout [tlfs_layout]:
  "csize A HV_INPUT_GET_GPA_RANGES_ACCESS_STATE = 32" "calign A HV_INPUT_GET_GPA_RANGES_ACCESS_STATE = 8"
  "integer_view A HV_INPUT_GET_GPA_RANGES_ACCESS_STATE = None"
  by (simp_all add: HV_INPUT_GET_GPA_RANGES_ACCESS_STATE_def tlfs_eval tlfs_layout)

lemma HV_INPUT_RESTORE_PARTITION_TIME_layout [tlfs_layout]:
  "csize A HV_INPUT_RESTORE_PARTITION_TIME = 32" "calign A HV_INPUT_RESTORE_PARTITION_TIME = 8"
  "integer_view A HV_INPUT_RESTORE_PARTITION_TIME = None"
  by (simp_all add: HV_INPUT_RESTORE_PARTITION_TIME_def tlfs_eval tlfs_layout)

lemma HV_OUTPUT_QUERY_ASSOCIATED_LP_FOR_MCA_EX_layout [tlfs_layout]:
  "csize A HV_OUTPUT_QUERY_ASSOCIATED_LP_FOR_MCA_EX = 56" "calign A HV_OUTPUT_QUERY_ASSOCIATED_LP_FOR_MCA_EX = 8"
  "integer_view A HV_OUTPUT_QUERY_ASSOCIATED_LP_FOR_MCA_EX = None"
  by (simp_all add: HV_OUTPUT_QUERY_ASSOCIATED_LP_FOR_MCA_EX_def tlfs_eval tlfs_layout)

lemma HV_INPUT_SET_PARTITION_PROPERTY_EX_layout [tlfs_layout]:
  "csize A HV_INPUT_SET_PARTITION_PROPERTY_EX = 24" "calign A HV_INPUT_SET_PARTITION_PROPERTY_EX = 8"
  "integer_view A HV_INPUT_SET_PARTITION_PROPERTY_EX = None"
  by (simp_all add: HV_INPUT_SET_PARTITION_PROPERTY_EX_def tlfs_eval tlfs_layout)

lemma HV_INPUT_ATTACH_DEVICE_PR_QUEUE_layout [tlfs_layout]:
  "csize A HV_INPUT_ATTACH_DEVICE_PR_QUEUE = 24" "calign A HV_INPUT_ATTACH_DEVICE_PR_QUEUE = 8"
  "integer_view A HV_INPUT_ATTACH_DEVICE_PR_QUEUE = None"
  by (simp_all add: HV_INPUT_ATTACH_DEVICE_PR_QUEUE_def tlfs_eval tlfs_layout)

lemma HV_INPUT_DETACH_DEVICE_PR_QUEUE_layout [tlfs_layout]:
  "csize A HV_INPUT_DETACH_DEVICE_PR_QUEUE = 16" "calign A HV_INPUT_DETACH_DEVICE_PR_QUEUE = 8"
  "integer_view A HV_INPUT_DETACH_DEVICE_PR_QUEUE = None"
  by (simp_all add: HV_INPUT_DETACH_DEVICE_PR_QUEUE_def tlfs_eval tlfs_layout)

lemma HV_INPUT_RESERVE_DEVICE_DOMAIN_ATTACHMENT_layout [tlfs_layout]:
  "csize A HV_INPUT_RESERVE_DEVICE_DOMAIN_ATTACHMENT = 32" "calign A HV_INPUT_RESERVE_DEVICE_DOMAIN_ATTACHMENT = 8"
  "integer_view A HV_INPUT_RESERVE_DEVICE_DOMAIN_ATTACHMENT = None"
  by (simp_all add: HV_INPUT_RESERVE_DEVICE_DOMAIN_ATTACHMENT_def tlfs_eval tlfs_layout)

lemma HV_INPUT_UNRESERVE_DEVICE_DOMAIN_ATTACHMENT_layout [tlfs_layout]:
  "csize A HV_INPUT_UNRESERVE_DEVICE_DOMAIN_ATTACHMENT = 16" "calign A HV_INPUT_UNRESERVE_DEVICE_DOMAIN_ATTACHMENT = 8"
  "integer_view A HV_INPUT_UNRESERVE_DEVICE_DOMAIN_ATTACHMENT = None"
  by (simp_all add: HV_INPUT_UNRESERVE_DEVICE_DOMAIN_ATTACHMENT_def tlfs_eval tlfs_layout)

lemma HV_X64_INPUT_DISABLE_HYPERVISOR_EX_layout [tlfs_layout]:
  "csize A HV_X64_INPUT_DISABLE_HYPERVISOR_EX = 24" "calign A HV_X64_INPUT_DISABLE_HYPERVISOR_EX = 8"
  "integer_view A HV_X64_INPUT_DISABLE_HYPERVISOR_EX = None"
  by (cases "abi_ms_bits A", simp_all add: HV_X64_INPUT_DISABLE_HYPERVISOR_EX_def tlfs_eval tlfs_layout)

lemma HV_INPUT_INSTALL_INTERCEPT_EX_layout [tlfs_layout]:
  "csize A HV_INPUT_INSTALL_INTERCEPT_EX = 48" "calign A HV_INPUT_INSTALL_INTERCEPT_EX = 8"
  "integer_view A HV_INPUT_INSTALL_INTERCEPT_EX = None"
  by (simp_all add: HV_INPUT_INSTALL_INTERCEPT_EX_def tlfs_eval tlfs_layout)

lemma HV_INPUT_WAKE_VPS_layout [tlfs_layout]:
  "csize A HV_INPUT_WAKE_VPS = 32" "calign A HV_INPUT_WAKE_VPS = 8"
  "integer_view A HV_INPUT_WAKE_VPS = None"
  by (simp_all add: HV_INPUT_WAKE_VPS_def tlfs_eval tlfs_layout)

lemma HV_INPUT_SET_CPU_GROUP_AFFINITY_layout [tlfs_layout]:
  "csize A HV_INPUT_SET_CPU_GROUP_AFFINITY = 64" "calign A HV_INPUT_SET_CPU_GROUP_AFFINITY = 8"
  "integer_view A HV_INPUT_SET_CPU_GROUP_AFFINITY = None"
  by (simp_all add: HV_INPUT_SET_CPU_GROUP_AFFINITY_def tlfs_eval tlfs_layout)

lemma HV_INPUT_MAP_PARTITION_EVENTLOG_BUFFER_layout [tlfs_layout]:
  "csize A HV_INPUT_MAP_PARTITION_EVENTLOG_BUFFER = 32" "calign A HV_INPUT_MAP_PARTITION_EVENTLOG_BUFFER = 8"
  "integer_view A HV_INPUT_MAP_PARTITION_EVENTLOG_BUFFER = None"
  by (simp_all add: HV_INPUT_MAP_PARTITION_EVENTLOG_BUFFER_def tlfs_eval tlfs_layout)

lemma HV_EXT_OUTPUT_QUERY_CAPABILITIES_layout [tlfs_layout]:
  "csize A HV_EXT_OUTPUT_QUERY_CAPABILITIES = 8" "calign A HV_EXT_OUTPUT_QUERY_CAPABILITIES = 8"
  "integer_view A HV_EXT_OUTPUT_QUERY_CAPABILITIES = Some 8"
  by (cases "abi_ms_bits A", simp_all add: HV_EXT_OUTPUT_QUERY_CAPABILITIES_def tlfs_eval tlfs_layout)

lemma HV_EXT_OUTPUT_BOOT_ZEROED_MEMORY_RANGE_layout [tlfs_layout]:
  "csize A HV_EXT_OUTPUT_BOOT_ZEROED_MEMORY_RANGE = 16" "calign A HV_EXT_OUTPUT_BOOT_ZEROED_MEMORY_RANGE = 8"
  "integer_view A HV_EXT_OUTPUT_BOOT_ZEROED_MEMORY_RANGE = None"
  by (simp_all add: HV_EXT_OUTPUT_BOOT_ZEROED_MEMORY_RANGE_def tlfs_eval tlfs_layout)

lemma HV_EXT_OUTPUT_BOOT_ZEROED_MEMORY_layout [tlfs_layout]:
  "csize A HV_EXT_OUTPUT_BOOT_ZEROED_MEMORY = 4088" "calign A HV_EXT_OUTPUT_BOOT_ZEROED_MEMORY = 8"
  "integer_view A HV_EXT_OUTPUT_BOOT_ZEROED_MEMORY = None"
  by (simp_all add: HV_EXT_OUTPUT_BOOT_ZEROED_MEMORY_def tlfs_eval tlfs_layout)

lemma HV_EXT_INPUT_MEMORY_HEAT_HINT_layout [tlfs_layout]:
  "csize A HV_EXT_INPUT_MEMORY_HEAT_HINT = 8" "calign A HV_EXT_INPUT_MEMORY_HEAT_HINT = 8"
  "integer_view A HV_EXT_INPUT_MEMORY_HEAT_HINT = None"
  by (cases "abi_ms_bits A", simp_all add: HV_EXT_INPUT_MEMORY_HEAT_HINT_def tlfs_eval tlfs_layout)

lemma HV_EXT_EPF_COMPLETION_QUEUE_layout [tlfs_layout]:
  "csize A HV_EXT_EPF_COMPLETION_QUEUE = 24" "calign A HV_EXT_EPF_COMPLETION_QUEUE = 8"
  "integer_view A HV_EXT_EPF_COMPLETION_QUEUE = None"
  by (simp_all add: HV_EXT_EPF_COMPLETION_QUEUE_def tlfs_eval tlfs_layout)

lemma HV_EXT_INPUT_EPF_SETUP_layout [tlfs_layout]:
  "csize A HV_EXT_INPUT_EPF_SETUP = 24" "calign A HV_EXT_INPUT_EPF_SETUP = 8"
  "integer_view A HV_EXT_INPUT_EPF_SETUP = None"
  by (simp_all add: HV_EXT_INPUT_EPF_SETUP_def tlfs_eval tlfs_layout)

lemma HV_EXT_OUTPUT_EPF_SETUP_layout [tlfs_layout]:
  "csize A HV_EXT_OUTPUT_EPF_SETUP = 8" "calign A HV_EXT_OUTPUT_EPF_SETUP = 8"
  "integer_view A HV_EXT_OUTPUT_EPF_SETUP = None"
  by (simp_all add: HV_EXT_OUTPUT_EPF_SETUP_def tlfs_eval tlfs_layout)

lemma HV_EXT_SCHEDULER_ASSIST_DATA_layout [tlfs_layout]:
  "csize A HV_EXT_SCHEDULER_ASSIST_DATA = 384" "calign A HV_EXT_SCHEDULER_ASSIST_DATA = 128"
  "integer_view A HV_EXT_SCHEDULER_ASSIST_DATA = None"
  by (cases "abi_ms_bits A", simp_all add: HV_EXT_SCHEDULER_ASSIST_DATA_def tlfs_eval tlfs_layout)

lemma HV_EXT_INPUT_SETUP_SCHEDULER_ASSIST_layout [tlfs_layout]:
  "csize A HV_EXT_INPUT_SETUP_SCHEDULER_ASSIST = 16" "calign A HV_EXT_INPUT_SETUP_SCHEDULER_ASSIST = 8"
  "integer_view A HV_EXT_INPUT_SETUP_SCHEDULER_ASSIST = None"
  by (simp_all add: HV_EXT_INPUT_SETUP_SCHEDULER_ASSIST_def tlfs_eval tlfs_layout)

section \<open>Tables\<close>

text \<open>The unions with a member \<open>AsUINT8\<close> to \<open>AsUINT128\<close>.\<close>

definition integer_unions :: "arch \<Rightarrow> (string \<times> cty) list" where
  "integer_unions a = [
     (''HV_ST_MAP_LOCATION'', HV_ST_MAP_LOCATION),
     (''HV_PARTITION_PRIVILEGE_MASK_PRIVATE'', HV_PARTITION_PRIVILEGE_MASK_PRIVATE),
     (''HV_PARTITION_PROCESSOR_FEATURES'', HV_PARTITION_PROCESSOR_FEATURES a),
     (''HV_PARTITION_PROCESSOR_XSAVE_FEATURES'', HV_PARTITION_PROCESSOR_XSAVE_FEATURES a),
     (''HV_EXPLICIT_SUSPEND_REGISTER'', HV_EXPLICIT_SUSPEND_REGISTER),
     (''HV_INTERCEPT_SUSPEND_REGISTER'', HV_INTERCEPT_SUSPEND_REGISTER a),
     (''HV_DISPATCH_SUSPEND_REGISTER'', HV_DISPATCH_SUSPEND_REGISTER),
     (''HV_X64_INTERRUPT_STATE_REGISTER'', HV_X64_INTERRUPT_STATE_REGISTER),
     (''HV_X64_PENDING_INTERRUPTION_REGISTER'', HV_X64_PENDING_INTERRUPTION_REGISTER),
     (''HV_X64_MSR_NPIEP_CONFIG_CONTENTS'', HV_X64_MSR_NPIEP_CONFIG_CONTENTS),
     (''HV_X64_PENDING_VIRTUALIZATION_FAULT_EVENT'', HV_X64_PENDING_VIRTUALIZATION_FAULT_EVENT),
     (''HV_INTERCEPT_PARAMETERS'', HV_INTERCEPT_PARAMETERS a),
     (''HV_TRANSLATE_GVA_RESULT'', HV_TRANSLATE_GVA_RESULT), (''HV_INPUT_VTL'', HV_INPUT_VTL),
     (''HV_ACCESS_GPA_CONTROL_FLAGS'', HV_ACCESS_GPA_CONTROL_FLAGS),
     (''HV_ACCESS_GPA_RESULT'', HV_ACCESS_GPA_RESULT),
     (''HV_GVA_RANGE_SIMPLE'', HV_GVA_RANGE_SIMPLE),
     (''HV_GVA_RANGE_EXTENDED'', HV_GVA_RANGE_EXTENDED), (''HV_GVA_RANGE'', HV_GVA_RANGE),
     (''HV_FAULT_DEVICE_ID'', HV_FAULT_DEVICE_ID),
     (''HV_X64_MSR_APIC_ASSIST_CONTENTS'', HV_X64_MSR_APIC_ASSIST_CONTENTS),
     (''HV_EMULATED_TIMER_PERIOD'', HV_EMULATED_TIMER_PERIOD),
     (''HV_EMULATED_TIMER_CONTROL'', HV_EMULATED_TIMER_CONTROL),
     (''HV_PM_TIMER_INFO'', HV_PM_TIMER_INFO),
     (''HV_MONITOR_TRIGGER_GROUP'', HV_MONITOR_TRIGGER_GROUP),
     (''HV_MONITOR_TRIGGER_STATE'', HV_MONITOR_TRIGGER_STATE),
     (''HV_MSI_ADDRESS_REGISTER'', HV_MSI_ADDRESS_REGISTER),
     (''HV_MSI_DATA_REGISTER'', HV_MSI_DATA_REGISTER), (''HV_MSI_ENTRY'', HV_MSI_ENTRY a),
     (''HV_IOAPIC_RTE'', HV_IOAPIC_RTE), (''HV_GICD_ENTRY'', HV_GICD_ENTRY),
     (''HV_REGISTER_VSM_PARTITION_STATUS'', HV_REGISTER_VSM_PARTITION_STATUS),
     (''HV_REGISTER_VSM_VP_STATUS'', HV_REGISTER_VSM_VP_STATUS),
     (''HV_REGISTER_VSM_PARTITION_CONFIG'', HV_REGISTER_VSM_PARTITION_CONFIG),
     (''HV_REGISTER_GUEST_VSM_PARTITION_CONFIG'', HV_REGISTER_GUEST_VSM_PARTITION_CONFIG),
     (''HV_REGISTER_VSM_VP_SECURE_VTL_CONFIG'', HV_REGISTER_VSM_VP_SECURE_VTL_CONFIG),
     (''HV_REGISTER_VSM_CODE_PAGE_OFFSETS'', HV_REGISTER_VSM_CODE_PAGE_OFFSETS),
     (''HV_REGISTER_VSM_VINA'', HV_REGISTER_VSM_VINA),
     (''HV_REGISTER_CR_INTERCEPT_CONTROL'', HV_REGISTER_CR_INTERCEPT_CONTROL),
     (''HV_GPA_PAGE_RANGE'', HV_GPA_PAGE_RANGE),
     (''HV_GPA_PAGE_ACCESS_STATE_FLAGS'', HV_GPA_PAGE_ACCESS_STATE_FLAGS),
     (''HV_GPA_PAGE_ACCESS_STATE'', HV_GPA_PAGE_ACCESS_STATE),
     (''HV_PARTITION_SYNTHETIC_PROCESSOR_FEATURES'', HV_PARTITION_SYNTHETIC_PROCESSOR_FEATURES),
     (''HV_PARTITION_ISOLATION_PROPERTIES'', HV_PARTITION_ISOLATION_PROPERTIES),
     (''HV_GET_VP_CPUID_VALUES_FLAGS'', HV_GET_VP_CPUID_VALUES_FLAGS),
     (''HV_SYNIC_SIRBP'', HV_SYNIC_SIRBP), (''HV_GPA_PAGE_ATTRIBUTES'', HV_GPA_PAGE_ATTRIBUTES),
     (''HV_PCI_BDF'', HV_PCI_BDF), (''HV_PCI_BUS_RANGE'', HV_PCI_BUS_RANGE),
     (''HV_DEVICE_ID'', HV_DEVICE_ID a), (''HV_SPA_PAGE_LIST_FLAGS'', HV_SPA_PAGE_LIST_FLAGS),
     (''HV_PPM_PERF_STATE_REGISTER'', HV_PPM_PERF_STATE_REGISTER a),
     (''HV_DEVICE_DOMAIN_ID'', HV_DEVICE_DOMAIN_ID), (''HV_FULL_PASID'', HV_FULL_PASID),
     (''HV_DEVICE_ADDRESS_SPACE'', HV_DEVICE_ADDRESS_SPACE),
     (''HV_ATTACH_DEVICE_FLAGS'', HV_ATTACH_DEVICE_FLAGS a),
     (''HV_DEVICE_PCI_CAPABILITIES'', HV_DEVICE_PCI_CAPABILITIES),
     (''HV_PPM_IDLE_STATE_CONFIG'', HV_PPM_IDLE_STATE_CONFIG),
     (''HV_SPA_PAGE_RANGE'', HV_SPA_PAGE_RANGE),
     (''HV_REGISTER_NESTED_CONTROL'', HV_REGISTER_NESTED_CONTROL),
     (''HV_REGISTER_VSM_VP_VTL_CONTROL'', HV_REGISTER_VSM_VP_VTL_CONTROL),
     (''HV_VTL_RETURN_INPUT'', HV_VTL_RETURN_INPUT),
     (''HV_CPU_MANAGEMENT_VERSION_REGISTER'', HV_CPU_MANAGEMENT_VERSION_REGISTER),
     (''HV_PCI_ID'', HV_PCI_ID), (''HV_MCA_FAULTING_LP_MSR'', HV_MCA_FAULTING_LP_MSR),
     (''HV_DEVICE_PAGE_REQUEST'', HV_DEVICE_PAGE_REQUEST a),
     (''HV_SYSTEM_MIRRORING_PROPERTY'', HV_SYSTEM_MIRRORING_PROPERTY),
     (''HV_VIRTUALIZATION_FEATURE_SET'', HV_VIRTUALIZATION_FEATURE_SET),
     (''HV_PHYSICAL_DEVICE_FLAGS'', HV_PHYSICAL_DEVICE_FLAGS),
     (''HV_VTL_PERMISSION_SET'', HV_VTL_PERMISSION_SET),
     (''HV_GPA_PAGE_MAPPING_DATA'', HV_GPA_PAGE_MAPPING_DATA),
     (''HV_INTERNAL_ACTIVITY_REGISTER'', HV_INTERNAL_ACTIVITY_REGISTER),
     (''HV_X64_REGISTER_SEV_CONTROL'', HV_X64_REGISTER_SEV_CONTROL),
     (''HV_PARTITION_VSM_CONFIG'', HV_PARTITION_VSM_CONFIG),
     (''HV_PICO100_DURATION'', HV_PICO100_DURATION),
     (''HV_REGISTER_VSM_VP_WAIT_FOR_TLB_LOCK'', HV_REGISTER_VSM_VP_WAIT_FOR_TLB_LOCK),
     (''HV_VP_ASSIST_PAGE_ACTION'', HV_VP_ASSIST_PAGE_ACTION),
     (''HV_X64_MSR_VP_EXIT_REASON_CONTENTS'', HV_X64_MSR_VP_EXIT_REASON_CONTENTS),
     (''HV_REGISTER_HVPT_CONTROL'', HV_REGISTER_HVPT_CONTROL),
     (''HV_PARTITION_PERFMON_MODE_CONFIG'', HV_PARTITION_PERFMON_MODE_CONFIG),
     (''HV_REGISTER_REFERENCE_TSC'', HV_REGISTER_REFERENCE_TSC),
     (''HV_REGISTER_PARTITION_INFO_PAGE'', HV_REGISTER_PARTITION_INFO_PAGE),
     (''HV_X64_REGISTER_SEV_HV_DOORBELL'', HV_X64_REGISTER_SEV_HV_DOORBELL),
     (''HV_X64_REGISTER_SEV_GHCB'', HV_X64_REGISTER_SEV_GHCB),
     (''HV_EVENTLOG_EXTENDED_TRACE_FLAGS'', HV_EVENTLOG_EXTENDED_TRACE_FLAGS),
     (''HV_PARTITION_DIAG_LOG_BUFFER_CONFIG'', HV_PARTITION_DIAG_LOG_BUFFER_CONFIG),
     (''HV_PARTITION_ENLIGHTENMENT_MODIFICATIONS'', HV_PARTITION_ENLIGHTENMENT_MODIFICATIONS),
     (''HV_ARM64_REGISTER_TLBI_CONTROL'', HV_ARM64_REGISTER_TLBI_CONTROL),
     (''HV_SGX_LAUNCH_CONTROL_CONFIG'', HV_SGX_LAUNCH_CONTROL_CONFIG),
     (''HV_VP_ASSIST_PAGE_ACTION_SIGNAL_EVENT'', HV_VP_ASSIST_PAGE_ACTION_SIGNAL_EVENT),
     (''HV_PARTITION_PROCESSOR_VIRTUALIZATION_FEATURES'', HV_PARTITION_PROCESSOR_VIRTUALIZATION_FEATURES),
     (''HV_PARTITION_ISOLATION_CONTROL'', HV_PARTITION_ISOLATION_CONTROL),
     (''HV_X64_MSR_VP_EXIT_INTERRUPT_CONTROL_CONTENTS'', HV_X64_MSR_VP_EXIT_INTERRUPT_CONTROL_CONTENTS),
     (''HV_CHECK_GPA_PAGE_VTL_ACCESS_RESULT'', HV_CHECK_GPA_PAGE_VTL_ACCESS_RESULT),
     (''HV_INSTRUCTION_EMULATION_HINTS_REGISTER'', HV_INSTRUCTION_EMULATION_HINTS_REGISTER),
     (''HV_PARTITION_ISOLATION_POLICY'', HV_PARTITION_ISOLATION_POLICY),
     (''HV_USER_MODE_HYPERCALLS'', HV_USER_MODE_HYPERCALLS),
     (''HV_PARTITION_DEPOSIT_STATUS'', HV_PARTITION_DEPOSIT_STATUS),
     (''HV_IOMMU_GVA_RANGE'', HV_IOMMU_GVA_RANGE),
     (''HV_PARTITION_PAGE_ACCESS_TRACKING_CONFIG'', HV_PARTITION_PAGE_ACCESS_TRACKING_CONFIG),
     (''HV_VP_DISPATCH_LOOP_RESULT'', HV_VP_DISPATCH_LOOP_RESULT),
     (''HV_REGISTER_ISOLATION_CAPABILITIES'', HV_REGISTER_ISOLATION_CAPABILITIES),
     (''HV_SEC_FW_VERSION'', HV_SEC_FW_VERSION),
     (''HV_X64_MSR_SYNMC_STATUS_CONTENTS'', HV_X64_MSR_SYNMC_STATUS_CONTENTS),
     (''HV_X64_MSR_REFERENCE_TSC_CONTENTS'', HV_X64_MSR_REFERENCE_TSC_CONTENTS),
     (''HV_REGISTER_VP_ASSIST_PAGE'', HV_REGISTER_VP_ASSIST_PAGE),
     (''HV_SYNIC_SCONTROL'', HV_SYNIC_SCONTROL),
     (''HV_X64_MSR_POWER_STATE_TRIGGER'', HV_X64_MSR_POWER_STATE_TRIGGER),
     (''HV_X64_MSR_POWER_STATE_CONFIG'', HV_X64_MSR_POWER_STATE_CONFIG),
     (''HV_X64_MSR_SYNTH_DEBUG_BUFFER_CONTENTS'', HV_X64_MSR_SYNTH_DEBUG_BUFFER_CONTENTS),
     (''HV_REENLIGHTENMENT_CONTROL'', HV_REENLIGHTENMENT_CONTROL),
     (''HV_TSC_EMULATION_CONTROL'', HV_TSC_EMULATION_CONTROL),
     (''HV_TSC_EMULATION_STATUS'', HV_TSC_EMULATION_STATUS),
     (''HV_X64_MSR_STIME_UNHALTED_TIMER_CONFIG_CONTENTS'', HV_X64_MSR_STIME_UNHALTED_TIMER_CONFIG_CONTENTS),
     (''HV_MEMORY_ZEROING_CTRL_REG_CONTENTS'', HV_MEMORY_ZEROING_CTRL_REG_CONTENTS),
     (''HV_REGISTER_VP_CONFIG'', HV_REGISTER_VP_CONFIG),
     (''HV_TSC_INVARIANT_CONTROL'', HV_TSC_INVARIANT_CONTROL),
     (''HV_NESTED_STATE_REGISTER'', HV_NESTED_STATE_REGISTER),
     (''HV_X64_HYPERCALL_INPUT'', HV_X64_HYPERCALL_INPUT),
     (''HV_X64_HYPERCALL_OUTPUT'', HV_X64_HYPERCALL_OUTPUT),
     (''HV_HYPERCALL_INPUT_PRIVATE'', HV_HYPERCALL_INPUT_PRIVATE),
     (''HV_ENABLE_PARTITION_VTL_FLAGS'', HV_ENABLE_PARTITION_VTL_FLAGS),
     (''HV_DISABLE_PARTITION_VTL_FLAGS'', HV_DISABLE_PARTITION_VTL_FLAGS),
     (''HV_DISABLE_VP_VTL_FLAGS'', HV_DISABLE_VP_VTL_FLAGS),
     (''HV_GPA_PAGE_PERMISSION'', HV_GPA_PAGE_PERMISSION), (''HV_VA_PERMISSION'', HV_VA_PERMISSION),
     (''HV_INPUT_NOTIFY_PORT_RING_EMPTY'', HV_INPUT_NOTIFY_PORT_RING_EMPTY),
     (''HV_CREATE_DEVICE_DOMAIN_FLAGS'', HV_CREATE_DEVICE_DOMAIN_FLAGS),
     (''HV_GPA_PAGE_MAPPING_LOCK_INPUT'', HV_GPA_PAGE_MAPPING_LOCK_INPUT),
     (''HV_INPUT_REQUEST_PROCESSOR_HALT_FLAGS'', HV_INPUT_REQUEST_PROCESSOR_HALT_FLAGS),
     (''HV_INPUT_REQUEST_PROCESSOR_HALT'', HV_INPUT_REQUEST_PROCESSOR_HALT),
     (''HV_OUTPUT_GET_VP_CPUID_VALUES'', HV_OUTPUT_GET_VP_CPUID_VALUES),
     (''HV_INPUT_READ_SYSTEM_MEMORY'', HV_INPUT_READ_SYSTEM_MEMORY),
     (''HV_SET_DEVICE_CAPABILITIES_FLAGS'', HV_SET_DEVICE_CAPABILITIES_FLAGS),
     (''HV_EXT_OUTPUT_QUERY_CAPABILITIES'', HV_EXT_OUTPUT_QUERY_CAPABILITIES)] @
     (case a of X64 \<Rightarrow> [
     (''HV_X64_FP_REGISTER'', HV_X64_FP_REGISTER),
     (''HV_X64_FP_CONTROL_STATUS_REGISTER'', HV_X64_FP_CONTROL_STATUS_REGISTER),
     (''HV_X64_XMM_CONTROL_STATUS_REGISTER'', HV_X64_XMM_CONTROL_STATUS_REGISTER),
     (''HV_X64_FP_MMX_REGISTER'', HV_X64_FP_MMX_REGISTER),
     (''HV_X64_XSAVE_XFEM_REGISTER'', HV_X64_XSAVE_XFEM_REGISTER),
     (''HV_X64_PENDING_EXCEPTION_EVENT'', HV_X64_PENDING_EXCEPTION_EVENT),
     (''HV_X64_VP_EXECUTION_STATE'', HV_X64_VP_EXECUTION_STATE),
     (''HV_X64_MEMORY_ACCESS_INFO'', HV_X64_MEMORY_ACCESS_INFO),
     (''HV_X64_EXCEPTION_INFO'', HV_X64_EXCEPTION_INFO),
     (''HV_X64_IO_PORT_ACCESS_INFO'', HV_X64_IO_PORT_ACCESS_INFO),
     (''HV_X64_PENDING_MEMORY_INTERCEPT_EVENT'', HV_X64_PENDING_MEMORY_INTERCEPT_EVENT),
     (''HV_X64_PENDING_NESTED_MEMORY_INTERCEPT_EVENT'', HV_X64_PENDING_NESTED_MEMORY_INTERCEPT_EVENT),
     (''HV_X64_REGISTER_VSM_CAPABILITIES'', HV_X64_REGISTER_VSM_CAPABILITIES),
     (''HV_X64_DELIVERABILITY_NOTIFICATIONS_REGISTER'', HV_X64_DELIVERABILITY_NOTIFICATIONS_REGISTER),
     (''HV_X64_MSR_RESET_CONTENTS'', HV_X64_MSR_RESET_CONTENTS)]
   | ARM64 \<Rightarrow> [
     (''HV_ARM64_PENDING_EXCEPTION_EVENT'', HV_ARM64_PENDING_EXCEPTION_EVENT),
     (''HV_ARM64_PENDING_INTERRUPTION_REGISTER'', HV_ARM64_PENDING_INTERRUPTION_REGISTER),
     (''HV_ARM64_INTERRUPT_STATE_REGISTER'', HV_ARM64_INTERRUPT_STATE_REGISTER),
     (''HV_ARM64_PENDING_SYNTHETIC_EXCEPTION_EVENT'', HV_ARM64_PENDING_SYNTHETIC_EXCEPTION_EVENT),
     (''HV_ARM64_VP_EXECUTION_STATE'', HV_ARM64_VP_EXECUTION_STATE),
     (''HV_ARM64_MEMORY_ACCESS_INFO'', HV_ARM64_MEMORY_ACCESS_INFO),
     (''HV_ARM64_EXCEPTION_INFO'', HV_ARM64_EXCEPTION_INFO),
     (''HV_ARM64_PENDING_HYPERCALL_OUTPUT_EVENT'', HV_ARM64_PENDING_HYPERCALL_OUTPUT_EVENT),
     (''HV_ARM64_REGISTER_VSM_CAPABILITIES'', HV_ARM64_REGISTER_VSM_CAPABILITIES),
     (''HV_ARM64_DELIVERABILITY_NOTIFICATIONS_REGISTER'', HV_ARM64_DELIVERABILITY_NOTIFICATIONS_REGISTER),
     (''HV_ARM64_MSR_RESET_CONTENTS'', HV_ARM64_MSR_RESET_CONTENTS)])"

text \<open>The inputs and outputs of hypercalls: the types that \<open>HV_CALL_ATTRIBUTES\<close> aligns.\<close>

definition call_blocks :: "arch \<Rightarrow> (string \<times> cty) list" where
  "call_blocks a = [
     (''HV_INPUT_GET_VP_REGISTER_CODE'', HV_INPUT_GET_VP_REGISTER_CODE),
     (''HV_INPUT_FLUSH_VIRTUAL_ADDRESS_SPACE'', HV_INPUT_FLUSH_VIRTUAL_ADDRESS_SPACE),
     (''HV_INPUT_FLUSH_VIRTUAL_ADDRESS_LIST'', HV_INPUT_FLUSH_VIRTUAL_ADDRESS_LIST),
     (''HV_INPUT_GET_LOGICAL_PROCESSOR_RUN_TIME'', HV_INPUT_GET_LOGICAL_PROCESSOR_RUN_TIME),
     (''HV_OUTPUT_GET_LOGICAL_PROCESSOR_RUN_TIME'', HV_OUTPUT_GET_LOGICAL_PROCESSOR_RUN_TIME),
     (''HV_INPUT_UPDATE_PROCESSOR_FEATURES'', HV_INPUT_UPDATE_PROCESSOR_FEATURES),
     (''HV_INPUT_NOTIFY_LONG_SPINWAIT'', HV_INPUT_NOTIFY_LONG_SPINWAIT),
     (''HV_INPUT_PARK_LOGICAL_PROCESSORS'', HV_INPUT_PARK_LOGICAL_PROCESSORS),
     (''HV_INPUT_PARKED_VIRTUAL_PROCESSORS'', HV_INPUT_PARKED_VIRTUAL_PROCESSORS),
     (''HV_INPUT_INVOKE_HYPERVISOR_DEBUGGER'', HV_INPUT_INVOKE_HYPERVISOR_DEBUGGER),
     (''HV_INPUT_SEND_SYNTHETIC_CLUSTER_IPI'', HV_INPUT_SEND_SYNTHETIC_CLUSTER_IPI),
     (''HV_INPUT_MODIFY_VTL_PROTECTION_MASK'', HV_INPUT_MODIFY_VTL_PROTECTION_MASK),
     (''HV_INPUT_ENABLE_PARTITION_VTL'', HV_INPUT_ENABLE_PARTITION_VTL),
     (''HV_INPUT_DISABLE_PARTITION_VTL'', HV_INPUT_DISABLE_PARTITION_VTL),
     (''HV_INPUT_ENABLE_VP_VTL'', HV_INPUT_ENABLE_VP_VTL a),
     (''HV_INPUT_DISABLE_VP_VTL'', HV_INPUT_DISABLE_VP_VTL),
     (''HV_INPUT_FLUSH_VIRTUAL_ADDRESS_SPACE_EX'', HV_INPUT_FLUSH_VIRTUAL_ADDRESS_SPACE_EX),
     (''HV_INPUT_FLUSH_VIRTUAL_ADDRESS_LIST_EX'', HV_INPUT_FLUSH_VIRTUAL_ADDRESS_LIST_EX),
     (''HV_INPUT_SEND_SYNTHETIC_CLUSTER_IPI_EX'', HV_INPUT_SEND_SYNTHETIC_CLUSTER_IPI_EX),
     (''HV_INPUT_QUERY_IMAGE_INFO'', HV_INPUT_QUERY_IMAGE_INFO),
     (''HV_OUTPUT_QUERY_IMAGE_INFO'', HV_OUTPUT_QUERY_IMAGE_INFO),
     (''HV_INPUT_MAP_IMAGE_PAGES'', HV_INPUT_MAP_IMAGE_PAGES),
     (''HV_INPUT_COMMIT_PATCH'', HV_INPUT_COMMIT_PATCH),
     (''HV_INPUT_SYNC_CONTEXT'', HV_INPUT_SYNC_CONTEXT),
     (''HV_INPUT_SYNC_CONTEXT_EX'', HV_INPUT_SYNC_CONTEXT_EX),
     (''HV_INPUT_SET_PERF_REGISTER'', HV_INPUT_SET_PERF_REGISTER a),
     (''HV_INPUT_GET_PERF_REGISTER'', HV_INPUT_GET_PERF_REGISTER a),
     (''HV_OUTPUT_GET_PERF_REGISTER'', HV_OUTPUT_GET_PERF_REGISTER),
     (''HV_INPUT_CREATE_PARTITION_V1'', HV_INPUT_CREATE_PARTITION_V1),
     (''HV_INPUT_CREATE_PARTITION_V2'', HV_INPUT_CREATE_PARTITION_V2 a),
     (''HV_INPUT_CREATE_PARTITION'', HV_INPUT_CREATE_PARTITION a),
     (''HV_OUTPUT_CREATE_PARTITION'', HV_OUTPUT_CREATE_PARTITION),
     (''HV_INPUT_INITIALIZE_PARTITION'', HV_INPUT_INITIALIZE_PARTITION),
     (''HV_INPUT_FINALIZE_PARTITION'', HV_INPUT_FINALIZE_PARTITION),
     (''HV_INPUT_DELETE_PARTITION'', HV_INPUT_DELETE_PARTITION),
     (''HV_INPUT_GET_PARTITION_PROPERTY'', HV_INPUT_GET_PARTITION_PROPERTY),
     (''HV_OUTPUT_GET_PARTITION_PROPERTY'', HV_OUTPUT_GET_PARTITION_PROPERTY),
     (''HV_INPUT_SET_PARTITION_PROPERTY'', HV_INPUT_SET_PARTITION_PROPERTY),
     (''HV_OUTPUT_GET_PARTITION_ID'', HV_OUTPUT_GET_PARTITION_ID),
     (''HV_INPUT_GET_NEXT_CHILD_PARTITION'', HV_INPUT_GET_NEXT_CHILD_PARTITION),
     (''HV_OUTPUT_GET_NEXT_CHILD_PARTITION'', HV_OUTPUT_GET_NEXT_CHILD_PARTITION),
     (''HV_INPUT_DEPOSIT_MEMORY'', HV_INPUT_DEPOSIT_MEMORY),
     (''HV_INPUT_WITHDRAW_MEMORY'', HV_INPUT_WITHDRAW_MEMORY),
     (''HV_OUTPUT_WITHDRAW_MEMORY'', HV_OUTPUT_WITHDRAW_MEMORY),
     (''HV_INPUT_GET_MEMORY_BALANCE'', HV_INPUT_GET_MEMORY_BALANCE),
     (''HV_OUTPUT_GET_MEMORY_BALANCE'', HV_OUTPUT_GET_MEMORY_BALANCE),
     (''HV_INPUT_MAP_GPA_PAGES'', HV_INPUT_MAP_GPA_PAGES),
     (''HV_INPUT_UNMAP_GPA_PAGES'', HV_INPUT_UNMAP_GPA_PAGES),
     (''HV_INPUT_INSTALL_INTERCEPT'', HV_INPUT_INSTALL_INTERCEPT a),
     (''HV_INPUT_CREATE_VP_V1'', HV_INPUT_CREATE_VP_V1),
     (''HV_INPUT_CREATE_VP'', HV_INPUT_CREATE_VP), (''HV_INPUT_DELETE_VP'', HV_INPUT_DELETE_VP),
     (''HV_INPUT_GET_VP_REGISTERS'', HV_INPUT_GET_VP_REGISTERS),
     (''HV_OUTPUT_GET_VP_REGISTERS'', HV_OUTPUT_GET_VP_REGISTERS),
     (''HV_INPUT_SET_VP_REGISTERS'', HV_INPUT_SET_VP_REGISTERS),
     (''HV_INPUT_TRANSLATE_VIRTUAL_ADDRESS'', HV_INPUT_TRANSLATE_VIRTUAL_ADDRESS),
     (''HV_OUTPUT_TRANSLATE_VIRTUAL_ADDRESS'', HV_OUTPUT_TRANSLATE_VIRTUAL_ADDRESS),
     (''HV_INPUT_READ_GPA'', HV_INPUT_READ_GPA), (''HV_OUTPUT_READ_GPA'', HV_OUTPUT_READ_GPA),
     (''HV_INPUT_WRITE_GPA'', HV_INPUT_WRITE_GPA), (''HV_OUTPUT_WRITE_GPA'', HV_OUTPUT_WRITE_GPA),
     (''HV_INPUT_ASSERT_VIRTUAL_INTERRUPT_DEPRECATED'', HV_INPUT_ASSERT_VIRTUAL_INTERRUPT_DEPRECATED a),
     (''HV_INPUT_CLEAR_VIRTUAL_INTERRUPT'', HV_INPUT_CLEAR_VIRTUAL_INTERRUPT),
     (''HV_INPUT_CREATE_PORT_DEPRECATED'', HV_INPUT_CREATE_PORT_DEPRECATED),
     (''HV_INPUT_DELETE_PORT'', HV_INPUT_DELETE_PORT),
     (''HV_INPUT_CONNECT_PORT_DEPRECATED'', HV_INPUT_CONNECT_PORT_DEPRECATED),
     (''HV_INPUT_GET_PORT_PROPERTY'', HV_INPUT_GET_PORT_PROPERTY),
     (''HV_OUTPUT_GET_PORT_PROPERTY'', HV_OUTPUT_GET_PORT_PROPERTY),
     (''HV_INPUT_DISCONNECT_PORT'', HV_INPUT_DISCONNECT_PORT),
     (''HV_INPUT_SAVE_PARTITION_STATE'', HV_INPUT_SAVE_PARTITION_STATE),
     (''HV_OUTPUT_SAVE_PARTITION_STATE'', HV_OUTPUT_SAVE_PARTITION_STATE),
     (''HV_INPUT_RESTORE_PARTITION_STATE'', HV_INPUT_RESTORE_PARTITION_STATE),
     (''HV_OUTPUT_RESTORE_PARTITION_STATE'', HV_OUTPUT_RESTORE_PARTITION_STATE),
     (''HV_INPUT_INITIALIZE_EVENTLOG_BUFFER_GROUP'', HV_INPUT_INITIALIZE_EVENTLOG_BUFFER_GROUP),
     (''HV_INPUT_FINALIZE_EVENTLOG_BUFFER_GROUP'', HV_INPUT_FINALIZE_EVENTLOG_BUFFER_GROUP),
     (''HV_INPUT_CREATE_EVENTLOG_BUFFER'', HV_INPUT_CREATE_EVENTLOG_BUFFER),
     (''HV_INPUT_DELETE_EVENTLOG_BUFFER'', HV_INPUT_DELETE_EVENTLOG_BUFFER),
     (''HV_INPUT_MAP_EVENTLOG_BUFFER'', HV_INPUT_MAP_EVENTLOG_BUFFER),
     (''HV_OUTPUT_MAP_EVENTLOG_BUFFER'', HV_OUTPUT_MAP_EVENTLOG_BUFFER),
     (''HV_INPUT_UNMAP_EVENTLOG_BUFFER'', HV_INPUT_UNMAP_EVENTLOG_BUFFER),
     (''HV_INPUT_EVENTLOG_GROUP_EVENTS'', HV_INPUT_EVENTLOG_GROUP_EVENTS),
     (''HV_INPUT_EVENTLOG_RELEASE_BUFFER'', HV_INPUT_EVENTLOG_RELEASE_BUFFER),
     (''HV_INPUT_FLUSH_EVENTLOG_BUFFER'', HV_INPUT_FLUSH_EVENTLOG_BUFFER),
     (''HV_INPUT_POST_DEBUG_DATA'', HV_INPUT_POST_DEBUG_DATA),
     (''HV_OUTPUT_POST_DEBUG_DATA'', HV_OUTPUT_POST_DEBUG_DATA),
     (''HV_INPUT_RETRIEVE_DEBUG_DATA'', HV_INPUT_RETRIEVE_DEBUG_DATA),
     (''HV_OUTPUT_RETRIEVE_DEBUG_DATA'', HV_OUTPUT_RETRIEVE_DEBUG_DATA),
     (''HV_INPUT_RESET_DEBUG_SESSION'', HV_INPUT_RESET_DEBUG_SESSION),
     (''HV_OUTPUT_RESET_DEBUG_SESSION'', HV_OUTPUT_RESET_DEBUG_SESSION),
     (''HV_INPUT_MAP_STATS_PAGE'', HV_INPUT_MAP_STATS_PAGE),
     (''HV_OUTPUT_MAP_STATS_PAGE'', HV_OUTPUT_MAP_STATS_PAGE),
     (''HV_INPUT_UNMAP_STATS_PAGE'', HV_INPUT_UNMAP_STATS_PAGE),
     (''HV_INPUT_MAP_SPARSE_GPA_PAGES'', HV_INPUT_MAP_SPARSE_GPA_PAGES),
     (''HV_INPUT_SET_SYSTEM_PROPERTY'', HV_INPUT_SET_SYSTEM_PROPERTY a),
     (''HV_INPUT_SET_PORT_PROPERTY'', HV_INPUT_SET_PORT_PROPERTY),
     (''HV_INPUT_ADD_LOGICAL_PROCESSOR'', HV_INPUT_ADD_LOGICAL_PROCESSOR a),
     (''HV_OUTPUT_ADD_LOGICAL_PROCESSOR'', HV_OUTPUT_ADD_LOGICAL_PROCESSOR),
     (''HV_INPUT_REMOVE_LOGICAL_PROCESSOR'', HV_INPUT_REMOVE_LOGICAL_PROCESSOR),
     (''HV_INPUT_QUERY_NUMA_DISTANCE'', HV_INPUT_QUERY_NUMA_DISTANCE),
     (''HV_OUTPUT_QUERY_NUMA_DISTANCE'', HV_OUTPUT_QUERY_NUMA_DISTANCE),
     (''HV_INPUT_SET_LOGICAL_PROCESSOR_PROPERTY'', HV_INPUT_SET_LOGICAL_PROCESSOR_PROPERTY a),
     (''HV_INPUT_GET_LOGICAL_PROCESSOR_PROPERTY'', HV_INPUT_GET_LOGICAL_PROCESSOR_PROPERTY),
     (''HV_OUTPUT_GET_LOGICAL_PROCESSOR_PROPERTY'', HV_OUTPUT_GET_LOGICAL_PROCESSOR_PROPERTY a),
     (''HV_INPUT_GET_SYSTEM_PROPERTY'', HV_INPUT_GET_SYSTEM_PROPERTY a),
     (''HV_OUTPUT_GET_SYSTEM_PROPERTY'', HV_OUTPUT_GET_SYSTEM_PROPERTY a),
     (''HV_INPUT_MAP_DEVICE_INTERRUPT'', HV_INPUT_MAP_DEVICE_INTERRUPT a),
     (''HV_OUTPUT_MAP_DEVICE_INTERRUPT'', HV_OUTPUT_MAP_DEVICE_INTERRUPT a),
     (''HV_INPUT_UNMAP_DEVICE_INTERRUPT'', HV_INPUT_UNMAP_DEVICE_INTERRUPT a),
     (''HV_INPUT_RETARGET_DEVICE_INTERRUPT'', HV_INPUT_RETARGET_DEVICE_INTERRUPT a),
     (''HV_OUTPUT_RETARGET_ROOT_DEVICE_INTERRUPT'', HV_OUTPUT_RETARGET_ROOT_DEVICE_INTERRUPT a),
     (''HV_INPUT_ASSERT_DEVICE_INTERRUPT'', HV_INPUT_ASSERT_DEVICE_INTERRUPT a),
     (''HV_INPUT_ATTACH_DEVICE'', HV_INPUT_ATTACH_DEVICE a),
     (''HV_INPUT_DETACH_DEVICE'', HV_INPUT_DETACH_DEVICE a),
     (''HV_INPUT_ENTER_SLEEP_STATE'', HV_INPUT_ENTER_SLEEP_STATE),
     (''HV_INPUT_PREPARE_FOR_SLEEP'', HV_INPUT_PREPARE_FOR_SLEEP),
     (''HV_INPUT_PREPARE_FOR_HIBERNATE'', HV_INPUT_PREPARE_FOR_HIBERNATE a),
     (''HV_X64_OUTPUT_PREPARE_FOR_HIBERNATE'', HV_X64_OUTPUT_PREPARE_FOR_HIBERNATE),
     (''HV_INPUT_NOTIFY_PARTITION_EVENT'', HV_INPUT_NOTIFY_PARTITION_EVENT),
     (''HV_INPUT_QUERY_ASSOCIATED_LP_FOR_MCA'', HV_INPUT_QUERY_ASSOCIATED_LP_FOR_MCA),
     (''HV_OUTPUT_QUERY_ASSOCIATED_LP_FOR_MCA'', HV_OUTPUT_QUERY_ASSOCIATED_LP_FOR_MCA),
     (''HV_INPUT_NOTIFY_PORT_RING_EMPTY'', HV_INPUT_NOTIFY_PORT_RING_EMPTY),
     (''HV_INPUT_INJECT_SYNTHETIC_MACHINE_CHECK'', HV_INPUT_INJECT_SYNTHETIC_MACHINE_CHECK a),
     (''HV_INPUT_SCRUB_PARTITION'', HV_INPUT_SCRUB_PARTITION),
     (''HV_INPUT_COLLECT_LIVE_DUMP'', HV_INPUT_COLLECT_LIVE_DUMP),
     (''HV_OUTPUT_COLLECT_LIVE_DUMP'', HV_OUTPUT_COLLECT_LIVE_DUMP),
     (''HV_X64_INPUT_DISABLE_HYPERVISOR'', HV_X64_INPUT_DISABLE_HYPERVISOR),
     (''HV_ARM64_INPUT_LAUNCH_HYPERVISOR'', HV_ARM64_INPUT_LAUNCH_HYPERVISOR),
     (''HV_INPUT_MODIFY_SPARSE_GPA_PAGES'', HV_INPUT_MODIFY_SPARSE_GPA_PAGES),
     (''HV_INPUT_GET_COVERAGE_VECTOR'', HV_INPUT_GET_COVERAGE_VECTOR),
     (''HV_OUTPUT_GET_COVERAGE_VECTOR'', HV_OUTPUT_GET_COVERAGE_VECTOR),
     (''HV_INPUT_ASSERT_VIRTUAL_INTERRUPT'', HV_INPUT_ASSERT_VIRTUAL_INTERRUPT a),
     (''HV_INPUT_CREATE_PORT'', HV_INPUT_CREATE_PORT),
     (''HV_INPUT_CONNECT_PORT'', HV_INPUT_CONNECT_PORT),
     (''HV_INPUT_GET_SPA_PAGE_LIST'', HV_INPUT_GET_SPA_PAGE_LIST),
     (''HV_OUTPUT_GET_SPA_PAGE_LIST'', HV_OUTPUT_GET_SPA_PAGE_LIST),
     (''HV_INPUT_GET_VP_INDEX_FROM_APIC_ID'', HV_INPUT_GET_VP_INDEX_FROM_APIC_ID a),
     (''HV_OUTPUT_GET_VP_INDEX_FROM_APIC_ID'', HV_OUTPUT_GET_VP_INDEX_FROM_APIC_ID),
     (''HV_INPUT_GET_POWER_PROPERTY'', HV_INPUT_GET_POWER_PROPERTY),
     (''HV_OUTPUT_GET_POWER_PROPERTY'', HV_OUTPUT_GET_POWER_PROPERTY a),
     (''HV_INPUT_SET_POWER_PROPERTY'', HV_INPUT_SET_POWER_PROPERTY a),
     (''HV_INPUT_CREATE_PASID_SPACE'', HV_INPUT_CREATE_PASID_SPACE),
     (''HV_INPUT_DELETE_PASID_SPACE'', HV_INPUT_DELETE_PASID_SPACE),
     (''HV_INPUT_SET_PASID_ADDRESS_SPACE'', HV_INPUT_SET_PASID_ADDRESS_SPACE),
     (''HV_INPUT_FLUSH_PASID_ADDRESS_SPACE'', HV_INPUT_FLUSH_PASID_ADDRESS_SPACE),
     (''HV_INPUT_FLUSH_PASID_ADDRESS_LIST'', HV_INPUT_FLUSH_PASID_ADDRESS_LIST),
     (''HV_INPUT_ATTACH_PASID_SPACE'', HV_INPUT_ATTACH_PASID_SPACE),
     (''HV_INPUT_DETACH_PASID_SPACE'', HV_INPUT_DETACH_PASID_SPACE),
     (''HV_INPUT_ENABLE_PASID'', HV_INPUT_ENABLE_PASID),
     (''HV_INPUT_DISABLE_PASID'', HV_INPUT_DISABLE_PASID),
     (''HV_INPUT_CREATE_DEVICE_PR_QUEUE'', HV_INPUT_CREATE_DEVICE_PR_QUEUE),
     (''HV_INPUT_DELETE_DEVICE_PR_QUEUE'', HV_INPUT_DELETE_DEVICE_PR_QUEUE),
     (''HV_INPUT_SET_DEVICE_PRQ_PROPERTY_HEADER'', HV_INPUT_SET_DEVICE_PRQ_PROPERTY_HEADER),
     (''HV_INPUT_GET_PHYSICAL_DEVICE_PROPERTY'', HV_INPUT_GET_PHYSICAL_DEVICE_PROPERTY a),
     (''HV_OUTPUT_GET_PHYSICAL_DEVICE_PROPERTY'', HV_OUTPUT_GET_PHYSICAL_DEVICE_PROPERTY),
     (''HV_INPUT_SET_PHYSICAL_DEVICE_PROPERTY_HEADER'', HV_INPUT_SET_PHYSICAL_DEVICE_PROPERTY_HEADER a),
     (''HV_OUTPUT_TRANSLATE_VIRTUAL_ADDRESS_EX'', HV_OUTPUT_TRANSLATE_VIRTUAL_ADDRESS_EX a),
     (''HV_INPUT_CHECK_FOR_IO_INTERCEPT'', HV_INPUT_CHECK_FOR_IO_INTERCEPT),
     (''HV_OUTPUT_CHECK_FOR_IO_INTERCEPT'', HV_OUTPUT_CHECK_FOR_IO_INTERCEPT),
     (''HV_INPUT_SET_GPA_PAGE_ATTRIBUTES'', HV_INPUT_SET_GPA_PAGE_ATTRIBUTES),
     (''HV_INPUT_FLUSH_GUEST_PHYSICAL_ADDRESS_SPACE'', HV_INPUT_FLUSH_GUEST_PHYSICAL_ADDRESS_SPACE),
     (''HV_INPUT_FLUSH_GUEST_PHYSICAL_ADDRESS_LIST'', HV_INPUT_FLUSH_GUEST_PHYSICAL_ADDRESS_LIST),
     (''HV_INPUT_CREATE_DEVICE_DOMAIN'', HV_INPUT_CREATE_DEVICE_DOMAIN),
     (''HV_INPUT_ATTACH_DEVICE_DOMAIN'', HV_INPUT_ATTACH_DEVICE_DOMAIN a),
     (''HV_INPUT_MAP_DEVICE_GPA_PAGES'', HV_INPUT_MAP_DEVICE_GPA_PAGES),
     (''HV_INPUT_UNMAP_DEVICE_GPA_PAGES'', HV_INPUT_UNMAP_DEVICE_GPA_PAGES),
     (''HV_OUTPUT_CREATE_CPU_GROUP'', HV_OUTPUT_CREATE_CPU_GROUP),
     (''HV_INPUT_DELETE_CPU_GROUP'', HV_INPUT_DELETE_CPU_GROUP),
     (''HV_INPUT_GET_CPU_GROUP_PROPERTY'', HV_INPUT_GET_CPU_GROUP_PROPERTY),
     (''HV_OUTPUT_GET_CPU_GROUP_PROPERTY'', HV_OUTPUT_GET_CPU_GROUP_PROPERTY),
     (''HV_INPUT_SET_CPU_GROUP_PROPERTY'', HV_INPUT_SET_CPU_GROUP_PROPERTY),
     (''HV_INPUT_GET_CPU_GROUP_AFFINITY'', HV_INPUT_GET_CPU_GROUP_AFFINITY),
     (''HV_OUTPUT_GET_CPU_GROUP_AFFINITY'', HV_OUTPUT_GET_CPU_GROUP_AFFINITY),
     (''HV_INPUT_GET_NEXT_CPU_GROUP'', HV_INPUT_GET_NEXT_CPU_GROUP),
     (''HV_OUTPUT_GET_NEXT_CPU_GROUP'', HV_OUTPUT_GET_NEXT_CPU_GROUP),
     (''HV_INPUT_GET_NEXT_CPU_GROUP_PARTITION'', HV_INPUT_GET_NEXT_CPU_GROUP_PARTITION),
     (''HV_OUTPUT_GET_NEXT_CPU_GROUP_PARTITION'', HV_OUTPUT_GET_NEXT_CPU_GROUP_PARTITION),
     (''HV_INPUT_ADD_PHYSICAL_MEMORY'', HV_INPUT_ADD_PHYSICAL_MEMORY),
     (''HV_OUTPUT_ADD_PHYSICAL_MEMORY'', HV_OUTPUT_ADD_PHYSICAL_MEMORY),
     (''HV_INPUT_COMPLETE_INTERCEPT'', HV_INPUT_COMPLETE_INTERCEPT),
     (''HV_INPUT_PRECOMMIT_GPA_PAGES'', HV_INPUT_PRECOMMIT_GPA_PAGES),
     (''HV_INPUT_UNCOMMIT_GPA_PAGES'', HV_INPUT_UNCOMMIT_GPA_PAGES),
     (''HV_INPUT_SIGNAL_EVENT_DIRECT'', HV_INPUT_SIGNAL_EVENT_DIRECT),
     (''HV_OUTPUT_SIGNAL_EVENT_DIRECT'', HV_OUTPUT_SIGNAL_EVENT_DIRECT),
     (''HV_INPUT_POST_MESSAGE_DIRECT'', HV_INPUT_POST_MESSAGE_DIRECT),
     (''HV_INPUT_DISPATCH_VP'', HV_INPUT_DISPATCH_VP),
     (''HV_OUTPUT_DISPATCH_VP'', HV_OUTPUT_DISPATCH_VP),
     (''HV_INPUT_PROCESS_IOMMU_PRQ'', HV_INPUT_PROCESS_IOMMU_PRQ),
     (''HV_INPUT_DETACH_DEVICE_DOMAIN'', HV_INPUT_DETACH_DEVICE_DOMAIN a),
     (''HV_INPUT_DELETE_DEVICE_DOMAIN'', HV_INPUT_DELETE_DEVICE_DOMAIN),
     (''HV_INPUT_QUERY_DEVICE_DOMAIN'', HV_INPUT_QUERY_DEVICE_DOMAIN),
     (''HV_INPUT_MAP_SPARSE_DEVICE_GPA_PAGES'', HV_INPUT_MAP_SPARSE_DEVICE_GPA_PAGES),
     (''HV_INPUT_UNMAP_SPARSE_DEVICE_GPA_PAGES'', HV_INPUT_UNMAP_SPARSE_DEVICE_GPA_PAGES),
     (''HV_INPUT_GET_GPA_PAGES_ACCESS_STATE'', HV_INPUT_GET_GPA_PAGES_ACCESS_STATE),
     (''HV_INPUT_GET_SPARSE_GPA_PAGES_ACCESS_STATE'', HV_INPUT_GET_SPARSE_GPA_PAGES_ACCESS_STATE),
     (''HV_INPUT_QUERY_VTL_PROTECTION_MASK_RANGE'', HV_INPUT_QUERY_VTL_PROTECTION_MASK_RANGE),
     (''HV_INPUT_MODIFY_VTL_PROTECTION_MASK_RANGE'', HV_INPUT_MODIFY_VTL_PROTECTION_MASK_RANGE),
     (''HV_INPUT_CONFIGURE_DEVICE_DOMAIN'', HV_INPUT_CONFIGURE_DEVICE_DOMAIN),
     (''HV_INPUT_FLUSH_DEVICE_DOMAIN'', HV_INPUT_FLUSH_DEVICE_DOMAIN),
     (''HV_INPUT_FLUSH_DEVICE_DOMAIN_LIST'', HV_INPUT_FLUSH_DEVICE_DOMAIN_LIST),
     (''HV_INPUT_MODIFY_SPARSE_GPA_PAGE_HOST_ACCESS'', HV_INPUT_MODIFY_SPARSE_GPA_PAGE_HOST_ACCESS),
     (''HV_INPUT_CHECK_SPARSE_GPA_PAGE_VTL_ACCESS'', HV_INPUT_CHECK_SPARSE_GPA_PAGE_VTL_ACCESS),
     (''HV_INPUT_MODIFY_SPARSE_SPA_PAGE_HOST_ACCESS'', HV_INPUT_MODIFY_SPARSE_SPA_PAGE_HOST_ACCESS),
     (''HV_INPUT_ACCEPT_GPA_PAGES'', HV_INPUT_ACCEPT_GPA_PAGES),
     (''HV_INPUT_UNACCEPT_GPA_PAGES'', HV_INPUT_UNACCEPT_GPA_PAGES),
     (''HV_INPUT_LOCK_SPARSE_GPA_PAGE_MAPPING'', HV_INPUT_LOCK_SPARSE_GPA_PAGE_MAPPING),
     (''HV_INPUT_UNLOCK_SPARSE_GPA_PAGE_MAPPING'', HV_INPUT_UNLOCK_SPARSE_GPA_PAGE_MAPPING),
     (''HV_INPUT_REQUEST_PROCESSOR_HALT'', HV_INPUT_REQUEST_PROCESSOR_HALT),
     (''HV_INPUT_GET_INTERCEPT_DATA'', HV_INPUT_GET_INTERCEPT_DATA),
     (''HV_INPUT_QUERY_DEVICE_INTERRUPT_TARGET'', HV_INPUT_QUERY_DEVICE_INTERRUPT_TARGET a),
     (''HV_OUTPUT_QUERY_DEVICE_INTERRUPT_TARGET'', HV_OUTPUT_QUERY_DEVICE_INTERRUPT_TARGET a),
     (''HV_INPUT_MAP_VP_STATE_PAGE'', HV_INPUT_MAP_VP_STATE_PAGE),
     (''HV_OUTPUT_MAP_VP_STATE_PAGE'', HV_OUTPUT_MAP_VP_STATE_PAGE),
     (''HV_INPUT_UNMAP_VP_STATE_PAGE'', HV_INPUT_UNMAP_VP_STATE_PAGE),
     (''HV_INPUT_GET_VP_STATE'', HV_INPUT_GET_VP_STATE a),
     (''HV_OUTPUT_GET_VP_STATE'', HV_OUTPUT_GET_VP_STATE a),
     (''HV_INPUT_SET_VP_STATE'', HV_INPUT_SET_VP_STATE a),
     (''HV_INPUT_RESERVE_DEVICE_INTERRUPT'', HV_INPUT_RESERVE_DEVICE_INTERRUPT a),
     (''HV_INPUT_PERSIST_DEVICE'', HV_INPUT_PERSIST_DEVICE a),
     (''HV_INPUT_UNPERSIST_DEVICE'', HV_INPUT_UNPERSIST_DEVICE),
     (''HV_INPUT_PERSIST_DEVICE_INTERRUPT'', HV_INPUT_PERSIST_DEVICE_INTERRUPT a),
     (''HV_OUTPUT_PERSIST_DEVICE_INTERRUPT'', HV_OUTPUT_PERSIST_DEVICE_INTERRUPT),
     (''HV_INPUT_REFRESH_PERFORMANCE_COUNTERS'', HV_INPUT_REFRESH_PERFORMANCE_COUNTERS),
     (''HV_INPUT_COMPLETE_ISOLATED_IMPORT'', HV_INPUT_COMPLETE_ISOLATED_IMPORT),
     (''HV_INPUT_ROOT_SIGNAL_EVENT'', HV_INPUT_ROOT_SIGNAL_EVENT),
     (''HV_OUTPUT_ROOT_SIGNAL_EVENT'', HV_OUTPUT_ROOT_SIGNAL_EVENT),
     (''HV_INPUT_GET_VP_CPUID_VALUES'', HV_INPUT_GET_VP_CPUID_VALUES),
     (''HV_OUTPUT_GET_VP_CPUID_VALUES'', HV_OUTPUT_GET_VP_CPUID_VALUES),
     (''HV_INPUT_READ_SYSTEM_MEMORY'', HV_INPUT_READ_SYSTEM_MEMORY),
     (''HV_OUTPUT_READ_SYSTEM_MEMORY'', HV_OUTPUT_READ_SYSTEM_MEMORY),
     (''HV_INPUT_SET_HW_WATCHDOG_CONFIG'', HV_INPUT_SET_HW_WATCHDOG_CONFIG),
     (''HV_INPUT_REMOVE_PHYSICAL_MEMORY'', HV_INPUT_REMOVE_PHYSICAL_MEMORY),
     (''HV_INPUT_SUBSUME_VP'', HV_INPUT_SUBSUME_VP),
     (''HV_INPUT_WRITE_SYS_DIAG_EVENT'', HV_INPUT_WRITE_SYS_DIAG_EVENT),
     (''HV_SET_DEVICE_CAPABILITIES_FLAGS'', HV_SET_DEVICE_CAPABILITIES_FLAGS),
     (''HV_INPUT_SET_DEVICE_CAPABILITIES'', HV_INPUT_SET_DEVICE_CAPABILITIES),
     (''HV_INPUT_GET_PARTITION_PROPERTY_EX'', HV_INPUT_GET_PARTITION_PROPERTY_EX),
     (''HV_OUTPUT_GET_PARTITION_PROPERTY_EX'', HV_OUTPUT_GET_PARTITION_PROPERTY_EX),
     (''HV_INPUT_GET_GPA_RANGES_ACCESS_STATE'', HV_INPUT_GET_GPA_RANGES_ACCESS_STATE),
     (''HV_INPUT_RESTORE_PARTITION_TIME'', HV_INPUT_RESTORE_PARTITION_TIME),
     (''HV_OUTPUT_QUERY_ASSOCIATED_LP_FOR_MCA_EX'', HV_OUTPUT_QUERY_ASSOCIATED_LP_FOR_MCA_EX),
     (''HV_INPUT_SET_PARTITION_PROPERTY_EX'', HV_INPUT_SET_PARTITION_PROPERTY_EX),
     (''HV_INPUT_ATTACH_DEVICE_PR_QUEUE'', HV_INPUT_ATTACH_DEVICE_PR_QUEUE),
     (''HV_INPUT_DETACH_DEVICE_PR_QUEUE'', HV_INPUT_DETACH_DEVICE_PR_QUEUE),
     (''HV_INPUT_RESERVE_DEVICE_DOMAIN_ATTACHMENT'', HV_INPUT_RESERVE_DEVICE_DOMAIN_ATTACHMENT),
     (''HV_INPUT_UNRESERVE_DEVICE_DOMAIN_ATTACHMENT'', HV_INPUT_UNRESERVE_DEVICE_DOMAIN_ATTACHMENT),
     (''HV_X64_INPUT_DISABLE_HYPERVISOR_EX'', HV_X64_INPUT_DISABLE_HYPERVISOR_EX),
     (''HV_INPUT_INSTALL_INTERCEPT_EX'', HV_INPUT_INSTALL_INTERCEPT_EX),
     (''HV_INPUT_WAKE_VPS'', HV_INPUT_WAKE_VPS),
     (''HV_INPUT_SET_CPU_GROUP_AFFINITY'', HV_INPUT_SET_CPU_GROUP_AFFINITY),
     (''HV_INPUT_MAP_PARTITION_EVENTLOG_BUFFER'', HV_INPUT_MAP_PARTITION_EVENTLOG_BUFFER),
     (''HV_EXT_OUTPUT_QUERY_CAPABILITIES'', HV_EXT_OUTPUT_QUERY_CAPABILITIES),
     (''HV_EXT_OUTPUT_BOOT_ZEROED_MEMORY'', HV_EXT_OUTPUT_BOOT_ZEROED_MEMORY),
     (''HV_EXT_INPUT_MEMORY_HEAT_HINT'', HV_EXT_INPUT_MEMORY_HEAT_HINT),
     (''HV_EXT_INPUT_EPF_SETUP'', HV_EXT_INPUT_EPF_SETUP),
     (''HV_EXT_OUTPUT_EPF_SETUP'', HV_EXT_OUTPUT_EPF_SETUP),
     (''HV_EXT_INPUT_SETUP_SCHEDULER_ASSIST'', HV_EXT_INPUT_SETUP_SCHEDULER_ASSIST)] @
     (case a of X64 \<Rightarrow> [
     (''HV_INPUT_REGISTER_INTERCEPT_RESULT'', HV_INPUT_REGISTER_INTERCEPT_RESULT)]
   | ARM64 \<Rightarrow> [])"

text \<open>The payloads of messages.\<close>

definition message_payloads :: "arch \<Rightarrow> (string \<times> cty) list" where
  "message_payloads a = [
     (''HV_X64_APIC_EOI_MESSAGE'', HV_X64_APIC_EOI_MESSAGE),
     (''HV_SINT_NOTIFICATION_MESSAGE_PAYLOAD'', HV_SINT_NOTIFICATION_MESSAGE_PAYLOAD),
     (''HV_NOTIFICATION_MESSAGE_PAYLOAD'', HV_NOTIFICATION_MESSAGE_PAYLOAD),
     (''HV_X64_PROXY_INTERRUPT_MESSAGE_PAYLOAD'', HV_X64_PROXY_INTERRUPT_MESSAGE_PAYLOAD),
     (''HV_OPAQUE_INTERCEPT_MESSAGE'', HV_OPAQUE_INTERCEPT_MESSAGE),
     (''HV_ASYNC_COMPLETION_MESSAGE_PAYLOAD'', HV_ASYNC_COMPLETION_MESSAGE_PAYLOAD),
     (''HV_VP_SIGNAL_BITSET_SCHEDULER_MESSAGE'', HV_VP_SIGNAL_BITSET_SCHEDULER_MESSAGE),
     (''HV_VP_SIGNAL_PAIR_SCHEDULER_MESSAGE'', HV_VP_SIGNAL_PAIR_SCHEDULER_MESSAGE),
     (''HV_MIRRORING_NOTIFICATION_MESSAGE_PAYLOAD'', HV_MIRRORING_NOTIFICATION_MESSAGE_PAYLOAD),
     (''HV_GPA_ATTRIBUTE_INTERCEPT_MESSAGE'', HV_GPA_ATTRIBUTE_INTERCEPT_MESSAGE),
     (''HV_ENABLE_PARTITION_VTL_INTERCEPT_MESSAGE'', HV_ENABLE_PARTITION_VTL_INTERCEPT_MESSAGE),
     (''HV_INSUFFICIENT_MEMORY_MESSAGE_PAYLOAD'', HV_INSUFFICIENT_MEMORY_MESSAGE_PAYLOAD),
     (''HV_SYNIC_EVENT_INTERCEPT_MESSAGE'', HV_SYNIC_EVENT_INTERCEPT_MESSAGE),
     (''HV_ARM64_TLB_PAGE_SIZE_MISMATCH_MESSAGE'', HV_ARM64_TLB_PAGE_SIZE_MISMATCH_MESSAGE),
     (''HV_RESTART_COMPLETION_MESSAGE_PAYLOAD'', HV_RESTART_COMPLETION_MESSAGE_PAYLOAD)] @
     (case a of X64 \<Rightarrow> [
     (''HV_X64_MEMORY_INTERCEPT_MESSAGE'', HV_X64_MEMORY_INTERCEPT_MESSAGE),
     (''HV_X64_MSR_INTERCEPT_MESSAGE'', HV_X64_MSR_INTERCEPT_MESSAGE),
     (''HV_X64_EXCEPTION_INTERCEPT_MESSAGE'', HV_X64_EXCEPTION_INTERCEPT_MESSAGE),
     (''HV_X64_UNRECOVERABLE_EXCEPTION_MESSAGE'', HV_X64_UNRECOVERABLE_EXCEPTION_MESSAGE),
     (''HV_X64_HYPERCALL_INTERCEPT_MESSAGE'', HV_X64_HYPERCALL_INTERCEPT_MESSAGE),
     (''HV_X64_REGISTER_INTERCEPT_MESSAGE'', HV_X64_REGISTER_INTERCEPT_MESSAGE),
     (''HV_X64_INVALID_VP_REGISTER_MESSAGE'', HV_X64_INVALID_VP_REGISTER_MESSAGE),
     (''HV_X64_UNSUPPORTED_FEATURE_MESSAGE'', HV_X64_UNSUPPORTED_FEATURE_MESSAGE),
     (''HV_X64_CPUID_INTERCEPT_MESSAGE'', HV_X64_CPUID_INTERCEPT_MESSAGE),
     (''HV_X64_IO_PORT_INTERCEPT_MESSAGE'', HV_X64_IO_PORT_INTERCEPT_MESSAGE),
     (''HV_X64_LEGACY_FP_ERROR_MESSAGE'', HV_X64_LEGACY_FP_ERROR_MESSAGE),
     (''HV_X64_HALT_MESSAGE'', HV_X64_HALT_MESSAGE),
     (''HV_X64_INTERRUPTION_DELIVERABLE_MESSAGE'', HV_X64_INTERRUPTION_DELIVERABLE_MESSAGE),
     (''HV_X64_SINT_DELIVERABLE_MESSAGE'', HV_X64_SINT_DELIVERABLE_MESSAGE),
     (''HV_X64_SIPI_INTERCEPT_MESSAGE'', HV_X64_SIPI_INTERCEPT_MESSAGE)]
   | ARM64 \<Rightarrow> [
     (''HV_ARM64_MEMORY_INTERCEPT_MESSAGE'', HV_ARM64_MEMORY_INTERCEPT_MESSAGE),
     (''HV_ARM64_MSR_INTERCEPT_MESSAGE'', HV_ARM64_MSR_INTERCEPT_MESSAGE),
     (''HV_ARM64_EXCEPTION_INTERCEPT_MESSAGE'', HV_ARM64_EXCEPTION_INTERCEPT_MESSAGE),
     (''HV_ARM64_UNRECOVERABLE_EXCEPTION_MESSAGE'', HV_ARM64_UNRECOVERABLE_EXCEPTION_MESSAGE),
     (''HV_ARM64_HYPERCALL_INTERCEPT_MESSAGE'', HV_ARM64_HYPERCALL_INTERCEPT_MESSAGE),
     (''HV_ARM64_REGISTER_INTERCEPT_MESSAGE'', HV_ARM64_REGISTER_INTERCEPT_MESSAGE),
     (''HV_ARM64_INVALID_VP_REGISTER_MESSAGE'', HV_ARM64_INVALID_VP_REGISTER_MESSAGE),
     (''HV_ARM64_UNSUPPORTED_FEATURE_MESSAGE'', HV_ARM64_UNSUPPORTED_FEATURE_MESSAGE),
     (''HV_ARM64_RESET_INTERCEPT_MESSAGE'', HV_ARM64_RESET_INTERCEPT_MESSAGE),
     (''HV_ARM64_MMIO_INTERCEPT_MESSAGE'', HV_ARM64_MMIO_INTERCEPT_MESSAGE),
     (''HV_SYNIC_SINT_DELIVERABLE_MESSAGE'', HV_SYNIC_SINT_DELIVERABLE_MESSAGE)])"

end
