(* ===== verification/Tlfs_Properties.thy ===== *)
theory Tlfs_Properties
  imports Tlfs_Calls
begin

text \<open>
  What the declarations of \<open>Mile.HyperV.TLFS.h\<close> have to satisfy for a guest: the unions that are read as integers,
  the inputs and outputs of hypercalls, which may not leave a page, the messages, which are payloads of
  \<open>HV_MESSAGE\<close>, the static assertions of the header, the trace groups and the numbers of the calls.
\<close>

unbundle bit_operations_syntax

definition compilers :: "abi list" where "compilers = [sysv, msvc]"

section \<open>Trace groups\<close>

text \<open>The groups that \<open>HV_TR_ALL_GROUPS\<close> and \<open>HV_TR_ALL_GROUPS_INTERNAL\<close> collect.\<close>

definition retail_groups :: "32 word list" where
  "retail_groups = [HV_TR_GROUP_BM, HV_TR_GROUP_DM, HV_TR_GROUP_HC, HV_TR_GROUP_IM, HV_TR_GROUP_IC, HV_TR_GROUP_OB,
     HV_TR_GROUP_PT, HV_TR_GROUP_VP, HV_TR_GROUP_SYNIC, HV_TR_GROUP_SYNIC_TI, HV_TR_GROUP_AM_GVA, HV_TR_GROUP_AM,
     HV_TR_GROUP_VAL, HV_TR_GROUP_VM, HV_TR_GROUP_SCH, HV_TR_GROUP_TH, HV_TR_GROUP_TI, HV_TR_GROUP_KE,
     HV_TR_GROUP_MM, HV_TR_GROUP_PROFILER]"

definition internal_groups :: "64 word list" where
  "internal_groups = [HV_TR_GROUP_BM_INTERNAL, HV_TR_GROUP_DM_INTERNAL, HV_TR_GROUP_HC_INTERNAL,
     HV_TR_GROUP_IM_INTERNAL, HV_TR_GROUP_IC_INTERNAL, HV_TR_GROUP_OB_INTERNAL, HV_TR_GROUP_PT_INTERNAL,
     HV_TR_GROUP_VP_INTERNAL, HV_TR_GROUP_SYNIC_INTERNAL, HV_TR_GROUP_SYNIC_TI_INTERNAL,
     HV_TR_GROUP_AM_GVA_INTERNAL, HV_TR_GROUP_AM_INTERNAL, HV_TR_GROUP_VAL_INTERNAL, HV_TR_GROUP_VM_INTERNAL,
     HV_TR_GROUP_SCH_INTERNAL, HV_TR_GROUP_TH_INTERNAL, HV_TR_GROUP_TI_INTERNAL, HV_TR_GROUP_KE_INTERNAL,
     HV_TR_GROUP_MM_INTERNAL, HV_TR_GROUP_TF, HV_TR_GROUP_SIMULATE_FULL, HV_TR_GROUP_CYCLIC, HV_TR_GROUP_ICE]"

lemmas retail_group_defs = retail_groups_def HV_TR_GROUP_BM_def HV_TR_GROUP_DM_def HV_TR_GROUP_HC_def
  HV_TR_GROUP_IM_def HV_TR_GROUP_IC_def HV_TR_GROUP_OB_def HV_TR_GROUP_PT_def HV_TR_GROUP_VP_def
  HV_TR_GROUP_SYNIC_def HV_TR_GROUP_SYNIC_TI_def HV_TR_GROUP_AM_GVA_def HV_TR_GROUP_AM_def HV_TR_GROUP_VAL_def
  HV_TR_GROUP_VM_def HV_TR_GROUP_SCH_def HV_TR_GROUP_TH_def HV_TR_GROUP_TI_def HV_TR_GROUP_KE_def
  HV_TR_GROUP_MM_def HV_TR_GROUP_PROFILER_def

lemmas internal_group_defs = internal_groups_def HV_TR_GROUP_BM_INTERNAL_def HV_TR_GROUP_DM_INTERNAL_def
  HV_TR_GROUP_HC_INTERNAL_def HV_TR_GROUP_IM_INTERNAL_def HV_TR_GROUP_IC_INTERNAL_def HV_TR_GROUP_OB_INTERNAL_def
  HV_TR_GROUP_PT_INTERNAL_def HV_TR_GROUP_VP_INTERNAL_def HV_TR_GROUP_SYNIC_INTERNAL_def
  HV_TR_GROUP_SYNIC_TI_INTERNAL_def HV_TR_GROUP_AM_GVA_INTERNAL_def HV_TR_GROUP_AM_INTERNAL_def
  HV_TR_GROUP_VAL_INTERNAL_def HV_TR_GROUP_VM_INTERNAL_def HV_TR_GROUP_SCH_INTERNAL_def
  HV_TR_GROUP_TH_INTERNAL_def HV_TR_GROUP_TI_INTERNAL_def HV_TR_GROUP_KE_INTERNAL_def
  HV_TR_GROUP_MM_INTERNAL_def HV_TR_GROUP_TF_def HV_TR_GROUP_SIMULATE_FULL_def HV_TR_GROUP_CYCLIC_def
  HV_TR_GROUP_ICE_def

text \<open>\<open>x & (x - 1)\<close> clears the lowest bit: it is zero exactly at the powers of two.\<close>

lemma lowest_bit_only_nat:
  fixes x :: nat
  assumes "0 < x" "x AND (x - 1) = 0"
  shows "\<exists>n. x = 2 ^ n"
  using assms
proof (induction x rule: less_induct)
  case (less x)
  show ?case
  proof (cases "even x")
    case True
    then obtain k where k: "x = 2 * k" by blast
    with less.prems have k0: "0 < k" by simp
    have "(x - 1) div 2 = k - 1" using k k0 by presburger
    then have "x AND (x - 1) = 2 * (k AND (k - 1))"
      using k and_nat_rec [of x "x - 1"] by simp
    then have "k AND (k - 1) = 0" using less.prems by simp
    then obtain n where "k = 2 ^ n" using less.IH [of k] k k0 by auto
    then have "x = 2 ^ Suc n" using k by simp
    then show ?thesis ..
  next
    case False
    then obtain k where k: "x = 2 * k + 1" by (elim oddE)
    have "x AND (x - 1) = 2 * k"
      using k and_nat_rec [of x "x - 1"] by simp
    then have "x = 2 ^ 0" using less.prems k by simp
    then show ?thesis ..
  qed
qed

lemma lowest_bit_only:
  fixes g :: "64 word"
  assumes "0 < g" "g AND (g - 1) = 0"
  shows "\<exists>n<64. g = 2 ^ n"
proof -
  have g0: "0 < unat g" using assms(1) by (simp add: word_greater_zero_iff unat_gt_0)
  have "unat g AND (unat g - 1) = unat (g AND (g - 1))"
    using assms(1) by (simp add: unsigned_and_eq unat_minus_one word_greater_zero_iff)
  then have "unat g AND (unat g - 1) = 0" using assms(2) by simp
  then obtain n where n: "unat g = 2 ^ n" using lowest_bit_only_nat [OF g0] by blast
  have "(2::nat) ^ n < 2 ^ 64" using unsigned_less [of g, where ?'a = nat] n by simp
  then have "n < 64" by (rule power_less_imp_less_exp [rotated]) simp
  moreover have "g = of_nat (unat g)" by simp
  then have "g = 2 ^ n" unfolding n by simp
  ultimately show ?thesis by blast
qed

lemma bit_foldr_powers:
  "list_all (\<lambda>k. k < 64) ks \<Longrightarrow> bit (foldr (OR) (map (\<lambda>k. (2::64 word) ^ k) ks) 0) n \<longleftrightarrow> n \<in> set ks"
  by (induction ks) (auto simp: bit_or_iff bit_exp_iff)

lemma power_single_bit: "(2::64 word) ^ k AND (2 ^ k - 1) = 0"
  by (rule bit_word_eqI) (simp add: bit_and_iff bit_exp_iff bit_mask_iff flip: mask_eq_exp_minus_1)

text \<open>The test of both macros, for a mask that is made of the powers \<open>ks\<close>.\<close>

lemma group_test:
  fixes g m :: "64 word"
  assumes ks: "list_all (\<lambda>k. k < 64) ks"
    and groups: "groups = map (\<lambda>k. 2 ^ k) ks" and m: "m = foldr (OR) groups 0"
  shows "0 < g \<and> g AND m \<noteq> 0 \<and> g AND (g - 1) = 0 \<longleftrightarrow> g \<in> set groups"
proof -
  have in_mask: "2 ^ n AND m \<noteq> 0 \<longleftrightarrow> n \<in> set ks" for n
    using bit_foldr_powers [OF ks, of n] and_exp_eq_0_iff_not_bit [of m n] by (simp add: m groups and.commute)
  show ?thesis
  proof
    assume g: "0 < g \<and> g AND m \<noteq> 0 \<and> g AND (g - 1) = 0"
    then obtain n where "g = 2 ^ n" using lowest_bit_only by blast
    then show "g \<in> set groups" using g in_mask [of n] by (auto simp: groups)
  next
    assume "g \<in> set groups"
    then obtain k where k: "k \<in> set ks" "g = 2 ^ k" by (auto simp: groups)
    then have "k < 64" using ks by (simp add: list_all_iff)
    then have "0 < g" using k(2) by (simp add: word_greater_zero_iff)
    then show "0 < g \<and> g AND m \<noteq> 0 \<and> g AND (g - 1) = 0"
      using in_mask [of k] k by (simp add: power_single_bit)
  qed
qed

lemma retail_powers: "map ucast retail_groups = map (\<lambda>k. (2::64 word) ^ k) [8..<28]"
  by (simp add: retail_group_defs upt_rec)

lemma internal_powers: "internal_groups = map (\<lambda>k. 2 ^ k) ([40..<59] @ [60..<64])"
  by (simp add: internal_group_defs upt_rec)

lemma retail_mask: "ucast HV_TR_ALL_GROUPS = foldr (OR) (map ucast retail_groups) (0 :: 64 word)"
  by (simp add: HV_TR_ALL_GROUPS_def retail_group_defs)

lemma internal_mask: "HV_TR_ALL_GROUPS_INTERNAL = foldr (OR) internal_groups 0"
  by (simp add: HV_TR_ALL_GROUPS_INTERNAL_def internal_group_defs)

text \<open>C33. \<open>HV_TR_IS_GROUP_RETAIL\<close> and \<open>HV_TR_IS_GROUP_INTERNAL\<close> test a 64-bit number with a mask and the lowest-bit trick.
  The numbers they accept are exactly the listed groups, the twenty retail and the twenty-three internal ones, and no
  number is both.\<close>

theorem trace_groups_exact:
  "(HV_TR_IS_GROUP_RETAIL g \<longleftrightarrow> g \<in> set (map ucast retail_groups)) \<and>
   (HV_TR_IS_GROUP_INTERNAL g \<longleftrightarrow> g \<in> set internal_groups) \<and>
   \<not> (HV_TR_IS_GROUP_RETAIL g \<and> HV_TR_IS_GROUP_INTERNAL g)"
proof -
  have "HV_TR_IS_GROUP_RETAIL g \<longleftrightarrow> g \<in> set (map ucast retail_groups)"
    unfolding HV_TR_IS_GROUP_RETAIL_def
    by (rule group_test [OF _ retail_powers retail_mask]) (simp add: list_all_iff)
  moreover have "HV_TR_IS_GROUP_INTERNAL g \<longleftrightarrow> g \<in> set internal_groups"
    unfolding HV_TR_IS_GROUP_INTERNAL_def
    by (rule group_test [OF _ internal_powers internal_mask]) (auto simp: list_all_iff)
  moreover have "set (map ucast retail_groups) \<inter> set internal_groups = {}"
    by (simp add: retail_group_defs internal_group_defs)
  ultimately show ?thesis by blast
qed

section \<open>Unions read as integers\<close>

text \<open>The unions of a table that are not the size of their integer.\<close>

definition partial_unions :: "abi \<Rightarrow> arch \<Rightarrow> string list" where
  "partial_unions A a = map fst (filter (\<lambda>(n, t). partial_view A t) (integer_unions a))"

text \<open>C30. A union with a member \<open>AsUINT8\<close> to \<open>AsUINT128\<close> is read and written as that integer, so the integer has to be
  the whole union.  It is, with every compiler, for all of the 155 unions of x64 and the 151 of ARM64 but these: in
  \<open>HV_GVA_RANGE_EXTENDED\<close> (so in \<open>HV_GVA_RANGE\<close>) and in \<open>HV_GPA_PAGE_RANGE\<close> the page number is in a union inside the structure
  of bit-fields, which starts at the next 8 bytes instead of at bit 12; in \<open>HV_DEVICE_PAGE_REQUEST\<close> the views of one word
  follow each other; \<open>HV_SET_DEVICE_CAPABILITIES_FLAGS\<close>, 4 bytes, has the alignment of a hypercall block; and on ARM64
  \<open>HV_PARTITION_PROCESSOR_FEATURES\<close> has two banks of bits and one in \<open>AsUINT64\<close>.\<close>

theorem integer_views_whole:
  "partial_unions A X64 = [''HV_GVA_RANGE_EXTENDED'', ''HV_GVA_RANGE'', ''HV_GPA_PAGE_RANGE'', ''HV_DEVICE_PAGE_REQUEST'',
     ''HV_SET_DEVICE_CAPABILITIES_FLAGS''] \<and>
   partial_unions A ARM64 = [''HV_PARTITION_PROCESSOR_FEATURES'', ''HV_GVA_RANGE_EXTENDED'', ''HV_GVA_RANGE'',
     ''HV_GPA_PAGE_RANGE'', ''HV_DEVICE_PAGE_REQUEST'', ''HV_SET_DEVICE_CAPABILITIES_FLAGS'']"
proof
  show "partial_unions A X64 = [''HV_GVA_RANGE_EXTENDED'', ''HV_GVA_RANGE'', ''HV_GPA_PAGE_RANGE'', ''HV_DEVICE_PAGE_REQUEST'',
     ''HV_SET_DEVICE_CAPABILITIES_FLAGS'']"
    by (simp add: partial_unions_def integer_unions_def partial_view_def tlfs_layout)
  show "partial_unions A ARM64 = [''HV_PARTITION_PROCESSOR_FEATURES'', ''HV_GVA_RANGE_EXTENDED'', ''HV_GVA_RANGE'',
     ''HV_GPA_PAGE_RANGE'', ''HV_DEVICE_PAGE_REQUEST'', ''HV_SET_DEVICE_CAPABILITIES_FLAGS'']"
    by (simp add: partial_unions_def integer_unions_def partial_view_def tlfs_layout)
qed

section \<open>Blocks and payloads\<close>

text \<open>The room for a payload, and the static assertions of the header about it.\<close>

definition payload_room :: "abi \<Rightarrow> nat" where
  "payload_room A = csize A HV_MESSAGE - csize A HV_MESSAGE_HEADER"

definition bitset_message_assert :: "abi \<Rightarrow> bool" where
  "bitset_message_assert A \<longleftrightarrow>
     csize A HV_VP_SIGNAL_BITSET_SCHEDULER_MESSAGE \<le> csize A HV_MESSAGE - csize A HV_MESSAGE_HEADER"

definition pair_message_assert :: "abi \<Rightarrow> bool" where
  "pair_message_assert A \<longleftrightarrow>
     csize A HV_VP_SIGNAL_PAIR_SCHEDULER_MESSAGE = csize A HV_MESSAGE - csize A HV_MESSAGE_HEADER"

lemma payload_room_240: "list_all (\<lambda>A. payload_room A = 240) compilers"
  by (simp add: compilers_def payload_room_def interface_layout)


definition block_ok :: "abi \<Rightarrow> arch \<Rightarrow> cty \<Rightarrow> bool" where
  "block_ok A a t \<longleftrightarrow> HV_CALL_ALIGNMENT dvd calign A t \<and> calign A t dvd csize A t \<and> csize A t \<le> unat (HV_PAGE_SIZE a)"


end
