(* ===== verification/Hv_Trace.thy ===== *)
theory Hv_Trace
  imports C_Text
begin

text \<open>
  \<open>hv_trace.h\<close>: the trace events of the VMBus core.  An event has an entry (\<open>TP_STRUCT__entry\<close>, a record), the assignment
  that fills it in from a message or a channel (\<open>TP_fast_assign\<close>) and the line it prints (\<open>TP_printk\<close>).  The messages are
  structures of the kernel's \<open>linux/hyperv.h\<close>: the fields that an event reads are the arguments of its assignment, as
  integers, and the entry keeps as many bits of them as its field has.  A GUID is copied as 16 bytes.
  \<open>DEFINE_EVENT\<close> makes an event of a class.
\<close>

type_synonym i32 = "32 word"

section \<open>Lines\<close>

text \<open>The parts of a format with their arguments: literal text, \<open>%x\<close>, \<open>%d\<close> or \<open>%u\<close>, and \<open>%pUl\<close>, which prints the bytes of a
  GUID in little-endian order.\<close>

datatype trace_item = Lit string | Hex nat | Dec int | Uuid "u8 list"

definition byte_text :: "u8 \<Rightarrow> string" where
  "byte_text b = fmt_0x 2 (unat b)"

definition fmt_pUl :: "u8 list \<Rightarrow> string" where
  "fmt_pUl bs =
     concat (map (\<lambda>k. byte_text (bs ! k)) [3, 2, 1, 0]) @ ''-'' @ concat (map (\<lambda>k. byte_text (bs ! k)) [5, 4]) @ ''-'' @
     concat (map (\<lambda>k. byte_text (bs ! k)) [7, 6]) @ ''-'' @ concat (map (\<lambda>k. byte_text (bs ! k)) [8, 9]) @ ''-'' @
     concat (map (\<lambda>k. byte_text (bs ! k)) [10, 11, 12, 13, 14, 15])"

fun item_text :: "trace_item \<Rightarrow> string" where
  "item_text (Lit t) = t"
| "item_text (Hex n) = fmt_x n"
| "item_text (Dec n) = fmt_d n"
| "item_text (Uuid bs) = fmt_pUl bs"

definition trace_text :: "trace_item list \<Rightarrow> string" where
  "trace_text is = concat (map item_text is)"

section \<open>Events\<close>

record vmbus_hdr_msg_entry =
  hdr_msg_msgtype :: u32

definition vmbus_hdr_msg_assign :: "int \<Rightarrow> vmbus_hdr_msg_entry" where
  "vmbus_hdr_msg_assign msgtype =
     \<lparr>hdr_msg_msgtype = word_of_int msgtype\<rparr>"

definition vmbus_hdr_msg_print :: "vmbus_hdr_msg_entry \<Rightarrow> trace_item list" where
  "vmbus_hdr_msg_print e =
     [Lit ''msgtype='', Dec (uint (hdr_msg_msgtype e))]"

definition vmbus_on_msg_dpc :: "int \<Rightarrow> vmbus_hdr_msg_entry" where
  "vmbus_on_msg_dpc = vmbus_hdr_msg_assign"

definition vmbus_on_message :: "int \<Rightarrow> vmbus_hdr_msg_entry" where
  "vmbus_on_message = vmbus_hdr_msg_assign"

record vmbus_onoffer_entry =
  onoffer_child_relid :: u32
  onoffer_monitorid :: u8
  onoffer_is_ddc_int :: u16
  onoffer_connection_id :: u32
  onoffer_if_type :: "u8 list"
  onoffer_if_instance :: "u8 list"
  onoffer_chn_flags :: u16
  onoffer_mmio_mb :: u16
  onoffer_sub_idx :: u16

definition vmbus_onoffer_assign :: "int \<Rightarrow> int \<Rightarrow> int \<Rightarrow> int \<Rightarrow> u8 list \<Rightarrow> u8 list \<Rightarrow> int \<Rightarrow> int \<Rightarrow> int \<Rightarrow> vmbus_onoffer_entry" where
  "vmbus_onoffer_assign child_relid monitorid is_dedicated_interrupt connection_id if_type if_instance chn_flags mmio_megabytes sub_channel_index =
     \<lparr>onoffer_child_relid = word_of_int child_relid, onoffer_monitorid = word_of_int monitorid,
      onoffer_is_ddc_int = word_of_int is_dedicated_interrupt,
      onoffer_connection_id = word_of_int connection_id, onoffer_if_type = if_type,
      onoffer_if_instance = if_instance, onoffer_chn_flags = word_of_int chn_flags,
      onoffer_mmio_mb = word_of_int mmio_megabytes, onoffer_sub_idx = word_of_int sub_channel_index\<rparr>"

definition vmbus_onoffer_print :: "vmbus_onoffer_entry \<Rightarrow> trace_item list" where
  "vmbus_onoffer_print e =
     [Lit ''child_relid 0x'', Hex (unat (onoffer_child_relid e)), Lit '', monitorid 0x'',
      Hex (unat (onoffer_monitorid e)), Lit '', is_dedicated '', Dec (uint (onoffer_is_ddc_int e)),
      Lit '', connection_id 0x'', Hex (unat (onoffer_connection_id e)), Lit '', if_type '',
      Uuid (onoffer_if_type e), Lit '', if_instance '', Uuid (onoffer_if_instance e),
      Lit '', chn_flags 0x'', Hex (unat (onoffer_chn_flags e)), Lit '', mmio_megabytes '',
      Dec (uint (onoffer_mmio_mb e)), Lit '', sub_channel_index '', Dec (uint (onoffer_sub_idx e))]"

record vmbus_onoffer_rescind_entry =
  onoffer_rescind_child_relid :: u32

definition vmbus_onoffer_rescind_assign :: "int \<Rightarrow> vmbus_onoffer_rescind_entry" where
  "vmbus_onoffer_rescind_assign child_relid =
     \<lparr>onoffer_rescind_child_relid = word_of_int child_relid\<rparr>"

definition vmbus_onoffer_rescind_print :: "vmbus_onoffer_rescind_entry \<Rightarrow> trace_item list" where
  "vmbus_onoffer_rescind_print e =
     [Lit ''child_relid 0x'', Hex (unat (onoffer_rescind_child_relid e))]"

record vmbus_onopen_result_entry =
  onopen_result_child_relid :: u32
  onopen_result_openid :: u32
  onopen_result_status :: u32

definition vmbus_onopen_result_assign :: "int \<Rightarrow> int \<Rightarrow> int \<Rightarrow> vmbus_onopen_result_entry" where
  "vmbus_onopen_result_assign child_relid openid status =
     \<lparr>onopen_result_child_relid = word_of_int child_relid,
      onopen_result_openid = word_of_int openid, onopen_result_status = word_of_int status\<rparr>"

definition vmbus_onopen_result_print :: "vmbus_onopen_result_entry \<Rightarrow> trace_item list" where
  "vmbus_onopen_result_print e =
     [Lit ''child_relid 0x'', Hex (unat (onopen_result_child_relid e)), Lit '', openid '',
      Dec (sint (onopen_result_openid e)), Lit '', status '', Dec (sint (onopen_result_status e))]"

record vmbus_ongpadl_created_entry =
  ongpadl_created_child_relid :: u32
  ongpadl_created_gpadl :: u32
  ongpadl_created_status :: u32

definition vmbus_ongpadl_created_assign :: "int \<Rightarrow> int \<Rightarrow> int \<Rightarrow> vmbus_ongpadl_created_entry" where
  "vmbus_ongpadl_created_assign child_relid gpadl creation_status =
     \<lparr>ongpadl_created_child_relid = word_of_int child_relid,
      ongpadl_created_gpadl = word_of_int gpadl, ongpadl_created_status = word_of_int creation_status\<rparr>"

definition vmbus_ongpadl_created_print :: "vmbus_ongpadl_created_entry \<Rightarrow> trace_item list" where
  "vmbus_ongpadl_created_print e =
     [Lit ''child_relid 0x'', Hex (unat (ongpadl_created_child_relid e)), Lit '', gpadl 0x'',
      Hex (unat (ongpadl_created_gpadl e)), Lit '', creation_status '',
      Dec (sint (ongpadl_created_status e))]"

record vmbus_onmodifychannel_response_entry =
  onmodifychannel_response_child_relid :: u32
  onmodifychannel_response_status :: u32

definition vmbus_onmodifychannel_response_assign :: "int \<Rightarrow> int \<Rightarrow> vmbus_onmodifychannel_response_entry" where
  "vmbus_onmodifychannel_response_assign child_relid status =
     \<lparr>onmodifychannel_response_child_relid = word_of_int child_relid,
      onmodifychannel_response_status = word_of_int status\<rparr>"

definition vmbus_onmodifychannel_response_print :: "vmbus_onmodifychannel_response_entry \<Rightarrow> trace_item list" where
  "vmbus_onmodifychannel_response_print e =
     [Lit ''child_relid 0x'', Hex (unat (onmodifychannel_response_child_relid e)),
      Lit '', status '', Dec (sint (onmodifychannel_response_status e))]"

record vmbus_ongpadl_torndown_entry =
  ongpadl_torndown_gpadl :: u32

definition vmbus_ongpadl_torndown_assign :: "int \<Rightarrow> vmbus_ongpadl_torndown_entry" where
  "vmbus_ongpadl_torndown_assign gpadl =
     \<lparr>ongpadl_torndown_gpadl = word_of_int gpadl\<rparr>"

definition vmbus_ongpadl_torndown_print :: "vmbus_ongpadl_torndown_entry \<Rightarrow> trace_item list" where
  "vmbus_ongpadl_torndown_print e =
     [Lit ''gpadl 0x'', Hex (unat (ongpadl_torndown_gpadl e))]"

record vmbus_onversion_response_entry =
  onversion_response_ver :: u8

definition vmbus_onversion_response_assign :: "int \<Rightarrow> vmbus_onversion_response_entry" where
  "vmbus_onversion_response_assign version_supported =
     \<lparr>onversion_response_ver = word_of_int version_supported\<rparr>"

definition vmbus_onversion_response_print :: "vmbus_onversion_response_entry \<Rightarrow> trace_item list" where
  "vmbus_onversion_response_print e =
     [Lit ''version_supported '', Dec (uint (onversion_response_ver e))]"

record vmbus_request_offers_entry =
  request_offers_ret :: i32

definition vmbus_request_offers_assign :: "int \<Rightarrow> vmbus_request_offers_entry" where
  "vmbus_request_offers_assign ret =
     \<lparr>request_offers_ret = word_of_int ret\<rparr>"

definition vmbus_request_offers_print :: "vmbus_request_offers_entry \<Rightarrow> trace_item list" where
  "vmbus_request_offers_print e =
     [Lit ''sending ret '', Dec (sint (request_offers_ret e))]"

record vmbus_open_entry =
  open_child_relid :: u32
  open_openid :: u32
  open_gpadlhandle :: u32
  open_target_vp :: u32
  open_offset :: u32
  open_ret :: i32

definition vmbus_open_assign :: "int \<Rightarrow> int \<Rightarrow> int \<Rightarrow> int \<Rightarrow> int \<Rightarrow> int \<Rightarrow> vmbus_open_entry" where
  "vmbus_open_assign child_relid openid ringbuffer_gpadlhandle target_vp downstream_ringbuffer_pageoffset ret =
     \<lparr>open_child_relid = word_of_int child_relid, open_openid = word_of_int openid,
      open_gpadlhandle = word_of_int ringbuffer_gpadlhandle, open_target_vp = word_of_int target_vp,
      open_offset = word_of_int downstream_ringbuffer_pageoffset, open_ret = word_of_int ret\<rparr>"

definition vmbus_open_print :: "vmbus_open_entry \<Rightarrow> trace_item list" where
  "vmbus_open_print e =
     [Lit ''sending child_relid 0x'', Hex (unat (open_child_relid e)), Lit '', openid '',
      Dec (sint (open_openid e)), Lit '', gpadlhandle 0x'', Hex (unat (open_gpadlhandle e)),
      Lit '', target_vp 0x'', Hex (unat (open_target_vp e)), Lit '', offset 0x'',
      Hex (unat (open_offset e)), Lit '', ret '', Dec (sint (open_ret e))]"

record vmbus_close_internal_entry =
  close_internal_child_relid :: u32
  close_internal_ret :: i32

definition vmbus_close_internal_assign :: "int \<Rightarrow> int \<Rightarrow> vmbus_close_internal_entry" where
  "vmbus_close_internal_assign child_relid ret =
     \<lparr>close_internal_child_relid = word_of_int child_relid, close_internal_ret = word_of_int ret\<rparr>"

definition vmbus_close_internal_print :: "vmbus_close_internal_entry \<Rightarrow> trace_item list" where
  "vmbus_close_internal_print e =
     [Lit ''sending child_relid 0x'', Hex (unat (close_internal_child_relid e)), Lit '', ret '',
      Dec (sint (close_internal_ret e))]"

record vmbus_establish_gpadl_header_entry =
  establish_gpadl_header_child_relid :: u32
  establish_gpadl_header_gpadl :: u32
  establish_gpadl_header_range_buflen :: u16
  establish_gpadl_header_rangecount :: u16
  establish_gpadl_header_ret :: i32

definition vmbus_establish_gpadl_header_assign :: "int \<Rightarrow> int \<Rightarrow> int \<Rightarrow> int \<Rightarrow> int \<Rightarrow> vmbus_establish_gpadl_header_entry" where
  "vmbus_establish_gpadl_header_assign child_relid gpadl range_buflen rangecount ret =
     \<lparr>establish_gpadl_header_child_relid = word_of_int child_relid,
      establish_gpadl_header_gpadl = word_of_int gpadl,
      establish_gpadl_header_range_buflen = word_of_int range_buflen,
      establish_gpadl_header_rangecount = word_of_int rangecount,
      establish_gpadl_header_ret = word_of_int ret\<rparr>"

definition vmbus_establish_gpadl_header_print :: "vmbus_establish_gpadl_header_entry \<Rightarrow> trace_item list" where
  "vmbus_establish_gpadl_header_print e =
     [Lit ''sending child_relid 0x'', Hex (unat (establish_gpadl_header_child_relid e)),
      Lit '', gpadl 0x'', Hex (unat (establish_gpadl_header_gpadl e)), Lit '', range_buflen '',
      Dec (uint (establish_gpadl_header_range_buflen e)), Lit '' rangecount '',
      Dec (uint (establish_gpadl_header_rangecount e)), Lit '', ret '',
      Dec (sint (establish_gpadl_header_ret e))]"

record vmbus_establish_gpadl_body_entry =
  establish_gpadl_body_msgnumber :: u32
  establish_gpadl_body_gpadl :: u32
  establish_gpadl_body_ret :: i32

definition vmbus_establish_gpadl_body_assign :: "int \<Rightarrow> int \<Rightarrow> int \<Rightarrow> vmbus_establish_gpadl_body_entry" where
  "vmbus_establish_gpadl_body_assign msgnumber gpadl ret =
     \<lparr>establish_gpadl_body_msgnumber = word_of_int msgnumber,
      establish_gpadl_body_gpadl = word_of_int gpadl, establish_gpadl_body_ret = word_of_int ret\<rparr>"

definition vmbus_establish_gpadl_body_print :: "vmbus_establish_gpadl_body_entry \<Rightarrow> trace_item list" where
  "vmbus_establish_gpadl_body_print e =
     [Lit ''sending msgnumber '', Dec (sint (establish_gpadl_body_msgnumber e)), Lit '', gpadl 0x'',
      Hex (unat (establish_gpadl_body_gpadl e)), Lit '', ret '',
      Dec (sint (establish_gpadl_body_ret e))]"

record vmbus_teardown_gpadl_entry =
  teardown_gpadl_child_relid :: u32
  teardown_gpadl_gpadl :: u32
  teardown_gpadl_ret :: i32

definition vmbus_teardown_gpadl_assign :: "int \<Rightarrow> int \<Rightarrow> int \<Rightarrow> vmbus_teardown_gpadl_entry" where
  "vmbus_teardown_gpadl_assign child_relid gpadl ret =
     \<lparr>teardown_gpadl_child_relid = word_of_int child_relid,
      teardown_gpadl_gpadl = word_of_int gpadl, teardown_gpadl_ret = word_of_int ret\<rparr>"

definition vmbus_teardown_gpadl_print :: "vmbus_teardown_gpadl_entry \<Rightarrow> trace_item list" where
  "vmbus_teardown_gpadl_print e =
     [Lit ''sending child_relid 0x'', Hex (unat (teardown_gpadl_child_relid e)), Lit '', gpadl 0x'',
      Hex (unat (teardown_gpadl_gpadl e)), Lit '', ret '', Dec (sint (teardown_gpadl_ret e))]"

record vmbus_negotiate_version_entry =
  negotiate_version_ver :: u32
  negotiate_version_target_vcpu :: u32
  negotiate_version_ret :: i32
  negotiate_version_int_page :: u64
  negotiate_version_mon_page1 :: u64
  negotiate_version_mon_page2 :: u64

definition vmbus_negotiate_version_assign :: "int \<Rightarrow> int \<Rightarrow> int \<Rightarrow> int \<Rightarrow> int \<Rightarrow> int \<Rightarrow> vmbus_negotiate_version_entry" where
  "vmbus_negotiate_version_assign vmbus_version_requested target_vcpu interrupt_page monitor_page1 monitor_page2 ret =
     \<lparr>negotiate_version_ver = word_of_int vmbus_version_requested,
      negotiate_version_target_vcpu = word_of_int target_vcpu,
      negotiate_version_ret = word_of_int ret,
      negotiate_version_int_page = word_of_int interrupt_page,
      negotiate_version_mon_page1 = word_of_int monitor_page1,
      negotiate_version_mon_page2 = word_of_int monitor_page2\<rparr>"

definition vmbus_negotiate_version_print :: "vmbus_negotiate_version_entry \<Rightarrow> trace_item list" where
  "vmbus_negotiate_version_print e =
     [Lit ''sending vmbus_version_requested '', Dec (sint (negotiate_version_ver e)),
      Lit '', target_vcpu 0x'', Hex (unat (negotiate_version_target_vcpu e)), Lit '', pages '',
      Hex (unat (negotiate_version_int_page e)), Lit '':'',
      Hex (unat (negotiate_version_mon_page1 e)), Lit '':'',
      Hex (unat (negotiate_version_mon_page2 e)), Lit '', ret '',
      Dec (sint (negotiate_version_ret e))]"

record vmbus_release_relid_entry =
  release_relid_child_relid :: u32
  release_relid_ret :: i32

definition vmbus_release_relid_assign :: "int \<Rightarrow> int \<Rightarrow> vmbus_release_relid_entry" where
  "vmbus_release_relid_assign child_relid ret =
     \<lparr>release_relid_child_relid = word_of_int child_relid, release_relid_ret = word_of_int ret\<rparr>"

definition vmbus_release_relid_print :: "vmbus_release_relid_entry \<Rightarrow> trace_item list" where
  "vmbus_release_relid_print e =
     [Lit ''sending child_relid 0x'', Hex (unat (release_relid_child_relid e)), Lit '', ret '',
      Dec (sint (release_relid_ret e))]"

record vmbus_send_tl_connect_request_entry =
  send_tl_connect_request_guest_id :: "u8 list"
  send_tl_connect_request_host_id :: "u8 list"
  send_tl_connect_request_ret :: i32

definition vmbus_send_tl_connect_request_assign :: "u8 list \<Rightarrow> u8 list \<Rightarrow> int \<Rightarrow> vmbus_send_tl_connect_request_entry" where
  "vmbus_send_tl_connect_request_assign guest_endpoint_id host_service_id ret =
     \<lparr>send_tl_connect_request_guest_id = guest_endpoint_id,
      send_tl_connect_request_host_id = host_service_id,
      send_tl_connect_request_ret = word_of_int ret\<rparr>"

definition vmbus_send_tl_connect_request_print :: "vmbus_send_tl_connect_request_entry \<Rightarrow> trace_item list" where
  "vmbus_send_tl_connect_request_print e =
     [Lit ''sending guest_endpoint_id '', Uuid (send_tl_connect_request_guest_id e),
      Lit '', host_service_id '', Uuid (send_tl_connect_request_host_id e), Lit '', ret '',
      Dec (sint (send_tl_connect_request_ret e))]"

record vmbus_send_modifychannel_entry =
  send_modifychannel_child_relid :: u32
  send_modifychannel_target_vp :: u32
  send_modifychannel_ret :: i32

definition vmbus_send_modifychannel_assign :: "int \<Rightarrow> int \<Rightarrow> int \<Rightarrow> vmbus_send_modifychannel_entry" where
  "vmbus_send_modifychannel_assign child_relid target_vp ret =
     \<lparr>send_modifychannel_child_relid = word_of_int child_relid,
      send_modifychannel_target_vp = word_of_int target_vp, send_modifychannel_ret = word_of_int ret\<rparr>"

definition vmbus_send_modifychannel_print :: "vmbus_send_modifychannel_entry \<Rightarrow> trace_item list" where
  "vmbus_send_modifychannel_print e =
     [Lit ''binding child_relid 0x'', Hex (unat (send_modifychannel_child_relid e)),
      Lit '' to target_vp 0x'', Hex (unat (send_modifychannel_target_vp e)), Lit '', ret '',
      Dec (sint (send_modifychannel_ret e))]"

record vmbus_channel_entry =
  channel_relid :: u32

definition vmbus_channel_assign :: "int \<Rightarrow> vmbus_channel_entry" where
  "vmbus_channel_assign child_relid =
     \<lparr>channel_relid = word_of_int child_relid\<rparr>"

definition vmbus_channel_print :: "vmbus_channel_entry \<Rightarrow> trace_item list" where
  "vmbus_channel_print e =
     [Lit ''relid 0x'', Hex (unat (channel_relid e))]"

definition vmbus_chan_sched :: "int \<Rightarrow> vmbus_channel_entry" where
  "vmbus_chan_sched = vmbus_channel_assign"

definition vmbus_setevent :: "int \<Rightarrow> vmbus_channel_entry" where
  "vmbus_setevent = vmbus_channel_assign"

definition vmbus_on_event :: "int \<Rightarrow> vmbus_channel_entry" where
  "vmbus_on_event = vmbus_channel_assign"

section \<open>Reading lines\<close>

text \<open>Two lists of parts of one format differ only in their arguments; a number ends the line or is followed by text
  that does not go on with a digit.\<close>

fun same_format :: "trace_item list \<Rightarrow> trace_item list \<Rightarrow> bool" where
  "same_format [] [] = True"
| "same_format (Lit s # is) (Lit t # js) = (s = t \<and> same_format is js)"
| "same_format (Hex n # is) (Hex m # js) = same_format is js"
| "same_format (Dec n # is) (Dec m # js) = same_format is js"
| "same_format (Uuid a # is) (Uuid b # js) = (length a = 16 \<and> length b = 16 \<and> same_format is js)"
| "same_format is js = False"

definition no_digit :: "char \<Rightarrow> bool" where
  "no_digit c \<longleftrightarrow> 16 \<le> digval c \<and> c \<noteq> CHR ''-''"

fun ends_number :: "trace_item list \<Rightarrow> bool" where
  "ends_number [] = True"
| "ends_number (Lit t # is) = (t \<noteq> [] \<and> no_digit (hd t))"
| "ends_number is = False"

fun separated :: "trace_item list \<Rightarrow> bool" where
  "separated [] = True"
| "separated (Lit t # is) = separated is"
| "separated (Hex n # is) = (ends_number is \<and> separated is)"
| "separated (Dec n # is) = (ends_number is \<and> separated is)"
| "separated (Uuid bs # is) = separated is"

lemma fmt_u_chars: "c \<in> set (fmt_u n) \<Longrightarrow> \<exists>k<10. c = hexdig k"
proof (induction n rule: fmt_u.induct)
  case (1 n)
  show ?case
  proof (cases "n < 10")
    case True
    then show ?thesis using "1.prems" by (auto simp: fmt_u.simps [of n])
  next
    case False
    then have "c \<in> set (fmt_u (n div 10)) \<or> c = hexdig (n mod 10)" using "1.prems" by (auto simp: fmt_u.simps [of n])
    moreover have "n mod 10 < 10" by simp
    ultimately show ?thesis using False "1.IH" by blast
  qed
qed

lemma hexdig_digit: "k < 16 \<Longrightarrow> \<not> no_digit (hexdig k)"
  by (simp add: no_digit_def)

lemma dash_digit: "\<not> no_digit (CHR ''-'')" by (simp add: no_digit_def)

lemma numbers_are_digits: "c \<in> set (fmt_x n) \<Longrightarrow> \<not> no_digit c" "c \<in> set (fmt_d i) \<Longrightarrow> \<not> no_digit c"
proof -
  show "c \<in> set (fmt_x n) \<Longrightarrow> \<not> no_digit c" using fmt_x_digits hexdig_digit by blast
  assume "c \<in> set (fmt_d i)"
  then have "c = CHR ''-'' \<or> (\<exists>n. c \<in> set (fmt_u n))" by (auto simp: fmt_d_def split: if_splits)
  moreover have "\<exists>k<16. c = hexdig k" if "c \<in> set (fmt_u n)" for n
  proof -
    obtain k where "k < 10" "c = hexdig k" using fmt_u_chars [OF \<open>c \<in> set (fmt_u n)\<close>] by blast
    then show ?thesis by (intro exI [of _ k]) simp
  qed
  ultimately have "c = CHR ''-'' \<or> (\<exists>k<16. c = hexdig k)" by blast
  then show "\<not> no_digit c" using hexdig_digit dash_digit by auto
qed

lemma fmt_x_eq: "fmt_x n = fmt_x m \<longleftrightarrow> n = m"
  by (metis digits_value_fmt_x)

lemma fmt_u_eq: "fmt_u n = fmt_u m \<longleftrightarrow> n = m"
  by (metis digits_value_fmt_u)

lemma fmt_d_eq: "fmt_d i = fmt_d j \<longleftrightarrow> i = j"
proof -
  have "CHR ''-'' \<notin> set (fmt_u n)" for n
    using fmt_u_chars [of "CHR ''-''" n] by (auto simp: hexdig_def less_Suc_eq numeral_eq_Suc)
  then have "''-'' @ fmt_u n \<noteq> fmt_u m" for n m by (metis append_Cons list.set_intros(1))
  then show ?thesis by (auto simp: fmt_d_def fmt_u_eq dest: sym)
qed

lemma length_byte_text [simp]: "length (byte_text b) = 2"
  using unsigned_less [of b, where ?'a = nat] by (simp add: byte_text_def length_fmt_0x)

lemma byte_text_eq [simp]: "byte_text a = byte_text b \<longleftrightarrow> a = b"
  by (simp add: byte_text_def fmt_0x_inj word_unat_eq_iff)

lemma length_fmt_pUl [simp]: "length (fmt_pUl bs) = 36"
  by (simp add: fmt_pUl_def)

lemma sixteen_nth: "length xs = 16 \<Longrightarrow> length ys = 16 \<Longrightarrow> (\<And>k. k \<in> {0..<16} \<Longrightarrow> xs ! k = ys ! k) \<Longrightarrow> xs = ys"
  by (rule nth_equalityI) auto

lemma fmt_pUl_eq: "length a = 16 \<Longrightarrow> length b = 16 \<Longrightarrow> fmt_pUl a = fmt_pUl b \<longleftrightarrow> a = b"
proof
  assume l: "length a = 16" "length b = 16" and e: "fmt_pUl a = fmt_pUl b"
  have r: "{0..<16} = {0, 1, 2, 3, 4, 5, 6, 7, 8, 9, 10, 11, 12, 13, 14, 15 :: nat}"
    by (auto simp: less_Suc_eq numeral_eq_Suc)
  show "a = b" by (rule sixteen_nth [OF l]) (use e in \<open>auto simp: r fmt_pUl_def\<close>)
qed simp

text \<open>A number is the longest run of digits at its place.\<close>

lemma digits_split:
  assumes "x @ u = y @ v" "\<forall>c\<in>set x. \<not> P c" "\<forall>c\<in>set y. \<not> P c" "u = [] \<or> P (hd u)" "v = [] \<or> P (hd v)"
  shows "x = y \<and> u = v"
proof -
  have tw: "takeWhile (\<lambda>c. \<not> P c) (z @ w) = z" if "\<forall>c\<in>set z. \<not> P c" "w = [] \<or> P (hd w)" for z w
    using that by (cases w) (simp_all add: takeWhile_append2)
  from tw [OF assms(2,4)] tw [OF assms(3,5)] assms(1) have "x = y" by simp
  then show ?thesis using assms(1) by simp
qed

lemma ends_number_text: "ends_number is \<Longrightarrow> trace_text is = [] \<or> no_digit (hd (trace_text is))"
  by (cases "is" rule: ends_number.cases) (auto simp: trace_text_def)

lemma ends_number_same: "same_format is js \<Longrightarrow> ends_number is = ends_number js"
  by (cases "(is, js)" rule: same_format.cases) auto

text \<open>The line determines the arguments.\<close>

lemma trace_text_eq:
  "same_format is js \<Longrightarrow> separated is \<Longrightarrow> trace_text is = trace_text js \<Longrightarrow> is = js"
proof (induction "is" js rule: same_format.induct)
  case (2 s "is" t js)
  then show ?case by (simp add: trace_text_def)
next
  case (3 n "is" m js)
  have "fmt_x n @ trace_text is = fmt_x m @ trace_text js" using 3 by (simp add: trace_text_def)
  moreover have "ends_number is" "ends_number js" using 3 ends_number_same by auto
  ultimately have "fmt_x n = fmt_x m \<and> trace_text is = trace_text js"
    using numbers_are_digits(1) ends_number_text by (intro digits_split [where P = no_digit]) blast+
  then show ?case using 3 by (simp add: fmt_x_eq)
next
  case (4 n "is" m js)
  have "fmt_d n @ trace_text is = fmt_d m @ trace_text js" using 4 by (simp add: trace_text_def)
  moreover have "ends_number is" "ends_number js" using 4 ends_number_same by auto
  ultimately have "fmt_d n = fmt_d m \<and> trace_text is = trace_text js"
    using numbers_are_digits(2) ends_number_text by (intro digits_split [where P = no_digit]) blast+
  then show ?case using 4 by (simp add: fmt_d_eq)
next
  case (5 a "is" b js)
  have "fmt_pUl a @ trace_text is = fmt_pUl b @ trace_text js" using 5 by (simp add: trace_text_def)
  then have "fmt_pUl a = fmt_pUl b \<and> trace_text is = trace_text js" by simp
  then show ?case using 5 by (simp add: fmt_pUl_eq)
qed simp_all

lemma inj_print:
  assumes "\<And>e f. e \<in> S \<Longrightarrow> f \<in> S \<Longrightarrow> same_format (P e) (P f)" "\<And>e. separated (P e)"
    "\<And>e f. P e = P f \<Longrightarrow> e = f"
  shows "inj_on (\<lambda>e. trace_text (P e)) S"
proof (rule inj_onI)
  fix e f assume "e \<in> S" "f \<in> S" "trace_text (P e) = trace_text (P f)"
  then have "P e = P f" using assms(1,2) by (blast intro: trace_text_eq)
  then show "e = f" by (rule assms(3))
qed

lemma word_args: "(unat a = unat b) = (a = b)" "(uint a = uint b) = (a = b)" "(sint a = sint b) = (a = b)"
  by (simp_all only: word_unat_eq_iff [symmetric] word_uint_eq_iff [symmetric] word_eq_iff_signed [symmetric])

lemmas print_eval = no_digit_def digval_def word_args

lemma vmbus_hdr_msg_inj: "inj_on (\<lambda>e. trace_text (vmbus_hdr_msg_print e)) UNIV"
  by (rule inj_print) (auto simp: vmbus_hdr_msg_print_def print_eval intro: vmbus_hdr_msg_entry.equality)

lemma vmbus_onoffer_inj: "inj_on (\<lambda>e. trace_text (vmbus_onoffer_print e)) {e. length (onoffer_if_type e) = 16 \<and> length (onoffer_if_instance e) = 16}"
  by (rule inj_print) (auto simp: vmbus_onoffer_print_def print_eval intro: vmbus_onoffer_entry.equality)

lemma vmbus_onoffer_rescind_inj: "inj_on (\<lambda>e. trace_text (vmbus_onoffer_rescind_print e)) UNIV"
  by (rule inj_print) (auto simp: vmbus_onoffer_rescind_print_def print_eval intro: vmbus_onoffer_rescind_entry.equality)

lemma vmbus_onopen_result_inj: "inj_on (\<lambda>e. trace_text (vmbus_onopen_result_print e)) UNIV"
  by (rule inj_print) (auto simp: vmbus_onopen_result_print_def print_eval intro: vmbus_onopen_result_entry.equality)

lemma vmbus_ongpadl_created_inj: "inj_on (\<lambda>e. trace_text (vmbus_ongpadl_created_print e)) UNIV"
  by (rule inj_print) (auto simp: vmbus_ongpadl_created_print_def print_eval intro: vmbus_ongpadl_created_entry.equality)

lemma vmbus_onmodifychannel_response_inj: "inj_on (\<lambda>e. trace_text (vmbus_onmodifychannel_response_print e)) UNIV"
  by (rule inj_print) (auto simp: vmbus_onmodifychannel_response_print_def print_eval intro: vmbus_onmodifychannel_response_entry.equality)

lemma vmbus_ongpadl_torndown_inj: "inj_on (\<lambda>e. trace_text (vmbus_ongpadl_torndown_print e)) UNIV"
  by (rule inj_print) (auto simp: vmbus_ongpadl_torndown_print_def print_eval intro: vmbus_ongpadl_torndown_entry.equality)

lemma vmbus_onversion_response_inj: "inj_on (\<lambda>e. trace_text (vmbus_onversion_response_print e)) UNIV"
  by (rule inj_print) (auto simp: vmbus_onversion_response_print_def print_eval intro: vmbus_onversion_response_entry.equality)

lemma vmbus_request_offers_inj: "inj_on (\<lambda>e. trace_text (vmbus_request_offers_print e)) UNIV"
  by (rule inj_print) (auto simp: vmbus_request_offers_print_def print_eval intro: vmbus_request_offers_entry.equality)

lemma vmbus_open_inj: "inj_on (\<lambda>e. trace_text (vmbus_open_print e)) UNIV"
  by (rule inj_print) (auto simp: vmbus_open_print_def print_eval intro: vmbus_open_entry.equality)

lemma vmbus_close_internal_inj: "inj_on (\<lambda>e. trace_text (vmbus_close_internal_print e)) UNIV"
  by (rule inj_print) (auto simp: vmbus_close_internal_print_def print_eval intro: vmbus_close_internal_entry.equality)

lemma vmbus_establish_gpadl_header_inj: "inj_on (\<lambda>e. trace_text (vmbus_establish_gpadl_header_print e)) UNIV"
  by (rule inj_print) (auto simp: vmbus_establish_gpadl_header_print_def print_eval intro: vmbus_establish_gpadl_header_entry.equality)

lemma vmbus_establish_gpadl_body_inj: "inj_on (\<lambda>e. trace_text (vmbus_establish_gpadl_body_print e)) UNIV"
  by (rule inj_print) (auto simp: vmbus_establish_gpadl_body_print_def print_eval intro: vmbus_establish_gpadl_body_entry.equality)

lemma vmbus_teardown_gpadl_inj: "inj_on (\<lambda>e. trace_text (vmbus_teardown_gpadl_print e)) UNIV"
  by (rule inj_print) (auto simp: vmbus_teardown_gpadl_print_def print_eval intro: vmbus_teardown_gpadl_entry.equality)

lemma vmbus_negotiate_version_inj: "inj_on (\<lambda>e. trace_text (vmbus_negotiate_version_print e)) UNIV"
  by (rule inj_print) (auto simp: vmbus_negotiate_version_print_def print_eval intro: vmbus_negotiate_version_entry.equality)

lemma vmbus_release_relid_inj: "inj_on (\<lambda>e. trace_text (vmbus_release_relid_print e)) UNIV"
  by (rule inj_print) (auto simp: vmbus_release_relid_print_def print_eval intro: vmbus_release_relid_entry.equality)

lemma vmbus_send_tl_connect_request_inj: "inj_on (\<lambda>e. trace_text (vmbus_send_tl_connect_request_print e)) {e. length (send_tl_connect_request_guest_id e) = 16 \<and> length (send_tl_connect_request_host_id e) = 16}"
  by (rule inj_print) (auto simp: vmbus_send_tl_connect_request_print_def print_eval intro: vmbus_send_tl_connect_request_entry.equality)

lemma vmbus_send_modifychannel_inj: "inj_on (\<lambda>e. trace_text (vmbus_send_modifychannel_print e)) UNIV"
  by (rule inj_print) (auto simp: vmbus_send_modifychannel_print_def print_eval intro: vmbus_send_modifychannel_entry.equality)

lemma vmbus_channel_inj: "inj_on (\<lambda>e. trace_text (vmbus_channel_print e)) UNIV"
  by (rule inj_print) (auto simp: vmbus_channel_print_def print_eval intro: vmbus_channel_entry.equality)

section \<open>Properties\<close>


end
