(* ===== verification/Native_HvGin.thy ===== *)
theory Native_HvGin
  imports Hv_Devices
begin

text \<open>
  \<open>main.cpp\<close>: mounting a Plan 9 share of the host over a VM socket, registering a device class with the
  UIO driver through sysfs, and the program's entry point.

  The calls of the C library and of the kernel are an environment: for each call the error it
  reports (\<open>None\<close> when it succeeds).  A stream is buffered: \<open>fprintf\<close> fills the buffer and the text reaches
  the kernel when \<open>fclose\<close> flushes it, so a write that the kernel refuses is reported by \<open>fclose\<close>.
  The functions return the error code, the calls made and what the kernel received.

  Shown: which error is returned, that every socket is closed and the mount happens only on a
  connected socket; that the registration never reports a short write, because the text of a
  GUID always has 36 characters; and that it reports success when only \<open>fclose\<close> fails.
\<close>

section \<open>Definitions\<close>

datatype ncall =
    Socket_call
  | Connect nat u32            \<comment> \<open>socket, port\<close>
  | Setsockopt_sndbuf nat u32
  | Mount string string bool string    \<comment> \<open>source, target, read-only, options\<close>
  | Close nat

record mount_env =
  me_socket :: "int + nat"     \<comment> \<open>errno or the descriptor\<close>
  me_connect :: "int option"
  me_setsockopt :: "int option"
  me_mount :: "int option"

text \<open>A \<open>MO_UINT32\<close> passed for \<open>%d\<close> is read as signed.\<close>

definition mount_options :: "nat \<Rightarrow> u32 \<Rightarrow> string \<Rightarrow> string" where
  "mount_options Socket BufferSize AccessName =
     ''trans=fd,rfdno='' @ fmt_d (int Socket) @ '',wfdno='' @ fmt_d (int Socket) @ '',msize='' @
     fmt_d (sint BufferSize) @ '',noload,aname='' @ AccessName"

definition HvGinMountHcsPlan9Share ::
    "mount_env \<Rightarrow> u32 \<Rightarrow> string \<Rightarrow> string \<Rightarrow> bool \<Rightarrow> u32 \<Rightarrow> int \<times> ncall list" where
  "HvGinMountHcsPlan9Share env Port AccessName MountPoint ReadOnly BufferSize =
     (case me_socket env of
        Inl errno \<Rightarrow> (errno, [Socket_call])
      | Inr Socket \<Rightarrow>
          let (ErrorCode, calls) =
            (case me_connect env of
               Some errno \<Rightarrow> (errno, [])
             | None \<Rightarrow>
                 (case me_setsockopt env of
                    Some errno \<Rightarrow> (errno, [Setsockopt_sndbuf Socket BufferSize])
                  | None \<Rightarrow>
                      (case me_mount env of Some errno \<Rightarrow> errno | None \<Rightarrow> 0,
                       [Setsockopt_sndbuf Socket BufferSize,
                        Mount AccessName MountPoint ReadOnly (mount_options Socket BufferSize AccessName)])))
          in (ErrorCode, [Socket_call, Connect Socket Port] @ calls @ [Close Socket]))"

record file_env =
  fe_fopen :: "int option"
  fe_fprintf :: "int option"
  fe_fclose :: "int option"

definition GuidStringLength :: int where "GuidStringLength = 36"

text \<open>The result is the error code and the text that the kernel received, if any.\<close>

definition HvGinUioRegisterDevice :: "file_env \<Rightarrow> guid option \<Rightarrow> int \<times> string option" where
  "HvGinUioRegisterDevice env ClassId =
     (case ClassId of
        None \<Rightarrow> (EINVAL, None)
      | Some g \<Rightarrow>
          (case fe_fopen env of
             Some errno \<Rightarrow> (errno, None)
           | None \<Rightarrow>
               let text = guid_text g;
                   (ErrorCode, written) =
                     (case fe_fprintf env of
                        Some errno \<Rightarrow> (errno, None)
                      | None \<Rightarrow> (if int (length text) \<noteq> GuidStringLength then EIO else 0, Some text))
               in (ErrorCode, if fe_fclose env = None then written else None)))"

text \<open>\<open>main\<close>: the lines printed and the exit status.\<close>

definition HvMicrosoftHypervisorInterface :: u32 where
  "HvMicrosoftHypervisorInterface = 0x31237648"

definition hvgin_main :: "u32 \<Rightarrow> mount_env \<Rightarrow> string list \<times> int" where
  "hvgin_main interface env =
     ((if interface = HvMicrosoftHypervisorInterface then [''HvGin is running on Microsoft Hyper-V!''] else [])
      @ [''HvGinMountHcsPlan9ReadOnlyShare returns '' @
           fmt_d (fst (HvGinMountHcsPlan9Share env 50001 ''HostDriverStore''
             ''/home/mouri/dxguser/HostDriverStore'' True 65536)),
         ''HvGin say hello to you!''], 0)"

section \<open>Properties\<close>

text \<open>The calls after which the function gives up, in order.\<close>

fun first_error :: "int option list \<Rightarrow> int" where
  "first_error [] = 0"
| "first_error (Some e # es) = e"
| "first_error (None # es) = first_error es"

text \<open>Mounting a share returns the error of the first call that fails, and 0 when none does; the socket it
  opened is closed on every path, as the last call and once, and the share is mounted only
  after the socket was connected and its buffer set.\<close>

theorem mount_share_closes_socket:
  assumes "me_socket env = Inr s"
  shows "fst (HvGinMountHcsPlan9Share env port name dir ro n)
      = first_error [me_connect env, me_setsockopt env, me_mount env]
    \<and> last (snd (HvGinMountHcsPlan9Share env port name dir ro n)) = Close s
    \<and> count_list (snd (HvGinMountHcsPlan9Share env port name dir ro n)) (Close s) = 1
    \<and> (Mount name dir ro (mount_options s n name) \<in> set (snd (HvGinMountHcsPlan9Share env port name dir ro n))
         \<longleftrightarrow> me_connect env = None \<and> me_setsockopt env = None)"
  using assms by (auto simp: HvGinMountHcsPlan9Share_def split: option.splits)

theorem mount_share_closes_socket_witness:
  "last (snd (HvGinMountHcsPlan9Share
     \<lparr>me_socket = Inr 3, me_connect = Some 111, me_setsockopt = None, me_mount = None\<rparr> 50001 ''a'' ''/m'' True 65536)) = Close 3"
  using mount_share_closes_socket [of "\<lparr>me_socket = Inr 3, me_connect = Some 111, me_setsockopt = None, me_mount = None\<rparr>" 3
     50001 "''a''" "''/m''" True 65536] by simp

text \<open>C38. Registering a class fails only with the error of \<open>fopen\<close> or \<open>fprintf\<close>, never with a short write: for every
  GUID the text has 36 characters.  When no call fails the kernel has received exactly the text of the
  GUID, which belongs to no other GUID; but when only the flush in \<open>fclose\<close> fails, the function still
  returns 0 although the kernel received nothing.\<close>

theorem register_device_result:
  assumes "wf_guid g"
  shows "fst (HvGinUioRegisterDevice env (Some g)) = first_error [fe_fopen env, fe_fprintf env]
    \<and> (fe_fopen env = None \<and> fe_fprintf env = None \<longrightarrow>
         snd (HvGinUioRegisterDevice env (Some g)) = (if fe_fclose env = None then Some (guid_text g) else None))
    \<and> (wf_guid h \<and> guid_text h = guid_text g \<longrightarrow> h = g)"
  using assms guid_text_inj [of h g]
  by (cases "fe_fopen env"; cases "fe_fprintf env")
    (auto simp: HvGinUioRegisterDevice_def GuidStringLength_def guid_text_length Let_def)

theorem register_device_result_witness:
  "HvGinUioRegisterDevice \<lparr>fe_fopen = None, fe_fprintf = None, fe_fclose = Some EIO\<rparr> (Some SYNTHRDP_DATA_CLASS_ID)
     = (0, None)"
  using register_device_result [of SYNTHRDP_DATA_CLASS_ID "\<lparr>fe_fopen = None, fe_fprintf = None, fe_fclose = Some EIO\<rparr>"]
  by (simp add: wf_guid_def SYNTHRDP_DATA_CLASS_ID_def prod_eq_iff)

end
