(* ===== verification/Posix_Helpers.thy ===== *)
theory Posix_Helpers
  imports Native_HvGin
begin

text \<open>
  \<open>Mile.Helpers.CppBase\<close>: the helpers of the native client for formatting strings, for reading numbers and for work at the
  end of a scope.

  \<open>vsnprintf\<close> with a format and its arguments is a parameter: a function from the size of the buffer (\<open>None\<close> for
  no buffer) to the result and the characters written; \<open>formats\<close> is its documented behaviour.  The \<open>strto\<close> functions of the C
  library are modelled as the C standard describes them, with a \<open>long\<close> of 64 bits as on Linux: white space, a sign, the
  prefix of a radix, digits; a value out of range is replaced by the nearest bound.

  Shown: \<open>VFormatString\<close> returns the text or, when formatting fails, the empty string, so that the mount options are those
  that \<open>mount_options\<close> gives; the conversions read printed numbers back, with saturation at 64 bits but
  silent wrap-around of the 32-bit variants.
\<close>

section \<open>Formatting\<close>

type_synonym vsnprintf_fn = "nat option \<Rightarrow> int \<times> string"

definition VFormatString :: "vsnprintf_fn \<Rightarrow> string" where
  "VFormatString vsnprintf =
     (let Length = fst (vsnprintf None) in
      if Length > 0 then
        let (Length2, written) = vsnprintf (Some (nat Length + 1)) in
        if Length2 > 0 then take (nat Length2) (written @ replicate (nat Length2) (CHR 0x00)) else []
      else [])"

definition FormatString :: "vsnprintf_fn \<Rightarrow> string" where
  "FormatString vsnprintf = VFormatString vsnprintf"

text \<open>\<open>vsnprintf\<close> returns the length of the whole text and writes what fits beside the final NUL.\<close>

definition formats :: "vsnprintf_fn \<Rightarrow> string \<Rightarrow> bool" where
  "formats f text \<longleftrightarrow> (\<forall>b. f b = (int (length text), case b of None \<Rightarrow> [] | Some n \<Rightarrow> take (n - 1) text))"

section \<open>Scopes\<close>

record 's ScopeExitTaskHandler =
  m_Canceled :: bool
  m_TaskHandler :: "'s \<Rightarrow> 's"

definition new_ScopeExitTaskHandler :: "('s \<Rightarrow> 's) \<Rightarrow> 's ScopeExitTaskHandler" where
  "new_ScopeExitTaskHandler EventHandler = \<lparr>m_Canceled = False, m_TaskHandler = EventHandler\<rparr>"

definition Cancel :: "'s ScopeExitTaskHandler \<Rightarrow> 's ScopeExitTaskHandler" where
  "Cancel h = h\<lparr>m_Canceled := True\<rparr>"

definition end_of_scope :: "'s ScopeExitTaskHandler \<Rightarrow> 's \<Rightarrow> 's" where
  "end_of_scope h s = (if m_Canceled h then s else m_TaskHandler h s)"

section \<open>Reading numbers\<close>

definition c_space :: "char \<Rightarrow> bool" where
  "c_space c \<longleftrightarrow> c \<in> {CHR '' '', CHR 0x09, CHR 0x0A, CHR 0x0B, CHR 0x0C, CHR 0x0D}"

definition digit_of :: "char \<Rightarrow> nat" where
  "digit_of c =
     (let n = of_char c in
      if 48 \<le> n \<and> n \<le> 57 then n - 48 else if 97 \<le> n \<and> n \<le> 122 then n - 87
      else if 65 \<le> n \<and> n \<le> 90 then n - 55 else 36)"

fun strto_sign :: "string \<Rightarrow> bool \<times> string" where
  "strto_sign (c # t) = (if c = CHR ''-'' then (True, t) else if c = CHR ''+'' then (False, t) else (False, c # t))"
| "strto_sign [] = (False, [])"

definition strto_base :: "nat \<Rightarrow> string \<Rightarrow> nat \<times> string" where
  "strto_base radix t =
     (if (radix = 0 \<or> radix = 16) \<and> 3 \<le> length t \<and> t ! 0 = CHR ''0'' \<and> (t ! 1 = CHR ''x'' \<or> t ! 1 = CHR ''X'')
         \<and> digit_of (t ! 2) < 16
      then (16, drop 2 t)
      else if radix = 0 then (if t \<noteq> [] \<and> hd t = CHR ''0'' then 8 else 10, t)
      else (radix, t))"

definition strto_value :: "nat \<Rightarrow> string \<Rightarrow> nat" where
  "strto_value b t = foldl (\<lambda>a c. a * b + digit_of c) 0 (takeWhile (\<lambda>c. digit_of c < b) t)"

definition strto_parse :: "nat \<Rightarrow> string \<Rightarrow> bool \<times> nat" where
  "strto_parse radix s =
     (if radix = 1 \<or> 36 < radix then (False, 0)
      else
        let (neg, t) = strto_sign (dropWhile c_space s); (b, u) = strto_base radix t
        in (neg, strto_value b u))"

definition strtol :: "string \<Rightarrow> nat \<Rightarrow> int" where
  "strtol s radix =
     (let (neg, n) = strto_parse radix s
      in max (- (2 ^ 63)) (min (2 ^ 63 - 1) (if neg then - int n else int n)))"

definition strtoul :: "string \<Rightarrow> nat \<Rightarrow> u64" where
  "strtoul s radix =
     (let (neg, n) = strto_parse radix s
      in if 2 ^ 64 \<le> n then - 1 else if neg then - of_nat n else of_nat n)"

definition Mile_ToInt32 :: "string \<Rightarrow> u8 \<Rightarrow> u32" where
  "Mile_ToInt32 Source Radix = word_of_int (strtol Source (unat Radix))"

definition Mile_ToInt64 :: "string \<Rightarrow> u8 \<Rightarrow> u64" where
  "Mile_ToInt64 Source Radix = word_of_int (strtol Source (unat Radix))"

definition Mile_ToUInt32 :: "string \<Rightarrow> u8 \<Rightarrow> u32" where
  "Mile_ToUInt32 Source Radix = ucast (strtoul Source (unat Radix))"

definition Mile_ToUInt64 :: "string \<Rightarrow> u8 \<Rightarrow> u64" where
  "Mile_ToUInt64 Source Radix = strtoul Source (unat Radix)"

section \<open>Printed numbers\<close>

lemma digit_of_hexdig: "k < 16 \<Longrightarrow> digit_of (hexdig k) = k"
  by (auto simp: digit_of_def hexdig_def less_Suc_eq numeral_eq_Suc)

lemma printed_not_sign: "k < 16 \<Longrightarrow> hexdig k \<notin> {CHR ''-'', CHR ''+'', CHR '' '', CHR 0x09, CHR 0x0A, CHR 0x0B, CHR 0x0C, CHR 0x0D}"
  by (auto simp: hexdig_def less_Suc_eq numeral_eq_Suc)

lemma fmt_u_first: "\<exists>k r. k < 10 \<and> fmt_u n = hexdig k # r"
proof (induction n rule: fmt_u.induct)
  case (1 n)
  then show ?case by (cases "n < 10") (auto simp: fmt_u.simps [of n])
qed

lemma fmt_u_decimal: "c \<in> set (fmt_u n) \<Longrightarrow> digit_of c < 10"
proof (induction n rule: fmt_u.induct)
  case (1 n)
  then show ?case by (cases "n < 10") (auto simp: fmt_u.simps [of n] digit_of_hexdig)
qed

lemma strto_value_printed:
  assumes "rest = [] \<or> 10 \<le> digit_of (hd rest)"
  shows "strto_value 10 (fmt_u n @ rest) = n"
proof -
  have "takeWhile (\<lambda>c. digit_of c < 10) (fmt_u n @ rest) = fmt_u n"
    using assms fmt_u_decimal by (cases rest) simp_all
  moreover have "foldl (\<lambda>a c. a * 10 + digit_of c) 0 (fmt_u n) = n"
  proof (induction n rule: fmt_u.induct)
    case (1 n)
    then show ?case by (cases "n < 10") (simp_all add: fmt_u.simps [of n] digit_of_hexdig)
  qed
  ultimately show ?thesis by (simp add: strto_value_def)
qed

lemma strto_parse_printed:
  assumes "rest = [] \<or> 10 \<le> digit_of (hd rest)" "\<forall>c\<in>set spaces. c_space c"
  shows "strto_parse 10 (spaces @ fmt_d i @ rest) = (i < 0, nat \<bar>i\<bar>)"
proof -
  obtain k r where u: "k < 10" "fmt_u (nat \<bar>i\<bar>) = hexdig k # r" using fmt_u_first by blast
  have "hexdig k \<notin> {CHR ''-'', CHR ''+''}" "\<not> c_space (hexdig k)"
    using printed_not_sign [of k] u(1) by (auto simp: c_space_def)
  moreover have "\<not> c_space (CHR ''-'')" by (simp add: c_space_def)
  ultimately have "strto_sign (dropWhile c_space (spaces @ fmt_d i @ rest)) = (i < 0, fmt_u (nat \<bar>i\<bar>) @ rest)"
    using assms(2) u(2) by (auto simp: fmt_d_def)
  then show ?thesis using strto_value_printed [OF assms(1)] by (simp add: strto_parse_def strto_base_def)
qed

section \<open>Properties\<close>

text \<open>\<open>VFormatString\<close> returns exactly the formatted text when \<open>vsnprintf\<close> behaves as documented, and the empty string when
  either of its two calls reports an error; so the options with which a share is mounted are those of
  \<open>mount_options\<close>.\<close>

theorem format_string_exact:
  shows "(formats f text \<longrightarrow> FormatString f = text)
    \<and> (fst (f None) < 0 \<or> (\<forall>n. fst (f (Some n)) < 0) \<longrightarrow> FormatString f = [])
    \<and> (formats f (mount_options Socket BufferSize AccessName) \<longrightarrow>
         FormatString f = mount_options Socket BufferSize AccessName)"
proof -
  have ok: "FormatString f = t" if "formats f t" for t
    using that by (cases t) (auto simp: FormatString_def VFormatString_def formats_def Let_def)
  have err: "FormatString f = []" if "fst (f None) < 0 \<or> (\<forall>n. fst (f (Some n)) < 0)"
    using that
  proof
    assume "\<forall>n. fst (f (Some n)) < 0"
    then have "\<not> 0 < fst (f (Some (nat (fst (f None)) + 1)))" by (simp add: not_less less_imp_le)
    then show ?thesis by (simp add: FormatString_def VFormatString_def Let_def case_prod_beta)
  qed (simp add: FormatString_def VFormatString_def Let_def)
  show ?thesis using ok err by blast
qed

theorem format_string_exact_witness:
  "FormatString (\<lambda>b. (2, case b of None \<Rightarrow> [] | Some n \<Rightarrow> take (n - 1) ''ok'')) = ''ok''"
  using format_string_exact [of "\<lambda>b. (2, case b of None \<Rightarrow> [] | Some n \<Rightarrow> take (n - 1) ''ok'')" "''ok''"]
  by (simp add: formats_def)

text \<open>C40. The conversions read a printed decimal number back, after any white space and up to the first character that is
  not a digit.  \<open>ToInt64\<close> replaces a number out of its range by the nearest bound.  \<open>ToInt32\<close> does not: \<open>long\<close> has 64
  bits, and the upper half is cut off, so it is exact only in the range of 32 bits and wraps around elsewhere; the
  unsigned variants accept a minus sign and negate.\<close>

theorem conversions_read_printed:
  assumes "\<forall>c\<in>set spaces. c_space c" "rest = [] \<or> 10 \<le> digit_of (hd rest)"
    and s: "s = spaces @ fmt_d i @ rest"
  shows "sint (Mile_ToInt64 s 10) = max (- (2 ^ 63)) (min (2 ^ 63 - 1) i)
    \<and> (- (2 ^ 63) \<le> i \<and> i < 2 ^ 63 \<longrightarrow> sint (Mile_ToInt32 s 10) = signed_take_bit 31 i)
    \<and> (- (2 ^ 64) < i \<and> i < 2 ^ 64 \<longrightarrow> Mile_ToUInt64 s 10 = word_of_int i \<and> Mile_ToUInt32 s 10 = word_of_int i)"
proof -
  have p: "strto_parse 10 s = (i < 0, nat \<bar>i\<bar>)"
    using strto_parse_printed [OF assms(2,1), of i] by (simp add: s)
  have l: "strtol s 10 = max (- (2 ^ 63)) (min (2 ^ 63 - 1) i)"
    by (simp only: strtol_def p) auto
  have "sint (word_of_int j :: u64) = j" if "- (2 ^ 63) \<le> j" "j < 2 ^ 63" for j
    using that by (simp add: sint_sbintrunc' signed_take_bit_int_eq_self)
  then have "sint (Mile_ToInt64 s 10) = max (- (2 ^ 63)) (min (2 ^ 63 - 1) i)"
    by (simp add: Mile_ToInt64_def l)
  moreover have "sint (Mile_ToInt32 s 10) = signed_take_bit 31 i" if "- (2 ^ 63) \<le> i" "i < 2 ^ 63"
    using that by (simp add: Mile_ToInt32_def l sint_sbintrunc')
  moreover have "strtoul s 10 = word_of_int i" if "- (2 ^ 64) < i" "i < 2 ^ 64"
    using that by (auto simp: strtoul_def p abs_if)
  moreover have "(ucast (word_of_int i :: u64) :: u32) = word_of_int i" by (rule bit_word_eqI) (auto simp: bit_simps)
  ultimately show ?thesis by (simp add: Mile_ToUInt64_def Mile_ToUInt32_def)
qed

theorem conversions_read_printed_witness:
  "sint (Mile_ToInt64 '' -12;'' 10) = -12 \<and> sint (Mile_ToInt32 '' -12;'' 10) = -12"
proof -
  have "'' -12;'' = '' '' @ fmt_d (-12) @ '';''" by (simp add: fmt_d_def fmt_u.simps hexdig_def)
  from conversions_read_printed [OF _ _ this] show ?thesis by (simp add: c_space_def digit_of_def)
qed

end
