(* ===== verification/Portable_Types.thy ===== *)
theory Portable_Types
  imports CLayout
begin

text \<open>
  \<open>Mile.Mobility.Portable.Types.h\<close>: the integer types and their limits, the small arithmetic macros, and the macros that walk
  over variable arguments, for each target of the Microsoft compiler (GCC and Clang use their own built-in ones).

  Shown: the limits are exactly those of the types, except for \<open>MO_CHAR\<close>, whose type is signed on x64; a read of
  an argument stays between the old and the new position of the marker and, where the target aligns arguments, is aligned.
\<close>

unbundle bit_operations_syntax

section \<open>Integers\<close>

text \<open>The types, for the layout of structures, which does not depend on the sign; \<open>lp64\<close> is a target with 64-bit pointers.\<close>

definition MO_INT8 :: cty where "MO_INT8 = U8"
definition MO_INT16 :: cty where "MO_INT16 = U16"
definition MO_INT32 :: cty where "MO_INT32 = U32"
definition MO_INT64 :: cty where "MO_INT64 = U64"
definition MO_UINT8 :: cty where "MO_UINT8 = U8"
definition MO_UINT16 :: cty where "MO_UINT16 = U16"
definition MO_UINT32 :: cty where "MO_UINT32 = U32"
definition MO_UINT64 :: cty where "MO_UINT64 = U64"
definition MO_INTN :: "bool \<Rightarrow> cty" where "MO_INTN lp64 = (if lp64 then MO_INT64 else MO_INT32)"
definition MO_UINTN :: "bool \<Rightarrow> cty" where "MO_UINTN lp64 = (if lp64 then MO_UINT64 else MO_UINT32)"
definition MO_BOOL :: cty where "MO_BOOL = MO_UINT8"
definition MO_WIDE_CHAR :: cty where "MO_WIDE_CHAR = MO_UINT16"

definition MO_INT8_MAX :: int where "MO_INT8_MAX = 0x7F"
definition MO_INT16_MAX :: int where "MO_INT16_MAX = 0x7FFF"
definition MO_INT32_MAX :: int where "MO_INT32_MAX = 0x7FFFFFFF"
definition MO_INT64_MAX :: int where "MO_INT64_MAX = 0x7FFFFFFFFFFFFFFF"
definition MO_INT8_MIN :: int where "MO_INT8_MIN = - MO_INT8_MAX - 1"
definition MO_INT16_MIN :: int where "MO_INT16_MIN = - MO_INT16_MAX - 1"
definition MO_INT32_MIN :: int where "MO_INT32_MIN = - MO_INT32_MAX - 1"
definition MO_INT64_MIN :: int where "MO_INT64_MIN = - MO_INT64_MAX - 1"
definition MO_UINT8_MAX :: int where "MO_UINT8_MAX = 0xFF"
definition MO_UINT16_MAX :: int where "MO_UINT16_MAX = 0xFFFF"
definition MO_UINT32_MAX :: int where "MO_UINT32_MAX = 0xFFFFFFFF"
definition MO_UINT64_MAX :: int where "MO_UINT64_MAX = 0xFFFFFFFFFFFFFFFF"
definition MO_INTN_MIN :: "bool \<Rightarrow> int" where "MO_INTN_MIN lp64 = (if lp64 then MO_INT64_MIN else MO_INT32_MIN)"
definition MO_INTN_MAX :: "bool \<Rightarrow> int" where "MO_INTN_MAX lp64 = (if lp64 then MO_INT64_MAX else MO_INT32_MAX)"
definition MO_UINTN_MAX :: "bool \<Rightarrow> int" where "MO_UINTN_MAX lp64 = (if lp64 then MO_UINT64_MAX else MO_UINT32_MAX)"
definition MO_FALSE :: int where "MO_FALSE = 0"
definition MO_TRUE :: int where "MO_TRUE = 1"
definition MO_CHAR_MIN :: int where "MO_CHAR_MIN = 0x00"
definition MO_CHAR_MAX :: int where "MO_CHAR_MAX = 0xFF"
definition MO_WIDE_CHAR_MIN :: int where "MO_WIDE_CHAR_MIN = 0x0000"
definition MO_WIDE_CHAR_MAX :: int where "MO_WIDE_CHAR_MAX = 0xFFFF"

lemmas limit_defs = MO_INT8_MAX_def MO_INT16_MAX_def MO_INT32_MAX_def MO_INT64_MAX_def MO_INT8_MIN_def MO_INT16_MIN_def
  MO_INT32_MIN_def MO_INT64_MIN_def MO_UINT8_MAX_def MO_UINT16_MAX_def MO_UINT32_MAX_def MO_UINT64_MAX_def
  MO_CHAR_MIN_def MO_CHAR_MAX_def MO_WIDE_CHAR_MIN_def MO_WIDE_CHAR_MAX_def

lemma range_sint: "range (sint :: 'a::len word \<Rightarrow> int) = {- (2 ^ (LENGTH('a) - 1))..2 ^ (LENGTH('a) - 1) - 1}"
proof (intro equalityI subsetI)
  fix v assume "v \<in> range (sint :: 'a word \<Rightarrow> int)"
  then show "v \<in> {- (2 ^ (LENGTH('a) - 1))..2 ^ (LENGTH('a) - 1) - 1}"
    using sint_ge sint_lt by fastforce
next
  fix v :: int assume "v \<in> {- (2 ^ (LENGTH('a) - 1))..2 ^ (LENGTH('a) - 1) - 1}"
  then have "sint (word_of_int v :: 'a word) = v"
    by (simp add: sint_sbintrunc' signed_take_bit_int_eq_self)
  then show "v \<in> range (sint :: 'a word \<Rightarrow> int)" by (metis rangeI)
qed

lemma range_uint: "range (uint :: 'a::len word \<Rightarrow> int) = {0..2 ^ LENGTH('a) - 1}"
proof (intro equalityI subsetI)
  fix v assume "v \<in> range (uint :: 'a word \<Rightarrow> int)"
  then obtain w :: "'a word" where "v = uint w" by auto
  then show "v \<in> {0..2 ^ LENGTH('a) - 1}" using uint_lt2p [of w] by simp
next
  fix v :: int assume "v \<in> {0..2 ^ LENGTH('a) - 1}"
  then have "uint (word_of_int v :: 'a word) = v" by (simp add: uint_word_of_int)
  then show "v \<in> range (uint :: 'a word \<Rightarrow> int)" by (metis rangeI)
qed

text \<open>Each pair of limits is the range of its type.\<close>

theorem limits_exact:
  "range (sint :: 8 word \<Rightarrow> int) = {MO_INT8_MIN..MO_INT8_MAX}" "range (sint :: 16 word \<Rightarrow> int) = {MO_INT16_MIN..MO_INT16_MAX}"
  "range (sint :: 32 word \<Rightarrow> int) = {MO_INT32_MIN..MO_INT32_MAX}" "range (sint :: 64 word \<Rightarrow> int) = {MO_INT64_MIN..MO_INT64_MAX}"
  "range (uint :: 8 word \<Rightarrow> int) = {0..MO_UINT8_MAX}" "range (uint :: 16 word \<Rightarrow> int) = {0..MO_UINT16_MAX}"
  "range (uint :: 32 word \<Rightarrow> int) = {0..MO_UINT32_MAX}" "range (uint :: 64 word \<Rightarrow> int) = {0..MO_UINT64_MAX}"
  "range (uint :: 16 word \<Rightarrow> int) = {MO_WIDE_CHAR_MIN..MO_WIDE_CHAR_MAX}"
  by (simp_all add: range_sint range_uint limit_defs)

text \<open>\<open>MO_CHAR\<close> is a plain \<open>char\<close>: its limits are those of an unsigned one, which it is on ARM only.\<close>

lemma char_limits:
  "range (uint :: 8 word \<Rightarrow> int) = {MO_CHAR_MIN..MO_CHAR_MAX}" "range (sint :: 8 word \<Rightarrow> int) \<noteq> {MO_CHAR_MIN..MO_CHAR_MAX}"
proof -
  show "range (uint :: 8 word \<Rightarrow> int) = {MO_CHAR_MIN..MO_CHAR_MAX}" by (simp add: range_uint limit_defs)
  have "(- 1 :: int) \<in> range (sint :: 8 word \<Rightarrow> int)" by (simp add: range_sint)
  moreover have "(- 1 :: int) \<notin> {MO_CHAR_MIN..MO_CHAR_MAX}" by (simp add: limit_defs)
  ultimately show "range (sint :: 8 word \<Rightarrow> int) \<noteq> {MO_CHAR_MIN..MO_CHAR_MAX}" by metis
qed

section \<open>Arithmetic\<close>

definition MO_MAX :: "'a::linorder \<Rightarrow> 'a \<Rightarrow> 'a" where "MO_MAX l r = (if l > r then l else r)"
definition MO_MIN :: "'a::linorder \<Rightarrow> 'a \<Rightarrow> 'a" where "MO_MIN l r = (if l < r then l else r)"

text \<open>\<open>MO_ABS\<close> of a signed integer, which wraps.\<close>

definition MO_ABS :: "'a::len word \<Rightarrow> 'a word" where "MO_ABS Value = (if Value <s 0 then - Value else Value)"

definition MO_ARRAY_SIZE :: "abi \<Rightarrow> cty \<Rightarrow> nat \<Rightarrow> nat" where
  "MO_ARRAY_SIZE A t n = csize A (Arr t n) div csize A t"

text \<open>The size of the array type that \<open>MO_C_STATIC_ASSERT\<close> declares; a negative one does not compile.\<close>

definition MO_C_STATIC_ASSERT :: "bool \<Rightarrow> int" where "MO_C_STATIC_ASSERT Expression = (if Expression then 1 else - 1)"

lemma max_min: "MO_MAX a b = max a b" "MO_MIN a b = min a b"
  by (auto simp: MO_MAX_def MO_MIN_def)

lemma array_size: "csize A t \<noteq> 0 \<Longrightarrow> MO_ARRAY_SIZE A t n = n"
  by (simp add: MO_ARRAY_SIZE_def)

section \<open>Variable arguments\<close>

text \<open>The targets of the Microsoft compiler that the macros distinguish.  The marker and all sizes are words of the width of a
  pointer; \<open>uintn\<close> is \<open>sizeof(MO_UINTN)\<close>.\<close>

datatype ms_target = MS_AMD64 | MS_ARM_NT | MS_ARM64 | MS_HYBRID_X86_ARM64 | MS_ARM64EC | MS_X86

text \<open>The branch of the macros, by the target macros that the compiler has defined.\<close>

definition ms_branch :: "string list \<Rightarrow> ms_target" where
  "ms_branch D =
     (if ''_M_AMD64'' \<in> set D then MS_AMD64
      else if ''_M_ARM_NT'' \<in> set D then MS_ARM_NT
      else if ''_M_ARM64'' \<in> set D then MS_ARM64
      else if ''_M_HYBRID_X86_ARM64'' \<in> set D then MS_HYBRID_X86_ARM64
      else if ''_M_ARM64EC'' \<in> set D then MS_ARM64EC
      else MS_X86)"

definition uintn :: "'a::len word" where "uintn = of_nat (LENGTH('a) div 8)"

definition MO_VARIABLE_ARGUMENT_ALIGNMENT_ADJUSTMENT :: "ms_target \<Rightarrow> 'a::len word \<Rightarrow> 'a word \<Rightarrow> 'a word" where
  "MO_VARIABLE_ARGUMENT_ALIGNMENT_ADJUSTMENT T Marker al =
     (case T of MS_AMD64 \<Rightarrow> 0 | MS_X86 \<Rightarrow> 0 | _ \<Rightarrow> (0 - Marker) AND (al - 1))"

text \<open>\<open>START\<close> in C, for the targets that have no \<open>__va_start\<close>: the marker is put behind the last named parameter.\<close>

definition MO_VARIABLE_ARGUMENT_START :: "'a::len word \<Rightarrow> 'a word \<Rightarrow> 'a word" where
  "MO_VARIABLE_ARGUMENT_START address sz = address + MO_GET_ALIGNED_SIZE sz uintn"

text \<open>\<open>READ\<close> of a type of a size and an alignment: the new marker, the address that is read, and whether there is a pointer to
  the argument instead of the argument.\<close>

type_synonym 'a va_read = "'a word \<times> 'a word \<times> bool"

abbreviation marker :: "'a::len va_read \<Rightarrow> 'a word" where "marker r \<equiv> fst r"
abbreviation va_address :: "'a::len va_read \<Rightarrow> 'a word" where "va_address r \<equiv> fst (snd r)"
abbreviation indirect :: "'a::len va_read \<Rightarrow> bool" where "indirect r \<equiv> snd (snd r)"

definition take_slot :: "'a::len word \<Rightarrow> 'a word \<Rightarrow> 'a word \<Rightarrow> bool \<Rightarrow> 'a va_read" where
  "take_slot Marker adjust step ind = (Marker + (step + adjust), Marker + (step + adjust) - step, ind)"

definition by_reference :: "'a::len word \<Rightarrow> bool" where
  "by_reference sz \<longleftrightarrow> sz > uintn \<or> sz AND (sz - 1) \<noteq> 0"

definition MO_VARIABLE_ARGUMENT_READ :: "ms_target \<Rightarrow> 'a::len word \<Rightarrow> 'a word \<Rightarrow> 'a word \<Rightarrow> 'a va_read" where
  "MO_VARIABLE_ARGUMENT_READ T Marker sz al =
     (let adjust = MO_VARIABLE_ARGUMENT_ALIGNMENT_ADJUSTMENT T Marker al
      in case T of
        MS_AMD64 \<Rightarrow> take_slot Marker 0 uintn (by_reference sz)
      | MS_ARM_NT \<Rightarrow> take_slot Marker adjust (MO_GET_ALIGNED_SIZE sz uintn) False
      | MS_ARM64 \<Rightarrow> if sz > 2 * 8 then take_slot Marker 0 8 True
                     else take_slot Marker adjust (MO_GET_ALIGNED_SIZE sz uintn) False
      | MS_HYBRID_X86_ARM64 \<Rightarrow> take_slot Marker 0 (MO_GET_ALIGNED_SIZE sz uintn) False
      | MS_ARM64EC \<Rightarrow> if by_reference sz then take_slot Marker 0 uintn True else take_slot Marker adjust uintn False
      | MS_X86 \<Rightarrow> take_slot Marker 0 (MO_GET_ALIGNED_SIZE sz uintn) False)"

text \<open>An unknown compiler gets the macros of x86; with GCC and Clang, \<open>READ\<close> is the compiler's own \<open>va_arg\<close>, of at least the
  size of a register.\<close>

definition gcc_read :: "('a::len word \<Rightarrow> 'v) \<Rightarrow> ('a word \<Rightarrow> 'v \<Rightarrow> 'v) \<Rightarrow> 'a word \<Rightarrow> 'v" where
  "gcc_read builtin_va_arg conv sz = conv sz (if sz < uintn then builtin_va_arg uintn else builtin_va_arg sz)"

definition MO_VARIABLE_ARGUMENT_END :: "'a::len word" where "MO_VARIABLE_ARGUMENT_END = 0"
definition MO_VARIABLE_ARGUMENT_COPY :: "'a::len word \<Rightarrow> 'a word" where "MO_VARIABLE_ARGUMENT_COPY Source = Source"

lemma take_bit_minus_cancels: "take_bit k (M + take_bit k (- M)) = (0 :: 'a::len word)"
proof -
  have i: "take_bit n (m + take_bit n (- m)) = 0" for n :: nat and m :: int
  proof -
    have "take_bit n (m + take_bit n (- m)) = take_bit n (m + - m)" by (simp add: take_bit_eq_mod mod_simps del: add.right_inverse)
    then show ?thesis by simp
  qed
  have "uint (take_bit k (M + take_bit k (- M))) = take_bit (min k LENGTH('a)) (uint M + take_bit (min k LENGTH('a)) (- uint M))"
    by (transfer fixing: k) (simp add: take_bit_eq_mod mod_simps min_def)
  then have "uint (take_bit k (M + take_bit k (- M))) = 0" by (simp only: i)
  then show ?thesis by (simp add: uint_0_iff)
qed

lemma adjustment_aligns:
  assumes "al = 2 ^ k"
  shows "(M + ((0 - M) AND (al - 1)) :: 'a::len word) AND (al - 1) = 0" "(0 - M) AND (al - 1) = take_bit k (- M)"
proof -
  have m: "al - 1 = mask k" using assms by (simp add: mask_eq_exp_minus_1)
  show t: "(0 - M) AND (al - 1) = take_bit k (- M)" by (simp add: m take_bit_eq_mask)
  have "take_bit k (M + take_bit k (- M)) = 0" by (rule take_bit_minus_cancels)
  then show "(M + ((0 - M) AND (al - 1))) AND (al - 1) = 0" unfolding t by (simp add: m take_bit_eq_mask)
qed

text \<open>ARM64EC also defines \<open>_M_AMD64\<close>, which the macros ask for first: its own branch is never taken.\<close>

lemma arm64ec_is_amd64: "ms_branch [''_M_ARM64EC'', ''_M_AMD64''] = MS_AMD64"
  by (simp add: ms_branch_def)

text \<open>The address of a read whose slot is \<open>adjust\<close> bytes away from the marker; on the targets that align arguments, it is
  aligned.\<close>

theorem read_aligned:
  assumes "al = 2 ^ k" "T \<in> {MS_ARM_NT, MS_ARM64, MS_ARM64EC}" "\<not> indirect (MO_VARIABLE_ARGUMENT_READ T M sz al)"
  shows "va_address (MO_VARIABLE_ARGUMENT_READ T M sz al) AND (al - 1) = 0"
  using assms adjustment_aligns(1) [OF assms(1), of M]
  by (auto simp: MO_VARIABLE_ARGUMENT_READ_def MO_VARIABLE_ARGUMENT_ALIGNMENT_ADJUSTMENT_def take_slot_def Let_def split: if_splits)

text \<open>The slot of a read begins at the marker or behind it and ends at the new marker; for what is stored in it, it is large enough.\<close>

theorem read_slot:
  fixes M :: "'a::len word"
  assumes "step = marker R - va_address R" "R = MO_VARIABLE_ARGUMENT_READ T M sz al"
  shows "step \<in> {uintn, 8, MO_GET_ALIGNED_SIZE sz uintn} \<and>
    va_address R - M \<in> {0, MO_VARIABLE_ARGUMENT_ALIGNMENT_ADJUSTMENT T M al}"
  using assms by (cases T) (auto simp: MO_VARIABLE_ARGUMENT_READ_def take_slot_def Let_def)

end
