(* ===== verification/Spec2Isabelle.thy ===== *)
theory Spec2Isabelle
  imports Client_Session Tlfs_Properties Hv_Trace Posix_Helpers Portable_Types
begin

text \<open>
  \<^bold>\<open>HvGin: a verification of the Hyper-V guest infrastructure.\<close>

  \<^bold>\<open>The program.\<close>  HvGin lets a Linux guest of Hyper-V offer its remote desktop server to the host through a
  VMBus channel instead of a network.  It has three parts that run one on top of the other.
  \<^item> Two kernel modules (\<open>src/uio_hv_generic\<close>): the user-space I/O core \<open>uio.c\<close>, which gives each device a
    character device \<open>/dev/uioN\<close> and a directory of attributes in sysfs, and the driver \<open>uio_hv_generic.c\<close>, which
    registers every VMBus channel it is bound to as such a device, with the ring buffers of the channel as
    memory that a process may map.  \<open>hyperv_vmbus.h\<close> is the private header of the VMBus core.
  \<^item> A native client (\<open>src/Native/HvGin\<close>): \<open>main.cpp\<close> mounts a Plan 9 share of the host and registers a device class
    with the driver, on top of headers that declare the wire formats of Hyper-V (\<open>Mile.HyperV\<close>).
  \<^item> A managed client (\<open>src/HvGin\<close>): it registers the remote desktop device class, finds the device in
    sysfs, opens and maps it, speaks the ring-buffer protocol with the host and forwards the pipe packets to
    and from a TCP connection to the desktop server.

  \<^bold>\<open>The kernel side.\<close>  Theory \<open>Kernel\<close> is the boundary.  Each call the sources make into the rest of the kernel is
  a value of \<open>kcall\<close>; its result comes from an environment \<open>E\<close>, any function of the calls made before, so that every
  allocation may fail and every call may return each of its error numbers.  The log of the calls is also a
  ledger: \<open>bal l r\<close> is the number of references to the resource \<open>r\<close> (memory, kobject, device, module, interrupt,
  minor number, lock, ring, VMBus buffer) that the calls in the log \<open>l\<close> took and did not return.  \<open>kernel_ok E\<close> is what the code relies on:
  an allocation returns memory that is not allocated, \<open>idr_alloc\<close> returns a minor number in its range that is not
  in use.
  \<^item> \<open>Uio_Types\<close>: the structures of the core as records and the store \<open>world\<close> (devices, listeners, \<open>uio_info\<close>s and
    kobjects by address, the table of minor numbers, the private data of the drivers, the log).  A dereference of
    memory that is not there makes an operation return \<open>None\<close>.
  \<^item> \<open>Uio_Sysfs\<close>, \<open>Uio_Attr\<close>: the \<open>show\<close> functions and the creation and removal of the \<open>mapN\<close> and \<open>portN\<close> directories,
    with the four error labels and their falling-through loops.  The two loops of the code satisfy one
    contract, the locale \<open>kobj_loop\<close>.
  \<^item> \<open>Uio_Device\<close>: minor numbers, notification, the interrupt handlers, registration with its error labels, managed
    registration, unregistration, load and unload of the module.  \<open>Uio_Maps\<close>: the \<open>uio_map\<close> objects that a registration
    leaves behind belong to the entries they are to show, and a registration in a kernel that grants
    everything succeeds.
  \<^item> \<open>Uio_File\<close>: \<open>open\<close>, \<open>release\<close>, \<open>fasync\<close>, \<open>poll\<close>, \<open>read\<close>, \<open>write\<close>.  A blocking read takes a schedule: what happens
    while it sleeps (an event, a wake-up without one, a signal); \<open>None\<close> in the result is a reader that is still asleep
    when the schedule ends.  The locale \<open>uio_driver\<close> is the contract between the core and the open and release
    callbacks of a driver; \<open>Hv_Uio\<close> interprets it.
  \<^item> \<open>Uio_Mmap\<close>: \<open>mmap\<close> for each type of memory and the page-fault handler, on 64-bit words that wrap.
  \<^item> \<open>Uio_System\<close>: the core as a step relation.  Between \<open>uio_init\<close> and any moment, drivers register, unregister and make calls
    of their own, processes open, close, read, poll, write and map, and interrupts arrive, in every order.  \<open>quiet_info\<close> is what the core asks
    of a driver (its callbacks leave the core's locks, memory and minor numbers alone); \<open>sys_inv\<close> is the
    invariant.
  \<^item> \<open>Hyperv_Vmbus\<close>, \<open>Hyperv_Layout\<close>: the inline functions and the memory layouts of \<open>hyperv_vmbus.h\<close>.  \<open>Hv_Uio\<close>: the driver, every callback,
    probe with its error labels, remove, subchannels, rescind.  \<open>Hv_System\<close>: each of its entry points is a run of the
    core.

  \<^bold>\<open>The headers.\<close>  \<open>CLayout\<close> computes the layout of C types for the System V ABI (\<open>sysv\<close>) and the Microsoft
  compiler (\<open>msvc\<close>), with packing, bit-fields and alignment attributes.  The headers of \<open>Mile.HyperV\<close> are translated declaration by
  declaration: structures and unions are values of \<open>cty\<close>, enumerations tables, macros words.
  \<^item> \<open>Portable_Types\<close>: \<open>Mile.Mobility.Portable.Types.h\<close>, the integer types, their limits and the macros, with those that walk over
    variable arguments.
  \<^item> \<open>Guid\<close>, \<open>Guest_Protocols\<close> and \<open>Hv_Devices\<close>: \<open>Mile.HyperV.Guest.Protocols.h\<close> and \<open>Mile.HyperV.VMBus.h\<close>, the messages of the
    VMBus and of its devices.
  \<^item> \<open>Guest_Interface\<close>: \<open>Mile.HyperV.Guest.Interface.h\<close>, the interface of the hypervisor to a guest, for both architectures:
    \<open>arch\<close> is the argument of a declaration that depends on the one the compiler defines.
  \<^item> \<open>Tlfs_Types\<close>, \<open>Tlfs_Symbols\<close>, \<open>Tlfs_Calls\<close>: \<open>Mile.HyperV.TLFS.h\<close> in three parts, with a lemma for the size and
    alignment of every type (\<open>tlfs_layout\<close>).  \<open>Tlfs_Properties\<close> says what these declarations have to satisfy.
  \<^item> \<open>Hv_Trace\<close>: \<open>hv_trace.h\<close>, for every trace event the entry, the assignments that fill it in and the line it prints.
    The messages of the VMBus core are arguments.

  \<^bold>\<open>The native client.\<close>  \<open>Native_HvGin\<close> is \<open>main.cpp\<close>, with the C library as an environment, \<open>C_Text\<close> the \<open>printf\<close> formats that
  the kernel and the clients use, \<open>Posix_Helpers\<close> the helpers of \<open>Mile.Posix.Helpers\<close>: number conversions, formatting (\<open>vsnprintf\<close> is
  a parameter) and the scope guard.

  \<^bold>\<open>The managed client.\<close>  \<open>Client_Wire\<close> has its structures, with the exceptions that the .NET library raises on bad
  arguments.  \<open>Client_Ring\<close> has \<open>UioHvDevice.cs\<close> on the bytes of the mapped memory: C# \<open>int\<close>s wrap at 32 bits,
  the accessors check their bounds as the library does.  \<open>Client_Channel\<close> is the channel that results: \<open>packet_sender\<close>,
  \<open>packet_receiver\<close> and \<open>packet_channel\<close> are its contracts, interpreted on \<open>PushPipePacket\<close> and \<open>PopPipePacket\<close>.
  \<open>Client_Device\<close> has \<open>UioHv.cs\<close> and \<open>SynthRdp.cs\<close>: the search in sysfs, on a file system that is a parameter, the wait for the data channel, the forwarding in both
  directions.  \<open>Client_Session\<close> is a connection: a step relation of the two forwarding threads, the thread that watches them
  and the host.  Loops that need not end are \<open>partial_function\<close>s: \<open>None\<close> is a loop that does not return.

  \<^bold>\<open>What is proved.\<close>
  \<^item> \<^emph>\<open>Memory and references of the core\<close> (\<open>Uio_System\<close>): in every reachable state no operation touches memory that
    is freed, no lock is held, the reference count of a device is the number of its open files plus one while it
    is registered, and a system in which everything is closed and unregistered holds nothing.
  \<^item> \<^emph>\<open>Error paths\<close>: a registration, an attribute creation or a probe that fails returns all it took, in every
    environment; registration and unregistration, probe and remove, load and unload cancel out.
  \<^item> \<^emph>\<open>Files\<close>: a reader that sleeps wakes after an event; \<open>poll\<close> and a non-blocking \<open>read\<close> agree; the
    event counter wraps at 32 bits; all operations on a file of a removed device fail
    without touching it.
  \<^item> \<^emph>\<open>Mapping\<close>: no \<open>mmap\<close> and no page fault reaches outside the region, whatever offset and size the process chooses.
  \<^item> \<^emph>\<open>The driver\<close>: the ring is connected while a file is open, channel interrupts reach the listeners, rescinding a
    channel ends the reads, writes set the interrupt mask, a subchannel is set up completely or not at all.
  \<^item> \<^emph>\<open>The rings\<close>: \<open>PushPipePacket\<close> appends the bytes of one packet to the outgoing queue and \<open>PopPipePacket\<close> takes one from
    the incoming queue, with wrap-around at any position; so packets arrive in the order they were sent.  Whatever bytes the host leaves in the ring, a pop reads inside
    the mapped memory or throws.  In a connection, whatever the order of the two threads and the host, no byte is lost, repeated or
    reordered, unless the socket takes a part of a \<open>Send\<close> or a packet fills the ring completely; the two threads' operations commute.
  \<^item> \<^emph>\<open>The composition\<close>: from the sysfs files that the core shows for a device the driver has probed, the client
    finds the memory map of that device and opens its two rings with the sizes the driver gave them.
  \<^item> \<^emph>\<open>The wire formats\<close>: members of a structure are disjoint and inside it, what is written is read back; which
    structures are laid out in the same way by both compilers, and which are not; the client's structures are
    those of the header, the monitor page and the message input of the kernel those of the hypervisor.
  \<^item> \<^emph>\<open>The hypervisor interface\<close>: which unions are not the integer they are read as, which message payload does not fit
    into a message; the inputs and outputs of hypercalls fit into a page; what is written into a hypercall
    input is read back; the tests for trace groups accept exactly the groups.
  \<^item> \<^emph>\<open>Text\<close>: two trace entries that print the same line are the same entry; the conversions read what the formats print.

  \<^bold>\<open>Hypotheses.\<close>  \<open>kernel_ok\<close> (above); \<open>store_ok\<close>, that the store and the ledger agree at the start; \<open>quiet_info\<close>, which \<open>Hv_System\<close> proves
  of the VMBus driver; \<open>sysfs_shows\<close>, that a file system holds what the \<open>show\<close> functions print.  Each is
  satisfied in the witness of the theorems that use it.

  \<^bold>\<open>Not modelled.\<close>  The structures of \<open>hyperv_vmbus.h\<close> that only hold pointers of the VMBus core, which is not part of
  the repository, and its prototypes.  The pointer typedefs and the annotations of \<open>Mile.Mobility\<close>.  The managed client's \<open>Start\<close> and \<open>Stop\<close>, its console output and the set-up of the TCP connection; a
  round of a forwarding thread is one step.  Memory ordering: the host changes a ring only between two operations of the client.  Locks of the
  core are taken and released in the model, and each operation is one step of the system.
\<close>

end
